(* ===== verification/Prelude.thy ===== *)
theory Prelude
  imports Complex_Main "HOL-Library.Char_ord" "HOL-Library.List_Lexorder" "HOL-Library.Sublist"
begin

text \<open>
  Shared vocabulary of the development: how a JavaScript number is printed, the pieces of
  \<open>String\<close> and \<open>Object\<close> that the packages use, results that may be an exception, the
  state-and-exception monad of the asynchronous methods, and the generic lemmas the component
  theories share.

  Conventions.  A JavaScript string is a HOL \<open>string\<close>; a number that the code uses as an
  integer (ids, versions, byte sizes) is an \<open>int\<close> (all of them stay below \<open>2 ^ 53\<close>, where
  double arithmetic is exact); a fallible call returns \<open>'e + 'a\<close> with \<open>Inl\<close> for the thrown
  value; an \<open>await\<close> is an ordinary call in sequence.
\<close>

named_theorems js_simps \<open>evaluation rules of the JavaScript vocabulary\<close>

subsection \<open>Numbers as strings\<close>

definition digit_char :: "nat \<Rightarrow> char" where
  "digit_char d = char_of (48 + d)"

definition char_digit :: "char \<Rightarrow> nat" where
  "char_digit c = of_char c - 48"

fun show_nat :: "nat \<Rightarrow> string" where
  "show_nat n = (if n < 10 then [digit_char n] else show_nat (n div 10) @ [digit_char (n mod 10)])"

declare show_nat.simps [simp del]

definition read_nat :: "string \<Rightarrow> nat" where
  "read_nat s = foldl (\<lambda>acc c. acc * 10 + char_digit c) 0 s"

definition show_int :: "int \<Rightarrow> string" where
  "show_int i = (if i < 0 then CHR ''-'' # show_nat (nat (- i)) else show_nat (nat i))"

text \<open>A number that may be a fraction: its decimals, which are few for the sizes people ask for.\<close>

definition is_int :: "rat \<Rightarrow> bool" where
  "is_int r \<longleftrightarrow> r = of_int \<lfloor>r\<rfloor>"

fun decimals :: "nat \<Rightarrow> rat \<Rightarrow> string" where
  "decimals 0 r = []"
| "decimals (Suc n) r = (if r = 0 then []
     else let d = \<lfloor>10 * r\<rfloor> in digit_char (nat d) # decimals n (10 * r - of_int d))"

definition show_number :: "rat \<Rightarrow> string" where
  "show_number r = (if is_int r then show_int \<lfloor>r\<rfloor>
     else (if r < 0 then ''-'' else []) @ show_int \<lfloor>\<bar>r\<bar>\<rfloor> @ ''.'' @ decimals 16 (\<bar>r\<bar> - of_int \<lfloor>\<bar>r\<bar>\<rfloor>))"

lemma is_int_values [simp]: "is_int (of_int i)" "is_int 0" "is_int 1" "is_int (numeral n)"
  by (simp_all add: is_int_def)

lemma is_int_closed [simp]: "is_int a \<Longrightarrow> is_int b \<Longrightarrow> is_int (a + b)" "is_int a \<Longrightarrow> is_int b \<Longrightarrow> is_int (a * b)"
  "is_int a \<Longrightarrow> is_int (a ^ n)"
  unfolding is_int_def by (metis floor_of_int of_int_add, metis floor_of_int of_int_mult, metis floor_of_int of_int_power)

lemma show_number_int [simp]: "show_number (of_int i) = show_int i"
  "show_number 0 = show_int 0" "show_number 1 = show_int 1" "show_number (numeral n) = show_int (numeral n)"
  by (simp_all add: show_number_def)

definition show_bool :: "bool \<Rightarrow> string" where
  "show_bool b = (if b then ''true'' else ''false'')"

lemma char_digit_digit_char [simp]: "d < 10 \<Longrightarrow> char_digit (digit_char d) = d"
  by (simp add: char_digit_def digit_char_def)

definition is_digit :: "char \<Rightarrow> bool" where
  "is_digit c \<longleftrightarrow> 48 \<le> (of_char c :: nat) \<and> (of_char c :: nat) \<le> 57"

lemma digit_char_is_digit: "d < 10 \<Longrightarrow> is_digit (digit_char d)"
  by (simp add: is_digit_def digit_char_def)

lemma show_nat_digits: "list_all is_digit (show_nat n)"
proof (induction n rule: show_nat.induct)
  case (1 n)
  show ?case
  proof (cases "n < 10")
    case True
    then show ?thesis using digit_char_is_digit [of n] by (subst show_nat.simps) simp
  next
    case False
    then have "list_all is_digit (show_nat (n div 10))" by (rule 1)
    moreover have "is_digit (digit_char (n mod 10))" by (rule digit_char_is_digit) simp
    ultimately show ?thesis using False by (subst show_nat.simps) simp
  qed
qed

lemma show_nat_nonempty [simp]: "show_nat n \<noteq> []"
  by (subst show_nat.simps) simp

lemma read_nat_append: "read_nat (s @ [c]) = read_nat s * 10 + char_digit c"
  by (simp add: read_nat_def)

lemma read_show_nat [simp]: "read_nat (show_nat n) = n"
proof (induction n rule: show_nat.induct)
  case (1 n)
  show ?case
  proof (cases "n < 10")
    case True
    then show ?thesis by (subst show_nat.simps) (simp add: read_nat_def)
  next
    case False
    with 1 have "read_nat (show_nat (n div 10)) = n div 10" by simp
    with False show ?thesis by (subst show_nat.simps) (simp add: read_nat_append)
  qed
qed

lemma show_nat_inj [simp]: "show_nat m = show_nat n \<longleftrightarrow> m = n"
  by (metis read_show_nat)

lemma show_nat_no_minus: "CHR ''-'' \<notin> set (show_nat n)"
  using show_nat_digits [of n] by (auto simp: list_all_iff is_digit_def)

lemma show_int_inj [simp]: "show_int i = show_int j \<longleftrightarrow> i = j"
proof
  assume eq: "show_int i = show_int j"
  have neq: "CHR ''-'' # s \<noteq> show_nat n" for s n
    using show_nat_no_minus [of n] by (metis list.set_intros(1))
  have "show_nat n \<noteq> CHR ''-'' # s" for s n
    using neq by metis
  with eq neq show "i = j"
    by (auto simp: show_int_def split: if_splits)
qed simp

lemma show_int_nonempty [simp]: "show_int i \<noteq> []"
  by (simp add: show_int_def)

subsection \<open>Strings\<close>

text \<open>The apostrophe and the line break, which a HOL string literal cannot hold.\<close>

abbreviation apos :: char where "apos \<equiv> CHR 0x27"

abbreviation newline :: char where "newline \<equiv> CHR 0x0A"

text \<open>\<open>s.split(c)\<close> for a separator of one character, and \<open>s.split("/")[0]\<close>.\<close>

fun split_on :: "char \<Rightarrow> string \<Rightarrow> string list" where
  "split_on c [] = [[]]"
| "split_on c (x # xs) =
     (if x = c then [] # split_on c xs
      else case split_on c xs of [] \<Rightarrow> [[x]] | p # ps \<Rightarrow> (x # p) # ps)"

definition before_char :: "char \<Rightarrow> string \<Rightarrow> string" where
  "before_char c s = takeWhile (\<lambda>x. x \<noteq> c) s"

lemma split_on_nonempty [simp]: "split_on c s \<noteq> []"
  by (induction s) (auto split: list.splits)

lemma hd_split_on: "hd (split_on c s) = before_char c s"
  by (induction s) (auto simp: before_char_def split: list.splits)

lemma split_on_no_sep: "c \<notin> set s \<Longrightarrow> split_on c s = [s]"
  by (induction s) auto

lemma split_on_sep: "c \<notin> set s \<Longrightarrow> split_on c (s @ c # t) = s # split_on c t"
  by (induction s) auto

lemma before_char_notin: "c \<notin> set (before_char c s)"
  by (auto simp: before_char_def dest: set_takeWhileD)

lemma before_char_id: "c \<notin> set s \<Longrightarrow> before_char c s = s"
  by (simp add: before_char_def takeWhile_eq_all_conv) blast

lemma before_char_append [simp]: "c \<notin> set s \<Longrightarrow> before_char c (s @ c # t) = s"
  by (induction s) (auto simp: before_char_def)

definition join_with :: "string \<Rightarrow> string list \<Rightarrow> string" where
  "join_with sep ss = (case ss of [] \<Rightarrow> [] | x # xs \<Rightarrow> x @ concat (map (\<lambda>y. sep @ y) xs))"

lemma split_on_join:
  "ss \<noteq> [] \<Longrightarrow> \<forall>s \<in> set ss. c \<notin> set s \<Longrightarrow> split_on c (join_with [c] ss) = ss"
proof (induction ss rule: induct_list012)
  case (3 x y zs)
  then have "split_on c (join_with [c] (y # zs)) = y # zs" by simp
  moreover have "join_with [c] (x # y # zs) = x @ c # join_with [c] (y # zs)"
    by (simp add: join_with_def)
  ultimately show ?case using 3 by (simp add: split_on_sep)
qed (simp_all add: join_with_def split_on_no_sep)

definition to_lower_char :: "char \<Rightarrow> char" where
  "to_lower_char c =
     (if 65 \<le> (of_char c :: nat) \<and> (of_char c :: nat) \<le> 90 then char_of ((of_char c :: nat) + 32) else c)"

definition to_lower :: "string \<Rightarrow> string" where
  "to_lower s = map to_lower_char s"

definition is_hex_digit :: "char \<Rightarrow> bool" where
  "is_hex_digit c \<longleftrightarrow> is_digit c
     \<or> (65 \<le> (of_char c :: nat) \<and> (of_char c :: nat) \<le> 70)
     \<or> (97 \<le> (of_char c :: nat) \<and> (of_char c :: nat) \<le> 102)"

definition is_alpha :: "char \<Rightarrow> bool" where
  "is_alpha c \<longleftrightarrow> (65 \<le> (of_char c :: nat) \<and> (of_char c :: nat) \<le> 90)
     \<or> (97 \<le> (of_char c :: nat) \<and> (of_char c :: nat) \<le> 122)"

subsection \<open>Plain objects\<close>

text \<open>
  A plain object with string keys is an association list in insertion order.  \<open>Object.keys\<close>
  lists the keys that are array indices (canonical decimals below \<open>2 ^ 32 - 1\<close>) in ascending
  numeric order, then the others in insertion order.
\<close>

type_synonym 'v js_object = "(string \<times> 'v) list"

fun obj_set :: "'k \<Rightarrow> 'v \<Rightarrow> ('k \<times> 'v) list \<Rightarrow> ('k \<times> 'v) list" where
  "obj_set k v [] = [(k, v)]"
| "obj_set k v ((k', v') # o') = (if k' = k then (k, v) # o' else (k', v') # obj_set k v o')"

definition array_index :: "string \<Rightarrow> bool" where
  "array_index s \<longleftrightarrow> list_all is_digit s \<and> s = show_nat (read_nat s) \<and> read_nat s < 4294967295"

definition obj_keys :: "'v js_object \<Rightarrow> string list" where
  "obj_keys ob = sort_key read_nat (filter array_index (map fst ob))
              @ filter (\<lambda>k. \<not> array_index k) (map fst ob)"

text \<open>The fields of an object in the order of its keys, as \<open>JSON.stringify\<close> and \<open>Object.entries\<close> give them.\<close>

definition in_key_order :: "'v js_object \<Rightarrow> 'v js_object" where
  "in_key_order ob = map (\<lambda>k. (k, the (map_of ob k))) (obj_keys ob)"

lemma map_of_obj_set [simp]: "map_of (obj_set k v ob) = (map_of ob)(k \<mapsto> v)"
  by (induction k v ob rule: obj_set.induct) (auto simp: fun_eq_iff)

lemma fst_set_obj_set [simp]: "fst ` set (obj_set k v ob) = insert k (fst ` set ob)"
  by (induction k v ob rule: obj_set.induct) auto

lemma set_obj_set: "set (obj_set k v ob) \<subseteq> insert (k, v) (set ob)"
  by (induction k v ob rule: obj_set.induct) auto

lemma distinct_obj_set [simp]: "distinct (map fst ob) \<Longrightarrow> distinct (map fst (obj_set k v ob))"
proof (induction k v ob rule: obj_set.induct)
  case (2 k v k' v' ob)
  have "fst ` set (obj_set k v ob) = insert k (fst ` set ob)" by simp
  with 2 show ?case by (auto simp: image_iff)
qed simp

lemma set_obj_keys [simp]: "set (obj_keys ob) = fst ` set ob"
  by (auto simp: obj_keys_def)

lemma distinct_obj_keys: "distinct (map fst ob) \<Longrightarrow> distinct (obj_keys ob)"
  by (auto simp: obj_keys_def)

lemma map_of_in_key_order [simp]: "map_of (in_key_order ob) = map_of ob"
proof
  fix k
  show "map_of (in_key_order ob) k = map_of ob k"
  proof (cases "map_of ob k")
    case None
    then have "k \<notin> fst ` set ob" by (simp add: map_of_eq_None_iff)
    with None show ?thesis by (simp add: in_key_order_def map_of_map_restrict)
  next
    case (Some v)
    then have "k \<in> fst ` set ob" by (auto dest!: map_of_SomeD intro: rev_image_eqI)
    with Some show ?thesis by (simp add: in_key_order_def map_of_map_restrict)
  qed
qed

lemma map_fst_in_key_order [simp]: "map fst (in_key_order ob) = obj_keys ob"
  by (simp add: in_key_order_def o_def)

lemma obj_keys_plain:
  assumes "list_all (\<lambda>k. \<not> array_index k) (map fst ob)"
  shows "obj_keys ob = map fst ob"
proof -
  have "filter array_index (map fst ob) = []" "filter (\<lambda>k. \<not> array_index k) (map fst ob) = map fst ob"
    using assms by (auto simp: list_all_iff filter_empty_conv intro!: filter_True)
  then show ?thesis by (simp add: obj_keys_def)
qed

subsection \<open>Sets built from arrays\<close>

text \<open>\<open>Array.from(new Set(xs))\<close>: the first occurrence of each element, in order.\<close>

fun js_dedup_from :: "'a list \<Rightarrow> 'a list \<Rightarrow> 'a list" where
  "js_dedup_from seen [] = []"
| "js_dedup_from seen (x # xs) =
     (if x \<in> set seen then js_dedup_from seen xs else x # js_dedup_from (x # seen) xs)"

definition js_dedup :: "'a list \<Rightarrow> 'a list" where
  "js_dedup xs = js_dedup_from [] xs"

lemma set_js_dedup_from: "set (js_dedup_from seen xs) = set xs - set seen"
  by (induction seen xs rule: js_dedup_from.induct) auto

lemma set_js_dedup [simp]: "set (js_dedup xs) = set xs"
  by (simp add: js_dedup_def set_js_dedup_from)

lemma distinct_js_dedup_from: "distinct (js_dedup_from seen xs)"
  by (induction seen xs rule: js_dedup_from.induct) (auto simp: set_js_dedup_from)

lemma distinct_js_dedup [simp]: "distinct (js_dedup xs)"
  by (simp add: js_dedup_def distinct_js_dedup_from)

text \<open>Adding to a reserved list only what is not there yet, in order.\<close>

definition add_new :: "'a \<Rightarrow> 'a list \<Rightarrow> 'a list" where
  "add_new x xs = (if x \<in> set xs then xs else xs @ [x])"

definition add_all_new :: "'a list \<Rightarrow> 'a list \<Rightarrow> 'a list" where
  "add_all_new ys xs = foldl (\<lambda>acc y. add_new y acc) xs ys"

lemma set_add_new [simp]: "set (add_new x xs) = insert x (set xs)"
  by (auto simp: add_new_def)

lemma distinct_add_new [simp]: "distinct xs \<Longrightarrow> distinct (add_new x xs)"
  by (auto simp: add_new_def)

lemma set_add_all_new [simp]: "set (add_all_new ys xs) = set ys \<union> set xs"
  by (induction ys arbitrary: xs) (auto simp: add_all_new_def)

lemma distinct_add_all_new [simp]: "distinct xs \<Longrightarrow> distinct (add_all_new ys xs)"
  by (induction ys arbitrary: xs) (auto simp: add_all_new_def)

lemma add_all_new_subset: "set ys \<subseteq> set xs \<Longrightarrow> add_all_new ys xs = xs"
  by (induction ys arbitrary: xs) (auto simp: add_all_new_def add_new_def)

lemma add_all_new_prefix: "prefix xs (add_all_new ys xs)"
proof (induction ys arbitrary: xs)
  case (Cons y ys)
  have "prefix xs (add_new y xs)" by (simp add: add_new_def)
  also have "prefix (add_new y xs) (add_all_new ys (add_new y xs))" by (rule Cons)
  finally show ?case by (simp add: add_all_new_def)
qed (simp add: add_all_new_def)

subsection \<open>Results and effects\<close>

text \<open>Sequencing of results that may be a thrown value.\<close>

definition bindR :: "'e + 'a \<Rightarrow> ('a \<Rightarrow> 'e + 'b) \<Rightarrow> 'e + 'b" where
  "bindR r f = (case r of Inl e \<Rightarrow> Inl e | Inr x \<Rightarrow> f x)"

lemma bindR_simps [simp, js_simps]: "bindR (Inl e) f = Inl e" "bindR (Inr x) f = f x"
  by (simp_all add: bindR_def)

lemma bindR_Inr: "bindR r f = Inr y \<longleftrightarrow> (\<exists>x. r = Inr x \<and> f x = Inr y)"
  by (cases r) auto

lemma bindR_Inr_right [simp]: "bindR r Inr = r"
  by (cases r) simp_all

text \<open>Loops that stop at the first error: over a list with a result so far, and collecting a result for each element.\<close>

fun foldR :: "('x \<Rightarrow> 'y \<Rightarrow> 'e + 'y) \<Rightarrow> 'x list \<Rightarrow> 'y \<Rightarrow> 'e + 'y" where
  "foldR f [] y = Inr y"
| "foldR f (x # xs) y = bindR (f x y) (foldR f xs)"

fun mapR :: "('x \<Rightarrow> 'e + 'y) \<Rightarrow> 'x list \<Rightarrow> 'e + 'y list" where
  "mapR f [] = Inr []"
| "mapR f (x # xs) = bindR (f x) (\<lambda>y. bindR (mapR f xs) (\<lambda>ys. Inr (y # ys)))"

lemma list_all2_in_set: "list_all2 P xs ys \<Longrightarrow> x \<in> set xs \<Longrightarrow> \<exists>y \<in> set ys. P x y"
  by (induction rule: list_all2_induct) auto

lemma mapR_Inr: "mapR f xs = Inr ys \<Longrightarrow> list_all2 (\<lambda>x y. f x = Inr y) xs ys"
  by (induction xs arbitrary: ys) (auto simp: bindR_Inr)

lemma foldR_invariant:
  assumes "foldR f xs acc = Inr r" and "I acc"
    and "\<And>x a b. x \<in> set xs \<Longrightarrow> I a \<Longrightarrow> f x a = Inr b \<Longrightarrow> I b"
  shows "I r"
  using assms
proof (induction xs arbitrary: acc)
  case (Cons x xs)
  then obtain b where b: "f x acc = Inr b" "foldR f xs b = Inr r" by (auto simp: bindR_Inr)
  have "I b" using Cons.prems(3) [of x acc b] Cons.prems(2) b(1) by simp
  with Cons.IH [OF b(2)] Cons.prems(3) show ?case by (meson list.set_intros(2))
qed simp

lemma mapR_all: "\<forall>x \<in> set xs. f x = Inr (g x) \<Longrightarrow> mapR f xs = Inr (map g xs)"
  by (induction xs) simp_all

lemma foldR_collect: "foldR (\<lambda>x acc. bindR (f x) (\<lambda>y. Inr (acc @ [y]))) xs acc = bindR (mapR f xs) (\<lambda>ys. Inr (acc @ ys))"
proof (induction xs arbitrary: acc)
  case (Cons x xs)
  then show ?case by (cases "f x"; cases "mapR f xs") simp_all
qed simp

lemma foldR_sum:
  fixes acc :: "'b :: monoid_add"
  shows "foldR (\<lambda>c total. bindR (f c) (\<lambda>cost. Inr (total + cost))) cs acc = Inr b \<longleftrightarrow>
   (\<exists>ws. list_all2 (\<lambda>c w. f c = Inr w) cs ws \<and> b = acc + sum_list ws)"
proof (induction cs arbitrary: acc)
  case (Cons c cs)
  show ?case
    by (cases "f c") (auto simp: Cons list_all2_Cons1 add.assoc)
qed auto

text \<open>
  A method that reads and changes the object (or the outside world) and may throw: what was
  changed before the throw stays changed.
\<close>

type_synonym ('s, 'e, 'a) eff = "'s \<Rightarrow> ('e + 'a) \<times> 's"

definition retE :: "'a \<Rightarrow> ('s, 'e, 'a) eff" where
  "retE x = (\<lambda>s. (Inr x, s))"

definition throwE :: "'e \<Rightarrow> ('s, 'e, 'a) eff" where
  "throwE e = (\<lambda>s. (Inl e, s))"

definition bindE :: "('s, 'e, 'a) eff \<Rightarrow> ('a \<Rightarrow> ('s, 'e, 'b) eff) \<Rightarrow> ('s, 'e, 'b) eff" where
  "bindE m f = (\<lambda>s. case m s of (Inl e, s') \<Rightarrow> (Inl e, s') | (Inr x, s') \<Rightarrow> f x s')"

definition modifyE :: "('s \<Rightarrow> 's) \<Rightarrow> ('s, 'e, unit) eff" where
  "modifyE f = (\<lambda>s. (Inr (), f s))"

definition getE :: "('s \<Rightarrow> 'a) \<Rightarrow> ('s, 'e, 'a) eff" where
  "getE f = (\<lambda>s. (Inr (f s), s))"

definition liftE :: "'e + 'a \<Rightarrow> ('s, 'e, 'a) eff" where
  "liftE r = (\<lambda>s. (r, s))"

definition catchE :: "('s, 'e, 'a) eff \<Rightarrow> ('e \<Rightarrow> ('s, 'e, 'a) eff) \<Rightarrow> ('s, 'e, 'a) eff" where
  "catchE m h = (\<lambda>s. case m s of (Inl e, s') \<Rightarrow> h e s' | (Inr x, s') \<Rightarrow> (Inr x, s'))"

fun mapE :: "('a \<Rightarrow> ('s, 'e, 'b) eff) \<Rightarrow> 'a list \<Rightarrow> ('s, 'e, 'b list) eff" where
  "mapE f [] = retE []"
| "mapE f (x # xs) = bindE (f x) (\<lambda>y. bindE (mapE f xs) (\<lambda>ys. retE (y # ys)))"

fun iterE :: "('a \<Rightarrow> ('s, 'e, unit) eff) \<Rightarrow> 'a list \<Rightarrow> ('s, 'e, unit) eff" where
  "iterE f [] = retE ()"
| "iterE f (x # xs) = bindE (f x) (\<lambda>_. iterE f xs)"

fun foldE :: "('a \<Rightarrow> 'b \<Rightarrow> ('s, 'e, 'b) eff) \<Rightarrow> 'a list \<Rightarrow> 'b \<Rightarrow> ('s, 'e, 'b) eff" where
  "foldE f [] acc = retE acc"
| "foldE f (x # xs) acc = bindE (f x acc) (foldE f xs)"

lemmas eff_defs = retE_def throwE_def bindE_def modifyE_def getE_def liftE_def catchE_def

lemma bindE_app: "bindE m f s = (case m s of (Inl e, s') \<Rightarrow> (Inl e, s') | (Inr x, s') \<Rightarrow> f x s')"
  by (simp add: bindE_def)

lemma retE_app [simp]: "retE x s = (Inr x, s)" by (simp add: retE_def)
lemma throwE_app [simp]: "throwE e s = (Inl e, s)" by (simp add: throwE_def)
lemma modifyE_app [simp]: "modifyE f s = (Inr (), f s)" by (simp add: modifyE_def)
lemma getE_app [simp]: "getE f s = (Inr (f s), s)" by (simp add: getE_def)
lemma liftE_app [simp]: "liftE r s = (r, s)" by (simp add: liftE_def)

lemma bindE_Inr_iff:
  "bindE m f s = (Inr y, t) \<longleftrightarrow> (\<exists>x s'. m s = (Inr x, s') \<and> f x s' = (Inr y, t))"
  by (auto simp: bindE_def split: prod.splits sum.splits)

lemma bindE_InrE:
  assumes "bindE m f s = (Inr y, t)"
  obtains x u where "m s = (Inr x, u)" "f x u = (Inr y, t)"
  using assms by (auto simp: bindE_Inr_iff)

lemma bindR_InrE:
  assumes "bindR r f = Inr y"
  obtains x where "r = Inr x" "f x = Inr y"
  using assms by (auto simp: bindR_Inr)

lemma bindE_assoc: "bindE (bindE m f) g = bindE m (\<lambda>x. bindE (f x) g)"
  by (rule ext) (auto simp: bindE_def split: prod.splits sum.splits)

lemma bindE_retE [simp]: "bindE (retE x) f = f x"
  by (rule ext) (simp add: bindE_def)

text \<open>An invariant of the state that a method keeps, whether it returns or throws.\<close>

definition preservesE :: "('s \<Rightarrow> bool) \<Rightarrow> ('s, 'e, 'a) eff \<Rightarrow> bool" where
  "preservesE I m \<longleftrightarrow> (\<forall>s. I s \<longrightarrow> I (snd (m s)))"

lemma preservesE_retE [simp, intro]: "preservesE I (retE x)"
  by (simp add: preservesE_def)

lemma preservesE_throwE [simp, intro]: "preservesE I (throwE e)"
  by (simp add: preservesE_def)

lemma preservesE_getE [simp, intro]: "preservesE I (getE f)"
  by (simp add: preservesE_def)

lemma preservesE_liftE [simp, intro]: "preservesE I (liftE r)"
  by (simp add: preservesE_def)

lemma preservesE_modifyE: "(\<And>s. I s \<Longrightarrow> I (f s)) \<Longrightarrow> preservesE I (modifyE f)"
  by (simp add: preservesE_def)

lemma preservesE_bindE [intro]:
  "preservesE I m \<Longrightarrow> (\<And>x. preservesE I (f x)) \<Longrightarrow> preservesE I (bindE m f)"
  by (fastforce simp: preservesE_def bindE_def split: prod.splits sum.splits)

lemma preservesE_catchE [intro]:
  "preservesE I m \<Longrightarrow> (\<And>e. preservesE I (h e)) \<Longrightarrow> preservesE I (catchE m h)"
  by (fastforce simp: preservesE_def catchE_def split: prod.splits sum.splits)

lemma preservesE_iterE [intro]: "(\<And>x. preservesE I (f x)) \<Longrightarrow> preservesE I (iterE f xs)"
  by (induction xs) auto

lemma preservesE_mapE [intro]: "(\<And>x. preservesE I (f x)) \<Longrightarrow> preservesE I (mapE f xs)"
  by (induction xs) auto

lemma preservesE_foldE [intro]:
  "(\<And>x a. preservesE I (f x a)) \<Longrightarrow> preservesE I (foldE f xs acc)"
  by (induction xs arbitrary: acc) auto

text \<open>What a method guarantees when it returns, from a state with \<open>P\<close>.\<close>

definition validE :: "('s \<Rightarrow> bool) \<Rightarrow> ('s, 'e, 'a) eff \<Rightarrow> ('a \<Rightarrow> 's \<Rightarrow> bool) \<Rightarrow> bool" where
  "validE P m Q \<longleftrightarrow> (\<forall>s x t. P s \<longrightarrow> m s = (Inr x, t) \<longrightarrow> Q x t)"

lemma validE_D: "validE P m Q \<Longrightarrow> P s \<Longrightarrow> m s = (Inr x, t) \<Longrightarrow> Q x t"
  by (simp add: validE_def)

lemma validE_bindE: "validE P m R \<Longrightarrow> (\<And>x. validE (R x) (f x) Q) \<Longrightarrow> validE P (bindE m f) Q"
  by (fastforce simp: validE_def bindE_Inr_iff)

lemma validE_retE: "(\<And>s. P s \<Longrightarrow> Q x s) \<Longrightarrow> validE P (retE x) Q"
  by (simp add: validE_def)

lemma validE_throwE: "validE P (throwE e) Q"
  by (simp add: validE_def)

lemma validE_modifyE: "(\<And>s. P s \<Longrightarrow> Q () (f s)) \<Longrightarrow> validE P (modifyE f) Q"
  by (simp add: validE_def)

lemma validE_getE: "(\<And>s. P s \<Longrightarrow> Q (f s) s) \<Longrightarrow> validE P (getE f) Q"
  by (simp add: validE_def)

lemma validE_liftE: "(\<And>s x. P s \<Longrightarrow> r = Inr x \<Longrightarrow> Q x s) \<Longrightarrow> validE P (liftE r) Q"
  by (simp add: validE_def)

lemma validE_iterE: "(\<And>x. x \<in> set xs \<Longrightarrow> validE P (f x) (\<lambda>_. P)) \<Longrightarrow> validE P (iterE f xs) (\<lambda>_. P)"
  by (induction xs) (auto intro!: validE_retE intro: validE_bindE)

lemma validE_weaken: "validE P m Q \<Longrightarrow> (\<And>s. P' s \<Longrightarrow> P s) \<Longrightarrow> (\<And>x s. Q x s \<Longrightarrow> Q' x s) \<Longrightarrow> validE P' m Q'"
  unfolding validE_def by blast

lemmas validE_basic = validE_retE validE_throwE validE_modifyE validE_getE validE_liftE

end
