(* ===== verification/Errors.thy ===== *)
theory Errors
  imports Prelude
begin

text \<open>
  The error values of the SDK: \<open>packages/types/src/errors\<close> (the \<open>BaseError\<close> hierarchy with
  its numeric codes and modules) and \<open>packages/tfchain_client/src/errors.ts\<close> (errors of the
  chain, which extend the plain \<open>Error\<close>, and the wrapper that classifies a failed extrinsic).
  The class of a thrown value is a constructor of \<open>error_class\<close>, which is what
  \<open>instanceof\<close> looks at; the fields are the record \<open>js_error\<close>.
\<close>

subsection \<open>Modules and codes\<close>

datatype ErrorModules = EM_Generic | EM_Farm | EM_Node | EM_Workloads | EM_Dao | EM_TFKVStore
  | EM_SmartContract | EM_TFGrid | EM_TFTBridge | EM_TFTPrice | EM_KYC

fun em_name :: "ErrorModules \<Rightarrow> string" where
  "em_name EM_Generic = ''Generic''"
| "em_name EM_Farm = ''tfGridFarm''"
| "em_name EM_Node = ''tfGridNode''"
| "em_name EM_Workloads = ''tfGridWorkloads''"
| "em_name EM_Dao = ''dao''"
| "em_name EM_TFKVStore = ''tfkvStore''"
| "em_name EM_SmartContract = ''smartContractModule''"
| "em_name EM_TFGrid = ''tfgridModule''"
| "em_name EM_TFTBridge = ''tfgridModule''"
| "em_name EM_TFTPrice = ''tftPriceModule''"
| "em_name EM_KYC = ''tfGridKyc''"

datatype Generic = G_TFChainError | G_GridClientError | G_ValidationError | G_TimeoutError
  | G_ConnectionError | G_RMBError | G_InvalidResponse | G_RequestError | G_TwinNotExistError
  | G_InsufficientBalanceError | G_DeploymentKeyDeletionError | G_KycError

fun generic_code :: "Generic \<Rightarrow> int" where
  "generic_code G_TFChainError = 0"
| "generic_code G_GridClientError = 1"
| "generic_code G_ValidationError = 2"
| "generic_code G_TimeoutError = 3"
| "generic_code G_ConnectionError = 4"
| "generic_code G_RMBError = 5"
| "generic_code G_InvalidResponse = 6"
| "generic_code G_RequestError = 7"
| "generic_code G_TwinNotExistError = 8"
| "generic_code G_InsufficientBalanceError = 9"
| "generic_code G_DeploymentKeyDeletionError = 10"
| "generic_code G_KycError = 11"

datatype farm_errors = F_InvalidResources | F_FarmerBot | F_NodeSelection

fun farm_code :: "farm_errors \<Rightarrow> int" where
  "farm_code F_InvalidResources = 0"
| "farm_code F_FarmerBot = 1"
| "farm_code F_NodeSelection = 2"

datatype node_errors = N_UnavailableNode | N_InvalidResources | N_DiskAllocation | N_AccessNode
  | N_GPUNotFound | N_GPULocked

fun node_code :: "node_errors \<Rightarrow> int" where
  "node_code N_UnavailableNode = 0"
| "node_code N_InvalidResources = 1"
| "node_code N_DiskAllocation = 2"
| "node_code N_AccessNode = 3"
| "node_code N_GPUNotFound = 4"
| "node_code N_GPULocked = 5"

datatype workload_errors = W_Delete | W_Deploy | W_Update | W_Create

fun workload_code :: "workload_errors \<Rightarrow> int" where
  "workload_code W_Delete = 0"
| "workload_code W_Deploy = 1"
| "workload_code W_Update = 2"
| "workload_code W_Create = 3"

datatype kyc_errors = K_Unverified | K_InvalidResponse | K_RateLimit | K_BadRequest
  | K_Unauthorized | K_AlreadyVerified

fun kyc_code :: "kyc_errors \<Rightarrow> int" where
  "kyc_code K_Unverified = 0"
| "kyc_code K_InvalidResponse = 1"
| "kyc_code K_RateLimit = 2"
| "kyc_code K_BadRequest = 3"
| "kyc_code K_Unauthorized = 4"
| "kyc_code K_AlreadyVerified = 5"

subsection \<open>Error values\<close>

text \<open>
  \<open>C_Generic\<close> \dots \<open>C_Kyc\<close> are the classes that extend \<open>BaseError\<close>; \<open>C_TFChainError\<close>,
  \<open>C_Error\<close> and \<open>C_TypeError\<close> extend only \<open>Error\<close>.  \<open>C_Diverges\<close> is no class of the code: it
  marks, as a result, a loop that never ends.
\<close>

datatype error_class = C_Generic Generic | C_Farm farm_errors | C_Node node_errors
  | C_Workload workload_errors | C_Kyc kyc_errors | C_TFChainError | C_Error | C_TypeError | C_Diverges

record chain_details =
  keyError :: string
  ch_section :: "string option"
  ch_method :: "string option"
  ch_args :: "string option"
  ch_docs :: "string list option"

record js_error =
  err_class :: error_class
  err_code :: "int option"
  err_message :: string
  err_module :: "ErrorModules option"
  err_status :: "int option"
  err_chain :: "chain_details option"

text \<open>\<open>BaseError\<close>'s constructor: its \<open>name\<close> argument is not stored.\<close>

definition BaseError :: "error_class \<Rightarrow> string \<Rightarrow> int \<Rightarrow> string \<Rightarrow> ErrorModules \<Rightarrow> js_error" where
  "BaseError cls name code message m =
     \<lparr>err_class = cls, err_code = Some code, err_message = message, err_module = Some m,
      err_status = None, err_chain = None\<rparr>"

definition generic_error :: "Generic \<Rightarrow> string \<Rightarrow> string \<Rightarrow> js_error" where
  "generic_error g name message = BaseError (C_Generic g) name (generic_code g) message EM_Generic"

definition ValidationError :: "string \<Rightarrow> js_error" where
  "ValidationError = generic_error G_ValidationError ''ValidationError''"

definition TimeoutError :: "string \<Rightarrow> js_error" where
  "TimeoutError = generic_error G_TimeoutError ''TimeoutError''"

definition ConnectionError :: "string \<Rightarrow> js_error" where
  "ConnectionError = generic_error G_ConnectionError ''ConnectionError''"

definition RMBError :: "string \<Rightarrow> js_error" where
  "RMBError = generic_error G_RMBError ''RMBError''"

definition InvalidResponse :: "string \<Rightarrow> js_error" where
  "InvalidResponse = generic_error G_InvalidResponse ''InvalidResponse''"

definition RequestError :: "string \<Rightarrow> int \<Rightarrow> js_error" where
  "RequestError message statusCode =
     (generic_error G_RequestError ''RequestError'' message)\<lparr>err_status := Some statusCode\<rparr>"

definition TwinNotExistError :: "string \<Rightarrow> js_error" where
  "TwinNotExistError = generic_error G_TwinNotExistError ''TwinNotExistError''"

definition InsufficientBalanceError :: "string \<Rightarrow> js_error" where
  "InsufficientBalanceError = generic_error G_InsufficientBalanceError ''InsufficientBalanceError''"

definition DeploymentKeyDeletionError :: "string \<Rightarrow> js_error" where
  "DeploymentKeyDeletionError =
     generic_error G_DeploymentKeyDeletionError ''DeploymentKeyDeletionError''"

definition KycBaseError :: "string \<Rightarrow> int \<Rightarrow> js_error" where
  "KycBaseError message statusCode =
     (generic_error G_KycError ''TFGridKYC'' message)\<lparr>err_status := Some statusCode\<rparr>"

definition GridClientError :: "string \<Rightarrow> js_error" where
  "GridClientError = generic_error G_GridClientError ''GridClientError''"

definition TFGridFarmsError :: "farm_errors \<Rightarrow> string \<Rightarrow> js_error" where
  "TFGridFarmsError f message = BaseError (C_Farm f) ''TFGridFarmsError'' (farm_code f) message EM_Farm"

definition TFGridNodesError :: "node_errors \<Rightarrow> string \<Rightarrow> js_error" where
  "TFGridNodesError n message = BaseError (C_Node n) ''TFGridNodesError'' (node_code n) message EM_Node"

definition TFGridWorkloadError :: "workload_errors \<Rightarrow> string \<Rightarrow> js_error" where
  "TFGridWorkloadError w message =
     BaseError (C_Workload w) ''TFGridWorkloadError'' (workload_code w) message EM_Workloads"

definition TFGridKycError :: "kyc_errors \<Rightarrow> string \<Rightarrow> js_error" where
  "TFGridKycError k message =
     (BaseError (C_Kyc k) ''TFGridKycError'' (kyc_code k) message EM_KYC)\<lparr>err_status := Some (- 1)\<rparr>"

text \<open>\<open>new Error(message)\<close> and the \<open>TypeError\<close> of reading a property of \<open>undefined\<close>.\<close>

definition plain_error :: "error_class \<Rightarrow> string \<Rightarrow> js_error" where
  "plain_error cls message =
     \<lparr>err_class = cls, err_code = None, err_message = message, err_module = None,
      err_status = None, err_chain = None\<rparr>"

definition TypeError :: js_error where
  "TypeError = plain_error C_TypeError ''Cannot read properties of undefined''"

definition diverges :: js_error where
  "diverges = plain_error C_Diverges []"

definition is_base_error :: "js_error \<Rightarrow> bool" where
  "is_base_error e \<longleftrightarrow>
     (case err_class e of C_TFChainError \<Rightarrow> False | C_Error \<Rightarrow> False | C_TypeError \<Rightarrow> False
      | C_Diverges \<Rightarrow> False | _ \<Rightarrow> True)"

text \<open>\<open>formatErrorMessage\<close> of \<open>grid_client/src/helpers/utils.ts\<close>, and the catch blocks around it.\<close>

definition formatErrorMessage :: "string \<Rightarrow> js_error \<Rightarrow> string" where
  "formatErrorMessage prefix_msg e = prefix_msg @ [newline, CHR 0x09, CHR '' ''] @ err_message e"

definition with_prefix :: "string \<Rightarrow> js_error \<Rightarrow> js_error" where
  "with_prefix prefix_msg e = e\<lparr>err_message := formatErrorMessage prefix_msg e\<rparr>"

text \<open>\<open>`\dots ${e}`\<close> prints an error as its name, \<open>": "\<close> and its message.\<close>

definition error_to_string :: "js_error \<Rightarrow> string" where
  "error_to_string e =
     (let name = (case err_class e of C_TFChainError \<Rightarrow> ''TFChainError''
                  | C_TypeError \<Rightarrow> ''TypeError'' | _ \<Rightarrow> ''Error'')
      in if err_message e = [] then name else name @ '': '' @ err_message e)"

subsection \<open>Errors of the chain\<close>

record tfchain_options =
  o_message :: string
  o_keyError :: "string option"
  o_section :: "string option"
  o_method :: "string option"
  o_args :: "string option"
  o_docs :: "string list option"

definition js_or :: "string option \<Rightarrow> string \<Rightarrow> string" where
  "js_or v d = (case v of None \<Rightarrow> d | Some s \<Rightarrow> if s = [] then d else s)"

definition truthy_str :: "string option \<Rightarrow> string option" where
  "truthy_str v = (case v of Some s \<Rightarrow> if s = [] then None else Some s | None \<Rightarrow> None)"

definition TFChainError :: "tfchain_options \<Rightarrow> js_error" where
  "TFChainError opts =
     (plain_error C_TFChainError (o_message opts))
       \<lparr>err_chain := Some \<lparr>keyError = js_or (o_keyError opts) ''GenericError'',
          ch_section = truthy_str (o_section opts), ch_method = truthy_str (o_method opts),
          ch_args = o_args opts, ch_docs = o_docs opts\<rparr>\<rparr>"

definition TFChainError_msg :: "string \<Rightarrow> js_error" where
  "TFChainError_msg m = TFChainError \<lparr>o_message = m, o_keyError = None, o_section = None,
     o_method = None, o_args = None, o_docs = None\<rparr>"

text \<open>
  The value an extrinsic was rejected with: a dispatch error of one of the four kinds the code
  asks for (or another), an \<open>Error\<close>, or anything else.  For a module error the chain's
  registry supplies section, name and docs.
\<close>

datatype chain_failure =
    DispatchModule string string "string list"
  | DispatchToken string
  | DispatchArithmetic string
  | DispatchBadOrigin
  | DispatchOther
  | FailedWithError string
  | FailedOther

record extrinsic_call =
  x_section :: string
  x_method :: string
  x_args :: string

definition extrinsic_message :: "extrinsic_call \<Rightarrow> string" where
  "extrinsic_message x = ''Failed to apply '' @ [apos] @ x_method x @ [apos] @ '' on section ''
     @ [apos] @ x_section x @ [apos] @ '' with args '' @ [apos] @ x_args x @ ''.''"

definition dispatch_options :: "extrinsic_call \<Rightarrow> string \<Rightarrow> string \<Rightarrow> tfchain_options" where
  "dispatch_options x kind key =
     \<lparr>o_message = kind @ extrinsic_message x, o_keyError = Some key, o_section = Some (x_section x),
      o_method = Some (x_method x), o_args = Some (x_args x), o_docs = Some []\<rparr>"

fun wrapper_throw :: "extrinsic_call \<Rightarrow> chain_failure \<Rightarrow> js_error" where
  "wrapper_throw x (DispatchModule section name docs) =
     TFChainError \<lparr>o_message = ''Module Error: '' @ extrinsic_message x @ [apos],
       o_keyError = Some name, o_section = Some section, o_method = Some (x_method x),
       o_args = Some (x_args x), o_docs = Some docs\<rparr>"
| "wrapper_throw x (DispatchToken key) = TFChainError (dispatch_options x ''Token Error: '' key)"
| "wrapper_throw x (DispatchArithmetic key) =
     TFChainError (dispatch_options x ''Arithmetic Error: '' key)"
| "wrapper_throw x DispatchBadOrigin =
     TFChainError (dispatch_options x ''Bad Origin Error: '' ''BadOriginError'')"
| "wrapper_throw x DispatchOther =
     TFChainError (dispatch_options x ''Unknown Dispatch Error: '' ''UnknownDispatchError'')"
| "wrapper_throw x (FailedWithError msg) =
     (if sublist ''Inability to pay some fees'' msg
      then InsufficientBalanceError (''Insufficient Balance Error: '' @ extrinsic_message x)
      else TFChainError \<lparr>o_message = ''Generic Error: '' @ extrinsic_message x,
             o_keyError = Some ''GenericError'', o_section = None, o_method = None,
             o_args = None, o_docs = None\<rparr>)"
| "wrapper_throw x FailedOther =
     TFChainError \<lparr>o_message = ''Unknown Error: '' @ extrinsic_message x,
       o_keyError = Some ''UnknownError'', o_section = None, o_method = None,
       o_args = None, o_docs = None\<rparr>"

subsection \<open>Facts\<close>

lemmas error_defs = BaseError_def generic_error_def ValidationError_def TimeoutError_def
  ConnectionError_def RMBError_def InvalidResponse_def RequestError_def TwinNotExistError_def
  InsufficientBalanceError_def DeploymentKeyDeletionError_def KycBaseError_def GridClientError_def
  TFGridFarmsError_def TFGridNodesError_def TFGridWorkloadError_def TFGridKycError_def
  plain_error_def TypeError_def

lemma base_error_classes [simp]:
  "is_base_error (ValidationError m)" "is_base_error (TimeoutError m)"
  "is_base_error (ConnectionError m)" "is_base_error (RMBError m)"
  "is_base_error (InvalidResponse m)" "is_base_error (RequestError m i)"
  "is_base_error (TwinNotExistError m)" "is_base_error (InsufficientBalanceError m)"
  "is_base_error (GridClientError m)" "is_base_error (TFGridFarmsError f m)"
  "is_base_error (TFGridNodesError n m)" "is_base_error (TFGridWorkloadError w m)"
  "is_base_error (TFGridKycError k m)"
  "\<not> is_base_error TypeError" "\<not> is_base_error (TFChainError opts)"
  "\<not> is_base_error (plain_error C_Error m)"
  by (simp_all add: is_base_error_def error_defs TFChainError_def)

lemma with_prefix_class [simp]:
  "err_class (with_prefix p e) = err_class e" "is_base_error (with_prefix p e) = is_base_error e"
  by (simp_all add: with_prefix_def is_base_error_def)

text \<open>What the constructors above produce, by class.\<close>

inductive sdk_error :: "js_error \<Rightarrow> bool" where
  sdk_generic: "g \<noteq> G_RequestError \<Longrightarrow> g \<noteq> G_KycError \<Longrightarrow> sdk_error (generic_error g n m)"
| sdk_request: "sdk_error (RequestError m st)"
| sdk_kyc_base: "sdk_error (KycBaseError m st)"
| sdk_farm: "sdk_error (TFGridFarmsError f m)"
| sdk_node: "sdk_error (TFGridNodesError k m)"
| sdk_workload: "sdk_error (TFGridWorkloadError w m)"
| sdk_kyc: "sdk_error (TFGridKycError q m)"

definition class_code :: "error_class \<Rightarrow> (ErrorModules \<times> int) option" where
  "class_code c = (case c of C_Generic g \<Rightarrow> Some (EM_Generic, generic_code g)
     | C_Farm f \<Rightarrow> Some (EM_Farm, farm_code f) | C_Node n \<Rightarrow> Some (EM_Node, node_code n)
     | C_Workload w \<Rightarrow> Some (EM_Workloads, workload_code w)
     | C_Kyc k \<Rightarrow> Some (EM_KYC, kyc_code k) | _ \<Rightarrow> None)"

lemma generic_code_inj: "generic_code g = generic_code h \<Longrightarrow> g = h"
  by (cases g; cases h) simp_all

lemma farm_code_inj: "farm_code g = farm_code h \<Longrightarrow> g = h"
  by (cases g; cases h) simp_all

lemma node_code_inj: "node_code g = node_code h \<Longrightarrow> g = h"
  by (cases g; cases h) simp_all

lemma workload_code_inj: "workload_code g = workload_code h \<Longrightarrow> g = h"
  by (cases g; cases h) simp_all

lemma kyc_code_inj: "kyc_code g = kyc_code h \<Longrightarrow> g = h"
  by (cases g; cases h) simp_all

lemmas code_inj = generic_code_inj farm_code_inj node_code_inj workload_code_inj kyc_code_inj

lemma sdk_error_code:
  "sdk_error e \<Longrightarrow> \<exists>m c. class_code (err_class e) = Some (m, c) \<and> err_module e = Some m \<and> err_code e = Some c"
  by (induction rule: sdk_error.induct) (auto simp: class_code_def error_defs)

lemma class_code_inj: "class_code c = Some x \<Longrightarrow> class_code d = Some x \<Longrightarrow> c = d"
  by (auto simp: class_code_def split: error_class.splits dest: code_inj)

text \<open>the pair (module, code) of an SDK error determines its class.\<close>

theorem error_code_identifies_class:
  assumes "sdk_error e" and "sdk_error e'"
    and "map_option em_name (err_module e) = map_option em_name (err_module e')"
    and "err_code e = err_code e'"
  shows "err_class e = err_class e'"
proof -
  obtain m c where e: "class_code (err_class e) = Some (m, c)" "err_module e = Some m" "err_code e = Some c"
    using sdk_error_code [OF assms(1)] by blast
  obtain m' c' where e': "class_code (err_class e') = Some (m', c')" "err_module e' = Some m'" "err_code e' = Some c'"
    using sdk_error_code [OF assms(2)] by blast
  have "m \<in> {EM_Generic, EM_Farm, EM_Node, EM_Workloads, EM_KYC}"
    "m' \<in> {EM_Generic, EM_Farm, EM_Node, EM_Workloads, EM_KYC}"
    using e(1) e'(1) by (auto simp: class_code_def split: error_class.splits)
  moreover have "em_name m = em_name m'" "c = c'"
    using assms(3,4) e e' by simp_all
  ultimately have "m = m'" by auto
  with e(1) e'(1) \<open>c = c'\<close> show ?thesis by (auto dest: class_code_inj)
qed

theorem error_code_identifies_class_witness:
  "err_class (TFGridNodesError N_AccessNode ''a'') = err_class (TFGridNodesError N_AccessNode ''b'')"
  using error_code_identifies_class
    [OF sdk_node [of N_AccessNode "''a''"] sdk_node [of N_AccessNode "''b''"]]
  by (simp add: TFGridNodesError_def BaseError_def)

end
