(* ===== verification/Zos.thy ===== *)
theory Zos
  imports Errors "HOL-Library.Word" "HOL-Library.Multiset"
begin

text \<open>
  The deployment document of \<open>grid_client/src/zos\<close>: the workload classes with their fields,
  their \<open>challenge()\<close> strings (what the twin signs), the enumerations with their wire names, and
  the hexadecimal codec and \<open>sign\<close> of \<open>deployment.ts\<close>.  \<open>md5\<close> of \<open>crypto-js\<close> and the key ring
  of \<open>@polkadot\<close> are parameters.
\<close>

unbundle bit_operations_syntax

subsection \<open>Small workloads\<close>

record ComputeCapacity =
  cc_cpu :: int
  cc_memory :: int

definition ComputeCapacity_challenge :: "ComputeCapacity \<Rightarrow> string" where
  "ComputeCapacity_challenge c = show_int (cc_cpu c) @ show_int (cc_memory c)"

record GatewayFQDNProxy =
  gf_fqdn :: string
  gf_tls_passthrough :: bool
  gf_backends :: "string list"
  gf_network :: "string option"

definition GatewayFQDNProxy_challenge :: "GatewayFQDNProxy \<Rightarrow> string" where
  "GatewayFQDNProxy_challenge g =
     gf_fqdn g @ show_bool (gf_tls_passthrough g) @ concat (gf_backends g)
     @ (case gf_network g of Some n \<Rightarrow> n | None \<Rightarrow> [])"

record GatewayNameProxy =
  gn_name :: string
  gn_tls_passthrough :: bool
  gn_backends :: "string list"
  gn_network :: "string option"

definition GatewayNameProxy_challenge :: "GatewayNameProxy \<Rightarrow> string" where
  "GatewayNameProxy_challenge g =
     gn_name g @ show_bool (gn_tls_passthrough g) @ concat (gn_backends g)
     @ (case gn_network g of Some n \<Rightarrow> n | None \<Rightarrow> [])"

definition PublicIPv4_challenge :: "unit \<Rightarrow> string" where
  "PublicIPv4_challenge _ = ''''"

record PublicIP =
  ip_v4 :: bool
  ip_v6 :: bool

definition PublicIP_challenge :: "PublicIP \<Rightarrow> string" where
  "PublicIP_challenge p = show_bool (ip_v4 p) @ show_bool (ip_v6 p)"

record Zmount =
  zm_size :: rat

definition Zmount_challenge :: "Zmount \<Rightarrow> string" where
  "Zmount_challenge z = show_number (zm_size z)"

record Volume =
  vol_size :: rat

definition Volume_challenge :: "Volume \<Rightarrow> string" where
  "Volume_challenge v = show_number (vol_size v)"

datatype ZdbModes = Zdb_seq | Zdb_user

fun ZdbModes_name :: "ZdbModes \<Rightarrow> string" where
  "ZdbModes_name Zdb_seq = ''seq''"
| "ZdbModes_name Zdb_user = ''user''"

record Zdb =
  zdb_size :: rat
  zdb_mode :: ZdbModes
  zdb_password :: string
  zdb_public :: bool

definition Zdb_challenge :: "Zdb \<Rightarrow> string" where
  "Zdb_challenge z = show_number (zdb_size z) @ ZdbModes_name (zdb_mode z) @ zdb_password z
     @ show_bool (zdb_public z)"

text \<open>Neither field of a log workload is exposed to the deserialiser, so both may be \<open>undefined\<close>.\<close>

record Zlogs =
  zl_zmachine :: "string option"
  zl_output :: "string option"

definition undefined_str :: "string option \<Rightarrow> string" where
  "undefined_str s = (case s of Some x \<Rightarrow> x | None \<Rightarrow> ''undefined'')"

definition Zlogs_challenge :: "Zlogs \<Rightarrow> string" where
  "Zlogs_challenge z = undefined_str (zl_zmachine z) @ undefined_str (zl_output z)"

subsection \<open>Quantum safe file system\<close>

record Encryption =
  en_algorithm :: string
  en_key :: string

definition Encryption_challenge :: "Encryption \<Rightarrow> string" where
  "Encryption_challenge e = en_algorithm e @ en_key e"

record ZdbBackend =
  zb_address :: string
  zb_namespace :: string
  zb_password :: string

definition ZdbBackend_challenge :: "ZdbBackend \<Rightarrow> string" where
  "ZdbBackend_challenge b = zb_address b @ zb_namespace b @ zb_password b"

record QuantumSafeConfig =
  qc_prefix :: string
  qc_encryption :: Encryption
  qc_backends :: "ZdbBackend list"

definition QuantumSafeConfig_challenge :: "QuantumSafeConfig \<Rightarrow> string" where
  "QuantumSafeConfig_challenge q = qc_prefix q @ Encryption_challenge (qc_encryption q)
     @ concat (map ZdbBackend_challenge (qc_backends q))"

record QuantumSafeMeta =
  qm_type :: string
  qm_config :: QuantumSafeConfig

definition QuantumSafeMeta_challenge :: "QuantumSafeMeta \<Rightarrow> string" where
  "QuantumSafeMeta_challenge q = qm_type q @ QuantumSafeConfig_challenge (qm_config q)"

record ZdbGroup =
  zg_backends :: "ZdbBackend list"

definition ZdbGroup_challenge :: "ZdbGroup \<Rightarrow> string" where
  "ZdbGroup_challenge g = concat (map ZdbBackend_challenge (zg_backends g))"

record QuantumCompression =
  qz_algorithm :: string

definition QuantumCompression_challenge :: "QuantumCompression \<Rightarrow> string" where
  "QuantumCompression_challenge c = qz_algorithm c"

record QuantumSafeFSConfig =
  qf_minimal_shards :: int
  qf_expected_shards :: int
  qf_redundant_groups :: int
  qf_redundant_nodes :: int
  qf_max_zdb_data_dir_size :: int
  qf_encryption :: Encryption
  qf_meta :: QuantumSafeMeta
  qf_groups :: "ZdbGroup list"
  qf_compression :: QuantumCompression

definition QuantumSafeFSConfig_challenge :: "QuantumSafeFSConfig \<Rightarrow> string" where
  "QuantumSafeFSConfig_challenge q =
     show_int (qf_minimal_shards q) @ show_int (qf_expected_shards q)
     @ show_int (qf_redundant_groups q) @ show_int (qf_redundant_nodes q)
     @ show_int (qf_max_zdb_data_dir_size q) @ Encryption_challenge (qf_encryption q)
     @ QuantumSafeMeta_challenge (qf_meta q) @ concat (map ZdbGroup_challenge (qf_groups q))
     @ QuantumCompression_challenge (qf_compression q)"

record QuantumSafeFS =
  qs_cache :: rat
  qs_config :: QuantumSafeFSConfig

definition QuantumSafeFS_challenge :: "QuantumSafeFS \<Rightarrow> string" where
  "QuantumSafeFS_challenge q = show_number (qs_cache q) @ QuantumSafeFSConfig_challenge (qs_config q)"

subsection \<open>Networks\<close>

text \<open>\<open>s || ""\<close> on an optional string, and the optional peers of a mycelium network.\<close>

definition opt_str :: "string option \<Rightarrow> string" where
  "opt_str s = (case s of Some x \<Rightarrow> x | None \<Rightarrow> [])"

record Mycelium =
  my_hex_key :: string
  my_peers :: "string list option"

definition Mycelium_challenge :: "Mycelium option \<Rightarrow> string" where
  "Mycelium_challenge m = (case m of None \<Rightarrow> [] | Some y \<Rightarrow>
     my_hex_key y @ (case my_peers y of None \<Rightarrow> [] | Some ps \<Rightarrow> concat ps))"

record NetworkLight =
  nl_subnet :: string
  nl_mycelium :: "Mycelium option"

definition NetworkLight_challenge :: "('a) NetworkLight_scheme \<Rightarrow> string" where
  "NetworkLight_challenge n = nl_subnet n @ Mycelium_challenge (nl_mycelium n)"

record Peer =
  pr_subnet :: string
  pr_wireguard_public_key :: string
  pr_allowed_ips :: "string list"
  pr_endpoint :: string

definition Peer_challenge :: "Peer \<Rightarrow> string" where
  "Peer_challenge p = pr_wireguard_public_key p @ pr_endpoint p @ pr_subnet p
     @ concat (pr_allowed_ips p)"

record Znet =
  zn_subnet :: string
  zn_ip_range :: string
  zn_wireguard_private_key :: string
  zn_wireguard_listen_port :: int
  zn_peers :: "Peer list"
  zn_mycelium :: "Mycelium option"

definition Znet_challenge :: "('a) Znet_scheme \<Rightarrow> string" where
  "Znet_challenge z = zn_ip_range z @ zn_subnet z @ zn_wireguard_private_key z
     @ show_int (zn_wireguard_listen_port z) @ concat (map Peer_challenge (zn_peers z))
     @ Mycelium_challenge (zn_mycelium z)"

subsection \<open>Virtual machines\<close>

record ZNetworkInterface =
  if_network :: string
  if_ip :: string

record MyceliumIP =
  mi_network :: string
  mi_hex_seed :: string

definition MyceliumIP_challenge :: "MyceliumIP option \<Rightarrow> string" where
  "MyceliumIP_challenge m = (case m of None \<Rightarrow> [] | Some y \<Rightarrow> mi_network y @ mi_hex_seed y)"

definition interfaces_challenge :: "ZNetworkInterface list \<Rightarrow> string" where
  "interfaces_challenge is = concat (map (\<lambda>i. if_network i @ if_ip i) is)"

record ZmachineNetwork =
  zmn_public_ip :: string
  zmn_interfaces :: "ZNetworkInterface list"
  zmn_planetary :: bool
  zmn_mycelium :: "MyceliumIP option"

definition ZmachineNetwork_challenge :: "ZmachineNetwork \<Rightarrow> string" where
  "ZmachineNetwork_challenge n = zmn_public_ip n @ show_bool (zmn_planetary n)
     @ interfaces_challenge (zmn_interfaces n) @ MyceliumIP_challenge (zmn_mycelium n)"

record Mount =
  mt_name :: string
  mt_mountpoint :: string

definition Mount_challenge :: "Mount \<Rightarrow> string" where
  "Mount_challenge m = mt_name m @ mt_mountpoint m"

text \<open>
  The environment is a plain object; the loop runs over its keys in sorted order, and the gpu
  list is appended inside that loop.
\<close>

definition env_challenge :: "(string \<times> string) list \<Rightarrow> string list option \<Rightarrow> string" where
  "env_challenge env gpu =
     concat (map (\<lambda>k. k @ ''='' @ opt_str (map_of env k)
                 @ (case gpu of None \<Rightarrow> [] | Some gs \<Rightarrow> concat gs)) (sort (obj_keys env)))"

record Zmachine =
  vm_flist :: string
  vm_network :: ZmachineNetwork
  vm_size :: rat
  vm_compute_capacity :: ComputeCapacity
  vm_mounts :: "Mount list"
  vm_entrypoint :: string
  vm_env :: "(string \<times> string) list"
  vm_corex :: bool
  vm_gpu :: "string list option"

definition Zmachine_challenge :: "Zmachine \<Rightarrow> string" where
  "Zmachine_challenge z = vm_flist z @ ZmachineNetwork_challenge (vm_network z)
     @ (if vm_size z = 0 then ''0'' else show_number (vm_size z))
     @ ComputeCapacity_challenge (vm_compute_capacity z)
     @ concat (map Mount_challenge (vm_mounts z)) @ vm_entrypoint z
     @ env_challenge (vm_env z) (vm_gpu z)"

record ZmachineLightNetwork =
  zln_interfaces :: "ZNetworkInterface list"
  zln_mycelium :: "MyceliumIP option"

definition ZmachineLightNetwork_challenge :: "ZmachineLightNetwork \<Rightarrow> string" where
  "ZmachineLightNetwork_challenge n =
     interfaces_challenge (zln_interfaces n) @ MyceliumIP_challenge (zln_mycelium n)"

record ZmachineLight =
  vml_flist :: string
  vml_network :: ZmachineLightNetwork
  vml_size :: rat
  vml_compute_capacity :: ComputeCapacity
  vml_mounts :: "Mount list"
  vml_entrypoint :: string
  vml_env :: "(string \<times> string) list"
  vml_corex :: bool
  vml_gpu :: "string list option"

definition ZmachineLight_challenge :: "ZmachineLight \<Rightarrow> string" where
  "ZmachineLight_challenge z = vml_flist z @ ZmachineLightNetwork_challenge (vml_network z)
     @ (if vml_size z = 0 then ''0'' else show_number (vml_size z))
     @ ComputeCapacity_challenge (vml_compute_capacity z)
     @ concat (map Mount_challenge (vml_mounts z)) @ vml_entrypoint z
     @ env_challenge (vml_env z) (vml_gpu z)"

subsection \<open>Workloads\<close>

datatype ResultStates = RS_error | RS_ok | RS_deleted

datatype WorkloadTypes = WT_zmachine | WT_zmount | WT_volume | WT_network | WT_zdb | WT_ipv4
  | WT_ip | WT_gatewayfqdnproxy | WT_gatewaynameproxy | WT_qsfs | WT_zlogs | WT_networklight
  | WT_zmachinelight

text \<open>The value of each enum member (its wire name) and its key.\<close>

fun type_name :: "WorkloadTypes \<Rightarrow> string" where
  "type_name WT_zmachine = ''zmachine''"
| "type_name WT_zmount = ''zmount''"
| "type_name WT_volume = ''volume''"
| "type_name WT_network = ''network''"
| "type_name WT_zdb = ''zdb''"
| "type_name WT_ipv4 = ''ipv4''"
| "type_name WT_ip = ''ip''"
| "type_name WT_gatewayfqdnproxy = ''gateway-fqdn-proxy''"
| "type_name WT_gatewaynameproxy = ''gateway-name-proxy''"
| "type_name WT_qsfs = ''qsfs''"
| "type_name WT_zlogs = ''zlogs''"
| "type_name WT_networklight = ''network-light''"
| "type_name WT_zmachinelight = ''zmachine-light''"

definition type_keys :: "(string \<times> WorkloadTypes) list" where
  "type_keys = [(''zmachine'', WT_zmachine), (''zmount'', WT_zmount), (''volume'', WT_volume),
     (''network'', WT_network), (''zdb'', WT_zdb), (''ipv4'', WT_ipv4), (''ip'', WT_ip),
     (''gatewayfqdnproxy'', WT_gatewayfqdnproxy), (''gatewaynameproxy'', WT_gatewaynameproxy),
     (''qsfs'', WT_qsfs), (''zlogs'', WT_zlogs), (''networklight'', WT_networklight),
     (''zmachinelight'', WT_zmachinelight)]"

text \<open>The \<open>@Transform\<close> on the field \<open>type\<close>: dashes are removed and the rest is looked up as a key.\<close>

definition type_of_json :: "string \<Rightarrow> WorkloadTypes option" where
  "type_of_json value = map_of type_keys (filter (\<lambda>c. c \<noteq> CHR ''-'') value)"

datatype WorkloadData = D_zmount Zmount | D_volume Volume | D_znet "Znet" | D_zmachine Zmachine
  | D_zdb Zdb | D_publicip PublicIP | D_ipv4 | D_gatewayfqdn GatewayFQDNProxy
  | D_gatewayname GatewayNameProxy | D_qsfs QuantumSafeFS | D_zlogs Zlogs
  | D_networklight NetworkLight | D_zmachinelight ZmachineLight

fun data_challenge :: "WorkloadData \<Rightarrow> string" where
  "data_challenge (D_zmount z) = Zmount_challenge z"
| "data_challenge (D_volume v) = Volume_challenge v"
| "data_challenge (D_znet z) = Znet_challenge z"
| "data_challenge (D_zmachine z) = Zmachine_challenge z"
| "data_challenge (D_zdb z) = Zdb_challenge z"
| "data_challenge (D_publicip p) = PublicIP_challenge p"
| "data_challenge D_ipv4 = PublicIPv4_challenge ()"
| "data_challenge (D_gatewayfqdn g) = GatewayFQDNProxy_challenge g"
| "data_challenge (D_gatewayname g) = GatewayNameProxy_challenge g"
| "data_challenge (D_qsfs q) = QuantumSafeFS_challenge q"
| "data_challenge (D_zlogs z) = Zlogs_challenge z"
| "data_challenge (D_networklight n) = NetworkLight_challenge n"
| "data_challenge (D_zmachinelight z) = ZmachineLight_challenge z"

record DeploymentResult =
  res_created :: int
  res_state :: ResultStates
  res_message :: string

record Workload =
  wl_version :: int
  wl_name :: string
  wl_type :: WorkloadTypes
  wl_data :: WorkloadData
  wl_metadata :: string
  wl_description :: string
  wl_result :: "DeploymentResult option"

definition Workload_challenge :: "Workload \<Rightarrow> string" where
  "Workload_challenge w = show_int (wl_version w) @ wl_name w @ type_name (wl_type w)
     @ wl_metadata w @ wl_description w @ data_challenge (wl_data w)"

subsection \<open>Deployments\<close>

datatype KeypairType = KP_sr25519 | KP_ed25519

record SignatureRequest =
  sr_twin_id :: int
  sr_required :: bool
  sr_weight :: int

definition SignatureRequest_challenge :: "SignatureRequest \<Rightarrow> string" where
  "SignatureRequest_challenge r =
     show_int (sr_twin_id r) @ show_bool (sr_required r) @ show_int (sr_weight r)"

record Signature =
  sg_twin_id :: int
  sg_signature :: string
  sg_signature_type :: KeypairType

record SignatureRequirement =
  rq_requests :: "SignatureRequest list"
  rq_weight_required :: int
  rq_signatures :: "Signature list"

definition SignatureRequirement_challenge :: "SignatureRequirement \<Rightarrow> string" where
  "SignatureRequirement_challenge r =
     concat (map SignatureRequest_challenge (rq_requests r)) @ show_int (rq_weight_required r)"

text \<open>\<open>contract_id\<close> is unset until the contract exists.\<close>

record Deployment =
  dp_version :: int
  dp_twin_id :: int
  dp_contract_id :: "int option"
  dp_expiration :: int
  dp_metadata :: string
  dp_description :: string
  dp_workloads :: "Workload list"
  dp_signature_requirement :: SignatureRequirement

definition Deployment_challenge :: "Deployment \<Rightarrow> string" where
  "Deployment_challenge d = show_int (dp_version d) @ show_int (dp_twin_id d) @ dp_metadata d
     @ dp_description d @ show_int (dp_expiration d)
     @ concat (map Workload_challenge (dp_workloads d))
     @ SignatureRequirement_challenge (dp_signature_requirement d)"

definition challenge_hash :: "(string \<Rightarrow> string) \<Rightarrow> Deployment \<Rightarrow> string" where
  "challenge_hash md5 d = md5 (Deployment_challenge d)"

subsection \<open>Hexadecimal strings\<close>

text \<open>\<open>"0123456789abcdef"[n]\<close> and \<open>parseInt(xy, 16)\<close> stored into a byte.\<close>

definition hex_char :: "8 word \<Rightarrow> char" where
  "hex_char n = ''0123456789abcdef'' ! unat n"

definition to_hex :: "8 word list \<Rightarrow> string" where
  "to_hex bs = concat (map (\<lambda>b. [hex_char (drop_bit 4 b AND 15), hex_char (b AND 15)]) bs)"

definition hex_value :: "char \<Rightarrow> nat" where
  "hex_value c = (let n = (of_char c :: nat) in
     if n \<le> 57 then n - 48 else if n \<le> 70 then n - 55 else n - 87)"

definition is_space :: "char \<Rightarrow> bool" where
  "is_space c \<longleftrightarrow> (of_char c :: nat) \<in> {9, 10, 11, 12, 13, 32, 160}"

text \<open>
  \<open>parseInt\<close> skips leading white space, takes a sign, then the longest run of hexadecimal
  digits; without a digit it is \<open>NaN\<close>, which a byte array stores as 0.
\<close>

definition parse_pair :: "char \<Rightarrow> char \<Rightarrow> 8 word" where
  "parse_pair a b =
     (if is_hex_digit a then
        (if is_hex_digit b then of_nat (16 * hex_value a + hex_value b) else of_nat (hex_value a))
      else if is_hex_digit b \<and> (is_space a \<or> a = CHR ''+'') then of_nat (hex_value b)
      else if is_hex_digit b \<and> a = CHR ''-'' then - of_nat (hex_value b)
      else 0)"

text \<open>An odd last character falls off the end of the byte array.\<close>

fun from_hex :: "string \<Rightarrow> 8 word list" where
  "from_hex (a # b # s) = parse_pair a b # from_hex s"
| "from_hex s = []"

subsection \<open>Signing\<close>

text \<open>\<open>ring mnemonic type bytes\<close>: the key ring's signature, or the error of a bad mnemonic.\<close>

type_synonym keyring = "string \<Rightarrow> KeypairType \<Rightarrow> 8 word list \<Rightarrow> js_error + 8 word list"

definition resign :: "int \<Rightarrow> string \<Rightarrow> KeypairType \<Rightarrow> Signature \<Rightarrow> Signature" where
  "resign twin_id hex kt s =
     (if sg_twin_id s = twin_id then s\<lparr>sg_signature := hex, sg_signature_type := kt\<rparr> else s)"

definition add_signature :: "int \<Rightarrow> string \<Rightarrow> KeypairType \<Rightarrow> Deployment \<Rightarrow> Deployment" where
  "add_signature twin_id hex kt d =
     (let r = dp_signature_requirement d;
          sigs = map (resign twin_id hex kt) (rq_signatures r)
                 @ [\<lparr>sg_twin_id = twin_id, sg_signature = hex, sg_signature_type = kt\<rparr>]
      in d\<lparr>dp_signature_requirement := r\<lparr>rq_signatures := sigs\<rparr>\<rparr>)"

definition sign ::
  "(string \<Rightarrow> string) \<Rightarrow> keyring \<Rightarrow> int \<Rightarrow> string \<Rightarrow> KeypairType \<Rightarrow> string \<Rightarrow> Deployment \<Rightarrow> js_error + Deployment"
where
  "sign md5 ring twin_id mnemonic kt hash d =
     (let message = (if hash = [] then challenge_hash md5 d else hash)
      in bindR (ring mnemonic kt (from_hex message))
           (\<lambda>signed. Inr (add_signature twin_id (to_hex signed) kt d)))"

end
