(* ===== verification/ZosFacts.thy ===== *)
theory ZosFacts
  imports Zos
begin

text \<open>
  What the deployment document guarantees: the wire names of workload types parse back, the
  hexadecimal codec round-trips, signing leaves the signed string alone, and the environment of a
  machine is signed independently of the order in which it was written.
\<close>

subsection \<open>Wire names\<close>

theorem type_of_json_name: "type_of_json (type_name t) = Some t"
  by (cases t) (simp_all add: type_of_json_def type_keys_def)

subsection \<open>The hexadecimal codec\<close>

lemma hex_char_props:
  fixes n :: "8 word"
  assumes "unat n < 16"
  shows "is_hex_digit (hex_char n)" "hex_value (hex_char n) = unat n"
proof -
  have "unat n \<in> {0, 1, 2, 3, 4, 5, 6, 7, 8, 9, 10, 11, 12, 13, 14, 15}" using assms 
    unfolding insert_iff empty_iff by presburger
  then show "is_hex_digit (hex_char n)" "hex_value (hex_char n) = unat n"
    by (elim insertE; simp add: hex_char_def is_hex_digit_def is_digit_def hex_value_def)+
qed

lemma nibble_bounds:
  fixes b :: "8 word"
  shows "unat (b AND 15) < 16" "unat (drop_bit 4 b AND 15) < 16"
    "16 * unat (drop_bit 4 b AND 15) + unat (b AND 15) = unat b"
proof -
  have m: "b AND 15 = take_bit 4 b" for b :: "8 word"
    by (simp add: take_bit_eq_mask mask_eq_exp_minus_1)
  have lo: "unat (b AND 15) = unat b mod 16" for b :: "8 word"
    unfolding m by (simp only: unsigned_take_bit_eq) (simp add: take_bit_eq_mod)
  have hi: "unat (drop_bit 4 b) = unat b div 16"
    by (simp add: drop_bit_eq_div unat_div_distrib)
  have "unat b < 256" using unsigned_less [of b] by simp
  then have "unat b div 16 < 16" by auto
  then show "unat (b AND 15) < 16" "unat (drop_bit 4 b AND 15) < 16"
    "16 * unat (drop_bit 4 b AND 15) + unat (b AND 15) = unat b"
    by (simp_all add: lo hi)
qed

lemma parse_pair_to_hex: "parse_pair (hex_char (drop_bit 4 b AND 15)) (hex_char (b AND 15)) = b"
proof -
  have "parse_pair (hex_char (drop_bit 4 b AND 15)) (hex_char (b AND 15))
    = of_nat (16 * unat (drop_bit 4 b AND 15) + unat (b AND 15))"
    using hex_char_props [OF nibble_bounds(1)] hex_char_props [OF nibble_bounds(2)]
    by (simp add: parse_pair_def)
  also have "\<dots> = b" by (simp only: nibble_bounds) simp
  finally show ?thesis .
qed

theorem from_hex_to_hex: "from_hex (to_hex bs) = bs"
proof (induction bs)
  case (Cons b bs)
  have "from_hex (to_hex (b # bs))
    = parse_pair (hex_char (drop_bit 4 b AND 15)) (hex_char (b AND 15)) # from_hex (to_hex bs)"
    by (simp add: to_hex_def)
  then show ?case by (simp add: parse_pair_to_hex Cons)
qed (simp add: to_hex_def)

lemma length_to_hex [simp]: "length (to_hex bs) = 2 * length bs"
  by (induction bs) (simp_all add: to_hex_def)

lemma length_from_hex [simp]: "length (from_hex s) = length s div 2"
  by (induction s rule: from_hex.induct) simp_all

subsection \<open>Signing\<close>

lemma add_signature_challenge [simp]:
  "Deployment_challenge (add_signature t h k d) = Deployment_challenge d"
  by (simp add: Deployment_challenge_def add_signature_def SignatureRequirement_challenge_def Let_def)

lemma sign_Inr:
  "sign md5 ring t m k h d = Inr d' \<longleftrightarrow>
     (\<exists>bs. ring m k (from_hex (if h = [] then challenge_hash md5 d else h)) = Inr bs
           \<and> d' = add_signature t (to_hex bs) k d)"
  by (auto simp: sign_def Let_def bindR_Inr)

theorem sign_keeps_challenge:
  assumes "sign md5 ring t m k h d = Inr d'"
  shows "challenge_hash md5 d' = challenge_hash md5 d"
  using assms by (auto simp: sign_Inr challenge_hash_def)

text \<open>A ring that signs by reversing the bytes, for the examples.\<close>

definition demo_ring :: keyring where
  "demo_ring mnemonic kt bs = (if mnemonic = [] then Inl (plain_error C_Error ''mnemonic'') else Inr (rev bs))"

definition demo_deployment :: Deployment where
  "demo_deployment = \<lparr>dp_version = 0, dp_twin_id = 7, dp_contract_id = None, dp_expiration = 0,
     dp_metadata = '''', dp_description = '''', dp_workloads = [],
     dp_signature_requirement = \<lparr>rq_requests = [], rq_weight_required = 1, rq_signatures = []\<rparr>\<rparr>"

definition signatures_of :: "Deployment \<Rightarrow> Signature list" where
  "signatures_of d = rq_signatures (dp_signature_requirement d)"

lemma resign_twin [simp]: "sg_twin_id (resign t hx k s) = sg_twin_id s"
  by (simp add: resign_def)

lemma resign_same [simp]:
  "sg_twin_id s = t \<Longrightarrow> sg_signature (resign t hx k s) = hx"
  "sg_twin_id s = t \<Longrightarrow> sg_signature_type (resign t hx k s) = k"
  by (simp_all add: resign_def)

lemma signatures_add:
  "signatures_of (add_signature t hx k d) = map (resign t hx k) (signatures_of d)
     @ [\<lparr>sg_twin_id = t, sg_signature = hx, sg_signature_type = k\<rparr>]"
  by (simp add: signatures_of_def add_signature_def Let_def)

lemma resign_others:
  "filter (\<lambda>s. sg_twin_id s \<noteq> t) (map (resign t hx k) ss) = filter (\<lambda>s. sg_twin_id s \<noteq> t) ss"
  by (induction ss) (auto simp: resign_def)

text \<open>
  Signing adds one signature, replaces the twin's older ones and no other, and the stored
  text decodes to the signature's bytes.
\<close>

theorem sign_signatures:
  assumes "ring m k (from_hex (challenge_hash md5 d)) = Inr bs"
  shows "\<exists>d'. sign md5 ring t m k [] d = Inr d'
     \<and> length (signatures_of d') = length (signatures_of d) + 1
     \<and> filter (\<lambda>s. sg_twin_id s \<noteq> t) (signatures_of d') = filter (\<lambda>s. sg_twin_id s \<noteq> t) (signatures_of d)
     \<and> (\<forall>s \<in> set (signatures_of d'). sg_twin_id s = t \<longrightarrow>
            from_hex (sg_signature s) = bs \<and> sg_signature_type s = k)"
proof -
  have "sign md5 ring t m k [] d = Inr (add_signature t (to_hex bs) k d)"
    using assms by (simp add: sign_def Let_def)
  moreover have "\<forall>s \<in> set (signatures_of (add_signature t (to_hex bs) k d)). sg_twin_id s = t \<longrightarrow>
            from_hex (sg_signature s) = bs \<and> sg_signature_type s = k"
    by (simp add: signatures_add ball_Un from_hex_to_hex)
  ultimately show ?thesis by (simp add: signatures_add resign_others)
qed

subsection \<open>The environment of a machine\<close>

lemma map_of_mset_eq:
  assumes "mset env = mset env'" "distinct (map fst env)"
  shows "map_of env = map_of env'"
proof -
  have "mset (map fst env) = mset (map fst env')" using assms(1) by simp
  from mset_eq_imp_distinct_iff [OF this] have d: "distinct (map fst env')"
    using assms(2) by simp
  have "set env = set env'" using assms(1) by (rule mset_eq_setD)
  then show ?thesis using map_of_inject_set [OF assms(2) d] by simp
qed

lemma sort_obj_keys_mset:
  fixes env :: "'v js_object"
  assumes "mset env = mset env'"
  shows "sort (obj_keys env) = sort (obj_keys env')"
proof -
  have keys: "mset (obj_keys e) = image_mset fst (mset e)" for e :: "'v js_object"
  proof -
    have "mset (obj_keys e) = mset (filter array_index (map fst e)) + mset (filter (\<lambda>k. \<not> array_index k) (map fst e))"
      by (simp add: obj_keys_def)
    also have "\<dots> = mset (map fst e)"
      by (metis mset_filter multiset_partition)
    finally show ?thesis by simp
  qed
  show ?thesis
    by (rule properties_for_sort) (simp_all add: keys assms)
qed

lemma env_challenge_order:
  assumes "mset env = mset env'" "distinct (map fst env)"
  shows "env_challenge env gpu = env_challenge env' gpu"
  using map_of_mset_eq [OF assms] sort_obj_keys_mset [OF assms(1)]
  by (simp add: env_challenge_def)

text \<open>
  The signed text of a machine does not depend on the order in which its environment was
  written.
\<close>

theorem zmachine_env_order:
  assumes "mset (vm_env z) = mset env'" and "distinct (map fst (vm_env z))"
  shows "Zmachine_challenge (z\<lparr>vm_env := env'\<rparr>) = Zmachine_challenge z"
  using env_challenge_order [OF assms] by (simp add: Zmachine_challenge_def)

theorem zmachine_gpu_unsigned:
  assumes "vm_env z = []"
  shows "Zmachine_challenge (z\<lparr>vm_gpu := g\<rparr>) = Zmachine_challenge z"
  using assms by (simp add: Zmachine_challenge_def env_challenge_def obj_keys_def)

end
