(* ===== verification/ZosValid.thy ===== *)
theory ZosValid
  imports ZosFacts
begin

text \<open>
  The \<open>class-validator\<close> decorators of the classes in \<open>grid_client/src/zos\<close> as predicates, and
  \<open>helpers/validator.ts\<close>: \<open>validateObject\<close>, the \<open>@ValidateMembers()\<close> wrapper around methods, and
  the two pattern checks.  \<open>@IsInt\<close> of a size, which may come out as a fraction of bytes, is \<open>is_int\<close>; of the other numbers it
  holds by the types of the records, as do \<open>@IsString\<close>, \<open>@IsBoolean\<close>, \<open>@IsDefined\<close> and \<open>@IsEnum\<close>; a nested object that is absent is not validated.  The
  recognisers of the library with a grammar of their own are the parameter \<open>recognisers\<close>, as is
  its option \<open>forbidUnknownValues\<close> (on by default since version 0.14): with it, an object whose
  class carries no validation decorator at all, as a log or a deprecated public address, is an error.
\<close>

record recognisers =
  is_url :: "string \<Rightarrow> bool"
  is_http_url :: "string \<Rightarrow> bool"
  is_fqdn :: "string \<Rightarrow> bool"
  is_ip_address :: "string \<Rightarrow> bool"
  forbid_unknown :: bool

definition not_empty :: "string \<Rightarrow> bool" where
  "not_empty s \<longleftrightarrow> s \<noteq> []"

definition MB :: int where "MB = 1024 ^ 2"
definition GB :: int where "GB = 1024 ^ 3"
definition TB :: int where "TB = 1024 ^ 4"

lemmas unit_defs = MB_def GB_def TB_def

definition valid_ComputeCapacity :: "ComputeCapacity \<Rightarrow> bool" where
  "valid_ComputeCapacity c \<longleftrightarrow> 1 \<le> cc_cpu c \<and> cc_cpu c \<le> 32
     \<and> 256 * MB \<le> cc_memory c \<and> cc_memory c \<le> 256 * GB"

definition valid_GatewayFQDNProxy :: "recognisers \<Rightarrow> GatewayFQDNProxy \<Rightarrow> bool" where
  "valid_GatewayFQDNProxy rc g \<longleftrightarrow> is_fqdn rc (gf_fqdn g)
     \<and> gf_backends g \<noteq> [] \<and> list_all (is_http_url rc) (gf_backends g)"

definition valid_GatewayNameProxy :: "recognisers \<Rightarrow> GatewayNameProxy \<Rightarrow> bool" where
  "valid_GatewayNameProxy rc g \<longleftrightarrow> not_empty (gn_name g)
     \<and> gn_backends g \<noteq> [] \<and> list_all (is_http_url rc) (gn_backends g)"

definition valid_Zmount :: "Zmount \<Rightarrow> bool" where
  "valid_Zmount z \<longleftrightarrow> is_int (zm_size z) \<and> of_int (100 * MB) \<le> zm_size z \<and> zm_size z \<le> of_int (10 * TB)"

definition valid_Volume :: "Volume \<Rightarrow> bool" where
  "valid_Volume v \<longleftrightarrow> is_int (vol_size v) \<and> of_int (100 * MB) \<le> vol_size v \<and> vol_size v \<le> of_int (10 * TB)"

definition valid_Zdb :: "Zdb \<Rightarrow> bool" where
  "valid_Zdb z \<longleftrightarrow> is_int (zdb_size z) \<and> 1 \<le> zdb_size z \<and> not_empty (zdb_password z)"

definition valid_Encryption :: "Encryption \<Rightarrow> bool" where
  "valid_Encryption e \<longleftrightarrow> not_empty (en_algorithm e) \<and> not_empty (en_key e)"

definition valid_ZdbBackend :: "ZdbBackend \<Rightarrow> bool" where
  "valid_ZdbBackend b \<longleftrightarrow> not_empty (zb_address b) \<and> not_empty (zb_namespace b) \<and> not_empty (zb_password b)"

definition valid_QuantumSafeConfig :: "QuantumSafeConfig \<Rightarrow> bool" where
  "valid_QuantumSafeConfig q \<longleftrightarrow> not_empty (qc_prefix q) \<and> valid_Encryption (qc_encryption q)
     \<and> list_all valid_ZdbBackend (qc_backends q)"

definition valid_QuantumSafeMeta :: "QuantumSafeMeta \<Rightarrow> bool" where
  "valid_QuantumSafeMeta q \<longleftrightarrow> not_empty (qm_type q) \<and> valid_QuantumSafeConfig (qm_config q)"

definition valid_ZdbGroup :: "ZdbGroup \<Rightarrow> bool" where
  "valid_ZdbGroup g \<longleftrightarrow> list_all valid_ZdbBackend (zg_backends g)"

definition valid_QuantumSafeFSConfig :: "QuantumSafeFSConfig \<Rightarrow> bool" where
  "valid_QuantumSafeFSConfig q \<longleftrightarrow> 1 \<le> qf_minimal_shards q \<and> 2 \<le> qf_expected_shards q
     \<and> 0 \<le> qf_redundant_groups q \<and> 0 \<le> qf_redundant_nodes q \<and> 1 \<le> qf_max_zdb_data_dir_size q
     \<and> valid_Encryption (qf_encryption q) \<and> valid_QuantumSafeMeta (qf_meta q)
     \<and> list_all valid_ZdbGroup (qf_groups q) \<and> not_empty (qz_algorithm (qf_compression q))"

definition valid_QuantumSafeFS :: "QuantumSafeFS \<Rightarrow> bool" where
  "valid_QuantumSafeFS q \<longleftrightarrow> is_int (qs_cache q) \<and> of_int (250 * MB) \<le> qs_cache q \<and> valid_QuantumSafeFSConfig (qs_config q)"

definition valid_mycelium :: "Mycelium option \<Rightarrow> bool" where
  "valid_mycelium m \<longleftrightarrow> (case m of None \<Rightarrow> True | Some y \<Rightarrow> not_empty (my_hex_key y))"

definition valid_NetworkLight :: "NetworkLight \<Rightarrow> bool" where
  "valid_NetworkLight n \<longleftrightarrow> not_empty (nl_subnet n) \<and> valid_mycelium (nl_mycelium n)"

definition valid_Peer :: "Peer \<Rightarrow> bool" where
  "valid_Peer p \<longleftrightarrow> not_empty (pr_subnet p) \<and> not_empty (pr_wireguard_public_key p)
     \<and> pr_allowed_ips p \<noteq> []"

definition valid_Znet :: "Znet \<Rightarrow> bool" where
  "valid_Znet z \<longleftrightarrow> not_empty (zn_subnet z) \<and> not_empty (zn_ip_range z)
     \<and> not_empty (zn_wireguard_private_key z) \<and> list_all valid_Peer (zn_peers z)
     \<and> valid_mycelium (zn_mycelium z)"

definition valid_interface :: "recognisers \<Rightarrow> ZNetworkInterface \<Rightarrow> bool" where
  "valid_interface rc i \<longleftrightarrow> not_empty (if_network i) \<and> is_ip_address rc (if_ip i) \<and> not_empty (if_ip i)"

definition valid_MyceliumIP :: "MyceliumIP option \<Rightarrow> bool" where
  "valid_MyceliumIP m \<longleftrightarrow> (case m of None \<Rightarrow> True | Some y \<Rightarrow> not_empty (mi_network y))"

definition valid_ZmachineNetwork :: "recognisers \<Rightarrow> ZmachineNetwork \<Rightarrow> bool" where
  "valid_ZmachineNetwork rc n \<longleftrightarrow> list_all (valid_interface rc) (zmn_interfaces n)
     \<and> valid_MyceliumIP (zmn_mycelium n)"

definition valid_Mount :: "Mount \<Rightarrow> bool" where
  "valid_Mount m \<longleftrightarrow> not_empty (mt_name m) \<and> not_empty (mt_mountpoint m)"

definition valid_Zmachine :: "recognisers \<Rightarrow> Zmachine \<Rightarrow> bool" where
  "valid_Zmachine rc z \<longleftrightarrow> not_empty (vm_flist z) \<and> is_url rc (vm_flist z)
     \<and> valid_ZmachineNetwork rc (vm_network z) \<and> is_int (vm_size z) \<and> 0 \<le> vm_size z \<and> vm_size z \<le> of_int (10 * TB)
     \<and> valid_ComputeCapacity (vm_compute_capacity z) \<and> list_all valid_Mount (vm_mounts z)"

definition valid_ZmachineLightNetwork :: "recognisers \<Rightarrow> ZmachineLightNetwork \<Rightarrow> bool" where
  "valid_ZmachineLightNetwork rc n \<longleftrightarrow> list_all (valid_interface rc) (zln_interfaces n)
     \<and> valid_MyceliumIP (zln_mycelium n)"

definition valid_ZmachineLight :: "recognisers \<Rightarrow> ZmachineLight \<Rightarrow> bool" where
  "valid_ZmachineLight rc z \<longleftrightarrow> not_empty (vml_flist z) \<and> is_url rc (vml_flist z)
     \<and> valid_ZmachineLightNetwork rc (vml_network z) \<and> is_int (vml_size z) \<and> 0 \<le> vml_size z \<and> vml_size z \<le> of_int (10 * TB)
     \<and> valid_ComputeCapacity (vml_compute_capacity z) \<and> list_all valid_Mount (vml_mounts z)"

fun valid_data :: "recognisers \<Rightarrow> WorkloadData \<Rightarrow> bool" where
  "valid_data rc (D_zmount z) = valid_Zmount z"
| "valid_data rc (D_volume v) = valid_Volume v"
| "valid_data rc (D_znet z) = valid_Znet z"
| "valid_data rc (D_zmachine z) = valid_Zmachine rc z"
| "valid_data rc (D_zdb z) = valid_Zdb z"
| "valid_data rc (D_publicip p) = True"
| "valid_data rc D_ipv4 \<longleftrightarrow> \<not> forbid_unknown rc"
| "valid_data rc (D_gatewayfqdn g) = valid_GatewayFQDNProxy rc g"
| "valid_data rc (D_gatewayname g) = valid_GatewayNameProxy rc g"
| "valid_data rc (D_qsfs q) = valid_QuantumSafeFS q"
| "valid_data rc (D_zlogs z) \<longleftrightarrow> \<not> forbid_unknown rc"
| "valid_data rc (D_networklight n) = valid_NetworkLight n"
| "valid_data rc (D_zmachinelight z) = valid_ZmachineLight rc z"

definition valid_Workload :: "recognisers \<Rightarrow> Workload \<Rightarrow> bool" where
  "valid_Workload rc w \<longleftrightarrow> 0 \<le> wl_version w \<and> not_empty (wl_name w) \<and> valid_data rc (wl_data w)"

definition valid_SignatureRequest :: "SignatureRequest \<Rightarrow> bool" where
  "valid_SignatureRequest r \<longleftrightarrow> 1 \<le> sr_twin_id r \<and> 1 \<le> sr_weight r"

definition valid_Signature :: "Signature \<Rightarrow> bool" where
  "valid_Signature s \<longleftrightarrow> 1 \<le> sg_twin_id s \<and> not_empty (sg_signature s)"

definition valid_SignatureRequirement :: "SignatureRequirement \<Rightarrow> bool" where
  "valid_SignatureRequirement r \<longleftrightarrow> list_all valid_SignatureRequest (rq_requests r)
     \<and> 1 \<le> rq_weight_required r \<and> list_all valid_Signature (rq_signatures r)"

definition valid_Deployment :: "recognisers \<Rightarrow> Deployment \<Rightarrow> bool" where
  "valid_Deployment rc d \<longleftrightarrow> 0 \<le> dp_version d \<and> 1 \<le> dp_twin_id d
     \<and> list_all (valid_Workload rc) (dp_workloads d)
     \<and> valid_SignatureRequirement (dp_signature_requirement d)"

subsection \<open>helpers/validator.ts\<close>

definition validation_failed :: js_error where
  "validation_failed = ValidationError ''Validation failed. errors''"

definition validateObject :: "('a \<Rightarrow> bool) \<Rightarrow> 'a \<Rightarrow> js_error + unit" where
  "validateObject valid obj = (if valid obj then Inr () else Inl validation_failed)"

text \<open>The method a class decorated with \<open>@ValidateMembers()\<close> really has.\<close>

definition validated_call :: "('a \<Rightarrow> bool) \<Rightarrow> ('a \<Rightarrow> 'b) \<Rightarrow> 'a \<Rightarrow> js_error + 'b" where
  "validated_call valid fn self = (if valid self then Inr (fn self) else Inl validation_failed)"

text \<open>
  The setter it installs: the value is stored first, then the whole object is validated and only
  an error of the assigned property is thrown.
\<close>

definition validated_set :: "('s \<Rightarrow> 's) \<Rightarrow> ('s \<Rightarrow> bool) \<Rightarrow> ('s, js_error, unit) eff" where
  "validated_set store prop_ok = bindE (modifyE store)
     (\<lambda>_. bindE (getE prop_ok) (\<lambda>ok. if ok then retE () else throwE validation_failed))"

definition validateHexSeed :: "string \<Rightarrow> nat \<Rightarrow> js_error + bool" where
  "validateHexSeed seed len =
     (if length seed = len * 2 \<and> list_all is_hex_digit seed then Inr True
      else Inl (ValidationError (''Invalid seed. It should be a '' @ show_nat len
             @ ''-character hexadecimal string.'')))"

definition IsAlphanumericExpectUnderscore :: "string \<Rightarrow> bool" where
  "IsAlphanumericExpectUnderscore value =
     list_all (\<lambda>c. is_alpha c \<or> is_digit c \<or> c = CHR ''_'') value"

subsection \<open>Facts\<close>

lemma list_all_append_valid [simp]:
  "valid_SignatureRequirement (r\<lparr>rq_signatures := xs @ ys\<rparr>) \<longleftrightarrow>
     valid_SignatureRequirement (r\<lparr>rq_signatures := xs\<rparr>) \<and> list_all valid_Signature ys"
  by (auto simp: valid_SignatureRequirement_def)

lemma to_hex_nonempty: "bs \<noteq> [] \<Longrightarrow> not_empty (to_hex bs)"
  by (metis length_greater_0_conv length_to_hex mult_is_0 neq0_conv not_empty_def numeral_eq_iff
      zero_neq_numeral)

lemma resign_valid:
  "list_all valid_Signature ss \<Longrightarrow> not_empty hx \<Longrightarrow> list_all valid_Signature (map (resign t hx k) ss)"
  by (induction ss) (auto simp: resign_def valid_Signature_def)

text \<open>
  Signing keeps a valid deployment valid.
\<close>

theorem sign_keeps_valid:
  assumes "valid_Deployment rc d" and "1 \<le> t" and "\<And>bs'. ring m k bs' = Inr bs \<Longrightarrow> bs \<noteq> []"
    and "ring m k (from_hex (challenge_hash md5 d)) = Inr bs"
  shows "\<exists>d'. sign md5 ring t m k [] d = Inr d' \<and> valid_Deployment rc d'"
proof -
  have "not_empty (to_hex bs)" using assms(3,4) by (auto intro: to_hex_nonempty)
  moreover have "sign md5 ring t m k [] d = Inr (add_signature t (to_hex bs) k d)"
    using assms(4) by (simp add: sign_def Let_def)
  ultimately show ?thesis using assms(1,2)
    by (auto simp: valid_Deployment_def add_signature_def Let_def valid_SignatureRequirement_def
        valid_Signature_def resign_valid)
qed

lemma validateHexSeed_Inr:
  "validateHexSeed seed len = Inr b \<longleftrightarrow> b \<and> length seed = len * 2 \<and> list_all is_hex_digit seed"
  by (auto simp: validateHexSeed_def)

lemma hex_digits_to_hex: "list_all is_hex_digit (to_hex bs)"
  by (induction bs) (simp_all add: to_hex_def hex_char_props nibble_bounds)

lemma validateHexSeed_to_hex: "length bs = len \<Longrightarrow> validateHexSeed (to_hex bs) len = Inr True"
  by (simp add: validateHexSeed_Inr hex_digits_to_hex)

end
