(* ===== verification/Query.thy ===== *)
theory Query
  imports ZosValid
begin

text \<open>
  Query strings of the proxy and graph requests: \<open>convertObjectToQueryString\<close> of
  \<open>grid_client/src/helpers/utils.ts\<close> over JavaScript values, with \<open>encodeURIComponent\<close> written
  out for strings whose characters are below 256.
\<close>

datatype js_value = JUndef | JStr string | JNum int | JBool bool | JArr "js_value list"

text \<open>\<open>String(v)\<close>: an array is its elements joined by commas, \<open>undefined\<close> inside it is empty.\<close>

fun js_string :: "js_value \<Rightarrow> string" where
  "js_string JUndef = ''undefined''"
| "js_string (JStr s) = s"
| "js_string (JNum n) = show_int n"
| "js_string (JBool b) = show_bool b"
| "js_string (JArr vs) =
     join_with '','' (map (\<lambda>v. case v of JUndef \<Rightarrow> [] | _ \<Rightarrow> js_string v) vs)"

definition upper_hex :: "nat \<Rightarrow> char" where
  "upper_hex n = (if n < 10 then char_of (48 + n) else char_of (55 + n))"

definition percent :: "nat \<Rightarrow> string" where
  "percent n = [CHR ''%'', upper_hex (n div 16), upper_hex (n mod 16)]"

definition unreserved :: "char \<Rightarrow> bool" where
  "unreserved c \<longleftrightarrow> is_alpha c \<or> is_digit c \<or> c \<in> set ''-_.!~*()'' \<or> c = apos"

definition encode_char :: "char \<Rightarrow> string" where
  "encode_char c = (let n = (of_char c :: nat) in
     if unreserved c then [c]
     else if n < 128 then percent n
     else percent (192 + n div 64) @ percent (128 + n mod 64))"

definition encodeURIComponent :: "string \<Rightarrow> string" where
  "encodeURIComponent s = concat (map encode_char s)"

definition kept_params :: "(string \<times> js_value) list \<Rightarrow> (string \<times> js_value) list" where
  "kept_params ob = filter (\<lambda>(k, v). v \<noteq> JUndef \<and> v \<noteq> JStr []) ob"

text \<open>The parameter names are never array indices, so \<open>Object.entries\<close> is the insertion order.\<close>

definition convertObjectToQueryString :: "(string \<times> js_value) list \<Rightarrow> string" where
  "convertObjectToQueryString ob =
     join_with ''&'' (map (\<lambda>(k, v). encodeURIComponent k @ ''='' @ encodeURIComponent (js_string v))
                        (kept_params ob))"

subsection \<open>Facts\<close>

lemma upper_hex_plain:
  "n < 16 \<Longrightarrow> upper_hex n \<noteq> CHR ''&'' \<and> upper_hex n \<noteq> CHR ''='' \<and> upper_hex n \<noteq> CHR ''%''"
proof -
  assume n: "n < 16"
  have v: "of_char (upper_hex n) = (if n < 10 then 48 + n else 55 + n)"
    using n by (simp add: upper_hex_def)
  have "upper_hex n \<noteq> c" if "of_char c = (k :: nat)" "k < 48" for c k
    using v that by (auto split: if_splits)
  from this [of "CHR ''&''" 38] this [of "CHR ''%''" 37]
  have "upper_hex n \<noteq> CHR ''&''" "upper_hex n \<noteq> CHR ''%''" by simp_all
  moreover have "upper_hex n \<noteq> CHR ''=''"
  proof
    assume "upper_hex n = CHR ''=''"
    with v have "(if n < 10 then 48 + n else 55 + n) = (61::nat)" by simp
    with n show False by (auto split: if_splits)
  qed
  ultimately show ?thesis by simp
qed

lemma percent_plain:
  assumes "n < 256"
  shows "CHR ''&'' \<notin> set (percent n)" "CHR ''='' \<notin> set (percent n)"
proof -
  have "n div 16 < 16" "n mod 16 < 16" using assms by auto
  then show "CHR ''&'' \<notin> set (percent n)" "CHR ''='' \<notin> set (percent n)"
    using upper_hex_plain [of "n div 16"] upper_hex_plain [of "n mod 16"]
    by (auto simp: percent_def)
qed

lemma encode_char_plain: "CHR ''&'' \<notin> set (encode_char c)" "CHR ''='' \<notin> set (encode_char c)"
proof -
  have n: "(of_char c :: nat) < 256" by simp
  have d: "192 + m div 64 < 256" if "m < 256" for m :: nat
    using less_mult_imp_div_less [of m 4 64] that by simp
  have m: "128 + m mod 64 < 256" for m :: nat
    using mod_less_divisor [of 64 m] by simp
  have b: "192 + (of_char c :: nat) div 64 < 256" "128 + (of_char c :: nat) mod 64 < 256"
    by (rule d [OF n], rule m)
  have u: "\<not> unreserved (CHR ''&'')" "\<not> unreserved (CHR ''='')"
    by (simp_all add: unreserved_def is_alpha_def is_digit_def)
  show "CHR ''&'' \<notin> set (encode_char c)" "CHR ''='' \<notin> set (encode_char c)"
    using u percent_plain [of "of_char c"] percent_plain [OF b(1)] percent_plain [OF b(2)] n
    by (auto simp: encode_char_def Let_def)
qed

lemma encodeURIComponent_plain:
  "CHR ''&'' \<notin> set (encodeURIComponent s)" "CHR ''='' \<notin> set (encodeURIComponent s)"
  by (auto simp: encodeURIComponent_def encode_char_plain)

lemma split_query_param:
  "split_on (CHR ''='') (encodeURIComponent k @ ''='' @ encodeURIComponent v)
     = [encodeURIComponent k, encodeURIComponent v]"
  by (simp add: split_on_sep split_on_no_sep encodeURIComponent_plain)

text \<open>
  A query string splits back into the encoded names and values of the parameters that are
  set.
\<close>

theorem query_string_splits_back:
  assumes "kept_params ob \<noteq> []"
  shows "map (split_on (CHR ''='')) (split_on (CHR ''&'') (convertObjectToQueryString ob))
     = map (\<lambda>(k, v). [encodeURIComponent k, encodeURIComponent (js_string v)]) (kept_params ob)"
proof -
  let ?f = "\<lambda>(k, v). encodeURIComponent k @ ''='' @ encodeURIComponent (js_string v)"
  have "split_on (CHR ''&'') (convertObjectToQueryString ob) = map ?f (kept_params ob)"
    unfolding convertObjectToQueryString_def
    by (rule split_on_join) (use assms in \<open>auto simp: encodeURIComponent_plain\<close>)
  then show ?thesis
    using split_query_param by (auto simp: case_prod_beta comp_def)
qed

lemma kept_params_append [simp]: "kept_params (xs @ ys) = kept_params xs @ kept_params ys"
  by (simp add: kept_params_def)

lemma kept_params_Cons:
  "kept_params ((k, v) # ob) = (if v = JUndef \<or> v = JStr [] then kept_params ob else (k, v) # kept_params ob)"
  by (auto simp: kept_params_def)

lemma kept_params_Nil [simp]: "kept_params [] = []"
  by (simp add: kept_params_def)

end
