(* ===== verification/Nodes.thy ===== *)
theory Nodes
  imports Query
begin

text \<open>
  \<open>grid_client/src/primitives/nodes.ts\<close>: what the client knows of nodes and farms, the queries it
  sends, the resource and availability checks, and the fitting of disks into the storage pools of
  a node.  The graph database, the grid proxy, the chain and the node itself are the fields of
  \<open>grid_api\<close>: each answers a request with a value or an error.
\<close>

subsection \<open>Data\<close>

record NodeResources =
  r_cru :: int
  r_sru :: int
  r_hru :: int
  r_mru :: int
  r_ipv4u :: int

record PublicIps =
  pi_id :: string
  pi_ip :: string
  pi_contract_id :: int
  pi_gateway :: string

record FarmInfo =
  fi_name :: string
  fi_farmId :: int
  fi_twinId :: int
  fi_pricingPolicyId :: int
  fi_certificationType :: string
  fi_stellarAddress :: string
  fi_dedicated :: bool
  fi_publicIps :: "PublicIps list"

record PublicConfig =
  pc_domain :: string
  pc_gw4 :: string
  pc_gw6 :: string
  pc_ipv4 :: string
  pc_ipv6 :: string

text \<open>The members of \<open>Features\<close> and \<open>NodeStatus\<close> with their values.\<close>

datatype Features = Ft_ipv4 | Ft_ip | Ft_mycelium | Ft_wireguard | Ft_yggdrasil
  | Ft_gatewayfqdnproxy | Ft_gatewaynameproxy | Ft_zmachine | Ft_zmount | Ft_volume | Ft_network
  | Ft_zdb | Ft_qsfs | Ft_zlogs | Ft_networklight | Ft_zmachinelight

fun feature_name :: "Features \<Rightarrow> string" where
  "feature_name Ft_ipv4 = ''ipv4''"
| "feature_name Ft_ip = ''ip''"
| "feature_name Ft_mycelium = ''mycelium''"
| "feature_name Ft_wireguard = ''wireguard''"
| "feature_name Ft_yggdrasil = ''yggdrasil''"
| "feature_name Ft_gatewayfqdnproxy = ''gateway-fqdn-proxy''"
| "feature_name Ft_gatewaynameproxy = ''gateway-name-proxy''"
| "feature_name Ft_zmachine = ''zmachine''"
| "feature_name Ft_zmount = ''zmount''"
| "feature_name Ft_volume = ''volume''"
| "feature_name Ft_network = ''network''"
| "feature_name Ft_zdb = ''zdb''"
| "feature_name Ft_qsfs = ''qsfs''"
| "feature_name Ft_zlogs = ''zlogs''"
| "feature_name Ft_networklight = ''network-light''"
| "feature_name Ft_zmachinelight = ''zmachine-light''"

datatype NodeStatus = St_up | St_down | St_standBy

fun status_name :: "NodeStatus \<Rightarrow> string" where
  "status_name St_up = ''up''"
| "status_name St_down = ''down''"
| "status_name St_standBy = ''standby''"

record NodeInfo =
  ni_version :: int
  ni_id :: string
  ni_nodeId :: int
  ni_farmId :: int
  ni_farmName :: string
  ni_twinId :: int
  ni_gridVersion :: int
  ni_uptime :: int
  ni_created :: int
  ni_farmingPolicyId :: int
  ni_inDedicatedFarm :: bool
  ni_updatedAt :: string
  ni_total_resources :: NodeResources
  ni_used_resources :: NodeResources
  ni_country :: string
  ni_city :: string
  ni_publicConfig :: PublicConfig
  ni_status :: string
  ni_certificationType :: string
  ni_dedicated :: bool
  ni_hasGPU :: bool
  ni_extraFee :: int
  ni_rentedByTwinId :: int
  ni_rentContractId :: int
  ni_serialNumber :: "string option"
  ni_healthy :: bool
  ni_rentable :: bool
  ni_rented :: bool
  ni_price_usd :: rat
  ni_features :: "Features list"

record capacity_pair =
  cap_total :: NodeResources
  cap_used :: NodeResources

datatype DiskTypes = SSD | HDD

record StoragePool =
  sp_type :: DiskTypes
  sp_size :: int
  sp_used :: int

text \<open>An absent option is \<open>None\<close>.\<close>

record FilterOptions =
  fo_cru :: "int option"
  fo_mru :: "rat option"
  fo_sru :: "rat option"
  fo_hru :: "rat option"
  fo_publicIPs :: "bool option"
  fo_hasIPv6 :: "bool option"
  fo_accessNodeV4 :: "bool option"
  fo_accessNodeV6 :: "bool option"
  fo_gateway :: "bool option"
  fo_certified :: "bool option"
  fo_nodeExclude :: "int list option"
  fo_farmIds :: "int list option"
  fo_farmId :: "int option"
  fo_farmName :: "string option"
  fo_country :: "string option"
  fo_city :: "string option"
  fo_dedicated :: "bool option"
  fo_availableFor :: "int option"
  fo_page :: "int option"
  fo_size :: "int option"
  fo_hasGPU :: "bool option"
  fo_rentable :: "bool option"
  fo_rentedBy :: "int option"
  fo_randomize :: "bool option"
  fo_ret_count :: "bool option"
  fo_status :: "NodeStatus option"
  fo_region :: "string option"
  fo_healthy :: "bool option"
  fo_rentableOrRentedBy :: "int option"
  fo_planetary :: "bool option"
  fo_mycelium :: "bool option"
  fo_wireguard :: "bool option"
  fo_features :: "Features list option"

record FarmFilterOptions =
  ff_nodeCRU :: "int option"
  ff_nodeMRU :: "rat option"
  ff_nodeSRU :: "rat option"
  ff_nodeHRU :: "rat option"
  ff_publicIp :: "bool option"
  ff_nodeHasIPv6 :: "bool option"
  ff_certificationType :: "string option"
  ff_farmName :: "string option"
  ff_country :: "string option"
  ff_dedicated :: "bool option"
  ff_nodeCertified :: "bool option"
  ff_availableFor :: "int option"
  ff_nodeHasGPU :: "bool option"
  ff_nodeRentedBy :: "int option"
  ff_page :: "int option"
  ff_size :: "int option"
  ff_ownedBy :: "int option"
  ff_farmId :: "int option"
  ff_randomize :: "bool option"
  ff_ret_count :: "bool option"
  ff_region :: "string option"

text \<open>
  A contract of the chain (\<open>tfchain_client/src/contracts.ts\<close>): its state is created, or in grace
  since a block, or deleted; its type carries exactly one of three payloads.
\<close>

datatype ContractState = CS_created | CS_gracePeriod int | CS_deleted

record NodeContract =
  nc_nodeId :: int
  nc_deploymentHash :: string
  nc_deploymentData :: string
  nc_publicIps :: int

datatype ContractType = CT_name string | CT_node NodeContract | CT_rent int

record Contract =
  ct_version :: int
  ct_state :: ContractState
  ct_contractId :: int
  ct_twinId :: int
  ct_type :: ContractType
  ct_solutionProviderId :: int

record grid_api =
  gql_node_twins :: "int \<Rightarrow> js_error + int list"
  gql_count :: "string \<Rightarrow> string \<Rightarrow> js_error + int"
  http_nodes :: "string \<Rightarrow> js_error + NodeInfo list"
  http_farms :: "string \<Rightarrow> js_error + FarmInfo list"
  http_node_capacity :: "int \<Rightarrow> js_error + capacity_pair"
  http_node_by_id :: "int \<Rightarrow> js_error + NodeInfo"
  http_count :: "string \<Rightarrow> js_error + int"
  rmb_statistics :: "int \<Rightarrow> js_error + capacity_pair"
  rmb_pools :: "int \<Rightarrow> js_error + StoragePool list"
  chain_contract :: "int \<Rightarrow> js_error + Contract option"

text \<open>Catching only to prefix the message.\<close>

definition prefixing :: "string \<Rightarrow> js_error + 'a \<Rightarrow> js_error + 'a" where
  "prefixing msg r = (case r of Inl e \<Rightarrow> Inl (with_prefix msg e) | Inr x \<Rightarrow> Inr x)"

subsection \<open>Lookups\<close>

definition getNodeTwinId :: "grid_api \<Rightarrow> int \<Rightarrow> js_error + int" where
  "getNodeTwinId api node_id = prefixing (''Error getting node twin ID for ID '' @ show_int node_id)
     (bindR (gql_node_twins api node_id) (\<lambda>twins. case twins of
        [] \<Rightarrow> Inl (ValidationError (''Couldn'' @ apos # ''t find a node with id: '' @ show_int node_id @ ''.''))
      | t # _ \<Rightarrow> Inr t))"

definition getNodeIdFromContractId :: "grid_api \<Rightarrow> int \<Rightarrow> js_error + int" where
  "getNodeIdFromContractId api contractId =
     (let wrap = (\<lambda>e. TFChainError_msg (''Error getting node ID from contract ID ''
                        @ show_int contractId @ '': '' @ error_to_string e))
      in case chain_contract api contractId of
           Inl e \<Rightarrow> Inl (wrap e)
         | Inr None \<Rightarrow> Inl (wrap TypeError)
         | Inr (Some c) \<Rightarrow> (case ct_type c of
               CT_name _ \<Rightarrow> Inl (wrap (ValidationError (''Couldn'' @ apos # ''t get node id for this contract ''
                             @ show_int contractId @ ''. It'' @ apos # ''s a name contract.'')))
             | CT_node n \<Rightarrow> Inr (nc_nodeId n)
             | CT_rent n \<Rightarrow> Inr n))"

definition g2b :: "rat \<Rightarrow> rat" where
  "g2b g = g * 1024 ^ 3"

definition getAllFarms :: "grid_api \<Rightarrow> js_error + FarmInfo list" where
  "getAllFarms api = prefixing ''Error listing all farms''
     (bindR (gql_count api ''farms'' ''(orderBy: farmID_ASC)'') (\<lambda>n.
        prefixing (''Error listing farms with page 1 and size '' @ show_int n)
          (http_farms api (''/farms?page=1&size='' @ show_int n))))"

definition checkFarmHasFreePublicIps :: "grid_api \<Rightarrow> int \<Rightarrow> FarmInfo list option \<Rightarrow> js_error + bool" where
  "checkFarmHasFreePublicIps api farmId farms =
     bindR (case farms of None \<Rightarrow> getAllFarms api | Some fs \<Rightarrow> Inr fs) (\<lambda>fs.
       Inr (farmId \<in> set (map fi_farmId
              (filter (\<lambda>f. filter (\<lambda>ip. pi_contract_id ip = 0) (fi_publicIps f) \<noteq> []) fs))))"

definition getAllNodes :: "grid_api \<Rightarrow> js_error + NodeInfo list" where
  "getAllNodes api = prefixing ''Error listing all nodes''
     (bindR (gql_count api ''nodes'' ''(orderBy: nodeID_ASC)'') (\<lambda>n.
        prefixing (''Error listing nodes with page 1 and size '' @ show_int n)
          (http_nodes api (''/nodes?page=1&size='' @ show_int n))))"

definition getNodesByFarmId :: "grid_api \<Rightarrow> int \<Rightarrow> js_error + NodeInfo list" where
  "getNodesByFarmId api farmId =
     bindR (prefixing ''Error getting total nodes count''
              (gql_count api ''nodes'' (''(where: {farmID_eq: '' @ show_int farmId @ ''}, orderBy: nodeID_ASC)'')))
       (\<lambda>n. prefixing (''Error getting nodes by farm ID '' @ show_int farmId)
              (http_nodes api (''/nodes?farm_id='' @ show_int farmId @ ''&size='' @ show_int n)))"

definition getNode :: "grid_api \<Rightarrow> int \<Rightarrow> js_error + NodeInfo option" where
  "getNode api nodeId = prefixing (''Error getting node with ID '' @ show_int nodeId)
     (bindR (http_nodes api (''/nodes?node_id='' @ show_int nodeId))
       (\<lambda>ns. Inr (case ns of [] \<Rightarrow> None | n # _ \<Rightarrow> Some n)))"

definition free_resources :: "capacity_pair \<Rightarrow> NodeResources" where
  "free_resources c =
     \<lparr>r_cru = r_cru (cap_total c), r_sru = r_sru (cap_total c) - r_sru (cap_used c),
      r_hru = r_hru (cap_total c) - r_hru (cap_used c),
      r_mru = r_mru (cap_total c) - r_mru (cap_used c), r_ipv4u = 0\<rparr>"

datatype resource_source = From_proxy | From_zos

definition getNodeFreeResources :: "grid_api \<Rightarrow> int \<Rightarrow> resource_source \<Rightarrow> js_error + NodeResources" where
  "getNodeFreeResources api nodeId source = (case source of
     From_zos \<Rightarrow> bindR (getNodeTwinId api nodeId) (\<lambda>twin.
        prefixing (''Error getting node '' @ show_int nodeId)
          (bindR (rmb_statistics api twin) (\<lambda>c. Inr (free_resources c))))
   | From_proxy \<Rightarrow> (case http_node_capacity api nodeId of
        Inr c \<Rightarrow> Inr (free_resources c)
      | Inl e \<Rightarrow>
          if err_class e = C_Generic G_RequestError \<and> err_status e = Some 404
          then Inl (ValidationError (''Node: '' @ show_int nodeId @ '' is not found''))
          else if is_base_error e
          then Inl (with_prefix (''Couldn'' @ apos # ''t get Node with ID '' @ show_int nodeId @ ''.'') e)
          else Inl (GridClientError (''Couldn'' @ apos # ''t get Node with ID '' @ show_int nodeId @ '' due to ''
                      @ error_to_string e))))"

definition getFarmIdFromFarmName :: "grid_api \<Rightarrow> string \<Rightarrow> FarmInfo list option \<Rightarrow> js_error + int" where
  "getFarmIdFromFarmName api name farms =
     bindR (case farms of None \<Rightarrow> getAllFarms api | Some fs \<Rightarrow> Inr fs) (\<lambda>fs.
       Inr (case filter (\<lambda>f. to_lower (fi_name f) = to_lower name) fs of
              [] \<Rightarrow> 0 | f # _ \<Rightarrow> fi_farmId f))"

subsection \<open>Queries\<close>

definition truthy :: "bool option \<Rightarrow> bool" where
  "truthy b \<longleftrightarrow> b = Some True"

definition getFeaturesFromFilters :: "FilterOptions \<Rightarrow> Features list" where
  "getFeaturesFromFilters opts =
     (let s0 = js_dedup (case fo_features opts of None \<Rightarrow> [] | Some fs \<Rightarrow> fs);
          s1 = (if truthy (fo_publicIPs opts) then add_new Ft_ip (add_new Ft_ipv4 s0) else s0);
          s2 = (if truthy (fo_hasIPv6 opts) then add_new Ft_ip s1 else s1);
          s3 = (if truthy (fo_wireguard opts) then add_new Ft_wireguard s2 else s2);
          s4 = (if truthy (fo_mycelium opts) then add_new Ft_mycelium s3 else s3);
          s5 = (if truthy (fo_planetary opts) then add_new Ft_yggdrasil s4 else s4);
          s6 = (if truthy (fo_gateway opts)
                then add_new Ft_gatewaynameproxy (add_new Ft_gatewayfqdnproxy s5) else s5)
      in s6)"

text \<open>
  How an option appears as a parameter: \<open>or_empty\<close> is \<open>x || ""\<close>, \<open>ceil_bytes\<close> is
  \<open>Math.ceil(this._g2b(x)) || ""\<close> (an absent size gives \<open>NaN\<close>, which is falsy).
\<close>

definition or_empty :: "int option \<Rightarrow> js_value" where
  "or_empty x = (case x of Some n \<Rightarrow> if n = 0 then JStr [] else JNum n | None \<Rightarrow> JStr [])"

definition ceil_bytes :: "rat option \<Rightarrow> js_value" where
  "ceil_bytes x = (case x of None \<Rightarrow> JStr [] | Some g \<Rightarrow>
     (let n = \<lceil>g2b g\<rceil> in if n = 0 then JStr [] else JNum n))"

definition jbool :: "bool option \<Rightarrow> js_value" where
  "jbool b = (case b of None \<Rightarrow> JUndef | Some x \<Rightarrow> JBool x)"

definition jint :: "int option \<Rightarrow> js_value" where
  "jint n = (case n of None \<Rightarrow> JUndef | Some x \<Rightarrow> JNum x)"

definition jstr :: "string option \<Rightarrow> js_value" where
  "jstr s = (case s of None \<Rightarrow> JUndef | Some x \<Rightarrow> JStr x)"

definition nonzero :: "int option \<Rightarrow> bool" where
  "nonzero n \<longleftrightarrow> (case n of Some x \<Rightarrow> x \<noteq> 0 | None \<Rightarrow> False)"

definition node_params :: "FilterOptions \<Rightarrow> (string \<times> js_value) list" where
  "node_params o' =
    (let params = [
       (''total_cru'', or_empty (fo_cru o')),
       (''free_mru'', ceil_bytes (fo_mru o')),
       (''free_sru'', ceil_bytes (fo_sru o')),
       (''free_hru'', ceil_bytes (fo_hru o')),
       (''free_ips'', if truthy (fo_publicIPs o') then JNum 1 else JStr []),
       (''ipv4'', jbool (fo_accessNodeV4 o')),
       (''ipv6'', jbool (fo_accessNodeV6 o')),
       (''has_ipv6'', jbool (fo_hasIPv6 o')),
       (''certification_type'', if truthy (fo_certified o') then JStr ''Certified'' else JStr []),
       (''farm_ids'', if nonzero (fo_farmId o') then JArr [jint (fo_farmId o')]
                     else (case fo_farmIds o' of None \<Rightarrow> JUndef | Some ids \<Rightarrow> JArr (map JNum ids))),
       (''farm_name'', jstr (fo_farmName o')),
       (''country'', jstr (fo_country o')),
       (''city'', jstr (fo_city o')),
       (''dedicated'', jbool (fo_dedicated o')),
       (''available_for'', jint (fo_availableFor o')),
       (''status'', JStr (status_name (case fo_status o' of Some s \<Rightarrow> s | None \<Rightarrow> St_up))),
       (''page'', jint (fo_page o')),
       (''size'', jint (fo_size o')),
       (''has_gpu'', jbool (fo_hasGPU o')),
       (''rented_by'', jint (fo_rentedBy o')),
       (''rentable'', jbool (fo_rentable o')),
       (''randomize'', jbool (fo_randomize o')),
       (''ret_count'', jbool (fo_ret_count o')),
       (''region'', jstr (fo_region o')),
       (''healthy'', jbool (fo_healthy o')),
       (''sort_by'', JStr ''free_cru''),
       (''sort_order'', JStr ''desc''),
       (''rentable_or_rented_by'', jint (fo_rentableOrRentedBy o')),
       (''features'', case fo_features o' of None \<Rightarrow> JUndef
                     | Some fs \<Rightarrow> JArr (map (\<lambda>f. JStr (feature_name f)) fs))]
     in if truthy (fo_gateway o')
        then obj_set ''domain'' (JBool True) (obj_set ''ipv6'' (JBool True) (obj_set ''ipv4'' (JBool True) params))
        else params)"

definition getNodeUrlQuery :: "FilterOptions \<Rightarrow> string" where
  "getNodeUrlQuery opts = convertObjectToQueryString (node_params opts)"

definition farm_params :: "FarmFilterOptions \<Rightarrow> (string \<times> js_value) list" where
  "farm_params o' = [
       (''node_total_cru'', or_empty (ff_nodeCRU o')),
       (''node_free_mru'', ceil_bytes (ff_nodeMRU o')),
       (''node_free_sru'', ceil_bytes (ff_nodeSRU o')),
       (''node_free_hru'', ceil_bytes (ff_nodeHRU o')),
       (''free_ips'', if truthy (ff_publicIp o') then JNum 1 else JStr []),
       (''certification_type'', jstr (ff_certificationType o')),
       (''farm_name'', jstr (ff_farmName o')),
       (''country'', jstr (ff_country o')),
       (''dedicated'', jbool (ff_dedicated o')),
       (''node_available_for'', jint (ff_availableFor o')),
       (''node_has_ipv6'', jbool (ff_nodeHasIPv6 o')),
       (''node_status'', JStr ''up''),
       (''page'', jint (ff_page o')),
       (''size'', jint (ff_size o')),
       (''twin_id'', jint (ff_ownedBy o')),
       (''node_has_gpu'', jbool (ff_nodeHasGPU o')),
       (''node_rented_by'', jint (ff_nodeRentedBy o')),
       (''node_certified'', jbool (ff_nodeCertified o')),
       (''farm_id'', jint (ff_farmId o')),
       (''randomize'', jbool (ff_randomize o')),
       (''ret_count'', jbool (ff_ret_count o')),
       (''region'', jstr (ff_region o'))]"

definition getFarmUrlQuery :: "FarmFilterOptions \<Rightarrow> string" where
  "getFarmUrlQuery opts = convertObjectToQueryString (farm_params opts)"

definition filterNodes :: "grid_api \<Rightarrow> FilterOptions \<Rightarrow> js_error + NodeInfo list" where
  "filterNodes api opts =
     (let opts' = opts\<lparr>fo_features := Some (getFeaturesFromFilters opts)\<rparr>
      in bindR (http_nodes api (''/nodes?'' @ getNodeUrlQuery opts')) (\<lambda>nodes.
           Inr (filter (\<lambda>n. \<not> (case fo_nodeExclude opts' of None \<Rightarrow> False
                               | Some ex \<Rightarrow> ni_nodeId n \<in> set ex)) nodes)))"

definition filterFarms :: "grid_api \<Rightarrow> FarmFilterOptions \<Rightarrow> js_error + FarmInfo list" where
  "filterFarms api opts = http_farms api (''/farms?'' @ getFarmUrlQuery opts)"

definition getFarmsCount :: "grid_api \<Rightarrow> FarmFilterOptions \<Rightarrow> js_error + int" where
  "getFarmsCount api opts = http_count api
     (''/farms?'' @ getFarmUrlQuery (opts\<lparr>ff_ret_count := Some True, ff_page := Some 1\<rparr>))"

definition getNodesCount :: "grid_api \<Rightarrow> FilterOptions \<Rightarrow> js_error + int" where
  "getNodesCount api opts = http_count api
     (''/nodes?'' @ getNodeUrlQuery (opts\<lparr>fo_ret_count := Some True, fo_page := Some 1\<rparr>))"

subsection \<open>Access nodes\<close>

record access_config =
  ac_ipv4 :: string
  ac_ipv6 :: string
  ac_domain :: string

definition empty_filter :: FilterOptions where
  "empty_filter = \<lparr>fo_cru = None, fo_mru = None, fo_sru = None, fo_hru = None, fo_publicIPs = None,
     fo_hasIPv6 = None, fo_accessNodeV4 = None, fo_accessNodeV6 = None, fo_gateway = None,
     fo_certified = None, fo_nodeExclude = None, fo_farmIds = None, fo_farmId = None,
     fo_farmName = None, fo_country = None, fo_city = None, fo_dedicated = None,
     fo_availableFor = None, fo_page = None, fo_size = None, fo_hasGPU = None, fo_rentable = None,
     fo_rentedBy = None, fo_randomize = None, fo_ret_count = None, fo_status = None,
     fo_region = None, fo_healthy = None, fo_rentableOrRentedBy = None, fo_planetary = None,
     fo_mycelium = None, fo_wireguard = None, fo_features = None\<rparr>"

definition access_filter :: "int option \<Rightarrow> int \<Rightarrow> FilterOptions" where
  "access_filter availableFor page = empty_filter\<lparr>fo_accessNodeV4 := Some True,
     fo_accessNodeV6 := Some True, fo_availableFor := availableFor, fo_page := Some page\<rparr>"

text \<open>
  \<open>PrivateIp\<close> is the package \<open>private-ip\<close>: \<open>None\<close> stands for its answer on a string that is no
  address.  Keys of the result are node ids.
\<close>

definition add_access_node ::
  "(string \<Rightarrow> bool option) \<Rightarrow> NodeInfo \<Rightarrow> (int \<times> access_config) list \<Rightarrow> (int \<times> access_config) list"
where
  "add_access_node private_ip n acc =
     (let c = ni_publicConfig n
      in if private_ip (before_char (CHR ''/'') (pc_ipv4 c)) = Some False
         then obj_set (ni_nodeId n) \<lparr>ac_ipv4 = pc_ipv4 c, ac_ipv6 = pc_ipv6 c, ac_domain = pc_domain c\<rparr> acc
         else acc)"

text \<open>The pages are requested until one is empty; \<open>None\<close> is a request sequence that never ends.\<close>

fun access_pages ::
  "grid_api \<Rightarrow> (string \<Rightarrow> bool option) \<Rightarrow> int option \<Rightarrow> nat \<Rightarrow> int \<Rightarrow> (int \<times> access_config) list
   \<Rightarrow> (js_error + (int \<times> access_config) list) option"
where
  "access_pages api private_ip availableFor 0 page acc = None"
| "access_pages api private_ip availableFor (Suc fuel) page acc =
     (case filterNodes api (access_filter availableFor page) of
        Inl e \<Rightarrow> Some (Inl e)
      | Inr nodes \<Rightarrow>
          let acc' = fold (add_access_node private_ip) nodes acc
          in if nodes = [] then Some (Inr acc')
             else access_pages api private_ip availableFor fuel (page + 1) acc')"

definition getAccessNodes ::
  "grid_api \<Rightarrow> (string \<Rightarrow> bool option) \<Rightarrow> nat \<Rightarrow> int option \<Rightarrow> (js_error + (int \<times> access_config) list) option"
where
  "getAccessNodes api private_ip fuel availableFor =
     map_option (\<lambda>r. bindR r (\<lambda>acc. if acc = []
        then Inl (TFGridNodesError N_InvalidResources (''Couldn'' @ apos # ''t find any node with public config.''))
        else Inr (sort_key fst acc)))
       (access_pages api private_ip availableFor fuel 1 [])"

subsection \<open>Resources and availability\<close>

definition short_of :: "rat option \<Rightarrow> int \<Rightarrow> bool" where
  "short_of wanted free \<longleftrightarrow> (case wanted of None \<Rightarrow> False
     | Some w \<Rightarrow> w \<noteq> 0 \<and> 0 < w \<and> of_int free < g2b w)"

definition enough_resources :: "NodeResources \<Rightarrow> FilterOptions \<Rightarrow> bool" where
  "enough_resources free opts \<longleftrightarrow>
     \<not> (short_of (fo_mru opts) (r_mru free) \<or> short_of (fo_sru opts) (r_sru free)
        \<or> short_of (fo_hru opts) (r_hru free))"

definition nodeHasResources :: "grid_api \<Rightarrow> int \<Rightarrow> FilterOptions \<Rightarrow> js_error + bool" where
  "nodeHasResources api nodeId opts =
     bindR (getNodeFreeResources api nodeId From_zos) (\<lambda>free. Inr (enough_resources free opts))"

definition nodeAvailableForTwinId :: "grid_api \<Rightarrow> int \<Rightarrow> int \<Rightarrow> js_error + bool" where
  "nodeAvailableForTwinId api nodeId twinId =
     prefixing (''Error checking if node '' @ show_int nodeId @ '' is available for twin '' @ show_int twinId)
       (bindR (http_node_by_id api nodeId) (\<lambda>n.
          Inr (\<not> (ni_rentedByTwinId n \<noteq> twinId \<and> (ni_inDedicatedFarm n \<or> ni_rentContractId n \<noteq> 0)))))"

subsection \<open>Disks into storage pools\<close>

fun allocateDiskToPools :: "rat list \<Rightarrow> rat \<Rightarrow> bool \<times> rat list" where
  "allocateDiskToPools [] disk = (False, [])"
| "allocateDiskToPools (p # ps) disk =
     (if p \<ge> disk then (True, (p - disk) # ps)
      else let (ok, ps') = allocateDiskToPools ps disk in (ok, p # ps'))"

definition sortArrayDesc :: "rat list \<Rightarrow> rat list" where
  "sortArrayDesc = sort_key uminus"

text \<open>\<open>(n / 1024 ** 3).toFixed(2)\<close>: the hundredths nearest to the value, ties upwards.\<close>

definition to_fixed2_gb :: "rat \<Rightarrow> string" where
  "to_fixed2_gb n =
     (let m = \<bar>n\<bar>; h = nat \<lfloor>(200 * m + 1024 ^ 3) / (2 * 1024 ^ 3)\<rfloor>;
          s = show_nat (h div 100) @ ''.'' @ [digit_char (h mod 100 div 10), digit_char (h mod 10)]
      in if n < 0 then ''-'' @ s else s)"

definition disk_type_upper :: "DiskTypes \<Rightarrow> string" where
  "disk_type_upper t = (case t of SSD \<Rightarrow> ''SSD'' | HDD \<Rightarrow> ''HDD'')"

text \<open>The pools are changed in place: what was allocated before a failure stays allocated.\<close>

definition fitDisk :: "DiskTypes \<Rightarrow> rat \<Rightarrow> (rat list, js_error, unit) eff" where
  "fitDisk type disk = (\<lambda>pools. case allocateDiskToPools pools disk of
      (False, pools') \<Rightarrow> (Inl (plain_error C_Error (''Cannot fit the required '' @ disk_type_upper type
                             @ '' disk with size '' @ to_fixed2_gb disk @ '' GB.'')), pools')
    | (True, pools') \<Rightarrow> (Inr (), sortArrayDesc pools'))"

definition fitDisksInDisksPool :: "rat list \<Rightarrow> DiskTypes \<Rightarrow> (rat list, js_error, unit) eff" where
  "fitDisksInDisksPool disks type = iterE (fitDisk type) disks"

definition pool_list :: "rat list \<Rightarrow> string" where
  "pool_list pools = join_with '','' (map (\<lambda>d. to_fixed2_gb d @ ''GB '') pools)"

definition disk_allocation_error :: "js_error \<Rightarrow> int \<Rightarrow> rat list \<Rightarrow> rat list \<Rightarrow> js_error" where
  "disk_allocation_error e nodeId ssdPools hddPools =
     (let nl = [newline]; pad = replicate 9 (CHR '' '') in
      TFGridNodesError N_DiskAllocation (err_message e @ '', on Node '' @ show_int nodeId
        @ '' with disk pools:'' @ nl @ pad @ ''SSD:  '' @ pool_list ssdPools @ '' '' @ nl @ pad
        @ ''HDD:  '' @ pool_list hddPools @ nl @ ''    Please select another Node.'' @ nl))"

text \<open>
  The state of the three fits is the pair of pool arrays.
\<close>

definition verify_fit :: "rat list \<Rightarrow> rat list \<Rightarrow> rat list \<Rightarrow> rat list \<Rightarrow> rat list \<Rightarrow> int \<Rightarrow> js_error + bool" where
  "verify_fit ssdDisks hddDisks rootDisks ssdPools hddPools nodeId =
     (case fitDisksInDisksPool ssdDisks SSD ssdPools of
        (Inl e, sp) \<Rightarrow> Inl (disk_allocation_error e nodeId sp hddPools)
      | (Inr _, sp) \<Rightarrow>
          (case fitDisksInDisksPool hddDisks HDD hddPools of
             (Inl e, hp) \<Rightarrow> Inl (disk_allocation_error e nodeId sp hp)
           | (Inr _, hp) \<Rightarrow>
               (case fitDisksInDisksPool rootDisks SSD sp of
                  (Inl e, sp') \<Rightarrow> Inl (disk_allocation_error e nodeId sp' hp)
                | (Inr _, _) \<Rightarrow> Inr True)))"

definition free_pools :: "DiskTypes \<Rightarrow> StoragePool list \<Rightarrow> rat list" where
  "free_pools t ds = map (\<lambda>d. of_int (sp_size d - sp_used d)) (filter (\<lambda>d. (sp_type d = SSD) = (t = SSD)) ds)"

definition verifyNodeStoragePoolCapacity ::
  "grid_api \<Rightarrow> rat list \<Rightarrow> rat list \<Rightarrow> rat list \<Rightarrow> int \<Rightarrow> js_error + bool"
where
  "verifyNodeStoragePoolCapacity api ssdDisks hddDisks rootDisks nodeId =
     bindR (prefixing (''Error getting node '' @ show_int nodeId)
              (bindR (getNodeTwinId api nodeId) (rmb_pools api))) (\<lambda>ds.
       verify_fit (sortArrayDesc ssdDisks) (sortArrayDesc hddDisks) (sortArrayDesc rootDisks)
         (sortArrayDesc (free_pools SSD ds)) (sortArrayDesc (free_pools HDD ds)) nodeId)"

end
