(* ===== verification/NodesFacts.thy ===== *)
theory NodesFacts
  imports Nodes
begin

text \<open>
  The node queries and checks: an accepted set of disks really fits into the pools, a refused disk
  is larger than every pool that is left, the resource check is exact in bytes, the access nodes
  that are collected are public, and a query names each parameter once.
\<close>

subsection \<open>Packing\<close>

text \<open>
  What \<open>fitDisksInDisksPool\<close> promises: the disks can be split into one group per pool such that
  no group exceeds its pool.
\<close>

definition packing :: "rat list \<Rightarrow> rat list \<Rightarrow> bool" where
  "packing pools disks \<longleftrightarrow> (\<exists>gs. mset (concat gs) = mset disks \<and> list_all2 (\<lambda>g p. sum_list g \<le> p) gs pools)"

lemma packing_Nil [simp]: "list_all (\<lambda>p. 0 \<le> p) pools \<Longrightarrow> packing pools []"
proof -
  assume "list_all (\<lambda>p. 0 \<le> p) pools"
  then have "list_all2 (\<lambda>g p. sum_list g \<le> p) (map (\<lambda>_. []) pools) pools"
    by (induction pools) simp_all
  moreover have "concat (map (\<lambda>_. []) pools) = []" by simp
  ultimately show ?thesis unfolding packing_def by (metis mset.simps(1))
qed

lemma packing_perm:
  assumes "mset pools = mset pools'" and "packing pools disks"
  shows "packing pools' disks"
proof -
  obtain gs where gs: "mset (concat gs) = mset disks" "list_all2 (\<lambda>g p. sum_list g \<le> p) gs pools"
    using assms(2) by (auto simp: packing_def)
  from gs(2) have "list_all2 (\<lambda>p g. sum_list g \<le> p) pools gs"
    by (simp add: list_all2_conv_all_nth)
  from list_all2_reorder_left_invariance [OF this assms(1) [symmetric]]
  obtain hs where hs: "list_all2 (\<lambda>p g. sum_list g \<le> p) pools' hs" "mset hs = mset gs"
    by blast
  then have "mset (concat hs) = mset (concat gs)"
    by (metis mset_concat mset_map sum_mset_sum_list)
  moreover have "list_all2 (\<lambda>g p. sum_list g \<le> p) hs pools'"
    using hs(1) by (simp add: list_all2_conv_all_nth)
  ultimately show ?thesis unfolding packing_def using gs(1) by metis
qed

lemma packing_Cons:
  assumes "allocateDiskToPools pools d = (True, pools')" and "packing pools' ds"
  shows "packing pools (d # ds)"
proof -
  obtain gs where gs: "mset (concat gs) = mset ds" "list_all2 (\<lambda>g p. sum_list g \<le> p) gs pools'"
    using assms(2) by (auto simp: packing_def)
  have "\<exists>hs. mset (concat hs) = mset (d # concat gs) \<and> list_all2 (\<lambda>g p. sum_list g \<le> p) hs pools"
    using assms(1) gs(2)
  proof (induction pools arbitrary: pools' gs)
    case (Cons p ps)
    show ?case
    proof (cases "p \<ge> d")
      case True
      with Cons.prems obtain g gs' where "gs = g # gs'" "sum_list g \<le> p - d"
        "list_all2 (\<lambda>g p. sum_list g \<le> p) gs' ps"
        by (auto simp: list_all2_Cons2)
      then show ?thesis by (intro exI [of _ "(d # g) # gs'"]) simp
    next
      case False
      with Cons.prems(1) obtain ps' where ps': "allocateDiskToPools ps d = (True, ps')" "pools' = p # ps'"
        by (auto split: prod.splits)
      with Cons.prems(2) obtain g gs' where g: "gs = g # gs'" "sum_list g \<le> p"
        "list_all2 (\<lambda>g p. sum_list g \<le> p) gs' ps'"
        by (auto simp: list_all2_Cons2)
      from Cons.IH [OF ps'(1) g(3)] obtain hs where "mset (concat hs) = mset (d # concat gs')"
        "list_all2 (\<lambda>g p. sum_list g \<le> p) hs ps" by blast
      with g show ?thesis by (intro exI [of _ "g # hs"]) simp
    qed
  qed simp
  with gs(1) show ?thesis by (auto simp: packing_def)
qed

lemma mset_sortArrayDesc [simp]: "mset (sortArrayDesc xs) = mset xs"
  by (simp add: sortArrayDesc_def)

lemma set_sortArrayDesc [simp]: "set (sortArrayDesc xs) = set xs"
  by (simp add: sortArrayDesc_def)

lemma allocate_fails: "fst (allocateDiskToPools pools d) \<longleftrightarrow> (\<exists>p \<in> set pools. d \<le> p)"
  by (induction pools) (auto split: prod.splits)

lemma allocate_nonneg:
  "allocateDiskToPools pools d = (ok, pools') \<Longrightarrow> list_all (\<lambda>p. 0 \<le> p) pools \<Longrightarrow> list_all (\<lambda>p. 0 \<le> p) pools'"
  by (induction pools arbitrary: pools') (auto split: if_splits prod.splits)

lemma sortDesc_nonneg [simp]:
  "list_all P (sortArrayDesc pools) = list_all P pools"
  by (simp add: list_all_iff)

lemma fit_Nil [simp]: "fitDisksInDisksPool [] type pools = (Inr (), rest) \<longleftrightarrow> rest = pools"
  by (auto simp: fitDisksInDisksPool_def)

lemma fit_Cons:
  "fitDisksInDisksPool (d # ds) type pools = (Inr (), rest) \<longleftrightarrow>
     (\<exists>pools'. allocateDiskToPools pools d = (True, pools')
        \<and> fitDisksInDisksPool ds type (sortArrayDesc pools') = (Inr (), rest))"
  by (auto simp: fitDisksInDisksPool_def bindE_def fitDisk_def split: prod.splits bool.splits sum.splits)

lemma fit_nonneg:
  "fitDisksInDisksPool ds type pools = (Inr (), rest) \<Longrightarrow> list_all (\<lambda>p. 0 \<le> p) pools
   \<Longrightarrow> list_all (\<lambda>p. 0 \<le> p) rest"
proof (induction ds arbitrary: pools)
  case (Cons d ds)
  then show ?case by (auto simp: fit_Cons dest: allocate_nonneg)
qed simp

lemma fit_packing:
  "fitDisksInDisksPool ds type pools = (Inr (), rest) \<Longrightarrow> packing rest others
   \<Longrightarrow> packing pools (ds @ others)"
proof (induction ds arbitrary: pools)
  case (Cons d ds)
  from Cons.prems(1) obtain pools' where a: "allocateDiskToPools pools d = (True, pools')"
    and f: "fitDisksInDisksPool ds type (sortArrayDesc pools') = (Inr (), rest)"
    by (auto simp: fit_Cons)
  have "packing (sortArrayDesc pools') (ds @ others)" by (rule Cons.IH [OF f Cons.prems(2)])
  then have "packing pools' (ds @ others)" by (rule packing_perm [rotated]) simp
  with a show ?case by (simp add: packing_Cons)
qed simp

lemma packing_disks: "packing pools ds \<Longrightarrow> mset ds = mset ds' \<Longrightarrow> packing pools ds'"
  by (simp add: packing_def)

lemma packing_perms:
  assumes "packing pools ds" "mset pools = mset pools'" "mset ds = mset ds'"
  shows "packing pools' ds'"
  by (rule packing_disks [OF packing_perm [OF assms(2,1)] assms(3)])

lemma verify_fit_packing:
  assumes "verify_fit ssd hdd rd sp hp n = Inr b"
    and "list_all (\<lambda>p. 0 \<le> p) sp" and "list_all (\<lambda>p. 0 \<le> p) hp"
  shows "b \<and> packing sp (ssd @ rd) \<and> packing hp hdd"
proof -
  from assms(1) obtain sp1 hp1 sp2 where f: "fitDisksInDisksPool ssd SSD sp = (Inr (), sp1)"
    "fitDisksInDisksPool hdd HDD hp = (Inr (), hp1)"
    "fitDisksInDisksPool rd SSD sp1 = (Inr (), sp2)" and b: "b"
    by (auto simp: verify_fit_def split: prod.splits sum.splits)
  have "list_all (\<lambda>p. 0 \<le> p) sp2" "list_all (\<lambda>p. 0 \<le> p) hp1"
    using f assms(2,3) by (blast intro: fit_nonneg)+
  then have "packing sp1 (rd @ [])" "packing hp (hdd @ [])"
    using f by (blast intro: fit_packing packing_Nil)+
  with f(1) b show ?thesis by (simp add: fit_packing)
qed

text \<open>
  When the storage pools of a node pass the check, the disks really can be distributed over
  the free space of its pools.
\<close>

theorem verify_pools_sound:
  assumes "getNodeTwinId api nodeId = Inr twin" and "rmb_pools api twin = Inr ds"
    and "\<forall>d \<in> set ds. sp_used d \<le> sp_size d"
    and "verifyNodeStoragePoolCapacity api ssdDisks hddDisks rootDisks nodeId = Inr b"
  shows "b \<and> packing (free_pools SSD ds) (ssdDisks @ rootDisks) \<and> packing (free_pools HDD ds) hddDisks"
proof -
  have nn: "list_all (\<lambda>p. 0 \<le> p) (sortArrayDesc (free_pools t ds))" for t
    using assms(3) by (auto simp: free_pools_def list_all_iff)
  have "verify_fit (sortArrayDesc ssdDisks) (sortArrayDesc hddDisks) (sortArrayDesc rootDisks)
         (sortArrayDesc (free_pools SSD ds)) (sortArrayDesc (free_pools HDD ds)) nodeId = Inr b"
    using assms(1,2,4) by (simp add: verifyNodeStoragePoolCapacity_def prefixing_def)
  from verify_fit_packing [OF this nn nn] have "b"
    and "packing (sortArrayDesc (free_pools SSD ds)) (sortArrayDesc ssdDisks @ sortArrayDesc rootDisks)"
    and "packing (sortArrayDesc (free_pools HDD ds)) (sortArrayDesc hddDisks)" by simp_all
  moreover from this(2) have "packing (free_pools SSD ds) (ssdDisks @ rootDisks)"
    by (rule packing_perms) simp_all
  moreover from calculation(3) have "packing (free_pools HDD ds) hddDisks"
    by (rule packing_perms) simp_all
  ultimately show ?thesis by simp
qed

text \<open>A refused disk is larger than every pool that is left, and the message names it.\<close>

theorem fit_refusal_exact:
  "fst (fitDisk type disk pools) = Inr () \<longleftrightarrow> (\<exists>p \<in> set pools. disk \<le> p)"
  using allocate_fails [of pools disk]
  by (auto simp: fitDisk_def split: prod.splits bool.splits)

text \<open>The heuristic is not complete: these disks fit, but are refused.\<close>

theorem fit_incomplete:
  "packing [5, 4] [4, 3, 2] \<and> fst (fitDisksInDisksPool [4, 3, 2] SSD [5, 4]) \<noteq> Inr ()"
proof -
  have "mset (concat [[3, 2], [4 :: rat]]) = mset [4, 3, 2]" by simp
  moreover have "list_all2 (\<lambda>g p. sum_list g \<le> p) [[3, 2], [4]] [5, 4 :: rat]" by simp
  ultimately have "packing [5, 4] [4, 3, 2]" unfolding packing_def by blast
  moreover have "fst (fitDisksInDisksPool [4, 3, 2] SSD [5, 4]) \<noteq> Inr ()"
    by (simp add: fitDisksInDisksPool_def bindE_def fitDisk_def sortArrayDesc_def)
  ultimately show ?thesis by simp
qed

subsection \<open>Resources\<close>

text \<open>
  The handler passes byte counts divided by \<open>1024 ** 3\<close>; the check multiplies them back, so it
  compares bytes with bytes.
\<close>

definition bytes_filter :: "int \<Rightarrow> int \<Rightarrow> int \<Rightarrow> FilterOptions" where
  "bytes_filter hru sru mru = empty_filter\<lparr>fo_hru := Some (of_int hru / 1024 ^ 3),
     fo_sru := Some (of_int sru / 1024 ^ 3), fo_mru := Some (of_int mru / 1024 ^ 3)\<rparr>"

lemma short_of_bytes: "short_of (Some (of_int n / 1024 ^ 3)) free \<longleftrightarrow> 0 < n \<and> free < n"
  by (auto simp: short_of_def g2b_def)

theorem resources_exact_in_bytes:
  "enough_resources free (bytes_filter hru sru mru) \<longleftrightarrow>
     (0 < mru \<longrightarrow> mru \<le> r_mru free) \<and> (0 < sru \<longrightarrow> sru \<le> r_sru free) \<and> (0 < hru \<longrightarrow> hru \<le> r_hru free)"
proof -
  have f: "fo_mru (bytes_filter hru sru mru) = Some (of_int mru / 1024 ^ 3)"
    "fo_sru (bytes_filter hru sru mru) = Some (of_int sru / 1024 ^ 3)"
    "fo_hru (bytes_filter hru sru mru) = Some (of_int hru / 1024 ^ 3)"
    by (simp_all add: bytes_filter_def)
  show ?thesis unfolding enough_resources_def f short_of_bytes by auto
qed

subsection \<open>Queries\<close>

lemma fst_map_obj_set: "k \<in> fst ` set ob \<Longrightarrow> map fst (obj_set k v ob) = map fst ob"
  by (induction k v ob rule: obj_set.induct) auto

lemma map_fst_obj_set:
  "map fst (obj_set k v ob) = (if k \<in> fst ` set ob then map fst ob else map fst ob @ [k])"
  by (induction k v ob rule: obj_set.induct) auto

lemma node_params_distinct: "distinct (map fst (node_params opts))"
  by (simp add: node_params_def Let_def)

lemma node_params_status:
  "map_of (node_params opts) ''status'' =
     Some (JStr (status_name (case fo_status opts of Some s \<Rightarrow> s | None \<Rightarrow> St_up)))"
  by (simp add: node_params_def Let_def)

lemma node_params_gateway:
  "truthy (fo_gateway opts) \<Longrightarrow> map_of (node_params opts) ''domain'' = Some (JBool True)
     \<and> map_of (node_params opts) ''ipv4'' = Some (JBool True) \<and> map_of (node_params opts) ''ipv6'' = Some (JBool True)"
  by (simp add: node_params_def Let_def)

subsection \<open>Features\<close>

text \<open>
  The features asked of the proxy are exactly the given ones and those the options imply,
  each once.
\<close>

theorem features_of_filters:
  "distinct (getFeaturesFromFilters opts) \<and>
   (f \<in> set (getFeaturesFromFilters opts) \<longleftrightarrow>
      (\<exists>fs. fo_features opts = Some fs \<and> f \<in> set fs)
      \<or> (f = Ft_ipv4 \<and> truthy (fo_publicIPs opts))
      \<or> (f = Ft_ip \<and> (truthy (fo_publicIPs opts) \<or> truthy (fo_hasIPv6 opts)))
      \<or> (f = Ft_wireguard \<and> truthy (fo_wireguard opts))
      \<or> (f = Ft_mycelium \<and> truthy (fo_mycelium opts))
      \<or> (f = Ft_yggdrasil \<and> truthy (fo_planetary opts))
      \<or> ((f = Ft_gatewayfqdnproxy \<or> f = Ft_gatewaynameproxy) \<and> truthy (fo_gateway opts)))"
  by (cases "fo_features opts") (auto simp: getFeaturesFromFilters_def Let_def)

subsection \<open>Access nodes\<close>

definition public_entry :: "(string \<Rightarrow> bool option) \<Rightarrow> int \<times> access_config \<Rightarrow> bool" where
  "public_entry private_ip x \<longleftrightarrow> private_ip (before_char (CHR ''/'') (ac_ipv4 (snd x))) = Some False"

lemma set_obj_set_subset: "set (obj_set k v ob) \<subseteq> insert (k, v) (set ob)"
  by (induction k v ob rule: obj_set.induct) auto

lemma add_access_node_public:
  "list_all (public_entry p) acc \<Longrightarrow> list_all (public_entry p) (add_access_node p n acc)"
  using set_obj_set_subset by (fastforce simp: add_access_node_def list_all_iff public_entry_def Let_def)

lemma add_access_node_distinct:
  "distinct (map fst acc) \<Longrightarrow> distinct (map fst (add_access_node p n acc))"
  by (simp add: add_access_node_def Let_def)

lemma fold_access_nodes:
  "list_all (public_entry p) acc \<and> distinct (map fst acc) \<Longrightarrow>
   list_all (public_entry p) (fold (add_access_node p) ns acc)
     \<and> distinct (map fst (fold (add_access_node p) ns acc))"
  by (induction ns arbitrary: acc) (simp_all add: add_access_node_public add_access_node_distinct)

lemma access_pages_public:
  "access_pages api p av fuel page acc = Some (Inr r) \<Longrightarrow> list_all (public_entry p) acc \<and> distinct (map fst acc)
   \<Longrightarrow> list_all (public_entry p) r \<and> distinct (map fst r)"
proof (induction fuel arbitrary: page acc)
  case (Suc fuel)
  then show ?case
    using fold_access_nodes by (fastforce simp: Let_def split: sum.splits if_splits)
qed simp

lemma access_pages_returns:
  assumes "filterNodes api (access_filter av k) = Inr [] \<or> (\<exists>e. filterNodes api (access_filter av k) = Inl e)"
  shows "page \<le> k \<Longrightarrow> k < page + int fuel \<Longrightarrow> access_pages api p av fuel page acc \<noteq> None"
proof (induction fuel arbitrary: page acc)
  case (Suc fuel)
  show ?case
  proof (cases "page = k")
    case True
    with assms show ?thesis by (auto simp: Let_def)
  next
    case False
    with Suc.prems have "page + 1 \<le> k" "k < page + 1 + int fuel" by auto
    from Suc.IH [OF this] show ?thesis by (simp add: Let_def split: sum.splits)
  qed
qed simp

text \<open>
  The collection of access nodes ends with the first empty page and lists only nodes with a
  public address, each once, in ascending order.
\<close>

theorem access_nodes_found:
  assumes "filterNodes api (access_filter av k) = Inr [] \<or> (\<exists>e. filterNodes api (access_filter av k) = Inl e)"
    and "1 \<le> k" and "k < 1 + int fuel"
  shows "\<exists>r. getAccessNodes api p fuel av = Some r
     \<and> (\<forall>acc. r = Inr acc \<longrightarrow> acc \<noteq> [] \<and> distinct (map fst acc) \<and> sorted (map fst acc)
           \<and> (\<forall>x \<in> set acc. p (before_char (CHR ''/'') (ac_ipv4 (snd x))) = Some False))"
proof -
  obtain q where q: "access_pages api p av fuel 1 [] = Some q"
    using access_pages_returns [OF assms] by blast
  have pub: "list_all (public_entry p) r \<and> distinct (map fst r)" if "q = Inr r" for r
    using access_pages_public [of api p av fuel 1 "[]" r] q that by simp
  show ?thesis
  proof (cases q)
    case (Inl e)
    with q show ?thesis by (simp add: getAccessNodes_def)
  next
    case (Inr r)
    have "mset (map fst (sort_key fst r)) = mset (map fst r)" by simp
    then have d: "distinct (map fst (sort_key fst r))"
      using pub [OF Inr] by (metis mset_eq_imp_distinct_iff)
    have ne: "sort_key fst r \<noteq> []" if "r \<noteq> []"
      using that by (metis length_0_conv length_sort)
    have pe: "\<forall>x \<in> set (sort_key fst r). p (before_char (CHR ''/'') (ac_ipv4 (snd x))) = Some False"
      using pub [OF Inr] by (auto simp: list_all_iff public_entry_def)
    show ?thesis
      using q Inr d ne pe by (auto simp: getAccessNodes_def)
  qed
qed

end
