(* ===== verification/Primitives.thy ===== *)
theory Primitives
  imports ZosValid
begin

text \<open>
  The workload builders of \<open>grid_client/src/primitives\<close> (\<open>vm\<close>, \<open>disk\<close>, \<open>gateway\<close>, \<open>ipv4\<close>,
  \<open>publicip\<close>, \<open>qsfs\<close>, \<open>zdb\<close>, \<open>zlogs\<close>) and the root file system rule of
  \<open>helpers/root_fs.ts\<close>.  Sizes come in gigabytes (memory in megabytes) and are stored in bytes.
  A default argument of the code is an ordinary argument here.
\<close>

definition workload :: "int \<Rightarrow> string \<Rightarrow> WorkloadTypes \<Rightarrow> WorkloadData \<Rightarrow> string \<Rightarrow> string \<Rightarrow> Workload" where
  "workload version name type data metadata description =
     \<lparr>wl_version = version, wl_name = name, wl_type = type, wl_data = data,
      wl_metadata = metadata, wl_description = description, wl_result = None\<rparr>"

text \<open>A size may be a fraction of a gigabyte, and of a byte; the validation of the document then refuses it.\<close>

definition gb_bytes :: "rat \<Rightarrow> rat" where
  "gb_bytes g = g * 1024 ^ 3"

subsection \<open>Machines\<close>

definition createComputeCapacity :: "int \<Rightarrow> int \<Rightarrow> ComputeCapacity" where
  "createComputeCapacity cpu memory = \<lparr>cc_cpu = cpu, cc_memory = memory * 1024 ^ 2\<rparr>"

definition createNetworkInterface :: "string \<Rightarrow> string \<Rightarrow> ZNetworkInterface" where
  "createNetworkInterface networkName ip = \<lparr>if_network = networkName, if_ip = ip\<rparr>"

definition mycelium_ip :: "string \<Rightarrow> bool \<Rightarrow> string \<Rightarrow> MyceliumIP option" where
  "mycelium_ip networkName mycelium seed =
     (if mycelium then Some \<lparr>mi_network = networkName, mi_hex_seed = seed\<rparr> else None)"

definition createMachineNetwork ::
  "string \<Rightarrow> string \<Rightarrow> bool \<Rightarrow> bool \<Rightarrow> string \<Rightarrow> string \<Rightarrow> ZmachineNetwork"
where
  "createMachineNetwork networkName ip planetary mycelium myceliumSeed public_ip =
     \<lparr>zmn_public_ip = public_ip, zmn_interfaces = [createNetworkInterface networkName ip],
      zmn_planetary = planetary, zmn_mycelium = mycelium_ip networkName mycelium myceliumSeed\<rparr>"

text \<open>The arguments of both \<open>create\<close> methods.\<close>

record machine_args =
  ma_name :: string
  ma_flist :: string
  ma_cpu :: int
  ma_memory :: int
  ma_rootfs_size :: rat
  ma_disks :: "Mount list"
  ma_network :: string
  ma_ip :: string
  ma_planetary :: bool
  ma_mycelium :: bool
  ma_mycelium_seed :: string
  ma_public_ip :: string
  ma_entrypoint :: string
  ma_env :: "(string \<times> string) list"
  ma_metadata :: string
  ma_description :: string
  ma_version :: int
  ma_corex :: bool
  ma_gpus :: "string list"

definition VM_create :: "machine_args \<Rightarrow> Workload" where
  "VM_create a =
     workload (ma_version a) (ma_name a) WT_zmachine
       (D_zmachine
          \<lparr>vm_flist = ma_flist a,
           vm_network = createMachineNetwork (ma_network a) (ma_ip a) (ma_planetary a)
                          (ma_mycelium a) (ma_mycelium_seed a) (ma_public_ip a),
           vm_size = gb_bytes (ma_rootfs_size a),
           vm_compute_capacity = createComputeCapacity (ma_cpu a) (ma_memory a),
           vm_mounts = ma_disks a, vm_entrypoint = ma_entrypoint a, vm_env = ma_env a,
           vm_corex = ma_corex a, vm_gpu = Some (ma_gpus a)\<rparr>)
       (ma_metadata a) (ma_description a)"

definition createMachineLightNetwork :: "string \<Rightarrow> string \<Rightarrow> bool \<Rightarrow> string \<Rightarrow> ZmachineLightNetwork" where
  "createMachineLightNetwork networkName ip mycelium myceliumSeed =
     \<lparr>zln_interfaces = [createNetworkInterface networkName ip],
      zln_mycelium = mycelium_ip networkName mycelium myceliumSeed\<rparr>"

definition VMLight_create :: "machine_args \<Rightarrow> Workload" where
  "VMLight_create a =
     workload (ma_version a) (ma_name a) WT_zmachinelight
       (D_zmachinelight
          \<lparr>vml_flist = ma_flist a,
           vml_network = createMachineLightNetwork (ma_network a) (ma_ip a) (ma_mycelium a)
                           (ma_mycelium_seed a),
           vml_size = gb_bytes (ma_rootfs_size a),
           vml_compute_capacity = createComputeCapacity (ma_cpu a) (ma_memory a),
           vml_mounts = ma_disks a, vml_entrypoint = ma_entrypoint a, vml_env = ma_env a,
           vml_corex = ma_corex a, vml_gpu = Some (ma_gpus a)\<rparr>)
       (ma_metadata a) (ma_description a)"

text \<open>
  \<open>calculateRootFileSystem\<close>: cores times megabytes, divided by \<open>8 * GB\<close> as integers, decides
  between 500 MB and 2 GB.  An argument that is absent or zero counts as no option.
\<close>

definition calculateRootFileSystem :: "(int \<times> int) option \<Rightarrow> rat" where
  "calculateRootFileSystem options =
     (let cu = (case options of None \<Rightarrow> 0
                | Some (cores, ram) \<Rightarrow> if cores \<noteq> 0 \<and> ram \<noteq> 0 then (cores * ram) div (8 * 1024) else 0)
      in if cu = 0 then 500 / 1024 else 2)"

subsection \<open>The other builders\<close>

definition createMount :: "string \<Rightarrow> string \<Rightarrow> Mount" where
  "createMount name mountpoint = \<lparr>mt_name = name, mt_mountpoint = mountpoint\<rparr>"

definition Disk_create :: "rat \<Rightarrow> string \<Rightarrow> string \<Rightarrow> string \<Rightarrow> int \<Rightarrow> Workload" where
  "Disk_create sz name metadata description version =
     workload version name WT_zmount (D_zmount \<lparr>zm_size = gb_bytes sz\<rparr>) metadata description"

definition Disk_update :: "rat \<Rightarrow> string \<Rightarrow> string \<Rightarrow> string \<Rightarrow> int \<Rightarrow> Workload" where
  "Disk_update sz name metadata description old_version =
     Disk_create sz name metadata description (old_version + 1)"

definition createFQDN ::
  "string \<Rightarrow> bool \<Rightarrow> string list \<Rightarrow> string \<Rightarrow> string option \<Rightarrow> string \<Rightarrow> string \<Rightarrow> int \<Rightarrow> Workload"
where
  "createFQDN fqdn tls backends name network metadata description version =
     workload version name WT_gatewayfqdnproxy
       (D_gatewayfqdn \<lparr>gf_fqdn = fqdn, gf_tls_passthrough = tls, gf_backends = backends,
                       gf_network = network\<rparr>) metadata description"

definition updateFQDN ::
  "string \<Rightarrow> bool \<Rightarrow> string list \<Rightarrow> string \<Rightarrow> string option \<Rightarrow> string \<Rightarrow> string \<Rightarrow> int \<Rightarrow> Workload"
where
  "updateFQDN fqdn tls backends name network metadata description old_version =
     createFQDN fqdn tls backends name network metadata description (old_version + 1)"

definition createName ::
  "string \<Rightarrow> bool \<Rightarrow> string list \<Rightarrow> string option \<Rightarrow> string \<Rightarrow> string \<Rightarrow> int \<Rightarrow> Workload"
where
  "createName name tls backends network metadata description version =
     workload version name WT_gatewaynameproxy
       (D_gatewayname \<lparr>gn_name = name, gn_tls_passthrough = tls, gn_backends = backends,
                       gn_network = network\<rparr>) metadata description"

definition updateName ::
  "string \<Rightarrow> bool \<Rightarrow> string list \<Rightarrow> string option \<Rightarrow> string \<Rightarrow> string \<Rightarrow> int \<Rightarrow> Workload"
where
  "updateName name tls backends network metadata description old_version =
     createName name tls backends network metadata description (old_version + 1)"

definition IPv4_create :: "string \<Rightarrow> string \<Rightarrow> string \<Rightarrow> int \<Rightarrow> Workload" where
  "IPv4_create name metadata description version =
     workload version name WT_ipv4 D_ipv4 metadata description"

definition IPv4_update :: "string \<Rightarrow> string \<Rightarrow> string \<Rightarrow> int \<Rightarrow> Workload" where
  "IPv4_update name metadata description old_version =
     IPv4_create name metadata description (old_version + 1)"

definition PublicIP_create :: "string \<Rightarrow> string \<Rightarrow> string \<Rightarrow> int \<Rightarrow> bool \<Rightarrow> bool \<Rightarrow> Workload" where
  "PublicIP_create name metadata description version ipv4 ipv6 =
     workload version name WT_ip (D_publicip \<lparr>ip_v4 = ipv4, ip_v6 = ipv6\<rparr>) metadata description"

text \<open>The update does not pass the address families on, so both default to \<open>false\<close>.\<close>

definition PublicIP_update :: "string \<Rightarrow> string \<Rightarrow> string \<Rightarrow> int \<Rightarrow> Workload" where
  "PublicIP_update name metadata description old_version =
     PublicIP_create name metadata description (old_version + 1) False False"

text \<open>\<open>hex_of_text\<close> is \<open>Buffer.from(text).toString("hex")\<close> on an ASCII text.\<close>

definition hex_of_text :: "string \<Rightarrow> string" where
  "hex_of_text s = to_hex (map of_char s)"

record qsfs_args =
  qa_name :: string
  qa_minimalShards :: int
  qa_expectedShards :: int
  qa_metaPrefix :: string
  qa_metaBackends :: "ZdbBackend list"
  qa_groups :: "ZdbGroup list"
  qa_encryptionKey :: string
  qa_cache :: rat
  qa_maxZdbDataDirSize :: int
  qa_metaType :: string
  qa_redundantGroups :: int
  qa_redundantNodes :: int
  qa_encryptionAlgorithm :: string
  qa_compressionAlgorithm :: string
  qa_metadata :: string
  qa_description :: string
  qa_version :: int

definition qsfs_encryption :: "(string \<Rightarrow> string) \<Rightarrow> qsfs_args \<Rightarrow> Encryption" where
  "qsfs_encryption md5 a = \<lparr>en_algorithm = qa_encryptionAlgorithm a,
     en_key = hex_of_text (md5 (qa_encryptionKey a))\<rparr>"

definition QSFS_create :: "(string \<Rightarrow> string) \<Rightarrow> qsfs_args \<Rightarrow> Workload" where
  "QSFS_create md5 a =
     workload (qa_version a) (qa_name a) WT_qsfs
       (D_qsfs \<lparr>qs_cache = gb_bytes (qa_cache a),
          qs_config = \<lparr>qf_minimal_shards = qa_minimalShards a,
            qf_expected_shards = qa_expectedShards a,
            qf_redundant_groups = qa_redundantGroups a,
            qf_redundant_nodes = qa_redundantNodes a,
            qf_max_zdb_data_dir_size = qa_maxZdbDataDirSize a,
            qf_encryption = qsfs_encryption md5 a,
            qf_meta = \<lparr>qm_type = qa_metaType a,
              qm_config = \<lparr>qc_prefix = qa_metaPrefix a, qc_encryption = qsfs_encryption md5 a,
                           qc_backends = qa_metaBackends a\<rparr>\<rparr>,
            qf_groups = qa_groups a,
            qf_compression = \<lparr>qz_algorithm = qa_compressionAlgorithm a\<rparr>\<rparr>\<rparr>)
       (qa_metadata a) (qa_description a)"

definition Zdb_create ::
  "string \<Rightarrow> rat \<Rightarrow> ZdbModes \<Rightarrow> string \<Rightarrow> bool \<Rightarrow> string \<Rightarrow> string \<Rightarrow> int \<Rightarrow> Workload"
where
  "Zdb_create name sz mode password publicNamespace metadata description version =
     workload version name WT_zdb
       (D_zdb \<lparr>zdb_size = gb_bytes sz, zdb_mode = mode, zdb_password = password,
               zdb_public = publicNamespace\<rparr>) metadata description"

text \<open>Unlike the other updates this one keeps the version it is given.\<close>

definition Zdb_update ::
  "string \<Rightarrow> rat \<Rightarrow> ZdbModes \<Rightarrow> string \<Rightarrow> bool \<Rightarrow> string \<Rightarrow> string \<Rightarrow> int \<Rightarrow> Workload"
where
  "Zdb_update name sz mode password publicNamespace metadata description version =
     Zdb_create name sz mode password publicNamespace metadata description version"

definition Zlogs_create :: "string \<Rightarrow> string \<Rightarrow> string \<Rightarrow> string \<Rightarrow> int \<Rightarrow> Workload" where
  "Zlogs_create name output metadata description version =
     workload version (''zlogs_'' @ name) WT_zlogs (D_zlogs \<lparr>zl_zmachine = Some name, zl_output = Some output\<rparr>)
       metadata description"

subsection \<open>Facts\<close>

lemma workload_sel [simp]:
  "wl_version (workload v n t d m de) = v" "wl_name (workload v n t d m de) = n"
  "wl_type (workload v n t d m de) = t" "wl_data (workload v n t d m de) = d"
  "wl_metadata (workload v n t d m de) = m" "wl_description (workload v n t d m de) = de"
  "wl_result (workload v n t d m de) = None"
  by (simp_all add: workload_def)

text \<open>The data a workload of each type carries; every builder respects it.\<close>

fun data_type :: "WorkloadData \<Rightarrow> WorkloadTypes" where
  "data_type (D_zmount _) = WT_zmount"
| "data_type (D_volume _) = WT_volume"
| "data_type (D_znet _) = WT_network"
| "data_type (D_zmachine _) = WT_zmachine"
| "data_type (D_zdb _) = WT_zdb"
| "data_type (D_publicip _) = WT_ip"
| "data_type D_ipv4 = WT_ipv4"
| "data_type (D_gatewayfqdn _) = WT_gatewayfqdnproxy"
| "data_type (D_gatewayname _) = WT_gatewaynameproxy"
| "data_type (D_qsfs _) = WT_qsfs"
| "data_type (D_zlogs _) = WT_zlogs"
| "data_type (D_networklight _) = WT_networklight"
| "data_type (D_zmachinelight _) = WT_zmachinelight"

definition well_typed :: "Workload \<Rightarrow> bool" where
  "well_typed w \<longleftrightarrow> data_type (wl_data w) = wl_type w"

lemmas builder_defs = VM_create_def VMLight_create_def Disk_create_def createFQDN_def createName_def
  IPv4_create_def PublicIP_create_def QSFS_create_def Zdb_create_def Zlogs_create_def

lemma builders_well_typed:
  "well_typed (VM_create a)" "well_typed (VMLight_create a)" "well_typed (Disk_create g n m d v)"
  "well_typed (createFQDN f t b n nw m d v)" "well_typed (createName n t b nw m d v)"
  "well_typed (IPv4_create n m d v)" "well_typed (PublicIP_create n m d v p q)"
  "well_typed (QSFS_create md5 qa)" "well_typed (Zdb_create n g mo pw pu m d v)"
  "well_typed (Zlogs_create n out m d v)"
  by (simp_all add: well_typed_def builder_defs)

lemma gb_bytes_mono: "g \<le> h \<Longrightarrow> gb_bytes g \<le> gb_bytes h"
  by (simp add: gb_bytes_def)

lemma gb_bytes_values:
  "gb_bytes (125 / 256) = of_int (500 * MB)" "gb_bytes 2 = of_int (2 * GB)"
  "gb_bytes 10240 = of_int (10 * TB)"
  by (simp_all add: gb_bytes_def unit_defs)

text \<open>
  \<open>calculateRootFileSystem\<close> gives exactly 500 MB or 2 GB of root file system, and the larger
  one just when cores times megabytes reaches \<open>8 * 1024\<close>.
\<close>

theorem rootfs_size_rule:
  assumes "0 < cores" and "0 < ram"
  shows "gb_bytes (calculateRootFileSystem (Some (cores, ram)))
           = of_int (if 8192 \<le> cores * ram then 2 * GB else 500 * MB)"
proof -
  have "0 < cores * ram" using assms by simp
  then have "(cores * ram) div 8192 = 0 \<longleftrightarrow> \<not> 8192 \<le> cores * ram"
    by (auto simp: zdiv_eq_0_iff)
  with assms show ?thesis by (simp add: calculateRootFileSystem_def gb_bytes_values)
qed

theorem rootfs_size_rule_witness:
  "gb_bytes (calculateRootFileSystem (Some (4, 2048))) = of_int (2 * GB)"
  using rootfs_size_rule [of 4 2048] by simp

text \<open>
  a machine built from whole gigabytes passes the validators of \<open>ComputeCapacity\<close> exactly for
  1 to 32 cores and 256 MB to 256 GB of memory; the conversion from megabytes loses nothing.
\<close>

theorem machine_capacity_valid:
  "valid_ComputeCapacity (createComputeCapacity cpu memory)
     \<longleftrightarrow> 1 \<le> cpu \<and> cpu \<le> 32 \<and> 256 \<le> memory \<and> memory \<le> 262144"
  by (auto simp: valid_ComputeCapacity_def createComputeCapacity_def unit_defs)

text \<open>
  updating a public IP workload drops both address families, whatever they were.
\<close>

theorem publicip_update_drops_families:
  "wl_data (PublicIP_update name metadata description v) = D_publicip \<lparr>ip_v4 = False, ip_v6 = False\<rparr>"
  by (simp add: PublicIP_update_def PublicIP_create_def)

end
