(* ===== verification/Factory.thy ===== *)
theory Factory
  imports Primitives Nodes
begin

text \<open>
  \<open>DeploymentFactory\<close> of \<open>grid_client/src/primitives/deployment.ts\<close>: building a deployment,
  merging a new deployment into the one that runs (\<open>UpdateDeployment\<close>), and reading one back
  from a node.  Workload names are unique within a deployment, so the workloads of the code are
  values here: no two of them share their data.
\<close>

definition create_deployment :: "int \<Rightarrow> Workload list \<Rightarrow> int \<Rightarrow> string \<Rightarrow> string \<Rightarrow> int \<Rightarrow> Deployment" where
  "create_deployment twinId workloads expiration metadata description version =
     \<lparr>dp_version = version, dp_twin_id = twinId, dp_contract_id = None, dp_expiration = expiration,
      dp_metadata = metadata, dp_description = description, dp_workloads = workloads,
      dp_signature_requirement =
        \<lparr>rq_requests = [\<lparr>sr_twin_id = twinId, sr_required = False, sr_weight = 1\<rparr>],
         rq_weight_required = 1, rq_signatures = []\<rparr>\<rparr>"

text \<open>\<open>data["network"]["interfaces"][0]["ip"]\<close>; without it the code dies of a \<open>TypeError\<close>.\<close>

fun machine_ip :: "WorkloadData \<Rightarrow> string option" where
  "machine_ip (D_zmachine z) = (case zmn_interfaces (vm_network z) of [] \<Rightarrow> None | i # _ \<Rightarrow> Some (if_ip i))"
| "machine_ip (D_zmachinelight z) = (case zln_interfaces (vml_network z) of [] \<Rightarrow> None | i # _ \<Rightarrow> Some (if_ip i))"
| "machine_ip _ = None"

definition set_first_ip :: "string \<Rightarrow> ZNetworkInterface list \<Rightarrow> ZNetworkInterface list" where
  "set_first_ip ip is = (case is of [] \<Rightarrow> [] | i # rest \<Rightarrow> i\<lparr>if_ip := ip\<rparr> # rest)"

fun set_machine_ip :: "string \<Rightarrow> WorkloadData \<Rightarrow> WorkloadData" where
  "set_machine_ip ip (D_zmachine z) =
     D_zmachine (z\<lparr>vm_network := (vm_network z)\<lparr>zmn_interfaces := set_first_ip ip (zmn_interfaces (vm_network z))\<rparr>\<rparr>)"
| "set_machine_ip ip (D_zmachinelight z) =
     D_zmachinelight (z\<lparr>vml_network := (vml_network z)\<lparr>zln_interfaces := set_first_ip ip (zln_interfaces (vml_network z))\<rparr>\<rparr>)"
| "set_machine_ip ip d = d"

text \<open>\<open>undefined\<close> as a contract id is sent to the chain as 0.\<close>

definition contract_arg :: "int option \<Rightarrow> int" where
  "contract_arg c = (case c of Some i \<Rightarrow> i | None \<Rightarrow> 0)"

text \<open>
  The network object that may come with an update is of any type \<open>'n\<close>; \<open>del_ip\<close> is its
  \<open>deleteReservedIp\<close>.
\<close>

type_synonym 'n del_ip = "int \<Rightarrow> string \<Rightarrow> 'n \<Rightarrow> 'n"

text \<open>"Don't change the machine ip": the new workload with the old address, if there is a network.\<close>

definition keep_machine_ip ::
  "grid_api \<Rightarrow> 'n del_ip \<Rightarrow> int \<Rightarrow> WorkloadData \<Rightarrow> Workload \<Rightarrow> 'n option \<Rightarrow> js_error + Workload \<times> 'n option"
where
  "keep_machine_ip api del_ip contract old_data w network =
     (if wl_type w = WT_zmachine then
        bindR (getNodeIdFromContractId api contract) (\<lambda>node_id.
          case (machine_ip old_data, machine_ip (wl_data w)) of
            (Some oldIp, Some newIp) \<Rightarrow>
              (case network of
                 Some n \<Rightarrow> if newIp \<noteq> oldIp
                    then Inr (w\<lparr>wl_data := set_machine_ip oldIp (wl_data w)\<rparr>, Some (del_ip node_id newIp n))
                    else Inr (w, network)
               | None \<Rightarrow> Inr (w, network))
          | _ \<Rightarrow> Inl TypeError)
      else Inr (w, network))"

text \<open>The local variables of the loops.\<close>

record 'n upd =
  u_names :: "string list"
  u_added :: "Workload list"
  u_found :: bool
  u_network :: "'n option"

definition updated_workload :: "int \<Rightarrow> Workload \<Rightarrow> Workload \<Rightarrow> Workload" where
  "updated_workload dv old w = old\<lparr>wl_version := dv + 1, wl_data := wl_data w,
     wl_description := wl_description w, wl_metadata := wl_metadata w\<rparr>"

text \<open>
  The inner loop, over the new workloads, for one old workload: the result is the old workload
  as it is afterwards, the new workloads as they are afterwards, and the locals.
\<close>

fun match_new ::
  "grid_api \<Rightarrow> 'n del_ip \<Rightarrow> int \<Rightarrow> int \<Rightarrow> Workload \<Rightarrow> Workload list \<Rightarrow> 'n upd
   \<Rightarrow> js_error + Workload \<times> Workload list \<times> 'n upd"
where
  "match_new api del_ip contract dv old [] u = Inr (old, [], u)"
| "match_new api del_ip contract dv old (w # ws) u =
     (let continue = (\<lambda>w' u'. bindR (match_new api del_ip contract dv old ws u')
                        (\<lambda>(old', ws', u''). Inr (old', w' # ws', u'')))
      in if wl_name w \<notin> set (u_names u) then
           let w' = w\<lparr>wl_version := dv + 1\<rparr>
           in continue w' (u\<lparr>u_names := u_names u @ [wl_name w], u_added := u_added u @ [w'], u_found := True\<rparr>)
         else if wl_type w = WT_network \<or> wl_name w \<noteq> wl_name old then continue w u
         else
           bindR (keep_machine_ip api del_ip contract (wl_data old) (w\<lparr>wl_version := wl_version old\<rparr>) (u_network u))
             (\<lambda>(w', n').
               let u' = u\<lparr>u_network := n'\<rparr>
               in if Workload_challenge w' = Workload_challenge old then continue w' u'
                  else Inr (updated_workload dv old w', w' # ws, u'\<lparr>u_found := True\<rparr>)))"

text \<open>The outer loop, over the old workloads; a workload to delete is left out of the result.\<close>

fun match_old ::
  "grid_api \<Rightarrow> 'n del_ip \<Rightarrow> int \<Rightarrow> int \<Rightarrow> string list \<Rightarrow> Workload list \<Rightarrow> Workload list \<Rightarrow> 'n upd
   \<Rightarrow> js_error + Workload list \<times> 'n upd"
where
  "match_old api del_ip contract dv newNames [] ws u = Inr ([], u)"
| "match_old api del_ip contract dv newNames (old # olds) ws u =
     (if wl_type old = WT_network then
        bindR (match_old api del_ip contract dv newNames olds ws u) (\<lambda>(os, u'). Inr (old # os, u'))
      else if wl_name old \<notin> set newNames then
        match_old api del_ip contract dv newNames olds ws (u\<lparr>u_found := True\<rparr>)
      else bindR (match_new api del_ip contract dv old ws u) (\<lambda>(old', ws', u').
        bindR (match_old api del_ip contract dv newNames olds ws' u') (\<lambda>(os, u''). Inr (old' # os, u''))))"

definition UpdateDeployment ::
  "grid_api \<Rightarrow> 'n del_ip \<Rightarrow> Deployment \<Rightarrow> Deployment \<Rightarrow> 'n option \<Rightarrow> js_error + Deployment option \<times> 'n option"
where
  "UpdateDeployment api del_ip old new network =
     bindR (match_old api del_ip (contract_arg (dp_contract_id old)) (dp_version old)
              (map wl_name (dp_workloads new)) (dp_workloads old) (dp_workloads new)
              \<lparr>u_names = map wl_name (dp_workloads old), u_added = [], u_found = False, u_network = network\<rparr>)
       (\<lambda>(os, u). Inr (if u_found u then Some (old\<lparr>dp_workloads := os @ u_added u\<rparr>) else None, u_network u))"

text \<open>
  \<open>fromObj\<close>: the plain object of a node becomes an instance, which is validated.  Only exposed
  fields are carried over (\<open>excludeExtraneousValues\<close>); the log is the one class of data that
  exposes none of its fields.
\<close>

fun exposed_data :: "WorkloadData \<Rightarrow> WorkloadData" where
  "exposed_data (D_zlogs z) = D_zlogs \<lparr>zl_zmachine = None, zl_output = None\<rparr>"
| "exposed_data d = d"

definition exposed_workload :: "Workload \<Rightarrow> Workload" where
  "exposed_workload w = w\<lparr>wl_data := exposed_data (wl_data w)\<rparr>"

definition exposed_deployment :: "Deployment \<Rightarrow> Deployment" where
  "exposed_deployment d = d\<lparr>dp_workloads := map exposed_workload (dp_workloads d)\<rparr>"

definition fromObj :: "recognisers \<Rightarrow> Deployment \<Rightarrow> js_error + Deployment" where
  "fromObj rc d = (let d' = exposed_deployment d
     in bindR (validateObject (valid_Deployment rc) d') (\<lambda>_. Inr d'))"

end
