(* ===== verification/Loops.thy ===== *)
theory Loops
  imports Errors
begin

text \<open>
  The search loop that the network code writes three times: step to the next candidate while the
  present one is taken.  Stepping past the last candidate is the \<open>TypeError\<close> of a method call on
  \<open>null\<close>; a search that never ends is \<open>diverges\<close>.
\<close>

partial_function (option) seek :: "('a \<Rightarrow> 'a option) \<Rightarrow> ('a \<Rightarrow> bool) \<Rightarrow> 'a \<Rightarrow> (js_error + 'a) option" where
  "seek nxt taken a =
     (if taken a then (case nxt a of None \<Rightarrow> Some (Inl TypeError) | Some b \<Rightarrow> seek nxt taken b)
      else Some (Inr a))"

definition run_seek :: "('a \<Rightarrow> 'a option) \<Rightarrow> ('a \<Rightarrow> bool) \<Rightarrow> 'a \<Rightarrow> js_error + 'a" where
  "run_seek nxt taken a = (case seek nxt taken a of None \<Rightarrow> Inl diverges | Some r \<Rightarrow> r)"

fun steps :: "('a \<Rightarrow> 'a option) \<Rightarrow> nat \<Rightarrow> 'a \<Rightarrow> 'a option" where
  "steps nxt 0 a = Some a"
| "steps nxt (Suc n) a = (case nxt a of None \<Rightarrow> None | Some b \<Rightarrow> steps nxt n b)"

definition first_free :: "('a \<Rightarrow> 'a option) \<Rightarrow> ('a \<Rightarrow> bool) \<Rightarrow> 'a \<Rightarrow> 'a \<Rightarrow> bool" where
  "first_free nxt taken a b \<longleftrightarrow> \<not> taken b
     \<and> (\<exists>n. steps nxt n a = Some b \<and> (\<forall>m < n. \<exists>c. steps nxt m a = Some c \<and> taken c))"

lemma first_free_step:
  assumes "taken a" "nxt a = Some b" "first_free nxt taken b c"
  shows "first_free nxt taken a c"
proof -
  obtain n where n: "steps nxt n b = Some c" "\<forall>m < n. \<exists>d. steps nxt m b = Some d \<and> taken d"
    using assms(3) by (auto simp: first_free_def)
  have "\<exists>d. steps nxt m a = Some d \<and> taken d" if "m < Suc n" for m
    using that n(2) assms(1,2) by (cases m) auto
  with n(1) assms(2,3) show ?thesis
    by (auto simp: first_free_def intro!: exI [of _ "Suc n"])
qed

lemma seek_first_free:
  assumes ret: "seek nxt taken a = Some r"
  shows "\<forall>b. r = Inr b \<longrightarrow> first_free nxt taken a b"
proof (rule seek.raw_induct [where P = "\<lambda>nxt taken a r. \<forall>b. r = Inr b \<longrightarrow> first_free nxt taken a b", OF _ ret])
  fix sk nxt taken a and r :: "js_error + 'a"
  assume IH: "\<And>nxt taken a r. sk nxt taken a = Some r \<Longrightarrow> \<forall>b. r = Inr b \<longrightarrow> first_free nxt taken a b"
    and eq: "(if taken a then case nxt a of None \<Rightarrow> Some (Inl TypeError) | Some b \<Rightarrow> sk nxt taken b
              else Some (Inr a)) = Some r"
  show "\<forall>b. r = Inr b \<longrightarrow> first_free nxt taken a b"
  proof (cases "taken a")
    case False
    with eq have "r = Inr a" by simp
    with False show ?thesis by (auto simp: first_free_def intro!: exI [of _ 0])
  next
    case True
    with eq IH show ?thesis
      by (auto split: option.splits intro: first_free_step)
  qed
qed

lemma seek_free: "seek nxt taken a = Some (Inr b) \<Longrightarrow> \<not> taken b"
  using seek_first_free [of nxt taken a "Inr b"] by (simp add: first_free_def)

lemma run_seek_first_free:
  assumes "run_seek nxt taken a = Inr b"
  shows "first_free nxt taken a b"
proof (cases "seek nxt taken a")
  case (Some r)
  with assms seek_first_free [OF Some] show ?thesis by (simp add: run_seek_def)
qed (use assms in \<open>simp add: run_seek_def\<close>)

lemma run_seek_free: "run_seek nxt taken a = Inr b \<Longrightarrow> \<not> taken b"
  using run_seek_first_free [of nxt taken a b] by (simp add: first_free_def)

lemma seek_error:
  assumes ret: "seek nxt taken a = Some r"
  shows "\<forall>x. r = Inl x \<longrightarrow> x = TypeError"
proof (rule seek.raw_induct [where P = "\<lambda>nxt taken a r. \<forall>x. r = Inl x \<longrightarrow> x = TypeError", OF _ ret])
  fix sk nxt taken a and r :: "js_error + 'a"
  assume IH: "\<And>nxt taken a r. sk nxt taken a = Some r \<Longrightarrow> \<forall>x. r = Inl x \<longrightarrow> x = TypeError"
    and eq: "(if taken a then case nxt a of None \<Rightarrow> Some (Inl TypeError) | Some b \<Rightarrow> sk nxt taken b
              else Some (Inr a)) = Some r"
  then show "\<forall>x. r = Inl x \<longrightarrow> x = TypeError"
    by (auto split: option.splits if_splits)
qed

lemma run_seek_error: "seek nxt taken a \<noteq> None \<Longrightarrow> run_seek nxt taken a = Inl x \<Longrightarrow> x = TypeError"
  using seek_error [of nxt taken a] by (auto simp: run_seek_def)

text \<open>A search that meets a free candidate, or runs out of candidates, after \<open>k\<close> steps returns.\<close>

lemma seek_returns:
  "steps nxt k a = None \<or> (\<exists>b. steps nxt k a = Some b \<and> \<not> taken b) \<Longrightarrow> seek nxt taken a \<noteq> None"
proof (induction k arbitrary: a)
  case 0
  then show ?case by (simp add: seek.simps)
next
  case (Suc k)
  then show ?case by (subst seek.simps) (auto split: option.splits)
qed

text \<open>
  If no step renders the same twice, a search over finitely many taken renderings ends.
\<close>

lemma seek_terminates:
  assumes "\<And>a. taken a \<longleftrightarrow> render a \<in> set reserved"
    and "\<And>i j x y. steps nxt i a = Some x \<Longrightarrow> steps nxt j a = Some y \<Longrightarrow> render x = render y \<Longrightarrow> i = j"
  shows "seek nxt taken a \<noteq> None"
proof (rule ccontr)
  assume "\<not> seek nxt taken a \<noteq> None"
  then have all: "\<exists>x. steps nxt k a = Some x \<and> taken x" for k
    using seek_returns [of nxt k a taken] by (cases "steps nxt k a") auto
  define f where "f k = the (steps nxt k a)" for k
  have f: "steps nxt k a = Some (f k) \<and> taken (f k)" for k
    using all [of k] by (auto simp: f_def)
  have "inj (\<lambda>k. render (f k))"
    by (rule injI) (use assms(2) f in blast)
  moreover have "range (\<lambda>k. render (f k)) \<subseteq> set reserved"
    using f assms(1) by auto
  ultimately show False
    by (metis finite_set finite_subset infinite_UNIV_nat finite_imageD)
qed

text \<open>A rank that grows with each step gives that.\<close>

lemma steps_rank:
  assumes "\<And>a b. nxt a = Some b \<Longrightarrow> (rank a :: int) < rank b"
  shows "steps nxt i a = Some x \<Longrightarrow> rank a + int i \<le> rank x"
proof (induction i arbitrary: a)
  case (Suc i)
  then obtain b where b: "nxt a = Some b" "steps nxt i b = Some x" by (auto split: option.splits)
  with Suc.IH [OF b(2)] assms [OF b(1)] show ?case by simp
qed simp

end
