(* ===== verification/Network.thy ===== *)
theory Network
  imports Factory Loops
begin

text \<open>
  \<open>grid_client/src/primitives/network.ts\<close>: the WireGuard network of a twin.  The object is the
  record \<open>Network\<close>; its methods are effects on it.  The static lists \<open>newContracts\<close> and
  \<open>deletedContracts\<close> are fields too, as one object is followed here.  Everything outside the class
  is the record \<open>net_env\<close>: the package \<open>netaddr\<close>, \<open>private-ip\<close>, the key derivation of
  \<open>tweetnacl\<close>, the answers of nodes and chain, the key-value backend, and the sources of
  randomness, which are streams read at the position \<open>n_tick\<close>.

  A network object that the code shares between \<open>networks\<close> and a deployment is copied here; the code
  copies it again (\<open>updateNetworkDeployments\<close>, \<open>updateWorkload\<close>) after each change it makes.
\<close>

subsection \<open>Data\<close>

record WireGuardKeys =
  wk_privateKey :: string
  wk_publicKey :: string

record NetNode =
  nn_node_id :: int
  nn_contract_id :: "int option"
  nn_reserved_ips :: "string list"

record AccessPoint =
  ap_subnet :: string
  ap_wireguard_public_key :: string
  ap_node_id :: int

record UserAccess =
  ua_subnet :: string
  ua_private_key :: string
  ua_node_id :: int

record NodeZnet = Znet +
  nz_node_id :: int

record NodeDeployment =
  nd_deployment :: Deployment
  nd_node_id :: int

text \<open>The JSON in a contract's \<open>deploymentData\<close>, and a contract as the graph database lists it.\<close>

record DeploymentData =
  dd_type :: string
  dd_name :: string
  dd_projectName :: string

record GqlNodeContract =
  gc_contractID :: string
  gc_nodeID :: int
  gc_deploymentData :: string
  gc_deploymentHash :: string
  gc_numberOfPublicIPs :: int
  gc_solutionProviderID :: string
  gc_twinID :: string
  gc_state :: string
  gc_gridVersion :: string
  gc_parsed :: "DeploymentData option"

text \<open>The metadata of a network workload: version, user accesses, and whatever else is in it.\<close>

record NetworkMetadata =
  nm_version :: int
  nm_user_accesses :: "UserAccess list"
  nm_other :: "string js_object"

record OldNetwork =
  on_ip_range :: string
  on_nodes :: "NetNode list"

record 'a netaddr =
  na_parse :: "string \<Rightarrow> 'a option"
  na_prefix :: "'a \<Rightarrow> int"
  na_mask :: "int \<Rightarrow> 'a \<Rightarrow> 'a"
  na_increment :: "'a \<Rightarrow> 'a option"
  na_nextSibling :: "'a \<Rightarrow> 'a option"
  na_contains :: "'a \<Rightarrow> 'a \<Rightarrow> bool"
  na_toString :: "'a \<Rightarrow> string"

record 'a net_env =
  e_addr :: "'a netaddr"
  e_private_ip :: "string \<Rightarrow> bool option"
  e_public_key :: "string \<Rightarrow> string"
  e_grid :: grid_api
  e_access_fuel :: nat
  e_twin_id :: int
  e_valid :: recognisers
  e_wg_ports :: "int \<Rightarrow> js_error + int list"
  e_public_config :: "int \<Rightarrow> js_error + PublicConfig option"
  e_interfaces :: "int \<Rightarrow> js_error + string list js_object option"
  e_deployment_get :: "int \<Rightarrow> int \<Rightarrow> js_error + Deployment"
  e_private_ips :: "int \<Rightarrow> string \<Rightarrow> js_error + string list"
  e_contracts :: "js_error + GqlNodeContract list"
  e_parse_data :: "string \<Rightarrow> js_error + DeploymentData"
  e_parse_metadata :: "string \<Rightarrow> js_error + NetworkMetadata"
  e_show_metadata :: "NetworkMetadata \<Rightarrow> string"
  e_store_path :: string
  e_kvstore :: bool
  e_backend_list :: "string \<Rightarrow> js_error + string list"
  e_backend_load :: "string \<Rightarrow> js_error + OldNetwork"
  e_backend_dump :: "string \<Rightarrow> js_error + string option list"
  e_apply_extrinsics :: "string list \<Rightarrow> js_error + unit"
  e_keypair :: "nat \<Rightarrow> WireGuardKeys"
  e_hex_seed :: "nat \<Rightarrow> string"
  e_port :: "nat \<Rightarrow> int"
  e_choice :: "nat \<Rightarrow> nat \<Rightarrow> nat"

record Network =
  n_name :: string
  n_ipRange :: string
  n_nodes :: "NetNode list"
  n_deployments :: "NodeDeployment list"
  n_reservedSubnets :: "string list"
  n_networks :: "NodeZnet list"
  n_contracts :: "GqlNodeContract list option"
  n_accessPoints :: "AccessPoint list"
  n_userAccesses :: "UserAccess list"
  n_endpoints :: "(int \<times> string option) list"
  n_accessNodes :: "int list"
  n_newContracts :: "GqlNodeContract list"
  n_deletedContracts :: "int list"
  n_wireguardConfig :: string
  n_tick :: nat

type_synonym 'r net_eff = "(Network, js_error, 'r) eff"

subsection \<open>Addresses\<close>

definition Addr :: "('a, 'b) net_env_scheme \<Rightarrow> string \<Rightarrow> js_error + 'a" where
  "Addr e s = (case na_parse (e_addr e) s of None \<Rightarrow> Inl (plain_error C_Error (''Invalid address: '' @ s))
                | Some a \<Rightarrow> Inr a)"

text \<open>\<open>Addr(undefined)\<close> is an error as well.\<close>

definition Addr_opt :: "('a, 'b) net_env_scheme \<Rightarrow> string option \<Rightarrow> js_error + 'a" where
  "Addr_opt e s = (case s of None \<Rightarrow> Inl TypeError | Some x \<Rightarrow> Addr e x)"

text \<open>A method call on the \<open>null\<close> of an exhausted address space.\<close>

definition non_null :: "'a option \<Rightarrow> js_error + 'a" where
  "non_null x = (case x of None \<Rightarrow> Inl TypeError | Some a \<Rightarrow> Inr a)"

definition isPrivateIP :: "('a, 'b) net_env_scheme \<Rightarrow> string \<Rightarrow> bool" where
  "isPrivateIP e ip \<longleftrightarrow> e_private_ip e (before_char (CHR ''/'') ip) = Some True"

definition new_Network :: "('a, 'b) net_env_scheme \<Rightarrow> string \<Rightarrow> string \<Rightarrow> js_error + Network" where
  "new_Network e name ipRange =
     bindR (Addr e ipRange) (\<lambda>a.
       if na_prefix (e_addr e) a \<noteq> 16 then Inl (ValidationError ''Network ip_range should have a prefix 16.'')
       else if \<not> isPrivateIP e ipRange then Inl (ValidationError ''Network ip_range should be a private range.'')
       else Inr \<lparr>n_name = name, n_ipRange = ipRange, n_nodes = [], n_deployments = [],
              n_reservedSubnets = [], n_networks = [], n_contracts = None, n_accessPoints = [],
              n_userAccesses = [], n_endpoints = [], n_accessNodes = [], n_newContracts = [],
              n_deletedContracts = [], n_wireguardConfig = [], n_tick = 0\<rparr>)"

subsection \<open>Lookups\<close>

definition nodeExists :: "int \<Rightarrow> Network \<Rightarrow> bool" where
  "nodeExists node_id s \<longleftrightarrow> list_ex (\<lambda>net. nz_node_id net = node_id) (n_networks s)"

definition hasAccessPoint :: "int \<Rightarrow> Network \<Rightarrow> bool" where
  "hasAccessPoint node_id s \<longleftrightarrow> list_ex (\<lambda>a. node_id = ap_node_id a) (n_accessPoints s)"

definition node_net :: "int \<Rightarrow> Network \<Rightarrow> NodeZnet option" where
  "node_net node_id s = find (\<lambda>net. nz_node_id net = node_id) (n_networks s)"

definition getNodeWGPublicKey :: "('a, 'b) net_env_scheme \<Rightarrow> int \<Rightarrow> Network \<Rightarrow> string option" where
  "getNodeWGPublicKey e node_id s =
     map_option (\<lambda>net. e_public_key e (zn_wireguard_private_key net)) (node_net node_id s)"

definition getNodeWGListeningPort :: "int \<Rightarrow> Network \<Rightarrow> int option" where
  "getNodeWGListeningPort node_id s = map_option zn_wireguard_listen_port (node_net node_id s)"

definition getNodeSubnet :: "int \<Rightarrow> Network \<Rightarrow> string option" where
  "getNodeSubnet node_id s = map_option zn_subnet (node_net node_id s)"

fun reserved_of :: "int \<Rightarrow> NetNode list \<Rightarrow> string list" where
  "reserved_of node_id [] = []"
| "reserved_of node_id (n # ns) =
     (if nn_node_id n \<noteq> node_id then reserved_of node_id ns else nn_reserved_ips n)"

definition getNodeReservedIps :: "int \<Rightarrow> Network \<Rightarrow> string list" where
  "getNodeReservedIps node_id s = reserved_of node_id (n_nodes s)"

definition deleteReservedIp :: "int \<Rightarrow> string \<Rightarrow> Network \<Rightarrow> Network" where
  "deleteReservedIp node_id ip s = s\<lparr>n_nodes := map (\<lambda>n. if nn_node_id n = node_id
      then n\<lparr>nn_reserved_ips := filter (\<lambda>i. i \<noteq> ip) (nn_reserved_ips n)\<rparr> else n) (n_nodes s)\<rparr>"

text \<open>Pushing onto the reserved list of the first node with the id, if there is one.\<close>

fun push_reserved :: "int \<Rightarrow> string \<Rightarrow> NetNode list \<Rightarrow> NetNode list option" where
  "push_reserved node_id ip [] = None"
| "push_reserved node_id ip (n # ns) =
     (if nn_node_id n = node_id then Some (n\<lparr>nn_reserved_ips := nn_reserved_ips n @ [ip]\<rparr> # ns)
      else map_option (\<lambda>ns'. n # ns') (push_reserved node_id ip ns))"

subsection \<open>Private addresses\<close>

definition plain_ip :: "('a, 'b) net_env_scheme \<Rightarrow> 'a \<Rightarrow> string" where
  "plain_ip e a = before_char (CHR ''/'') (na_toString (e_addr e) a)"

text \<open>\<open>Addr(x).mask(32).increment().increment()\<close>\<close>

definition third_host :: "('a, 'b) net_env_scheme \<Rightarrow> 'a \<Rightarrow> js_error + 'a" where
  "third_host e a =
     bindR (non_null (na_increment (e_addr e) (na_mask (e_addr e) 32 a)))
       (\<lambda>b. non_null (na_increment (e_addr e) b))"

definition free_ip_of :: "('a, 'b) net_env_scheme \<Rightarrow> int \<Rightarrow> string \<Rightarrow> Network \<Rightarrow> js_error + 'a" where
  "free_ip_of e node_id subnet s =
     (if \<not> nodeExists node_id s \<and> subnet \<noteq> [] then bindR (Addr e subnet) (third_host e)
      else if nodeExists node_id s then
        bindR (Addr_opt e (getNodeSubnet node_id s)) (\<lambda>a. bindR (third_host e a)
          (run_seek (na_increment (e_addr e)) (\<lambda>i. plain_ip e i \<in> set (getNodeReservedIps node_id s))))
      else Inl (ValidationError ''node_id or subnet must be specified.''))"

definition getFreeIP :: "('a, 'b) net_env_scheme \<Rightarrow> int \<Rightarrow> string \<Rightarrow> string net_eff" where
  "getFreeIP e node_id subnet = (\<lambda>s. case free_ip_of e node_id subnet s of
      Inl err \<Rightarrow> (Inl err, s)
    | Inr a \<Rightarrow> (case push_reserved node_id (plain_ip e a) (n_nodes s) of
        None \<Rightarrow> (Inl (ValidationError ''node_id is not in the network. Please add it first.''), s)
      | Some ns \<Rightarrow> (Inr (plain_ip e a), s\<lparr>n_nodes := ns\<rparr>)))"

definition validateUserIP :: "('a, 'b) net_env_scheme \<Rightarrow> int \<Rightarrow> string \<Rightarrow> string option net_eff" where
  "validateUserIP e node_id ip_address = (\<lambda>s.
     if ip_address \<in> set (getNodeReservedIps node_id s)
     then (Inl (ValidationError (''private ip '' @ ip_address
             @ '' is being used please select another ip or leave it empty.'')), s)
     else (case bindR (Addr e ip_address) (\<lambda>ip. bindR (Addr_opt e (getNodeSubnet node_id s))
                  (\<lambda>net. Inr (na_contains (e_addr e) net ip))) of
        Inl err \<Rightarrow> (Inl err, s)
      | Inr False \<Rightarrow> (Inl (ValidationError (''Selected ip is not available in node subnet, node subnet: ''
             @ (case getNodeSubnet node_id s of Some x \<Rightarrow> x | None \<Rightarrow> ''undefined''))), s)
      | Inr True \<Rightarrow> (case push_reserved node_id ip_address (n_nodes s) of
           None \<Rightarrow> (Inr None, s)
         | Some ns \<Rightarrow> (Inr (Some ip_address), s\<lparr>n_nodes := ns\<rparr>))))"

subsection \<open>Subnets\<close>

definition opt_list :: "'x option \<Rightarrow> 'x list" where
  "opt_list x = (case x of None \<Rightarrow> [] | Some y \<Rightarrow> [y])"

definition nonempty_strings :: "string list \<Rightarrow> string list" where
  "nonempty_strings = filter (\<lambda>x. x \<noteq> [])"

definition getReservedSubnets :: "Network \<Rightarrow> Network" where
  "getReservedSubnets s = s\<lparr>n_reservedSubnets :=
     add_all_new (map zn_subnet (n_networks s))
       (add_all_new (nonempty_strings (map ap_subnet (n_accessPoints s)))
         (add_all_new (nonempty_strings (concat (map (\<lambda>n. opt_list (getNodeSubnet (nn_node_id n) s)) (n_nodes s))))
           (n_reservedSubnets s)))\<rparr>"

definition free_subnet_of :: "('a, 'b) net_env_scheme \<Rightarrow> Network \<Rightarrow> js_error + 'a" where
  "free_subnet_of e s =
     bindR (Addr e (n_ipRange s)) (\<lambda>a.
       bindR (non_null (na_nextSibling (e_addr e) (na_mask (e_addr e) 24 a))) (\<lambda>b.
         bindR (non_null (na_nextSibling (e_addr e) b))
           (run_seek (na_nextSibling (e_addr e))
             (\<lambda>x. na_toString (e_addr e) x \<in> set (n_reservedSubnets s)))))"

definition push_subnet :: "string \<Rightarrow> Network \<Rightarrow> Network" where
  "push_subnet x s = s\<lparr>n_reservedSubnets := n_reservedSubnets s @ [x]\<rparr>"

definition getFreeSubnet :: "('a, 'b) net_env_scheme \<Rightarrow> string net_eff" where
  "getFreeSubnet e = bindE (modifyE getReservedSubnets) (\<lambda>_. \<lambda>s. case free_subnet_of e s of
      Inl err \<Rightarrow> (Inl err, s)
    | Inr a \<Rightarrow> (Inr (na_toString (e_addr e) a), push_subnet (na_toString (e_addr e) a) s))"

definition ValidateFreeSubnet :: "string \<Rightarrow> string net_eff" where
  "ValidateFreeSubnet subnet = bindE (modifyE getReservedSubnets) (\<lambda>_. \<lambda>s.
     if subnet \<notin> set (n_reservedSubnets s) then (Inr subnet, push_subnet subnet s)
     else (Inl (ValidationError (''subnet '' @ subnet @ '' is not free.'')), s))"

subsection \<open>WireGuard text\<close>

text \<open>The third part must exist; a missing second part prints as \<open>undefined\<close>, but then so is the third.\<close>

definition wgRoutingIP :: "string \<Rightarrow> js_error + string" where
  "wgRoutingIP subnet =
     (let parts = split_on (CHR ''.'') subnet
      in if length parts < 3 then Inl TypeError
         else Inr (''100.64.'' @ parts ! 1 @ ''.'' @ before_char (CHR ''/'') (parts ! 2) @ ''/32''))"

definition getWireguardConfig :: "string \<Rightarrow> string \<Rightarrow> string \<Rightarrow> string \<Rightarrow> string \<Rightarrow> js_error + string" where
  "getWireguardConfig ipRange subnet userprivKey peerPubkey endpoint =
     bindR (wgRoutingIP subnet) (\<lambda>userIP. bindR (wgRoutingIP ipRange) (\<lambda>networkIP.
       Inr (''[Interface]'' @ [newline] @ ''Address = '' @ userIP @ [newline]
         @ ''PrivateKey = '' @ userprivKey @ [newline, newline] @ ''[Peer]'' @ [newline]
         @ ''PublicKey = '' @ peerPubkey @ [newline] @ ''AllowedIPs = '' @ ipRange @ '', '' @ networkIP
         @ [newline] @ ''PersistentKeepalive = 25'' @ [newline] @ ''Endpoint = '' @ endpoint)))"

subsection \<open>Workloads and deployments of the network\<close>

fun data_subnet :: "WorkloadData \<Rightarrow> string option" where
  "data_subnet (D_znet z) = Some (zn_subnet z)"
| "data_subnet (D_networklight n) = Some (nl_subnet n)"
| "data_subnet _ = None"

definition znet_data :: "NodeZnet \<Rightarrow> WorkloadData" where
  "znet_data net = D_znet (Znet.truncate net)"

definition getUpdatedNetwork :: "WorkloadData \<Rightarrow> Network \<Rightarrow> WorkloadData" where
  "getUpdatedNetwork d s = (case find (\<lambda>net. Some (zn_subnet net) = data_subnet d) (n_networks s) of
     Some net \<Rightarrow> znet_data net | None \<Rightarrow> d)"

definition getUpdatedMetadata :: "('a, 'b) net_env_scheme \<Rightarrow> int \<Rightarrow> string \<Rightarrow> Network \<Rightarrow> js_error + string" where
  "getUpdatedMetadata e nodeId metadata s =
     (if list_ex (\<lambda>n. nn_node_id n = nodeId) (n_nodes s)
      then bindR (e_parse_metadata e (if metadata = [] then ''{}'' else metadata)) (\<lambda>m.
             Inr (e_show_metadata e (m\<lparr>nm_version := 3, nm_user_accesses := n_userAccesses s\<rparr>)))
      else Inr metadata)"

definition updateWorkload :: "('a, 'b) net_env_scheme \<Rightarrow> int \<Rightarrow> Workload \<Rightarrow> Network \<Rightarrow> js_error + Workload" where
  "updateWorkload e nodeId w s =
     bindR (getUpdatedMetadata e nodeId (wl_metadata w) s) (\<lambda>md.
       Inr (w\<lparr>wl_data := getUpdatedNetwork (wl_data w) s, wl_metadata := md\<rparr>))"

fun replace_net :: "NodeZnet \<Rightarrow> Workload list \<Rightarrow> Workload list" where
  "replace_net net [] = []"
| "replace_net net (w # ws) =
     (if wl_type w = WT_network \<and> data_subnet (wl_data w) = Some (zn_subnet net)
      then w\<lparr>wl_data := znet_data net\<rparr> # ws else w # replace_net net ws)"

definition update_deployment_net :: "NodeZnet \<Rightarrow> NodeDeployment \<Rightarrow> NodeDeployment" where
  "update_deployment_net net d = d\<lparr>nd_deployment :=
     (nd_deployment d)\<lparr>dp_workloads := replace_net net (dp_workloads (nd_deployment d))\<rparr>\<rparr>"

definition updateNetworkDeployments :: "Network \<Rightarrow> Network" where
  "updateNetworkDeployments s =
     s\<lparr>n_deployments := fold (\<lambda>net. map (update_deployment_net net)) (n_networks s) (n_deployments s)\<rparr>"

text \<open>Access points are the peers without endpoint whose key is no node's key.\<close>

definition is_access_peer :: "('a, 'b) net_env_scheme \<Rightarrow> Network \<Rightarrow> Peer \<Rightarrow> bool" where
  "is_access_peer e s p \<longleftrightarrow>
     pr_wireguard_public_key p \<notin> set (map (\<lambda>net. e_public_key e (zn_wireguard_private_key net)) (n_networks s))
     \<and> pr_endpoint p = []"

definition peer_access_point :: "int \<Rightarrow> Peer \<Rightarrow> AccessPoint" where
  "peer_access_point node_id p = \<lparr>ap_subnet = pr_subnet p,
     ap_wireguard_public_key = pr_wireguard_public_key p, ap_node_id = node_id\<rparr>"

definition getAccessPoints :: "('a, 'b) net_env_scheme \<Rightarrow> Network \<Rightarrow> Network" where
  "getAccessPoints e s = s\<lparr>n_accessPoints := n_accessPoints s @
     concat (map (\<lambda>net. map (peer_access_point (nz_node_id net)) (filter (is_access_peer e s) (zn_peers net)))
       (n_networks s))\<rparr>"

end
