(* ===== verification/NetworkOps.thy ===== *)
theory NetworkOps
  imports Network
begin

text \<open>
  The methods of \<open>Network\<close> that talk to nodes, chain and backend: the contracts that make up a
  network, loading it, endpoints, free ports, access, the generation of WireGuard peers, adding and
  deleting a node, and saving.
\<close>

definition prefix_error :: "string \<Rightarrow> js_error + 'a \<Rightarrow> js_error + 'a" where
  "prefix_error = prefixing"

text \<open>\<open>Number(s)\<close> of the decimal ids that the graph database prints.\<close>

definition js_number :: "string \<Rightarrow> int" where
  "js_number s = int (read_nat s)"

subsection \<open>Contracts\<close>

text \<open>
  New contracts that the graph database has not indexed yet are appended; those it has are
  dropped from the static list.
\<close>

definition merge_new_contract ::
  "string \<Rightarrow> GqlNodeContract \<Rightarrow> GqlNodeContract list \<times> GqlNodeContract list
   \<Rightarrow> GqlNodeContract list \<times> GqlNodeContract list"
where
  "merge_new_contract type c = (\<lambda>(contracts, fetched).
     case gc_parsed c of None \<Rightarrow> (contracts, fetched) | Some d \<Rightarrow>
       if dd_type d \<noteq> type then (contracts, fetched)
       else if list_ex (\<lambda>x. js_number (gc_contractID x) = js_number (gc_contractID c)) contracts
       then (contracts, fetched @ [c]) else (contracts @ [c], fetched))"

fun parse_contracts :: "(string \<Rightarrow> js_error + DeploymentData) \<Rightarrow> GqlNodeContract list \<Rightarrow> js_error + GqlNodeContract list" where
  "parse_contracts parse [] = Inr []"
| "parse_contracts parse (c # cs) = bindR (parse (gc_deploymentData c)) (\<lambda>d.
     bindR (parse_contracts parse cs) (\<lambda>cs'. Inr (c\<lparr>gc_parsed := Some d\<rparr> # cs')))"

text \<open>A static contract without parsed data makes the loop die of a \<open>TypeError\<close>; \<open>save\<close> adds none.\<close>

definition getMyNetworkContracts :: "('a, 'b) net_env_scheme \<Rightarrow> bool \<Rightarrow> GqlNodeContract list net_eff" where
  "getMyNetworkContracts e fetch = (\<lambda>s.
     if \<not> fetch \<and> n_contracts s \<noteq> None then (Inr (the (n_contracts s)), s)
     else case e_contracts e of
       Inl err \<Rightarrow> (Inl err, s)
     | Inr listed \<Rightarrow>
         if list_ex (\<lambda>c. gc_parsed c = None) (n_newContracts s) then (Inl TypeError, s)
         else
           let (contracts, fetched) = fold (merge_new_contract ''network'') (n_newContracts s) (listed, []);
               s' = s\<lparr>n_newContracts := fold remove1 fetched (n_newContracts s)\<rparr>;
               live = filter (\<lambda>c. js_number (gc_contractID c) \<notin> set (n_deletedContracts s)) contracts
           in (case parse_contracts (e_parse_data e) live of
                 Inl err \<Rightarrow> (Inl err, s')
               | Inr cs \<Rightarrow> (Inr cs, s'\<lparr>n_contracts := Some cs\<rparr>)))"

definition contract_name :: "GqlNodeContract \<Rightarrow> string" where
  "contract_name c = (case gc_parsed c of Some d \<Rightarrow> dd_name d | None \<Rightarrow> [])"

definition getContractsName :: "GqlNodeContract list \<Rightarrow> string list" where
  "getContractsName cs = js_dedup (map contract_name cs)"

definition getDeploymentContracts :: "('a, 'b) net_env_scheme \<Rightarrow> string \<Rightarrow> GqlNodeContract list net_eff" where
  "getDeploymentContracts e name = bindE (getMyNetworkContracts e True)
     (\<lambda>cs. retE (filter (\<lambda>c. contract_name c = name) cs))"

definition listNewNetworks :: "('a, 'b) net_env_scheme \<Rightarrow> string list net_eff" where
  "listNewNetworks e = bindE (getMyNetworkContracts e True) (\<lambda>cs. retE (getContractsName cs))"

definition existOnNewNetwork :: "('a, 'b) net_env_scheme \<Rightarrow> bool net_eff" where
  "existOnNewNetwork e = bindE (listNewNetworks e) (\<lambda>ns. getE (\<lambda>s. n_name s \<in> set ns))"

definition getNetworksPath :: "('a, 'b) net_env_scheme \<Rightarrow> string" where
  "getNetworksPath e = e_store_path e @ ''/networks''"

definition getNetworkNames :: "('a, 'b) net_env_scheme \<Rightarrow> string list net_eff" where
  "getNetworkNames e = bindE (listNewNetworks e) (\<lambda>new.
     bindE (liftE (e_backend_list e (getNetworksPath e))) (\<lambda>old. retE (js_dedup (new @ old))))"

definition exists :: "('a, 'b) net_env_scheme \<Rightarrow> bool net_eff" where
  "exists e = bindE (getNetworkNames e) (\<lambda>ns. getE (\<lambda>s. n_name s \<in> set ns))"

definition info_path :: "('a, 'b) net_env_scheme \<Rightarrow> string \<Rightarrow> string" where
  "info_path e name = getNetworksPath e @ ''/'' @ name @ ''/info.json''"

definition getNetwork :: "('a, 'b) net_env_scheme \<Rightarrow> OldNetwork net_eff" where
  "getNetwork e = (\<lambda>s. (e_backend_load e (info_path e (n_name s)), s))"

subsection \<open>Saving\<close>

definition saveIfKVStoreBackend :: "('a, 'b) net_env_scheme \<Rightarrow> string option list \<Rightarrow> js_error + unit" where
  "saveIfKVStoreBackend e extrinsics =
     (let xs = concat (map opt_list extrinsics)
      in if e_kvstore e \<and> xs \<noteq> [] then e_apply_extrinsics e xs else Inr ())"

definition delete_network :: "('a, 'b) net_env_scheme \<Rightarrow> unit net_eff" where
  "delete_network e = (\<lambda>s. (bindR (e_backend_dump e (info_path e (n_name s))) (saveIfKVStoreBackend e), s))"

definition gql_of_contract :: "Contract \<Rightarrow> NodeContract \<Rightarrow> DeploymentData \<Rightarrow> GqlNodeContract" where
  "gql_of_contract c nc d =
     \<lparr>gc_contractID = show_int (ct_contractId c), gc_nodeID = nc_nodeId nc,
      gc_deploymentData = nc_deploymentData nc, gc_deploymentHash = nc_deploymentHash nc,
      gc_numberOfPublicIPs = nc_publicIps nc, gc_solutionProviderID = show_int (ct_solutionProviderId c),
      gc_twinID = show_int (ct_twinId c), gc_state = ''Created'', gc_gridVersion = ''4'', gc_parsed = Some d\<rparr>"

definition save_added :: "('a, 'b) net_env_scheme \<Rightarrow> Contract option \<Rightarrow> unit net_eff" where
  "save_added e added = (case added of None \<Rightarrow> retE () | Some c \<Rightarrow>
     (case ct_type c of CT_node nc \<Rightarrow> bindE (liftE (e_parse_data e (nc_deploymentData nc))) (\<lambda>d.
          modifyE (\<lambda>s. s\<lparr>n_newContracts := n_newContracts s @ [gql_of_contract c nc d]\<rparr>))
      | _ \<Rightarrow> retE ()))"

definition save :: "('a, 'b) net_env_scheme \<Rightarrow> Contract option \<Rightarrow> int option \<Rightarrow> unit net_eff" where
  "save e added deleted = bindE (save_added e added) (\<lambda>_.
     bindE (if nonzero deleted then modifyE (\<lambda>s. s\<lparr>n_deletedContracts := n_deletedContracts s @ [the deleted]\<rparr>)
            else retE ()) (\<lambda>_.
       bindE (getE n_nodes) (\<lambda>ns. if ns = [] then delete_network e else retE ())))"

subsection \<open>Loading\<close>

definition getReservedIps :: "('a, 'b) net_env_scheme \<Rightarrow> int \<Rightarrow> string \<Rightarrow> js_error + string list" where
  "getReservedIps e nodeId name = bindR (getNodeTwinId (e_grid e) nodeId) (\<lambda>twin.
     prefix_error (''Failed to list reserved ips from node '' @ show_int nodeId) (e_private_ips e twin name))"

definition workload_deleted :: "Workload \<Rightarrow> js_error + bool" where
  "workload_deleted w = (case wl_result w of None \<Rightarrow> Inl TypeError | Some r \<Rightarrow> Inr (res_state r = RS_deleted))"

fun znet_of :: "WorkloadData \<Rightarrow> Znet option" where
  "znet_of (D_znet z) = Some z"
| "znet_of _ = None"

definition with_node :: "int \<Rightarrow> Znet \<Rightarrow> NodeZnet" where
  "with_node node_id z = Znet.extend z \<lparr>nz_node_id = node_id\<rparr>"

definition add_loaded :: "NetNode \<Rightarrow> NodeZnet \<Rightarrow> NodeDeployment \<Rightarrow> Network \<Rightarrow> Network" where
  "add_loaded node net d s = s\<lparr>n_nodes := n_nodes s @ [node], n_networks := n_networks s @ [net],
     n_deployments := n_deployments s @ [d]\<rparr>"

definition load_workload ::
  "('a, 'b) net_env_scheme \<Rightarrow> GqlNodeContract \<Rightarrow> Deployment \<Rightarrow> Workload \<Rightarrow> unit net_eff"
where
  "load_workload e c d w = bindE (getE n_name) (\<lambda>name.
     if wl_type w \<noteq> WT_network \<or> wl_name w \<noteq> name then retE ()
     else bindE (liftE (workload_deleted w)) (\<lambda>deleted.
       if deleted then retE ()
       else bindE (liftE (e_parse_metadata e (wl_metadata w))) (\<lambda>md.
         bindE (liftE (getReservedIps e (gc_nodeID c) name)) (\<lambda>ips.
           bindE (getE n_ipRange) (\<lambda>range.
             let clash = ValidationError (''The same network name '' @ name @ '' with a different ip range already exists.'')
             in case znet_of (wl_data w) of
               None \<Rightarrow> throwE clash
             | Some z \<Rightarrow>
                 if zn_ip_range z \<noteq> range then throwE clash
                 else bindE (modifyE (\<lambda>s. s\<lparr>n_userAccesses := nm_user_accesses md\<rparr>)) (\<lambda>_.
                   modifyE (add_loaded
                     \<lparr>nn_node_id = gc_nodeID c, nn_contract_id = Some (js_number (gc_contractID c)), nn_reserved_ips = ips\<rparr>
                     (with_node (gc_nodeID c) z) \<lparr>nd_deployment = d, nd_node_id = gc_nodeID c\<rparr>)))))))"

definition load_contract :: "('a, 'b) net_env_scheme \<Rightarrow> GqlNodeContract \<Rightarrow> unit net_eff" where
  "load_contract e c = bindE (liftE (getNodeTwinId (e_grid e) (gc_nodeID c))) (\<lambda>twin.
     bindE (liftE (prefix_error (''Failed to load network deployment '' @ gc_contractID c)
              (e_deployment_get e twin (js_number (gc_contractID c))))) (\<lambda>d.
       iterE (load_workload e c d) (dp_workloads d)))"

definition loadNetworkFromContracts :: "('a, 'b) net_env_scheme \<Rightarrow> unit net_eff" where
  "loadNetworkFromContracts e = bindE (getE n_name) (\<lambda>name.
     bindE (getDeploymentContracts e name) (\<lambda>cs.
       bindE (iterE (load_contract e) cs) (\<lambda>_. modifyE (getAccessPoints e))))"

definition load_old_workload ::
  "('a, 'b) net_env_scheme \<Rightarrow> NetNode \<Rightarrow> Deployment \<Rightarrow> Workload \<Rightarrow> unit net_eff"
where
  "load_old_workload e node d w = bindE (getE n_ipRange) (\<lambda>range.
     if wl_type w \<noteq> WT_network then retE ()
     else bindE (liftE (bindR (Addr e range) (\<lambda>r. bindR (Addr_opt e (data_subnet (wl_data w))) (\<lambda>a.
              Inr (na_contains (e_addr e) r a))))) (\<lambda>inside.
       if \<not> inside then retE ()
       else bindE (liftE (workload_deleted w)) (\<lambda>deleted.
         if deleted then retE ()
         else case znet_of (wl_data w) of
             None \<Rightarrow> throwE TypeError
           | Some z \<Rightarrow> modifyE (add_loaded node (with_node (nn_node_id node) z)
                         \<lparr>nd_deployment = d, nd_node_id = nn_node_id node\<rparr>))))"

definition load_old_node :: "('a, 'b) net_env_scheme \<Rightarrow> NetNode \<Rightarrow> unit net_eff" where
  "load_old_node e node =
     (let contract_id = contract_arg (nn_contract_id node)
      in bindE (liftE (chain_contract (e_grid e) contract_id)) (\<lambda>c.
           case c of None \<Rightarrow> retE ()
           | Some _ \<Rightarrow> bindE (liftE (getNodeTwinId (e_grid e) (nn_node_id node))) (\<lambda>twin.
               bindE (liftE (prefix_error (''Failed to load network deployment '' @ show_int contract_id)
                        (e_deployment_get e twin contract_id))) (\<lambda>d.
                 iterE (load_old_workload e node d) (dp_workloads d)))))"

definition load_old :: "('a, 'b) net_env_scheme \<Rightarrow> unit net_eff" where
  "load_old e = bindE (getNetwork e) (\<lambda>old. bindE (getE (\<lambda>s. s)) (\<lambda>s.
     if on_ip_range old \<noteq> n_ipRange s
     then throwE (ValidationError (''The same network name '' @ n_name s @ '' with a different ip range already exists.''))
     else bindE (iterE (load_old_node e) (on_nodes old)) (\<lambda>_.
       bindE (modifyE (getAccessPoints e)) (\<lambda>_. save e None None))))"

definition load :: "('a, 'b) net_env_scheme \<Rightarrow> unit net_eff" where
  "load e = bindE (exists e) (\<lambda>there. if \<not> there then retE ()
     else bindE (existOnNewNetwork e) (\<lambda>new.
       if new then loadNetworkFromContracts e else load_old e))"

subsection \<open>Endpoints, ports and access nodes\<close>

definition truthy_string :: "string option \<Rightarrow> bool" where
  "truthy_string s \<longleftrightarrow> (case s of None \<Rightarrow> False | Some x \<Rightarrow> x \<noteq> [])"

definition config_endpoint :: "('a, 'b) net_env_scheme \<Rightarrow> PublicConfig option \<Rightarrow> string option" where
  "config_endpoint e c = (case c of None \<Rightarrow> None | Some p \<Rightarrow>
     if \<not> isPrivateIP e (pc_ipv4 p) then Some (before_char (CHR ''/'') (pc_ipv4 p))
     else if \<not> isPrivateIP e (pc_ipv6 p) then Some (before_char (CHR ''/'') (pc_ipv6 p)) else None)"

text \<open>Of the addresses of the interface \<open>zos\<close> the last public one wins.\<close>

definition interface_endpoint ::
  "('a, 'b) net_env_scheme \<Rightarrow> string option \<Rightarrow> string list js_object option \<Rightarrow> string option"
where
  "interface_endpoint e start result = (case result of None \<Rightarrow> start | Some ob \<Rightarrow>
     (case map_of ob ''zos'' of None \<Rightarrow> start
      | Some ips \<Rightarrow> fold (\<lambda>ip ep. if isPrivateIP e ip then ep else Some ip) ips start))"

definition find_endpoint :: "('a, 'b) net_env_scheme \<Rightarrow> int \<Rightarrow> js_error + string option" where
  "find_endpoint e node_id = bindR (getNodeTwinId (e_grid e) node_id) (\<lambda>twin.
     let first = config_endpoint e (case e_public_config e twin of Inl _ \<Rightarrow> None | Inr c \<Rightarrow> c)
     in if truthy_string first then Inr first
        else bindR (prefix_error (''Couldn'' @ apos # ''t get the network interfaces for node '' @ show_int node_id)
                     (e_interfaces e twin)) (\<lambda>ifs. Inr (interface_endpoint e first ifs)))"

definition getNodeEndpoint :: "('a, 'b) net_env_scheme \<Rightarrow> int \<Rightarrow> string option net_eff" where
  "getNodeEndpoint e node_id = (\<lambda>s. case map_of (n_endpoints s) node_id of
      Some ep \<Rightarrow> (Inr ep, s)
    | None \<Rightarrow> (case find_endpoint e node_id of
        Inl err \<Rightarrow> (Inl err, s)
      | Inr ep \<Rightarrow> (Inr ep, s\<lparr>n_endpoints := obj_set node_id ep (n_endpoints s)\<rparr>)))"

definition getFreePort :: "('a, 'b) net_env_scheme \<Rightarrow> int \<Rightarrow> int net_eff" where
  "getFreePort e node_id = (\<lambda>s. case bindR (getNodeTwinId (e_grid e) node_id) (\<lambda>twin.
        bindR (prefix_error (''Couldn'' @ apos # ''t get free Wireguard ports for node '' @ show_int node_id)
                 (e_wg_ports e twin)) (\<lambda>used.
          run_seek (\<lambda>i. Some (Suc i)) (\<lambda>i. e_port e i = 0 \<or> e_port e i \<in> set used) (n_tick s))) of
      Inl err \<Rightarrow> (Inl err, s)
    | Inr i \<Rightarrow> (Inr (e_port e i), s\<lparr>n_tick := Suc i\<rparr>))"

definition capacity_access_nodes :: "('a, 'b) net_env_scheme \<Rightarrow> js_error + (int \<times> access_config) list" where
  "capacity_access_nodes e =
     (case Nodes.getAccessNodes (e_grid e) (e_private_ip e) (e_access_fuel e) (Some (e_twin_id e)) of
        None \<Rightarrow> Inl diverges | Some r \<Rightarrow> r)"

definition getAccessNodes :: "('a, 'b) net_env_scheme \<Rightarrow> int list net_eff" where
  "getAccessNodes e = (\<lambda>s. if n_accessNodes s \<noteq> [] then (Inr (n_accessNodes s), s)
     else case capacity_access_nodes e of
       Inl err \<Rightarrow> (Inl err, s)
     | Inr all \<Rightarrow> let ids = filter (\<lambda>i. nodeExists i s) (map fst all)
                  in (Inr ids, s\<lparr>n_accessNodes := ids\<rparr>))"

definition port_text :: "int option \<Rightarrow> string" where
  "port_text p = (case p of None \<Rightarrow> ''undefined'' | Some i \<Rightarrow> show_int i)"

definition getAccessNodeEndpoint :: "('a, 'b) net_env_scheme \<Rightarrow> int \<Rightarrow> bool \<Rightarrow> Network \<Rightarrow> js_error + string" where
  "getAccessNodeEndpoint e nodeId ipv4 s = bindR (capacity_access_nodes e) (\<lambda>all.
     case map_of all nodeId of
       None \<Rightarrow> Inl (TFGridNodesError N_AccessNode (''Node '' @ show_int nodeId @ '' is not an access node.''))
     | Some c \<Rightarrow>
         if ipv4 \<and> ac_ipv4 c = []
         then Inl (TFGridNodesError N_InvalidResources (''Node '' @ show_int nodeId @ '' does not have ipv4 public config.''))
         else let port = port_text (getNodeWGListeningPort nodeId s) in
           if ac_ipv4 c \<noteq> [] then Inr (before_char (CHR ''/'') (ac_ipv4 c) @ '':'' @ port)
           else if ac_ipv6 c \<noteq> [] then Inr (''['' @ before_char (CHR ''/'') (ac_ipv6 c) @ '']:'' @ port)
           else Inl (TFGridNodesError N_InvalidResources
                  (''Couldn'' @ apos # ''t find ipv4 or ipv6 in the public config of node '' @ show_int nodeId @ ''.'')))"

end
