(* ===== verification/NetworkPeers.thy ===== *)
theory NetworkPeers
  imports NetworkOps
begin

text \<open>
  The rest of \<open>primitives/network.ts\<close>: \<open>generatePeers\<close>, which rewrites the peers of every node of
  the network, and the methods built on it, \<open>addNode\<close>, \<open>addAccess\<close>, \<open>checkMycelium\<close> and
  \<open>deleteNode\<close>.
\<close>

subsection \<open>Hidden nodes\<close>

text \<open>
  A node without public endpoint is reached through an access node chosen at random; it gets an
  access point there.  The result lists the hidden nodes with their access nodes, and the points.
\<close>

definition randomChoice :: "('a, 'b) net_env_scheme \<Rightarrow> int list \<Rightarrow> int net_eff" where
  "randomChoice e xs = (\<lambda>s. (Inr (xs ! (e_choice e (n_tick s) (length xs) mod length xs)),
                              s\<lparr>n_tick := Suc (n_tick s)\<rparr>))"

definition no_access_node :: "int \<Rightarrow> string \<Rightarrow> js_error" where
  "no_access_node node_id name = TFGridNodesError N_AccessNode
     (''Couldn'' @ apos # ''t add node '' @ show_int node_id @ '' as it'' @ apos # ''s a hidden node and there is no access node in this network ''
      @ name @ ''. Please add addAccess = true in the network configuration.'')"

definition hide_node ::
  "('a, 'b) net_env_scheme \<Rightarrow> NodeZnet \<Rightarrow> (int \<times> int) list \<times> AccessPoint list
   \<Rightarrow> ((int \<times> int) list \<times> AccessPoint list) net_eff"
where
  "hide_node e net acc = bindE (getE (\<lambda>s. length (n_networks s))) (\<lambda>n.
     if n = 1 then retE acc
     else bindE (getNodeEndpoint e (nz_node_id net)) (\<lambda>ep.
       if truthy_string ep then retE acc
       else bindE (getAccessNodes e) (\<lambda>access.
         if access = [] then bindE (getE n_name) (\<lambda>name. throwE (no_access_node (nz_node_id net) name))
         else bindE (randomChoice e access) (\<lambda>a.
           retE (obj_set (nz_node_id net) a (fst acc),
                 snd acc @ [\<lparr>ap_subnet = zn_subnet net,
                   ap_wireguard_public_key = e_public_key e (zn_wireguard_private_key net),
                   ap_node_id = a\<rparr>])))))"

definition hidden_nodes :: "('a, 'b) net_env_scheme \<Rightarrow> ((int \<times> int) list \<times> AccessPoint list) net_eff" where
  "hidden_nodes e = bindE (getE n_networks) (\<lambda>nets. foldE (hide_node e) nets ([], []))"

subsection \<open>Allowed addresses\<close>

text \<open>Pushing a subnet and its routing address; \<open>skip_known\<close> is the \<open>includes\<close> guard.\<close>

definition allow :: "string \<Rightarrow> string list \<Rightarrow> js_error + string list" where
  "allow subnet ips = bindR (wgRoutingIP subnet) (\<lambda>r. Inr (ips @ [subnet, r]))"

definition allow_new :: "string \<Rightarrow> string list \<Rightarrow> js_error + string list" where
  "allow_new subnet ips = (if subnet \<in> set ips then Inr ips else allow subnet ips)"

definition allowed_ips ::
  "AccessPoint list \<Rightarrow> string list \<Rightarrow> bool \<Rightarrow> string \<Rightarrow> NodeZnet \<Rightarrow> js_error + string list"
where
  "allowed_ips aps reserved hidden own net =
     bindR (if hidden then foldR allow (filter (\<lambda>x. x \<noteq> own \<and> x \<noteq> zn_subnet net) reserved) [] else Inr [])
       (\<lambda>ips. bindR (allow (zn_subnet net) ips) (\<lambda>ips'.
          foldR allow_new (map ap_subnet (filter (\<lambda>a. ap_node_id a = nz_node_id net) aps)) ips'))"

subsection \<open>Peers\<close>

definition endpoint_text :: "string \<Rightarrow> int \<Rightarrow> string" where
  "endpoint_text ip port = (if CHR '':'' \<in> set ip then ''['' @ ip @ '']'' else ip) @ '':'' @ show_int port"

definition set_peers :: "nat \<Rightarrow> (Peer list \<Rightarrow> Peer list) \<Rightarrow> Network \<Rightarrow> Network" where
  "set_peers i f s = s\<lparr>n_networks :=
     (n_networks s)[i := (n_networks s ! i)\<lparr>zn_peers := f (zn_peers (n_networks s ! i))\<rparr>]\<rparr>"

definition net_peer ::
  "('a, 'b) net_env_scheme \<Rightarrow> (int \<times> int) list \<Rightarrow> AccessPoint list \<Rightarrow> NodeZnet \<Rightarrow> NodeZnet \<Rightarrow> Peer option net_eff"
where
  "net_peer e hidden aps n net =
     (if nz_node_id n = nz_node_id net then retE None
      else if map_of hidden (nz_node_id n) \<noteq> None \<and> map_of hidden (nz_node_id n) \<noteq> Some (nz_node_id net)
      then retE None
      else
        let is_hidden = (map_of hidden (nz_node_id n) \<noteq> None) in
        bindE (if is_hidden then modifyE getReservedSubnets else retE ()) (\<lambda>_.
          bindE (getE n_reservedSubnets) (\<lambda>reserved.
            bindE (liftE (allowed_ips aps reserved is_hidden (zn_subnet n) net)) (\<lambda>ips.
              bindE (getNodeEndpoint e (nz_node_id net)) (\<lambda>ep.
                retE (if truthy_string ep
                      then Some \<lparr>pr_subnet = zn_subnet net,
                             pr_wireguard_public_key = e_public_key e (zn_wireguard_private_key net),
                             pr_allowed_ips = ips,
                             pr_endpoint = endpoint_text (the ep) (zn_wireguard_listen_port net)\<rparr>
                      else None))))))"

definition access_peer :: "AccessPoint \<Rightarrow> js_error + Peer" where
  "access_peer a = bindR (wgRoutingIP (ap_subnet a)) (\<lambda>r.
     Inr \<lparr>pr_subnet = ap_subnet a, pr_wireguard_public_key = ap_wireguard_public_key a,
          pr_allowed_ips = [ap_subnet a, r], pr_endpoint = []\<rparr>)"

definition generate_for ::
  "('a, 'b) net_env_scheme \<Rightarrow> (int \<times> int) list \<Rightarrow> AccessPoint list \<Rightarrow> nat \<Rightarrow> unit net_eff"
where
  "generate_for e hidden aps i = bindE (getE n_networks) (\<lambda>nets.
     bindE (modifyE (set_peers i (\<lambda>_. []))) (\<lambda>_.
       bindE (iterE (\<lambda>net. bindE (net_peer e hidden aps (nets ! i) net)
                (\<lambda>p. modifyE (set_peers i (\<lambda>ps. ps @ opt_list p)))) nets) (\<lambda>_.
         iterE (\<lambda>a. bindE (liftE (access_peer a)) (\<lambda>p. modifyE (set_peers i (\<lambda>ps. ps @ [p]))))
           (filter (\<lambda>a. nz_node_id (nets ! i) = ap_node_id a) aps))))"

definition generatePeers :: "('a, 'b) net_env_scheme \<Rightarrow> unit net_eff" where
  "generatePeers e = bindE (hidden_nodes e) (\<lambda>(hidden, points).
     bindE (getE n_accessPoints) (\<lambda>own.
       bindE (getE (\<lambda>s. length (n_networks s))) (\<lambda>n.
         iterE (generate_for e hidden (own @ points)) [0..<n])))"

subsection \<open>Adding a node\<close>

definition next_keypair :: "('a, 'b) net_env_scheme \<Rightarrow> WireGuardKeys net_eff" where
  "next_keypair e = (\<lambda>s. (Inr (e_keypair e (n_tick s)), s\<lparr>n_tick := Suc (n_tick s)\<rparr>))"

definition next_hex_seed :: "('a, 'b) net_env_scheme \<Rightarrow> string net_eff" where
  "next_hex_seed e = (\<lambda>s. (Inr (e_hex_seed e (n_tick s)), s\<lparr>n_tick := Suc (n_tick s)\<rparr>))"

text \<open>The seeds the user gives: pairs of node id and seed; an empty seed counts as none.\<close>

definition user_seed :: "int \<Rightarrow> (int \<times> string) list \<Rightarrow> string option" where
  "user_seed nodeId seeds = truthy_str (map_option snd (find (\<lambda>p. fst p = nodeId) seeds))"

definition node_mycelium ::
  "('a, 'b) net_env_scheme \<Rightarrow> int \<Rightarrow> bool \<Rightarrow> (int \<times> string) list \<Rightarrow> Mycelium option net_eff"
where
  "node_mycelium e nodeId mycelium seeds =
     (if \<not> mycelium then retE None
      else bindE (next_hex_seed e) (\<lambda>random. case user_seed nodeId seeds of
          None \<Rightarrow> retE (Some \<lparr>my_hex_key = random, my_peers = Some []\<rparr>)
        | Some seed \<Rightarrow> bindE (liftE (validateHexSeed seed 32)) (\<lambda>_.
            retE (Some \<lparr>my_hex_key = seed, my_peers = Some []\<rparr>))))"

definition addNode ::
  "('a, 'b) net_env_scheme \<Rightarrow> int \<Rightarrow> bool \<Rightarrow> string \<Rightarrow> string \<Rightarrow> (int \<times> string) list \<Rightarrow> Workload option net_eff"
where
  "addNode e nodeId mycelium description subnet seeds = bindE (getE (nodeExists nodeId)) (\<lambda>there.
     if there then retE None
     else bindE (next_keypair e) (\<lambda>keys.
       bindE (if subnet = [] then getFreeSubnet e else retE subnet) (\<lambda>sn.
         bindE (getFreePort e nodeId) (\<lambda>port.
           bindE (node_mycelium e nodeId mycelium seeds) (\<lambda>my.
             bindE (getE (\<lambda>s. \<lparr>zn_subnet = sn, zn_ip_range = n_ipRange s,
                        zn_wireguard_private_key = wk_privateKey keys, zn_wireguard_listen_port = port,
                        zn_peers = [], zn_mycelium = my, nz_node_id = nodeId\<rparr>)) (\<lambda>znet.
               bindE (modifyE (\<lambda>s. s\<lparr>n_networks := n_networks s @ [znet]\<rparr>)) (\<lambda>_.
                 bindE (generatePeers e) (\<lambda>_.
                   bindE (modifyE updateNetworkDeployments) (\<lambda>_.
                     bindE (getE (\<lambda>s. workload 0 (n_name s) WT_network
                                (getUpdatedNetwork (znet_data znet) s) [] description)) (\<lambda>w.
                       bindE (modifyE (\<lambda>s. s\<lparr>n_nodes := n_nodes s @
                           [\<lparr>nn_node_id = nodeId, nn_contract_id = None, nn_reserved_ips = []\<rparr>]\<rparr>)) (\<lambda>_.
                         retE (Some w))))))))))))"

subsection \<open>Adding access\<close>

definition addAccess :: "('a, 'b) net_env_scheme \<Rightarrow> int \<Rightarrow> bool \<Rightarrow> string net_eff" where
  "addAccess e node_id ipv4 = bindE (getE (nodeExists node_id)) (\<lambda>there.
     if \<not> there then throwE (ValidationError (''Node '' @ show_int node_id
            @ '' does not exist in the network. Please add it first.''))
     else bindE (\<lambda>s. (getAccessNodeEndpoint e node_id ipv4 s, s)) (\<lambda>endpoint.
       bindE (getE (\<lambda>s. case getNodeWGPublicKey e node_id s of None \<Rightarrow> ''undefined'' | Some k \<Rightarrow> k)) (\<lambda>pubkey.
         bindE (next_keypair e) (\<lambda>keys.
           bindE (getFreeSubnet e) (\<lambda>subnet.
             bindE (modifyE (\<lambda>s. s\<lparr>n_accessPoints := n_accessPoints s @
                      [\<lparr>ap_subnet = subnet, ap_wireguard_public_key = wk_publicKey keys, ap_node_id = node_id\<rparr>]\<rparr>)) (\<lambda>_.
               bindE (generatePeers e) (\<lambda>_.
                 bindE (modifyE updateNetworkDeployments) (\<lambda>_.
                   bindE (modifyE (\<lambda>s. s\<lparr>n_userAccesses := n_userAccesses s @
                            [\<lparr>ua_subnet = subnet, ua_private_key = wk_privateKey keys, ua_node_id = node_id\<rparr>]\<rparr>)) (\<lambda>_.
                     bindE (\<lambda>s. (getWireguardConfig (n_ipRange s) subnet (wk_privateKey keys) pubkey endpoint, s)) (\<lambda>config.
                       bindE (modifyE (\<lambda>s. s\<lparr>n_wireguardConfig := config\<rparr>)) (\<lambda>_. retE config)))))))))))"

subsection \<open>Mycelium on an existing network\<close>

text \<open>\<open>workload.data["mycelium"]["hex_key"] = seed\<close>\<close>

fun set_hex_key :: "string \<Rightarrow> WorkloadData \<Rightarrow> js_error + WorkloadData" where
  "set_hex_key seed (D_znet z) = (case zn_mycelium z of None \<Rightarrow> Inl TypeError
     | Some m \<Rightarrow> Inr (D_znet (z\<lparr>zn_mycelium := Some (m\<lparr>my_hex_key := seed\<rparr>)\<rparr>)))"
| "set_hex_key seed (D_networklight n) = (case nl_mycelium n of None \<Rightarrow> Inl TypeError
     | Some m \<Rightarrow> Inr (D_networklight (n\<lparr>nl_mycelium := Some (m\<lparr>my_hex_key := seed\<rparr>)\<rparr>)))"
| "set_hex_key seed d = Inl TypeError"

fun rekey_workloads :: "(WorkloadData \<Rightarrow> WorkloadData) \<Rightarrow> string \<Rightarrow> Workload list \<Rightarrow> js_error + Workload list" where
  "rekey_workloads upd seed [] = Inr []"
| "rekey_workloads upd seed (w # ws) = bindR (set_hex_key seed (wl_data w)) (\<lambda>d.
     bindR (rekey_workloads upd seed ws) (\<lambda>ws'.
       Inr (w\<lparr>wl_data := upd d, wl_version := wl_version w + 1\<rparr> # ws')))"

definition set_mycelium :: "int \<Rightarrow> string \<Rightarrow> Network \<Rightarrow> Network" where
  "set_mycelium nodeId seed s = s\<lparr>n_networks := map (\<lambda>net. if nz_node_id net = nodeId
       \<and> node_net nodeId s = Some net then net\<lparr>zn_mycelium := Some \<lparr>my_hex_key = seed, my_peers = Some []\<rparr>\<rparr> else net)
     (n_networks s)\<rparr>"

definition node_deployment :: "('a, 'b) net_env_scheme \<Rightarrow> int \<Rightarrow> string \<Rightarrow> Network \<Rightarrow> js_error + Deployment option" where
  "node_deployment e nodeId seed s =
     (case find (\<lambda>d. nd_node_id d = nodeId) (n_deployments s) of
        None \<Rightarrow> Inr None
      | Some d \<Rightarrow> bindR (fromObj (e_valid e) (nd_deployment d)) (\<lambda>dep.
          bindR (rekey_workloads (\<lambda>x. getUpdatedNetwork x s) seed (dp_workloads dep)) (\<lambda>ws.
            Inr (Some (dep\<lparr>dp_workloads := ws\<rparr>)))))"

definition checkMycelium ::
  "('a, 'b) net_env_scheme \<Rightarrow> int \<Rightarrow> bool \<Rightarrow> (int \<times> string) list \<Rightarrow> Deployment option net_eff"
where
  "checkMycelium e nodeId mycelium seeds =
     (if \<not> mycelium then retE None
      else bindE (getE (\<lambda>s. s)) (\<lambda>s.
        let current = (case node_net nodeId s of None \<Rightarrow> None
                       | Some net \<Rightarrow> truthy_str (map_option my_hex_key (zn_mycelium net)));
            given = user_seed nodeId seeds
        in if current \<noteq> None \<and> given \<noteq> None then
             (if given \<noteq> current
              then throwE (ValidationError (''Another mycelium seed is used for this network '' @ n_name s
                     @ '' on this '' @ show_int nodeId))
              else retE None)
           else bindE (next_hex_seed e) (\<lambda>random.
             if node_net nodeId s = None then retE None
             else bindE (case given of None \<Rightarrow> retE random
                         | Some g \<Rightarrow> bindE (liftE (validateHexSeed g 32)) (\<lambda>_. retE g)) (\<lambda>seed.
               bindE (modifyE (set_mycelium nodeId seed)) (\<lambda>_.
                 bindE (modifyE updateNetworkDeployments) (\<lambda>_.
                   (\<lambda>s'. (node_deployment e nodeId seed s', s'))))))))"

subsection \<open>Deleting a node\<close>

text \<open>
  The networks are filtered before the subnet of the deleted one is looked up, so the lookup
  \<open>net[0].subnet\<close> fails as soon as there is a reserved subnet to compare with.
\<close>

definition deleted_contract :: "int \<Rightarrow> NetNode list \<Rightarrow> int option" where
  "deleted_contract node_id ns =
     fold (\<lambda>n acc. if nn_node_id n \<noteq> node_id then acc else nn_contract_id n) ns (Some 0)"

definition deleteNode :: "('a, 'b) net_env_scheme \<Rightarrow> int \<Rightarrow> int option net_eff" where
  "deleteNode e node_id = bindE (exists e) (\<lambda>there.
     if \<not> there then retE (Some 0)
     else bindE (getE (\<lambda>s. deleted_contract node_id (n_nodes s))) (\<lambda>contract_id.
       bindE (modifyE (\<lambda>s. s\<lparr>n_nodes := filter (\<lambda>n. nn_node_id n \<noteq> node_id) (n_nodes s)\<rparr>)) (\<lambda>_.
         bindE (modifyE (\<lambda>s. s\<lparr>n_networks := filter (\<lambda>net. nz_node_id net \<noteq> node_id) (n_networks s)\<rparr>)) (\<lambda>_.
           bindE (getE (\<lambda>s. filter (\<lambda>net. nz_node_id net = node_id) (n_networks s))) (\<lambda>net.
             bindE (getE n_reservedSubnets) (\<lambda>reserved.
               case net of
                 [] \<Rightarrow> if reserved = [] then retE contract_id else throwE TypeError
               | n # _ \<Rightarrow> bindE (modifyE (\<lambda>s. s\<lparr>n_reservedSubnets := filter (\<lambda>x. x = zn_subnet n) reserved\<rparr>))
                            (\<lambda>_. retE contract_id)))))))"

end
