(* ===== verification/LightNetwork.thy ===== *)
theory LightNetwork
  imports NetworkPeers
begin

text \<open>
  \<open>grid_client/src/primitives/networklight.ts\<close>: the mycelium-only network, which lives on one node.
  \<open>node\<close>, \<open>network\<close> and \<open>NodeIds\<close> are unset until the object is loaded or a node is added;
  reading through one that is unset is a \<open>TypeError\<close>.  The environment is the one of \<open>Network\<close>
  (\<open>e_contracts\<close> answers with the contracts of type \<open>network-light\<close>).
\<close>

record NodeLight = NetworkLight +
  nli_ip_range :: string
  nli_node_id :: int

text \<open>\<open>Node\<close> of this file; \<open>new Node()\<close> has no id yet.\<close>

record LightNode =
  ln_node_id :: "int option"
  ln_contract_id :: "int option"
  ln_reserved_ips :: "string list"

record ZNetworkLight =
  l_name :: string
  l_ipRange :: string
  l_node :: "LightNode option"
  l_NodeIds :: "int list option"
  l_deployments :: "NodeDeployment list"
  l_network :: "NodeLight option"
  l_contracts :: "GqlNodeContract list option"
  l_reservedSubnets :: "string list"
  l_newContracts :: "GqlNodeContract list"
  l_deletedContracts :: "int list"
  l_tick :: nat

type_synonym 'r light_eff = "(ZNetworkLight, js_error, 'r) eff"

definition new_ZNetworkLight :: "('a, 'b) net_env_scheme \<Rightarrow> string \<Rightarrow> string \<Rightarrow> js_error + ZNetworkLight" where
  "new_ZNetworkLight e name ipRange = bindR (Addr e ipRange) (\<lambda>a.
     let range = (if na_prefix (e_addr e) a \<noteq> 16 then na_toString (e_addr e) (na_mask (e_addr e) 16 a) else ipRange)
     in if \<not> isPrivateIP e ipRange then Inl (ValidationError ''Network ip_range should be a private range.'')
        else Inr \<lparr>l_name = name, l_ipRange = range, l_node = None, l_NodeIds = None, l_deployments = [],
               l_network = None, l_contracts = None, l_reservedSubnets = [], l_newContracts = [],
               l_deletedContracts = [], l_tick = 0\<rparr>)"

subsection \<open>Lookups and reservations\<close>

definition light_nodeExists :: "int \<Rightarrow> ZNetworkLight \<Rightarrow> bool" where
  "light_nodeExists node_id s \<longleftrightarrow> (case l_NodeIds s of None \<Rightarrow> False | Some ids \<Rightarrow> node_id \<in> set ids)"

definition light_subnet_of :: "int option \<Rightarrow> ZNetworkLight \<Rightarrow> js_error + string option" where
  "light_subnet_of node_id s = (case l_network s of None \<Rightarrow> Inl TypeError
     | Some n \<Rightarrow> Inr (if Some (nli_node_id n) = node_id then Some (nl_subnet n) else None))"

definition light_getNodeSubnet :: "int \<Rightarrow> ZNetworkLight \<Rightarrow> js_error + string option" where
  "light_getNodeSubnet node_id = light_subnet_of (Some node_id)"

definition light_deleteReservedIp :: "int \<Rightarrow> string \<Rightarrow> ZNetworkLight \<Rightarrow> ZNetworkLight" where
  "light_deleteReservedIp node_id ip s =
     (if light_nodeExists node_id s
      then s\<lparr>l_node := map_option (\<lambda>n. n\<lparr>ln_reserved_ips := filter (\<lambda>i. i \<noteq> ip) (ln_reserved_ips n)\<rparr>) (l_node s)\<rparr>
      else s)"

definition light_getNodeReservedIps :: "int \<Rightarrow> ZNetworkLight \<Rightarrow> string list" where
  "light_getNodeReservedIps node_id s =
     (if light_nodeExists node_id s then (case l_node s of Some n \<Rightarrow> ln_reserved_ips n | None \<Rightarrow> []) else [])"

definition light_push_ip :: "int \<Rightarrow> string \<Rightarrow> js_error \<Rightarrow> ZNetworkLight \<Rightarrow> js_error + bool \<times> ZNetworkLight" where
  "light_push_ip node_id ip err s = (case l_node s of None \<Rightarrow> Inl err
     | Some n \<Rightarrow> if ln_node_id n = Some node_id
         then Inr (True, s\<lparr>l_node := Some (n\<lparr>ln_reserved_ips := ln_reserved_ips n @ [ip]\<rparr>)\<rparr>)
         else Inr (False, s))"

text \<open>Unlike \<open>Network.getFreeIP\<close> there is no search past the reserved addresses.\<close>

definition light_free_ip_of :: "('a, 'b) net_env_scheme \<Rightarrow> int \<Rightarrow> string \<Rightarrow> ZNetworkLight \<Rightarrow> js_error + 'a" where
  "light_free_ip_of e node_id subnet s = (case l_network s of None \<Rightarrow> Inl TypeError
     | Some n \<Rightarrow>
         if nli_node_id n \<noteq> node_id \<and> subnet \<noteq> [] then bindR (Addr e subnet) (third_host e)
         else if nli_node_id n = node_id
         then bindR (light_getNodeSubnet node_id s) (\<lambda>sn. bindR (Addr_opt e sn) (third_host e))
         else Inl (ValidationError ''node_id or subnet must be specified.''))"

definition light_getFreeIP :: "('a, 'b) net_env_scheme \<Rightarrow> int \<Rightarrow> string \<Rightarrow> string light_eff" where
  "light_getFreeIP e node_id subnet = (\<lambda>s. case light_free_ip_of e node_id subnet s of
      Inl err \<Rightarrow> (Inl err, s)
    | Inr a \<Rightarrow> (case light_push_ip node_id (plain_ip e a) TypeError s of
        Inl err \<Rightarrow> (Inl err, s)
      | Inr (True, s') \<Rightarrow> (Inr (plain_ip e a), s')
      | Inr (False, s') \<Rightarrow> (Inl (ValidationError ''node_id is not in the network. Please add it first.''), s')))"

definition light_validateUserIP :: "('a, 'b) net_env_scheme \<Rightarrow> int \<Rightarrow> string \<Rightarrow> string option light_eff" where
  "light_validateUserIP e node_id ip_address = (\<lambda>s.
     case bindR (light_getNodeSubnet node_id s) (\<lambda>sn. bindR (Addr e ip_address) (\<lambda>ip.
            bindR (Addr_opt e sn) (\<lambda>net. Inr (sn, na_contains (e_addr e) net ip)))) of
       Inl err \<Rightarrow> (Inl err, s)
     | Inr (sn, inside) \<Rightarrow>
         if \<not> inside then (Inl (ValidationError (''Selected ip is not available in node subnet, node subnet: ''
                            @ (case sn of Some x \<Rightarrow> x | None \<Rightarrow> ''undefined''))), s)
         else (case light_push_ip node_id ip_address TypeError s of
             Inl err \<Rightarrow> (Inl err, s)
           | Inr (True, s') \<Rightarrow> (Inr (Some ip_address), s')
           | Inr (False, s') \<Rightarrow> (Inr None, s')))"

definition light_getReservedSubnets :: "string list light_eff" where
  "light_getReservedSubnets = (\<lambda>s. case l_node s of None \<Rightarrow> (Inl TypeError, s)
     | Some n \<Rightarrow> (case light_subnet_of (ln_node_id n) s of
         Inl err \<Rightarrow> (Inl err, s)
       | Inr sn \<Rightarrow>
           let s' = s\<lparr>l_reservedSubnets := add_all_new (nonempty_strings (opt_list sn)) (l_reservedSubnets s)\<rparr>
           in (Inr (l_reservedSubnets s'), s')))"

definition light_push_subnet :: "string \<Rightarrow> ZNetworkLight \<Rightarrow> ZNetworkLight" where
  "light_push_subnet x s = s\<lparr>l_reservedSubnets := l_reservedSubnets s @ [x]\<rparr>"

definition light_ValidateFreeSubnet :: "string \<Rightarrow> string light_eff" where
  "light_ValidateFreeSubnet subnet = bindE light_getReservedSubnets (\<lambda>reserved. \<lambda>s.
     if subnet \<notin> set reserved then (Inr subnet, light_push_subnet subnet s)
     else (Inl (ValidationError (''subnet '' @ subnet @ '' is not free.'')), s))"

text \<open>\<open>getFreeSubnet\<close> reserves nothing and looks at no reservation.\<close>

definition light_getFreeSubnet :: "('a, 'b) net_env_scheme \<Rightarrow> ZNetworkLight \<Rightarrow> js_error + string" where
  "light_getFreeSubnet e s = bindR (Addr e (l_ipRange s)) (\<lambda>a.
     bindR (non_null (na_nextSibling (e_addr e) (na_mask (e_addr e) 24 a))) (\<lambda>b.
       bindR (non_null (na_nextSibling (e_addr e) b)) (\<lambda>c. Inr (na_toString (e_addr e) c))))"

subsection \<open>Workloads and deployments\<close>

definition light_data :: "NodeLight \<Rightarrow> WorkloadData" where
  "light_data n = D_networklight (NetworkLight.truncate n)"

text \<open>With no network and no subnet both sides are \<open>undefined\<close>, and \<open>undefined\<close> is returned.\<close>

definition light_getUpdatedNetwork :: "WorkloadData \<Rightarrow> ZNetworkLight \<Rightarrow> WorkloadData option" where
  "light_getUpdatedNetwork d s = (case l_network s of
     None \<Rightarrow> if data_subnet d = None then None else Some d
   | Some n \<Rightarrow> Some (if data_subnet d = Some (nl_subnet n) then light_data n else d))"

definition light_getUpdatedMetadata ::
  "('a, 'b) net_env_scheme \<Rightarrow> int \<Rightarrow> string \<Rightarrow> ZNetworkLight \<Rightarrow> js_error + string"
where
  "light_getUpdatedMetadata e nodeId metadata s = (case l_node s of None \<Rightarrow> Inl TypeError
     | Some n \<Rightarrow> if ln_node_id n = Some nodeId
         then bindR (e_parse_metadata e (if metadata = [] then ''{}'' else metadata)) (\<lambda>m.
                Inr (e_show_metadata e (m\<lparr>nm_version := 4\<rparr>)))
         else Inr metadata)"

fun light_replace :: "NodeLight \<Rightarrow> Workload list \<Rightarrow> Workload list" where
  "light_replace net [] = []"
| "light_replace net (w # ws) =
     (if wl_type w = WT_networklight \<and> data_subnet (wl_data w) = Some (nl_subnet net)
      then w\<lparr>wl_data := light_data net\<rparr> # ws else w # light_replace net ws)"

definition light_updateNetworkDeployments :: "ZNetworkLight \<Rightarrow> ZNetworkLight" where
  "light_updateNetworkDeployments s = (case l_network s of None \<Rightarrow> s | Some net \<Rightarrow>
     s\<lparr>l_deployments := map (\<lambda>d. d\<lparr>nd_deployment := (nd_deployment d)\<lparr>dp_workloads :=
         light_replace net (dp_workloads (nd_deployment d))\<rparr>\<rparr>) (l_deployments s)\<rparr>)"

definition light_mycelium ::
  "('a, 'b) net_env_scheme \<Rightarrow> int \<Rightarrow> bool \<Rightarrow> (int \<times> string) list \<Rightarrow> Mycelium option light_eff"
where
  "light_mycelium e nodeId mycelium seeds = (\<lambda>s.
     if \<not> mycelium then (Inr None, s)
     else let s' = s\<lparr>l_tick := Suc (l_tick s)\<rparr> in
       (case user_seed nodeId seeds of
          None \<Rightarrow> (Inr (Some \<lparr>my_hex_key = e_hex_seed e (l_tick s), my_peers = Some []\<rparr>), s')
        | Some seed \<Rightarrow> (bindR (validateHexSeed seed 32) (\<lambda>_. Inr (Some \<lparr>my_hex_key = seed, my_peers = Some []\<rparr>)), s')))"

definition light_addNode ::
  "('a, 'b) net_env_scheme \<Rightarrow> int \<Rightarrow> bool \<Rightarrow> string \<Rightarrow> string \<Rightarrow> (int \<times> string) list \<Rightarrow> Workload option light_eff"
where
  "light_addNode e nodeId mycelium description subnet seeds = bindE (getE (light_nodeExists nodeId)) (\<lambda>there.
     if there then retE None
     else bindE (\<lambda>s. (if subnet = [] then light_getFreeSubnet e s else Inr subnet, s)) (\<lambda>sn.
       bindE (light_mycelium e nodeId mycelium seeds) (\<lambda>my.
         bindE (getE (\<lambda>s. \<lparr>nl_subnet = sn, nl_mycelium = my, nli_ip_range = l_ipRange s, nli_node_id = nodeId\<rparr>)) (\<lambda>net.
           bindE (modifyE (\<lambda>s. light_updateNetworkDeployments (s\<lparr>l_network := Some net\<rparr>))) (\<lambda>_.
             bindE (modifyE (\<lambda>s. s\<lparr>l_node := Some \<lparr>ln_node_id = Some nodeId, ln_contract_id = None, ln_reserved_ips = []\<rparr>\<rparr>)) (\<lambda>_.
               getE (\<lambda>s. Some (workload 0 (l_name s) WT_networklight (light_data net) [] description))))))))"

definition light_rekey_node ::
  "('a, 'b) net_env_scheme \<Rightarrow> int \<Rightarrow> string \<Rightarrow> ZNetworkLight \<Rightarrow> js_error + Deployment option"
where
  "light_rekey_node e nodeId seed s =
     (case find (\<lambda>d. nd_node_id d = nodeId) (l_deployments s) of
        None \<Rightarrow> Inr None
      | Some d \<Rightarrow> bindR (fromObj (e_valid e) (nd_deployment d)) (\<lambda>dep.
          bindR (rekey_workloads (\<lambda>x. case light_getUpdatedNetwork x s of Some y \<Rightarrow> y | None \<Rightarrow> x) seed (dp_workloads dep))
            (\<lambda>ws. Inr (Some (dep\<lparr>dp_workloads := ws\<rparr>)))))"

definition light_checkMycelium ::
  "('a, 'b) net_env_scheme \<Rightarrow> int \<Rightarrow> bool \<Rightarrow> (int \<times> string) list \<Rightarrow> Deployment option light_eff"
where
  "light_checkMycelium e nodeId mycelium seeds = (\<lambda>s.
     if \<not> mycelium then (Inr None, s)
     else
       let current = (case l_network s of None \<Rightarrow> None | Some net \<Rightarrow> truthy_str (map_option my_hex_key (nl_mycelium net)));
           listed = map_option snd (find (\<lambda>p. fst p = nodeId) seeds)
       in if current \<noteq> None then
            (if seeds \<noteq> [] \<and> listed \<noteq> current
             then (Inl (ValidationError (''Another mycelium seed is used for this network '' @ l_name s
                     @ '' on this '' @ show_int nodeId)), s)
             else (Inr None, s))
          else
            let s1 = s\<lparr>l_tick := Suc (l_tick s)\<rparr> in
            (case l_network s1 of None \<Rightarrow> (Inr None, s1) | Some net \<Rightarrow>
               (case (case user_seed nodeId seeds of None \<Rightarrow> Inr (e_hex_seed e (l_tick s))
                      | Some g \<Rightarrow> bindR (validateHexSeed g 32) (\<lambda>_. Inr g)) of
                  Inl err \<Rightarrow> (Inl err, s1)
                | Inr seed \<Rightarrow>
                    let s2 = light_updateNetworkDeployments
                               (s1\<lparr>l_network := Some (net\<lparr>nl_mycelium := Some \<lparr>my_hex_key = seed, my_peers = Some []\<rparr>\<rparr>)\<rparr>)
                    in (light_rekey_node e nodeId seed s2, s2))))"

subsection \<open>Contracts and loading\<close>

definition light_getMyNetworkContracts :: "('a, 'b) net_env_scheme \<Rightarrow> bool \<Rightarrow> GqlNodeContract list light_eff" where
  "light_getMyNetworkContracts e fetch = (\<lambda>s.
     if \<not> fetch \<and> l_contracts s \<noteq> None then (Inr (the (l_contracts s)), s)
     else case e_contracts e of
       Inl err \<Rightarrow> (Inl err, s)
     | Inr listed \<Rightarrow>
         if list_ex (\<lambda>c. gc_parsed c = None) (l_newContracts s) then (Inl TypeError, s)
         else
           let (contracts, fetched) = fold (merge_new_contract ''network-light'') (l_newContracts s) (listed, []);
               s' = s\<lparr>l_newContracts := fold remove1 fetched (l_newContracts s)\<rparr>;
               live = filter (\<lambda>c. js_number (gc_contractID c) \<notin> set (l_deletedContracts s)) contracts
           in (case parse_contracts (e_parse_data e) live of
                 Inl err \<Rightarrow> (Inl err, s')
               | Inr cs \<Rightarrow> (Inr cs, s'\<lparr>l_contracts := Some cs\<rparr>)))"

text \<open>The node of every contract is recorded, of whatever network it is.\<close>

definition light_getDeploymentContracts :: "('a, 'b) net_env_scheme \<Rightarrow> string \<Rightarrow> GqlNodeContract list light_eff" where
  "light_getDeploymentContracts e name = bindE (light_getMyNetworkContracts e True) (\<lambda>cs. \<lambda>s.
     case l_NodeIds s of
       None \<Rightarrow> if cs = [] then (Inr [], s) else (Inl TypeError, s)
     | Some ids \<Rightarrow> (Inr (filter (\<lambda>c. contract_name c = name) cs),
                    s\<lparr>l_NodeIds := Some (ids @ map gc_nodeID cs)\<rparr>))"

definition light_listAllNetworks :: "('a, 'b) net_env_scheme \<Rightarrow> string list light_eff" where
  "light_listAllNetworks e = bindE (light_getMyNetworkContracts e True) (\<lambda>cs. retE (getContractsName cs))"

definition light_exists :: "('a, 'b) net_env_scheme \<Rightarrow> bool light_eff" where
  "light_exists e = bindE (light_listAllNetworks e) (\<lambda>ns. getE (\<lambda>s. l_name s \<in> set ns))"

fun light_of :: "WorkloadData \<Rightarrow> NetworkLight option" where
  "light_of (D_networklight n) = Some n"
| "light_of _ = None"

definition light_load_workload ::
  "('a, 'b) net_env_scheme \<Rightarrow> GqlNodeContract \<Rightarrow> Deployment \<Rightarrow> Workload \<Rightarrow> unit light_eff"
where
  "light_load_workload e c d w = bindE (getE l_name) (\<lambda>name.
     if wl_type w \<noteq> WT_networklight \<or> wl_name w \<noteq> name then retE ()
     else bindE (liftE (workload_deleted w)) (\<lambda>deleted.
       if deleted then retE ()
       else bindE (liftE (getReservedIps e (gc_nodeID c) name)) (\<lambda>ips.
         case light_of (wl_data w) of
           None \<Rightarrow> throwE TypeError
         | Some n \<Rightarrow> modifyE (\<lambda>s. s\<lparr>l_node := Some \<lparr>ln_node_id = Some (gc_nodeID c),
                ln_contract_id = Some (js_number (gc_contractID c)), ln_reserved_ips = ips\<rparr>,
              l_network := Some (NetworkLight.extend n \<lparr>nli_ip_range = [], nli_node_id = gc_nodeID c\<rparr>),
              l_deployments := l_deployments s @ [\<lparr>nd_deployment = d, nd_node_id = gc_nodeID c\<rparr>]\<rparr>))))"

definition light_load_contract :: "('a, 'b) net_env_scheme \<Rightarrow> GqlNodeContract \<Rightarrow> unit light_eff" where
  "light_load_contract e c = bindE (liftE (getNodeTwinId (e_grid e) (gc_nodeID c))) (\<lambda>twin.
     bindE (liftE (prefix_error (''Failed to load network deployment '' @ gc_contractID c)
              (e_deployment_get e twin (js_number (gc_contractID c))))) (\<lambda>d.
       iterE (light_load_workload e c d) (dp_workloads d)))"

definition light_load :: "('a, 'b) net_env_scheme \<Rightarrow> unit light_eff" where
  "light_load e = bindE (light_exists e) (\<lambda>there. if \<not> there then retE ()
     else bindE (modifyE (\<lambda>s. s\<lparr>l_NodeIds := Some []\<rparr>)) (\<lambda>_.
       bindE (getE l_name) (\<lambda>name. bindE (light_getDeploymentContracts e name)
         (iterE (light_load_contract e)))))"

text \<open>
  Deleting: a node other than the one held is reset, the one held is kept; and the filter keeps the
  subnet of the network instead of dropping it.
\<close>

definition light_deleteNode :: "('a, 'b) net_env_scheme \<Rightarrow> int \<Rightarrow> int option light_eff" where
  "light_deleteNode e node_id = bindE (light_exists e) (\<lambda>there. \<lambda>s.
     if \<not> there then (Inr (Some 0), s)
     else case l_node s of
       None \<Rightarrow> (Inl TypeError, s)
     | Some n \<Rightarrow>
         let other = (ln_node_id n \<noteq> Some node_id);
             s' = (if other then s\<lparr>l_node := Some \<lparr>ln_node_id = None, ln_contract_id = None, ln_reserved_ips = []\<rparr>\<rparr> else s)
         in if l_reservedSubnets s = [] then (Inr (if other then Some 0 else ln_contract_id n), s')
            else case l_network s of
              None \<Rightarrow> (Inl TypeError, s')
            | Some net \<Rightarrow> (Inr (if other then Some 0 else ln_contract_id n),
                 s'\<lparr>l_reservedSubnets := filter (\<lambda>x. x = nl_subnet net) (l_reservedSubnets s)\<rparr>))"

end
