(* ===== verification/FactoryFacts.thy ===== *)
theory FactoryFacts
  imports Factory
begin

text \<open>
  What \<open>UpdateDeployment\<close> computes.  The two nested loops, with their early exit and their shared
  local variables, amount to a pointwise specification on the old workloads: each surviving one is
  compared with the new workload of its name and either kept or given the next version.  The same
  facts expose what the early exit loses.
\<close>

subsection \<open>Machine addresses\<close>

lemma set_machine_ip_same [simp]: "machine_ip d = Some ip \<Longrightarrow> set_machine_ip ip d = d"
  by (cases d) (auto simp: set_first_ip_def split: list.splits)

lemma machine_ip_set [simp]: "machine_ip d = Some ip' \<Longrightarrow> machine_ip (set_machine_ip ip d) = Some ip"
  by (cases d) (auto simp: set_first_ip_def split: list.splits)

definition kept :: "bool \<Rightarrow> Workload \<Rightarrow> Workload \<Rightarrow> Workload" where
  "kept has_net old w =
     (if wl_type w = WT_zmachine \<and> has_net
      then w\<lparr>wl_data := set_machine_ip (opt_str (machine_ip (wl_data old))) (wl_data w)\<rparr> else w)"

text \<open>When the addresses can be read and the node of the contract is known.\<close>

definition ips_known :: "Workload \<Rightarrow> Workload \<Rightarrow> bool" where
  "ips_known old w \<longleftrightarrow> (wl_type w = WT_zmachine \<longrightarrow>
     machine_ip (wl_data old) \<noteq> None \<and> machine_ip (wl_data w) \<noteq> None)"

lemma keep_machine_ip_kept:
  assumes "ips_known old w" and "wl_type w = WT_zmachine \<Longrightarrow> getNodeIdFromContractId api c = Inr node"
  shows "\<exists>n'. keep_machine_ip api del_ip c (wl_data old) w network = Inr (kept (network \<noteq> None) old w, n')
           \<and> (n' = None \<longleftrightarrow> network = None)"
  using assms by (auto simp: keep_machine_ip_def kept_def ips_known_def opt_str_def split: option.splits)

lemma kept_sel [simp]:
  "wl_name (kept b o' w) = wl_name w" "wl_type (kept b o' w) = wl_type w"
  "wl_version (kept b o' w) = wl_version w"
  by (simp_all add: kept_def)

subsection \<open>The specification\<close>

definition versioned :: "bool \<Rightarrow> Workload \<Rightarrow> Workload \<Rightarrow> Workload" where
  "versioned has_net old w = kept has_net old (w\<lparr>wl_version := wl_version old\<rparr>)"

definition merge_one :: "bool \<Rightarrow> int \<Rightarrow> Workload list \<Rightarrow> Workload \<Rightarrow> Workload" where
  "merge_one has_net dv ws old =
     (case find (\<lambda>w. wl_name w = wl_name old) ws of
        None \<Rightarrow> old
      | Some w \<Rightarrow> if wl_type w = WT_network \<or> Workload_challenge (versioned has_net old w) = Workload_challenge old
                  then old else updated_workload dv old (versioned has_net old w))"

definition survives :: "Workload list \<Rightarrow> Workload \<Rightarrow> bool" where
  "survives ws old \<longleftrightarrow> wl_type old = WT_network \<or> wl_name old \<in> wl_name ` set ws"

definition merge_old :: "bool \<Rightarrow> int \<Rightarrow> Workload list \<Rightarrow> Workload \<Rightarrow> Workload" where
  "merge_old has_net dv ws old = (if wl_type old = WT_network then old else merge_one has_net dv ws old)"

lemma updated_workload_sel [simp]:
  "wl_name (updated_workload dv o' w) = wl_name o'" "wl_type (updated_workload dv o' w) = wl_type o'"
  "wl_version (updated_workload dv o' w) = dv + 1"
  by (simp_all add: updated_workload_def)

lemma merge_one_sel [simp]:
  "wl_name (merge_one b dv ws o') = wl_name o'" "wl_type (merge_one b dv ws o') = wl_type o'"
  by (auto simp: merge_one_def split: option.splits)

lemma merge_old_sel [simp]:
  "wl_name (merge_old b dv ws o') = wl_name o'" "wl_type (merge_old b dv ws o') = wl_type o'"
  by (simp_all add: merge_old_def)

lemma merge_old_version: "merge_old b dv ws o' = o' \<or> wl_version (merge_old b dv ws o') = dv + 1"
  by (auto simp: merge_old_def merge_one_def split: option.splits)

subsection \<open>The inner loop\<close>

definition same_new :: "string set \<Rightarrow> string \<Rightarrow> Workload \<Rightarrow> Workload \<Rightarrow> bool" where
  "same_new known n w w' \<longleftrightarrow> wl_name w' = wl_name w \<and> (wl_name w \<in> known \<and> wl_name w \<noteq> n \<longrightarrow> w' = w)"

text \<open>What the locals may become: fresh names are added once, in step with \<open>u_added\<close>.\<close>

definition upd_grows :: "'n upd \<Rightarrow> 'n upd \<Rightarrow> bool" where
  "upd_grows u u' \<longleftrightarrow> (\<exists>more'. u_added u' = u_added u @ more' \<and> u_names u' = u_names u @ map wl_name more'
      \<and> (more' \<noteq> [] \<longrightarrow> u_found u')) \<and> (u_found u \<longrightarrow> u_found u')
      \<and> (distinct (u_names u) \<longrightarrow> distinct (u_names u'))
      \<and> (u_network u' = None \<longleftrightarrow> u_network u = None)"

lemma upd_grows_refl [simp]: "upd_grows u u"
  by (simp add: upd_grows_def)

lemma upd_grows_trans:
  assumes "upd_grows u v" and "upd_grows v w"
  shows "upd_grows u w"
proof -
  obtain m1 where m1: "u_added v = u_added u @ m1" "u_names v = u_names u @ map wl_name m1" "m1 \<noteq> [] \<longrightarrow> u_found v"
    using assms(1) unfolding upd_grows_def by blast
  obtain m2 where m2: "u_added w = u_added v @ m2" "u_names w = u_names v @ map wl_name m2" "m2 \<noteq> [] \<longrightarrow> u_found w"
    using assms(2) unfolding upd_grows_def by blast
  have "u_added w = u_added u @ (m1 @ m2) \<and> u_names w = u_names u @ map wl_name (m1 @ m2)
      \<and> (m1 @ m2 \<noteq> [] \<longrightarrow> u_found w)"
    using m1 m2 assms(2) by (auto simp: upd_grows_def)
  moreover have "(u_found u \<longrightarrow> u_found w) \<and> (distinct (u_names u) \<longrightarrow> distinct (u_names w))
      \<and> (u_network w = None \<longleftrightarrow> u_network u = None)"
    using assms by (simp add: upd_grows_def)
  ultimately show ?thesis unfolding upd_grows_def by blast
qed

lemma upd_grows_add:
  "wl_name w \<notin> set (u_names u) \<Longrightarrow>
   upd_grows u (u\<lparr>u_names := u_names u @ [wl_name w], u_added := u_added u @ [w\<lparr>wl_version := v\<rparr>], u_found := True\<rparr>)"
  by (auto simp: upd_grows_def)

lemma upd_grows_start:
  assumes "upd_grows u u'" and "u_added u = []" and "distinct (u_names u)"
  shows "distinct (u_names u @ map wl_name (u_added u'))"
proof -
  obtain m where "u_added u' = u_added u @ m" "u_names u' = u_names u @ map wl_name m" "distinct (u_names u')"
    using assms(1,3) unfolding upd_grows_def by blast
  with assms(2) show ?thesis by (metis append_Nil)
qed

lemma upd_grows_names: "upd_grows u u' \<Longrightarrow> set (u_names u) \<subseteq> set (u_names u')"
  by (auto simp: upd_grows_def)

lemma upd_grows_network: "(n' = None \<longleftrightarrow> u_network u = None) \<Longrightarrow> upd_grows u (u\<lparr>u_network := n'\<rparr>)"
  by (simp add: upd_grows_def)

lemma upd_grows_found: "upd_grows u (u\<lparr>u_found := True\<rparr>)"
  by (simp add: upd_grows_def)

lemma same_new_refl [simp]: "same_new k n w w"
  by (simp add: same_new_def)

lemma same_new_mono:
  "list_all2 (same_new K n) ws ws' \<Longrightarrow> k \<subseteq> K \<Longrightarrow> list_all2 (same_new k n) ws ws'"
  by (erule list_all2_mono) (auto simp: same_new_def)

lemma list_all2_same_refl [simp]: "list_all2 (same_new k n) ws ws"
  by (simp add: list_all2_same)

lemma same_new_fresh:
  "wl_name w \<notin> K \<Longrightarrow> same_new K n w (w\<lparr>wl_version := v\<rparr>)"
  by (simp add: same_new_def)

lemma same_new_matched: "wl_name w = n \<Longrightarrow> wl_name w' = wl_name w \<Longrightarrow> same_new K n w w'"
  by (simp add: same_new_def)

lemma match_new_spec:
  assumes "distinct (map wl_name ws)"
    and "\<forall>w \<in> set ws. wl_name w = wl_name old \<longrightarrow> ips_known old w"
    and "getNodeIdFromContractId api c = Inr node"
    and "wl_name old \<in> set (u_names u)" and ver: "wl_version old \<le> dv"
  shows "\<exists>ws' u'. match_new api del_ip c dv old ws u
             = Inr (merge_one (u_network u \<noteq> None) dv ws old, ws', u')
           \<and> list_all2 (same_new (set (u_names u)) (wl_name old)) ws ws' \<and> upd_grows u u'
           \<and> (merge_one (u_network u \<noteq> None) dv ws old \<noteq> old \<longrightarrow> u_found u')
           \<and> (u_found u' \<longrightarrow> u_found u \<or> merge_one (u_network u \<noteq> None) dv ws old \<noteq> old \<or> u_added u' \<noteq> u_added u)"
  using assms(1,2,4)
proof (induction ws arbitrary: u)
  case Nil
  then show ?case by (simp add: merge_one_def)
next
  case (Cons w ws)
  have d: "distinct (map wl_name ws)" and ips: "\<forall>w \<in> set ws. wl_name w = wl_name old \<longrightarrow> ips_known old w"
    using Cons.prems by simp_all
  consider (fresh) "wl_name w \<notin> set (u_names u)"
    | (other) "wl_name w \<in> set (u_names u)" "wl_name w \<noteq> wl_name old"
    | (net) "wl_name w \<in> set (u_names u)" "wl_name w = wl_name old" "wl_type w = WT_network"
    | (match) "wl_name w \<in> set (u_names u)" "wl_name w = wl_name old" "wl_type w \<noteq> WT_network"
    by blast
  then show ?case
  proof cases
    case fresh
    let ?u = "u\<lparr>u_names := u_names u @ [wl_name w], u_added := u_added u @ [w\<lparr>wl_version := dv + 1\<rparr>], u_found := True\<rparr>"
    have ne: "wl_name w \<noteq> wl_name old" using fresh Cons.prems(3) by auto
    then have m: "merge_one b dv (w # ws) old = merge_one b dv ws old" for b
      by (simp add: merge_one_def)
    obtain ws' u' where r: "match_new api del_ip c dv old ws ?u = Inr (merge_one (u_network u \<noteq> None) dv ws old, ws', u')"
        "list_all2 (same_new (set (u_names ?u)) (wl_name old)) ws ws'" "upd_grows ?u u'"
      using Cons.IH [OF d ips, of ?u] Cons.prems(3) by auto
    from r(3) have "u_found u'" "u_added u' \<noteq> u_added u" by (auto simp: upd_grows_def)
    moreover have "list_all2 (same_new (set (u_names u)) (wl_name old)) ws ws'"
      using r(2) by (rule same_new_mono) auto
    ultimately show ?thesis
      using r(1) fresh m upd_grows_trans [OF upd_grows_add [OF fresh] r(3)] same_new_fresh [OF fresh]
      by (simp add: Let_def)
  next
    case other
    then have m: "merge_one b dv (w # ws) old = merge_one b dv ws old" for b
      by (simp add: merge_one_def)
    from Cons.IH [OF d ips Cons.prems(3)] other m show ?thesis
      by (auto simp: Let_def)
  next
    case net
    then have nn: "find (\<lambda>w. wl_name w = wl_name old) ws = None"
      using Cons.prems(1) by (auto simp: find_None_iff image_iff)
    then have m: "merge_one b dv ws old = old" "merge_one b dv (w # ws) old = old" for b
      using net by (simp_all add: merge_one_def)
    from Cons.IH [OF d ips Cons.prems(3)] net m show ?thesis
      by (auto simp: Let_def)
  next
    case match
    then have nn: "find (\<lambda>w. wl_name w = wl_name old) ws = None"
      using Cons.prems(1) by (auto simp: find_None_iff image_iff)
    then have m: "merge_one b dv ws old = old" for b by (simp add: merge_one_def)
    let ?v = "versioned (u_network u \<noteq> None) old w"
    have "ips_known old (w\<lparr>wl_version := wl_version old\<rparr>)"
      using Cons.prems(2) match by (simp add: ips_known_def)
    from keep_machine_ip_kept [OF this assms(3), of del_ip "u_network u"]
    obtain n' where k: "keep_machine_ip api del_ip c (wl_data old) (w\<lparr>wl_version := wl_version old\<rparr>) (u_network u)
          = Inr (?v, n')" and n': "n' = None \<longleftrightarrow> u_network u = None"
      by (auto simp: versioned_def)
    have vn: "wl_name ?v = wl_name w" by (simp add: versioned_def)
    show ?thesis
    proof (cases "Workload_challenge ?v = Workload_challenge old")
      case True
      have m2: "merge_one (u_network u \<noteq> None) dv (w # ws) old = old"
        using match True by (simp add: merge_one_def)
      obtain ws' u' where r: "match_new api del_ip c dv old ws (u\<lparr>u_network := n'\<rparr>) = Inr (old, ws', u')"
          "list_all2 (same_new (set (u_names u)) (wl_name old)) ws ws'" "upd_grows (u\<lparr>u_network := n'\<rparr>) u'"
          "u_found u' \<longrightarrow> u_found u \<or> u_added u' \<noteq> u_added u"
        using Cons.IH [OF d ips, of "u\<lparr>u_network := n'\<rparr>"] Cons.prems(3) m by auto
      show ?thesis
        using r match k True m2 upd_grows_trans [OF upd_grows_network [OF n'] r(3)]
          same_new_matched [OF match(2) vn]
        by (simp add: Let_def)
    next
      case False
      have grown: "upd_grows u (u\<lparr>u_network := n', u_found := True\<rparr>)"
        using n' by (simp add: upd_grows_def)
      moreover have "updated_workload dv old ?v \<noteq> old"
        using ver by (metis updated_workload_sel(3) add_le_same_cancel1 not_one_le_zero)
      with grown match k False same_new_matched [OF match(2) vn] show ?thesis
        by (simp add: Let_def merge_one_def)
    qed
  qed
qed


subsection \<open>The outer loop\<close>

lemma same_new_find:
  "list_all2 (same_new K n) ws ws' \<Longrightarrow> m \<in> K \<Longrightarrow> m \<noteq> n
   \<Longrightarrow> find (\<lambda>w. wl_name w = m) ws' = find (\<lambda>w. wl_name w = m) ws"
  by (induction rule: list_all2_induct) (auto simp: same_new_def)

lemma same_new_names: "list_all2 (same_new K n) ws ws' \<Longrightarrow> map wl_name ws' = map wl_name ws"
  by (induction rule: list_all2_induct) (auto simp: same_new_def)

lemma same_new_ips:
  "list_all2 (same_new K n) ws ws' \<Longrightarrow> wl_name o' \<in> K \<Longrightarrow> wl_name o' \<noteq> n
   \<Longrightarrow> \<forall>w \<in> set ws. wl_name w = wl_name o' \<longrightarrow> ips_known o' w
   \<Longrightarrow> \<forall>w \<in> set ws'. wl_name w = wl_name o' \<longrightarrow> ips_known o' w"
  by (induction rule: list_all2_induct) (auto simp: same_new_def)

lemma same_new_merge_old:
  "list_all2 (same_new K n) ws ws' \<Longrightarrow> wl_name o' \<in> K \<Longrightarrow> wl_name o' \<noteq> n
   \<Longrightarrow> merge_old b dv ws' o' = merge_old b dv ws o'"
  by (simp add: merge_old_def merge_one_def same_new_find)

definition mergeable :: "int \<Rightarrow> Workload list \<Rightarrow> Workload list \<Rightarrow> bool" where
  "mergeable dv ws olds \<longleftrightarrow> distinct (map wl_name olds) \<and> distinct (map wl_name ws)
     \<and> (\<forall>o' \<in> set olds. wl_version o' \<le> dv
          \<and> (\<forall>w \<in> set ws. wl_name w = wl_name o' \<longrightarrow> ips_known o' w))"

lemma mergeable_Cons: "mergeable dv ws (o' # olds) \<Longrightarrow> mergeable dv ws olds"
  by (simp add: mergeable_def)

lemma mergeable_neq:
  "mergeable dv ws (q # olds) \<Longrightarrow> p \<in> set olds \<Longrightarrow> wl_name p \<noteq> wl_name q"
  by (metis distinct.simps(2) image_eqI image_set list.simps(9) mergeable_def)

lemma mergeable_same_new:
  assumes "mergeable dv ws (o' # olds)" and "list_all2 (same_new K (wl_name o')) ws ws'"
    and "wl_name ` set olds \<subseteq> K"
  shows "mergeable dv ws' olds"
proof -
  have "\<forall>w \<in> set ws'. wl_name w = wl_name q \<longrightarrow> ips_known q w" if "q \<in> set olds" for q
  proof (rule same_new_ips [OF assms(2)])
    show "wl_name q \<in> K" using that assms(3) by auto
    show "wl_name q \<noteq> wl_name o'" by (rule mergeable_neq [OF assms(1) that])
    show "\<forall>w \<in> set ws. wl_name w = wl_name q \<longrightarrow> ips_known q w"
      using that assms(1) by (simp add: mergeable_def)
  qed
  with assms(1) same_new_names [OF assms(2)] show ?thesis
    by (simp add: mergeable_def)
qed

lemma match_old_spec:
  assumes "mergeable dv ws olds" and "getNodeIdFromContractId api c = Inr node"
    and "wl_name ` set olds \<subseteq> set (u_names u)" and "set newNames = wl_name ` set ws"
  shows "\<exists>u'. match_old api del_ip c dv newNames olds ws u
            = Inr (map (merge_old (u_network u \<noteq> None) dv ws) (filter (survives ws) olds), u')
          \<and> upd_grows u u'
          \<and> (u_found u' \<longleftrightarrow> u_found u \<or> u_added u' \<noteq> u_added u
               \<or> (\<exists>q \<in> set olds. \<not> survives ws q \<or> merge_old (u_network u \<noteq> None) dv ws q \<noteq> q))"
  using assms(1,3,4)
proof (induction olds arbitrary: ws u)
  case Nil
  then show ?case by simp
next
  case (Cons q olds)
  let ?b = "u_network u \<noteq> None"
  consider (net) "wl_type q = WT_network" | (gone) "wl_type q \<noteq> WT_network" "\<not> survives ws q"
    | (match) "wl_type q \<noteq> WT_network" "survives ws q" by blast
  then show ?case
  proof cases
    case net
    then have s: "survives ws q" "merge_old ?b dv ws q = q" by (simp_all add: survives_def merge_old_def)
    from Cons.IH [OF mergeable_Cons [OF Cons.prems(1)], of u] Cons.prems(2,3) net s
    show ?thesis by auto
  next
    case gone
    let ?u = "u\<lparr>u_found := True\<rparr>"
    from Cons.IH [OF mergeable_Cons [OF Cons.prems(1)], of ?u] Cons.prems(2,3)
    obtain u' where r: "match_old api del_ip c dv newNames olds ws ?u
        = Inr (map (merge_old ?b dv ws) (filter (survives ws) olds), u')" "upd_grows ?u u'"
      by auto
    have "wl_name q \<notin> set newNames" using gone Cons.prems(3) by (auto simp: survives_def)
    moreover have "u_found u'" using r(2) by (simp add: upd_grows_def)
    ultimately show ?thesis
      using r gone upd_grows_trans [OF upd_grows_found r(2)] by auto
  next
    case match
    have q: "wl_name q \<in> set (u_names u)" "wl_version q \<le> dv" "distinct (map wl_name ws)"
        "\<forall>w \<in> set ws. wl_name w = wl_name q \<longrightarrow> ips_known q w"
      using Cons.prems by (auto simp: mergeable_def)
    obtain ws' u1 where r1: "match_new api del_ip c dv q ws u = Inr (merge_one ?b dv ws q, ws', u1)"
        "list_all2 (same_new (set (u_names u)) (wl_name q)) ws ws'" "upd_grows u u1"
        "merge_one ?b dv ws q \<noteq> q \<longrightarrow> u_found u1"
        "u_found u1 \<longrightarrow> u_found u \<or> merge_one ?b dv ws q \<noteq> q \<or> u_added u1 \<noteq> u_added u"
      using match_new_spec [OF q(3,4) assms(2) q(1,2)] by blast
    have names: "wl_name ` set olds \<subseteq> set (u_names u)" using Cons.prems(2) by simp
    have nm: "wl_name ` set ws' = wl_name ` set ws"
      using same_new_names [OF r1(2)] by (metis set_map)
    have sv: "survives ws' = survives ws" by (rule ext) (simp add: survives_def nm)
    have mo: "merge_old ?b dv ws' p = merge_old ?b dv ws p" if "p \<in> set olds" for p
      using that names mergeable_neq [OF Cons.prems(1) that]
      by (intro same_new_merge_old [OF r1(2)]) auto
    have b1: "(u_network u1 \<noteq> None) = ?b" using r1(3) by (simp add: upd_grows_def)
    obtain u' where r2: "match_old api del_ip c dv newNames olds ws' u1
        = Inr (map (merge_old ?b dv ws') (filter (survives ws') olds), u')" "upd_grows u1 u'"
        "u_found u' \<longleftrightarrow> u_found u1 \<or> u_added u' \<noteq> u_added u1
           \<or> (\<exists>q \<in> set olds. \<not> survives ws' q \<or> merge_old ?b dv ws' q \<noteq> q)"
      using Cons.IH [OF mergeable_same_new [OF Cons.prems(1) r1(2) names], of u1]
        names upd_grows_names [OF r1(3)] Cons.prems(3) nm b1 by auto
    have lists: "map (merge_old ?b dv ws') (filter (survives ws') olds)
        = map (merge_old ?b dv ws) (filter (survives ws) olds)"
      using mo by (simp add: sv)
    have mq: "merge_old ?b dv ws q = merge_one ?b dv ws q" using match by (simp add: merge_old_def)
    have "wl_name q \<in> set newNames" using match Cons.prems(3) by (auto simp: survives_def)
    then have run: "match_old api del_ip c dv newNames (q # olds) ws u
        = Inr (map (merge_old ?b dv ws) (filter (survives ws) (q # olds)), u')"
      using match r1(1) r2(1) lists mq by simp
    have add: "u_added u' \<noteq> u_added u \<longleftrightarrow> u_added u' \<noteq> u_added u1 \<or> u_added u1 \<noteq> u_added u"
      using r1(3) r2(2) by (auto simp: upd_grows_def)
    have "(\<exists>p \<in> set olds. \<not> survives ws' p \<or> merge_old ?b dv ws' p \<noteq> p)
        \<longleftrightarrow> (\<exists>p \<in> set olds. \<not> survives ws p \<or> merge_old ?b dv ws p \<noteq> p)"
      using mo by (auto simp: sv)
    moreover have "u_found u1 \<longleftrightarrow> u_found u \<or> u_added u1 \<noteq> u_added u \<or> merge_old ?b dv ws q \<noteq> q"
      using r1(3,4,5) mq unfolding upd_grows_def by auto
    ultimately have "u_found u' \<longleftrightarrow> u_found u \<or> u_added u' \<noteq> u_added u
               \<or> (\<exists>p \<in> set (q # olds). \<not> survives ws p \<or> merge_old ?b dv ws p \<noteq> p)"
      using r2(3) add match by auto
    with run upd_grows_trans [OF r1(3) r2(2)] show ?thesis by blast
  qed
qed


subsection \<open>UpdateDeployment\<close>

definition merged_workloads :: "bool \<Rightarrow> Deployment \<Rightarrow> Deployment \<Rightarrow> Workload list" where
  "merged_workloads has_net old new =
     map (merge_old has_net (dp_version old) (dp_workloads new))
       (filter (survives (dp_workloads new)) (dp_workloads old))"

lemma names_merged: "map wl_name (merged_workloads b old new)
    = map wl_name (filter (survives (dp_workloads new)) (dp_workloads old))"
  by (simp add: merged_workloads_def)

lemma merged_same_iff:
  assumes "wl_name ` set added \<inter> wl_name ` set (dp_workloads old) = {}"
  shows "merged_workloads b old new @ added = dp_workloads old \<longleftrightarrow> added = []
     \<and> (\<forall>q \<in> set (dp_workloads old). survives (dp_workloads new) q
           \<and> merge_old b (dp_version old) (dp_workloads new) q = q)" (is "?l \<longleftrightarrow> ?r")
proof
  assume l: ?l
  then have "set added \<subseteq> set (dp_workloads old)" by (metis Un_upper2 set_append)
  with assms have a: "added = []" by (cases added) auto
  with l have m: "merged_workloads b old new = dp_workloads old" by simp
  have "length (filter (survives (dp_workloads new)) (dp_workloads old)) = length (dp_workloads old)"
    by (metis length_map m merged_workloads_def)
  then have all: "\<forall>q \<in> set (dp_workloads old). survives (dp_workloads new) q"
    using length_filter_less by (metis nat_neq_iff)
  then have "filter (survives (dp_workloads new)) (dp_workloads old) = dp_workloads old"
    by (rule filter_True)
  with m have "map (merge_old b (dp_version old) (dp_workloads new)) (dp_workloads old) = map (\<lambda>q. q) (dp_workloads old)"
    by (simp add: merged_workloads_def)
  then have "\<forall>q \<in> set (dp_workloads old). merge_old b (dp_version old) (dp_workloads new) q = q"
    by (simp only: map_eq_conv)
  with a all show ?r by blast
next
  assume r: ?r
  then have "filter (survives (dp_workloads new)) (dp_workloads old) = dp_workloads old" by simp
  with r show ?l by (simp add: merged_workloads_def map_idI)
qed

lemma update_spec:
  assumes "mergeable (dp_version old) (dp_workloads new) (dp_workloads old)"
    and "getNodeIdFromContractId api (contract_arg (dp_contract_id old)) = Inr node"
  obtains added n' where
    "UpdateDeployment api del_ip old new network
       = Inr (if merged_workloads (network \<noteq> None) old new @ added = dp_workloads old then None
              else Some (old\<lparr>dp_workloads := merged_workloads (network \<noteq> None) old new @ added\<rparr>), n')"
    "wl_name ` set added \<inter> wl_name ` set (dp_workloads old) = {}" "distinct (map wl_name added)"
proof -
  let ?u = "\<lparr>u_names = map wl_name (dp_workloads old), u_added = [], u_found = False, u_network = network\<rparr>"
  have "\<exists>u'. match_old api del_ip (contract_arg (dp_contract_id old)) (dp_version old)
              (map wl_name (dp_workloads new)) (dp_workloads old) (dp_workloads new) ?u
            = Inr (map (merge_old (u_network ?u \<noteq> None) (dp_version old) (dp_workloads new))
                       (filter (survives (dp_workloads new)) (dp_workloads old)), u')
          \<and> upd_grows ?u u'
          \<and> (u_found u' \<longleftrightarrow> u_found ?u \<or> u_added u' \<noteq> u_added ?u
               \<or> (\<exists>q \<in> set (dp_workloads old). \<not> survives (dp_workloads new) q
                     \<or> merge_old (u_network ?u \<noteq> None) (dp_version old) (dp_workloads new) q \<noteq> q))"
    by (rule match_old_spec [OF assms]) simp_all
  then obtain u' where run: "match_old api del_ip (contract_arg (dp_contract_id old)) (dp_version old)
              (map wl_name (dp_workloads new)) (dp_workloads old) (dp_workloads new) ?u
            = Inr (merged_workloads (network \<noteq> None) old new, u')"
      and grows: "upd_grows ?u u'"
      and found: "u_found u' \<longleftrightarrow> u_added u' \<noteq> [] \<or> (\<exists>q \<in> set (dp_workloads old).
          \<not> survives (dp_workloads new) q \<or> merge_old (network \<noteq> None) (dp_version old) (dp_workloads new) q \<noteq> q)"
    by (auto simp: merged_workloads_def)
  have "distinct (map wl_name (dp_workloads old))" using assms(1) by (simp add: mergeable_def)
  with upd_grows_start [OF grows] have d: "distinct (map wl_name (dp_workloads old) @ map wl_name (u_added u'))" by simp
  then have disj: "wl_name ` set (u_added u') \<inter> wl_name ` set (dp_workloads old) = {}"
    by (simp add: Int_commute)
  have f: "u_found u' \<longleftrightarrow> merged_workloads (network \<noteq> None) old new @ u_added u' \<noteq> dp_workloads old"
    using found merged_same_iff [OF disj, of "network \<noteq> None" new] by blast
  from run have "UpdateDeployment api del_ip old new network
       = Inr (if merged_workloads (network \<noteq> None) old new @ u_added u' = dp_workloads old then None
              else Some (old\<lparr>dp_workloads := merged_workloads (network \<noteq> None) old new @ u_added u'\<rparr>), u_network u')"
    by (simp add: UpdateDeployment_def f)
  moreover have "distinct (map wl_name (u_added u'))" using d by simp
  ultimately show thesis using disj by (intro that)
qed

text \<open>
  C38: \<open>UpdateDeployment\<close> is a pointwise merge.  Every old workload whose name is still wanted is
  either kept as it is or, when its challenge changed, carries the new data, description and
  metadata at the next version; the others disappear; what is added has fresh names; and the call
  returns \<open>undefined\<close> exactly when that leaves the workloads as they were.
\<close>

theorem update_deployment_merge:
  assumes "mergeable (dp_version old) (dp_workloads new) (dp_workloads old)"
    and "getNodeIdFromContractId api (contract_arg (dp_contract_id old)) = Inr node"
  shows "\<exists>added n'. UpdateDeployment api del_ip old new network
       = Inr (if merged_workloads (network \<noteq> None) old new @ added = dp_workloads old then None
              else Some (old\<lparr>dp_workloads := merged_workloads (network \<noteq> None) old new @ added\<rparr>), n')
     \<and> distinct (map wl_name (merged_workloads (network \<noteq> None) old new @ added))"
proof -
  obtain added n' where r: "UpdateDeployment api del_ip old new network
       = Inr (if merged_workloads (network \<noteq> None) old new @ added = dp_workloads old then None
              else Some (old\<lparr>dp_workloads := merged_workloads (network \<noteq> None) old new @ added\<rparr>), n')"
      "wl_name ` set added \<inter> wl_name ` set (dp_workloads old) = {}" "distinct (map wl_name added)"
    by (rule update_spec [OF assms])
  have "distinct (map wl_name (merged_workloads (network \<noteq> None) old new))"
    using assms(1) by (simp add: names_merged mergeable_def distinct_map_filter)
  moreover have "set (map wl_name (merged_workloads (network \<noteq> None) old new)) \<subseteq> wl_name ` set (dp_workloads old)"
    unfolding names_merged by auto
  ultimately show ?thesis using r by auto
qed

definition demo_disk :: "string \<Rightarrow> rat \<Rightarrow> Workload" where
  "demo_disk name gb = Disk_create gb name [] [] 0"

definition demo_with :: "Workload list \<Rightarrow> Deployment" where
  "demo_with ws = create_deployment 7 ws 0 [] [] 0"

definition demo_api :: grid_api where
  "demo_api = \<lparr>gql_node_twins = (\<lambda>_. Inr [3]), gql_count = (\<lambda>_ _. Inr 0), http_nodes = (\<lambda>_. Inr []),
     http_farms = (\<lambda>_. Inr []), http_node_capacity = (\<lambda>_. Inl TypeError),
     http_node_by_id = (\<lambda>_. Inl TypeError), http_count = (\<lambda>_. Inr 0),
     rmb_statistics = (\<lambda>_. Inl TypeError), rmb_pools = (\<lambda>_. Inr []),
     chain_contract = (\<lambda>i. Inr (Some \<lparr>ct_version = 4, ct_state = CS_created, ct_contractId = i, ct_twinId = 7,
        ct_type = CT_node \<lparr>nc_nodeId = 11, nc_deploymentHash = [], nc_deploymentData = [], nc_publicIps = 0\<rparr>,
        ct_solutionProviderId = 0\<rparr>))\<rparr>"

lemma demo_with_sel [simp]:
  "dp_workloads (demo_with ws) = ws" "dp_version (demo_with ws) = 0"
  "dp_contract_id (demo_with ws) = None" "(demo_with ws)\<lparr>dp_workloads := vs\<rparr> = demo_with vs"
  by (simp_all add: demo_with_def create_deployment_def)

lemma demo_node: "getNodeIdFromContractId demo_api c = Inr 11"
  by (simp add: getNodeIdFromContractId_def demo_api_def)

lemma demo_mergeable:
  "mergeable 0 [demo_disk ''a'' 2, demo_disk ''b'' 1] [demo_disk ''a'' 1]"
  by (simp add: mergeable_def demo_disk_def Disk_create_def ips_known_def)

theorem update_deployment_merge_witness:
  "\<exists>added n'. UpdateDeployment demo_api (\<lambda>_ _ n. n) (demo_with [demo_disk ''a'' 1])
         (demo_with [demo_disk ''a'' 2, demo_disk ''b'' 1]) (None :: nat option)
       = Inr (if merged_workloads False (demo_with [demo_disk ''a'' 1])
                   (demo_with [demo_disk ''a'' 2, demo_disk ''b'' 1]) @ added = [demo_disk ''a'' 1] then None
              else Some (demo_with (merged_workloads False (demo_with [demo_disk ''a'' 1])
                     (demo_with [demo_disk ''a'' 2, demo_disk ''b'' 1]) @ added)), n')"
proof -
  let ?o = "demo_with [demo_disk ''a'' 1]" and ?n = "demo_with [demo_disk ''a'' 2, demo_disk ''b'' 1]"
  have "mergeable (dp_version ?o) (dp_workloads ?n) (dp_workloads ?o)"
    by (simp only: demo_with_sel demo_mergeable)
  from update_deployment_merge [OF this demo_node, of "\<lambda>_ _ n. n" "None :: nat option"]
  show ?thesis unfolding demo_with_sel by (simp only: not_True_eq_False simp_thms) blast
qed

text \<open>
  with a network at hand, a machine keeps its private address through an update, whatever
  address the new deployment asks for.
\<close>

theorem update_keeps_machine_ip:
  assumes "mergeable (dp_version old) (dp_workloads new) (dp_workloads old)"
    and "getNodeIdFromContractId api (contract_arg (dp_contract_id old)) = Inr node"
    and "UpdateDeployment api del_ip old new (Some net) = Inr (Some d, n')"
    and "q \<in> set (dp_workloads old)" "q' \<in> set (dp_workloads d)" "wl_name q' = wl_name q"
    and "\<forall>w \<in> set (dp_workloads new). wl_name w = wl_name q \<longrightarrow> wl_type w = WT_zmachine"
  shows "machine_ip (wl_data q') = machine_ip (wl_data q)"
proof -
  obtain added n'' where r: "UpdateDeployment api del_ip old new (Some net)
       = Inr (if merged_workloads (Some net \<noteq> None) old new @ added = dp_workloads old then None
              else Some (old\<lparr>dp_workloads := merged_workloads (Some net \<noteq> None) old new @ added\<rparr>), n'')"
      "wl_name ` set added \<inter> wl_name ` set (dp_workloads old) = {}"
    by (rule update_spec [OF assms(1,2), of del_ip "Some net"])
  have d: "dp_workloads d = merged_workloads True old new @ added"
    using r(1) assms(3) by (auto split: if_splits)
  have "q' \<notin> set added" using r(2) assms(4,6) by force
  with d assms(5) obtain p where p: "p \<in> set (dp_workloads old)"
      "q' = merge_old True (dp_version old) (dp_workloads new) p"
    by (auto simp: merged_workloads_def)
  have "p = q"
    using p assms(1,4,6) by (auto simp: mergeable_def distinct_map dest: inj_onD)
  have "machine_ip (wl_data (merge_one True dv (dp_workloads new) q)) = machine_ip (wl_data q)" for dv
  proof (cases "find (\<lambda>w. wl_name w = wl_name q) (dp_workloads new)")
    case (Some w)
    then have w: "w \<in> set (dp_workloads new)" "wl_name w = wl_name q"
      by (auto simp: find_Some_iff)
    with assms(7) have zm: "wl_type w = WT_zmachine" by blast
    from w assms(1,4) have "ips_known q w" by (auto simp: mergeable_def)
    with zm obtain ip ip' where "machine_ip (wl_data q) = Some ip" "machine_ip (wl_data w) = Some ip'"
      by (auto simp: ips_known_def)
    with Some zm show ?thesis
      by (simp add: merge_one_def versioned_def kept_def updated_workload_def opt_str_def)
  qed (simp add: merge_one_def)
  then show ?thesis using p(2) \<open>p = q\<close> by (simp add: merge_old_def)
qed

text \<open>
  the early exit of the inner loop loses workloads: when the only old workload changes, a new
  workload listed after it is not added, and the update still reports success.
\<close>

theorem update_loses_added_workload:
  assumes "wl_type a \<noteq> WT_network" and "wl_type a' \<noteq> WT_network" and "wl_type a' \<noteq> WT_zmachine"
    and "wl_name a' = wl_name a" and "wl_name b \<noteq> wl_name a"
    and "Workload_challenge (a'\<lparr>wl_version := wl_version a\<rparr>) \<noteq> Workload_challenge a"
  shows "UpdateDeployment api del_ip (old\<lparr>dp_workloads := [a]\<rparr>) (new\<lparr>dp_workloads := [a', b]\<rparr>) network
     = Inr (Some (old\<lparr>dp_workloads :=
              [updated_workload (dp_version old) a (a'\<lparr>wl_version := wl_version a\<rparr>)]\<rparr>), network)"
  using assms by (simp add: UpdateDeployment_def keep_machine_ip_def Let_def)

theorem update_loses_added_workload_witness:
  "UpdateDeployment demo_api (\<lambda>_ _ n. n) (demo_with [demo_disk ''a'' 1])
      (demo_with [demo_disk ''a'' 2, demo_disk ''b'' 1]) (None :: nat option)
   = Inr (Some (demo_with [updated_workload 0 (demo_disk ''a'' 1) (demo_disk ''a'' 2)]), None)"
proof -
  have v: "(demo_disk n g)\<lparr>wl_version := wl_version (demo_disk m h)\<rparr> = demo_disk n g" for n g m h
    by (simp add: demo_disk_def Disk_create_def workload_def)
  have t: "wl_type (demo_disk n g) = WT_zmount" "wl_name (demo_disk n g) = n" for n g
    by (simp_all add: demo_disk_def Disk_create_def)
  have ne: "Workload_challenge (demo_disk ''a'' 2) \<noteq> Workload_challenge (demo_disk ''a'' 1)"
    by (simp add: Workload_challenge_def demo_disk_def Disk_create_def Zmount_challenge_def gb_bytes_def)
  show ?thesis
    using update_loses_added_workload [of "demo_disk ''a'' 1" "demo_disk ''a'' 2" "demo_disk ''b'' 1"
        demo_api "\<lambda>_ _ n. n" "demo_with []" "demo_with []" "None :: nat option"] ne
    unfolding v demo_with_sel t by simp
qed

end
