(* ===== verification/NetworkFacts.thy ===== *)
theory NetworkFacts
  imports LightNetwork FactoryFacts
begin

text \<open>
  The reservations of both kinds of network.  Two interfaces state what the clients of a network
  rely on: \<open>machine_network\<close> (the reserved addresses of a node and their release) and
  \<open>subnet_pool\<close> (the reserved subnets and how one is claimed).  Their consequences are proved once
  and interpreted on \<open>Network\<close> and on \<open>ZNetworkLight\<close>.
\<close>

subsection \<open>Interface: reserved addresses\<close>

locale machine_network =
  fixes reserved :: "int \<Rightarrow> 's \<Rightarrow> string list"
    and release :: "int \<Rightarrow> string \<Rightarrow> 's \<Rightarrow> 's"
  assumes reserved_release: "reserved n (release n ip s) = filter (\<lambda>i. i \<noteq> ip) (reserved n s)"
begin

lemma released: "ip \<notin> set (reserved n (release n ip s))"
  by (simp add: reserved_release)

lemma reserved_release_all:
  "reserved n (fold (release n) ips s) = filter (\<lambda>i. i \<notin> set ips) (reserved n s)"
proof (induction ips arbitrary: s)
  case (Cons ip ips)
  then show ?case by (auto simp: reserved_release intro!: filter_cong)
qed simp

lemma release_order:
  "set ips = set ips' \<Longrightarrow> reserved n (fold (release n) ips s) = reserved n (fold (release n) ips' s)"
  by (simp add: reserved_release_all)

lemma node_emptied_iff:
  "reserved n (fold (release n) ips s) = [] \<longleftrightarrow> set (reserved n s) \<subseteq> set ips"
  by (auto simp: reserved_release_all filter_empty_conv)

lemma distinct_release: "distinct (reserved n s) \<Longrightarrow> distinct (reserved n (release n ip s))"
  by (simp add: reserved_release)

text \<open>The update of a machine releases the address it asked for and does not get.\<close>

lemma keep_machine_ip_releases:
  assumes "keep_machine_ip api release c old_data w (Some s) = Inr (w', n')"
    and "wl_type w = WT_zmachine" "getNodeIdFromContractId api c = Inr node"
    and "machine_ip (wl_data w) = Some newIp" "machine_ip old_data = Some oldIp" "newIp \<noteq> oldIp"
  shows "\<exists>s'. n' = Some s' \<and> newIp \<notin> set (reserved node s')"
  using assms released by (auto simp: keep_machine_ip_def)

end

locale per_node_network = machine_network +
  assumes reserved_release_other: "m \<noteq> n \<Longrightarrow> reserved m (release n ip s) = reserved m s"
begin

lemma release_all_other: "m \<noteq> n \<Longrightarrow> reserved m (fold (release n) ips s) = reserved m s"
  by (induction ips arbitrary: s) (simp_all add: reserved_release_other)

lemma release_commute:
  "reserved k (release m i (release n j s)) = reserved k (release n j (release m i s))"
  by (cases "k = m"; cases "k = n")
     (auto simp: reserved_release reserved_release_other intro!: filter_cong)

end

subsection \<open>Interface: reserved subnets\<close>

locale subnet_pool =
  fixes taken :: "'s \<Rightarrow> string list" and refresh :: "'s \<Rightarrow> 's" and push :: "string \<Rightarrow> 's \<Rightarrow> 's"
  assumes taken_push: "taken (push x s) = taken s @ [x]"
    and taken_refresh: "prefix (taken s) (taken (refresh s))"
    and distinct_refresh: "distinct (taken s) \<Longrightarrow> distinct (taken (refresh s))"
    and refresh_settled: "taken (refresh (push x (refresh s))) = taken (push x (refresh s))"
begin

definition claim :: "string \<Rightarrow> 's \<Rightarrow> 's option" where
  "claim x s = (let s' = refresh s in if x \<in> set (taken s') then None else Some (push x s'))"

lemma claim_Some:
  "claim x s = Some t \<longleftrightarrow> x \<notin> set (taken (refresh s)) \<and> t = push x (refresh s)"
  by (auto simp: claim_def Let_def)

lemma claim_taken: "claim x s = Some t \<Longrightarrow> x \<in> set (taken t) \<and> set (taken s) \<subseteq> set (taken t)"
  using taken_refresh set_mono_prefix by (fastforce simp: claim_Some taken_push)

lemma claim_distinct: "claim x s = Some t \<Longrightarrow> distinct (taken s) \<Longrightarrow> distinct (taken t)"
  by (auto simp: claim_Some taken_push distinct_refresh)

lemma claim_twice: "claim x s = Some t \<Longrightarrow> claim x t = None"
proof -
  assume "claim x s = Some t"
  then have "t = push x (refresh s)" by (simp add: claim_Some)
  then have "x \<in> set (taken (refresh t))" by (simp add: refresh_settled taken_push)
  then show ?thesis by (simp add: claim_def Let_def)
qed

text \<open>A run of successful claims hands out pairwise different subnets.\<close>

fun claims :: "string list \<Rightarrow> 's \<Rightarrow> 's option" where
  "claims [] s = Some s"
| "claims (x # xs) s = (case claim x s of None \<Rightarrow> None | Some t \<Rightarrow> claims xs t)"

lemma claims_fresh:
  "claims xs s = Some t \<Longrightarrow> distinct xs \<and> set xs \<inter> set (taken s) = {} \<and> set xs \<union> set (taken s) \<subseteq> set (taken t)"
proof (induction xs arbitrary: s)
  case (Cons x xs)
  then obtain u where u: "claim x s = Some u" "claims xs u = Some t" by (auto split: option.splits)
  from Cons.IH [OF u(2)] claim_taken [OF u(1)] have "distinct (x # xs)" by auto
  moreover have "x \<notin> set (taken s)"
    using u(1) taken_refresh set_mono_prefix by (fastforce simp: claim_Some)
  ultimately show ?case using Cons.IH [OF u(2)] claim_taken [OF u(1)] by auto
qed simp

end

subsection \<open>Network\<close>

lemma reserved_of_delete:
  "reserved_of m (map (\<lambda>k. if nn_node_id k = n
      then k\<lparr>nn_reserved_ips := filter (\<lambda>i. i \<noteq> ip) (nn_reserved_ips k)\<rparr> else k) ns)
   = (if m = n then filter (\<lambda>i. i \<noteq> ip) (reserved_of m ns) else reserved_of m ns)"
  by (induction ns) auto

interpretation net: per_node_network getNodeReservedIps deleteReservedIp
  by unfold_locales (simp_all add: getNodeReservedIps_def deleteReservedIp_def reserved_of_delete)

lemma node_net_reserved [simp]: "getNodeSubnet i (s\<lparr>n_reservedSubnets := xs\<rparr>) = getNodeSubnet i s"
  by (simp add: getNodeSubnet_def node_net_def)

definition live_subnets :: "Network \<Rightarrow> string set" where
  "live_subnets s = zn_subnet ` set (n_networks s) \<union> (ap_subnet ` set (n_accessPoints s) - {[]})"

lemma node_subnet_live: "getNodeSubnet i s = Some x \<Longrightarrow> x \<in> zn_subnet ` set (n_networks s)"
  by (auto simp: getNodeSubnet_def node_net_def find_Some_iff)

lemma set_reserved_subnets:
  "set (n_reservedSubnets (getReservedSubnets s)) = set (n_reservedSubnets s) \<union> live_subnets s"
  using node_subnet_live
  by (auto simp: getReservedSubnets_def live_subnets_def nonempty_strings_def opt_list_def split: option.splits)

lemma getReservedSubnets_frame [simp]:
  "n_networks (getReservedSubnets s) = n_networks s" "n_accessPoints (getReservedSubnets s) = n_accessPoints s"
  "n_nodes (getReservedSubnets s) = n_nodes s" "n_ipRange (getReservedSubnets s) = n_ipRange s"
  "n_deployments (getReservedSubnets s) = n_deployments s" "n_endpoints (getReservedSubnets s) = n_endpoints s"
  by (simp_all add: getReservedSubnets_def)

lemma reserved_subnets_settled:
  assumes "live_subnets s \<subseteq> set (n_reservedSubnets s)"
  shows "getReservedSubnets s = s"
proof -
  have a: "set (nonempty_strings (concat (map (\<lambda>n. opt_list (getNodeSubnet (nn_node_id n) s)) (n_nodes s))))
      \<subseteq> set (n_reservedSubnets s)"
    using assms node_subnet_live
    by (auto simp: live_subnets_def nonempty_strings_def opt_list_def split: option.splits)
  have b: "set (nonempty_strings (map ap_subnet (n_accessPoints s))) \<subseteq> set (n_reservedSubnets s)"
    using assms by (auto simp: live_subnets_def nonempty_strings_def)
  have c: "set (map zn_subnet (n_networks s)) \<subseteq> set (n_reservedSubnets s)"
    using assms by (auto simp: live_subnets_def)
  show ?thesis unfolding getReservedSubnets_def
    by (simp add: add_all_new_subset [OF a] add_all_new_subset [OF b] add_all_new_subset [OF c])
qed

lemma live_subnets_frame [simp]:
  "live_subnets (getReservedSubnets s) = live_subnets s" "live_subnets (push_subnet x s) = live_subnets s"
  by (simp_all add: live_subnets_def push_subnet_def)

interpretation pool: subnet_pool n_reservedSubnets getReservedSubnets push_subnet
proof
  fix x s
  show "n_reservedSubnets (push_subnet x s) = n_reservedSubnets s @ [x]" by (simp add: push_subnet_def)
  show "prefix (n_reservedSubnets s) (n_reservedSubnets (getReservedSubnets s))"
    unfolding getReservedSubnets_def
    using add_all_new_prefix prefix_order.trans by (metis Network.select_convs(5) Network.surjective Network.update_convs(5))
  show "distinct (n_reservedSubnets s) \<Longrightarrow> distinct (n_reservedSubnets (getReservedSubnets s))"
    by (simp add: getReservedSubnets_def)
  have "live_subnets (push_subnet x (getReservedSubnets s))
      \<subseteq> set (n_reservedSubnets (push_subnet x (getReservedSubnets s)))"
    using set_reserved_subnets [of s] by (auto simp: push_subnet_def live_subnets_def)
  then show "n_reservedSubnets (getReservedSubnets (push_subnet x (getReservedSubnets s)))
      = n_reservedSubnets (push_subnet x (getReservedSubnets s))"
    by (simp add: reserved_subnets_settled)
qed

lemma ValidateFreeSubnet_claim:
  "ValidateFreeSubnet x s = (case pool.claim x s of
      Some t \<Rightarrow> (Inr x, t)
    | None \<Rightarrow> (Inl (ValidationError (''subnet '' @ x @ '' is not free.'')), getReservedSubnets s))"
  by (simp add: ValidateFreeSubnet_def pool.claim_def bindE_def Let_def)

text \<open>\<open>getFreeSubnet\<close> is a claim of the subnet it finds.\<close>

lemma getFreeSubnet_claim:
  assumes "getFreeSubnet e s = (Inr x, t)"
  shows "pool.claim x s = Some t"
proof -
  let ?s = "getReservedSubnets s"
  from assms obtain a where a: "free_subnet_of e ?s = Inr a" "x = na_toString (e_addr e) a"
      "t = push_subnet x ?s"
    by (auto simp: getFreeSubnet_def bindE_def split: sum.splits)
  from a(1) obtain b where "run_seek (na_nextSibling (e_addr e))
      (\<lambda>y. na_toString (e_addr e) y \<in> set (n_reservedSubnets ?s)) b = Inr a"
    by (auto simp: free_subnet_of_def bindR_Inr)
  from run_seek_free [OF this] a show ?thesis by (simp add: pool.claim_Some)
qed

subsection \<open>ZNetworkLight\<close>

lemma light_nodeExists_node [simp]: "light_nodeExists i (s\<lparr>l_node := n\<rparr>) = light_nodeExists i s"
  by (simp add: light_nodeExists_def)

lemma light_reserved_delete:
  "light_getNodeReservedIps n (light_deleteReservedIp n ip s)
     = filter (\<lambda>i. i \<noteq> ip) (light_getNodeReservedIps n s)"
  by (cases "light_nodeExists n s"; cases "l_node s")
     (simp_all add: light_getNodeReservedIps_def light_deleteReservedIp_def)

interpretation light: machine_network light_getNodeReservedIps light_deleteReservedIp
  by unfold_locales (rule light_reserved_delete)

lemma light_push_subnet_frame [simp]:
  "l_reservedSubnets (light_push_subnet x s) = l_reservedSubnets s @ [x]"
  "l_node (light_push_subnet x s) = l_node s" "l_network (light_push_subnet x s) = l_network s"
  by (simp_all add: light_push_subnet_def)

definition light_refresh :: "ZNetworkLight \<Rightarrow> ZNetworkLight" where
  "light_refresh s = snd (light_getReservedSubnets s)"

lemma light_refresh_frame [simp]:
  "l_node (light_refresh s) = l_node s" "l_network (light_refresh s) = l_network s"
  by (simp_all add: light_refresh_def light_getReservedSubnets_def Let_def split: option.splits sum.splits)

lemma light_subnet_of_frame:
  "l_network t = l_network s \<Longrightarrow> light_subnet_of i t = light_subnet_of i s"
  by (simp add: light_subnet_of_def)

lemma light_refresh_taken:
  "l_reservedSubnets (light_refresh s) = (case l_node s of None \<Rightarrow> l_reservedSubnets s
     | Some n \<Rightarrow> (case light_subnet_of (ln_node_id n) s of Inl _ \<Rightarrow> l_reservedSubnets s
         | Inr sn \<Rightarrow> add_all_new (nonempty_strings (opt_list sn)) (l_reservedSubnets s)))"
  by (simp add: light_refresh_def light_getReservedSubnets_def Let_def split: option.splits sum.splits)

interpretation light_pool: subnet_pool l_reservedSubnets light_refresh light_push_subnet
proof
  fix x s
  show "l_reservedSubnets (light_push_subnet x s) = l_reservedSubnets s @ [x]" by simp
  show "prefix (l_reservedSubnets s) (l_reservedSubnets (light_refresh s))"
    by (simp add: light_refresh_taken add_all_new_prefix split: option.splits sum.splits)
  show "distinct (l_reservedSubnets s) \<Longrightarrow> distinct (l_reservedSubnets (light_refresh s))"
    by (simp add: light_refresh_taken split: option.splits sum.splits)
  show "l_reservedSubnets (light_refresh (light_push_subnet x (light_refresh s)))
      = l_reservedSubnets (light_push_subnet x (light_refresh s))"
    by (auto simp: light_refresh_taken light_subnet_of_frame [of "light_push_subnet x (light_refresh s)" s]
        intro!: add_all_new_subset split: option.splits sum.splits)
qed

end
