(* ===== verification/NetworkProps.thy ===== *)
theory NetworkProps
  imports NetworkFacts
begin

text \<open>
  Properties of the addresses and subnets a network hands out, of its WireGuard text, and of the
  operations that change its set of nodes.
\<close>

subsection \<open>The address package\<close>

text \<open>
  What the code relies on: addresses have a numeric value (\<open>rank\<close>) that \<open>increment\<close> and
  \<open>nextSibling\<close> increase, and the printed address determines it.
\<close>

definition addr_laws :: "'a netaddr \<Rightarrow> ('a \<Rightarrow> int) \<Rightarrow> bool" where
  "addr_laws A rank \<longleftrightarrow> (\<forall>a b. na_increment A a = Some b \<longrightarrow> rank a < rank b)
     \<and> (\<forall>a b. na_nextSibling A a = Some b \<longrightarrow> rank a < rank b)
     \<and> (\<forall>a b. before_char (CHR ''/'') (na_toString A a) = before_char (CHR ''/'') (na_toString A b) \<longrightarrow> rank a = rank b)"

text \<open>Host numbers below 1000 printed in decimal, a space on which the laws hold.\<close>

definition demo_addr :: "nat netaddr" where
  "demo_addr = \<lparr>na_parse = (\<lambda>s. Some (read_nat s)), na_prefix = (\<lambda>_. 16), na_mask = (\<lambda>_ a. a),
     na_increment = (\<lambda>a. if a < 1000 then Some (Suc a) else None),
     na_nextSibling = (\<lambda>a. if a < 1000 then Some (Suc a) else None),
     na_contains = (\<lambda>_ _. True), na_toString = show_nat\<rparr>"

lemma show_nat_no_slash: "CHR ''/'' \<notin> set (show_nat n)"
  using show_nat_digits [of n] by (auto simp: list_all_iff is_digit_def)

lemma before_show_nat [simp]: "before_char (CHR ''/'') (show_nat n) = show_nat n"
  by (rule before_char_id) (rule show_nat_no_slash)

lemma demo_addr_laws: "addr_laws demo_addr int"
  by (auto simp: addr_laws_def demo_addr_def split: if_splits)

lemma seek_rank_terminates:
  assumes "\<And>a b. nxt a = Some b \<Longrightarrow> (rank a :: int) < rank b"
    and "\<And>a b. render a = render b \<Longrightarrow> rank a = rank b"
    and "\<And>a. taken a \<longleftrightarrow> render a \<in> set reserved"
  shows "seek nxt taken a \<noteq> None"
proof (rule seek_terminates [OF assms(3)])
  fix i j x y
  assume x: "steps nxt i a = Some x" and y: "steps nxt j a = Some y" and r: "render x = render y"
  show "i = j"
  proof (rule ccontr)
    assume "i \<noteq> j"
    moreover have False if "m < n" "steps nxt m a = Some u" "steps nxt n a = Some v" "rank u = rank v" for m n u v
    proof -
      have "steps nxt (n - m) u = Some v"
        using that(1-3)
      proof (induction m arbitrary: a n)
        case (Suc m)
        then obtain b k where "nxt a = Some b" "n = Suc k" "steps nxt m b = Some u"
          by (cases n) (auto split: option.splits)
        with Suc show ?case by auto
      qed simp
      from steps_rank [of nxt rank, OF assms(1) this] that show False by simp
    qed
    ultimately show False using x y assms(2) [OF r] by (metis linorder_neqE_nat)
  qed
qed

subsection \<open>Free addresses\<close>

lemma push_reserved_reserved:
  "push_reserved i ip ns = Some ns' \<Longrightarrow>
   reserved_of m ns' = (if m = i then reserved_of m ns @ [ip] else reserved_of m ns)"
  by (induction ns arbitrary: ns') (auto split: if_splits)

lemma getFreeIP_Inr:
  assumes "getFreeIP e i sn s = (Inr ip, t)"
  obtains a where "free_ip_of e i sn s = Inr a" "ip = plain_ip e a"
    "\<And>m. getNodeReservedIps m t = (if m = i then getNodeReservedIps m s @ [ip] else getNodeReservedIps m s)"
    "n_networks t = n_networks s"
proof -
  from assms obtain a ns where "free_ip_of e i sn s = Inr a" "ip = plain_ip e a"
      "push_reserved i ip (n_nodes s) = Some ns" "t = s\<lparr>n_nodes := ns\<rparr>"
    by (auto simp: getFreeIP_def split: sum.splits option.splits)
  then show thesis
    by (intro that) (simp_all add: getNodeReservedIps_def push_reserved_reserved)
qed

text \<open>
  the address \<open>getFreeIP\<close> gives to a node of the network is the first one, from the third host
  of the node's subnet on, that is not reserved; it is then reserved, the node's reservations stay
  pairwise different, and no other node's reservations change.
\<close>

theorem free_ip_is_first_free:
  assumes "getFreeIP e i sn s = (Inr ip, t)" and "nodeExists i s"
    and "distinct (getNodeReservedIps i s)"
  shows "ip \<notin> set (getNodeReservedIps i s)
    \<and> getNodeReservedIps i t = getNodeReservedIps i s @ [ip] \<and> distinct (getNodeReservedIps i t)
    \<and> (\<forall>m. m \<noteq> i \<longrightarrow> getNodeReservedIps m t = getNodeReservedIps m s)
    \<and> (\<exists>net host a. Addr_opt e (getNodeSubnet i s) = Inr net \<and> third_host e net = Inr host
         \<and> first_free (na_increment (e_addr e)) (\<lambda>x. plain_ip e x \<in> set (getNodeReservedIps i s)) host a
         \<and> ip = plain_ip e a)"
proof -
  obtain a where a: "free_ip_of e i sn s = Inr a" "ip = plain_ip e a"
      and t: "\<And>m. getNodeReservedIps m t = (if m = i then getNodeReservedIps m s @ [ip] else getNodeReservedIps m s)"
    by (rule getFreeIP_Inr [OF assms(1)]) blast
  from a(1) assms(2) obtain net host where h: "Addr_opt e (getNodeSubnet i s) = Inr net"
      "third_host e net = Inr host"
      "run_seek (na_increment (e_addr e)) (\<lambda>x. plain_ip e x \<in> set (getNodeReservedIps i s)) host = Inr a"
    by (auto simp: free_ip_of_def bindR_Inr)
  from run_seek_free [OF h(3)] a(2) have "ip \<notin> set (getNodeReservedIps i s)" by simp
  with t assms(3) h run_seek_first_free [OF h(3)] a(2) show ?thesis by auto
qed

lemma error_class_simps [simp]:
  "err_class TypeError = C_TypeError" "err_class (plain_error c m) = c"
  "err_class (ValidationError m) = C_Generic G_ValidationError"
  by (simp_all add: TypeError_def plain_error_def ValidationError_def generic_error_def BaseError_def)

lemma Addr_class: "Addr e x = Inl y \<Longrightarrow> err_class y = C_Error"
  by (auto simp: Addr_def split: option.splits)

lemma Addr_opt_class: "Addr_opt e x = Inl y \<Longrightarrow> err_class y = C_Error \<or> err_class y = C_TypeError"
  by (auto simp: Addr_opt_def Addr_class split: option.splits)

lemma non_null_class: "non_null x = Inl y \<Longrightarrow> err_class y = C_TypeError"
  by (auto simp: non_null_def split: option.splits)

lemma bindR_Inl: "bindR r f = Inl y \<longleftrightarrow> r = Inl y \<or> (\<exists>x. r = Inr x \<and> f x = Inl y)"
  by (cases r) auto

lemma third_host_class: "third_host e a = Inl y \<Longrightarrow> err_class y = C_TypeError"
  by (auto simp: third_host_def bindR_Inl non_null_class)

lemma addr_lawsD:
  assumes "addr_laws A rank"
  shows "na_increment A a = Some b \<Longrightarrow> rank a < rank b" "na_nextSibling A a = Some b \<Longrightarrow> rank a < rank b"
    "before_char (CHR ''/'') (na_toString A a) = before_char (CHR ''/'') (na_toString A b) \<Longrightarrow> rank a = rank b"
  using assms unfolding addr_laws_def by blast+

lemma addr_seek_increment:
  assumes "addr_laws (e_addr e) rank"
    and "run_seek (na_increment (e_addr e)) (\<lambda>x. plain_ip e x \<in> set R) a = Inl y"
  shows "err_class y = C_TypeError"
proof -
  have "seek (na_increment (e_addr e)) (\<lambda>x. plain_ip e x \<in> set R) a \<noteq> None"
    by (rule seek_rank_terminates [where rank = rank and render = "plain_ip e" and reserved = R])
       (auto simp: plain_ip_def dest: addr_lawsD [OF assms(1)])
  from run_seek_error [OF this assms(2)] show ?thesis by simp
qed

lemma addr_seek_sibling:
  assumes "addr_laws (e_addr e) rank"
    and "run_seek (na_nextSibling (e_addr e)) (\<lambda>x. na_toString (e_addr e) x \<in> set R) a = Inl y"
  shows "err_class y = C_TypeError"
proof -
  have inj: "rank u = rank v" if "na_toString (e_addr e) u = na_toString (e_addr e) v" for u v
    using addr_lawsD(3) [OF assms(1)] that by metis
  have "seek (na_nextSibling (e_addr e)) (\<lambda>x. na_toString (e_addr e) x \<in> set R) a \<noteq> None"
    by (rule seek_rank_terminates [where rank = rank and render = "na_toString (e_addr e)" and reserved = R])
       (auto dest: addr_lawsD(2) [OF assms(1)] inj)
  from run_seek_error [OF this assms(2)] show ?thesis by simp
qed

text \<open>
  C39: \<open>getFreeIP\<close> and \<open>getFreeSubnet\<close> return: under the laws of the address package their searches
  end, whatever is reserved.
\<close>

theorem free_searches_end:
  assumes "addr_laws (e_addr e) rank"
  shows "(case fst (getFreeIP e i sn s) of Inl y \<Rightarrow> err_class y \<noteq> C_Diverges | Inr _ \<Rightarrow> True)
     \<and> (case fst (getFreeSubnet e s) of Inl y \<Rightarrow> err_class y \<noteq> C_Diverges | Inr _ \<Rightarrow> True)"
proof
  have ip: "err_class y \<noteq> C_Diverges" if "free_ip_of e i sn s = Inl y" for y
    using that addr_seek_increment [OF assms]
    by (auto simp: free_ip_of_def bindR_Inl split: if_splits
        dest!: Addr_class Addr_opt_class third_host_class)
  then show "case fst (getFreeIP e i sn s) of Inl y \<Rightarrow> err_class y \<noteq> C_Diverges | Inr _ \<Rightarrow> True"
    by (auto simp: getFreeIP_def split: sum.splits option.splits)
  have "err_class y \<noteq> C_Diverges" if "free_subnet_of e s' = Inl y" for y s'
    using that addr_seek_sibling [OF assms]
    by (auto simp: free_subnet_of_def bindR_Inl split: if_splits dest!: Addr_class non_null_class)
  then show "case fst (getFreeSubnet e s) of Inl y \<Rightarrow> err_class y \<noteq> C_Diverges | Inr _ \<Rightarrow> True"
    by (auto simp: getFreeSubnet_def bindE_def split: sum.splits)
qed

subsection \<open>Free subnets\<close>

text \<open>
  a subnet \<open>getFreeSubnet\<close> hands out belongs to no node and no access point of the network and
  was never handed out before; afterwards it is reserved, so that \<open>ValidateFreeSubnet\<close> refuses it;
  the reserved subnets stay pairwise different.
\<close>

theorem free_subnet_fresh:
  assumes "getFreeSubnet e s = (Inr x, t)" and "distinct (n_reservedSubnets s)"
  shows "x \<notin> live_subnets s \<and> x \<notin> set (n_reservedSubnets s)
    \<and> x \<in> set (n_reservedSubnets t) \<and> distinct (n_reservedSubnets t)
    \<and> fst (ValidateFreeSubnet x t) = Inl (ValidationError (''subnet '' @ x @ '' is not free.''))"
proof -
  have c: "pool.claim x s = Some t" by (rule getFreeSubnet_claim [OF assms(1)])
  then have "x \<notin> set (n_reservedSubnets (getReservedSubnets s))" by (simp add: pool.claim_Some)
  then have "x \<notin> live_subnets s" "x \<notin> set (n_reservedSubnets s)"
    by (simp_all add: set_reserved_subnets)
  with c assms(2) pool.claim_taken [OF c] pool.claim_distinct [OF c] pool.claim_twice [OF c]
  show ?thesis by (simp add: ValidateFreeSubnet_claim)
qed

subsection \<open>Routing addresses\<close>

definition no_dot :: "string \<Rightarrow> bool" where
  "no_dot s \<longleftrightarrow> CHR ''.'' \<notin> set s"

definition dotted :: "string \<Rightarrow> string \<Rightarrow> string \<Rightarrow> string \<Rightarrow> string" where
  "dotted a b c d = a @ ''.'' @ b @ ''.'' @ c @ ''.'' @ d"

lemma split_dotted:
  "no_dot a \<Longrightarrow> no_dot b \<Longrightarrow> no_dot c \<Longrightarrow> no_dot d \<Longrightarrow> split_on (CHR ''.'') (dotted a b c d) = [a, b, c, d]"
  by (simp add: dotted_def no_dot_def split_on_sep split_on_no_sep)

text \<open>
  the routing address of a subnet \<open>a.b.c.d\<close> is \<open>100.64.b.c/32\<close>, so two subnets of one network
  range (same \<open>b\<close>) have the same routing address only if they have the same third part.
\<close>

theorem routing_ip_of_subnet:
  assumes "no_dot a" "no_dot b" "no_dot c" "no_dot d" and "CHR ''/'' \<notin> set c"
  shows "wgRoutingIP (dotted a b c d) = Inr (dotted ''100'' ''64'' b c @ ''/32'')
     \<and> (\<forall>a' c' d'. no_dot a' \<and> no_dot c' \<and> no_dot d' \<and> CHR ''/'' \<notin> set c'
           \<and> wgRoutingIP (dotted a' b c' d') = wgRoutingIP (dotted a b c d) \<longrightarrow> c' = c)"
proof -
  have r: "wgRoutingIP (dotted p b q r) = Inr (''100.64.'' @ b @ ''.'' @ q @ ''/32'')"
    if "no_dot p" "no_dot q" "no_dot r" "CHR ''/'' \<notin> set q" for p q r
    using that assms(2) by (simp add: wgRoutingIP_def split_dotted before_char_id)
  show ?thesis using assms r by (auto simp: dotted_def)
qed

subsection \<open>Known defects of the operations\<close>

lemma deleteNode_there:
  assumes "exists e s = (Inr True, s')" and "n_reservedSubnets s' \<noteq> []"
  shows "deleteNode e i s = (Inl TypeError,
     s'\<lparr>n_nodes := filter (\<lambda>n. nn_node_id n \<noteq> i) (n_nodes s'),
        n_networks := filter (\<lambda>net. nz_node_id net \<noteq> i) (n_networks s')\<rparr>)"
  using assms by (simp add: deleteNode_def bindE_def filter_empty_conv split: list.splits)

text \<open>
  \<open>deleteNode\<close> cannot succeed once a subnet is reserved: the node and its network are dropped
  from the object, then the lookup of the subnet among the networks that are left fails.
\<close>

theorem delete_node_fails_when_reserved:
  assumes "exists e s = (Inr True, s')" and "n_reservedSubnets s' \<noteq> []"
  shows "fst (deleteNode e i s) = Inl TypeError \<and> \<not> nodeExists i (snd (deleteNode e i s))"
  unfolding deleteNode_there [OF assms] by (simp add: nodeExists_def list_ex_iff)

definition mycelium_key :: "int \<Rightarrow> Network \<Rightarrow> string option" where
  "mycelium_key i s = (case node_net i s of None \<Rightarrow> None | Some net \<Rightarrow> map_option my_hex_key (zn_mycelium net))"

lemma find_map_id:
  assumes "\<And>x. P (f x) = P x"
  shows "find P (map f xs) = map_option f (find P xs)"
  by (induction xs) (simp_all add: assms)

lemma mycelium_key_set:
  assumes "node_net i s \<noteq> None"
  shows "mycelium_key i (set_mycelium i seed s) = Some seed"
proof -
  obtain net where n: "node_net i s = Some net" using assms by blast
  then have "nz_node_id net = i" by (auto simp: node_net_def find_Some_iff)
  with n show ?thesis
    unfolding mycelium_key_def set_mycelium_def node_net_def
    by (simp add: find_map_id)
qed

lemma mycelium_key_deployments [simp]: "mycelium_key i (updateNetworkDeployments s) = mycelium_key i s"
  by (simp add: mycelium_key_def updateNetworkDeployments_def node_net_def)

lemma mycelium_key_tick [simp]: "mycelium_key i (s\<lparr>n_tick := k\<rparr>) = mycelium_key i s"
  by (simp add: mycelium_key_def node_net_def)

lemma node_net_tick [simp]: "node_net i (s\<lparr>n_tick := k\<rparr>) = node_net i s"
  by (simp add: node_net_def)

lemma user_seed_Nil [simp]: "user_seed i [] = None"
  by (simp add: user_seed_def truthy_str_def)

text \<open>
  asking for mycelium again on a node that already has it, without naming a seed, replaces the
  node's key by a random one (the light network keeps it).
\<close>

theorem mycelium_rekeyed:
  assumes "mycelium_key i s = Some old"
  shows "mycelium_key i (snd (checkMycelium e i True [] s)) = Some (e_hex_seed e (n_tick s))"
proof -
  obtain net where "node_net i s = Some net"
    using assms by (auto simp: mycelium_key_def split: option.splits)
  then show ?thesis
    by (simp add: checkMycelium_def bindE_def next_hex_seed_def Let_def mycelium_key_set)
qed

text \<open>
  two machines on the node of a light network get the same address: \<open>getFreeIP\<close> does not look
  at what it has reserved.
\<close>

theorem light_free_ip_repeats:
  assumes "light_getFreeIP e i sn s = (Inr ip, t)"
  shows "\<exists>u. light_getFreeIP e i sn t = (Inr ip, u)
     \<and> (\<exists>n. l_node u = Some n \<and> \<not> distinct (ln_reserved_ips n))"
proof -
  from assms obtain a n where a: "light_free_ip_of e i sn s = Inr a" "ip = plain_ip e a"
      and n: "l_node s = Some n" "ln_node_id n = Some i"
      and t: "t = s\<lparr>l_node := Some (n\<lparr>ln_reserved_ips := ln_reserved_ips n @ [ip]\<rparr>)\<rparr>"
    by (auto simp: light_getFreeIP_def light_push_ip_def split: sum.splits option.splits bool.splits if_splits)
  have "light_free_ip_of e i sn t = Inr a"
    using a(1) by (cases "l_network s") (auto simp: t light_free_ip_of_def light_getNodeSubnet_def light_subnet_of_def split: if_splits)
  then have "light_getFreeIP e i sn t = (Inr ip,
      s\<lparr>l_node := Some (n\<lparr>ln_reserved_ips := ln_reserved_ips n @ [ip, ip]\<rparr>)\<rparr>)"
    using a(2) n by (simp add: light_getFreeIP_def light_push_ip_def t)
  then show ?thesis by simp
qed

text \<open>
  a loaded light network takes every node that carries any light network of the twin for one of
  its own, so \<open>addNode\<close> on such a node does nothing.
\<close>

theorem light_add_node_skips_foreign:
  assumes "light_getMyNetworkContracts e True s = (Inr all, s')" and "l_NodeIds s' = Some ids"
    and "c \<in> set all" and "contract_name c \<noteq> name"
  shows "\<exists>t. light_getDeploymentContracts e name s = (Inr (filter (\<lambda>c. contract_name c = name) all), t)
     \<and> light_addNode e (gc_nodeID c) mycelium description subnet seeds t = (Inr None, t)"
proof -
  let ?t = "s'\<lparr>l_NodeIds := Some (ids @ map gc_nodeID all)\<rparr>"
  have "light_getDeploymentContracts e name s = (Inr (filter (\<lambda>c. contract_name c = name) all), ?t)"
    using assms(1,2) by (simp add: light_getDeploymentContracts_def bindE_def)
  moreover have "light_nodeExists (gc_nodeID c) ?t"
    using assms(3) by (simp add: light_nodeExists_def)
  then have "light_addNode e (gc_nodeID c) mycelium description subnet seeds ?t = (Inr None, ?t)"
    by (simp add: light_addNode_def bindE_def)
  ultimately show ?thesis by blast
qed

subsection \<open>Examples\<close>

definition demo_contract :: GqlNodeContract where
  "demo_contract = \<lparr>gc_contractID = ''12'', gc_nodeID = 4, gc_deploymentData = ''other'',
     gc_deploymentHash = [], gc_numberOfPublicIPs = 0, gc_solutionProviderID = ''0'', gc_twinID = ''7'',
     gc_state = ''Created'', gc_gridVersion = ''4'', gc_parsed = None\<rparr>"

definition demo_env :: "nat net_env" where
  "demo_env = \<lparr>e_addr = demo_addr, e_private_ip = (\<lambda>ip. if ip = [] then None else Some (hd ip = CHR ''1'')),
     e_public_key = rev, e_grid = demo_api, e_access_fuel = 3, e_twin_id = 7,
     e_valid = \<lparr>is_url = (\<lambda>_. True), is_http_url = (\<lambda>_. True), is_fqdn = (\<lambda>_. True), is_ip_address = (\<lambda>_. True), forbid_unknown = True\<rparr>,
     e_wg_ports = (\<lambda>_. Inr [1024]), e_public_config = (\<lambda>_. Inr None), e_interfaces = (\<lambda>_. Inr None),
     e_deployment_get = (\<lambda>_ _. Inl TypeError), e_private_ips = (\<lambda>_ _. Inr []),
     e_contracts = Inr [demo_contract],
     e_parse_data = (\<lambda>d. Inr \<lparr>dd_type = ''network'', dd_name = d, dd_projectName = []\<rparr>),
     e_parse_metadata = (\<lambda>_. Inr \<lparr>nm_version = 3, nm_user_accesses = [], nm_other = []\<rparr>),
     e_show_metadata = (\<lambda>_. []), e_store_path = ''store'', e_kvstore = False,
     e_backend_list = (\<lambda>_. Inr []), e_backend_load = (\<lambda>_. Inl TypeError), e_backend_dump = (\<lambda>_. Inr []),
     e_apply_extrinsics = (\<lambda>_. Inr ()),
     e_keypair = (\<lambda>i. \<lparr>wk_privateKey = show_nat i, wk_publicKey = rev (show_nat i)\<rparr>),
     e_hex_seed = (\<lambda>i. replicate 64 (digit_char (i mod 10))), e_port = (\<lambda>i. 1024 + int i),
     e_choice = (\<lambda>i n. i)\<rparr>"

definition demo_znet :: NodeZnet where
  "demo_znet = \<lparr>zn_subnet = ''5'', zn_ip_range = ''1'', zn_wireguard_private_key = ''k'',
     zn_wireguard_listen_port = 1025, zn_peers = [],
     zn_mycelium = Some \<lparr>my_hex_key = ''ab'', my_peers = Some []\<rparr>, nz_node_id = 1\<rparr>"

definition demo_net :: Network where
  "demo_net = \<lparr>n_name = ''other'', n_ipRange = ''1'',
     n_nodes = [\<lparr>nn_node_id = 1, nn_contract_id = Some 12, nn_reserved_ips = [''7'']\<rparr>],
     n_deployments = [], n_reservedSubnets = [''5''], n_networks = [demo_znet], n_contracts = None,
     n_accessPoints = [], n_userAccesses = [], n_endpoints = [], n_accessNodes = [],
     n_newContracts = [], n_deletedContracts = [], n_wireguardConfig = [], n_tick = 0\<rparr>"

lemma demo_net_sel [simp]:
  "n_ipRange demo_net = ''1''" "n_networks demo_net = [demo_znet]" "n_reservedSubnets demo_net = [''5'']"
  "n_nodes demo_net = [\<lparr>nn_node_id = 1, nn_contract_id = Some 12, nn_reserved_ips = [''7'']\<rparr>]"
  "n_accessPoints demo_net = []" "n_tick demo_net = 0" "n_name demo_net = ''other''"
  "n_newContracts demo_net = []" "n_deletedContracts demo_net = []" "n_contracts demo_net = None"
  "nz_node_id demo_znet = 1" "zn_subnet demo_znet = ''5''"
  by (simp_all add: demo_net_def demo_znet_def)

lemma demo_show: "show_nat 1 = ''1''" "show_nat 3 = ''3''" "show_nat 5 = ''5''" "show_nat 7 = ''7''" "show_nat 8 = ''8''"
  by (simp_all add: show_nat.simps digit_char_def char_of_eq_iff)

lemma demo_read: "read_nat ''5'' = 5" "read_nat ''1'' = 1"
  by (simp_all add: read_nat_def char_digit_def)

lemma demo_addr_sel [simp]:
  "na_parse demo_addr x = Some (read_nat x)" "na_mask demo_addr k n = n"
  "na_increment demo_addr n = (if n < 1000 then Some (Suc n) else None)"
  "na_nextSibling demo_addr n = (if n < 1000 then Some (Suc n) else None)"
  "na_toString demo_addr n = show_nat n"
  by (simp_all add: demo_addr_def)

lemma demo_env_addr [simp]: "e_addr demo_env = demo_addr"
  by (simp add: demo_env_def)

lemma demo_free_ip:
  "getFreeIP demo_env 1 [] demo_net = (Inr ''8'',
     demo_net\<lparr>n_nodes := [\<lparr>nn_node_id = 1, nn_contract_id = Some 12, nn_reserved_ips = [''7'', ''8'']\<rparr>]\<rparr>)"
proof -
  have "seek (na_increment demo_addr) (\<lambda>i. show_nat i = ''7'') 7 = Some (Inr 8)"
    by (subst seek.simps, simp add: demo_show, subst seek.simps, simp add: demo_show)
  then have "run_seek (na_increment demo_addr) (\<lambda>i. show_nat i = ''7'') 7 = Inr 8"
    by (simp add: run_seek_def)
  then have "free_ip_of demo_env 1 [] demo_net = Inr 8"
    by (simp add: free_ip_of_def nodeExists_def getNodeSubnet_def node_net_def getNodeReservedIps_def
        Addr_opt_def Addr_def third_host_def non_null_def plain_ip_def demo_read)
  then show ?thesis
    by (simp add: getFreeIP_def plain_ip_def demo_show before_char_def)
qed

theorem free_ip_is_first_free_witness:
  "''8'' \<notin> set (getNodeReservedIps 1 demo_net)"
  using free_ip_is_first_free [OF demo_free_ip]
  by (simp add: nodeExists_def getNodeReservedIps_def)

theorem free_searches_end_witness:
  "\<not> (\<exists>y. fst (getFreeIP demo_env 1 ''5'' demo_net) = Inl y \<and> err_class y = C_Diverges)"
  using free_searches_end [of demo_env int 1 "''5''" demo_net] demo_addr_laws
  by auto

lemma demo_free_subnet:
  "getFreeSubnet demo_env demo_net = (Inr ''3'', demo_net\<lparr>n_reservedSubnets := [''5'', ''3'']\<rparr>)"
proof -
  have r: "getReservedSubnets demo_net = demo_net"
    by (rule reserved_subnets_settled) (simp add: live_subnets_def)
  have "run_seek (na_nextSibling demo_addr) (\<lambda>i. show_nat i = ''5'') 3 = Inr 3"
    by (simp add: run_seek_def, subst seek.simps, simp add: demo_show)
  then have "free_subnet_of demo_env demo_net = Inr 3"
    by (simp add: free_subnet_of_def Addr_def non_null_def demo_read numeral_3_eq_3)
  then show ?thesis
    by (simp add: getFreeSubnet_def bindE_def r push_subnet_def demo_show)
qed

theorem free_subnet_fresh_witness: "''3'' \<notin> live_subnets demo_net"
  using free_subnet_fresh [OF demo_free_subnet] by simp

theorem routing_ip_of_subnet_witness:
  "wgRoutingIP ''10.20.2.0/24'' = Inr ''100.64.20.2/32''"
  using routing_ip_of_subnet [of "''10''" "''20''" "''2''" "''0/24''"]
  by (simp add: no_dot_def dotted_def)

lemma demo_exists: "exists demo_env demo_net = (Inr True, demo_net\<lparr>n_contracts :=
   Some [demo_contract\<lparr>gc_parsed := Some \<lparr>dd_type = ''network'', dd_name = ''other'', dd_projectName = []\<rparr>\<rparr>]\<rparr>)"
  by (simp add: exists_def getNetworkNames_def listNewNetworks_def getMyNetworkContracts_def bindE_def
      demo_env_def Let_def demo_contract_def getContractsName_def contract_name_def js_dedup_def)

theorem delete_node_fails_when_reserved_witness:
  "fst (deleteNode demo_env 1 demo_net) = Inl TypeError"
  using delete_node_fails_when_reserved [OF demo_exists, of 1] by simp

theorem mycelium_rekeyed_witness:
  "mycelium_key 1 (snd (checkMycelium demo_env 1 True [] demo_net)) = Some (replicate 64 (CHR ''0''))"
  using mycelium_rekeyed [of 1 demo_net "''ab''" demo_env]
  by (simp add: mycelium_key_def node_net_def demo_znet_def demo_env_def digit_char_def char_of_eq_iff)

definition demo_light :: ZNetworkLight where
  "demo_light = \<lparr>l_name = ''mine'', l_ipRange = ''1'',
     l_node = Some \<lparr>ln_node_id = Some 1, ln_contract_id = Some 12, ln_reserved_ips = []\<rparr>,
     l_NodeIds = Some [1], l_deployments = [],
     l_network = Some \<lparr>nl_subnet = ''5'', nl_mycelium = None, nli_ip_range = [], nli_node_id = 1\<rparr>,
     l_contracts = None, l_reservedSubnets = [], l_newContracts = [], l_deletedContracts = [], l_tick = 0\<rparr>"

lemma demo_light_free_ip: "light_getFreeIP demo_env 1 [] demo_light = (Inr ''7'',
    demo_light\<lparr>l_node := Some \<lparr>ln_node_id = Some 1, ln_contract_id = Some 12, ln_reserved_ips = [''7'']\<rparr>\<rparr>)"
  by (simp add: light_getFreeIP_def light_free_ip_of_def light_getNodeSubnet_def light_subnet_of_def
      Addr_opt_def Addr_def third_host_def non_null_def demo_light_def demo_read light_push_ip_def plain_ip_def
      demo_show before_char_def)

theorem light_free_ip_repeats_witness:
  "\<exists>u. light_getFreeIP demo_env 1 []
      (demo_light\<lparr>l_node := Some \<lparr>ln_node_id = Some 1, ln_contract_id = Some 12, ln_reserved_ips = [''7'']\<rparr>\<rparr>)
    = (Inr ''7'', u)"
  using light_free_ip_repeats [OF demo_light_free_ip] by blast

theorem light_add_node_skips_foreign_witness:
  "\<exists>t. light_getDeploymentContracts demo_env ''mine'' demo_light = (Inr [], t)
     \<and> light_addNode demo_env 4 False [] [] [] t = (Inr None, t)"
proof -
  let ?c = "demo_contract\<lparr>gc_parsed := Some \<lparr>dd_type = ''network'', dd_name = ''other'', dd_projectName = []\<rparr>\<rparr>"
  have r: "light_getMyNetworkContracts demo_env True demo_light = (Inr [?c], demo_light\<lparr>l_contracts := Some [?c]\<rparr>)"
    by (simp add: light_getMyNetworkContracts_def demo_env_def demo_light_def demo_contract_def)
  show ?thesis
    using light_add_node_skips_foreign [OF r, of "[1]" ?c "''mine''" False "[]" "[]" "[]"]
    by (simp add: demo_light_def contract_name_def demo_contract_def)
qed

end
