(* ===== verification/PeerFacts.thy ===== *)
theory PeerFacts
  imports NetworkProps
begin

text \<open>
  What \<open>generatePeers\<close> leaves in the networks: nothing but the peers changes, and each peer of a node
  is either another node of the network, under that node's key and subnet, or an access point.
\<close>

subsection \<open>Methods that leave the networks alone\<close>

definition strip :: "NodeZnet \<Rightarrow> NodeZnet" where
  "strip net = net\<lparr>zn_peers := []\<rparr>"

lemma strip_sel [simp]:
  "zn_subnet (strip net) = zn_subnet net" "nz_node_id (strip net) = nz_node_id net"
  "zn_wireguard_private_key (strip net) = zn_wireguard_private_key net" "zn_peers (strip net) = []"
  "strip (net\<lparr>zn_peers := ps\<rparr>) = strip net"
  by (simp_all add: strip_def)

abbreviation same_networks :: "NodeZnet list \<Rightarrow> Network \<Rightarrow> bool" where
  "same_networks nets s \<equiv> n_networks s = nets"

lemma getNodeEndpoint_networks: "n_networks (snd (getNodeEndpoint e i s)) = n_networks s"
  by (simp add: getNodeEndpoint_def split: option.split sum.split)

lemma getAccessNodes_networks: "n_networks (snd (NetworkOps.getAccessNodes e s)) = n_networks s"
  by (simp add: NetworkOps.getAccessNodes_def Let_def split: sum.split)

lemma getReservedSubnets_networks [simp]: "n_networks (getReservedSubnets s) = n_networks s"
  by (simp add: getReservedSubnets_def)

lemma hide_node_networks: "preservesE (same_networks nets) (hide_node e net acc)"
  unfolding hide_node_def
  by (intro preservesE_bindE preservesE_getE)
     (auto simp: preservesE_def bindE_def randomChoice_def getNodeEndpoint_networks
        getAccessNodes_networks split: prod.splits sum.splits,
      (metis getNodeEndpoint_networks getAccessNodes_networks snd_conv)+)

lemma hidden_nodes_networks: "preservesE (same_networks nets) (hidden_nodes e)"
  unfolding hidden_nodes_def by (intro preservesE_bindE preservesE_getE preservesE_foldE hide_node_networks)

subsection \<open>Allowed addresses\<close>

lemma allow_set: "allow x ips = Inr ips' \<Longrightarrow> set ips \<subseteq> set ips' \<and> x \<in> set ips'"
  by (auto simp: allow_def bindR_Inr)

lemma fold_allow_new_mono: "foldR allow_new xs ips = Inr ips' \<Longrightarrow> set ips \<subseteq> set ips' \<and> set xs \<subseteq> set ips'"
proof (induction xs arbitrary: ips)
  case (Cons x xs)
  then obtain mid where m: "allow_new x ips = Inr mid" "foldR allow_new xs mid = Inr ips'"
    by (auto simp: bindR_Inr)
  from m(1) have "set ips \<subseteq> set mid \<and> x \<in> set mid"
    by (auto simp: allow_new_def dest: allow_set split: if_splits)
  with Cons.IH [OF m(2)] show ?case by auto
qed simp

lemma allowed_ips_subnet:
  "allowed_ips aps reserved hidden own net = Inr ips \<Longrightarrow> zn_subnet net \<in> set ips"
  by (auto simp: allowed_ips_def bindR_Inr dest!: allow_set fold_allow_new_mono split: if_splits)

subsection \<open>Peers\<close>

text \<open>A peer that the node number \<open>i\<close> of the networks may have.\<close>

definition peer_ok :: "('a, 'b) net_env_scheme \<Rightarrow> NodeZnet list \<Rightarrow> nat \<Rightarrow> Peer \<Rightarrow> bool" where
  "peer_ok e nets i p \<longleftrightarrow> pr_subnet p \<in> set (pr_allowed_ips p) \<and>
     (pr_endpoint p = [] \<or> (\<exists>m \<in> set nets. nz_node_id m \<noteq> nz_node_id (nets ! i)
        \<and> pr_subnet p = zn_subnet m \<and> pr_wireguard_public_key p = e_public_key e (zn_wireguard_private_key m)))"

definition peers_inv :: "('a, 'b) net_env_scheme \<Rightarrow> NodeZnet list \<Rightarrow> nat set \<Rightarrow> Network \<Rightarrow> bool" where
  "peers_inv e nets D s \<longleftrightarrow> map strip (n_networks s) = nets
     \<and> (\<forall>i \<in> D. i < length nets \<longrightarrow> list_all (peer_ok e nets i) (zn_peers (n_networks s ! i)))"

lemma peers_inv_networks: "n_networks t = n_networks s \<Longrightarrow> peers_inv e nets D t = peers_inv e nets D s"
  by (simp add: peers_inv_def)

lemma map_strip_update: "i < length nets \<Longrightarrow> map strip (nets[i := (nets ! i)\<lparr>zn_peers := ps\<rparr>]) = map strip nets"
  by (metis list_update_id map_update strip_sel(5))

lemma set_peers_inv:
  assumes "peers_inv e nets D s" and "i < length nets"
    and "list_all (peer_ok e nets i) (f (zn_peers (n_networks s ! i)))"
  shows "peers_inv e nets (insert i D) (set_peers i f s)"
proof -
  have len: "length (n_networks s) = length nets" using assms(1) by (auto simp: peers_inv_def)
  with assms show ?thesis
    by (auto simp: peers_inv_def set_peers_def map_strip_update nth_list_update)
qed

lemma push_peers_inv:
  assumes "peers_inv e nets (insert i D) s" and "i < length nets" and "list_all (peer_ok e nets i) ps"
  shows "peers_inv e nets (insert i D) (set_peers i (\<lambda>qs. qs @ ps) s)"
  using set_peers_inv [OF assms(1,2), of "\<lambda>qs. qs @ ps"] assms by (simp add: peers_inv_def)

lemma net_peer_networks: "net_peer e h aps n net s = (Inr p, t) \<Longrightarrow> n_networks t = n_networks s"
  by (auto simp: net_peer_def bindE_Inr_iff Let_def retE_def modifyE_def liftE_def getE_def split: if_splits)
     (metis getNodeEndpoint_networks getReservedSubnets_networks snd_conv)+

lemma net_peer_ok:
  assumes "net_peer e h aps (ns ! i) net s = (Inr (Some p), t)" and "net \<in> set ns"
    and "map strip ns = nets" and "i < length nets"
  shows "peer_ok e nets i p"
proof -
  from assms(1) obtain reserved hid where r: "nz_node_id (ns ! i) \<noteq> nz_node_id net"
    "allowed_ips aps reserved hid (zn_subnet (ns ! i)) net = Inr (pr_allowed_ips p)"
    "pr_subnet p = zn_subnet net" "pr_wireguard_public_key p = e_public_key e (zn_wireguard_private_key net)"
    by (auto simp: net_peer_def bindE_Inr_iff Let_def retE_def modifyE_def liftE_def getE_def split: if_splits)
  have "strip net \<in> set nets" using assms(2,3) by auto
  moreover have "nz_node_id (nets ! i) = nz_node_id (ns ! i)" using assms(3,4) by auto
  ultimately show ?thesis using r allowed_ips_subnet [OF r(2)]
    unfolding peer_ok_def by (auto intro!: bexI [of _ "strip net"])
qed

lemma access_peer_ok: "access_peer a = Inr p \<Longrightarrow> peer_ok e nets i p"
  by (auto simp: access_peer_def bindR_Inr peer_ok_def)

lemma bind_modify:
  assumes "bindE m (\<lambda>p. modifyE (f p)) s = (Inr x, t)"
  obtains p u where "m s = (Inr p, u)" "t = f p u"
  using assms by (auto simp: bindE_Inr_iff)

lemma generate_for_inv:
  assumes "i < length nets"
  shows "validE (peers_inv e nets D) (generate_for e h aps i) (\<lambda>_. peers_inv e nets (insert i D))"
proof -
  let ?I = "peers_inv e nets (insert i D)"
  have start: "?I (set_peers i (\<lambda>_. []) s)" if "peers_inv e nets D s" for s
    by (rule set_peers_inv [OF that assms]) simp
  have nets: "validE ?I (iterE (\<lambda>net. bindE (net_peer e h aps (ns ! i) net)
                (\<lambda>p. modifyE (set_peers i (\<lambda>ps. ps @ opt_list p)))) ns) (\<lambda>_. ?I)"
    if "map strip ns = nets" for ns
  proof (rule validE_iterE)
    fix net assume net: "net \<in> set ns"
    show "validE ?I (bindE (net_peer e h aps (ns ! i) net)
            (\<lambda>p. modifyE (set_peers i (\<lambda>ps. ps @ opt_list p)))) (\<lambda>_. ?I)"
      unfolding validE_def
    proof (intro allI impI)
      fix s x t
      assume I: "?I s" and run: "bindE (net_peer e h aps (ns ! i) net)
            (\<lambda>p. modifyE (set_peers i (\<lambda>ps. ps @ opt_list p))) s = (Inr x, t)"
      from bind_modify [OF run] obtain p u where p: "net_peer e h aps (ns ! i) net s = (Inr p, u)"
        "t = set_peers i (\<lambda>ps. ps @ opt_list p) u" .
      have "?I u" by (rule peers_inv_networks [OF net_peer_networks [OF p(1)], THEN iffD2, OF I])
      moreover have "list_all (peer_ok e nets i) (opt_list p)"
        using net_peer_ok [OF _ net that assms] p(1)
        by (cases p) (auto simp: opt_list_def)
      ultimately show "?I t" unfolding p(2) by (intro push_peers_inv assms)
    qed
  qed
  have points: "validE ?I (iterE (\<lambda>a. bindE (liftE (access_peer a))
      (\<lambda>p. modifyE (set_peers i (\<lambda>ps. ps @ [p])))) as) (\<lambda>_. ?I)" for as
  proof (rule validE_iterE)
    fix a
    have push: "?I (set_peers i (\<lambda>ps. ps @ [p]) v)" if "?I v" "access_peer a = Inr p" for v p
      by (rule push_peers_inv [OF that(1) assms]) (simp add: access_peer_ok [OF that(2)])
    show "validE ?I (bindE (liftE (access_peer a)) (\<lambda>p. modifyE (set_peers i (\<lambda>ps. ps @ [p])))) (\<lambda>_. ?I)"
      unfolding validE_def
    proof (intro allI impI)
      fix v x t
      assume v: "?I v" and run: "bindE (liftE (access_peer a)) (\<lambda>p. modifyE (set_peers i (\<lambda>ps. ps @ [p]))) v = (Inr x, t)"
      from bind_modify [OF run] obtain p u where "liftE (access_peer a) v = (Inr p, u)"
        "t = set_peers i (\<lambda>ps. ps @ [p]) u" .
      then show "?I t" using push [OF v] by simp
    qed
  qed
  have after: "validE ?I (bindE (iterE (\<lambda>net. bindE (net_peer e h aps (ns ! i) net)
                (\<lambda>p. modifyE (set_peers i (\<lambda>ps. ps @ opt_list p)))) ns)
         (\<lambda>_. iterE (\<lambda>a. bindE (liftE (access_peer a)) (\<lambda>p. modifyE (set_peers i (\<lambda>ps. ps @ [p])))) as)) (\<lambda>_. ?I)"
    if "map strip ns = nets" for ns as
    by (rule validE_bindE [OF nets [OF that] points])
  show ?thesis unfolding generate_for_def validE_def
  proof (intro allI impI)
    fix s x t
    assume I: "peers_inv e nets D s" and "bindE (getE n_networks) (\<lambda>nets.
     bindE (modifyE (set_peers i (\<lambda>_. []))) (\<lambda>_.
       bindE (iterE (\<lambda>net. bindE (net_peer e h aps (nets ! i) net)
                (\<lambda>p. modifyE (set_peers i (\<lambda>ps. ps @ opt_list p)))) nets) (\<lambda>_.
         iterE (\<lambda>a. bindE (liftE (access_peer a)) (\<lambda>p. modifyE (set_peers i (\<lambda>ps. ps @ [p]))))
           (filter (\<lambda>a. nz_node_id (nets ! i) = ap_node_id a) aps)))) s = (Inr x, t)"
    then have "bindE (iterE (\<lambda>net. bindE (net_peer e h aps (n_networks s ! i) net)
                (\<lambda>p. modifyE (set_peers i (\<lambda>ps. ps @ opt_list p)))) (n_networks s)) (\<lambda>_.
         iterE (\<lambda>a. bindE (liftE (access_peer a)) (\<lambda>p. modifyE (set_peers i (\<lambda>ps. ps @ [p]))))
           (filter (\<lambda>a. nz_node_id (n_networks s ! i) = ap_node_id a) aps))
         (set_peers i (\<lambda>_. []) s) = (Inr x, t)"
      by (simp only: bindE_app [of "getE _"] bindE_app [of "modifyE _"] getE_app modifyE_app
          prod.case sum.case)
    from validE_D [OF after start [OF I] this] I show "?I t" by (simp add: peers_inv_def)
  qed
qed

lemma generate_all_inv:
  "\<forall>i \<in> set is. i < length nets \<Longrightarrow>
   validE (peers_inv e nets D) (iterE (generate_for e h aps) is) (\<lambda>_. peers_inv e nets (set is \<union> D))"
proof (induction "is" arbitrary: D)
  case (Cons i js)
  then have "validE (peers_inv e nets (insert i D)) (iterE (generate_for e h aps) js)
      (\<lambda>_. peers_inv e nets (set js \<union> insert i D))" by (auto simp del: Un_insert_right)
  from validE_bindE [OF generate_for_inv this] Cons.prems show ?case by simp
qed (auto intro: validE_retE)

text \<open>
  \<open>generatePeers\<close> changes nothing of a network but its peers; no node is a peer of itself; each
  peer with an endpoint carries the subnet and the public key of another node of the network, and
  the subnet of a peer is always among the addresses allowed to it.
\<close>

theorem generated_peers_sound:
  assumes "generatePeers e s = (Inr (), t)"
  shows "map strip (n_networks t) = map strip (n_networks s)
    \<and> (\<forall>n \<in> set (n_networks t). \<forall>p \<in> set (zn_peers n).
          pr_subnet p \<in> set (pr_allowed_ips p)
          \<and> (pr_endpoint p \<noteq> [] \<longrightarrow> (\<exists>m \<in> set (n_networks t). nz_node_id m \<noteq> nz_node_id n
               \<and> pr_subnet p = zn_subnet m
               \<and> pr_wireguard_public_key p = e_public_key e (zn_wireguard_private_key m))))"
proof -
  let ?nets = "map strip (n_networks s)"
  from assms obtain h aps u where u: "hidden_nodes e s = (Inr (h, aps), u)"
    "iterE (generate_for e h (n_accessPoints u @ aps)) [0..<length (n_networks u)] u = (Inr (), t)"
    by (auto simp: generatePeers_def bindE_Inr_iff getE_def)
  have nu: "n_networks u = n_networks s"
    using hidden_nodes_networks [of "n_networks s" e] u(1) by (force simp: preservesE_def)
  have "peers_inv e ?nets {} u" by (simp add: peers_inv_def nu)
  from validE_D [OF generate_all_inv this u(2)]
  have inv: "peers_inv e ?nets {0..<length ?nets} t" by (simp add: nu)
  then have m: "map strip (n_networks t) = ?nets" by (simp add: peers_inv_def)
  then have len: "length (n_networks t) = length ?nets" by (metis length_map)
  have "peer_ok e (map strip (n_networks t)) i p"
    if "i < length (n_networks t)" "p \<in> set (zn_peers (n_networks t ! i))" for i p
    using inv that len by (auto simp: peers_inv_def m list_all_iff)
  then have "pr_subnet p \<in> set (pr_allowed_ips p)
          \<and> (pr_endpoint p \<noteq> [] \<longrightarrow> (\<exists>m \<in> set (n_networks t). nz_node_id m \<noteq> nz_node_id n
               \<and> pr_subnet p = zn_subnet m
               \<and> pr_wireguard_public_key p = e_public_key e (zn_wireguard_private_key m)))"
    if "n \<in> set (n_networks t)" "p \<in> set (zn_peers n)" for n p
    using that by (auto simp: peer_ok_def in_set_conv_nth)
  with m show ?thesis by blast
qed

text \<open>Two public nodes, which become peers of each other.\<close>

definition pair_net :: Network where
  "pair_net = demo_net\<lparr>n_networks :=
     [demo_znet\<lparr>zn_subnet := ''10.1.2.0/24''\<rparr>, demo_znet\<lparr>zn_subnet := ''10.1.3.0/24'', nz_node_id := 2\<rparr>],
   n_endpoints := [(1, Some ''5.5.5.5''), (2, Some ''6.6.6.6'')], n_reservedSubnets := []\<rparr>"

lemma pair_routing:
  "wgRoutingIP ''10.1.2.0/24'' = Inr ''100.64.1.2/32''" "wgRoutingIP ''10.1.3.0/24'' = Inr ''100.64.1.3/32''"
  by (simp_all add: wgRoutingIP_def before_char_def)

lemma pair_generated: "fst (generatePeers demo_env pair_net) = Inr ()"
  by (simp add: generatePeers_def hidden_nodes_def hide_node_def pair_net_def bindE_app getNodeEndpoint_def
      truthy_string_def generate_for_def net_peer_def set_peers_def allowed_ips_def allow_def pair_routing
      opt_list_def upt_rec numeral_2_eq_2)

theorem generated_peers_sound_witness:
  "map strip (n_networks (snd (generatePeers demo_env pair_net))) = map strip (n_networks pair_net)"
proof -
  have "generatePeers demo_env pair_net = (Inr (), snd (generatePeers demo_env pair_net))"
    using pair_generated by (simp add: prod_eq_iff)
  from generated_peers_sound [OF this] show ?thesis by blast
qed

end
