(* ===== verification/Chain.thy ===== *)
theory Chain
  imports Nodes
begin

text \<open>
  \<open>packages/tfchain_client\<close>: the checks of the client's credentials (\<open>client.ts\<close>), the extrinsics
  of node and name contracts (\<open>contracts.ts\<close>), the application of an extrinsic under the client's
  lock with the evaluation of the events it caused, and the batches of \<open>utility.ts\<close>.  The chain
  itself is the parameter \<open>chain_env\<close>: a submission either fails or lists its events.
\<close>

subsection \<open>Credentials\<close>

record client_options =
  co_url :: string
  co_keypairType :: string
  co_mnemonicOrSecret :: "string option"
  co_extSigner :: bool

definition SUPPORTED_KEYPAIR_TYPES :: "string list" where
  "SUPPORTED_KEYPAIR_TYPES = [''sr25519'', ''ed25519'']"

definition isValidSeed :: "string \<Rightarrow> bool" where
  "isValidSeed seed \<longleftrightarrow> seed \<noteq> [] \<and> list_all is_hex_digit seed"

text \<open>
  \<open>valid_mnemonic\<close> is \<open>validateMnemonic\<close> of bip39.  The guard against a missing secret comes after
  the return for a missing secret.
\<close>

definition checkInputs :: "(string \<Rightarrow> bool) \<Rightarrow> client_options \<Rightarrow> js_error + unit" where
  "checkInputs valid_mnemonic c =
     (let secret = (case co_mnemonicOrSecret c of None \<Rightarrow> [] | Some s \<Rightarrow> s) in
      if co_url c = [] then Inl (ValidationError ''TFChain URL is required.'')
      else if co_keypairType c \<notin> set SUPPORTED_KEYPAIR_TYPES
      then Inl (ValidationError (''Invalid keypair type: '' @ [CHR 0x22] @ co_keypairType c @ [CHR 0x22] @ ''. Valid options are: ''
             @ join_with '', '' SUPPORTED_KEYPAIR_TYPES @ ''.''))
      else if secret = [] \<or> take 2 secret = ''//'' then Inr ()
      else if secret = [] \<and> \<not> co_extSigner c
      then Inl (ValidationError (''Either '' @ [apos] @ ''mnemonicOrSecret'' @ [apos] @ '' or ''
             @ [apos] @ ''extSigner'' @ [apos] @ '' must be provided.''))
      else if \<not> valid_mnemonic secret \<and> length secret \<noteq> 64 \<and> length secret \<noteq> 66
      then Inl (ValidationError ''Invalid mnemonic provided.'')
      else if take 2 secret = ''0x'' then
        (if length (drop 2 secret) \<noteq> 64 then Inl (ValidationError ''Secret must be exactly 64 characters long.'')
         else if \<not> isValidSeed (drop 2 secret) then Inl (ValidationError ''Invalid seed derived from the secret.'')
         else Inr ())
      else Inr ())"

subsection \<open>Extrinsics\<close>

text \<open>
  The calls of deployments by name; the others, of any pallet, by section, method and arguments,
  among which a proposal has a call.
\<close>

datatype call =
    CreateNode string string int int "int option"
  | UpdateNode int string string
  | CreateName string
  | CancelContract int
  | Tx string string "tx_arg list"
and tx_arg = A_int int | A_num rat | A_text string | A_bool bool | A_none | A_call call
  | A_list "tx_arg list" | A_record "(string \<times> tx_arg) list"

definition call_section :: "call \<Rightarrow> string" where
  "call_section c = (case c of Tx section method args \<Rightarrow> section | _ \<Rightarrow> ''smartContractModule'')"

datatype submission = Single call | Batch "call list" | BatchAll "call list"

text \<open>The data of an event: a list whose first component is a contract or a dispatch error, or plain values.\<close>

datatype event_data = ED_contract Contract | ED_failure chain_failure | ED_values "tx_arg list" | ED_other

record chain_event =
  ev_section :: string
  ev_method :: string
  ev_data :: event_data

datatype chain_result =
  R_contract Contract | R_id int | R_num rat | R_value tx_arg | R_proposal "tx_arg option list" | R_other | R_undefined

record extrinsic =
  x_call :: call
  x_resultSections :: "string list"
  x_resultEvents :: "string list"
  x_map :: "(event_data \<Rightarrow> chain_result) option"

text \<open>\<open>patchExtrinsic\<close>; most \<open>map\<close>s of the code ignore the event and return a constant.\<close>

definition patchExtrinsic :: "call \<Rightarrow> string list \<Rightarrow> (event_data \<Rightarrow> chain_result) option \<Rightarrow> extrinsic" where
  "patchExtrinsic c events m = \<lparr>x_call = c, x_resultSections = [], x_resultEvents = events, x_map = m\<rparr>"

definition createNode :: "string \<Rightarrow> string \<Rightarrow> int \<Rightarrow> int \<Rightarrow> int option \<Rightarrow> extrinsic" where
  "createNode hash data nodeId ips provider = patchExtrinsic (CreateNode hash data nodeId ips provider) [] None"

definition updateNode :: "int \<Rightarrow> string \<Rightarrow> string \<Rightarrow> extrinsic" where
  "updateNode cid hash data = patchExtrinsic (UpdateNode cid hash data) [] None"

definition createName_extrinsic :: "string \<Rightarrow> extrinsic" where
  "createName_extrinsic name = patchExtrinsic (CreateName name) [] None"

definition cancel_events :: "string list" where
  "cancel_events = [''NodeContractCanceled'', ''NameContractCanceled'', ''RentContractCanceled'', ''ContractCanceled'']"

definition cancel :: "grid_api \<Rightarrow> int \<Rightarrow> js_error + extrinsic option" where
  "cancel api cid = bindR (chain_contract api cid) (\<lambda>c. case c of
     None \<Rightarrow> Inr None
   | Some _ \<Rightarrow> Inr (Some (patchExtrinsic (CancelContract cid) cancel_events (Some (\<lambda>_. R_id cid)))))"

text \<open>\<open>getDeletionTime\<close>: milliseconds, from the block of the grace period; a block takes 6 seconds.\<close>

definition TWO_WEEKS :: int where "TWO_WEEKS = 1209600000"

definition getDeletionTime :: "grid_api \<Rightarrow> js_error + int \<Rightarrow> int \<Rightarrow> int \<Rightarrow> js_error + int option" where
  "getDeletionTime api block now cid = bindR (chain_contract api cid) (\<lambda>c. case c of
     None \<Rightarrow> Inr (Some 0)
   | Some ct \<Rightarrow> (case ct_state ct of
        CS_created \<Rightarrow> Inr (Some 0)
      | st \<Rightarrow> (case block of
          Inl e \<Rightarrow> Inl (TFChainError_msg (''Error getting current block number for contract '' @ show_int cid
                     @ '' deletion: '' @ error_to_string e))
        | Inr b \<Rightarrow> Inr (case st of CS_gracePeriod g \<Rightarrow> Some (now - (b - g) * 6000 + TWO_WEEKS) | _ \<Rightarrow> None))))"

subsection \<open>Applying\<close>

record 'c chain_env =
  c_submit :: "submission \<Rightarrow> 'c \<Rightarrow> (chain_failure + chain_event list) \<times> 'c"
  c_describe :: "submission \<Rightarrow> extrinsic_call"

text \<open>The client: the state of the chain, and whether its lock is held.\<close>

record 'c client =
  cl_chain :: 'c
  cl_locked :: bool

definition is_batch :: "submission \<Rightarrow> bool" where
  "is_batch s \<longleftrightarrow> (case s of Single _ \<Rightarrow> False | _ \<Rightarrow> True)"

definition event_result :: "(event_data \<Rightarrow> chain_result) option \<Rightarrow> event_data \<Rightarrow> chain_result" where
  "event_result m d = (case m of Some f \<Rightarrow> f d | None \<Rightarrow> (case d of ED_contract c \<Rightarrow> R_contract c
     | ED_values [] \<Rightarrow> R_undefined | ED_values (x # _) \<Rightarrow> R_value x | _ \<Rightarrow> R_other))"

text \<open>
  The callback over the events: a promise is settled once, so the first rejection or resolution
  counts; \<open>None\<close> is a promise that stays pending.
\<close>

fun scan_events ::
  "bool \<Rightarrow> string list \<Rightarrow> string list \<Rightarrow> (event_data \<Rightarrow> chain_result) option \<Rightarrow> chain_result list \<Rightarrow> chain_event list
   \<Rightarrow> (chain_failure + chain_result list) option"
where
  "scan_events batch sections methods m acc [] = None"
| "scan_events batch sections methods m acc (ev # evs) =
     (if ev_section ev = ''system'' \<and> ev_method ev = ''ExtrinsicFailed'' then Some (Inl (case ev_data ev of ED_failure f \<Rightarrow> f | _ \<Rightarrow> FailedOther))
      else if ev_section ev \<in> set sections \<and> (methods = [] \<or> ev_method ev \<in> set methods)
      then scan_events batch sections methods m (acc @ [event_result m (ev_data ev)]) evs
      else if ev_section ev = ''system'' \<and> ev_method ev = ''ExtrinsicSuccess''
      then Some (Inr (if batch then acc else case acc of [] \<Rightarrow> [R_undefined] | r # _ \<Rightarrow> [r]))
      else scan_events batch sections methods m acc evs)"

definition applyExtrinsic_locked ::
  "'c chain_env \<Rightarrow> submission \<Rightarrow> string list \<Rightarrow> string list \<Rightarrow> (event_data \<Rightarrow> chain_result) option
   \<Rightarrow> ('c client, js_error, chain_result list) eff"
where
  "applyExtrinsic_locked ce s sections methods m = (\<lambda>c.
     let (r, ch) = c_submit ce s (cl_chain c);
         sections' = (case s of Single x \<Rightarrow> sections @ [call_section x] | _ \<Rightarrow> sections);
         c' = c\<lparr>cl_chain := ch\<rparr>
     in (case r of
           Inl f \<Rightarrow> (Inl (wrapper_throw (c_describe ce s) f), c')
         | Inr evs \<Rightarrow> (case scan_events (is_batch s) sections' methods m [] evs of
             None \<Rightarrow> (Inl diverges, c')
           | Some (Inl f) \<Rightarrow> (Inl (wrapper_throw (c_describe ce s) f), c')
           | Some (Inr rs) \<Rightarrow> (Inr rs, c'))))"

definition applyExtrinsic ::
  "'c chain_env \<Rightarrow> submission \<Rightarrow> string list \<Rightarrow> string list \<Rightarrow> (event_data \<Rightarrow> chain_result) option
   \<Rightarrow> ('c client, js_error, chain_result list) eff"
where
  "applyExtrinsic ce s sections methods m = (\<lambda>c.
     let (r, c') = applyExtrinsic_locked ce s sections methods m (c\<lparr>cl_locked := True\<rparr>)
     in (r, c'\<lparr>cl_locked := False\<rparr>))"

subsection \<open>Batches\<close>

definition BATCH_SIZE :: nat where "BATCH_SIZE = 400"

text \<open>The last \<open>map\<close> of a batch is applied to the events of all its extrinsics.\<close>

definition batch_sections :: "extrinsic list \<Rightarrow> string list" where
  "batch_sections xs = concat (map (\<lambda>x. x_resultSections x @ [call_section (x_call x)]) xs)"

definition batch_events :: "extrinsic list \<Rightarrow> string list" where
  "batch_events xs = concat (map x_resultEvents xs)"

definition batch_map :: "extrinsic list \<Rightarrow> (event_data \<Rightarrow> chain_result) option" where
  "batch_map xs = foldl (\<lambda>m x. case x_map x of None \<Rightarrow> m | Some r \<Rightarrow> Some r) None xs"

function chunks :: "'x list \<Rightarrow> 'x list list" where
  "chunks [] = []"
| "xs \<noteq> [] \<Longrightarrow> chunks xs = take BATCH_SIZE xs # chunks (drop BATCH_SIZE xs)"
  by (auto intro: list.exhaust)
termination
  by (relation "measure length") (auto simp: BATCH_SIZE_def)

definition run_chunk ::
  "'c chain_env \<Rightarrow> (call list \<Rightarrow> submission) \<Rightarrow> extrinsic list \<Rightarrow> chain_result list
   \<Rightarrow> ('c client, js_error, chain_result list) eff"
where
  "run_chunk ce mk xs acc = bindE (applyExtrinsic ce (mk (map x_call xs)) (batch_sections xs) (batch_events xs) (batch_map xs))
     (\<lambda>rs. retE (acc @ rs))"

definition some_extrinsics :: "extrinsic option list \<Rightarrow> extrinsic list" where
  "some_extrinsics xs = concat (map (\<lambda>x. case x of None \<Rightarrow> [] | Some y \<Rightarrow> [y]) xs)"

definition batch :: "'c chain_env \<Rightarrow> extrinsic option list \<Rightarrow> ('c client, js_error, chain_result list) eff" where
  "batch ce xs = foldE (run_chunk ce Batch) (chunks (some_extrinsics xs)) []"

definition batchAll :: "'c chain_env \<Rightarrow> extrinsic option list \<Rightarrow> ('c client, js_error, chain_result list) eff" where
  "batchAll ce xs = foldE (run_chunk ce BatchAll) (chunks (some_extrinsics xs)) []"

definition applyAllExtrinsics :: "'c chain_env \<Rightarrow> extrinsic option list \<Rightarrow> ('c client, js_error, chain_result list) eff" where
  "applyAllExtrinsics = batchAll"

subsection \<open>Facts\<close>

lemma chunks_concat: "concat (chunks xs) = xs"
  by (induction xs rule: chunks.induct) simp_all

lemma chunks_small: "xs \<noteq> [] \<Longrightarrow> length xs \<le> BATCH_SIZE \<Longrightarrow> chunks xs = [xs]"
  by simp

lemma chunks_bound: "x \<in> set (chunks xs) \<Longrightarrow> x \<noteq> [] \<and> length x \<le> BATCH_SIZE"
  by (induction xs rule: chunks.induct) (auto simp: BATCH_SIZE_def)

lemma applyExtrinsic_unlocks: "\<not> cl_locked (snd (applyExtrinsic ce s se me m c))"
  by (simp add: applyExtrinsic_def Let_def split: prod.splits)

lemma run_chunk_unlocks: "\<not> cl_locked (snd (run_chunk ce mk xs acc c))"
  using applyExtrinsic_unlocks [of ce "mk (map x_call xs)" "batch_sections xs" "batch_events xs" "batch_map xs" c]
  by (auto simp: run_chunk_def bindE_def split: prod.splits sum.splits)

lemma foldE_unlocks: "\<not> cl_locked c \<Longrightarrow> \<not> cl_locked (snd (foldE (run_chunk ce mk) xss acc c))"
proof (induction xss arbitrary: acc c)
  case (Cons xs xss)
  obtain r d where rd: "run_chunk ce mk xs acc c = (r, d)" by (cases "run_chunk ce mk xs acc c")
  then have "\<not> cl_locked d" using run_chunk_unlocks [of ce mk xs acc c] by simp
  then show ?case by (cases r) (simp_all add: bindE_def rd Cons.IH)
qed simp

text \<open>the client's lock is free again after any batch, whether it succeeds or throws.\<close>

theorem batch_releases_lock:
  assumes "\<not> cl_locked c"
  shows "\<not> cl_locked (snd (batch ce xs c)) \<and> \<not> cl_locked (snd (batchAll ce xs c))"
  using assms by (simp add: batch_def batchAll_def foldE_unlocks)

lemma batch_map_last:
  "x_map x \<noteq> None \<Longrightarrow> batch_map (xs @ [x]) = x_map x"
  by (auto simp: batch_map_def split: option.splits)

definition is_cancel_event :: "chain_event \<Rightarrow> bool" where
  "is_cancel_event ev \<longleftrightarrow> ev_section ev = ''smartContractModule'' \<and> ev_method ev \<in> set cancel_events"

definition success_event :: "chain_event \<Rightarrow> bool" where
  "success_event ev \<longleftrightarrow> ev_section ev = ''system'' \<and> ev_method ev = ''ExtrinsicSuccess''"

lemma scan_cancel_events:
  assumes "\<forall>ev \<in> set evs. is_cancel_event ev" and "success_event done'"
    and "''smartContractModule'' \<in> set secs" "''system'' \<notin> set secs" and "set cancel_events \<subseteq> set mths"
  shows "scan_events True secs mths (Some (\<lambda>_. r)) acc (evs @ [done'])
           = Some (Inr (acc @ replicate (length evs) r))"
  using assms(1)
proof (induction evs arbitrary: acc)
  case Nil
  with assms show ?case by (simp add: success_event_def)
next
  case (Cons ev evs)
  then have "is_cancel_event ev" by simp
  with assms(3,5) Cons show ?case
    by (auto simp: is_cancel_event_def event_result_def)
qed

definition cancel_extrinsic :: "int \<Rightarrow> extrinsic" where
  "cancel_extrinsic cid = patchExtrinsic (CancelContract cid) cancel_events (Some (\<lambda>_. R_id cid))"

lemma cancel_Inr: "cancel api cid = Inr (Some x) \<Longrightarrow> x = cancel_extrinsic cid"
  by (auto simp: cancel_def bindR_Inr cancel_extrinsic_def split: option.splits)

lemma some_extrinsics_map: "some_extrinsics (map Some xs) = xs"
  by (induction xs) (simp_all add: some_extrinsics_def)

text \<open>
  cancelling several contracts in one batch reports the id of the last one for all of them,
  because the batch keeps only the last \<open>map\<close>.
\<close>

theorem batch_cancel_repeats_last_id:
  assumes "length ids < BATCH_SIZE"
    and "c_submit ce (BatchAll (map CancelContract (ids @ [i]))) (cl_chain c) = (Inr (evs @ [done']), ch)"
    and "\<forall>ev \<in> set evs. is_cancel_event ev" and "length evs = length ids + 1" and "success_event done'"
  shows "fst (batchAll ce (map (\<lambda>i. Some (cancel_extrinsic i)) (ids @ [i])) c) = Inr (replicate (length ids + 1) (R_id i))"
proof -
  let ?xs = "map cancel_extrinsic (ids @ [i])"
  have calls: "map x_call ?xs = map CancelContract (ids @ [i])"
    by (simp add: cancel_extrinsic_def patchExtrinsic_def)
  have m: "batch_map ?xs = Some (\<lambda>_. R_id i)"
    using batch_map_last [of "cancel_extrinsic i" "map cancel_extrinsic ids"]
    by (simp add: cancel_extrinsic_def patchExtrinsic_def)
  have ev: "set cancel_events \<subseteq> set (batch_events ?xs)"
    by (simp add: batch_events_def cancel_extrinsic_def patchExtrinsic_def)
  have se: "''smartContractModule'' \<in> set (batch_sections ?xs)" "''system'' \<notin> set (batch_sections ?xs)"
    by (auto simp: batch_sections_def cancel_extrinsic_def patchExtrinsic_def call_section_def)
  have "chunks ?xs = [?xs]" using assms(1) by (intro chunks_small) simp_all
  moreover have "some_extrinsics (map (\<lambda>i. Some (cancel_extrinsic i)) (ids @ [i])) = ?xs"
    using some_extrinsics_map [of ?xs] by (simp add: o_def)
  moreover have "fst (applyExtrinsic ce (BatchAll (map x_call ?xs)) (batch_sections ?xs) (batch_events ?xs) (batch_map ?xs) c)
      = Inr (replicate (length ids + 1) (R_id i))"
    unfolding calls m
    using assms(2,4) scan_cancel_events [OF assms(3,5) se ev, of "R_id i" "[]"]
    by (simp add: applyExtrinsic_def applyExtrinsic_locked_def is_batch_def Let_def)
  ultimately show ?thesis
    by (auto simp: batchAll_def run_chunk_def bindE_def split: prod.splits sum.splits)
qed

text \<open>
  at most 400 extrinsics reach the chain as one submission, so \<open>batchAll\<close> is all or nothing for
  them: what the chain does with that submission is what the call does.
\<close>

theorem batch_all_single_submission:
  assumes "some_extrinsics xs \<noteq> []" and "length (some_extrinsics xs) \<le> BATCH_SIZE"
  shows "cl_chain (snd (batchAll ce xs c))
     = snd (c_submit ce (BatchAll (map x_call (some_extrinsics xs))) (cl_chain c))
   \<and> (\<forall>f. fst (c_submit ce (BatchAll (map x_call (some_extrinsics xs))) (cl_chain c)) = Inl f
        \<longrightarrow> fst (batchAll ce xs c) = Inl (wrapper_throw (c_describe ce (BatchAll (map x_call (some_extrinsics xs)))) f))"
  using assms
  by (auto simp: batchAll_def chunks_small run_chunk_def bindE_def applyExtrinsic_def applyExtrinsic_locked_def
      Let_def split: prod.splits sum.splits option.splits)

text \<open>
  a client without any secret and without external signer passes \<open>checkInputs\<close>; the check
  meant to refuse it cannot be reached.
\<close>

theorem check_inputs_accepts_no_signer:
  assumes "co_url c \<noteq> []" and "co_keypairType c \<in> set SUPPORTED_KEYPAIR_TYPES"
    and "co_mnemonicOrSecret c = None" and "\<not> co_extSigner c"
  shows "checkInputs valid_mnemonic c = Inr ()"
  using assms by (simp add: checkInputs_def Let_def)

text \<open>
  a secret in hexadecimal passes \<open>checkInputs\<close> exactly when it is \<open>0x\<close> and 64 hexadecimal
  digits (a mnemonic never starts with \<open>0x\<close>).
\<close>

theorem check_inputs_hex_secret:
  assumes "co_url c \<noteq> []" and "co_keypairType c \<in> set SUPPORTED_KEYPAIR_TYPES"
    and "co_mnemonicOrSecret c = Some (''0x'' @ s)" and "\<not> valid_mnemonic (''0x'' @ s)"
  shows "checkInputs valid_mnemonic c = Inr () \<longleftrightarrow> length s = 64 \<and> list_all is_hex_digit s"
  using assms by (auto simp: checkInputs_def Let_def isValidSeed_def)

subsection \<open>Examples\<close>

text \<open>A chain that counts submissions and answers every cancellation with its event.\<close>

definition cancelled_event :: chain_event where
  "cancelled_event = \<lparr>ev_section = ''smartContractModule'', ev_method = ''NodeContractCanceled'', ev_data = ED_other\<rparr>"

definition ok_event :: chain_event where
  "ok_event = \<lparr>ev_section = ''system'', ev_method = ''ExtrinsicSuccess'', ev_data = ED_other\<rparr>"

definition demo_chain :: "nat chain_env" where
  "demo_chain = \<lparr>c_submit = (\<lambda>s n. (Inr (case s of BatchAll cs \<Rightarrow> map (\<lambda>_. cancelled_event) cs @ [ok_event]
       | _ \<Rightarrow> [ok_event]), Suc n)),
     c_describe = (\<lambda>_. \<lparr>x_section = ''utility'', x_method = ''batchAll'', x_args = []\<rparr>)\<rparr>"

definition demo_client :: "nat client" where
  "demo_client = \<lparr>cl_chain = 0, cl_locked = False\<rparr>"

theorem batch_releases_lock_witness:
  "\<not> cl_locked (snd (batchAll demo_chain [Some (cancel_extrinsic 4)] demo_client))"
  using batch_releases_lock [of demo_client demo_chain "[Some (cancel_extrinsic 4)]"]
  by (simp add: demo_client_def)

theorem batch_cancel_repeats_last_id_witness:
  "fst (batchAll demo_chain [Some (cancel_extrinsic 4), Some (cancel_extrinsic 9)] demo_client) = Inr [R_id 9, R_id 9]"
  using batch_cancel_repeats_last_id [of "[4]" demo_chain 9 demo_client "[cancelled_event, cancelled_event]" ok_event 1]
  by (simp add: BATCH_SIZE_def demo_chain_def demo_client_def is_cancel_event_def cancelled_event_def
      cancel_events_def success_event_def ok_event_def)

theorem batch_all_single_submission_witness:
  "cl_chain (snd (batchAll demo_chain [Some (cancel_extrinsic 4), None] demo_client)) = 1"
  using batch_all_single_submission [of "[Some (cancel_extrinsic 4), None]" demo_chain demo_client]
  by (simp add: some_extrinsics_def BATCH_SIZE_def demo_chain_def demo_client_def)

definition demo_options :: "string option \<Rightarrow> client_options" where
  "demo_options secret = \<lparr>co_url = ''wss:'', co_keypairType = ''sr25519'', co_mnemonicOrSecret = secret, co_extSigner = False\<rparr>"

theorem check_inputs_accepts_no_signer_witness:
  "checkInputs (\<lambda>_. False) (demo_options None) = Inr ()"
  by (rule check_inputs_accepts_no_signer) (simp_all add: demo_options_def SUPPORTED_KEYPAIR_TYPES_def)

theorem check_inputs_hex_secret_witness:
  "checkInputs (\<lambda>_. False) (demo_options (Some (''0x'' @ ''zz''))) \<noteq> Inr ()"
  using check_inputs_hex_secret [of "demo_options (Some (''0x'' @ ''zz''))" "''zz''" "\<lambda>_. False"]
  by (simp add: demo_options_def SUPPORTED_KEYPAIR_TYPES_def)

end
