(* ===== verification/TwinHandler.thy ===== *)
theory TwinHandler
  imports Chain LightNetwork
begin

text \<open>
  \<open>grid_client/src/high_level/twinDeploymentHandler.ts\<close> with \<open>models.ts\<close>: the handler that merges
  the requested deployments, validates them, creates and updates the contracts on the chain, sends
  the deployments to the nodes, waits for them, and rolls back on an error.  Its state is \<open>hworld\<close>:
  the client of the chain (the world outside is the chain's state), the original deployments kept
  for a rollback, and the static contract lists of \<open>Network\<close>.  What \<open>Promise.all\<close> runs
  interleaved is run in sequence.
\<close>

subsection \<open>Data\<close>

datatype Operations = Op_deploy | Op_update | Op_delete

fun operation_name :: "Operations \<Rightarrow> string" where
  "operation_name Op_deploy = ''deploy''"
| "operation_name Op_update = ''update''"
| "operation_name Op_delete = ''delete''"

datatype any_network = FullNet Network | LightNet ZNetworkLight

record TwinDeployment =
  td_deployment :: Deployment
  td_operation :: Operations
  td_publicIps :: int
  td_nodeId :: int
  td_metadata :: string
  td_network :: "any_network option"
  td_solutionProviderId :: "int option"
  td_returnNetworkContracts :: bool

text \<open>The sets of contracts the handler collects and the ones it returns.\<close>

record handler_contracts =
  hc_created :: "chain_result list"
  hc_updated :: "Contract list"

record DeploymentResultContracts =
  rc_created :: "Contract list"
  rc_updated :: "Contract list"
  rc_deleted :: "int list"

record 'c hworld =
  hw_client :: "'c client"
  hw_original :: "Deployment list"
  hw_newContracts :: "GqlNodeContract list"
  hw_deletedContracts :: "int list"

record ('a, 'c) handler_env =
  h_chain :: "'c chain_env"
  h_grid :: "'c \<Rightarrow> grid_api"
  h_kyc_status :: "'c \<Rightarrow> js_error + string"
  h_contract_by_name :: "string \<Rightarrow> 'c \<Rightarrow> js_error + int"
  h_farm :: "int \<Rightarrow> 'c \<Rightarrow> js_error + FarmInfo"
  h_request :: "int \<Rightarrow> string \<Rightarrow> Deployment \<Rightarrow> 'c \<Rightarrow> (js_error + unit) \<times> 'c"
  h_get_deployment :: "int \<Rightarrow> int \<Rightarrow> 'c \<Rightarrow> (js_error + Deployment) \<times> 'c"
  h_now :: "'c \<Rightarrow> int"
  h_sleep :: "'c \<Rightarrow> 'c"
  h_timeout :: int
  h_wait_fuel :: nat
  h_md5 :: "string \<Rightarrow> string"
  h_ring :: keyring
  h_twinId :: int
  h_mnemonic :: string
  h_keypairType :: KeypairType
  h_valid :: recognisers
  h_net :: "'a net_env"

type_synonym ('c, 'r) handler_eff = "('c hworld, js_error, 'r) eff"

definition on_client :: "('c client, js_error, 'r) eff \<Rightarrow> ('c, 'r) handler_eff" where
  "on_client m = (\<lambda>w. let (r, c) = m (hw_client w) in (r, w\<lparr>hw_client := c\<rparr>))"

definition ask :: "('c \<Rightarrow> js_error + 'r) \<Rightarrow> ('c, 'r) handler_eff" where
  "ask f = (\<lambda>w. (f (cl_chain (hw_client w)), w))"

definition act :: "('c \<Rightarrow> (js_error + 'r) \<times> 'c) \<Rightarrow> ('c, 'r) handler_eff" where
  "act f = (\<lambda>w. let (r, c) = f (cl_chain (hw_client w))
                 in (r, w\<lparr>hw_client := (hw_client w)\<lparr>cl_chain := c\<rparr>\<rparr>))"

definition challenge_of :: "('a, 'c) handler_env \<Rightarrow> Deployment \<Rightarrow> string" where
  "challenge_of h d = challenge_hash (h_md5 h) d"

subsection \<open>Name contracts\<close>

definition kyc_verified :: "('a, 'c) handler_env \<Rightarrow> string \<Rightarrow> ('c, unit) handler_eff" where
  "kyc_verified h msg = bindE (ask (h_kyc_status h)) (\<lambda>st.
     if st \<noteq> ''VERIFIED'' then throwE (ValidationError msg) else retE ())"

definition createNameContract :: "('a, 'c) handler_env \<Rightarrow> string \<Rightarrow> ('c, extrinsic option) handler_eff" where
  "createNameContract h name = bindE (ask (h_contract_by_name h name)) (\<lambda>i.
     bindE (if i = 0 then retE ()
            else bindE (ask (\<lambda>c. chain_contract (h_grid h c) i)) (\<lambda>ct. case ct of
               None \<Rightarrow> retE ()
             | Some c \<Rightarrow> if ct_twinId c \<noteq> h_twinId h
                 then throwE (ValidationError (''Name contract with name '' @ name @ '' is already reserved.''))
                 else retE ())) (\<lambda>_.
       catchE (bindE (kyc_verified h ''Your account is not verified. Please sign into ThreeFold Dashboard or ThreeFold Connect mobile app to complete your KYC verification.'')
                (\<lambda>_. retE (Some (createName_extrinsic name))))
         (\<lambda>e. throwE (TFChainError_msg (''Failed to create name contract '' @ name @ '' due to '' @ error_to_string e @ ''.'')))))"

definition deleteNameContract :: "('a, 'c) handler_env \<Rightarrow> string \<Rightarrow> ('c, extrinsic option) handler_eff" where
  "deleteNameContract h name = bindE (ask (h_contract_by_name h name)) (\<lambda>i.
     if i = 0 then retE None else ask (\<lambda>c. cancel (h_grid h c) i))"

subsection \<open>Nodes\<close>

definition sign_deployment :: "('a, 'c) handler_env \<Rightarrow> Deployment \<Rightarrow> js_error + Deployment" where
  "sign_deployment h d = sign (h_md5 h) (h_ring h) (h_twinId h) (h_mnemonic h) (h_keypairType h) [] d"

definition sendToNode :: "('a, 'c) handler_env \<Rightarrow> TwinDeployment \<Rightarrow> ('c, TwinDeployment) handler_eff" where
  "sendToNode h td = catchE
     (bindE (liftE (sign_deployment h (td_deployment td))) (\<lambda>d.
        bindE (ask (\<lambda>c. getNodeTwinId (h_grid h c) (td_nodeId td))) (\<lambda>twin.
          bindE (act (h_request h twin (''zos.deployment.'' @ operation_name (td_operation td)) d)) (\<lambda>_.
            retE (td\<lparr>td_deployment := d\<rparr>)))))
     (\<lambda>e. throwE (with_prefix (''Failed to '' @ operation_name (td_operation td) @ '' the deployment on node ''
              @ show_int (td_nodeId td) @ ''.'') e))"

definition getDeployment :: "('a, 'c) handler_env \<Rightarrow> int \<Rightarrow> ('c, Deployment) handler_eff" where
  "getDeployment h contract_id = bindE (ask (\<lambda>c. getNodeIdFromContractId (h_grid h c) contract_id)) (\<lambda>node_id.
     bindE (ask (\<lambda>c. getNodeTwinId (h_grid h c) node_id)) (\<lambda>twin. act (h_get_deployment h twin contract_id)))"

definition getDeploymentFromFactory :: "('a, 'c) handler_env \<Rightarrow> int \<Rightarrow> ('c, Deployment) handler_eff" where
  "getDeploymentFromFactory h contract_id = bindE (getDeployment h contract_id) (\<lambda>d. liftE (fromObj (h_valid h) d))"

subsection \<open>Waiting\<close>

definition checkWorkload :: "Workload \<Rightarrow> Workload \<Rightarrow> int \<Rightarrow> js_error + bool" where
  "checkWorkload w target nodeId = (case wl_result w of
     None \<Rightarrow> Inl TypeError
   | Some r \<Rightarrow>
       if res_state r = RS_error
       then Inl (TFGridWorkloadError W_Deploy (''Failed to deploy '' @ type_name (wl_type w) @ '' with name '' @ wl_name w
              @ '' on node '' @ show_int nodeId @ '' due to: '' @ res_message r @ ''.''))
       else Inr (wl_version w = wl_version target \<and> res_state r = RS_ok))"

fun count_ready :: "int \<Rightarrow> Workload list \<Rightarrow> Workload list \<Rightarrow> js_error + nat" where
  "count_ready nodeId targets [] = Inr 0"
| "count_ready nodeId targets (w # ws) =
     bindR (case find (\<lambda>t. wl_name t = wl_name w) targets of
              None \<Rightarrow> Inr False | Some t \<Rightarrow> checkWorkload w t nodeId) (\<lambda>ok.
       bindR (count_ready nodeId targets ws) (\<lambda>n. Inr (if ok then Suc n else n)))"

definition ready :: "int \<Rightarrow> Deployment \<Rightarrow> Deployment \<Rightarrow> js_error + bool" where
  "ready node_id d target =
     (if length (dp_workloads d) \<noteq> length (dp_workloads target) then Inr False
      else bindR (count_ready node_id (dp_workloads target) (dp_workloads d))
             (\<lambda>n. Inr (n = length (dp_workloads target))))"

text \<open>The fuel bounds the rounds of the loop; running out of it is \<open>diverges\<close>.\<close>

fun wait_loop :: "('a, 'c) handler_env \<Rightarrow> nat \<Rightarrow> int \<Rightarrow> int \<Rightarrow> int \<Rightarrow> Deployment \<Rightarrow> ('c, bool) handler_eff" where
  "wait_loop h 0 deadline contract_id node_id target = throwE diverges"
| "wait_loop h (Suc fuel) deadline contract_id node_id target =
     bindE (ask (\<lambda>c. Inr (h_now h c))) (\<lambda>now.
       if \<not> now < deadline then retE False
       else bindE (getDeployment h contract_id) (\<lambda>d.
         bindE (liftE (ready node_id d target)) (\<lambda>ok.
           if ok then retE True
           else bindE (act (\<lambda>c. (Inr (), h_sleep h c))) (\<lambda>_.
             wait_loop h fuel deadline contract_id node_id target))))"

definition waitForDeployment :: "('a, 'c) handler_env \<Rightarrow> TwinDeployment \<Rightarrow> int \<Rightarrow> ('c, unit) handler_eff" where
  "waitForDeployment h td timeout =
     (let contract_id = contract_arg (dp_contract_id (td_deployment td)) in
      bindE (ask (\<lambda>c. getNodeIdFromContractId (h_grid h c) contract_id)) (\<lambda>node_id.
        bindE (ask (\<lambda>c. Inr (h_now h c))) (\<lambda>now.
          bindE (wait_loop h (h_wait_fuel h) (now + timeout * 1000 * 60) contract_id node_id (td_deployment td)) (\<lambda>ok.
            if ok then retE ()
            else throwE (TimeoutError (''Deployment with contract_id: '' @ show_int contract_id
                   @ '' failed to be ready after '' @ show_int timeout @ '' minutes.''))))))"

definition waitForDeployments :: "('a, 'c) handler_env \<Rightarrow> TwinDeployment list \<Rightarrow> ('c, unit) handler_eff" where
  "waitForDeployments h tds = iterE (\<lambda>td.
     if td_operation td = Op_deploy \<or> td_operation td = Op_update
     then waitForDeployment h td (h_timeout h) else retE ()) tds"

subsection \<open>Saving networks\<close>

text \<open>\<open>network.save\<close> on the object of the deployment, with the class's static lists.\<close>

definition save_network ::
  "('a, 'c) handler_env \<Rightarrow> Network \<Rightarrow> Contract option \<Rightarrow> int option \<Rightarrow> ('c, unit) handler_eff"
where
  "save_network h net added deleted = (\<lambda>w.
     let (r, n) = save (h_net h) added deleted
                    (net\<lparr>n_newContracts := hw_newContracts w, n_deletedContracts := hw_deletedContracts w\<rparr>)
     in (r, w\<lparr>hw_newContracts := n_newContracts n, hw_deletedContracts := n_deletedContracts n\<rparr>))"

definition created_contract :: "int option \<Rightarrow> chain_result list \<Rightarrow> Contract option" where
  "created_contract cid rs = (case concat (map (\<lambda>r. case r of R_contract c \<Rightarrow> if Some (ct_contractId c) = cid then [c] else [] | _ \<Rightarrow> []) rs)
     of [] \<Rightarrow> None | c # _ \<Rightarrow> Some c)"

text \<open>
  The first deployment without a network ends the loop.  After a deployment the save is started but
  not waited for, so its failure does not reach the handler.
\<close>

fun saveNetworks :: "('a, 'c) handler_env \<Rightarrow> TwinDeployment list \<Rightarrow> handler_contracts \<Rightarrow> ('c, unit) handler_eff" where
  "saveNetworks h [] hc = retE ()"
| "saveNetworks h (td # tds) hc = (case td_network td of
     None \<Rightarrow> retE ()
   | Some net \<Rightarrow>
       bindE (case net of
           LightNet _ \<Rightarrow> retE ()
         | FullNet n \<Rightarrow>
             (case td_operation td of
                Op_deploy \<Rightarrow> iterE (\<lambda>w. if wl_type w \<noteq> WT_network then retE ()
                    else catchE (save_network h n (created_contract (dp_contract_id (td_deployment td)) (hc_created hc)) None)
                           (\<lambda>_. retE ()))
                  (dp_workloads (td_deployment td))
              | Op_delete \<Rightarrow> save_network h n None (dp_contract_id (td_deployment td))
              | Op_update \<Rightarrow> retE ()))
         (\<lambda>_. saveNetworks h tds hc))"

subsection \<open>Merging\<close>

definition is_network_type :: "WorkloadTypes \<Rightarrow> bool" where
  "is_network_type t \<longleftrightarrow> t = WT_network \<or> t = WT_networklight"

definition stands_alone :: "TwinDeployment \<Rightarrow> bool" where
  "stands_alone td \<longleftrightarrow> list_ex (\<lambda>w. is_network_type (wl_type w)) (dp_workloads (td_deployment td)) \<or> 0 < td_publicIps td"

definition add_workloads :: "Workload list \<Rightarrow> TwinDeployment \<Rightarrow> TwinDeployment" where
  "add_workloads ws td = td\<lparr>td_deployment := (td_deployment td)\<lparr>dp_workloads := dp_workloads (td_deployment td) @ ws\<rparr>\<rparr>"

definition merge_into :: "TwinDeployment \<Rightarrow> TwinDeployment js_object \<Rightarrow> TwinDeployment js_object" where
  "merge_into td ob = (let k = show_int (td_nodeId td) in case map_of ob k of
     Some first \<Rightarrow> obj_set k (add_workloads (dp_workloads (td_deployment td)) first) ob
   | None \<Rightarrow> obj_set k td ob)"

definition obj_values :: "'v js_object \<Rightarrow> 'v list" where
  "obj_values ob = map (\<lambda>k. the (map_of ob k)) (obj_keys ob)"

definition deployMerge :: "TwinDeployment list \<Rightarrow> TwinDeployment list" where
  "deployMerge tds =
     (let ds = filter (\<lambda>td. td_operation td = Op_deploy) tds
      in filter stands_alone ds @ obj_values (fold merge_into (filter (\<lambda>td. \<not> stands_alone td) ds) []))"

definition push_to :: "string \<Rightarrow> 'v \<Rightarrow> 'v list js_object \<Rightarrow> 'v list js_object" where
  "push_to k v ob = obj_set k (case map_of ob k of Some vs \<Rightarrow> vs @ [v] | None \<Rightarrow> [v]) ob"

text \<open>The latest of the workloads of one name: the first of the greatest version.\<close>

definition latest :: "Workload list \<Rightarrow> Workload" where
  "latest ws = foldl (\<lambda>w x. if wl_version w < wl_version x then x else w) (hd ws) ws"

definition first_network :: "TwinDeployment list \<Rightarrow> any_network option" where
  "first_network tds = (case concat (map (\<lambda>td. opt_list (td_network td)) tds) of [] \<Rightarrow> None | n # _ \<Rightarrow> Some n)"

definition updateToLatest :: "TwinDeployment list \<Rightarrow> TwinDeployment option" where
  "updateToLatest tds = (case tds of
     [] \<Rightarrow> None
   | [d] \<Rightarrow> Some (d\<lparr>td_deployment := (td_deployment d)\<lparr>dp_version := dp_version (td_deployment d) + 1\<rparr>\<rparr>)
   | d # _ \<Rightarrow>
       let ob = fold (\<lambda>w. push_to (wl_name w) w) (concat (map (\<lambda>td. dp_workloads (td_deployment td)) tds)) [];
           kept = filter (\<lambda>ws. \<not> (length ws < length tds \<and> wl_version (hd ws) \<le> dp_version (td_deployment d)))
                    (obj_values ob)
       in Some (d\<lparr>td_deployment := (td_deployment d)\<lparr>dp_workloads := map latest kept,
                      dp_version := dp_version (td_deployment d) + 1\<rparr>,
                  td_publicIps := sum_list (map td_publicIps tds),
                  td_network := first_network tds\<rparr>))"

text \<open>\<open>String(contract_id)\<close> as a key.\<close>

definition contract_key :: "int option \<Rightarrow> string" where
  "contract_key c = (case c of None \<Rightarrow> ''undefined'' | Some i \<Rightarrow> show_int i)"

definition node_of_contract :: "Contract option \<Rightarrow> js_error + int" where
  "node_of_contract c = (case c of None \<Rightarrow> Inl TypeError | Some ct \<Rightarrow>
     (case ct_type ct of CT_node n \<Rightarrow> Inr (nc_nodeId n) | _ \<Rightarrow> Inl TypeError))"

definition set_first_node :: "string \<Rightarrow> int \<Rightarrow> TwinDeployment list js_object \<Rightarrow> TwinDeployment list js_object" where
  "set_first_node k node_id ob = (case map_of ob k of
     Some (d # ds) \<Rightarrow> obj_set k (d\<lparr>td_nodeId := node_id\<rparr> # ds) ob | _ \<Rightarrow> ob)"

definition group_update ::
  "('a, 'c) handler_env \<Rightarrow> TwinDeployment \<Rightarrow> TwinDeployment list js_object
   \<Rightarrow> ('c, TwinDeployment list js_object) handler_eff"
where
  "group_update h td ob =
     (let cid = dp_contract_id (td_deployment td); k = contract_key cid; ob' = push_to k td ob in
      if \<not> nonzero cid then retE ob'
      else bindE (ask (\<lambda>c. bindR (chain_contract (h_grid h c) (contract_arg cid)) node_of_contract)) (\<lambda>node_id.
        retE (set_first_node k node_id ob')))"

definition updateMerge :: "('a, 'c) handler_env \<Rightarrow> TwinDeployment list \<Rightarrow> ('c, TwinDeployment list) handler_eff" where
  "updateMerge h tds = bindE (foldE (group_update h) (filter (\<lambda>td. td_operation td = Op_update) tds) []) (\<lambda>ob.
     retE (concat (map (\<lambda>ds. opt_list (updateToLatest ds)) (obj_values ob))))"

fun mergeDelete_from :: "int option list \<Rightarrow> TwinDeployment list \<Rightarrow> TwinDeployment list" where
  "mergeDelete_from seen [] = []"
| "mergeDelete_from seen (td # tds) =
     (let c = dp_contract_id (td_deployment td) in
      if c \<in> set seen then mergeDelete_from seen tds else td # mergeDelete_from (seen @ [c]) tds)"

definition mergeDelete :: "TwinDeployment list \<Rightarrow> TwinDeployment list" where
  "mergeDelete tds = mergeDelete_from [] tds"

definition merge_all :: "('a, 'c) handler_env \<Rightarrow> TwinDeployment list \<Rightarrow> ('c, TwinDeployment list) handler_eff" where
  "merge_all h tds =
     (let deleted = filter (\<lambda>td. td_operation td = Op_delete) tds;
          gone = map (\<lambda>td. dp_contract_id (td_deployment td)) deleted
      in bindE (updateMerge h tds) (\<lambda>updated.
           retE (deployMerge tds @ filter (\<lambda>td. dp_contract_id (td_deployment td) \<notin> set gone) updated
                 @ mergeDelete deleted)))"

subsection \<open>Checks\<close>

definition farm_ip_demand :: "('a, 'c) handler_env \<Rightarrow> TwinDeployment \<Rightarrow> (int \<times> int) list \<Rightarrow> ('c, (int \<times> int) list) handler_eff" where
  "farm_ip_demand h td farmIPs =
     (if td_operation td \<noteq> Op_deploy \<or> td_publicIps td = 0 then retE farmIPs
      else bindE (ask (\<lambda>c. getNode (h_grid h c) (td_nodeId td))) (\<lambda>node. retE (case node of
          None \<Rightarrow> farmIPs
        | Some n \<Rightarrow> obj_set (ni_farmId n) ((case map_of farmIPs (ni_farmId n) of Some k \<Rightarrow> k | None \<Rightarrow> 0) + td_publicIps td) farmIPs)))"

definition free_ips :: "FarmInfo \<Rightarrow> int" where
  "free_ips f = int (length (filter (\<lambda>ip. pi_contract_id ip = 0) (fi_publicIps f)))"

definition check_farm :: "('a, 'c) handler_env \<Rightarrow> int \<times> int \<Rightarrow> ('c, unit) handler_eff" where
  "check_farm h p = bindE (ask (h_farm h (fst p))) (\<lambda>farm.
     if free_ips farm < snd p
     then throwE (TFGridFarmsError F_InvalidResources (''Farm '' @ show_int (fst p)
            @ '' doesn'' @ apos # ''t have enough public IPs: requested IPs='' @ show_int (snd p)
            @ '', available IPs='' @ show_int (free_ips farm) @ ''.''))
     else retE ())"

definition checkFarmIps :: "('a, 'c) handler_env \<Rightarrow> TwinDeployment list \<Rightarrow> ('c, unit) handler_eff" where
  "checkFarmIps h tds = bindE (foldE (farm_ip_demand h) tds []) (iterE (check_farm h))"

definition new_workloads :: "TwinDeployment \<Rightarrow> Workload list" where
  "new_workloads td = (case td_operation td of
     Op_deploy \<Rightarrow> dp_workloads (td_deployment td)
   | Op_update \<Rightarrow> filter (\<lambda>w. wl_version w = dp_version (td_deployment td)) (dp_workloads (td_deployment td))
   | Op_delete \<Rightarrow> [])"

fun rootfs_size :: "Workload \<Rightarrow> rat list" where
  "rootfs_size w = (case wl_data w of D_zmachine z \<Rightarrow> if wl_type w = WT_zmachine then [vm_size z] else [] | _ \<Rightarrow> [])"

fun ssd_size :: "Workload \<Rightarrow> rat list" where
  "ssd_size w = (case wl_data w of D_zmount z \<Rightarrow> if wl_type w = WT_zmount then [zm_size z] else []
     | D_volume v \<Rightarrow> if wl_type w = WT_volume then [vol_size v] else [] | _ \<Rightarrow> [])"

fun hdd_size :: "Workload \<Rightarrow> rat list" where
  "hdd_size w = (case wl_data w of D_zdb z \<Rightarrow> if wl_type w = WT_zdb then [zdb_size z] else [] | _ \<Rightarrow> [])"

fun memory_size :: "Workload \<Rightarrow> int list" where
  "memory_size w = (case wl_data w of D_zmachine z \<Rightarrow>
     if wl_type w = WT_zmachine then [cc_memory (vm_compute_capacity z)] else [] | _ \<Rightarrow> [])"

definition sizes :: "(Workload \<Rightarrow> 'x list) \<Rightarrow> Workload list \<Rightarrow> 'x list" where
  "sizes f ws = concat (map f ws)"

definition capacity_demand :: "Workload list \<Rightarrow> FilterOptions" where
  "capacity_demand ws = empty_filter
     \<lparr>fo_hru := Some (sum_list (sizes hdd_size ws) / 1024 ^ 3),
      fo_sru := Some ((sum_list (sizes rootfs_size ws) + sum_list (sizes ssd_size ws)) / 1024 ^ 3),
      fo_mru := Some (of_int (sum_list (sizes memory_size ws)) / 1024 ^ 3)\<rparr>"

definition checkNodeCapacity :: "('a, 'c) handler_env \<Rightarrow> int \<Rightarrow> TwinDeployment list \<Rightarrow> ('c, unit) handler_eff" where
  "checkNodeCapacity h nodeId tds =
     (let ws = concat (map new_workloads tds);
          root_disks = sizes rootfs_size ws; ssd = sizes ssd_size ws; hdd = sizes hdd_size ws
      in if ws = [] then retE ()
         else bindE (ask (\<lambda>c. nodeHasResources (h_grid h c) nodeId (capacity_demand ws))) (\<lambda>ok.
           if \<not> ok
           then throwE (TFGridNodesError N_InvalidResources (''Node '' @ show_int nodeId @ '' doesn'' @ apos
                  # ''t have enough resources: sru='' @ show_number (sum_list root_disks + sum_list ssd) @ '', mru=''
                  @ show_int (sum_list (sizes memory_size ws)) @ '' .''))
           else if root_disks = [] \<and> ssd = [] \<and> hdd = [] then retE ()
           else bindE (ask (\<lambda>c. verifyNodeStoragePoolCapacity (h_grid h c) ssd hdd root_disks nodeId)) (\<lambda>_. retE ())))"

definition checkNodesCapacity :: "('a, 'c) handler_env \<Rightarrow> TwinDeployment list \<Rightarrow> ('c, unit) handler_eff" where
  "checkNodesCapacity h tds =
     (let ob = fold (\<lambda>td. push_to (show_int (td_nodeId td)) td) tds []
      in iterE (\<lambda>ds. checkNodeCapacity h (td_nodeId (hd ds)) ds) (obj_values ob))"

definition validate_deployments :: "('a, 'c) handler_env \<Rightarrow> TwinDeployment list \<Rightarrow> ('c, unit) handler_eff" where
  "validate_deployments h tds = iterE (\<lambda>td. liftE (validateObject (valid_Deployment (h_valid h)) (td_deployment td))) tds"

subsection \<open>Rolling back\<close>

definition result_contract_id :: "chain_result \<Rightarrow> int option" where
  "result_contract_id r = (case r of R_contract c \<Rightarrow> Some (ct_contractId c) | _ \<Rightarrow> None)"

text \<open>The state of a contract is an object, so it never equals \<open>"Deleted"\<close> and every contract is cancelled.\<close>

definition cancel_created :: "('a, 'c) handler_env \<Rightarrow> chain_result list \<Rightarrow> ('c, extrinsic option list) handler_eff" where
  "cancel_created h rs = mapE (\<lambda>r. ask (\<lambda>c. cancel (h_grid h c) (contract_arg (result_contract_id r)))) rs"

text \<open>\<open>original_deployments.pop()\<close>\<close>

definition pop_original :: "('c, Deployment option) handler_eff" where
  "pop_original = (\<lambda>w. if hw_original w = [] then (Inr None, w)
     else (Inr (Some (last (hw_original w))), w\<lparr>hw_original := butlast (hw_original w)\<rparr>))"

definition no_network :: "unit del_ip" where
  "no_network _ _ n = n"

definition old_data :: "Contract option \<Rightarrow> js_error + NodeContract" where
  "old_data c = (case c of None \<Rightarrow> Inl TypeError | Some ct \<Rightarrow>
     (case ct_type ct of CT_node n \<Rightarrow> Inr n | _ \<Rightarrow> Inl TypeError))"

text \<open>
  Of an updated contract: the extrinsic and the deployment that take it back, if the original
  differs.  The signature is not waited for; a failing one changes nothing.
\<close>

definition restore_update ::
  "('a, 'c) handler_env \<Rightarrow> Contract \<Rightarrow> ('c, (extrinsic \<times> TwinDeployment) option) handler_eff"
where
  "restore_update h c = bindE (getDeploymentFromFactory h (ct_contractId c)) (\<lambda>updated.
     bindE pop_original (\<lambda>original. case original of
       None \<Rightarrow> retE None
     | Some orig \<Rightarrow>
         bindE (ask (\<lambda>ch. bindR (UpdateDeployment (h_grid h ch) no_network updated orig None) (\<lambda>p. Inr (fst p)))) (\<lambda>res.
           case res of None \<Rightarrow> retE None
           | Some d \<Rightarrow>
               let d1 = d\<lparr>dp_version := dp_version d + 1\<rparr>;
                   d2 = (case sign_deployment h d1 of Inr x \<Rightarrow> x | Inl _ \<Rightarrow> d1);
                   cid = contract_arg (dp_contract_id d2)
               in bindE (ask (\<lambda>ch. bindR (chain_contract (h_grid h ch) cid) old_data)) (\<lambda>n.
                    retE (Some (updateNode cid (challenge_of h d2) (nc_deploymentData n),
                      \<lparr>td_deployment = d2, td_operation = Op_update, td_publicIps = 0, td_nodeId = nc_nodeId n,
                       td_metadata = [], td_network = None, td_solutionProviderId = None,
                       td_returnNetworkContracts = False\<rparr>))))))"

definition rollback :: "('a, 'c) handler_env \<Rightarrow> handler_contracts \<Rightarrow> ('c, unit) handler_eff" where
  "rollback h hc = bindE (cancel_created h (hc_created hc)) (\<lambda>cancels.
     bindE (mapE (restore_update h) (hc_updated hc)) (\<lambda>restores.
       let rs = concat (map opt_list restores) in
       bindE (on_client (applyAllExtrinsics (h_chain h) (cancels @ map (\<lambda>p. Some (fst p)) rs))) (\<lambda>_.
         iterE (\<lambda>p. bindE (sendToNode h (snd p)) (\<lambda>_. retE ())) rs)))"

subsection \<open>Extrinsics\<close>

fun gateway_name :: "Workload \<Rightarrow> string option" where
  "gateway_name w = (if wl_type w = WT_gatewaynameproxy
     then (case wl_data w of D_gatewayname g \<Rightarrow> Some (gn_name g) | _ \<Rightarrow> Some ''undefined'') else None)"

definition gateway_names :: "Deployment \<Rightarrow> string list" where
  "gateway_names d = concat (map (\<lambda>w. opt_list (gateway_name w)) (dp_workloads d))"

record prepared =
  px_node :: "extrinsic option list"
  px_name :: "extrinsic option list"
  px_deleted :: "extrinsic option list"
  px_updated :: "Contract list"

definition PrepareExtrinsic :: "('a, 'c) handler_env \<Rightarrow> TwinDeployment \<Rightarrow> ('c, prepared) handler_eff" where
  "PrepareExtrinsic h td = (let d = td_deployment td; cid = contract_arg (dp_contract_id d) in
     case td_operation td of
       Op_deploy \<Rightarrow> bindE (mapE (createNameContract h) (gateway_names d)) (\<lambda>names.
         retE \<lparr>px_node = [Some (createNode (challenge_of h d) (td_metadata td) (td_nodeId td) (td_publicIps td)
                              (td_solutionProviderId td))],
               px_name = names, px_deleted = [], px_updated = []\<rparr>)
     | Op_update \<Rightarrow> bindE (mapE (createNameContract h) (gateway_names d)) (\<lambda>names.
         bindE (ask (\<lambda>c. chain_contract (h_grid h c) cid)) (\<lambda>old.
           bindE (liftE (old_data old)) (\<lambda>n.
             retE \<lparr>px_node = [Some (updateNode cid (challenge_of h d) (nc_deploymentData n))],
                   px_name = names, px_deleted = [], px_updated = opt_list old\<rparr>)))
     | Op_delete \<Rightarrow> bindE (mapE (deleteNameContract h) (gateway_names d)) (\<lambda>names.
         bindE (ask (\<lambda>c. cancel (h_grid h c) cid)) (\<lambda>x.
           retE \<lparr>px_node = [], px_name = [], px_deleted = filter (\<lambda>n. n \<noteq> None) names @ [x], px_updated = []\<rparr>)))"

subsection \<open>Handling\<close>

definition update_network_workload :: "('a, 'c) handler_env \<Rightarrow> any_network \<Rightarrow> int \<Rightarrow> Workload \<Rightarrow> js_error + Workload" where
  "update_network_workload h net nodeId w = (case net of
     FullNet n \<Rightarrow> updateWorkload (h_net h) nodeId w n
   | LightNet n \<Rightarrow> bindR (light_getUpdatedMetadata (h_net h) nodeId (wl_metadata w) n) (\<lambda>md.
       Inr (w\<lparr>wl_data := (case light_getUpdatedNetwork (wl_data w) n of Some x \<Rightarrow> x | None \<Rightarrow> wl_data w),
              wl_metadata := md\<rparr>)))"

fun refresh_workloads :: "(Workload \<Rightarrow> js_error + Workload) \<Rightarrow> Workload list \<Rightarrow> js_error + Workload list" where
  "refresh_workloads f [] = Inr []"
| "refresh_workloads f (w # ws) = bindR (if is_network_type (wl_type w) then f w else Inr w) (\<lambda>w'.
     bindR (refresh_workloads f ws) (\<lambda>ws'. Inr (w' # ws')))"

definition refresh_networks :: "('a, 'c) handler_env \<Rightarrow> TwinDeployment \<Rightarrow> js_error + TwinDeployment" where
  "refresh_networks h td = (case td_network td of None \<Rightarrow> Inr td | Some net \<Rightarrow>
     bindR (refresh_workloads (update_network_workload h net (td_nodeId td)) (dp_workloads (td_deployment td))) (\<lambda>ws.
       Inr (td\<lparr>td_deployment := (td_deployment td)\<lparr>dp_workloads := ws\<rparr>\<rparr>)))"

definition prepare_one ::
  "('a, 'c) handler_env \<Rightarrow> TwinDeployment \<Rightarrow> ('c, TwinDeployment \<times> prepared) handler_eff"
where
  "prepare_one h td = bindE (liftE (refresh_networks h td)) (\<lambda>td'.
     bindE (PrepareExtrinsic h td') (\<lambda>p. retE (td', p)))"

definition network_only :: "TwinDeployment \<Rightarrow> bool" where
  "network_only td \<longleftrightarrow> (case dp_workloads (td_deployment td) of [w] \<Rightarrow> wl_type w = WT_network | _ \<Rightarrow> False)"

text \<open>The first contract whose hash is the deployment's; a name contract on the way is a \<open>TypeError\<close>.\<close>

fun find_contract :: "string \<Rightarrow> chain_result list \<Rightarrow> js_error + (Contract \<times> NodeContract) option" where
  "find_contract hash [] = Inr None"
| "find_contract hash (r # rs) = (case r of
     R_contract c \<Rightarrow> (case ct_type c of
         CT_node n \<Rightarrow> if nc_deploymentHash n = hash then Inr (Some (c, n)) else find_contract hash rs
       | _ \<Rightarrow> Inl TypeError)
   | _ \<Rightarrow> Inl TypeError)"

definition reported :: "TwinDeployment \<Rightarrow> bool" where
  "reported td \<longleftrightarrow> td_returnNetworkContracts td \<or> \<not> network_only td"

definition send_one ::
  "('a, 'c) handler_env \<Rightarrow> chain_result list \<Rightarrow> TwinDeployment \<Rightarrow> TwinDeployment list \<times> DeploymentResultContracts
   \<Rightarrow> ('c, TwinDeployment list \<times> DeploymentResultContracts) handler_eff"
where
  "send_one h results td acc = (let (done', rc) = acc; hash = challenge_of h (td_deployment td) in
     case td_operation td of
       Op_deploy \<Rightarrow> bindE (liftE (find_contract hash results)) (\<lambda>found.
         let td' = (case found of None \<Rightarrow> td
               | Some (c, _) \<Rightarrow> td\<lparr>td_deployment := (td_deployment td)\<lparr>dp_contract_id := Some (ct_contractId c)\<rparr>\<rparr>);
             rc' = (case found of None \<Rightarrow> rc
               | Some (c, _) \<Rightarrow> if reported td then rc\<lparr>rc_created := rc_created rc @ [c]\<rparr> else rc)
         in bindE (sendToNode h td') (\<lambda>td''. retE (done' @ [td''], rc')))
     | Op_update \<Rightarrow>
         bindE (if nonzero (dp_contract_id (td_deployment td))
                then bindE (getDeploymentFromFactory h (contract_arg (dp_contract_id (td_deployment td)))) (\<lambda>d.
                       modifyE (\<lambda>w. w\<lparr>hw_original := hw_original w @ [d]\<rparr>))
                else retE ()) (\<lambda>_.
           bindE (liftE (find_contract hash results)) (\<lambda>found.
             let td' = (case found of None \<Rightarrow> td | Some (_, n) \<Rightarrow> td\<lparr>td_nodeId := nc_nodeId n\<rparr>);
                 rc' = (case found of None \<Rightarrow> rc
                   | Some (c, _) \<Rightarrow> if reported td then rc\<lparr>rc_updated := rc_updated rc @ [c]\<rparr> else rc)
             in bindE (sendToNode h td') (\<lambda>td''. retE (done' @ [td''], rc'))))
     | Op_delete \<Rightarrow> retE (done' @ [td], rc))"

definition deleted_ids :: "chain_result list \<Rightarrow> int list" where
  "deleted_ids rs = concat (map (\<lambda>r. case r of R_id i \<Rightarrow> [i] | _ \<Rightarrow> []) rs)"

definition finish ::
  "('a, 'c) handler_env \<Rightarrow> TwinDeployment list \<Rightarrow> chain_result list \<Rightarrow> extrinsic option list \<Rightarrow> handler_contracts
   \<Rightarrow> ('c, DeploymentResultContracts) handler_eff"
where
  "finish h tds results deleted hc =
     bindE (foldE (send_one h results) tds ([], \<lparr>rc_created = [], rc_updated = [], rc_deleted = []\<rparr>)) (\<lambda>(tds', rc).
       bindE (on_client (applyAllExtrinsics (h_chain h) deleted)) (\<lambda>rs.
         let rc' = (if deleted = [] then rc else rc\<lparr>rc_deleted := deleted_ids rs\<rparr>) in
         bindE (waitForDeployments h tds') (\<lambda>_.
           bindE (saveNetworks h tds' hc) (\<lambda>_. retE rc'))))"

definition couldnt_handle :: "js_error \<Rightarrow> js_error" where
  "couldnt_handle e = (if is_base_error e then e
     else GridClientError (''Couldn'' @ apos # ''t handle twin Deployment due to: '' @ error_to_string e @ '' .''))"

definition commit ::
  "('a, 'c) handler_env \<Rightarrow> TwinDeployment list \<Rightarrow> chain_result list \<Rightarrow> extrinsic option list \<Rightarrow> Contract list
   \<Rightarrow> ('c, DeploymentResultContracts) handler_eff"
where
  "commit h tds results deleted updated =
     (let hc = \<lparr>hc_created = filter (\<lambda>r. result_contract_id r \<notin> set (map (\<lambda>c. Some (ct_contractId c)) updated)) results,
               hc_updated = updated\<rparr>
      in catchE (finish h tds results deleted hc)
           (\<lambda>e. bindE (rollback h hc) (\<lambda>_. throwE (couldnt_handle e))))"

definition handle :: "('a, 'c) handler_env \<Rightarrow> TwinDeployment list \<Rightarrow> ('c, DeploymentResultContracts) handler_eff" where
  "handle h tds = bindE (kyc_verified h ''Your account is not verified. Please sign into Threefold Dashboard or Connect mobile app to complete your KYC verification.'') (\<lambda>_.
     bindE (merge_all h tds) (\<lambda>merged.
       bindE (validate_deployments h merged) (\<lambda>_.
         bindE (checkNodesCapacity h merged) (\<lambda>_.
           bindE (checkFarmIps h merged) (\<lambda>_.
             bindE (mapE (prepare_one h) merged) (\<lambda>ps.
               let tds' = map fst ps;
                   xs = concat (map (px_node \<circ> snd) ps) @ concat (map (px_name \<circ> snd) ps);
                   deleted = concat (map (px_deleted \<circ> snd) ps);
                   updated = concat (map (px_updated \<circ> snd) ps)
               in bindE (on_client (applyAllExtrinsics (h_chain h) xs)) (\<lambda>results.
                    commit h tds' results deleted updated)))))))"

end
