(* ===== verification/HighLevel.thy ===== *)
theory HighLevel
  imports TwinHandler
begin

text \<open>
  \<open>grid_client/src/high_level/base.ts\<close>, \<open>network.ts\<close>, \<open>zdb.ts\<close> and \<open>gateway.ts\<close>: what the
  modules ask of the handler.  The main part is the deletion of workloads by name: which workloads
  stay, and what happens to the network of a deleted machine.  A network object is shared by all the
  twin deployments of one call; here each carries the network as it is when the call returns.
\<close>

subsection \<open>Filtering\<close>

definition all_types :: "WorkloadTypes list" where
  "all_types = [WT_ip, WT_ipv4, WT_zmachine, WT_zmachinelight, WT_zmount, WT_volume, WT_zdb, WT_qsfs,
     WT_gatewayfqdnproxy, WT_gatewaynameproxy, WT_zlogs]"

definition zdb_types :: "WorkloadTypes list" where
  "zdb_types = [WT_zdb]"

definition vm_types :: "WorkloadTypes list" where
  "vm_types = [WT_ip, WT_ipv4, WT_zmount, WT_volume, WT_zmachine, WT_qsfs, WT_zlogs, WT_zmachinelight]"

definition k8s_types :: "WorkloadTypes list" where
  "k8s_types = [WT_zmachine, WT_zmachinelight, WT_zmount, WT_volume, WT_ip, WT_ipv4, WT_zlogs]"

text \<open>\<open>data["mounts"]\<close>, \<open>data["network"].interfaces[0]\<close> and \<open>data["network"].public_ip\<close>.\<close>

fun data_mounts :: "WorkloadData \<Rightarrow> Mount list option" where
  "data_mounts (D_zmachine z) = Some (vm_mounts z)"
| "data_mounts (D_zmachinelight z) = Some (vml_mounts z)"
| "data_mounts _ = None"

definition first_of :: "'x list \<Rightarrow> 'x option" where
  "first_of xs = (case xs of [] \<Rightarrow> None | x # _ \<Rightarrow> Some x)"

fun first_interface :: "WorkloadData \<Rightarrow> ZNetworkInterface option" where
  "first_interface (D_zmachine z) = first_of (zmn_interfaces (vm_network z))"
| "first_interface (D_zmachinelight z) = first_of (zln_interfaces (vml_network z))"
| "first_interface _ = None"

fun machine_public_ip :: "WorkloadData \<Rightarrow> string list" where
  "machine_public_ip (D_zmachine z) = [zmn_public_ip (vm_network z)]"
| "machine_public_ip _ = []"

text \<open>\<open>item.data[key]\<close> for the two keys that are read: only the logs have the first, none has the second.\<close>

definition machine_field :: "WorkloadTypes \<Rightarrow> WorkloadData \<Rightarrow> string option" where
  "machine_field t d = (if t = WT_zmachine then (case d of D_zlogs z \<Rightarrow> zl_zmachine z | _ \<Rightarrow> None) else None)"

definition machine_logs :: "WorkloadTypes \<Rightarrow> string \<Rightarrow> Workload list \<Rightarrow> Workload list" where
  "machine_logs t name ws = filter (\<lambda>w. wl_type w = WT_zlogs \<and> machine_field t (wl_data w) = Some name) ws"

text \<open>The body of the inner loop: the names to delete grow, and the machine is recorded.\<close>

definition select_machine ::
  "Workload list \<Rightarrow> WorkloadTypes \<Rightarrow> Workload \<Rightarrow> string list \<times> Workload list \<Rightarrow> js_error + string list \<times> Workload list"
where
  "select_machine ws t w acc = (case acc of (names, deleted) \<Rightarrow>
     if wl_name w \<notin> set names then Inr acc
     else case data_mounts (wl_data w) of
       None \<Rightarrow> Inl TypeError
     | Some mounts \<Rightarrow> Inr (names @ map mt_name mounts @ map wl_name (machine_logs t (wl_name w) ws)
           @ (if t = WT_zmachine then machine_public_ip (wl_data w) else []), deleted @ [w]))"

definition select_type ::
  "Workload list \<Rightarrow> WorkloadTypes list \<Rightarrow> WorkloadTypes \<Rightarrow> string list \<times> Workload list
   \<Rightarrow> js_error + string list \<times> Workload list"
where
  "select_type ws types t acc =
     (if t \<notin> set types then Inr acc
      else foldR (select_machine ws t) (filter (\<lambda>w. wl_type w = t) ws) acc)"

definition is_network :: "Workload \<Rightarrow> bool" where
  "is_network w \<longleftrightarrow> wl_type w = WT_network \<or> wl_type w = WT_networklight"

definition is_machine :: "Workload \<Rightarrow> bool" where
  "is_machine w \<longleftrightarrow> wl_type w = WT_zmachine \<or> wl_type w = WT_zmachinelight"

definition remains :: "string list \<Rightarrow> WorkloadTypes list \<Rightarrow> Workload \<Rightarrow> bool" where
  "remains names types w \<longleftrightarrow> is_network w \<or> wl_type w \<notin> set types \<or> (names \<noteq> [] \<and> wl_name w \<notin> set names)"

definition filterWorkloads ::
  "Workload list \<Rightarrow> string list \<Rightarrow> WorkloadTypes list \<Rightarrow> js_error + Workload list \<times> Workload list"
where
  "filterWorkloads ws names types =
     bindR (if names = [] then Inr ([], filter is_machine ws)
            else foldR (select_type ws types) [WT_zmachine, WT_zmachinelight] (names, []))
       (\<lambda>(names', deleted). Inr (filter (remains names' types) ws, deleted))"

subsection \<open>The network of the deleted machines\<close>

text \<open>The methods both network classes have.\<close>

fun any_name :: "any_network \<Rightarrow> string" where
  "any_name (FullNet n) = n_name n"
| "any_name (LightNet n) = l_name n"

fun any_deployments :: "any_network \<Rightarrow> Deployment list" where
  "any_deployments (FullNet n) = map nd_deployment (n_deployments n)"
| "any_deployments (LightNet n) = map nd_deployment (l_deployments n)"

fun any_deleteReservedIp :: "int \<Rightarrow> string \<Rightarrow> any_network \<Rightarrow> any_network" where
  "any_deleteReservedIp i ip (FullNet n) = FullNet (deleteReservedIp i ip n)"
| "any_deleteReservedIp i ip (LightNet n) = LightNet (light_deleteReservedIp i ip n)"

fun any_getNodeReservedIps :: "int \<Rightarrow> any_network \<Rightarrow> string list" where
  "any_getNodeReservedIps i (FullNet n) = getNodeReservedIps i n"
| "any_getNodeReservedIps i (LightNet n) = light_getNodeReservedIps i n"

fun any_deleteNode :: "('a, 'b) net_env_scheme \<Rightarrow> int \<Rightarrow> (any_network, js_error, int option) eff" where
  "any_deleteNode e i (FullNet n) = (case deleteNode e i n of (r, n') \<Rightarrow> (r, FullNet n'))"
| "any_deleteNode e i (LightNet n) = (case light_deleteNode e i n of (r, n') \<Rightarrow> (r, LightNet n'))"

text \<open>The access point that keeps a node alive; a light network has none.\<close>

fun kept_by_access :: "int \<Rightarrow> any_network \<Rightarrow> bool" where
  "kept_by_access i (FullNet n) = (hasAccessPoint i n \<and> length (n_nodes n) \<noteq> 1)"
| "kept_by_access i (LightNet n) = False"

fun last_idle_node :: "any_network \<Rightarrow> int option" where
  "last_idle_node (FullNet n) = (case n_nodes n of
     [k] \<Rightarrow> if getNodeReservedIps (nn_node_id k) n = [] then Some (nn_node_id k) else None
   | _ \<Rightarrow> None)"
| "last_idle_node (LightNet n) = None"

text \<open>The network is built from the first interface of the first deleted machine.\<close>

definition open_network :: "('a, 'b) net_env_scheme \<Rightarrow> Workload \<Rightarrow> js_error + any_network" where
  "open_network e w = (case first_interface (wl_data w) of
     None \<Rightarrow> Inl TypeError
   | Some i \<Rightarrow> bindR (Addr e (if_ip i)) (\<lambda>a.
       let range = na_toString (e_addr e) (na_mask (e_addr e) 16 a)
       in if wl_type w = WT_zmachinelight
          then bindR (new_ZNetworkLight e (if_network i) range) (\<lambda>n.
                 case light_load e n of (Inl err, _) \<Rightarrow> Inl err | (Inr _, n') \<Rightarrow> Inr (LightNet n'))
          else bindR (new_Network e (if_network i) range) (\<lambda>n.
                 case load e n of (Inl err, _) \<Rightarrow> Inl err | (Inr _, n') \<Rightarrow> Inr (FullNet n'))))"

text \<open>The local variables of the loop.\<close>

record deletion =
  dl_network :: "any_network option"
  dl_remaining :: "Workload list"
  dl_twins :: "TwinDeployment list"
  dl_nodes :: "int list"
  dl_ips :: "string list"

definition twin :: "Deployment \<Rightarrow> Operations \<Rightarrow> any_network option \<Rightarrow> TwinDeployment" where
  "twin d oper net = \<lparr>td_deployment = d, td_operation = oper, td_publicIps = 0, td_nodeId = 0,
     td_metadata = [], td_network = net, td_solutionProviderId = None, td_returnNetworkContracts = False\<rparr>"

definition push_twin :: "TwinDeployment \<Rightarrow> deletion \<Rightarrow> deletion" where
  "push_twin t s = s\<lparr>dl_twins := dl_twins s @ [t]\<rparr>"

definition keep_ip :: "string \<Rightarrow> deletion \<Rightarrow> deletion" where
  "keep_ip ip s = s\<lparr>dl_ips := dl_ips s @ [ip]\<rparr>"

definition without_network :: "any_network \<Rightarrow> Workload list \<Rightarrow> Workload list" where
  "without_network net ws = filter (\<lambda>w. wl_name w \<noteq> any_name net) ws"

text \<open>The deployment elsewhere that carries the network on a node.\<close>

definition drop_from_deployment ::
  "('a, 'b) net_env_scheme \<Rightarrow> any_network \<Rightarrow> int option \<Rightarrow> Deployment \<Rightarrow> (deletion, js_error, unit) eff"
where
  "drop_from_deployment e net contract d0 = bindE (liftE (fromObj (e_valid e) d0)) (\<lambda>d.
     if dp_contract_id d \<noteq> contract then retE ()
     else if length (dp_workloads d) = 1 then modifyE (push_twin (twin d Op_delete (Some net)))
     else modifyE (push_twin (twin (d\<lparr>dp_workloads := without_network net (dp_workloads d)\<rparr>) Op_update (Some net))))"

definition drop_from_network ::
  "('a, 'b) net_env_scheme \<Rightarrow> any_network \<Rightarrow> int option \<Rightarrow> (deletion, js_error, unit) eff"
where
  "drop_from_network e net contract = iterE (drop_from_deployment e net contract) (any_deployments net)"

definition set_network :: "any_network \<Rightarrow> deletion \<Rightarrow> deletion" where
  "set_network net s = s\<lparr>dl_network := Some net\<rparr>"

text \<open>What follows once nothing on the node needs the network any more.\<close>

definition drop_node ::
  "('a, 'b) net_env_scheme \<Rightarrow> Deployment \<Rightarrow> int \<Rightarrow> string \<Rightarrow> any_network \<Rightarrow> (deletion, js_error, unit) eff"
where
  "drop_node e deployment node_id ip net =
     bindE (liftE (case any_deleteNode e node_id net of (r, net') \<Rightarrow> bindR r (\<lambda>c. Inr (c, net')))) (\<lambda>(contract, net').
     bindE (modifyE (set_network net')) (\<lambda>_.
     bindE (if contract = dp_contract_id deployment then
              modifyE (\<lambda>s. if length (dl_remaining s) = 1
                then (push_twin (twin deployment Op_delete (Some net')) s)\<lparr>dl_remaining := []\<rparr>
                else s\<lparr>dl_remaining := without_network net' (dl_remaining s),
                        dl_ips := dl_ips s @ [ip], dl_nodes := dl_nodes s @ [node_id]\<rparr>)
            else drop_from_network e net' contract) (\<lambda>_.
     case last_idle_node net' of
       None \<Rightarrow> retE ()
     | Some idle \<Rightarrow>
         bindE (liftE (case any_deleteNode e idle net' of (r, net'') \<Rightarrow> bindR r (\<lambda>c. Inr (c, net'')))) (\<lambda>(c, net'').
         bindE (modifyE (set_network net'')) (\<lambda>_. drop_from_network e net'' c)))))"

definition delete_machine ::
  "('a, 'b) net_env_scheme \<Rightarrow> Deployment \<Rightarrow> int \<Rightarrow> Workload \<Rightarrow> (deletion, js_error, unit) eff"
where
  "delete_machine e deployment node_id w =
     bindE (getE dl_network) (\<lambda>known.
     bindE (case known of Some net \<Rightarrow> retE net | None \<Rightarrow> liftE (open_network e w)) (\<lambda>net0.
       case first_interface (wl_data w) of
         None \<Rightarrow> throwE TypeError
       | Some i \<Rightarrow>
           let ip = if_ip i; net = any_deleteReservedIp node_id ip net0
           in bindE (modifyE (set_network net)) (\<lambda>_.
              bindE (modifyE (\<lambda>s. if dl_remaining s = [] then push_twin (twin deployment Op_delete (Some net)) s else s)) (\<lambda>_.
                if any_getNodeReservedIps node_id net \<noteq> [] \<or> kept_by_access node_id net
                then modifyE (keep_ip ip)
                else drop_node e deployment node_id ip net))))"

definition deleteMachineNetwork ::
  "('a, 'b) net_env_scheme \<Rightarrow> Deployment \<Rightarrow> Workload list \<Rightarrow> Workload list \<Rightarrow> int \<Rightarrow> js_error + deletion"
where
  "deleteMachineNetwork e deployment remaining deleted node_id =
     (case iterE (delete_machine e deployment node_id) deleted
             \<lparr>dl_network = None, dl_remaining = remaining, dl_twins = [], dl_nodes = [], dl_ips = []\<rparr> of
        (Inl err, _) \<Rightarrow> Inl err
      | (Inr _, s) \<Rightarrow> Inr s)"

subsection \<open>Deleting workloads of a deployment\<close>

definition share_network :: "any_network option \<Rightarrow> TwinDeployment list \<Rightarrow> TwinDeployment list" where
  "share_network net tds = map (\<lambda>t. t\<lparr>td_network := net\<rparr>) tds"

text \<open>
  Deleting again the nodes and addresses collected; then the update, which is sent for a WireGuard
  network only.
\<close>

definition finish_deletion ::
  "('a, 'b) net_env_scheme \<Rightarrow> Deployment \<Rightarrow> int \<Rightarrow> nat \<Rightarrow> deletion \<Rightarrow> js_error + TwinDeployment list"
where
  "finish_deletion e deployment node_id before s = (case dl_network s of
     Some (FullNet n) \<Rightarrow>
       if dl_remaining s \<noteq> [] \<and> length (dl_remaining s) < before then
         (case iterE (\<lambda>i. bindE (deleteNode e i) (\<lambda>_. retE ())) (dl_nodes s) n of
            (Inl err, _) \<Rightarrow> Inl err
          | (Inr _, n') \<Rightarrow>
              let net = Some (FullNet (fold (deleteReservedIp node_id) (dl_ips s) n'))
              in Inr (share_network net (dl_twins s
                   @ [twin (deployment\<lparr>dp_workloads := dl_remaining s\<rparr>) Op_update net])))
       else Inr (share_network (dl_network s) (dl_twins s))
   | net \<Rightarrow> Inr (share_network net (dl_twins s)))"

definition delete_workloads ::
  "('a, 'b) net_env_scheme \<Rightarrow> Deployment \<Rightarrow> string list \<Rightarrow> WorkloadTypes list \<Rightarrow> js_error + TwinDeployment list"
where
  "delete_workloads e deployment names types =
     (if WT_network \<in> set types \<or> WT_networklight \<in> set types
      then Inl (TFGridWorkloadError W_Delete (''Network workload can'' @ apos # ''t be deleted.''))
      else bindR (getNodeIdFromContractId (e_grid e) (contract_arg (dp_contract_id deployment))) (\<lambda>node_id.
        bindR (fromObj (e_valid e) deployment) (\<lambda>d.
        bindR (filterWorkloads (dp_workloads d) names types) (\<lambda>(remaining, deleted).
          let whole = (if remaining = [] \<and> deleted = [] then [twin d Op_delete None] else [])
          in bindR (deleteMachineNetwork e d remaining deleted node_id) (\<lambda>s.
             bindR (finish_deletion e d node_id (length (dp_workloads deployment)) s) (\<lambda>tds.
               Inr (whole @ tds)))))))"

subsection \<open>Network, zdb and gateway deployments\<close>

text \<open>
  The first network workload of the range gets the network's new data.  The contract metadata
  (\<open>JSON.stringify\<close> of a fixed object) is the parameter \<open>meta\<close>.
\<close>

fun refresh_first :: "('a, 'b) net_env_scheme \<Rightarrow> Network \<Rightarrow> Workload list \<Rightarrow> js_error + Workload list" where
  "refresh_first e net [] = Inr []"
| "refresh_first e net (w # ws) =
     (if wl_type w \<noteq> WT_network then bindR (refresh_first e net ws) (\<lambda>ws'. Inr (w # ws'))
      else bindR (Addr e (n_ipRange net)) (\<lambda>range.
        bindR (case data_subnet (wl_data w) of None \<Rightarrow> Inl TypeError | Some sub \<Rightarrow> Addr e sub) (\<lambda>a.
          if \<not> na_contains (e_addr e) range a then bindR (refresh_first e net ws) (\<lambda>ws'. Inr (w # ws'))
          else Inr (w\<lparr>wl_data := getUpdatedNetwork (wl_data w) net, wl_version := wl_version w + 1\<rparr> # ws))))"

definition network_twin ::
  "Deployment \<Rightarrow> Operations \<Rightarrow> int \<Rightarrow> string \<Rightarrow> Network \<Rightarrow> int option \<Rightarrow> TwinDeployment"
where
  "network_twin d oper nodeId meta net solution = \<lparr>td_deployment = d, td_operation = oper,
     td_publicIps = 0, td_nodeId = nodeId, td_metadata = meta, td_network = Some (FullNet net),
     td_solutionProviderId = solution, td_returnNetworkContracts = True\<rparr>"

definition network_update ::
  "('a, 'b) net_env_scheme \<Rightarrow> string \<Rightarrow> int option \<Rightarrow> Network \<Rightarrow> Deployment \<Rightarrow> js_error + TwinDeployment"
where
  "network_update e meta solution net d0 = bindR (fromObj (e_valid e) d0) (\<lambda>d.
     bindR (refresh_first e net (dp_workloads d)) (\<lambda>ws.
       Inr (network_twin (d\<lparr>dp_workloads := ws\<rparr>) Op_update 0 meta net solution)))"

definition network_deploy ::
  "('a, 'b) net_env_scheme \<Rightarrow> int \<Rightarrow> string \<Rightarrow> string \<Rightarrow> int option \<Rightarrow> Workload \<Rightarrow> Network \<Rightarrow> TwinDeployment"
where
  "network_deploy e nodeId meta description solution w net =
     network_twin (create_deployment (e_twin_id e) [w] 0 meta description 0) Op_deploy nodeId meta net solution"

definition NetworkHL_addNode ::
  "('a, 'b) net_env_scheme \<Rightarrow> string \<Rightarrow> string \<Rightarrow> int \<Rightarrow> int option \<Rightarrow> bool \<Rightarrow> string \<Rightarrow> string
   \<Rightarrow> (int \<times> string) list \<Rightarrow> string \<Rightarrow> js_error + TwinDeployment list"
where
  "NetworkHL_addNode e networkName ipRange nodeId solution mycelium description subnet seeds meta =
     bindR (new_Network e networkName ipRange) (\<lambda>n0. fst (bindE (load e) (\<lambda>_.
       bindE (addNode e nodeId mycelium description subnet seeds) (\<lambda>added. case added of
         None \<Rightarrow> throwE (ValidationError (''Node '' @ show_int nodeId @ '' already exists on network '' @ networkName @ ''.''))
       | Some w \<Rightarrow> bindE (exists e) (\<lambda>there. bindE (getE (\<lambda>net. net)) (\<lambda>net.
           let deploy = network_deploy e nodeId meta description solution w net
           in if \<not> there then retE [deploy]
              else bindE (mapE (\<lambda>d. liftE (network_update e meta solution net d))
                            (map nd_deployment (n_deployments net))) (\<lambda>tds. retE (deploy # tds)))))) n0))"

definition NetworkHL_hasNode :: "('a, 'b) net_env_scheme \<Rightarrow> string \<Rightarrow> string \<Rightarrow> int \<Rightarrow> js_error + bool" where
  "NetworkHL_hasNode e networkName ipRange nodeId =
     bindR (new_Network e networkName ipRange) (\<lambda>n0.
       fst (bindE (load e) (\<lambda>_. getE (nodeExists nodeId)) n0))"

text \<open>
  A node id of 0 counts as none.  For a network without user accesses the configurations are
  read from the backend (\<open>stored\<close>).
\<close>

definition wireguard_config :: "('a, 'b) net_env_scheme \<Rightarrow> Network \<Rightarrow> UserAccess \<Rightarrow> js_error + string" where
  "wireguard_config e net a =
     bindR (getAccessNodeEndpoint e (ua_node_id a) False net) (\<lambda>endpoint.
       getWireguardConfig (n_ipRange net) (ua_subnet a) (ua_private_key a)
         (case getNodeWGPublicKey e (ua_node_id a) net of Some k \<Rightarrow> k | None \<Rightarrow> ''undefined'') endpoint)"

definition configs_of ::
  "('a, 'b) net_env_scheme \<Rightarrow> js_error + string list option \<Rightarrow> int option \<Rightarrow> Network \<Rightarrow> js_error + string list"
where
  "configs_of e stored nodeId net =
     (let wanted = (case nodeId of Some i \<Rightarrow> if i = 0 then None else Some i | None \<Rightarrow> None) in
      if (case wanted of Some i \<Rightarrow> \<not> nodeExists i net | None \<Rightarrow> False) then Inr []
      else if n_userAccesses net \<noteq> [] then
        foldR (\<lambda>a cs. bindR (wireguard_config e net a) (\<lambda>c. Inr (cs @ [c])))
          (case wanted of Some i \<Rightarrow> filter (\<lambda>a. ua_node_id a = i) (n_userAccesses net)
                        | None \<Rightarrow> n_userAccesses net) []
      else bindR stored (\<lambda>s. Inr (case s of Some cs \<Rightarrow> cs | None \<Rightarrow> [])))"

definition NetworkHL_getWireguardConfigs ::
  "('a, 'b) net_env_scheme \<Rightarrow> js_error + string list option \<Rightarrow> string \<Rightarrow> string \<Rightarrow> int option \<Rightarrow> js_error + string list"
where
  "NetworkHL_getWireguardConfigs e stored networkName ipRange nodeId =
     bindR (new_Network e networkName ipRange) (\<lambda>n0.
       fst (bindE (load e) (\<lambda>_. bindE (getE (configs_of e stored nodeId)) liftE) n0))"

text \<open>A zdb's size is passed as the wanted \<open>hru\<close>; gateways are not checked.\<close>

definition ZdbHL_create ::
  "('a, 'b) net_env_scheme \<Rightarrow> string \<Rightarrow> int \<Rightarrow> rat \<Rightarrow> ZdbModes \<Rightarrow> string \<Rightarrow> bool \<Rightarrow> string \<Rightarrow> string \<Rightarrow> string
   \<Rightarrow> int option \<Rightarrow> js_error + TwinDeployment"
where
  "ZdbHL_create e name node_id disk_size mode password publicNamespace contractMetadata metadata description solution =
     bindR (nodeHasResources (e_grid e) node_id (empty_filter\<lparr>fo_hru := Some disk_size\<rparr>)) (\<lambda>ok.
       if \<not> ok then Inl (TFGridNodesError N_InvalidResources (''Node '' @ show_int node_id
              @ '' doesn'' @ apos # ''t have enough resources: hru='' @ show_number disk_size @ '' .''))
       else Inr \<lparr>td_deployment = create_deployment (e_twin_id e)
                   [Zdb_create name disk_size mode password publicNamespace metadata description 0]
                   1626394539 metadata description 0,
                 td_operation = Op_deploy, td_publicIps = 0, td_nodeId = node_id,
                 td_metadata = contractMetadata, td_network = None, td_solutionProviderId = solution,
                 td_returnNetworkContracts = False\<rparr>)"

definition GatewayHL_create ::
  "('a, 'b) net_env_scheme \<Rightarrow> string \<Rightarrow> int \<Rightarrow> bool \<Rightarrow> string list \<Rightarrow> string option \<Rightarrow> string \<Rightarrow> string \<Rightarrow> string
   \<Rightarrow> string \<Rightarrow> int option \<Rightarrow> TwinDeployment list"
where
  "GatewayHL_create e name node_id tls backends network contractMetadata metadata description fqdn solution =
     (let w = (if fqdn \<noteq> [] then createFQDN fqdn tls backends name network [] description 0
               else createName name tls backends network [] description 0)
      in [\<lparr>td_deployment = create_deployment (e_twin_id e) [w] 1626394539 metadata description 0,
           td_operation = Op_deploy, td_publicIps = 0, td_nodeId = node_id,
           td_metadata = contractMetadata, td_network = None, td_solutionProviderId = solution,
           td_returnNetworkContracts = False\<rparr>])"

end
