(* ===== verification/HighLevelProps.thy ===== *)
theory HighLevelProps
  imports HighLevel FactoryFacts
begin

text \<open>
  What deleting by name does: networks always remain, a named machine goes with its mounts, the logs
  of a light machine stay, and naming workloads other than machines changes nothing.
\<close>

text \<open>
  The invariant of the selection: the names asked for stay, every recorded machine is one of the
  deployment whose name and mounts are among the names.
\<close>

definition recorded :: "Workload list \<Rightarrow> string set \<Rightarrow> Workload \<Rightarrow> bool" where
  "recorded ws names m \<longleftrightarrow> m \<in> set ws \<and> is_machine m \<and> wl_name m \<in> names
     \<and> (\<exists>mounts. data_mounts (wl_data m) = Some mounts \<and> mt_name ` set mounts \<subseteq> names)"

definition selection_inv :: "Workload list \<Rightarrow> string list \<Rightarrow> string list \<times> Workload list \<Rightarrow> bool" where
  "selection_inv ws names s \<longleftrightarrow> set names \<subseteq> set (fst s) \<and> (names \<noteq> [] \<longrightarrow> fst s \<noteq> [])
     \<and> list_all (recorded ws (set (fst s))) (snd s)"

lemma recorded_mono: "recorded ws names m \<Longrightarrow> names \<subseteq> names' \<Longrightarrow> recorded ws names' m"
  unfolding recorded_def by blast

lemma select_machine_inv:
  assumes "selection_inv ws names s" and "select_machine ws t w s = Inr s'"
    and "w \<in> set ws" and "is_machine w"
  shows "selection_inv ws names s'"
proof (cases s)
  case (Pair ns del)
  show ?thesis
  proof (cases "wl_name w \<in> set ns")
    case True
    with assms(2) Pair obtain mounts extra where m: "data_mounts (wl_data w) = Some mounts"
      "s' = (ns @ map mt_name mounts @ extra, del @ [w])"
      by (auto simp: select_machine_def split: option.splits)
    have "recorded ws (set (fst s')) w"
      unfolding recorded_def using m True assms(3,4) by (intro conjI exI [of _ mounts]) auto
    moreover have "list_all (recorded ws (set (fst s'))) del"
      using assms(1) m Pair by (auto simp: selection_inv_def list_all_iff intro: recorded_mono)
    ultimately show ?thesis using assms(1) m Pair by (auto simp: selection_inv_def)
  qed (use assms Pair in \<open>simp add: select_machine_def\<close>)
qed

lemma select_type_inv:
  assumes "selection_inv ws names s" and "select_type ws types t s = Inr s'"
    and "t = WT_zmachine \<or> t = WT_zmachinelight"
  shows "selection_inv ws names s'"
proof (cases "t \<in> set types")
  case True
  with assms(2) have f: "foldR (select_machine ws t) (filter (\<lambda>w. wl_type w = t) ws) s = Inr s'"
    by (simp add: select_type_def)
  show ?thesis
    by (rule foldR_invariant [OF f, of "selection_inv ws names"])
       (use assms(1,3) in \<open>auto simp: is_machine_def intro: select_machine_inv\<close>)
qed (use assms in \<open>simp add: select_type_def\<close>)

lemma filterWorkloads_named:
  assumes "filterWorkloads ws names types = Inr (rem, del)" and "names \<noteq> []"
  obtains names' where "foldR (select_type ws types) [WT_zmachine, WT_zmachinelight] (names, []) = Inr (names', del)"
    and "selection_inv ws names (names', del)" and "rem = filter (remains names' types) ws"
proof -
  from assms obtain names' where n: "foldR (select_type ws types) [WT_zmachine, WT_zmachinelight] (names, []) = Inr (names', del)"
    "rem = filter (remains names' types) ws"
    by (auto simp: filterWorkloads_def bindR_Inr)
  have "selection_inv ws names (names, [])" by (simp add: selection_inv_def)
  then have "selection_inv ws names (names', del)"
    by (rule foldR_invariant [OF n(1)])
       (simp only: set_simps insert_iff empty_iff; erule (1) select_type_inv; blast)
  with n that show thesis by blast
qed

lemma filterWorkloads_all:
  "filterWorkloads ws [] types = Inr (filter (remains [] types) ws, filter is_machine ws)"
  by (simp add: filterWorkloads_def)

text \<open>
  deleting by name never drops a network workload, drops only workloads of the given types,
  drops every workload of those types that was named, and with a named machine everything it
  mounts; with no names it drops all of those types.
\<close>

theorem filter_workloads_split:
  assumes "filterWorkloads ws names types = Inr (rem, del)"
  shows "subseq rem ws \<and> filter is_network rem = filter is_network ws
    \<and> (\<forall>w \<in> set ws. w \<notin> set rem \<longrightarrow> wl_type w \<in> set types \<and> \<not> is_network w)
    \<and> (\<forall>w \<in> set rem. wl_type w \<in> set types \<longrightarrow> is_network w \<or> (names \<noteq> [] \<and> wl_name w \<notin> set names))
    \<and> (\<forall>m \<in> set del. m \<in> set ws \<and> is_machine m \<and> (names \<noteq> [] \<longrightarrow>
          (\<exists>mounts. data_mounts (wl_data m) = Some mounts
            \<and> (\<forall>d \<in> set rem. wl_type d \<in> set types \<longrightarrow> is_network d \<or> wl_name d \<notin> mt_name ` set mounts))))"
proof (cases "names = []")
  case True
  with assms have "rem = filter (remains [] types) ws" "del = filter is_machine ws"
    by (simp_all add: filterWorkloads_all)
  with True show ?thesis
    by (auto simp: remains_def intro: filter_cong)
next
  case False
  from filterWorkloads_named [OF assms this] obtain names' where
    n: "selection_inv ws names (names', del)" "rem = filter (remains names' types) ws" by blast
  have "\<exists>mounts. data_mounts (wl_data m) = Some mounts
      \<and> (\<forall>d \<in> set rem. wl_type d \<in> set types \<longrightarrow> is_network d \<or> wl_name d \<notin> mt_name ` set mounts)"
    if "m \<in> set del" for m
  proof -
    from n(1) that obtain mounts where m: "data_mounts (wl_data m) = Some mounts"
      "mt_name ` set mounts \<subseteq> set names'"
      unfolding selection_inv_def list_all_iff recorded_def by auto
    show ?thesis by (rule exI [of _ mounts]) (use m n(2) in \<open>auto simp: remains_def\<close>)
  qed
  moreover have "\<forall>m \<in> set del. m \<in> set ws \<and> is_machine m" "set names \<subseteq> set names'"
    using n(1) by (auto simp: selection_inv_def list_all_iff recorded_def)
  ultimately show ?thesis using False n(2)
    by (auto simp: remains_def intro: filter_cong)
qed

text \<open>The logs of a machine, in a deployment read back from its node: none is found.\<close>

lemma exposed_workload_sel [simp]:
  "wl_type (exposed_workload w) = wl_type w" "wl_name (exposed_workload w) = wl_name w"
  "wl_data (exposed_workload w) = exposed_data (wl_data w)"
  by (simp_all add: exposed_workload_def)

lemma machine_field_exposed [simp]: "machine_field t (exposed_data d) = None"
  by (cases d) (simp_all add: machine_field_def)

lemma fromObj_Inr:
  "fromObj rc d = Inr d' \<longleftrightarrow> valid_Deployment rc (exposed_deployment d) \<and> d' = exposed_deployment d"
  by (auto simp: fromObj_def validateObject_def Let_def)

lemma machine_logs_fromObj: "fromObj rc d = Inr d' \<Longrightarrow> machine_logs t name (dp_workloads d') = []"
  by (auto simp: fromObj_Inr machine_logs_def exposed_deployment_def filter_empty_conv)

lemma select_machine_mounts:
  assumes "select_machine ws t w s = Inr s'" and "x \<notin> set (fst s)" and "machine_logs t (wl_name w) ws = []"
    and "\<And>mounts. data_mounts (wl_data w) = Some mounts \<Longrightarrow> x \<notin> mt_name ` set mounts"
    and "x \<notin> set (machine_public_ip (wl_data w))"
  shows "x \<notin> set (fst s')"
  using assms by (cases s) (auto simp: select_machine_def split: if_splits option.splits)

text \<open>
  deleting a machine by name leaves its logs behind.  In a deployment read back with
  \<open>fromObj\<close> a log has forgotten its machine, so a log that is not named itself, and whose name is
  neither a mount nor a public address of a machine, remains whatever is deleted.
\<close>

theorem logs_stay:
  assumes "fromObj rc d0 = Inr d" and "filterWorkloads (dp_workloads d) names types = Inr (rem, del)"
    and "names \<noteq> []" and "z \<in> set (dp_workloads d)" and "wl_type z = WT_zlogs" and "wl_name z \<notin> set names"
    and "\<forall>w \<in> set (dp_workloads d). \<forall>mounts. data_mounts (wl_data w) = Some mounts \<longrightarrow> wl_name z \<notin> mt_name ` set mounts"
    and "\<forall>w \<in> set (dp_workloads d). wl_name z \<notin> set (machine_public_ip (wl_data w))"
  shows "z \<in> set rem"
proof -
  let ?ws = "dp_workloads d"
  from filterWorkloads_named [OF assms(2,3)] obtain names' where
    n: "foldR (select_type ?ws types) [WT_zmachine, WT_zmachinelight] (names, []) = Inr (names', del)"
    "selection_inv ?ws names (names', del)" "rem = filter (remains names' types) ?ws" by blast
  have step: "wl_name z \<notin> set (fst b)"
    if s: "select_type ?ws types t a = Inr b" and a: "wl_name z \<notin> set (fst a)" for t a b
  proof (cases "t \<in> set types")
    case True
    with s have f: "foldR (select_machine ?ws t) (filter (\<lambda>w. wl_type w = t) ?ws) a = Inr b"
      by (simp add: select_type_def)
    show ?thesis
      by (rule foldR_invariant [OF f, of "\<lambda>s. wl_name z \<notin> set (fst s)", OF a])
         (rule select_machine_mounts, assumption, assumption, rule machine_logs_fromObj [OF assms(1)],
          use assms(7,8) in auto)
  qed (use s a in \<open>simp add: select_type_def\<close>)
  have "wl_name z \<notin> set (fst (names', del))"
    by (rule foldR_invariant [OF n(1), of "\<lambda>s. wl_name z \<notin> set (fst s)"]) (use assms(6) step in auto)
  moreover have "names' \<noteq> []" using n(2) assms(3) by (simp add: selection_inv_def)
  ultimately show ?thesis using n(3) assms(4) by (simp add: remains_def)
qed

subsection \<open>What is sent\<close>

lemma delete_machines_none:
  "deleteMachineNetwork e d remaining [] node_id
     = Inr \<lparr>dl_network = None, dl_remaining = remaining, dl_twins = [], dl_nodes = [], dl_ips = []\<rparr>"
  by (simp add: deleteMachineNetwork_def)

lemma finish_none: "dl_network s = None \<Longrightarrow> finish_deletion e d node_id before s = Inr (share_network None (dl_twins s))"
  by (simp add: finish_deletion_def)

text \<open>
  naming workloads of which none is a machine deletes nothing as long as another workload is
  left: the update that would remove them is only sent along with a WireGuard network.
\<close>

theorem delete_without_machine_is_lost:
  assumes "WT_network \<notin> set types" and "WT_networklight \<notin> set types"
    and "getNodeIdFromContractId (e_grid e) (contract_arg (dp_contract_id d0)) = Inr node_id"
    and "fromObj (e_valid e) d0 = Inr d"
    and "filterWorkloads (dp_workloads d) names types = Inr (rem, [])"
  shows "delete_workloads e d0 names types = Inr (if rem = [] then [twin d Op_delete None] else [])"
  using assms by (simp add: delete_workloads_def delete_machines_none finish_none share_network_def)

text \<open>
  Every twin deployment collected is a deletion or an update; the network is shared.
\<close>

definition deletes_only :: "TwinDeployment list \<Rightarrow> bool" where
  "deletes_only tds \<longleftrightarrow> (\<forall>t \<in> set tds. td_operation t \<noteq> Op_deploy)"

lemma deletes_only_simps [simp]:
  "deletes_only []" "deletes_only (a @ b) \<longleftrightarrow> deletes_only a \<and> deletes_only b"
  "deletes_only [t] \<longleftrightarrow> td_operation t \<noteq> Op_deploy" "deletes_only (share_network net tds) = deletes_only tds"
  by (auto simp: deletes_only_def share_network_def)

abbreviation twins_ok :: "deletion \<Rightarrow> bool" where
  "twins_ok s \<equiv> deletes_only (dl_twins s)"

lemma twin_sel [simp]: "td_operation (twin d oper net) = oper" "td_network (twin d oper net) = net"
  by (simp_all add: twin_def)

lemma preservesE_result: "preservesE I m \<Longrightarrow> m s = (r, t) \<Longrightarrow> I s \<Longrightarrow> I t"
  unfolding preservesE_def by (metis snd_conv)

lemma drop_from_network_ok: "preservesE twins_ok (drop_from_network e net c)"
  unfolding drop_from_network_def drop_from_deployment_def
  by (intro preservesE_iterE preservesE_bindE preservesE_liftE)
     (auto intro!: preservesE_modifyE simp: push_twin_def)

lemma drop_node_ok: "preservesE twins_ok (drop_node e d i ip net)"
  unfolding drop_node_def
  by (intro preservesE_bindE preservesE_liftE)
     (auto intro!: preservesE_modifyE preservesE_bindE drop_from_network_ok
        simp: push_twin_def set_network_def split: option.split)

lemma delete_machine_ok: "preservesE twins_ok (delete_machine e d i w)"
  unfolding delete_machine_def
  by (intro preservesE_bindE preservesE_getE)
     (auto intro!: preservesE_modifyE preservesE_bindE drop_node_ok
        simp: push_twin_def set_network_def keep_ip_def Let_def split: option.split)

lemma deleteMachineNetwork_ok:
  assumes "deleteMachineNetwork e d remaining deleted i = Inr s"
  shows "twins_ok s"
proof -
  have "preservesE twins_ok (iterE (delete_machine e d i) deleted)"
    by (rule preservesE_iterE) (rule delete_machine_ok)
  moreover from assms have "iterE (delete_machine e d i) deleted
       \<lparr>dl_network = None, dl_remaining = remaining, dl_twins = [], dl_nodes = [], dl_ips = []\<rparr> = (Inr (), s)"
    by (auto simp: deleteMachineNetwork_def split: prod.splits sum.splits)
  ultimately show ?thesis by (rule preservesE_result) simp
qed

lemma finish_deletion_ok:
  assumes "finish_deletion e d i before s = Inr tds" and "twins_ok s"
  shows "deletes_only tds \<and> (\<exists>net. \<forall>t \<in> set tds. td_network t = net)"
  using assms
  by (auto simp: finish_deletion_def Let_def split: option.splits any_network.splits if_splits prod.splits sum.splits)
     (auto simp: share_network_def)

text \<open>
  deleting workloads never deploys anything, and all its twin deployments share one network
  object (or none).
\<close>

theorem deletion_never_deploys:
  assumes "delete_workloads e d names types = Inr tds"
  shows "(\<forall>t \<in> set tds. td_operation t = Op_delete \<or> td_operation t = Op_update)
     \<and> (\<exists>net. \<forall>t \<in> set tds. td_network t = net)"
proof -
  from assms obtain i d' remaining deleted s tds' where r: "deleteMachineNetwork e d' remaining deleted i = Inr s"
    "finish_deletion e d' i (length (dp_workloads d)) s = Inr tds'"
    "tds = (if remaining = [] \<and> deleted = [] then [twin d' Op_delete None] else []) @ tds'"
    by (auto simp: delete_workloads_def bindR_Inr split: if_splits)
  have t: "deletes_only tds' \<and> (\<exists>net. \<forall>t \<in> set tds'. td_network t = net)"
    using finish_deletion_ok [OF r(2) deleteMachineNetwork_ok [OF r(1)]] .
  have "tds' = []" if "remaining = []" "deleted = []"
    using r(1,2) that by (auto simp: delete_machines_none finish_deletion_def share_network_def)
  moreover have "op \<noteq> Op_deploy \<longleftrightarrow> op = Op_delete \<or> op = Op_update" for op
    by (cases op) simp_all
  moreover from t obtain net where "\<forall>t \<in> set tds'. td_network t = net" by blast
  moreover have "(\<forall>t \<in> set tds'. td_operation t = Op_delete \<or> td_operation t = Op_update)"
    using t calculation(2) by (simp add: deletes_only_def)
  ultimately show ?thesis using r(3)
    by (cases "remaining = [] \<and> deleted = []") auto
qed

end
