(* ===== verification/Examples.thy ===== *)
theory Examples
  imports NodesFacts PeerFacts HighLevelProps
begin

text \<open>
  The properties of signing, of the node checks, of the factory and of deletions at concrete
  inputs.
\<close>

subsection \<open>Signing\<close>

lemma demo_ring_m: "demo_ring ''m'' kt bs = Inr (rev bs)"
  by (simp add: demo_ring_def)

theorem sign_signatures_witness:
  "\<exists>d'. sign (\<lambda>s. ''ab'') demo_ring 7 ''m'' KP_ed25519 [] demo_deployment = Inr d'
     \<and> length (signatures_of d') = length (signatures_of demo_deployment) + 1"
  using sign_signatures [of demo_ring "''m''" KP_ed25519 "\<lambda>s. ''ab''" demo_deployment _ 7] demo_ring_m
  by blast

lemma demo_valid: "valid_Deployment (e_valid demo_env) demo_deployment"
  by (simp add: valid_Deployment_def demo_deployment_def valid_SignatureRequirement_def)

theorem sign_keeps_valid_witness:
  "\<exists>d'. sign (\<lambda>s. ''ab'') demo_ring 7 ''m'' KP_ed25519 [] demo_deployment = Inr d'
     \<and> valid_Deployment (e_valid demo_env) d'"
proof (rule sign_keeps_valid [OF demo_valid])
  show "demo_ring ''m'' KP_ed25519 (from_hex (challenge_hash (\<lambda>s. ''ab'') demo_deployment)) = Inr [0xab]"
    by (simp add: demo_ring_m challenge_hash_def parse_pair_def hex_value_def is_hex_digit_def is_digit_def)
qed simp_all

definition demo_machine :: "string \<Rightarrow> int \<Rightarrow> Zmachine" where
  "demo_machine ip cpu = \<lparr>vm_flist = ''f'', vm_network = \<lparr>zmn_public_ip = [],
       zmn_interfaces = [\<lparr>if_network = ''net'', if_ip = ip\<rparr>], zmn_planetary = False, zmn_mycelium = None\<rparr>,
     vm_size = 0, vm_compute_capacity = \<lparr>cc_cpu = cpu, cc_memory = 1024 ^ 3\<rparr>, vm_mounts = [],
     vm_entrypoint = [], vm_env = [(''A'', ''1''), (''B'', ''2'')], vm_corex = False, vm_gpu = None\<rparr>"

theorem zmachine_env_order_witness:
  "Zmachine_challenge ((demo_machine ''10.1.2.3'' 1)\<lparr>vm_env := [(''B'', ''2''), (''A'', ''1'')]\<rparr>)
     = Zmachine_challenge (demo_machine ''10.1.2.3'' 1)"
  by (rule zmachine_env_order) (simp_all add: demo_machine_def)

subsection \<open>Nodes\<close>

definition pool_api :: grid_api where
  "pool_api = demo_api\<lparr>rmb_pools := \<lambda>_. Inr [\<lparr>sp_type = SSD, sp_size = 10, sp_used = 4\<rparr>,
      \<lparr>sp_type = HDD, sp_size = 20, sp_used = 0\<rparr>]\<rparr>"

lemma pool_verified: "verifyNodeStoragePoolCapacity pool_api [2, 3] [15] [1] 11 = Inr True"
  by (simp add: verifyNodeStoragePoolCapacity_def pool_api_def demo_api_def getNodeTwinId_def prefixing_def
      free_pools_def verify_fit_def fitDisksInDisksPool_def fitDisk_def bindE_app sortArrayDesc_def)

theorem verify_pools_sound_witness:
  "True \<and> packing [6] [2, 3, 1] \<and> packing [20] [15]"
proof -
  have t: "getNodeTwinId pool_api 11 = Inr 3"
    by (simp add: getNodeTwinId_def pool_api_def demo_api_def prefixing_def)
  have p: "rmb_pools pool_api 3 = Inr [\<lparr>sp_type = SSD, sp_size = 10, sp_used = 4\<rparr>,
      \<lparr>sp_type = HDD, sp_size = 20, sp_used = 0\<rparr>]" by (simp add: pool_api_def)
  from verify_pools_sound [OF t p _ pool_verified] show ?thesis by (simp add: free_pools_def)
qed

theorem access_nodes_found_witness:
  "\<exists>r. Nodes.getAccessNodes demo_api (\<lambda>_. Some False) 2 None = Some r"
proof -
  have "filterNodes demo_api (access_filter None 1) = Inr []"
    by (simp add: filterNodes_def demo_api_def)
  then show ?thesis
    using access_nodes_found [of demo_api None 1 2 "\<lambda>_. Some False"] by auto
qed

theorem query_string_splits_back_witness:
  "map (split_on (CHR ''='')) (split_on (CHR ''&'') (convertObjectToQueryString [(''a'', JStr ''&''), (''b'', JUndef)]))
     = [[encodeURIComponent ''a'', encodeURIComponent ''&'']]"
  by (subst query_string_splits_back) (simp_all add: kept_params_def)

subsection \<open>Updating a machine\<close>

definition demo_vm :: "string \<Rightarrow> int \<Rightarrow> Workload" where
  "demo_vm ip cpu = workload 0 ''vm'' WT_zmachine (D_zmachine (demo_machine ip cpu)) [] []"

lemma demo_vm_sel [simp]:
  "wl_name (demo_vm ip cpu) = ''vm''" "wl_type (demo_vm ip cpu) = WT_zmachine"
  "wl_version (demo_vm ip cpu) = 0" "machine_ip (wl_data (demo_vm ip cpu)) = Some ip"
  "(demo_vm ip cpu)\<lparr>wl_version := 0\<rparr> = demo_vm ip cpu"
  by (simp_all add: demo_vm_def workload_def demo_machine_def)

lemma demo_vm_updated:
  "UpdateDeployment demo_api (\<lambda>_ _ n. n) (demo_with [demo_vm ''3'' 1]) (demo_with [demo_vm ''4'' 2]) (Some (0 :: nat))
   = Inr (Some (demo_with [updated_workload 0 (demo_vm ''3'' 1) (demo_vm ''3'' 2)]), Some 0)"
proof -
  have s: "(demo_vm ''4'' 2)\<lparr>wl_data := set_machine_ip ''3'' (wl_data (demo_vm ''4'' 2))\<rparr> = demo_vm ''3'' 2"
    by (simp add: demo_vm_def workload_def demo_machine_def set_first_ip_def)
  have c: "Workload_challenge (demo_vm ''3'' 2) \<noteq> Workload_challenge (demo_vm ''3'' 1)"
    by (simp add: Workload_challenge_def demo_vm_def workload_def Zmachine_challenge_def demo_machine_def
        ComputeCapacity_challenge_def)
  show ?thesis
    by (simp add: UpdateDeployment_def keep_machine_ip_def demo_node Let_def s c)
qed

theorem update_keeps_machine_ip_witness:
  "machine_ip (wl_data (updated_workload 0 (demo_vm ''3'' 1) (demo_vm ''3'' 2))) = machine_ip (wl_data (demo_vm ''3'' 1))"
proof -
  have "mergeable (dp_version (demo_with [demo_vm ''3'' 1])) (dp_workloads (demo_with [demo_vm ''4'' 2]))
      (dp_workloads (demo_with [demo_vm ''3'' 1]))"
    by (simp add: mergeable_def ips_known_def)
  from update_keeps_machine_ip [OF this demo_node demo_vm_updated] show ?thesis
    by (simp add: updated_workload_def)
qed

subsection \<open>Deletions\<close>

lemma disk_sel [simp]:
  "wl_type (demo_disk n g) = WT_zmount" "wl_name (demo_disk n g) = n"
  by (simp_all add: demo_disk_def Disk_create_def)

lemma demo_filtered:
  "filterWorkloads (dp_workloads (demo_with [demo_disk ''a'' 1, demo_disk ''b'' 1])) [''a''] vm_types = Inr ([demo_disk ''b'' 1], [])"
  by (simp add: filterWorkloads_def select_type_def vm_types_def remains_def is_network_def)

theorem filter_workloads_split_witness:
  "subseq [demo_disk ''b'' 1] (dp_workloads (demo_with [demo_disk ''a'' 1, demo_disk ''b'' 1]))"
  using filter_workloads_split [OF demo_filtered] by blast

definition demo_log :: Workload where
  "demo_log = Zlogs_create ''vm'' ''redis'' [] [] 0"

text \<open>A reader that does not insist on decorators, and a machine with its log.\<close>

definition lenient :: recognisers where
  "lenient = (e_valid demo_env)\<lparr>forbid_unknown := False\<rparr>"

definition logged :: Deployment where
  "logged = exposed_deployment (demo_with [demo_vm ''3'' 1, demo_log])"

lemma logged_valid: "fromObj lenient (demo_with [demo_vm ''3'' 1, demo_log]) = Inr logged"
proof -
  have "valid_Deployment lenient logged"
    by (simp add: valid_Deployment_def logged_def exposed_deployment_def demo_with_def create_deployment_def
        valid_SignatureRequirement_def valid_SignatureRequest_def exposed_workload_def demo_vm_def
        demo_log_def Zlogs_create_def workload_def valid_Workload_def not_empty_def lenient_def demo_env_def
        valid_Zmachine_def demo_machine_def valid_ZmachineNetwork_def valid_interface_def
        valid_MyceliumIP_def valid_ComputeCapacity_def unit_defs)
  then show ?thesis by (simp add: fromObj_Inr logged_def)
qed

lemma logged_workloads: "dp_workloads logged = [demo_vm ''3'' 1, exposed_workload demo_log]"
  by (simp add: logged_def exposed_deployment_def demo_vm_def exposed_workload_def workload_def)

lemma logged_filtered:
  "filterWorkloads (dp_workloads logged) [''vm''] vm_types = Inr ([exposed_workload demo_log], [demo_vm ''3'' 1])"
  by (simp add: logged_workloads filterWorkloads_def select_type_def select_machine_def vm_types_def remains_def
      is_network_def demo_vm_def demo_log_def Zlogs_create_def workload_def demo_machine_def machine_logs_def machine_field_def)

theorem logs_stay_witness:
  "\<exists>remaining deleted. filterWorkloads (dp_workloads logged) [''vm''] vm_types = Inr (remaining, deleted)
     \<and> exposed_workload demo_log \<in> set remaining \<and> demo_vm ''3'' 1 \<in> set deleted"
proof -
  have "exposed_workload demo_log \<in> set [exposed_workload demo_log]"
    by (rule logs_stay [OF logged_valid logged_filtered])
       (auto simp: logged_workloads demo_log_def Zlogs_create_def workload_def demo_vm_def demo_machine_def)
  with logged_filtered show ?thesis by auto
qed

lemma demo_env_grid [simp]: "e_grid demo_env = demo_api"
  by (simp add: demo_env_def)

lemma demo_fromObj: "fromObj (e_valid demo_env) (demo_with [demo_disk ''a'' 1, demo_disk ''b'' 1])
    = Inr (demo_with [demo_disk ''a'' 1, demo_disk ''b'' 1])"
  by (simp add: fromObj_Inr exposed_deployment_def exposed_workload_def valid_Deployment_def demo_with_def create_deployment_def
      valid_SignatureRequirement_def valid_SignatureRequest_def demo_disk_def Disk_create_def
      valid_Workload_def workload_def valid_Zmount_def gb_bytes_def not_empty_def MB_def GB_def TB_def)

theorem delete_without_machine_is_lost_witness:
  "delete_workloads demo_env (demo_with [demo_disk ''a'' 1, demo_disk ''b'' 1]) [''a''] vm_types = Inr []"
  by (subst delete_without_machine_is_lost [OF _ _ _ demo_fromObj demo_filtered])
     (simp_all add: vm_types_def demo_node)

theorem deletion_never_deploys_witness:
  "\<exists>tds. delete_workloads demo_env (demo_with []) [] all_types = Inr tds \<and> tds \<noteq> []
     \<and> (td_operation (hd tds) = Op_delete \<or> td_operation (hd tds) = Op_update)"
proof -
  have "fromObj (e_valid demo_env) (demo_with []) = Inr (demo_with [])"
    by (simp add: fromObj_Inr exposed_deployment_def valid_Deployment_def demo_with_def create_deployment_def
        valid_SignatureRequirement_def valid_SignatureRequest_def)
  then have "delete_workloads demo_env (demo_with []) [] all_types = Inr [twin (demo_with []) Op_delete None]"
    by (simp add: delete_workloads_def all_types_def demo_node filterWorkloads_all delete_machines_none
        finish_none share_network_def)
  with deletion_never_deploys [OF this] show ?thesis by (intro exI [of _ "[twin (demo_with []) Op_delete None]"]) simp
qed

end
