(* ===== verification/HandlerProps.thy ===== *)
theory HandlerProps
  imports TwinHandler NetworkProps
begin

text \<open>
  Properties of the deployment handler: what merging keeps, when waiting ends, that enough public
  addresses are left, which contract a deployment is sent with, and what a failure undoes.
\<close>

lemma on_client_original [simp]: "hw_original (snd (on_client m w)) = hw_original w"
  by (simp add: on_client_def split: prod.splits)

lemma ask_app [simp]: "ask f w = (f (cl_chain (hw_client w)), w)"
  by (simp add: ask_def)

lemma act_original [simp]: "hw_original (snd (act f w)) = hw_original w"
  by (simp add: act_def split: prod.splits)

subsection \<open>Merging deletions\<close>

lemma js_dedup_from_cong: "set S = set T \<Longrightarrow> js_dedup_from S xs = js_dedup_from T xs"
proof (induction xs arbitrary: S T)
  case (Cons x xs)
  have "set (x # S) = set (x # T)" using Cons.prems by simp
  from Cons.IH [OF this] Cons.IH [OF Cons.prems] Cons.prems show ?case by simp
qed simp

lemma mergeDelete_from_ids:
  "map (\<lambda>td. dp_contract_id (td_deployment td)) (mergeDelete_from seen tds)
     = js_dedup_from seen (map (\<lambda>td. dp_contract_id (td_deployment td)) tds)"
proof (induction tds arbitrary: seen)
  case (Cons td tds)
  have "js_dedup_from (seen @ [c]) xs = js_dedup_from (c # seen) xs" for xs and c :: "int option"
    by (rule js_dedup_from_cong) simp
  with Cons.IH show ?case by (simp add: Let_def)
qed simp

lemma subseq_mergeDelete_from: "subseq (mergeDelete_from seen tds) tds"
  by (induction seen tds rule: mergeDelete_from.induct) (auto simp: Let_def)

text \<open>
  \<open>mergeDelete\<close> keeps, in order, the first deletion of each contract: every contract asked to be
  deleted is deleted exactly once.
\<close>

theorem merge_delete_once:
  "subseq (mergeDelete tds) tds
   \<and> distinct (map (\<lambda>td. dp_contract_id (td_deployment td)) (mergeDelete tds))
   \<and> (\<lambda>td. dp_contract_id (td_deployment td)) ` set (mergeDelete tds)
       = (\<lambda>td. dp_contract_id (td_deployment td)) ` set tds"
proof -
  have "map (\<lambda>td. dp_contract_id (td_deployment td)) (mergeDelete tds)
      = js_dedup (map (\<lambda>td. dp_contract_id (td_deployment td)) tds)"
    by (simp add: mergeDelete_def mergeDelete_from_ids js_dedup_def)
  then show ?thesis
    using subseq_mergeDelete_from [of "[]" tds]
    by (metis distinct_js_dedup list.set_map mergeDelete_def set_js_dedup)
qed

subsection \<open>Merging deployments\<close>

abbreviation workloads_of :: "TwinDeployment \<Rightarrow> Workload list" where
  "workloads_of td \<equiv> dp_workloads (td_deployment td)"

definition all_workloads :: "TwinDeployment list \<Rightarrow> Workload multiset" where
  "all_workloads tds = mset (concat (map workloads_of tds))"

lemma all_workloads_simps [simp]:
  "all_workloads [] = {#}" "all_workloads (td # tds) = mset (workloads_of td) + all_workloads tds"
  "all_workloads (xs @ ys) = all_workloads xs + all_workloads ys"
  by (simp_all add: all_workloads_def)

lemma all_workloads_split:
  "all_workloads tds = all_workloads (filter P tds) + all_workloads (filter (\<lambda>td. \<not> P td) tds)"
  by (induction tds) (simp_all add: ac_simps)

lemma all_workloads_perm: "mset xs = mset ys \<Longrightarrow> all_workloads xs = all_workloads ys"
  by (simp add: all_workloads_def mset_concat flip: sum_mset_sum_list)

lemma all_workloads_obj_set_new:
  "map_of ob k = None \<Longrightarrow> all_workloads (map snd (obj_set k td ob)) = all_workloads (map snd ob) + mset (workloads_of td)"
  by (induction k td ob rule: obj_set.induct) (auto simp: ac_simps split: if_splits)

lemma all_workloads_obj_set_old:
  "map_of ob k = Some old \<Longrightarrow> all_workloads (map snd (obj_set k td ob)) + mset (workloads_of old)
     = all_workloads (map snd ob) + mset (workloads_of td)"
  by (induction k td ob rule: obj_set.induct) (auto simp: ac_simps split: if_splits)

lemma merge_into_step:
  assumes "distinct (map fst ob)"
  shows "distinct (map fst (merge_into td ob))"
    "all_workloads (map snd (merge_into td ob)) = all_workloads (map snd ob) + mset (workloads_of td)"
proof -
  show "distinct (map fst (merge_into td ob))"
    using assms by (simp add: merge_into_def Let_def split: option.splits)
  show "all_workloads (map snd (merge_into td ob)) = all_workloads (map snd ob) + mset (workloads_of td)"
  proof (cases "map_of ob (show_int (td_nodeId td))")
    case None
    then show ?thesis by (simp add: merge_into_def Let_def all_workloads_obj_set_new)
  next
    case (Some first)
    from all_workloads_obj_set_old [OF this, of "add_workloads (workloads_of td) first"] Some
    show ?thesis by (simp add: merge_into_def Let_def add_workloads_def)
  qed
qed

lemma merge_into_fold:
  "distinct (map fst ob) \<Longrightarrow> distinct (map fst (fold merge_into tds ob))
   \<and> all_workloads (map snd (fold merge_into tds ob)) = all_workloads (map snd ob) + all_workloads tds"
proof (induction tds arbitrary: ob)
  case (Cons td tds)
  from Cons.IH [OF merge_into_step(1) [OF Cons.prems, of td]] merge_into_step(2) [OF Cons.prems, of td]
  show ?case by (simp add: ac_simps)
qed simp

lemma mset_obj_keys: "mset (obj_keys ob) = mset (map fst ob)"
  by (simp add: obj_keys_def mset_filter del: mset_map)

lemma mset_obj_values: "distinct (map fst ob) \<Longrightarrow> mset (obj_values ob) = mset (map snd ob)"
proof -
  assume d: "distinct (map fst ob)"
  have "mset (obj_values ob) = image_mset (\<lambda>k. the (map_of ob k)) (mset (map fst ob))"
    by (simp add: obj_values_def mset_obj_keys)
  also have "\<dots> = mset (map (\<lambda>p. the (map_of ob (fst p))) ob)" by (simp add: multiset.map_comp o_def)
  also have "map (\<lambda>p. the (map_of ob (fst p))) ob = map snd ob"
    using d by (auto intro!: map_cong)
  finally show ?thesis .
qed

lemma deployMerge_workloads:
  "all_workloads (deployMerge tds) = all_workloads (filter (\<lambda>td. td_operation td = Op_deploy) tds)"
proof -
  let ?ds = "filter (\<lambda>td. td_operation td = Op_deploy) tds"
  let ?ob = "fold merge_into (filter (\<lambda>td. \<not> stands_alone td) ?ds) []"
  have ob: "distinct (map fst ?ob)" "all_workloads (map snd ?ob) = all_workloads (filter (\<lambda>td. \<not> stands_alone td) ?ds)"
    using merge_into_fold [of "[]" "filter (\<lambda>td. \<not> stands_alone td) ?ds"] by simp_all
  have "all_workloads (obj_values ?ob) = all_workloads (map snd ?ob)"
    by (rule all_workloads_perm) (rule mset_obj_values [OF ob(1)])
  with ob(2) show ?thesis
    using all_workloads_split [of ?ds stands_alone] by (simp add: deployMerge_def Let_def)
qed

lemma merge_into_nodes:
  assumes "\<forall>p \<in> set ob. fst p = show_int (td_nodeId (snd p))"
  shows "\<forall>p \<in> set (merge_into td ob). fst p = show_int (td_nodeId (snd p))"
proof -
  have set_obj: "set (obj_set k v xs) \<subseteq> insert (k, v) (set xs)" for k v and xs :: "TwinDeployment js_object"
    by (induction k v xs rule: obj_set.induct) auto
  show ?thesis
    using assms set_obj by (fastforce simp: merge_into_def Let_def add_workloads_def split: option.splits dest: map_of_SomeD)
qed

lemma merge_into_fold_nodes:
  "\<forall>p \<in> set ob. fst p = show_int (td_nodeId (snd p)) \<Longrightarrow>
   \<forall>p \<in> set (fold merge_into tds ob). fst p = show_int (td_nodeId (snd p))"
proof (induction tds arbitrary: ob)
  case (Cons td tds)
  from Cons.IH [OF merge_into_nodes [OF Cons.prems]] show ?case by simp
qed simp

text \<open>
  C5: \<open>deployMerge\<close> deploys exactly the workloads it was given (as a multiset), and what it merged
  is one deployment per node.
\<close>

theorem deploy_merge_keeps_workloads:
  "all_workloads (deployMerge tds) = all_workloads (filter (\<lambda>td. td_operation td = Op_deploy) tds)
   \<and> (\<exists>alone merged. deployMerge tds = alone @ merged \<and> list_all stands_alone alone
        \<and> distinct (map td_nodeId merged))"
proof
  show "all_workloads (deployMerge tds) = all_workloads (filter (\<lambda>td. td_operation td = Op_deploy) tds)"
    by (rule deployMerge_workloads)
  let ?ds = "filter (\<lambda>td. td_operation td = Op_deploy) tds"
  let ?ob = "fold merge_into (filter (\<lambda>td. \<not> stands_alone td) ?ds) []"
  have d: "distinct (map fst ?ob)" using merge_into_fold [of "[]"] by simp
  have n: "\<forall>p \<in> set ?ob. fst p = show_int (td_nodeId (snd p))"
    by (rule merge_into_fold_nodes) simp
  have "map (\<lambda>td. show_int (td_nodeId td)) (obj_values ?ob) = obj_keys ?ob"
  proof -
    have "show_int (td_nodeId (the (map_of ?ob k))) = k" if "k \<in> set (obj_keys ?ob)" for k
    proof -
      from that have "k \<in> fst ` set ?ob" by simp
      then obtain v where "map_of ?ob k = Some v" by (metis map_of_eq_None_iff not_None_eq)
      with n show ?thesis by (force dest: map_of_SomeD)
    qed
    then show ?thesis by (auto simp: obj_values_def intro!: map_idI)
  qed
  then have "distinct (map (\<lambda>td. show_int (td_nodeId td)) (obj_values ?ob))"
    using distinct_obj_keys [OF d] by simp
  then have "distinct (map td_nodeId (obj_values ?ob))"
    by (auto simp: distinct_map inj_on_def)
  then show "\<exists>alone merged. deployMerge tds = alone @ merged \<and> list_all stands_alone alone \<and> distinct (map td_nodeId merged)"
    by (intro exI [of _ "filter stands_alone ?ds"] exI [of _ "obj_values ?ob"])
       (simp add: deployMerge_def Let_def list_all_iff)
qed


subsection \<open>Merging updates\<close>

lemma latest_fold:
  "foldl (\<lambda>w x. if wl_version w < wl_version x then x else w) w0 ws \<in> insert w0 (set ws)
   \<and> (\<forall>x \<in> insert w0 (set ws). wl_version x \<le> wl_version (foldl (\<lambda>w x. if wl_version w < wl_version x then x else w) w0 ws))"
proof (induction ws arbitrary: w0)
  case (Cons x ws)
  show ?case
    using Cons.IH [of "if wl_version w0 < wl_version x then x else w0"] by (auto split: if_splits)
qed simp

lemma latest_greatest: "ws \<noteq> [] \<Longrightarrow> latest ws \<in> set ws \<and> (\<forall>w \<in> set ws. wl_version w \<le> wl_version (latest ws))"
  unfolding latest_def using latest_fold [of "hd ws" ws] by (auto simp: insert_absorb)

definition grouped :: "Workload list js_object \<Rightarrow> bool" where
  "grouped ob \<longleftrightarrow> distinct (map fst ob) \<and> (\<forall>k ws. map_of ob k = Some ws \<longrightarrow> ws \<noteq> [] \<and> (\<forall>w \<in> set ws. wl_name w = k))"

lemma grouped_push: "grouped ob \<Longrightarrow> grouped (push_to (wl_name w) w ob)"
  unfolding grouped_def push_to_def by (auto split: option.splits if_splits)

lemma push_to_lookup:
  "map_of (push_to k v ob) m = (if m = k then Some ((case map_of ob k of Some vs \<Rightarrow> vs | None \<Rightarrow> []) @ [v]) else map_of ob m)"
  by (simp add: push_to_def split: option.splits)

lemma group_fold:
  "grouped ob \<Longrightarrow> grouped (fold (\<lambda>w. push_to (wl_name w) w) ws ob)
   \<and> (\<forall>k. (case map_of (fold (\<lambda>w. push_to (wl_name w) w) ws ob) k of Some vs \<Rightarrow> vs | None \<Rightarrow> [])
        = (case map_of ob k of Some vs \<Rightarrow> vs | None \<Rightarrow> []) @ filter (\<lambda>w. wl_name w = k) ws)"
proof (induction ws arbitrary: ob)
  case (Cons w ws)
  from Cons.IH [OF grouped_push [OF Cons.prems, of w]] show ?case
    by (auto simp: push_to_lookup)
qed simp

definition named :: "TwinDeployment list \<Rightarrow> string \<Rightarrow> Workload list" where
  "named tds n = filter (\<lambda>w. wl_name w = n) (concat (map workloads_of tds))"

definition grouped_workloads :: "TwinDeployment list \<Rightarrow> Workload list js_object" where
  "grouped_workloads tds = fold (\<lambda>w. push_to (wl_name w) w) (concat (map workloads_of tds)) []"

lemma grouped_workloads:
  "grouped (grouped_workloads tds)"
  "map_of (grouped_workloads tds) n = (if named tds n = [] then None else Some (named tds n))"
proof -
  have g: "grouped []" by (simp add: grouped_def)
  from group_fold [OF g, of "concat (map workloads_of tds)"]
  show gg: "grouped (grouped_workloads tds)"
    by (simp add: grouped_workloads_def)
  have "(case map_of (grouped_workloads tds) n of Some vs \<Rightarrow> vs | None \<Rightarrow> []) = named tds n"
    using group_fold [OF g, of "concat (map workloads_of tds)"] by (simp add: grouped_workloads_def named_def)
  with gg show "map_of (grouped_workloads tds) n = (if named tds n = [] then None else Some (named tds n))"
    by (auto simp: grouped_def split: option.splits)
qed

text \<open>
  C6: merging several updates of one contract raises its version by one and keeps, for each workload
  name, the newest version there is; a name is left out exactly when some update dropped it and it
  is not new in the first one.
\<close>

theorem update_to_latest:
  assumes "updateToLatest (d # d' # tds) = Some m"
  shows "dp_version (td_deployment m) = dp_version (td_deployment d) + 1
    \<and> distinct (map wl_name (workloads_of m))
    \<and> (\<forall>w \<in> set (workloads_of m). w \<in> set (named (d # d' # tds) (wl_name w))
         \<and> (\<forall>x \<in> set (named (d # d' # tds) (wl_name w)). wl_version x \<le> wl_version w))
    \<and> (\<forall>n. n \<in> wl_name ` set (workloads_of m) \<longleftrightarrow> named (d # d' # tds) n \<noteq> []
         \<and> (length (named (d # d' # tds) n) < length (d # d' # tds) \<longrightarrow>
              dp_version (td_deployment d) < wl_version (hd (named (d # d' # tds) n))))"
proof -
  let ?ts = "d # d' # tds"
  let ?ob = "grouped_workloads ?ts"
  let ?keep = "\<lambda>ws. \<not> (length ws < length ?ts \<and> wl_version (hd ws) \<le> dp_version (td_deployment d))"
  have m: "workloads_of m = map latest (filter ?keep (obj_values ?ob))"
      "dp_version (td_deployment m) = dp_version (td_deployment d) + 1"
    using assms by (auto simp: updateToLatest_def Let_def grouped_workloads_def)
  have g: "grouped ?ob" and lk: "\<And>n. map_of ?ob n = (if named ?ts n = [] then None else Some (named ?ts n))"
    by (rule grouped_workloads)+
  have keys: "set (obj_keys ?ob) = {n. named ?ts n \<noteq> []}"
  proof -
    have "n \<in> fst ` set ?ob \<longleftrightarrow> map_of ?ob n \<noteq> None" for n by (simp add: map_of_eq_None_iff)
    then have "n \<in> set (obj_keys ?ob) \<longleftrightarrow> named ?ts n \<noteq> []" for n
      unfolding set_obj_keys lk by simp
    then show ?thesis by blast
  qed
  have vals: "obj_values ?ob = map (named ?ts) (obj_keys ?ob)"
    unfolding obj_values_def using keys by (auto simp: lk)
  have nm: "wl_name (latest (named ?ts n)) = n" if "named ?ts n \<noteq> []" for n
    using latest_greatest [OF that] by (auto simp: named_def)
  let ?ns = "filter (\<lambda>n. ?keep (named ?ts n)) (obj_keys ?ob)"
  have ws: "workloads_of m = map (\<lambda>n. latest (named ?ts n)) ?ns"
    unfolding m(1) vals by (simp add: filter_map o_def)
  have names: "map wl_name (workloads_of m) = ?ns"
    unfolding ws using keys nm by (auto intro!: map_idI)
  have "distinct (obj_keys ?ob)" using g by (auto simp: grouped_def intro: distinct_obj_keys)
  then have dist: "distinct (map wl_name (workloads_of m))" unfolding names by simp
  have latest: "w \<in> set (named ?ts (wl_name w)) \<and> (\<forall>x \<in> set (named ?ts (wl_name w)). wl_version x \<le> wl_version w)"
    if "w \<in> set (workloads_of m)" for w
  proof -
    from that obtain n where n: "named ?ts n \<noteq> []" "w = latest (named ?ts n)" unfolding ws using keys by auto
    with nm latest_greatest [OF n(1)] show ?thesis by simp
  qed
  have "wl_name ` set (workloads_of m) = set ?ns" using names by (metis list.set_map)
  then have mem: "n \<in> wl_name ` set (workloads_of m) \<longleftrightarrow> named ?ts n \<noteq> []
         \<and> (length (named ?ts n) < length ?ts \<longrightarrow> dp_version (td_deployment d) < wl_version (hd (named ?ts n)))" for n
    using keys by auto
  show ?thesis using m(2) dist latest mem by blast
qed

subsection \<open>Waiting\<close>

lemma count_ready_bound: "count_ready node ts ws = Inr n \<Longrightarrow> n \<le> length ws"
  by (induction ws arbitrary: n) (auto simp: bindR_Inr)

lemma count_ready_all:
  "count_ready node ts ws = Inr (length ws) \<Longrightarrow>
   \<forall>w \<in> set ws. \<exists>t r. t \<in> set ts \<and> wl_name t = wl_name w \<and> wl_version t = wl_version w
      \<and> wl_result w = Some r \<and> res_state r = RS_ok"
proof (induction ws)
  case (Cons w ws)
  then obtain ok n where s: "(case find (\<lambda>t. wl_name t = wl_name w) ts of None \<Rightarrow> Inr False
        | Some t \<Rightarrow> checkWorkload w t node) = Inr ok" "count_ready node ts ws = Inr n"
      "Suc (length ws) = (if ok then Suc n else n)"
    by (auto simp: bindR_Inr)
  from count_ready_bound [OF s(2)] s(3) have ok: "ok" "n = length ws" by (auto split: if_splits)
  from s(1) ok obtain t where "find (\<lambda>t. wl_name t = wl_name w) ts = Some t" "checkWorkload w t node = Inr True"
    by (auto split: option.splits)
  then have "t \<in> set ts \<and> wl_name t = wl_name w \<and> wl_version t = wl_version w \<and> (\<exists>r. wl_result w = Some r \<and> res_state r = RS_ok)"
    by (auto simp: checkWorkload_def find_Some_iff split: option.splits if_splits)
  with Cons.IH s(2) ok(2) show ?case by auto
qed simp

text \<open>
  C13: a deployment counts as ready only if the node reports as many workloads as were sent, each of
  them \<open>ok\<close>, and each at the version of the workload that was sent under its name.
\<close>

theorem ready_means_all_ok:
  assumes "ready node d target = Inr True"
  shows "length (dp_workloads d) = length (dp_workloads target)
    \<and> (\<forall>w \<in> set (dp_workloads d). \<exists>t r. t \<in> set (dp_workloads target) \<and> wl_name t = wl_name w
         \<and> wl_version t = wl_version w \<and> wl_result w = Some r \<and> res_state r = RS_ok)"
proof -
  from assms have l: "length (dp_workloads d) = length (dp_workloads target)"
      "count_ready node (dp_workloads target) (dp_workloads d) = Inr (length (dp_workloads d))"
    by (auto simp: ready_def bindR_Inr split: if_splits)
  from count_ready_all [OF l(2)] l(1) show ?thesis by simp
qed

text \<open>
  Time: asking a node does not turn the clock back, and a sleep advances it by two seconds.
\<close>

definition clock_laws :: "('a, 'c) handler_env \<Rightarrow> bool" where
  "clock_laws h \<longleftrightarrow> (\<forall>t i c. h_now h c \<le> h_now h (snd (h_get_deployment h t i c)))
     \<and> (\<forall>c. h_now h c + 2000 \<le> h_now h (h_sleep h c))"

definition time_of :: "('a, 'c) handler_env \<Rightarrow> 'c hworld \<Rightarrow> int" where
  "time_of h w = h_now h (cl_chain (hw_client w))"

lemma getDeployment_time:
  "clock_laws h \<Longrightarrow> time_of h w \<le> time_of h (snd (getDeployment h i w))"
  by (auto simp: getDeployment_def bindE_def act_def time_of_def clock_laws_def split: sum.splits prod.splits)
     (metis snd_conv)

lemma wait_loop_fuel:
  assumes "clock_laws h"
  shows "deadline - time_of h w < 2000 * int fuel \<Longrightarrow>
    wait_loop h (Suc fuel + k) deadline i node target w = wait_loop h (Suc fuel) deadline i node target w"
proof (induction fuel arbitrary: w)
  case 0
  then have "\<not> h_now h (cl_chain (hw_client w)) < deadline" by (simp add: time_of_def)
  then show ?case by (simp add: bindE_def)
next
  case (Suc fuel)
  show ?case
  proof (cases "getDeployment h i w")
    case (Pair r v)
    have v: "time_of h w \<le> time_of h v" using getDeployment_time [OF assms, of w i] Pair by simp
    let ?u = "v\<lparr>hw_client := (hw_client v)\<lparr>cl_chain := h_sleep h (cl_chain (hw_client v))\<rparr>\<rparr>"
    have "time_of h v + 2000 \<le> time_of h ?u" using assms by (simp add: clock_laws_def time_of_def)
    with v Suc.prems have "deadline - time_of h ?u < 2000 * int fuel" by simp
    from Suc.IH [OF this] Pair show ?thesis
      by (simp add: bindE_def act_def split: sum.splits)
  qed
qed

text \<open>
  C14: \<open>waitForDeployment\<close> ends: one round per two seconds until the deadline is fuel enough, and
  more fuel never changes the outcome.
\<close>

theorem wait_loop_ends:
  assumes "clock_laws h" and "deadline - time_of h w < 2000 * int fuel"
  shows "wait_loop h (Suc fuel + k) deadline i node target w = wait_loop h (Suc fuel) deadline i node target w"
  by (rule wait_loop_fuel [OF assms])

subsection \<open>Sending\<close>

lemma catchE_Inr: "catchE m k w = (Inr x, v) \<longleftrightarrow> m w = (Inr x, v) \<or> (\<exists>e u. m w = (Inl e, u) \<and> k e u = (Inr x, v))"
  by (auto simp: catchE_def split: prod.splits sum.splits)

lemma sendToNode_Inr:
  assumes "sendToNode h td w = (Inr td', v)"
  shows "sign_deployment h (td_deployment td) = Inr (td_deployment td')"
    "td' = td\<lparr>td_deployment := td_deployment td'\<rparr>" "hw_original v = hw_original w"
proof -
  from assms obtain d twin u where "sign_deployment h (td_deployment td) = Inr d"
      "act (h_request h twin (''zos.deployment.'' @ operation_name (td_operation td)) d) w = (Inr (), v)"
      "td' = td\<lparr>td_deployment := d\<rparr>"
    by (auto simp: sendToNode_def catchE_Inr bindE_Inr_iff)
  then show "sign_deployment h (td_deployment td) = Inr (td_deployment td')"
    "td' = td\<lparr>td_deployment := td_deployment td'\<rparr>" "hw_original v = hw_original w"
    by (auto simp: act_def split: prod.splits)
qed

lemma sign_deployment_challenge:
  "sign_deployment h d = Inr d' \<Longrightarrow> challenge_of h d' = challenge_of h d"
  by (auto simp: sign_deployment_def sign_Inr challenge_of_def challenge_hash_def)

lemma sign_deployment_contract: "sign_deployment h d = Inr d' \<Longrightarrow> dp_contract_id d' = dp_contract_id d"
  by (auto simp: sign_deployment_def sign_Inr add_signature_def Let_def)

lemma challenge_contract_id [simp]: "challenge_of h (d\<lparr>dp_contract_id := c\<rparr>) = challenge_of h d"
  by (simp add: challenge_of_def challenge_hash_def Deployment_challenge_def)

lemma find_contract_hash:
  "find_contract hash rs = Inr (Some (c, n)) \<Longrightarrow> R_contract c \<in> set rs \<and> ct_type c = CT_node n \<and> nc_deploymentHash n = hash"
  by (induction rs) (auto split: chain_result.splits ContractType.splits if_splits)

lemma sendToNode_request:
  assumes "sendToNode h td w = (Inr td', v)"
  shows "\<exists>twin. getNodeTwinId (h_grid h (cl_chain (hw_client w))) (td_nodeId td) = Inr twin
    \<and> h_request h twin (''zos.deployment.'' @ operation_name (td_operation td)) (td_deployment td') (cl_chain (hw_client w))
        = (Inr (), cl_chain (hw_client v))
    \<and> v = w\<lparr>hw_client := (hw_client w)\<lparr>cl_chain := cl_chain (hw_client v)\<rparr>\<rparr>"
proof -
  from assms obtain d twin where "getNodeTwinId (h_grid h (cl_chain (hw_client w))) (td_nodeId td) = Inr twin"
    "act (h_request h twin (''zos.deployment.'' @ operation_name (td_operation td)) d) w = (Inr (), v)"
    "td' = td\<lparr>td_deployment := d\<rparr>"
    by (auto simp: sendToNode_def catchE_Inr bindE_Inr_iff ask_def)
  then show ?thesis
    by (cases "h_request h twin (''zos.deployment.'' @ operation_name (td_operation td)) d (cl_chain (hw_client w))")
      (auto simp: act_def)
qed

text \<open>
  C1: a new deployment whose contract is on the chain is sent by one request to its node, and nothing
  else changes: what the node receives, and what is kept of it, has the id of the first contract on the
  chain whose hash is the hash of that very document, signature included.
\<close>

theorem deployment_sent_under_its_contract:
  assumes "send_one h results td (done', rc) w = (Inr (tds, rc'), v)" and "td_operation td = Op_deploy"
    and "find_contract (challenge_of h (td_deployment td)) results \<noteq> Inr None"
  shows "\<exists>td' c n twin. tds = done' @ [td']
     \<and> find_contract (challenge_of h (td_deployment td')) results = Inr (Some (c, n))
     \<and> R_contract c \<in> set results \<and> ct_type c = CT_node n
     \<and> nc_deploymentHash n = challenge_of h (td_deployment td')
     \<and> dp_contract_id (td_deployment td') = Some (ct_contractId c)
     \<and> getNodeTwinId (h_grid h (cl_chain (hw_client w))) (td_nodeId td) = Inr twin
     \<and> h_request h twin ''zos.deployment.deploy'' (td_deployment td') (cl_chain (hw_client w)) = (Inr (), cl_chain (hw_client v))
     \<and> v = w\<lparr>hw_client := (hw_client w)\<lparr>cl_chain := cl_chain (hw_client v)\<rparr>\<rparr>"
proof -
  from assms obtain c n where f: "find_contract (challenge_of h (td_deployment td)) results = Inr (Some (c, n))"
      "\<exists>td'. sendToNode h (td\<lparr>td_deployment := (td_deployment td)\<lparr>dp_contract_id := Some (ct_contractId c)\<rparr>\<rparr>) w = (Inr td', v)
        \<and> tds = done' @ [td']"
    by (auto simp: send_one_def Let_def bindE_Inr_iff split: option.splits)
  then obtain td' where s: "sendToNode h (td\<lparr>td_deployment := (td_deployment td)\<lparr>dp_contract_id := Some (ct_contractId c)\<rparr>\<rparr>) w = (Inr td', v)"
      "tds = done' @ [td']" by blast
  from sendToNode_Inr(1) [OF s(1)]
  have sg: "sign_deployment h ((td_deployment td)\<lparr>dp_contract_id := Some (ct_contractId c)\<rparr>) = Inr (td_deployment td')" by simp
  have ch: "challenge_of h (td_deployment td') = challenge_of h (td_deployment td)"
    using sign_deployment_challenge [OF sg] by simp
  from sendToNode_request [OF s(1)] assms(2) obtain twin where "getNodeTwinId (h_grid h (cl_chain (hw_client w))) (td_nodeId td) = Inr twin"
    "h_request h twin ''zos.deployment.deploy'' (td_deployment td') (cl_chain (hw_client w)) = (Inr (), cl_chain (hw_client v))"
    "v = w\<lparr>hw_client := (hw_client w)\<lparr>cl_chain := cl_chain (hw_client v)\<rparr>\<rparr>" by auto
  moreover have "dp_contract_id (td_deployment td') = Some (ct_contractId c)" using sign_deployment_contract [OF sg] by simp
  ultimately show ?thesis
    using find_contract_hash [OF f(1)] f(1) s(2)
    by (intro exI [of _ td'] exI [of _ c] exI [of _ n] exI [of _ twin] conjI) (simp_all only: ch)
qed

subsection \<open>Failing\<close>

lemma couldnt_handle_base: "is_base_error (couldnt_handle e)"
  by (simp add: couldnt_handle_def)

text \<open>
  C7: whatever goes wrong after the contracts exist, if the rollback works the caller sees an error
  of the SDK: a \<open>BaseError\<close> unchanged, anything else (a chain error, a \<open>TypeError\<close>) as a
  \<open>GridClientError\<close>.
\<close>

theorem commit_error_is_sdk_error:
  assumes "commit h tds results deleted updated w = (Inl e, v)"
    and "finish h tds results deleted \<lparr>hc_created = filter (\<lambda>r. result_contract_id r
            \<notin> set (map (\<lambda>c. Some (ct_contractId c)) updated)) results, hc_updated = updated\<rparr> w = (Inl e0, u)"
    and "fst (rollback h \<lparr>hc_created = filter (\<lambda>r. result_contract_id r
            \<notin> set (map (\<lambda>c. Some (ct_contractId c)) updated)) results, hc_updated = updated\<rparr> u) = Inr ()"
  shows "is_base_error e \<and> (is_base_error e0 \<longrightarrow> e = e0)"
proof -
  let ?hc = "\<lparr>hc_created = filter (\<lambda>r. result_contract_id r
            \<notin> set (map (\<lambda>c. Some (ct_contractId c)) updated)) results, hc_updated = updated\<rparr>"
  obtain x where "rollback h ?hc u = (Inr (), x)" using assms(3) by (cases "rollback h ?hc u") auto
  with assms(1,2) have "e = couldnt_handle e0"
    by (simp add: commit_def Let_def catchE_def bindE_def)
  then show ?thesis using couldnt_handle_base by (simp add: couldnt_handle_def)
qed

definition known_contracts :: "('a, 'c) handler_env \<Rightarrow> 'c hworld \<Rightarrow> Contract list \<Rightarrow> bool" where
  "known_contracts h w cs \<longleftrightarrow> (\<forall>c \<in> set cs. \<exists>ct. chain_contract (h_grid h (cl_chain (hw_client w))) (ct_contractId c) = Inr (Some ct))"

lemma cancel_created_all:
  "known_contracts h w cs \<Longrightarrow>
   cancel_created h (map R_contract cs) w = (Inr (map (\<lambda>c. Some (cancel_extrinsic (ct_contractId c))) cs), w)"
proof (induction cs)
  case (Cons c cs)
  then obtain ct where "chain_contract (h_grid h (cl_chain (hw_client w))) (ct_contractId c) = Inr (Some ct)"
      "known_contracts h w cs" by (auto simp: known_contracts_def)
  with Cons.IH show ?case
    by (simp add: cancel_created_def bindE_def result_contract_id_def contract_arg_def cancel_def cancel_extrinsic_def)
qed (simp add: cancel_created_def)

text \<open>
  C2: the rollback of a failed deployment without updates is one call of \<open>applyAllExtrinsics\<close> (a batch,
  up to 400 contracts) that cancels exactly the contracts that were created, all still on the chain.
\<close>

theorem rollback_cancels_created:
  assumes "known_contracts h w cs"
  shows "rollback h \<lparr>hc_created = map R_contract cs, hc_updated = []\<rparr> w
    = (case on_client (applyAllExtrinsics (h_chain h) (map (\<lambda>c. Some (cancel_extrinsic (ct_contractId c))) cs)) w of
         (Inl e, v) \<Rightarrow> (Inl e, v) | (Inr _, v) \<Rightarrow> (Inr (), v))"
  by (simp add: rollback_def bindE_def cancel_created_all [OF assms] split: prod.splits sum.splits)

lemma chain_error_class [simp]:
  "err_class (TFChainError_msg m) = C_TFChainError" "\<not> is_base_error (TFChainError_msg m)"
  by (simp_all add: TFChainError_msg_def TFChainError_def plain_error_def is_base_error_def)

text \<open>
  a name contract held by another twin is refused; for an account that is not verified the
  refusal is a chain error, which is outside the SDK's error hierarchy.
\<close>

theorem name_contract_refusals:
  assumes "h_contract_by_name h name (cl_chain (hw_client w)) = Inr i" and "i \<noteq> 0"
    and "chain_contract (h_grid h (cl_chain (hw_client w))) i = Inr (Some c)"
  shows "(ct_twinId c \<noteq> h_twinId h \<longrightarrow> createNameContract h name w
       = (Inl (ValidationError (''Name contract with name '' @ name @ '' is already reserved.'')), w))
    \<and> (ct_twinId c = h_twinId h \<and> h_kyc_status h (cl_chain (hw_client w)) = Inr ''PENDING'' \<longrightarrow>
        (\<exists>e. createNameContract h name w = (Inl e, w) \<and> err_class e = C_TFChainError \<and> \<not> is_base_error e))"
  using assms
  by (auto simp: createNameContract_def bindE_def catchE_def kyc_verified_def)

text \<open>How many originals a run leaves behind.\<close>

definition kept_originals :: "TwinDeployment list \<Rightarrow> nat" where
  "kept_originals tds = length (filter (\<lambda>td. td_operation td = Op_update \<and> nonzero (dp_contract_id (td_deployment td))) tds)"

lemma getDeployment_original: "getDeployment h i w = (r, v) \<Longrightarrow> hw_original v = hw_original w"
  by (auto simp: getDeployment_def bindE_def act_def split: sum.splits prod.splits)

lemma send_one_originals:
  assumes "send_one h results td acc w = (Inr acc', v)"
  shows "length (hw_original v) = length (hw_original w)
     + (if td_operation td = Op_update \<and> nonzero (dp_contract_id (td_deployment td)) then 1 else 0)"
proof (cases "td_operation td")
  case Op_update
  with assms show ?thesis
    by (auto simp: send_one_def Let_def bindE_Inr_iff getDeploymentFromFactory_def split: prod.splits if_splits
        dest!: sendToNode_Inr(3) getDeployment_original)
qed (use assms in \<open>auto simp: send_one_def Let_def bindE_Inr_iff split: prod.splits dest!: sendToNode_Inr(3)\<close>)

text \<open>
  the originals kept for a rollback are never dropped when everything went well: each update
  sent leaves one behind, for a later rollback of the same handler to find.
\<close>

theorem originals_pile_up:
  assumes "foldE (send_one h results) tds acc w = (Inr acc', v)"
  shows "length (hw_original v) = length (hw_original w) + kept_originals tds"
  using assms
proof (induction tds arbitrary: acc w)
  case (Cons td tds)
  then obtain a u where "send_one h results td acc w = (Inr a, u)" "foldE (send_one h results) tds a u = (Inr acc', v)"
    by (auto simp: bindE_Inr_iff)
  with Cons.IH [of a u] send_one_originals [of h results td acc w a u] show ?case
    by (simp add: kept_originals_def)
qed (simp add: kept_originals_def)

subsection \<open>Public addresses of farms\<close>

definition node_farm :: "('a, 'c) handler_env \<Rightarrow> 'c hworld \<Rightarrow> TwinDeployment \<Rightarrow> int option" where
  "node_farm h w td = (case getNode (h_grid h (cl_chain (hw_client w))) (td_nodeId td) of
     Inr (Some n) \<Rightarrow> Some (ni_farmId n) | _ \<Rightarrow> None)"

definition demand :: "('a, 'c) handler_env \<Rightarrow> 'c hworld \<Rightarrow> TwinDeployment list \<Rightarrow> int \<Rightarrow> int" where
  "demand h w tds farm = sum_list (map td_publicIps
     (filter (\<lambda>td. td_operation td = Op_deploy \<and> node_farm h w td = Some farm) tds))"

definition wanted :: "(int \<times> int) list \<Rightarrow> int \<Rightarrow> int" where
  "wanted m farm = (case map_of m farm of Some k \<Rightarrow> k | None \<Rightarrow> 0)"

lemma farm_ip_demand_step:
  assumes "farm_ip_demand h td m w = (Inr m', v)"
  shows "v = w \<and> (distinct (map fst m) \<longrightarrow> distinct (map fst m')) \<and> wanted m' farm = wanted m farm + demand h w [td] farm"
  using assms
  by (auto simp: farm_ip_demand_def bindE_def demand_def node_farm_def wanted_def
      split: if_splits sum.splits option.splits)

lemma farm_ip_demand_fold:
  "foldE (farm_ip_demand h) tds m w = (Inr m', v) \<Longrightarrow> distinct (map fst m) \<Longrightarrow>
   v = w \<and> distinct (map fst m') \<and> wanted m' farm = wanted m farm + demand h w tds farm"
proof (induction tds arbitrary: m)
  case (Cons td tds)
  then obtain m1 u where r: "farm_ip_demand h td m w = (Inr m1, u)" "foldE (farm_ip_demand h) tds m1 u = (Inr m', v)"
    by (auto simp: bindE_Inr_iff)
  from farm_ip_demand_step [OF r(1), of farm] Cons.prems(2) have s: "u = w" "distinct (map fst m1)"
      "wanted m1 farm = wanted m farm + demand h w [td] farm" by auto
  from Cons.IH [of m1] r(2) s show ?case by (simp add: demand_def)
qed (simp add: demand_def)

lemma check_farms:
  "iterE (check_farm h) ps w = (Inr (), v) \<Longrightarrow> v = w \<and> (\<forall>p \<in> set ps. \<exists>farm.
     h_farm h (fst p) (cl_chain (hw_client w)) = Inr farm \<and> snd p \<le> free_ips farm)"
proof (induction ps)
  case (Cons p ps)
  then obtain u where r: "check_farm h p w = (Inr (), u)" "iterE (check_farm h) ps u = (Inr (), v)"
    by (auto simp: bindE_Inr_iff)
  from r(1) have "u = w \<and> (\<exists>farm. h_farm h (fst p) (cl_chain (hw_client w)) = Inr farm \<and> snd p \<le> free_ips farm)"
    by (auto simp: check_farm_def bindE_Inr_iff split: if_splits)
  with Cons.IH r(2) show ?case by auto
qed simp

lemma free_ips_nonneg: "0 \<le> free_ips f"
  by (simp add: free_ips_def)

text \<open>
  C10: when \<open>checkFarmIps\<close> passes, every farm that can be looked up has at least as many free public addresses as all new
  deployments on its nodes ask for together.
\<close>

theorem farm_ips_suffice:
  assumes "checkFarmIps h tds w = (Inr (), v)"
    and "h_farm h farm (cl_chain (hw_client w)) = Inr f"
  shows "v = w \<and> demand h w tds farm \<le> free_ips f"
proof -
  from assms(1) obtain m u where r: "foldE (farm_ip_demand h) tds [] w = (Inr m, u)" "iterE (check_farm h) m u = (Inr (), v)"
    by (auto simp: checkFarmIps_def bindE_Inr_iff)
  from farm_ip_demand_fold [OF r(1), of farm] have d: "u = w" "wanted m farm = demand h w tds farm"
    by (simp_all add: wanted_def)
  from check_farms [OF r(2)] d(1) have c: "v = w" "\<forall>p \<in> set m. \<exists>g.
     h_farm h (fst p) (cl_chain (hw_client w)) = Inr g \<and> snd p \<le> free_ips g" by auto
  have "wanted m farm \<le> free_ips f"
    using c(2) assms(2) free_ips_nonneg [of f] by (force simp: wanted_def split: option.splits dest: map_of_SomeD)
  with c(1) d(2) show ?thesis by simp
qed

end
