(* ===== verification/HandlerExamples.thy ===== *)
theory HandlerExamples
  imports HandlerProps
begin

text \<open>
  A concrete handler environment, whose world is a clock, and the properties of the handler at
  concrete inputs.
\<close>

definition demo_handler :: "(nat, nat) handler_env" where
  "demo_handler = \<lparr>h_chain = demo_chain, h_grid = (\<lambda>_. demo_api), h_kyc_status = (\<lambda>_. Inr ''PENDING''),
     h_contract_by_name = (\<lambda>_ _. Inr 5), h_farm = (\<lambda>_ _. Inr \<lparr>fi_name = [], fi_farmId = 1, fi_twinId = 1,
        fi_pricingPolicyId = 1, fi_certificationType = [], fi_stellarAddress = [], fi_dedicated = False, fi_publicIps = []\<rparr>),
     h_request = (\<lambda>_ _ _ c. (Inr (), c)), h_get_deployment = (\<lambda>_ _ c. (Inr (demo_with []), c)),
     h_now = int, h_sleep = (\<lambda>c. c + 2000), h_timeout = 10, h_wait_fuel = 301,
     h_md5 = (\<lambda>s. s), h_ring = demo_ring, h_twinId = 7, h_mnemonic = ''m'', h_keypairType = KP_sr25519,
     h_valid = e_valid demo_env, h_net = demo_env\<rparr>"

definition demo_world :: "nat hworld" where
  "demo_world = \<lparr>hw_client = demo_client, hw_original = [], hw_newContracts = [], hw_deletedContracts = []\<rparr>"

lemma demo_handler_sel [simp]:
  "h_chain demo_handler = demo_chain" "h_grid demo_handler c = demo_api" "h_kyc_status demo_handler c = Inr ''PENDING''"
  "h_contract_by_name demo_handler n c = Inr 5" "h_request demo_handler t p d c = (Inr (), c)"
  "h_get_deployment demo_handler t i c = (Inr (demo_with []), c)" "h_now demo_handler c = int c"
  "h_sleep demo_handler c = c + 2000" "h_twinId demo_handler = 7"
  "h_md5 demo_handler s = s" "h_ring demo_handler = demo_ring" "h_mnemonic demo_handler = ''m''"
  by (simp_all add: demo_handler_def)

lemma demo_world_sel [simp]:
  "hw_client demo_world = demo_client" "hw_original demo_world = []" "cl_chain demo_client = 0"
  by (simp_all add: demo_world_def demo_client_def)

definition demo_td :: "Operations \<Rightarrow> int option \<Rightarrow> Workload list \<Rightarrow> TwinDeployment" where
  "demo_td operation cid ws = \<lparr>td_deployment = (demo_with ws)\<lparr>dp_contract_id := cid\<rparr>, td_operation = operation,
     td_publicIps = 0, td_nodeId = 11, td_metadata = [], td_network = None, td_solutionProviderId = None,
     td_returnNetworkContracts = False\<rparr>"

lemma demo_td_sel [simp]:
  "td_operation (demo_td op cid ws) = op" "dp_contract_id (td_deployment (demo_td op cid ws)) = cid"
  "workloads_of (demo_td op cid ws) = ws" "dp_version (td_deployment (demo_td op cid ws)) = 0"
  "td_nodeId (demo_td op cid ws) = 11" "td_publicIps (demo_td op cid ws) = 0"
  by (simp_all add: demo_td_def demo_with_def create_deployment_def)

lemma demo_contract_api: "chain_contract demo_api i = Inr (Some \<lparr>ct_version = 4, ct_state = CS_created,
    ct_contractId = i, ct_twinId = 7, ct_type = CT_node \<lparr>nc_nodeId = 11, nc_deploymentHash = [],
      nc_deploymentData = [], nc_publicIps = 0\<rparr>, ct_solutionProviderId = 0\<rparr>)"
  by (simp add: demo_api_def)

theorem update_to_latest_witness:
  "\<exists>m. updateToLatest [demo_td Op_update (Some 1) [demo_disk ''a'' 1], demo_td Op_update (Some 1) []] = Some m
     \<and> dp_version (td_deployment m) = 1"
proof -
  let ?d = "demo_td Op_update (Some 1) [demo_disk ''a'' 1]" and ?e = "demo_td Op_update (Some 1) []"
  obtain m where m: "updateToLatest [?d, ?e] = Some m" by (simp add: updateToLatest_def Let_def)
  from update_to_latest [OF m] show ?thesis using m by simp
qed

lemma demo_twin: "getNodeTwinId demo_api i = Inr 3"
  by (simp add: getNodeTwinId_def prefixing_def demo_api_def)

definition ok_disk :: Workload where
  "ok_disk = (demo_disk ''a'' 1)\<lparr>wl_result := Some \<lparr>res_created = 0, res_state = RS_ok, res_message = []\<rparr>\<rparr>"

theorem ready_means_all_ok_witness:
  "\<exists>r. wl_result ok_disk = Some r \<and> res_state r = RS_ok"
proof -
  have "ready 11 (demo_with [ok_disk]) (demo_with [demo_disk ''a'' 1]) = Inr True"
    by (simp add: ready_def ok_disk_def demo_disk_def Disk_create_def workload_def checkWorkload_def)
  from ready_means_all_ok [OF this] show ?thesis by simp
qed

theorem wait_loop_ends_witness:
  "wait_loop demo_handler (Suc 2 + 40) 3000 1 11 (demo_with [ok_disk]) demo_world
     = wait_loop demo_handler (Suc 2) 3000 1 11 (demo_with [ok_disk]) demo_world"
  by (rule wait_loop_ends) (simp_all add: clock_laws_def time_of_def)

definition demo_result :: "string \<Rightarrow> Contract" where
  "demo_result hash = \<lparr>ct_version = 4, ct_state = CS_created, ct_contractId = 21, ct_twinId = 7,
     ct_type = CT_node \<lparr>nc_nodeId = 11, nc_deploymentHash = hash, nc_deploymentData = [], nc_publicIps = 0\<rparr>,
     ct_solutionProviderId = 0\<rparr>"

lemma demo_find: "find_contract hash [R_contract (demo_result hash)]
    = Inr (Some (demo_result hash, \<lparr>nc_nodeId = 11, nc_deploymentHash = hash, nc_deploymentData = [], nc_publicIps = 0\<rparr>))"
  by (simp add: demo_result_def)

lemma demo_send: "\<exists>td' v. sendToNode demo_handler td demo_world = (Inr td', v)"
  by (simp add: sendToNode_def catchE_def bindE_def sign_deployment_def sign_def Let_def demo_ring_def
      getNodeTwinId_def prefixing_def demo_api_def act_def)

theorem deployment_sent_under_its_contract_witness:
  "\<exists>td' v. send_one demo_handler
       [R_contract (demo_result (challenge_of demo_handler (td_deployment (demo_td Op_deploy None []))))]
       (demo_td Op_deploy None []) ([], \<lparr>rc_created = [], rc_updated = [], rc_deleted = []\<rparr>) demo_world
     = (Inr ([td'], \<lparr>rc_created = [demo_result (challenge_of demo_handler (td_deployment (demo_td Op_deploy None [])))],
                      rc_updated = [], rc_deleted = []\<rparr>), v)
     \<and> dp_contract_id (td_deployment td') = Some 21"
proof -
  let ?td = "demo_td Op_deploy None []"
  let ?hash = "challenge_of demo_handler (td_deployment ?td)"
  let ?rs = "[R_contract (demo_result ?hash)]"
  let ?rc = "\<lparr>rc_created = [], rc_updated = [], rc_deleted = []\<rparr>"
  have rep: "reported ?td" by (simp add: reported_def network_only_def)
  obtain td' v where s: "sendToNode demo_handler
      (?td\<lparr>td_deployment := (td_deployment ?td)\<lparr>dp_contract_id := Some 21\<rparr>\<rparr>) demo_world = (Inr td', v)"
    using demo_send by blast
  have "ct_contractId (demo_result ?hash) = 21" by (simp add: demo_result_def)
  with s rep have r: "send_one demo_handler ?rs ?td ([], ?rc) demo_world
      = (Inr ([td'], \<lparr>rc_created = [demo_result ?hash], rc_updated = [], rc_deleted = []\<rparr>), v)"
    unfolding send_one_def Let_def demo_find by (simp add: bindE_def demo_find del: find_contract.simps)
  have "find_contract ?hash ?rs \<noteq> Inr None" by (simp only: demo_find) simp
  with deployment_sent_under_its_contract [OF r] r show ?thesis
    by (auto simp: demo_result_def)
qed

theorem rollback_cancels_created_witness:
  "fst (rollback demo_handler \<lparr>hc_created = [R_contract (demo_result [])], hc_updated = []\<rparr> demo_world) = Inr ()"
proof -
  have k: "known_contracts demo_handler demo_world [demo_result []]"
    by (simp add: known_contracts_def demo_contract_api)
  have "fst (on_client (applyAllExtrinsics demo_chain [Some (cancel_extrinsic 21)]) demo_world) \<noteq> Inl e" for e
    by (simp add: on_client_def applyAllExtrinsics_def batchAll_def some_extrinsics_def BATCH_SIZE_def run_chunk_def
        bindE_def applyExtrinsic_def applyExtrinsic_locked_def demo_chain_def is_batch_def cancelled_event_def
        cancel_extrinsic_def patchExtrinsic_def batch_events_def batch_sections_def cancel_events_def ok_event_def
        split: prod.splits)
  then show ?thesis
    using rollback_cancels_created [OF k]
    by (auto simp: demo_result_def split: prod.splits sum.splits)
qed

theorem name_contract_refusals_witness:
  "\<exists>e. createNameContract demo_handler ''n'' demo_world = (Inl e, demo_world) \<and> \<not> is_base_error e"
  using name_contract_refusals [of demo_handler "''n''" demo_world 5] demo_contract_api [of 5] by auto

lemma demo_send_update:
  "\<exists>r v. send_one demo_handler [] (demo_td Op_update (Some 5) []) ([], \<lparr>rc_created = [], rc_updated = [], rc_deleted = []\<rparr>) demo_world
     = (Inr r, v)"
proof -
  have v: "valid_Deployment (h_valid demo_handler) (demo_with [])"
    by (simp add: valid_Deployment_def demo_with_def create_deployment_def valid_SignatureRequirement_def valid_SignatureRequest_def)
  have "getDeployment demo_handler 5 demo_world = (Inr (demo_with []), demo_world)"
    by (simp add: getDeployment_def bindE_def act_def demo_node demo_twin
        demo_world_def demo_client_def)
  with v have f: "getDeploymentFromFactory demo_handler 5 demo_world = (Inr (demo_with []), demo_world)"
    by (simp add: getDeploymentFromFactory_def bindE_def fromObj_def validateObject_def exposed_deployment_def)
  show ?thesis
    by (simp add: send_one_def Let_def bindE_def nonzero_def contract_arg_def f sendToNode_def catchE_def
        sign_deployment_def sign_def demo_ring_def getNodeTwinId_def prefixing_def demo_api_def act_def)
qed

theorem originals_pile_up_witness:
  "\<exists>a v. foldE (send_one demo_handler []) [demo_td Op_update (Some 5) []]
       ([], \<lparr>rc_created = [], rc_updated = [], rc_deleted = []\<rparr>) demo_world = (Inr a, v)
     \<and> length (hw_original v) = 1"
proof -
  obtain r v where "send_one demo_handler [] (demo_td Op_update (Some 5) [])
      ([], \<lparr>rc_created = [], rc_updated = [], rc_deleted = []\<rparr>) demo_world = (Inr r, v)"
    using demo_send_update by blast
  then have f: "foldE (send_one demo_handler []) [demo_td Op_update (Some 5) []]
       ([], \<lparr>rc_created = [], rc_updated = [], rc_deleted = []\<rparr>) demo_world = (Inr r, v)"
    by (simp add: bindE_def)
  from originals_pile_up [OF f] show ?thesis using f by (simp add: kept_originals_def nonzero_def)
qed

theorem commit_error_is_sdk_error_witness:
  "\<exists>e. fst (commit demo_handler [demo_td Op_deploy None []] [R_other] [] [] demo_world) = Inl e \<and> is_base_error e"
proof -
  let ?hc = "\<lparr>hc_created = filter (\<lambda>r. result_contract_id r \<notin> set (map (\<lambda>c. Some (ct_contractId c)) ([] :: Contract list))) [R_other],
      hc_updated = ([] :: Contract list)\<rparr>"
  let ?td = "demo_td Op_deploy None []"
  have f: "finish demo_handler [?td] [R_other] [] ?hc demo_world = (Inl TypeError, demo_world)"
    by (simp add: finish_def bindE_def send_one_def Let_def)
  have "\<exists>x. rollback demo_handler ?hc demo_world = (Inr (), x)"
    by (simp add: rollback_def cancel_created_def bindE_def cancel_def result_contract_id_def contract_arg_def
        demo_contract_api on_client_def applyAllExtrinsics_def batchAll_def some_extrinsics_def BATCH_SIZE_def run_chunk_def
        applyExtrinsic_def applyExtrinsic_locked_def demo_chain_def is_batch_def cancelled_event_def Let_def
        patchExtrinsic_def batch_events_def batch_sections_def cancel_events_def ok_event_def)
  then obtain x where r: "rollback demo_handler ?hc demo_world = (Inr (), x)" by blast
  obtain e v where c: "commit demo_handler [?td] [R_other] [] [] demo_world = (Inl e, v)"
    using f r by (simp add: commit_def Let_def catchE_def bindE_def)
  have "fst (rollback demo_handler ?hc demo_world) = Inr ()" using r by simp
  from commit_error_is_sdk_error [OF c f this] c show ?thesis by simp
qed

end
