(* ===== verification/Machine.thy ===== *)
theory Machine
  imports HighLevel
begin

text \<open>
  \<open>grid_client/src/high_level/machine.ts\<close> and \<open>kubernetes.ts\<close>: what it takes to put one machine on
  a node.  \<open>VM_deploy\<close> is \<open>VMHL.create\<close>: it checks the node, builds the workloads of the machine,
  its disks, its public address and its logs, and adds the node (and an access node) to the network.
  Its state is the network object, of either kind; the configuration's remaining answers are the
  fields of \<open>machine_env\<close>.  The twin deployments of one call share the network object: they are
  built without it, and the modules attach it (\<open>share_network\<close>) when all machines are made.
\<close>

subsection \<open>Metadata\<close>

text \<open>\<open>JSON.stringify\<close> of a string (of characters below 256) and of the metadata object.\<close>

definition json_char :: "char \<Rightarrow> string" where
  "json_char c = (let n = (of_char c :: nat); bs = CHR 0x5C in
     if n = 34 then [bs, c] else if n = 92 then [bs, c]
     else if n = 8 then [bs, CHR ''b''] else if n = 9 then [bs, CHR ''t'']
     else if n = 10 then [bs, CHR ''n''] else if n = 12 then [bs, CHR ''f'']
     else if n = 13 then [bs, CHR ''r'']
     else if n < 32 then [bs] @ ''u00'' @ to_hex [of_nat n] else [c])"

definition json_string :: "string \<Rightarrow> string" where
  "json_string s = [CHR 0x22] @ concat (map json_char s) @ [CHR 0x22]"

definition contract_metadata :: "int \<Rightarrow> string \<Rightarrow> string \<Rightarrow> string \<Rightarrow> string" where
  "contract_metadata version type name projectName =
     ''{'' @ json_string ''version'' @ '':'' @ show_int version
     @ '','' @ json_string ''type'' @ '':'' @ json_string type
     @ '','' @ json_string ''name'' @ '':'' @ json_string name
     @ '','' @ json_string ''projectName'' @ '':'' @ json_string projectName @ ''}''"

subsection \<open>Data\<close>

record DiskModel =
  dm_name :: string
  dm_size :: rat
  dm_mountpoint :: string

record QSFSDiskModel =
  qd_qsfs_zdbs_name :: string
  qd_name :: string
  qd_prefix :: string
  qd_encryption_key :: string
  qd_cache :: "rat option"
  qd_minimal_shards :: "int option"
  qd_expected_shards :: "int option"
  qd_mountpoint :: string

text \<open>What \<open>getZdbs\<close> answers: the backends, each with the size it was given.\<close>

record QsfsZdbs =
  qz_meta :: "(ZdbBackend \<times> int) list"
  qz_groups :: "(ZdbBackend \<times> int) list"

record GpuCard =
  gpu_id :: string
  gpu_contract :: int

text \<open>The arguments of \<open>VMHL.create\<close> besides the network; a root file system of size 0 is none.\<close>

record vm_args =
  va_name :: string
  va_nodeId :: int
  va_flist :: string
  va_cpu :: int
  va_memory :: int
  va_rootfs_size :: rat
  va_disks :: "DiskModel list"
  va_publicIp :: bool
  va_publicIp6 :: bool
  va_planetary :: bool
  va_mycelium :: bool
  va_myceliumSeed :: string
  va_myceliumNetworkSeeds :: "(int \<times> string) list"
  va_entrypoint :: string
  va_env :: "(string \<times> string) list"
  va_contractMetadata :: string
  va_metadata :: string
  va_description :: string
  va_qsfsDisks :: "QSFSDiskModel list"
  va_qsfsProjectName :: string
  va_addAccess :: bool
  va_accessNodeId :: int
  va_ip :: string
  va_corex :: bool
  va_solutionProviderId :: "int option"
  va_zlogsOutput :: "string option"
  va_gpus :: "string list"

record 'a machine_env = "'a net_env" +
  me_project :: string
  me_qsfs_zdbs :: "string \<Rightarrow> string \<Rightarrow> js_error + QsfsZdbs"
  me_farm :: "int \<Rightarrow> js_error + FarmInfo"
  me_gpu_list :: "int \<Rightarrow> js_error + GpuCard list"
  me_md5 :: "string \<Rightarrow> string"

type_synonym 'r vm_eff = "(any_network, js_error, 'r) eff"

definition invalid_node :: "string \<Rightarrow> js_error" where
  "invalid_node msg = TFGridNodesError N_InvalidResources msg"

definition unavailable_node :: "string \<Rightarrow> js_error" where
  "unavailable_node msg = TFGridNodesError N_UnavailableNode msg"

text \<open>Reading a field of the node that the proxy did not list is a \<open>TypeError\<close>.\<close>

definition known_node :: "('a, 'b) machine_env_scheme \<Rightarrow> int \<Rightarrow> js_error + NodeInfo" where
  "known_node e i = bindR (getNode (e_grid e) i) (\<lambda>n. case n of None \<Rightarrow> Inl TypeError | Some x \<Rightarrow> Inr x)"

subsection \<open>Checks on the node\<close>

definition root_size :: "vm_args \<Rightarrow> rat" where
  "root_size a = (if va_rootfs_size a = 0 then calculateRootFileSystem (Some (va_cpu a, va_memory a))
                  else va_rootfs_size a)"

definition total_disks :: "vm_args \<Rightarrow> rat" where
  "total_disks a = root_size a + sum_list (map dm_size (va_disks a))"

definition check_resources :: "('a, 'b) machine_env_scheme \<Rightarrow> vm_args \<Rightarrow> js_error + unit" where
  "check_resources e a = (let mru = of_int (va_memory a) / 1024 in
     bindR (nodeHasResources (e_grid e) (va_nodeId a)
              (empty_filter\<lparr>fo_sru := Some (total_disks a), fo_mru := Some mru\<rparr>)) (\<lambda>ok.
       if \<not> ok then Inl (invalid_node (''Node '' @ show_int (va_nodeId a) @ '' doesn'' @ apos
              # ''t have enough resources: sru='' @ show_number (total_disks a) @ '', mru='' @ show_number mru @ '' .''))
       else Inr ()))"

text \<open>A node the twin may use, whose rent contract is not in its grace period.\<close>

definition check_available :: "('a, 'b) machine_env_scheme \<Rightarrow> NodeInfo \<Rightarrow> int \<Rightarrow> js_error + unit" where
  "check_available e info nodeId =
     bindR (nodeAvailableForTwinId (e_grid e) nodeId (e_twin_id e)) (\<lambda>ok.
       if \<not> ok then Inl (unavailable_node (''Node '' @ show_int nodeId @ '' is not available for user with twinId: ''
              @ show_int (e_twin_id e) @ '', maybe it'' @ apos # ''s rented by another user or node is dedicated. use capacity planning with availableFor option.''))
       else if ni_rentContractId info = 0 then Inr ()
       else bindR (chain_contract (e_grid e) (ni_rentContractId info)) (\<lambda>c. case c of
           None \<Rightarrow> Inr ()
         | Some ct \<Rightarrow> (case ct_state ct of
             CS_gracePeriod b \<Rightarrow> if b = 0 then Inr ()
               else Inl (unavailable_node (''Can'' @ apos # ''t deploy on node: '' @ show_int nodeId
                      @ '', its rent contract in grace period.''))
           | _ \<Rightarrow> Inr ())))"

subsection \<open>Quantum safe disks\<close>

text \<open>\<open>Math.ceil((n * 3) / 5)\<close>, unless the user asks for another number.\<close>

definition minimal_shards :: "int \<Rightarrow> QSFSDiskModel \<Rightarrow> js_error + int" where
  "minimal_shards n d = (if nonzero (qd_minimal_shards d)
     then (if n \<le> the (qd_minimal_shards d)
           then Inl (ValidationError (''Minimal shards can'' @ apos # ''t be more than the number of zdbs in qsfs_zdbs deployment.''))
           else Inr (the (qd_minimal_shards d)))
     else Inr \<lceil>of_int (n * 3) / (5 :: rat)\<rceil>)"

definition expected_shards :: "int \<Rightarrow> QSFSDiskModel \<Rightarrow> js_error + int" where
  "expected_shards n d = (if nonzero (qd_expected_shards d)
     then (if n < the (qd_expected_shards d)
           then Inl (ValidationError (''Expected shards can'' @ apos # ''t be more than the number of zdbs in qsfs_zdbs deployment.''))
           else Inr (the (qd_expected_shards d)))
     else Inr n)"

definition qsfs_metadata :: "string \<Rightarrow> int \<Rightarrow> string" where
  "qsfs_metadata zdbs_name sz = ''{'' @ json_string ''qsfs_zdbs_name'' @ '':'' @ json_string zdbs_name
     @ '','' @ json_string ''qsfs_size'' @ '':'' @ show_int sz @ ''}''"

definition qsfs_workload :: "('a, 'b) machine_env_scheme \<Rightarrow> QSFSDiskModel \<Rightarrow> QsfsZdbs \<Rightarrow> int \<Rightarrow> int \<Rightarrow> Workload" where
  "qsfs_workload e d zdbs minimal expected = QSFS_create (me_md5 e)
     \<lparr>qa_name = qd_name d, qa_minimalShards = minimal, qa_expectedShards = expected,
      qa_metaPrefix = qd_prefix d, qa_metaBackends = map fst (qz_meta zdbs),
      qa_groups = [\<lparr>zg_backends = map fst (qz_groups zdbs)\<rparr>], qa_encryptionKey = qd_encryption_key d,
      qa_cache = (case qd_cache d of None \<Rightarrow> 1 | Some c \<Rightarrow> c), qa_maxZdbDataDirSize = 32, qa_metaType = ''zdb'',
      qa_redundantGroups = 0, qa_redundantNodes = 0, qa_encryptionAlgorithm = ''AES'',
      qa_compressionAlgorithm = ''snappy'',
      qa_metadata = qsfs_metadata (qd_qsfs_zdbs_name d) (snd (hd (qz_groups zdbs))),
      qa_description = [], qa_version = 0\<rparr>"

text \<open>The project that the disks are looked up in becomes the configured one.\<close>

definition used_project :: "('a, 'b) machine_env_scheme \<Rightarrow> vm_args \<Rightarrow> string" where
  "used_project e a = (if va_qsfsDisks a \<noteq> [] \<and> va_qsfsProjectName a \<noteq> [] then va_qsfsProjectName a else me_project e)"

definition qsfs_disk :: "('a, 'b) machine_env_scheme \<Rightarrow> string \<Rightarrow> QSFSDiskModel \<Rightarrow> js_error + Workload \<times> Mount" where
  "qsfs_disk e project d = bindR (me_qsfs_zdbs e project (qd_qsfs_zdbs_name d)) (\<lambda>zdbs.
     if qz_groups zdbs = [] \<or> qz_meta zdbs = []
     then Inl (ValidationError (''Couldn'' @ apos # ''t find a qsfs zdbs with name '' @ qd_qsfs_zdbs_name d
            @ ''. Please create one with qsfs_zdbs module.''))
     else let n = int (length (qz_groups zdbs)) in
       bindR (minimal_shards n d) (\<lambda>minimal. bindR (expected_shards n d) (\<lambda>expected.
         Inr (qsfs_workload e d zdbs minimal expected, createMount (qd_name d) (qd_mountpoint d)))))"

subsection \<open>Public addresses and graphics cards\<close>

text \<open>The workload of the public addresses, and how many IPv4 addresses the contract asks for.\<close>

definition public_ip ::
  "('a, 'b) machine_env_scheme \<Rightarrow> Features list \<Rightarrow> vm_args \<Rightarrow> js_error + Workload list \<times> string \<times> int"
where
  "public_ip e features a = (let i = va_nodeId a; ipName = va_name a @ ''_pubip'' in
     if \<not> va_publicIp a \<and> \<not> va_publicIp6 a then Inr ([], [], 0)
     else if Ft_ip \<notin> set features
     then Inl (TFGridFarmsError F_InvalidResources (''Node '' @ show_int i @ '' doesn'' @ apos # ''t support public ips.''))
     else let ws = [PublicIP_create ipName [] (va_description a) 0 (va_publicIp a) (va_publicIp6 a)] in
       if \<not> va_publicIp a then Inr (ws, ipName, 0)
       else bindR (known_node e i) (\<lambda>node. bindR (me_farm e (ni_farmId node)) (\<lambda>farm.
         if free_ips farm < 1
         then Inl (TFGridFarmsError F_InvalidResources (''Farm '' @ show_int (fi_farmId farm)
                @ '' doesn'' @ apos # ''t have enough public IPs: requested IPs=1 for machine with name: ''
                @ va_name a @ '','' @ [newline] @ ''            , available IPs='' @ show_int (free_ips farm) @ ''.''))
         else Inr (ws, ipName, 1))))"

definition check_gpu :: "int \<Rightarrow> GpuCard list \<Rightarrow> string \<Rightarrow> js_error + unit" where
  "check_gpu nodeId cards g = (case filter (\<lambda>c. gpu_id c = g) cards of
     [] \<Rightarrow> Inl (TFGridNodesError N_GPUNotFound (''Couldn'' @ apos # ''t find the GPU with id: '' @ [CHR 0x22] @ g
             @ [CHR 0x22] @ '' in node: '' @ show_int nodeId @ ''.''))
   | c # _ \<Rightarrow> if gpu_contract c \<noteq> 0
       then Inl (TFGridNodesError N_GPULocked (''This GPU: '' @ [CHR 0x22] @ g @ [CHR 0x22]
              @ '' is currently in use by another VM with contract id: '' @ show_int (gpu_contract c) @ ''.''))
       else Inr ())"

definition check_gpus :: "('a, 'b) machine_env_scheme \<Rightarrow> vm_args \<Rightarrow> js_error + unit" where
  "check_gpus e a = (let i = va_nodeId a in
     if va_gpus a = [] then Inr ()
     else bindR (getNodeTwinId (e_grid e) i) (\<lambda>twin. bindR (me_gpu_list e twin) (\<lambda>cards.
       if cards = [] then Inl (invalid_node (''The selected node '' @ show_int i @ '' doesn'' @ apos # ''t have GPU card.''))
       else bindR (mapR (check_gpu i cards) (va_gpus a)) (\<lambda>_. bindR (known_node e i) (\<lambda>node.
         if ni_rentedByTwinId node \<noteq> e_twin_id e
         then Inl (unavailable_node (''This node '' @ show_int i @ '' is not rented by the current user.''))
         else Inr ())))))"

subsection \<open>Either kind of network\<close>

definition on_network :: "'r net_eff \<Rightarrow> 'r light_eff \<Rightarrow> 'r vm_eff" where
  "on_network f l = (\<lambda>s. case s of
     FullNet n \<Rightarrow> (case f n of (r, n') \<Rightarrow> (r, FullNet n'))
   | LightNet n \<Rightarrow> (case l n of (r, n') \<Rightarrow> (r, LightNet n')))"

definition any_ValidateFreeSubnet :: "string \<Rightarrow> string vm_eff" where
  "any_ValidateFreeSubnet sn = on_network (ValidateFreeSubnet sn) (light_ValidateFreeSubnet sn)"

definition any_getFreeSubnet :: "('a, 'b) net_env_scheme \<Rightarrow> string vm_eff" where
  "any_getFreeSubnet e = on_network (getFreeSubnet e) (\<lambda>s. (light_getFreeSubnet e s, s))"

fun any_nodeExists :: "int \<Rightarrow> any_network \<Rightarrow> bool" where
  "any_nodeExists i (FullNet n) = nodeExists i n"
| "any_nodeExists i (LightNet n) = light_nodeExists i n"

definition any_addNode ::
  "('a, 'b) net_env_scheme \<Rightarrow> int \<Rightarrow> bool \<Rightarrow> string \<Rightarrow> string \<Rightarrow> (int \<times> string) list \<Rightarrow> Workload option vm_eff"
where
  "any_addNode e i mycelium description sn seeds =
     on_network (addNode e i mycelium description sn seeds) (light_addNode e i mycelium description sn seeds)"

definition any_checkMycelium ::
  "('a, 'b) net_env_scheme \<Rightarrow> int \<Rightarrow> bool \<Rightarrow> (int \<times> string) list \<Rightarrow> Deployment option vm_eff"
where
  "any_checkMycelium e i mycelium seeds =
     on_network (checkMycelium e i mycelium seeds) (light_checkMycelium e i mycelium seeds)"

definition any_validateUserIP :: "('a, 'b) net_env_scheme \<Rightarrow> int \<Rightarrow> string \<Rightarrow> string option vm_eff" where
  "any_validateUserIP e i ip = on_network (validateUserIP e i ip) (light_validateUserIP e i ip)"

definition any_getFreeIP :: "('a, 'b) net_env_scheme \<Rightarrow> int \<Rightarrow> string vm_eff" where
  "any_getFreeIP e i = on_network (getFreeIP e i []) (light_getFreeIP e i [])"

definition on_full :: "'r net_eff \<Rightarrow> 'r \<Rightarrow> 'r vm_eff" where
  "on_full f r = on_network f (retE r)"

fun any_getUpdatedNetwork :: "WorkloadData \<Rightarrow> any_network \<Rightarrow> WorkloadData" where
  "any_getUpdatedNetwork d (FullNet n) = getUpdatedNetwork d n"
| "any_getUpdatedNetwork d (LightNet n) = (case light_getUpdatedNetwork d n of Some x \<Rightarrow> x | None \<Rightarrow> d)"

subsection \<open>The node and its access node on the network\<close>

text \<open>With an address of the user's: its subnet of 24 bits, and one for an access node.\<close>

definition claim_subnets :: "('a, 'b) net_env_scheme \<Rightarrow> Features list \<Rightarrow> string \<Rightarrow> (string \<times> string) vm_eff" where
  "claim_subnets e features ip =
     (if ip = [] then retE ([], [])
      else bindE (liftE (bindR (Addr e ip) (\<lambda>a. Inr (na_toString (e_addr e) (na_mask (e_addr e) 24 a))))) (\<lambda>wanted.
        bindE (any_ValidateFreeSubnet wanted) (\<lambda>user.
          bindE (if Ft_wireguard \<in> set features then any_getFreeSubnet e else retE []) (\<lambda>access.
            retE (user, access)))))"

definition is_full :: "any_network \<Rightarrow> bool" where
  "is_full net \<longleftrightarrow> (case net of FullNet _ \<Rightarrow> True | LightNet _ \<Rightarrow> False)"

text \<open>
  The access node: an access point is put on one of the twin's access nodes unless the network has
  one (every access node has an IPv4 address, so there is one to choose).  The result is whether it had one, the workload that adds the access node (with its id), and
  the WireGuard configuration.
\<close>

definition choose_access :: "('a, 'b) net_env_scheme \<Rightarrow> int list \<Rightarrow> int \<Rightarrow> int vm_eff" where
  "choose_access e ids wanted = (if ids = [] \<and> wanted = 0 then throwE TypeError else bindE (on_full (randomChoice e ids) 0) (\<lambda>random.
     if wanted = 0 then retE random
     else if wanted \<notin> set ids
     then throwE (TFGridNodesError N_AccessNode (''Node '' @ show_int wanted @ '' is not an access node or maybe it'' @ apos # ''s down.''))
     else retE wanted))"

definition put_access_node ::
  "('a, 'b) net_env_scheme \<Rightarrow> vm_args \<Rightarrow> string \<Rightarrow> (int \<times> access_config) list \<Rightarrow> ((int \<times> Workload) option \<times> string) vm_eff"
where
  "put_access_node e a sn nodes =
     bindE (choose_access e (map fst (filter (\<lambda>p. ac_ipv4 (snd p) \<noteq> []) nodes)) (va_accessNodeId a)) (\<lambda>i.
       bindE (any_addNode e i (va_mycelium a) (va_description a) sn (va_myceliumNetworkSeeds a)) (\<lambda>w.
         bindE (on_full (addAccess e i True) []) (\<lambda>config. retE (map_option (\<lambda>x. (i, x)) w, config))))"

definition access_step ::
  "('a, 'b) net_env_scheme \<Rightarrow> Features list \<Rightarrow> vm_args \<Rightarrow> string \<Rightarrow> (bool \<times> (int \<times> Workload) option \<times> string) vm_eff"
where
  "access_step e features a sn = bindE (getE is_full) (\<lambda>full.
     if Ft_wireguard \<notin> set features \<or> \<not> full \<or> \<not> va_addAccess a then retE (False, None, [])
     else bindE (liftE (capacity_access_nodes e)) (\<lambda>nodes.
       bindE (getE (\<lambda>net. list_ex (\<lambda>i. any_nodeExists i net) (map fst nodes))) (\<lambda>has.
         if (va_nodeId a \<notin> set (map fst nodes) \<or> va_nodeId a \<noteq> va_accessNodeId a) \<and> \<not> has
         then bindE (put_access_node e a sn nodes) (\<lambda>(w, config). retE (has, w, config))
         else retE (has, None, []))))"

text \<open>The mycelium of a node that is already on the network: an update of its deployment.\<close>

definition machine_twin ::
  "Deployment \<Rightarrow> Operations \<Rightarrow> int \<Rightarrow> int \<Rightarrow> string \<Rightarrow> int option \<Rightarrow> TwinDeployment"
where
  "machine_twin d oper publicIps nodeId meta solution = \<lparr>td_deployment = d, td_operation = oper,
     td_publicIps = publicIps, td_nodeId = nodeId, td_metadata = meta, td_network = None,
     td_solutionProviderId = solution, td_returnNetworkContracts = False\<rparr>"

definition mycelium_step :: "('a, 'b) net_env_scheme \<Rightarrow> vm_args \<Rightarrow> string \<Rightarrow> TwinDeployment list vm_eff" where
  "mycelium_step e a meta = bindE (getE (any_nodeExists (va_nodeId a))) (\<lambda>there.
     if \<not> there then retE []
     else bindE (any_checkMycelium e (va_nodeId a) (va_mycelium a) (va_myceliumNetworkSeeds a)) (\<lambda>d.
       retE (map (\<lambda>x. machine_twin x Op_update 0 0 meta None) (opt_list d))))"

text \<open>The deployments of an existing network: its first network workload of the range is refreshed.\<close>

definition refresh_network :: "('a, 'b) net_env_scheme \<Rightarrow> string \<Rightarrow> TwinDeployment list net_eff" where
  "refresh_network e meta = bindE (getE (\<lambda>net. net)) (\<lambda>net.
     liftE (mapR (\<lambda>d0. bindR (fromObj (e_valid e) (nd_deployment d0)) (\<lambda>d.
         bindR (refresh_first e net (dp_workloads d)) (\<lambda>ws.
           Inr (machine_twin (d\<lparr>dp_workloads := ws\<rparr>) Op_update 0 0 meta None)))) (n_deployments net)))"

definition network_deployment ::
  "('a, 'b) net_env_scheme \<Rightarrow> vm_args \<Rightarrow> string \<Rightarrow> int \<Rightarrow> Workload \<Rightarrow> TwinDeployment"
where
  "network_deployment e a meta nodeId w =
     machine_twin (create_deployment (e_twin_id e) [w] 0 meta (va_description a) 0) Op_deploy 0 nodeId meta
       (va_solutionProviderId a)"

definition known_network :: "('a, 'b) net_env_scheme \<Rightarrow> bool vm_eff" where
  "known_network e = on_full (exists e) False"

text \<open>The deployments of the network and the WireGuard configuration (empty: none new).\<close>

definition network_step ::
  "('a, 'b) net_env_scheme \<Rightarrow> Features list \<Rightarrow> vm_args \<Rightarrow> string \<Rightarrow> string \<Rightarrow> bool \<Rightarrow> (int \<times> Workload) option
   \<Rightarrow> (TwinDeployment list \<times> string) vm_eff"
where
  "network_step e features a meta sn has_access access =
     bindE (any_addNode e (va_nodeId a) (va_mycelium a) (va_description a) sn (va_myceliumNetworkSeeds a)) (\<lambda>znet.
     bindE (known_network e) (\<lambda>there.
     bindE (if there \<and> (znet \<noteq> None \<or> access \<noteq> None) then
              bindE (on_full (refresh_network e meta) []) (\<lambda>updates.
                retE (updates @ map (network_deployment e a meta (va_nodeId a)) (opt_list znet), []))
            else case znet of
              None \<Rightarrow> retE ([], [])
            | Some w \<Rightarrow> bindE (getE is_full) (\<lambda>full.
                if access = None \<and> \<not> has_access \<and> va_addAccess a \<and> full then
                  bindE (on_full (addAccess e (va_nodeId a) True) []) (\<lambda>config. bindE (getE (\<lambda>net. net)) (\<lambda>net.
                    retE ([network_deployment e a meta (va_nodeId a)
                             (w\<lparr>wl_data := any_getUpdatedNetwork (wl_data w) net\<rparr>)], config)))
                else retE ([network_deployment e a meta (va_nodeId a) w], []))) (\<lambda>(tds, config).
     bindE (getE (\<lambda>net. net)) (\<lambda>net.
       retE (tds @ (case access of
           Some (i, w) \<Rightarrow> if Ft_wireguard \<in> set features
             then [network_deployment e a meta i (w\<lparr>wl_data := any_getUpdatedNetwork (wl_data w) net\<rparr>)] else []
         | None \<Rightarrow> []), config)))))"

subsection \<open>The seed of a machine\<close>

definition hex_digit :: "nat \<Rightarrow> char" where
  "hex_digit n = ''0123456789abcdef'' ! n"

fun show_hex :: "nat \<Rightarrow> string" where
  "show_hex n = (if n < 16 then [hex_digit n] else show_hex (n div 16) @ [hex_digit (n mod 16)])"

declare show_hex.simps [simp del]

text \<open>\<open>padStart\<close>, and \<open>parseInt(part, 10)\<close> of a part of an address; \<open>None\<close> is \<open>NaN\<close>.\<close>

definition pad_start :: "nat \<Rightarrow> string \<Rightarrow> string" where
  "pad_start n s = replicate (n - length s) (CHR ''0'') @ s"

definition parse_int :: "string \<Rightarrow> nat option" where
  "parse_int s = (let ds = takeWhile is_digit s in if ds = [] then None else Some (read_nat ds))"

definition zeroPadding :: "nat \<Rightarrow> nat option \<Rightarrow> string" where
  "zeroPadding n num = pad_start n (case num of None \<Rightarrow> ''NaN'' | Some x \<Rightarrow> show_hex x)"

text \<open>The last two numbers of the address; one number alone leaves the second undefined.\<close>

definition mycelium_seed_of :: "string \<Rightarrow> js_error + string" where
  "mycelium_seed_of ip = (case rev (split_on (CHR ''.'') (before_char (CHR ''/'') ip)) of
     y # x # _ \<Rightarrow> Inr (zeroPadding 6 (parse_int x) @ zeroPadding 6 (parse_int y))
   | _ \<Rightarrow> Inl TypeError)"

definition machine_seed :: "vm_args \<Rightarrow> string option \<Rightarrow> js_error + string" where
  "machine_seed a ip = (if \<not> va_mycelium a then Inr (va_myceliumSeed a)
     else case ip of None \<Rightarrow> Inl TypeError
     | Some x \<Rightarrow> if va_myceliumSeed a \<noteq> [] then bindR (validateHexSeed (va_myceliumSeed a) 6) (\<lambda>_. Inr (va_myceliumSeed a))
         else mycelium_seed_of x)"

subsection \<open>A machine\<close>

definition vm_workload ::
  "Features list \<Rightarrow> vm_args \<Rightarrow> Mount list \<Rightarrow> string \<Rightarrow> string \<Rightarrow> string \<Rightarrow> string \<Rightarrow> Workload"
where
  "vm_workload features a mounts networkName ip seed ipName =
     (let m = \<lparr>ma_name = va_name a, ma_flist = va_flist a, ma_cpu = va_cpu a, ma_memory = va_memory a,
        ma_rootfs_size = root_size a, ma_disks = mounts, ma_network = networkName, ma_ip = ip,
        ma_planetary = va_planetary a, ma_mycelium = va_mycelium a, ma_mycelium_seed = seed,
        ma_public_ip = ipName, ma_entrypoint = va_entrypoint a, ma_env = va_env a, ma_metadata = [],
        ma_description = va_description a, ma_version = 0, ma_corex = va_corex a, ma_gpus = va_gpus a\<rparr>
      in if Ft_zmachine \<in> set features then VM_create m else VMLight_create m)"

definition disk_workloads :: "vm_args \<Rightarrow> Workload list" where
  "disk_workloads a = map (\<lambda>d. Disk_create (dm_size d) (dm_name d) [] (va_description a) 0) (va_disks a)"

definition disk_mounts :: "vm_args \<Rightarrow> Mount list" where
  "disk_mounts a = map (\<lambda>d. createMount (dm_name d) (dm_mountpoint d)) (va_disks a)"

definition logs_workloads :: "vm_args \<Rightarrow> Workload list" where
  "logs_workloads a = (case va_zlogsOutput a of None \<Rightarrow> []
     | Some out \<Rightarrow> if out = [] then [] else [Zlogs_create (va_name a) out [] (va_description a) 0])"

text \<open>Everything that is checked before the network is touched: the node's features and the
  workloads besides the machine, their mounts, and the public address.\<close>

definition prepare_machine ::
  "('a, 'b) machine_env_scheme \<Rightarrow> vm_args
   \<Rightarrow> js_error + Features list \<times> Workload list \<times> Mount list \<times> string \<times> int"
where
  "prepare_machine e a = bindR (getNode (e_grid e) (va_nodeId a)) (\<lambda>first.
     bindR (known_node e (va_nodeId a)) (\<lambda>node. let features = ni_features node in
     bindR (check_resources e a) (\<lambda>_.
     bindR (case first of None \<Rightarrow> Inl TypeError | Some info \<Rightarrow> check_available e info (va_nodeId a)) (\<lambda>_.
     bindR (mapR (qsfs_disk e (used_project e a)) (va_qsfsDisks a)) (\<lambda>qs.
     bindR (public_ip e features a) (\<lambda>(ips, ipName, publicIps).
     bindR (check_gpus e a) (\<lambda>_.
       Inr (features, disk_workloads a @ map fst qs @ ips, disk_mounts a @ map snd qs, ipName, publicIps))))))))"

text \<open>An address that could not be reserved is undefined; the empty one is refused as well.\<close>

definition machine_ip_step :: "('a, 'b) net_env_scheme \<Rightarrow> vm_args \<Rightarrow> string option vm_eff" where
  "machine_ip_step e a = (if va_ip a \<noteq> [] then any_validateUserIP e (va_nodeId a) (va_ip a)
     else bindE (any_getFreeIP e (va_nodeId a)) (\<lambda>ip. retE (Some ip)))"

definition network_meta :: "('a, 'b) machine_env_scheme \<Rightarrow> vm_args \<Rightarrow> Features list \<Rightarrow> string \<Rightarrow> string" where
  "network_meta e a features name =
     (if Ft_network \<in> set features then contract_metadata 3 ''network'' name (used_project e a)
      else contract_metadata 4 ''network-light'' name (used_project e a))"

definition VM_deploy :: "('a, 'b) machine_env_scheme \<Rightarrow> vm_args \<Rightarrow> (TwinDeployment list \<times> string) vm_eff" where
  "VM_deploy e a = bindE (liftE (prepare_machine e a)) (\<lambda>(features, ws, mounts, ipName, publicIps).
     bindE (claim_subnets e features (va_ip a)) (\<lambda>(user_subnet, access_subnet).
     bindE (getE any_name) (\<lambda>name. let meta = network_meta e a features name in
     bindE (access_step e features a access_subnet) (\<lambda>(has_access, access, config1).
     bindE (mycelium_step e a meta) (\<lambda>updates.
     bindE (network_step e features a meta user_subnet has_access access) (\<lambda>(tds, config2).
     bindE (machine_ip_step e a) (\<lambda>ip.
     bindE (liftE (machine_seed a ip)) (\<lambda>seed.
       let vm = vm_workload features a mounts name (case ip of None \<Rightarrow> [] | Some x \<Rightarrow> x) seed ipName;
           d = create_deployment (e_twin_id e) (ws @ [vm] @ logs_workloads a) 0 (va_metadata a) (va_description a) 0
       in retE (updates @ tds @ [machine_twin d Op_deploy publicIps (va_nodeId a) (va_contractMetadata a)
                                   (va_solutionProviderId a)],
                if config2 = [] then config1 else config2)))))))))"

subsection \<open>Kubernetes\<close>

definition k3s_flist :: string where
  "k3s_flist = ''https://hub.grid.tf/tf-official-apps/threefolddev-k3s-v1.31.0.flist''"

text \<open>The arguments of \<open>add_master\<close> and \<open>add_worker\<close>: those of a machine, the secret, the key and a disk size.\<close>

record k8s_args =
  ka_machine :: vm_args
  ka_secret :: string
  ka_sshKey :: string
  ka_diskSize :: rat

definition k3s_env :: "k8s_args \<Rightarrow> string \<Rightarrow> (string \<times> string) list" where
  "k3s_env k url = [(''SSH_KEY'', ka_sshKey k), (''K3S_TOKEN'', ka_secret k), (''K3S_DATA_DIR'', ''/mnt/data''),
     (''K3S_FLANNEL_IFACE'', ''eth0''), (''K3S_NODE_NAME'', va_name (ka_machine k)), (''K3S_URL'', url)]"

definition k3s_machine :: "k8s_args \<Rightarrow> string \<Rightarrow> string \<Rightarrow> vm_args" where
  "k3s_machine k flist url = (ka_machine k)\<lparr>va_flist := flist,
     va_disks := [\<lparr>dm_name = va_name (ka_machine k) @ ''_disk'', dm_size = ka_diskSize k, dm_mountpoint = ''/mnt/data''\<rparr>],
     va_entrypoint := ''/sbin/zinit init'', va_env := k3s_env k url\<rparr>"

definition add_master :: "('a, 'b) machine_env_scheme \<Rightarrow> k8s_args \<Rightarrow> (TwinDeployment list \<times> string) vm_eff" where
  "add_master e k = VM_deploy e (k3s_machine k k3s_flist [])"

definition add_worker ::
  "('a, 'b) machine_env_scheme \<Rightarrow> k8s_args \<Rightarrow> string \<Rightarrow> string option \<Rightarrow> (TwinDeployment list \<times> string) vm_eff"
where
  "add_worker e k masterIp masterFlist =
     VM_deploy e (k3s_machine k (case masterFlist of Some f \<Rightarrow> if f = [] then k3s_flist else f | None \<Rightarrow> k3s_flist)
                    (''https://'' @ masterIp @ '':6443''))"

end
