(* ===== verification/BaseModule.thy ===== *)
theory BaseModule
  imports Machine
begin

text \<open>
  \<open>grid_client/src/modules/base.ts\<close>: what the public modules share.  A module finds the contracts
  of its deployments by name, keeps the lists of the contracts it made and deleted until the graph
  database knows of them, reads deployments back from their nodes, and turns an update, an addition
  or a deletion into the twin deployments it hands to the handler.

  The state is the handler's, the module's cache of contracts, and the two static lists (with the
  time each new contract was recorded).  Storage and graph database are fields of \<open>module_env\<close>.
  A path is joined from segments that hold no dots and no slash at their ends; an empty list is
  dumped as the empty string, which empties the key.
\<close>

subsection \<open>State\<close>

record StoredContract =
  sc_contract_id :: int
  sc_node_id :: int

record 'c module_world =
  mw_hw :: "'c hworld"
  mw_contracts :: "GqlNodeContract list option"
  mw_newContracts :: "(GqlNodeContract \<times> int) list"
  mw_deletedContracts :: "int list"

record ('a, 'c) module_env =
  m_handler :: "('a, 'c) handler_env"
  m_machine :: "'c \<Rightarrow> 'a machine_env"
  m_moduleName :: string
  m_projectName :: string
  m_workloadTypes :: "WorkloadTypes list"
  m_my_contracts :: "string \<Rightarrow> string \<Rightarrow> 'c \<Rightarrow> js_error + GqlNodeContract list"
  m_parse :: "string \<Rightarrow> js_error + DeploymentData"
  m_storePath :: string
  m_tfkvstore :: bool
  m_load :: "string \<Rightarrow> 'c \<Rightarrow> js_error + StoredContract list option"
  m_dump :: "string \<Rightarrow> StoredContract list \<Rightarrow> 'c \<Rightarrow> (js_error + extrinsic option list) \<times> 'c"
  m_list :: "string \<Rightarrow> 'c \<Rightarrow> js_error + string list"
  m_move :: "string \<Rightarrow> string \<Rightarrow> 'c \<Rightarrow> js_error + extrinsic option list"
  m_remove :: "string \<Rightarrow> 'c \<Rightarrow> (js_error + unit) \<times> 'c"
  m_features :: "int \<Rightarrow> 'c \<Rightarrow> js_error + string list"

type_synonym ('c, 'r) module_eff = "('c module_world, js_error, 'r) eff"

definition on_handler :: "('c, 'r) handler_eff \<Rightarrow> ('c, 'r) module_eff" where
  "on_handler m = (\<lambda>w. let (r, h) = m (mw_hw w) in (r, w\<lparr>mw_hw := h\<rparr>))"

definition m_ask :: "('c \<Rightarrow> js_error + 'r) \<Rightarrow> ('c, 'r) module_eff" where
  "m_ask f = on_handler (ask f)"

definition m_act :: "('c \<Rightarrow> (js_error + 'r) \<times> 'c) \<Rightarrow> ('c, 'r) module_eff" where
  "m_act f = on_handler (act f)"

definition m_grid :: "('a, 'c) module_env \<Rightarrow> 'c \<Rightarrow> grid_api" where
  "m_grid m = h_grid (m_handler m)"

definition m_apply :: "('a, 'c) module_env \<Rightarrow> extrinsic option list \<Rightarrow> ('c, chain_result list) module_eff" where
  "m_apply m xs = on_handler (on_client (applyAllExtrinsics (h_chain (m_handler m)) xs))"

subsection \<open>Paths\<close>

definition path_join :: "string list \<Rightarrow> string" where
  "path_join segs = join_with ''/'' (filter (\<lambda>x. x \<noteq> []) segs)"

definition getNewDeploymentPath :: "('a, 'c) module_env \<Rightarrow> string list \<Rightarrow> string" where
  "getNewDeploymentPath m paths = path_join ([m_storePath m, m_moduleName m, m_projectName m] @ paths)"

definition getDeploymentPath :: "('a, 'c) module_env \<Rightarrow> string \<Rightarrow> string" where
  "getDeploymentPath m name = path_join [m_storePath m, m_projectName m, m_moduleName m, name]"

definition contracts_path :: "('a, 'c) module_env \<Rightarrow> string \<Rightarrow> string" where
  "contracts_path m name = getNewDeploymentPath m [name, ''contracts.json'']"

subsection \<open>Saving contracts\<close>

definition getOldDeploymentContracts :: "('a, 'c) module_env \<Rightarrow> string \<Rightarrow> ('c, StoredContract list) module_eff" where
  "getOldDeploymentContracts m name = bindE (m_ask (m_load m (contracts_path m name))) (\<lambda>cs.
     retE (case cs of None \<Rightarrow> [] | Some x \<Rightarrow> x))"

definition record_created :: "('a, 'c) module_env \<Rightarrow> Contract \<Rightarrow> ('c, unit) module_eff" where
  "record_created m c = (case ct_type c of
     CT_node nc \<Rightarrow> bindE (m_ask (\<lambda>ch. Inr (h_now (m_handler m) ch))) (\<lambda>now.
       bindE (liftE (m_parse m (nc_deploymentData nc))) (\<lambda>d.
         modifyE (\<lambda>w. w\<lparr>mw_newContracts := mw_newContracts w @ [(gql_of_contract c nc d, now)]\<rparr>)))
   | _ \<Rightarrow> retE ())"

text \<open>Each deleted contract is recorded, dropped from the stored ones, and its own file emptied.\<close>

definition record_deleted ::
  "('a, 'c) module_env \<Rightarrow> int \<Rightarrow> StoredContract list \<times> extrinsic option list
   \<Rightarrow> ('c, StoredContract list \<times> extrinsic option list) module_eff"
where
  "record_deleted m i acc = (case acc of (stored, ops) \<Rightarrow>
     bindE (modifyE (\<lambda>w. w\<lparr>mw_deletedContracts := mw_deletedContracts w @ [i]\<rparr>)) (\<lambda>_.
       bindE (m_act (m_dump m (path_join [m_storePath m, ''contracts'', show_int i @ ''.json'']) [])) (\<lambda>xs.
         retE (filter (\<lambda>c. sc_contract_id c \<noteq> i) stored, ops @ xs))))"

definition save_module :: "('a, 'c) module_env \<Rightarrow> string \<Rightarrow> Contract list \<Rightarrow> int list \<Rightarrow> ('c, unit) module_eff" where
  "save_module m name created deleted = bindE (getOldDeploymentContracts m name) (\<lambda>old.
     bindE (iterE (record_created m) created) (\<lambda>_.
     bindE (foldE (record_deleted m) deleted (old, [])) (\<lambda>(stored, ops).
     bindE (m_act (m_dump m (contracts_path m name) stored)) (\<lambda>xs.
     bindE (if stored \<noteq> [] then retE []
            else m_act (m_dump m (path_join [getDeploymentPath m name, name @ ''.conf'']) [])) (\<lambda>ys.
       let all_ops = filter (\<lambda>x. x \<noteq> None) (ops @ xs @ ys)
       in if m_tfkvstore m \<and> all_ops \<noteq> [] then bindE (m_apply m all_ops) (\<lambda>_. retE ()) else retE ())))))"

subsection \<open>Moving old keys\<close>

definition old_key_path :: "('a, 'c) module_env \<Rightarrow> string \<Rightarrow> string" where
  "old_key_path m key = path_join [getDeploymentPath m [], key, ''contracts.json'']"

text \<open>A value that cannot be loaded is logged and left where it is.\<close>

definition load_key :: "('a, 'c) module_env \<Rightarrow> string \<Rightarrow> ('c, StoredContract list option) module_eff" where
  "load_key m key = catchE (m_ask (m_load m (old_key_path m key))) (\<lambda>_. retE None)"

definition move_key :: "('a, 'c) module_env \<Rightarrow> string \<times> StoredContract list option \<Rightarrow> ('c, unit) module_eff" where
  "move_key m p = (case p of (key, v) \<Rightarrow>
     (case v of
       None \<Rightarrow> retE ()
     | Some cs \<Rightarrow> if old_key_path m key = contracts_path m key then retE ()
         else bindE (m_act (m_dump m (contracts_path m key) cs)) (\<lambda>_. m_act (m_remove m (old_key_path m key)))))"

definition migrateListKeys :: "('a, 'c) module_env \<Rightarrow> ('c, unit) module_eff" where
  "migrateListKeys m = bindE (m_ask (m_list m (getDeploymentPath m []))) (\<lambda>keys.
     if m_tfkvstore m then
       bindE (mapE (\<lambda>k. m_ask (m_move m (old_key_path m k) (contracts_path m k))) keys) (\<lambda>exts.
         bindE (m_apply m (filter (\<lambda>x. x \<noteq> None) (concat exts))) (\<lambda>_. retE ()))
     else bindE (mapE (load_key m) keys) (\<lambda>vals. iterE (move_key m) (zip keys vals)))"

subsection \<open>The contracts of the module\<close>

fun module_type :: "string \<Rightarrow> string" where
  "module_type n = (case map_of [(''machines'', ''vm''), (''kubernetes'', ''kubernetes''), (''gateways'', ''gateway''),
       (''qsfs_zdbs'', ''qsfs''), (''zdb'', ''zdb''), (''networks'', ''network'')] n of Some t \<Rightarrow> t | None \<Rightarrow> n)"

text \<open>\<open>hay.includes(needle)\<close>\<close>

fun includes_text :: "string \<Rightarrow> string \<Rightarrow> bool" where
  "includes_text needle [] \<longleftrightarrow> needle = []"
| "includes_text needle (x # xs) \<longleftrightarrow> prefix needle (x # xs) \<or> includes_text needle xs"

fun replace_contract :: "GqlNodeContract \<Rightarrow> GqlNodeContract list \<Rightarrow> GqlNodeContract list" where
  "replace_contract c [] = []"
| "replace_contract c (x # xs) = (if gc_contractID x = gc_contractID c then c # xs else x # replace_contract c xs)"

text \<open>
  A new contract of the module: the graph database does not list it, or lists it already.  For a
  minute the new contract replaces the listed one; after that it is due to be forgotten.
\<close>

definition merge_recent ::
  "string \<Rightarrow> string \<Rightarrow> int \<Rightarrow> GqlNodeContract \<times> int
   \<Rightarrow> GqlNodeContract list \<times> (GqlNodeContract \<times> int) list \<Rightarrow> GqlNodeContract list \<times> (GqlNodeContract \<times> int) list"
where
  "merge_recent project type now p acc = (case acc of (contracts, fetched) \<Rightarrow>
     (case gc_parsed (fst p) of
        None \<Rightarrow> acc
      | Some d \<Rightarrow>
          if \<not> includes_text project (dd_projectName d) \<or> dd_type d \<noteq> type then acc
          else if \<not> list_ex (\<lambda>c. gc_contractID c = gc_contractID (fst p)) contracts then (contracts @ [fst p], fetched)
          else if now - snd p < 60000 then (replace_contract (fst p) contracts, fetched)
          else (contracts, fetched @ [p])))"

definition getMyContracts :: "('a, 'c) module_env \<Rightarrow> bool \<Rightarrow> ('c, GqlNodeContract list) module_eff" where
  "getMyContracts m fetch = bindE (getE mw_contracts) (\<lambda>cached.
     if \<not> fetch \<and> cached \<noteq> None then retE (the cached)
     else let type = module_type (m_moduleName m) in
       bindE (m_ask (m_my_contracts m type (if type = ''network'' then [] else m_projectName m))) (\<lambda>listed.
       bindE (m_ask (\<lambda>ch. Inr (h_now (m_handler m) ch))) (\<lambda>now.
       bindE (getE (\<lambda>w. fold (merge_recent (m_projectName m) type now) (mw_newContracts w) (listed, []))) (\<lambda>(contracts, fetched).
       bindE (modifyE (\<lambda>w. w\<lparr>mw_newContracts := fold remove1 fetched (mw_newContracts w)\<rparr>)) (\<lambda>_.
       bindE (getE (\<lambda>w. filter (\<lambda>c. js_number (gc_contractID c) \<notin> set (mw_deletedContracts w)) contracts)) (\<lambda>live.
       bindE (liftE (parse_contracts (m_parse m) live)) (\<lambda>cs.
       bindE (modifyE (\<lambda>w. w\<lparr>mw_contracts := Some cs\<rparr>)) (\<lambda>_. retE cs))))))))"

definition module_contracts :: "('a, 'c) module_env \<Rightarrow> string \<Rightarrow> ('c, GqlNodeContract list) module_eff" where
  "module_contracts m name = bindE (getMyContracts m False) (\<lambda>cs. retE (filter (\<lambda>c. contract_name c = name) cs))"

definition list_names :: "('a, 'c) module_env \<Rightarrow> ('c, string list) module_eff" where
  "list_names m = bindE (migrateListKeys m) (\<lambda>_. bindE (getMyContracts m True) (\<lambda>cs. retE (getContractsName cs)))"

definition exists_name :: "('a, 'c) module_env \<Rightarrow> string \<Rightarrow> ('c, bool) module_eff" where
  "exists_name m name = bindE (list_names m) (\<lambda>ns. retE (name \<in> set ns))"

definition workloadExists :: "string \<Rightarrow> Deployment list \<Rightarrow> bool" where
  "workloadExists name old \<longleftrightarrow> list_ex (\<lambda>d. list_ex (\<lambda>w. name = wl_name w) (dp_workloads d)) old"

definition getDeploymentNodeIds :: "('a, 'c) module_env \<Rightarrow> string \<Rightarrow> ('c, int list) module_eff" where
  "getDeploymentNodeIds m name = bindE (module_contracts m name) (\<lambda>cs. retE (map gc_nodeID cs))"

definition getContractIdFromNodeId :: "('a, 'c) module_env \<Rightarrow> string \<Rightarrow> int \<Rightarrow> ('c, int) module_eff" where
  "getContractIdFromNodeId m name nodeId = bindE (module_contracts m name) (\<lambda>cs.
     retE (case find (\<lambda>c. gc_nodeID c = nodeId) cs of None \<Rightarrow> 0 | Some c \<Rightarrow> js_number (gc_contractID c)))"

definition nodeOfContract :: "('a, 'c) module_env \<Rightarrow> string \<Rightarrow> int option \<Rightarrow> ('c, int) module_eff" where
  "nodeOfContract m name contractId = bindE (module_contracts m name) (\<lambda>cs.
     retE (case find (\<lambda>c. Some (js_number (gc_contractID c)) = contractId) cs of None \<Rightarrow> 0 | Some c \<Rightarrow> gc_nodeID c))"

text \<open>A workload with the contract and the node it was found on.\<close>

record located =
  lc_workload :: Workload
  lc_contractId :: "int option"
  lc_nodeId :: int

definition locate_workloads ::
  "('a, 'c) module_env \<Rightarrow> string \<Rightarrow> (Workload \<Rightarrow> bool) \<Rightarrow> Deployment \<Rightarrow> ('c, located list) module_eff"
where
  "locate_workloads m name wanted d = mapE (\<lambda>w. bindE (nodeOfContract m name (dp_contract_id d)) (\<lambda>i.
     retE \<lparr>lc_workload = w, lc_contractId = dp_contract_id d, lc_nodeId = i\<rparr>)) (filter wanted (dp_workloads d))"

definition getWorkloadsByTypes ::
  "('a, 'c) module_env \<Rightarrow> string \<Rightarrow> Deployment list \<Rightarrow> WorkloadTypes list \<Rightarrow> ('c, located list) module_eff"
where
  "getWorkloadsByTypes m name ds types =
     bindE (mapE (locate_workloads m name (\<lambda>w. wl_type w \<in> set types)) ds) (\<lambda>xss. retE (concat xss))"

subsection \<open>Reading deployments back\<close>

text \<open>
  An error of the node is only reworded: the deployment stays undefined, and reading its workloads
  is a \<open>TypeError\<close>.  A deployment without a live workload of the module counts as deleted.
\<close>

fun module_found :: "WorkloadTypes list \<Rightarrow> Workload list \<Rightarrow> js_error + bool" where
  "module_found types [] = Inr False"
| "module_found types (w # ws) = (if wl_type w \<in> set types
     then bindR (workload_deleted w) (\<lambda>gone. if gone then module_found types ws else Inr True)
     else module_found types ws)"

definition get_one ::
  "('a, 'c) module_env \<Rightarrow> string \<Rightarrow> GqlNodeContract \<Rightarrow> Deployment list \<Rightarrow> ('c, Deployment list) module_eff"
where
  "get_one m name c acc = (let cid = js_number (gc_contractID c) in
     bindE (m_ask (\<lambda>ch. chain_contract (m_grid m ch) cid)) (\<lambda>there. case there of
       None \<Rightarrow> bindE (save_module m name [] [cid]) (\<lambda>_. retE acc)
     | Some _ \<Rightarrow> bindE (m_ask (\<lambda>ch. getNodeTwinId (m_grid m ch) (gc_nodeID c))) (\<lambda>twin.
         bindE (catchE (m_act (h_get_deployment (m_handler m) twin cid)) (\<lambda>_. throwE TypeError)) (\<lambda>d.
           bindE (liftE (module_found (m_workloadTypes m) (dp_workloads d))) (\<lambda>found.
             if found then retE (acc @ [d])
             else bindE (save_module m name [] [cid]) (\<lambda>_. retE acc))))))"

definition get_deployments :: "('a, 'c) module_env \<Rightarrow> string \<Rightarrow> ('c, Deployment list) module_eff" where
  "get_deployments m name = bindE (exists_name m name) (\<lambda>there.
     if \<not> there then retE []
     else bindE (module_contracts m name) (\<lambda>cs.
       bindE (if cs = [] then save_module m name [] [] else retE ()) (\<lambda>_. foldE (get_one m name) cs [])))"

subsection \<open>Updating\<close>

text \<open>
  The twin deployments of an update carry either the network of the call, which goes on changing
  until the end, or (a deletion) one of their own: the first are marked.  \<open>UpdateDeployment\<close> also
  writes into the new workloads; what it writes is overwritten before it is read again.
\<close>

type_synonym marked = "bool \<times> TwinDeployment"

definition attach_network :: "any_network option \<Rightarrow> marked \<Rightarrow> TwinDeployment" where
  "attach_network net p = (case p of (own, td) \<Rightarrow> if own then td\<lparr>td_network := net\<rparr> else td)"

fun is_v4 :: "Workload \<Rightarrow> bool" where
  "is_v4 w \<longleftrightarrow> wl_type w = WT_ip \<and> (case wl_data w of D_publicip p \<Rightarrow> ip_v4 p | _ \<Rightarrow> False)"

definition pub_ip_name :: "Workload list \<Rightarrow> js_error + string" where
  "pub_ip_name ws = (case filter is_v4 ws of [] \<Rightarrow> Inl TypeError | w # _ \<Rightarrow> Inr (wl_name w))"

definition has_v4 :: "Workload list \<Rightarrow> bool" where
  "has_v4 ws \<longleftrightarrow> filter is_v4 ws \<noteq> []"

definition update_twin :: "Deployment \<Rightarrow> marked" where
  "update_twin d = (True, twin d Op_update None)"

definition update_from ::
  "('a, 'c) module_env \<Rightarrow> Deployment \<Rightarrow> TwinDeployment \<Rightarrow> any_network option
   \<Rightarrow> ('c, Deployment option \<times> any_network option) module_eff"
where
  "update_from m old td net = m_ask (\<lambda>ch. UpdateDeployment (m_grid m ch) any_deleteReservedIp old (td_deployment td) net)"

definition delete_all ::
  "('a, 'c) module_env \<Rightarrow> WorkloadTypes list \<Rightarrow> Deployment \<Rightarrow> string list \<Rightarrow> ('c, TwinDeployment list) module_eff"
where
  "delete_all m types d names = m_ask (\<lambda>ch. delete_workloads (m_machine m ch) d names types)"

record update_acc =
  ua_final :: "marked list"
  ua_done :: "string list"
  ua_net :: "any_network option"

definition update_pub_new ::
  "('a, 'c) module_env \<Rightarrow> int \<Rightarrow> string \<Rightarrow> Deployment \<Rightarrow> TwinDeployment \<Rightarrow> Deployment \<times> update_acc
   \<Rightarrow> ('c, Deployment \<times> update_acc) module_eff"
where
  "update_pub_new m node_id ipName old0 td acc = (case acc of (old, s) \<Rightarrow>
     if td_nodeId td \<noteq> node_id then retE acc
     else bindE (liftE (pub_ip_name (dp_workloads (td_deployment td)))) (\<lambda>newName.
       if ipName \<noteq> newName then retE acc
       else bindE (update_from m old td (ua_net s)) (\<lambda>(res, net').
         let s' = s\<lparr>ua_done := ua_done s @ [ipName], ua_net := net'\<rparr>
         in case res of None \<Rightarrow> retE (old, s')
            | Some d \<Rightarrow> retE (d, s'\<lparr>ua_final := ua_final s' @ [update_twin d]\<rparr>))))"

definition update_pub_old ::
  "('a, 'c) module_env \<Rightarrow> WorkloadTypes list \<Rightarrow> string \<Rightarrow> TwinDeployment list \<Rightarrow> Deployment \<Rightarrow> update_acc
   \<Rightarrow> ('c, update_acc) module_eff"
where
  "update_pub_old m types name tds d0 s =
     bindE (liftE (fromObj (h_valid (m_handler m)) d0)) (\<lambda>old.
     bindE (liftE (pub_ip_name (dp_workloads old))) (\<lambda>ipName.
     bindE (nodeOfContract m name (dp_contract_id old)) (\<lambda>node_id.
     bindE (foldE (update_pub_new m node_id ipName old) tds (old, s)) (\<lambda>(old', s').
       if ipName \<in> set (ua_done s') then retE s'
       else bindE (delete_all m types old' []) (\<lambda>xs.
         retE (s'\<lparr>ua_final := ua_final s' @ map (Pair False) xs\<rparr>))))))"

definition updateWithPubIP ::
  "('a, 'c) module_env \<Rightarrow> WorkloadTypes list \<Rightarrow> string \<Rightarrow> Deployment list \<Rightarrow> TwinDeployment list
   \<Rightarrow> any_network option \<Rightarrow> ('c, marked list \<times> any_network option) module_eff"
where
  "updateWithPubIP m types name olds tds net =
     bindE (foldE (update_pub_old m types name tds) olds \<lparr>ua_final = [], ua_done = [], ua_net = net\<rparr>) (\<lambda>s.
     bindE (mapE (\<lambda>td. bindE (liftE (pub_ip_name (dp_workloads (td_deployment td)))) (\<lambda>n. retE (n, td))) tds) (\<lambda>named.
       retE (ua_final s @ map (\<lambda>p. (True, snd p)) (filter (\<lambda>p. fst p \<notin> set (ua_done s)) named), ua_net s)))"

text \<open>Without public addresses: the first deployment of the node that changes something is taken.\<close>

fun update_plain_new ::
  "('a, 'c) module_env \<Rightarrow> int \<Rightarrow> Deployment \<Rightarrow> TwinDeployment list \<Rightarrow> bool \<Rightarrow> any_network option
   \<Rightarrow> ('c, bool \<times> Deployment option \<times> any_network option) module_eff"
where
  "update_plain_new m node_id old [] found net = retE (found, None, net)"
| "update_plain_new m node_id old (td # tds) found net =
     (if td_nodeId td \<noteq> node_id then update_plain_new m node_id old tds found net
      else bindE (update_from m old td net) (\<lambda>(res, net'). case res of
          None \<Rightarrow> update_plain_new m node_id old tds True net'
        | Some d \<Rightarrow> retE (True, Some d, net')))"

definition update_plain_old ::
  "('a, 'c) module_env \<Rightarrow> WorkloadTypes list \<Rightarrow> string \<Rightarrow> TwinDeployment list \<Rightarrow> Deployment
   \<Rightarrow> marked list \<times> any_network option \<Rightarrow> ('c, marked list \<times> any_network option) module_eff"
where
  "update_plain_old m types name tds d0 acc = (case acc of (final, net) \<Rightarrow>
     bindE (liftE (fromObj (h_valid (m_handler m)) d0)) (\<lambda>old.
     bindE (nodeOfContract m name (dp_contract_id old)) (\<lambda>node_id.
     bindE (update_plain_new m node_id old tds False net) (\<lambda>(found, res, net').
       if found then retE (final @ map update_twin (opt_list res), net')
       else bindE (delete_all m types old []) (\<lambda>xs. retE (final @ map (Pair False) xs, net'))))))"

definition updateWithoutPubIP ::
  "('a, 'c) module_env \<Rightarrow> WorkloadTypes list \<Rightarrow> string \<Rightarrow> Deployment list \<Rightarrow> TwinDeployment list
   \<Rightarrow> any_network option \<Rightarrow> ('c, marked list \<times> any_network option) module_eff"
where
  "updateWithoutPubIP m types name olds tds net = foldE (update_plain_old m types name tds) olds ([], net)"

text \<open>The refusal of adding or removing a public address; the last one named counts.\<close>

definition v4_name :: "Workload list \<Rightarrow> string" where
  "v4_name ws = (case rev (filter is_v4 ws) of [] \<Rightarrow> [] | w # _ \<Rightarrow> wl_name w)"

definition machine_names :: "Workload list \<Rightarrow> string list" where
  "machine_names ws = map wl_name (filter (\<lambda>w. wl_type w = WT_zmachine) ws)"

definition cannot_remove :: js_error where
  "cannot_remove = TFGridWorkloadError W_Update ''Cannot remove a public IP of an existent deployment.''"

definition cannot_add :: js_error where
  "cannot_add = TFGridWorkloadError W_Update ''Cannot add a public IP to an existent deployment.''"

definition reject_new :: "int \<Rightarrow> Workload list \<Rightarrow> TwinDeployment \<Rightarrow> js_error + unit" where
  "reject_new node_id old td = (let new = dp_workloads (td_deployment td) in
     if td_nodeId td \<noteq> node_id then Inr ()
     else if filter (\<lambda>n. n \<in> set (machine_names new)) (machine_names old) = [] then Inr ()
     else if v4_name new = v4_name old then Inr ()
     else if v4_name new = [] then Inl cannot_remove
     else if v4_name old = [] then Inl cannot_add else Inr ())"

definition reject_one :: "('a, 'c) module_env \<Rightarrow> string \<Rightarrow> TwinDeployment list \<Rightarrow> Deployment \<Rightarrow> ('c, unit) module_eff" where
  "reject_one m name tds d0 =
     (if v4_name (dp_workloads d0) \<noteq> [] \<and> tds = [] then throwE cannot_remove
      else bindE (liftE (fromObj (h_valid (m_handler m)) d0)) (\<lambda>old.
        bindE (nodeOfContract m name (dp_contract_id old)) (\<lambda>node_id.
          iterE (\<lambda>td. liftE (reject_new node_id (dp_workloads d0) td)) tds)))"

definition update_deployments ::
  "('a, 'c) module_env \<Rightarrow> WorkloadTypes list \<Rightarrow> string \<Rightarrow> Deployment list \<Rightarrow> TwinDeployment list
   \<Rightarrow> any_network option \<Rightarrow> ('c, TwinDeployment list) module_eff"
where
  "update_deployments m types name olds tds net =
     (let updates = filter (\<lambda>td. td_operation td = Op_update) tds; merged = deployMerge tds in
     bindE (getDeploymentNodeIds m name) (\<lambda>ids.
     let elsewhere = filter (\<lambda>td. td_nodeId td \<notin> set ids) merged; here = filter (\<lambda>td. td_nodeId td \<in> set ids) merged in
     bindE (iterE (reject_one m name here) olds) (\<lambda>_.
     bindE (updateWithPubIP m types name (filter (\<lambda>d. has_v4 (dp_workloads d)) olds)
              (filter (\<lambda>td. has_v4 (dp_workloads (td_deployment td))) here) net) (\<lambda>(pub, net1).
     bindE (updateWithoutPubIP m types name (filter (\<lambda>d. \<not> has_v4 (dp_workloads d)) olds)
              (filter (\<lambda>td. \<not> has_v4 (dp_workloads (td_deployment td))) here) net1) (\<lambda>(plain, net2).
       retE (map (attach_network net2) (map (Pair True) (updates @ elsewhere) @ pub @ plain)))))))"

definition update_module ::
  "('a, 'c) module_env \<Rightarrow> WorkloadTypes list \<Rightarrow> string \<Rightarrow> Deployment list \<Rightarrow> TwinDeployment list
   \<Rightarrow> any_network option \<Rightarrow> ('c, DeploymentResultContracts) module_eff"
where
  "update_module m types name olds tds net = bindE (update_deployments m types name olds tds net) (\<lambda>final.
     bindE (on_handler (handle (m_handler m) final)) (\<lambda>rc.
       if rc_created rc = [] \<and> rc_updated rc = [] \<and> rc_deleted rc = [] then retE rc
       else bindE (save_module m name (rc_created rc) (rc_deleted rc)) (\<lambda>_. retE rc)))"

subsection \<open>Adding and deleting\<close>

text \<open>
  An added machine joins the deployment of its node, unless that carries a public address or a
  network, or the machine asks for an address.  Were nothing new, the deployment would be undefined.
\<close>

definition joinable :: "int \<Rightarrow> Deployment \<Rightarrow> bool" where
  "joinable contract_id d \<longleftrightarrow> dp_contract_id d = Some contract_id
     \<and> filter (\<lambda>w. is_v4 w \<or> wl_type w = WT_network) (dp_workloads d) = []"

fun join_deployment ::
  "('a, 'c) module_env \<Rightarrow> int \<Rightarrow> TwinDeployment \<Rightarrow> Deployment list \<Rightarrow> any_network option
   \<Rightarrow> ('c, TwinDeployment \<times> any_network option) module_eff"
where
  "join_deployment m contract_id td [] net = retE (td, net)"
| "join_deployment m contract_id td (d0 # ds) net =
     bindE (liftE (fromObj (h_valid (m_handler m)) d0)) (\<lambda>old.
       if \<not> joinable contract_id old then join_deployment m contract_id td ds net
       else bindE (liftE (fromObj (h_valid (m_handler m)) old)) (\<lambda>copy.
         bindE (update_from m old (add_workloads (dp_workloads (td_deployment td)) (td\<lparr>td_deployment := copy\<rparr>)) net) (\<lambda>(res, net').
           case res of None \<Rightarrow> throwE TypeError
           | Some d \<Rightarrow> retE (td\<lparr>td_deployment := d, td_operation := Op_update\<rparr>, net'))))"

text \<open>The last twin deployment is the machine; of the others the updates go, and the last once more.\<close>

definition add_to_module ::
  "('a, 'c) module_env \<Rightarrow> string \<Rightarrow> int \<Rightarrow> Deployment list \<Rightarrow> TwinDeployment list \<Rightarrow> any_network option
   \<Rightarrow> ('c, DeploymentResultContracts) module_eff"
where
  "add_to_module m name node_id olds tds net =
     (if tds = [] then throwE TypeError
      else let others = butlast tds; updates = filter (\<lambda>td. td_operation td = Op_update) tds in
      bindE (getContractIdFromNodeId m name node_id) (\<lambda>cid.
      bindE (if cid \<noteq> 0 \<and> td_publicIps (last tds) = 0 then join_deployment m cid (last tds) olds net
             else retE (last tds, net)) (\<lambda>(td, net').
      bindE (on_handler (handle (m_handler m)
               (map (\<lambda>t. t\<lparr>td_network := net'\<rparr>) (updates @ (if others = [] then [] else [last others]) @ [td])))) (\<lambda>rc.
      bindE (save_module m name (rc_created rc) (rc_deleted rc)) (\<lambda>_. retE rc)))))"

fun delete_instance_from ::
  "('a, 'c) module_env \<Rightarrow> WorkloadTypes list \<Rightarrow> string \<Rightarrow> string \<Rightarrow> Deployment list
   \<Rightarrow> ('c, DeploymentResultContracts) module_eff"
where
  "delete_instance_from m types deployment_name name [] =
     throwE (ValidationError (''Instance with name '' @ name @ '' is not found.''))"
| "delete_instance_from m types deployment_name name (d # ds) =
     bindE (delete_all m types d [name]) (\<lambda>tds. bindE (on_handler (handle (m_handler m) tds)) (\<lambda>rc.
       if rc_deleted rc \<noteq> [] \<or> rc_updated rc \<noteq> []
       then bindE (save_module m deployment_name (rc_created rc) (rc_deleted rc)) (\<lambda>_.
              bindE (get_deployments m deployment_name) (\<lambda>_. retE rc))
       else delete_instance_from m types deployment_name name ds))"

definition deleteInstance ::
  "('a, 'c) module_env \<Rightarrow> WorkloadTypes list \<Rightarrow> string \<Rightarrow> string \<Rightarrow> ('c, DeploymentResultContracts) module_eff"
where
  "deleteInstance m types deployment_name name = bindE (get_deployments m deployment_name)
     (delete_instance_from m types deployment_name name)"

definition no_contracts :: DeploymentResultContracts where
  "no_contracts = \<lparr>rc_created = [], rc_updated = [], rc_deleted = []\<rparr>"

definition delete_one ::
  "('a, 'c) module_env \<Rightarrow> Deployment \<Rightarrow> DeploymentResultContracts \<Rightarrow> ('c, DeploymentResultContracts) module_eff"
where
  "delete_one m d acc = bindE (delete_all m all_types d []) (\<lambda>tds. bindE (on_handler (handle (m_handler m) tds)) (\<lambda>rc.
     retE (acc\<lparr>rc_deleted := rc_deleted acc @ rc_deleted rc, rc_updated := rc_updated acc @ rc_updated rc\<rparr>)))"

definition delete_module :: "('a, 'c) module_env \<Rightarrow> string \<Rightarrow> ('c, DeploymentResultContracts) module_eff" where
  "delete_module m name = bindE (exists_name m name) (\<lambda>there.
     if \<not> there then retE no_contracts
     else bindE (get_deployments m name) (\<lambda>ds. bindE (foldE (delete_one m) ds no_contracts) (\<lambda>rc.
       let rc' = rc\<lparr>rc_updated := filter (\<lambda>c. ct_contractId c \<notin> set (rc_deleted rc)) (rc_updated rc)\<rparr>
       in bindE (save_module m name (rc_created rc') (rc_deleted rc')) (\<lambda>_. retE rc'))))"

end
