(* ===== verification/PublicModules.thy ===== *)
theory PublicModules
  imports BaseModule
begin

text \<open>
  The public modules of \<open>grid_client/src/modules\<close> over the base: \<open>machines\<close>, \<open>k8s\<close>, \<open>zdb\<close>,
  \<open>qsfs_zdbs\<close>, \<open>gateway\<close> and \<open>networks\<close>.  Each operation reads the options, makes the twin
  deployments, hands them to the handler and saves the contracts.  What the decorators check before
  (the options and the balance) is in \<open>Options\<close>.  The options of a machine are \<open>vm_args\<close>; the
  fields that the module itself decides are overwritten.
\<close>

subsection \<open>Networks of a call\<close>

record NetworkModel =
  nw_name :: string
  nw_ip_range :: string
  nw_addAccess :: bool
  nw_accessNodeId :: int
  nw_myceliumSeeds :: "(int \<times> string) list"

text \<open>The lists of contracts are static: an opened network starts with them and leaves them behind.\<close>

definition current_env :: "('a, 'c) module_env \<Rightarrow> 'c module_world \<Rightarrow> 'a machine_env" where
  "current_env m w = m_machine m (cl_chain (hw_client (mw_hw w)))"

definition keep_statics :: "any_network \<Rightarrow> 'c module_world \<Rightarrow> 'c module_world" where
  "keep_statics net w = (case net of
     FullNet n \<Rightarrow> w\<lparr>mw_hw := (mw_hw w)\<lparr>hw_newContracts := n_newContracts n, hw_deletedContracts := n_deletedContracts n\<rparr>\<rparr>
   | LightNet _ \<Rightarrow> w)"

definition run_network :: "('a machine_env \<Rightarrow> 'r vm_eff) \<Rightarrow> ('a, 'c) module_env \<Rightarrow> any_network \<Rightarrow> ('c, 'r \<times> any_network) module_eff" where
  "run_network f m net = (\<lambda>w. case f (current_env m w) net of
     (r, net') \<Rightarrow> (bindR r (\<lambda>x. Inr (x, net')), keep_statics net' w))"

definition new_network :: "('a, 'c) module_env \<Rightarrow> bool \<Rightarrow> string \<Rightarrow> string \<Rightarrow> ('c, any_network) module_eff" where
  "new_network m light name rng = (\<lambda>w. (if light
     then bindR (new_ZNetworkLight (current_env m w) name rng) (\<lambda>n. Inr (LightNet n))
     else bindR (new_Network (current_env m w) name rng) (\<lambda>n. Inr (FullNet
            (n\<lparr>n_newContracts := hw_newContracts (mw_hw w), n_deletedContracts := hw_deletedContracts (mw_hw w)\<rparr>))), w))"

definition open_module_network :: "('a, 'c) module_env \<Rightarrow> bool \<Rightarrow> string \<Rightarrow> string \<Rightarrow> ('c, any_network) module_eff" where
  "open_module_network m light name rng = bindE (new_network m light name rng) (\<lambda>net.
     bindE (run_network (\<lambda>e. on_network (load e) (light_load e)) m net) (\<lambda>(_, net'). retE net'))"

text \<open>A node whose features name a light workload gets a light network.\<close>

definition is_light_node :: "string list \<Rightarrow> bool" where
  "is_light_node features \<longleftrightarrow>
     list_ex (\<lambda>f. includes_text ''zmachine-light'' f \<or> includes_text ''network-light'' f) features"

definition light_for :: "('a, 'c) module_env \<Rightarrow> int \<Rightarrow> ('c, bool) module_eff" where
  "light_for m nodeId = bindE (m_ask (\<lambda>ch. getNodeTwinId (m_grid m ch) nodeId)) (\<lambda>twin.
     bindE (m_ask (m_features m twin)) (\<lambda>fs. retE (is_light_node fs)))"

definition project_or :: "('a, 'c) module_env \<Rightarrow> string \<Rightarrow> string" where
  "project_or m fallback = (if m_projectName m = [] then fallback else m_projectName m)"

definition finish_deploy :: "('a, 'c) module_env \<Rightarrow> string \<Rightarrow> TwinDeployment list \<Rightarrow> ('c, DeploymentResultContracts) module_eff" where
  "finish_deploy m name tds = bindE (on_handler (handle (m_handler m) tds)) (\<lambda>rc.
     bindE (save_module m name (rc_created rc) (rc_deleted rc)) (\<lambda>_. retE rc))"

definition refuse_existing :: "('a, 'c) module_env \<Rightarrow> string \<Rightarrow> string \<Rightarrow> ('c, unit) module_eff" where
  "refuse_existing m name msg = bindE (exists_name m name) (\<lambda>there.
     if there then throwE (ValidationError msg) else retE ())"

definition require_existing :: "('a, 'c) module_env \<Rightarrow> string \<Rightarrow> string \<Rightarrow> ('c, unit) module_eff" where
  "require_existing m name msg = bindE (exists_name m name) (\<lambda>there.
     if \<not> there then throwE (ValidationError msg) else retE ())"

subsection \<open>Machines\<close>

record MachinesModel =
  mm_name :: string
  mm_network :: NetworkModel
  mm_machines :: "vm_args list"
  mm_metadata :: string
  mm_description :: string

definition machine_call :: "('a, 'c) module_env \<Rightarrow> NetworkModel \<Rightarrow> string \<Rightarrow> string \<Rightarrow> string \<Rightarrow> vm_args \<Rightarrow> vm_args" where
  "machine_call m net meta metadata description a = a\<lparr>va_myceliumNetworkSeeds := nw_myceliumSeeds net,
     va_contractMetadata := meta, va_metadata := metadata, va_description := description,
     va_qsfsProjectName := m_projectName m, va_addAccess := nw_addAccess net, va_accessNodeId := nw_accessNodeId net\<rparr>"

text \<open>The network is the first machine's; the name of every machine must be new.\<close>

fun create_machines ::
  "('a, 'c) module_env \<Rightarrow> (vm_args \<Rightarrow> vm_args) \<Rightarrow> vm_args list \<Rightarrow> string list
   \<Rightarrow> TwinDeployment list \<times> string \<times> any_network \<Rightarrow> ('c, TwinDeployment list \<times> string \<times> any_network) module_eff"
where
  "create_machines m call [] names acc = retE acc"
| "create_machines m call (a # as) names acc = (case acc of (tds, config, net) \<Rightarrow>
     if va_name a \<in> set names
     then throwE (ValidationError (''Another machine with the same name '' @ va_name a @ '' already exists.''))
     else bindE (run_network (\<lambda>e. VM_deploy e (call a)) m net) (\<lambda>((new, cfg), net').
       create_machines m call as (names @ [va_name a])
         (tds @ new, if cfg = [] then config else cfg, net')))"

definition vm_metadata :: "('a, 'c) module_env \<Rightarrow> bool \<Rightarrow> string \<Rightarrow> string \<Rightarrow> string" where
  "vm_metadata m light name owner = contract_metadata (if light then 4 else 3) ''vm'' name (project_or m (''vm/'' @ owner))"

definition machines_createDeployment ::
  "('a, 'c) module_env \<Rightarrow> MachinesModel \<Rightarrow> ('c, TwinDeployment list \<times> string \<times> any_network option) module_eff"
where
  "machines_createDeployment m opts = (case mm_machines opts of
     [] \<Rightarrow> retE ([], [], None)
   | a # _ \<Rightarrow> let net = mm_network opts in
       bindE (light_for m (va_nodeId a)) (\<lambda>light.
       bindE (open_module_network m light (nw_name net) (nw_ip_range net)) (\<lambda>n0.
       bindE (create_machines m
                (machine_call m net (vm_metadata m light (mm_name opts) (mm_name opts)) (mm_metadata opts) (mm_description opts))
                (mm_machines opts) [] ([], [], n0)) (\<lambda>(tds, config, n).
         retE (share_network (Some n) tds, config, Some n)))))"

definition machines_deploy :: "('a, 'c) module_env \<Rightarrow> MachinesModel \<Rightarrow> ('c, DeploymentResultContracts \<times> string) module_eff" where
  "machines_deploy m opts =
     bindE (refuse_existing m (mm_name opts) (''Another machine deployment with the same name '' @ mm_name opts @ '' already exists.'')) (\<lambda>_.
     bindE (machines_createDeployment m opts) (\<lambda>(tds, config, _).
     bindE (finish_deploy m (mm_name opts) tds) (\<lambda>rc. retE (rc, config))))"

text \<open>The network of the first machine found: its name and its rng of 16 bits.\<close>

definition network_of_machine :: "('a, 'c) module_env \<Rightarrow> Workload \<Rightarrow> ('c, string \<times> string) module_eff" where
  "network_of_machine m w = (\<lambda>s. (case first_interface (wl_data w) of
     None \<Rightarrow> Inl TypeError
   | Some i \<Rightarrow> bindR (Addr (current_env m s) (if_ip i)) (\<lambda>a.
       Inr (if_network i, na_toString (e_addr (current_env m s)) (na_mask (e_addr (current_env m s)) 16 a))), s))"

definition first_machine :: "('a, 'c) module_env \<Rightarrow> string \<Rightarrow> Deployment list \<Rightarrow> ('c, Workload) module_eff" where
  "first_machine m name olds = bindE (getWorkloadsByTypes m name olds [WT_zmachine]) (\<lambda>ls.
     case ls of [] \<Rightarrow> throwE TypeError | l # _ \<Rightarrow> retE (lc_workload l))"

definition network_fixed :: js_error where
  "network_fixed = TFGridWorkloadError W_Update (''Network name and ip_range can'' @ apos # ''t be changed.'')"

definition machines_update :: "('a, 'c) module_env \<Rightarrow> MachinesModel \<Rightarrow> ('c, DeploymentResultContracts) module_eff" where
  "machines_update m opts = (let name = mm_name opts; net = mm_network opts in
     bindE (require_existing m name (''There is no machine with the name: '' @ name)) (\<lambda>_.
     bindE (get_deployments m name) (\<lambda>olds.
     bindE (first_machine m name olds) (\<lambda>w.
     bindE (network_of_machine m w) (\<lambda>(netName, rng).
       if netName \<noteq> nw_name net \<or> rng \<noteq> nw_ip_range net then throwE network_fixed
       else bindE (machines_createDeployment m opts) (\<lambda>(tds, _, n).
         update_module m vm_types name olds tds n))))))"

definition add_machine :: "('a, 'c) module_env \<Rightarrow> string \<Rightarrow> string \<Rightarrow> vm_args \<Rightarrow> ('c, DeploymentResultContracts) module_eff" where
  "add_machine m deployment_name networkSeed a =
     bindE (require_existing m deployment_name (''There are no machine deployments with the name: '' @ deployment_name @ ''.'')) (\<lambda>_.
     bindE (get_deployments m deployment_name) (\<lambda>olds.
       if workloadExists (va_name a) olds
       then throwE (ValidationError (''There is another machine with the same name '' @ [CHR 0x22] @ va_name a @ [CHR 0x22]
              @ '' in the same deployment '' @ deployment_name @ ''.''))
       else bindE (first_machine m deployment_name olds) (\<lambda>w.
         bindE (network_of_machine m w) (\<lambda>(netName, rng).
         bindE (open_module_network m False netName rng) (\<lambda>n0.
         bindE (run_network (\<lambda>e. VM_deploy e (a\<lparr>va_myceliumNetworkSeeds := [(va_nodeId a, networkSeed)],
                  va_contractMetadata := vm_metadata m False deployment_name (va_name a),
                  va_metadata := wl_metadata w, va_description := wl_description w,
                  va_qsfsProjectName := m_projectName m, va_addAccess := False, va_accessNodeId := 0\<rparr>)) m n0) (\<lambda>((tds, _), n).
           add_to_module m deployment_name (va_nodeId a) olds tds (Some n)))))))"

definition delete_machine_instance :: "('a, 'c) module_env \<Rightarrow> string \<Rightarrow> string \<Rightarrow> ('c, DeploymentResultContracts) module_eff" where
  "delete_machine_instance m deployment_name name =
     bindE (require_existing m deployment_name (''There are no machine deployments with the name: '' @ deployment_name @ ''.''))
       (\<lambda>_. deleteInstance m vm_types deployment_name name)"

subsection \<open>Kubernetes\<close>

record K8SModel =
  km_name :: string
  km_secret :: string
  km_network :: NetworkModel
  km_masters :: "(vm_args \<times> rat) list"
  km_workers :: "(vm_args \<times> rat) list"
  km_metadata :: string
  km_description :: string
  km_ssh_key :: string

fun k3s_url :: "WorkloadData \<Rightarrow> string option" where
  "k3s_url (D_zmachine z) = map_of (vm_env z) ''K3S_URL''"
| "k3s_url _ = None"

definition is_master :: "Workload \<Rightarrow> bool" where
  "is_master w \<longleftrightarrow> wl_type w = WT_zmachine \<and> k3s_url (wl_data w) = Some []"

definition is_worker :: "Workload \<Rightarrow> bool" where
  "is_worker w \<longleftrightarrow> wl_type w = WT_zmachine \<and> k3s_url (wl_data w) \<noteq> Some []"

definition getMastersWorkload :: "('a, 'c) module_env \<Rightarrow> string \<Rightarrow> Deployment list \<Rightarrow> ('c, located list) module_eff" where
  "getMastersWorkload m name ds = bindE (mapE (locate_workloads m name is_master) ds) (\<lambda>xss. retE (concat xss))"

definition getWorkersWorkload :: "('a, 'c) module_env \<Rightarrow> string \<Rightarrow> Deployment list \<Rightarrow> ('c, located list) module_eff" where
  "getWorkersWorkload m name ds = bindE (mapE (locate_workloads m name is_worker) ds) (\<lambda>xss. retE (concat xss))"

definition interface_ip :: "Workload \<Rightarrow> js_error + string" where
  "interface_ip w = (case first_interface (wl_data w) of None \<Rightarrow> Inl TypeError | Some i \<Rightarrow> Inr (if_ip i))"

definition getMastersIp :: "('a, 'c) module_env \<Rightarrow> string \<Rightarrow> Deployment list \<Rightarrow> ('c, string list) module_eff" where
  "getMastersIp m name ds = bindE (getMastersWorkload m name ds) (\<lambda>ls.
     mapE (\<lambda>l. liftE (interface_ip (lc_workload l))) ls)"

text \<open>\<open>masterWorkload.data["flist"]\<close>, and the variables of a machine.\<close>

fun data_flist :: "WorkloadData \<Rightarrow> string option" where
  "data_flist (D_zmachine z) = Some (vm_flist z)"
| "data_flist (D_zmachinelight z) = Some (vml_flist z)"
| "data_flist _ = None"

fun data_env :: "WorkloadData \<Rightarrow> (string \<times> string) list" where
  "data_env (D_zmachine z) = vm_env z"
| "data_env (D_zmachinelight z) = vml_env z"
| "data_env _ = []"

definition env_text :: "string \<Rightarrow> Workload \<Rightarrow> string" where
  "env_text k w = (case map_of (data_env (wl_data w)) k of Some v \<Rightarrow> v | None \<Rightarrow> ''undefined'')"

definition no_master_node :: "string \<Rightarrow> js_error" where
  "no_master_node stop = TFGridWorkloadError W_Update (''Couldn'' @ apos # ''t get master node.'' @ stop)"

definition k8s_metadata :: "('a, 'c) module_env \<Rightarrow> bool \<Rightarrow> string \<Rightarrow> string" where
  "k8s_metadata m light name =
     contract_metadata (if light then 4 else 3) ''kubernetes'' name (project_or m (''kubernetes/'' @ name))"

definition k8s_call :: "('a, 'c) module_env \<Rightarrow> K8SModel \<Rightarrow> string \<Rightarrow> vm_args \<times> rat \<Rightarrow> k8s_args" where
  "k8s_call m opts meta p = \<lparr>ka_machine = machine_call m (km_network opts) meta (km_metadata opts) (km_description opts) (fst p),
     ka_secret = km_secret opts, ka_sshKey = km_ssh_key opts, ka_diskSize = snd p\<rparr>"

text \<open>The network of a cluster, once it is set, and the contract metadata that goes with it.\<close>

type_synonym cluster = "TwinDeployment list \<times> string \<times> any_network option"

definition open_cluster ::
  "('a, 'c) module_env \<Rightarrow> K8SModel \<Rightarrow> int \<Rightarrow> ('c, any_network \<times> string) module_eff"
where
  "open_cluster m opts nodeId = bindE (light_for m nodeId) (\<lambda>light.
     bindE (open_module_network m light (nw_name (km_network opts)) (nw_ip_range (km_network opts))) (\<lambda>n.
       retE (n, k8s_metadata m light (km_name opts))))"

text \<open>
  The loop over the masters: once there is a network, it is left before the master is created.
\<close>

fun create_masters ::
  "('a, 'c) module_env \<Rightarrow> K8SModel \<Rightarrow> (vm_args \<times> rat) list \<Rightarrow> string list \<Rightarrow> cluster \<Rightarrow> ('c, cluster) module_eff"
where
  "create_masters m opts [] names acc = retE acc"
| "create_masters m opts (p # ps) names acc = (case acc of (tds, config, net) \<Rightarrow>
     if va_name (fst p) \<in> set names
     then throwE (ValidationError (''Another master with the same name '' @ va_name (fst p) @ '' already exists.''))
     else if net \<noteq> None then retE acc
     else bindE (open_cluster m opts (va_nodeId (fst p))) (\<lambda>(n, meta).
       bindE (run_network (\<lambda>e. add_master e (k8s_call m opts meta p)) m n) (\<lambda>((new, cfg), n').
         create_masters m opts ps (names @ [va_name (fst p)])
           (tds @ new, if cfg = [] then config else cfg, Some n'))))"

text \<open>The loop over the workers has the same test, and the network is the masters'.\<close>

fun create_workers ::
  "('a, 'c) module_env \<Rightarrow> K8SModel \<Rightarrow> string \<Rightarrow> string option \<Rightarrow> (vm_args \<times> rat) list \<Rightarrow> string list \<Rightarrow> cluster
   \<Rightarrow> ('c, cluster) module_eff"
where
  "create_workers m opts masterIp flist [] names acc = retE acc"
| "create_workers m opts masterIp flist (p # ps) names acc = (case acc of (tds, config, net) \<Rightarrow>
     if va_name (fst p) \<in> set names
     then throwE (ValidationError (''Another worker with the same name '' @ va_name (fst p) @ '' already exists.''))
     else if net \<noteq> None then retE acc
     else bindE (open_cluster m opts (va_nodeId (fst p))) (\<lambda>(n, meta).
       bindE (run_network (\<lambda>e. add_worker e (k8s_call m opts meta p) masterIp flist) m n) (\<lambda>((new, _), n').
         create_workers m opts masterIp flist ps (names @ [va_name (fst p)]) (tds @ new, config, Some n'))))"

definition k8s_createDeployment ::
  "('a, 'c) module_env \<Rightarrow> K8SModel \<Rightarrow> string list \<Rightarrow> ('c, cluster) module_eff"
where
  "k8s_createDeployment m opts masterIps =
     bindE (create_masters m opts (km_masters opts) [] ([], [], None)) (\<lambda>(tds, config, net).
     bindE (getMastersWorkload m (km_name opts) (map td_deployment tds)) (\<lambda>masters.
       if masters = [] then throwE (no_master_node [])
       else let flist = data_flist (wl_data (lc_workload (last masters))) in
       bindE (if masterIps \<noteq> [] then retE masterIps
              else bindE (getMastersIp m (km_name opts) (map td_deployment tds)) (\<lambda>ips.
                if ips = [] then throwE (TFGridWorkloadError W_Create (''Couldn'' @ apos # ''t get master ip'')) else retE ips)) (\<lambda>ips.
       bindE (create_workers m opts (last ips) flist (km_workers opts) [] (tds, config, net)) (\<lambda>(all_tds, config', net').
         retE (share_network net' all_tds, config', net')))))"

definition k8s_deploy :: "('a, 'c) module_env \<Rightarrow> K8SModel \<Rightarrow> ('c, DeploymentResultContracts \<times> string) module_eff" where
  "k8s_deploy m opts = (if 1 < length (km_masters opts) then throwE (ValidationError ''Multiple masters are not supported'')
     else bindE (refuse_existing m (km_name opts) (''Another k8s deployment with the same name '' @ km_name opts @ '' already exists.'')) (\<lambda>_.
       bindE (k8s_createDeployment m opts []) (\<lambda>(tds, config, _).
       bindE (finish_deploy m (km_name opts) tds) (\<lambda>rc. retE (rc, config)))))"

text \<open>Unlike for machines, the network is refused only when both its name and its range change.\<close>

definition k8s_update :: "('a, 'c) module_env \<Rightarrow> K8SModel \<Rightarrow> ('c, DeploymentResultContracts) module_eff" where
  "k8s_update m opts = (let name = km_name opts; net = km_network opts in
     bindE (require_existing m name (''There is no k8s deployment with the name: '' @ name @ ''.'')) (\<lambda>_.
       if 1 < length (km_masters opts) then throwE (ValidationError ''Multiple masters are not supported.'')
       else bindE (get_deployments m name) (\<lambda>olds.
       bindE (getMastersIp m name olds) (\<lambda>ips.
         if ips = [] then throwE (TFGridWorkloadError W_Update (''Couldn'' @ apos # ''t get master ip.''))
         else bindE (getMastersWorkload m name olds) (\<lambda>masters.
           if masters = [] then throwE (no_master_node ''.'')
           else bindE (network_of_machine m (lc_workload (hd masters))) (\<lambda>(netName, rng).
             if netName \<noteq> nw_name net \<and> rng \<noteq> nw_ip_range net then throwE network_fixed
             else bindE (k8s_createDeployment m opts ips) (\<lambda>(tds, _, n).
               update_module m k8s_types name olds tds n)))))))"

definition k8s_add_worker ::
  "('a, 'c) module_env \<Rightarrow> string \<Rightarrow> string \<Rightarrow> vm_args \<Rightarrow> rat \<Rightarrow> ('c, DeploymentResultContracts) module_eff"
where
  "k8s_add_worker m deployment_name networkSeed a disk_size =
     bindE (require_existing m deployment_name (''There is no k8s deployment with the name: '' @ deployment_name @ ''.'')) (\<lambda>_.
     bindE (get_deployments m deployment_name) (\<lambda>olds.
       if workloadExists (va_name a) olds
       then throwE (ValidationError (''There is another worker with the same name '' @ [CHR 0x22] @ va_name a @ [CHR 0x22]
              @ '' in this cluster '' @ deployment_name @ ''.''))
       else bindE (getMastersWorkload m deployment_name olds) (\<lambda>masters.
         if masters = [] then throwE (no_master_node ''.'')
         else let w = lc_workload (last masters) in
         bindE (network_of_machine m w) (\<lambda>(netName, rng).
         bindE (new_network m False netName rng) (\<lambda>n0.
         bindE (run_network (\<lambda>e. on_network (load e) (light_load e)) m n0) (\<lambda>(_, n1).
         bindE (liftE (interface_ip w)) (\<lambda>masterIp.
         bindE (run_network (\<lambda>e. add_worker e
              \<lparr>ka_machine = a\<lparr>va_myceliumNetworkSeeds := [(va_nodeId a, networkSeed)],
                 va_contractMetadata := k8s_metadata m False deployment_name,
                 va_metadata := wl_metadata w, va_description := wl_description w,
                 va_qsfsProjectName := m_projectName m, va_addAccess := False, va_accessNodeId := 0\<rparr>,
               ka_secret = env_text ''K3S_TOKEN'' w, ka_sshKey = env_text ''SSH_KEY'' w, ka_diskSize = disk_size\<rparr>
              masterIp (data_flist (wl_data w))) m n1) (\<lambda>((tds, _), n2).
           add_to_module m deployment_name (va_nodeId a) olds tds (Some n2)))))))))"

definition k8s_delete_worker :: "('a, 'c) module_env \<Rightarrow> string \<Rightarrow> string \<Rightarrow> ('c, DeploymentResultContracts) module_eff" where
  "k8s_delete_worker m deployment_name name =
     bindE (require_existing m deployment_name (''There is no k8s deployment with the name: '' @ deployment_name @ ''.''))
       (\<lambda>_. deleteInstance m k8s_types deployment_name name)"

subsection \<open>Zdb\<close>

record ZdbModel =
  zd_name :: string
  zd_node_id :: int
  zd_disk_size :: rat
  zd_mode :: ZdbModes
  zd_password :: string
  zd_publicNamespace :: bool
  zd_solutionProviderId :: "int option"

record ZDBSModel =
  zs_name :: string
  zs_zdbs :: "ZdbModel list"
  zs_metadata :: string
  zs_description :: string

definition zdb_metadata :: "('a, 'c) module_env \<Rightarrow> string \<Rightarrow> string \<Rightarrow> string" where
  "zdb_metadata m name owner = contract_metadata 3 ''zdb'' name (project_or m (''zdb/'' @ owner))"

definition create_zdb ::
  "('a, 'c) module_env \<Rightarrow> ZdbModel \<Rightarrow> string \<Rightarrow> string \<Rightarrow> string \<Rightarrow> ('c, TwinDeployment) module_eff"
where
  "create_zdb m z meta metadata description = (\<lambda>w. (ZdbHL_create (current_env m w) (zd_name z) (zd_node_id z)
     (zd_disk_size z) (zd_mode z) (zd_password z) (zd_publicNamespace z) meta metadata description
     (zd_solutionProviderId z), w))"

fun create_zdbs ::
  "('a, 'c) module_env \<Rightarrow> ZDBSModel \<Rightarrow> ZdbModel list \<Rightarrow> string list \<Rightarrow> TwinDeployment list \<Rightarrow> ('c, TwinDeployment list) module_eff"
where
  "create_zdbs m opts [] names tds = retE tds"
| "create_zdbs m opts (z # zs) names tds =
     (if zd_name z \<in> set names
      then throwE (ValidationError (''Another zdb with the same name '' @ zd_name z @ '' already exists.''))
      else bindE (create_zdb m z (zdb_metadata m (zs_name opts) (zs_name opts)) (zs_metadata opts) (zs_description opts)) (\<lambda>td.
        create_zdbs m opts zs (names @ [zd_name z]) (tds @ [td])))"

definition zdb_deploy :: "('a, 'c) module_env \<Rightarrow> ZDBSModel \<Rightarrow> ('c, DeploymentResultContracts) module_eff" where
  "zdb_deploy m opts =
     bindE (refuse_existing m (zs_name opts) (''Another zdb deployment with the same name '' @ zs_name opts @ '' already exists.'')) (\<lambda>_.
     bindE (create_zdbs m opts (zs_zdbs opts) [] []) (finish_deploy m (zs_name opts)))"

definition zdb_update :: "('a, 'c) module_env \<Rightarrow> ZDBSModel \<Rightarrow> ('c, DeploymentResultContracts) module_eff" where
  "zdb_update m opts = (let name = zs_name opts in
     bindE (require_existing m name (''There is no zdb deployment with name: '' @ name @ ''.'')) (\<lambda>_.
     bindE (get_deployments m name) (\<lambda>olds.
     bindE (create_zdbs m opts (zs_zdbs opts) [] []) (\<lambda>tds. update_module m zdb_types name olds tds None))))"

definition add_zdb :: "('a, 'c) module_env \<Rightarrow> string \<Rightarrow> ZdbModel \<Rightarrow> ('c, DeploymentResultContracts) module_eff" where
  "add_zdb m deployment_name z =
     bindE (require_existing m deployment_name (''There is no zdb deployment with name: '' @ deployment_name @ ''.'')) (\<lambda>_.
     bindE (get_deployments m deployment_name) (\<lambda>olds.
       if workloadExists (zd_name z) olds
       then throwE (ValidationError (''There is another zdb with the same name '' @ [CHR 0x22] @ zd_name z @ [CHR 0x22]
              @ '' in this deployment '' @ deployment_name @ ''.''))
       else case olds of
         [] \<Rightarrow> throwE TypeError
       | d # _ \<Rightarrow> bindE (create_zdb m z (zdb_metadata m deployment_name (zd_name z)) (dp_metadata d) (dp_description d)) (\<lambda>td.
           add_to_module m deployment_name (zd_node_id z) olds [td] None)))"

definition delete_zdb :: "('a, 'c) module_env \<Rightarrow> string \<Rightarrow> string \<Rightarrow> ('c, DeploymentResultContracts) module_eff" where
  "delete_zdb m deployment_name name =
     bindE (require_existing m deployment_name (''There is no zdb deployment with name: '' @ deployment_name @ ''.''))
       (\<lambda>_. deleteInstance m zdb_types deployment_name name)"

subsection \<open>Quantum safe zdbs\<close>

record QSFSZDBSModel =
  qs_name :: string
  qs_count :: int
  qs_node_ids :: "int list"
  qs_disk_size :: rat
  qs_password :: string
  qs_metadata :: string
  qs_description :: string
  qs_solutionProviderId :: "int option"

text \<open>The zdb of number \<open>i\<close>: the last four keep the metadata, and the nodes take turns.\<close>

definition qsfs_zdb :: "QSFSZDBSModel \<Rightarrow> nat \<Rightarrow> ZdbModel" where
  "qsfs_zdb opts i = \<lparr>zd_name = qs_name opts @ show_nat i,
     zd_node_id = qs_node_ids opts ! ((i - 1) mod length (qs_node_ids opts)), zd_disk_size = qs_disk_size opts,
     zd_mode = (if qs_count opts < int i then Zdb_user else Zdb_seq), zd_password = qs_password opts,
     zd_publicNamespace = True, zd_solutionProviderId = qs_solutionProviderId opts\<rparr>"

definition qsfs_createDeployment :: "('a, 'c) module_env \<Rightarrow> QSFSZDBSModel \<Rightarrow> ('c, TwinDeployment list) module_eff" where
  "qsfs_createDeployment m opts =
     (if qs_count opts < 3 then throwE (ValidationError (''QSFS zdbs count can'' @ apos # ''t be less than 3.''))
      else mapE (\<lambda>i. create_zdb m (qsfs_zdb opts i) (contract_metadata 3 ''qsfs'' (qs_name opts) (m_projectName m))
                      (qs_metadata opts) (qs_description opts)) [1..<nat (qs_count opts) + 5])"

definition qsfs_deploy :: "('a, 'c) module_env \<Rightarrow> QSFSZDBSModel \<Rightarrow> ('c, DeploymentResultContracts) module_eff" where
  "qsfs_deploy m opts =
     bindE (refuse_existing m (qs_name opts) (''Another QSFS ZDBs deployment with the same name '' @ qs_name opts @ '' already exists.'')) (\<lambda>_.
     bindE (qsfs_createDeployment m opts) (finish_deploy m (qs_name opts)))"

subsection \<open>Gateways and networks\<close>

record GatewayModel =
  gm_name :: string
  gm_node_id :: int
  gm_tls_passthrough :: bool
  gm_backends :: "string list"
  gm_network :: "string option"
  gm_metadata :: string
  gm_description :: string
  gm_solutionProviderId :: "int option"

definition gateway_deploy ::
  "('a, 'c) module_env \<Rightarrow> GatewayModel \<Rightarrow> string \<Rightarrow> ('c, DeploymentResultContracts) module_eff"
where
  "gateway_deploy m opts fqdn =
     bindE (refuse_existing m (gm_name opts) (''Another gateway deployment with the same name '' @ gm_name opts @ '' already exists.'')) (\<lambda>_.
     bindE (getE (\<lambda>w. GatewayHL_create (current_env m w) (gm_name opts) (gm_node_id opts) (gm_tls_passthrough opts)
              (gm_backends opts) (gm_network opts) (contract_metadata 3 ''gateway'' (gm_name opts) (m_projectName m))
              (gm_metadata opts) (gm_description opts) fqdn (gm_solutionProviderId opts)))
       (finish_deploy m (gm_name opts)))"

definition deploy_name :: "('a, 'c) module_env \<Rightarrow> GatewayModel \<Rightarrow> ('c, DeploymentResultContracts) module_eff" where
  "deploy_name m opts = gateway_deploy m opts []"

text \<open>The contract metadata is the one of \<open>NetworkHL.addNode\<close>.\<close>

definition networks_addNode ::
  "('a, 'c) module_env \<Rightarrow> string \<Rightarrow> string \<Rightarrow> int \<Rightarrow> int option \<Rightarrow> bool \<Rightarrow> string \<Rightarrow> string
   \<Rightarrow> ('c, DeploymentResultContracts) module_eff"
where
  "networks_addNode m name ipRange nodeId solution mycelium description seed =
     bindE (\<lambda>w. (NetworkHL_addNode (current_env m w) name ipRange nodeId solution mycelium description []
              [(nodeId, seed)] (contract_metadata 3 ''network'' name (m_projectName m)), w)) (\<lambda>tds.
       on_handler (handle (m_handler m) tds))"

end
