(* ===== verification/MachineProps.thy ===== *)
theory MachineProps
  imports BaseModule NetworkProps
begin

text \<open>
  What a machine's deployment promises: the node was fit for it, its mounts and its public address
  are workloads of the same deployment, its address is reserved in the network, and the seed made
  up for it is well-formed and its own.
\<close>

lemma VM_deploy_Inr:
  assumes "VM_deploy e a s = (Inr (tds, config), t)"
  obtains features ws mounts ipName n ip seed s' name others where
    "prepare_machine e a = Inr (features, ws, mounts, ipName, n)"
    "machine_ip_step e a s' = (Inr ip, t)" "machine_seed a ip = Inr seed"
    "tds = others @ [machine_twin (create_deployment (e_twin_id e)
        (ws @ [vm_workload features a mounts name (case ip of None \<Rightarrow> [] | Some x \<Rightarrow> x) seed ipName] @ logs_workloads a)
        0 (va_metadata a) (va_description a) 0) Op_deploy n (va_nodeId a) (va_contractMetadata a) (va_solutionProviderId a)]"
  using assms unfolding VM_deploy_def Let_def
  by (elim bindE_InrE) (clarsimp elim!: bindE_InrE simp: case_prod_beta)

lemma prepare_machine_Inr:
  assumes "prepare_machine e a = Inr (features, ws, mounts, ipName, n)"
  obtains node qs ips where "getNode (e_grid e) (va_nodeId a) = Inr (Some node)" "features = ni_features node"
    "check_resources e a = Inr ()" "check_available e node (va_nodeId a) = Inr ()"
    "mapR (qsfs_disk e (used_project e a)) (va_qsfsDisks a) = Inr qs" "public_ip e features a = Inr (ips, ipName, n)"
    "check_gpus e a = Inr ()" "ws = disk_workloads a @ map fst qs @ ips" "mounts = disk_mounts a @ map snd qs"
proof -
  from assms obtain node qs ips where "getNode (e_grid e) (va_nodeId a) = Inr (Some node)" "features = ni_features node"
    "check_resources e a = Inr ()" "check_available e node (va_nodeId a) = Inr ()"
    "mapR (qsfs_disk e (used_project e a)) (va_qsfsDisks a) = Inr qs" "public_ip e features a = Inr (ips, ipName, n)"
    "check_gpus e a = Inr ()" "ws = disk_workloads a @ map fst qs @ ips" "mounts = disk_mounts a @ map snd qs"
    by (auto simp: prepare_machine_def bindR_Inr known_node_def Let_def split: option.splits)
  then show ?thesis by (rule that)
qed

subsection \<open>The node\<close>

text \<open>A card of the node that nobody uses, and a node whose rent is paid.\<close>

definition card_free :: "GpuCard list \<Rightarrow> string \<Rightarrow> bool" where
  "card_free cards g \<longleftrightarrow> (\<exists>c \<in> set cards. gpu_id c = g \<and> gpu_contract c = 0)"

definition in_grace :: "('a, 'b) machine_env_scheme \<Rightarrow> int \<Rightarrow> bool" where
  "in_grace e rent = (rent \<noteq> 0 \<and> (case chain_contract (e_grid e) rent of
     Inr (Some c) \<Rightarrow> (case ct_state c of CS_gracePeriod b \<Rightarrow> b \<noteq> 0 | _ \<Rightarrow> False) | _ \<Rightarrow> False))"

lemma check_gpu_free: "check_gpu i cards g = Inr () \<Longrightarrow> card_free cards g"
  by (auto simp: check_gpu_def card_free_def split: list.splits if_splits dest!: filter_eq_ConsD)

lemma check_gpus_free:
  assumes "check_gpus e a = Inr ()" and "va_gpus a \<noteq> []"
  obtains twin cards node where "getNodeTwinId (e_grid e) (va_nodeId a) = Inr twin" "me_gpu_list e twin = Inr cards"
    "\<forall>g \<in> set (va_gpus a). card_free cards g" "known_node e (va_nodeId a) = Inr node" "ni_rentedByTwinId node = e_twin_id e"
proof -
  from assms obtain twin cards us node where o: "getNodeTwinId (e_grid e) (va_nodeId a) = Inr twin" "me_gpu_list e twin = Inr cards"
    "known_node e (va_nodeId a) = Inr node" "ni_rentedByTwinId node = e_twin_id e"
    and us: "mapR (check_gpu (va_nodeId a) cards) (va_gpus a) = Inr us"
    by (auto simp: check_gpus_def Let_def bindR_Inr split: if_splits)
  have "\<forall>g \<in> set (va_gpus a). card_free cards g"
    using mapR_Inr [OF us] check_gpu_free by (fastforce simp: list_all2_conv_all_nth in_set_conv_nth)
  with o show ?thesis using that by blast
qed

lemma check_available_ok:
  assumes "check_available e node i = Inr ()"
  shows "nodeAvailableForTwinId (e_grid e) i (e_twin_id e) = Inr True \<and> \<not> in_grace e (ni_rentContractId node)"
proof -
  from assms have av: "nodeAvailableForTwinId (e_grid e) i (e_twin_id e) = Inr True"
    by (auto simp: check_available_def bindR_Inr split: if_splits)
  have "\<not> in_grace e (ni_rentContractId node)"
  proof (cases "ni_rentContractId node = 0")
    case False
    with assms av obtain c where c: "chain_contract (e_grid e) (ni_rentContractId node) = Inr c"
      by (auto simp: check_available_def bindR_Inr)
    show ?thesis
    proof (cases c)
      case (Some ct)
      with assms av c False show ?thesis
        by (cases "ct_state ct") (auto simp: check_available_def in_grace_def split: if_splits)
    qed (simp add: in_grace_def c)
  qed (simp add: in_grace_def)
  with av show ?thesis by blast
qed

lemma check_resources_ok:
  assumes "check_resources e a = Inr ()"
  shows "nodeHasResources (e_grid e) (va_nodeId a)
    (empty_filter\<lparr>fo_sru := Some (total_disks a), fo_mru := Some (of_int (va_memory a) / 1024)\<rparr>) = Inr True"
  using assms by (auto simp: check_resources_def Let_def bindR_Inr split: if_splits)

lemma public_ip_ok:
  assumes "public_ip e features a = Inr (ips, ipName, n)"
  shows "va_publicIp a \<or> va_publicIp6 a \<Longrightarrow> Ft_ip \<in> set features
      \<and> ips = [PublicIP_create ipName [] (va_description a) 0 (va_publicIp a) (va_publicIp6 a)]"
    "\<not> va_publicIp a \<Longrightarrow> \<not> va_publicIp6 a \<Longrightarrow> ips = [] \<and> ipName = []"
    "n = (if va_publicIp a then 1 else 0)"
  using assms by (auto simp: public_ip_def Let_def bindR_Inr split: if_splits)

lemma public_ip_free:
  assumes "public_ip e features a = Inr (ips, ipName, n)" and "va_publicIp a" and "known_node e (va_nodeId a) = Inr node"
  shows "\<exists>farm. me_farm e (ni_farmId node) = Inr farm \<and> 1 \<le> free_ips farm"
  using assms by (auto simp: public_ip_def Let_def bindR_Inr split: if_splits)

text \<open>
  C17: a machine is only deployed on a node that is fit for it: the node exists, has the memory and
  the disk space of all disks together, may be used by the twin and is not in the grace period of
  its rent, supports public addresses if one is wanted and is in a farm with a free IPv4 address if that
  is wanted, and has every graphics card asked for, free and on a node that this twin rents.
\<close>

theorem machine_on_fit_node:
  assumes "VM_deploy e a s = (Inr (tds, config), t)"
  shows "\<exists>node. getNode (e_grid e) (va_nodeId a) = Inr (Some node)
    \<and> nodeHasResources (e_grid e) (va_nodeId a)
        (empty_filter\<lparr>fo_sru := Some (total_disks a), fo_mru := Some (of_int (va_memory a) / 1024)\<rparr>) = Inr True
    \<and> nodeAvailableForTwinId (e_grid e) (va_nodeId a) (e_twin_id e) = Inr True
    \<and> \<not> in_grace e (ni_rentContractId node)
    \<and> (va_publicIp a \<or> va_publicIp6 a \<longrightarrow> Ft_ip \<in> set (ni_features node))
    \<and> (va_publicIp a \<longrightarrow> (\<exists>farm. me_farm e (ni_farmId node) = Inr farm \<and> 1 \<le> free_ips farm))
    \<and> (va_gpus a \<noteq> [] \<longrightarrow> ni_rentedByTwinId node = e_twin_id e \<and> (\<exists>twin cards.
         getNodeTwinId (e_grid e) (va_nodeId a) = Inr twin \<and> me_gpu_list e twin = Inr cards
         \<and> (\<forall>g \<in> set (va_gpus a). card_free cards g)))"
proof -
  from assms obtain features ws mounts ipName n where "prepare_machine e a = Inr (features, ws, mounts, ipName, n)"
    by (rule VM_deploy_Inr)
  then obtain node ips where n: "getNode (e_grid e) (va_nodeId a) = Inr (Some node)" "features = ni_features node"
    "check_resources e a = Inr ()" "check_available e node (va_nodeId a) = Inr ()"
    "public_ip e features a = Inr (ips, ipName, n)" "check_gpus e a = Inr ()"
    by (rule prepare_machine_Inr)
  have k: "known_node e (va_nodeId a) = Inr node" using n(1) by (simp add: known_node_def)
  have "ni_rentedByTwinId node = e_twin_id e \<and> (\<exists>twin cards.
         getNodeTwinId (e_grid e) (va_nodeId a) = Inr twin \<and> me_gpu_list e twin = Inr cards
         \<and> (\<forall>g \<in> set (va_gpus a). card_free cards g))" if "va_gpus a \<noteq> []"
    using check_gpus_free [OF n(6) that] k by (metis sum.inject(2))
  moreover have "\<exists>farm. me_farm e (ni_farmId node) = Inr farm \<and> 1 \<le> free_ips farm" if "va_publicIp a"
    by (rule public_ip_free [OF n(5) that k])
  ultimately show ?thesis
    using n check_resources_ok [OF n(3)] check_available_ok [OF n(4)] public_ip_ok(1) [OF n(5)] by auto
qed

subsection \<open>The deployment of the machine\<close>

lemma qsfs_disk_names:
  assumes "qsfs_disk e project d = Inr (w, mt)"
  shows "wl_name w = mt_name mt" "wl_type w = WT_qsfs"
  using assms by (auto simp: qsfs_disk_def Let_def bindR_Inr qsfs_workload_def QSFS_create_def createMount_def split: if_splits)

lemma qsfs_disks_names:
  assumes "mapR (qsfs_disk e project) ds = Inr qs"
  shows "map wl_name (map fst qs) = map mt_name (map snd qs)" "\<forall>w \<in> set (map fst qs). wl_type w = WT_qsfs"
proof -
  have p: "wl_name (fst q) = mt_name (snd q) \<and> wl_type (fst q) = WT_qsfs" if "q \<in> set qs" for q
    using mapR_Inr [OF assms] that qsfs_disk_names [of e project _ "fst q" "snd q"]
    by (fastforce simp: list_all2_conv_all_nth in_set_conv_nth)
  then show "map wl_name (map fst qs) = map mt_name (map snd qs)" "\<forall>w \<in> set (map fst qs). wl_type w = WT_qsfs"
    by auto
qed

definition is_disk :: "Workload \<Rightarrow> bool" where
  "is_disk w \<longleftrightarrow> wl_type w = WT_zmount \<or> wl_type w = WT_qsfs"

lemma vm_workload_sel [simp]:
  "wl_name (vm_workload f a ms net ip seed ipn) = va_name a"
  "is_machine (vm_workload f a ms net ip seed ipn)"
  "data_mounts (wl_data (vm_workload f a ms net ip seed ipn)) = Some ms"
  "machine_ip (wl_data (vm_workload f a ms net ip seed ipn)) = Some ip"
  "\<not> is_disk (vm_workload f a ms net ip seed ipn)"
  by (simp_all add: vm_workload_def Let_def VM_create_def VMLight_create_def is_machine_def is_disk_def
      createMachineNetwork_def createMachineLightNetwork_def createNetworkInterface_def)

lemma vm_public_ip:
  "p \<in> set (machine_public_ip (wl_data (vm_workload f a ms net ip seed ipn))) \<Longrightarrow> p = ipn"
  by (simp add: vm_workload_def Let_def VM_create_def VMLight_create_def createMachineNetwork_def split: if_splits)

lemma disk_workloads_sel:
  "map wl_name (disk_workloads a) = map mt_name (disk_mounts a)" "filter is_disk (disk_workloads a) = disk_workloads a"
  "filter is_v4 (disk_workloads a) = []"
  by (auto simp: disk_workloads_def disk_mounts_def Disk_create_def createMount_def is_disk_def filter_empty_conv
      intro!: filter_True)

lemma other_workloads_sel:
  "filter is_disk (logs_workloads a) = []" "filter is_v4 (logs_workloads a) = []"
  "\<not> is_disk (PublicIP_create n m d v p q)" "is_v4 (PublicIP_create n m d v p q) \<longleftrightarrow> p"
  "wl_name (PublicIP_create n m d v p q) = n" "wl_type (PublicIP_create n m d v p q) = WT_ip"
  by (simp_all add: logs_workloads_def Zlogs_create_def is_disk_def PublicIP_create_def split: option.splits)

declare is_v4.simps [simp del]

lemma vm_not_v4 [simp]: "\<not> is_v4 (vm_workload f a ms net ip seed ipn)"
  by (simp add: is_v4.simps vm_workload_def Let_def VM_create_def VMLight_create_def)

lemma ip_workloads:
  assumes "public_ip e features a = Inr (ips, ipName, n)"
  shows "filter is_disk ips = []" "int (length (filter is_v4 ips)) = n"
    "ipName \<noteq> [] \<longrightarrow> (\<exists>w \<in> set ips. wl_type w = WT_ip \<and> wl_name w = ipName)"
proof (atomize (full), cases "va_publicIp a \<or> va_publicIp6 a")
  case True
  then show "filter is_disk ips = [] \<and> int (length (filter is_v4 ips)) = n
      \<and> (ipName \<noteq> [] \<longrightarrow> (\<exists>w \<in> set ips. wl_type w = WT_ip \<and> wl_name w = ipName))"
    using public_ip_ok(1) [OF assms] by (simp add: other_workloads_sel public_ip_ok(3) [OF assms])
next
  case False
  then show "filter is_disk ips = [] \<and> int (length (filter is_v4 ips)) = n
      \<and> (ipName \<noteq> [] \<longrightarrow> (\<exists>w \<in> set ips. wl_type w = WT_ip \<and> wl_name w = ipName))"
    using public_ip_ok(2) [OF assms] by (simp add: public_ip_ok(3) [OF assms])
qed

text \<open>
  C18: the deployment of a machine is complete in itself.  It comes last, on the machine's node; it
  holds the machine, whose mounts are, one for one and in order, the disks of the same deployment,
  whose public address (if it has one) is an address workload beside it, and the contract asks for
  as many addresses as there are IPv4 workloads.
\<close>

theorem machine_deployment_complete:
  assumes "VM_deploy e a s = (Inr (tds, config), t)"
  shows "\<exists>others td vm mounts. tds = others @ [td] \<and> td_operation td = Op_deploy \<and> td_nodeId td = va_nodeId a
    \<and> vm \<in> set (dp_workloads (td_deployment td)) \<and> is_machine vm \<and> wl_name vm = va_name a
    \<and> data_mounts (wl_data vm) = Some mounts
    \<and> map mt_name mounts = map wl_name (filter is_disk (dp_workloads (td_deployment td)))
    \<and> (\<forall>p \<in> set (machine_public_ip (wl_data vm)). p \<noteq> [] \<longrightarrow>
         (\<exists>w \<in> set (dp_workloads (td_deployment td)). wl_type w = WT_ip \<and> wl_name w = p))
    \<and> td_publicIps td = int (length (filter is_v4 (dp_workloads (td_deployment td))))"
proof -
  from assms obtain features ws mounts ipName n ip seed name others where
    p: "prepare_machine e a = Inr (features, ws, mounts, ipName, n)" and
    tds: "tds = others @ [machine_twin (create_deployment (e_twin_id e)
        (ws @ [vm_workload features a mounts name (case ip of None \<Rightarrow> [] | Some x \<Rightarrow> x) seed ipName] @ logs_workloads a)
        0 (va_metadata a) (va_description a) 0) Op_deploy n (va_nodeId a) (va_contractMetadata a) (va_solutionProviderId a)]"
    by (rule VM_deploy_Inr)
  from p obtain node qs ips where q: "mapR (qsfs_disk e (used_project e a)) (va_qsfsDisks a) = Inr qs"
    and i: "public_ip e features a = Inr (ips, ipName, n)"
    and w: "ws = disk_workloads a @ map fst qs @ ips" "mounts = disk_mounts a @ map snd qs"
    by (rule prepare_machine_Inr)
  let ?vm = "vm_workload features a mounts name (case ip of None \<Rightarrow> [] | Some x \<Rightarrow> x) seed ipName"
  let ?ws = "ws @ [?vm] @ logs_workloads a"
  note qn = qsfs_disks_names [OF q]
  have qd: "filter is_disk (map fst qs) = map fst qs" "filter is_v4 (map fst qs) = []"
    using qn(2) by (auto simp: is_disk_def is_v4.simps filter_empty_conv intro!: filter_True)
  have ips: "filter is_disk ips = []" "int (length (filter is_v4 ips)) = n"
    "ipName \<noteq> [] \<Longrightarrow> \<exists>w \<in> set ips. wl_type w = WT_ip \<and> wl_name w = ipName"
    using ip_workloads [OF i] by simp_all
  have m: "map mt_name mounts = map wl_name (filter is_disk ?ws)"
    using qn(1) by (simp add: w disk_workloads_sel qd ips other_workloads_sel)
  have v: "n = int (length (filter is_v4 ?ws))"
    using ips(2) by (simp add: w disk_workloads_sel qd other_workloads_sel)
  have pub: "\<exists>w \<in> set ?ws. wl_type w = WT_ip \<and> wl_name w = p"
    if "p \<in> set (machine_public_ip (wl_data ?vm))" "p \<noteq> []" for p
    using vm_public_ip [OF that(1)] that(2) ips(3) by (auto simp: w)
  show ?thesis
    by (rule exI [of _ others], rule exI [of _ "last tds"], rule exI [of _ ?vm], rule exI [of _ mounts])
       (use m v pub in \<open>simp add: tds machine_twin_def create_deployment_def\<close>)
qed

subsection \<open>The address of the machine\<close>

lemma preserves_on_network [intro!]: "preservesE (\<lambda>s. is_full s = b) (on_network f l)"
proof -
  have "is_full (snd (on_network f l s)) = is_full s" for s
    by (cases s) (simp_all add: on_network_def is_full_def case_prod_beta)
  then show ?thesis by (simp add: preservesE_def)
qed

lemma preserves_if [intro!]: "preservesE I f \<Longrightarrow> preservesE I g \<Longrightarrow> preservesE I (if c then f else g)"
  by simp

lemma preserves_prod [intro!]: "(\<And>x y. preservesE I (f x y)) \<Longrightarrow> preservesE I (case p of (x, y) \<Rightarrow> f x y)"
  by (cases p) simp

lemma preserves_option [intro!]: "preservesE I f \<Longrightarrow> (\<And>x. preservesE I (g x)) \<Longrightarrow> preservesE I (case p of None \<Rightarrow> f | Some x \<Rightarrow> g x)"
  by (cases p) simp_all

lemmas any_network_defs = any_ValidateFreeSubnet_def any_getFreeSubnet_def any_addNode_def any_checkMycelium_def
  any_validateUserIP_def any_getFreeIP_def on_full_def

lemma machine_steps_keep_kind:
  "preservesE (\<lambda>s. is_full s = b) (claim_subnets e fs ip)"
  "preservesE (\<lambda>s. is_full s = b) (access_step e fs a sn)"
  "preservesE (\<lambda>s. is_full s = b) (mycelium_step e a meta)"
  "preservesE (\<lambda>s. is_full s = b) (network_step e fs a meta sn has access)"
  "preservesE (\<lambda>s. is_full s = b) (machine_ip_step e a)"
  unfolding claim_subnets_def access_step_def mycelium_step_def network_step_def machine_ip_step_def
    put_access_node_def choose_access_def known_network_def any_network_defs
  by (intro preservesE_bindE preserves_if preserves_prod preserves_option preserves_on_network
      preservesE_retE preservesE_throwE preservesE_getE preservesE_liftE)+

lemma VM_deploy_keeps_kind: "preservesE (\<lambda>s. is_full s = b) (VM_deploy e a)"
  unfolding VM_deploy_def Let_def
  by (intro preservesE_bindE preserves_prod machine_steps_keep_kind preservesE_retE preservesE_getE preservesE_liftE)

lemma validateUserIP_Inr:
  assumes "validateUserIP e i x n = (Inr (Some ip), n')"
  shows "getNodeReservedIps i n' = getNodeReservedIps i n @ [ip] \<and> ip \<notin> set (getNodeReservedIps i n)"
proof -
  have "ip = x" "x \<notin> set (getNodeReservedIps i n)" "\<exists>ns. push_reserved i x (n_nodes n) = Some ns \<and> n' = n\<lparr>n_nodes := ns\<rparr>"
    using assms by (auto simp: validateUserIP_def split: if_splits sum.splits bool.splits option.splits)
  then show ?thesis by (auto simp: getNodeReservedIps_def push_reserved_reserved)
qed

lemma getFreeIP_fresh:
  assumes "getFreeIP e i [] n = (Inr ip, n')"
  shows "getNodeReservedIps i n' = getNodeReservedIps i n @ [ip] \<and> ip \<notin> set (getNodeReservedIps i n)"
proof -
  from assms obtain x where x: "free_ip_of e i [] n = Inr x" "ip = plain_ip e x"
    "getNodeReservedIps i n' = getNodeReservedIps i n @ [ip]"
    by (rule getFreeIP_Inr) (auto split: if_splits)
  from x(1) have "plain_ip e x \<notin> set (getNodeReservedIps i n)"
    by (auto simp: free_ip_of_def bindR_Inr split: if_splits dest: run_seek_free)
  with x show ?thesis by simp
qed

lemma machine_ip_reserved:
  assumes "machine_ip_step e a (FullNet n) = (Inr (Some ip), FullNet n')"
  shows "getNodeReservedIps (va_nodeId a) n' = getNodeReservedIps (va_nodeId a) n @ [ip]
    \<and> ip \<notin> set (getNodeReservedIps (va_nodeId a) n)"
proof (cases "va_ip a = []")
  case True
  with assms have "getFreeIP e (va_nodeId a) [] n = (Inr ip, n')"
    by (auto simp: machine_ip_step_def any_getFreeIP_def on_network_def elim!: bindE_InrE split: prod.splits)
  then show ?thesis by (rule getFreeIP_fresh)
next
  case False
  with assms have "validateUserIP e (va_nodeId a) (va_ip a) n = (Inr (Some ip), n')"
    by (auto simp: machine_ip_step_def any_validateUserIP_def on_network_def split: prod.splits)
  then show ?thesis by (rule validateUserIP_Inr)
qed

text \<open>Of all the steps of a deployment only the last one reserves an address.\<close>

definition reserves :: "int \<Rightarrow> string list \<Rightarrow> Network \<Rightarrow> bool" where
  "reserves i r n \<longleftrightarrow> getNodeReservedIps i n = r"

lemma reserves_modify [intro]: "(\<And>s. n_nodes (f s) = n_nodes s) \<Longrightarrow> preservesE (reserves i r) (modifyE f)"
  by (rule preservesE_modifyE) (simp add: reserves_def getNodeReservedIps_def)

lemma reserves_state [intro]: "(\<And>s. n_nodes (snd (f s)) = n_nodes s) \<Longrightarrow> preservesE (reserves i r) f"
  by (simp add: preservesE_def reserves_def getNodeReservedIps_def)

lemma reserved_new_node [simp]:
  "reserved_of i (ns @ [\<lparr>nn_node_id = j, nn_contract_id = None, nn_reserved_ips = []\<rparr>]) = reserved_of i ns"
  by (induction ns) simp_all

lemma reserves_basic [intro]:
  "preservesE (reserves i r) (getNodeEndpoint e j)" "preservesE (reserves i r) (getAccessNodes e)"
  "preservesE (reserves i r) (randomChoice e xs)" "preservesE (reserves i r) (getFreePort e j)"
  "preservesE (reserves i r) (next_keypair e)" "preservesE (reserves i r) (next_hex_seed e)"
  by (rule reserves_state; simp add: getNodeEndpoint_def getAccessNodes_def randomChoice_def getFreePort_def
      next_keypair_def next_hex_seed_def Let_def split: option.split sum.split)+

lemma reserves_subnets [intro]:
  "preservesE (reserves i r) (getFreeSubnet e)" "preservesE (reserves i r) (ValidateFreeSubnet sn)"
  unfolding getFreeSubnet_def ValidateFreeSubnet_def
  by (intro preservesE_bindE reserves_modify reserves_state;
      simp add: getReservedSubnets_def push_subnet_def split: sum.split)+

lemma reserves_contracts [intro]: "preservesE (reserves i r) (getMyNetworkContracts e fetch)"
  by (rule reserves_state) (simp add: getMyNetworkContracts_def Let_def split: sum.split prod.split)

lemma reserves_exists [intro]: "preservesE (reserves i r) (exists e)"
  unfolding exists_def getNetworkNames_def listNewNetworks_def
  by (intro preservesE_bindE preservesE_getE preservesE_liftE preservesE_retE reserves_contracts)

lemma reserves_peers [intro]: "preservesE (reserves i r) (generatePeers e)"
proof -
  have hide: "preservesE (reserves i r) (hide_node e net acc)" for net acc
    unfolding hide_node_def
    by (intro preservesE_bindE preserves_if preservesE_getE preservesE_retE preservesE_throwE reserves_basic)
  have peer: "preservesE (reserves i r) (net_peer e hidden aps n net)" for hidden aps n net
    unfolding net_peer_def Let_def
    by (intro preservesE_bindE preserves_if preservesE_getE preservesE_retE preservesE_liftE reserves_basic reserves_modify)
      (simp add: getReservedSubnets_def)
  have gen: "preservesE (reserves i r) (generate_for e hidden aps j)" for hidden aps j
    unfolding generate_for_def
    by (intro preservesE_bindE preservesE_iterE preservesE_getE preservesE_liftE peer reserves_modify)
      (simp_all add: set_peers_def)
  show ?thesis
    unfolding generatePeers_def hidden_nodes_def
    by (intro preservesE_bindE preserves_prod preservesE_iterE preservesE_foldE preservesE_getE hide gen)
qed

lemma reserves_add [intro]:
  "preservesE (reserves i r) (addNode e j my desc sn seeds)" "preservesE (reserves i r) (addAccess e j v4)"
  "preservesE (reserves i r) (checkMycelium e j my seeds)"
proof -
  have my: "preservesE (reserves i r) (node_mycelium e j my seeds)"
    unfolding node_mycelium_def
    by (intro preserves_if preservesE_bindE preserves_option preservesE_retE preservesE_liftE reserves_basic)
  have node: "preservesE (reserves i r) (modifyE (\<lambda>s. s\<lparr>n_nodes := n_nodes s @
      [\<lparr>nn_node_id = j, nn_contract_id = None, nn_reserved_ips = []\<rparr>]\<rparr>))"
    by (rule preservesE_modifyE) (simp add: reserves_def getNodeReservedIps_def)
  show "preservesE (reserves i r) (addNode e j my desc sn seeds)"
    unfolding addNode_def
    by (intro preservesE_bindE preserves_if preservesE_getE preservesE_retE my node reserves_basic reserves_subnets
        reserves_peers reserves_modify) (simp_all add: updateNetworkDeployments_def)
  show "preservesE (reserves i r) (addAccess e j v4)"
    unfolding addAccess_def
    by (intro preservesE_bindE preserves_if preservesE_getE preservesE_retE preservesE_throwE reserves_basic reserves_subnets
        reserves_peers reserves_modify reserves_state) (simp_all add: updateNetworkDeployments_def)
  show "preservesE (reserves i r) (checkMycelium e j my seeds)"
    unfolding checkMycelium_def Let_def
    by (intro preservesE_bindE preserves_if preserves_option preservesE_getE preservesE_retE preservesE_throwE preservesE_liftE
        reserves_basic reserves_modify reserves_state) (simp_all add: updateNetworkDeployments_def set_mycelium_def)
qed

lemma reserves_refresh [intro]: "preservesE (reserves i r) (refresh_network e meta)"
  unfolding refresh_network_def by (intro preservesE_bindE preservesE_getE preservesE_liftE)

definition any_reserves :: "int \<Rightarrow> string list \<Rightarrow> any_network \<Rightarrow> bool" where
  "any_reserves i r s \<longleftrightarrow> (case s of FullNet n \<Rightarrow> reserves i r n | LightNet n \<Rightarrow> True)"

lemma any_reserves_network: "preservesE (reserves i r) f \<Longrightarrow> preservesE (any_reserves i r) (on_network f l)"
  unfolding preservesE_def on_network_def any_reserves_def
  by (auto simp: case_prod_beta split: any_network.splits)

lemma steps_keep_reserves:
  "preservesE (any_reserves i r) (claim_subnets e fs ip)"
  "preservesE (any_reserves i r) (access_step e fs a sn)"
  "preservesE (any_reserves i r) (mycelium_step e a meta)"
  "preservesE (any_reserves i r) (network_step e fs a meta sn has access)"
  unfolding claim_subnets_def access_step_def mycelium_step_def network_step_def
    put_access_node_def choose_access_def known_network_def any_network_defs
  by (intro preservesE_bindE preserves_if preserves_prod preserves_option any_reserves_network
      preservesE_retE preservesE_throwE preservesE_getE preservesE_liftE reserves_basic reserves_subnets
      reserves_exists reserves_add reserves_refresh)+

lemma VM_deploy_steps:
  assumes "VM_deploy e a s = (Inr (tds, config), t)"
  obtains features user access has ac config1 updates others config2 s1 s2 s3 s4 ws mounts name ip seed ipName n meta where
    "claim_subnets e features (va_ip a) s = (Inr (user, access), s1)"
    "access_step e features a access s1 = (Inr (has, ac, config1), s2)"
    "mycelium_step e a meta s2 = (Inr updates, s3)"
    "network_step e features a meta user has ac s3 = (Inr (others, config2), s4)"
    "machine_ip_step e a s4 = (Inr ip, t)"
    "tds = (updates @ others) @ [machine_twin (create_deployment (e_twin_id e)
        (ws @ [vm_workload features a mounts name (case ip of None \<Rightarrow> [] | Some x \<Rightarrow> x) seed ipName] @ logs_workloads a)
        0 (va_metadata a) (va_description a) 0) Op_deploy n (va_nodeId a) (va_contractMetadata a) (va_solutionProviderId a)]"
  using assms unfolding VM_deploy_def Let_def
  by (elim bindE_InrE) (clarsimp elim!: bindE_InrE simp: case_prod_beta)

lemma preservesE_outcome: "preservesE I m \<Longrightarrow> m u = (x, v) \<Longrightarrow> I u \<Longrightarrow> I v"
  by (auto simp: preservesE_def dest: spec [of _ u])

lemma push_reserved_None: "push_reserved i x ns = None \<longleftrightarrow> i \<notin> nn_node_id ` set ns"
  by (induction ns) auto

lemma push_reserved_ids: "push_reserved i x ns = Some ns' \<Longrightarrow> map nn_node_id ns' = map nn_node_id ns"
  by (induction ns arbitrary: ns') (auto split: if_splits)

lemma machine_ip_kind:
  assumes "machine_ip_step e a (FullNet n) = (Inr ip, FullNet n')"
  shows "ip = None \<longleftrightarrow> va_ip a \<noteq> [] \<and> va_nodeId a \<notin> nn_node_id ` set (n_nodes n')"
    "ip \<noteq> None \<Longrightarrow> va_ip a \<noteq> [] \<Longrightarrow> ip = Some (va_ip a)"
proof (atomize (full), cases "va_ip a = []")
  case True
  with assms obtain x where "getFreeIP e (va_nodeId a) [] n = (Inr x, n')" "ip = Some x"
    by (auto simp: machine_ip_step_def any_getFreeIP_def on_network_def elim!: bindE_InrE split: prod.splits)
  with True show "(ip = None \<longleftrightarrow> va_ip a \<noteq> [] \<and> va_nodeId a \<notin> nn_node_id ` set (n_nodes n'))
      \<and> (ip \<noteq> None \<longrightarrow> va_ip a \<noteq> [] \<longrightarrow> ip = Some (va_ip a))" by simp
next
  case False
  with assms have "validateUserIP e (va_nodeId a) (va_ip a) n = (Inr ip, n')"
    by (auto simp: machine_ip_step_def any_validateUserIP_def on_network_def split: prod.splits)
  then have "push_reserved (va_nodeId a) (va_ip a) (n_nodes n) = None \<and> ip = None \<and> n' = n
      \<or> (\<exists>ns. push_reserved (va_nodeId a) (va_ip a) (n_nodes n) = Some ns \<and> ip = Some (va_ip a) \<and> n' = n\<lparr>n_nodes := ns\<rparr>)"
    by (auto simp: validateUserIP_def split: if_splits sum.splits bool.splits option.splits)
  with False show "(ip = None \<longleftrightarrow> va_ip a \<noteq> [] \<and> va_nodeId a \<notin> nn_node_id ` set (n_nodes n'))
      \<and> (ip \<noteq> None \<longrightarrow> va_ip a \<noteq> [] \<longrightarrow> ip = Some (va_ip a))"
    using push_reserved_None [of "va_nodeId a" "va_ip a" "n_nodes n"]
      push_reserved_ids [of "va_nodeId a" "va_ip a" "n_nodes n", THEN arg_cong [where f = set]] by fastforce
qed

text \<open>
  C19: on a WireGuard network the machine's private address is its own: it was reserved for nobody
  on the node, and the deployment adds exactly it to what was reserved there before.  It is the user's
  address if there is one.  Only an address of the user's for a node that the network's list of nodes
  lacks is not reserved; the machine then has the empty address.
\<close>

theorem machine_address_reserved:
  assumes "VM_deploy e a (FullNet n) = (Inr (tds, config), t)"
  shows "\<exists>n' vm ip. t = FullNet n' \<and> vm \<in> set (dp_workloads (td_deployment (last tds))) \<and> is_machine vm
    \<and> machine_ip (wl_data vm) = Some ip
    \<and> (if va_ip a \<noteq> [] \<and> va_nodeId a \<notin> nn_node_id ` set (n_nodes n') then ip = []
       else ip \<notin> set (getNodeReservedIps (va_nodeId a) n)
         \<and> getNodeReservedIps (va_nodeId a) n' = getNodeReservedIps (va_nodeId a) n @ [ip]
         \<and> (va_ip a \<noteq> [] \<longrightarrow> ip = va_ip a))"
proof -
  let ?before = "getNodeReservedIps (va_nodeId a) n"
  have "is_full t" using VM_deploy_keeps_kind [of True e a] assms
    by (auto simp: preservesE_def is_full_def dest!: spec [of _ "FullNet n"])
  then obtain n' where t: "t = FullNet n'" by (cases t) (auto simp: is_full_def)
  have "any_reserves (va_nodeId a) ?before (FullNet n)" by (simp add: any_reserves_def reserves_def)
  moreover from assms obtain features user access has ac config1 updates others config2 s1 s2 s3 s' ws mounts name ip seed ipName k meta where
    steps: "claim_subnets e features (va_ip a) (FullNet n) = (Inr (user, access), s1)"
      "access_step e features a access s1 = (Inr (has, ac, config1), s2)"
      "mycelium_step e a meta s2 = (Inr updates, s3)"
      "network_step e features a meta user has ac s3 = (Inr (others, config2), s')" and
    i: "machine_ip_step e a s' = (Inr ip, t)" and
    tds: "tds = (updates @ others) @ [machine_twin (create_deployment (e_twin_id e)
        (ws @ [vm_workload features a mounts name (case ip of None \<Rightarrow> [] | Some x \<Rightarrow> x) seed ipName] @ logs_workloads a)
        0 (va_metadata a) (va_description a) 0) Op_deploy k (va_nodeId a) (va_contractMetadata a) (va_solutionProviderId a)]"
    by (rule VM_deploy_steps)
  ultimately have r: "any_reserves (va_nodeId a) ?before s'"
    using preservesE_outcome [OF steps_keep_reserves(1) steps(1)] preservesE_outcome [OF steps_keep_reserves(2) steps(2)]
      preservesE_outcome [OF steps_keep_reserves(3) steps(3)] preservesE_outcome [OF steps_keep_reserves(4) steps(4)] by blast
  have "is_full s'" using machine_steps_keep_kind(5) [of False e a] i t
    by (auto simp: preservesE_def is_full_def dest!: spec [of _ s'])
  then obtain n1 where s': "s' = FullNet n1" by (cases s') (auto simp: is_full_def)
  let ?x = "case ip of None \<Rightarrow> [] | Some x \<Rightarrow> x"
  have before: "getNodeReservedIps (va_nodeId a) n1 = ?before" using r by (simp add: s' any_reserves_def reserves_def)
  have "if va_ip a \<noteq> [] \<and> va_nodeId a \<notin> nn_node_id ` set (n_nodes n') then ?x = []
       else ?x \<notin> set ?before \<and> getNodeReservedIps (va_nodeId a) n' = ?before @ [?x] \<and> (va_ip a \<noteq> [] \<longrightarrow> ?x = va_ip a)"
    using machine_ip_reserved [of e a n1 _ n'] machine_ip_kind [of e a n1 ip n'] i before unfolding s' t
    by (cases ip) auto
  then show ?thesis
    by (intro exI [of _ n'] exI [of _ "vm_workload features a mounts name ?x seed ipName"] exI [of _ ?x])
       (simp add: t tds machine_twin_def create_deployment_def)
qed

subsection \<open>Seeds\<close>

lemma hex_digit_hex: "n < 16 \<Longrightarrow> is_hex_digit (hex_digit n)"
  by (auto simp: hex_digit_def is_hex_digit_def is_digit_def less_Suc_eq numeral_eq_Suc nth_Cons')

lemma pad_one: "pad_start 6 [x] = ''00000'' @ [x]"
  by (simp add: pad_start_def eval_nat_numeral)

lemma pad_two: "pad_start 6 [x, y] = ''0000'' @ [x, y]"
  by (simp add: pad_start_def eval_nat_numeral)

lemma show_hex_small:
  assumes "n < 256"
  shows "list_all is_hex_digit (show_hex n)" "length (show_hex n) \<le> 2"
    "pad_start 6 (show_hex n) = ''0000'' @ [hex_digit (n div 16), hex_digit (n mod 16)]"
proof (atomize (full), cases "n < 16")
  case True
  then have "show_hex n = [hex_digit n]" by (subst show_hex.simps) simp
  moreover have "hex_digit 0 = CHR ''0''" by (simp add: hex_digit_def)
  ultimately show "list_all is_hex_digit (show_hex n) \<and> length (show_hex n) \<le> 2
      \<and> pad_start 6 (show_hex n) = ''0000'' @ [hex_digit (n div 16), hex_digit (n mod 16)]"
    using True by (simp add: hex_digit_hex pad_one)
next
  case False
  have d: "n div 16 < 16" using assms by simp
  with False have "show_hex n = [hex_digit (n div 16), hex_digit (n mod 16)]"
    by (subst show_hex.simps) (simp, subst show_hex.simps, simp)
  then show "list_all is_hex_digit (show_hex n) \<and> length (show_hex n) \<le> 2
      \<and> pad_start 6 (show_hex n) = ''0000'' @ [hex_digit (n div 16), hex_digit (n mod 16)]"
    using d by (simp add: hex_digit_hex pad_two)
qed

lemma zero_hex: "is_hex_digit (CHR ''0'')"
  by (simp add: is_hex_digit_def is_digit_def)

lemma hex_digit_inj: "m < 16 \<Longrightarrow> n < 16 \<Longrightarrow> hex_digit m = hex_digit n \<Longrightarrow> m = n"
  by (simp add: hex_digit_def nth_eq_iff_index_eq)

lemma parse_show [simp]: "parse_int (show_nat n) = Some n"
proof -
  have "takeWhile is_digit (show_nat n) = show_nat n"
    using show_nat_digits [of n] by (simp add: takeWhile_eq_all_conv list_all_iff)
  then show ?thesis unfolding parse_int_def Let_def by (simp only: show_nat_nonempty if_False read_show_nat)
qed

text \<open>The address \<open>a.b.c.d\<close>.\<close>

definition dotted :: "nat \<Rightarrow> nat \<Rightarrow> nat \<Rightarrow> nat \<Rightarrow> string" where
  "dotted a b c d = join_with ''.'' [show_nat a, show_nat b, show_nat c, show_nat d]"

lemma show_nat_plain: "CHR ''.'' \<notin> set (show_nat n)" "CHR ''/'' \<notin> set (show_nat n)"
  using show_nat_digits [of n] by (auto simp: list_all_iff is_digit_def)

lemma seed_of_dotted:
  "mycelium_seed_of (dotted a b c d) = Inr (zeroPadding 6 (Some c) @ zeroPadding 6 (Some d))"
proof -
  have "CHR ''/'' \<notin> set (dotted a b c d)" by (simp add: dotted_def join_with_def show_nat_plain)
  moreover have "split_on (CHR ''.'') (dotted a b c d) = [show_nat a, show_nat b, show_nat c, show_nat d]"
    unfolding dotted_def by (rule split_on_join) (auto simp: show_nat_plain)
  ultimately show ?thesis by (simp add: mycelium_seed_of_def before_char_id)
qed

text \<open>
  a machine without a seed of the user's gets one made of the last two numbers of its address:
  it is well-formed (six bytes in hexadecimal), and two machines get the same seed exactly if their
  addresses end in the same two numbers.
\<close>

theorem machine_seed_unique:
  assumes "c < 256" and "d < 256" and "c' < 256" and "d' < 256"
  shows "\<exists>s s'. mycelium_seed_of (dotted a b c d) = Inr s \<and> mycelium_seed_of (dotted a' b' c' d') = Inr s'
    \<and> validateHexSeed s 6 = Inr True \<and> (s = s' \<longleftrightarrow> c = c' \<and> d = d')"
proof -
  have z: "zeroPadding 6 (Some n) = ''0000'' @ [hex_digit (n div 16), hex_digit (n mod 16)]" if "n < 256" for n
    using show_hex_small(3) [OF that] by (simp add: zeroPadding_def)
  have i: "[hex_digit (m div 16), hex_digit (m mod 16)] = [hex_digit (n div 16), hex_digit (n mod 16)] \<longleftrightarrow> m = n"
    if "m < 256" "n < 256" for m n
  proof
    assume "[hex_digit (m div 16), hex_digit (m mod 16)] = [hex_digit (n div 16), hex_digit (n mod 16)]"
    then have "m div 16 = n div 16" "m mod 16 = n mod 16"
      using that hex_digit_inj [of "m div 16" "n div 16"] hex_digit_inj [of "m mod 16" "n mod 16"] by simp_all
    then show "m = n" by (metis div_mult_mod_eq)
  qed simp
  have "validateHexSeed (zeroPadding 6 (Some c) @ zeroPadding 6 (Some d)) 6 = Inr True"
    using assms(1,2) by (simp add: validateHexSeed_def z hex_digit_hex zero_hex)
  moreover have "zeroPadding 6 (Some c) @ zeroPadding 6 (Some d) = zeroPadding 6 (Some c') @ zeroPadding 6 (Some d')
      \<longleftrightarrow> c = c' \<and> d = d'"
    using i [OF assms(1,3)] i [OF assms(2,4)] unfolding z [OF assms(1)] z [OF assms(2)] z [OF assms(3)] z [OF assms(4)]
    by (simp, blast)
  ultimately show ?thesis by (simp add: seed_of_dotted)
qed

end
