(* ===== verification/PublicProps.thy ===== *)
theory PublicProps
  imports PublicModules MachineProps
begin

text \<open>
  Properties of the public modules: which contracts they list, which deployments they read back,
  what they create for a list of machines, a cluster or a quantum safe storage, and which updates
  they refuse.
\<close>

subsection \<open>Contracts\<close>

lemma parse_contracts_map:
  "parse_contracts p cs = Inr ds \<Longrightarrow> map gc_contractID ds = map gc_contractID cs
     \<and> (\<forall>d \<in> set ds. \<exists>x. gc_parsed d = Some x \<and> p (gc_deploymentData d) = Inr x)"
  by (induction cs arbitrary: ds) (auto simp: bindR_Inr)

definition known_ids :: "GqlNodeContract list \<Rightarrow> string list" where
  "known_ids cs = map gc_contractID cs"

lemma replace_contract_ids: "known_ids (replace_contract c cs) = known_ids cs"
  by (induction cs) (auto simp: known_ids_def)

text \<open>A recorded contract that the module looks for.\<close>

definition of_module :: "string \<Rightarrow> string \<Rightarrow> GqlNodeContract \<Rightarrow> bool" where
  "of_module project type c \<longleftrightarrow>
     (\<exists>d. gc_parsed c = Some d \<and> includes_text project (dd_projectName d) \<and> dd_type d = type)"

lemma merge_recent_ids:
  "set (known_ids (fst (merge_recent pr ty now p (cs, f))))
     = set (known_ids cs) \<union> (if of_module pr ty (fst p) then {gc_contractID (fst p)} else {})"
  "distinct (known_ids cs) \<Longrightarrow> distinct (known_ids (fst (merge_recent pr ty now p (cs, f))))"
proof -
  have there: "list_ex (\<lambda>c. gc_contractID c = i) cs \<longleftrightarrow> i \<in> set (known_ids cs)" for i
    by (auto simp: known_ids_def list_ex_iff)
  have added: "known_ids (cs @ [c]) = known_ids cs @ [gc_contractID c]" for c by (simp add: known_ids_def)
  show "set (known_ids (fst (merge_recent pr ty now p (cs, f))))
       = set (known_ids cs) \<union> (if of_module pr ty (fst p) then {gc_contractID (fst p)} else {})"
    "distinct (known_ids cs) \<Longrightarrow> distinct (known_ids (fst (merge_recent pr ty now p (cs, f))))"
    by (auto simp: merge_recent_def of_module_def there added replace_contract_ids split: option.splits)
qed

lemma merge_all_ids:
  "set (known_ids (fst (fold (merge_recent pr ty now) ps (cs, f))))
     = set (known_ids cs) \<union> gc_contractID ` {c. c \<in> fst ` set ps \<and> of_module pr ty c}
   \<and> (distinct (known_ids cs) \<longrightarrow> distinct (known_ids (fst (fold (merge_recent pr ty now) ps (cs, f)))))"
proof (induction ps arbitrary: cs f)
  case (Cons p ps)
  obtain cs' f' where m: "merge_recent pr ty now p (cs, f) = (cs', f')" by fastforce
  have "set (known_ids cs') = set (known_ids cs) \<union> (if of_module pr ty (fst p) then {gc_contractID (fst p)} else {})"
    "distinct (known_ids cs) \<Longrightarrow> distinct (known_ids cs')"
    using merge_recent_ids [where pr = pr and ty = ty and now = now and p = p and cs = cs and f = f] by (simp_all add: m)
  with Cons.IH [of cs' f'] show ?case by (auto simp: m)
qed simp

lemma m_ask_app [simp]: "m_ask f w = (f (cl_chain (hw_client (mw_hw w))), w)"
  by (cases w) (simp add: m_ask_def on_handler_def ask_def Let_def)

lemma getMyContracts_fetched:
  assumes "getMyContracts m True w = (Inr cs, w')"
  obtains listed now h contracts where
    "m_my_contracts m (module_type (m_moduleName m))
       (if module_type (m_moduleName m) = ''network'' then [] else m_projectName m) (cl_chain (hw_client (mw_hw w))) = Inr listed"
    "contracts = fst (fold (merge_recent (m_projectName m) (module_type (m_moduleName m)) now) (mw_newContracts w) (listed, []))"
    "parse_contracts (m_parse m) (filter (\<lambda>c. js_number (gc_contractID c) \<notin> set (mw_deletedContracts w)) contracts) = Inr cs"
    "mw_contracts w' = Some cs"
  using assms unfolding getMyContracts_def Let_def
  by (auto simp: bindE_Inr_iff m_ask_def on_handler_def ask_def case_prod_beta split: if_splits prod.splits)

text \<open>
  C21: When the contracts of a module are fetched, their ids are those the graph database lists for it and
  those of the module that were recorded since, less the deleted ones; each contract has the data its
  text parses to, no id comes twice if the database lists none twice, and the result is what is kept.
  The networks are asked for without a project, all other modules with theirs.
\<close>

theorem my_contracts_exact:
  assumes "getMyContracts m True w = (Inr cs, w')"
    and "m_my_contracts m (module_type (m_moduleName m)) (if module_type (m_moduleName m) = ''network'' then [] else m_projectName m)
      (cl_chain (hw_client (mw_hw w))) = Inr listed"
  shows "mw_contracts w' = Some cs
    \<and> set (map gc_contractID cs) = {i. (i \<in> gc_contractID ` set listed
          \<or> (\<exists>c \<in> fst ` set (mw_newContracts w). of_module (m_projectName m) (module_type (m_moduleName m)) c \<and> i = gc_contractID c))
        \<and> js_number i \<notin> set (mw_deletedContracts w)}
    \<and> (\<forall>c \<in> set cs. \<exists>d. gc_parsed c = Some d \<and> m_parse m (gc_deploymentData c) = Inr d)
    \<and> (distinct (map gc_contractID listed) \<longrightarrow> distinct (map gc_contractID cs))"
proof -
  let ?live = "\<lambda>c. js_number (gc_contractID c) \<notin> set (mw_deletedContracts w)"
  from assms(1) obtain ls now contracts where
    l: "m_my_contracts m (module_type (m_moduleName m))
       (if module_type (m_moduleName m) = ''network'' then [] else m_projectName m) (cl_chain (hw_client (mw_hw w))) = Inr ls"
    and c: "contracts = fst (fold (merge_recent (m_projectName m) (module_type (m_moduleName m)) now) (mw_newContracts w) (ls, []))"
    and p: "parse_contracts (m_parse m) (filter ?live contracts) = Inr cs"
    and w: "mw_contracts w' = Some cs" by (rule getMyContracts_fetched)
  have "ls = listed" using l assms(2) by simp
  with merge_all_ids [where pr = "m_projectName m" and ty = "module_type (m_moduleName m)" and now = now
      and ps = "mw_newContracts w" and cs = listed and f = "[]"]
  have d: "distinct (known_ids listed) \<Longrightarrow> distinct (known_ids contracts)" "set (known_ids contracts) = set (known_ids listed)
      \<union> gc_contractID ` {x. x \<in> fst ` set (mw_newContracts w) \<and> of_module (m_projectName m) (module_type (m_moduleName m)) x}"
    by (simp_all add: c)
  have i: "map gc_contractID cs = map gc_contractID (filter ?live contracts)"
    using parse_contracts_map [OF p] by simp
  have "distinct (map gc_contractID listed) \<longrightarrow> distinct (map gc_contractID (filter ?live contracts))"
    using d(1) by (simp add: known_ids_def distinct_map_filter)
  moreover have "set (map gc_contractID (filter ?live contracts)) = {i \<in> set (known_ids contracts). js_number i \<notin> set (mw_deletedContracts w)}"
    by (auto simp: known_ids_def)
  ultimately show ?thesis unfolding i d(2) using w parse_contracts_map [OF p] by (auto simp: known_ids_def)
qed

subsection \<open>Reading deployments back\<close>

lemma module_found_live:
  "module_found types ws = Inr True \<Longrightarrow> \<exists>w \<in> set ws. wl_type w \<in> set types \<and> workload_deleted w = Inr False"
  by (induction ws) (auto simp: bindR_Inr split: if_splits)

definition live_in :: "WorkloadTypes list \<Rightarrow> Deployment \<Rightarrow> bool" where
  "live_in types d \<longleftrightarrow> (\<exists>w \<in> set (dp_workloads d). wl_type w \<in> set types \<and> workload_deleted w = Inr False)"

lemma get_one_Inr:
  assumes "get_one m name c acc w = (Inr ds, w')"
  shows "ds = acc \<or> (\<exists>d. ds = acc @ [d] \<and> live_in (m_workloadTypes m) d)"
  using assms unfolding get_one_def Let_def live_in_def
  by (auto simp: bindE_Inr_iff split: option.splits if_splits dest!: module_found_live)

lemma get_all_Inr:
  "foldE (get_one m name) cs acc w = (Inr ds, w') \<Longrightarrow> \<exists>xs. ds = acc @ xs
     \<and> length xs \<le> length cs \<and> (\<forall>d \<in> set xs. live_in (m_workloadTypes m) d)"
proof (induction cs arbitrary: acc w)
  case (Cons c cs)
  from Cons.prems obtain acc' u where a: "get_one m name c acc w = (Inr acc', u)"
    "foldE (get_one m name) cs acc' u = (Inr ds, w')" by (auto elim: bindE_InrE)
  from Cons.IH [OF a(2)] obtain xs where "ds = acc' @ xs" "length xs \<le> length cs"
    "\<forall>d \<in> set xs. live_in (m_workloadTypes m) d" by blast
  with get_one_Inr [OF a(1)] show ?case by auto
qed simp

text \<open>
  What a module reads back under a name are deployments with a workload of the module that is not
  deleted, at most one for each contract of that name; the others are forgotten on the way.
\<close>

theorem deployments_read_back_live:
  assumes "get_deployments m name w = (Inr ds, w')"
  shows "\<forall>d \<in> set ds. \<exists>x \<in> set (dp_workloads d). wl_type x \<in> set (m_workloadTypes m) \<and> workload_deleted x = Inr False"
proof -
  have "\<forall>d \<in> set ds. live_in (m_workloadTypes m) d"
    using assms unfolding get_deployments_def
    by (auto simp: bindE_Inr_iff split: if_splits dest!: get_all_Inr)
  then show ?thesis by (simp add: live_in_def)
qed

text \<open>
  When the node of a contract answers with an error, reading the deployments fails, and with a
  \<open>TypeError\<close>: the error itself is dropped and the missing deployment is then looked into.
\<close>

theorem node_error_is_type_error:
  assumes "exists_name m name w = (Inr True, w1)" and "module_contracts m name w1 = (Inr (c # cs), w2)"
    and "chain_contract (m_grid m (cl_chain (hw_client (mw_hw w2)))) (js_number (gc_contractID c)) = Inr (Some ct)"
    and "getNodeTwinId (m_grid m (cl_chain (hw_client (mw_hw w2)))) (gc_nodeID c) = Inr node_twin"
    and "fst (h_get_deployment (m_handler m) node_twin (js_number (gc_contractID c)) (cl_chain (hw_client (mw_hw w2)))) = Inl err"
  shows "fst (get_deployments m name w) = Inl TypeError"
proof -
  obtain ch where "h_get_deployment (m_handler m) node_twin (js_number (gc_contractID c)) (cl_chain (hw_client (mw_hw w2))) = (Inl err, ch)"
    using assms(5) by (metis prod.collapse)
  then have "fst (get_one m name c [] w2) = Inl TypeError"
    by (simp add: get_one_def Let_def bindE_app assms(3,4) catchE_def m_act_def on_handler_def act_def)
  then show ?thesis
    by (auto simp: get_deployments_def bindE_app assms(1,2) split: prod.splits)
qed

subsection \<open>Clusters\<close>

text \<open>
  The workers of a cluster make no difference to what is deployed: once a master has set the network
  the loop over the workers ends before the first of them.
\<close>

lemma masters_ignore_workers:
  "create_masters m (opts\<lparr>km_workers := ws\<rparr>) ps names acc = create_masters m opts ps names acc"
  by (induction ps arbitrary: names acc)
    (simp_all add: open_cluster_def k8s_call_def case_prod_beta cong: if_cong)

lemma masters_keep_network:
  "create_masters m opts ps names (tds, config, Some n) w = (Inr (tds', config', net'), w') \<Longrightarrow> net' = Some n"
  by (cases ps) (auto split: if_splits)

lemma masters_set_network:
  "create_masters m opts ps names (tds, config, None) w = (Inr (tds', config', net'), w') \<Longrightarrow> net' \<noteq> None \<or> tds' = tds"
  by (cases ps) (auto simp: bindE_Inr_iff split: if_splits dest!: masters_keep_network)

lemma no_workers_created: "net \<noteq> None \<Longrightarrow> create_workers m opts ip flist ps [] (tds, config, net) = retE (tds, config, net)"
  by (cases ps) auto

text \<open>
  Creating a cluster with workers is creating it without any: the loop over the workers
  ends before the first one.
\<close>

theorem cluster_without_workers:
  "k8s_createDeployment m (opts\<lparr>km_workers := workers\<rparr>) ips = k8s_createDeployment m (opts\<lparr>km_workers := []\<rparr>) ips"
proof (rule ext)
  fix w
  note masters_ignore_workers [simp]
  show "k8s_createDeployment m (opts\<lparr>km_workers := workers\<rparr>) ips w = k8s_createDeployment m (opts\<lparr>km_workers := []\<rparr>) ips w"
  proof (cases "create_masters m opts (km_masters opts) [] ([], [], None) w")
    case (Pair r u)
    show ?thesis
    proof (cases r)
      case (Inr x)
      then obtain tds config net where x: "r = Inr (tds, config, net)" by (cases x) auto
      have "net = None \<Longrightarrow> tds = []" using masters_set_network Pair x by fastforce
      then show ?thesis
        by (cases net) (simp_all add: k8s_createDeployment_def bindE_app Pair x getMastersWorkload_def no_workers_created Let_def
            cong: if_cong)
    qed (simp add: k8s_createDeployment_def bindE_app Pair)
  qed
qed

subsection \<open>Machines\<close>

lemma run_network_Inr:
  assumes "run_network f m net w = (Inr (x, net'), w')"
  shows "f (current_env m w) net = (Inr x, net')"
  using assms by (auto simp: run_network_def bindR_Inr split: prod.splits)

definition machine_named :: "vm_args \<Rightarrow> TwinDeployment \<Rightarrow> bool" where
  "machine_named a td \<longleftrightarrow> td_operation td = Op_deploy \<and> td_nodeId td = va_nodeId a
     \<and> (\<exists>vm \<in> set (dp_workloads (td_deployment td)). is_machine vm \<and> wl_name vm = va_name a)"

lemma VM_deploy_machine:
  assumes "VM_deploy e a s = (Inr (tds, config), t)"
  shows "\<exists>td \<in> set tds. machine_named a td"
  using assms by (rule VM_deploy_Inr) (auto simp: machine_named_def machine_twin_def create_deployment_def)

lemma create_machines_all:
  assumes "\<And>a. va_name (call a) = va_name a \<and> va_nodeId (call a) = va_nodeId a"
  shows "create_machines m call as names (tds, config, n) w = (Inr (tds', config', n'), w')
    \<Longrightarrow> distinct (map va_name as) \<and> set names \<inter> va_name ` set as = {}
      \<and> set tds \<subseteq> set tds' \<and> (\<forall>a \<in> set as. \<exists>td \<in> set tds'. machine_named a td)"
proof (induction as arbitrary: names tds config n w)
  case (Cons a as)
  from Cons.prems obtain new cfg n1 u config1 where n: "va_name a \<notin> set names"
    and r: "run_network (\<lambda>e. VM_deploy e (call a)) m n w = (Inr ((new, cfg), n1), u)"
    and c: "create_machines m call as (names @ [va_name a]) (tds @ new, config1, n1) u = (Inr (tds', config', n'), w')"
    by (auto simp: bindE_Inr_iff split: if_splits)
  obtain td where "td \<in> set new" "machine_named (call a) td"
    using VM_deploy_machine [OF run_network_Inr [OF r]] by blast
  moreover have "machine_named (call a) td \<longleftrightarrow> machine_named a td" for td
    using assms [of a] by (simp add: machine_named_def)
  ultimately show ?case using Cons.IH [OF c] n by auto
qed simp

text \<open>
  C20: Deploying machines makes a deployment for each of them, on its node and with the machine in it;
  no two have the same name, and all share one network object.
\<close>

theorem machines_all_created:
  assumes "machines_createDeployment m opts w = (Inr (tds, config, net), w')"
  shows "distinct (map va_name (mm_machines opts)) \<and> (\<forall>td \<in> set tds. td_network td = net)
    \<and> (\<forall>a \<in> set (mm_machines opts). \<exists>td \<in> set tds. td_operation td = Op_deploy \<and> td_nodeId td = va_nodeId a
         \<and> (\<exists>vm \<in> set (dp_workloads (td_deployment td)). is_machine vm \<and> wl_name vm = va_name a))"
proof (cases "mm_machines opts")
  case Nil
  then show ?thesis using assms by (simp add: machines_createDeployment_def)
next
  case (Cons a as)
  then obtain light ms n0 n1 u where t: "tds = share_network net ms" and
    c: "create_machines m (machine_call m (mm_network opts) (vm_metadata m light (mm_name opts) (mm_name opts))
          (mm_metadata opts) (mm_description opts)) (mm_machines opts) [] ([], [], n0) u = (Inr (ms, config, n1), w')"
    using assms by (auto simp: machines_createDeployment_def Let_def bindE_Inr_iff simp del: create_machines.simps)
  have call: "va_name (machine_call m n k x y b) = va_name b \<and> va_nodeId (machine_call m n k x y b) = va_nodeId b"
    for n k x y b by (simp add: machine_call_def)
  have "machine_named b (td\<lparr>td_network := net\<rparr>) \<longleftrightarrow> machine_named b td" for b td by (simp add: machine_named_def)
  then have "\<forall>b \<in> set (mm_machines opts). \<exists>td \<in> set tds. machine_named b td" "distinct (map va_name (mm_machines opts))"
    using create_machines_all [OF call c] by (auto simp: t share_network_def)
  then show ?thesis by (auto simp: t share_network_def machine_named_def)
qed

subsection \<open>Quantum safe storage\<close>

lemma mapE_Inr: "mapE f xs s = (Inr ys, t) \<Longrightarrow> length ys = length xs \<and> (\<forall>i < length xs. \<exists>u v. f (xs ! i) u = (Inr (ys ! i), v))"
proof (induction xs arbitrary: ys s)
  case (Cons x xs)
  from Cons.prems obtain y zs u where y: "f x s = (Inr y, u)" "mapE f xs u = (Inr zs, t)" "ys = y # zs"
    by (auto simp: bindE_Inr_iff)
  with Cons.IH [OF y(2)] show ?case by (auto simp: less_Suc_eq_0_disj)
qed simp

lemma concat_singletons: "(\<And>x. x \<in> set xs \<Longrightarrow> g x = [h x]) \<Longrightarrow> concat (map g xs) = map h xs"
  by (induction xs) simp_all

lemma create_zdb_Inr:
  assumes "create_zdb m z meta md desc w = (Inr td, w')"
  shows "td_operation td = Op_deploy \<and> td_nodeId td = zd_node_id z \<and> dp_workloads (td_deployment td)
    = [Zdb_create (zd_name z) (zd_disk_size z) (zd_mode z) (zd_password z) (zd_publicNamespace z) md desc 0]"
  using assms by (auto simp: create_zdb_def ZdbHL_create_def bindR_Inr create_deployment_def split: if_splits)

text \<open>
  A quantum safe storage of \<open>n\<close> groups is \<open>n + 4\<close> zdbs of one size on the given nodes in turn,
  numbered from 1 on: the first \<open>n\<close> are sequential, the last four keep the metadata.
\<close>

theorem qsfs_zdbs_laid_out:
  assumes "qsfs_createDeployment m opts w = (Inr tds, w')"
  shows "3 \<le> qs_count opts \<and> int (length tds) = qs_count opts + 4
    \<and> (\<forall>i < length tds. td_operation (tds ! i) = Op_deploy
         \<and> td_nodeId (tds ! i) = qs_node_ids opts ! (i mod length (qs_node_ids opts))
         \<and> dp_workloads (td_deployment (tds ! i)) = [Zdb_create (qs_name opts @ show_nat (Suc i)) (qs_disk_size opts)
              (if int i < qs_count opts then Zdb_seq else Zdb_user) (qs_password opts) True (qs_metadata opts) (qs_description opts) 0])
    \<and> distinct (map wl_name (concat (map (\<lambda>td. dp_workloads (td_deployment td)) tds)))"
proof -
  let ?mk = "\<lambda>i. create_zdb m (qsfs_zdb opts i) (contract_metadata 3 ''qsfs'' (qs_name opts) (m_projectName m))
                      (qs_metadata opts) (qs_description opts)"
  from assms have n: "3 \<le> qs_count opts" and r: "mapE ?mk [1..<nat (qs_count opts) + 5] w = (Inr tds, w')"
    by (auto simp: qsfs_createDeployment_def split: if_splits)
  note e = mapE_Inr [OF r]
  have l: "length tds = nat (qs_count opts) + 4" using e by simp
  have z: "td_operation (tds ! i) = Op_deploy
         \<and> td_nodeId (tds ! i) = qs_node_ids opts ! (i mod length (qs_node_ids opts))
         \<and> dp_workloads (td_deployment (tds ! i)) = [Zdb_create (qs_name opts @ show_nat (Suc i)) (qs_disk_size opts)
              (if int i < qs_count opts then Zdb_seq else Zdb_user) (qs_password opts) True (qs_metadata opts) (qs_description opts) 0]"
    if "i < length tds" for i
  proof -
    have "[1..<nat (qs_count opts) + 5] ! i = Suc i" using that l by (simp add: nth_upt)
    with e that l obtain u v where "?mk (Suc i) u = (Inr (tds ! i), v)" by (metis length_upt)
    from create_zdb_Inr [OF this] show ?thesis by (auto simp: qsfs_zdb_def)
  qed
  have "map (\<lambda>td. dp_workloads (td_deployment td)) tds = map (\<lambda>i. dp_workloads (td_deployment (tds ! i))) [0..<length tds]"
    by (rule nth_equalityI) auto
  also have "map wl_name (concat \<dots>) = map (\<lambda>i. qs_name opts @ show_nat (Suc i)) [0..<length tds]"
    unfolding map_concat map_map by (rule concat_singletons) (use z in \<open>simp add: Zdb_create_def\<close>)
  finally show ?thesis using n l z by (auto simp: distinct_map inj_on_def simp del: upt_Suc)
qed

text \<open>
  The shards of a quantum safe disk: neither number exceeds the zdbs there are, and what the user
  leaves open is three fifths of them, rounded up, and all of them.
\<close>

theorem shards_within_zdbs:
  assumes "0 \<le> n" and "minimal_shards n d = Inr minimal" and "expected_shards n d = Inr expected"
  shows "minimal \<le> n \<and> expected \<le> n
    \<and> (\<not> nonzero (qd_minimal_shards d) \<longrightarrow> n * 3 \<le> minimal * 5 \<and> minimal * 5 < n * 3 + 5)
    \<and> (\<not> nonzero (qd_minimal_shards d) \<and> \<not> nonzero (qd_expected_shards d) \<longrightarrow> minimal \<le> expected)"
proof -
  let ?x = "of_int (n * 3) / (5 :: rat)"
  define k where "k = \<lceil>?x\<rceil>"
  have c: "?x \<le> of_int k" "of_int k < ?x + 1" unfolding k_def by linarith+
  have "of_int (n * 3) \<le> (of_int (k * 5) :: rat)" "(of_int (k * 5) :: rat) < of_int (n * 3 + 5)"
    using c by (simp_all add: divide_simps)
  then have b: "n * 3 \<le> \<lceil>?x\<rceil> * 5" "\<lceil>?x\<rceil> * 5 < n * 3 + 5" by (simp_all only: of_int_le_iff of_int_less_iff k_def)
  have "\<lceil>?x\<rceil> \<le> n" using assms(1) by (simp add: ceiling_le_iff field_simps)
  then show ?thesis using assms b by (auto simp: minimal_shards_def expected_shards_def split: if_splits)
qed

subsection \<open>Updates\<close>

text \<open>With the contracts cached, looking up a contract's node changes nothing.\<close>

definition node_of :: "GqlNodeContract list \<Rightarrow> string \<Rightarrow> int option \<Rightarrow> int" where
  "node_of cs name cid = (case find (\<lambda>c. Some (js_number (gc_contractID c)) = cid) (filter (\<lambda>c. contract_name c = name) cs) of
     None \<Rightarrow> 0 | Some c \<Rightarrow> gc_nodeID c)"

lemma node_of_known:
  assumes "node_of cs name cid = i" and "i \<noteq> 0"
  shows "i \<in> set (map gc_nodeID (filter (\<lambda>c. contract_name c = name) cs))"
  using assms by (auto simp: node_of_def find_Some_iff split: option.splits dest: nth_mem)

lemma module_contracts_cached:
  "mw_contracts w = Some cs \<Longrightarrow> module_contracts m name w = (Inr (filter (\<lambda>c. contract_name c = name) cs), w)"
  by (simp add: module_contracts_def getMyContracts_def bindE_app)

lemma nodeOfContract_cached:
  "mw_contracts w = Some cs \<Longrightarrow> nodeOfContract m name cid w = (Inr (node_of cs name cid), w)"
  by (simp add: nodeOfContract_def bindE_app module_contracts_cached node_of_def)

lemma iterE_liftE_all: "iterE (\<lambda>x. liftE (f x)) xs w = (Inr (), w') \<Longrightarrow> w' = w \<and> (\<forall>x \<in> set xs. f x = Inr ())"
  by (induction xs) (auto simp: bindE_Inr_iff)

lemma reject_one_cached:
  assumes "reject_one m name tds d w = (Inr (), w')" and "mw_contracts w = Some cs"
  shows "w' = w \<and> (\<forall>td \<in> set tds. reject_new (node_of cs name (dp_contract_id d)) (dp_workloads d) td = Inr ())"
proof -
  from assms obtain old where "fromObj (h_valid (m_handler m)) d = Inr old"
    and i: "iterE (\<lambda>td. liftE (reject_new (node_of cs name (dp_contract_id old)) (dp_workloads d) td)) tds w = (Inr (), w')"
    by (auto simp: reject_one_def bindE_Inr_iff nodeOfContract_cached split: if_splits)
  moreover from this have "dp_contract_id old = dp_contract_id d"
    by (auto simp: fromObj_def Let_def bindR_Inr exposed_deployment_def)
  ultimately show ?thesis using iterE_liftE_all [OF i] by simp
qed

lemma reject_all_cached:
  "iterE (reject_one m name tds) ds w = (Inr (), w') \<Longrightarrow> mw_contracts w = Some cs
    \<Longrightarrow> \<forall>d \<in> set ds. \<forall>td \<in> set tds. reject_new (node_of cs name (dp_contract_id d)) (dp_workloads d) td = Inr ()"
  by (induction ds arbitrary: w) (auto simp: bindE_Inr_iff dest!: reject_one_cached)

text \<open>
  C24: An update leaves the IPv4 addresses where they are: when it got as far as the handler, and a merged
  new deployment has a machine (a full one, not a light one) in common with the old deployment whose contract, among those the module
  keeps under the name, is on the same node, both have an IPv4 workload or neither has.  (Addresses that
  are only IPv6 are not compared.)
\<close>

theorem update_keeps_public_ips:
  assumes "update_deployments m types name olds tds net w = (Inr final, w')" and "mw_contracts w = Some cs"
    and "d \<in> set olds" and "td \<in> set (deployMerge tds)"
    and "node_of cs name (dp_contract_id d) = td_nodeId td" and "td_nodeId td \<noteq> 0"
    and "set (machine_names (dp_workloads (td_deployment td))) \<inter> set (machine_names (dp_workloads d)) \<noteq> {}"
  shows "v4_name (dp_workloads (td_deployment td)) = [] \<longleftrightarrow> v4_name (dp_workloads d) = []"
proof -
  let ?here = "filter (\<lambda>td. td_nodeId td \<in> set (map gc_nodeID (filter (\<lambda>c. contract_name c = name) cs))) (deployMerge tds)"
  from assms(1,2) obtain u where "iterE (reject_one m name ?here) olds w = (Inr (), u)"
    by (auto simp: update_deployments_def Let_def bindE_Inr_iff getDeploymentNodeIds_def module_contracts_cached)
  note reject_all_cached [OF this assms(2)]
  moreover have "td_nodeId td \<in> set (map gc_nodeID (filter (\<lambda>c. contract_name c = name) cs))"
    using assms(5,6) by (rule node_of_known)
  ultimately have r: "reject_new (node_of cs name (dp_contract_id d)) (dp_workloads d) td = Inr ()"
    using assms(3,4) by simp
  have "filter (\<lambda>n. n \<in> set (machine_names (dp_workloads (td_deployment td)))) (machine_names (dp_workloads d)) \<noteq> []"
    using assms(7) by (auto simp: filter_empty_conv)
  with r show ?thesis using assms(5) by (auto simp: reject_new_def Let_def split: if_splits)
qed

text \<open>A public address that is only IPv6 is added to or taken from a machine without being refused.\<close>

lemma ipv6_not_compared:
  "reject_new node ws (td\<lparr>td_deployment := (td_deployment td)\<lparr>dp_workloads :=
       dp_workloads (td_deployment td) @ [PublicIP_create n md desc ver False True]\<rparr>\<rparr>)
    = reject_new node ws td"
  by (simp add: reject_new_def v4_name_def machine_names_def PublicIP_create_def workload_def Let_def)

end
