(* ===== verification/Options.thy ===== *)
theory Options
  imports PublicModules
begin

text \<open>
  \<open>grid_client/src/modules/models.ts\<close>: the decorators of the options as predicates, and the two
  decorators of the methods, \<open>@validateInput\<close> (\<open>helpers/validator.ts\<close>) and \<open>@checkBalance\<close>
  (\<open>modules/utils.ts\<close>): the public methods as a user calls them.  As in \<open>ZosValid\<close>, what the types
  of the records grant is not repeated, and an option that is absent (an empty text, 0) passes
  \<open>@IsOptional\<close>.
\<close>

subsection \<open>Options\<close>

definition NameLength :: nat where "NameLength = 35"

definition IsAlphanumeric :: "string \<Rightarrow> bool" where
  "IsAlphanumeric s \<longleftrightarrow> s \<noteq> [] \<and> list_all (\<lambda>c. is_alpha c \<or> is_digit c) s"

definition valid_plain_name :: "string \<Rightarrow> bool" where
  "valid_plain_name s \<longleftrightarrow> not_empty s \<and> IsAlphanumeric s \<and> length s \<le> NameLength"

definition valid_name :: "string \<Rightarrow> bool" where
  "valid_name s \<longleftrightarrow> not_empty s \<and> IsAlphanumericExpectUnderscore s \<and> length s \<le> NameLength"

text \<open>\<open>BaseGetDeleteModel\<close> and its subclasses.\<close>

definition valid_BaseGetDeleteModel :: "string \<Rightarrow> bool" where
  "valid_BaseGetDeleteModel name = valid_name name"

definition valid_DiskModel :: "DiskModel \<Rightarrow> bool" where
  "valid_DiskModel d \<longleftrightarrow> valid_plain_name (dm_name d) \<and> 1 / 4 \<le> dm_size d \<and> not_empty (dm_mountpoint d)"

definition valid_QSFSDiskModel :: "QSFSDiskModel \<Rightarrow> bool" where
  "valid_QSFSDiskModel d \<longleftrightarrow> valid_plain_name (qd_qsfs_zdbs_name d) \<and> valid_plain_name (qd_name d)
     \<and> not_empty (qd_prefix d) \<and> not_empty (qd_encryption_key d)
     \<and> (case qd_cache d of None \<Rightarrow> True | Some c \<Rightarrow> 1 / 4 \<le> c)
     \<and> (case qd_minimal_shards d of None \<Rightarrow> True | Some k \<Rightarrow> 1 \<le> k)
     \<and> (case qd_expected_shards d of None \<Rightarrow> True | Some k \<Rightarrow> 2 \<le> k) \<and> not_empty (qd_mountpoint d)"

text \<open>A seed is required here, and only its least length is looked at.\<close>

definition valid_MyceliumNetworkModel :: "int \<times> string \<Rightarrow> bool" where
  "valid_MyceliumNetworkModel p \<longleftrightarrow> 32 \<le> length (snd p) \<and> 1 \<le> fst p"

definition valid_NetworkModel :: "NetworkModel \<Rightarrow> bool" where
  "valid_NetworkModel n \<longleftrightarrow> valid_name (nw_name n) \<and> not_empty (nw_ip_range n) \<and> 0 \<le> nw_accessNodeId n
     \<and> list_all valid_MyceliumNetworkModel (nw_myceliumSeeds n)"

definition valid_MachineModel :: "recognisers \<Rightarrow> vm_args \<Rightarrow> bool" where
  "valid_MachineModel rc a \<longleftrightarrow> valid_name (va_name a) \<and> 1 \<le> va_nodeId a \<and> list_all valid_DiskModel (va_disks a)
     \<and> list_all valid_QSFSDiskModel (va_qsfsDisks a) \<and> (va_myceliumSeed a = [] \<or> 6 \<le> length (va_myceliumSeed a))
     \<and> 1 \<le> va_cpu a \<and> 256 \<le> va_memory a \<and> is_url rc (va_flist a) \<and> not_empty (va_flist a)
     \<and> (va_ip a = [] \<or> is_ip_address rc (va_ip a))"

definition valid_MachinesModel :: "recognisers \<Rightarrow> MachinesModel \<Rightarrow> bool" where
  "valid_MachinesModel rc m \<longleftrightarrow> valid_name (mm_name m) \<and> valid_NetworkModel (mm_network m)
     \<and> list_all (valid_MachineModel rc) (mm_machines m)"

definition valid_AddMachineModel :: "recognisers \<Rightarrow> string \<Rightarrow> vm_args \<Rightarrow> bool" where
  "valid_AddMachineModel rc deployment_name a \<longleftrightarrow> valid_MachineModel rc a \<and> valid_name deployment_name"

definition valid_DeleteMachineModel :: "string \<Rightarrow> string \<Rightarrow> bool" where
  "valid_DeleteMachineModel deployment_name name \<longleftrightarrow> valid_name deployment_name \<and> valid_name name"

definition valid_KubernetesNodeModel :: "recognisers \<Rightarrow> vm_args \<times> rat \<Rightarrow> bool" where
  "valid_KubernetesNodeModel rc p \<longleftrightarrow> (case p of (a, disk_size) \<Rightarrow> valid_name (va_name a) \<and> 1 \<le> va_nodeId a \<and> 1 \<le> va_cpu a
     \<and> 1024 \<le> va_memory a \<and> 1 / 4 \<le> disk_size \<and> list_all valid_QSFSDiskModel (va_qsfsDisks a)
     \<and> (va_ip a = [] \<or> is_ip_address rc (va_ip a)))"

definition valid_K8SModel :: "recognisers \<Rightarrow> K8SModel \<Rightarrow> bool" where
  "valid_K8SModel rc k \<longleftrightarrow> valid_name (km_name k) \<and> not_empty (km_secret k) \<and> valid_NetworkModel (km_network k)
     \<and> list_all (valid_KubernetesNodeModel rc) (km_masters k) \<and> list_all (valid_KubernetesNodeModel rc) (km_workers k)
     \<and> not_empty (km_ssh_key k)"

definition valid_AddWorkerModel :: "recognisers \<Rightarrow> string \<Rightarrow> vm_args \<times> rat \<Rightarrow> bool" where
  "valid_AddWorkerModel rc deployment_name p \<longleftrightarrow> valid_KubernetesNodeModel rc p \<and> valid_name deployment_name"

definition valid_DeleteWorkerModel :: "string \<Rightarrow> string \<Rightarrow> bool" where
  "valid_DeleteWorkerModel deployment_name name \<longleftrightarrow> valid_name deployment_name \<and> valid_name name"

definition valid_ZDBModel :: "ZdbModel \<Rightarrow> bool" where
  "valid_ZDBModel z \<longleftrightarrow> valid_plain_name (zd_name z) \<and> 1 \<le> zd_node_id z \<and> 1 / 4 \<le> zd_disk_size z \<and> not_empty (zd_password z)"

definition valid_ZDBSModel :: "ZDBSModel \<Rightarrow> bool" where
  "valid_ZDBSModel z \<longleftrightarrow> valid_plain_name (zs_name z) \<and> list_all valid_ZDBModel (zs_zdbs z)"

definition valid_AddZDBModel :: "string \<Rightarrow> ZdbModel \<Rightarrow> bool" where
  "valid_AddZDBModel deployment_name z \<longleftrightarrow> valid_ZDBModel z \<and> valid_plain_name deployment_name"

definition valid_QSFSZDBSModel :: "QSFSZDBSModel \<Rightarrow> bool" where
  "valid_QSFSZDBSModel q \<longleftrightarrow> valid_plain_name (qs_name q) \<and> 3 \<le> qs_count q \<and> qs_node_ids q \<noteq> []
     \<and> list_all (\<lambda>i. 1 \<le> i) (qs_node_ids q) \<and> 1 / 4 \<le> qs_disk_size q \<and> not_empty (qs_password q)"

text \<open>\<open>GatewayNameModel\<close>; \<open>GatewayFQDNModel\<close> has a domain as well.\<close>

definition valid_GatewayNameModel :: "recognisers \<Rightarrow> GatewayModel \<Rightarrow> bool" where
  "valid_GatewayNameModel rc g \<longleftrightarrow> valid_plain_name (gm_name g) \<and> 1 \<le> gm_node_id g \<and> gm_backends g \<noteq> []
     \<and> list_all (is_http_url rc) (gm_backends g)"

definition valid_GatewayFQDNModel :: "recognisers \<Rightarrow> GatewayModel \<Rightarrow> string \<Rightarrow> bool" where
  "valid_GatewayFQDNModel rc g fqdn \<longleftrightarrow> valid_GatewayNameModel rc g \<and> not_empty fqdn"

definition valid_NetworkAddNodeModel :: "string \<Rightarrow> string \<Rightarrow> int \<Rightarrow> string \<Rightarrow> bool" where
  "valid_NetworkAddNodeModel name ipRange nodeId seed \<longleftrightarrow> valid_name name \<and> not_empty ipRange \<and> 1 \<le> nodeId
     \<and> (seed = [] \<or> 32 \<le> length seed)"

subsection \<open>The decorators of the methods\<close>

definition validateInput :: "bool \<Rightarrow> ('c, 'r) module_eff \<Rightarrow> ('c, 'r) module_eff" where
  "validateInput ok method = (if ok then method else throwE validation_failed)"

definition checkBalance :: "('c \<Rightarrow> js_error + rat) \<Rightarrow> ('c, 'r) module_eff \<Rightarrow> ('c, 'r) module_eff" where
  "checkBalance free method = bindE (m_ask free) (\<lambda>b.
     if b < 1 / 1000 then throwE (ValidationError ''Balance is not enough to apply an extrinsic.'') else method)"

text \<open>What every public method that changes something is wrapped in.\<close>

definition public_method ::
  "('a, 'c) module_env \<Rightarrow> ('c \<Rightarrow> js_error + rat) \<Rightarrow> (recognisers \<Rightarrow> bool) \<Rightarrow> ('c, 'r) module_eff \<Rightarrow> ('c, 'r) module_eff"
where
  "public_method m free valid method = validateInput (valid (h_valid (m_handler m))) (checkBalance free method)"

end
