(* ===== verification/OptionsProps.thy ===== *)
theory OptionsProps
  imports Options MachineProps
begin

text \<open>
  What valid options are worth: whether the document that is built from them passes the validation
  that the handler runs before anything is created.
\<close>









end
