(* ===== verification/ModuleExamples.thy ===== *)
theory ModuleExamples
  imports PublicProps OptionsProps Examples HandlerExamples
begin

text \<open>The properties of machines and of the public modules at concrete inputs.\<close>

subsection \<open>A machine on a node of the network\<close>

definition roomy :: NodeResources where
  "roomy = \<lparr>r_cru = 8, r_sru = 1024 ^ 4, r_hru = 1024 ^ 4, r_mru = 1024 ^ 4, r_ipv4u = 0\<rparr>"

definition empty_resources :: NodeResources where
  "empty_resources = \<lparr>r_cru = 0, r_sru = 0, r_hru = 0, r_mru = 0, r_ipv4u = 0\<rparr>"

definition demo_node_info :: NodeInfo where
  "demo_node_info = \<lparr>ni_version = 1, ni_id = [], ni_nodeId = 1, ni_farmId = 1, ni_farmName = [], ni_twinId = 3,
     ni_gridVersion = 3, ni_uptime = 0, ni_created = 0, ni_farmingPolicyId = 1, ni_inDedicatedFarm = False,
     ni_updatedAt = [], ni_total_resources = roomy, ni_used_resources = empty_resources, ni_country = [],
     ni_city = [], ni_publicConfig = \<lparr>pc_domain = [], pc_gw4 = [], pc_gw6 = [], pc_ipv4 = [], pc_ipv6 = []\<rparr>,
     ni_status = ''up'', ni_certificationType = [], ni_dedicated = False, ni_hasGPU = False, ni_extraFee = 0,
     ni_rentedByTwinId = 0, ni_rentContractId = 0, ni_serialNumber = None, ni_healthy = True, ni_rentable = False,
     ni_rented = False, ni_price_usd = 0, ni_features = [Ft_zmachine, Ft_network, Ft_wireguard]\<rparr>"

definition machine_api :: grid_api where
  "machine_api = demo_api\<lparr>http_nodes := (\<lambda>_. Inr [demo_node_info]), http_node_by_id := (\<lambda>_. Inr demo_node_info),
     rmb_statistics := (\<lambda>_. Inr \<lparr>cap_total = roomy, cap_used = empty_resources\<rparr>)\<rparr>"

definition demo_menv :: "nat machine_env" where
  "demo_menv = net_env.extend (demo_env\<lparr>e_grid := machine_api\<rparr>)
     \<lparr>me_project = [], me_qsfs_zdbs = (\<lambda>_ _. Inl TypeError), me_farm = (\<lambda>_. Inl TypeError),
      me_gpu_list = (\<lambda>_. Inr []), me_md5 = (\<lambda>s. s)\<rparr>"

lemma demo_menv_sel [simp]:
  "e_addr demo_menv = demo_addr" "e_grid demo_menv = machine_api" "e_twin_id demo_menv = 7"
  "e_contracts demo_menv = Inr [demo_contract]" "e_backend_list demo_menv p = Inr []"
  "e_parse_data demo_menv d = Inr \<lparr>dd_type = ''network'', dd_name = d, dd_projectName = []\<rparr>"
  "me_project demo_menv = []"
  by (simp_all add: demo_menv_def net_env.extend_def demo_env_def)

definition demo_args :: "string \<Rightarrow> int \<Rightarrow> vm_args" where
  "demo_args name node = \<lparr>va_name = name, va_nodeId = node, va_flist = ''f'', va_cpu = 1, va_memory = 1024,
     va_rootfs_size = 0, va_disks = [\<lparr>dm_name = ''data'', dm_size = 5, dm_mountpoint = ''/data''\<rparr>],
     va_publicIp = False, va_publicIp6 = False, va_planetary = True, va_mycelium = False, va_myceliumSeed = [],
     va_myceliumNetworkSeeds = [], va_entrypoint = [], va_env = [], va_contractMetadata = ''m'', va_metadata = [],
     va_description = [], va_qsfsDisks = [], va_qsfsProjectName = [], va_addAccess = False, va_accessNodeId = 0,
     va_ip = [], va_corex = False, va_solutionProviderId = None, va_zlogsOutput = None, va_gpus = []\<rparr>"

lemma demo_args_sel [simp]:
  "va_nodeId (demo_args n i) = i" "va_ip (demo_args n i) = []" "va_addAccess (demo_args n i) = False"
  "va_mycelium (demo_args n i) = False" "va_qsfsDisks (demo_args n i) = []" "va_gpus (demo_args n i) = []"
  "va_publicIp (demo_args n i) = False" "va_publicIp6 (demo_args n i) = False" "va_name (demo_args n i) = n"
  by (simp_all add: demo_args_def)

lemma demo_fit_node:
  "getNode machine_api 1 = Inr (Some demo_node_info)" "getNodeTwinId machine_api 1 = Inr 3"
  "check_available demo_menv demo_node_info 1 = Inr ()" "check_resources demo_menv (demo_args n 1) = Inr ()"
  by (simp_all add: getNode_def getNodeTwinId_def prefixing_def machine_api_def demo_api_def check_available_def
      nodeAvailableForTwinId_def demo_node_info_def check_resources_def nodeHasResources_def getNodeFreeResources_def
      enough_resources_def short_of_def free_resources_def roomy_def empty_resources_def empty_filter_def
      total_disks_def root_size_def calculateRootFileSystem_def demo_args_def g2b_def Let_def)

lemma demo_prepared:
  "prepare_machine demo_menv (demo_args n 1)
     = Inr ([Ft_zmachine, Ft_network, Ft_wireguard], disk_workloads (demo_args n 1), disk_mounts (demo_args n 1), [], 0)"
  using demo_fit_node
  by (simp add: prepare_machine_def known_node_def public_ip_def check_gpus_def Let_def demo_node_info_def)


lemma demo_net_known:
  "exists demo_menv demo_net = (Inr True, demo_net\<lparr>n_contracts :=
   Some [demo_contract\<lparr>gc_parsed := Some \<lparr>dd_type = ''network'', dd_name = ''other'', dd_projectName = []\<rparr>\<rparr>]\<rparr>)"
  by (simp add: exists_def getNetworkNames_def listNewNetworks_def getMyNetworkContracts_def bindE_def
      Let_def demo_contract_def getContractsName_def contract_name_def js_dedup_def)

lemma demo_menv_free_ip:
  "getFreeIP demo_menv 1 [] (demo_net\<lparr>n_contracts := c\<rparr>) = (Inr ''8'',
     demo_net\<lparr>n_contracts := c, n_nodes := [\<lparr>nn_node_id = 1, nn_contract_id = Some 12, nn_reserved_ips = [''7'', ''8'']\<rparr>]\<rparr>)"
proof -
  have "seek (na_increment demo_addr) (\<lambda>i. show_nat i = ''7'') 7 = Some (Inr 8)"
    by (subst seek.simps, simp add: demo_show, subst seek.simps, simp add: demo_show)
  then have "run_seek (na_increment demo_addr) (\<lambda>i. show_nat i = ''7'') 7 = Inr 8"
    by (simp add: run_seek_def)
  then have "free_ip_of demo_menv 1 [] (demo_net\<lparr>n_contracts := c\<rparr>) = Inr 8"
    by (simp add: free_ip_of_def nodeExists_def getNodeSubnet_def node_net_def getNodeReservedIps_def
        Addr_opt_def Addr_def third_host_def non_null_def plain_ip_def demo_read)
  then show ?thesis
    by (simp add: getFreeIP_def plain_ip_def demo_show before_char_def)
qed

lemma demo_machine_deployed:
  "\<exists>tds config t. VM_deploy demo_menv (demo_args n 1) (FullNet demo_net) = (Inr (tds, config), t)"
proof -
  have "nodeExists 1 demo_net" by (simp add: nodeExists_def)
  then show ?thesis
    by (simp add: VM_deploy_def demo_prepared bindE_app Let_def claim_subnets_def access_step_def mycelium_step_def
        network_step_def machine_ip_step_def machine_seed_def any_addNode_def any_checkMycelium_def
        on_network_def on_full_def addNode_def checkMycelium_def known_network_def demo_net_known any_getFreeIP_def
        demo_menv_free_ip is_full_def)
qed

subsection \<open>Addresses of a farm\<close>

text \<open>Two new deployments ask for an address each; the farm has two free ones and one that is taken.\<close>

definition busy_farm :: FarmInfo where
  "busy_farm = \<lparr>fi_name = [], fi_farmId = 1, fi_twinId = 1, fi_pricingPolicyId = 1, fi_certificationType = [],
     fi_stellarAddress = [], fi_dedicated = False, fi_publicIps = map (\<lambda>c. \<lparr>pi_id = [], pi_ip = [], pi_contract_id = c, pi_gateway = []\<rparr>) [0, 9, 0]\<rparr>"

definition busy_handler :: "(nat, nat) handler_env" where
  "busy_handler = demo_handler\<lparr>h_grid := \<lambda>_. machine_api, h_farm := \<lambda>_ _. Inr busy_farm\<rparr>"

definition wants_address :: "int \<Rightarrow> TwinDeployment" where
  "wants_address node = (demo_td Op_deploy None [])\<lparr>td_publicIps := 1, td_nodeId := node\<rparr>"

theorem farm_ips_suffice_witness:
  "checkFarmIps busy_handler [wants_address 1, wants_address 1] demo_world = (Inr (), demo_world)
    \<and> demand busy_handler demo_world [wants_address 1, wants_address 1] 1 = 2
    \<and> demand busy_handler demo_world [wants_address 1, wants_address 1] 1 \<le> free_ips busy_farm"
proof -
  have n: "getNode machine_api 1 = Inr (Some demo_node_info)" by (rule demo_fit_node(1))
  have f: "ni_farmId demo_node_info = 1" by (simp add: demo_node_info_def)
  have g: "h_grid busy_handler c = machine_api" "h_farm busy_handler i c = Inr busy_farm" for c i
    by (simp_all add: busy_handler_def)
  have w: "td_publicIps (wants_address 1) = 1" "td_nodeId (wants_address 1) = 1" "td_operation (wants_address 1) = Op_deploy"
    by (simp_all add: wants_address_def)
  have two: "free_ips busy_farm = 2" by (simp add: busy_farm_def free_ips_def)
  have c: "checkFarmIps busy_handler [wants_address 1, wants_address 1] demo_world = (Inr (), demo_world)"
    by (simp add: checkFarmIps_def bindE_def farm_ip_demand_def ask_def g w n f check_farm_def two)
  moreover have "demand busy_handler demo_world [wants_address 1, wants_address 1] 1 = 2"
    by (simp add: demand_def node_farm_def g w n f)
  moreover have "h_farm busy_handler 1 (cl_chain (hw_client demo_world)) = Inr busy_farm" by (rule g)
  ultimately show ?thesis using farm_ips_suffice [OF c, of 1 busy_farm] by simp
qed

theorem machine_on_fit_node_witness: "\<exists>node. getNode machine_api 1 = Inr (Some node)"
proof -
  obtain tds config t where r: "VM_deploy demo_menv (demo_args ''a'' 1) (FullNet demo_net) = (Inr (tds, config), t)"
    using demo_machine_deployed by blast
  from machine_on_fit_node [OF r] show ?thesis by auto
qed

theorem machine_deployment_complete_witness:
  "\<exists>tds config t td. VM_deploy demo_menv (demo_args ''a'' 1) (FullNet demo_net) = (Inr (tds, config), t)
     \<and> td \<in> set tds \<and> td_nodeId td = 1"
proof -
  obtain tds config t where r: "VM_deploy demo_menv (demo_args ''a'' 1) (FullNet demo_net) = (Inr (tds, config), t)"
    using demo_machine_deployed by blast
  from machine_deployment_complete [OF r] obtain others td where "tds = others @ [td]" "td_nodeId td = 1"
    by auto
  with r show ?thesis by auto
qed

theorem machine_address_reserved_witness:
  "\<exists>tds config n' ip. VM_deploy demo_menv (demo_args ''a'' 1) (FullNet demo_net) = (Inr (tds, config), FullNet n')
     \<and> getNodeReservedIps 1 demo_net = [''7''] \<and> getNodeReservedIps 1 n' = [''7'', ip] \<and> ip \<noteq> ''7''"
proof -
  obtain tds config t where r: "VM_deploy demo_menv (demo_args ''a'' 1) (FullNet demo_net) = (Inr (tds, config), t)"
    using demo_machine_deployed by blast
  have a: "va_ip (demo_args ''a'' 1) = []" "va_nodeId (demo_args ''a'' 1) = 1" by (simp_all add: demo_args_def)
  have n: "getNodeReservedIps 1 demo_net = [''7'']" by (simp add: getNodeReservedIps_def)
  from machine_address_reserved [OF r] show ?thesis using r by (auto simp: a n)
qed

theorem machine_seed_unique_witness:
  "mycelium_seed_of (dotted 10 1 2 3) \<noteq> mycelium_seed_of (dotted 10 1 2 4)"
  using machine_seed_unique [of 2 3 2 4 10 1 10 1] by auto

subsection \<open>A module\<close>

definition demo_module :: "(js_error + Deployment) \<Rightarrow> (nat, nat) module_env" where
  "demo_module answer = \<lparr>m_handler = demo_handler\<lparr>h_get_deployment := (\<lambda>_ _ c. (answer, c))\<rparr>,
     m_machine = (\<lambda>_. demo_menv), m_moduleName = ''zdb'', m_projectName = ''p'', m_workloadTypes = [WT_zmount],
     m_my_contracts = (\<lambda>_ _ _. Inr [demo_contract]),
     m_parse = (\<lambda>d. Inr \<lparr>dd_type = ''zdb'', dd_name = d, dd_projectName = ''p''\<rparr>), m_storePath = ''s'',
     m_tfkvstore = False, m_load = (\<lambda>_ _. Inr None), m_dump = (\<lambda>_ _ c. (Inr [], c)), m_list = (\<lambda>_ _. Inr []),
     m_move = (\<lambda>_ _ _. Inr []), m_remove = (\<lambda>_ c. (Inr (), c)), m_features = (\<lambda>_ _. Inr [''zmachine-light''])\<rparr>"

definition demo_recent :: GqlNodeContract where
  "demo_recent = demo_contract\<lparr>gc_contractID := ''13'', gc_deploymentData := ''mine'',
     gc_parsed := Some \<lparr>dd_type = ''zdb'', dd_name = ''mine'', dd_projectName = ''p''\<rparr>\<rparr>"

definition demo_modules_world :: "GqlNodeContract list option \<Rightarrow> nat module_world" where
  "demo_modules_world cs = \<lparr>mw_hw = demo_world, mw_contracts = cs, mw_newContracts = [(demo_recent, 0)],
     mw_deletedContracts = [99]\<rparr>"

lemma demo_module_sel [simp]:
  "m_projectName (demo_module a) = ''p''" "m_moduleName (demo_module a) = ''zdb''" "m_tfkvstore (demo_module a) = False"
  "m_my_contracts (demo_module a) x y c = Inr [demo_contract]" "m_list (demo_module a) x c = Inr []"
  "m_parse (demo_module a) d = Inr \<lparr>dd_type = ''zdb'', dd_name = d, dd_projectName = ''p''\<rparr>"
  "m_workloadTypes (demo_module a) = [WT_zmount]" "m_machine (demo_module a) c = demo_menv"
  "m_features (demo_module a) t c = Inr [''zmachine-light'']" "m_grid (demo_module a) c = demo_api"
  "h_get_deployment (m_handler (demo_module a)) t i c = (a, c)"
  "h_now (m_handler (demo_module a)) c = int c"
  by (simp_all add: demo_module_def m_grid_def)

lemma demo_modules_world_sel [simp]:
  "mw_hw (demo_modules_world cs) = demo_world" "mw_contracts (demo_modules_world cs) = cs"
  "mw_newContracts (demo_modules_world cs) = [(demo_recent, 0)]" "mw_deletedContracts (demo_modules_world cs) = [99]"
  "(demo_modules_world cs)\<lparr>mw_contracts := ds\<rparr> = demo_modules_world ds"
  "(demo_modules_world cs)\<lparr>mw_newContracts := [(demo_recent, 0)]\<rparr> = demo_modules_world cs"
  "(demo_modules_world cs)\<lparr>mw_hw := demo_world\<rparr> = demo_modules_world cs"
  by (simp_all add: demo_modules_world_def)

lemma demo_ids: "js_number ''12'' = 12" "js_number ''13'' = 13"
  by (simp_all add: js_number_def read_nat_def char_digit_def)

definition demo_other :: GqlNodeContract where
  "demo_other = demo_contract\<lparr>gc_parsed := Some \<lparr>dd_type = ''zdb'', dd_name = ''other'', dd_projectName = ''p''\<rparr>\<rparr>"

lemma demo_my_contracts:
  "getMyContracts (demo_module a) True (demo_modules_world None)
     = (Inr [demo_other, demo_recent], demo_modules_world (Some [demo_other, demo_recent]))"
proof -
  have "includes_text ''p'' ''p''" by simp
  then have "merge_recent ''p'' ''zdb'' 0 (demo_recent, 0) ([demo_contract], []) = ([demo_contract, demo_recent], [])"
    by (simp add: merge_recent_def demo_recent_def demo_contract_def)
  then show ?thesis
    by (simp add: getMyContracts_def bindE_app Let_def demo_ids)
      (simp add: demo_recent_def demo_contract_def demo_other_def demo_ids)
qed

theorem my_contracts_exact_witness:
  "set (map gc_contractID [demo_other, demo_recent]) = gc_contractID ` set [demo_contract] \<union> {gc_contractID demo_recent}
    \<and> distinct (map gc_contractID [demo_other, demo_recent])"
proof -
  have "of_module ''p'' ''zdb'' demo_recent" by (simp add: of_module_def demo_recent_def)
  then show ?thesis using my_contracts_exact [OF demo_my_contracts [where a = "Inl TypeError"], where listed = "[demo_contract]"]
    by (auto simp: demo_ids demo_other_def demo_recent_def demo_contract_def)
qed

lemma demo_names [simp]: "contract_name demo_other = ''other''" "contract_name demo_recent = ''mine''"
  "gc_contractID demo_other = ''12''" "gc_nodeID demo_other = 4"
  by (simp_all add: contract_name_def demo_other_def demo_recent_def demo_contract_def)

lemma demo_module_exists:
  "exists_name (demo_module a) ''other'' (demo_modules_world None) = (Inr True, demo_modules_world (Some [demo_other, demo_recent]))"
  by (simp add: exists_name_def list_names_def migrateListKeys_def bindE_app demo_my_contracts getContractsName_def)

lemma demo_cached:
  "module_contracts m ''other'' (demo_modules_world (Some [demo_other, demo_recent]))
     = (Inr [demo_other], demo_modules_world (Some [demo_other, demo_recent]))"
  by (simp add: module_contracts_cached)

theorem deployments_read_back_live_witness:
  "\<exists>w. get_deployments (demo_module (Inr (demo_with [ok_disk]))) ''other'' (demo_modules_world None) = (Inr [demo_with [ok_disk]], w)
     \<and> workload_deleted ok_disk = Inr False"
proof -
  have "wl_type ok_disk = WT_zmount" "workload_deleted ok_disk = Inr False"
    by (simp_all add: ok_disk_def workload_deleted_def)
  then have r: "get_deployments (demo_module (Inr (demo_with [ok_disk]))) ''other'' (demo_modules_world None)
      = (Inr [demo_with [ok_disk]], demo_modules_world (Some [demo_other, demo_recent]))"
    by (simp add: get_deployments_def bindE_app demo_module_exists demo_cached get_one_def Let_def demo_contract_api demo_twin
        catchE_def m_act_def on_handler_def act_def)
  from deployments_read_back_live [OF r] r show ?thesis by simp
qed

theorem node_error_is_type_error_witness:
  "fst (get_deployments (demo_module (Inl (ValidationError ''node is down''))) ''other'' (demo_modules_world None)) = Inl TypeError"
  by (rule node_error_is_type_error [OF demo_module_exists demo_cached]) (simp_all add: demo_contract_api demo_twin)

subsection \<open>Machines of a module\<close>

definition demo_range :: NetworkModel where
  "demo_range = \<lparr>nw_name = ''mine'', nw_ip_range = ''1'', nw_addAccess = False, nw_accessNodeId = 0, nw_myceliumSeeds = []\<rparr>"

lemma demo_range_sel [simp]: "nw_name demo_range = ''mine''" "nw_ip_range demo_range = ''1''"
  by (simp_all add: demo_range_def)

definition demo_machines :: MachinesModel where
  "demo_machines = \<lparr>mm_name = ''vms'', mm_network = demo_range, mm_machines = [demo_args ''a'' 1, demo_args ''b'' 1],
     mm_metadata = [], mm_description = []\<rparr>"

text \<open>The light network before and after its node, with the addresses reserved there.\<close>

definition demo_lit :: "GqlNodeContract list option \<Rightarrow> NodeLight option \<Rightarrow> LightNode option \<Rightarrow> any_network" where
  "demo_lit cs n node = LightNet \<lparr>l_name = ''mine'', l_ipRange = ''1'', l_node = node, l_NodeIds = None, l_deployments = [],
     l_network = n, l_contracts = cs, l_reservedSubnets = [], l_newContracts = [], l_deletedContracts = [], l_tick = 0\<rparr>"

definition demo_net_contract :: GqlNodeContract where
  "demo_net_contract = demo_contract\<lparr>gc_parsed := Some \<lparr>dd_type = ''network'', dd_name = ''other'', dd_projectName = []\<rparr>\<rparr>"

lemma demo_opened:
  "open_module_network (demo_module a) True ''mine'' ''1'' w = (Inr (demo_lit (Some [demo_net_contract]) None None), w)"
proof -
  have "e_private_ip demo_menv ''1'' = Some True" by (simp add: demo_menv_def net_env.extend_def demo_env_def)
  then have n: "new_ZNetworkLight demo_menv ''mine'' ''1'' = Inr \<lparr>l_name = ''mine'', l_ipRange = ''1'', l_node = None, l_NodeIds = None,
      l_deployments = [], l_network = None, l_contracts = None, l_reservedSubnets = [], l_newContracts = [],
      l_deletedContracts = [], l_tick = 0\<rparr>"
    by (simp add: new_ZNetworkLight_def Addr_def isPrivateIP_def demo_addr_def Let_def before_char_def)
  have "contract_name demo_net_contract = ''other''" by (simp add: contract_name_def demo_net_contract_def)
  then have "light_load demo_menv \<lparr>l_name = ''mine'', l_ipRange = ''1'', l_node = None, l_NodeIds = None,
      l_deployments = [], l_network = None, l_contracts = None, l_reservedSubnets = [], l_newContracts = [],
      l_deletedContracts = [], l_tick = 0\<rparr> = (Inr (), \<lparr>l_name = ''mine'', l_ipRange = ''1'', l_node = None, l_NodeIds = None,
      l_deployments = [], l_network = None, l_contracts = Some [demo_net_contract], l_reservedSubnets = [], l_newContracts = [],
      l_deletedContracts = [], l_tick = 0\<rparr>)"
    by (simp add: light_load_def light_exists_def light_listAllNetworks_def light_getMyNetworkContracts_def bindE_app
        getContractsName_def) (simp add: demo_net_contract_def demo_contract_def)
  then show ?thesis
    by (simp add: open_module_network_def new_network_def bindE_app current_env_def n run_network_def on_network_def
        keep_statics_def demo_lit_def)
qed

definition demo_lit_node :: any_network where
  "demo_lit_node = demo_lit (Some [demo_net_contract]) (Some \<lparr>nl_subnet = ''3'', nl_mycelium = None, nli_ip_range = ''1'', nli_node_id = 1\<rparr>)
     (Some \<lparr>ln_node_id = Some 1, ln_contract_id = None, ln_reserved_ips = [''5'']\<rparr>)"

definition demo_call :: "string \<Rightarrow> string \<Rightarrow> vm_args" where
  "demo_call meta n = machine_call (demo_module (Inl TypeError)) demo_range meta [] [] (demo_args n 1)"

lemma demo_call_sel [simp]:
  "va_nodeId (demo_call meta n) = 1" "va_ip (demo_call meta n) = []" "va_addAccess (demo_call meta n) = False"
  "va_mycelium (demo_call meta n) = False" "va_qsfsDisks (demo_call meta n) = []" "va_gpus (demo_call meta n) = []"
  "va_publicIp (demo_call meta n) = False" "va_publicIp6 (demo_call meta n) = False" "va_name (demo_call meta n) = n"
  by (simp_all add: demo_call_def machine_call_def demo_range_def)

lemma demo_call_prepared:
  "prepare_machine demo_menv (demo_call meta n)
     = Inr ([Ft_zmachine, Ft_network, Ft_wireguard], disk_workloads (demo_call meta n), disk_mounts (demo_call meta n), [], 0)"
proof -
  have "check_resources demo_menv (demo_call meta n) = Inr ()"
    by (simp add: getNodeTwinId_def prefixing_def machine_api_def demo_api_def check_resources_def nodeHasResources_def
        getNodeFreeResources_def enough_resources_def short_of_def free_resources_def roomy_def empty_resources_def
        empty_filter_def total_disks_def root_size_def calculateRootFileSystem_def demo_args_def demo_call_def
        machine_call_def g2b_def Let_def)
  then show ?thesis using demo_fit_node
    by (simp add: prepare_machine_def known_node_def public_ip_def check_gpus_def Let_def demo_node_info_def)
qed

lemma demo_light_added:
  "light_addNode demo_menv 1 False d [] seeds \<lparr>l_name = ''mine'', l_ipRange = ''1'', l_node = node, l_NodeIds = None, l_deployments = [],
     l_network = net, l_contracts = cs, l_reservedSubnets = [], l_newContracts = [], l_deletedContracts = [], l_tick = 0\<rparr>
   = (Inr (Some (workload 0 ''mine'' WT_networklight (light_data \<lparr>nl_subnet = ''3'', nl_mycelium = None, nli_ip_range = ''1'', nli_node_id = 1\<rparr>) [] d)),
      \<lparr>l_name = ''mine'', l_ipRange = ''1'', l_node = Some \<lparr>ln_node_id = Some 1, ln_contract_id = None, ln_reserved_ips = []\<rparr>,
       l_NodeIds = None, l_deployments = [], l_network = Some \<lparr>nl_subnet = ''3'', nl_mycelium = None, nli_ip_range = ''1'', nli_node_id = 1\<rparr>,
       l_contracts = cs, l_reservedSubnets = [], l_newContracts = [], l_deletedContracts = [], l_tick = 0\<rparr>)"
proof -
  have "show_nat (Suc (Suc (Suc 0))) = ''3''" by (simp add: demo_show flip: numeral_3_eq_3)
  then show ?thesis
    by (simp add: light_addNode_def bindE_app light_nodeExists_def light_getFreeSubnet_def Addr_def demo_read non_null_def
        light_mycelium_def light_updateNetworkDeployments_def)
qed

lemma demo_light_ip:
  "light_getFreeIP demo_menv 1 [] \<lparr>l_name = ''mine'', l_ipRange = ''1'', l_node = Some \<lparr>ln_node_id = Some 1, ln_contract_id = None, ln_reserved_ips = []\<rparr>,
       l_NodeIds = None, l_deployments = [], l_network = Some \<lparr>nl_subnet = ''3'', nl_mycelium = None, nli_ip_range = ''1'', nli_node_id = 1\<rparr>,
       l_contracts = cs, l_reservedSubnets = [], l_newContracts = [], l_deletedContracts = [], l_tick = 0\<rparr>
   = (Inr ''5'', \<lparr>l_name = ''mine'', l_ipRange = ''1'', l_node = Some \<lparr>ln_node_id = Some 1, ln_contract_id = None, ln_reserved_ips = [''5'']\<rparr>,
       l_NodeIds = None, l_deployments = [], l_network = Some \<lparr>nl_subnet = ''3'', nl_mycelium = None, nli_ip_range = ''1'', nli_node_id = 1\<rparr>,
       l_contracts = cs, l_reservedSubnets = [], l_newContracts = [], l_deletedContracts = [], l_tick = 0\<rparr>)"
proof -
  have "read_nat ''3'' = 3" by (simp add: read_nat_def char_digit_def)
  then show ?thesis
    by (simp add: light_getFreeIP_def light_free_ip_of_def light_getNodeSubnet_def light_subnet_of_def
      Addr_opt_def Addr_def third_host_def non_null_def light_push_ip_def plain_ip_def demo_show before_char_def)
qed

lemma demo_light_machine:
  "\<exists>tds config. VM_deploy demo_menv (demo_call meta n) (demo_lit cs net node) = (Inr (tds, config), demo_lit cs
     (Some \<lparr>nl_subnet = ''3'', nl_mycelium = None, nli_ip_range = ''1'', nli_node_id = 1\<rparr>)
     (Some \<lparr>ln_node_id = Some 1, ln_contract_id = None, ln_reserved_ips = [''5'']\<rparr>))"
  by (simp add: VM_deploy_def demo_call_prepared bindE_app Let_def claim_subnets_def access_step_def mycelium_step_def
      network_step_def machine_ip_step_def machine_seed_def any_addNode_def any_checkMycelium_def demo_lit_def
      on_network_def on_full_def demo_light_added light_checkMycelium_def known_network_def any_getFreeIP_def
      demo_light_ip is_full_def light_nodeExists_def)

theorem machines_all_created_witness:
  "\<exists>tds config net w. machines_createDeployment (demo_module (Inl TypeError)) demo_machines (demo_modules_world None)
       = (Inr (tds, config, net), w) \<and> (\<exists>td \<in> set tds. td_nodeId td = 1)"
proof -
  let ?m = "demo_module (Inl TypeError)" and ?cs = "Some [demo_net_contract]" and ?w = "demo_modules_world None"
  let ?n = "demo_lit ?cs (Some \<lparr>nl_subnet = ''3'', nl_mycelium = None, nli_ip_range = ''1'', nli_node_id = 1\<rparr>)
              (Some \<lparr>ln_node_id = Some 1, ln_contract_id = None, ln_reserved_ips = [''5'']\<rparr>)"
  let ?meta = "vm_metadata ?m True ''vms'' ''vms''"
  have step: "\<exists>tds config. run_network (\<lambda>e. VM_deploy e (demo_call ?meta n)) ?m (demo_lit ?cs net node) ?w = (Inr ((tds, config), ?n), ?w)"
    for n net node
    using demo_light_machine [of ?meta n ?cs net node] by (auto simp: run_network_def current_env_def keep_statics_def demo_lit_def)
  obtain xs c1 where a: "run_network (\<lambda>e. VM_deploy e (demo_call ?meta ''a'')) ?m (demo_lit ?cs None None) ?w = (Inr ((xs, c1), ?n), ?w)"
    using step by blast
  obtain ys c2 where b: "run_network (\<lambda>e. VM_deploy e (demo_call ?meta ''b'')) ?m ?n ?w = (Inr ((ys, c2), ?n), ?w)"
    using step by blast
  have l: "light_for ?m 1 ?w = (Inr True, ?w)"
    by (simp add: light_for_def bindE_app is_light_node_def demo_twin)
  have "\<exists>config. machines_createDeployment ?m demo_machines ?w = (Inr (share_network (Some ?n) (xs @ ys), config, Some ?n), ?w)"
    unfolding machines_createDeployment_def demo_machines_def
    by (simp add: bindE_app Let_def l demo_opened demo_call_def [symmetric] a b)
  then obtain config where r: "machines_createDeployment ?m demo_machines ?w
      = (Inr (share_network (Some ?n) (xs @ ys), config, Some ?n), ?w)" by blast
  from machines_all_created [OF r] obtain td where "td \<in> set (share_network (Some ?n) (xs @ ys))" "td_nodeId td = 1"
    by (auto simp: demo_machines_def)
  with r show ?thesis by blast
qed

subsection \<open>Zdbs of a module\<close>

definition demo_qsfs :: QSFSZDBSModel where
  "demo_qsfs = \<lparr>qs_name = ''q'', qs_count = 3, qs_node_ids = [1, 2], qs_disk_size = 1, qs_password = ''secret'',
     qs_metadata = [], qs_description = [], qs_solutionProviderId = None\<rparr>"

theorem qsfs_zdbs_laid_out_witness:
  "\<exists>tds w. qsfs_createDeployment (demo_module (Inl TypeError)) demo_qsfs (demo_modules_world None) = (Inr tds, w)
     \<and> length tds = 7 \<and> td_nodeId (tds ! 2) = 1"
proof -
  have "nodeHasResources machine_api i (empty_filter\<lparr>fo_hru := Some 1\<rparr>) = Inr True" for i
    by (simp add: getNodeTwinId_def prefixing_def machine_api_def demo_api_def nodeHasResources_def getNodeFreeResources_def
        enough_resources_def short_of_def free_resources_def roomy_def empty_resources_def empty_filter_def g2b_def)
  then have z: "\<exists>td. create_zdb (demo_module (Inl TypeError)) (qsfs_zdb demo_qsfs i) x y d w = (Inr td, w)" for i x y d w
    by (simp add: create_zdb_def ZdbHL_create_def current_env_def qsfs_zdb_def demo_qsfs_def)
  have "\<exists>tds. mapE (\<lambda>i. create_zdb (demo_module (Inl TypeError)) (qsfs_zdb demo_qsfs i) x y d) is w = (Inr tds, w)" for x y d w "is"
  proof (induction "is")
    case (Cons i "is")
    then show ?case using z [of i x y d w] by (auto simp: bindE_app)
  qed simp
  then obtain tds where r: "qsfs_createDeployment (demo_module (Inl TypeError)) demo_qsfs (demo_modules_world None)
      = (Inr tds, demo_modules_world None)"
    by (simp add: qsfs_createDeployment_def demo_qsfs_def) blast
  have "[1, 2 :: int] ! (2 mod length [1, 2 :: int]) = 1" by code_simp
  then have "qs_node_ids demo_qsfs ! (2 mod length (qs_node_ids demo_qsfs)) = 1" by (simp add: demo_qsfs_def)
  moreover have "qs_count demo_qsfs = 3" by (simp add: demo_qsfs_def)
  ultimately show ?thesis using qsfs_zdbs_laid_out [OF r] r by auto
qed

subsection \<open>An update of a machine\<close>

definition demo_old :: Deployment where
  "demo_old = (demo_with [demo_vm ''3'' 1])\<lparr>dp_contract_id := Some 12\<rparr>"

definition demo_here :: GqlNodeContract where
  "demo_here = demo_other\<lparr>gc_nodeID := 11\<rparr>"

lemma demo_here_sel [simp]: "contract_name demo_here = ''other''" "gc_contractID demo_here = ''12''" "gc_nodeID demo_here = 11"
  by (simp_all add: demo_here_def contract_name_def demo_other_def demo_contract_def)

lemma demo_old_sel [simp]: "dp_workloads demo_old = [demo_vm ''3'' 1]" "dp_contract_id demo_old = Some 12" "dp_version demo_old = 0"
  by (simp_all add: demo_old_def)

lemma demo_old_read: "fromObj (h_valid (m_handler (demo_module a))) demo_old = Inr demo_old"
proof -
  have "valid_Deployment (h_valid demo_handler) demo_old"
    by (simp add: demo_old_def valid_Deployment_def demo_with_def create_deployment_def valid_SignatureRequirement_def
        valid_SignatureRequest_def demo_vm_def valid_Workload_def workload_def demo_machine_def
        valid_Zmachine_def not_empty_def valid_ZmachineNetwork_def valid_interface_def valid_MyceliumIP_def
        valid_ComputeCapacity_def demo_handler_def demo_env_def TB_def MB_def GB_def)
  moreover have "exposed_deployment demo_old = demo_old"
    by (simp add: exposed_deployment_def exposed_workload_def demo_old_def demo_vm_def demo_with_def
        create_deployment_def workload_def)
  ultimately show ?thesis by (simp add: fromObj_def Let_def demo_module_def validateObject_def)
qed

lemma demo_no_v4: "\<not> is_v4 (demo_vm ip n)"
  by (simp add: is_v4.simps)

theorem update_keeps_public_ips_witness:
  "\<exists>w. update_deployments (demo_module (Inl TypeError)) vm_types ''other'' [demo_old] [demo_td Op_deploy None [demo_vm ''3'' 1]] None
         (demo_modules_world (Some [demo_here])) = (Inr [], w)
     \<and> v4_name [demo_vm ''3'' 1] = []"
proof -
  let ?m = "demo_module (Inl TypeError)" and ?w = "demo_modules_world (Some [demo_here])" and ?td = "demo_td Op_deploy None [demo_vm ''3'' 1]"
  have m: "deployMerge [?td] = [?td]" by (simp add: deployMerge_def stands_alone_def merge_into_def obj_values_def obj_keys_def)
  have n: "node_of [demo_here] ''other'' (Some 12) = 11" by (simp add: node_of_def demo_ids)
  have v: "v4_name [demo_vm ''3'' 1] = []" "has_v4 [demo_vm ''3'' 1] = False" by (simp_all add: v4_name_def has_v4_def demo_no_v4)
  have u: "UpdateDeployment demo_api any_deleteReservedIp demo_old (td_deployment ?td) None = Inr (None, None)"
    by (simp add: UpdateDeployment_def keep_machine_ip_def demo_node Let_def)
  have r: "update_deployments ?m vm_types ''other'' [demo_old] [?td] None ?w = (Inr [], ?w)"
    by (simp add: update_deployments_def Let_def bindE_app m getDeploymentNodeIds_def module_contracts_cached reject_one_def v
        demo_old_read nodeOfContract_cached n reject_new_def updateWithPubIP_def updateWithoutPubIP_def update_plain_old_def
        update_from_def u opt_list_def)
  from update_keeps_public_ips [OF r, of "[demo_here]" demo_old ?td] r v show ?thesis
    by (simp add: m n machine_names_def)
qed

theorem shards_within_zdbs_witness:
  "minimal_shards 6 \<lparr>qd_qsfs_zdbs_name = ''z'', qd_name = ''d'', qd_prefix = [], qd_encryption_key = [], qd_cache = None,
     qd_minimal_shards = None, qd_expected_shards = None, qd_mountpoint = []\<rparr> = Inr 4 \<and> (4 :: int) \<le> 6"
  (is "minimal_shards 6 ?d = _ \<and> _")
proof -
  have m: "minimal_shards 6 ?d = Inr 4" "expected_shards 6 ?d = Inr 6"
    by (simp_all add: minimal_shards_def expected_shards_def nonzero_def ceiling_unique)
  from shards_within_zdbs [OF _ m] m show ?thesis by simp
qed
end
