(* ===== verification/Calculator.thy ===== *)
theory Calculator
  imports Errors
begin

text \<open>
  \<open>grid_client/src/modules/calculator.ts\<close> and \<open>currency.ts\<close>: cloud units, monthly prices with the
  discount packages, and the conversion of amounts.  Numbers are rationals: the roundings of double
  arithmetic are not modelled, those of \<open>toFixed\<close> are.  The pricing policy, the price of the token
  and the balance are answers of the chain.
\<close>

subsection \<open>Units\<close>

definition calCU :: "int \<Rightarrow> rat \<Rightarrow> rat" where
  "calCU cru mru =
     (let mru_used_1 = mru / 4; cru_used_1 = of_int cru / 2;
          cu1 = (if mru_used_1 > cru_used_1 then mru_used_1 else cru_used_1);
          mru_used_2 = mru / 8; cru_used_2 = of_int cru;
          cu2 = (if mru_used_2 > cru_used_2 then mru_used_2 else cru_used_2);
          mru_used_3 = mru / 2; cru_used_3 = of_int cru / 4;
          cu3 = (if mru_used_3 > cru_used_3 then mru_used_3 else cru_used_3);
          cu = (if cu1 > cu2 then cu2 else cu1)
      in if cu > cu3 then cu3 else cu)"

definition calSU :: "rat \<Rightarrow> rat \<Rightarrow> rat" where
  "calSU hru sru = hru / 1200 + sru / 200"

definition calNU :: "rat \<Rightarrow> rat" where
  "calNU nu = nu * 1000 / 10000000"

subsection \<open>Prices\<close>

record PricingPolicy =
  pp_cu :: int
  pp_su :: int
  pp_nu :: int
  pp_ipu :: int
  pp_uniqueName :: int
  pp_discount :: int

record CalculatorModel =
  cm_cru :: int
  cm_mru :: rat
  cm_sru :: rat
  cm_hru :: rat
  cm_ipv4u :: bool
  cm_certified :: bool
  cm_balance :: "rat option"
  cm_nu :: "rat option"

text \<open>The client answers in thousandths unless it is the grid's own client, which also knows the balance.\<close>

record price_env =
  pe_prices :: "js_error + PricingPolicy"
  pe_tft :: "js_error + rat"
  pe_tfclient :: bool
  pe_my_balance :: "js_error + rat"

definition namePricing :: "price_env \<Rightarrow> js_error + rat" where
  "namePricing e = bindR (pe_prices e) (\<lambda>p. Inr (of_int (pp_uniqueName p) / 10 ^ 7 * 24 * 30))"

definition tftPrice :: "price_env \<Rightarrow> js_error + rat" where
  "tftPrice e = bindR (pe_tft e) (\<lambda>p. Inr (if pe_tfclient e then p else p / 1000))"

definition musd_month :: "PricingPolicy \<Rightarrow> CalculatorModel \<Rightarrow> rat" where
  "musd_month price opts =
     (let cu = calCU (cm_cru opts) (cm_mru opts); su = calSU (cm_hru opts) (cm_sru opts);
          nu = calNU (case cm_nu opts of None \<Rightarrow> 0 | Some n \<Rightarrow> n);
          ipv4u = (if cm_ipv4u opts then 1 else 0);
          certifiedFactor = (if cm_certified opts then 5 / 4 else 1)
      in (cu * of_int (pp_cu price) + su * of_int (pp_su price) + ipv4u * of_int (pp_ipu price)
          + nu * of_int (pp_nu price)) * certifiedFactor * 24 * 30)"

text \<open>The packages in the order they are listed: name, months of balance, discount.\<close>

definition discountPackages :: "(string \<times> rat \<times> rat) list" where
  "discountPackages = [(''none'', 0, 0), (''default'', 3 / 2, 20), (''bronze'', 3, 30), (''silver'', 6, 40), (''gold'', 18, 60)]"

text \<open>The last package whose months the balance covers; to begin with none.\<close>

definition choose_package :: "rat \<Rightarrow> rat \<Rightarrow> string \<times> rat \<times> rat" where
  "choose_package balance price =
     foldl (\<lambda>chosen p. if price * fst (snd p) < balance then p else chosen) (''none'', 0, 0) discountPackages"

record PricingInfo =
  pf_dedicatedPrice :: rat
  pf_dedicatedPackage :: "string \<times> rat"
  pf_sharedPrice :: rat
  pf_sharedPackage :: "string \<times> rat"

definition discounted :: "rat \<Rightarrow> string \<times> rat \<times> rat \<Rightarrow> rat" where
  "discounted price p = (price - price * (snd (snd p) / 100)) / 10000000"

definition calculate :: "price_env \<Rightarrow> CalculatorModel \<Rightarrow> js_error + PricingInfo" where
  "calculate e opts = bindR (pe_prices e) (\<lambda>policy.
     let month = musd_month policy opts;
         dedicatedPrice = month - month * (of_int (pp_discount policy) / 100); sharedPrice = month
     in bindR (tftPrice e) (\<lambda>tft.
       let balance = (case cm_balance opts of None \<Rightarrow> 0 | Some b \<Rightarrow> tft * b * 10000000);
           dp = choose_package balance dedicatedPrice; sp = choose_package balance sharedPrice
       in Inr \<lparr>pf_dedicatedPrice = discounted dedicatedPrice dp, pf_dedicatedPackage = (fst dp, snd (snd dp)),
               pf_sharedPrice = discounted sharedPrice sp, pf_sharedPackage = (fst sp, snd (snd sp))\<rparr>))"

definition calculateWithMyBalance :: "price_env \<Rightarrow> CalculatorModel \<Rightarrow> js_error + PricingInfo" where
  "calculateWithMyBalance e opts =
     bindR (if pe_tfclient e then bindR (pe_my_balance e) (\<lambda>b. Inr (Some b)) else Inr (cm_balance opts)) (\<lambda>b.
       calculate e (opts\<lparr>cm_balance := b\<rparr>))"

subsection \<open>Amounts\<close>

text \<open>\<open>toFixed\<close> of \<open>decimal.js\<close>: the nearest value of that many decimals, halves away from zero.\<close>

definition round_away :: "rat \<Rightarrow> int" where
  "round_away x = (if x < 0 then - \<lfloor>- x + 1 / 2\<rfloor> else \<lfloor>x + 1 / 2\<rfloor>)"

definition normalizeCurrency :: "nat \<Rightarrow> rat \<Rightarrow> rat" where
  "normalizeCurrency d amount = of_int (round_away (amount * 10 ^ d)) / 10 ^ d"

text \<open>The text of such a value.\<close>

definition fixed_text :: "nat \<Rightarrow> rat \<Rightarrow> string" where
  "fixed_text d amount = (let n = round_away (amount * 10 ^ d); m = nat \<bar>n\<bar>; frac = show_nat (m mod 10 ^ d)
     in (if n < 0 then ''-'' else []) @ show_nat (m div 10 ^ d)
        @ (if d = 0 then [] else ''.'' @ replicate (d - length frac) (CHR ''0'') @ frac))"

definition convertUSDtoTFT :: "nat \<Rightarrow> rat \<Rightarrow> rat \<Rightarrow> rat" where
  "convertUSDtoTFT d rate amount = normalizeCurrency d (amount / rate)"

definition convertTFTtoUSD :: "nat \<Rightarrow> rat \<Rightarrow> rat \<Rightarrow> rat" where
  "convertTFTtoUSD d rate amount = normalizeCurrency d (amount * rate)"

definition daily :: "nat \<Rightarrow> rat \<Rightarrow> rat" where
  "daily d amount = normalizeCurrency d (amount * 24)"

definition monthly :: "nat \<Rightarrow> rat \<Rightarrow> rat" where
  "monthly d amount = normalizeCurrency d (daily d amount * 30)"

definition yearly :: "nat \<Rightarrow> rat \<Rightarrow> rat" where
  "yearly d amount = normalizeCurrency d (monthly d amount * 12)"

subsection \<open>Facts about units and prices\<close>

lemma calCU_spec:
  "calCU cru mru = min (min (max (mru / 4) (of_int cru / 2)) (max (mru / 8) (of_int cru)))
                       (max (mru / 2) (of_int cru / 4))"
  by (simp add: calCU_def Let_def min_def max_def)

lemma calCU_mono: "cru \<le> cru' \<Longrightarrow> mru \<le> mru' \<Longrightarrow> calCU cru mru \<le> calCU cru' mru'"
  unfolding calCU_spec by (intro min.mono max.mono divide_right_mono) simp_all

lemma calCU_nonneg: "0 \<le> cru \<Longrightarrow> 0 \<le> mru \<Longrightarrow> 0 \<le> calCU cru mru"
  unfolding calCU_spec by (simp add: min_def max_def)

lemma choose_package_cases:
  assumes "0 \<le> price" and "0 \<le> balance"
  shows "choose_package balance price =
     (if price * 18 < balance then (''gold'', 18, 60) else if price * 6 < balance then (''silver'', 6, 40)
      else if price * 3 < balance then (''bronze'', 3, 30) else if price * (3 / 2) < balance then (''default'', 3 / 2, 20)
      else (''none'', 0, 0))"
  using assms by (simp add: choose_package_def discountPackages_def)

lemma discount_mono:
  assumes "0 \<le> price" and "0 \<le> balance" and "balance \<le> balance'"
  shows "snd (snd (choose_package balance price)) \<le> snd (snd (choose_package balance' price))"
proof -
  have p: "price * (3 / 2) \<le> price * 3" "price * 3 \<le> price * 6" "price * 6 \<le> price * 18"
    using assms(1) by (simp_all add: mult_left_mono)
  show ?thesis
    using assms(3) p unfolding choose_package_cases [OF assms(1,2)] choose_package_cases [OF assms(1) order_trans [OF assms(2,3)]]
    by auto
qed

lemma discount_range:
  assumes "0 \<le> price" and "0 \<le> balance"
  shows "0 \<le> snd (snd (choose_package balance price))" "snd (snd (choose_package balance price)) \<le> 60"
  by (simp_all add: choose_package_cases [OF assms])

lemma discounted_mono:
  assumes "0 \<le> price" and "snd (snd p) \<le> snd (snd q)"
  shows "discounted price q \<le> discounted price p"
  using assms by (simp add: discounted_def divide_right_mono mult_left_mono)

lemma discounted_range:
  assumes "0 \<le> price" and "0 \<le> snd (snd p)" and "snd (snd p) \<le> 60"
  shows "2 / 5 * (price / 10000000) \<le> discounted price p" "discounted price p \<le> price / 10000000"
proof -
  have "price * (snd (snd p) / 100) \<le> price * (60 / 100)"
    using assms by (intro mult_left_mono divide_right_mono) simp_all
  moreover have "0 \<le> price * (snd (snd p) / 100)"
    using assms by simp
  ultimately show "2 / 5 * (price / 10000000) \<le> discounted price p" "discounted price p \<le> price / 10000000"
    by (simp_all add: discounted_def field_simps)
qed

text \<open>The laws of a sensible policy and of sensible options.\<close>

definition sound_policy :: "PricingPolicy \<Rightarrow> bool" where
  "sound_policy p \<longleftrightarrow> 0 \<le> pp_cu p \<and> 0 \<le> pp_su p \<and> 0 \<le> pp_nu p \<and> 0 \<le> pp_ipu p \<and> 0 \<le> pp_discount p \<and> pp_discount p \<le> 100"

definition sound_options :: "CalculatorModel \<Rightarrow> bool" where
  "sound_options opts \<longleftrightarrow> 0 \<le> cm_cru opts \<and> 0 \<le> cm_mru opts \<and> 0 \<le> cm_sru opts \<and> 0 \<le> cm_hru opts
     \<and> (case cm_nu opts of None \<Rightarrow> True | Some n \<Rightarrow> 0 \<le> n)"

lemma musd_month_nonneg:
  assumes "sound_policy p" and "sound_options opts"
  shows "0 \<le> musd_month p opts"
proof -
  have "0 \<le> calCU (cm_cru opts) (cm_mru opts)" "0 \<le> calSU (cm_hru opts) (cm_sru opts)"
    "0 \<le> calNU (case cm_nu opts of None \<Rightarrow> 0 | Some n \<Rightarrow> n)"
    using assms(2) calCU_nonneg by (auto simp: sound_options_def calSU_def calNU_def split: option.splits)
  with assms(1) show ?thesis
    by (auto simp: musd_month_def Let_def sound_policy_def intro!: mult_nonneg_nonneg add_nonneg_nonneg)
qed

lemma dedicated_nonneg:
  fixes month :: rat
  assumes "sound_policy p" and "0 \<le> month"
  shows "0 \<le> month - month * (of_int (pp_discount p) / 100)"
proof -
  have "of_int (pp_discount p) \<le> (100 :: rat)"
    using assms(1) by (simp add: sound_policy_def)
  then have "month * (of_int (pp_discount p) / 100) \<le> month * 1"
    using assms(2) by (intro mult_left_mono) simp_all
  then show ?thesis by simp
qed

text \<open>
  C40: a larger balance never makes a machine dearer: with sensible prices and options both prices
  can only fall when the balance grows, and the shared one stays between two fifths of the list
  price and the list price.
\<close>

theorem balance_never_raises_price:
  assumes "pe_prices e = Inr p" and "tftPrice e = Inr tft" and "0 \<le> tft"
    and "sound_policy p" and "sound_options opts" and "0 \<le> b" and "b \<le> b'"
    and "calculate e (opts\<lparr>cm_balance := Some b\<rparr>) = Inr r" and "calculate e (opts\<lparr>cm_balance := Some b'\<rparr>) = Inr r'"
  shows "pf_dedicatedPrice r' \<le> pf_dedicatedPrice r \<and> pf_sharedPrice r' \<le> pf_sharedPrice r
    \<and> 2 / 5 * (musd_month p opts / 10000000) \<le> pf_sharedPrice r' \<and> pf_sharedPrice r \<le> musd_month p opts / 10000000"
proof -
  have so: "musd_month p (opts\<lparr>cm_balance := x\<rparr>) = musd_month p opts" for x
    by (simp add: musd_month_def)
  define month where "month = musd_month p opts"
  have m: "0 \<le> month" using musd_month_nonneg [OF assms(4,5)] by (simp add: month_def)
  define ded where "ded = month - month * (of_int (pp_discount p) / 100)"
  have d: "0 \<le> ded" using dedicated_nonneg [OF assms(4) m] by (simp add: ded_def)
  have bal: "0 \<le> tft * b * 10000000" "tft * b * 10000000 \<le> tft * b' * 10000000"
    using assms(3,6,7) by (simp_all add: mult_left_mono)
  have r: "pf_sharedPrice r = discounted month (choose_package (tft * b * 10000000) month)"
    "pf_dedicatedPrice r = discounted ded (choose_package (tft * b * 10000000) ded)"
    "pf_sharedPrice r' = discounted month (choose_package (tft * b' * 10000000) month)"
    "pf_dedicatedPrice r' = discounted ded (choose_package (tft * b' * 10000000) ded)"
    using assms(1,2,8,9) by (auto simp: calculate_def Let_def so month_def ded_def)
  note bal' = order_trans [OF bal]
  show ?thesis
    unfolding r month_def [symmetric]
    using discounted_mono [OF d discount_mono [OF d bal]] discounted_mono [OF m discount_mono [OF m bal]]
      discounted_range [OF m discount_range [OF m bal(1)]] discounted_range [OF m discount_range [OF m bal']]
    by blast
qed

subsection \<open>Facts about amounts\<close>

lemma round_away_near: "\<bar>of_int (round_away x) - x\<bar> \<le> 1 / 2"
proof -
  have "of_int \<lfloor>y + 1 / 2\<rfloor> \<le> y + 1 / 2" "y + 1 / 2 < of_int \<lfloor>y + 1 / 2\<rfloor> + 1" for y :: rat
    by linarith+
  note floors = this [of x] this [of "- x"]
  show ?thesis
  proof (cases "x < 0")
    case True
    then have "round_away x = - \<lfloor>- x + 1 / 2\<rfloor>" by (simp add: round_away_def)
    with floors show ?thesis by (simp only: of_int_minus abs_le_iff) linarith
  next
    case False
    then have "round_away x = \<lfloor>x + 1 / 2\<rfloor>" by (simp add: round_away_def)
    with floors show ?thesis by (simp only: abs_le_iff) linarith
  qed
qed

lemma normalize_near: "\<bar>normalizeCurrency d x - x\<bar> \<le> 1 / 2 / 10 ^ d"
proof -
  have "normalizeCurrency d x - x = (of_int (round_away (x * 10 ^ d)) - x * 10 ^ d) / 10 ^ d"
    by (simp add: normalizeCurrency_def diff_divide_distrib)
  then have "\<bar>normalizeCurrency d x - x\<bar> = \<bar>of_int (round_away (x * 10 ^ d)) - x * 10 ^ d\<bar> / 10 ^ d"
    by (simp add: abs_divide)
  also have "\<dots> \<le> 1 / 2 / 10 ^ d"
    by (intro divide_right_mono round_away_near) simp
  finally show ?thesis .
qed

lemma normalize_idem: "normalizeCurrency d (normalizeCurrency d x) = normalizeCurrency d x"
proof -
  have r: "round_away (of_int n) = n" for n
  proof -
    have "\<lfloor>of_int k + 1 / 2 :: rat\<rfloor> = k" for k by linarith
    from this [of n] this [of "- n"] show ?thesis by (simp add: round_away_def)
  qed
  then show ?thesis by (simp add: normalizeCurrency_def)
qed

text \<open>
  the yearly amount is rounded three times, and the roundings add up: it may miss the exact
  amount by 373 halves of the last decimal (1.865 at the two decimals of the service), no more.
\<close>

theorem yearly_rounding_bound: "\<bar>yearly d amount - amount * 8640\<bar> \<le> 373 / 2 / 10 ^ d"
proof -
  have "\<bar>daily d amount - amount * 24\<bar> \<le> 1 / 2 / 10 ^ d"
    "\<bar>monthly d amount - daily d amount * 30\<bar> \<le> 1 / 2 / 10 ^ d"
    "\<bar>yearly d amount - monthly d amount * 12\<bar> \<le> 1 / 2 / 10 ^ d"
    by (simp_all only: daily_def monthly_def yearly_def normalize_near)
  then show ?thesis by (simp add: abs_le_iff)
qed

subsection \<open>An example\<close>

definition demo_policy :: PricingPolicy where
  "demo_policy = \<lparr>pp_cu = 100000, pp_su = 50000, pp_nu = 15000, pp_ipu = 40000, pp_uniqueName = 2500, pp_discount = 50\<rparr>"

definition demo_prices :: price_env where
  "demo_prices = \<lparr>pe_prices = Inr demo_policy, pe_tft = Inr 100, pe_tfclient = False, pe_my_balance = Inr 0\<rparr>"

definition demo_options :: CalculatorModel where
  "demo_options = \<lparr>cm_cru = 2, cm_mru = 4, cm_sru = 100, cm_hru = 0, cm_ipv4u = True, cm_certified = True,
     cm_balance = None, cm_nu = None\<rparr>"

theorem balance_never_raises_price_witness:
  "\<exists>r r'. calculate demo_prices (demo_options\<lparr>cm_balance := Some 1\<rparr>) = Inr r
     \<and> calculate demo_prices (demo_options\<lparr>cm_balance := Some 100000\<rparr>) = Inr r' \<and> pf_sharedPrice r' \<le> pf_sharedPrice r"
proof -
  have ok: "\<exists>r. calculate demo_prices (demo_options\<lparr>cm_balance := Some b\<rparr>) = Inr r" for b
    by (simp add: calculate_def demo_prices_def tftPrice_def Let_def)
  then obtain r r' where r: "calculate demo_prices (demo_options\<lparr>cm_balance := Some 1\<rparr>) = Inr r"
    "calculate demo_prices (demo_options\<lparr>cm_balance := Some 100000\<rparr>) = Inr r'" by blast
  have "pf_sharedPrice r' \<le> pf_sharedPrice r"
    using balance_never_raises_price [OF _ _ _ _ _ _ _ r, of demo_policy "1 / 10"]
    by (simp add: demo_prices_def demo_policy_def tftPrice_def sound_policy_def sound_options_def demo_options_def)
  with r show ?thesis by blast
qed

end
