(* ===== verification/Pallets.thy ===== *)
theory Pallets
  imports Chain "HOL-Library.Word"
begin

text \<open>
  The pallets of \<open>tfchain_client\<close> beside contracts and utility (\<open>balances\<close>, \<open>council\<close>, \<open>dao\<close>,
  \<open>farms\<close>, \<open>nodes\<close>, \<open>twins\<close>, \<open>kvstore\<close>, \<open>tft_bridge\<close>, \<open>tft_price\<close>, \<open>terms_and_conditions\<close>), the
  decorators of \<open>utils.ts\<close>, and what the grid client adds to them in
  \<open>grid_client/src/clients/tf-grid\<close>.  A query of the chain is a field of \<open>pallet_env\<close>; a method
  that prepares an extrinsic returns it.
\<close>

type_synonym bytes = "8 word list"

subsection \<open>What the chain answers\<close>

record Balance =
  ba_free :: rat
  ba_reserved :: rat
  ba_frozen :: rat

record Twin =
  tw_id :: int
  tw_accountId :: string
  tw_relay :: string
  tw_pk :: string

record DaoProposalVotes =
  pv_ayes :: "(int \<times> int) list option"
  pv_nays :: "(int \<times> int) list option"
  pv_threshold :: int
  pv_vetos :: int
  pv_end :: int

record pallet_env =
  q_connect :: "js_error + unit"
  q_address :: string
  q_members :: "js_error + string list"
  q_account :: "string \<Rightarrow> js_error + Balance"
  q_twin :: "int \<Rightarrow> js_error + Twin option"
  q_twinId :: "string \<Rightarrow> js_error + int"
  q_node :: "int \<Rightarrow> js_error + string option"
  q_kv :: "string \<Rightarrow> js_error + string"
  q_kv_keys :: "js_error + string list"
  q_fees :: "js_error + rat \<times> rat"
  q_price :: "js_error + rat"
  q_proposals :: "js_error + string list"
  q_dao_proposal :: "string \<Rightarrow> js_error + (string \<times> string) option"
  q_proposal_of :: "string \<Rightarrow> js_error + string option"
  q_voting :: "string \<Rightarrow> js_error + DaoProposalVotes option"
  q_number :: "string \<Rightarrow> js_error + int"
  q_now :: "string \<Rightarrow> int"
  q_is_address :: "string \<Rightarrow> bool"
  q_public_key :: "js_error + string"

subsection \<open>Decorators\<close>

definition checkConnection :: "pallet_env \<Rightarrow> js_error + 'a \<Rightarrow> js_error + 'a" where
  "checkConnection e method = bindR (q_connect e) (\<lambda>_. method)"

definition council_members :: "pallet_env \<Rightarrow> js_error + string list" where
  "council_members e = checkConnection e (q_members e)"

definition requireCouncil :: "pallet_env \<Rightarrow> js_error + 'a \<Rightarrow> js_error + 'a" where
  "requireCouncil e method = bindR (council_members e) (\<lambda>members.
     if q_address e \<in> set members then method
     else Inl (ValidationError ''You have to be a council member to create this extrinsic''))"

definition plain_tx :: "string \<Rightarrow> string \<Rightarrow> tx_arg list \<Rightarrow> extrinsic" where
  "plain_tx pallet method args = patchExtrinsic (Tx pallet method args) [] None"

definition mapped_tx :: "string \<Rightarrow> string \<Rightarrow> tx_arg list \<Rightarrow> (event_data \<Rightarrow> chain_result) \<Rightarrow> extrinsic" where
  "mapped_tx pallet method args f = patchExtrinsic (Tx pallet method args) [] (Some f)"

subsection \<open>Balances\<close>

definition balance_get :: "pallet_env \<Rightarrow> string \<Rightarrow> js_error + Balance" where
  "balance_get e address = checkConnection e (q_account e address)"

definition getMyBalance :: "pallet_env \<Rightarrow> js_error + Balance" where
  "getMyBalance e = checkConnection e (balance_get e (q_address e))"

text \<open>An amount that is no number is \<open>None\<close>.\<close>

definition transfer :: "pallet_env \<Rightarrow> string \<Rightarrow> rat option \<Rightarrow> js_error + extrinsic" where
  "transfer e address amount = checkConnection e (case amount of
     Some a \<Rightarrow> if a \<le> 0 then Inl (ValidationError ''Amount must be a positive numeric value'')
       else Inr (mapped_tx ''balances'' ''transfer'' [A_text address, A_num a] (\<lambda>_. R_num a))
   | None \<Rightarrow> Inl (ValidationError ''Amount must be a positive numeric value''))"

definition forceTransfer :: "pallet_env \<Rightarrow> string \<Rightarrow> string \<Rightarrow> rat option \<Rightarrow> js_error + extrinsic" where
  "forceTransfer e source dest amount = checkConnection e (requireCouncil e (case amount of
     Some a \<Rightarrow> if a \<le> 0 then Inl (ValidationError ''The amount must be a positive numeric value'')
       else Inr (mapped_tx ''balances'' ''forceTransfer'' [A_text source, A_text dest, A_num a] (\<lambda>_. R_num a))
   | None \<Rightarrow> Inl (ValidationError ''The amount must be a positive numeric value'')))"

definition forceSetBalance :: "pallet_env \<Rightarrow> string \<Rightarrow> rat option \<Rightarrow> js_error + extrinsic" where
  "forceSetBalance e address amount = checkConnection e (requireCouncil e (case amount of
     Some a \<Rightarrow> if a < 0 then Inl (ValidationError ''The amount must be a positive numeric value'')
       else if \<not> q_is_address e address then Inl (ValidationError ''The address is invalid'')
       else Inr (mapped_tx ''balances'' ''forceSetBalance'' [A_text address, A_num a] (\<lambda>_. R_num a))
   | None \<Rightarrow> Inl (ValidationError ''The amount must be a positive numeric value'')))"

text \<open>\<open>TFBalances\<close>: the chain counts in \<open>10 ^ -7\<close> tokens.\<close>

definition tf_balance_get :: "pallet_env \<Rightarrow> string \<Rightarrow> js_error + Balance" where
  "tf_balance_get e address = bindR (balance_get e address) (\<lambda>b.
     Inr \<lparr>ba_free = ba_free b / 10 ^ 7, ba_reserved = ba_reserved b / 10 ^ 7, ba_frozen = ba_frozen b / 10 ^ 7\<rparr>)"

definition tf_transfer :: "pallet_env \<Rightarrow> string \<Rightarrow> rat \<Rightarrow> js_error + extrinsic" where
  "tf_transfer e address amount = transfer e address (Some (amount * 10 ^ 7))"

subsection \<open>Council and DAO\<close>

definition arg_at :: "event_data \<Rightarrow> nat \<Rightarrow> tx_arg option" where
  "arg_at d i = (case d of ED_values xs \<Rightarrow> if i < length xs then Some (xs ! i) else None | _ \<Rightarrow> None)"

definition proposal_result :: "event_data \<Rightarrow> chain_result" where
  "proposal_result d = R_proposal (map (arg_at d) [0, 1, 2, 3])"

definition council_propose :: "pallet_env \<Rightarrow> extrinsic \<Rightarrow> int \<Rightarrow> js_error + extrinsic" where
  "council_propose e proposal threshold = checkConnection e (requireCouncil e
     (Inr (mapped_tx ''council'' ''propose'' [A_int threshold, A_call (x_call proposal), A_int 1000] proposal_result)))"

definition council_close :: "pallet_env \<Rightarrow> int \<Rightarrow> string \<Rightarrow> int \<Rightarrow> js_error + extrinsic" where
  "council_close e now hash index = checkConnection e (requireCouncil e
     (Inr (plain_tx ''council'' ''close'' [A_text hash, A_int index,
       A_record [(''refTime'', A_int (now div 1000)), (''proofSize'', A_int 100000)], A_int 1000])))"

definition council_vote :: "pallet_env \<Rightarrow> string \<Rightarrow> int \<Rightarrow> bool \<Rightarrow> js_error + extrinsic" where
  "council_vote e hash index approve = checkConnection e (requireCouncil e
     (Inr (plain_tx ''council'' ''vote'' [A_text hash, A_int index, A_bool approve])))"

definition getVotesWithWeights :: "(int \<times> int) list \<Rightarrow> int" where
  "getVotesWithWeights votes = foldl (\<lambda>total v. total + snd v) 0 votes"

definition getProgress :: "(int \<times> int) list option \<Rightarrow> (int \<times> int) list option \<Rightarrow> bool \<Rightarrow> rat" where
  "getProgress ayes nayes typeAye =
     (let totalAye = (case ayes of None \<Rightarrow> 0 | Some vs \<Rightarrow> getVotesWithWeights vs);
          totalNaye = (case nayes of None \<Rightarrow> 0 | Some vs \<Rightarrow> getVotesWithWeights vs);
          total = totalAye + totalNaye
      in if 0 < total
         then (if typeAye then of_int totalAye / of_int total * 100 else of_int totalNaye / of_int total * 100)
         else 0)"

record DaoProposalDetails =
  pd_threshold :: int
  pd_ayes :: "(int \<times> int) list option"
  pd_nayes :: "(int \<times> int) list option"
  pd_vetos :: int
  pd_end :: int
  pd_hash :: string
  pd_action :: string
  pd_description :: string
  pd_link :: string
  pd_ayesProgress :: rat
  pd_nayesProgress :: rat

definition getDaoProposal :: "pallet_env \<Rightarrow> string \<Rightarrow> js_error + (string \<times> string) option" where
  "getDaoProposal e hash = checkConnection e (q_dao_proposal e hash)"

text \<open>A proposal that cannot be decoded is left out; \<open>end\<close> is a time in milliseconds.\<close>

definition getProposal :: "pallet_env \<Rightarrow> string \<Rightarrow> js_error + string option" where
  "getProposal e hash = checkConnection e (Inr (case q_proposal_of e hash of Inl _ \<Rightarrow> None | Inr p \<Rightarrow> p))"

definition getProposalVotes :: "pallet_env \<Rightarrow> string \<Rightarrow> js_error + DaoProposalVotes option" where
  "getProposalVotes e hash = checkConnection e (q_voting e hash)"

definition proposal_details ::
  "pallet_env \<Rightarrow> string \<Rightarrow> string \<times> string \<Rightarrow> string \<Rightarrow> DaoProposalVotes \<Rightarrow> int \<Rightarrow> DaoProposalDetails"
where
  "proposal_details e hash info remark v nowBlock =
     \<lparr>pd_threshold = pv_threshold v, pd_ayes = pv_ayes v, pd_nayes = pv_nays v, pd_vetos = pv_vetos v,
      pd_end = q_now e hash + (pv_end v - nowBlock) * 6 * 1000, pd_hash = hash, pd_action = remark,
      pd_description = fst info, pd_link = snd info,
      pd_ayesProgress = getProgress (pv_ayes v) (pv_nays v) True,
      pd_nayesProgress = getProgress (pv_ayes v) (pv_nays v) False\<rparr>"

definition dao_step ::
  "pallet_env \<Rightarrow> string \<Rightarrow> DaoProposalDetails list \<times> DaoProposalDetails list
   \<Rightarrow> js_error + DaoProposalDetails list \<times> DaoProposalDetails list"
where
  "dao_step e hash acc = bindR (getDaoProposal e hash) (\<lambda>info. bindR (getProposal e hash) (\<lambda>remark.
     bindR (getProposalVotes e hash) (\<lambda>votes. bindR (q_number e hash) (\<lambda>nowBlock. case votes of
       None \<Rightarrow> Inl TypeError
     | Some v \<Rightarrow> (case (remark, info) of
         (Some r, Some i) \<Rightarrow>
           (let d = proposal_details e hash i r v nowBlock
            in if pv_end v < nowBlock then Inr (fst acc, snd acc @ [d]) else Inr (fst acc @ [d], snd acc))
       | _ \<Rightarrow> Inr acc)))))"

text \<open>The active proposals and the inactive ones.\<close>

definition dao_get :: "pallet_env \<Rightarrow> js_error + DaoProposalDetails list \<times> DaoProposalDetails list" where
  "dao_get e = checkConnection e (bindR (q_proposals e) (\<lambda>hashes. foldR (dao_step e) hashes ([], [])))"

definition dao_propose :: "pallet_env \<Rightarrow> int \<Rightarrow> extrinsic \<Rightarrow> string \<Rightarrow> string \<Rightarrow> int option \<Rightarrow> js_error + extrinsic" where
  "dao_propose e threshold proposal description link duration = checkConnection e (requireCouncil e
     (Inr (mapped_tx ''dao'' ''propose'' [A_int threshold, A_call (x_call proposal), A_text description, A_text link,
        case duration of None \<Rightarrow> A_none | Some d \<Rightarrow> A_int d] proposal_result)))"

definition dao_vote :: "pallet_env \<Rightarrow> int \<Rightarrow> string \<Rightarrow> bool \<Rightarrow> js_error + extrinsic" where
  "dao_vote e farmId hash approve = checkConnection e
     (Inr (plain_tx ''dao'' ''vote'' [A_int farmId, A_text hash, A_bool approve]))"

definition dao_close :: "pallet_env \<Rightarrow> string \<Rightarrow> int \<Rightarrow> js_error + extrinsic" where
  "dao_close e hash index = checkConnection e (requireCouncil e
     (Inr (plain_tx ''dao'' ''close'' [A_text hash, A_int index])))"

subsection \<open>Farms, nodes and twins\<close>

text \<open>Without addresses \<open>undefined\<close> is passed on.\<close>

definition farm_create :: "pallet_env \<Rightarrow> string \<Rightarrow> (string \<times> string) list option \<Rightarrow> js_error + extrinsic" where
  "farm_create e name publicIps = checkConnection e
     (Inr (plain_tx ''tfgridModule'' ''createFarm'' [A_text name, case publicIps of None \<Rightarrow> A_none
       | Some ps \<Rightarrow> A_list (map (\<lambda>(ip, gw). A_record [(''ip'', A_text ip), (''gw'', A_text gw)]) ps)]))"

definition addFarmIp :: "pallet_env \<Rightarrow> int \<Rightarrow> string \<Rightarrow> string \<Rightarrow> js_error + extrinsic" where
  "addFarmIp e farmId ip gw = checkConnection e
     (Inr (plain_tx ''tfgridModule'' ''addFarmIp'' [A_int farmId, A_text ip, A_text gw]))"

definition removeFarmIp :: "pallet_env \<Rightarrow> int \<times> string \<Rightarrow> js_error + extrinsic" where
  "removeFarmIp e p = checkConnection e
     (Inr (plain_tx ''tfgridModule'' ''removeFarmIp'' [A_int (fst p), A_text (snd p)]))"

definition addStellarAddress :: "pallet_env \<Rightarrow> int \<Rightarrow> string \<Rightarrow> js_error + extrinsic" where
  "addStellarAddress e farmId address = checkConnection e
     (Inr (plain_tx ''tfgridModule'' ''addStellarPayoutV2address'' [A_int farmId, A_text address]))"

text \<open>An id that is no number is \<open>None\<close>.\<close>

definition node_get :: "pallet_env \<Rightarrow> int option \<Rightarrow> js_error + string option" where
  "node_get e i = checkConnection e (case i of
     Some n \<Rightarrow> if n \<le> 0 then Inl (ValidationError ''Invalid node id. Node id must be positive integer'') else q_node e n
   | None \<Rightarrow> Inl (ValidationError ''Invalid node id. Node id must be positive integer''))"

definition setPower :: "pallet_env \<Rightarrow> int \<Rightarrow> bool \<Rightarrow> js_error + extrinsic" where
  "setPower e nodeId up = checkConnection e
     (Inr (plain_tx ''tfgridModule'' ''changePowerTarget'' [A_int nodeId, A_text (if up then ''Up'' else ''Down'')]))"

definition twin_get :: "pallet_env \<Rightarrow> int option \<Rightarrow> js_error + Twin option" where
  "twin_get e i = checkConnection e (case i of
     Some n \<Rightarrow> if n \<le> 0 then Inl (TwinNotExistError ''Invalid twin id. Twin id must be positive integer'') else q_twin e n
   | None \<Rightarrow> Inl (TwinNotExistError ''Invalid twin id. Twin id must be positive integer''))"

definition getTwinIdByAccountId :: "pallet_env \<Rightarrow> string \<Rightarrow> js_error + int" where
  "getTwinIdByAccountId e accountId = checkConnection e (q_twinId e accountId)"

definition getMyTwinId :: "pallet_env \<Rightarrow> js_error + int" where
  "getMyTwinId e = checkConnection e (getTwinIdByAccountId e (q_address e))"

definition twin_create :: "pallet_env \<Rightarrow> string \<Rightarrow> string \<Rightarrow> js_error + extrinsic" where
  "twin_create e relay pk = checkConnection e (Inr (plain_tx ''tfgridModule'' ''createTwin'' [A_text relay, A_text pk]))"

definition twin_update :: "pallet_env \<Rightarrow> string \<Rightarrow> string \<Rightarrow> js_error + extrinsic" where
  "twin_update e relay pk = checkConnection e (Inr (plain_tx ''tfgridModule'' ''updateTwin'' [A_text relay, A_text pk]))"

text \<open>\<open>TFTwins\<close>: the public key is made of the secret of the client.\<close>

definition tf_twin_create :: "pallet_env \<Rightarrow> string \<Rightarrow> js_error + extrinsic" where
  "tf_twin_create e relay = bindR (q_public_key e) (\<lambda>pk. twin_create e relay pk)"

definition tf_twin_update :: "pallet_env \<Rightarrow> string \<Rightarrow> js_error + extrinsic" where
  "tf_twin_update e relay = bindR (q_public_key e) (\<lambda>pk. twin_update e relay pk)"

text \<open>\<open>TFFarms.removeFarmIps\<close>.\<close>

definition removeFarmIps ::
  "pallet_env \<Rightarrow> 'c chain_env \<Rightarrow> (int \<times> string) list \<Rightarrow> ('c client, js_error, chain_result list) eff"
where
  "removeFarmIps e ce options = bindE (liftE (foldR (\<lambda>p xs. bindR (removeFarmIp e p) (\<lambda>x. Inr (xs @ [x]))) options []))
     (\<lambda>xs. applyAllExtrinsics ce (map Some xs))"

subsection \<open>Bridge, price and terms\<close>

definition swapToStellar :: "pallet_env \<Rightarrow> string \<Rightarrow> rat \<Rightarrow> js_error + extrinsic" where
  "swapToStellar e target amount = checkConnection e
     (Inr (plain_tx ''tftBridgeModule'' ''swapToStellar'' [A_text target, A_num amount]))"

definition tf_swapToStellar :: "pallet_env \<Rightarrow> string \<Rightarrow> rat \<Rightarrow> js_error + extrinsic" where
  "tf_swapToStellar e target amount = swapToStellar e target (amount * 10 ^ 7)"

definition getWithdrawFee :: "pallet_env \<Rightarrow> js_error + rat" where
  "getWithdrawFee e = checkConnection e (bindR (q_fees e) (\<lambda>f. Inr (fst f)))"

definition getDepositFee :: "pallet_env \<Rightarrow> js_error + rat" where
  "getDepositFee e = checkConnection e (bindR (q_fees e) (\<lambda>f. Inr (snd f)))"

definition tf_getWithdrawFee :: "pallet_env \<Rightarrow> js_error + rat" where
  "tf_getWithdrawFee e = bindR (getWithdrawFee e) (\<lambda>f. Inr (f / 10 ^ 7))"

definition tf_getDepositFee :: "pallet_env \<Rightarrow> js_error + rat" where
  "tf_getDepositFee e = bindR (getDepositFee e) (\<lambda>f. Inr (f / 10 ^ 7))"

text \<open>The chain answers in thousandths of a dollar.\<close>

definition tft_price_get :: "pallet_env \<Rightarrow> js_error + rat" where
  "tft_price_get e = checkConnection e (q_price e)"

definition tf_price_get :: "pallet_env \<Rightarrow> js_error + rat" where
  "tf_price_get e = bindR (tft_price_get e) (\<lambda>p. Inr (p / 1000))"

definition terms_accept :: "pallet_env \<Rightarrow> string \<Rightarrow> string \<Rightarrow> js_error + extrinsic" where
  "terms_accept e documentLink documentHash = checkConnection e
     (Inr (plain_tx ''tfgridModule'' ''userAcceptTc'' [A_text documentLink, A_text documentHash]))"

end
