(* ===== verification/Storage.thy ===== *)
theory Storage
  imports Pallets
begin

text \<open>
  Where the grid client keeps its data: the key-value store of the chain (\<open>tfchain_client/src/kvstore.ts\<close>,
  encrypted by \<open>grid_client/src/clients/tf-grid/kvstore.ts\<close>), the back ends of
  \<open>grid_client/src/storage\<close> over it and over the browser's local storage, and \<open>BackendStorage\<close>.
\<close>

subsection \<open>The key-value store\<close>

text \<open>
  The packages \<open>tweetnacl\<close>, \<open>tweetnacl-util\<close> and \<open>crypto-js\<close>: opening a box that is not for the key
  gives nothing; the secret of the client is a text or bytes; the nonces are read in order.
\<close>

record crypto_env =
  x_utf8 :: "string \<Rightarrow> bytes"
  x_text :: "bytes \<Rightarrow> js_error + string"
  x_b64 :: "bytes \<Rightarrow> string"
  x_unb64 :: "string \<Rightarrow> js_error + bytes"
  x_box :: "bytes \<Rightarrow> bytes \<Rightarrow> bytes \<Rightarrow> js_error + bytes"
  x_open :: "bytes \<Rightarrow> bytes \<Rightarrow> bytes \<Rightarrow> js_error + bytes option"
  x_sha256 :: "string \<Rightarrow> bytes"
  x_secret :: "string + bytes"
  x_nonce :: "nat \<Rightarrow> bytes"

definition kv_set :: "pallet_env \<Rightarrow> string \<Rightarrow> string \<Rightarrow> js_error + extrinsic" where
  "kv_set e key val = checkConnection e (Inr (plain_tx ''tfkvStore'' ''set'' [A_text key, A_text val]))"

definition kv_delete :: "pallet_env \<Rightarrow> string \<Rightarrow> js_error + extrinsic" where
  "kv_delete e key = checkConnection e (Inr (plain_tx ''tfkvStore'' ''delete'' [A_text key]))"

text \<open>The store answers a key it does not have with an empty text.\<close>

definition kv_get :: "pallet_env \<Rightarrow> string \<Rightarrow> js_error + string" where
  "kv_get e key = checkConnection e (q_kv e key)"

definition kv_list :: "pallet_env \<Rightarrow> js_error + string list" where
  "kv_list e = checkConnection e (q_kv_keys e)"

definition prepare_all :: "('a \<Rightarrow> js_error + extrinsic) \<Rightarrow> 'a list \<Rightarrow> js_error + extrinsic list" where
  "prepare_all f xs = foldR (\<lambda>a acc. bindR (f a) (\<lambda>x. Inr (acc @ [x]))) xs []"

definition kv_deleteAll :: "pallet_env \<Rightarrow> 'c chain_env \<Rightarrow> ('c client, js_error, string list) eff" where
  "kv_deleteAll e ce = bindE (liftE (kv_list e)) (\<lambda>keys. bindE (liftE (prepare_all (kv_delete e) keys)) (\<lambda>xs.
     bindE (applyAllExtrinsics ce (map Some xs)) (\<lambda>_. retE keys)))"

definition batchRemove :: "pallet_env \<Rightarrow> 'c chain_env \<Rightarrow> string list \<Rightarrow> ('c client, js_error, string list) eff" where
  "batchRemove e ce keys = bindE (liftE (prepare_all (kv_delete e) keys)) (\<lambda>xs.
     bindE (applyAllExtrinsics ce (map Some xs)) (\<lambda>_. retE keys))"

definition getSecretAsBytes :: "crypto_env \<Rightarrow> js_error + bytes" where
  "getSecretAsBytes x = (case x_secret x of Inl s \<Rightarrow> x_unb64 x (x_b64 x (x_sha256 x s)) | Inr bs \<Rightarrow> Inr bs)"

definition encrypt :: "crypto_env \<Rightarrow> bytes \<Rightarrow> string \<Rightarrow> js_error + string" where
  "encrypt x nonce message = bindR (getSecretAsBytes x) (\<lambda>key.
     bindR (x_box x (x_utf8 x message) nonce key) (\<lambda>c. Inr (x_b64 x (c @ nonce))))"

text \<open>\<open>slice(0, -24)\<close> and \<open>slice(-24)\<close>; the text of no bytes is an error.\<close>

definition decrypt :: "crypto_env \<Rightarrow> string \<Rightarrow> js_error + string" where
  "decrypt x message = bindR (x_unb64 x message) (\<lambda>encoded.
     let n = length encoded - 24; encrypted = take n encoded; nonce = drop n encoded
     in bindR (getSecretAsBytes x) (\<lambda>key. bindR (x_open x encrypted nonce key) (\<lambda>m.
          case m of None \<Rightarrow> Inl TypeError | Some bs \<Rightarrow> x_text x bs)))"

definition tfkv_set :: "pallet_env \<Rightarrow> crypto_env \<Rightarrow> nat \<Rightarrow> string \<Rightarrow> string \<Rightarrow> bool \<Rightarrow> js_error + extrinsic" where
  "tfkv_set e x i key val enc =
     (if \<not> enc then kv_set e key val
      else bindR (encrypt x (x_nonce x i) val) (\<lambda>v. kv_set e key v))"

definition tfkv_get :: "pallet_env \<Rightarrow> crypto_env \<Rightarrow> string \<Rightarrow> bool \<Rightarrow> js_error + string" where
  "tfkv_get e x key dec = bindR (kv_get e key) (\<lambda>v.
     if \<not> dec then Inr v
     else if v \<noteq> [] then (case decrypt x v of
         Inl _ \<Rightarrow> Inl (GridClientError (''Couldn'' @ apos # ''t decrypt key: '' @ key @ ''.''))
       | Inr s \<Rightarrow> Inr s)
     else Inr v)"

subsection \<open>Paths\<close>

text \<open>The text before the first occurrence of a separator and the text after it.\<close>

fun find_sub :: "string \<Rightarrow> string \<Rightarrow> (string \<times> string) option" where
  "find_sub sep [] = (if sep = [] then Some ([], []) else None)"
| "find_sub sep (c # s) =
     (if take (length sep) (c # s) = sep then Some ([], drop (length sep) (c # s))
      else map_option (\<lambda>p. (c # fst p, snd p)) (find_sub sep s))"

definition cropKey :: "string \<Rightarrow> string" where
  "cropKey key = (case find_sub ''grid3_client/'' key of
     None \<Rightarrow> key
   | Some (x, r) \<Rightarrow> (let y = (case find_sub ''grid3_client/'' r of None \<Rightarrow> r | Some (a, _) \<Rightarrow> a) in if y = [] then x else y))"

text \<open>\<open>k.split(key)[1]\<close> for a key that starts with \<open>key\<close>.\<close>

definition after_key :: "string \<Rightarrow> string \<Rightarrow> string option" where
  "after_key key k =
     (if key = [] then (case k of _ # c # _ \<Rightarrow> Some [c] | _ \<Rightarrow> None)
      else (let r = drop (length key) k in Some (case find_sub key r of None \<Rightarrow> r | Some (a, _) \<Rightarrow> a)))"

text \<open>The first part of the rest of a path; \<open>undefined\<close> when there is none.\<close>

definition path_part :: "string \<Rightarrow> string option" where
  "path_part rest = (case split_on (CHR ''/'') rest of
     [] # q # _ \<Rightarrow> Some q | [[]] \<Rightarrow> None | p # _ \<Rightarrow> Some p | [] \<Rightarrow> None)"

definition list_parts :: "string \<Rightarrow> string list \<Rightarrow> js_error + string option list" where
  "list_parts key keys = bindR (foldR (\<lambda>k acc.
       if take (length key) k \<noteq> key then Inr acc
       else (case after_key key k of None \<Rightarrow> Inl TypeError | Some rest \<Rightarrow> Inr (acc @ [path_part rest]))) keys [])
     (\<lambda>ps. Inr (js_dedup ps))"

subsection \<open>The back end on the chain\<close>

definition SPLIT_SIZE :: nat where "SPLIT_SIZE = 1490"

definition frag_key :: "string \<Rightarrow> nat \<Rightarrow> string" where
  "frag_key key i = (if i = 0 then key else key @ ''.'' @ show_nat i)"

text \<open>
  \<open>while (value) \<dots>\<close> over the fragments \<open>start\<close>, \<open>start + 1\<close> and so on: the extrinsics (or pieces) each
  one adds.  \<open>None\<close> is a loop that never ends.
\<close>

partial_function (option) while_fragment ::
  "(nat \<Rightarrow> js_error + string) \<Rightarrow> (nat \<Rightarrow> string \<Rightarrow> js_error + 'x list) \<Rightarrow> nat \<Rightarrow> (js_error + 'x list) option"
where
  "while_fragment read body i = (case read i of
     Inl err \<Rightarrow> Some (Inl err)
   | Inr v \<Rightarrow> if v = [] then Some (Inr [])
       else (case body i v of
         Inl err \<Rightarrow> Some (Inl err)
       | Inr xs \<Rightarrow> Option.bind (while_fragment read body (Suc i)) (\<lambda>r. Some (bindR r (\<lambda>ys. Inr (xs @ ys))))))"

definition run_fragments ::
  "(nat \<Rightarrow> js_error + string) \<Rightarrow> (nat \<Rightarrow> string \<Rightarrow> js_error + 'x list) \<Rightarrow> nat \<Rightarrow> js_error + 'x list"
where
  "run_fragments read body i = (case while_fragment read body i of None \<Rightarrow> Inl diverges | Some r \<Rightarrow> r)"

definition cleanFragments :: "pallet_env \<Rightarrow> crypto_env \<Rightarrow> string \<Rightarrow> nat \<Rightarrow> js_error + extrinsic list" where
  "cleanFragments e x key start = run_fragments (\<lambda>i. tfkv_get e x (key @ ''.'' @ show_nat i) True)
     (\<lambda>i _. bindR (kv_delete e (key @ ''.'' @ show_nat i)) (\<lambda>d. Inr [d])) start"

function split_from :: "string \<Rightarrow> nat \<Rightarrow> string \<Rightarrow> (string \<times> string) list" where
  "split_from key i val =
     (if SPLIT_SIZE < length val
      then (frag_key key i, take SPLIT_SIZE val) # split_from key (Suc i) (drop SPLIT_SIZE val)
      else [(frag_key key i, val)])"
  by pat_completeness auto
termination
  by (relation "measure (\<lambda>(_, _, val). length val)") (auto simp: SPLIT_SIZE_def)

declare split_from.simps [simp del]

definition split_value :: "string \<Rightarrow> string \<Rightarrow> (string \<times> string) list" where
  "split_value key val = split_from key 0 val"

definition tfkv_remove :: "pallet_env \<Rightarrow> crypto_env \<Rightarrow> string \<Rightarrow> js_error + extrinsic list option" where
  "tfkv_remove e x key0 = (let key = cropKey key0 in bindR (tfkv_get e x key True) (\<lambda>v.
     if v = [] then Inr None
     else bindR (cleanFragments e x key 1) (\<lambda>xs. bindR (kv_delete e key) (\<lambda>d. Inr (Some (xs @ [d]))))))"

text \<open>The keys of the object of splits in the order of \<open>Object.keys\<close>.\<close>

definition split_pairs :: "(string \<times> string) list \<Rightarrow> (string \<times> string) list" where
  "split_pairs splits = map (\<lambda>k. (k, case map_of splits k of None \<Rightarrow> [] | Some v \<Rightarrow> v)) (obj_keys splits)"

definition set_fragments ::
  "pallet_env \<Rightarrow> crypto_env \<Rightarrow> (string \<times> string) list \<Rightarrow> js_error + extrinsic list"
where
  "set_fragments e x ps = prepare_all (\<lambda>(i, k, v). tfkv_set e x i k v True) (enumerate 0 ps)"

definition tfkv_backend_set :: "pallet_env \<Rightarrow> crypto_env \<Rightarrow> string \<Rightarrow> string \<Rightarrow> js_error + extrinsic list option" where
  "tfkv_backend_set e x key0 val =
     (let key = cropKey key0 in
      if val = [] \<or> val = [CHR 0x22, CHR 0x22] then tfkv_remove e x key
      else (let splits = split_value key val in
        bindR (set_fragments e x (split_pairs splits)) (\<lambda>xs.
          bindR (cleanFragments e x key (length (obj_keys splits))) (\<lambda>ys. Inr (Some (xs @ ys))))))"

definition tfkv_backend_get :: "pallet_env \<Rightarrow> crypto_env \<Rightarrow> string \<Rightarrow> js_error + string" where
  "tfkv_backend_get e x key0 = (let key = cropKey key0 in bindR (tfkv_get e x key True) (\<lambda>v.
     if v = [] then Inr [CHR 0x22, CHR 0x22]
     else bindR (run_fragments (\<lambda>i. tfkv_get e x (key @ ''.'' @ show_nat i) True) (\<lambda>_ w. Inr [w]) 1)
       (\<lambda>ws. Inr (v @ concat ws))))"

definition tfkv_backend_list :: "pallet_env \<Rightarrow> string \<Rightarrow> js_error + string option list" where
  "tfkv_backend_list e key0 = bindR (kv_list e) (\<lambda>keys. list_parts (cropKey key0) keys)"

definition moveValue :: "pallet_env \<Rightarrow> crypto_env \<Rightarrow> string \<Rightarrow> string \<Rightarrow> js_error + extrinsic list" where
  "moveValue e x fromKey0 toKey0 = (let fromKey = cropKey fromKey0; toKey = cropKey toKey0 in
     run_fragments (\<lambda>i. tfkv_get e x (frag_key fromKey i) False)
       (\<lambda>i v. bindR (tfkv_set e x i toKey v False) (\<lambda>s.
          if fromKey \<noteq> toKey then bindR (kv_delete e (frag_key fromKey i)) (\<lambda>d. Inr [s, d]) else Inr [s])) 0)"

subsection \<open>The back end in the browser\<close>

text \<open>Local storage: an association list in the order of its keys.\<close>

type_synonym local_storage = "(string \<times> string) list"

definition ls_remove :: "string \<Rightarrow> local_storage \<Rightarrow> local_storage" where
  "ls_remove key s = filter (\<lambda>p. fst p \<noteq> cropKey key) s"

definition ls_set :: "string \<Rightarrow> string \<Rightarrow> local_storage \<Rightarrow> local_storage" where
  "ls_set key0 val s = (let key = cropKey key0 in
     if val = [] \<or> val = [CHR 0x22, CHR 0x22] then ls_remove key s else obj_set key val s)"

definition ls_get :: "string \<Rightarrow> local_storage \<Rightarrow> string" where
  "ls_get key s = (case map_of s (cropKey key) of None \<Rightarrow> [CHR 0x22, CHR 0x22] | Some v \<Rightarrow> v)"

definition ls_list :: "string \<Rightarrow> local_storage \<Rightarrow> js_error + string option list" where
  "ls_list key s = list_parts (cropKey key) (map fst s)"

subsection \<open>Values\<close>

text \<open>
  \<open>BackendStorage\<close> keeps values of JSON; an object lists its fields in the order of \<open>Object.keys\<close>.
  Parsing is the argument \<open>parse\<close>.
\<close>

datatype json = J_null | J_bool bool | J_num int | J_str string | J_arr "json list" | J_obj "(string \<times> json) list"

definition quote_char :: "char \<Rightarrow> string" where
  "quote_char c = (let n = (of_char c :: nat); hex = (\<lambda>d. if d < 10 then digit_char d else char_of (87 + d)) in
     if c = CHR 0x22 then [CHR 0x5C, CHR 0x22] else if c = CHR 0x5C then [CHR 0x5C, CHR 0x5C]
     else if n = 8 then [CHR 0x5C, CHR ''b''] else if n = 9 then [CHR 0x5C, CHR ''t'']
     else if n = 10 then [CHR 0x5C, CHR ''n''] else if n = 12 then [CHR 0x5C, CHR ''f'']
     else if n = 13 then [CHR 0x5C, CHR ''r'']
     else if n < 32 then [CHR 0x5C, CHR ''u'', CHR ''0'', CHR ''0'', hex (n div 16), hex (n mod 16)]
     else [c])"

definition quote :: "string \<Rightarrow> string" where
  "quote s = CHR 0x22 # concat (map quote_char s) @ [CHR 0x22]"

fun stringify :: "json \<Rightarrow> string" where
  "stringify J_null = ''null''"
| "stringify (J_bool b) = show_bool b"
| "stringify (J_num n) = show_int n"
| "stringify (J_str s) = quote s"
| "stringify (J_arr xs) = ''['' @ join_with '','' (map stringify xs) @ '']''"
| "stringify (J_obj ps) = ''{'' @ join_with '','' (map (\<lambda>(k, v). quote k @ '':'' @ stringify v) ps) @ ''}''"

definition falsy :: "json \<Rightarrow> bool" where
  "falsy v \<longleftrightarrow> v \<in> {J_null, J_bool False, J_num 0, J_str []}"

definition backend_load ::
  "(string \<Rightarrow> js_error + json) \<Rightarrow> ('s \<Rightarrow> string \<Rightarrow> js_error + string) \<Rightarrow> 's \<Rightarrow> string \<Rightarrow> js_error + json"
where
  "backend_load parse read s key = bindR (read s key) parse"

definition backend_dump :: "('s \<Rightarrow> string \<Rightarrow> string \<Rightarrow> 's) \<Rightarrow> 's \<Rightarrow> string \<Rightarrow> json \<Rightarrow> 's" where
  "backend_dump store s key v = store s key (stringify v)"

text \<open>
  \<open>Reflect.set\<close> and \<open>delete\<close>: a field of an array that is no index is not written out; \<open>Reflect.set\<close>
  refuses what is no object, \<open>delete\<close> what belongs to a text.
\<close>

definition json_set :: "string \<Rightarrow> json \<Rightarrow> json \<Rightarrow> js_error + json" where
  "json_set field data v = (case v of
     J_obj ps \<Rightarrow> Inr (J_obj (in_key_order (obj_set field data ps)))
   | J_arr xs \<Rightarrow> if array_index field
       then (let i = read_nat field in
         Inr (J_arr ((xs @ replicate (Suc i - length xs) J_null)[i := data])))
       else Inr v
   | _ \<Rightarrow> Inl TypeError)"

definition json_delete :: "string \<Rightarrow> json \<Rightarrow> js_error + json" where
  "json_delete field v = (case v of
     J_obj ps \<Rightarrow> Inr (J_obj (filter (\<lambda>p. fst p \<noteq> field) ps))
   | J_arr xs \<Rightarrow> if array_index field \<and> read_nat field < length xs then Inr (J_arr (xs[read_nat field := J_null])) else Inr v
   | J_str s \<Rightarrow> if field = ''length'' \<or> (array_index field \<and> read_nat field < length s) then Inl TypeError else Inr v
   | _ \<Rightarrow> Inr v)"

datatype StorageUpdateAction = SU_add | SU_delete

definition updated_json :: "json \<Rightarrow> string \<Rightarrow> json \<Rightarrow> StorageUpdateAction \<Rightarrow> js_error + json" where
  "updated_json v0 field data action = (let v = (if falsy v0 then J_obj [] else v0)
     in case action of SU_add \<Rightarrow> json_set field data v | SU_delete \<Rightarrow> json_delete field v)"

definition backend_update ::
  "(string \<Rightarrow> js_error + json) \<Rightarrow> ('s \<Rightarrow> string \<Rightarrow> js_error + string) \<Rightarrow> ('s \<Rightarrow> string \<Rightarrow> string \<Rightarrow> 's)
   \<Rightarrow> 's \<Rightarrow> string \<Rightarrow> string \<Rightarrow> json \<Rightarrow> StorageUpdateAction \<Rightarrow> js_error + 's"
where
  "backend_update parse read store s key field data action =
     bindR (backend_load parse read s key) (\<lambda>v0. bindR (updated_json v0 field data action) (\<lambda>v.
       Inr (backend_dump store s key v)))"

end
