(* ===== verification/Rmb.thy ===== *)
theory Rmb
  imports Storage
begin

text \<open>
  \<open>rmb_direct_client/lib\<close>: the client of the reliable message bus (\<open>client.ts\<close>), its envelopes
  (\<open>envelope.ts\<close>), signatures (\<open>sign.ts\<close>) and helpers (\<open>util.ts\<close>), and the requests of the grid client
  (\<open>grid_client/src/clients/rmb/client.ts\<close>).  The socket is the parameter \<open>rmb_env\<close>: what arrives while
  the client sleeps.  Its connection is in \<open>RmbConnection\<close>.
\<close>

subsection \<open>Envelopes\<close>

text \<open>The messages of \<open>types.proto\<close>: at most one message and at most one payload.\<close>

record Address =
  ad_twin :: int
  ad_connection :: string

datatype message = M_none | M_request string | M_response | M_error int string | M_ping | M_pong

datatype payload = P_none | P_plain bytes | P_cipher bytes

record Envelope =
  en_uid :: string
  en_tags :: string
  en_timestamp :: int
  en_expiration :: int
  en_source :: Address
  en_destination :: Address
  en_message :: message
  en_signature :: bytes
  en_schema :: string
  en_federation :: string
  en_payload :: payload
  en_relays :: "string list"

definition plain_of :: "Envelope \<Rightarrow> bytes" where
  "plain_of env = (case en_payload env of P_plain bs \<Rightarrow> bs | _ \<Rightarrow> [])"

definition cipher_of :: "Envelope \<Rightarrow> bytes" where
  "cipher_of env = (case en_payload env of P_cipher bs \<Rightarrow> bs | _ \<Rightarrow> [])"

text \<open>The constructor of \<open>ClientEnvelope\<close>: every envelope gets the schema of JSON, empty payloads are dropped.\<close>

definition client_envelope :: "Envelope \<Rightarrow> Envelope" where
  "client_envelope env = env\<lparr>en_schema := ''application/json'',
     en_payload := (if plain_of env \<noteq> [] then P_plain (plain_of env)
                    else if cipher_of env \<noteq> [] then P_cipher (cipher_of env) else P_none)\<rparr>"

subsection \<open>The outside\<close>

text \<open>
  The packages for hashing, key pairs, AES and curves, the clock in milliseconds, the chain at that
  moment, and the socket: what arrives during a second of sleep, whether it is open, what waiting for
  it to open and sending do.
\<close>

record 'w rmb_env =
  r_utf8 :: "string \<Rightarrow> bytes"
  r_text :: "bytes \<Rightarrow> string"
  r_json :: "string \<Rightarrow> js_error + json"
  r_md5 :: "bytes \<Rightarrow> bytes"
  r_sign :: "string \<Rightarrow> KeypairType \<Rightarrow> bytes \<Rightarrow> js_error + bytes"
  r_verify :: "KeypairType \<Rightarrow> string \<Rightarrow> bytes \<Rightarrow> bytes \<Rightarrow> js_error + bool"
  r_mnemonic :: "string \<Rightarrow> bool"
  r_mini_secret :: "string \<Rightarrow> bytes"
  r_is_address :: "string \<Rightarrow> bool"
  r_public :: "string + bytes \<Rightarrow> js_error + bytes"
  r_point :: "string + bytes \<Rightarrow> bytes \<Rightarrow> js_error + bytes"
  r_sha256 :: "bytes \<Rightarrow> bytes"
  r_seal :: "bytes \<Rightarrow> bytes \<Rightarrow> bytes \<Rightarrow> js_error + bytes"
  r_unseal :: "bytes \<Rightarrow> bytes \<Rightarrow> bytes \<Rightarrow> js_error + bytes"
  r_random :: "nat \<Rightarrow> rat"
  r_uuid :: "'w \<Rightarrow> string"
  r_now :: "'w \<Rightarrow> int"
  r_pallets :: "'w \<Rightarrow> pallet_env"
  r_sleep :: "'w \<Rightarrow> Envelope list \<times> 'w"
  r_is_open :: "'w \<Rightarrow> bool"
  r_wait_open :: "'w \<Rightarrow> bool \<times> 'w"
  r_reopen :: "'w \<Rightarrow> (js_error + unit) \<times> 'w"
  r_transmit :: "Envelope \<Rightarrow> 'w \<Rightarrow> (js_error + unit) \<times> 'w"

record 'w rmb_state =
  rs_twins :: "(int \<times> Twin option \<times> int) list"
  rs_responses :: "(string \<times> Envelope) list"
  rs_world :: 'w

record rmb_client =
  rc_twin :: Twin
  rc_secret :: string
  rc_keypairType :: KeypairType
  rc_session :: string

subsection \<open>Keys and helpers\<close>

definition starts_0x :: "string \<Rightarrow> bool" where
  "starts_0x s \<longleftrightarrow> take 2 s = ''0x''"

definition getPublicKey :: "'w rmb_env \<Rightarrow> string + bytes \<Rightarrow> js_error + string" where
  "getPublicKey r priv = bindR (r_public r priv) (\<lambda>pk. Inr (''0x'' @ to_hex pk))"

definition generatePublicKey :: "'w rmb_env \<Rightarrow> string \<Rightarrow> js_error + string" where
  "generatePublicKey r secret =
     (if r_mnemonic r secret then getPublicKey r (Inr (r_mini_secret r secret))
      else (let priv = (if starts_0x secret then drop 2 secret else secret) in
        if \<not> isValidSeed priv \<or> length priv \<noteq> 64
        then Inl (ValidationError (''Invalid seed. Couldn'' @ apos # ''t get public key from the provided seed.''))
        else getPublicKey r (Inl priv)))"

text \<open>The pairs of hexadecimal digits, from the left, whatever is between them.\<close>

fun hex_pairs :: "string \<Rightarrow> 8 word list" where
  "hex_pairs (a # b # s) =
     (if is_hex_digit a \<and> is_hex_digit b then parse_pair a b # hex_pairs s else hex_pairs (b # s))"
| "hex_pairs _ = []"

definition hexStringToArrayBuffer :: "string \<Rightarrow> js_error + bytes" where
  "hexStringToArrayBuffer s =
     (let bs = hex_pairs (if starts_0x s then drop 2 s else s) in if bs = [] then Inl TypeError else Inr bs)"

definition wordArrayToUint8Array :: "32 word list \<Rightarrow> nat \<Rightarrow> js_error + bytes" where
  "wordArrayToUint8Array ws sigBytes = Inr (map (\<lambda>i.
     if i div 4 < length ws then ucast (drop_bit (24 - (i mod 4) * 8) (ws ! (i div 4))) else 0) [0..<sigBytes])"

text \<open>
  A twin of the chain or the one that was kept.  The time it was kept at is in seconds and read as
  milliseconds.
\<close>

definition js_round :: "int \<Rightarrow> int \<Rightarrow> int" where
  "js_round a b = (2 * a + b) div (2 * b)"

definition getTwin :: "'w rmb_env \<Rightarrow> int \<Rightarrow> ('w rmb_state, js_error, Twin option) eff" where
  "getTwin r i = (\<lambda>s.
     let now = r_now r (rs_world s); mapped = map_of (rs_twins s) i;
         isValid = (case mapped of Some (_, ts) \<Rightarrow> ts \<noteq> 0 \<and> ts < now - 600000 | None \<Rightarrow> False)
     in case mapped of
          Some (t, _) \<Rightarrow> if isValid then (Inr t, s)
            else (case twin_get (r_pallets r (rs_world s)) (Some i) of
                Inl e \<Rightarrow> (Inl e, s)
              | Inr t' \<Rightarrow> (Inr t', s\<lparr>rs_twins := obj_set i (t', js_round now 1000) (rs_twins s)\<rparr>))
        | None \<Rightarrow> (case twin_get (r_pallets r (rs_world s)) (Some i) of
                Inl e \<Rightarrow> (Inl e, s)
              | Inr t' \<Rightarrow> (Inr t', s\<lparr>rs_twins := obj_set i (t', js_round now 1000) (rs_twins s)\<rparr>)))"

subsection \<open>Signing and verifying\<close>

definition rmb_sign :: "'w rmb_env \<Rightarrow> string \<Rightarrow> KeypairType \<Rightarrow> bytes \<Rightarrow> js_error + bytes" where
  "rmb_sign r secret kt data = bindR (r_sign r secret kt data) (\<lambda>sig.
     Inr (of_nat (of_char (if kt = KP_sr25519 then CHR ''s'' else CHR ''e'')) # sig))"

definition createShared :: "'w rmb_env \<Rightarrow> bytes \<Rightarrow> string \<Rightarrow> js_error + bytes" where
  "createShared r pubKey secret =
     bindR (if length secret = 66 \<and> r_is_address r secret then Inr (Inl (drop 2 secret))
            else if length secret = 64 \<and> r_is_address r (''0x'' @ secret) then Inr (Inl secret)
            else if r_mnemonic r secret then Inr (Inr (take 32 (r_mini_secret r secret)))
            else Inl (ValidationError (''Expected a valid mnemonic or hexSeed in '' @ [CHR 0x22] @ ''createShared'' @ [CHR 0x22]
                   @ '' but got '' @ [CHR 0x22] @ secret @ [CHR 0x22] @ ''.'')))
       (\<lambda>priv. bindR (r_point r priv pubKey) (\<lambda>p. Inr (r_sha256 r (take 32 (drop 1 p)))))"

definition challengeAddress :: "Address \<Rightarrow> string" where
  "challengeAddress a = show_int (ad_twin a) @ ad_connection a"

definition challenge_message :: "message \<Rightarrow> string" where
  "challenge_message m = (case m of M_request c \<Rightarrow> c | M_error code text \<Rightarrow> show_int code @ text | _ \<Rightarrow> [])"

definition challenge_bytes :: "'w rmb_env \<Rightarrow> Envelope \<Rightarrow> bytes" where
  "challenge_bytes r env =
     concat (map (r_utf8 r) [en_uid env, en_tags env, show_int (en_timestamp env), show_int (en_expiration env),
        challengeAddress (en_source env), challengeAddress (en_destination env), challenge_message (en_message env),
        en_schema env, en_federation env])
     @ (if plain_of env \<noteq> [] then plain_of env else cipher_of env)
     @ concat (map (r_utf8 r) (en_relays env))"

definition rmb_challenge :: "'w rmb_env \<Rightarrow> Envelope \<Rightarrow> bytes" where
  "rmb_challenge r env = r_md5 r (challenge_bytes r env)"

definition signEnvelope :: "'w rmb_env \<Rightarrow> rmb_client \<Rightarrow> Envelope \<Rightarrow> js_error + bytes" where
  "signEnvelope r c env = rmb_sign r (rc_secret c) (rc_keypairType c) (rmb_challenge r env)"

text \<open>\<open>verify\<close>: whatever is thrown counts as not verified; the twin of the sender is kept for decrypting.\<close>

definition signature_type :: "bytes \<Rightarrow> KeypairType option" where
  "signature_type sig = (case sig of [] \<Rightarrow> None
     | b # _ \<Rightarrow> if b = of_nat (of_char (CHR ''e'')) then Some KP_ed25519
         else if b = of_nat (of_char (CHR ''s'')) then Some KP_sr25519 else None)"

definition rmb_verify :: "'w rmb_env \<Rightarrow> Envelope \<Rightarrow> ('w rmb_state, js_error, Twin option) eff" where
  "rmb_verify r env = (\<lambda>s. case signature_type (en_signature env) of
     None \<Rightarrow> (Inr None, s)
   | Some kt \<Rightarrow> (case getTwin r (ad_twin (en_source env)) s of
       (Inl _, s') \<Rightarrow> (Inr None, s')
     | (Inr None, s') \<Rightarrow> (Inr None, s')
     | (Inr (Some t), s') \<Rightarrow>
         (case r_verify r kt (tw_accountId t) (rmb_challenge r env) (drop 1 (en_signature env)) of
            Inr True \<Rightarrow> (Inr (Some t), s') | _ \<Rightarrow> (Inr None, s'))))"

subsection \<open>Encrypting\<close>

text \<open>\<open>Math.random() * 10\<close>, stored in a byte.\<close>

definition createNonce :: "'w rmb_env \<Rightarrow> nat \<Rightarrow> bytes" where
  "createNonce r n = map (\<lambda>i. of_int \<lfloor>r_random r i * 10\<rfloor>) [0..<n]"

definition rmb_encrypt :: "'w rmb_env \<Rightarrow> string \<Rightarrow> string \<Rightarrow> string \<Rightarrow> js_error + bytes" where
  "rmb_encrypt r requestData secret destPk =
     bindR (hexStringToArrayBuffer destPk) (\<lambda>pubKey. bindR (createShared r pubKey secret) (\<lambda>shared.
       let nonce = createNonce r 12
       in bindR (r_seal r (r_utf8 r requestData) shared nonce) (\<lambda>c. Inr (nonce @ c))))"

definition rmb_decrypt :: "'w rmb_env \<Rightarrow> bytes \<Rightarrow> string \<Rightarrow> string \<Rightarrow> js_error + bytes" where
  "rmb_decrypt r cipher secret pk =
     bindR (hexStringToArrayBuffer pk) (\<lambda>pubKey. bindR (createShared r pubKey secret) (\<lambda>shared.
       r_unseal r (drop 12 cipher) shared (take 12 cipher)))"

subsection \<open>Sending\<close>

text \<open>
  \<open>while (readyState != OPEN && retries >= retriesCount++)\<close>: wait for the socket; the attempt numbered
  \<open>retries\<close> gives up, the ones before it open a new socket.
\<close>

definition rmb_world :: "('w \<Rightarrow> (js_error + 'a) \<times> 'w) \<Rightarrow> ('w rmb_state, js_error, 'a) eff" where
  "rmb_world f = (\<lambda>s. let (x, w) = f (rs_world s) in (x, s\<lparr>rs_world := w\<rparr>))"

function await_open :: "'w rmb_env \<Rightarrow> int \<Rightarrow> int \<Rightarrow> ('w rmb_state, js_error, unit) eff" where
  "await_open r retries tries = (\<lambda>s.
     if r_is_open r (rs_world s) \<or> retries < tries then (Inr (), s)
     else (case r_wait_open r (rs_world s) of
         (True, w) \<Rightarrow> await_open r retries (tries + 1) (s\<lparr>rs_world := w\<rparr>)
       | (False, w) \<Rightarrow>
           if retries = tries + 1
           then (Inl (ConnectionError (''Failed to open connection after try for '' @ show_int (tries + 1) @ '' times.'')),
                 s\<lparr>rs_world := w\<rparr>)
           else (case r_reopen r w of
               (Inl e, w') \<Rightarrow> (Inl e, s\<lparr>rs_world := w'\<rparr>)
             | (Inr _, w') \<Rightarrow> await_open r retries (tries + 1) (s\<lparr>rs_world := w'\<rparr>))))"
  by pat_completeness auto
termination
  by (relation "measure (\<lambda>(_, retries, tries). nat (retries + 1 - tries))") auto

declare await_open.simps [simp del]

text \<open>\<open>`Unable to send due to ${err}`\<close>.\<close>

definition sending :: "('w rmb_state, js_error, 'a) eff \<Rightarrow> ('w rmb_state, js_error, 'a) eff" where
  "sending m = catchE m (\<lambda>e. throwE (RMBError (''Unable to send due to '' @ error_to_string e)))"

definition own_address :: "rmb_client \<Rightarrow> Address" where
  "own_address c = \<lparr>ad_twin = tw_id (rc_twin c), ad_connection = rc_session c\<rparr>"

definition new_envelope :: "'w rmb_env \<Rightarrow> rmb_client \<Rightarrow> 'w rmb_state \<Rightarrow> int \<Rightarrow> Address \<Rightarrow> message \<Rightarrow> Envelope" where
  "new_envelope r c s seconds dest m = client_envelope
     \<lparr>en_uid = r_uuid r (rs_world s), en_tags = [], en_timestamp = js_round (r_now r (rs_world s)) 1000,
      en_expiration = seconds, en_source = own_address c, en_destination = dest, en_message = m,
      en_signature = [], en_schema = [], en_federation = [], en_payload = P_none, en_relays = []\<rparr>"

definition payload_for ::
  "'w rmb_env \<Rightarrow> rmb_client \<Rightarrow> Twin \<Rightarrow> string \<Rightarrow> js_error + payload"
where
  "payload_for r c dest data =
     (if data = [] then Inr (P_plain [])
      else if tw_pk dest \<noteq> [] \<and> tw_pk (rc_twin c) \<noteq> []
      then bindR (rmb_encrypt r data (rc_secret c) (tw_pk dest)) (\<lambda>b. Inr (P_cipher b))
      else Inr (P_plain (r_utf8 r data)))"

text \<open>The envelope of a request, signed.\<close>

definition request_envelope ::
  "'w rmb_env \<Rightarrow> rmb_client \<Rightarrow> 'w rmb_state \<Rightarrow> Twin \<Rightarrow> string \<Rightarrow> string \<Rightarrow> int \<Rightarrow> js_error + Envelope"
where
  "request_envelope r c s dest command data seconds =
     (let env = new_envelope r c s seconds \<lparr>ad_twin = tw_id dest, ad_connection = []\<rparr>
                  (if command = [] then M_none else M_request command)
      in bindR (payload_for r c dest data) (\<lambda>p.
           let env' = env\<lparr>en_payload := p, en_relays := split_on (CHR ''_'') (tw_relay (rc_twin c))\<rparr>
           in bindR (signEnvelope r c env') (\<lambda>sig. Inr (env'\<lparr>en_signature := sig\<rparr>))))"

definition post :: "'w rmb_env \<Rightarrow> int \<Rightarrow> Envelope \<Rightarrow> ('w rmb_state, js_error, string) eff" where
  "post r retries env = bindE (await_open r retries 0) (\<lambda>_.
     bindE (modifyE (\<lambda>s. s\<lparr>rs_responses := obj_set (en_uid env) env (rs_responses s)\<rparr>)) (\<lambda>_.
       bindE (rmb_world (r_transmit r env)) (\<lambda>_. retE (en_uid env))))"

definition rmb_send ::
  "'w rmb_env \<Rightarrow> rmb_client \<Rightarrow> string \<Rightarrow> string \<Rightarrow> int \<Rightarrow> int \<Rightarrow> int \<Rightarrow> ('w rmb_state, js_error, string) eff"
where
  "rmb_send r c command data destTwin seconds retries = sending (bindE (getTwin r destTwin) (\<lambda>t. case t of
     None \<Rightarrow> throwE TypeError
   | Some dest \<Rightarrow> (\<lambda>s. case request_envelope r c s dest command data seconds of
       Inl e \<Rightarrow> (Inl e, s) | Inr env \<Rightarrow> post r retries env s)))"

definition rmb_ping :: "'w rmb_env \<Rightarrow> rmb_client \<Rightarrow> int \<Rightarrow> ('w rmb_state, js_error, string) eff" where
  "rmb_ping r c retries = sending (\<lambda>s.
     post r retries (new_envelope r c s 40 \<lparr>ad_twin = 0, ad_connection = []\<rparr> M_ping) s)"

subsection \<open>Receiving\<close>

text \<open>The handler of the socket: only what answers a known request is kept.\<close>

definition onmessage :: "Envelope \<Rightarrow> 'w rmb_state \<Rightarrow> 'w rmb_state" where
  "onmessage env s = (case map_of (rs_responses s) (en_uid env) of
     None \<Rightarrow> s
   | Some _ \<Rightarrow> s\<lparr>rs_responses := obj_set (en_uid env) (client_envelope env) (rs_responses s)\<rparr>)"

definition sleep_second :: "'w rmb_env \<Rightarrow> 'w rmb_state \<Rightarrow> 'w rmb_state" where
  "sleep_second r s = (let (envs, w) = r_sleep r (rs_world s) in foldl (\<lambda>t env. onmessage env t) (s\<lparr>rs_world := w\<rparr>) envs)"

text \<open>A promise: resolved with a value or with a pong, rejected, or never settled.\<close>

datatype outcome = Resolved json | Pong_received | Rejected js_error | Never

definition forget :: "string \<Rightarrow> 'w rmb_state \<Rightarrow> 'w rmb_state" where
  "forget uid s = s\<lparr>rs_responses := filter (\<lambda>p. fst p \<noteq> uid) (rs_responses s)\<rparr>"

text \<open>
  One round of \<open>read\<close>: how the promise settles, if it does.  What is thrown while a payload is decoded
  leaves the promise as it is and the request in the table.
\<close>

definition decode_payload :: "'w rmb_env \<Rightarrow> rmb_client \<Rightarrow> Envelope \<Rightarrow> Twin \<Rightarrow> js_error + json option" where
  "decode_payload r c env t =
     (if plain_of env \<noteq> [] then bindR (r_json r (r_text r (plain_of env))) (\<lambda>v. Inr (Some v))
      else if cipher_of env \<noteq> [] then bindR (rmb_decrypt r (cipher_of env) (rc_secret c) (tw_pk t)) (\<lambda>bs.
        bindR (r_json r (r_text r bs)) (\<lambda>v. Inr (Some v)))
      else Inr None)"

definition read_round ::
  "'w rmb_env \<Rightarrow> rmb_client \<Rightarrow> string \<Rightarrow> 'w rmb_state \<Rightarrow> outcome option \<times> 'w rmb_state"
where
  "read_round r c uid s = (case map_of (rs_responses s) uid of
     None \<Rightarrow> (None, s)
   | Some env \<Rightarrow> (case en_message env of
       M_response \<Rightarrow> (case rmb_verify r env s of
           (Inr (Some t), s') \<Rightarrow> (case decode_payload r c env t of
               Inl _ \<Rightarrow> (Some Never, s')
             | Inr (Some v) \<Rightarrow> (Some (Resolved v), forget uid s')
             | Inr None \<Rightarrow> (None, s'))
         | (_, s') \<Rightarrow> (Some (Rejected (InvalidResponse ''invalid signature, discarding response'')), forget uid s'))
     | M_error code text \<Rightarrow> (Some (Rejected (RMBError (show_int code @ '' '' @ text))), forget uid s)
     | M_pong \<Rightarrow> (Some Pong_received, forget uid s)
     | _ \<Rightarrow> (None, s)))"

text \<open>
  The loop of \<open>read\<close>, with fuel: \<open>env\<close> is the envelope of the round before, whose expiration is the
  limit.  Without an envelope at the end the promise never settles.
\<close>

fun read_rounds ::
  "nat \<Rightarrow> 'w rmb_env \<Rightarrow> rmb_client \<Rightarrow> string \<Rightarrow> int \<Rightarrow> Envelope option \<Rightarrow> 'w rmb_state \<Rightarrow> outcome option \<times> 'w rmb_state"
where
  "read_rounds 0 r c uid start env s = (None, s)"
| "read_rounds (Suc n) r c uid start env s = (case env of
     None \<Rightarrow> (Some Never, s)
   | Some e \<Rightarrow>
       if r_now r (rs_world s) < start + en_expiration e * 1000
       then (case read_round r c uid s of
           (Some out, s') \<Rightarrow> (Some out, s')
         | (None, s') \<Rightarrow> read_rounds n r c uid start (map_of (rs_responses s) uid) (sleep_second r s'))
       else if en_expiration e \<noteq> 0
       then (Some (Rejected (TimeoutError (''Didn'' @ apos # ''t get a response after '' @ show_int (en_expiration e) @ '' seconds''))),
             forget uid s)
       else (Some Never, s))"

definition rmb_read :: "nat \<Rightarrow> 'w rmb_env \<Rightarrow> rmb_client \<Rightarrow> string \<Rightarrow> 'w rmb_state \<Rightarrow> outcome option \<times> 'w rmb_state" where
  "rmb_read fuel r c uid s = read_rounds fuel r c uid (r_now r (rs_world s)) (map_of (rs_responses s) uid) s"

end
