(* ===== verification/RmbConnection.thy ===== *)
theory RmbConnection
  imports Rmb
begin

text \<open>
  \<open>rmb_direct_client/lib/client.ts\<close>, the connection of the client: the clients that share one
  (constructor), the token of the relay, opening the socket, waiting for it, connecting under the lock,
  and leaving.  The socket, the extrinsics of the chain client and its connection are parameters.
  What other calls of the client do while one of these sleeps is \<open>meanwhile\<close>.
\<close>

subsection \<open>The clients that share a connection\<close>

record rmb_config =
  cc_chainUrl :: string
  cc_relayUrl :: string
  cc_mnemonics :: string
  cc_session :: string
  cc_keypairType :: string
  cc_retries :: int

definition connection_key :: "rmb_config \<Rightarrow> string" where
  "connection_key k = cc_relayUrl k @ '':'' @ cc_mnemonics k @ '':'' @ cc_keypairType k"

text \<open>The white space of one byte; and \<open>in KPType\<close>, which also finds what every object has.\<close>

definition is_js_space :: "char \<Rightarrow> bool" where
  "is_js_space c = list_ex (\<lambda>n. of_char c = (n :: nat)) [9, 10, 11, 12, 13, 32, 160]"

definition js_trim :: "string \<Rightarrow> string" where
  "js_trim s = rev (dropWhile is_js_space (rev (dropWhile is_js_space s)))"

definition in_KPType :: "string \<Rightarrow> bool" where
  "in_KPType t = list_ex (\<lambda>k. k = t) [''sr25519'', ''ed25519'', ''constructor'', ''__proto__'']"

text \<open>
  \<open>new Client\<close>: the clients so far, by key, and the client that is returned.  A client is its
  configuration.
\<close>

definition new_client :: "rmb_config \<Rightarrow> (string \<times> rmb_config) list \<Rightarrow> (js_error + rmb_config) \<times> (string \<times> rmb_config) list" where
  "new_client k0 known = (let k = k0\<lparr>cc_retries := (if cc_retries k0 > 0 then cc_retries k0 else 5)\<rparr> in
     case map_of known (connection_key k) of
       Some first \<Rightarrow> (Inr first, known)
     | None \<Rightarrow> if \<not> in_KPType (js_trim (to_lower (cc_keypairType k)))
               then (Inl (ValidationError ''Unsupported Keypair type''), known)
               else (Inr k, obj_set (connection_key k) k known))"

subsection \<open>The state of a connection\<close>

datatype ready = CONNECTING | OPEN | CLOSING | CLOSED

text \<open>What happens to the answers waited for during a sleep: one arrives, a reader takes one, a request is sent.\<close>

datatype meanwhile = Arrives Envelope | Taken string | Requested Envelope

record 'w socket_env =
  so_ready :: "'w \<Rightarrow> nat \<Rightarrow> ready"
  so_sleep :: "nat \<Rightarrow> 'w \<Rightarrow> meanwhile list \<times> 'w"
  so_open :: "string \<Rightarrow> 'w \<Rightarrow> (js_error + nat) \<times> 'w"
  so_close :: "nat \<Rightarrow> 'w \<Rightarrow> 'w"
  so_unlisten :: "nat \<Rightarrow> 'w \<Rightarrow> 'w"
  so_chain :: "'w \<Rightarrow> (js_error + unit) \<times> 'w"
  so_chain_leave :: "'w \<Rightarrow> (js_error + unit) \<times> 'w"
  so_signer :: "string \<Rightarrow> string \<Rightarrow> js_error + (string \<times> KeypairType)"
  so_update :: "string \<Rightarrow> string \<Rightarrow> 'w \<Rightarrow> (js_error + unit) \<times> 'w"
  so_base64url :: "bytes \<Rightarrow> string"

text \<open>
  A client: its twins, its table of answers and the world (\<open>co_rmb\<close>), the socket, the signer, the
  twin, the address it sends from, whether the timer of pings is set, and how often it was left without
  waiting for it.  The lock is shared by all clients.
\<close>

record 'w rmb_connection =
  co_rmb :: "'w rmb_state"
  co_con :: "nat option"
  co_signer :: "(string \<times> KeypairType) option"
  co_twin :: "Twin option"
  co_source :: Address
  co_pinging :: bool
  co_leaving :: nat
  co_lock :: bool

type_synonym ('w, 'a) conn_eff = "('w rmb_connection, js_error, 'a) eff"

definition the_world :: "'w rmb_connection \<Rightarrow> 'w" where
  "the_world c = rs_world (co_rmb c)"

definition set_world :: "'w \<Rightarrow> 'w rmb_connection \<Rightarrow> 'w rmb_connection" where
  "set_world w c = c\<lparr>co_rmb := (co_rmb c)\<lparr>rs_world := w\<rparr>\<rparr>"

definition outside :: "('w \<Rightarrow> (js_error + 'a) \<times> 'w) \<Rightarrow> ('w, 'a) conn_eff" where
  "outside f = (\<lambda>c. let (x, w) = f (the_world c) in (x, set_world w c))"

text \<open>The state of the socket; without one it is \<open>undefined\<close>.\<close>

definition con_ready :: "'w socket_env \<Rightarrow> 'w rmb_connection \<Rightarrow> ready option" where
  "con_ready so c = map_option (so_ready so (the_world c)) (co_con c)"

subsection \<open>Sleeping and waiting\<close>

fun happen :: "meanwhile \<Rightarrow> 'w rmb_state \<Rightarrow> 'w rmb_state" where
  "happen (Arrives env) s = onmessage env s"
| "happen (Taken uid) s = forget uid s"
| "happen (Requested env) s = s\<lparr>rs_responses := obj_set (en_uid env) env (rs_responses s)\<rparr>"

definition sleep_for :: "'w socket_env \<Rightarrow> nat \<Rightarrow> 'w rmb_connection \<Rightarrow> 'w rmb_connection" where
  "sleep_for so ms c = (let (evs, w) = so_sleep so ms (the_world c)
     in c\<lparr>co_rmb := foldl (\<lambda>s ev. happen ev s) ((co_rmb c)\<lparr>rs_world := w\<rparr>) evs\<rparr>)"

text \<open>The interval of \<open>waitForOpenConnection\<close>: a tick every half second, as many as are left.\<close>

fun open_ticks :: "nat \<Rightarrow> 'w socket_env \<Rightarrow> ('w, unit) conn_eff" where
  "open_ticks 0 so = bindE (modifyE (sleep_for so 500)) (\<lambda>_.
     throwE (ConnectionError ''Maximum number of attempts exceeded''))"
| "open_ticks (Suc n) so = bindE (modifyE (sleep_for so 500)) (\<lambda>_.
     bindE (getE (con_ready so)) (\<lambda>st. if st = Some OPEN then retE () else open_ticks n so))"

definition waitForOpenConnection :: "'w socket_env \<Rightarrow> ('w, unit) conn_eff" where
  "waitForOpenConnection so = open_ticks 20 so"

definition dropPingEnvelope :: "'w rmb_connection \<Rightarrow> 'w rmb_connection" where
  "dropPingEnvelope c = c\<lparr>co_rmb := (co_rmb c)\<lparr>rs_responses :=
     filter (\<lambda>p. en_message (snd p) \<noteq> M_ping) (rs_responses (co_rmb c))\<rparr>\<rparr>"

text \<open>The loop of \<open>waitForResponses\<close>, with fuel, until \<open>limit\<close>.\<close>

fun response_rounds :: "nat \<Rightarrow> 'w rmb_env \<Rightarrow> 'w socket_env \<Rightarrow> int \<Rightarrow> ('w, unit) conn_eff" where
  "response_rounds 0 r so limit = throwE diverges"
| "response_rounds (Suc n) r so limit = bindE (getE (\<lambda>c. r_now r (the_world c))) (\<lambda>now.
     if now < limit
     then bindE (modifyE dropPingEnvelope) (\<lambda>_. bindE (getE (\<lambda>c. rs_responses (co_rmb c))) (\<lambda>rs.
       if rs = [] then retE ()
       else bindE (modifyE (sleep_for so 1000)) (\<lambda>_. response_rounds n r so limit)))
     else modifyE (\<lambda>c. c\<lparr>co_rmb := (co_rmb c)\<lparr>rs_responses := []\<rparr>\<rparr>))"

definition waitForResponses :: "nat \<Rightarrow> 'w rmb_env \<Rightarrow> 'w socket_env \<Rightarrow> int \<Rightarrow> ('w, unit) conn_eff" where
  "waitForResponses fuel r so timeoutInSeconds = bindE (getE (\<lambda>c. r_now r (the_world c))) (\<lambda>start.
     response_rounds fuel r so (start + timeoutInSeconds * 1000))"

subsection \<open>Opening the socket\<close>

definition createSigner :: "'w socket_env \<Rightarrow> rmb_config \<Rightarrow> ('w, unit) conn_eff" where
  "createSigner so k = bindE (liftE (so_signer so (cc_keypairType k) (cc_mnemonics k))) (\<lambda>sg.
     modifyE (\<lambda>c. c\<lparr>co_signer := Some sg\<rparr>))"

definition updateSource :: "rmb_config \<Rightarrow> ('w, unit) conn_eff" where
  "updateSource k = bindE (getE co_twin) (\<lambda>t. case t of
     None \<Rightarrow> throwE TypeError
   | Some twin \<Rightarrow> modifyE (\<lambda>c. c\<lparr>co_source := \<lparr>ad_twin = tw_id twin, ad_connection = cc_session k\<rparr>\<rparr>))"

text \<open>\<open>Math.ceil(a / b)\<close>.\<close>

definition js_ceil :: "int \<Rightarrow> int \<Rightarrow> int" where
  "js_ceil a b = - ((- a) div b)"

definition token_claims :: "int \<Rightarrow> int \<Rightarrow> string \<Rightarrow> json" where
  "token_claims twin now session = J_obj [(''sub'', J_num twin), (''iat'', J_num now), (''exp'', J_num (now + 1000)), (''sid'', J_str session)]"

definition newJWT :: "'w rmb_env \<Rightarrow> 'w socket_env \<Rightarrow> rmb_config \<Rightarrow> string \<Rightarrow> ('w, string) conn_eff" where
  "newJWT r so k session = (\<lambda>c.
     let enc = (\<lambda>j. so_base64url so (r_utf8 r (stringify j))); now = js_ceil (r_now r (the_world c)) 1000 in
     (case (co_twin c, co_signer c) of
        (Some twin, Some (_, kt)) \<Rightarrow>
          let jwt = enc (J_obj [(''alg'', J_str ''RS512''), (''typ'', J_str ''JWT'')]) @ ''.'' @ enc (token_claims (tw_id twin) now session)
          in bindR (rmb_sign r (cc_mnemonics k) kt (r_utf8 r jwt)) (\<lambda>sig. Inr (jwt @ ''.'' @ so_base64url so sig))
      | _ \<Rightarrow> Inl TypeError, c))"

definition updateUrl :: "'w rmb_env \<Rightarrow> 'w socket_env \<Rightarrow> rmb_config \<Rightarrow> ('w, string) conn_eff" where
  "updateUrl r so k = bindE (newJWT r so k (cc_session k)) (\<lambda>token. retE (cc_relayUrl k @ ''?'' @ token))"

definition close_unless_closed :: "'w socket_env \<Rightarrow> 'w rmb_connection \<Rightarrow> 'w rmb_connection" where
  "close_unless_closed so c = (case co_con c of
     None \<Rightarrow> c
   | Some s \<Rightarrow> if con_ready so c \<noteq> Some CLOSED then set_world (so_close so s (the_world c)) c else c)"

definition createConnection :: "'w rmb_env \<Rightarrow> 'w socket_env \<Rightarrow> rmb_config \<Rightarrow> ('w, unit) conn_eff" where
  "createConnection r so k = bindE (modifyE (close_unless_closed so)) (\<lambda>_. catchE
     (bindE (updateUrl r so k) (\<lambda>url. bindE (outside (so_open so url)) (\<lambda>s. modifyE (\<lambda>c. c\<lparr>co_con := Some s\<rparr>))))
     (\<lambda>e. throwE (ConnectionError (''Unable to create websocket connection due to '' @ error_to_string e))))"

subsection \<open>Connecting\<close>

text \<open>\<open>s.replace(sub, "")\<close>: the first occurrence.\<close>

fun drop_first :: "string \<Rightarrow> string \<Rightarrow> string" where
  "drop_first u [] = []"
| "drop_first u (c # s) = (if prefix u (c # s) then drop (length u) (c # s) else c # drop_first u s)"

definition relayHostName :: "rmb_config \<Rightarrow> string" where
  "relayHostName k = drop_first ''/'' (drop_first ''wss://'' (cc_relayUrl k))"

definition rmb_client_of :: "rmb_config \<Rightarrow> 'w rmb_connection \<Rightarrow> rmb_client option" where
  "rmb_client_of k c = (case (co_twin c, co_signer c) of
     (Some twin, Some (_, kt)) \<Rightarrow> Some \<lparr>rc_twin = twin, rc_secret = cc_mnemonics k, rc_keypairType = kt, rc_session = cc_session k\<rparr>
   | _ \<Rightarrow> None)"

text \<open>\<open>__pingPong\<close>, which is not waited for: the first ping; what it throws, nobody sees.\<close>

definition start_pings :: "'w rmb_env \<Rightarrow> rmb_config \<Rightarrow> 'w rmb_connection \<Rightarrow> 'w rmb_connection" where
  "start_pings r k c = (case rmb_client_of k c of
     None \<Rightarrow> c
   | Some cl \<Rightarrow> c\<lparr>co_rmb := snd (rmb_ping r cl (cc_retries k) (co_rmb c)), co_pinging := False\<rparr>)"

text \<open>The twin on the chain gets the key and the relay of the client; its copy here, which is the one kept too, the key.\<close>

definition publish_key :: "'w rmb_env \<Rightarrow> 'w socket_env \<Rightarrow> rmb_config \<Rightarrow> ('w, unit) conn_eff" where
  "publish_key r so k = bindE (liftE (generatePublicKey r (cc_mnemonics k))) (\<lambda>pk. bindE (getE co_twin) (\<lambda>t. case t of
     None \<Rightarrow> throwE TypeError
   | Some twin \<Rightarrow>
       if tw_pk twin \<noteq> pk \<or> tw_relay twin \<noteq> relayHostName k
       then bindE (outside (so_update so pk (relayHostName k))) (\<lambda>_. modifyE (\<lambda>c. c\<lparr>co_twin := Some (twin\<lparr>tw_pk := pk\<rparr>),
              co_rmb := (co_rmb c)\<lparr>rs_twins := map (\<lambda>(i, t, ts). if i = tw_id twin then (i, Some (twin\<lparr>tw_pk := pk\<rparr>), ts) else (i, t, ts))
                                     (rs_twins (co_rmb c))\<rparr>\<rparr>))
       else retE ()))"

definition establish :: "'w rmb_env \<Rightarrow> 'w socket_env \<Rightarrow> rmb_config \<Rightarrow> ('w, unit) conn_eff" where
  "establish r so k = bindE (updateSource k) (\<lambda>_. bindE (createConnection r so k) (\<lambda>_.
     bindE (waitForOpenConnection so) (\<lambda>_. bindE (modifyE (start_pings r k)) (\<lambda>_. publish_key r so k))))"

definition unable :: "rmb_config \<Rightarrow> string" where
  "unable k = ''Unable to establish a connection with the RMB server '' @ drop_first ''wss://'' (cc_relayUrl k)"

definition check_internet :: string where
  "check_internet = ''Please check your internet connection and try again. If the problem persists, please contact our support.''"

text \<open>After an error: \<open>disconnect\<close> is started, unless there was not enough balance, and not waited for.\<close>

definition establish_failed :: "rmb_config \<Rightarrow> js_error \<Rightarrow> ('w, unit) conn_eff" where
  "establish_failed k err =
     (if err_class err = C_Generic G_InsufficientBalanceError then throwE err
      else bindE (modifyE (\<lambda>c. c\<lparr>co_leaving := Suc (co_leaving c)\<rparr>)) (\<lambda>_. throwE
        (if err_class err = C_Generic G_TwinNotExistError then err
         else if is_base_error err
         then err\<lparr>err_message := unable k @ [newline, CHR 0x09] @ err_message err @ [newline, CHR 0x09] @ check_internet\<rparr>
         else RMBError (unable k @ ''. '' @ check_internet))))"

text \<open>The twin of the signer, kept with the moment it was read, in seconds.\<close>

definition own_twin :: "'w rmb_env \<Rightarrow> ('w, unit) conn_eff" where
  "own_twin r = (\<lambda>c. let e = r_pallets r (the_world c) in
     case bindR (getTwinIdByAccountId e (case co_signer c of Some (addr, _) \<Rightarrow> addr | None \<Rightarrow> [])) (\<lambda>i.
            if i = 0 then Inl (TwinNotExistError (''Couldn'' @ apos # ''t find a user for the provided mnemonic on this network.''))
            else twin_get e (Some i)) of
       Inl err \<Rightarrow> (Inl err, c)
     | Inr None \<Rightarrow> (Inl TypeError, c\<lparr>co_twin := None\<rparr>)
     | Inr (Some twin) \<Rightarrow> (Inr (), c\<lparr>co_twin := Some twin, co_rmb := (co_rmb c)\<lparr>rs_twins :=
         obj_set (tw_id twin) (Some twin, js_round (r_now r (the_world c)) 1000) (rs_twins (co_rmb c))\<rparr>\<rparr>))"

definition rmb_connect :: "'w rmb_env \<Rightarrow> 'w socket_env \<Rightarrow> rmb_config \<Rightarrow> ('w, unit) conn_eff" where
  "rmb_connect r so k c0 =
     (let (x, c) = (bindE (getE (con_ready so)) (\<lambda>st. if st = Some OPEN then retE ()
        else bindE (outside (so_chain so)) (\<lambda>_. bindE (createSigner so k) (\<lambda>_. bindE (own_twin r) (\<lambda>_.
          catchE (establish r so k) (establish_failed k)))))) (c0\<lparr>co_lock := True\<rparr>)
      in (x, c\<lparr>co_lock := False\<rparr>))"

text \<open>\<open>reconnect\<close>: what \<open>connect\<close> throws, nobody sees.\<close>

definition reconnect :: "'w rmb_env \<Rightarrow> 'w socket_env \<Rightarrow> rmb_config \<Rightarrow> 'w rmb_connection \<Rightarrow> 'w rmb_connection" where
  "reconnect r so k c = snd (rmb_connect r so k c)"

text \<open>
  \<open>__pingPong\<close> as a whole, with fuel for the reading: when the answer is in or refused the timer is set,
  a refusal also reconnects; a ping that cannot be sent, or is never settled, sets no timer.  And what
  the timer does.
\<close>

definition ping_round :: "nat \<Rightarrow> 'w rmb_env \<Rightarrow> 'w socket_env \<Rightarrow> rmb_config \<Rightarrow> 'w rmb_connection \<Rightarrow> 'w rmb_connection" where
  "ping_round fuel r so k c0 = (let c = c0\<lparr>co_pinging := False\<rparr> in case rmb_client_of k c of
     None \<Rightarrow> c
   | Some cl \<Rightarrow> (case rmb_ping r cl (cc_retries k) (co_rmb c) of
       (Inl e, s) \<Rightarrow> c\<lparr>co_rmb := s\<rparr>
     | (Inr uid, s) \<Rightarrow> (case rmb_read fuel r cl uid s of
         (Some (Rejected e), s') \<Rightarrow> reconnect r so k (c\<lparr>co_rmb := s', co_pinging := True\<rparr>)
       | (Some (Resolved j), s') \<Rightarrow> c\<lparr>co_rmb := s', co_pinging := True\<rparr>
       | (Some Pong_received, s') \<Rightarrow> c\<lparr>co_rmb := s', co_pinging := True\<rparr>
       | (_, s') \<Rightarrow> c\<lparr>co_rmb := s'\<rparr>)))"

definition ping_timer :: "nat \<Rightarrow> 'w rmb_env \<Rightarrow> 'w socket_env \<Rightarrow> rmb_config \<Rightarrow> 'w rmb_connection \<Rightarrow> 'w rmb_connection" where
  "ping_timer fuel r so k c = (if con_ready so c = Some OPEN then ping_round fuel r so k c else c\<lparr>co_pinging := False\<rparr>)"

subsection \<open>Leaving\<close>

definition rmb_disconnect :: "nat \<Rightarrow> 'w rmb_env \<Rightarrow> 'w socket_env \<Rightarrow> ('w, unit) conn_eff" where
  "rmb_disconnect fuel r so = bindE (getE (con_ready so)) (\<lambda>st.
     bindE (if st = Some CONNECTING then waitForOpenConnection so else retE ()) (\<lambda>_.
       bindE (modifyE (\<lambda>c. (case co_con c of None \<Rightarrow> c | Some s \<Rightarrow> set_world (so_unlisten so s (the_world c)) c)\<lparr>co_pinging := False\<rparr>)) (\<lambda>_.
         bindE (waitForResponses fuel r so (2 * 60)) (\<lambda>_. bindE (outside (so_chain_leave so)) (\<lambda>_.
           modifyE (close_unless_closed so))))))"

text \<open>
  The connection of the client of the message bus: how long it waits, what is left behind, who shares
  it, and what connecting changes.
\<close>

subsection \<open>Sharing\<close>

text \<open>
  A second client for the same relay, words and kind of key is the first one, whatever the chain it
  names: the key of the table leaves the chain (and the session) out.
\<close>

theorem other_chain_same_client:
  assumes "new_client k1 known = (Inr first, known1)" and "connection_key k2 = connection_key k1"
  shows "new_client k2 known1 = (Inr first, known1)"
proof -
  have key: "connection_key (k\<lparr>cc_retries := n\<rparr>) = connection_key k" for k n
    by (simp add: connection_key_def)
  show ?thesis
    using assms by (auto simp: new_client_def key Let_def split: option.splits if_splits)
qed

definition demo_config :: "string \<Rightarrow> rmb_config" where
  "demo_config chain = \<lparr>cc_chainUrl = chain, cc_relayUrl = ''wss://relay.grid.tf/'', cc_mnemonics = ''words'',
     cc_session = ''s'', cc_keypairType = ''sr25519'', cc_retries = 0\<rparr>"

theorem other_chain_same_client_witness:
  "\<exists>known first. new_client (demo_config ''dev'') [] = (Inr first, known)
     \<and> new_client (demo_config ''main'') known = (Inr first, known) \<and> cc_chainUrl first = ''dev''"
proof -
  let ?first = "(demo_config ''dev'')\<lparr>cc_retries := 5\<rparr>"
  let ?key = "''wss://relay.grid.tf/:words:sr25519''"
  have "in_KPType (js_trim (to_lower ''sr25519''))" by code_simp
  then have n: "new_client (demo_config ''dev'') [] = (Inr ?first, [(?key, ?first)])"
    by (simp add: new_client_def demo_config_def connection_key_def Let_def)
  moreover have "connection_key (demo_config ''main'') = connection_key (demo_config ''dev'')"
    by (simp add: demo_config_def connection_key_def)
  ultimately show ?thesis using other_chain_same_client [OF n] by (auto simp: demo_config_def)
qed

subsection \<open>Waiting for the socket\<close>

lemma find_upt_Suc: "find P (map Suc ns) = map_option Suc (find (\<lambda>n. P (Suc n)) ns)"
  by (induction ns) simp_all

lemma open_ticks_find:
  "open_ticks n so c = (case find (\<lambda>i. con_ready so ((sleep_for so 500 ^^ i) c) = Some OPEN) [1..<Suc n] of
     Some i \<Rightarrow> (Inr (), (sleep_for so 500 ^^ i) c)
   | None \<Rightarrow> (Inl (ConnectionError ''Maximum number of attempts exceeded''), (sleep_for so 500 ^^ Suc n) c))"
proof (induction n arbitrary: c)
  case 0
  then show ?case by (simp add: bindE_app)
next
  case (Suc n)
  have l: "[1..<Suc (Suc n)] = 1 # map Suc [1..<Suc n]"
    using upt_conv_Cons [of 1 "Suc (Suc n)"] map_Suc_upt [of 1 "Suc n"] by (simp del: upt_Suc)
  show ?case
    unfolding l find.simps find_upt_Suc
    by (simp add: bindE_app Suc.IH funpow_swap1 del: upt_Suc split: option.splits)
qed

text \<open>
  \<open>waitForOpenConnection\<close> looks at the socket after each of the first twenty half seconds and settles
  at the first at which it is open; one half second later it rejects, without looking.
\<close>

theorem waits_ten_seconds:
  "waitForOpenConnection so c = (case find (\<lambda>i. con_ready so ((sleep_for so 500 ^^ i) c) = Some OPEN) [1..<21] of
     Some i \<Rightarrow> (Inr (), (sleep_for so 500 ^^ i) c)
   | None \<Rightarrow> (Inl (ConnectionError ''Maximum number of attempts exceeded''), (sleep_for so 500 ^^ 21) c))"
proof -
  have n: "Suc 20 = 21" by simp
  show ?thesis unfolding waitForOpenConnection_def open_ticks_find n ..
qed

subsection \<open>Leaving\<close>

lemma happen_world [simp]: "rs_world (happen ev s) = rs_world s"
  by (cases ev) (simp_all add: onmessage_def forget_def split: option.splits)

lemma foldl_happen_world [simp]: "rs_world (foldl (\<lambda>s ev. happen ev s) s evs) = rs_world s"
  by (induction evs arbitrary: s) simp_all

lemma world_sleep [simp]: "the_world (sleep_for so ms c) = snd (so_sleep so ms (the_world c))"
  by (simp add: sleep_for_def the_world_def case_prod_beta)

lemma sleep_for_sel [simp]:
  "co_con (sleep_for so ms c) = co_con c" "co_twin (sleep_for so ms c) = co_twin c"
  "co_source (sleep_for so ms c) = co_source c" "co_leaving (sleep_for so ms c) = co_leaving c"
  "co_signer (sleep_for so ms c) = co_signer c"
  by (simp_all add: sleep_for_def case_prod_beta)

lemma drop_ping_sel [simp]:
  "the_world (dropPingEnvelope c) = the_world c" "co_con (dropPingEnvelope c) = co_con c"
  by (simp_all add: dropPingEnvelope_def the_world_def)

text \<open>What is used of the clock: a sleep of a second takes one.\<close>

definition clock_runs :: "'w rmb_env \<Rightarrow> 'w socket_env \<Rightarrow> bool" where
  "clock_runs r so \<longleftrightarrow> (\<forall>w. r_now r w + 1000 \<le> r_now r (snd (so_sleep so 1000 w)))"

lemma response_rounds_end:
  assumes "clock_runs r so" and "limit \<le> r_now r (the_world c) + 1000 * int n"
  shows "\<exists>c'. response_rounds (Suc n) r so limit c = (Inr (), c') \<and> rs_responses (co_rmb c') = [] \<and> co_con c' = co_con c"
  using assms(2)
proof (induction n arbitrary: c)
  case 0
  then show ?case by (simp add: bindE_app)
next
  case (Suc n)
  let ?d = "sleep_for so 1000 (dropPingEnvelope c)"
  from assms(1) have "r_now r (the_world c) + 1000 \<le> r_now r (the_world ?d)" by (simp add: clock_runs_def)
  with Suc.prems have "limit \<le> r_now r (the_world ?d) + 1000 * int n" by simp
  from Suc.IH [OF this] show ?case
    unfolding response_rounds.simps(2) [of "Suc n"]
    by (auto simp: bindE_app simp del: response_rounds.simps)
qed

lemma response_rounds_more:
  "response_rounds n r so limit c = (Inr (), c') \<Longrightarrow> n \<le> m \<Longrightarrow> response_rounds m r so limit c = (Inr (), c')"
proof (induction n arbitrary: m c)
  case (Suc n)
  from Suc.prems(2) obtain m' where m: "m = Suc m'" "n \<le> m'" by (cases m) simp_all
  from Suc.prems(1) Suc.IH m(2) show ?case by (auto simp: m(1) bindE_app split: if_splits)
qed simp

text \<open>
  Waiting for the answers ends after at most 121 looks at the table, which is then empty: what was not
  answered within two minutes is dropped.
\<close>

theorem pending_answers_dropped:
  assumes "clock_runs r so" and "121 \<le> fuel"
  shows "\<exists>c'. waitForResponses fuel r so (2 * 60) c = (Inr (), c') \<and> rs_responses (co_rmb c') = [] \<and> co_con c' = co_con c"
proof -
  let ?limit = "r_now r (the_world c) + 2 * 60 * 1000"
  have "?limit \<le> r_now r (the_world c) + 1000 * int 120" by simp
  from response_rounds_end [OF assms(1) this] obtain c'
    where "response_rounds 121 r so ?limit c = (Inr (), c')" "rs_responses (co_rmb c') = []" "co_con c' = co_con c"
    by auto
  moreover from this(1) have "response_rounds fuel r so ?limit c = (Inr (), c')"
    using assms(2) by (rule response_rounds_more)
  ultimately show ?thesis unfolding waitForResponses_def by (simp add: bindE_app)
qed

text \<open>
  A socket that is not being opened: \<open>disconnect\<close> returns what leaving the chain does, with no request
  left; when that succeeded the socket is closed.
\<close>

lemma con_ready_set_world: "con_ready so (set_world w c) = map_option (so_ready so w) (co_con c)"
  by (simp add: con_ready_def set_world_def the_world_def)

lemma set_world_sel [simp]:
  "co_con (set_world w c) = co_con c" "rs_responses (co_rmb (set_world w c)) = rs_responses (co_rmb c)"
  "the_world (set_world w c) = w" "co_twin (set_world w c) = co_twin c" "co_source (set_world w c) = co_source c"
  "co_leaving (set_world w c) = co_leaving c" "co_signer (set_world w c) = co_signer c"
  by (simp_all add: set_world_def the_world_def)

lemma close_unless_closed_sel [simp]:
  "co_con (close_unless_closed so c) = co_con c" "co_twin (close_unless_closed so c) = co_twin c"
  "rs_responses (co_rmb (close_unless_closed so c)) = rs_responses (co_rmb c)"
  "co_source (close_unless_closed so c) = co_source c" "co_leaving (close_unless_closed so c) = co_leaving c"
  "co_signer (close_unless_closed so c) = co_signer c"
  by (simp_all add: close_unless_closed_def split: option.splits)

theorem leaving_closes:
  assumes "clock_runs r so" and "121 \<le> fuel" and "con_ready so c \<noteq> Some CONNECTING"
    and closing: "\<And>s w. so_ready so (so_close so s w) s \<in> {CLOSING, CLOSED}"
    and "rmb_disconnect fuel r so c = (x, c')"
  shows "rs_responses (co_rmb c') = []" and "x = Inr () \<Longrightarrow> con_ready so c' \<in> {None, Some CLOSING, Some CLOSED}"
proof -
  let ?c = "(case co_con c of None \<Rightarrow> c | Some s \<Rightarrow> set_world (so_unlisten so s (the_world c)) c)\<lparr>co_pinging := False\<rparr>"
  from pending_answers_dropped [OF assms(1,2), of ?c] obtain d
    where d: "waitForResponses fuel r so (2 * 60) ?c = (Inr (), d)" "rs_responses (co_rmb d) = []" by auto
  obtain y w where y: "so_chain_leave so (the_world d) = (y, w)" by fastforce
  have run: "rmb_disconnect fuel r so c = (y, case y of Inl e \<Rightarrow> set_world w d | Inr u \<Rightarrow> close_unless_closed so (set_world w d))"
    using assms(3) d(1) by (simp add: rmb_disconnect_def bindE_app outside_def y split: sum.splits)
  with assms(5) have xc: "y = x" "c' = (case y of Inl e \<Rightarrow> set_world w d | Inr u \<Rightarrow> close_unless_closed so (set_world w d))"
    by auto
  with d(2) show "rs_responses (co_rmb c') = []" by (simp split: sum.splits)
  show "con_ready so c' \<in> {None, Some CLOSING, Some CLOSED}" if "x = Inr ()"
  proof -
    from xc that have c': "c' = close_unless_closed so (set_world w d)" by simp
    show ?thesis
    proof (cases "co_con d")
      case None
      then show ?thesis by (simp add: c' close_unless_closed_def con_ready_def)
    next
      case (Some i)
      then show ?thesis
        using closing [of i w] by (simp add: c' close_unless_closed_def con_ready_set_world)
    qed
  qed
qed

text \<open>
  A socket that stays in opening is not closed: \<open>disconnect\<close>, which waits for it first, rejects after
  ten seconds, with the pings, the answers and the connection to the chain as they were.
\<close>

theorem leaving_gives_up_while_opening:
  assumes "\<And>n. con_ready so ((sleep_for so 500 ^^ n) c) = Some CONNECTING"
  shows "rmb_disconnect fuel r so c
    = (Inl (ConnectionError ''Maximum number of attempts exceeded''), (sleep_for so 500 ^^ 21) c)"
proof -
  have "con_ready so c = Some CONNECTING" using assms [of 0] by simp
  moreover have "find (\<lambda>i. con_ready so ((sleep_for so 500 ^^ i) c) = Some OPEN) [1..<21] = None"
    by (simp add: find_None_iff assms)
  then have "waitForOpenConnection so c
      = (Inl (ConnectionError ''Maximum number of attempts exceeded''), (sleep_for so 500 ^^ 21) c)"
    unfolding waits_ten_seconds by simp
  ultimately show ?thesis by (simp add: rmb_disconnect_def bindE_app)
qed

subsection \<open>Connecting\<close>

lemma reconnect_open: "con_ready so c = Some OPEN \<Longrightarrow> reconnect r so k c = c\<lparr>co_lock := False\<rparr>"
  by (simp add: reconnect_def rmb_connect_def bindE_app con_ready_def the_world_def)

text \<open>
  A ping that is refused or not answered makes the client reconnect, which does nothing to a socket that
  is still open, as one whose other end is gone may be: the timer is set and the socket is the same.
\<close>

theorem unanswered_ping_keeps_socket:
  assumes "con_ready so c = Some OPEN" and "rmb_client_of k c = Some cl"
    and "rmb_ping r cl (cc_retries k) (co_rmb c) = (Inr uid, s)"
    and "rmb_read fuel r cl uid s = (Some (Rejected e), s')"
    and "con_ready so (c\<lparr>co_rmb := s'\<rparr>) = Some OPEN"
  shows "ping_timer fuel r so k c = c\<lparr>co_rmb := s', co_pinging := True, co_lock := False\<rparr>"
proof -
  have "rmb_client_of k (c\<lparr>co_pinging := False\<rparr>) = Some cl"
    using assms(2) by (simp add: rmb_client_of_def)
  moreover have "con_ready so (c\<lparr>co_rmb := s', co_pinging := True\<rparr>) = Some OPEN"
    using assms(5) by (simp add: con_ready_def the_world_def)
  ultimately show ?thesis
    using assms(1,3,4) by (simp add: ping_timer_def ping_round_def Let_def reconnect_open)
qed

lemma own_twin_sel:
  "own_twin r c = (Inr (), c') \<Longrightarrow> \<exists>t. co_twin c' = Some t"
  "co_leaving (snd (own_twin r c)) = co_leaving c"
  by (auto simp: own_twin_def Let_def split: sum.splits option.splits)

lemma createSigner_sel: "co_leaving (snd (createSigner so k c)) = co_leaving c"
  by (simp add: createSigner_def bindE_app split: sum.splits)

lemma outside_sel [simp]:
  "co_leaving (snd (outside f c)) = co_leaving c" "co_twin (snd (outside f c)) = co_twin c"
  "co_con (snd (outside f c)) = co_con c" "co_source (snd (outside f c)) = co_source c"
  by (simp_all add: outside_def case_prod_beta)

lemma outside_Inr:
  "outside f c = (x, c') \<Longrightarrow> co_leaving c' = co_leaving c \<and> co_twin c' = co_twin c \<and> co_con c' = co_con c \<and> co_source c' = co_source c"
  using outside_sel [of f c] by simp

lemma sleeps_sel [simp]:
  "co_con ((sleep_for so ms ^^ n) c) = co_con c" "co_twin ((sleep_for so ms ^^ n) c) = co_twin c"
  "co_source ((sleep_for so ms ^^ n) c) = co_source c" "co_leaving ((sleep_for so ms ^^ n) c) = co_leaving c"
  by (induction n) simp_all

lemma waited_sel:
  "waitForOpenConnection so c = (x, c') \<Longrightarrow>
     co_con c' = co_con c \<and> co_twin c' = co_twin c \<and> co_source c' = co_source c \<and> co_leaving c' = co_leaving c"
  unfolding waits_ten_seconds by (auto split: option.splits)

lemma updateUrl_state: "snd (updateUrl r so k c) = c"
  by (simp add: updateUrl_def newJWT_def bindE_app Let_def split: option.splits sum.splits prod.splits)

lemma created_sel:
  assumes "createConnection r so k c = (x, c')"
  shows "co_twin c' = co_twin c \<and> co_source c' = co_source c \<and> co_leaving c' = co_leaving c"
    and "x = Inr () \<Longrightarrow> co_con c' \<noteq> None"
proof -
  obtain u d where u: "updateUrl r so k (close_unless_closed so c) = (u, d)" by fastforce
  with updateUrl_state have d: "d = close_unless_closed so c" by (metis snd_conv)
  show "co_twin c' = co_twin c \<and> co_source c' = co_source c \<and> co_leaving c' = co_leaving c"
    and "x = Inr () \<Longrightarrow> co_con c' \<noteq> None"
    using assms u
    by (auto simp: createConnection_def bindE_app catchE_def d outside_def Let_def case_prod_beta split: sum.splits)
qed

lemma start_pings_sel [simp]:
  "co_twin (start_pings r k c) = co_twin c" "co_source (start_pings r k c) = co_source c"
  "co_leaving (start_pings r k c) = co_leaving c" "co_con (start_pings r k c) = co_con c"
  by (simp_all add: start_pings_def split: option.splits)

lemma publish_key_done:
  assumes "publish_key r so k c = (Inr (), c')" and "co_twin c = Some twin"
  shows "\<exists>pk. generatePublicKey r (cc_mnemonics k) = Inr pk \<and> co_twin c' = Some (twin\<lparr>tw_pk := pk\<rparr>)
     \<and> co_con c' = co_con c \<and> co_source c' = co_source c \<and> co_leaving c' = co_leaving c"
  using assms
  by (auto simp: publish_key_def bindE_app outside_def Let_def case_prod_beta split: sum.splits if_splits)

lemma publish_key_leaving: "co_leaving (snd (publish_key r so k c)) = co_leaving c"
  by (auto simp: publish_key_def bindE_app outside_def Let_def case_prod_beta split: sum.splits option.splits)

lemma establish_done:
  assumes "establish r so k c = (Inr (), c')" and "co_twin c = Some twin"
  shows "\<exists>pk. generatePublicKey r (cc_mnemonics k) = Inr pk \<and> co_twin c' = Some (twin\<lparr>tw_pk := pk\<rparr>)
     \<and> co_con c' \<noteq> None \<and> co_source c' = \<lparr>ad_twin = tw_id twin, ad_connection = cc_session k\<rparr> \<and> co_leaving c' = co_leaving c"
proof -
  let ?c1 = "c\<lparr>co_source := \<lparr>ad_twin = tw_id twin, ad_connection = cc_session k\<rparr>\<rparr>"
  from assms obtain c2 c3 where run: "createConnection r so k ?c1 = (Inr (), c2)"
      "waitForOpenConnection so c2 = (Inr (), c3)" "publish_key r so k (start_pings r k c3) = (Inr (), c')"
    unfolding establish_def updateSource_def by (auto simp: bindE_Inr_iff)
  note run(1) [THEN created_sel(1)] run(1) [THEN created_sel(2)] run(2) [THEN waited_sel]
  with publish_key_done [OF run(3), of twin] assms(2) show ?thesis by auto
qed

text \<open>
  A client that has connected has a socket, sends from its twin and session, knows its own twin with
  the key made of its words, and has started no leaving; the lock is free.
\<close>

theorem connected_client_complete:
  assumes "rmb_connect r so k c = (Inr (), c')" and "con_ready so c \<noteq> Some OPEN"
  shows "\<exists>twin pk. generatePublicKey r (cc_mnemonics k) = Inr pk \<and> co_twin c' = Some (twin\<lparr>tw_pk := pk\<rparr>)
     \<and> co_source c' = \<lparr>ad_twin = tw_id twin, ad_connection = cc_session k\<rparr>
     \<and> co_con c' \<noteq> None \<and> co_leaving c' = co_leaving c \<and> \<not> co_lock c'"
proof -
  have st: "con_ready so (c\<lparr>co_lock := True\<rparr>) \<noteq> Some OPEN"
    using assms(2) by (simp add: con_ready_def the_world_def)
  obtain d where c': "c' = d\<lparr>co_lock := False\<rparr>"
    and "bindE (outside (so_chain so)) (\<lambda>_. bindE (createSigner so k) (\<lambda>_. bindE (own_twin r) (\<lambda>_.
          catchE (establish r so k) (establish_failed k)))) (c\<lparr>co_lock := True\<rparr>) = (Inr (), d)"
    using assms(1) st by (auto simp: rmb_connect_def bindE_app [of "getE _"] Let_def split: prod.splits)
  then obtain c1 c2 c3 where run: "outside (so_chain so) (c\<lparr>co_lock := True\<rparr>) = (Inr (), c1)"
      "createSigner so k c1 = (Inr (), c2)" "own_twin r c2 = (Inr (), c3)"
      "catchE (establish r so k) (establish_failed k) c3 = (Inr (), d)"
    by (auto simp: bindE_Inr_iff)
  from own_twin_sel(1) [OF run(3)] obtain twin where twin: "co_twin c3 = Some twin" ..
  from run(4) have "establish r so k c3 = (Inr (), d)"
    by (auto simp: catchE_def establish_failed_def bindE_app split: prod.splits sum.splits if_splits)
  from establish_done [OF this twin] obtain pk
    where pk: "generatePublicKey r (cc_mnemonics k) = Inr pk" "co_twin d = Some (twin\<lparr>tw_pk := pk\<rparr>)" "co_con d \<noteq> None"
      "co_source d = \<lparr>ad_twin = tw_id twin, ad_connection = cc_session k\<rparr>" "co_leaving d = co_leaving c3"
    by auto
  moreover have "co_leaving c3 = co_leaving c"
    using outside_Inr [OF run(1)] createSigner_sel [of so k c1] own_twin_sel(2) [of r c2] run(2,3) by simp
  ultimately show ?thesis by (auto simp: c')
qed

text \<open>
  What goes wrong after the socket was asked for is thrown as an error of the SDK, after a leaving was
  started; but without the balance to put its key on the chain the client is left with its socket and
  its pings.
\<close>

theorem failed_connection_left:
  assumes "establish r so k c = (Inl e, c')"
  obtains e' where "is_base_error e'"
    and "catchE (establish r so k) (establish_failed k) c
      = (Inl e', if err_class e = C_Generic G_InsufficientBalanceError then c' else c'\<lparr>co_leaving := Suc (co_leaving c')\<rparr>)"
proof
  let ?e = "case fst (establish_failed k e c') of Inl x \<Rightarrow> x | Inr u \<Rightarrow> e"
  show "catchE (establish r so k) (establish_failed k) c
      = (Inl ?e, if err_class e = C_Generic G_InsufficientBalanceError then c' else c'\<lparr>co_leaving := Suc (co_leaving c')\<rparr>)"
    using assms by (simp add: catchE_def establish_failed_def bindE_app)
  show "is_base_error ?e"
    by (simp add: establish_failed_def bindE_app is_base_error_def error_defs)
qed

text \<open>
  The relay written to the chain is not written to the twin of the client: what it sends next still
  names the relays the twin had before.
\<close>

theorem requests_name_old_relay:
  assumes "publish_key r so k c = (Inr (), c')" and "co_twin c = Some twin" and "rmb_client_of k c' = Some cl"
    and "request_envelope r cl s dest command data seconds = Inr env"
  shows "en_relays env = split_on (CHR ''_'') (tw_relay twin)"
proof -
  from publish_key_done [OF assms(1,2)] have "tw_relay (the (co_twin c')) = tw_relay twin" by auto
  moreover from assms(3) have "co_twin c' = Some (rc_twin cl)"
    by (auto simp: rmb_client_of_def split: option.splits prod.splits)
  moreover from assms(4) have "en_relays env = split_on (CHR ''_'') (tw_relay (rc_twin cl))"
    by (auto simp: request_envelope_def Let_def bindR_Inr)
  ultimately show ?thesis by simp
qed

end
