(* ===== verification/StorageProps.thy ===== *)
theory StorageProps
  imports Storage
begin

text \<open>
  What the storage promises: a value that was stored is read back, by every back end alike
  (the interface \<open>storage_backend\<close>, interpreted on the store of the chain and on local storage).
\<close>

subsection \<open>Splitting a value\<close>

lemma frag_key_inj [simp]: "frag_key key i = frag_key key j \<longleftrightarrow> i = j"
  by (auto simp: frag_key_def)

lemma frag_key_suc: "0 < i \<Longrightarrow> frag_key key i = key @ ''.'' @ show_nat i"
  by (simp add: frag_key_def)

lemma split_from_spec:
  "concat (map snd (split_from key i val)) = val
   \<and> map fst (split_from key i val) = map (frag_key key) [i..<i + length (split_from key i val)]
   \<and> (\<forall>p \<in> set (split_from key i val). length (snd p) \<le> SPLIT_SIZE \<and> (val \<noteq> [] \<longrightarrow> snd p \<noteq> []))
   \<and> split_from key i val \<noteq> []"
proof (induction key i val rule: split_from.induct)
  case (1 key i val)
  show ?case
  proof (cases "SPLIT_SIZE < length val")
    case True
    let ?r = "split_from key (Suc i) (drop SPLIT_SIZE val)"
    have s: "split_from key i val = (frag_key key i, take SPLIT_SIZE val) # ?r"
      by (subst split_from.simps) (simp add: True)
    have n: "drop SPLIT_SIZE val \<noteq> []" "take SPLIT_SIZE val \<noteq> []"
      using True by (auto simp: SPLIT_SIZE_def)
    have "[i..<i + length (split_from key i val)] = i # [Suc i..<Suc i + length ?r]"
      by (simp add: s upt_conv_Cons del: upt_Suc)
    with 1 [OF True] n show ?thesis
      by (simp add: s del: upt_Suc)
  next
    case False
    then have "split_from key i val = [(frag_key key i, val)]"
      by (subst split_from.simps) simp
    with False show ?thesis by simp
  qed
qed

lemma split_value_spec:
  assumes "splits = split_value key val"
  shows "concat (map snd splits) = val" "map fst splits = map (frag_key key) [0..<length splits]"
    "splits \<noteq> []" "distinct (map fst splits)"
    "p \<in> set splits \<Longrightarrow> val \<noteq> [] \<Longrightarrow> snd p \<noteq> []"
  using split_from_spec [of key 0 val] assms
  by (auto simp: split_value_def distinct_map inj_on_def)

lemma split_pairs_set:
  assumes "distinct (map fst splits)"
  shows "set (split_pairs splits) = set splits" "length (obj_keys splits) = length splits"
    "distinct (map fst (split_pairs splits))"
proof -
  have k: "distinct (obj_keys splits)" "set (obj_keys splits) = fst ` set splits"
    using distinct_obj_keys [OF assms] by simp_all
  then have "card (fst ` set splits) = length (obj_keys splits)"
    by (metis distinct_card)
  with assms show "length (obj_keys splits) = length splits"
    by (metis distinct_card length_map list.set_map)
  have "map fst (split_pairs splits) = obj_keys splits"
    by (simp add: split_pairs_def o_def)
  with k show "distinct (map fst (split_pairs splits))" by simp
  show "set (split_pairs splits) = set splits"
    using assms k(2) by (force simp: split_pairs_def)
qed

subsection \<open>The laws of the packages and of the pallet\<close>

definition crypto_laws :: "crypto_env \<Rightarrow> bool" where
  "crypto_laws x \<longleftrightarrow>
     (\<exists>key. getSecretAsBytes x = Inr key
        \<and> (\<forall>m n. length n = 24 \<longrightarrow> (\<exists>c. x_box x m n key = Inr c \<and> x_open x c n key = Inr (Some m))))
   \<and> (\<forall>s. x_text x (x_utf8 x s) = Inr s) \<and> (\<forall>bs. x_unb64 x (x_b64 x bs) = Inr bs) \<and> x_b64 x [] = []
   \<and> (\<forall>i. length (x_nonce x i) = 24)"

lemma decrypt_encrypt:
  assumes "crypto_laws x" and "length n = 24"
  shows "\<exists>c. encrypt x n s = Inr c \<and> c \<noteq> [] \<and> decrypt x c = Inr s"
proof -
  from assms obtain key c where k: "getSecretAsBytes x = Inr key" "x_box x (x_utf8 x s) n key = Inr c"
    "x_open x c n key = Inr (Some (x_utf8 x s))"
    unfolding crypto_laws_def by blast
  have u: "x_unb64 x (x_b64 x (c @ n)) = Inr (c @ n)" "x_unb64 x [] = Inr []" "x_text x (x_utf8 x s) = Inr s"
    using assms(1) unfolding crypto_laws_def by (blast, metis, blast)
  have "c @ n \<noteq> []" using assms(2) by auto
  with u(1,2) have "x_b64 x (c @ n) \<noteq> []" by auto
  with k u assms(2) show ?thesis by (simp add: encrypt_def decrypt_def Let_def)
qed

text \<open>What the store of the chain does with the calls: \<open>set\<close> and \<open>delete\<close> on a map of texts.\<close>

definition kv_laws :: "(call \<Rightarrow> (string \<Rightarrow> string) \<Rightarrow> string \<Rightarrow> string) \<Rightarrow> bool" where
  "kv_laws eff \<longleftrightarrow> (\<forall>k v m. eff (Tx ''tfkvStore'' ''set'' [A_text k, A_text v]) m = m(k := v))
     \<and> (\<forall>k m. eff (Tx ''tfkvStore'' ''delete'' [A_text k]) m = m(k := []))"

definition kv_apply ::
  "(call \<Rightarrow> (string \<Rightarrow> string) \<Rightarrow> string \<Rightarrow> string) \<Rightarrow> extrinsic list \<Rightarrow> (string \<Rightarrow> string) \<Rightarrow> string \<Rightarrow> string"
where
  "kv_apply eff xs m = foldl (\<lambda>m x. eff (x_call x) m) m xs"

lemma kv_apply_append [simp]: "kv_apply eff (xs @ ys) m = kv_apply eff ys (kv_apply eff xs m)"
  by (simp add: kv_apply_def)

text \<open>The client connected to a store.\<close>

definition at_store :: "pallet_env \<Rightarrow> (string \<Rightarrow> string) \<Rightarrow> pallet_env" where
  "at_store e m = e\<lparr>q_connect := Inr (), q_kv := (\<lambda>k. Inr (m k))\<rparr>"

definition set_tx :: "string \<Rightarrow> string \<Rightarrow> extrinsic" where
  "set_tx k v = plain_tx ''tfkvStore'' ''set'' [A_text k, A_text v]"

definition delete_tx :: "string \<Rightarrow> extrinsic" where
  "delete_tx k = plain_tx ''tfkvStore'' ''delete'' [A_text k]"

lemma kv_ops [simp]:
  "kv_set (at_store e m) k v = Inr (set_tx k v)" "kv_delete (at_store e m) k = Inr (delete_tx k)"
  "kv_get (at_store e m) k = Inr (m k)"
  by (simp_all add: kv_set_def kv_delete_def kv_get_def checkConnection_def at_store_def set_tx_def delete_tx_def)

lemma kv_effects:
  assumes "kv_laws eff"
  shows "kv_apply eff [set_tx k v] m = m(k := v)" "kv_apply eff [delete_tx k] m = m(k := [])"
  using assms by (simp_all add: kv_apply_def kv_laws_def set_tx_def delete_tx_def plain_tx_def patchExtrinsic_def)

lemma kv_apply_Cons: "kv_apply eff (x # xs) m = kv_apply eff xs (kv_apply eff [x] m)"
  by (simp add: kv_apply_def)

lemma kv_apply_Nil [simp]: "kv_apply eff [] m = m"
  by (simp add: kv_apply_def)

lemma apply_deletes:
  "kv_laws eff \<Longrightarrow> kv_apply eff (map delete_tx ks) m = (\<lambda>k. if k \<in> set ks then [] else m k)"
proof (induction ks arbitrary: m)
  case (Cons k ks)
  then show ?case by (subst list.map(2), subst kv_apply_Cons) (auto simp: kv_effects)
qed simp

lemma apply_sets:
  assumes "kv_laws eff"
  shows "distinct (map fst ps) \<Longrightarrow> kv_apply eff (map (\<lambda>p. set_tx (fst p) (snd p)) ps) m
    = (\<lambda>k. case map_of ps k of None \<Rightarrow> m k | Some v \<Rightarrow> v)"
proof (induction ps arbitrary: m)
  case (Cons p ps)
  have "kv_apply eff (map (\<lambda>p. set_tx (fst p) (snd p)) (p # ps)) m
      = kv_apply eff (map (\<lambda>p. set_tx (fst p) (snd p)) ps) (m(fst p := snd p))"
    by (subst list.map(2), subst kv_apply_Cons) (simp add: kv_effects assms)
  also have "\<dots> = (\<lambda>k. case map_of ps k of None \<Rightarrow> (m(fst p := snd p)) k | Some v \<Rightarrow> v)"
    using Cons by simp
  finally show ?case
    using Cons.prems by (auto simp: fun_eq_iff image_iff split: option.splits dest: map_of_SomeD)
qed simp

subsection \<open>Reading and cleaning fragments\<close>

lemma while_fragment_ends:
  assumes "\<forall>j \<in> {i..<i + k}. \<exists>v. v \<noteq> [] \<and> read j = Inr v \<and> body j v = Inr (g j)" and "read (i + k) = Inr []"
  shows "while_fragment read body i = Some (Inr (concat (map g [i..<i + k])))"
  using assms
proof (induction k arbitrary: i)
  case 0
  then show ?case by (subst while_fragment.simps) simp
next
  case (Suc k)
  have "i \<in> {i..<i + Suc k}" by simp
  with Suc.prems(1) obtain v where v: "v \<noteq> []" "read i = Inr v" "body i v = Inr (g i)" by blast
  have "while_fragment read body (Suc i) = Some (Inr (concat (map g [Suc i..<Suc i + k])))"
    using Suc.prems by (intro Suc.IH) auto
  moreover have "[i..<i + Suc k] = i # [Suc i..<Suc i + k]"
    by (simp add: upt_conv_Cons del: upt_Suc)
  ultimately show ?case
    using v by (subst while_fragment.simps) (simp del: upt_Suc)
qed

lemma run_fragments_ends:
  assumes "\<forall>j \<in> {i..<i + k}. \<exists>v. v \<noteq> [] \<and> read j = Inr v \<and> body j v = Inr (g j)" and "read (i + k) = Inr []"
  shows "run_fragments read body i = Inr (concat (map g [i..<i + k]))"
  using while_fragment_ends [OF assms] by (simp add: run_fragments_def)

text \<open>A sound store: finitely many keys, and what is stored can be decrypted to a text.\<close>

definition sound_store :: "crypto_env \<Rightarrow> (string \<Rightarrow> string) \<Rightarrow> bool" where
  "sound_store x m \<longleftrightarrow> finite {k. m k \<noteq> []} \<and> (\<forall>k. m k \<noteq> [] \<longrightarrow> (\<exists>s. s \<noteq> [] \<and> decrypt x (m k) = Inr s))"

lemma tfkv_get_plain:
  assumes "sound_store x m"
  shows "m k = [] \<Longrightarrow> tfkv_get (at_store e m) x k True = Inr []"
    "m k \<noteq> [] \<Longrightarrow> \<exists>s. s \<noteq> [] \<and> decrypt x (m k) = Inr s \<and> tfkv_get (at_store e m) x k True = Inr s"
  using assms by (auto simp: tfkv_get_def sound_store_def)

lemma first_missing:
  assumes "sound_store x m"
  obtains k where "m (frag_key key (i + k)) = []" "\<forall>j \<in> {i..<i + k}. m (frag_key key j) \<noteq> []"
proof -
  have "frag_key key ` {j. m (frag_key key j) \<noteq> []} \<subseteq> {k. m k \<noteq> []}" by auto
  then have "finite (frag_key key ` {j. m (frag_key key j) \<noteq> []})"
    using assms finite_subset unfolding sound_store_def by blast
  then have "finite {j. m (frag_key key j) \<noteq> []}"
    by (rule finite_imageD) (simp add: inj_on_def)
  then obtain b where b: "\<forall>j \<in> {j. m (frag_key key j) \<noteq> []}. j < b"
    unfolding finite_nat_set_iff_bounded by blast
  have ex: "m (frag_key key (i + b)) = []"
  proof (rule ccontr)
    assume "m (frag_key key (i + b)) \<noteq> []"
    with b have "i + b < b" by blast
    then show False by simp
  qed
  define k where "k = (LEAST k. m (frag_key key (i + k)) = [])"
  have "m (frag_key key (i + k)) = []"
    unfolding k_def by (rule LeastI [where P = "\<lambda>k. m (frag_key key (i + k)) = []", OF ex])
  moreover have "m (frag_key key j) \<noteq> []" if "j \<in> {i..<i + k}" for j
  proof -
    from that have l: "j - i < k" and eq: "i + (j - i) = j" by auto
    have "m (frag_key key (i + (j - i))) \<noteq> []"
      using not_less_Least [OF l [unfolded k_def]] by simp
    then show ?thesis by (simp only: eq) simp
  qed
  ultimately show ?thesis using that by blast
qed

lemma cleanFragments_ok:
  assumes "sound_store x m" and "0 < i"
  obtains k where "cleanFragments (at_store e m) x key i = Inr (map (\<lambda>j. delete_tx (frag_key key j)) [i..<i + k])"
    "m (frag_key key (i + k)) = []"
proof -
  obtain k where k: "m (frag_key key (i + k)) = []" "\<forall>j \<in> {i..<i + k}. m (frag_key key j) \<noteq> []"
    by (rule first_missing [OF assms(1)])
  let ?read = "\<lambda>i. tfkv_get (at_store e m) x (key @ ''.'' @ show_nat i) True"
  have f: "key @ ''.'' @ show_nat j = frag_key key j" if "0 < j" for j
    using that by (simp add: frag_key_def)
  have "cleanFragments (at_store e m) x key i = Inr (concat (map (\<lambda>j. [delete_tx (frag_key key j)]) [i..<i + k]))"
    unfolding cleanFragments_def
  proof (rule run_fragments_ends)
    show "\<forall>j \<in> {i..<i + k}. \<exists>v. v \<noteq> [] \<and> ?read j = Inr v
        \<and> bindR (kv_delete (at_store e m) (key @ ''.'' @ show_nat j)) (\<lambda>d. Inr [d]) = Inr [delete_tx (frag_key key j)]"
    proof
      fix j assume j: "j \<in> {i..<i + k}"
      then have "m (frag_key key j) \<noteq> []" using k(2) by blast
      then obtain s where "s \<noteq> []" "tfkv_get (at_store e m) x (frag_key key j) True = Inr s"
        using tfkv_get_plain(2) [OF assms(1)] by blast
      moreover have "0 < j" using j assms(2) by simp
      ultimately show "\<exists>v. v \<noteq> [] \<and> ?read j = Inr v
          \<and> bindR (kv_delete (at_store e m) (key @ ''.'' @ show_nat j)) (\<lambda>d. Inr [d]) = Inr [delete_tx (frag_key key j)]"
        by (simp only: f kv_ops bindR_simps) simp
    qed
    have "0 < i + k" using assms(2) by simp
    then show "?read (i + k) = Inr []"
      using tfkv_get_plain(1) [OF assms(1) k(1)] by (simp only: f)
  qed
  moreover have "concat (map (\<lambda>j. [delete_tx (frag_key key j)]) js) = map (\<lambda>j. delete_tx (frag_key key j)) js" for js
    by (induction js) simp_all
  ultimately show ?thesis using that k(1) by simp
qed

subsection \<open>Storing and reading back\<close>

lemma prepare_all_simps [simp]:
  "prepare_all f [] = Inr []"
  "prepare_all f (a # xs) = bindR (f a) (\<lambda>x. bindR (prepare_all f xs) (\<lambda>ys. Inr (x # ys)))"
  by (simp_all add: prepare_all_def foldR_collect)

lemma set_fragments_from:
  assumes "crypto_laws x"
  shows "\<exists>cs. list_all2 (\<lambda>p c. c \<noteq> [] \<and> decrypt x c = Inr (snd p)) ps cs
    \<and> prepare_all (\<lambda>(i, k, v). tfkv_set (at_store e m) x i k v True) (enumerate n ps)
      = Inr (map (\<lambda>q. set_tx (fst q) (snd q)) (zip (map fst ps) cs))"
proof (induction ps arbitrary: n)
  case (Cons p ps)
  from Cons.IH obtain cs where cs: "list_all2 (\<lambda>p c. c \<noteq> [] \<and> decrypt x c = Inr (snd p)) ps cs"
    "prepare_all (\<lambda>(i, k, v). tfkv_set (at_store e m) x i k v True) (enumerate (Suc n) ps)
      = Inr (map (\<lambda>q. set_tx (fst q) (snd q)) (zip (map fst ps) cs))" by blast
  have "length (x_nonce x n) = 24" using assms by (simp add: crypto_laws_def)
  then obtain c where c: "encrypt x (x_nonce x n) (snd p) = Inr c" "c \<noteq> []" "decrypt x c = Inr (snd p)"
    using decrypt_encrypt [OF assms] by blast
  have "tfkv_set (at_store e m) x n (fst p) (snd p) True = Inr (set_tx (fst p) c)"
    by (simp add: tfkv_set_def c)
  with cs c show ?case
    by (cases p) (intro exI [of _ "c # cs"], simp)
qed simp

lemma fragments_stored:
  assumes "crypto_laws x" and "kv_laws eff" and "distinct (map fst ps)"
  obtains xs where "set_fragments (at_store e m) x ps = Inr xs"
    "\<forall>(k, v) \<in> set ps. kv_apply eff xs m k \<noteq> [] \<and> decrypt x (kv_apply eff xs m k) = Inr v"
    "\<forall>k. k \<notin> fst ` set ps \<longrightarrow> kv_apply eff xs m k = m k"
proof -
  from set_fragments_from [OF assms(1), of ps e m 0] obtain cs where
    cs: "list_all2 (\<lambda>p c. c \<noteq> [] \<and> decrypt x c = Inr (snd p)) ps cs"
    and r: "set_fragments (at_store e m) x ps = Inr (map (\<lambda>q. set_tx (fst q) (snd q)) (zip (map fst ps) cs))"
    unfolding set_fragments_def by blast
  let ?qs = "zip (map fst ps) cs"
  have len: "length ps = length cs" using cs by (rule list_all2_lengthD)
  have keys: "map fst ?qs = map fst ps" using len by simp
  then have d: "distinct (map fst ?qs)" using assms(3) by simp
  have a: "kv_apply eff (map (\<lambda>q. set_tx (fst q) (snd q)) ?qs) m
      = (\<lambda>k. case map_of ?qs k of None \<Rightarrow> m k | Some v \<Rightarrow> v)"
    by (rule apply_sets [OF assms(2) d])
  have "kv_apply eff (map (\<lambda>q. set_tx (fst q) (snd q)) ?qs) m k \<noteq> []
      \<and> decrypt x (kv_apply eff (map (\<lambda>q. set_tx (fst q) (snd q)) ?qs) m k) = Inr v" if kv: "(k, v) \<in> set ps" for k v
  proof -
    from kv obtain i where i: "i < length ps" "ps ! i = (k, v)" by (auto simp: in_set_conv_nth)
    then have "(k, cs ! i) \<in> set ?qs" using len by (force simp: in_set_conv_nth)
    then have "map_of ?qs k = Some (cs ! i)" using d by (simp add: map_of_eq_Some_iff)
    with list_all2_nthD [OF cs i(1)] i(2) show ?thesis by (simp add: a)
  qed
  moreover have "kv_apply eff (map (\<lambda>q. set_tx (fst q) (snd q)) ?qs) m k = m k" if "k \<notin> fst ` set ps" for k
  proof -
    have "k \<notin> set (map fst ?qs)" using that by (simp only: keys) simp
    then have "map_of ?qs k = None" by (simp add: map_of_eq_None_iff)
    then show ?thesis by (simp add: a)
  qed
  ultimately show ?thesis using that [OF r] by blast
qed

text \<open>What a store holds of a value: its pieces in order, and no piece after the last.\<close>

definition holds_pieces :: "crypto_env \<Rightarrow> (string \<Rightarrow> string) \<Rightarrow> string \<Rightarrow> string list \<Rightarrow> bool" where
  "holds_pieces x m key pieces \<longleftrightarrow>
     (\<forall>i < length pieces. m (frag_key key i) \<noteq> [] \<and> decrypt x (m (frag_key key i)) = Inr (pieces ! i))
     \<and> m (frag_key key (length pieces)) = []"

lemma backend_get_pieces:
  assumes "holds_pieces x m (cropKey key) pieces" and "pieces \<noteq> []" and "\<forall>p \<in> set pieces. p \<noteq> []"
  shows "tfkv_backend_get (at_store e m) x key = Inr (concat pieces)"
proof -
  let ?k = "cropKey key"
  let ?read = "\<lambda>i. tfkv_get (at_store e m) x (?k @ ''.'' @ show_nat i) True"
  have g: "tfkv_get (at_store e m) x (frag_key ?k i) True = Inr (pieces ! i)" "pieces ! i \<noteq> []" if "i < length pieces" for i
    using assms(1,3) that by (simp_all add: holds_pieces_def tfkv_get_def)
  obtain n where n: "length pieces = Suc n" using assms(2) by (cases pieces) auto
  have f: "?k @ ''.'' @ show_nat i = frag_key ?k i" if "0 < i" for i
    using that by (simp add: frag_key_def)
  have "run_fragments ?read (\<lambda>_ w. Inr [w]) 1 = Inr (concat (map (\<lambda>i. [pieces ! i]) [1..<1 + n]))"
  proof (rule run_fragments_ends)
    show "\<forall>j \<in> {1..<1 + n}. \<exists>v. v \<noteq> [] \<and> ?read j = Inr v \<and> Inr [v] = Inr [pieces ! j]"
    proof
      fix j assume "j \<in> {1..<1 + n}"
      then have "0 < j" "j < length pieces" using n by auto
      with g [of j] show "\<exists>v. v \<noteq> [] \<and> ?read j = Inr v \<and> Inr [v] = Inr [pieces ! j]"
        by (simp only: f) simp
    qed
    have "tfkv_get (at_store e m) x (frag_key ?k (1 + n)) True = Inr []"
      using assms(1) n by (simp add: holds_pieces_def tfkv_get_def)
    then show "?read (1 + n) = Inr []" by (simp add: frag_key_def)
  qed
  moreover have "concat (map (\<lambda>i. [pieces ! i]) [1..<1 + n]) = tl pieces"
  proof -
    have "concat (map (\<lambda>i. [pieces ! i]) js) = map (\<lambda>i. pieces ! i) js" for js by (induction js) simp_all
    moreover have "map (\<lambda>i. pieces ! i) [1..<1 + n] = tl pieces"
      using n by (intro nth_equalityI) (auto simp: nth_tl simp del: upt_Suc)
    ultimately show ?thesis by simp
  qed
  moreover have "concat pieces = pieces ! 0 @ concat (tl pieces)"
    using assms(2) by (cases pieces) simp_all
  moreover have "tfkv_get (at_store e m) x ?k True = Inr (pieces ! 0)" "pieces ! 0 \<noteq> []"
    using g [of 0] n by (simp_all add: frag_key_def)
  ultimately show ?thesis
    by (simp add: tfkv_backend_get_def Let_def)
qed

lemma find_sub_split: "find_sub sep s = Some (a, r) \<Longrightarrow> s = a @ sep @ r"
proof (induction s arbitrary: a)
  case (Cons c s)
  show ?case
  proof (cases "take (length sep) (c # s) = sep")
    case True
    then show ?thesis using Cons.prems append_take_drop_id [of "length sep" "c # s"] by (auto simp del: append_take_drop_id)
  next
    case False
    then obtain b where "find_sub sep s = Some (b, r)" "a = c # b"
      using Cons.prems by auto
    then show ?thesis using Cons.IH [of b] by simp
  qed
qed (auto split: if_splits)

lemma find_sub_before: "sep \<noteq> [] \<Longrightarrow> find_sub sep s = Some (a, r) \<Longrightarrow> find_sub sep a = None"
proof (induction s arbitrary: a)
  case (Cons c s)
  show ?case
  proof (cases "take (length sep) (c # s) = sep")
    case True
    then show ?thesis using Cons.prems by simp
  next
    case False
    then obtain b where b: "find_sub sep s = Some (b, r)" "a = c # b"
      using Cons.prems by auto
    have "take (length sep) (c # b) \<noteq> sep"
    proof
      assume t: "take (length sep) (c # b) = sep"
      then have "length sep \<le> length (c # b)" by (metis length_take min.absorb_iff2 min.commute)
      then have "take (length sep) (c # s) = take (length sep) (c # b)"
        using find_sub_split [OF b(1)] by (cases sep) simp_all
      with t False show False by simp
    qed
    then show ?thesis using Cons.IH [OF Cons.prems(1) b(1)] b(2) by simp
  qed
qed simp

lemma cropKey_idem [simp]: "cropKey (cropKey key) = cropKey key"
proof -
  let ?s = "''grid3_client/''"
  have "find_sub ?s (cropKey key) = None"
    using find_sub_before [of ?s] by (auto simp: cropKey_def Let_def split: option.splits prod.splits if_splits)
  then show ?thesis by (simp add: cropKey_def [of "cropKey key"])
qed

text \<open>
  A fragment of the older value that the new one has no piece for: it follows the last piece (or another
  one) without a gap.
\<close>

definition leftover :: "(string \<Rightarrow> string) \<Rightarrow> string \<Rightarrow> nat \<Rightarrow> nat \<Rightarrow> bool" where
  "leftover m key n i \<longleftrightarrow> n \<le> i \<and> (\<forall>j. n \<le> j \<and> j \<le> i \<longrightarrow> m (frag_key key j) \<noteq> [])"

text \<open>How many pieces a value is stored in.\<close>

definition piece_count :: "string \<Rightarrow> string \<Rightarrow> nat" where
  "piece_count key val = (if val = [] \<or> val = [CHR 0x22, CHR 0x22] then 0 else length (split_value key val))"

lemma leftover_below: "leftover m key n i \<Longrightarrow> m (frag_key key (n + j)) = [] \<Longrightarrow> i < n + j"
  unfolding leftover_def by (metis le_add1 not_less)

lemma backend_set_pieces:
  assumes "crypto_laws x" and "kv_laws eff" and "sound_store x m" and "val \<noteq> []" and "val \<noteq> [CHR 0x22, CHR 0x22]"
  obtains xs where "tfkv_backend_set (at_store e m) x key val = Inr (Some xs)"
    "holds_pieces x (kv_apply eff xs m) (cropKey key) (map snd (split_value (cropKey key) val))"
    "\<forall>k. (\<forall>i. k \<noteq> frag_key (cropKey key) i) \<longrightarrow> kv_apply eff xs m k = m k"
    "sound_store x (kv_apply eff xs m)"
    "\<forall>i. leftover m (cropKey key) (length (split_value (cropKey key) val)) i \<longrightarrow> kv_apply eff xs m (frag_key (cropKey key) i) = []"
proof -
  let ?k = "cropKey key"
  define splits where "splits = split_value ?k val"
  note sp = split_value_spec [OF splits_def]
  let ?n = "length splits"
  obtain as where as: "set_fragments (at_store e m) x (split_pairs splits) = Inr as"
    "\<forall>(k, v) \<in> set (split_pairs splits). kv_apply eff as m k \<noteq> [] \<and> decrypt x (kv_apply eff as m k) = Inr v"
    "\<forall>k. k \<notin> fst ` set (split_pairs splits) \<longrightarrow> kv_apply eff as m k = m k"
    by (rule fragments_stored [OF assms(1,2) split_pairs_set(3) [OF sp(4)]])
  note as = as [unfolded split_pairs_set(1) [OF sp(4)]]
  obtain j where j: "cleanFragments (at_store e m) x ?k ?n = Inr (map (\<lambda>i. delete_tx (frag_key ?k i)) [?n..<?n + j])"
    "m (frag_key ?k (?n + j)) = []"
    using sp(3) by (auto intro: cleanFragments_ok [OF assms(3)])
  define xs where "xs = as @ map delete_tx (map (frag_key ?k) [?n..<?n + j])"
  define m' where "m' = kv_apply eff xs m"
  have m': "m' k = (if k \<in> frag_key ?k ` {?n..<?n + j} then [] else kv_apply eff as m k)" for k
    unfolding m'_def xs_def kv_apply_append apply_deletes [OF assms(2)] by simp
  have set: "tfkv_backend_set (at_store e m) x key val = Inr (Some xs)"
    using assms(4,5) as(1) j(1) by (simp add: tfkv_backend_set_def Let_def splits_def [symmetric] split_pairs_set(2) [OF sp(4)] xs_def o_def)
  have keys: "fst ` set splits = frag_key ?k ` {0..<?n}"
    by (metis sp(2) list.set_map set_upt)
  have piece: "m' (frag_key ?k i) \<noteq> [] \<and> decrypt x (m' (frag_key ?k i)) = Inr (map snd splits ! i)" if "i < ?n" for i
  proof -
    have "frag_key ?k i \<notin> frag_key ?k ` {?n..<?n + j}" using that by auto
    moreover have "fst (splits ! i) = frag_key ?k i"
      using that arg_cong [OF sp(2), of "\<lambda>l. l ! i"] by simp
    then have "(frag_key ?k i, snd (splits ! i)) \<in> set splits"
      using that by (metis nth_mem prod.collapse)
    ultimately show ?thesis using as(2) that by (auto simp: m')
  qed
  moreover have "m' (frag_key ?k ?n) = []"
  proof (cases j)
    case 0
    have "frag_key ?k ?n \<notin> fst ` set splits" by (auto simp: keys)
    with as(3) j(2) 0 show ?thesis by (simp add: m')
  qed (simp add: m')
  ultimately have h: "holds_pieces x m' ?k (map snd splits)"
    by (simp add: holds_pieces_def)
  have other: "m' k = m k" if "\<forall>i. k \<noteq> frag_key ?k i" for k
  proof -
    have "k \<notin> fst ` set splits" using that by (auto simp: keys)
    with as(3) that show ?thesis by (auto simp: m')
  qed
  have "sound_store x m'"
    unfolding sound_store_def
  proof (intro conjI allI impI)
    have "{k. m' k \<noteq> []} \<subseteq> {k. m k \<noteq> []} \<union> frag_key ?k ` {0..<?n}"
      using as(3) keys by (auto simp: m' split: if_splits)
    then show "finite {k. m' k \<noteq> []}"
      using assms(3) finite_subset unfolding sound_store_def by blast
    fix k assume k: "m' k \<noteq> []"
    show "\<exists>s. s \<noteq> [] \<and> decrypt x (m' k) = Inr s"
    proof (cases "k \<in> fst ` set splits")
      case True
      then obtain i where "i < ?n" "k = frag_key ?k i" by (auto simp: keys)
      with piece [of i] sp(5) [OF nth_mem assms(4)] show ?thesis by auto
    next
      case False
      with as(3) k have "m' k = m k" by (auto simp: m' split: if_splits)
      with k assms(3) show ?thesis by (simp add: sound_store_def)
    qed
  qed
  moreover have "m' (frag_key ?k i) = []" if "leftover m ?k ?n i" for i
    using leftover_below [OF that j(2)] that by (auto simp: m' leftover_def)
  ultimately show ?thesis
    using that [OF set] h other by (simp add: m'_def splits_def)
qed

lemma backend_remove:
  assumes "kv_laws eff" and "sound_store x m"
  obtains r where "tfkv_remove (at_store e m) x key = Inr r"
    "(case r of None \<Rightarrow> m | Some xs \<Rightarrow> kv_apply eff xs m) (cropKey key) = []"
    "\<forall>k. (\<forall>i. k \<noteq> frag_key (cropKey key) i) \<longrightarrow> (case r of None \<Rightarrow> m | Some xs \<Rightarrow> kv_apply eff xs m) k = m k"
    "sound_store x (case r of None \<Rightarrow> m | Some xs \<Rightarrow> kv_apply eff xs m)"
    "\<forall>i. leftover m (cropKey key) 0 i \<longrightarrow> (case r of None \<Rightarrow> m | Some xs \<Rightarrow> kv_apply eff xs m) (frag_key (cropKey key) i) = []"
proof (cases "m (cropKey key) = []")
  case True
  then have "tfkv_remove (at_store e m) x key = Inr None"
    by (simp add: tfkv_remove_def tfkv_get_plain(1) [OF assms(2)])
  moreover have "\<not> leftover m (cropKey key) 0 i" for i
    using True by (auto simp: leftover_def frag_key_def)
  ultimately show ?thesis using that True assms(2) by simp
next
  case False
  let ?k = "cropKey key"
  from False obtain s where s: "s \<noteq> []" "tfkv_get (at_store e m) x ?k True = Inr s"
    using tfkv_get_plain(2) [OF assms(2)] by blast
  obtain j where j: "cleanFragments (at_store e m) x ?k 1 = Inr (map (\<lambda>i. delete_tx (frag_key ?k i)) [1..<1 + j])"
    "m (frag_key ?k (1 + j)) = []"
    by (rule cleanFragments_ok [OF assms(2), of 1 e ?k]) auto
  define ks where "ks = map (frag_key ?k) [1..<1 + j] @ [?k]"
  have r: "tfkv_remove (at_store e m) x key = Inr (Some (map delete_tx ks))"
    using s j by (simp add: tfkv_remove_def Let_def ks_def o_def)
  have left: "frag_key ?k i \<in> set ks" if "leftover m ?k 0 i" for i
  proof (cases i)
    case (Suc l)
    have "leftover m ?k 1 i" using that Suc by (simp add: leftover_def)
    from leftover_below [OF this j(2)] Suc show ?thesis by (auto simp: ks_def)
  qed (simp add: ks_def frag_key_def)
  have a: "kv_apply eff (map delete_tx ks) m = (\<lambda>k. if k \<in> set ks then [] else m k)"
    by (rule apply_deletes [OF assms(1)])
  have "?k = frag_key ?k 0" by (simp add: frag_key_def)
  then have sub: "set ks \<subseteq> range (frag_key ?k)" by (auto simp: ks_def)
  have "sound_store x (kv_apply eff (map delete_tx ks) m)"
  proof -
    have "{k. (if k \<in> set ks then [] else m k) \<noteq> []} \<subseteq> {k. m k \<noteq> []}" by auto
    then have "finite {k. (if k \<in> set ks then [] else m k) \<noteq> []}"
      using assms(2) finite_subset unfolding sound_store_def by blast
    with assms(2) show ?thesis by (auto simp: sound_store_def a)
  qed
  moreover have "kv_apply eff (map delete_tx ks) m ?k = []"
    by (simp add: a) (simp add: ks_def)
  moreover have "\<forall>k. (\<forall>i. k \<noteq> frag_key ?k i) \<longrightarrow> kv_apply eff (map delete_tx ks) m k = m k"
    using sub by (auto simp: a)
  moreover have "\<forall>i. leftover m ?k 0 i \<longrightarrow> kv_apply eff (map delete_tx ks) m (frag_key ?k i) = []"
    using left by (simp add: a)
  ultimately show ?thesis
    using that [OF r] by (simp del: map_map)
qed

lemma kv_stored:
  assumes "crypto_laws x" and "kv_laws eff" and "sound_store x m"
  shows "\<exists>r m'. tfkv_backend_set (at_store e m) x key val = Inr r
    \<and> m' = (case r of None \<Rightarrow> m | Some xs \<Rightarrow> kv_apply eff xs m)
    \<and> tfkv_backend_get (at_store e m') x key = Inr (if val = [] then [CHR 0x22, CHR 0x22] else val)
    \<and> sound_store x m' \<and> (\<forall>k. (\<forall>i. k \<noteq> frag_key (cropKey key) i) \<longrightarrow> m' k = m k)
    \<and> (\<forall>i. leftover m (cropKey key) (piece_count (cropKey key) val) i \<longrightarrow> m' (frag_key (cropKey key) i) = [])"
proof (cases "val = [] \<or> val = [CHR 0x22, CHR 0x22]")
  case True
  obtain r where r: "tfkv_remove (at_store e m) x (cropKey key) = Inr r"
    "(case r of None \<Rightarrow> m | Some xs \<Rightarrow> kv_apply eff xs m) (cropKey key) = []"
    "\<forall>k. (\<forall>i. k \<noteq> frag_key (cropKey key) i) \<longrightarrow> (case r of None \<Rightarrow> m | Some xs \<Rightarrow> kv_apply eff xs m) k = m k"
    "sound_store x (case r of None \<Rightarrow> m | Some xs \<Rightarrow> kv_apply eff xs m)"
    "\<forall>i. leftover m (cropKey key) 0 i \<longrightarrow> (case r of None \<Rightarrow> m | Some xs \<Rightarrow> kv_apply eff xs m) (frag_key (cropKey key) i) = []"
    using backend_remove [OF assms(2,3), of e "cropKey key"] by (auto simp del: split_paired_Ex)
  have "tfkv_backend_set (at_store e m) x key val = Inr r"
    using True r(1) by (simp add: tfkv_backend_set_def Let_def)
  moreover have "tfkv_backend_get (at_store e (case r of None \<Rightarrow> m | Some xs \<Rightarrow> kv_apply eff xs m)) x key
      = Inr [CHR 0x22, CHR 0x22]"
    using tfkv_get_plain(1) [OF r(4), OF r(2)] by (simp add: tfkv_backend_get_def Let_def)
  moreover have "piece_count (cropKey key) val = 0" using True by (simp add: piece_count_def)
  ultimately show ?thesis using True r(3-5) by auto
next
  case False
  then obtain xs where xs: "tfkv_backend_set (at_store e m) x key val = Inr (Some xs)"
    "holds_pieces x (kv_apply eff xs m) (cropKey key) (map snd (split_value (cropKey key) val))"
    "\<forall>k. (\<forall>i. k \<noteq> frag_key (cropKey key) i) \<longrightarrow> kv_apply eff xs m k = m k"
    "sound_store x (kv_apply eff xs m)"
    "\<forall>i. leftover m (cropKey key) (length (split_value (cropKey key) val)) i \<longrightarrow> kv_apply eff xs m (frag_key (cropKey key) i) = []"
    using backend_set_pieces [OF assms, of val e key] by blast
  note sp = split_value_spec [OF refl, where key = "cropKey key" and val = val]
  have "tfkv_backend_get (at_store e (kv_apply eff xs m)) x key = Inr (concat (map snd (split_value (cropKey key) val)))"
    using sp(3,5) False by (intro backend_get_pieces [OF xs(2)]) auto
  moreover have "piece_count (cropKey key) val = length (split_value (cropKey key) val)"
    using False by (simp add: piece_count_def)
  ultimately show ?thesis using xs sp(1) False by auto
qed

text \<open>
  C3: A value that is stored on the chain is read back, whatever its length and whatever was under its
  key before, the store stays sound, no key but the value's own and its fragments' changes, and the
  fragments of the older value beyond the pieces of the new one are gone, up to the first gap.
\<close>

theorem kv_value_round_trip:
  assumes "crypto_laws x" and "kv_laws eff" and "sound_store x m"
  shows "\<exists>r m'. tfkv_backend_set (at_store e m) x key val = Inr r
    \<and> m' = (case r of None \<Rightarrow> m | Some xs \<Rightarrow> kv_apply eff xs m)
    \<and> tfkv_backend_get (at_store e m') x key = Inr (if val = [] then [CHR 0x22, CHR 0x22] else val)
    \<and> sound_store x m' \<and> (\<forall>k. (\<forall>i. k \<noteq> frag_key (cropKey key) i) \<longrightarrow> m' k = m k)
    \<and> (\<forall>i. leftover m (cropKey key) (piece_count (cropKey key) val) i \<longrightarrow> m' (frag_key (cropKey key) i) = [])"
  by (rule kv_stored [OF assms])

subsection \<open>Moving a value\<close>

lemma moved_pieces:
  assumes "kv_laws eff" and "fk \<noteq> tk \<Longrightarrow> \<forall>i. tk \<noteq> frag_key fk i"
  shows "kv_apply eff (concat (map (\<lambda>i. if fk \<noteq> tk then [set_tx tk (v i), delete_tx (frag_key fk i)] else [set_tx tk (v i)]) [0..<n])) m
    = (\<lambda>k. if k = tk \<and> 0 < n then v (n - 1) else if fk \<noteq> tk \<and> k \<in> frag_key fk ` {0..<n} then [] else m k)"
proof (induction n)
  case (Suc n)
  have two: "kv_apply eff [x, y] m = kv_apply eff [y] (kv_apply eff [x] m)" for x y m
    by (simp add: kv_apply_def)
  show ?case
    using assms(2) by (auto simp: Suc two kv_effects [OF assms(1)] fun_eq_iff less_Suc_eq)
qed simp

text \<open>
  A value that is moved keeps only its last piece: every piece is written to the same key.  Where
  the keys differ nothing is left under the old one, so a value longer than one piece is lost.
\<close>

theorem moved_value_keeps_last_piece:
  assumes "kv_laws eff" and "holds_pieces x m (cropKey fk) pieces" and "pieces \<noteq> []"
    and "cropKey fk \<noteq> cropKey tk \<Longrightarrow> \<forall>i. cropKey tk \<noteq> frag_key (cropKey fk) i"
  shows "\<exists>xs. moveValue (at_store e m) x fk tk = Inr xs
    \<and> decrypt x (kv_apply eff xs m (cropKey tk)) = Inr (last pieces)
    \<and> (cropKey fk \<noteq> cropKey tk \<longrightarrow> (\<forall>i < length pieces. kv_apply eff xs m (frag_key (cropKey fk) i) = []))
    \<and> (\<forall>k. k \<noteq> cropKey tk \<and> (\<forall>i. k \<noteq> frag_key (cropKey fk) i) \<longrightarrow> kv_apply eff xs m k = m k)"
proof -
  let ?f = "cropKey fk" and ?t = "cropKey tk" and ?n = "length pieces"
  let ?g = "\<lambda>i. if ?f \<noteq> ?t then [set_tx ?t (m (frag_key ?f i)), delete_tx (frag_key ?f i)] else [set_tx ?t (m (frag_key ?f i))]"
  have h: "\<forall>i < ?n. m (frag_key ?f i) \<noteq> [] \<and> decrypt x (m (frag_key ?f i)) = Inr (pieces ! i)" "m (frag_key ?f ?n) = []"
    using assms(2) by (simp_all add: holds_pieces_def)
  have "moveValue (at_store e m) x fk tk = Inr (concat (map ?g [0..<0 + ?n]))"
    unfolding moveValue_def Let_def
  proof (rule run_fragments_ends)
    show "\<forall>j \<in> {0..<0 + ?n}. \<exists>v. v \<noteq> [] \<and> tfkv_get (at_store e m) x (frag_key ?f j) False = Inr v
        \<and> bindR (tfkv_set (at_store e m) x j ?t v False) (\<lambda>s. if ?f \<noteq> ?t
            then bindR (kv_delete (at_store e m) (frag_key ?f j)) (\<lambda>d. Inr [s, d]) else Inr [s]) = Inr (?g j)"
      using h(1) by (simp add: tfkv_get_def tfkv_set_def)
    show "tfkv_get (at_store e m) x (frag_key ?f (0 + ?n)) False = Inr []"
      using h(2) by (simp add: tfkv_get_def)
  qed
  moreover have "kv_apply eff (concat (map ?g [0..<?n])) m
      = (\<lambda>k. if k = ?t \<and> 0 < ?n then m (frag_key ?f (?n - 1)) else if ?f \<noteq> ?t \<and> k \<in> frag_key ?f ` {0..<?n} then [] else m k)"
    using moved_pieces [OF assms(1), of ?f ?t "\<lambda>i. m (frag_key ?f i)" ?n m] assms(4) by simp
  moreover have "decrypt x (m (frag_key ?f (?n - 1))) = Inr (last pieces)"
    using h(1) assms(3) by (simp add: last_conv_nth)
  moreover have "?f \<noteq> ?t \<Longrightarrow> frag_key ?f i \<noteq> ?t" for i
    using assms(4) by metis
  ultimately show ?thesis using assms(3) by auto
qed

subsection \<open>What every back end offers\<close>

text \<open>
  A back end stores texts under keys: what was stored is read back, an empty text as the text of an
  empty JSON string, and keys apart from it stay as they were.
\<close>

locale storage_backend =
  fixes ok :: "'s \<Rightarrow> bool" and read :: "'s \<Rightarrow> string \<Rightarrow> js_error + string"
    and store :: "'s \<Rightarrow> string \<Rightarrow> string \<Rightarrow> 's" and apart :: "string \<Rightarrow> string \<Rightarrow> bool"
  assumes store_ok: "ok s \<Longrightarrow> ok (store s k v)"
    and read_back: "ok s \<Longrightarrow> read (store s k v) k = Inr (if v = [] then [CHR 0x22, CHR 0x22] else v)"
    and read_apart: "ok s \<Longrightarrow> apart k k' \<Longrightarrow> read (store s k v) k' = read s k'"
begin

lemma load_dump:
  assumes "ok s" and "parse (stringify v) = Inr v"
  shows "backend_load parse read (backend_dump store s k v) k = Inr v"
proof -
  have "stringify v \<noteq> []" by (cases v) (simp_all add: show_bool_def quote_def)
  with assms show ?thesis by (simp add: backend_load_def backend_dump_def read_back)
qed

lemma update_adds_field:
  assumes "ok s" and "backend_load parse read s k = Inr old" and "falsy old \<and> ps = [] \<or> old = J_obj ps"
    and "parse (stringify (J_obj (in_key_order (obj_set field data ps)))) = Inr (J_obj (in_key_order (obj_set field data ps)))"
  shows "\<exists>s'. backend_update parse read store s k field data SU_add = Inr s' \<and> ok s'
    \<and> backend_load parse read s' k = Inr (J_obj (in_key_order (obj_set field data ps)))
    \<and> (\<forall>k'. apart k k' \<longrightarrow> read s' k' = read s k')"
proof -
  have "\<not> falsy (J_obj ps)" by (simp add: falsy_def)
  with assms(2,3) have "backend_update parse read store s k field data SU_add
      = Inr (backend_dump store s k (J_obj (in_key_order (obj_set field data ps))))"
    by (auto simp: backend_update_def updated_json_def json_set_def Let_def)
  then show ?thesis
    using load_dump [where v = "J_obj (in_key_order (obj_set field data ps))" and k = k and parse = parse, OF assms(1,4)] assms(1)
    by (simp add: backend_dump_def store_ok read_apart)
qed

end

text \<open>The store of the chain: the client, the packages, the pallet and its map.\<close>

record kv_world =
  kw_client :: pallet_env
  kw_crypto :: crypto_env
  kw_pallet :: "call \<Rightarrow> (string \<Rightarrow> string) \<Rightarrow> string \<Rightarrow> string"
  kw_map :: "string \<Rightarrow> string"

definition kv_ok :: "kv_world \<Rightarrow> bool" where
  "kv_ok w \<longleftrightarrow> crypto_laws (kw_crypto w) \<and> kv_laws (kw_pallet w) \<and> sound_store (kw_crypto w) (kw_map w)"

definition kv_read :: "kv_world \<Rightarrow> string \<Rightarrow> js_error + string" where
  "kv_read w key = tfkv_backend_get (at_store (kw_client w) (kw_map w)) (kw_crypto w) key"

definition kv_store :: "kv_world \<Rightarrow> string \<Rightarrow> string \<Rightarrow> kv_world" where
  "kv_store w key val = (case tfkv_backend_set (at_store (kw_client w) (kw_map w)) (kw_crypto w) key val of
     Inr (Some xs) \<Rightarrow> w\<lparr>kw_map := kv_apply (kw_pallet w) xs (kw_map w)\<rparr>
   | _ \<Rightarrow> w)"

text \<open>Two keys are apart if no fragment of one is the other or a fragment of it.\<close>

definition kv_family :: "string \<Rightarrow> string set" where
  "kv_family key = insert key {key @ ''.'' @ show_nat i | i. True}"

definition kv_apart :: "string \<Rightarrow> string \<Rightarrow> bool" where
  "kv_apart k k' \<longleftrightarrow> kv_family (cropKey k) \<inter> kv_family (cropKey k') = {}"

lemma frag_key_family: "frag_key key i \<in> kv_family key"
  by (auto simp: frag_key_def kv_family_def)

lemma backend_get_family:
  assumes "\<forall>k \<in> kv_family (cropKey key). m k = m' k"
  shows "tfkv_backend_get (at_store e m) x key = tfkv_backend_get (at_store e m') x key"
proof -
  have g: "tfkv_get (at_store e m) x k True = tfkv_get (at_store e m') x k True" if "k \<in> kv_family (cropKey key)" for k
    using assms that by (simp add: tfkv_get_def)
  then have "tfkv_get (at_store e m) x (cropKey key @ ''.'' @ show_nat i) True
      = tfkv_get (at_store e m') x (cropKey key @ ''.'' @ show_nat i) True" for i
    by (simp add: kv_family_def)
  moreover have "tfkv_get (at_store e m) x (cropKey key) True = tfkv_get (at_store e m') x (cropKey key) True"
    by (rule g) (simp add: kv_family_def)
  ultimately show ?thesis by (simp add: tfkv_backend_get_def Let_def cong: if_cong)
qed

lemma kv_store_spec:
  assumes "kv_ok w"
  obtains m' where "kv_store w key val = w\<lparr>kw_map := m'\<rparr>" "sound_store (kw_crypto w) m'"
    "tfkv_backend_get (at_store (kw_client w) m') (kw_crypto w) key = Inr (if val = [] then [CHR 0x22, CHR 0x22] else val)"
    "\<forall>k. k \<notin> kv_family (cropKey key) \<longrightarrow> m' k = kw_map w k"
proof -
  obtain r m' where r: "tfkv_backend_set (at_store (kw_client w) (kw_map w)) (kw_crypto w) key val = Inr r"
    "m' = (case r of None \<Rightarrow> kw_map w | Some xs \<Rightarrow> kv_apply (kw_pallet w) xs (kw_map w))"
    "tfkv_backend_get (at_store (kw_client w) m') (kw_crypto w) key = Inr (if val = [] then [CHR 0x22, CHR 0x22] else val)"
    "sound_store (kw_crypto w) m'" "\<forall>k. (\<forall>i. k \<noteq> frag_key (cropKey key) i) \<longrightarrow> m' k = kw_map w k"
    using kv_stored [of "kw_crypto w" "kw_pallet w" "kw_map w" "kw_client w" key val] assms
    unfolding kv_ok_def by blast
  moreover have "kv_store w key val = w\<lparr>kw_map := m'\<rparr>"
    using r(1,2) by (cases r) (simp_all add: kv_store_def)
  moreover have "m' k = kw_map w k" if "k \<notin> kv_family (cropKey key)" for k
    using r(5) that frag_key_family [of "cropKey key"] by metis
  ultimately show ?thesis using that by blast
qed

interpretation kv: storage_backend kv_ok kv_read kv_store kv_apart
proof
  fix w k v assume "kv_ok w"
  then obtain m' where "kv_store w k v = w\<lparr>kw_map := m'\<rparr>" "sound_store (kw_crypto w) m'"
    "tfkv_backend_get (at_store (kw_client w) m') (kw_crypto w) k = Inr (if v = [] then [CHR 0x22, CHR 0x22] else v)"
    by (rule kv_store_spec)
  with \<open>kv_ok w\<close> show "kv_ok (kv_store w k v)" "kv_read (kv_store w k v) k = Inr (if v = [] then [CHR 0x22, CHR 0x22] else v)"
    by (simp_all add: kv_ok_def kv_read_def)
next
  fix w k k' v assume "kv_ok w" and a: "kv_apart k k'"
  then obtain m' where m: "kv_store w k v = w\<lparr>kw_map := m'\<rparr>" "\<forall>k0. k0 \<notin> kv_family (cropKey k) \<longrightarrow> m' k0 = kw_map w k0"
    by (metis kv_store_spec)
  have "\<forall>k0 \<in> kv_family (cropKey k'). m' k0 = kw_map w k0"
    using m(2) a by (auto simp: kv_apart_def)
  then have "tfkv_backend_get (at_store (kw_client w) m') (kw_crypto w) k'
      = tfkv_backend_get (at_store (kw_client w) (kw_map w)) (kw_crypto w) k'"
    by (rule backend_get_family)
  with m(1) show "kv_read (kv_store w k v) k' = kv_read w k'"
    by (simp add: kv_read_def)
qed

lemma map_of_filter_key: "map_of (filter (\<lambda>p. fst p \<noteq> k) s) k' = (if k' = k then None else map_of s k')"
  by (induction s) auto

interpretation ls: storage_backend "\<lambda>_. True" "\<lambda>s k. Inr (ls_get k s)" "\<lambda>s k v. ls_set k v s"
  "\<lambda>k k'. cropKey k \<noteq> cropKey k'"
  by unfold_locales (auto simp: ls_get_def ls_set_def ls_remove_def Let_def map_of_filter_key)

text \<open>
  Setting a field of a stored object keeps its other fields and every key apart, whatever the size
  of the object: the back end on the chain offers what \<open>BackendStorage\<close> needs.
\<close>

theorem update_keeps_fields:
  assumes "kv_ok w" and "backend_load parse kv_read w k = Inr old" and "falsy old \<and> ps = [] \<or> old = J_obj ps"
    and "parse (stringify (J_obj (in_key_order (obj_set field data ps)))) = Inr (J_obj (in_key_order (obj_set field data ps)))"
  shows "\<exists>w' ps'. backend_update parse kv_read kv_store w k field data SU_add = Inr w' \<and> kv_ok w'
    \<and> backend_load parse kv_read w' k = Inr (J_obj ps') \<and> map_of ps' = (map_of ps)(field \<mapsto> data)
    \<and> (\<forall>k'. kv_apart k k' \<longrightarrow> kv_read w' k' = kv_read w k')"
  using kv.update_adds_field [OF assms] by (metis map_of_obj_set map_of_in_key_order)

subsection \<open>Examples\<close>

text \<open>A chain with one twin, and packages that keep the bytes as they are.\<close>

definition demo_pallets :: pallet_env where
  "demo_pallets = \<lparr>q_connect = Inr (), q_address = ''me'', q_members = Inr [''me''],
     q_account = (\<lambda>_. Inr \<lparr>ba_free = 10 ^ 8, ba_reserved = 0, ba_frozen = 0\<rparr>), q_twin = (\<lambda>_. Inr None), q_twinId = (\<lambda>_. Inr 7),
     q_node = (\<lambda>_. Inr None), q_kv = (\<lambda>_. Inr []), q_kv_keys = Inr [], q_fees = Inr (10 ^ 7, 10 ^ 7), q_price = Inr 50,
     q_proposals = Inr [], q_dao_proposal = (\<lambda>_. Inr None), q_proposal_of = (\<lambda>_. Inr None), q_voting = (\<lambda>_. Inr None),
     q_number = (\<lambda>_. Inr 0), q_now = (\<lambda>_. 0), q_is_address = (\<lambda>_. True), q_public_key = Inr ''pk''\<rparr>"

definition char_byte :: "char \<Rightarrow> 8 word" where "char_byte c = of_nat (of_char c)"

definition byte_char :: "8 word \<Rightarrow> char" where "byte_char b = char_of (unat b)"

lemma byte_char_inverse [simp]: "byte_char (char_byte c) = c" "char_byte (byte_char b) = b"
proof -
  have "unat b < 2 ^ LENGTH(8)" by (rule unsigned_less)
  then have "unat b mod 256 = unat b" by simp
  then show "byte_char (char_byte c) = c" "char_byte (byte_char b) = b"
    by (simp_all add: byte_char_def char_byte_def unat_of_nat)
qed

definition demo_crypto :: crypto_env where
  "demo_crypto = \<lparr>x_utf8 = map char_byte, x_text = (\<lambda>bs. Inr (map byte_char bs)), x_b64 = map byte_char,
     x_unb64 = (\<lambda>s. Inr (map char_byte s)), x_box = (\<lambda>m n k. Inr m), x_open = (\<lambda>c n k. Inr (Some c)),
     x_sha256 = (\<lambda>_. []), x_secret = Inr [], x_nonce = (\<lambda>_. replicate 24 0)\<rparr>"

lemma byte_char_o [simp]: "byte_char \<circ> char_byte = id" "char_byte \<circ> byte_char = id"
  by (simp_all add: fun_eq_iff)

lemma demo_crypto_laws [simp]: "crypto_laws demo_crypto"
  by (auto simp: crypto_laws_def demo_crypto_def getSecretAsBytes_def)

definition demo_pallet :: "call \<Rightarrow> (string \<Rightarrow> string) \<Rightarrow> string \<Rightarrow> string" where
  "demo_pallet c m = (case c of Tx p f args \<Rightarrow> (case args of [A_text k, A_text v] \<Rightarrow> m(k := v) | [A_text k] \<Rightarrow> m(k := []) | _ \<Rightarrow> m)
     | _ \<Rightarrow> m)"

lemma demo_kv_laws [simp]: "kv_laws demo_pallet"
  by (simp add: kv_laws_def demo_pallet_def)

lemma sound_empty [simp]: "sound_store x (\<lambda>_. [])"
  by (simp add: sound_store_def)

text \<open>Two pieces of one value; the second is all that is left under the new key.\<close>

definition demo_cipher :: "string \<Rightarrow> string" where
  "demo_cipher s = s @ replicate 24 (CHR 0x00)"

lemma decrypt_demo: "decrypt demo_crypto (demo_cipher s) = Inr s"
  by (simp add: decrypt_def demo_crypto_def demo_cipher_def getSecretAsBytes_def Let_def take_map)

definition demo_store :: "string \<Rightarrow> string" where
  "demo_store = (\<lambda>_. [])(''a'' := demo_cipher ''one'', ''a.1'' := demo_cipher ''two'')"

lemma show_nat_digit [simp]: "n < 10 \<Longrightarrow> show_nat n = [digit_char n]"
  by (subst show_nat.simps) simp

lemma demo_store_sound: "sound_store demo_crypto demo_store"
proof -
  have "{k. demo_store k \<noteq> []} \<subseteq> {''a'', ''a.1''}" by (auto simp: demo_store_def)
  then have "finite {k. demo_store k \<noteq> []}" by (rule finite_subset) simp
  then show ?thesis
    by (auto simp: sound_store_def demo_store_def decrypt_demo)
qed

theorem kv_value_round_trip_witness:
  "\<exists>r m'. tfkv_backend_set (at_store demo_pallets demo_store) demo_crypto ''a'' ''[1]'' = Inr r
    \<and> m' = (case r of None \<Rightarrow> demo_store | Some xs \<Rightarrow> kv_apply demo_pallet xs demo_store)
    \<and> tfkv_backend_get (at_store demo_pallets m') demo_crypto ''a'' = Inr ''[1]'' \<and> m' ''a.1'' = []"
proof -
  have c: "cropKey ''a'' = ''a''" by (simp add: cropKey_def)
  have "piece_count ''a'' ''[1]'' = 1"
    by (simp add: piece_count_def split_value_def split_from.simps SPLIT_SIZE_def)
  moreover have f: "frag_key ''a'' 1 = ''a.1''" by (simp add: frag_key_def digit_char_def char_of_eq_iff)
  moreover have "leftover demo_store ''a'' 1 1"
    by (auto simp: leftover_def le_antisym demo_store_def demo_cipher_def f [unfolded One_nat_def])
  ultimately show ?thesis
    using kv_value_round_trip [OF demo_crypto_laws demo_kv_laws demo_store_sound, of demo_pallets "''a''" "''[1]''"]
    by (force simp: c)
qed

theorem moved_value_keeps_last_piece_witness:
  "\<exists>xs. moveValue (at_store demo_pallets demo_store) demo_crypto ''a'' ''b'' = Inr xs
    \<and> decrypt demo_crypto (kv_apply demo_pallet xs demo_store ''b'') = Inr ''two''
    \<and> kv_apply demo_pallet xs demo_store ''a'' = []"
proof -
  have c: "cropKey ''a'' = ''a''" "cropKey ''b'' = ''b''" by (simp_all add: cropKey_def)
  have h: "holds_pieces demo_crypto demo_store (cropKey ''a'') [''one'', ''two'']"
    unfolding c holds_pieces_def
    by (auto simp: less_Suc_eq demo_store_def frag_key_def digit_char_def char_of_eq_iff decrypt_demo) (auto simp: demo_cipher_def)
  have "\<forall>i. ''b'' \<noteq> frag_key ''a'' i" by (simp add: frag_key_def)
  then obtain xs where "moveValue (at_store demo_pallets demo_store) demo_crypto ''a'' ''b'' = Inr xs"
    "decrypt demo_crypto (kv_apply demo_pallet xs demo_store ''b'') = Inr ''two''"
    "\<forall>i < 2. kv_apply demo_pallet xs demo_store (frag_key ''a'' i) = []"
    using moved_value_keeps_last_piece [OF demo_kv_laws h, of "''b''" demo_pallets]
    unfolding c by (auto simp: numeral_2_eq_2)
  moreover from this(3) have "kv_apply demo_pallet xs demo_store ''a'' = []"
    by (metis frag_key_def pos2)
  ultimately show ?thesis by blast
qed

definition demo_parse :: "string \<Rightarrow> js_error + json" where
  "demo_parse s = Inr (if s = [CHR 0x22, CHR 0x22] then J_str [] else J_obj [(''n'', J_str ''v'')])"

definition demo_kv_world :: kv_world where
  "demo_kv_world = \<lparr>kw_client = demo_pallets, kw_crypto = demo_crypto, kw_pallet = demo_pallet, kw_map = (\<lambda>_. [])\<rparr>"

theorem update_keeps_fields_witness:
  "\<exists>w' ps'. backend_update demo_parse kv_read kv_store demo_kv_world ''k'' ''n'' (J_str ''v'') SU_add = Inr w'
    \<and> backend_load demo_parse kv_read w' ''k'' = Inr (J_obj ps') \<and> map_of ps' = [''n'' \<mapsto> J_str ''v'']"
proof -
  have ok: "kv_ok demo_kv_world" by (simp add: kv_ok_def demo_kv_world_def)
  have old: "backend_load demo_parse kv_read demo_kv_world ''k'' = Inr (J_str [])"
    by (simp add: backend_load_def kv_read_def demo_kv_world_def tfkv_backend_get_def Let_def tfkv_get_def demo_parse_def)
  have p: "demo_parse (stringify (J_obj (in_key_order (obj_set ''n'' (J_str ''v'') [])))) = Inr (J_obj (in_key_order (obj_set ''n'' (J_str ''v'') [])))"
    by (simp add: demo_parse_def in_key_order_def obj_keys_def array_index_def is_digit_def)
  show ?thesis
    using update_keeps_fields [OF ok old _ p] by (auto simp: falsy_def)
qed

end
