(* ===== verification/RmbProps.thy ===== *)
theory RmbProps
  imports Rmb StorageProps ZosFacts
begin

text \<open>
  The client of the message bus: what it encrypts the receiver can read, what it signs verifies, a
  reply only counts when its signature is right, waiting ends; and what goes wrong.
\<close>

subsection \<open>Keeping twins\<close>

lemma js_round_bounds:
  assumes "0 < b"
  shows "b * js_round a b \<le> a + b"
proof -
  have "2 * b * ((2 * a + b) div (2 * b)) + (2 * a + b) mod (2 * b) = 2 * a + b"
    by (rule mult_div_mod_eq)
  moreover have "0 \<le> (2 * a + b) mod (2 * b)" using assms by simp
  ultimately have "2 * (b * js_round a b) \<le> 2 * a + b" unfolding js_round_def by linarith
  then show ?thesis using assms by linarith
qed

text \<open>
  Once a twin was asked of the chain it is never asked again: the ten minutes it should be kept are
  always over, because the seconds it was kept at are read as milliseconds, and it is the kept twin
  that is used when they are over.
\<close>

theorem kept_twin_never_refreshed:
  assumes "1000000 \<le> r_now r (rs_world s)" and "map_of (rs_twins s) i = None" and "getTwin r i s = (Inr t, s')"
    and "r_now r (rs_world s) \<le> r_now r w"
  shows "getTwin r i (s'\<lparr>rs_world := w\<rparr>) = (Inr t, s'\<lparr>rs_world := w\<rparr>)"
proof -
  let ?ts = "js_round (r_now r (rs_world s)) 1000"
  have s': "s' = s\<lparr>rs_twins := obj_set i (t, ?ts) (rs_twins s)\<rparr>"
    using assms(2,3) by (auto simp: getTwin_def Let_def split: sum.splits)
  have "1000 * ?ts \<le> r_now r (rs_world s) + 1000" by (rule js_round_bounds) simp
  with assms(1,4) have "?ts < r_now r w - 600000" by linarith
  moreover have "?ts \<noteq> 0"
    unfolding js_round_def using assms(1) by (simp add: div_eq_0_iff)
  ultimately show ?thesis
    by (simp add: getTwin_def s' Let_def)
qed

subsection \<open>Encrypting\<close>

lemma createNonce_bytes:
  assumes "\<forall>i. 0 \<le> r_random r i \<and> r_random r i < 1" and "b \<in> set (createNonce r n)"
  shows "unat b < 10"
proof -
  from assms(2) obtain i where b: "b = of_int \<lfloor>r_random r i * 10\<rfloor>" by (auto simp: createNonce_def)
  have "0 \<le> \<lfloor>r_random r i * 10\<rfloor>" "\<lfloor>r_random r i * 10\<rfloor> < 10"
    using assms(1) by (simp_all add: floor_less_iff)
  then obtain k where "\<lfloor>r_random r i * 10\<rfloor> = int k" "k < 10"
    using zero_le_imp_eq_int by fastforce
  then show ?thesis
    unfolding b by (simp add: unat_of_nat)
qed

lemma length_createNonce [simp]: "length (createNonce r n) = n"
  by (simp add: createNonce_def)

lemma hex_pairs_hex: "list_all is_hex_digit s \<Longrightarrow> hex_pairs s = from_hex s"
  by (induction s rule: from_hex.induct) auto

lemma to_hex_digits: "list_all is_hex_digit (to_hex bs)"
  using hex_char_props nibble_bounds by (induction bs) (auto simp: to_hex_def)

lemma hexString_to_hex:
  assumes "bs \<noteq> []"
  shows "hexStringToArrayBuffer (''0x'' @ to_hex bs) = Inr bs"
proof -
  have "hex_pairs (to_hex bs) = bs"
    using hex_pairs_hex [OF to_hex_digits] from_hex_to_hex by metis
  with assms show ?thesis by (simp add: hexStringToArrayBuffer_def starts_0x_def)
qed

text \<open>What is used of the packages: the shared point is symmetric, an opened box is what was sealed.\<close>

definition curve_laws :: "'w rmb_env \<Rightarrow> bool" where
  "curve_laws r \<longleftrightarrow> (\<forall>a b pa pb. r_public r a = Inr pa \<longrightarrow> r_public r b = Inr pb \<longrightarrow>
     pa \<noteq> [] \<and> r_point r a pb = r_point r b pa \<and> (\<exists>p. r_point r a pb = Inr p))"

definition aes_laws :: "'w rmb_env \<Rightarrow> bool" where
  "aes_laws r \<longleftrightarrow> (\<forall>m k n. length n = 12 \<longrightarrow> (\<exists>c. r_seal r m k n = Inr c \<and> r_unseal r c k n = Inr m))"

text \<open>
  What is used of polkadot and bip39: \<open>0x\<close> and 64 hexadecimal digits are an address, a mnemonic is none
  (with or without \<open>0x\<close>), and its secret has 32 bytes.
\<close>

definition seed_laws :: "'w rmb_env \<Rightarrow> bool" where
  "seed_laws r \<longleftrightarrow> (\<forall>s. isValidSeed s \<longrightarrow> length s = 64 \<longrightarrow> r_is_address r (''0x'' @ s))
     \<and> (\<forall>s. r_mnemonic r s \<longrightarrow> length (r_mini_secret r s) = 32 \<and> \<not> r_is_address r s \<and> \<not> r_is_address r (''0x'' @ s))"

text \<open>The key that a public key is made of is the one that the shared secret is made of.\<close>

lemma good_secret:
  assumes "seed_laws r" and "generatePublicKey r s = Inr pk" and "curve_laws r"
  obtains priv pub where "r_public r priv = Inr pub" "hexStringToArrayBuffer pk = Inr pub"
    "\<And>other. createShared r other s = bindR (r_point r priv other) (\<lambda>p. Inr (r_sha256 r (take 32 (drop 1 p))))"
proof -
  let ?hex = "if starts_0x s then drop 2 s else s"
  define priv where "priv = (if r_mnemonic r s then Inr (r_mini_secret r s) else Inl ?hex)"
  from assms(2) obtain pub where p: "r_public r priv = Inr pub" "pk = ''0x'' @ to_hex pub"
    and hex: "\<not> r_mnemonic r s \<Longrightarrow> isValidSeed ?hex \<and> length ?hex = 64"
    by (auto simp: generatePublicKey_def getPublicKey_def Let_def bindR_Inr priv_def split: if_splits)
  have "createShared r other s = bindR (r_point r priv other) (\<lambda>p. Inr (r_sha256 r (take 32 (drop 1 p))))" for other
  proof (cases "r_mnemonic r s")
    case True
    then show ?thesis using assms(1) by (simp add: createShared_def seed_laws_def priv_def)
  next
    case False
    note h = hex [OF False]
    show ?thesis
    proof (cases "starts_0x s")
      case True
      then have "s = ''0x'' @ drop 2 s" using append_take_drop_id [of 2 s] by (simp only: starts_0x_def)
      moreover have hs: "isValidSeed (drop 2 s)" "length (drop 2 s) = 64" using h True by simp_all
      ultimately have "r_is_address r s" using assms(1) by (simp only: seed_laws_def) metis
      moreover have "length s = 66" using hs(2) by simp
      ultimately show ?thesis using False True by (simp add: createShared_def priv_def)
    next
      case no: False
      with h assms(1) show ?thesis using False by (simp add: createShared_def priv_def seed_laws_def)
    qed
  qed
  moreover have "pub \<noteq> []" using assms(3) p by (auto simp: curve_laws_def)
  ultimately show ?thesis using that p hexString_to_hex by blast
qed

text \<open>
  C31: A request that one twin encrypts for the public key another one announces, that one decrypts with
  the public key of the first, whether their secrets are mnemonics or hexadecimal seeds, with or without
  \<open>0x\<close>.  This rests on what the packages promise: a symmetric shared point, a box that opens, and the
  shape of addresses and mnemonics.
\<close>

theorem secret_message_round_trip:
  assumes "curve_laws r" and "aes_laws r" and "seed_laws r"
    and "generatePublicKey r sa = Inr pka" and "generatePublicKey r sb = Inr pkb"
  shows "\<exists>c. rmb_encrypt r msg sa pkb = Inr c \<and> rmb_decrypt r c sb pka = Inr (r_utf8 r msg)"
proof -
  obtain xa pa where a: "r_public r xa = Inr pa" "hexStringToArrayBuffer pka = Inr pa"
      "\<And>other. createShared r other sa = bindR (r_point r xa other) (\<lambda>p. Inr (r_sha256 r (take 32 (drop 1 p))))"
    using good_secret [OF assms(3,4,1)] by metis
  obtain xb pb where b: "r_public r xb = Inr pb" "hexStringToArrayBuffer pkb = Inr pb"
      "\<And>other. createShared r other sb = bindR (r_point r xb other) (\<lambda>p. Inr (r_sha256 r (take 32 (drop 1 p))))"
    using good_secret [OF assms(3,5,1)] by metis
  obtain p where p: "r_point r xa pb = Inr p" "r_point r xb pa = Inr p"
    using assms(1) a(1) b(1) unfolding curve_laws_def by metis
  define k where "k = r_sha256 r (take 32 (drop 1 p))"
  have k: "createShared r pb sa = Inr k" "createShared r pa sb = Inr k"
    by (simp_all add: a(3) b(3) p k_def)
  obtain c where c: "r_seal r (r_utf8 r msg) k (createNonce r 12) = Inr c" "r_unseal r c k (createNonce r 12) = Inr (r_utf8 r msg)"
    using assms(2) length_createNonce [of r 12] unfolding aes_laws_def by blast
  have "rmb_encrypt r msg sa pkb = Inr (createNonce r 12 @ c)"
    by (simp add: rmb_encrypt_def b(2) k Let_def c)
  moreover have "rmb_decrypt r (createNonce r 12 @ c) sb pka = Inr (r_utf8 r msg)"
    by (simp add: rmb_decrypt_def a(2) k c)
  ultimately show ?thesis by blast
qed

subsection \<open>Signing\<close>

lemma client_envelope_sel [simp]:
  "en_uid (client_envelope env) = en_uid env" "en_source (client_envelope env) = en_source env"
  "en_message (client_envelope env) = en_message env" "en_signature (client_envelope env) = en_signature env"
  "en_expiration (client_envelope env) = en_expiration env"
  "plain_of (client_envelope env) = plain_of env"
  "plain_of env = [] \<Longrightarrow> cipher_of (client_envelope env) = cipher_of env"
  by (simp_all add: client_envelope_def plain_of_def cipher_of_def split: payload.splits)

lemma challenge_client_envelope:
  "en_schema env = ''application/json'' \<Longrightarrow> rmb_challenge r (client_envelope env) = rmb_challenge r env"
  by (cases "plain_of env = []")
    (simp_all add: rmb_challenge_def challenge_bytes_def client_envelope_def plain_of_def cipher_of_def split: payload.splits)

lemma signature_type_sign:
  "rmb_sign r secret kt data = Inr sig \<Longrightarrow> signature_type sig = Some kt \<and> r_sign r secret kt data = Inr (drop 1 sig)"
  by (cases kt) (auto simp: rmb_sign_def bindR_Inr signature_type_def)

text \<open>What the key pair of an account signs verifies for the account.\<close>

definition sign_laws :: "'w rmb_env \<Rightarrow> string \<Rightarrow> string \<Rightarrow> bool" where
  "sign_laws r secret account \<longleftrightarrow> (\<forall>kt data sig. r_sign r secret kt data = Inr sig \<longrightarrow> r_verify r kt account data sig = Inr True)"

lemma request_envelope_Inr:
  assumes "request_envelope r c s dest command data seconds = Inr env"
  shows "en_schema env = ''application/json''" "en_source env = own_address c" "en_uid env = r_uuid r (rs_world s)"
    "en_expiration env = seconds" "en_message env = (if command = [] then M_none else M_request command)"
    "signEnvelope r c (env\<lparr>en_signature := []\<rparr>) = Inr (en_signature env)"
  using assms
  by (auto simp: request_envelope_def Let_def bindR_Inr new_envelope_def client_envelope_def)

lemma challenge_signature: "rmb_challenge r (env\<lparr>en_signature := sig\<rparr>) = rmb_challenge r env"
  by (simp add: rmb_challenge_def challenge_bytes_def plain_of_def cipher_of_def)

text \<open>
  The envelope of a request verifies where it arrives, if the receiver knows the sender's twin with
  the account that belongs to the sender's secret.
\<close>

theorem sent_request_verifies:
  assumes "request_envelope r c s dest command data seconds = Inr env"
    and "sign_laws r (rc_secret c) (tw_accountId t)" and "getTwin r (tw_id (rc_twin c)) u = (Inr (Some t), u')"
  shows "rmb_verify r (client_envelope env) u = (Inr (Some t), u')"
proof -
  note env = request_envelope_Inr [OF assms(1)]
  have "rmb_sign r (rc_secret c) (rc_keypairType c) (rmb_challenge r env) = Inr (en_signature env)"
    using env(6) by (simp add: signEnvelope_def challenge_signature)
  then have sig: "signature_type (en_signature env) = Some (rc_keypairType c)"
    "r_sign r (rc_secret c) (rc_keypairType c) (rmb_challenge r env) = Inr (drop 1 (en_signature env))"
    using signature_type_sign by blast+
  then have "r_verify r (rc_keypairType c) (tw_accountId t) (rmb_challenge r env) (drop 1 (en_signature env)) = Inr True"
    using assms(2) by (simp add: sign_laws_def)
  with sig(1) assms(3) show ?thesis
    by (simp add: rmb_verify_def env(2) own_address_def challenge_client_envelope [OF env(1)])
qed

subsection \<open>Reading a reply\<close>

lemma getTwin_keeps: "getTwin r i s = (x, s') \<Longrightarrow> rs_responses s' = rs_responses s \<and> rs_world s' = rs_world s"
  by (auto simp: getTwin_def Let_def split: option.splits sum.splits if_splits prod.splits)

lemma rmb_verify_keeps: "rmb_verify r env s = (x, s') \<Longrightarrow> rs_responses s' = rs_responses s \<and> rs_world s' = rs_world s"
  by (auto simp: rmb_verify_def split: option.splits sum.splits prod.splits bool.splits dest: getTwin_keeps)

lemma rmb_verify_Some:
  assumes "rmb_verify r env s = (Inr (Some t), s')"
  shows "\<exists>kt. signature_type (en_signature env) = Some kt \<and> getTwin r (ad_twin (en_source env)) s = (Inr (Some t), s')
    \<and> r_verify r kt (tw_accountId t) (rmb_challenge r env) (drop 1 (en_signature env)) = Inr True"
  using assms by (auto simp: rmb_verify_def split: option.splits sum.splits prod.splits bool.splits)

lemma read_round_keeps:
  "read_round r c uid s = (None, s') \<Longrightarrow> rs_responses s' = rs_responses s \<and> rs_world s' = rs_world s"
  by (auto simp: read_round_def split: option.splits message.splits sum.splits prod.splits dest: rmb_verify_keeps)

lemma read_round_resolved:
  assumes "read_round r c uid s = (Some (Resolved v), s')"
  obtains env t u where "map_of (rs_responses s) uid = Some env" "en_message env = M_response"
    "rmb_verify r env s = (Inr (Some t), u)" "decode_payload r c env t = Inr (Some v)" "s' = forget uid u"
  using assms by (auto simp: read_round_def split: option.splits message.splits sum.splits prod.splits)

lemma read_rounds_resolved:
  "read_rounds n r c uid start env s = (Some (Resolved v), s') \<Longrightarrow>
   \<exists>u. read_round r c uid u = (Some (Resolved v), s')"
proof (induction n arbitrary: env s)
  case (Suc n)
  then show ?case
    by (auto split: option.splits if_splits prod.splits)
qed simp

text \<open>
  A reply is handed to the caller only if a response stood under the request's id whose signature is
  right for the twin it claims to come from, and the value is what its payload decodes to; the
  request is forgotten.
\<close>

theorem resolved_reply_was_signed:
  assumes "rmb_read fuel r c uid s = (Some (Resolved v), s')"
  shows "\<exists>u env t u' kt. map_of (rs_responses u) uid = Some env \<and> en_message env = M_response
    \<and> getTwin r (ad_twin (en_source env)) u = (Inr (Some t), u')
    \<and> signature_type (en_signature env) = Some kt
    \<and> r_verify r kt (tw_accountId t) (rmb_challenge r env) (drop 1 (en_signature env)) = Inr True
    \<and> decode_payload r c env t = Inr (Some v) \<and> map_of (rs_responses s') uid = None"
proof -
  obtain u where "read_round r c uid u = (Some (Resolved v), s')"
    using read_rounds_resolved assms unfolding rmb_read_def by blast
  then obtain env t u' where r: "map_of (rs_responses u) uid = Some env" "en_message env = M_response"
    "rmb_verify r env u = (Inr (Some t), u')" "decode_payload r c env t = Inr (Some v)" "s' = forget uid u'"
    by (rule read_round_resolved)
  moreover have "map_of (rs_responses s') uid = None"
    by (auto simp: r(5) forget_def map_of_eq_None_iff)
  ultimately show ?thesis using rmb_verify_Some [OF r(3)] by blast
qed

text \<open>
  Any twin can answer for the one that was asked: a reply with the id of the request resolves it, if
  only it is signed by the twin it names as its source, whoever the request was sent to.
\<close>

theorem reply_of_any_twin_accepted:
  assumes "map_of (rs_responses s) uid = Some req" and "en_message req = M_request cmd" and "0 < en_expiration req"
    and "r_sleep r (rs_world s) = ([reply], w)" and "en_uid reply = uid" and "en_message reply = M_response"
    and "r_now r w < r_now r (rs_world s) + en_expiration req * 1000"
    and "\<forall>u. rs_world u = w \<longrightarrow> rs_twins u = rs_twins s \<longrightarrow> (\<exists>u'. rmb_verify r (client_envelope reply) u = (Inr (Some t), u'))"
    and "decode_payload r c (client_envelope reply) t = Inr (Some v)"
  shows "fst (rmb_read 2 r c uid s) = Some (Resolved v)"
proof -
  have r1: "read_round r c uid s = (None, s)"
    using assms(1,2) by (simp add: read_round_def)
  let ?s = "sleep_second r s"
  have s: "map_of (rs_responses ?s) uid = Some (client_envelope reply)" "rs_world ?s = w" "rs_twins ?s = rs_twins s"
    using assms(1,4,5) by (simp_all add: sleep_second_def onmessage_def)
  obtain u' where "rmb_verify r (client_envelope reply) ?s = (Inr (Some t), u')"
    using assms(8) s by blast
  then have r2: "read_round r c uid ?s = (Some (Resolved v), forget uid u')"
    using s(1) assms(6,9) by (simp add: read_round_def)
  show ?thesis
    using assms(1,3,7) by (simp add: rmb_read_def numeral_2_eq_2 r1 r2 s)
qed

text \<open>
  A reply that is signed but whose payload is no JSON, or cannot be decrypted, leaves the caller
  waiting for ever: the promise is neither resolved nor rejected, and the request stays in the table.
\<close>

theorem malformed_reply_never_settles:
  assumes "map_of (rs_responses s) uid = Some env" and "en_message env = M_response" and "0 < en_expiration env"
    and "rmb_verify r env s = (Inr (Some t), s')" and "decode_payload r c env t = Inl err"
  shows "rmb_read (Suc n) r c uid s = (Some Never, s') \<and> map_of (rs_responses s') uid = Some env"
proof -
  have "read_round r c uid s = (Some Never, s')"
    using assms by (simp add: read_round_def)
  with assms(1,3) rmb_verify_keeps [OF assms(4)] show ?thesis
    by (simp add: rmb_read_def)
qed

subsection \<open>Waiting ends\<close>

definition short_lived :: "int \<Rightarrow> 'w rmb_state \<Rightarrow> bool" where
  "short_lived e s \<longleftrightarrow> (\<forall>p \<in> set (rs_responses s). en_expiration (snd p) \<le> e)"

lemma onmessage_short: "short_lived e s \<Longrightarrow> en_expiration env \<le> e \<Longrightarrow> short_lived e (onmessage env s) \<and> rs_world (onmessage env s) = rs_world s"
  by (auto simp: onmessage_def short_lived_def dest!: subsetD [OF set_obj_set] split: option.splits)

lemma onmessages_short:
  "short_lived e s \<Longrightarrow> \<forall>env \<in> set envs. en_expiration env \<le> e \<Longrightarrow>
   short_lived e (foldl (\<lambda>t env. onmessage env t) s envs) \<and> rs_world (foldl (\<lambda>t env. onmessage env t) s envs) = rs_world s"
proof (induction envs arbitrary: s)
  case (Cons env envs)
  then show ?case using onmessage_short [of e s env] by simp
qed simp

lemma sleep_short:
  assumes "short_lived e s" and "\<forall>env \<in> set (fst (r_sleep r (rs_world s))). en_expiration env \<le> e"
  shows "short_lived e (sleep_second r s) \<and> rs_world (sleep_second r s) = snd (r_sleep r (rs_world s))"
proof -
  have "short_lived e (s\<lparr>rs_world := snd (r_sleep r (rs_world s))\<rparr>)"
    using assms(1) by (simp add: short_lived_def)
  from onmessages_short [OF this assms(2)] show ?thesis
    by (simp add: sleep_second_def case_prod_beta)
qed

text \<open>A second of sleep takes a second.\<close>

definition second_passes :: "'w rmb_env \<Rightarrow> bool" where
  "second_passes r \<longleftrightarrow> (\<forall>w. r_now r w + 1000 \<le> r_now r (snd (r_sleep r w)))"

lemma read_rounds_end:
  assumes "second_passes r" and "\<forall>w. \<forall>env \<in> set (fst (r_sleep r w)). en_expiration env \<le> e"
  shows "short_lived e s \<Longrightarrow> (\<And>en. env = Some en \<Longrightarrow> en_expiration en \<le> e) \<Longrightarrow>
    start + e * 1000 \<le> r_now r (rs_world s) + int n * 1000 \<Longrightarrow>
    fst (read_rounds (Suc n) r c uid start env s) \<noteq> None"
proof (induction n arbitrary: env s)
  case 0
  then show ?case by (cases env) fastforce+
next
  case (Suc n)
  show ?case
  proof (cases env)
    case (Some en)
    show ?thesis
    proof (cases "fst (read_round r c uid s)")
      case None
      then obtain s' where r: "read_round r c uid s = (None, s')" by (cases "read_round r c uid s") auto
      have k: "rs_responses s' = rs_responses s" "rs_world s' = rs_world s"
        using read_round_keeps [OF r] by simp_all
      then have sl: "short_lived e s'" using Suc.prems(1) by (simp add: short_lived_def)
      have sp: "short_lived e (sleep_second r s')" "rs_world (sleep_second r s') = snd (r_sleep r (rs_world s))"
        using sleep_short [OF sl] assms(2) k by auto
      have "r_now r (rs_world s) + 1000 \<le> r_now r (rs_world (sleep_second r s'))"
        using assms(1) sp(2) by (simp add: second_passes_def)
      then have "fst (read_rounds (Suc n) r c uid start (map_of (rs_responses s) uid) (sleep_second r s')) \<noteq> None"
        using Suc.prems(1,3) by (intro Suc.IH sp(1)) (auto simp: short_lived_def dest!: map_of_SomeD)
      then show ?thesis
        using Some by (subst read_rounds.simps) (auto simp: r)
    next
      case (Some out)
      then obtain s' where "read_round r c uid s = (Some out, s')" by (cases "read_round r c uid s") auto
      then show ?thesis using \<open>env = Some en\<close> by (subst read_rounds.simps) auto
    qed
  qed simp
qed

text \<open>
  Waiting for a reply ends, in one round per second of the longest expiration: with a value, an
  error, or a promise that nobody settles any more.
\<close>

theorem reading_ends:
  assumes "second_passes r" and "\<forall>w. \<forall>env \<in> set (fst (r_sleep r w)). en_expiration env \<le> e"
    and "\<forall>p \<in> set (rs_responses s). en_expiration (snd p) \<le> e"
  shows "fst (rmb_read (Suc (nat e)) r c uid s) \<noteq> None"
  unfolding rmb_read_def using assms
  by (intro read_rounds_end [where e = e]) (auto simp: short_lived_def dest!: map_of_SomeD)

subsection \<open>Examples\<close>

text \<open>
  A world that counts milliseconds; one reply arrives in the first second.  Packages that seal and
  sign by doing nothing, with one point for every pair of keys.
\<close>

definition demo_reply :: Envelope where
  "demo_reply = \<lparr>en_uid = ''u'', en_tags = [], en_timestamp = 0, en_expiration = 5,
     en_source = \<lparr>ad_twin = 99, ad_connection = []\<rparr>, en_destination = \<lparr>ad_twin = 7, ad_connection = []\<rparr>,
     en_message = M_response, en_signature = [115], en_schema = ''application/json'', en_federation = [],
     en_payload = P_plain [49], en_relays = []\<rparr>"

definition demo_twin :: "int \<Rightarrow> Twin" where
  "demo_twin i = \<lparr>tw_id = i, tw_accountId = ''acc'', tw_relay = ''relay'', tw_pk = []\<rparr>"

definition rmb_pallets :: pallet_env where
  "rmb_pallets = demo_pallets\<lparr>q_twin := (\<lambda>i. Inr (Some (demo_twin i)))\<rparr>"

definition demo_rmb :: "nat rmb_env" where
  "demo_rmb = \<lparr>r_utf8 = (\<lambda>_. []), r_text = (\<lambda>_. ''1''), r_json = (\<lambda>s. if s = ''1'' then Inr (J_num 1) else Inl TypeError),
     r_md5 = (\<lambda>_. []), r_sign = (\<lambda>_ _ _. Inr []), r_verify = (\<lambda>_ _ _ _. Inr True), r_mnemonic = (\<lambda>_. True),
     r_mini_secret = (\<lambda>_. replicate 32 0), r_is_address = (\<lambda>_. False), r_public = (\<lambda>_. Inr [1]), r_point = (\<lambda>_ _. Inr [1]),
     r_sha256 = (\<lambda>_. []), r_seal = (\<lambda>m _ _. Inr m), r_unseal = (\<lambda>c _ _. Inr c), r_random = (\<lambda>_. 0),
     r_uuid = (\<lambda>_. ''u''), r_now = (\<lambda>n. 1000000 + 1000 * int n), r_pallets = (\<lambda>_. rmb_pallets),
     r_sleep = (\<lambda>n. (if n = 0 then [demo_reply] else [], Suc n)), r_is_open = (\<lambda>_. True), r_wait_open = (\<lambda>n. (True, n)),
     r_reopen = (\<lambda>n. (Inr (), n)), r_transmit = (\<lambda>_ n. (Inr (), n))\<rparr>"

definition demo_request :: Envelope where
  "demo_request = demo_reply\<lparr>en_message := M_request ''zos.system.version'', en_destination := \<lparr>ad_twin = 3, ad_connection = []\<rparr>\<rparr>"

definition demo_rmb_state :: "Envelope \<Rightarrow> nat rmb_state" where
  "demo_rmb_state env = \<lparr>rs_twins = [], rs_responses = [(''u'', env)], rs_world = 0\<rparr>"

definition demo_rmb_client :: rmb_client where
  "demo_rmb_client = \<lparr>rc_twin = demo_twin 7, rc_secret = [], rc_keypairType = KP_sr25519, rc_session = []\<rparr>"

lemma demo_getTwin: "rs_twins s = [] \<Longrightarrow> getTwin demo_rmb 99 s
    = (Inr (Some (demo_twin 99)), s\<lparr>rs_twins := [(99, Some (demo_twin 99), js_round (1000000 + 1000 * int (rs_world s)) 1000)]\<rparr>)"
  by (simp add: getTwin_def demo_rmb_def Let_def twin_get_def checkConnection_def rmb_pallets_def demo_pallets_def)

theorem kept_twin_never_refreshed_witness:
  "\<exists>s'. getTwin demo_rmb 99 (s'\<lparr>rs_world := 5000 :: nat\<rparr>) = (Inr (Some (demo_twin 99)), s'\<lparr>rs_world := 5000\<rparr>)"
proof -
  have g: "getTwin demo_rmb 99 (demo_rmb_state demo_request) = (Inr (Some (demo_twin 99)), snd (getTwin demo_rmb 99 (demo_rmb_state demo_request)))"
    by (simp add: demo_getTwin demo_rmb_state_def)
  show ?thesis
    using kept_twin_never_refreshed [OF _ _ g, of 5000] by (auto simp: demo_rmb_def demo_rmb_state_def)
qed

text \<open>A curve over bytes, boxes that carry their key, and two secrets: a seed with \<open>0x\<close> and the mnemonic \<open>word\<close>.\<close>

fun byte_key :: "string + bytes \<Rightarrow> 8 word" where
  "byte_key (Inl s) = of_nat (sum_list (map (\<lambda>c. of_char c :: nat) s))"
| "byte_key (Inr bs) = sum_list bs"

definition seed_rmb :: "nat rmb_env" where
  "seed_rmb = demo_rmb\<lparr>r_mnemonic := (\<lambda>s. s = ''word''), r_mini_secret := (\<lambda>_. replicate 32 5),
     r_is_address := (\<lambda>s. starts_0x s \<and> length s = 66), r_public := (\<lambda>x. Inr [byte_key x]),
     r_point := (\<lambda>x bs. Inr (replicate 33 (byte_key x * hd bs))), r_sha256 := (\<lambda>bs. bs), r_utf8 := (\<lambda>s. map (\<lambda>c. of_nat (of_char c)) s),
     r_seal := (\<lambda>m k n. Inr (k @ n @ m)),
     r_unseal := (\<lambda>c k n. if take (length k + length n) c = k @ n then Inr (drop (length k + length n) c) else Inl TypeError)\<rparr>"

definition demo_seed :: string where
  "demo_seed = ''0x'' @ replicate 63 (CHR ''a'') @ ''1''"

theorem secret_message_round_trip_witness:
  "\<exists>pka pkb c. generatePublicKey seed_rmb demo_seed = Inr pka \<and> generatePublicKey seed_rmb ''word'' = Inr pkb \<and> pka \<noteq> pkb
    \<and> rmb_encrypt seed_rmb ''hi'' demo_seed pkb = Inr c \<and> rmb_decrypt seed_rmb c ''word'' pka = Inr [104, 105]"
proof -
  have l: "curve_laws seed_rmb" "aes_laws seed_rmb" "seed_laws seed_rmb"
    by (auto simp: curve_laws_def aes_laws_def seed_laws_def seed_rmb_def starts_0x_def mult.commute)
  obtain pka pkb where k: "generatePublicKey seed_rmb demo_seed = Inr pka" "generatePublicKey seed_rmb ''word'' = Inr pkb" "pka \<noteq> pkb"
  proof -
    have "generatePublicKey seed_rmb demo_seed = Inr ''0x10'' \<and> generatePublicKey seed_rmb ''word'' = Inr ''0xa0''" by code_simp
    with that show thesis by simp
  qed
  have "r_utf8 seed_rmb ''hi'' = [104, 105]" by (simp add: seed_rmb_def)
  then show ?thesis
    using secret_message_round_trip [OF l k(1,2), of "''hi''"] k by auto
qed

theorem sent_request_verifies_witness:
  "\<exists>env u'. request_envelope demo_rmb demo_rmb_client (demo_rmb_state demo_request) (demo_twin 3) ''cmd'' [] 5 = Inr env
    \<and> rmb_verify demo_rmb (client_envelope env) (demo_rmb_state demo_request) = (Inr (Some (demo_twin 7)), u')"
proof -
  obtain env where e: "request_envelope demo_rmb demo_rmb_client (demo_rmb_state demo_request) (demo_twin 3) ''cmd'' [] 5 = Inr env"
    by (simp add: request_envelope_def Let_def payload_for_def signEnvelope_def rmb_sign_def demo_rmb_def)
  have "sign_laws demo_rmb (rc_secret demo_rmb_client) (tw_accountId (demo_twin 7))"
    by (simp add: sign_laws_def demo_rmb_def)
  moreover have "getTwin demo_rmb (tw_id (rc_twin demo_rmb_client)) (demo_rmb_state demo_request)
      = (Inr (Some (demo_twin 7)), snd (getTwin demo_rmb 7 (demo_rmb_state demo_request)))"
    by (simp add: demo_rmb_client_def demo_twin_def getTwin_def demo_rmb_def demo_rmb_state_def Let_def twin_get_def
        checkConnection_def rmb_pallets_def demo_pallets_def)
  ultimately show ?thesis using sent_request_verifies [OF e] e by blast
qed

lemma demo_verify:
  "rs_twins u = [] \<Longrightarrow> \<exists>u'. rmb_verify demo_rmb (client_envelope demo_reply) u = (Inr (Some (demo_twin 99)), u')"
  by (simp add: rmb_verify_def demo_reply_def signature_type_def demo_getTwin)
    (simp add: demo_rmb_def)

lemma demo_plain: "plain_of (client_envelope demo_reply) = [49]"
  by (simp add: demo_reply_def client_envelope_def plain_of_def)

lemma demo_decode: "decode_payload demo_rmb c (client_envelope demo_reply) t = Inr (Some (J_num 1))"
  using demo_plain by (simp add: decode_payload_def) (simp add: demo_rmb_def)

theorem reply_of_any_twin_accepted_witness:
  "ad_twin (en_destination demo_request) = 3 \<and> ad_twin (en_source demo_reply) = 99
    \<and> fst (rmb_read 2 demo_rmb demo_rmb_client ''u'' (demo_rmb_state demo_request)) = Some (Resolved (J_num 1))"
proof (intro conjI)
  show "fst (rmb_read 2 demo_rmb demo_rmb_client ''u'' (demo_rmb_state demo_request)) = Some (Resolved (J_num 1))"
  proof (rule reply_of_any_twin_accepted [where w = 1 and reply = demo_reply and t = "demo_twin 99" and req = demo_request])
    show "\<forall>u. rs_world u = 1 \<longrightarrow> rs_twins u = rs_twins (demo_rmb_state demo_request) \<longrightarrow>
        (\<exists>u'. rmb_verify demo_rmb (client_envelope demo_reply) u = (Inr (Some (demo_twin 99)), u'))"
      using demo_verify by (simp add: demo_rmb_state_def)
    show "decode_payload demo_rmb demo_rmb_client (client_envelope demo_reply) (demo_twin 99) = Inr (Some (J_num 1))"
      by (rule demo_decode)
  qed (simp_all add: demo_rmb_state_def demo_request_def demo_reply_def demo_rmb_def)
qed (simp_all add: demo_request_def demo_reply_def)

theorem resolved_reply_was_signed_witness:
  "\<exists>u env t u'. map_of (rs_responses u) ''u'' = Some env \<and> en_message env = M_response
    \<and> getTwin demo_rmb (ad_twin (en_source env)) u = (Inr (Some t), u')"
proof -
  obtain u' where v: "rmb_verify demo_rmb (client_envelope demo_reply) (demo_rmb_state (client_envelope demo_reply)) = (Inr (Some (demo_twin 99)), u')"
    using demo_verify [of "demo_rmb_state (client_envelope demo_reply)"] by (auto simp: demo_rmb_state_def)
  have "read_round demo_rmb demo_rmb_client ''u'' (demo_rmb_state (client_envelope demo_reply)) = (Some (Resolved (J_num 1)), forget ''u'' u')"
    using v demo_decode [of demo_rmb_client] by (simp add: read_round_def demo_rmb_state_def) (simp add: demo_reply_def)
  then have "rmb_read 1 demo_rmb demo_rmb_client ''u'' (demo_rmb_state (client_envelope demo_reply)) = (Some (Resolved (J_num 1)), forget ''u'' u')"
    by (simp add: rmb_read_def demo_rmb_state_def) (simp add: demo_reply_def)
  from resolved_reply_was_signed [OF this] show ?thesis by blast
qed

text \<open>The same reply with a payload that is no JSON.\<close>

definition demo_broken :: "nat rmb_env" where
  "demo_broken = demo_rmb\<lparr>r_json := (\<lambda>_. Inl TypeError)\<rparr>"

theorem malformed_reply_never_settles_witness:
  "fst (rmb_read 9 demo_broken demo_rmb_client ''u'' (demo_rmb_state (client_envelope demo_reply))) = Some Never"
proof -
  have "\<exists>u'. rmb_verify demo_broken (client_envelope demo_reply) (demo_rmb_state (client_envelope demo_reply)) = (Inr (Some (demo_twin 99)), u')"
    by (simp add: rmb_verify_def demo_reply_def signature_type_def getTwin_def demo_broken_def demo_rmb_state_def demo_rmb_def Let_def
        twin_get_def checkConnection_def rmb_pallets_def demo_pallets_def)
  then obtain u' where v: "rmb_verify demo_broken (client_envelope demo_reply) (demo_rmb_state (client_envelope demo_reply)) = (Inr (Some (demo_twin 99)), u')"
    by blast
  have "rmb_read (Suc 8) demo_broken demo_rmb_client ''u'' (demo_rmb_state (client_envelope demo_reply)) = (Some Never, u') \<and>
      map_of (rs_responses u') ''u'' = Some (client_envelope demo_reply)"
  proof (rule malformed_reply_never_settles [OF _ _ _ v])
    show "decode_payload demo_broken demo_rmb_client (client_envelope demo_reply) (demo_twin 99) = Inl TypeError"
      using demo_plain by (simp add: decode_payload_def) (simp add: demo_broken_def)
  qed (simp_all add: demo_rmb_state_def, simp_all add: demo_reply_def)
  then show ?thesis by simp
qed

theorem reading_ends_witness:
  "fst (rmb_read 6 demo_rmb demo_rmb_client ''u'' (demo_rmb_state demo_request)) \<noteq> None"
proof -
  have "second_passes demo_rmb" "\<forall>w. \<forall>env \<in> set (fst (r_sleep demo_rmb w)). en_expiration env \<le> 5"
    "\<forall>p \<in> set (rs_responses (demo_rmb_state demo_request)). en_expiration (snd p) \<le> 5"
    by (auto simp: second_passes_def demo_rmb_def demo_rmb_state_def demo_request_def demo_reply_def split: if_splits)
  from reading_ends [OF this, of demo_rmb_client "''u''"] show ?thesis by simp
qed

end
