(* ===== verification/GridContracts.thy ===== *)
theory GridContracts
  imports Calculator Pallets
begin

text \<open>
  \<open>grid_client/src/clients/tf-grid/contracts.ts\<close>: what contracts cost and owe, and cancelling and
  unlocking them.  The contracts are those of the grid proxy and of the graph database, which with the
  chain are the parameter \<open>contract_env\<close>.
\<close>

subsection \<open>Contracts as the proxy and the graph list them\<close>

datatype proxy_type = PX_name | PX_node | PX_rent

record proxy_contract =
  px_id :: int
  px_type :: proxy_type
  px_nodeId :: int
  px_ips :: int

record proxy_node =
  pn_nodeId :: int
  pn_certificationType :: string
  pn_total :: NodeResources
  pn_rented :: bool

text \<open>The fields of \<open>ContractsQuery\<close> that are used; an absent one is \<open>None\<close>.\<close>

record contracts_query =
  cq_node :: "int option"
  cq_twin :: "int option"
  cq_state :: "string list"
  cq_ips :: "int option"
  cq_retCount :: bool
  cq_size :: "int option"

record bill_report =
  br_discount :: string
  br_amount :: rat
  br_timestamp :: rat

record contract_env =
  ce_pallets :: pallet_env
  ce_price :: price_env
  ce_node :: "int \<Rightarrow> js_error + proxy_node"
  ce_extra_fee :: "int \<Rightarrow> js_error + rat"
  ce_used :: "int \<Rightarrow> js_error + NodeResources"
  ce_payment :: "int \<Rightarrow> js_error + rat \<times> rat \<times> int"
  ce_unbilled :: "int \<Rightarrow> js_error + rat"
  ce_list :: "contracts_query \<Rightarrow> js_error + proxy_contract list \<times> int option"
  ce_now :: int
  ce_reports :: "int \<Rightarrow> js_error + bill_report list"
  ce_created :: "int \<Rightarrow> rat list list"
  ce_graph_ids :: "int \<Rightarrow> string \<Rightarrow> string \<Rightarrow> js_error + int list \<times> int list \<times> int list"
  ce_locked :: "int \<Rightarrow> js_error + rat"

definition SECONDS_ONE_HOUR :: int where "SECONDS_ONE_HOUR = 60 * 60"

definition HOURS_ONE_MONTH :: int where "HOURS_ONE_MONTH = 24 * 30"

definition TFT_CONVERSION_FACTOR :: rat where "TFT_CONVERSION_FACTOR = 10 ^ 7"

subsection \<open>Listing\<close>

definition default_states :: "string list \<Rightarrow> string list" where
  "default_states states = (if states = [] then [''Created'', ''GracePeriod''] else states)"

definition state_text :: "string list \<Rightarrow> string" where
  "state_text states = ''['' @ join_with '', '' states @ '']''"

text \<open>
  The condition on the deployment data: texts within a text within the query.  The text for the project
  name is left open, so that a name matches every name it is a prefix of.
\<close>

definition data_contains :: "string \<Rightarrow> string \<Rightarrow> bool \<Rightarrow> string" where
  "data_contains field val ends = ''{ deploymentData_contains: '' @ [CHR 0x22, CHR 0x5C, CHR 0x22] @ field
     @ [CHR 0x5C, CHR 0x22] @ '':'' @ [CHR 0x5C, CHR 0x22] @ val @ (if ends then [CHR 0x5C, CHR 0x22] else []) @ [CHR 0x22] @ '' }''"

definition filterQuery :: "int \<Rightarrow> string \<Rightarrow> string \<Rightarrow> string" where
  "filterQuery nodeId typ projectName =
     (if nodeId \<noteq> 0 then '' , nodeID_eq: '' @ show_int nodeId else [])
     @ (if typ \<noteq> [] \<or> projectName \<noteq> []
        then '' , AND: ['' @ (if typ \<noteq> [] then data_contains ''type'' typ True @ '','' else [])
             @ (if projectName \<noteq> [] then data_contains ''projectName'' projectName False else []) @ '']''
        else [])"

definition listContractsByTwinId ::
  "contract_env \<Rightarrow> int \<Rightarrow> string list \<Rightarrow> js_error + int list \<times> int list \<times> int list"
where
  "listContractsByTwinId e twinId states =
     (case ce_graph_ids e twinId (state_text (default_states states)) [] of
        Inl err \<Rightarrow> Inl (with_prefix (''Error listing contracts by twin id '' @ show_int twinId @ ''.'') err)
      | Inr r \<Rightarrow> Inr r)"

definition listNodeContractsByTwinId ::
  "contract_env \<Rightarrow> int \<Rightarrow> string list \<Rightarrow> int \<Rightarrow> string \<Rightarrow> string \<Rightarrow> js_error + int list"
where
  "listNodeContractsByTwinId e twinId states nodeId typ projectName =
     (case ce_graph_ids e twinId (state_text (default_states states)) (filterQuery nodeId typ projectName) of
        Inl err \<Rightarrow> Inl (with_prefix (''Error listing contracts by twin id '' @ show_int twinId @ ''.'') err)
      | Inr (_, nodes, _) \<Rightarrow> Inr nodes)"

definition listMyContracts :: "contract_env \<Rightarrow> string list \<Rightarrow> js_error + int list \<times> int list \<times> int list" where
  "listMyContracts e states = bindR (getMyTwinId (ce_pallets e)) (\<lambda>t. listContractsByTwinId e t states)"

definition listMyNodeContracts :: "contract_env \<Rightarrow> string list \<Rightarrow> int \<Rightarrow> string \<Rightarrow> string \<Rightarrow> js_error + int list" where
  "listMyNodeContracts e states nodeId typ projectName =
     bindR (getMyTwinId (ce_pallets e)) (\<lambda>t. listNodeContractsByTwinId e t states nodeId typ projectName)"

definition listContractsByAddress ::
  "contract_env \<Rightarrow> string \<Rightarrow> string list \<Rightarrow> js_error + int list \<times> int list \<times> int list"
where
  "listContractsByAddress e accountId states =
     bindR (getTwinIdByAccountId (ce_pallets e) accountId) (\<lambda>t. listContractsByTwinId e t states)"

text \<open>The page that comes first, or all in one page when there are more.\<close>

definition listAllContracts :: "contract_env \<Rightarrow> contracts_query \<Rightarrow> js_error + proxy_contract list" where
  "listAllContracts e q = bindR (ce_list e (q\<lparr>cq_retCount := True\<rparr>)) (\<lambda>(data, n).
     let c = (case n of None \<Rightarrow> 0 | Some c \<Rightarrow> c) in
     if int (length data) < c then bindR (ce_list e (q\<lparr>cq_size := Some c\<rparr>)) (\<lambda>(all, _). Inr all) else Inr data)"

definition grace_query :: "int \<Rightarrow> contracts_query" where
  "grace_query nodeId = \<lparr>cq_node = Some nodeId, cq_twin = None, cq_state = [''GracePeriod''], cq_ips = Some 1,
     cq_retCount = False, cq_size = None\<rparr>"

definition getNodeContractsOnRentedNode :: "contract_env \<Rightarrow> int \<Rightarrow> js_error + proxy_contract list" where
  "getNodeContractsOnRentedNode e nodeId = listAllContracts e (grace_query nodeId)"

subsection \<open>Bills\<close>

text \<open>The reports come with the latest first.\<close>

definition getDiscountPackage :: "contract_env \<Rightarrow> int \<Rightarrow> js_error + string" where
  "getDiscountPackage e i = (case ce_reports e i of
     Inl err \<Rightarrow> Inl (with_prefix (''Error getting discount package for contract '' @ show_int i @ ''.'') err)
   | Inr [] \<Rightarrow> Inr ''None''
   | Inr rs \<Rightarrow> Inr (br_discount (last rs)))"

text \<open>The times the contract was created at, as node, name and rent contract: the first list with one entry counts.\<close>

definition created_hours :: "rat \<Rightarrow> rat list list \<Rightarrow> rat" where
  "created_hours timestamp created = (case filter (\<lambda>l. length l = 1) created of [] \<Rightarrow> 1 | l # _ \<Rightarrow> (timestamp - hd l) / 3600)"

definition getConsumption :: "contract_env \<Rightarrow> int \<Rightarrow> js_error + rat" where
  "getConsumption e i = (case ce_reports e i of
     Inl err \<Rightarrow> Inl (with_prefix (''Error getting consumption for contract '' @ show_int i @ ''.'') err)
   | Inr rs \<Rightarrow> (case take 2 rs of
       [] \<Rightarrow> Inr 0
     | r # rest \<Rightarrow> (let duration = (case rest of r2 # _ \<Rightarrow> (br_timestamp r - br_timestamp r2) / 3600
                                  | [] \<Rightarrow> created_hours (br_timestamp r) (ce_created e i))
                   in Inr (br_amount r / (if duration = 0 then 1 else duration) / 10 ^ 7))))"

definition tf_contractLock :: "contract_env \<Rightarrow> int \<Rightarrow> js_error + rat" where
  "tf_contractLock e i = checkConnection (ce_pallets e) (bindR (ce_locked e i) (\<lambda>a. Inr (a / 10 ^ 7)))"

subsection \<open>Costs\<close>

text \<open>
  \<open>convertUSDtoTFT\<close> refuses amounts below zero, and what it divided by a price of zero is no number.
\<close>

definition convertToTFT :: "contract_env \<Rightarrow> rat \<Rightarrow> js_error + rat" where
  "convertToTFT e usd = (case tf_price_get (ce_pallets e) of
     Inl err \<Rightarrow> Inl (GridClientError (''Failed to convert to TFT due: '' @ error_to_string err))
   | Inr rate \<Rightarrow>
       if usd < 0 \<or> rate = 0 \<or> usd / rate < 0
       then Inl (GridClientError (''Failed to convert to TFT due: '' @ error_to_string validation_failed))
       else Inr (convertUSDtoTFT 15 rate usd))"

definition getUnbilledNu :: "contract_env \<Rightarrow> int \<Rightarrow> int \<Rightarrow> js_error + rat" where
  "getUnbilledNu e contract_id node_id = bindR (ce_unbilled e contract_id) (\<lambda>nu.
     if 0 < nu
     then bindR (node_get (ce_pallets e) (Some node_id)) (\<lambda>n. case n of
            None \<Rightarrow> Inl TypeError
          | Some certification \<Rightarrow> Inr (if certification = ''Certified'' then nu * (125 / 100) else nu))
     else Inr nu)"

text \<open>The fee is kept in thousandths of a dollar; these two convert.\<close>

definition tf_getDedicatedNodeExtraFee :: "contract_env \<Rightarrow> int \<Rightarrow> js_error + rat" where
  "tf_getDedicatedNodeExtraFee e nodeId =
     bindR (checkConnection (ce_pallets e) (ce_extra_fee e nodeId)) (\<lambda>fee. Inr (fee / 10 ^ 3))"

definition tf_setDedicatedNodeExtraFee :: "contract_env \<Rightarrow> int \<Rightarrow> rat \<Rightarrow> js_error + extrinsic" where
  "tf_setDedicatedNodeExtraFee e nodeId fee = checkConnection (ce_pallets e)
     (Inr (plain_tx ''smartContractModule'' ''setDedicatedNodeExtraFee'' [A_int nodeId, A_num (fee * 10 ^ 3)]))"

definition bytesToGB :: "int \<Rightarrow> rat" where
  "bytesToGB b = of_int b / 1024 ^ 3"

definition cost_options :: "bool \<Rightarrow> bool \<Rightarrow> NodeResources \<Rightarrow> CalculatorModel" where
  "cost_options ipv4u certified res = \<lparr>cm_cru = r_cru res, cm_mru = bytesToGB (r_mru res), cm_sru = bytesToGB (r_sru res),
     cm_hru = bytesToGB (r_hru res), cm_ipv4u = ipv4u, cm_certified = certified, cm_balance = None, cm_nu = None\<rparr>"

definition getContractCost :: "contract_env \<Rightarrow> proxy_contract \<Rightarrow> js_error + rat" where
  "getContractCost e contract =
     (if px_type contract = PX_name then namePricing (ce_price e)
      else bindR (ce_node e (px_nodeId contract)) (\<lambda>node.
        let certified = (pn_certificationType node = ''Certified'') in
        if px_type contract = PX_rent
        then bindR (tf_getDedicatedNodeExtraFee e (pn_nodeId node)) (\<lambda>fees.
               bindR (calculateWithMyBalance (ce_price e) (cost_options False certified (pn_total node))) (\<lambda>info.
                 Inr (pf_dedicatedPrice info + fees / 1000)))
        else if pn_rented node
        then (if px_ips contract = 0 then Inr 0
              else bindR (pe_prices (ce_price e)) (\<lambda>p.
                let month = of_int (pp_ipu p) / TFT_CONVERSION_FACTOR * of_int HOURS_ONE_MONTH
                in Inr (if certified then month * (125 / 100) else month)))
        else bindR (ce_used e (px_id contract)) (\<lambda>used.
               bindR (calculateWithMyBalance (ce_price e) (cost_options (px_ips contract \<noteq> 0) certified used)) (\<lambda>info.
                 Inr (pf_sharedPrice info)))))"

subsection \<open>What a contract owes\<close>

text \<open>
  The part that is the contract's own: overdraft, unbilled traffic, and its cost since the last bill
  and for one hour more.
\<close>

definition own_overdue :: "contract_env \<Rightarrow> proxy_contract \<Rightarrow> js_error + rat" where
  "own_overdue e contract = bindR (ce_payment e (px_id contract)) (\<lambda>(standard, additional, lastUpdated).
     let elapsed = \<lceil>of_int (ce_now e) / 1000 - of_int lastUpdated :: rat\<rceil>;
         period = elapsed + SECONDS_ONE_HOUR
     in bindR (getContractCost e contract) (\<lambda>monthly.
          bindR (convertToTFT e monthly) (\<lambda>monthlyTFT.
            let periodCost = monthlyTFT / of_int (HOURS_ONE_MONTH * SECONDS_ONE_HOUR) * of_int period
            in bindR (getUnbilledNu e (px_id contract) (px_nodeId contract)) (\<lambda>nu.
                 bindR (convertToTFT e nu) (\<lambda>nuTFT.
                   Inr ((standard + additional + nuTFT) / TFT_CONVERSION_FACTOR + periodCost))))))"

text \<open>
  A rent contract owes what the contracts on its node owe, too; with fuel, because the proxy could
  list a rent contract among them.
\<close>

fun calculateContractOverDue :: "nat \<Rightarrow> contract_env \<Rightarrow> proxy_contract \<Rightarrow> js_error + rat" where
  "calculateContractOverDue 0 e contract = Inl diverges"
| "calculateContractOverDue (Suc n) e contract = bindR (own_overdue e contract) (\<lambda>own.
     if px_type contract = PX_rent
     then bindR (getNodeContractsOnRentedNode e (px_nodeId contract)) (\<lambda>contracts.
            bindR (foldR (\<lambda>c total. bindR (calculateContractOverDue n e c) (\<lambda>cost. Inr (total + cost))) contracts 0)
              (\<lambda>total. Inr (own + total)))
     else Inr own)"

subsection \<open>Cancelling and unlocking\<close>

definition batchCancelContracts ::
  "contract_env \<Rightarrow> grid_api \<Rightarrow> 'c chain_env \<Rightarrow> int list \<Rightarrow> ('c client, js_error, int list) eff"
where
  "batchCancelContracts e api ce ids =
     bindE (liftE (foldR (\<lambda>i xs. checkConnection (ce_pallets e) (bindR (cancel api i) (\<lambda>x. Inr (xs @ [x])))) ids [])) (\<lambda>xs.
       bindE (applyAllExtrinsics ce xs) (\<lambda>_. retE ids))"

definition cancelMyContracts ::
  "contract_env \<Rightarrow> grid_api \<Rightarrow> 'c chain_env \<Rightarrow> ('c client, js_error, int list) eff"
where
  "cancelMyContracts e api ce = bindE (liftE (listMyContracts e [])) (\<lambda>(names, nodes, rents).
     bindE (batchCancelContracts e api ce (names @ nodes @ rents)) (\<lambda>_. retE (names @ nodes @ rents)))"

definition unlock :: "contract_env \<Rightarrow> int \<Rightarrow> js_error + extrinsic" where
  "unlock e i = checkConnection (ce_pallets e)
     (Inr (patchExtrinsic (Tx ''smartContractModule'' ''billContractForBlock'' [A_int i]) [''ContractGracePeriodEnded'']
        (Some (\<lambda>_. R_id i))))"

text \<open>The contracts to bill: a set of ids in the order they are found.\<close>

definition billable_step :: "nat \<Rightarrow> contract_env \<Rightarrow> proxy_contract \<Rightarrow> int list \<Rightarrow> js_error + int list" where
  "billable_step fuel e contract ids = bindR (calculateContractOverDue fuel e contract) (\<lambda>overdue.
     if 0 < overdue
     then (let ids' = add_new (px_id contract) ids in
       if px_type contract = PX_rent
       then bindR (listAllContracts e (grace_query (px_nodeId contract))) (\<lambda>cs. Inr (add_all_new (map px_id cs) ids'))
       else Inr ids')
     else Inr ids)"

definition billable_ids :: "nat \<Rightarrow> contract_env \<Rightarrow> proxy_contract list \<Rightarrow> js_error + int list" where
  "billable_ids fuel e contracts = foldR (billable_step fuel e) contracts []"

definition batchUnlockContracts ::
  "nat \<Rightarrow> contract_env \<Rightarrow> 'c chain_env \<Rightarrow> proxy_contract list \<Rightarrow> ('c client, js_error, chain_result list) eff"
where
  "batchUnlockContracts fuel e ce contracts = bindE (liftE (billable_ids fuel e contracts)) (\<lambda>ids.
     bindE (liftE (foldR (\<lambda>i xs. bindR (unlock e i) (\<lambda>x. Inr (xs @ [x]))) ids [])) (\<lambda>xs.
       applyAllExtrinsics ce (map Some xs)))"

definition unlockMyContracts ::
  "nat \<Rightarrow> contract_env \<Rightarrow> 'c chain_env \<Rightarrow> ('c client, js_error, chain_result list) eff"
where
  "unlockMyContracts fuel e ce = bindE (liftE (bindR (getMyTwinId (ce_pallets e)) (\<lambda>t.
       listAllContracts e \<lparr>cq_node = None, cq_twin = Some t, cq_state = [''GracePeriod''], cq_ips = None,
         cq_retCount = False, cq_size = None\<rparr>))) (\<lambda>contracts.
     if contracts = [] then retE [] else batchUnlockContracts fuel e ce contracts)"

end
