(* ===== verification/GridContractProps.thy ===== *)
theory GridContractProps
  imports GridContracts StorageProps
begin

text \<open>
  What contracts owe: rent contracts owe what is on their node, debts grow with time, and unlocking
  bills every contract with a debt once.
\<close>

subsection \<open>Debts\<close>

text \<open>
  What a rent contract owes is its own debt and those of the contracts in grace on its node, when
  the proxy lists no rent contract among them: two levels of calls are enough.
\<close>

theorem rent_owes_its_node:
  assumes "px_type c = PX_rent" and "own_overdue e c = Inr own"
    and "getNodeContractsOnRentedNode e (px_nodeId c) = Inr cs"
    and "\<forall>d \<in> set cs. px_type d \<noteq> PX_rent \<and> own_overdue e d = Inr (debt d)"
  shows "calculateContractOverDue (Suc (Suc n)) e c = Inr (own + (\<Sum>d\<leftarrow>cs. debt d))"
proof -
  have "\<forall>d \<in> set cs. calculateContractOverDue (Suc n) e d = Inr (debt d)"
    using assms(4) by simp
  then have "list_all2 (\<lambda>d w. calculateContractOverDue (Suc n) e d = Inr w) cs (map debt cs)"
    by (simp add: list_all2_conv_all_nth)
  then have "foldR (\<lambda>c total. bindR (calculateContractOverDue (Suc n) e c) (\<lambda>cost. Inr (total + cost))) cs 0
      = Inr (\<Sum>d\<leftarrow>cs. debt d)"
    unfolding foldR_sum by auto
  with assms(1-3) show ?thesis by simp
qed

lemma round_away_nonneg: "0 \<le> x \<Longrightarrow> 0 \<le> round_away x"
  by (simp add: round_away_def)

lemma convertToTFT_nonneg:
  assumes "convertToTFT e usd = Inr tft"
  shows "0 \<le> tft"
proof -
  from assms obtain rate where "tft = convertUSDtoTFT 15 rate usd" "0 \<le> usd / rate"
    by (auto simp: convertToTFT_def split: sum.splits if_splits)
  moreover have "0 \<le> (of_int (round_away (usd / rate * 10 ^ 15)) :: rat)"
    using calculation(2) by (intro of_int_0_le_iff [THEN iffD2] round_away_nonneg mult_nonneg_nonneg) simp_all
  ultimately show ?thesis
    unfolding convertUSDtoTFT_def normalizeCurrency_def by (simp only: zero_le_divide_iff) simp
qed

lemma now_irrelevant [simp]:
  "getContractCost (e\<lparr>ce_now := t\<rparr>) c = getContractCost e c" "convertToTFT (e\<lparr>ce_now := t\<rparr>) usd = convertToTFT e usd"
  "getUnbilledNu (e\<lparr>ce_now := t\<rparr>) i n = getUnbilledNu e i n"
  "getNodeContractsOnRentedNode (e\<lparr>ce_now := t\<rparr>) n = getNodeContractsOnRentedNode e n"
  by (simp_all add: getContractCost_def tf_getDedicatedNodeExtraFee_def convertToTFT_def getUnbilledNu_def
      getNodeContractsOnRentedNode_def listAllContracts_def Let_def cong: if_cong)

lemma own_overdue_Inr:
  assumes "own_overdue e c = Inr a"
  obtains st ad last monthly nu where "ce_payment e (px_id c) = Inr (st, ad, last)" "0 \<le> monthly"
    "\<forall>t. own_overdue (e\<lparr>ce_now := t\<rparr>) c = Inr ((st + ad + nu) / TFT_CONVERSION_FACTOR
       + monthly / of_int (HOURS_ONE_MONTH * SECONDS_ONE_HOUR) * of_int (\<lceil>of_int t / 1000 - of_int last :: rat\<rceil> + SECONDS_ONE_HOUR))"
proof -
  from assms obtain p where p: "ce_payment e (px_id c) = Inr p"
    by (auto simp: own_overdue_def bindR_Inr)
  obtain st ad last where q: "p = (st, ad, last)" by (cases p)
  with assms p obtain cost monthly nu0 nu where r: "getContractCost e c = Inr cost" "convertToTFT e cost = Inr monthly"
    "getUnbilledNu e (px_id c) (px_nodeId c) = Inr nu0" "convertToTFT e nu0 = Inr nu"
    by (auto simp: own_overdue_def bindR_Inr Let_def)
  show ?thesis
    using p q r convertToTFT_nonneg [OF r(2)]
    by (intro that [of st ad last monthly nu]) (simp_all add: own_overdue_def Let_def)
qed

lemma own_overdue_grows:
  assumes "own_overdue (e\<lparr>ce_now := t\<rparr>) c = Inr a" and "own_overdue (e\<lparr>ce_now := t'\<rparr>) c = Inr b" and "t \<le> t'"
  shows "a \<le> b"
proof -
  obtain st ad last monthly nu where m: "0 \<le> monthly"
    and u: "\<forall>u. own_overdue (e\<lparr>ce_now := t, ce_now := u\<rparr>) c = Inr ((st + ad + nu) / TFT_CONVERSION_FACTOR
       + monthly / of_int (HOURS_ONE_MONTH * SECONDS_ONE_HOUR) * of_int (\<lceil>of_int u / 1000 - of_int last :: rat\<rceil> + SECONDS_ONE_HOUR))"
    by (rule own_overdue_Inr [OF assms(1)]) blast
  have o: "own_overdue (e\<lparr>ce_now := u\<rparr>) c = Inr ((st + ad + nu) / TFT_CONVERSION_FACTOR
       + monthly / of_int (HOURS_ONE_MONTH * SECONDS_ONE_HOUR) * of_int (\<lceil>of_int u / 1000 - of_int last :: rat\<rceil> + SECONDS_ONE_HOUR))" for u
    using spec [OF u, of u] by simp
  have c: "\<lceil>of_int t / 1000 - of_int last :: rat\<rceil> \<le> \<lceil>of_int t' / 1000 - of_int last :: rat\<rceil>"
    using assms(3) by (intro ceiling_mono diff_right_mono divide_right_mono) simp_all
  have "monthly / of_int (HOURS_ONE_MONTH * SECONDS_ONE_HOUR) * of_int (\<lceil>of_int t / 1000 - of_int last :: rat\<rceil> + SECONDS_ONE_HOUR)
     \<le> monthly / of_int (HOURS_ONE_MONTH * SECONDS_ONE_HOUR) * of_int (\<lceil>of_int t' / 1000 - of_int last :: rat\<rceil> + SECONDS_ONE_HOUR)"
    using m c by (intro mult_left_mono divide_nonneg_nonneg) (simp_all add: HOURS_ONE_MONTH_def SECONDS_ONE_HOUR_def)
  with assms(1,2) o show ?thesis by simp
qed

text \<open>A debt never shrinks by waiting.\<close>

theorem overdue_grows:
  assumes "t \<le> t'" and "calculateContractOverDue n (e\<lparr>ce_now := t\<rparr>) c = Inr a"
    and "calculateContractOverDue n (e\<lparr>ce_now := t'\<rparr>) c = Inr b"
  shows "a \<le> b"
  using assms(2,3)
proof (induction n arbitrary: c a b)
  case (Suc n)
  from Suc.prems obtain oa ob where o: "own_overdue (e\<lparr>ce_now := t\<rparr>) c = Inr oa" "own_overdue (e\<lparr>ce_now := t'\<rparr>) c = Inr ob"
    by (auto simp: bindR_Inr)
  then have le: "oa \<le> ob" using own_overdue_grows assms(1) by blast
  show ?case
  proof (cases "px_type c = PX_rent")
    case True
    with Suc.prems o obtain cs wa wb where w:
      "list_all2 (\<lambda>d w. calculateContractOverDue n (e\<lparr>ce_now := t\<rparr>) d = Inr w) cs wa"
      "list_all2 (\<lambda>d w. calculateContractOverDue n (e\<lparr>ce_now := t'\<rparr>) d = Inr w) cs wb"
      and ab: "a = oa + sum_list wa" "b = ob + sum_list wb"
      by (auto simp: bindR_Inr foldR_sum)
    have "sum_list wa \<le> sum_list wb"
      using w
    proof (induction cs arbitrary: wa wb)
      case (Cons d cs)
      then obtain x xs y ys where "wa = x # xs" "wb = y # ys"
        "calculateContractOverDue n (e\<lparr>ce_now := t\<rparr>) d = Inr x" "calculateContractOverDue n (e\<lparr>ce_now := t'\<rparr>) d = Inr y"
        "sum_list xs \<le> sum_list ys"
        by (auto simp: list_all2_Cons1)
      then show ?case using Suc.IH by (simp add: add_mono)
    qed simp
    with le ab show ?thesis by simp
  next
    case False
    with Suc.prems o le show ?thesis by simp
  qed
qed simp

subsection \<open>Extra fees\<close>

text \<open>
  The extra fee of a dedicated node is read back as it was set, but the cost of a rent contract only
  has a thousandth of it: the fee, in dollars already, is divided by a thousand once more.
\<close>

theorem extra_fee_counts_a_thousandth:
  assumes "q_connect (ce_pallets e) = Inr ()"
    and "tf_setDedicatedNodeExtraFee e (pn_nodeId node) fee
           = Inr (plain_tx ''smartContractModule'' ''setDedicatedNodeExtraFee'' [A_int (pn_nodeId node), A_num kept])"
    and "ce_extra_fee e (pn_nodeId node) = Inr kept"
    and "px_type c = PX_rent" and "ce_node e (px_nodeId c) = Inr node"
    and "calculateWithMyBalance (ce_price e) (cost_options False (pn_certificationType node = ''Certified'') (pn_total node)) = Inr info"
  shows "tf_getDedicatedNodeExtraFee e (pn_nodeId node) = Inr fee
    \<and> getContractCost e c = Inr (pf_dedicatedPrice info + fee / 1000)"
proof -
  have "kept = fee * 1000"
    using assms(1,2) by (simp add: tf_setDedicatedNodeExtraFee_def checkConnection_def plain_tx_def patchExtrinsic_def)
  then have "tf_getDedicatedNodeExtraFee e (pn_nodeId node) = Inr fee"
    using assms(1,3) by (simp add: tf_getDedicatedNodeExtraFee_def checkConnection_def)
  with assms(4-6) show ?thesis by (simp add: getContractCost_def Let_def)
qed

subsection \<open>Listing and unlocking\<close>

text \<open>When the proxy counts right and honours the size it is asked for, all contracts are listed.\<close>

lemma list_all_complete:
  assumes "\<And>q. \<exists>data. ce_list e q = Inr (data, Some (int (length all)))
      \<and> data = (case cq_size q of None \<Rightarrow> take 50 all | Some n \<Rightarrow> take (nat n) all)"
    and "cq_size q = None"
  shows "listAllContracts e q = Inr all"
proof -
  obtain d where d: "ce_list e (q\<lparr>cq_retCount := True\<rparr>) = Inr (d, Some (int (length all)))" "d = take 50 all"
    using assms(1) [of "q\<lparr>cq_retCount := True\<rparr>"] assms(2) by auto
  obtain d' where d': "ce_list e (q\<lparr>cq_size := Some (int (length all))\<rparr>) = Inr (d', Some (int (length all)))" "d' = all"
    using assms(1) [of "q\<lparr>cq_size := Some (int (length all))\<rparr>"] by auto
  show ?thesis
  proof (cases "length all \<le> 50")
    case True
    then show ?thesis by (simp add: listAllContracts_def d)
  next
    case False
    then show ?thesis by (simp add: listAllContracts_def d d' Let_def)
  qed
qed

definition bill_tx :: "int \<Rightarrow> extrinsic" where
  "bill_tx i = patchExtrinsic (Tx ''smartContractModule'' ''billContractForBlock'' [A_int i]) [''ContractGracePeriodEnded''] (Some (\<lambda>_. R_id i))"

text \<open>The contracts one contract adds to the bill.\<close>

definition bills :: "nat \<Rightarrow> contract_env \<Rightarrow> proxy_contract \<Rightarrow> int \<Rightarrow> bool" where
  "bills fuel e c i \<longleftrightarrow> (\<exists>debt > 0. calculateContractOverDue fuel e c = Inr debt \<and>
     (i = px_id c \<or> px_type c = PX_rent \<and> (\<exists>ds. listAllContracts e (grace_query (px_nodeId c)) = Inr ds \<and> i \<in> px_id ` set ds)))"

lemma billable_step_Inr:
  assumes "billable_step fuel e c ids = Inr ids'" and "distinct ids"
  shows "distinct ids' \<and> (\<forall>i. i \<in> set ids' \<longleftrightarrow> i \<in> set ids \<or> bills fuel e c i)"
proof -
  from assms(1) obtain debt where d: "calculateContractOverDue fuel e c = Inr debt"
    by (auto simp: billable_step_def bindR_Inr)
  show ?thesis
  proof (cases "0 < debt \<and> px_type c = PX_rent")
    case True
    with assms(1) d obtain cs where cs: "listAllContracts e (grace_query (px_nodeId c)) = Inr cs"
      "ids' = add_all_new (map px_id cs) (add_new (px_id c) ids)"
      by (auto simp: billable_step_def bindR_Inr Let_def)
    have "bills fuel e c i \<longleftrightarrow> i = px_id c \<or> i \<in> px_id ` set cs" for i
      using True d cs(1) by (auto simp: bills_def)
    with cs(2) assms(2) show ?thesis by auto
  next
    case False
    with assms d show ?thesis
      by (auto simp: billable_step_def Let_def bills_def split: if_splits)
  qed
qed

lemma billable_ids_from:
  assumes "foldR (billable_step fuel e) cs ids = Inr ids'" and "distinct ids"
  shows "distinct ids' \<and> (\<forall>i. i \<in> set ids' \<longleftrightarrow> i \<in> set ids \<or> (\<exists>c \<in> set cs. bills fuel e c i))"
  using assms
proof (induction cs arbitrary: ids)
  case (Cons c cs)
  then obtain m where m: "billable_step fuel e c ids = Inr m" "foldR (billable_step fuel e) cs m = Inr ids'"
    by (auto simp: bindR_Inr)
  with Cons.IH [OF m(2)] billable_step_Inr [OF m(1) Cons.prems(2)] show ?case by auto
qed simp

text \<open>
  C8: Unlocking bills exactly the contracts that owe something and, for rent contracts that do, those
  contracts in grace on their node that have a public IPv4 address (the query asks for no others); each of
  them once, all in one call of \<open>applyAllExtrinsics\<close>, which sends them in batches of at most 400
  (\<open>Chain.batchAll\<close>).  The chain has to be connected.
\<close>

theorem unlock_bills_each_once:
  assumes "q_connect (ce_pallets e) = Inr ()" and "billable_ids fuel e cs = Inr ids"
  shows "distinct ids \<and> (\<forall>i. i \<in> set ids \<longleftrightarrow> (\<exists>c \<in> set cs. bills fuel e c i))
    \<and> batchUnlockContracts fuel e ce cs w = applyAllExtrinsics ce (map (\<lambda>i. Some (bill_tx i)) ids) w"
proof -
  have "\<forall>i \<in> set ids. unlock e i = Inr (bill_tx i)"
    using assms(1) by (simp add: unlock_def checkConnection_def bill_tx_def)
  from mapR_all [OF this]
  have "batchUnlockContracts fuel e ce cs w = applyAllExtrinsics ce (map (\<lambda>i. Some (bill_tx i)) ids) w"
    using assms(2) by (simp add: batchUnlockContracts_def foldR_collect bindE_app o_def)
  then show ?thesis
    using billable_ids_from [of fuel e cs "[]" ids] assms(2) by (simp add: billable_ids_def)
qed

subsection \<open>Examples\<close>

text \<open>A rented node with one contract in grace, each owing one token of overdraft; no traffic is unbilled.\<close>

definition nothing :: NodeResources where
  "nothing = \<lparr>r_cru = 0, r_sru = 0, r_hru = 0, r_mru = 0, r_ipv4u = 0\<rparr>"

definition rented_node :: proxy_node where
  "rented_node = \<lparr>pn_nodeId = 1, pn_certificationType = ''Diy'', pn_total = nothing, pn_rented = True\<rparr>"

definition node_contract :: proxy_contract where
  "node_contract = \<lparr>px_id = 11, px_type = PX_node, px_nodeId = 1, px_ips = 0\<rparr>"

definition rent_contract :: proxy_contract where
  "rent_contract = \<lparr>px_id = 10, px_type = PX_rent, px_nodeId = 1, px_ips = 0\<rparr>"

definition free_prices :: price_env where
  "free_prices = \<lparr>pe_prices = Inr \<lparr>pp_cu = 0, pp_su = 0, pp_nu = 0, pp_ipu = 0, pp_uniqueName = 0, pp_discount = 0\<rparr>,
     pe_tft = Inr 1, pe_tfclient = True, pe_my_balance = Inr 0\<rparr>"

definition demo_contracts :: contract_env where
  "demo_contracts = \<lparr>ce_pallets = demo_pallets, ce_price = free_prices, ce_node = (\<lambda>_. Inr rented_node),
     ce_extra_fee = (\<lambda>_. Inr 0), ce_used = (\<lambda>_. Inr nothing), ce_payment = (\<lambda>_. Inr (10 ^ 7, 0, 0)), ce_unbilled = (\<lambda>_. Inr 0),
     ce_list = (\<lambda>_. Inr ([node_contract], None)), ce_now = 0, ce_reports = (\<lambda>_. Inr []), ce_created = (\<lambda>_. []),
     ce_graph_ids = (\<lambda>_ _ _. Inr ([], [], [])), ce_locked = (\<lambda>_. Inr 0)\<rparr>"

lemma free_cost:
  "calculateWithMyBalance free_prices (cost_options False False nothing)
     = Inr \<lparr>pf_dedicatedPrice = 0, pf_dedicatedPackage = (''none'', 0), pf_sharedPrice = 0, pf_sharedPackage = (''none'', 0)\<rparr>"
  by (simp add: calculateWithMyBalance_def calculate_def free_prices_def tftPrice_def cost_options_def nothing_def Let_def
      musd_month_def calCU_def calSU_def calNU_def choose_package_def discountPackages_def discounted_def bytesToGB_def)

lemma demo_contracts_sel [simp]:
  "ce_pallets demo_contracts = demo_pallets" "ce_price demo_contracts = free_prices" "ce_node demo_contracts i = Inr rented_node"
  "ce_list demo_contracts q = Inr ([node_contract], None)" "ce_extra_fee demo_contracts i = Inr 0"
  "ce_payment demo_contracts i = Inr (10 ^ 7, 0, 0)" "ce_unbilled demo_contracts i = Inr 0"
  by (simp_all add: demo_contracts_def)

lemma demo_costs: "getContractCost demo_contracts node_contract = Inr 0" "getContractCost demo_contracts rent_contract = Inr 0"
  using free_cost
  by (simp_all add: getContractCost_def node_contract_def rent_contract_def rented_node_def tf_getDedicatedNodeExtraFee_def
      checkConnection_def demo_pallets_def Let_def)

lemma demo_rate: "convertToTFT demo_contracts 0 = Inr 0"
  by (simp add: convertToTFT_def tf_price_get_def tft_price_get_def checkConnection_def demo_pallets_def convertUSDtoTFT_def
      normalizeCurrency_def round_away_def floor_eq_iff)

lemma demo_owed:
  "own_overdue (demo_contracts\<lparr>ce_now := t\<rparr>) node_contract = Inr 1" "own_overdue (demo_contracts\<lparr>ce_now := t\<rparr>) rent_contract = Inr 1"
  using demo_costs demo_rate
  by (simp_all add: own_overdue_def getUnbilledNu_def TFT_CONVERSION_FACTOR_def Let_def)

lemma demo_owed_now [simp]:
  "own_overdue demo_contracts node_contract = Inr 1" "own_overdue demo_contracts rent_contract = Inr 1"
  using demo_owed [of 0] by (simp_all add: demo_contracts_def)

lemma demo_listed: "listAllContracts demo_contracts q = Inr [node_contract]"
  by (simp add: listAllContracts_def)

theorem rent_owes_its_node_witness:
  "calculateContractOverDue 2 demo_contracts rent_contract = Inr 2"
  using rent_owes_its_node [of rent_contract demo_contracts 1 "[node_contract]" "\<lambda>_. 1" 0] demo_owed_now
  by (simp add: rent_contract_def node_contract_def getNodeContractsOnRentedNode_def demo_listed numeral_2_eq_2 del: calculateContractOverDue.simps)

theorem overdue_grows_witness:
  "\<exists>a b. calculateContractOverDue 1 (demo_contracts\<lparr>ce_now := 5\<rparr>) node_contract = Inr a
    \<and> calculateContractOverDue 1 (demo_contracts\<lparr>ce_now := 9000\<rparr>) node_contract = Inr b \<and> a \<le> b"
proof -
  have o: "calculateContractOverDue 1 (demo_contracts\<lparr>ce_now := t\<rparr>) node_contract = Inr 1" for t
    using demo_owed(1) by (simp add: node_contract_def)
  show ?thesis using overdue_grows [OF _ o o, of 5 9000] o by auto
qed

theorem extra_fee_counts_a_thousandth_witness:
  "tf_getDedicatedNodeExtraFee (demo_contracts\<lparr>ce_extra_fee := \<lambda>_. Inr 5000\<rparr>) 1 = Inr 5
    \<and> getContractCost (demo_contracts\<lparr>ce_extra_fee := \<lambda>_. Inr 5000\<rparr>) rent_contract = Inr (5 / 1000)"
  using extra_fee_counts_a_thousandth [of "demo_contracts\<lparr>ce_extra_fee := \<lambda>_. Inr 5000\<rparr>" rented_node 5 5000 rent_contract] free_cost
  by (simp add: demo_pallets_def rented_node_def rent_contract_def tf_setDedicatedNodeExtraFee_def checkConnection_def)

theorem unlock_bills_each_once_witness:
  "\<exists>ids. billable_ids 2 demo_contracts [rent_contract, node_contract] = Inr ids \<and> distinct ids \<and> 11 \<in> set ids"
proof -
  have r: "calculateContractOverDue 2 demo_contracts rent_contract = Inr 2"
    by (simp add: numeral_2_eq_2 getNodeContractsOnRentedNode_def demo_listed) (simp add: node_contract_def rent_contract_def)
  have n: "calculateContractOverDue 2 demo_contracts node_contract = Inr 1"
    by (simp add: numeral_2_eq_2) (simp add: node_contract_def)
  have b: "billable_ids 2 demo_contracts [rent_contract, node_contract] = Inr [10, 11]"
    using r n by (simp add: billable_ids_def billable_step_def Let_def demo_listed del: calculateContractOverDue.simps)
      (simp add: rent_contract_def node_contract_def add_new_def add_all_new_def)
  show ?thesis
    using unlock_bills_each_once [OF _ b] b by (simp add: demo_pallets_def)
qed

end
