(* ===== verification/Monitoring.thy ===== *)
theory Monitoring
  imports Storage
begin

text \<open>
  \<open>monitoring/src\<close>: the monitors of the services, the monitor that checks them in turn
  (\<open>alivenessChecker.ts\<close>, \<open>helpers/events.ts\<close>), the manager that picks a reachable address
  (\<open>serviceURLManager.ts\<close>), and \<open>grid_client/src/manageURLs.ts\<close>, which fills in the addresses a
  client was not given.  What \<open>fetch\<close> answers, after how many milliseconds, is the parameter.
\<close>

subsection \<open>Requests\<close>

record http_response =
  hr_ok :: bool
  hr_status :: int
  hr_json :: "js_error + json"

text \<open>A request by its address and the number of the attempt; \<open>url_join\<close> is the package.\<close>

record monitor_env =
  mo_fetch :: "string \<Rightarrow> nat \<Rightarrow> int \<times> (js_error + http_response)"
  mo_url_join :: "string \<Rightarrow> string \<Rightarrow> string"

record ServiceStatus =
  ss_alive :: bool
  ss_error :: "js_error option"

definition alive_status :: ServiceStatus where
  "alive_status = \<lparr>ss_alive = True, ss_error = None\<rparr>"

definition down_status :: "js_error \<Rightarrow> ServiceStatus" where
  "down_status e = \<lparr>ss_alive = False, ss_error = Some e\<rparr>"

definition new_Error :: "string \<Rightarrow> js_error" where
  "new_Error message = plain_error C_Error message"

definition request_failed :: "js_error \<Rightarrow> js_error" where
  "request_failed e = generic_error G_RequestError ''RequestError'' (''HTTP request failed due to  '' @ error_to_string e @ ''.'')"

definition response_code :: "http_response \<Rightarrow> js_error" where
  "response_code res = new_Error (''HTTP Response Code: '' @ show_int (hr_status res))"

definition sendRequest :: "monitor_env \<Rightarrow> string \<Rightarrow> nat \<Rightarrow> int \<times> (js_error + unit)" where
  "sendRequest m url n = (case mo_fetch m url n of
     (t, Inl e) \<Rightarrow> (t, Inl (request_failed e))
   | (t, Inr res) \<Rightarrow> (t, if hr_ok res then Inr () else Inl (request_failed (response_code res))))"

definition resolveServiceStatus :: "int \<times> (js_error + unit) \<Rightarrow> int \<times> (js_error + ServiceStatus)" where
  "resolveServiceStatus p = (fst p, Inr (case snd p of Inl e \<Rightarrow> down_status e | Inr _ \<Rightarrow> alive_status))"

subsection \<open>Monitors\<close>

datatype monitor = GridProxyMonitor | RMBMonitor | TFChainMonitor | GraphQLMonitor | ActivationMonitor | StatsMonitor | KYCMonitor

fun monitor_name :: "monitor \<Rightarrow> string" where
  "monitor_name GridProxyMonitor = ''GridProxy''"
| "monitor_name RMBMonitor = ''RMB''"
| "monitor_name TFChainMonitor = ''TFChain''"
| "monitor_name GraphQLMonitor = ''GraphQl''"
| "monitor_name ActivationMonitor = ''Activation''"
| "monitor_name StatsMonitor = ''Stats''"
| "monitor_name KYCMonitor = ''KYC''"

text \<open>\<open>s.replace(a, b)\<close> of texts: the first occurrence.\<close>

definition replace_first :: "string \<Rightarrow> string \<Rightarrow> string \<Rightarrow> string" where
  "replace_first a b s = (case find_sub a s of None \<Rightarrow> s | Some (x, y) \<Rightarrow> x @ b @ y)"

definition json_field :: "string \<Rightarrow> json \<Rightarrow> json option" where
  "json_field k v = (case v of J_obj ps \<Rightarrow> map_of ps k | _ \<Rightarrow> None)"

definition json_text :: "json option \<Rightarrow> string" where
  "json_text v = (case v of None \<Rightarrow> ''undefined'' | Some (J_str s) \<Rightarrow> s | Some w \<Rightarrow> stringify w)"

text \<open>The address of the proxy is asked for the state of the relay; what goes wrong is thrown.\<close>

definition rmb_alive :: "monitor_env \<Rightarrow> string \<Rightarrow> nat \<Rightarrow> int \<times> (js_error + ServiceStatus)" where
  "rmb_alive m url n = (case mo_fetch m (replace_first ''wss://relay'' ''https://gridproxy'' url @ ''/health'') n of
     (t, Inl e) \<Rightarrow> (t, Inl (request_failed e))
   | (t, Inr res) \<Rightarrow> (t,
       if \<not> hr_ok res then Inl (request_failed (response_code res))
       else (case hr_json res of
           Inl e \<Rightarrow> Inl (request_failed e)
         | Inr v \<Rightarrow> (let conn = json_field ''rmb_conn'' v in
             if conn = Some (J_str ''ok'') then Inr alive_status
             else Inr (down_status (new_Error (''rmb_conn is '' @ json_text conn)))))))"

definition kyc_alive :: "monitor_env \<Rightarrow> string \<Rightarrow> nat \<Rightarrow> int \<times> (js_error + ServiceStatus)" where
  "kyc_alive m url n = (case mo_fetch m (mo_url_join m url ''/api/v1/health'') n of
     (t, Inl e) \<Rightarrow> (t, Inr (down_status e))
   | (t, Inr res) \<Rightarrow> (t, Inr (
       if \<not> hr_ok res then down_status (response_code res)
       else (case hr_json res of
           Inl e \<Rightarrow> down_status e
         | Inr v \<Rightarrow> (case json_field ''result'' v of
             None \<Rightarrow> down_status TypeError
           | Some r \<Rightarrow> (let status = json_field ''status'' r in
               if status = Some (J_str ''Healthy'') then alive_status
               else down_status (new_Error (''Status: '' @ json_text status))))))))"

definition isAlive :: "monitor_env \<Rightarrow> monitor \<Rightarrow> string \<Rightarrow> nat \<Rightarrow> int \<times> (js_error + ServiceStatus)" where
  "isAlive m mon url n =
     (if mon = KYCMonitor then kyc_alive m url n
      else if url = [] then (0, Inl (new_Error (''Can'' @ apos # ''t access before initialization'')))
      else (case mon of
          RMBMonitor \<Rightarrow> rmb_alive m url n
        | TFChainMonitor \<Rightarrow> resolveServiceStatus (sendRequest m (replace_first ''/ws'' ''/health'' (replace_first ''wss'' ''https'' url)) n)
        | StatsMonitor \<Rightarrow> resolveServiceStatus (sendRequest m (url @ ''/api/stats-summary'') n)
        | _ \<Rightarrow> resolveServiceStatus (sendRequest m url n)))"

subsection \<open>Checking in turn\<close>

text \<open>
  The monitor of the events keeps a summary and prints lines; \<open>mt_attempt\<close> counts the requests so far,
  \<open>mt_slept\<close> the milliseconds slept.
\<close>

record monitor_state =
  mt_summary :: "(string \<times> bool) list"
  mt_lines :: "string list"
  mt_attempt :: nat
  mt_slept :: int

type_synonym 'r monitor_eff = "(monitor_state, js_error, 'r) eff"

definition print_line :: "string \<Rightarrow> unit monitor_eff" where
  "print_line l = modifyE (\<lambda>s. s\<lparr>mt_lines := mt_lines s @ [l]\<rparr>)"

definition storeStatus :: "string \<Rightarrow> bool \<Rightarrow> unit monitor_eff" where
  "storeStatus name alive = modifyE (\<lambda>s. s\<lparr>mt_summary := obj_set name alive (mt_summary s)\<rparr>)"

text \<open>Without an error the handler throws before it keeps the status.\<close>

definition serviceDown :: "string \<Rightarrow> js_error option \<Rightarrow> unit monitor_eff" where
  "serviceDown name err = bindE (print_line (name @ '' is Down'')) (\<lambda>_. case err of
     None \<Rightarrow> throwE TypeError
   | Some e \<Rightarrow> bindE (print_line (''* Error: '' @ err_message e)) (\<lambda>_. storeStatus name False))"

definition summary_line :: "(string \<times> bool) list \<Rightarrow> string \<Rightarrow> string" where
  "summary_line summary name =
     (let width = Max (set (map (\<lambda>p. length (fst p)) summary)) in
      CHR 0x09 # name @ replicate (width - length name) (CHR '' '') @ '': ''
        @ (if map_of summary name = Some True then ''Alive'' else ''Down''))"

definition summarize :: "unit monitor_eff" where
  "summarize = bindE (print_line ''Aliveness check summary:'') (\<lambda>_.
     bindE (getE mt_summary) (\<lambda>summary. iterE (\<lambda>n. print_line (summary_line summary n)) (obj_keys summary)))"

record ServiceMonitor =
  sm_services :: "(monitor \<times> string) list"
  sm_interval :: int
  sm_retries :: nat
  sm_retryInterval :: int

definition ask_alive :: "monitor_env \<Rightarrow> monitor \<Rightarrow> string \<Rightarrow> ServiceStatus monitor_eff" where
  "ask_alive m mon url = (\<lambda>s. (snd (isAlive m mon url (mt_attempt s)), s\<lparr>mt_attempt := Suc (mt_attempt s)\<rparr>))"

text \<open>
  \<open>for (retryCount = 1; retryCount <= retries; retryCount++)\<close> with \<open>left\<close> attempts still to come; the
  interval between retries is in sixties of milliseconds.
\<close>

fun check_service :: "monitor_env \<Rightarrow> ServiceMonitor \<Rightarrow> monitor \<times> string \<Rightarrow> nat \<Rightarrow> unit monitor_eff" where
  "check_service m sm svc 0 = retE ()"
| "check_service m sm svc (Suc left) = bindE (ask_alive m (fst svc) (snd svc)) (\<lambda>st.
     let name = monitor_name (fst svc); retryCount = sm_retries sm - left in
     if ss_alive st then storeStatus name True
     else if 0 < left
     then bindE (print_line (name @ '' seems to be down; Retrying ('' @ show_nat retryCount @ ''/'' @ show_nat (sm_retries sm) @ '')...''))
            (\<lambda>_. bindE (modifyE (\<lambda>s. s\<lparr>mt_slept := mt_slept s + sm_retryInterval sm * 60\<rparr>))
              (\<lambda>_. check_service m sm svc left))
     else serviceDown name (ss_error st))"

definition checkLivenessOnce :: "monitor_env \<Rightarrow> ServiceMonitor \<Rightarrow> unit monitor_eff" where
  "checkLivenessOnce m sm = bindE (iterE (\<lambda>svc. check_service m sm svc (sm_retries sm)) (sm_services sm)) (\<lambda>_. summarize)"

text \<open>The first check of \<open>monitorService\<close>; the later ones are calls of the same by a timer.\<close>

definition monitorService :: "monitor_env \<Rightarrow> ServiceMonitor \<Rightarrow> unit monitor_eff" where
  "monitorService m sm =
     (if sm_services sm = [] then throwE (new_Error ''No services to monitor'')
      else bindE (print_line ''Checking services status...'') (\<lambda>_. checkLivenessOnce m sm))"

subsection \<open>Picking an address\<close>

text \<open>The race of the answer against the timeout, in seconds; what is thrown counts as down.\<close>

definition pingService :: "monitor_env \<Rightarrow> monitor \<Rightarrow> int \<Rightarrow> string \<Rightarrow> nat \<Rightarrow> ServiceStatus" where
  "pingService m mon timeout url n = (case isAlive m mon url n of (t, r) \<Rightarrow>
     if t < timeout * 1000 then (case r of Inl e \<Rightarrow> down_status e | Inr st \<Rightarrow> st)
     else down_status (new_Error ''Timeout''))"

definition isAliveWithTimeout :: "monitor_env \<Rightarrow> string \<Rightarrow> monitor \<Rightarrow> int \<Rightarrow> nat \<Rightarrow> js_error + string" where
  "isAliveWithTimeout m url mon timeout n =
     (if ss_alive (pingService m mon timeout url n) then Inr url
      else Inl (ConnectionError (monitor_name mon @ '': Can'' @ apos # ''t reach '' @ url)))"

record url_manager =
  um_services :: "(string list \<times> monitor) list"
  um_retries :: nat
  um_silent :: bool
  um_timeout :: int

definition handleErrorsOnSilentMode :: "url_manager \<Rightarrow> string \<Rightarrow> js_error + string option" where
  "handleErrorsOnSilentMode u msg = (if um_silent u then Inr None else Inl (new_Error msg))"

definition fulfilled :: "(js_error + string) list \<Rightarrow> string list" where
  "fulfilled rs = concat (map (\<lambda>r. case r of Inl _ \<Rightarrow> [] | Inr x \<Rightarrow> [x]) rs)"

text \<open>All addresses at once, retry by retry with a longer timeout; the first in the list that answers.\<close>

fun stack_rounds :: "monitor_env \<Rightarrow> url_manager \<Rightarrow> string list \<Rightarrow> monitor \<Rightarrow> nat list \<Rightarrow> js_error + string option" where
  "stack_rounds m u urls mon [] =
     handleErrorsOnSilentMode u (''Failed to reach '' @ monitor_name mon @ '' on all provided stacks'')"
| "stack_rounds m u urls mon (retry # retries) =
     (let timeout = um_timeout u + um_timeout u * int retry in
      case fulfilled (map (\<lambda>url. isAliveWithTimeout m url mon timeout retry) urls) of
        url # _ \<Rightarrow> Inr (Some url)
      | [] \<Rightarrow> stack_rounds m u urls mon retries)"

definition getAvailableStack :: "monitor_env \<Rightarrow> url_manager \<Rightarrow> string list \<Rightarrow> monitor \<Rightarrow> js_error + string option" where
  "getAvailableStack m u urls mon = stack_rounds m u urls mon [0..<um_retries u]"

definition getAvailableServicesStack ::
  "monitor_env \<Rightarrow> url_manager \<Rightarrow> js_error + (string \<times> string option) list"
where
  "getAvailableServicesStack m u =
     (let result = foldl (\<lambda>ob (urls, mon). obj_set (monitor_name mon) (getAvailableStack m u urls mon) ob) [] (um_services u)
      in foldR (\<lambda>(name, r) ob. bindR r (\<lambda>x. Inr (obj_set name x ob))) result [])"

subsection \<open>The addresses of a client\<close>

datatype url_kind = UK_proxy | UK_relay | UK_substrate | UK_graphql | UK_activation

definition url_kinds :: "url_kind list" where
  "url_kinds = [UK_proxy, UK_relay, UK_substrate, UK_graphql, UK_activation]"

text \<open>\<open>prepareServices\<close> and \<open>MapServiceNames\<close>.\<close>

fun kind_monitor :: "url_kind \<Rightarrow> monitor" where
  "kind_monitor UK_proxy = GridProxyMonitor"
| "kind_monitor UK_relay = RMBMonitor"
| "kind_monitor UK_substrate = TFChainMonitor"
| "kind_monitor UK_graphql = GraphQLMonitor"
| "kind_monitor UK_activation = ActivationMonitor"

fun MapServiceNames :: "url_kind \<Rightarrow> string" where
  "MapServiceNames UK_proxy = ''GridProxy''"
| "MapServiceNames UK_relay = ''RMB''"
| "MapServiceNames UK_substrate = ''TFChain''"
| "MapServiceNames UK_activation = ''Activation''"
| "MapServiceNames UK_graphql = ''GraphQl''"

definition candidate_urls :: "string \<Rightarrow> url_kind \<Rightarrow> string list" where
  "candidate_urls network k =
     (let base = (if network = ''main'' then ''grid.tf'' else network @ ''.grid.tf'') in case k of
        UK_relay \<Rightarrow> [''wss://relay.'' @ base, ''wss://relay.02.'' @ base]
      | UK_proxy \<Rightarrow> [''https://gridproxy.'' @ base, ''https://gridproxy.02.'' @ base]
      | UK_activation \<Rightarrow> [''https://activation.'' @ base @ ''/activation/activate'', ''https://activation.02.'' @ base @ ''/activation/activate'']
      | UK_graphql \<Rightarrow> [''https://graphql.'' @ base @ ''/graphql'', ''https://graphql.02.'' @ base @ ''/graphql'']
      | UK_substrate \<Rightarrow> [''wss://tfchain.'' @ base @ ''/ws'', ''wss://tfchain.02.'' @ base @ ''/ws''])"

definition getServicesWithoutURLs :: "(url_kind \<Rightarrow> string) \<Rightarrow> url_kind list" where
  "getServicesWithoutURLs urls = filter (\<lambda>k. urls k = []) url_kinds"

text \<open>A name without a result maps to \<open>undefined\<close>, here an empty text, as does a null.\<close>

definition mapResult :: "(string \<times> string option) list \<Rightarrow> url_kind \<Rightarrow> string" where
  "mapResult result k = (case map_of result (MapServiceNames k) of Some (Some url) \<Rightarrow> url | _ \<Rightarrow> [])"

definition default_manager :: "(string list \<times> monitor) list \<Rightarrow> url_manager" where
  "default_manager services = \<lparr>um_services = services, um_retries = 3, um_silent = False, um_timeout = 2\<rparr>"

definition getAvailableURLs :: "monitor_env \<Rightarrow> string \<Rightarrow> (url_kind \<Rightarrow> string) \<Rightarrow> js_error + (url_kind \<Rightarrow> string)" where
  "getAvailableURLs m network current =
     (let missing = getServicesWithoutURLs current in
      if missing = [] then Inr current
      else bindR (getAvailableServicesStack m (default_manager (map (\<lambda>k. (candidate_urls network k, kind_monitor k)) missing)))
             (\<lambda>result. Inr (\<lambda>k. if k \<in> set missing then mapResult result k else current k)))"

end
