(* ===== verification/MonitoringProps.thy ===== *)
theory MonitoringProps
  imports Monitoring StorageProps
begin

text \<open>
  What the monitors report, which address is picked, and that a client ends up with an address for
  every service, each of which has answered.
\<close>

subsection \<open>Picking an address\<close>

definition reachable :: "monitor_env \<Rightarrow> url_manager \<Rightarrow> monitor \<Rightarrow> nat \<Rightarrow> string \<Rightarrow> bool" where
  "reachable m u mon retry url \<longleftrightarrow> ss_alive (pingService m mon (um_timeout u + um_timeout u * int retry) url retry)"

lemma fulfilled_answers:
  "fulfilled (map (\<lambda>url. isAliveWithTimeout m url mon (um_timeout u + um_timeout u * int retry) retry) urls)
     = filter (reachable m u mon retry) urls"
  by (induction urls) (simp_all add: fulfilled_def isAliveWithTimeout_def reachable_def)

lemma stack_round [simp]:
  "stack_rounds m u urls mon (retry # retries) = (case filter (reachable m u mon retry) urls of
     url # _ \<Rightarrow> Inr (Some url) | [] \<Rightarrow> stack_rounds m u urls mon retries)"
  by (simp add: Let_def fulfilled_answers)

declare stack_rounds.simps(2) [simp del]

lemma filter_first:
  "filter P xs = y # ys \<Longrightarrow> \<exists>i < length xs. xs ! i = y \<and> P y \<and> (\<forall>j < i. \<not> P (xs ! j))"
proof (induction xs)
  case (Cons x xs)
  show ?case
  proof (cases "P x")
    case False
    with Cons obtain i where i: "i < length xs" "xs ! i = y" "P y" "\<forall>j < i. \<not> P (xs ! j)" by auto
    have "\<forall>j < Suc i. \<not> P ((x # xs) ! j)"
      using i(4) False by (auto simp: nth_Cons split: nat.split)
    with i(1-3) show ?thesis by (intro exI [of _ "Suc i"]) simp
  qed (use Cons.prems in auto)
qed simp

lemma stack_rounds_spec:
  "(\<forall>q \<in> set rs. filter (reachable m u mon q) urls = []) \<and> stack_rounds m u urls mon rs
      = handleErrorsOnSilentMode u (''Failed to reach '' @ monitor_name mon @ '' on all provided stacks'')
   \<or> (\<exists>qs r rs' url ys. rs = qs @ r # rs' \<and> (\<forall>q \<in> set qs. filter (reachable m u mon q) urls = [])
        \<and> filter (reachable m u mon r) urls = url # ys \<and> stack_rounds m u urls mon rs = Inr (Some url))"
proof (induction rs)
  case (Cons r rs)
  show ?case
  proof (cases "filter (reachable m u mon r) urls")
    case Nil
    from Cons show ?thesis
    proof
      assume "\<exists>qs r' rs' url ys. rs = qs @ r' # rs' \<and> (\<forall>q \<in> set qs. filter (reachable m u mon q) urls = [])
        \<and> filter (reachable m u mon r') urls = url # ys \<and> stack_rounds m u urls mon rs = Inr (Some url)"
      then obtain qs r' rs' url ys where "rs = qs @ r' # rs'" "\<forall>q \<in> set qs. filter (reachable m u mon q) urls = []"
        "filter (reachable m u mon r') urls = url # ys" "stack_rounds m u urls mon rs = Inr (Some url)" by blast
      with Nil show ?thesis
        by - (rule disjI2, rule exI [of _ "r # qs"], rule exI [of _ r'], rule exI [of _ rs'], rule exI [of _ url], rule exI [of _ ys], simp)
    qed (use Nil in simp)
  next
    case (Cons url ys)
    then show ?thesis by (intro disjI2 exI [of _ "[]"]) auto
  qed
qed simp

text \<open>
  The address that is picked is the first one in the list that answers within the timeout of the
  earliest retry in which any does; only when none ever does it fails, or gives no address in
  silent mode.
\<close>

theorem stack_first_reachable:
  "(\<exists>r < um_retries u. \<exists>i < length urls. reachable m u mon r (urls ! i) \<and> (\<forall>j < i. \<not> reachable m u mon r (urls ! j))
      \<and> (\<forall>q < r. \<forall>w \<in> set urls. \<not> reachable m u mon q w) \<and> getAvailableStack m u urls mon = Inr (Some (urls ! i)))
   \<or> (\<forall>r < um_retries u. \<forall>w \<in> set urls. \<not> reachable m u mon r w)
      \<and> getAvailableStack m u urls mon
          = handleErrorsOnSilentMode u (''Failed to reach '' @ monitor_name mon @ '' on all provided stacks'')"
  using stack_rounds_spec [of "[0..<um_retries u]" m u mon urls]
proof
  assume "\<exists>qs r rs' url ys. [0..<um_retries u] = qs @ r # rs' \<and> (\<forall>q \<in> set qs. filter (reachable m u mon q) urls = [])
        \<and> filter (reachable m u mon r) urls = url # ys \<and> stack_rounds m u urls mon [0..<um_retries u] = Inr (Some url)"
  then obtain qs r rs' url ys where s: "[0..<um_retries u] = qs @ r # rs'" "\<forall>q \<in> set qs. filter (reachable m u mon q) urls = []"
    "filter (reachable m u mon r) urls = url # ys" "stack_rounds m u urls mon [0..<um_retries u] = Inr (Some url)" by blast
  have q: "qs = [0..<r] \<and> r < um_retries u"
  proof -
    have l: "length qs < um_retries u" using arg_cong [OF s(1), of length] by simp
    then have "r = length qs" using arg_cong [OF s(1), of "\<lambda>l. l ! length qs"] by (simp add: nth_append)
    moreover have "qs = [0..<length qs]" using arg_cong [OF s(1), of "take (length qs)"] l by (simp add: take_upt)
    ultimately show ?thesis using l by simp
  qed
  obtain i where i: "i < length urls" "urls ! i = url" "reachable m u mon r url" "\<forall>j < i. \<not> reachable m u mon r (urls ! j)"
    using filter_first [OF s(3)] by blast
  have "\<forall>p < r. \<forall>w \<in> set urls. \<not> reachable m u mon p w"
    using s(2) q by (simp add: filter_empty_conv)
  with i q s(4) show ?thesis
    unfolding getAvailableStack_def by blast
next
  assume "(\<forall>q \<in> set [0..<um_retries u]. filter (reachable m u mon q) urls = []) \<and> stack_rounds m u urls mon [0..<um_retries u]
      = handleErrorsOnSilentMode u (''Failed to reach '' @ monitor_name mon @ '' on all provided stacks'')"
  then show ?thesis unfolding getAvailableStack_def by (simp add: filter_empty_conv)
qed

lemma getAvailableStack_Inr:
  assumes "getAvailableStack m u urls mon = Inr x" and "\<not> um_silent u"
  shows "\<exists>url \<in> set urls. x = Some url \<and> (\<exists>r < um_retries u. reachable m u mon r url)"
  using stack_rounds_spec [of "[0..<um_retries u]" m u mon urls] assms
proof (elim disjE exE conjE)
  fix qs r rs' url ys
  assume a: "[0..<um_retries u] = qs @ r # rs'" "filter (reachable m u mon r) urls = url # ys"
    "stack_rounds m u urls mon [0..<um_retries u] = Inr (Some url)"
  have "url \<in> set (filter (reachable m u mon r) urls)" "r \<in> set [0..<um_retries u]"
    by (simp_all only: a) simp_all
  with a(3) assms(1) show ?thesis by (auto simp: getAvailableStack_def)
qed (simp add: handleErrorsOnSilentMode_def getAvailableStack_def)

subsection \<open>The addresses of a client\<close>

lemma kind_names [simp]: "monitor_name (kind_monitor k) = MapServiceNames k"
  by (cases k) simp_all

lemma MapServiceNames_inj [simp]: "MapServiceNames k = MapServiceNames l \<longleftrightarrow> k = l"
  by (cases k; cases l) simp_all

lemma find_self: "k \<in> set ks \<Longrightarrow> find (\<lambda>l. l = k) ks = Some k"
  by (induction ks) auto

lemma foldl_obj_set:
  "map_of (foldl (\<lambda>ob k. obj_set (f k) (g k) ob) ob ks) x
     = (case find (\<lambda>k. f k = x) (rev ks) of None \<Rightarrow> map_of ob x | Some k \<Rightarrow> Some (g k))"
proof (induction ks rule: rev_induct)
  case (snoc k ks)
  then show ?case by auto
qed simp

lemma foldR_results:
  "foldR (\<lambda>(name, r) ob. bindR r (\<lambda>x. Inr (obj_set name x ob))) ps ob = Inr ob' \<Longrightarrow> distinct (map fst ps) \<Longrightarrow>
   map_of ob' k = (case map_of ps k of None \<Rightarrow> map_of ob k | Some r \<Rightarrow> (case r of Inl _ \<Rightarrow> None | Inr x \<Rightarrow> Some x))
   \<and> (\<forall>r. map_of ps k = Some r \<longrightarrow> (\<exists>x. r = Inr x))"
proof (induction ps arbitrary: ob)
  case (Cons p ps)
  obtain n r where p: "p = (n, r)" by (cases p)
  with Cons.prems(1) obtain x where r: "r = Inr x" "foldR (\<lambda>(name, r) ob. bindR r (\<lambda>x. Inr (obj_set name x ob))) ps (obj_set n x ob) = Inr ob'"
    by (auto simp: bindR_Inr)
  have n: "map_of ps n = None" using Cons.prems(2) p by (simp add: map_of_eq_None_iff)
  show ?case using Cons.IH [OF r(2)] Cons.prems(2) n by (auto simp: p r(1) split: option.splits sum.splits)
qed simp

lemma distinct_foldl_obj_set:
  "distinct (map fst ob) \<Longrightarrow> distinct (map fst (foldl (\<lambda>ob k. obj_set (f k) (g k) ob) ob ks))"
  by (induction ks arbitrary: ob) simp_all

text \<open>
  C32: A client gets an address for every service: the ones it was given stay, each other one is a
  candidate of its network that answered within three tries.
\<close>

theorem client_urls_complete:
  assumes "getAvailableURLs m network current = Inr urls"
  shows "\<forall>k. (current k \<noteq> [] \<longrightarrow> urls k = current k)
    \<and> (current k = [] \<longrightarrow> urls k \<in> set (candidate_urls network k)
        \<and> (\<exists>r < 3. ss_alive (pingService m (kind_monitor k) (2 + 2 * int r) (urls k) r)))"
proof (intro allI conjI impI)
  fix k
  let ?missing = "getServicesWithoutURLs current"
  have mem: "k \<in> set ?missing \<longleftrightarrow> current k = []" for k
    by (cases k) (simp_all add: getServicesWithoutURLs_def url_kinds_def)
  show "urls k = current k" if "current k \<noteq> []"
    using assms mem [of k] that by (auto simp: getAvailableURLs_def Let_def bindR_Inr split: if_splits)
  assume k: "current k = []"
  then have "?missing \<noteq> []" using mem [of k] by (metis list.set_cases empty_iff list.set(1))
  let ?u = "default_manager (map (\<lambda>k. (candidate_urls network k, kind_monitor k)) ?missing)"
  let ?ob = "foldl (\<lambda>ob k. obj_set (MapServiceNames k) (getAvailableStack m ?u (candidate_urls network k) (kind_monitor k)) ob) [] ?missing"
  obtain result where result: "getAvailableServicesStack m ?u = Inr result"
    and urls: "urls = (\<lambda>k. if k \<in> set ?missing then mapResult result k else current k)"
    using assms \<open>?missing \<noteq> []\<close> by (auto simp: getAvailableURLs_def Let_def bindR_Inr)
  have "foldl (\<lambda>ob (urls, mon). obj_set (monitor_name mon) (getAvailableStack m ?u urls mon) ob) [] (um_services ?u) = ?ob"
    by (simp add: default_manager_def foldl_map)
  with result have f: "foldR (\<lambda>(name, r) ob. bindR r (\<lambda>x. Inr (obj_set name x ob))) ?ob [] = Inr result"
    by (simp add: getAvailableServicesStack_def Let_def)
  have "find (\<lambda>l. MapServiceNames l = MapServiceNames k) (rev ?missing) = Some k"
    using mem [of k] k by (simp add: find_self)
  then have o: "map_of ?ob (MapServiceNames k) = Some (getAvailableStack m ?u (candidate_urls network k) (kind_monitor k))"
    by (simp add: foldl_obj_set)
  have d: "distinct (map fst ?ob)" by (rule distinct_foldl_obj_set) simp
  have "map_of result (MapServiceNames k) = (case getAvailableStack m ?u (candidate_urls network k) (kind_monitor k) of Inl _ \<Rightarrow> None | Inr x \<Rightarrow> Some x)"
    "\<exists>x. getAvailableStack m ?u (candidate_urls network k) (kind_monitor k) = Inr x"
    using foldR_results [OF f d, of "MapServiceNames k"] by (simp_all add: o)
  then obtain x where x: "getAvailableStack m ?u (candidate_urls network k) (kind_monitor k) = Inr x"
    "map_of result (MapServiceNames k) = Some x" by auto
  obtain url where url: "url \<in> set (candidate_urls network k)" "x = Some url" "\<exists>r < 3. reachable m ?u (kind_monitor k) r url"
    using getAvailableStack_Inr [OF x(1)] by (auto simp: default_manager_def)
  with x(2) k mem [of k] show "urls k \<in> set (candidate_urls network k)"
    and "\<exists>r < 3. ss_alive (pingService m (kind_monitor k) (2 + 2 * int r) (urls k) r)"
    by (simp_all add: urls mapResult_def reachable_def default_manager_def)
qed

subsection \<open>Reports\<close>

lemma check_service_records:
  assumes "\<And>i. snd (isAlive m mon url i) = Inr (st i)" and "\<And>i. \<not> ss_alive (st i) \<Longrightarrow> ss_error (st i) \<noteq> None"
  shows "\<exists>s'. check_service m sm (mon, url) (Suc left) s = (Inr (), s')
    \<and> map_of (mt_summary s') = (map_of (mt_summary s))(monitor_name mon \<mapsto> (\<exists>i \<le> left. ss_alive (st (mt_attempt s + i))))
    \<and> mt_attempt s < mt_attempt s' \<and> mt_attempt s' \<le> mt_attempt s + Suc left
    \<and> mt_slept s' = mt_slept s + sm_retryInterval sm * 60 * int (mt_attempt s' - mt_attempt s - 1)"
proof (induction left arbitrary: s)
  case 0
  show ?case
  proof (cases "ss_alive (st (mt_attempt s))")
    case True
    then show ?thesis
      by (simp add: bindE_app ask_alive_def assms(1) storeStatus_def Let_def fun_eq_iff)
  next
    case False
    with assms(2) obtain e where "ss_error (st (mt_attempt s)) = Some e" by blast
    with False show ?thesis
      by (simp add: bindE_app ask_alive_def assms(1) storeStatus_def serviceDown_def print_line_def Let_def fun_eq_iff)
  qed
next
  case (Suc left)
  show ?case
  proof (cases "ss_alive (st (mt_attempt s))")
    case True
    moreover from True have "\<exists>i \<le> Suc left. ss_alive (st (mt_attempt s + i))" by (intro exI [of _ 0]) simp
    ultimately show ?thesis
      by (subst check_service.simps) (simp add: bindE_app ask_alive_def assms(1) storeStatus_def Let_def)
  next
    case False
    let ?line = "monitor_name mon @ '' seems to be down; Retrying ('' @ show_nat (sm_retries sm - Suc left) @ ''/'' @ show_nat (sm_retries sm) @ '')...''"
    let ?s = "s\<lparr>mt_attempt := Suc (mt_attempt s), mt_lines := mt_lines s @ [?line], mt_slept := mt_slept s + sm_retryInterval sm * 60\<rparr>"
    have step: "check_service m sm (mon, url) (Suc (Suc left)) s = check_service m sm (mon, url) (Suc left) ?s"
      using False by (subst check_service.simps) (simp add: bindE_app ask_alive_def assms(1) print_line_def Let_def del: check_service.simps)
    define t where "t = ?s"
    have t: "mt_attempt t = Suc (mt_attempt s)" "mt_summary t = mt_summary s" "mt_slept t = mt_slept s + sm_retryInterval sm * 60"
      by (simp_all add: t_def)
    obtain s' where s': "check_service m sm (mon, url) (Suc left) t = (Inr (), s')"
      "map_of (mt_summary s') = (map_of (mt_summary s))(monitor_name mon \<mapsto> (\<exists>i \<le> left. ss_alive (st (Suc (mt_attempt s) + i))))"
      "Suc (mt_attempt s) < mt_attempt s'" "mt_attempt s' \<le> Suc (mt_attempt s) + Suc left"
      "mt_slept s' = mt_slept s + sm_retryInterval sm * 60 + sm_retryInterval sm * 60 * int (mt_attempt s' - Suc (mt_attempt s) - 1)"
      using Suc.IH [of t] unfolding t by blast
    have ex: "(\<exists>i \<le> Suc left. ss_alive (st (mt_attempt s + i))) \<longleftrightarrow> (\<exists>i \<le> left. ss_alive (st (Suc (mt_attempt s) + i)))"
    proof
      assume "\<exists>i \<le> Suc left. ss_alive (st (mt_attempt s + i))"
      then obtain i where "i \<le> Suc left" "ss_alive (st (mt_attempt s + i))" by blast
      moreover from this False obtain j where "i = Suc j" by (cases i) auto
      ultimately show "\<exists>i \<le> left. ss_alive (st (Suc (mt_attempt s) + i))" by auto
    next
      assume "\<exists>i \<le> left. ss_alive (st (Suc (mt_attempt s) + i))"
      then obtain i where "i \<le> left" "ss_alive (st (Suc (mt_attempt s) + i))" by blast
      then show "\<exists>i \<le> Suc left. ss_alive (st (mt_attempt s + i))" by (intro exI [of _ "Suc i"]) simp
    qed
    have n: "int (mt_attempt s' - mt_attempt s - 1) = 1 + int (mt_attempt s' - Suc (mt_attempt s) - 1)"
      using s'(3) by simp
    show ?thesis
      unfolding step ex n t_def [symmetric] using s' by (intro exI [of _ s']) (simp add: algebra_simps del: check_service.simps)
  qed
qed

text \<open>
  A service that answers is recorded as alive exactly if one of its attempts found it alive; there is
  at least one attempt and at most as many as retries, and between two of them it is 60 milliseconds,
  not a second, that are slept for each unit of the interval.
\<close>

theorem liveness_recorded:
  assumes "0 < sm_retries sm" and "\<And>i. snd (isAlive m mon url i) = Inr (st i)"
    and "\<And>i. \<not> ss_alive (st i) \<Longrightarrow> ss_error (st i) \<noteq> None"
  shows "\<exists>s'. check_service m sm (mon, url) (sm_retries sm) s = (Inr (), s')
    \<and> map_of (mt_summary s') = (map_of (mt_summary s))(monitor_name mon \<mapsto> (\<exists>i < sm_retries sm. ss_alive (st (mt_attempt s + i))))
    \<and> mt_attempt s < mt_attempt s' \<and> mt_attempt s' \<le> mt_attempt s + sm_retries sm
    \<and> mt_slept s' = mt_slept s + sm_retryInterval sm * 60 * int (mt_attempt s' - mt_attempt s - 1)"
proof -
  obtain left where l: "sm_retries sm = Suc left" using assms(1) by (cases "sm_retries sm") auto
  show ?thesis
    unfolding l less_Suc_eq_le by (rule check_service_records [OF assms(2,3)])
qed

text \<open>Every monitor but that of the relay turns what goes wrong into a status with an error.\<close>

lemma monitors_answer:
  assumes "mon \<noteq> RMBMonitor" and "url \<noteq> []"
  shows "\<exists>st. snd (isAlive m mon url n) = Inr st \<and> (\<not> ss_alive st \<longrightarrow> ss_error st \<noteq> None)"
  using assms
  by (cases mon)
    (auto simp: isAlive_def resolveServiceStatus_def kyc_alive_def alive_status_def down_status_def Let_def
      split: sum.splits prod.splits option.splits)

text \<open>
  The relay's monitor throws instead: when the relay's health cannot be read, the check ends at once
  with that error, without a retry, without any status of the relay or of a service after it, and
  without a summary.
\<close>

theorem failing_relay_ends_check:
  assumes "sm_services sm = (RMBMonitor, url) # rest" and "url \<noteq> []" and "0 < sm_retries sm"
    and "snd (mo_fetch m (replace_first ''wss://relay'' ''https://gridproxy'' url @ ''/health'') (mt_attempt s)) = Inl e"
  shows "checkLivenessOnce m sm s = (Inl (request_failed e), s\<lparr>mt_attempt := Suc (mt_attempt s)\<rparr>)"
proof -
  obtain left where l: "sm_retries sm = Suc left" using assms(3) by (cases "sm_retries sm") auto
  have "snd (isAlive m RMBMonitor url (mt_attempt s)) = Inl (request_failed e)"
    using assms(2,4) by (auto simp: isAlive_def rmb_alive_def split: prod.splits sum.splits)
  then show ?thesis
    using assms(1) by (simp add: checkLivenessOnce_def l bindE_app ask_alive_def)
qed

subsection \<open>Examples\<close>

text \<open>Every address answers at once, but not the first one of the relay; and a world where nothing does.\<close>

definition demo_net_up :: monitor_env where
  "demo_net_up = \<lparr>mo_fetch = (\<lambda>url n. (10, Inr \<lparr>hr_ok = True, hr_status = 200, hr_json = Inr (J_obj [(''rmb_conn'', J_str ''ok'')])\<rparr>)),
     mo_url_join = (\<lambda>a b. a @ b)\<rparr>"

definition demo_net_down :: monitor_env where
  "demo_net_down = \<lparr>mo_fetch = (\<lambda>url n. (10, Inl TypeError)), mo_url_join = (\<lambda>a b. a @ b)\<rparr>"

definition demo_services :: "(monitor \<times> string) list \<Rightarrow> ServiceMonitor" where
  "demo_services svcs = \<lparr>sm_services = svcs, sm_interval = 2, sm_retries = 2, sm_retryInterval = 2\<rparr>"

definition demo_monitor_state :: monitor_state where
  "demo_monitor_state = \<lparr>mt_summary = [], mt_lines = [], mt_attempt = 0, mt_slept = 0\<rparr>"

lemma demo_up_alive:
  "mon \<noteq> KYCMonitor \<Longrightarrow> url \<noteq> [] \<Longrightarrow> isAlive demo_net_up mon url n = (10, Inr alive_status)"
  by (cases mon) (simp_all add: isAlive_def demo_net_up_def resolveServiceStatus_def sendRequest_def rmb_alive_def json_field_def)

lemma demo_up_reachable:
  "mon \<noteq> KYCMonitor \<Longrightarrow> url \<noteq> [] \<Longrightarrow> reachable demo_net_up (default_manager ss) mon r url"
  by (simp add: reachable_def pingService_def demo_up_alive default_manager_def alive_status_def)

lemma demo_candidates:
  "\<exists>a b. candidate_urls network k = [a, b] \<and> a \<noteq> []"
  by (cases k) (simp_all add: candidate_urls_def Let_def)

lemma demo_stack:
  "\<exists>url. getAvailableStack demo_net_up (default_manager ss) (candidate_urls network k) (kind_monitor k) = Inr (Some url)"
proof -
  obtain a b where ab: "candidate_urls network k = [a, b]" "a \<noteq> []" using demo_candidates by blast
  moreover have "kind_monitor k \<noteq> KYCMonitor" by (cases k) simp_all
  moreover have "[0..<um_retries (default_manager ss)] = [0, 1, 2]" by (simp add: default_manager_def upt_rec)
  ultimately show ?thesis by (simp add: getAvailableStack_def demo_up_reachable)
qed

lemma demo_all_found: "\<exists>urls. getAvailableURLs demo_net_up network current = Inr urls"
proof -
  have f: "\<exists>ob'. foldR (\<lambda>(name, r) ob. bindR r (\<lambda>x. Inr (obj_set name x ob))) ps ob = Inr ob'"
    if "\<forall>p \<in> set ps. \<exists>url. snd p = Inr (Some url)" for ps :: "(string \<times> (js_error + string option)) list" and ob
    using that by (induction ps arbitrary: ob) auto
  have v: "\<forall>p \<in> set (foldl (\<lambda>ob (urls, mon). obj_set (monitor_name mon) (getAvailableStack demo_net_up u urls mon) ob) ob ss).
      \<exists>url. snd p = Inr (Some url)"
    if "\<forall>(urls, mon) \<in> set ss. \<exists>url. getAvailableStack demo_net_up u urls mon = Inr (Some url)" "\<forall>p \<in> set ob. \<exists>url. snd p = Inr (Some url)"
    for u ss ob
    using that
  proof (induction ss arbitrary: ob)
    case (Cons svc ss)
    have "\<forall>p \<in> set (obj_set n (Inr (Some url)) ob). \<exists>url. snd p = Inr (Some url)" for n url
    proof -
      have "set (obj_set n v ob) \<subseteq> insert (n, v) (set ob)" for v
        by (induction ob) (auto split: if_splits)
      with Cons.prems(2) show ?thesis by force
    qed
    moreover obtain a b url where "svc = (a, b)" "getAvailableStack demo_net_up u a b = Inr (Some url)"
      using Cons.prems(1) by auto
    ultimately show ?case using Cons.IH [of "obj_set (monitor_name b) (Inr (Some url)) ob"] Cons.prems(1) by simp
  qed simp
  let ?ks = "getServicesWithoutURLs current"
  let ?u = "default_manager (map (\<lambda>k. (candidate_urls network k, kind_monitor k)) ?ks)"
  have "\<exists>result. getAvailableServicesStack demo_net_up ?u = Inr result"
    unfolding getAvailableServicesStack_def Let_def
    by (rule f [OF v]) (auto simp: default_manager_def demo_stack [unfolded default_manager_def])
  then show ?thesis by (auto simp: getAvailableURLs_def Let_def)
qed

theorem stack_first_reachable_witness:
  "getAvailableStack demo_net_up (default_manager []) [''a'', ''b''] GridProxyMonitor = Inr (Some ''a'')"
proof -
  have r: "reachable demo_net_up (default_manager []) GridProxyMonitor r w" if "w \<noteq> []" for r w
    using that by (simp add: demo_up_reachable)
  have n: "um_retries (default_manager []) = 3" by (simp add: default_manager_def)
  show ?thesis
    using stack_first_reachable [of "default_manager []" "[''a'', ''b'']" demo_net_up GridProxyMonitor]
  proof (elim disjE exE conjE)
    fix r i
    assume "i < length [''a'', ''b'']" "\<forall>j < i. \<not> reachable demo_net_up (default_manager []) GridProxyMonitor r ([''a'', ''b''] ! j)"
      "getAvailableStack demo_net_up (default_manager []) [''a'', ''b''] GridProxyMonitor = Inr (Some ([''a'', ''b''] ! i))"
    moreover from this have "i = 0" using r [of "''a''"] by (cases i) auto
    ultimately show ?thesis by simp
  next
    assume "\<forall>r < um_retries (default_manager []). \<forall>w \<in> set [''a'', ''b'']. \<not> reachable demo_net_up (default_manager []) GridProxyMonitor r w"
    then show ?thesis using r [of "''a''" 0] by (simp add: n)
  qed
qed

theorem client_urls_complete_witness:
  "\<exists>urls. getAvailableURLs demo_net_up ''dev'' (\<lambda>k. if k = UK_proxy then ''mine'' else []) = Inr urls
     \<and> urls UK_proxy = ''mine'' \<and> urls UK_relay \<in> set (candidate_urls ''dev'' UK_relay)"
proof -
  obtain urls where u: "getAvailableURLs demo_net_up ''dev'' (\<lambda>k. if k = UK_proxy then ''mine'' else []) = Inr urls"
    using demo_all_found by blast
  show ?thesis
    using client_urls_complete [OF u, rule_format, of UK_proxy] client_urls_complete [OF u, rule_format, of UK_relay] u by simp
qed

text \<open>The relay is down twice, then its one status is kept; a failing one ends the check.\<close>

theorem liveness_recorded_witness:
  "map_of (mt_summary (snd (check_service demo_net_down (demo_services []) (GridProxyMonitor, ''u'') 2 demo_monitor_state))) ''GridProxy''
     = Some False"
proof -
  let ?st = "\<lambda>i::nat. down_status (request_failed TypeError)"
  have a: "snd (isAlive demo_net_down GridProxyMonitor ''u'' i) = Inr (?st i)" for i
    by (simp add: isAlive_def demo_net_down_def resolveServiceStatus_def sendRequest_def)
  have e: "\<not> ss_alive (?st i) \<Longrightarrow> ss_error (?st i) \<noteq> None" for i by (simp add: down_status_def)
  show ?thesis
    using liveness_recorded [of "demo_services []", OF _ a e, of demo_monitor_state]
    by (auto simp: demo_services_def demo_monitor_state_def down_status_def)
qed

theorem failing_relay_ends_check_witness:
  "fst (checkLivenessOnce demo_net_down (demo_services [(RMBMonitor, ''wss://relay.grid.tf''), (GridProxyMonitor, ''u'')]) demo_monitor_state)
     = Inl (request_failed TypeError)"
  by (subst failing_relay_ends_check [where url = "''wss://relay.grid.tf''" and e = TypeError and rest = "[(GridProxyMonitor, ''u'')]"])
    (simp_all add: demo_services_def demo_net_down_def)

end
