(* ===== verification/GridProxy.thy ===== *)
theory GridProxy
  imports Query
begin

text \<open>
  \<open>gridproxy_client/src\<close>: the assertions (\<open>utils\<close>), the builders of requests with their tables
  (\<open>builders\<close>), and the clients of the proxy with the farms and twins that the client of the nodes
  keeps (\<open>modules\<close>).  What \<open>fetch\<close> answers to an address is the parameter; a request that takes
  longer than its timeout is an error of it.
\<close>

subsection \<open>Values and assertions\<close>

text \<open>A number that is no integer is \<open>Q_float\<close> with the text JavaScript shows for it; null counts as \<open>undefined\<close>.\<close>

datatype qvalue = Q_undef | Q_str string | Q_int int | Q_float string | Q_bool bool | Q_list "string list"

fun q_text :: "qvalue \<Rightarrow> string" where
  "q_text Q_undef = ''undefined''"
| "q_text (Q_str s) = s"
| "q_text (Q_int n) = show_int n"
| "q_text (Q_float s) = s"
| "q_text (Q_bool b) = show_bool b"
| "q_text (Q_list xs) = join_with '','' xs"

fun q_typeof :: "qvalue \<Rightarrow> string" where
  "q_typeof Q_undef = ''undefined''"
| "q_typeof (Q_str _) = ''string''"
| "q_typeof (Q_int _) = ''number''"
| "q_typeof (Q_float _) = ''number''"
| "q_typeof (Q_bool _) = ''boolean''"
| "q_typeof (Q_list _) = ''object''"

definition capitalize :: "string \<Rightarrow> string" where
  "capitalize s = (case s of [] \<Rightarrow> []
     | c # cs \<Rightarrow> (if 97 \<le> (of_char c :: nat) \<and> (of_char c :: nat) \<le> 122 then char_of ((of_char c :: nat) - 32) else c) # cs)"

definition panic :: "qvalue \<Rightarrow> string \<Rightarrow> js_error + 'a" where
  "panic v expected = Inl (plain_error C_Error (''Expected argument of type ['' @ expected @ ''] but got [''
     @ capitalize (q_typeof v) @ ''] with value ('' @ q_text v @ '').''))"

text \<open>From \<open>10 ^ 21\<close> on a number is shown with an exponent, and \<open>parseInt\<close> reads only what is before it.\<close>

definition isNumber :: "qvalue \<Rightarrow> bool" where
  "isNumber v \<longleftrightarrow> (case v of Q_int _ \<Rightarrow> True | Q_float _ \<Rightarrow> True | _ \<Rightarrow> False)"

definition isInt :: "qvalue \<Rightarrow> bool" where
  "isInt v \<longleftrightarrow> (case v of Q_int n \<Rightarrow> \<bar>n\<bar> < 10 ^ 21 | _ \<Rightarrow> False)"

definition isString :: "qvalue \<Rightarrow> bool" where
  "isString v \<longleftrightarrow> (case v of Q_str _ \<Rightarrow> True | _ \<Rightarrow> False)"

definition isBoolean :: "qvalue \<Rightarrow> bool" where
  "isBoolean v \<longleftrightarrow> (case v of Q_bool _ \<Rightarrow> True | _ \<Rightarrow> False)"

definition at_least :: "qvalue \<Rightarrow> int \<Rightarrow> bool" where
  "at_least v m \<longleftrightarrow> (case v of Q_int n \<Rightarrow> m \<le> n | _ \<Rightarrow> False)"

type_synonym validator = "qvalue \<Rightarrow> js_error + unit"

definition check :: "bool \<Rightarrow> string \<Rightarrow> validator" where
  "check ok expected v = (if ok then Inr () else panic v expected)"

definition assertNumber :: validator where
  "assertNumber v = check (isNumber v) ''Number'' v"

definition assertInt :: validator where
  "assertInt v = bindR (assertNumber v) (\<lambda>_. check (isInt v) ''Int'' v)"

definition assertNatural :: validator where
  "assertNatural v = bindR (assertInt v) (\<lambda>_. check (at_least v 0) ''Natural'' v)"

definition assertId :: validator where
  "assertId v = bindR (assertInt v) (\<lambda>_. check (at_least v 1) ''ID'' v)"

definition assertString :: validator where
  "assertString v = check (isString v) ''String'' v"

definition assertBoolean :: validator where
  "assertBoolean v = check (isBoolean v) ''Boolean'' v"

definition assertIn :: "string list \<Rightarrow> validator" where
  "assertIn allowed v = check (\<exists>d \<in> set allowed. v = Q_str d)
     (''domain('' @ join_with '', '' (map (\<lambda>d. [CHR 0x22] @ d @ [CHR 0x22]) allowed) @ '')'') v"

text \<open>\<open>/^\d+$/\<close> of a text.\<close>

definition ID_PATTERN :: "string \<Rightarrow> bool" where
  "ID_PATTERN s \<longleftrightarrow> s \<noteq> [] \<and> list_all is_digit s"

fun all_valid :: "validator \<Rightarrow> qvalue list \<Rightarrow> js_error + unit" where
  "all_valid f [] = Inr ()"
| "all_valid f (v # vs) = bindR (f v) (\<lambda>_. all_valid f vs)"

text \<open>The ids of the farms in one text, separated by commas; on what is no text \<open>split\<close> is not there.\<close>

definition assertFarmIds :: validator where
  "assertFarmIds v = (case v of
     Q_str s \<Rightarrow> all_valid (\<lambda>w. bindR (check (ID_PATTERN (q_text w)) ([CHR ''/'', CHR ''^'', CHR 0x5C] @ ''d+$/'') w)
                            (\<lambda>_. assertId (Q_int (int (read_nat (q_text w))))))
                  (map Q_str (split_on (CHR '','') s))
   | _ \<Rightarrow> Inl TypeError)"

definition assertStates :: validator where
  "assertStates v = (case v of
     Q_list xs \<Rightarrow> all_valid (\<lambda>w. bindR (assertString w) (\<lambda>_. assertIn [''Created'', ''GracePeriod'', ''Deleted''] w)) (map Q_str xs)
   | _ \<Rightarrow> Inl (plain_error C_Error ''Invalid state format. Must be an array of ContractState enums.''))"

definition assertTextIn :: "string list \<Rightarrow> validator" where
  "assertTextIn allowed v = bindR (assertString v) (\<lambda>_. assertIn allowed v)"

subsection \<open>Builders\<close>

text \<open>Name in the query, name on the wire, validator.\<close>

type_synonym query_table = "(string \<times> string \<times> validator) list"

definition FARMS :: query_table where
  "FARMS = [(''page'', ''page'', assertNatural), (''size'', ''size'', assertNatural), (''retCount'', ''ret_count'', assertBoolean),
     (''freeIps'', ''free_ips'', assertNatural), (''certificationType'', ''certification_type'', assertIn [''DIY'', ''Certified'']),
     (''version'', ''version'', assertNatural), (''dedicated'', ''dedicated'', assertBoolean), (''farmId'', ''farm_id'', assertId),
     (''name'', ''name'', assertString), (''nameContains'', ''name_contains'', assertString),
     (''pricingPolicyId'', ''pricing_policy_id'', assertId), (''stellarAddress'', ''stellar_address'', assertString),
     (''totalIps'', ''total_ips'', assertNatural), (''twinId'', ''twin_id'', assertId),
     (''nodeHasIPv6'', ''node_has_ipv6'', assertBoolean), (''sortBy'', ''sort_by'', assertString),
     (''sortOrder'', ''sort_order'', assertString)]"

definition TWINS :: query_table where
  "TWINS = [(''page'', ''page'', assertNatural), (''size'', ''size'', assertNatural), (''retCount'', ''ret_count'', assertBoolean),
     (''accountId'', ''account_id'', assertId), (''twinId'', ''twin_id'', assertId)]"

definition CONTRACTS :: query_table where
  "CONTRACTS = [(''page'', ''page'', assertNatural), (''size'', ''size'', assertNatural), (''retCount'', ''ret_count'', assertBoolean),
     (''contractId'', ''contract_id'', assertId), (''twinId'', ''twin_id'', assertId), (''nodeId'', ''node_id'', assertId),
     (''name'', ''name'', assertString), (''type'', ''type'', assertTextIn [''name'', ''node'', ''rent'']), (''state'', ''state'', assertStates),
     (''deploymentData'', ''deployment_data'', assertString), (''deploymentHash'', ''deployment_hash'', assertString),
     (''numberOfPublicIps'', ''number_of_public_ips'', assertNatural),
     (''sortBy'', ''sort_by'', assertTextIn [''created_at'', ''twin_id'', ''contract_id'', ''type'', ''state'']),
     (''sortOrder'', ''sort_order'', assertTextIn [''desc'', ''asc''])]"

definition GATEWAYS :: query_table where
  "GATEWAYS = [(''page'', ''page'', assertNatural), (''size'', ''size'', assertNatural), (''retCount'', ''ret_count'', assertBoolean),
     (''freeMru'', ''free_mru'', assertNatural), (''freeHru'', ''free_hru'', assertNatural), (''freeSru'', ''free_sru'', assertNatural),
     (''freeIps'', ''free_ips'', assertNatural), (''status'', ''status'', assertIn [''up'', ''down'']), (''city'', ''city'', assertString),
     (''country'', ''country'', assertString), (''farmName'', ''farm_name'', assertString), (''ipv4'', ''ipv4'', assertBoolean),
     (''ipv6'', ''ipv6'', assertBoolean), (''dedicated'', ''dedicated'', assertBoolean), (''rentable'', ''rentable'', assertBoolean),
     (''rented'', ''rented'', assertBoolean), (''rentedBy'', ''rentedBy'', assertId), (''availableFor'', ''available_for'', assertId),
     (''farmIds'', ''farm_ids'', assertFarmIds)]"

definition STATS :: query_table where
  "STATS = [(''status'', ''status'', assertIn [''up'', ''down'', ''standby''])]"

definition NODES :: query_table where
  "NODES = [(''page'', ''page'', assertNatural), (''size'', ''size'', assertNatural), (''retCount'', ''ret_count'', assertBoolean),
     (''freeMru'', ''free_mru'', assertNatural), (''freeHru'', ''free_hru'', assertNatural), (''freeSru'', ''free_sru'', assertNatural),
     (''freeGpu'', ''free_gpu'', assertNatural), (''freeIps'', ''free_ips'', assertNatural),
     (''status'', ''status'', assertIn [''up'', ''down'', ''standby'', ''up,standby'']), (''city'', ''city'', assertString),
     (''country'', ''country'', assertString), (''region'', ''region'', assertString), (''farmName'', ''farm_name'', assertString),
     (''domain'', ''domain'', assertBoolean), (''ipv4'', ''ipv4'', assertBoolean), (''ipv6'', ''ipv6'', assertBoolean),
     (''dedicated'', ''dedicated'', assertBoolean), (''rentable'', ''rentable'', assertBoolean), (''rented'', ''rented'', assertBoolean),
     (''rentedBy'', ''rented_by'', assertId), (''availableFor'', ''available_for'', assertId), (''farmIds'', ''farm_ids'', assertFarmIds),
     (''nodeId'', ''node_id'', assertId), (''certificationType'', ''certification_type'', assertIn [''NotCertified'', ''Silver'', ''Gold'']),
     (''gpuAvailable'', ''gpu_available'', assertBoolean), (''gpuDeviceId'', ''gpu_device_id'', assertString),
     (''gpuDeviceName'', ''gpu_device_name'', assertString), (''gpuVendorId'', ''gpu_vendor_id'', assertString),
     (''gpuVendorName'', ''gpu_vendor_name'', assertString), (''hasGpu'', ''has_gpu'', assertBoolean), (''totalCru'', ''total_cru'', assertInt),
     (''totalHru'', ''total_hru'', assertInt), (''totalMru'', ''total_mru'', assertInt), (''totalSru'', ''total_sru'', assertInt),
     (''totalGpu'', ''total_gpu'', assertInt), (''ownedBy'', ''owned_by'', assertInt), (''healthy'', ''healthy'', assertBoolean),
     (''sortBy'', ''sort_by'', assertString), (''sortOrder'', ''sort_order'', assertString), (''numGpu'', ''num_gpu'', assertInt),
     (''hasIPv6'', ''has_ipv6'', assertBoolean)]"

type_synonym queries = "(string \<times> qvalue) list"

definition blank :: "qvalue \<Rightarrow> bool" where
  "blank v \<longleftrightarrow> v = Q_undef \<or> v = Q_str []"

definition drop_blank :: "queries \<Rightarrow> queries" where
  "drop_blank q = filter (\<lambda>p. \<not> blank (snd p)) q"

text \<open>The parts of the query in the order of the queries; a name without a validator is a \<open>TypeError\<close>.\<close>

fun query_parts :: "query_table \<Rightarrow> queries \<Rightarrow> js_error + string list" where
  "query_parts tab [] = Inr []"
| "query_parts tab ((k, v) # q) =
     (if blank v then query_parts tab q
      else (case map_of tab k of
          None \<Rightarrow> Inl TypeError
        | Some (wire, valid) \<Rightarrow> bindR (valid v) (\<lambda>_.
            bindR (query_parts tab q) (\<lambda>out. Inr ((wire @ ''='' @ q_text v) # out)))))"

definition query_url :: "query_table \<Rightarrow> string \<Rightarrow> string \<Rightarrow> queries \<Rightarrow> js_error + string" where
  "query_url tab uri path q =
     (if take 1 path \<noteq> ''/'' then panic (Q_str path) [CHR ''/'', CHR ''^'', CHR 0x5C, CHR ''/'', CHR ''/'']
      else bindR (query_parts tab q) (\<lambda>out.
        Inr (uri @ path @ (if out \<noteq> [] then ''?'' @ join_with ''&'' out else []))))"

record 'a proxy_response =
  gr_count :: "int option"
  gr_json :: "js_error + 'a"

type_synonym 'a proxy_fetch = "string \<Rightarrow> js_error + 'a proxy_response"

definition build ::
  "query_table \<Rightarrow> string \<Rightarrow> 'a proxy_fetch \<Rightarrow> string \<Rightarrow> queries \<Rightarrow> js_error + 'a proxy_response"
where
  "build tab uri fetch path q = bindR (query_url tab uri path q) fetch"

record 'a page_result =
  pa_count :: "int option"
  pa_data :: 'a

definition resolvePaginator :: "'a proxy_response \<Rightarrow> js_error + 'a page_result" where
  "resolvePaginator res = bindR (gr_json res) (\<lambda>d. Inr \<lparr>pa_count = gr_count res, pa_data = d\<rparr>)"

text \<open>\<open>AbstractClient.builder\<close> drops what is blank before the builder sees it.\<close>

definition client_list ::
  "query_table \<Rightarrow> string \<Rightarrow> string \<Rightarrow> 'a proxy_fetch \<Rightarrow> queries \<Rightarrow> js_error + 'a page_result"
where
  "client_list tab path uri fetch q = bindR (build tab uri fetch path (drop_blank q)) resolvePaginator"

subsection \<open>Farms and twins\<close>

record proxy_farm =
  pf_farmId :: int
  pf_name :: string
  pf_ip_contracts :: "int list"

record proxy_twin =
  pt_twinId :: int
  pt_accountId :: string

definition list_farms :: "string \<Rightarrow> proxy_farm list proxy_fetch \<Rightarrow> queries \<Rightarrow> js_error + proxy_farm list page_result" where
  "list_farms = client_list FARMS ''/farms''"

text \<open>The spread of the queries with the fields that follow it.\<close>

definition with_fields :: "queries \<Rightarrow> queries \<Rightarrow> queries" where
  "with_fields q ps = foldl (\<lambda>ob p. obj_set (fst p) (snd p) ob) q ps"

text \<open>The number of pages: \<open>Math.ceil(count / 50)\<close>, no page without a count.\<close>

definition page_count :: "int option \<Rightarrow> nat" where
  "page_count c = (case c of None \<Rightarrow> 0 | Some n \<Rightarrow> nat ((n + 49) div 50))"

definition list_all_farms :: "string \<Rightarrow> proxy_farm list proxy_fetch \<Rightarrow> queries \<Rightarrow> js_error + proxy_farm list" where
  "list_all_farms uri fetch q =
     bindR (list_farms uri fetch (with_fields q [(''size'', Q_int 50), (''page'', Q_int 1), (''retCount'', Q_bool True)])) (\<lambda>first.
       bindR (mapR (\<lambda>i. list_farms uri fetch (with_fields q [(''size'', Q_int 50), (''page'', Q_int (int i + 1))]))
                [0..<page_count (pa_count first)])
         (\<lambda>pages. Inr (concat (map pa_data pages))))"

definition list_twins :: "string \<Rightarrow> proxy_twin list proxy_fetch \<Rightarrow> queries \<Rightarrow> js_error + proxy_twin list page_result" where
  "list_twins = client_list TWINS ''/twins''"

subsection \<open>Nodes\<close>

record public_ips =
  ips_total :: nat
  ips_used :: nat
  ips_free :: nat

record grid_node =
  gn_nodeId :: int
  gn_farmId :: int
  gn_twinId :: int
  gn_resources :: "string \<times> string"
  gn_capacity :: "(string \<times> string) option"
  gn_farm :: "proxy_farm option"
  gn_publicIps :: "public_ips option"
  gn_twin :: "proxy_twin option"
  gn_stats :: "string option"

text \<open>The requests, one function for each kind of answer, and what the client keeps.\<close>

record proxy_env =
  xe_uri :: string
  xe_farms :: "proxy_farm list proxy_fetch"
  xe_twins :: "proxy_twin list proxy_fetch"
  xe_nodes :: "grid_node list proxy_fetch"
  xe_node :: "grid_node proxy_fetch"
  xe_stats :: "string proxy_fetch"

record nodes_client =
  nc_farms :: "(int \<times> proxy_farm) list"
  nc_twins :: "(int \<times> proxy_twin) list"

type_synonym 'r nodes_eff = "(nodes_client, js_error, 'r) eff"

definition getFarmPublicIps :: "proxy_farm \<Rightarrow> public_ips" where
  "getFarmPublicIps farm =
     (let total = length (pf_ip_contracts farm); free = length (filter (\<lambda>c. c = 0) (pf_ip_contracts farm))
      in \<lparr>ips_total = total, ips_used = total - free, ips_free = free\<rparr>)"

definition setFarm :: "nodes_client \<Rightarrow> grid_node \<Rightarrow> grid_node" where
  "setFarm s n = (case map_of (nc_farms s) (gn_farmId n) of None \<Rightarrow> n
     | Some farm \<Rightarrow> n\<lparr>gn_farm := Some farm, gn_publicIps := Some (getFarmPublicIps farm)\<rparr>)"

definition setTwin :: "nodes_client \<Rightarrow> grid_node \<Rightarrow> grid_node" where
  "setTwin s n = (case map_of (nc_twins s) (gn_twinId n) of None \<Rightarrow> n | Some t \<Rightarrow> n\<lparr>gn_twin := Some t\<rparr>)"

text \<open>The ids not kept yet, each once; all of them are asked for before the first is kept.\<close>

definition missing_ids :: "(int \<times> 'a) list \<Rightarrow> int list \<Rightarrow> int list" where
  "missing_ids kept ids = js_dedup (filter (\<lambda>i. map_of kept i = None) ids)"

definition first_of :: "'a list page_result \<Rightarrow> js_error + 'a" where
  "first_of p = (case pa_data p of [] \<Rightarrow> Inl TypeError | x # _ \<Rightarrow> Inr x)"

fun keep_farms :: "proxy_farm list page_result list \<Rightarrow> unit nodes_eff" where
  "keep_farms [] = retE ()"
| "keep_farms (p # ps) = bindE (liftE (first_of p)) (\<lambda>farm.
     bindE (modifyE (\<lambda>s. s\<lparr>nc_farms := obj_set (pf_farmId farm) farm (nc_farms s)\<rparr>)) (\<lambda>_. keep_farms ps))"

fun keep_twins :: "proxy_twin list page_result list \<Rightarrow> unit nodes_eff" where
  "keep_twins [] = retE ()"
| "keep_twins (p # ps) = bindE (liftE (first_of p)) (\<lambda>t.
     bindE (modifyE (\<lambda>s. s\<lparr>nc_twins := obj_set (pt_twinId t) t (nc_twins s)\<rparr>)) (\<lambda>_. keep_twins ps))"

definition loadFarms :: "proxy_env \<Rightarrow> int list \<Rightarrow> unit nodes_eff" where
  "loadFarms e farmIds = bindE (getE nc_farms) (\<lambda>kept.
     bindE (liftE (mapR (\<lambda>i. list_farms (xe_uri e) (xe_farms e) [(''farmId'', Q_int i)]) (missing_ids kept farmIds))) keep_farms)"

definition loadTwins :: "proxy_env \<Rightarrow> int list \<Rightarrow> unit nodes_eff" where
  "loadTwins e twinIds = bindE (getE nc_twins) (\<lambda>kept.
     bindE (liftE (mapR (\<lambda>i. list_twins (xe_uri e) (xe_twins e) [(''twinId'', Q_int i)]) (missing_ids kept twinIds))) keep_twins)"

definition json_of :: "js_error + 'a proxy_response \<Rightarrow> js_error + 'a" where
  "json_of r = bindR r gr_json"

definition statsById :: "proxy_env \<Rightarrow> int \<Rightarrow> js_error + string" where
  "statsById e nodeId = json_of (build NODES (xe_uri e) (xe_stats e) (''/nodes/'' @ show_int nodeId @ ''/statistics'') [])"

definition gpuById :: "string \<Rightarrow> 'a proxy_fetch \<Rightarrow> int \<Rightarrow> js_error + 'a" where
  "gpuById uri fetch nodeId = json_of (build NODES uri fetch (''/nodes/'' @ show_int nodeId @ ''/gpu'') [])"

record extract_options =
  xo_loadFarm :: bool
  xo_loadTwin :: bool
  xo_loadStats :: bool

definition load_farm_of :: "proxy_env \<Rightarrow> extract_options \<Rightarrow> grid_node list \<Rightarrow> grid_node list nodes_eff" where
  "load_farm_of e opt ns = (if xo_loadFarm opt
     then bindE (loadFarms e (map gn_farmId ns)) (\<lambda>_. getE (\<lambda>s. map (setFarm s) ns)) else retE ns)"

definition load_twin_of :: "proxy_env \<Rightarrow> extract_options \<Rightarrow> grid_node list \<Rightarrow> grid_node list nodes_eff" where
  "load_twin_of e opt ns = (if xo_loadTwin opt
     then bindE (loadTwins e (map gn_twinId ns)) (\<lambda>_. getE (\<lambda>s. map (setTwin s) ns)) else retE ns)"

definition load_stats_of :: "proxy_env \<Rightarrow> extract_options \<Rightarrow> grid_node list \<Rightarrow> grid_node list nodes_eff" where
  "load_stats_of e opt ns = (if xo_loadStats opt
     then bindE (liftE (mapR (\<lambda>n. statsById e (gn_nodeId n)) ns)) (\<lambda>stats. retE (map2 (\<lambda>n st. n\<lparr>gn_stats := Some st\<rparr>) ns stats))
     else retE ns)"

definition list_nodes :: "proxy_env \<Rightarrow> queries \<Rightarrow> extract_options \<Rightarrow> grid_node list page_result nodes_eff" where
  "list_nodes e q opt = bindE (liftE (client_list NODES ''/nodes'' (xe_uri e) (xe_nodes e) q)) (\<lambda>nodes.
     bindE (load_farm_of e opt (pa_data nodes)) (\<lambda>ns. bindE (load_twin_of e opt ns) (\<lambda>ns.
       bindE (load_stats_of e opt ns) (\<lambda>ns. retE \<lparr>pa_count = pa_count nodes, pa_data = ns\<rparr>))))"

text \<open>One node: its total and its used resources may be under \<open>capacity\<close>.\<close>

definition node_byId :: "proxy_env \<Rightarrow> int \<Rightarrow> extract_options \<Rightarrow> grid_node nodes_eff" where
  "node_byId e nodeId opt =
     bindE (liftE (json_of (build NODES (xe_uri e) (xe_node e) (''/nodes/'' @ show_int nodeId) []))) (\<lambda>n0.
       let n = (case gn_capacity n0 of None \<Rightarrow> n0 | Some c \<Rightarrow> n0\<lparr>gn_resources := c\<rparr>) in
       bindE (load_farm_of e opt [n]) (\<lambda>ns. bindE (load_twin_of e opt ns) (\<lambda>ns.
         bindE (load_stats_of e opt ns) (\<lambda>ns. retE (hd ns)))))"

definition gateway_byId :: "proxy_env \<Rightarrow> int \<Rightarrow> js_error + grid_node" where
  "gateway_byId e nodeId = bindR (assertId (Q_int nodeId)) (\<lambda>_.
     json_of (build GATEWAYS (xe_uri e) (xe_node e) (''/gateways/'' @ show_int nodeId) []))"

definition list_gateways :: "proxy_env \<Rightarrow> queries \<Rightarrow> js_error + grid_node list page_result" where
  "list_gateways e q = client_list GATEWAYS ''/gateways'' (xe_uri e) (xe_nodes e) q"

definition list_contracts :: "string \<Rightarrow> 'a list proxy_fetch \<Rightarrow> queries \<Rightarrow> js_error + 'a list page_result" where
  "list_contracts uri fetch q = client_list CONTRACTS ''/contracts'' uri fetch q"

definition get_stats :: "string \<Rightarrow> 'a proxy_fetch \<Rightarrow> queries \<Rightarrow> js_error + 'a" where
  "get_stats uri fetch q = json_of (build STATS uri fetch ''/stats'' (drop_blank q))"

end
