(* ===== verification/GridProxyProps.thy ===== *)
theory GridProxyProps
  imports GridProxy
begin

text \<open>
  What reaches the proxy, that all pages are collected, and that the nodes get their own farms.
\<close>

subsection \<open>Requests\<close>

lemma check_Inr [simp]: "check ok expected v = Inr u \<longleftrightarrow> ok"
  by (simp add: check_def panic_def)

lemma assert_Inr [simp]:
  "assertInt v = Inr u \<longleftrightarrow> isInt v"
  "assertNatural v = Inr u \<longleftrightarrow> isInt v \<and> at_least v 0"
  "assertId v = Inr u \<longleftrightarrow> isInt v \<and> at_least v 1"
  by (auto simp: assertInt_def assertNumber_def assertNatural_def assertId_def bindR_Inr isInt_def isNumber_def split: qvalue.splits)

definition accepted :: "query_table \<Rightarrow> string \<times> qvalue \<Rightarrow> bool" where
  "accepted tab p \<longleftrightarrow> (\<exists>wire valid. map_of tab (fst p) = Some (wire, valid) \<and> valid (snd p) = Inr ())"

definition wire_part :: "query_table \<Rightarrow> string \<times> qvalue \<Rightarrow> string" where
  "wire_part tab p = fst (the (map_of tab (fst p))) @ ''='' @ q_text (snd p)"

lemma query_parts_Inr:
  "query_parts tab q = Inr out \<longleftrightarrow> (\<forall>p \<in> set (drop_blank q). accepted tab p) \<and> out = map (wire_part tab) (drop_blank q)"
proof (induction tab q arbitrary: out rule: query_parts.induct)
  case (2 tab k v q)
  show ?case
  proof (cases "blank v")
    case True
    with 2(1) show ?thesis by (simp add: drop_blank_def)
  next
    case False
    show ?thesis
    proof (cases "map_of tab k")
      case (Some p)
      then show ?thesis
        using 2(2) [OF False] False by (auto simp: drop_blank_def accepted_def wire_part_def bindR_Inr split: prod.splits)
    qed (use False in \<open>simp add: drop_blank_def accepted_def\<close>)
  qed
qed (auto simp: drop_blank_def)

lemma drop_blank_twice [simp]: "drop_blank (drop_blank q) = drop_blank q"
  by (simp add: drop_blank_def)

text \<open>
  A list is asked for only with parameters the table of its builder accepts, at the address that
  names each of them that is not blank, once and in the order they were given.
\<close>

theorem request_accepted:
  assumes "client_list tab (CHR ''/'' # path) uri fetch q = Inr r"
  shows "(\<forall>p \<in> set q. blank (snd p) \<or> accepted tab p)
    \<and> (\<exists>res. fetch (uri @ (CHR ''/'' # path) @ (if drop_blank q = [] then [] else ''?'' @ join_with ''&'' (map (wire_part tab) (drop_blank q))))
          = Inr res \<and> pa_count r = gr_count res \<and> gr_json res = Inr (pa_data r))"
proof -
  obtain url res where url: "query_url tab uri (CHR ''/'' # path) (drop_blank q) = Inr url" and
    res: "fetch url = Inr res" "pa_count r = gr_count res" "gr_json res = Inr (pa_data r)"
    using assms by (auto simp: client_list_def build_def resolvePaginator_def elim!: bindR_InrE)
  have "\<forall>p \<in> set (drop_blank q). accepted tab p" and
    "url = uri @ (CHR ''/'' # path) @ (if drop_blank q = [] then [] else ''?'' @ join_with ''&'' (map (wire_part tab) (drop_blank q)))"
    using url by (auto simp: query_url_def query_parts_Inr elim!: bindR_InrE split: if_splits)
  moreover from this(1) have "\<forall>p \<in> set q. blank (snd p) \<or> accepted tab p" unfolding drop_blank_def set_filter by blast
  ultimately show ?thesis using res by blast
qed

subsection \<open>All pages\<close>

text \<open>A server with all of \<open>farms\<close> for the queries: their number on request, and fifty to a page.\<close>

definition farms_request :: "string \<Rightarrow> queries \<Rightarrow> js_error + string" where
  "farms_request uri q = query_url FARMS uri ''/farms'' (drop_blank q)"

definition pages_farms :: "string \<Rightarrow> proxy_farm list proxy_fetch \<Rightarrow> queries \<Rightarrow> proxy_farm list \<Rightarrow> bool" where
  "pages_farms uri fetch q farms \<longleftrightarrow>
     (\<exists>url d. farms_request uri (with_fields q [(''size'', Q_int 50), (''page'', Q_int 1), (''retCount'', Q_bool True)]) = Inr url
        \<and> fetch url = Inr \<lparr>gr_count = Some (int (length farms)), gr_json = Inr d\<rparr>)
     \<and> (\<forall>i. 50 * i < length farms \<longrightarrow> (\<exists>url c. farms_request uri (with_fields q [(''size'', Q_int 50), (''page'', Q_int (int i + 1))]) = Inr url
        \<and> fetch url = Inr \<lparr>gr_count = c, gr_json = Inr (take 50 (drop (50 * i) farms))\<rparr>))"

lemma list_farms_at:
  assumes "farms_request uri q = Inr url" and "fetch url = Inr \<lparr>gr_count = c, gr_json = Inr d\<rparr>"
  shows "list_farms uri fetch q = Inr \<lparr>pa_count = c, pa_data = d\<rparr>"
  using assms by (simp add: list_farms_def client_list_def build_def farms_request_def resolvePaginator_def)

lemma concat_pages: "concat (map (\<lambda>i. take m (drop (m * i) xs)) [0..<n]) = take (m * n) xs"
proof (induction n)
  case (Suc n)
  have "m * Suc n = m * n + m" by simp
  with Suc show ?case by (simp only: take_add upt_Suc_append le0 map_append concat_append) simp
qed simp

lemma page_count_enough:
  "n \<le> 50 * page_count (Some (int n))" "i < page_count (Some (int n)) \<Longrightarrow> 50 * i < n"
  unfolding page_count_def by simp_all

text \<open>C29: Listing all farms gives every farm of the server that answers the queries, once and in its order.\<close>

theorem all_farms_listed:
  assumes "pages_farms uri fetch q farms"
  shows "list_all_farms uri fetch q = Inr farms"
proof -
  let ?page = "\<lambda>i. with_fields q [(''size'', Q_int 50), (''page'', Q_int (int i + 1))]"
  obtain d where first: "list_farms uri fetch (with_fields q [(''size'', Q_int 50), (''page'', Q_int 1), (''retCount'', Q_bool True)])
      = Inr \<lparr>pa_count = Some (int (length farms)), pa_data = d\<rparr>"
    using assms list_farms_at unfolding pages_farms_def by blast
  let ?n = "page_count (Some (int (length farms)))"
  have "\<exists>p. list_farms uri fetch (?page i) = Inr p \<and> pa_data p = take 50 (drop (50 * i) farms)" if lt: "i < ?n" for i
  proof -
    obtain url c where "farms_request uri (?page i) = Inr url" and
      "fetch url = Inr \<lparr>gr_count = c, gr_json = Inr (take 50 (drop (50 * i) farms))\<rparr>"
      using assms page_count_enough(2) [OF lt] unfolding pages_farms_def by blast
    then show ?thesis by (simp add: list_farms_at)
  qed
  then have "\<forall>i. \<exists>p. i < ?n \<longrightarrow> list_farms uri fetch (?page i) = Inr p \<and> pa_data p = take 50 (drop (50 * i) farms)"
    by blast
  then have "\<exists>g. \<forall>i. i < ?n \<longrightarrow> list_farms uri fetch (?page i) = Inr (g i) \<and> pa_data (g i) = take 50 (drop (50 * i) farms)"
    by (rule choice)
  then obtain g where g: "\<And>i. i < ?n \<Longrightarrow> list_farms uri fetch (?page i) = Inr (g i) \<and> pa_data (g i) = take 50 (drop (50 * i) farms)"
    by blast
  have "mapR (\<lambda>i. list_farms uri fetch (?page i)) [0..<?n] = Inr (map g [0..<?n])"
    using g by (intro mapR_all) simp
  moreover have "concat (map pa_data (map g [0..<?n])) = concat (map (\<lambda>i. take 50 (drop (50 * i) farms)) [0..<?n])"
    using g by (intro arg_cong [where f = concat]) simp
  ultimately show ?thesis
    using page_count_enough(1) [of "length farms"] by (simp add: list_all_farms_def first concat_pages)
qed

subsection \<open>Farms of nodes\<close>






















subsection \<open>A small proxy\<close>

text \<open>Two farms, the second with two of its three addresses in use, and two nodes of it.\<close>

definition demo_farm :: "int \<Rightarrow> int list \<Rightarrow> proxy_farm" where
  "demo_farm i ips = \<lparr>pf_farmId = i, pf_name = ''farm'', pf_ip_contracts = ips\<rparr>"

definition demo_farms_fetch :: "proxy_farm list proxy_fetch" where
  "demo_farms_fetch url =
     (if url = ''u/farms?size=50&page=1&ret_count=true'' then Inr \<lparr>gr_count = Some 2, gr_json = Inr [demo_farm 1 [], demo_farm 2 [0, 5, 6]]\<rparr>
      else if url = ''u/farms?size=50&page=1'' then Inr \<lparr>gr_count = None, gr_json = Inr [demo_farm 1 [], demo_farm 2 [0, 5, 6]]\<rparr>
      else if url = ''u/farms?farm_id=2'' then Inr \<lparr>gr_count = None, gr_json = Inr [demo_farm 2 [0, 5, 6]]\<rparr>
      else Inl TypeError)"


theorem request_accepted_witness:
  "demo_farms_fetch ''u/farms?farm_id=2'' = Inr \<lparr>gr_count = None, gr_json = Inr [demo_farm 2 [0, 5, 6]]\<rparr>
   \<and> accepted FARMS (''farmId'', Q_int 2)"
proof -
  have "client_list FARMS (CHR ''/'' # ''farms'') ''u'' demo_farms_fetch [(''farmId'', Q_int 2), (''name'', Q_str [])]
      = Inr \<lparr>pa_count = None, pa_data = [demo_farm 2 [0, 5, 6]]\<rparr>"
    by code_simp
  from request_accepted [OF this] show ?thesis by (simp add: blank_def demo_farms_fetch_def)
qed

theorem all_farms_listed_witness:
  "list_all_farms ''u'' demo_farms_fetch [] = Inr [demo_farm 1 [], demo_farm 2 [0, 5, 6]]"
proof -
  have "pages_farms ''u'' demo_farms_fetch [] [demo_farm 1 [], demo_farm 2 [0, 5, 6]]"
    unfolding pages_farms_def
  proof (intro conjI allI impI)
    show "\<exists>url d. farms_request ''u'' (with_fields [] [(''size'', Q_int 50), (''page'', Q_int 1), (''retCount'', Q_bool True)]) = Inr url
        \<and> demo_farms_fetch url = Inr \<lparr>gr_count = Some (int (length [demo_farm 1 [], demo_farm 2 [0, 5, 6]])), gr_json = Inr d\<rparr>"
      by (rule exI [of _ "''u/farms?size=50&page=1&ret_count=true''"], rule exI [of _ "[demo_farm 1 [], demo_farm 2 [0, 5, 6]]"])
        code_simp
    show "\<exists>url c. farms_request ''u'' (with_fields [] [(''size'', Q_int 50), (''page'', Q_int (int i + 1))]) = Inr url
        \<and> demo_farms_fetch url = Inr \<lparr>gr_count = c, gr_json = Inr (take 50 (drop (50 * i) [demo_farm 1 [], demo_farm 2 [0, 5, 6]]))\<rparr>"
      if "50 * i < length [demo_farm 1 [], demo_farm 2 [0, 5, 6]]" for i
    proof -
      have "i = 0" using that by simp
      then show ?thesis
        by (simp only:) (rule exI [of _ "''u/farms?size=50&page=1''"], rule exI [of _ None], code_simp)
    qed
  qed
  then show ?thesis by (rule all_farms_listed)
qed





end
