(* ===== verification/Wallets.thy ===== *)
theory Wallets
  imports Storage
begin

text \<open>
  The wallets of the other chains (\<open>grid_client/src/modules/tfchain.ts\<close>, \<open>stellar.ts\<close>,
  \<open>algorand.ts\<close>), each a file of secrets by name in the storage, and \<open>blockchain.ts\<close>, which selects
  one account among them.  The extrinsics that an update of the storage gives are applied with it
  (\<open>saveIfKVStoreBackend\<close>).
\<close>

subsection \<open>The outside\<close>

datatype blockchainType = BT_algorand | BT_stellar | BT_tfchain

text \<open>
  The state of the outside world with the storage in it, what storing a value gives and applying it
  does; what the packages make of a secret; the chain client of a secret and what an extrinsic does
  with it; requests.
\<close>

record stellar_balance =
  sb_code :: string
  sb_issuer :: string
  sb_amount :: string

record 'w wallet_env =
  we_parse :: "string \<Rightarrow> js_error + json"
  we_read :: "'w \<Rightarrow> string \<Rightarrow> js_error + string"
  we_set :: "string \<Rightarrow> string \<Rightarrow> 'w \<Rightarrow> (js_error + extrinsic list option) \<times> 'w"
  we_tfkvstore :: bool
  we_connect :: "'w \<Rightarrow> (js_error + unit) \<times> 'w"
  we_applyAll :: "extrinsic list \<Rightarrow> 'w \<Rightarrow> (js_error + unit) \<times> 'w"
  we_path :: "string \<Rightarrow> string"
  we_now :: "'w \<Rightarrow> int"
  we_sleep :: "'w \<Rightarrow> 'w"
  we_pallets :: "'w \<Rightarrow> string \<Rightarrow> js_error + pallet_env"
  we_mnemonic :: string
  we_apply :: "string \<Rightarrow> extrinsic \<Rightarrow> 'w \<Rightarrow> (js_error + chain_result) \<times> 'w"
  we_twin_id :: "chain_result \<Rightarrow> int"
  we_new_mnemonic :: "'w \<Rightarrow> string"
  we_activate :: "string \<Rightarrow> 'w \<Rightarrow> (js_error + unit) \<times> 'w"
  we_document_hash :: "string \<Rightarrow> 'w \<Rightarrow> js_error + string"
  we_tf_sign :: "string \<Rightarrow> string \<Rightarrow> js_error + string"
  we_st_public :: "string \<Rightarrow> js_error + string"
  we_st_random :: "'w \<Rightarrow> string \<times> string"
  we_st_fund :: "string \<Rightarrow> 'w \<Rightarrow> (js_error + unit) \<times> 'w"
  we_st_account :: "'w \<Rightarrow> string \<Rightarrow> js_error + stellar_balance list"
  we_st_sign :: "string \<Rightarrow> string \<Rightarrow> js_error + string"
  we_st_verify :: "string \<Rightarrow> string \<Rightarrow> string \<Rightarrow> js_error + bool"
  we_st_payment :: "string \<Rightarrow> string \<times> string \<Rightarrow> string \<Rightarrow> rat \<Rightarrow> string \<Rightarrow> 'w \<Rightarrow> js_error + string"
  we_st_submit :: "string \<Rightarrow> 'w \<Rightarrow> (js_error + string) \<times> 'w"
  we_al_address :: "string \<Rightarrow> js_error + string"
  we_al_random :: "'w \<Rightarrow> string \<times> string"
  we_al_assets :: "'w \<Rightarrow> string \<Rightarrow> js_error + (string \<times> string) list"
  we_al_params :: "'w \<Rightarrow> js_error + string"
  we_al_payment :: "string \<Rightarrow> string \<Rightarrow> string \<Rightarrow> rat \<Rightarrow> string \<Rightarrow> js_error + string"
  we_response_message :: "js_error \<Rightarrow> string option"
  we_al_signTransaction :: "string \<Rightarrow> string \<Rightarrow> js_error + string"
  we_al_submit :: "string \<Rightarrow> 'w \<Rightarrow> (js_error + string) \<times> 'w"
  we_al_signBytes :: "string \<Rightarrow> string \<Rightarrow> js_error + string"
  we_hex_bytes :: "string \<Rightarrow> string"

type_synonym ('w, 'r) wallet_eff = "('w, js_error, 'r) eff"

text \<open>Reading the world, and a request that may change it.\<close>

definition askW :: "('w \<Rightarrow> js_error + 'a) \<Rightarrow> ('w, 'a) wallet_eff" where
  "askW f = (\<lambda>w. (f w, w))"

subsection \<open>Properties of stored values\<close>

text \<open>\<open>data[name]\<close> for what \<open>JSON.parse\<close> gives; \<open>None\<close> is \<open>undefined\<close>.\<close>

definition json_prop :: "string \<Rightarrow> json \<Rightarrow> json option" where
  "json_prop name v = (case v of
     J_obj ps \<Rightarrow> map_of ps name
   | J_arr xs \<Rightarrow> if name = ''length'' then Some (J_num (int (length xs)))
       else if array_index name \<and> read_nat name < length xs then Some (xs ! read_nat name) else None
   | J_str s \<Rightarrow> if name = ''length'' then Some (J_num (int (length s)))
       else if array_index name \<and> read_nat name < length s then Some (J_str [s ! read_nat name]) else None
   | _ \<Rightarrow> None)"

definition json_keys :: "json \<Rightarrow> string list" where
  "json_keys v = (case v of
     J_obj ps \<Rightarrow> obj_keys ps | J_arr xs \<Rightarrow> map show_nat [0..<length xs] | J_str s \<Rightarrow> map show_nat [0..<length s] | _ \<Rightarrow> [])"

text \<open>A value that is there and truthy; a secret that is no text makes the packages throw.\<close>

definition stored :: "string \<Rightarrow> json \<Rightarrow> json option" where
  "stored name v = (case json_prop name v of None \<Rightarrow> None | Some x \<Rightarrow> if falsy x then None else Some x)"

definition secret_text :: "json \<Rightarrow> js_error + string" where
  "secret_text v = (case v of J_str s \<Rightarrow> Inr s | _ \<Rightarrow> Inl TypeError)"

definition load_wallets :: "'w wallet_env \<Rightarrow> string \<Rightarrow> ('w, json) wallet_eff" where
  "load_wallets e file = bindE (askW (\<lambda>w. backend_load (we_parse e) (we_read e) w (we_path e file))) (\<lambda>v.
     retE (if falsy v then J_obj [] else v))"

text \<open>What a store on the chain has to submit; nothing is left to do for the other stores.\<close>

definition saveIfKVStoreBackend :: "'w wallet_env \<Rightarrow> extrinsic list option \<Rightarrow> ('w, unit) wallet_eff" where
  "saveIfKVStoreBackend e extrinsics = (case extrinsics of
     Some xs \<Rightarrow> if we_tfkvstore e \<and> xs \<noteq> [] then bindE (we_connect e) (\<lambda>_. we_applyAll e xs) else retE ()
   | None \<Rightarrow> retE ())"

definition update_wallets ::
  "'w wallet_env \<Rightarrow> string \<Rightarrow> string \<Rightarrow> string \<Rightarrow> StorageUpdateAction \<Rightarrow> ('w, unit) wallet_eff"
where
  "update_wallets e file name secret action =
     bindE (askW (\<lambda>w. backend_load (we_parse e) (we_read e) w (we_path e file))) (\<lambda>v0.
       bindE (liftE (updated_json v0 name (J_str secret) action)) (\<lambda>v.
         bindE (we_set e (we_path e file) (stringify v)) (saveIfKVStoreBackend e)))"

definition save_wallet :: "'w wallet_env \<Rightarrow> string \<Rightarrow> string \<Rightarrow> string \<Rightarrow> string \<Rightarrow> ('w, unit) wallet_eff" where
  "save_wallet e file what name secret = bindE (load_wallets e file) (\<lambda>v.
     if stored name v \<noteq> None
     then throwE (ValidationError (what @ '' with the same name '' @ name @ '' already exists.''))
     else update_wallets e file name secret SU_add)"

definition wallet_secret :: "'w wallet_env \<Rightarrow> string \<Rightarrow> string \<Rightarrow> string \<Rightarrow> ('w, string) wallet_eff" where
  "wallet_secret e file missing name = bindE (load_wallets e file) (\<lambda>v. case stored name v of
     None \<Rightarrow> throwE (ValidationError missing) | Some x \<Rightarrow> liftE (secret_text x))"

text \<open>The account a module tells of.\<close>

record account =
  ac_name :: string
  ac_public :: string
  ac_secret :: string
  ac_type :: blockchainType

record listed_account =
  la_name :: string
  la_public :: string
  la_type :: blockchainType

definition couldnt_find :: "string \<Rightarrow> string" where
  "couldnt_find what = ''Couldn'' @ apos # ''t find '' @ what"

text \<open>\<open>new RequestError(message, e.response?.status)\<close>: the status of the error of a request.\<close>

definition as_request_error :: "string \<Rightarrow> js_error \<Rightarrow> js_error" where
  "as_request_error message err = (generic_error G_RequestError ''RequestError'' message)\<lparr>err_status := err_status err\<rparr>"

subsection \<open>TFChain\<close>

definition tf_file :: string where "tf_file = ''tfchain.json''"

text \<open>A new client of a secret, connected: its queries, and the address in them.\<close>

definition tf_client :: "'w wallet_env \<Rightarrow> string \<Rightarrow> ('w, pallet_env) wallet_eff" where
  "tf_client e secret = askW (\<lambda>w. bindR (we_pallets e w secret) (\<lambda>p. bindR (q_connect p) (\<lambda>_. Inr p)))"

definition tf_save :: "'w wallet_env \<Rightarrow> string \<Rightarrow> string \<Rightarrow> ('w, unit) wallet_eff" where
  "tf_save e = save_wallet e tf_file ''An account''"

definition tf_init :: "'w wallet_env \<Rightarrow> string \<Rightarrow> string \<Rightarrow> ('w, string) wallet_eff" where
  "tf_init e name secret = bindE (tf_client e secret) (\<lambda>p. bindE (tf_save e name secret) (\<lambda>_. retE (q_address p)))"

definition tf_getMnemonics :: "'w wallet_env \<Rightarrow> string \<Rightarrow> ('w, string) wallet_eff" where
  "tf_getMnemonics e name = wallet_secret e tf_file (''An account with the name '' @ name @ '' does not exist.'') name"

definition tf_get :: "'w wallet_env \<Rightarrow> string \<Rightarrow> ('w, account) wallet_eff" where
  "tf_get e name = bindE (tf_getMnemonics e name) (\<lambda>m. bindE (tf_client e m) (\<lambda>p.
     retE \<lparr>ac_name = name, ac_public = q_address p, ac_secret = m, ac_type = BT_tfchain\<rparr>))"

definition tf_list :: "'w wallet_env \<Rightarrow> ('w, listed_account list) wallet_eff" where
  "tf_list e = bindE (load_wallets e tf_file) (\<lambda>v. mapE (\<lambda>name.
     bindE (tf_getMnemonics e name) (\<lambda>m. bindE (tf_client e m) (\<lambda>p.
       retE \<lparr>la_name = name, la_public = q_address p, la_type = BT_tfchain\<rparr>))) (json_keys v))"

definition tf_exist :: "'w wallet_env \<Rightarrow> string \<Rightarrow> ('w, bool) wallet_eff" where
  "tf_exist e name = bindE (tf_list e) (\<lambda>as. retE (\<exists>a \<in> set as. la_name a = name))"

definition tf_must_exist :: "'w wallet_env \<Rightarrow> string \<Rightarrow> ('w, unit) wallet_eff" where
  "tf_must_exist e name = bindE (tf_exist e name) (\<lambda>there.
     if there then retE () else throwE (ValidationError (couldnt_find (''an account with name '' @ name @ ''.''))))"

text \<open>What is not an error of the SDK becomes an error of the chain.\<close>

definition tf_rethrow :: "string \<Rightarrow> js_error \<Rightarrow> ('w, 'r) wallet_eff" where
  "tf_rethrow msg err = throwE (if is_base_error err then with_prefix msg err
     else TFChainError_msg (msg @ '': '' @ error_to_string err))"

definition tf_update :: "'w wallet_env \<Rightarrow> string \<Rightarrow> string \<Rightarrow> ('w, string) wallet_eff" where
  "tf_update e name secret = bindE (tf_must_exist e name) (\<lambda>_. bindE (tf_client e secret) (\<lambda>p.
     bindE (catchE (update_wallets e tf_file name secret SU_add) (tf_rethrow ''Could not update account mnemonics''))
       (\<lambda>_. retE (q_address p))))"

definition tf_assets :: "'w wallet_env \<Rightarrow> string \<Rightarrow> ('w, string \<times> (rat \<times> string) list) wallet_eff" where
  "tf_assets e name = bindE (tf_must_exist e name) (\<lambda>_. bindE (tf_getMnemonics e name) (\<lambda>m.
     bindE (tf_client e m) (\<lambda>p. bindE (liftE (tf_balance_get p (q_address p))) (\<lambda>b.
       retE (q_address p, [(ba_free b, ''TFT'')])))))"

definition tf_balanceByAddress :: "'w wallet_env \<Rightarrow> string \<Rightarrow> ('w, Balance) wallet_eff" where
  "tf_balanceByAddress e address = bindE (tf_client e (we_mnemonic e)) (\<lambda>p. liftE (tf_balance_get p address))"

definition tf_apply :: "'w wallet_env \<Rightarrow> string \<Rightarrow> js_error + extrinsic \<Rightarrow> ('w, chain_result) wallet_eff" where
  "tf_apply e secret x = bindE (liftE x) (we_apply e secret)"

definition tf_pay :: "'w wallet_env \<Rightarrow> string \<Rightarrow> string \<Rightarrow> rat \<Rightarrow> ('w, unit) wallet_eff" where
  "tf_pay e name address amount = bindE (tf_getMnemonics e name) (\<lambda>m. bindE (tf_client e m) (\<lambda>p.
     bindE (catchE (tf_apply e m (tf_transfer p address amount)) (tf_rethrow ''Could not complete transfer transaction''))
       (\<lambda>_. retE ())))"

definition tf_vote :: "'w wallet_env \<Rightarrow> string \<Rightarrow> int \<Rightarrow> string \<Rightarrow> bool \<Rightarrow> ('w, unit) wallet_eff" where
  "tf_vote e name farmId hash approve = bindE (tf_getMnemonics e name) (\<lambda>m. bindE (tf_client e m) (\<lambda>p.
     bindE (catchE (tf_apply e m (dao_vote p farmId hash approve)) (tf_rethrow ''Could not complete transfer transaction''))
       (\<lambda>_. retE ())))"

definition tf_delete :: "'w wallet_env \<Rightarrow> string \<Rightarrow> ('w, string) wallet_eff" where
  "tf_delete e name = bindE (tf_must_exist e name) (\<lambda>_. bindE (update_wallets e tf_file name [] SU_delete) (\<lambda>_. retE ''Deleted''))"

text \<open>
  Waiting for the first tokens: the loop of at most ten seconds with its second of sleep; \<open>b\<close> is the
  balance seen last.  With fuel: \<open>None\<close> when it is out.
\<close>

fun await_funds :: "nat \<Rightarrow> 'w wallet_env \<Rightarrow> string \<Rightarrow> int \<Rightarrow> rat \<Rightarrow> ('w, rat option) wallet_eff" where
  "await_funds 0 e secret start b = retE None"
| "await_funds (Suc n) e secret start b = bindE (getE (we_now e)) (\<lambda>now.
     if now < start + 10 * 1000
     then bindE (tf_client e secret) (\<lambda>p. bindE (liftE (tf_balance_get p (q_address p))) (\<lambda>balance.
            if 0 < ba_free balance then retE (Some (ba_free balance))
            else bindE (modifyE (we_sleep e)) (\<lambda>_. await_funds n e secret start (ba_free balance))))
     else retE (Some b))"

definition library_link :: string where
  "library_link = ''https://library.threefold.me/info/legal/#/''"

definition activateAccountAndCreateTwin :: "nat \<Rightarrow> 'w wallet_env \<Rightarrow> string \<Rightarrow> string \<Rightarrow> ('w, string \<times> string \<times> int) wallet_eff" where
  "activateAccountAndCreateTwin fuel e mnemonic relay = bindE (tf_client e mnemonic) (\<lambda>p.
     bindE (we_activate e (q_address p)) (\<lambda>_. bindE (getE (we_now e)) (\<lambda>start.
       bindE (askW (\<lambda>w. bindR (we_pallets e w mnemonic) (\<lambda>p. tf_balance_get p (q_address p)))) (\<lambda>first.
         bindE (await_funds fuel e mnemonic start (ba_free first)) (\<lambda>funds. case funds of
             None \<Rightarrow> throwE diverges
           | Some b \<Rightarrow>
               if b \<le> 0 then throwE (TFChainError_msg (''Couldn'' @ apos # ''t activate the newly created account.''))
               else bindE (askW (we_document_hash e library_link)) (\<lambda>hash.
                 bindE (tf_apply e mnemonic (terms_accept p library_link hash)) (\<lambda>_.
                   bindE (tf_apply e mnemonic (tf_twin_create p relay)) (\<lambda>r.
                     retE (q_address p, mnemonic, we_twin_id e r)))))))))"

definition tf_create :: "nat \<Rightarrow> 'w wallet_env \<Rightarrow> string \<Rightarrow> string \<Rightarrow> ('w, account \<times> int) wallet_eff" where
  "tf_create fuel e name relay = bindE (tf_exist e name) (\<lambda>there.
     if there then throwE (ValidationError (''An account with the same name '' @ name @ '' already exists.''))
     else bindE (getE (we_new_mnemonic e)) (\<lambda>mnemonic.
       bindE (activateAccountAndCreateTwin fuel e mnemonic relay) (\<lambda>(public, m, twinId).
         bindE (tf_init e name m) (\<lambda>_.
           retE (\<lparr>ac_name = name, ac_public = public, ac_secret = m, ac_type = BT_tfchain\<rparr>, twinId)))))"

definition tf_sign :: "'w wallet_env \<Rightarrow> string \<Rightarrow> string \<Rightarrow> ('w, string) wallet_eff" where
  "tf_sign e name content = bindE (tf_getMnemonics e name) (\<lambda>m. liftE (we_tf_sign e m content))"

subsection \<open>Stellar\<close>

definition st_file :: string where "st_file = ''stellar.json''"

definition st_save :: "'w wallet_env \<Rightarrow> string \<Rightarrow> string \<Rightarrow> ('w, unit) wallet_eff" where
  "st_save e = save_wallet e st_file ''A wallet''"

definition st_getWalletSecret :: "'w wallet_env \<Rightarrow> string \<Rightarrow> ('w, string) wallet_eff" where
  "st_getWalletSecret e name = wallet_secret e st_file (couldnt_find (''a wallet with name '' @ name @ ''.'')) name"

text \<open>The entries of the file: an entry that is no secret of the chain ends the list with an error.\<close>

definition st_list :: "'w wallet_env \<Rightarrow> ('w, listed_account list) wallet_eff" where
  "st_list e = bindE (load_wallets e st_file) (\<lambda>v. liftE (mapR (\<lambda>name.
     bindR (case json_prop name v of None \<Rightarrow> Inl TypeError | Some x \<Rightarrow> secret_text x) (\<lambda>s. bindR (we_st_public e s) (\<lambda>pk.
       Inr \<lparr>la_name = name, la_public = pk, la_type = BT_stellar\<rparr>))) (json_keys v)))"

definition st_exist :: "'w wallet_env \<Rightarrow> string \<Rightarrow> ('w, bool) wallet_eff" where
  "st_exist e name = bindE (st_list e) (\<lambda>as. retE (\<exists>a \<in> set as. la_name a = name))"

definition st_create :: "'w wallet_env \<Rightarrow> string \<Rightarrow> ('w, account) wallet_eff" where
  "st_create e name = bindE (st_exist e name) (\<lambda>there.
     if there then throwE (ValidationError (''Name '' @ name @ '' already exists''))
     else bindE (getE (we_st_random e)) (\<lambda>(public, secret).
       bindE (catchE (we_st_fund e public)
                (\<lambda>err. throwE (as_request_error (''An error happened while creating your account. '' @ error_to_string err) err))) (\<lambda>_.
         bindE (st_save e name secret) (\<lambda>_.
           retE \<lparr>ac_name = name, ac_public = public, ac_secret = secret, ac_type = BT_stellar\<rparr>))))"

definition st_sign :: "'w wallet_env \<Rightarrow> string \<Rightarrow> string \<Rightarrow> ('w, string) wallet_eff" where
  "st_sign e name content = bindE (st_getWalletSecret e name) (\<lambda>s. liftE (we_st_sign e s content))"

definition st_verify :: "'w wallet_env \<Rightarrow> string \<Rightarrow> string \<Rightarrow> string \<Rightarrow> js_error + bool" where
  "st_verify e public content sig = we_st_verify e public content sig"

definition st_init :: "'w wallet_env \<Rightarrow> string \<Rightarrow> string \<Rightarrow> ('w, string) wallet_eff" where
  "st_init e name secret = bindE (liftE (we_st_public e secret)) (\<lambda>pk.
     bindE (askW (\<lambda>w. we_st_account e w pk)) (\<lambda>_. bindE (st_save e name secret) (\<lambda>_. retE pk)))"

definition st_get :: "'w wallet_env \<Rightarrow> string \<Rightarrow> ('w, account) wallet_eff" where
  "st_get e name = bindE (st_getWalletSecret e name) (\<lambda>s. bindE (liftE (we_st_public e s)) (\<lambda>pk.
     retE \<lparr>ac_name = name, ac_public = pk, ac_secret = s, ac_type = BT_stellar\<rparr>))"

definition st_delete :: "'w wallet_env \<Rightarrow> string \<Rightarrow> ('w, string) wallet_eff" where
  "st_delete e name = bindE (load_wallets e st_file) (\<lambda>v.
     if stored name v = None then throwE (ValidationError (couldnt_find (''a wallet with name '' @ name @ ''.'')))
     else bindE (update_wallets e st_file name [] SU_delete) (\<lambda>_. retE ''Deleted''))"

text \<open>The old wallet is deleted first and put back when the new secret is refused.\<close>

definition st_update :: "'w wallet_env \<Rightarrow> string \<Rightarrow> string \<Rightarrow> ('w, string) wallet_eff" where
  "st_update e name secret = bindE (st_exist e name) (\<lambda>there.
     if \<not> there then throwE (ValidationError (couldnt_find (''a wallet with name '' @ name @ '' to update.'')))
     else bindE (st_getWalletSecret e name) (\<lambda>old. bindE (st_delete e name) (\<lambda>_.
       catchE (st_init e name secret) (\<lambda>err. bindE (st_init e name old) (\<lambda>_.
         throwE (GridClientError (''Couldn'' @ apos # ''t import wallet with the secret '' @ secret @ '' due to: ''
           @ error_to_string err)))))))"

definition balance_by_address :: "'w wallet_env \<Rightarrow> string \<Rightarrow> ('w, (string \<times> string) list) wallet_eff" where
  "balance_by_address e address = bindE (askW (\<lambda>w. we_st_account e w address)) (\<lambda>bs.
     retE (map (\<lambda>b. (if sb_code b = [] then ''XLM'' else sb_code b, sb_amount b)) bs))"

definition st_assets :: "'w wallet_env \<Rightarrow> string \<Rightarrow> ('w, string \<times> (string \<times> string) list) wallet_eff" where
  "st_assets e name = bindE (st_getWalletSecret e name) (\<lambda>s. bindE (liftE (we_st_public e s)) (\<lambda>pk.
     bindE (balance_by_address e pk) (\<lambda>bs. retE (pk, bs))))"

text \<open>The issuer of an asset is that of the last balance in it; the native asset has none.\<close>

definition asset_issuer :: "string \<Rightarrow> stellar_balance list \<Rightarrow> js_error + string \<times> string" where
  "asset_issuer asset bs =
     (if asset = ''XLM'' then Inr (asset, [])
      else (let issuers = map sb_issuer (filter (\<lambda>b. sb_code b = asset) bs)
            in if issuers = [] \<or> last issuers = []
               then Inl (ValidationError (''couldn'' @ apos # ''t find this asset '' @ asset @ '' on source wallet.''))
               else Inr (asset, last issuers)))"

definition st_pay :: "'w wallet_env \<Rightarrow> string \<Rightarrow> string \<Rightarrow> rat \<Rightarrow> string \<Rightarrow> string \<Rightarrow> ('w, string) wallet_eff" where
  "st_pay e name dest amount asset description = bindE (st_getWalletSecret e name) (\<lambda>s. bindE (liftE (we_st_public e s)) (\<lambda>pk.
     bindE (askW (\<lambda>w. we_st_account e w pk)) (\<lambda>bs. bindE (liftE (asset_issuer asset bs)) (\<lambda>a.
       bindE (askW (we_st_payment e s a dest amount description)) (\<lambda>txn.
         catchE (we_st_submit e txn) (\<lambda>err. throwE (GridClientError (''An error has occurred: '' @ error_to_string err))))))))"

subsection \<open>Algorand\<close>

definition al_file :: string where "al_file = ''algorand.json''"

definition al_save :: "'w wallet_env \<Rightarrow> string \<Rightarrow> string \<Rightarrow> ('w, unit) wallet_eff" where
  "al_save e = save_wallet e al_file ''A wallet''"

definition al_list :: "'w wallet_env \<Rightarrow> ('w, listed_account list) wallet_eff" where
  "al_list e = bindE (load_wallets e al_file) (\<lambda>v. liftE (mapR (\<lambda>name.
     bindR (case json_prop name v of None \<Rightarrow> Inl TypeError | Some x \<Rightarrow> secret_text x) (\<lambda>s. bindR (we_al_address e s) (\<lambda>a.
       Inr \<lparr>la_name = name, la_public = a, la_type = BT_algorand\<rparr>))) (json_keys v)))"

definition al_exist :: "'w wallet_env \<Rightarrow> string \<Rightarrow> ('w, bool) wallet_eff" where
  "al_exist e name = bindE (al_list e) (\<lambda>as. retE (\<exists>a \<in> set as. la_name a = name))"

definition al_delete :: "'w wallet_env \<Rightarrow> string \<Rightarrow> ('w, string) wallet_eff" where
  "al_delete e name = bindE (load_wallets e al_file) (\<lambda>v.
     if stored name v = None then throwE (ValidationError (couldnt_find (''a wallet with name '' @ name @ ''.'')))
     else bindE (update_wallets e al_file name [] SU_delete) (\<lambda>_. retE ''Deleted''))"

definition al_create :: "'w wallet_env \<Rightarrow> string \<Rightarrow> ('w, account) wallet_eff" where
  "al_create e name = bindE (al_exist e name) (\<lambda>there.
     if there then throwE (ValidationError (''Name '' @ name @ '' already exists.''))
     else bindE (getE (we_al_random e)) (\<lambda>(public, mnemonic). bindE (al_save e name mnemonic) (\<lambda>_.
       retE \<lparr>ac_name = name, ac_public = public, ac_secret = mnemonic, ac_type = BT_algorand\<rparr>)))"

definition al_init :: "'w wallet_env \<Rightarrow> string \<Rightarrow> string \<Rightarrow> ('w, string) wallet_eff" where
  "al_init e name secret = bindE (liftE (we_al_address e secret)) (\<lambda>a. bindE (al_save e name secret) (\<lambda>_. retE a))"

definition al_get :: "'w wallet_env \<Rightarrow> string \<Rightarrow> ('w, account) wallet_eff" where
  "al_get e name = bindE (wallet_secret e al_file (couldnt_find (''a wallet with name '' @ name @ ''.'')) name) (\<lambda>s.
     bindE (liftE (we_al_address e s)) (\<lambda>a.
       retE \<lparr>ac_name = name, ac_public = a, ac_secret = s, ac_type = BT_algorand\<rparr>))"

definition al_assets :: "'w wallet_env \<Rightarrow> string \<Rightarrow> ('w, string \<times> (string \<times> string) list) wallet_eff" where
  "al_assets e name = bindE (al_get e name) (\<lambda>a. bindE (liftE (we_al_address e (ac_secret a))) (\<lambda>addr.
     bindE (askW (\<lambda>w. we_al_assets e w addr)) (\<lambda>assets. retE (addr, assets))))"

text \<open>The message is signed, but what is given back is the message itself in hexadecimal.\<close>

definition al_sign :: "'w wallet_env \<Rightarrow> string \<Rightarrow> string \<Rightarrow> ('w, string) wallet_eff" where
  "al_sign e name content = bindE (al_get e name) (\<lambda>a. bindE (liftE (we_al_address e (ac_secret a))) (\<lambda>_.
     bindE (liftE (we_al_signBytes e (ac_secret a) content)) (\<lambda>_. retE (we_hex_bytes e content))))"

definition al_createTransaction :: "'w wallet_env \<Rightarrow> string \<Rightarrow> string \<Rightarrow> rat \<Rightarrow> string \<Rightarrow> ('w, string) wallet_eff" where
  "al_createTransaction e name dest amount description = bindE (askW (we_al_params e)) (\<lambda>params.
     bindE (al_get e name) (\<lambda>a. liftE (we_al_payment e params (ac_secret a) dest amount description)))"

definition al_sign_txn :: "'w wallet_env \<Rightarrow> string \<Rightarrow> string \<Rightarrow> ('w, string) wallet_eff" where
  "al_sign_txn e name txn = bindE (al_get e name) (\<lambda>a. liftE (we_al_signTransaction e (ac_secret a) txn))"

text \<open>The error of the submission is that of its response; without one, reading it is a \<open>TypeError\<close>.\<close>

definition al_pay :: "'w wallet_env \<Rightarrow> string \<Rightarrow> string \<Rightarrow> rat \<Rightarrow> string \<Rightarrow> ('w, string) wallet_eff" where
  "al_pay e name dest amount description = bindE (al_createTransaction e name dest amount description) (\<lambda>txn.
     bindE (al_sign_txn e name txn) (\<lambda>blob.
       catchE (we_al_submit e blob) (\<lambda>err. throwE (case we_response_message e err of
           None \<Rightarrow> TypeError | Some message \<Rightarrow> as_request_error message err))))"

subsection \<open>One account of any chain\<close>

text \<open>The client of all chains: the account that is selected, by its name and chain.\<close>

record 'w blockchain =
  bc_world :: 'w
  bc_account :: string
  bc_type :: "blockchainType option"

type_synonym ('w, 'r) blockchain_eff = "('w blockchain, js_error, 'r) eff"

definition on_world :: "('w, 'r) wallet_eff \<Rightarrow> ('w, 'r) blockchain_eff" where
  "on_world m = (\<lambda>b. case m (bc_world b) of (r, w) \<Rightarrow> (r, b\<lparr>bc_world := w\<rparr>))"

definition exist_in :: "'w wallet_env \<Rightarrow> string \<Rightarrow> ('w, blockchainType option) wallet_eff" where
  "exist_in e name = bindE (st_exist e name) (\<lambda>s. if s then retE (Some BT_stellar)
     else bindE (al_exist e name) (\<lambda>a. if a then retE (Some BT_algorand)
       else bindE (tf_exist e name) (\<lambda>t. retE (if t then Some BT_tfchain else None))))"

definition any_exist :: "'w wallet_env \<Rightarrow> string \<Rightarrow> ('w, bool) wallet_eff" where
  "any_exist e name = bindE (st_exist e name) (\<lambda>s. if s then retE True
     else bindE (al_exist e name) (\<lambda>a. if a then retE True else tf_exist e name))"

definition bc_select :: "'w wallet_env \<Rightarrow> string \<Rightarrow> ('w, string) blockchain_eff" where
  "bc_select e name = bindE (on_world (any_exist e name)) (\<lambda>there.
     if \<not> there then throwE (ValidationError (''Account '' @ name @ '' doesn'' @ apos # ''t exist.''))
     else bindE (modifyE (\<lambda>b. b\<lparr>bc_account := name\<rparr>)) (\<lambda>_. bindE (on_world (exist_in e name)) (\<lambda>t.
       bindE (if t \<noteq> None then bindE (on_world (exist_in e name)) (\<lambda>t. modifyE (\<lambda>b. b\<lparr>bc_type := t\<rparr>)) else retE ())
         (\<lambda>_. getE bc_account))))"

definition chain_create :: "nat \<Rightarrow> 'w wallet_env \<Rightarrow> blockchainType \<Rightarrow> string \<Rightarrow> string \<Rightarrow> ('w, account) wallet_eff" where
  "chain_create fuel e t name relay = (case t of
     BT_stellar \<Rightarrow> st_create e name | BT_algorand \<Rightarrow> al_create e name
   | BT_tfchain \<Rightarrow> bindE (tf_create fuel e name relay) (\<lambda>(a, _). retE a))"

definition bc_create :: "nat \<Rightarrow> 'w wallet_env \<Rightarrow> blockchainType \<Rightarrow> string \<Rightarrow> string \<Rightarrow> ('w, account) blockchain_eff" where
  "bc_create fuel e t name relay = bindE (on_world (any_exist e name)) (\<lambda>there.
     if there then throwE (ValidationError (''Name '' @ name @ '' already exists.''))
     else on_world (chain_create fuel e t name relay))"

text \<open>What needs an account that is selected; without its chain \<open>this[undefined]\<close> is a \<open>TypeError\<close>.\<close>

definition with_account :: "(string \<Rightarrow> blockchainType \<Rightarrow> ('w, 'r) wallet_eff) \<Rightarrow> ('w, 'r) blockchain_eff" where
  "with_account f = bindE (getE (\<lambda>b. (bc_account b, bc_type b))) (\<lambda>(name, t).
     if name = [] then throwE (ValidationError ''No account is selected. Please select an account first.'')
     else (case t of None \<Rightarrow> throwE TypeError | Some t \<Rightarrow> on_world (f name t)))"

definition bc_sign :: "'w wallet_env \<Rightarrow> string \<Rightarrow> ('w, string) blockchain_eff" where
  "bc_sign e content = with_account (\<lambda>name t. case t of
     BT_stellar \<Rightarrow> st_sign e name content | BT_algorand \<Rightarrow> al_sign e name content | BT_tfchain \<Rightarrow> tf_sign e name content)"

definition bc_init :: "'w wallet_env \<Rightarrow> blockchainType \<Rightarrow> string \<Rightarrow> string \<Rightarrow> ('w, string) blockchain_eff" where
  "bc_init e t name secret = on_world (case t of
     BT_stellar \<Rightarrow> st_init e name secret | BT_algorand \<Rightarrow> al_init e name secret | BT_tfchain \<Rightarrow> tf_init e name secret)"

definition chain_get :: "'w wallet_env \<Rightarrow> string \<Rightarrow> blockchainType \<Rightarrow> ('w, account) wallet_eff" where
  "chain_get e name t = (case t of BT_stellar \<Rightarrow> st_get e name | BT_algorand \<Rightarrow> al_get e name | BT_tfchain \<Rightarrow> tf_get e name)"

definition bc_get :: "'w wallet_env \<Rightarrow> ('w, account) blockchain_eff" where
  "bc_get e = with_account (chain_get e)"

definition bc_list :: "'w wallet_env \<Rightarrow> blockchainType option \<Rightarrow> ('w, listed_account list) blockchain_eff" where
  "bc_list e t = on_world (case t of
     Some BT_stellar \<Rightarrow> st_list e | Some BT_algorand \<Rightarrow> al_list e | Some BT_tfchain \<Rightarrow> tf_list e
   | None \<Rightarrow> bindE (st_list e) (\<lambda>s. bindE (al_list e) (\<lambda>a. bindE (tf_list e) (\<lambda>t. retE (s @ a @ t)))))"

text \<open>Amounts as text: those of the chain of tokens are numbers, shown by \<open>show_amount\<close>.\<close>

definition bc_assets ::
  "'w wallet_env \<Rightarrow> (rat \<Rightarrow> string) \<Rightarrow> ('w, string \<times> (string \<times> string) list) blockchain_eff"
where
  "bc_assets e show_amount = with_account (\<lambda>name t. case t of
     BT_stellar \<Rightarrow> st_assets e name | BT_algorand \<Rightarrow> al_assets e name
   | BT_tfchain \<Rightarrow> bindE (tf_assets e name) (\<lambda>(pk, as). retE (pk, map (\<lambda>(n, a). (a, show_amount n)) as)))"

definition bc_pay ::
  "'w wallet_env \<Rightarrow> blockchainType \<Rightarrow> string \<Rightarrow> rat \<Rightarrow> string \<Rightarrow> string \<Rightarrow> ('w, string) blockchain_eff"
where
  "bc_pay e dest_type dest amount asset description = bindE (getE (\<lambda>b. (bc_account b, bc_type b))) (\<lambda>(name, t).
     if name = [] then throwE (ValidationError ''No account is selected. Please select an account first.'')
     else if t \<noteq> Some dest_type
     then throwE (GridClientError (''Transfer between blockchains isn'' @ apos # ''t implemented yet.''))
     else on_world (case dest_type of
         BT_stellar \<Rightarrow> st_pay e name dest amount asset description
       | BT_algorand \<Rightarrow> al_pay e name dest amount description
       | BT_tfchain \<Rightarrow> bindE (tf_pay e name dest amount) (\<lambda>_. retE [])))"

text \<open>The account stays selected.\<close>

definition bc_delete :: "'w wallet_env \<Rightarrow> ('w, string) blockchain_eff" where
  "bc_delete e = with_account (\<lambda>name t. case t of
     BT_stellar \<Rightarrow> st_delete e name | BT_algorand \<Rightarrow> al_delete e name | BT_tfchain \<Rightarrow> tf_delete e name)"

end
