(* ===== verification/WalletProps.thy ===== *)
theory WalletProps
  imports Wallets
begin

text \<open>
  The files of wallets as maps from names to secrets (the interface \<open>wallet_module\<close>, which the three
  modules offer), what \<open>update\<close> of the Stellar module loses, the wait for the first tokens, and the
  account the client of all chains selects.
\<close>

subsection \<open>Files of secrets\<close>

definition as_json :: "(string \<times> string) list \<Rightarrow> (string \<times> json) list" where
  "as_json = map (\<lambda>(k, s). (k, J_str s))"

definition wallet_files :: "string set" where
  "wallet_files = {''tfchain.json'', ''stellar.json'', ''algorand.json''}"

text \<open>Storing a value with what it has to submit.\<close>

definition storing :: "'w wallet_env \<Rightarrow> string \<Rightarrow> string \<Rightarrow> ('w, unit) wallet_eff" where
  "storing e file v = bindE (we_set e (we_path e file) v) (saveIfKVStoreBackend e)"

definition same_files :: "'w wallet_env \<Rightarrow> 'w \<Rightarrow> 'w \<Rightarrow> bool" where
  "same_files e w w' \<longleftrightarrow> (\<forall>file \<in> wallet_files. we_read e w' (we_path e file) = we_read e w (we_path e file))"

text \<open>
  A file that was stored reads as it was written and the others stay; the other requests leave the
  files alone; a written object of texts is read back with its fields.
\<close>

definition storage_laws :: "'w wallet_env \<Rightarrow> bool" where
  "storage_laws e \<longleftrightarrow>
     (\<forall>file \<in> wallet_files. \<forall>v w u w'. v \<noteq> [] \<longrightarrow> storing e file v w = (Inr u, w') \<longrightarrow>
        we_read e w' (we_path e file) = Inr v
        \<and> (\<forall>other \<in> wallet_files - {file}. we_read e w' (we_path e other) = we_read e w (we_path e other)))
     \<and> (\<forall>ps. distinct (map fst ps) \<longrightarrow> (\<exists>qs. we_parse e (stringify (J_obj (as_json ps))) = Inr (J_obj (as_json qs))
        \<and> distinct (map fst qs) \<and> map_of qs = map_of ps))
     \<and> (\<forall>w. same_files e w (we_sleep e w)) \<and> (\<forall>a w. same_files e w (snd (we_activate e a w)))
     \<and> (\<forall>s x w. same_files e w (snd (we_apply e s x w))) \<and> (\<forall>pk w. same_files e w (snd (we_st_fund e pk w)))"

lemma storage_stored:
  assumes "storage_laws e" and "file \<in> wallet_files" and "v \<noteq> []" and "storing e file v w = (Inr u, w')"
  shows "we_read e w' (we_path e file) = Inr v"
    and "\<forall>other \<in> wallet_files - {file}. we_read e w' (we_path e other) = we_read e w (we_path e other)"
  using assms unfolding storage_laws_def by blast+

lemma storage_parsed:
  assumes "storage_laws e" and "distinct (map fst ps)"
  shows "\<exists>qs. we_parse e (stringify (J_obj (as_json ps))) = Inr (J_obj (as_json qs)) \<and> distinct (map fst qs) \<and> map_of qs = map_of ps"
  using assms unfolding storage_laws_def by blast

text \<open>The map of the names to their secrets in a file.\<close>

definition book :: "'w wallet_env \<Rightarrow> string \<Rightarrow> 'w \<Rightarrow> (string \<rightharpoonup> string) \<Rightarrow> bool" where
  "book e file w m \<longleftrightarrow> (\<exists>ps v. backend_load (we_parse e) (we_read e) w (we_path e file) = Inr v
     \<and> (falsy v \<and> ps = [] \<or> v = J_obj (as_json ps)) \<and> distinct (map fst ps) \<and> m = map_of ps \<and> (\<forall>s \<in> ran m. s \<noteq> []))"

lemma askW_app [simp]: "askW f w = (f w, w)"
  by (simp add: askW_def)

lemma as_json_keys [simp]: "map fst (as_json ps) = map fst ps" "fst ` set (as_json ps) = fst ` set ps"
  by (force simp: as_json_def)+

lemma map_of_as_json [simp]: "map_of (as_json ps) k = map_option J_str (map_of ps k)"
  by (induction ps) (auto simp: as_json_def)

lemma as_json_inj [simp]: "as_json ps = as_json qs \<longleftrightarrow> ps = qs"
proof
  assume "as_json ps = as_json qs"
  moreover have "map (\<lambda>(k, v). (k, case v of J_str s \<Rightarrow> s | _ \<Rightarrow> [])) (as_json xs) = xs" for xs
    by (induction xs) (auto simp: as_json_def)
  ultimately show "ps = qs" by metis
qed simp

lemma not_falsy [simp]: "\<not> falsy (J_obj ps)" "falsy (J_str s) \<longleftrightarrow> s = []"
  by (simp_all add: falsy_def)


lemma book_cong:
  assumes "we_read e w' (we_path e file) = we_read e w (we_path e file)"
  shows "book e file w' m \<longleftrightarrow> book e file w m"
  using assms by (simp add: book_def backend_load_def)

lemma same_files_book: "same_files e w w' \<Longrightarrow> file \<in> wallet_files \<Longrightarrow> book e file w' m \<longleftrightarrow> book e file w m"
  by (rule book_cong) (simp add: same_files_def)

lemma book_unique:
  assumes "book e file w m" and "book e file w m'"
  shows "m = m'"
proof -
  obtain ps v where "backend_load (we_parse e) (we_read e) w (we_path e file) = Inr v"
    "falsy v \<and> ps = [] \<or> v = J_obj (as_json ps)" "m = map_of ps"
    using assms(1) unfolding book_def by blast
  moreover obtain qs v' where "backend_load (we_parse e) (we_read e) w (we_path e file) = Inr v'"
    "falsy v' \<and> qs = [] \<or> v' = J_obj (as_json qs)" "m' = map_of qs"
    using assms(2) unfolding book_def by blast
  ultimately show ?thesis by auto
qed

lemma load_wallets_book:
  assumes "book e file w m"
  shows "\<exists>ps. load_wallets e file w = (Inr (J_obj (as_json ps)), w) \<and> m = map_of ps"
  using assms by (auto simp: book_def load_wallets_def bindE_def as_json_def)

lemma stored_book: "\<forall>s \<in> ran (map_of ps). s \<noteq> [] \<Longrightarrow> stored name (J_obj (as_json ps)) = map_option J_str (map_of ps name)"
  by (auto simp: stored_def json_prop_def ranI split: option.splits)

lemma book_nonempty: "book e file w m \<Longrightarrow> m name = Some s \<Longrightarrow> s \<noteq> []"
  by (auto simp: book_def ranI)

lemma load_stored:
  assumes "book e file w m"
  obtains v where "load_wallets e file w = (Inr v, w)" "\<forall>name. stored name v = map_option J_str (m name)" "set (json_keys v) = dom m"
proof -
  obtain ps where ps: "load_wallets e file w = (Inr (J_obj (as_json ps)), w)" "m = map_of ps"
    using load_wallets_book [OF assms] by blast
  moreover have "\<forall>s \<in> ran m. s \<noteq> []" using assms by (auto simp: book_def)
  ultimately show ?thesis by (intro that [of "J_obj (as_json ps)"]) (auto simp: stored_book json_keys_def dom_map_of_conv_image_fst)
qed

lemma wallet_secret_book:
  assumes "book e file w m"
  shows "wallet_secret e file missing name w
    = (case m name of None \<Rightarrow> Inl (ValidationError missing) | Some s \<Rightarrow> Inr s, w)"
  by (rule load_stored [OF assms]) (simp add: wallet_secret_def bindE_def secret_text_def liftE_def split: option.splits)

subsection \<open>Updates\<close>

lemma updated_book:
  assumes "distinct (map fst ps)" and "s \<noteq> [] \<or> action = SU_delete"
  shows "\<exists>qs. updated_json (J_obj (as_json ps)) name (J_str s) action = Inr (J_obj (as_json qs)) \<and> distinct (map fst qs)
    \<and> map_of qs = (map_of ps)(name := (case action of SU_add \<Rightarrow> Some s | SU_delete \<Rightarrow> None))"
proof (cases action)
  case SU_add
  let ?qs = "map (\<lambda>k. (k, the (((map_of ps)(name \<mapsto> s)) k))) (obj_keys (obj_set name (J_str s) (as_json ps)))"
  have keys: "fst ` set (obj_set name (J_str s) (as_json ps)) = insert name (fst ` set ps)" by simp
  have d: "distinct (map fst (obj_set name (J_str s) (as_json ps)))" using assms(1) by (intro distinct_obj_set) simp
  have as: "in_key_order (obj_set name (J_str s) (as_json ps)) = as_json ?qs"
  proof -
    have "as_json ?qs = map (\<lambda>k. (k, J_str (the (((map_of ps)(name \<mapsto> s)) k)))) (obj_keys (obj_set name (J_str s) (as_json ps)))"
      by (simp add: as_json_def o_def)
    moreover have "map_of ps k \<noteq> None" if "k \<in> fst ` set ps" for k using that by (simp add: map_of_eq_None_iff)
    ultimately show ?thesis using keys by (force simp: in_key_order_def)
  qed
  have "map_of ?qs = (map_of ps)(name \<mapsto> s)"
  proof
    fix k
    show "map_of ?qs k = ((map_of ps)(name \<mapsto> s)) k"
    proof (rule option.inj_map_strong)
      have "map_of (as_json ?qs) = map_of (obj_set name (J_str s) (as_json ps))"
        unfolding as [symmetric] by simp
      then show "map_option J_str (map_of ?qs k) = map_option J_str (((map_of ps)(name \<mapsto> s)) k)"
        by (simp add: fun_eq_iff)
    qed simp
  qed
  moreover have "distinct (map fst ?qs)" using distinct_obj_keys [OF d] by (simp add: o_def)
  ultimately show ?thesis using SU_add as by (auto simp: updated_json_def json_set_def)
next
  case SU_delete
  have "filter (\<lambda>p. fst p \<noteq> name) (as_json ps) = as_json (filter (\<lambda>p. fst p \<noteq> name) ps)"
    by (auto simp: as_json_def filter_map o_def case_prod_beta)
  moreover have "map_of (filter (\<lambda>p. fst p \<noteq> name) ps) = (map_of ps)(name := None)"
    by (induction ps) (auto simp: fun_eq_iff)
  moreover have "distinct (map fst (filter (\<lambda>p. fst p \<noteq> name) ps))" using assms(1) by (simp add: distinct_map_filter)
  ultimately show ?thesis using SU_delete by (auto simp: updated_json_def json_delete_def)
qed

lemma stringify_obj_nonempty [simp]: "stringify (J_obj ps) \<noteq> []" by simp

lemma update_wallets_book:
  assumes "storage_laws e" and "file \<in> wallet_files" and "book e file w m" and "s \<noteq> [] \<or> action = SU_delete"
    and "update_wallets e file name s action w = (Inr u, w')"
  shows "book e file w' (m(name := (case action of SU_add \<Rightarrow> Some s | SU_delete \<Rightarrow> None)))
    \<and> (\<forall>other \<in> wallet_files - {file}. \<forall>m'. book e other w' m' \<longleftrightarrow> book e other w m')"
proof -
  let ?m = "m(name := (case action of SU_add \<Rightarrow> Some s | SU_delete \<Rightarrow> None))"
  obtain ps v0 where v0: "backend_load (we_parse e) (we_read e) w (we_path e file) = Inr v0"
      "falsy v0 \<and> ps = [] \<or> v0 = J_obj (as_json ps)" and ps: "distinct (map fst ps)" "m = map_of ps" "\<forall>s \<in> ran m. s \<noteq> []"
    using assms(3) by (auto simp: book_def)
  have eq: "updated_json v0 name (J_str s) action = updated_json (J_obj (as_json ps)) name (J_str s) action"
    using v0(2) by (elim disjE) (simp_all add: updated_json_def as_json_def)
  obtain qs where qs: "updated_json v0 name (J_str s) action = Inr (J_obj (as_json qs))" "distinct (map fst qs)" "map_of qs = ?m"
    using updated_book [OF ps(1) assms(4), of name] unfolding eq ps(2) by blast
  have st: "storing e file (stringify (J_obj (as_json qs))) w = (Inr u, w')"
    using assms(5) by (simp add: update_wallets_def bindE_def v0(1) qs(1) liftE_def storing_def)
  then have read: "we_read e w' (we_path e file) = Inr (stringify (J_obj (as_json qs)))"
    and others: "\<forall>other \<in> wallet_files - {file}. we_read e w' (we_path e other) = we_read e w (we_path e other)"
    using storage_stored [OF assms(1,2) stringify_obj_nonempty st] by simp_all
  obtain rs where "we_parse e (stringify (J_obj (as_json qs))) = Inr (J_obj (as_json rs))" "distinct (map fst rs)" "map_of rs = ?m"
    using storage_parsed [OF assms(1) qs(2)] qs(3) by auto
  moreover have "\<forall>t \<in> ran ?m. t \<noteq> []"
    using ps(3) assms(4) by (auto simp: ran_def split: if_splits StorageUpdateAction.splits)
  ultimately have "book e file w' ?m" unfolding book_def backend_load_def read by auto
  moreover have "book e other w' m' \<longleftrightarrow> book e other w m'" if "other \<in> wallet_files - {file}" for other m'
    using that others by (intro book_cong) simp
  ultimately show ?thesis by blast
qed

subsection \<open>The interface of the modules\<close>

locale wallet_module =
  fixes good :: "'w \<Rightarrow> (string \<rightharpoonup> string) \<Rightarrow> bool"
    and save :: "string \<Rightarrow> string \<Rightarrow> ('w, unit) wallet_eff"
    and secret_of :: "string \<Rightarrow> ('w, string) wallet_eff"
    and remove :: "string \<Rightarrow> ('w, string) wallet_eff"
  assumes save_new: "good w m \<Longrightarrow> s \<noteq> [] \<Longrightarrow> save name s w = (Inr u, w') \<Longrightarrow> m name = None \<and> good w' (m(name \<mapsto> s))"
    and save_taken: "good w m \<Longrightarrow> m name = Some t \<Longrightarrow> \<exists>err. save name s w = (Inl err, w)"
    and secret: "good w m \<Longrightarrow> secret_of name w = (res, w') \<Longrightarrow> w' = w \<and> (case m name of None \<Rightarrow> \<exists>err. res = Inl err | Some s \<Rightarrow> res = Inr s)"
    and remove_there: "good w m \<Longrightarrow> remove name w = (Inr r, w') \<Longrightarrow> m name \<noteq> None \<and> good w' (m(name := None))"
begin

lemma saved_is_read:
  assumes "good w m" and "s \<noteq> []" and "save name s w = (Inr u, w')"
  shows "secret_of name w' = (Inr s, w')"
  using secret [OF conjunct2 [OF save_new [OF assms]], of name] by (cases "secret_of name w'") auto

lemma saved_once:
  assumes "good w m" and "s \<noteq> []" and "save name s w = (Inr u, w')"
  shows "\<exists>err. save name t w' = (Inl err, w')"
  using save_taken [OF conjunct2 [OF save_new [OF assms]], of name s t] by simp

lemma removed_is_gone:
  assumes "good w m" and "remove name w = (Inr r, w')"
  shows "\<exists>err. secret_of name w' = (Inl err, w')"
  using secret [OF conjunct2 [OF remove_there [OF assms]], of name] by (cases "secret_of name w'") auto

end

lemma save_wallet_book:
  assumes "storage_laws e" and "file \<in> wallet_files" and "book e file w m"
  shows "s \<noteq> [] \<Longrightarrow> save_wallet e file what name s w = (Inr u, w') \<Longrightarrow> m name = None \<and> book e file w' (m(name \<mapsto> s))
      \<and> (\<forall>other \<in> wallet_files - {file}. \<forall>m'. book e other w' m' \<longleftrightarrow> book e other w m')"
    and "m name = Some t \<Longrightarrow> \<exists>err. save_wallet e file what name s w = (Inl err, w)"
proof -
  obtain v where v: "load_wallets e file w = (Inr v, w)" "\<forall>name. stored name v = map_option J_str (m name)" "set (json_keys v) = dom m"
    by (rule load_stored [OF assms(3)])
  show "m name = None \<and> book e file w' (m(name \<mapsto> s)) \<and> (\<forall>other \<in> wallet_files - {file}. \<forall>m'. book e other w' m' \<longleftrightarrow> book e other w m')"
    if "s \<noteq> []" "save_wallet e file what name s w = (Inr u, w')"
  proof -
    have "m name = None" "update_wallets e file name s SU_add w = (Inr u, w')"
      using that(2) v by (auto simp: save_wallet_def bindE_def split: if_splits option.splits)
    then show ?thesis using update_wallets_book [OF assms, of s SU_add name u w'] that(1) by simp
  qed
  show "\<exists>err. save_wallet e file what name s w = (Inl err, w)" if "m name = Some t"
    using v that by (simp add: save_wallet_def bindE_def)
qed

lemma remove_book:
  assumes "storage_laws e" and "file \<in> wallet_files" and "book e file w m"
    and "bindE (load_wallets e file) (\<lambda>v. if stored name v = None then throwE err
           else bindE (update_wallets e file name [] SU_delete) (\<lambda>_. retE ''Deleted'')) w = (Inr r, w')"
  shows "m name \<noteq> None \<and> book e file w' (m(name := None))"
proof -
  obtain v where v: "load_wallets e file w = (Inr v, w)" "\<forall>name. stored name v = map_option J_str (m name)" "set (json_keys v) = dom m"
    by (rule load_stored [OF assms(3)])
  then obtain u where "m name \<noteq> None" "update_wallets e file name [] SU_delete w = (Inr u, w')"
    using assms(4) by (auto elim!: bindE_InrE split: if_splits)
  then show ?thesis using update_wallets_book [OF assms(1-3), of "[]" SU_delete name u w'] by simp
qed

lemma mapE_names:
  assumes "\<And>x w r w'. x \<in> set xs \<Longrightarrow> f x w = (Inr r, w') \<Longrightarrow> w' = w \<and> g r = x" and "mapE f xs w = (Inr ys, w')"
  shows "w' = w \<and> map g ys = xs"
  using assms
proof (induction xs arbitrary: w ys w')
  case (Cons x xs)
  from Cons.prems(2) obtain y w1 zs where y: "f x w = (Inr y, w1)" and zs: "mapE f xs w1 = (Inr zs, w')" "ys = y # zs"
    by (auto elim!: bindE_InrE)
  with Cons.IH [OF _ zs(1)] Cons.prems(1) show ?case by auto
qed simp

lemma tf_list_names:
  assumes "book e tf_file w m" and "tf_list e w = (Inr as, w')"
  shows "w' = w \<and> la_name ` set as = dom m"
proof -
  obtain v where v: "load_wallets e tf_file w = (Inr v, w)" "\<forall>name. stored name v = map_option J_str (m name)" "set (json_keys v) = dom m"
    by (rule load_stored [OF assms(1)])
  let ?f = "\<lambda>name. bindE (tf_getMnemonics e name) (\<lambda>m. bindE (tf_client e m) (\<lambda>p.
       retE \<lparr>la_name = name, la_public = q_address p, la_type = BT_tfchain\<rparr>))"
  have "mapE ?f (json_keys v) w = (Inr as, w')"
    using assms(2) v(1) by (simp add: tf_list_def bindE_def)
  moreover have "w2 = w1 \<and> la_name r = x" if "?f x w1 = (Inr r, w2)" for x w1 r w2
    using that by (auto simp: tf_getMnemonics_def wallet_secret_def tf_client_def load_wallets_def liftE_def
        elim!: bindE_InrE split: option.splits)
  ultimately have "w' = w \<and> map la_name as = json_keys v" by (rule mapE_names [rotated]) simp_all
  then show ?thesis by (metis set_map v(3))
qed

lemma tf_must_exist_book:
  assumes "book e tf_file w m" and "tf_must_exist e name w = (Inr u, w')"
  shows "w' = w \<and> m name \<noteq> None"
proof -
  obtain as w1 where "tf_list e w = (Inr as, w1)" "w' = w1" "name \<in> la_name ` set as"
    using assms(2) by (auto simp: tf_must_exist_def tf_exist_def elim!: bindE_InrE split: if_splits)
  with tf_list_names [OF assms(1)] show ?thesis by blast
qed

text \<open>The three modules offer the interface.\<close>

lemma wallet_file_names [simp]: "tf_file \<in> wallet_files" "st_file \<in> wallet_files" "al_file \<in> wallet_files"
    "tf_file \<noteq> st_file" "st_file \<noteq> tf_file" "tf_file \<noteq> al_file" "al_file \<noteq> tf_file" "st_file \<noteq> al_file" "al_file \<noteq> st_file"
  by (simp_all add: wallet_files_def tf_file_def st_file_def al_file_def)

abbreviation good_wallets :: "'w wallet_env \<Rightarrow> string \<Rightarrow> 'w \<Rightarrow> (string \<rightharpoonup> string) \<Rightarrow> bool" where
  "good_wallets e file w m \<equiv> storage_laws e \<and> book e file w m"

lemma wallet_moduleI:
  assumes "file \<in> wallet_files"
    and "\<And>name w m r w'. good_wallets e file w m \<Longrightarrow> remove name w = (Inr r, w') \<Longrightarrow> m name \<noteq> None \<and> book e file w' (m(name := None))"
  shows "wallet_module (good_wallets e file) (save_wallet e file what) (\<lambda>name. wallet_secret e file (missing name) name) remove"
proof
  fix w m s name u w' t
  assume good: "good_wallets e file w m"
  then have laws: "storage_laws e" and b: "book e file w m" by simp_all
  note sw = save_wallet_book [OF laws assms(1) b, where what = what]
  show "m name = None \<and> good_wallets e file w' (m(name \<mapsto> s))" if "s \<noteq> []" "save_wallet e file what name s w = (Inr u, w')"
    using sw(1) [OF that] laws by simp
  show "\<exists>err. save_wallet e file what name s w = (Inl err, w)" if "m name = Some t"
    using sw(2) [OF that] .
  show "w' = w \<and> (case m name of None \<Rightarrow> \<exists>err. res = Inl err | Some s \<Rightarrow> res = Inr s)"
    if "wallet_secret e file (missing name) name w = (res, w')" for res
    using that by (auto simp: wallet_secret_book [OF b] split: option.splits)
  show "m name \<noteq> None \<and> good_wallets e file w' (m(name := None))" if "remove name w = (Inr r, w')" for r
    using assms(2) [OF good that] laws by simp
qed

interpretation tf: wallet_module "good_wallets e tf_file" "tf_save e" "tf_getMnemonics e" "tf_delete e" for e
proof -
  have "m name \<noteq> None \<and> book e tf_file w' (m(name := None))"
    if good: "good_wallets e tf_file w m" and deleted: "tf_delete e name w = (Inr r, w')" for name w m r w'
  proof -
    obtain u where "m name \<noteq> None" "update_wallets e tf_file name [] SU_delete w = (Inr u, w')"
      using good deleted tf_must_exist_book [of e w m name] by (fastforce simp: tf_delete_def elim!: bindE_InrE)
    then show ?thesis using good update_wallets_book [of e tf_file w m "[]" SU_delete name u w'] by simp
  qed
  then show "wallet_module (good_wallets e tf_file) (tf_save e) (tf_getMnemonics e) (tf_delete e)"
    unfolding tf_save_def tf_getMnemonics_def by (intro wallet_moduleI) (simp, blast)
qed

interpretation st: wallet_module "good_wallets e st_file" "st_save e" "st_getWalletSecret e" "st_delete e" for e
  unfolding st_save_def st_getWalletSecret_def
  by (rule wallet_moduleI) (auto simp: st_delete_def dest!: remove_book)

interpretation al: wallet_module "good_wallets e al_file" "al_save e"
    "\<lambda>name. wallet_secret e al_file (couldnt_find (''a wallet with name '' @ name @ ''.'')) name" "al_delete e" for e
  unfolding al_save_def by (rule wallet_moduleI) (auto simp: al_delete_def dest!: remove_book)

subsection \<open>Stellar wallets\<close>

lemma st_init_Inr:
  "st_init e name s w = (Inr pk, w') \<longleftrightarrow> (\<exists>bs. we_st_public e s = Inr pk \<and> we_st_account e w pk = Inr bs \<and> st_save e name s w = (Inr (), w'))"
  by (auto simp: st_init_def liftE_def bindE_def split: sum.splits prod.splits)

lemma st_get_secret:
  "st_get e name w = (case st_getWalletSecret e name w of (Inl err, w') \<Rightarrow> (Inl err, w')
     | (Inr s, w') \<Rightarrow> (case we_st_public e s of Inl err \<Rightarrow> (Inl err, w')
         | Inr pk \<Rightarrow> (Inr \<lparr>ac_name = name, ac_public = pk, ac_secret = s, ac_type = BT_stellar\<rparr>, w')))"
  by (simp add: st_get_def bindE_def liftE_def split: sum.splits prod.splits)

text \<open>
  C25: A wallet that was added is read back with its secret and the key of it, a second one of its name is
  refused whatever its secret, and once it is deleted it is not found.
\<close>

theorem wallet_kept_until_deleted:
  assumes "storage_laws e" and "book e st_file w m" and "s \<noteq> []" and "st_init e name s w = (Inr pk, w1)"
  shows "m name = None \<and> st_get e name w1 = (Inr \<lparr>ac_name = name, ac_public = pk, ac_secret = s, ac_type = BT_stellar\<rparr>, w1)
    \<and> (\<exists>err. st_init e name t w1 = (Inl err, w1))
    \<and> (st_delete e name w1 = (Inr r, w2) \<longrightarrow> (\<exists>err. st_get e name w2 = (Inl err, w2)))"
proof (intro conjI impI)
  have good: "good_wallets e st_file w m" using assms(1,2) by simp
  have pk: "we_st_public e s = Inr pk" and saved: "st_save e name s w = (Inr (), w1)" using assms(4) by (auto simp: st_init_Inr)
  note new = st.save_new [OF good assms(3) saved]
  from new show "m name = None" by simp
  show "st_get e name w1 = (Inr \<lparr>ac_name = name, ac_public = pk, ac_secret = s, ac_type = BT_stellar\<rparr>, w1)"
    by (simp add: st_get_secret st.saved_is_read [OF good assms(3) saved] pk)
  obtain err where "st_save e name t w1 = (Inl err, w1)" using st.saved_once [OF good assms(3) saved] by blast
  then show "\<exists>err. st_init e name t w1 = (Inl err, w1)"
    by (simp add: st_init_def bindE_def liftE_def split: sum.splits)
  assume "st_delete e name w1 = (Inr r, w2)"
  then show "\<exists>err. st_get e name w2 = (Inl err, w2)"
    using st.removed_is_gone [OF conjunct2 [OF new]] by (force simp: st_get_secret)
qed

lemma mapR_ok: "\<forall>x \<in> set xs. \<exists>y. f x = Inr y \<and> g y = x \<Longrightarrow> \<exists>ys. mapR f xs = Inr ys \<and> map g ys = xs"
  by (induction xs) auto

lemma json_keys_as_json [simp]: "json_keys (J_obj (as_json ps)) = obj_keys (as_json ps)"
  by (simp add: json_keys_def)

lemma st_list_names:
  assumes "book e st_file w m" and "\<forall>s \<in> ran m. \<exists>pk. we_st_public e s = Inr pk"
  shows "\<exists>as. st_list e w = (Inr as, w) \<and> la_name ` set as = dom m"
proof -
  obtain ps where ps: "load_wallets e st_file w = (Inr (J_obj (as_json ps)), w)" "m = map_of ps"
    using load_wallets_book [OF assms(1)] by blast
  let ?f = "\<lambda>name. bindR (case json_prop name (J_obj (as_json ps)) of None \<Rightarrow> Inl TypeError | Some x \<Rightarrow> secret_text x) (\<lambda>s.
     bindR (we_st_public e s) (\<lambda>pk. Inr \<lparr>la_name = name, la_public = pk, la_type = BT_stellar\<rparr>))"
  have "\<exists>y. ?f name = Inr y \<and> la_name y = name" if "name \<in> set (obj_keys (as_json ps))" for name
  proof -
    have "map_of ps name \<noteq> None" using that by (simp add: map_of_eq_None_iff)
    then obtain s where "map_of ps name = Some s" by blast
    moreover from this obtain pk where "we_st_public e s = Inr pk" using assms(2) ps(2) by (blast intro: ranI)
    ultimately show ?thesis by (simp add: json_prop_def secret_text_def)
  qed
  then obtain as where "mapR ?f (obj_keys (as_json ps)) = Inr as" "map la_name as = obj_keys (as_json ps)"
    using mapR_ok [of "obj_keys (as_json ps)" ?f la_name] by blast
  moreover from this(2) have "la_name ` set as = dom m"
    using ps(2) by (metis list.set_map set_obj_keys as_json_keys(2) dom_map_of_conv_image_fst)
  ultimately show ?thesis using ps(1) by (simp add: st_list_def bindE_def liftE_def)
qed

text \<open>
  While no account can be loaded, an update of a wallet deletes it, cannot put it back, and ends with an
  error: the secret is gone from the storage.
\<close>

theorem failed_update_loses_wallet:
  assumes "storage_laws e" and "book e st_file w m" and "m name = Some old" and "\<forall>s \<in> ran m. \<exists>pk. we_st_public e s = Inr pk"
    and "st_delete e name w = (Inr r, w')" and "\<forall>pk. \<exists>err. we_st_account e w' pk = Inl err"
  shows "(\<exists>err. st_update e name s w = (Inl err, w')) \<and> book e st_file w' (m(name := None))"
proof
  have good: "good_wallets e st_file w m" using assms(1,2) by simp
  then show "book e st_file w' (m(name := None))" using st.remove_there [OF good assms(5)] by simp
  obtain as where "st_list e w = (Inr as, w)" "la_name ` set as = dom m" using st_list_names [OF assms(2,4)] by blast
  then have there: "st_exist e name w = (Inr True, w)" using assms(3) by (force simp: st_exist_def bindE_def)
  have secret: "st_getWalletSecret e name w = (Inr old, w)"
    using assms(3) by (simp add: st_getWalletSecret_def wallet_secret_book [OF assms(2)])
  have init: "\<exists>err. st_init e name t w' = (Inl err, w')" for t
  proof (cases "we_st_public e t")
    case (Inr pk)
    moreover obtain err where "we_st_account e w' pk = Inl err" using assms(6) by blast
    ultimately show ?thesis by (simp add: st_init_def bindE_def liftE_def)
  qed (simp add: st_init_def bindE_def liftE_def)
  then show "\<exists>err. st_update e name s w = (Inl err, w')"
  proof -
    obtain e1 e2 where "st_init e name s w' = (Inl e1, w')" "st_init e name old w' = (Inl e2, w')" using init by blast
    then show ?thesis by (simp add: st_update_def bindE_def there secret assms(5) catchE_def)
  qed
qed

subsection \<open>Waiting for the first tokens\<close>

lemma tf_client_world: "tf_client e s w = (r, w') \<Longrightarrow> w' = w"
  by (simp add: tf_client_def)

lemma await_funds_rounds:
  assumes "\<forall>w. we_now e w + 1000 \<le> we_now e (we_sleep e w)" and "start + 1000 * int k \<le> we_now e w" and "11 \<le> k + n" and "0 < n"
  shows "\<exists>j \<le> 10 - k. snd (await_funds n e secret start b w) = (we_sleep e ^^ j) w
    \<and> (case fst (await_funds n e secret start b w) of Inl _ \<Rightarrow> True | Inr None \<Rightarrow> False
       | Inr (Some f) \<Rightarrow> 0 < f \<or> start + 10000 \<le> we_now e ((we_sleep e ^^ j) w))"
  using assms(2-)
proof (induction n arbitrary: k b w)
  case (Suc n)
  show ?case
  proof (cases "we_now e w < start + 10 * 1000")
    case True
    with Suc.prems(1) have k: "k < 10" by linarith
    let ?q = "\<lambda>w. bindE (tf_client e secret) (\<lambda>p. liftE (tf_balance_get p (q_address p))) w"
    show ?thesis
    proof (cases "fst (?q w)")
      case (Inl err)
      then have "await_funds (Suc n) e secret start b w = (Inl err, w)"
        using True by (auto simp: bindE_def tf_client_def liftE_def split: sum.splits)
      then show ?thesis by (intro exI [of _ 0]) simp
    next
      case (Inr balance)
      then have step: "await_funds (Suc n) e secret start b w =
          (if 0 < ba_free balance then (Inr (Some (ba_free balance)), w) else await_funds n e secret start (ba_free balance) (we_sleep e w))"
        using True by (auto simp: bindE_def tf_client_def liftE_def split: sum.splits)
      show ?thesis
      proof (cases "0 < ba_free balance")
        case True
        then show ?thesis unfolding step by (intro exI [of _ 0]) simp
      next
        case False
        have "we_now e w + 1000 \<le> we_now e (we_sleep e w)" using assms(1) by blast
        then have "start + 1000 * int (Suc k) \<le> we_now e (we_sleep e w)" using Suc.prems(1) by simp
        with Suc.IH [of "Suc k" "we_sleep e w" "ba_free balance"] Suc.prems(2) k obtain j where
          "j \<le> 10 - Suc k" "snd (await_funds n e secret start (ba_free balance) (we_sleep e w)) = (we_sleep e ^^ j) (we_sleep e w)"
          "case fst (await_funds n e secret start (ba_free balance) (we_sleep e w)) of Inl _ \<Rightarrow> True | Inr None \<Rightarrow> False
             | Inr (Some f) \<Rightarrow> 0 < f \<or> start + 10000 \<le> we_now e ((we_sleep e ^^ j) (we_sleep e w))"
          by auto
        moreover have sj: "(we_sleep e ^^ Suc j) w = (we_sleep e ^^ j) (we_sleep e w)" by (simp add: funpow_swap1)
        moreover have "Suc j \<le> 10 - k" using calculation(1) k by simp
        ultimately show ?thesis using False unfolding step by (intro exI [of _ "Suc j"], unfold sj) simp
      qed
    qed
  next
    case False
    then have "await_funds (Suc n) e secret start b w = (Inr (Some b), w)" by (simp add: bindE_def)
    with False show ?thesis by (intro exI [of _ 0]) simp
  qed
qed simp

text \<open>
  The wait for the first tokens ends after ten sleeps at most when the clock goes on by a second with
  each; it gives up only when the ten seconds are over.
\<close>

theorem activation_wait_ends:
  assumes "\<forall>w. we_now e w + 1000 \<le> we_now e (we_sleep e w)"
  shows "\<exists>j \<le> 10. snd (await_funds 11 e secret (we_now e w) b w) = (we_sleep e ^^ j) w
    \<and> (case fst (await_funds 11 e secret (we_now e w) b w) of Inl _ \<Rightarrow> True | Inr None \<Rightarrow> False
       | Inr (Some f) \<Rightarrow> 0 < f \<or> we_now e w + 10000 \<le> we_now e ((we_sleep e ^^ j) w))"
  using await_funds_rounds [OF assms, of "we_now e w" 0 w 11 secret b] by simp

subsection \<open>One name on all chains\<close>

text \<open>The books of the three chains, and that no name is in two of them.\<close>

definition books :: "'w wallet_env \<Rightarrow> 'w \<Rightarrow> (string \<rightharpoonup> string) \<Rightarrow> (string \<rightharpoonup> string) \<Rightarrow> (string \<rightharpoonup> string) \<Rightarrow> bool" where
  "books e w ms ma mt \<longleftrightarrow> book e st_file w ms \<and> book e al_file w ma \<and> book e tf_file w mt"

definition names_apart :: "'w wallet_env \<Rightarrow> 'w \<Rightarrow> bool" where
  "names_apart e w \<longleftrightarrow> (\<exists>ms ma mt. books e w ms ma mt \<and> dom ms \<inter> dom ma = {} \<and> dom ms \<inter> dom mt = {} \<and> dom ma \<inter> dom mt = {})"

text \<open>The secrets the packages make are no empty texts.\<close>

definition secrets_nonempty :: "'w wallet_env \<Rightarrow> bool" where
  "secrets_nonempty e \<longleftrightarrow> (\<forall>w. we_new_mnemonic e w \<noteq> [] \<and> snd (we_st_random e w) \<noteq> [] \<and> snd (we_al_random e w) \<noteq> [])"

lemma listed_names:
  assumes "load_wallets e file w = (Inr (J_obj (as_json ps)), w)"
    and "bindE (load_wallets e file) (\<lambda>v. liftE (mapR (\<lambda>name. bindR (key name v) (\<lambda>s. bindR (pub s) (\<lambda>a.
      Inr \<lparr>la_name = name, la_public = a, la_type = t\<rparr>))) (json_keys v))) w = (Inr as, w')"
  shows "w' = w \<and> la_name ` set as = fst ` set ps"
proof -
  have l: "list_all2 (\<lambda>name y. bindR (key name (J_obj (as_json ps))) (\<lambda>s. bindR (pub s) (\<lambda>a.
      Inr \<lparr>la_name = name, la_public = a, la_type = t\<rparr>)) = Inr y) (obj_keys (as_json ps)) as" and "w' = w"
    using assms by (auto simp: bindE_def liftE_def dest!: mapR_Inr split: sum.splits)
  from l have "map la_name as = obj_keys (as_json ps)"
    by (induction rule: list_all2_induct) (auto elim!: bindR_InrE)
  then have "la_name ` set as = fst ` set ps" by (metis list.set_map set_obj_keys as_json_keys(2))
  with \<open>w' = w\<close> show ?thesis by simp
qed

lemma module_listed:
  assumes "load_wallets e file w = (Inr (J_obj (as_json ps)), w)"
  shows "file = st_file \<Longrightarrow> st_list e w = (Inr as, w') \<Longrightarrow> w' = w \<and> la_name ` set as = fst ` set ps"
    and "file = al_file \<Longrightarrow> al_list e w = (Inr as, w') \<Longrightarrow> w' = w \<and> la_name ` set as = fst ` set ps"
  by (rule listed_names [OF assms]; simp add: st_list_def)
    (rule listed_names [OF assms]; simp add: al_list_def)

lemma exist_names:
  shows "book e st_file w ms \<Longrightarrow> st_exist e name w = (Inr b, w') \<Longrightarrow> w' = w \<and> b = (name \<in> dom ms)"
    and "book e al_file w ms \<Longrightarrow> al_exist e name w = (Inr b, w') \<Longrightarrow> w' = w \<and> b = (name \<in> dom ms)"
    and "book e tf_file w ms \<Longrightarrow> tf_exist e name w = (Inr b, w') \<Longrightarrow> w' = w \<and> b = (name \<in> dom ms)"
proof -
  show "w' = w \<and> b = (name \<in> dom ms)" if bk: "book e st_file w ms" and ex: "st_exist e name w = (Inr b, w')"
  proof -
    obtain ps where ps: "load_wallets e st_file w = (Inr (J_obj (as_json ps)), w)" "ms = map_of ps"
      using load_wallets_book [OF bk] by blast
    obtain as where "st_list e w = (Inr as, w')" "b = (\<exists>a \<in> set as. la_name a = name)"
      using ex by (auto simp: st_exist_def elim!: bindE_InrE)
    moreover from this(1) have "w' = w \<and> la_name ` set as = dom ms"
      using module_listed(1) [OF ps(1) refl] by (simp add: ps(2) dom_map_of_conv_image_fst)
    ultimately show ?thesis by force
  qed
  show "w' = w \<and> b = (name \<in> dom ms)" if bk: "book e al_file w ms" and ex: "al_exist e name w = (Inr b, w')"
  proof -
    obtain ps where ps: "load_wallets e al_file w = (Inr (J_obj (as_json ps)), w)" "ms = map_of ps"
      using load_wallets_book [OF bk] by blast
    obtain as where "al_list e w = (Inr as, w')" "b = (\<exists>a \<in> set as. la_name a = name)"
      using ex by (auto simp: al_exist_def elim!: bindE_InrE)
    moreover from this(1) have "w' = w \<and> la_name ` set as = dom ms"
      using module_listed(2) [OF ps(1) refl] by (simp add: ps(2) dom_map_of_conv_image_fst)
    ultimately show ?thesis by force
  qed
  show "w' = w \<and> b = (name \<in> dom ms)" if bk: "book e tf_file w ms" and ex: "tf_exist e name w = (Inr b, w')"
  proof -
    obtain as where "tf_list e w = (Inr as, w')" "b = (\<exists>a \<in> set as. la_name a = name)"
      using ex by (auto simp: tf_exist_def elim!: bindE_InrE)
    moreover from this(1) have "w' = w \<and> la_name ` set as = dom ms" by (rule tf_list_names [OF bk])
    ultimately show ?thesis by force
  qed
qed

lemma any_exist_names:
  assumes "books e w ms ma mt" and "any_exist e name w = (Inr b, w')"
  shows "w' = w \<and> b = (name \<in> dom ms \<union> dom ma \<union> dom mt)"
proof -
  obtain s w1 where s: "st_exist e name w = (Inr s, w1)"
    and rest: "(if s then retE True else bindE (al_exist e name) (\<lambda>a. if a then retE True else tf_exist e name)) w1 = (Inr b, w')"
    using assms(2) by (auto simp: any_exist_def elim!: bindE_InrE)
  have s': "w1 = w" "s = (name \<in> dom ms)" using exist_names(1) [OF _ s] assms(1) by (auto simp: books_def)
  show ?thesis
  proof (cases s)
    case True
    with rest s' show ?thesis by auto
  next
    case False
    then obtain a w2 where a: "al_exist e name w = (Inr a, w2)" and rest: "(if a then retE True else tf_exist e name) w2 = (Inr b, w')"
      using rest s' by (auto elim!: bindE_InrE)
    have a': "w2 = w" "a = (name \<in> dom ma)" using exist_names(2) [OF _ a] assms(1) by (auto simp: books_def)
    show ?thesis
    proof (cases a)
      case True
      with rest a' show ?thesis by auto
    next
      case False
      then have "tf_exist e name w = (Inr b, w')" using rest a' by simp
      moreover have "book e tf_file w mt" using assms(1) by (simp add: books_def)
      ultimately have "w' = w \<and> b = (name \<in> dom mt)" by (rule exist_names(3) [rotated])
      with \<open>\<not> s\<close> False s' a' show ?thesis by simp
    qed
  qed
qed

definition chain_of :: "(string \<rightharpoonup> string) \<Rightarrow> (string \<rightharpoonup> string) \<Rightarrow> (string \<rightharpoonup> string) \<Rightarrow> string \<Rightarrow> blockchainType option" where
  "chain_of ms ma mt name = (if name \<in> dom ms then Some BT_stellar else if name \<in> dom ma then Some BT_algorand
     else if name \<in> dom mt then Some BT_tfchain else None)"

lemma exist_in_names:
  assumes "books e w ms ma mt" and "exist_in e name w = (Inr t, w')"
  shows "w' = w \<and> t = chain_of ms ma mt name"
proof -
  have bk: "book e st_file w ms" "book e al_file w ma" "book e tf_file w mt" using assms(1) by (simp_all add: books_def)
  obtain s w1 where s: "st_exist e name w = (Inr s, w1)" and
    rest: "(if s then retE (Some BT_stellar) else bindE (al_exist e name) (\<lambda>a. if a then retE (Some BT_algorand)
       else bindE (tf_exist e name) (\<lambda>t. retE (if t then Some BT_tfchain else None)))) w1 = (Inr t, w')"
    using assms(2) by (auto simp: exist_in_def elim!: bindE_InrE)
  note s' = exist_names(1) [OF bk(1) s]
  show ?thesis
  proof (cases s)
    case False
    then obtain a w2 where a: "al_exist e name w = (Inr a, w2)" and
      rest: "(if a then retE (Some BT_algorand) else bindE (tf_exist e name) (\<lambda>t. retE (if t then Some BT_tfchain else None))) w2 = (Inr t, w')"
      using rest s' by (auto elim!: bindE_InrE)
    note a' = exist_names(2) [OF bk(2) a]
    show ?thesis
    proof (cases a)
      case False
      then obtain x where x: "tf_exist e name w = (Inr x, w')" "t = (if x then Some BT_tfchain else None)"
        using rest a' by (auto elim!: bindE_InrE)
      from exist_names(3) [OF bk(3) x(1)] x(2) \<open>\<not> s\<close> False s' a' show ?thesis by (simp add: chain_of_def)
    qed (use rest s' a' \<open>\<not> s\<close> in \<open>simp add: chain_of_def\<close>)
  qed (use rest s' in \<open>simp add: chain_of_def\<close>)
qed

lemma query_same_world: "c\<lparr>bc_world := bc_world c\<rparr> = c"
  by simp

lemma on_world_Inr: "on_world m b = (Inr x, b') \<longleftrightarrow> (\<exists>w. m (bc_world b) = (Inr x, w) \<and> b' = b\<lparr>bc_world := w\<rparr>)"
  by (auto simp: on_world_def split: prod.splits)

lemma bc_select_Inr:
  assumes "books e (bc_world b) ms ma mt" and "bc_select e name b = (Inr r, b')"
  shows "r = name \<and> chain_of ms ma mt name \<noteq> None \<and> b' = b\<lparr>bc_account := name, bc_type := chain_of ms ma mt name\<rparr>"
proof -
  obtain b1 where b1: "on_world (any_exist e name) b = (Inr True, b1)" and
    rest: "bindE (modifyE (\<lambda>b. b\<lparr>bc_account := name\<rparr>)) (\<lambda>_. bindE (on_world (exist_in e name)) (\<lambda>t.
       bindE (if t \<noteq> None then bindE (on_world (exist_in e name)) (\<lambda>t. modifyE (\<lambda>b. b\<lparr>bc_type := t\<rparr>)) else retE ())
         (\<lambda>_. getE bc_account))) b1 = (Inr r, b')"
    using assms(2) by (auto simp: bc_select_def elim!: bindE_InrE split: if_splits)
  obtain w where "any_exist e name (bc_world b) = (Inr True, w)" "b1 = b\<lparr>bc_world := w\<rparr>"
    using b1 by (auto simp: on_world_Inr)
  with any_exist_names [OF assms(1)] have "b1 = b" and there: "name \<in> dom ms \<union> dom ma \<union> dom mt" by auto
  then have some: "chain_of ms ma mt name \<noteq> None" by (auto simp: chain_of_def)
  have ex: "t = chain_of ms ma mt name \<and> c' = c" if asked: "on_world (exist_in e name) c = (Inr t, c')" "bc_world c = bc_world b" for c t c'
  proof -
    obtain w where "exist_in e name (bc_world b) = (Inr t, w)" "c' = c\<lparr>bc_world := w\<rparr>"
      using asked by (auto simp: on_world_Inr)
    with exist_in_names [OF assms(1)] asked(2) show ?thesis by (metis query_same_world)
  qed
  let ?b = "b\<lparr>bc_account := name\<rparr>"
  obtain t c1 where t: "on_world (exist_in e name) ?b = (Inr t, c1)" and
    rest: "(if t \<noteq> None then bindE (on_world (exist_in e name)) (\<lambda>t. modifyE (\<lambda>b. b\<lparr>bc_type := t\<rparr>)) else retE ()) c1 = (Inr (), b')"
      "r = bc_account b'"
    using rest \<open>b1 = b\<close> by (auto elim!: bindE_InrE)
  have "t = chain_of ms ma mt name" "c1 = ?b" using ex [OF t] by simp_all
  with rest(1) some obtain t2 c2 where t2: "on_world (exist_in e name) ?b = (Inr t2, c2)" and "b' = c2\<lparr>bc_type := t2\<rparr>"
    by (auto elim!: bindE_InrE)
  with ex [OF t2] some rest(2) show ?thesis by simp
qed

lemma chain_get_secret:
  assumes "books e w ms ma mt" and "chain_get e name t w = (Inr a, w')"
  shows "ac_name a = name \<and> ac_type a = t
    \<and> Some (ac_secret a) = (case t of BT_stellar \<Rightarrow> ms name | BT_algorand \<Rightarrow> ma name | BT_tfchain \<Rightarrow> mt name)"
proof -
  have "\<And>missing. wallet_secret e st_file missing name w = (case ms name of None \<Rightarrow> Inl (ValidationError missing) | Some s \<Rightarrow> Inr s, w)"
    "\<And>missing. wallet_secret e al_file missing name w = (case ma name of None \<Rightarrow> Inl (ValidationError missing) | Some s \<Rightarrow> Inr s, w)"
    "\<And>missing. wallet_secret e tf_file missing name w = (case mt name of None \<Rightarrow> Inl (ValidationError missing) | Some s \<Rightarrow> Inr s, w)"
    using assms(1) by (simp_all add: books_def wallet_secret_book)
  then show ?thesis
    using assms(2)
    by (cases t) (auto simp: chain_get_def st_get_def al_get_def tf_get_def st_getWalletSecret_def tf_getMnemonics_def
        elim!: bindE_InrE split: option.splits)
qed

text \<open>
  The account that is selected is the one \<open>get\<close> gives: of the first chain that has the name, with the
  secret kept there.
\<close>

theorem selected_account_found:
  assumes "books e (bc_world b) ms ma mt" and "bc_select e name b = (Inr r, b')" and "name \<noteq> []" and "bc_get e b' = (Inr a, b'')"
  shows "r = name \<and> ac_name a = name \<and> (ac_type a, Some (ac_secret a)) =
    (if name \<in> dom ms then (BT_stellar, ms name) else if name \<in> dom ma then (BT_algorand, ma name) else (BT_tfchain, mt name))"
proof -
  note sel = bc_select_Inr [OF assms(1,2)]
  then obtain t where t: "chain_of ms ma mt name = Some t" by blast
  then have "on_world (chain_get e name t) b' = (Inr a, b'')"
    using assms(3,4) sel by (simp add: bc_get_def with_account_def bindE_def)
  then obtain w where "chain_get e name t (bc_world b) = (Inr a, w)" using sel by (auto simp: on_world_Inr)
  from chain_get_secret [OF assms(1) this] sel t show ?thesis
    by (auto simp: chain_of_def split: if_splits)
qed

text \<open>\<open>create\<close> keeps every name on one chain at most (\<open>init\<close> asks only the chain it adds to).\<close>

lemma books_same:
  assumes "same_files e w w'"
  shows "books e w' ms ma mt \<longleftrightarrow> books e w ms ma mt"
  using assms by (simp add: books_def same_files_book)

lemma same_files_refl [simp]: "same_files e w w" by (simp add: same_files_def)

lemma same_files_trans: "same_files e u v \<Longrightarrow> same_files e v w \<Longrightarrow> same_files e u w"
  by (simp add: same_files_def)

definition keeps_files :: "'w wallet_env \<Rightarrow> ('w, 'r) wallet_eff \<Rightarrow> bool" where
  "keeps_files e m \<longleftrightarrow> (\<forall>w. same_files e w (snd (m w)))"

lemma keeps_files_basic [simp, intro]:
  "keeps_files e (retE x)" "keeps_files e (throwE err)" "keeps_files e (askW f)" "keeps_files e (getE g)" "keeps_files e (liftE r)"
  "keeps_files e (tf_client e secret)"
  by (simp_all add: keeps_files_def tf_client_def)

lemma keeps_files_bindE [intro]: "keeps_files e m \<Longrightarrow> (\<And>x. keeps_files e (f x)) \<Longrightarrow> keeps_files e (bindE m f)"
  unfolding keeps_files_def bindE_def by (fastforce split: prod.splits sum.splits intro: same_files_trans)

lemma await_funds_files:
  assumes "storage_laws e"
  shows "keeps_files e (await_funds n e secret start b)"
proof (induction n arbitrary: b)
  case (Suc n)
  have "keeps_files e (modifyE (we_sleep e))" using assms by (simp add: keeps_files_def storage_laws_def)
  with Suc show ?case by (auto intro!: keeps_files_bindE simp del: retE_app)
qed (simp only: await_funds.simps keeps_files_basic)

lemma activate_files:
  assumes "storage_laws e"
  shows "keeps_files e (activateAccountAndCreateTwin fuel e mnemonic relay)"
proof -
  have "keeps_files e (we_activate e a)" "keeps_files e (we_apply e s x)" for a s x
    using assms by (simp_all add: keeps_files_def storage_laws_def)
  then show ?thesis
    unfolding activateAccountAndCreateTwin_def tf_apply_def
    by (auto intro!: keeps_files_bindE await_funds_files [OF assms] split: option.splits)
qed

lemma keeps_filesD: "keeps_files e m \<Longrightarrow> m w = (r, w') \<Longrightarrow> same_files e w w'"
  unfolding keeps_files_def by (metis snd_conv)

lemma activate_mnemonic:
  assumes "activateAccountAndCreateTwin fuel e mnemonic relay w = (Inr (public, m, twinId), w')"
  shows "m = mnemonic"
  using assms unfolding activateAccountAndCreateTwin_def
  by (auto elim!: bindE_InrE split: option.splits if_splits)

text \<open>The files with names apart and \<open>name\<close> on none of the chains.\<close>

definition fresh_name :: "'w wallet_env \<Rightarrow> string \<Rightarrow> 'w \<Rightarrow> bool" where
  "fresh_name e name w \<longleftrightarrow> (\<exists>ms ma mt. books e w ms ma mt \<and> dom ms \<inter> dom ma = {} \<and> dom ms \<inter> dom mt = {} \<and> dom ma \<inter> dom mt = {}
     \<and> name \<notin> dom ms \<union> dom ma \<union> dom mt)"

lemma fresh_name_same: "same_files e w w' \<Longrightarrow> fresh_name e name w \<Longrightarrow> fresh_name e name w'"
  by (simp add: fresh_name_def books_same)

lemma saving_keeps_apart:
  assumes "storage_laws e" and "fresh_name e name w" and "s \<noteq> []" and "file \<in> wallet_files"
    and "save_wallet e file what name s w = (Inr u, w')"
  shows "names_apart e w'"
proof -
  obtain ms ma mt where b: "books e w ms ma mt" and d: "dom ms \<inter> dom ma = {}" "dom ms \<inter> dom mt = {}" "dom ma \<inter> dom mt = {}"
    and n: "name \<notin> dom ms" "name \<notin> dom ma" "name \<notin> dom mt"
    using assms(2) by (auto simp: fresh_name_def)
  have bk: "book e st_file w ms" "book e al_file w ma" "book e tf_file w mt" using b by (simp_all add: books_def)
  have saved: "book e file w' (m(name \<mapsto> s)) \<and> (\<forall>other \<in> wallet_files - {file}. \<forall>m'. book e other w' m' \<longleftrightarrow> book e other w m')"
    if "book e file w m" for m
    using save_wallet_book(1) [OF assms(1,4) that assms(3,5)] by simp
  consider "file = st_file" | "file = al_file" | "file = tf_file"
    using assms(4) by (auto simp: wallet_files_def st_file_def al_file_def tf_file_def)
  then show ?thesis
  proof cases
    case 1
    then have "books e w' (ms(name \<mapsto> s)) ma mt" using saved [of ms] bk by (simp add: books_def)
    moreover have "dom (ms(name \<mapsto> s)) \<inter> dom ma = {}" "dom (ms(name \<mapsto> s)) \<inter> dom mt = {}" using d n by auto
    ultimately show ?thesis using d(3) unfolding names_apart_def by blast
  next
    case 2
    then have "books e w' ms (ma(name \<mapsto> s)) mt" using saved [of ma] bk by (simp add: books_def)
    moreover have "dom ms \<inter> dom (ma(name \<mapsto> s)) = {}" "dom (ma(name \<mapsto> s)) \<inter> dom mt = {}" using d n by auto
    ultimately show ?thesis using d(2) unfolding names_apart_def by blast
  next
    case 3
    then have "books e w' ms ma (mt(name \<mapsto> s))" using saved [of mt] bk by (simp add: books_def)
    moreover have "dom ms \<inter> dom (mt(name \<mapsto> s)) = {}" "dom ma \<inter> dom (mt(name \<mapsto> s)) = {}" using d n by auto
    ultimately show ?thesis using d(1) unfolding names_apart_def by blast
  qed
qed

lemma exist_same_world:
  assumes "fresh_name e name w"
  shows "st_exist e n w = (Inr b, w') \<Longrightarrow> w' = w" and "al_exist e n w = (Inr b, w') \<Longrightarrow> w' = w" and "tf_exist e n w = (Inr b, w') \<Longrightarrow> w' = w"
proof -
  obtain ms ma mt where bk: "book e st_file w ms" "book e al_file w ma" "book e tf_file w mt"
    using assms by (auto simp: fresh_name_def books_def)
  show "st_exist e n w = (Inr b, w') \<Longrightarrow> w' = w" using exist_names(1) [OF bk(1)] by blast
  show "al_exist e n w = (Inr b, w') \<Longrightarrow> w' = w" using exist_names(2) [OF bk(2)] by blast
  show "tf_exist e n w = (Inr b, w') \<Longrightarrow> w' = w" using exist_names(3) [OF bk(3)] by blast
qed

lemma chain_create_apart:
  assumes "storage_laws e" and "secrets_nonempty e" and "fresh_name e name w" and "chain_create fuel e t name relay w = (Inr a, w')"
  shows "names_apart e w'"
proof (cases t)
  case BT_stellar
  then have "st_create e name w = (Inr a, w')" using assms(4) by (simp add: chain_create_def)
  then obtain w1 where "st_exist e name w = (Inr False, w1)" and
    rest: "bindE (getE (we_st_random e)) (\<lambda>(public, secret).
       bindE (catchE (we_st_fund e public)
                (\<lambda>err. throwE (as_request_error (''An error happened while creating your account. '' @ error_to_string err) err))) (\<lambda>_.
         bindE (st_save e name secret) (\<lambda>_.
           retE \<lparr>ac_name = name, ac_public = public, ac_secret = secret, ac_type = BT_stellar\<rparr>))) w1 = (Inr a, w')"
    by (auto simp: st_create_def elim!: bindE_InrE split: if_splits)
  then have "w1 = w" using exist_same_world(1) [OF assms(3)] by blast
  obtain pk sec where r: "we_st_random e w = (pk, sec)" by fastforce
  then obtain w2 where "we_st_fund e pk w = (Inr (), w2)" "st_save e name sec w2 = (Inr (), w')"
    using rest \<open>w1 = w\<close> by (auto simp: catchE_def elim!: bindE_InrE split: prod.splits sum.splits)
  moreover from this(1) have "same_files e w w2" using assms(1) unfolding storage_laws_def by (metis snd_conv)
  moreover have "sec \<noteq> []" using assms(2) r unfolding secrets_nonempty_def by (metis snd_conv)
  ultimately show ?thesis
    using saving_keeps_apart [OF assms(1) fresh_name_same [OF _ assms(3)] _ wallet_file_names(2)] unfolding st_save_def by blast
next
  case BT_algorand
  then obtain w1 where "al_exist e name w = (Inr False, w1)" and
    rest: "bindE (getE (we_al_random e)) (\<lambda>(public, mnemonic). bindE (al_save e name mnemonic) (\<lambda>_.
       retE \<lparr>ac_name = name, ac_public = public, ac_secret = mnemonic, ac_type = BT_algorand\<rparr>)) w1 = (Inr a, w')"
    using assms(4) by (auto simp: chain_create_def al_create_def elim!: bindE_InrE split: if_splits)
  then have "w1 = w" using exist_same_world(2) [OF assms(3)] by blast
  obtain pk sec where r: "we_al_random e w = (pk, sec)" by fastforce
  then have "al_save e name sec w = (Inr (), w')" using rest \<open>w1 = w\<close> by (auto elim!: bindE_InrE)
  moreover have "sec \<noteq> []" using assms(2) r unfolding secrets_nonempty_def by (metis snd_conv)
  ultimately show ?thesis
    using saving_keeps_apart [OF assms(1,3) _ wallet_file_names(3)] unfolding al_save_def by blast
next
  case BT_tfchain
  then obtain x where "tf_create fuel e name relay w = (Inr (a, x), w')"
    using assms(4) by (auto simp: chain_create_def elim!: bindE_InrE)
  then obtain w1 public m twin w2 address where "tf_exist e name w = (Inr False, w1)" and
    act: "activateAccountAndCreateTwin fuel e (we_new_mnemonic e w1) relay w1 = (Inr (public, m, twin), w2)" and
    init: "tf_init e name m w2 = (Inr address, w')"
    by (auto simp: tf_create_def elim!: bindE_InrE split: if_splits prod.splits)
  then have "w1 = w" using exist_same_world(3) [OF assms(3)] by blast
  have "m \<noteq> []" using activate_mnemonic [OF act] assms(2) by (simp add: secrets_nonempty_def)
  moreover have "same_files e w w2" using keeps_filesD [OF activate_files [OF assms(1)] act] \<open>w1 = w\<close> by simp
  moreover have "tf_save e name m w2 = (Inr (), w')"
    using init by (auto simp: tf_init_def elim!: bindE_InrE dest!: tf_client_world)
  ultimately show ?thesis
    using saving_keeps_apart [OF assms(1) fresh_name_same [OF _ assms(3)] _ wallet_file_names(1)] unfolding tf_save_def by blast
qed

text \<open>
  Creating an account on any of the three chains keeps every name on at most one of them.
\<close>

theorem create_keeps_names_apart:
  assumes "storage_laws e" and "secrets_nonempty e" and "names_apart e (bc_world b)" and "bc_create fuel e t name relay b = (Inr a, b')"
  shows "names_apart e (bc_world b')"
proof -
  obtain ms ma mt where b: "books e (bc_world b) ms ma mt" "dom ms \<inter> dom ma = {}" "dom ms \<inter> dom mt = {}" "dom ma \<inter> dom mt = {}"
    using assms(3) by (auto simp: names_apart_def)
  obtain w1 where ex: "any_exist e name (bc_world b) = (Inr False, w1)" and
    rest: "on_world (chain_create fuel e t name relay) (b\<lparr>bc_world := w1\<rparr>) = (Inr a, b')"
    using assms(4) by (auto simp: bc_create_def on_world_Inr elim!: bindE_InrE split: if_splits)
  from any_exist_names [OF b(1) ex] have "w1 = bc_world b" "fresh_name e name (bc_world b)"
    using b unfolding fresh_name_def by blast+
  with rest chain_create_apart [OF assms(1,2)] show ?thesis by (auto simp: on_world_Inr)
qed

end
