(* ===== verification/WalletExamples.thy ===== *)
theory WalletExamples
  imports WalletProps StorageProps
begin

text \<open>
  An environment of wallets in local storage, with a reader of objects of texts: what the properties
  of \<open>WalletProps\<close> assume holds there, and they apply to it.
\<close>

subsection \<open>Reading objects of texts\<close>

definition hex_value :: "char \<Rightarrow> nat" where
  "hex_value c = (let n = of_char c in if n < 58 then n - 48 else n - 87)"

fun read_chars :: "string \<Rightarrow> (string \<times> string) option" where
  "read_chars [] = None"
| "read_chars (c # t) =
     (if c = CHR 0x22 then Some ([], t)
      else if c = CHR 0x5C then (case t of
          [] \<Rightarrow> None
        | d # t1 \<Rightarrow> if d = CHR ''u''
            then (case t1 of a # b # h # l # t2 \<Rightarrow> map_option (\<lambda>(s, r). (char_of (16 * hex_value h + hex_value l) # s, r)) (read_chars t2)
                  | _ \<Rightarrow> None)
            else map_option (\<lambda>(s, r). ((if d = CHR ''b'' then char_of (8::nat) else if d = CHR ''t'' then char_of (9::nat)
                 else if d = CHR ''n'' then char_of (10::nat) else if d = CHR ''f'' then char_of (12::nat)
                 else if d = CHR ''r'' then char_of (13::nat) else d) # s, r)) (read_chars t1))
      else map_option (\<lambda>(s, r). (c # s, r)) (read_chars t))"

fun read_fields :: "nat \<Rightarrow> string \<Rightarrow> (string \<times> string) list option" where
  "read_fields 0 t = None"
| "read_fields (Suc n) t = Option.bind (read_chars (tl t)) (\<lambda>(k, t1). Option.bind (read_chars (drop 2 t1)) (\<lambda>(v, t2).
     if take 1 t2 = ''}'' then Some [(k, v)] else map_option (Cons (k, v)) (read_fields n (tl t2))))"

definition read_object :: "string \<Rightarrow> js_error + json" where
  "read_object t = (if t = [CHR 0x22, CHR 0x22] then Inr (J_str [])
     else if t = ''{}'' then Inr (J_obj [])
     else (case read_fields (length t) (tl t) of None \<Rightarrow> Inl TypeError | Some ps \<Rightarrow> Inr (J_obj (as_json ps))))"

lemma hex_value_hex: "d < 16 \<Longrightarrow> hex_value (if d < 10 then digit_char d else char_of (87 + d)) = d"
  by (auto simp: hex_value_def digit_char_def Let_def)

lemma quote_char_u:
  assumes "of_char c < (32::nat)"
  shows "read_chars (CHR 0x5C # CHR ''u'' # CHR ''0'' # CHR ''0''
      # (let d = of_char c div 16 in if d < 10 then digit_char d else char_of (87 + d))
      # (let d = of_char c mod 16 in if d < 10 then digit_char d else char_of (87 + d)) # t)
    = map_option (\<lambda>(s, r). (c # s, r)) (read_chars t)"
proof -
  have "of_char c div 16 < (16::nat)" "of_char c mod 16 < (16::nat)" using assms by simp_all
  moreover have "char_of (16 * (of_char c div 16) + of_char c mod (16::nat)) = c"
    by (metis char_of_char mult_div_mod_eq)
  ultimately show ?thesis by (simp add: hex_value_hex Let_def del: char_of_nat)
qed

lemma char_of_eqI: "of_char c = (n::nat) \<Longrightarrow> char_of n = c"
  by (metis char_of_char)

lemma read_quote_char: "read_chars (quote_char c @ t) = map_option (\<lambda>(s, r). (c # s, r)) (read_chars t)"
proof -
  consider "c = CHR 0x22" | "c = CHR 0x5C" | "of_char c \<in> {8, 9, 10, 12, 13::nat}"
    | "of_char c < (32::nat)" "of_char c \<notin> {8, 9, 10, 12, 13::nat}" | "(32::nat) \<le> of_char c" "c \<noteq> CHR 0x22" "c \<noteq> CHR 0x5C"
    by (metis not_less)
  then show ?thesis
  proof cases
    case 3
    then show ?thesis by (elim insertE emptyE) (simp_all add: quote_char_def Let_def char_of_eqI)
  next
    case 4
    then have "c \<noteq> CHR 0x22" "c \<noteq> CHR 0x5C" by auto
    with 4 have "quote_char c @ t = CHR 0x5C # CHR ''u'' # CHR ''0'' # CHR ''0''
      # (let d = of_char c div 16 in if d < 10 then digit_char d else char_of (87 + d))
      # (let d = of_char c mod 16 in if d < 10 then digit_char d else char_of (87 + d)) # t"
      by (simp add: quote_char_def Let_def)
    with quote_char_u [OF 4(1)] show ?thesis by simp
  qed (simp_all add: quote_char_def Let_def)
qed

lemma read_quote: "read_chars (tl (quote s) @ t) = Some (s, t)"
proof (induction s)
  case (Cons c s)
  then show ?case by (simp add: quote_def read_quote_char del: read_chars.simps)
qed (simp add: quote_def)

definition field_text :: "string \<times> string \<Rightarrow> string" where
  "field_text p = quote (fst p) @ '':'' @ quote (snd p)"

lemma read_field:
  "read_fields (Suc n) (field_text p @ t) = (if take 1 t = ''}'' then Some [p] else map_option (Cons p) (read_fields n (tl t)))"
proof -
  have q: "quote s = CHR 0x22 # tl (quote s)" for s by (simp add: quote_def)
  have "tl (field_text p @ t) = tl (quote (fst p)) @ '':'' @ quote (snd p) @ t" by (simp add: field_text_def quote_def)
  moreover have "drop 2 ('':'' @ quote (snd p) @ t) = tl (quote (snd p)) @ t" by (simp add: quote_def)
  ultimately show ?thesis by (simp add: read_quote del: read_chars.simps)
qed

lemma read_fields_written:
  "length ps < n \<Longrightarrow> read_fields n (field_text p @ concat (map (\<lambda>q. '','' @ field_text q) ps) @ ''}'') = Some (p # ps)"
proof (induction ps arbitrary: p n)
  case Nil
  then obtain m where "n = Suc m" by (cases n) auto
  then show ?case by (simp only: read_field) simp
next
  case (Cons q ps)
  then obtain m where n: "n = Suc m" "length ps < m" by (cases n) auto
  show ?case unfolding n(1) read_field using Cons.IH [OF n(2), of q] by simp
qed

lemma read_object_written: "read_object (stringify (J_obj (as_json ps))) = Inr (J_obj (as_json ps))"
proof (cases ps)
  case Nil
  then show ?thesis by (simp add: read_object_def as_json_def join_with_def)
next
  case (Cons p qs)
  have written: "stringify (J_obj (as_json ps)) = ''{'' @ field_text p @ concat (map (\<lambda>q. '','' @ field_text q) qs) @ ''}''"
    by (simp add: Cons as_json_def join_with_def o_def case_prod_beta field_text_def)
  have "length qs \<le> length (concat (map (\<lambda>q. '','' @ field_text q) qs))"
    by (induction qs) simp_all
  then have "length qs < length (stringify (J_obj (as_json ps)))" unfolding written by simp
  from read_fields_written [OF this, of p]
  have "read_fields (length (stringify (J_obj (as_json ps)))) (tl (stringify (J_obj (as_json ps)))) = Some (p # qs)"
    by (simp only: written append.simps list.sel)
  moreover have "stringify (J_obj (as_json ps)) \<noteq> [CHR 0x22, CHR 0x22]" "stringify (J_obj (as_json ps)) \<noteq> ''{}''"
    unfolding written by (simp_all add: field_text_def quote_def)
  ultimately show ?thesis by (simp add: read_object_def Cons)
qed

subsection \<open>Wallets in local storage\<close>

text \<open>The storage, the clock in milliseconds, and whether the network of Stellar answers.\<close>

record demo_wallets =
  dw_storage :: local_storage
  dw_time :: int
  dw_up :: bool

definition demo_wallet_env :: "demo_wallets wallet_env" where
  "demo_wallet_env = \<lparr>we_parse = read_object, we_read = (\<lambda>w k. Inr (ls_get k (dw_storage w))),
     we_set = (\<lambda>k v w. (Inr None, w\<lparr>dw_storage := ls_set k v (dw_storage w)\<rparr>)), we_tfkvstore = False,
     we_connect = Pair (Inr ()), we_applyAll = (\<lambda>_. Pair (Inr ())), we_path = (\<lambda>file. file), we_now = dw_time,
     we_sleep = (\<lambda>w. w\<lparr>dw_time := dw_time w + 1000\<rparr>), we_pallets = (\<lambda>_ _. Inr (demo_pallets\<lparr>q_account := (\<lambda>_. Inr \<lparr>ba_free = 0, ba_reserved = 0, ba_frozen = 0\<rparr>)\<rparr>)),
     we_mnemonic = ''m'', we_apply = (\<lambda>_ _. Pair (Inl TypeError)), we_twin_id = (\<lambda>_. 0),
     we_new_mnemonic = (\<lambda>_. ''new''), we_activate = (\<lambda>_. Pair (Inr ())), we_document_hash = (\<lambda>_ _. Inr ''hash''),
     we_tf_sign = (\<lambda>_ s. Inr s), we_st_public = (\<lambda>s. Inr (CHR ''G'' # s)), we_st_random = (\<lambda>_. (''GSN'', ''SN'')),
     we_st_fund = (\<lambda>_. Pair (Inr ())), we_st_account = (\<lambda>w _. if dw_up w then Inr [] else Inl TypeError),
     we_st_sign = (\<lambda>_ s. Inr s), we_st_verify = (\<lambda>_ _ _. Inr True), we_st_payment = (\<lambda>_ _ _ _ _ _. Inr ''txn''),
     we_st_submit = (\<lambda>_. Pair (Inr ''link'')), we_al_address = (\<lambda>s. Inr (CHR ''A'' # s)), we_al_random = (\<lambda>_. (''AM'', ''M'')),
     we_al_assets = (\<lambda>_ _. Inr []), we_al_params = (\<lambda>_. Inr []), we_al_payment = (\<lambda>_ _ _ _ _. Inr ''txn''),
     we_response_message = (\<lambda>_. None), we_al_signTransaction = (\<lambda>_ t. Inr t), we_al_submit = (\<lambda>_. Pair (Inr ''id'')),
     we_al_signBytes = (\<lambda>_ t. Inr t), we_hex_bytes = (\<lambda>t. t)\<rparr>"

lemma wallet_paths: "file \<in> wallet_files \<Longrightarrow> cropKey file = file"
  by (auto simp: wallet_files_def cropKey_def)

lemma ls_stored: "v \<noteq> [] \<Longrightarrow> ls_get k (ls_set k v s) = v"
  using ls.read_back [where s = s and k = k and v = v] by simp

lemma demo_storage_laws: "storage_laws demo_wallet_env"
proof -
  have "ls_get f (ls_set f v s) = v \<and> (\<forall>other \<in> wallet_files - {f}. ls_get other (ls_set f v s) = ls_get other s)"
    if "f \<in> wallet_files" "v \<noteq> []" for f v s
  proof (intro conjI ballI)
    show "ls_get f (ls_set f v s) = v" using that(2) by (rule ls_stored)
    fix other assume "other \<in> wallet_files - {f}"
    with that(1) have "cropKey f \<noteq> cropKey other" by (auto simp: wallet_paths)
    then show "ls_get other (ls_set f v s) = ls_get other s" using ls.read_apart by simp
  qed
  moreover have "\<exists>qs. read_object (stringify (J_obj (as_json ps))) = Inr (J_obj (as_json qs)) \<and> distinct (map fst qs) \<and> map_of qs = map_of ps"
    if "distinct (map fst ps)" for ps :: "(string \<times> string) list"
    using that read_object_written by blast
  ultimately show ?thesis
    unfolding storage_laws_def
    by (simp add: demo_wallet_env_def storing_def saveIfKVStoreBackend_def same_files_def bindE_def del: stringify.simps)
qed

abbreviation demo_empty :: "bool \<Rightarrow> demo_wallets" where
  "demo_empty up \<equiv> \<lparr>dw_storage = [], dw_time = 0, dw_up = up\<rparr>"

lemma demo_empty_book: "file \<in> wallet_files \<Longrightarrow> book demo_wallet_env file (demo_empty up) Map.empty"
  unfolding book_def
  by (rule exI [of _ "[]"]) (simp add: backend_load_def demo_wallet_env_def ls_get_def read_object_def)

theorem wallet_kept_until_deleted_witness:
  "\<exists>w1. st_get demo_wallet_env ''w'' w1 = (Inr \<lparr>ac_name = ''w'', ac_public = ''GS1'', ac_secret = ''S1'', ac_type = BT_stellar\<rparr>, w1)"
proof -
  obtain w1 where "st_init demo_wallet_env ''w'' ''S1'' (demo_empty True) = (Inr ''GS1'', w1)"
  proof -
    have "fst (st_init demo_wallet_env ''w'' ''S1'' (demo_empty True)) = Inr ''GS1''" by code_simp
    then show ?thesis using that by (cases "st_init demo_wallet_env ''w'' ''S1'' (demo_empty True)") auto
  qed
  from wallet_kept_until_deleted [OF demo_storage_laws demo_empty_book _ this] show ?thesis by auto
qed

theorem failed_update_loses_wallet_witness:
  "\<exists>w w' err. book demo_wallet_env st_file w [''w'' \<mapsto> ''S1''] \<and> st_update demo_wallet_env ''w'' ''S2'' w = (Inl err, w')
     \<and> book demo_wallet_env st_file w' Map.empty"
proof -
  let ?e = demo_wallet_env
  define w1 where "w1 = snd (st_save ?e ''w'' ''S1'' (demo_empty False))"
  have saved: "st_save ?e ''w'' ''S1'' (demo_empty False) = (Inr (), w1)"
  proof -
    have "fst (st_save ?e ''w'' ''S1'' (demo_empty False)) = Inr ()" by code_simp
    then show ?thesis unfolding w1_def by (metis prod.collapse)
  qed
  have good: "good_wallets ?e st_file (demo_empty False) Map.empty" using demo_storage_laws demo_empty_book by simp
  have b: "book ?e st_file w1 [''w'' \<mapsto> ''S1'']" using st.save_new [OF good _ saved] by simp
  have deleted: "st_delete ?e ''w'' w1 = (Inr ''Deleted'', snd (st_delete ?e ''w'' w1))"
  proof -
    have "fst (st_delete ?e ''w'' w1) = Inr ''Deleted''" unfolding w1_def by code_simp
    then show ?thesis by (metis prod.collapse)
  qed
  have "\<not> dw_up (snd (st_delete ?e ''w'' w1))" unfolding w1_def by code_simp
  then have down: "\<forall>pk. \<exists>err. we_st_account ?e (snd (st_delete ?e ''w'' w1)) pk = Inl err" by (simp add: demo_wallet_env_def)
  have known: "\<forall>s \<in> ran [''w'' \<mapsto> ''S1'']. \<exists>pk. we_st_public ?e s = Inr pk" by (simp add: demo_wallet_env_def)
  show ?thesis
    using failed_update_loses_wallet [OF demo_storage_laws b _ known deleted down, of "''S1''" "''S2''"] b by auto
qed

theorem activation_wait_ends_witness:
  "case fst (await_funds 11 demo_wallet_env ''m'' 0 5 (demo_empty True)) of Inl _ \<Rightarrow> True | Inr None \<Rightarrow> False
     | Inr (Some f) \<Rightarrow> 0 < f \<or> 10000 \<le> dw_time (snd (await_funds 11 demo_wallet_env ''m'' 0 5 (demo_empty True)))"
proof -
  have "\<forall>w. we_now demo_wallet_env w + 1000 \<le> we_now demo_wallet_env (we_sleep demo_wallet_env w)"
    by (simp add: demo_wallet_env_def)
  from activation_wait_ends [OF this, of "''m''" "demo_empty True" 5] show ?thesis
    by (auto simp: demo_wallet_env_def split: sum.splits option.splits)
qed

definition demo_chains :: "demo_wallets blockchain" where
  "demo_chains = \<lparr>bc_world = demo_empty True, bc_account = [], bc_type = None\<rparr>"

lemma demo_books: "books demo_wallet_env (bc_world demo_chains) Map.empty Map.empty Map.empty"
  by (simp add: books_def demo_chains_def demo_empty_book)

theorem create_keeps_names_apart_witness:
  "names_apart demo_wallet_env (bc_world (snd (bc_create 11 demo_wallet_env BT_algorand ''w'' [] demo_chains)))"
proof -
  let ?r = "bc_create 11 demo_wallet_env BT_algorand ''w'' [] demo_chains"
  have "fst ?r = Inr \<lparr>ac_name = ''w'', ac_public = ''AM'', ac_secret = ''M'', ac_type = BT_algorand\<rparr>" by code_simp
  then have r: "?r = (Inr \<lparr>ac_name = ''w'', ac_public = ''AM'', ac_secret = ''M'', ac_type = BT_algorand\<rparr>, snd ?r)" by (metis prod.collapse)
  have "names_apart demo_wallet_env (bc_world demo_chains)" unfolding names_apart_def using demo_books by auto
  moreover have "secrets_nonempty demo_wallet_env" by (simp add: secrets_nonempty_def demo_wallet_env_def)
  ultimately show ?thesis using create_keeps_names_apart [OF demo_storage_laws _ _ r] by blast
qed

theorem selected_account_found_witness:
  "\<exists>b a. bc_account b = ''w'' \<and> fst (bc_get demo_wallet_env b) = Inr a \<and> ac_type a = BT_algorand \<and> ac_secret a = ''M''"
proof -
  let ?e = demo_wallet_env
  define w1 where "w1 = snd (al_save ?e ''w'' ''M'' (demo_empty True))"
  define b where "b = demo_chains\<lparr>bc_world := w1\<rparr>"
  have saved: "al_save ?e ''w'' ''M'' (demo_empty True) = (Inr (), w1)"
  proof -
    have "fst (al_save ?e ''w'' ''M'' (demo_empty True)) = Inr ()" by code_simp
    then show ?thesis unfolding w1_def by (metis prod.collapse)
  qed
  have books: "books ?e (bc_world b) Map.empty [''w'' \<mapsto> ''M''] Map.empty"
    using save_wallet_book(1) [OF demo_storage_laws wallet_file_names(3) demo_empty_book _ saved [unfolded al_save_def]]
    by (simp add: books_def b_def demo_empty_book)
  have s: "bc_select ?e ''w'' b = (Inr ''w'', snd (bc_select ?e ''w'' b))"
  proof -
    have "fst (bc_select ?e ''w'' b) = Inr ''w''" unfolding b_def w1_def by code_simp
    then show ?thesis by (metis prod.collapse)
  qed
  let ?a = "\<lparr>ac_name = ''w'', ac_public = ''AM'', ac_secret = ''M'', ac_type = BT_algorand\<rparr>"
  have g: "bc_get ?e (snd (bc_select ?e ''w'' b)) = (Inr ?a, snd (bc_get ?e (snd (bc_select ?e ''w'' b))))"
  proof -
    have "fst (bc_get ?e (snd (bc_select ?e ''w'' b))) = Inr ?a" unfolding b_def w1_def by code_simp
    then show ?thesis by (metis prod.collapse)
  qed
  have "ac_name ?a = ''w'' \<and> (ac_type ?a, Some (ac_secret ?a)) = (BT_algorand, Some ''M'')"
    using selected_account_found [OF books s _ g] by simp
  moreover have "bc_account (snd (bc_select ?e ''w'' b)) = ''w''" unfolding b_def w1_def by code_simp
  ultimately show ?thesis using g by (metis account.select_convs(3,4) fst_conv)
qed

end
