(* ===== verification/Connecting.thy ===== *)
theory Connecting
  imports Chain
begin

text \<open>
  \<open>tfchain_client/src/client.ts\<close>: the connections the clients share (\<open>QueryClient\<close>: \<open>wait\<close>,
  \<open>newProvider\<close>, \<open>connect\<close>, \<open>disconnect\<close>), the key of a client, and waiting for an event
  (\<open>listenForEvent\<close>, with \<open>tft_bridge.ts\<close>).
\<close>

subsection \<open>Connections\<close>

text \<open>
  An api is a number; the outside knows which apis are connected.  Creating one opens a provider,
  which has the number of the next api.
\<close>

record 'w connect_env =
  ce_now :: "'w \<Rightarrow> int"
  ce_tick :: "'w \<Rightarrow> 'w"
  ce_connected :: "'w \<Rightarrow> nat \<Rightarrow> bool"
  ce_provider :: "string \<Rightarrow> 'w \<Rightarrow> nat \<times> 'w"
  ce_create :: "nat \<Rightarrow> bool \<Rightarrow> 'w \<Rightarrow> (js_error + nat) \<times> 'w"
  ce_drop :: "nat \<Rightarrow> 'w \<Rightarrow> 'w"
  ce_close :: "nat \<Rightarrow> 'w \<Rightarrow> (js_error + unit) \<times> 'w"

text \<open>
  What the clients share: the connection of each address with the handler it was made with (the
  number of the client), the lock, and the handlers that listen to an api; and the api of the client.
\<close>

record 'w query_client =
  qc_world :: 'w
  qc_connections :: "(string \<times> nat \<times> nat) list"
  qc_lock :: bool
  qc_handlers :: "(nat \<times> string \<times> nat) list"
  qc_api :: "nat option"

type_synonym ('w, 'r) connect_eff = "('w query_client, js_error, 'r) eff"

text \<open>The address, whether to keep reconnecting, and the number of the client.\<close>

record query_options =
  qo_url :: string
  qo_keepReconnecting :: bool
  qo_self :: nat

definition isConnected :: "'w connect_env \<Rightarrow> 'w query_client \<Rightarrow> bool" where
  "isConnected e c = (case qc_api c of None \<Rightarrow> False | Some a \<Rightarrow> ce_connected e (qc_world c) a)"

definition qc_outside :: "('w \<Rightarrow> 'r \<times> 'w) \<Rightarrow> ('w, 'r) connect_eff" where
  "qc_outside f = (\<lambda>c. case f (qc_world c) of (r, w) \<Rightarrow> (Inr r, c\<lparr>qc_world := w\<rparr>))"

definition qc_request :: "('w \<Rightarrow> (js_error + 'r) \<times> 'w) \<Rightarrow> ('w, 'r) connect_eff" where
  "qc_request f = bindE (qc_outside f) liftE"

text \<open>
  The loop of \<open>wait\<close>, with fuel: whether it ended by itself or by the clock.  Without an api, asking
  it is a \<open>TypeError\<close>.
\<close>

fun wait_loop_api :: "nat \<Rightarrow> 'w connect_env \<Rightarrow> bool \<Rightarrow> int \<Rightarrow> ('w, bool) connect_eff" where
  "wait_loop_api 0 e connection start = throwE diverges"
| "wait_loop_api (Suc n) e connection start = bindE (getE (\<lambda>c. (ce_now e (qc_world c), qc_api c, isConnected e c))) (\<lambda>(now, api, up).
     if now < start + 10 * 1000
     then (if api = None then throwE TypeError
           else if up = connection then retE True
           else bindE (modifyE (\<lambda>c. c\<lparr>qc_world := ce_tick e (qc_world c)\<rparr>)) (\<lambda>_. wait_loop_api n e connection start))
     else retE False)"

definition wait_api :: "nat \<Rightarrow> 'w connect_env \<Rightarrow> string \<Rightarrow> bool \<Rightarrow> ('w, unit) connect_eff" where
  "wait_api fuel e url connection = bindE (getE (\<lambda>c. ce_now e (qc_world c))) (\<lambda>start.
     bindE (wait_loop_api fuel e connection start) (\<lambda>ended.
       if \<not> ended \<and> connection
       then throwE (TimeoutError (''Client couldn'' @ apos # ''t connect to '' @ url @ '' after 10 seconds''))
       else retE ()))"

definition connection_of :: "string \<Rightarrow> 'w query_client \<Rightarrow> (nat \<times> nat) option" where
  "connection_of url c = map_of (qc_connections c) url"

text \<open>The api of the address, if a client has connected to it before.\<close>

definition use_connection :: "string \<Rightarrow> ('w, unit) connect_eff" where
  "use_connection url = modifyE (\<lambda>c. case connection_of url c of None \<Rightarrow> c | Some (a, _) \<Rightarrow> c\<lparr>qc_api := Some a\<rparr>)"

text \<open>The handler taken off is the one kept with the address; an address that is not kept is a \<open>TypeError\<close>.\<close>

definition api_off :: "string \<Rightarrow> nat \<Rightarrow> ('w, unit) connect_eff" where
  "api_off url a = bindE (getE (connection_of url)) (\<lambda>k. case k of
     None \<Rightarrow> throwE TypeError
   | Some (_, h) \<Rightarrow> modifyE (\<lambda>c. c\<lparr>qc_handlers := remove1 (a, ''disconnected'', h) (qc_handlers c)\<rparr>))"

definition disconnect :: "nat \<Rightarrow> 'w connect_env \<Rightarrow> string \<Rightarrow> string option \<Rightarrow> ('w, unit) connect_eff" where
  "disconnect fuel e own url = (let clientUrl = (case url of None \<Rightarrow> own | Some u \<Rightarrow> if u = [] then own else u) in
     bindE (use_connection clientUrl) (\<lambda>_. bindE (getE (\<lambda>c. (isConnected e c, qc_api c))) (\<lambda>(up, api). case api of
         Some a \<Rightarrow> if up
           then bindE (api_off clientUrl a) (\<lambda>_. bindE (qc_request (ce_close e a)) (\<lambda>_. wait_api fuel e own False))
           else retE ()
       | None \<Rightarrow> retE ())))"

text \<open>What is done after an error: the provider is dropped, the error gets the address.\<close>

definition provider_failed :: "'w connect_env \<Rightarrow> string \<Rightarrow> nat option \<Rightarrow> js_error \<Rightarrow> ('w, 'r) connect_eff" where
  "provider_failed e url provider err =
     bindE (case provider of None \<Rightarrow> retE () | Some p \<Rightarrow> modifyE (\<lambda>c. c\<lparr>qc_world := ce_drop e p (qc_world c)\<rparr>)) (\<lambda>_.
       let message = ''Unable to establish a connection with the chain '' @ url @ '' '' @ [newline] in
       throwE (if is_base_error err then err\<lparr>err_message := message @ err_message err\<rparr> else TFChainError_msg message))"

definition open_provider :: "nat \<Rightarrow> 'w connect_env \<Rightarrow> query_options \<Rightarrow> ('w, unit) connect_eff" where
  "open_provider fuel e q = bindE (qc_outside (ce_provider e (qo_url q))) (\<lambda>p. catchE
     (bindE (qc_request (ce_create e p (\<not> qo_keepReconnecting q))) (\<lambda>a. bindE (modifyE (\<lambda>c. c\<lparr>qc_api := Some a\<rparr>)) (\<lambda>_.
        bindE (wait_api fuel e (qo_url q) True) (\<lambda>_.
          modifyE (\<lambda>c. c\<lparr>qc_connections := obj_set (qo_url q) (a, qo_self q) (qc_connections c),
             qc_handlers := qc_handlers c @ [(a, ''disconnected'', qo_self q), (a, ''error'', qo_self q)]\<rparr>)))))
     (provider_failed e (qo_url q) (Some p)))"

definition release_lock :: "('w, 'r) connect_eff \<Rightarrow> ('w, 'r) connect_eff" where
  "release_lock m = (\<lambda>c. case m c of (r, c') \<Rightarrow> (r, c'\<lparr>qc_lock := False\<rparr>))"

definition newProvider :: "nat \<Rightarrow> 'w connect_env \<Rightarrow> query_options \<Rightarrow> ('w, unit) connect_eff" where
  "newProvider fuel e q = release_lock (bindE (modifyE (\<lambda>c. c\<lparr>qc_lock := True\<rparr>)) (\<lambda>_.
     bindE (getE (connection_of (qo_url q))) (\<lambda>known. bindE (use_connection (qo_url q)) (\<lambda>_.
       bindE (getE (isConnected e)) (\<lambda>up. if known \<noteq> None \<and> up then retE ()
         else bindE (catchE (disconnect fuel e (qo_url q) None) (provider_failed e (qo_url q) None)) (\<lambda>_.
           open_provider fuel e q))))))"

text \<open>\<open>ready\<close> is \<open>checkInputs\<close> and \<open>loadKeyPairOrSigner\<close> of the client.\<close>

definition connect :: "nat \<Rightarrow> 'w connect_env \<Rightarrow> query_options \<Rightarrow> js_error + unit \<Rightarrow> ('w, unit) connect_eff" where
  "connect fuel e q ready = bindE (liftE ready) (\<lambda>_. bindE (getE (isConnected e)) (\<lambda>up. if up then retE ()
     else bindE (getE (connection_of (qo_url q))) (\<lambda>known. bindE (use_connection (qo_url q)) (\<lambda>_.
       bindE (getE (isConnected e)) (\<lambda>up. if known \<noteq> None \<and> up then retE () else newProvider fuel e q)))))"

text \<open>The inputs of a client that only asks, and the address of a client that signs.\<close>

definition query_checkInputs :: "string \<Rightarrow> js_error + unit" where
  "query_checkInputs url = (if url = [] then Inl (ValidationError ''url should be provided'') else Inr ())"

definition loadKeyPairOrSigner ::
  "(string \<Rightarrow> js_error + string) \<Rightarrow> string \<Rightarrow> string option \<Rightarrow> string \<Rightarrow> js_error + string"
where
  "loadKeyPairOrSigner addFromUri secret extSigner address =
     bindR (if secret \<noteq> [] \<and> address = [] then (case addFromUri secret of
         Inl _ \<Rightarrow> Inl (ValidationError ''Invalid mnemonic or secret seed! Please check your input.'') | Inr a \<Rightarrow> Inr a)
       else Inr address) (\<lambda>a. Inr (case extSigner of Some s \<Rightarrow> if a = [] then s else a | None \<Rightarrow> a))"

subsection \<open>Waiting for an event\<close>

text \<open>
  The promise: whether the subscription is on, the timers that were not cleared, and how the promise
  was settled first.  Each block sets a timer of its own.
\<close>

record 'd block_event =
  be_section :: string
  be_method :: string
  be_data :: 'd

datatype 'd settled = Resolved 'd | Rejected string

record 'd listening =
  li_on :: bool
  li_timers :: "int list"
  li_settled :: "'d settled option"

definition settle :: "'d settled \<Rightarrow> 'd listening \<Rightarrow> 'd listening" where
  "settle r l = l\<lparr>li_settled := (case li_settled l of None \<Rightarrow> Some r | Some r' \<Rightarrow> Some r')\<rparr>"

definition unsubscribe :: "'d listening \<Rightarrow> 'd listening" where
  "unsubscribe l = l\<lparr>li_on := False\<rparr>"

definition timeout_text :: "int \<Rightarrow> string" where
  "timeout_text minutes = ''Timeout: No response within '' @ show_int minutes @ '' minutes''"

text \<open>The events of one block; \<open>timer\<close> is the timer of the block.\<close>

fun on_events :: "('d \<Rightarrow> string + bool) \<Rightarrow> string \<Rightarrow> string \<Rightarrow> int \<Rightarrow> 'd block_event list \<Rightarrow> 'd listening \<Rightarrow> 'd listening" where
  "on_events validator section method timer [] l = l"
| "on_events validator section method timer (ev # evs) l =
     (if be_section ev = section \<and> be_method ev = method
      then (case validator (be_data ev) of
          Inl err \<Rightarrow> unsubscribe (settle (Rejected (''Cannot reach the key with error:'' @ [newline, CHR 0x09] @ err)) l)
        | Inr True \<Rightarrow> unsubscribe (settle (Resolved (be_data ev)) (l\<lparr>li_timers := remove1 timer (li_timers l)\<rparr>))
        | Inr False \<Rightarrow> on_events validator section method timer evs (unsubscribe l))
      else on_events validator section method timer evs l)"

text \<open>The timers that are due when it is \<open>now\<close>.\<close>

definition fire_timers :: "int \<Rightarrow> int \<Rightarrow> 'd listening \<Rightarrow> 'd listening" where
  "fire_timers minutes now l =
     (if \<exists>t \<in> set (li_timers l). t \<le> now
      then unsubscribe (settle (Rejected (timeout_text minutes)) l)\<lparr>li_timers := filter (\<lambda>t. now < t) (li_timers l)\<rparr>
      else l)"

definition on_block ::
  "('d \<Rightarrow> string + bool) \<Rightarrow> string \<Rightarrow> string \<Rightarrow> int \<Rightarrow> int \<times> 'd block_event list \<Rightarrow> 'd listening \<Rightarrow> 'd listening"
where
  "on_block validator section method minutes block l0 =
     (let l = fire_timers minutes (fst block) l0; timer = fst block + minutes * 60000 in
      if li_on l then on_events validator section method timer (snd block) (l\<lparr>li_timers := li_timers l @ [timer]\<rparr>) else l)"

definition not_defined :: "string \<Rightarrow> string \<Rightarrow> js_error" where
  "not_defined what where_text = ValidationError (''<'' @ what @ ''> is not defined on the chain'' @ where_text)"

text \<open>
  The sections of the events with their methods, then the blocks in the order they come: the promise
  once the clock shows \<open>until\<close>.
\<close>

definition listenForEvent ::
  "(string \<times> string list) list \<Rightarrow> string \<Rightarrow> string \<Rightarrow> ('d \<Rightarrow> string + bool) \<Rightarrow> int
   \<Rightarrow> (int \<times> 'd block_event list) list \<Rightarrow> int \<Rightarrow> js_error + 'd settled option"
where
  "listenForEvent sections section method validator minutes blocks until =
     (case map_of sections section of
        None \<Rightarrow> Inl (not_defined section [])
      | Some methods \<Rightarrow> if method \<notin> set methods then Inl (not_defined method ('' under '' @ section))
          else Inr (li_settled (fire_timers minutes until
            (fold (on_block validator section method minutes) blocks \<lparr>li_on = True, li_timers = [], li_settled = None\<rparr>))))"

text \<open>The bridge: the data of a mint, by the fields of its first element; reading one that is missing throws.\<close>

definition mintCheck :: "string \<Rightarrow> (string \<times> string) list list \<Rightarrow> string + bool" where
  "mintCheck address d = (case d of [] \<Rightarrow> Inl ''TypeError'' | x # _ \<Rightarrow>
     (case map_of x ''target'' of None \<Rightarrow> Inl ''TypeError'' | Some t \<Rightarrow> Inr (t = address)))"

definition listenToMintCompleted ::
  "(string \<times> string list) list \<Rightarrow> string \<Rightarrow> int \<Rightarrow> (int \<times> (string \<times> string) list list block_event list) list \<Rightarrow> int
   \<Rightarrow> js_error + (string \<times> string) list list settled option"
where
  "listenToMintCompleted sections address minutes blocks until =
     listenForEvent sections ''tftBridgeModule'' ''MintCompleted'' (mintCheck address) minutes blocks until"

end
