(* ===== verification/ConnectingProps.thy ===== *)
theory ConnectingProps
  imports Connecting
begin

text \<open>
  A client that connected has an api that is connected, the lock is free again, a connection is shared,
  and waiting ends; what waiting for an event comes to.
\<close>

subsection \<open>Waiting\<close>

text \<open>What waiting leaves as it was: all but the world.\<close>

definition same_shared :: "'w query_client \<Rightarrow> 'w query_client \<Rightarrow> bool" where
  "same_shared c c' \<longleftrightarrow> qc_connections c' = qc_connections c \<and> qc_lock c' = qc_lock c \<and> qc_handlers c' = qc_handlers c \<and> qc_api c' = qc_api c"

lemma same_shared_refl [simp]: "same_shared c c" "same_shared c (c\<lparr>qc_world := w\<rparr>)"
  by (simp_all add: same_shared_def)

lemma same_shared_trans: "same_shared a b \<Longrightarrow> same_shared b c \<Longrightarrow> same_shared a c"
  by (simp add: same_shared_def)

lemma wait_loop_api_shared:
  assumes "wait_loop_api n e connection start c = (r, c')"
  shows "same_shared c c' \<and> (r = Inr True \<longrightarrow> isConnected e c' = connection)"
  using assms
proof (induction n arbitrary: c)
  case (Suc n)
  show ?case
  proof (cases "ce_now e (qc_world c) < start + 10 * 1000 \<and> qc_api c \<noteq> None \<and> isConnected e c \<noteq> connection")
    case True
    then have "wait_loop_api n e connection start (c\<lparr>qc_world := ce_tick e (qc_world c)\<rparr>) = (r, c')"
      using Suc.prems by (auto simp: bindE_def)
    from Suc.IH [OF this] show ?thesis by (simp add: same_shared_def)
  next
    case False
    with Suc.prems show ?thesis by (auto simp: bindE_def split: if_splits)
  qed
qed auto

text \<open>The rounds of waiting, each of a tenth of a second.\<close>

lemma wait_loop_api_rounds:
  assumes "\<forall>w. ce_now e w + 100 \<le> ce_now e (ce_tick e w)" and "start + 100 * int k \<le> ce_now e (qc_world c)" and "101 \<le> k + n" and "0 < n"
    and "qc_api c \<noteq> None"
  shows "\<exists>j \<le> 100 - k. qc_world (snd (wait_loop_api n e connection start c)) = (ce_tick e ^^ j) (qc_world c)
    \<and> (\<exists>b. fst (wait_loop_api n e connection start c) = Inr b)"
  using assms(2-)
proof (induction n arbitrary: k c)
  case (Suc n)
  show ?case
  proof (cases "ce_now e (qc_world c) < start + 10 * 1000 \<and> qc_api c \<noteq> None \<and> isConnected e c \<noteq> connection")
    case True
    let ?c = "c\<lparr>qc_world := ce_tick e (qc_world c)\<rparr>"
    have step: "wait_loop_api (Suc n) e connection start c = wait_loop_api n e connection start ?c"
      using True by (auto simp: bindE_def)
    have k: "k < 100" using True Suc.prems(1) by linarith
    have "ce_now e (qc_world c) + 100 \<le> ce_now e (ce_tick e (qc_world c))" using assms(1) by blast
    then have "start + 100 * int (Suc k) \<le> ce_now e (qc_world ?c)" using Suc.prems(1) by simp
    with Suc.IH [of "Suc k" ?c] Suc.prems(2) k obtain j where
      j: "j \<le> 100 - Suc k" "qc_world (snd (wait_loop_api n e connection start ?c)) = (ce_tick e ^^ j) (ce_tick e (qc_world c))" and
      r: "\<exists>b. fst (wait_loop_api n e connection start ?c) = Inr b"
      using Suc.prems(4) by auto
    have "(ce_tick e ^^ Suc j) (qc_world c) = (ce_tick e ^^ j) (ce_tick e (qc_world c))" by (simp add: funpow_swap1)
    moreover have "Suc j \<le> 100 - k" using j(1) k by simp
    ultimately show ?thesis unfolding step using j(2) r by metis
  next
    case False
    with Suc.prems(4) show ?thesis by (intro exI [of _ 0]) (auto simp: bindE_def)
  qed
qed simp

theorem waiting_for_connection_ends:
  assumes "\<forall>w. ce_now e w + 100 \<le> ce_now e (ce_tick e w)" and "qc_api c \<noteq> None"
  shows "\<exists>j \<le> 100. qc_world (snd (wait_api 101 e url connection c)) = (ce_tick e ^^ j) (qc_world c)
    \<and> (fst (wait_api 101 e url connection c) = Inr ()
       \<or> connection \<and> (\<exists>m. fst (wait_api 101 e url connection c) = Inl (TimeoutError m)))"
proof -
  let ?w = "wait_loop_api 101 e connection (ce_now e (qc_world c)) c"
  obtain j b where j: "j \<le> 100" "qc_world (snd ?w) = (ce_tick e ^^ j) (qc_world c)" and b: "fst ?w = Inr b"
    using wait_loop_api_rounds [OF assms(1), of "ce_now e (qc_world c)" 0 c 101 connection] assms(2) by auto
  obtain c' where w: "?w = (Inr b, c')" using b by (metis prod.collapse)
  with j show ?thesis
    by (intro exI [of _ j]) (simp add: wait_api_def bindE_def del: wait_loop_api.simps, blast)
qed

subsection \<open>Connecting\<close>

lemma wait_api_Inr:
  assumes "wait_api fuel e url connection c = (Inr u, c')"
  shows "same_shared c c' \<and> (connection \<longrightarrow> isConnected e c')"
proof -
  obtain ended where "wait_loop_api fuel e connection (ce_now e (qc_world c)) c = (Inr ended, c')" "ended \<or> \<not> connection"
    using assms by (auto simp: wait_api_def elim!: bindE_InrE split: if_splits)
  from wait_loop_api_shared [OF this(1)] this(2) show ?thesis by auto
qed

lemma provider_failed_Inl: "provider_failed e url p err c \<noteq> (Inr x, c')"
  by (auto simp: provider_failed_def bindE_def Let_def split: option.splits)

lemma catchE_provider: "catchE m (provider_failed e url p) c = (Inr x, c') \<longleftrightarrow> m c = (Inr x, c')"
  by (cases "m c", cases "fst (m c)") (simp_all add: catchE_def provider_failed_Inl)

lemma open_provider_Inr:
  assumes "open_provider fuel e q c = (Inr u, c')"
  shows "isConnected e c' \<and> (\<exists>a. qc_api c' = Some a \<and> connection_of (qo_url q) c' = Some (a, qo_self q))"
proof -
  obtain p w a c1 c2 where "qc_request (ce_create e p (\<not> qo_keepReconnecting q)) (c\<lparr>qc_world := w\<rparr>) = (Inr a, c1)" and
    w: "wait_api fuel e (qo_url q) True (c1\<lparr>qc_api := Some a\<rparr>) = (Inr (), c2)" and
    c': "c' = c2\<lparr>qc_connections := obj_set (qo_url q) (a, qo_self q) (qc_connections c2),
             qc_handlers := qc_handlers c2 @ [(a, ''disconnected'', qo_self q), (a, ''error'', qo_self q)]\<rparr>"
    using assms by (auto simp: open_provider_def catchE_provider qc_outside_def elim!: bindE_InrE split: prod.splits)
  from wait_api_Inr [OF w] have "isConnected e c2" "qc_api c2 = Some a" by (auto simp: same_shared_def)
  then show ?thesis unfolding c' by (simp add: isConnected_def connection_of_def)
qed

text \<open>Whatever happens, the lock of the connections is free after an attempt.\<close>

lemma newProvider_unlocks: "\<not> qc_lock (snd (newProvider fuel e q c))"
  by (simp add: newProvider_def release_lock_def split: prod.splits)

lemma newProvider_Inr:
  assumes "newProvider fuel e q c = (Inr u, c')"
  shows "isConnected e c' \<and> (\<exists>a h. qc_api c' = Some a \<and> connection_of (qo_url q) c' = Some (a, h))"
proof -
  define c0 where "c0 = c\<lparr>qc_lock := True\<rparr>"
  obtain c2 c1 where c1: "use_connection (qo_url q) c0 = (Inr (), c1)" and c': "c' = c2\<lparr>qc_lock := False\<rparr>" and
    rest: "(if connection_of (qo_url q) c0 \<noteq> None \<and> isConnected e c1 then retE ()
       else bindE (catchE (disconnect fuel e (qo_url q) None) (provider_failed e (qo_url q) None)) (\<lambda>_. open_provider fuel e q)) c1 = (Inr u, c2)"
    using assms by (auto simp: newProvider_def release_lock_def c0_def elim!: bindE_InrE split: prod.splits)
  have "isConnected e c2 \<and> (\<exists>a h. qc_api c2 = Some a \<and> connection_of (qo_url q) c2 = Some (a, h))"
  proof (cases "connection_of (qo_url q) c0 \<noteq> None \<and> isConnected e c1")
    case True
    then obtain a h where "connection_of (qo_url q) c0 = Some (a, h)" by auto
    moreover have "c2 = c1" using rest True by simp
    ultimately show ?thesis using c1 True by (auto simp: use_connection_def connection_of_def)
  next
    case False
    then obtain c3 where "open_provider fuel e q c3 = (Inr u, c2)" using rest by (auto elim!: bindE_InrE)
    then show ?thesis using open_provider_Inr by blast
  qed
  moreover have "isConnected e c' = isConnected e c2" "qc_api c' = qc_api c2" "connection_of url c' = connection_of url c2" for url
    unfolding c' by (simp_all add: isConnected_def connection_of_def split: option.splits)
  ultimately show ?thesis by simp
qed

text \<open>
  A call of connect that returns leaves the client with an api that is connected and the
  lock free, and a new one is known to all clients under its address.
\<close>

theorem connect_connected:
  assumes "connect fuel e q ready c = (Inr u, c')" and "\<not> qc_lock c"
  shows "ready = Inr () \<and> isConnected e c' \<and> \<not> qc_lock c'
    \<and> (isConnected e c \<and> c' = c \<or> (\<exists>a h. qc_api c' = Some a \<and> connection_of (qo_url q) c' = Some (a, h)))"
proof (cases "isConnected e c")
  case True
  then show ?thesis using assms by (auto simp: connect_def liftE_def elim!: bindE_InrE split: sum.splits)
next
  case False
  obtain c1 where c1: "use_connection (qo_url q) c = (Inr (), c1)" and ready: "ready = Inr ()" and
    rest: "(if connection_of (qo_url q) c \<noteq> None \<and> isConnected e c1 then retE () else newProvider fuel e q) c1 = (Inr u, c')"
    using assms(1) False by (auto simp: connect_def liftE_def elim!: bindE_InrE split: sum.splits)
  show ?thesis
  proof (cases "connection_of (qo_url q) c \<noteq> None \<and> isConnected e c1")
    case True
    then obtain a h where "connection_of (qo_url q) c = Some (a, h)" by auto
    moreover have "c' = c1" using rest True by simp
    ultimately show ?thesis using c1 True ready assms(2) by (auto simp: use_connection_def connection_of_def)
  next
    case False
    then have "newProvider fuel e q c1 = (Inr u, c')" using rest by auto
    from newProvider_Inr [OF this] newProvider_unlocks [of fuel e q c1] this ready show ?thesis by simp
  qed
qed

subsection \<open>Events\<close>

definition relevant :: "string \<Rightarrow> string \<Rightarrow> 'd block_event list \<Rightarrow> 'd list" where
  "relevant section method evs = map be_data (filter (\<lambda>ev. be_section ev = section \<and> be_method ev = method) evs)"

definition verdict :: "('d \<Rightarrow> string + bool) \<Rightarrow> 'd \<Rightarrow> 'd settled" where
  "verdict validator d = (case validator d of Inl err \<Rightarrow> Rejected (''Cannot reach the key with error:'' @ [newline, CHR 0x09] @ err)
     | Inr _ \<Rightarrow> Resolved d)"

definition decision :: "('d \<Rightarrow> string + bool) \<Rightarrow> 'd list \<Rightarrow> 'd settled option" where
  "decision validator ds = map_option (verdict validator) (find (\<lambda>d. validator d \<noteq> Inr False) ds)"

text \<open>
  The outcome: decided by the first block, within the time since the first block, that has such an event
  at all; if none of its events is accepted, only the time is left.
\<close>

definition outcome_before ::
  "('d \<Rightarrow> string + bool) \<Rightarrow> string \<Rightarrow> string \<Rightarrow> int \<Rightarrow> int \<Rightarrow> (int \<times> 'd block_event list) list \<Rightarrow> int \<Rightarrow> 'd settled option"
where
  "outcome_before validator section method minutes deadline blocks until =
     (case find (\<lambda>b. relevant section method (snd b) \<noteq> []) (takeWhile (\<lambda>b. fst b < deadline) blocks) of
        Some b \<Rightarrow> (case decision validator (relevant section method (snd b)) of
            Some r \<Rightarrow> Some r | None \<Rightarrow> if deadline \<le> until then Some (Rejected (timeout_text minutes)) else None)
      | None \<Rightarrow> if deadline \<le> until then Some (Rejected (timeout_text minutes)) else None)"

definition listening_outcome ::
  "('d \<Rightarrow> string + bool) \<Rightarrow> string \<Rightarrow> string \<Rightarrow> int \<Rightarrow> (int \<times> 'd block_event list) list \<Rightarrow> int \<Rightarrow> 'd settled option"
where
  "listening_outcome validator section method minutes blocks until = (case blocks of [] \<Rightarrow> None
     | b0 # _ \<Rightarrow> outcome_before validator section method minutes (fst b0 + minutes * 60000) blocks until)"

lemma settle_simps [simp]: "li_on (settle r l) = li_on l" "li_timers (settle r l) = li_timers l"
    "li_settled (settle r l) = (case li_settled l of None \<Rightarrow> Some r | Some r' \<Rightarrow> Some r')"
    "li_on (unsubscribe l) = False" "li_timers (unsubscribe l) = li_timers l" "li_settled (unsubscribe l) = li_settled l"
  by (simp_all add: settle_def unsubscribe_def)

lemma on_events_spec:
  assumes "li_settled l = None"
  shows "relevant section method evs = [] \<Longrightarrow> on_events validator section method timer evs l = l"
    and "relevant section method evs \<noteq> [] \<Longrightarrow> decision validator (relevant section method evs) = None
      \<Longrightarrow> on_events validator section method timer evs l = unsubscribe l"
    and "decision validator (relevant section method evs) = Some r
      \<Longrightarrow> \<not> li_on (on_events validator section method timer evs l) \<and> li_settled (on_events validator section method timer evs l) = Some r"
proof -
  show none: "relevant section method evs = [] \<Longrightarrow> on_events validator section method timer evs l = l" for evs and l :: "'a listening"
    by (induction evs) (auto simp: relevant_def split: if_splits)
  show "relevant section method evs \<noteq> [] \<Longrightarrow> decision validator (relevant section method evs) = None
      \<Longrightarrow> on_events validator section method timer evs l = unsubscribe l" for l :: "'a listening"
  proof (induction evs arbitrary: l)
    case (Cons ev evs)
    show ?case
    proof (cases "be_section ev = section \<and> be_method ev = method")
      case True
      with Cons.prems have "validator (be_data ev) = Inr False" "decision validator (relevant section method evs) = None"
        by (auto simp: relevant_def decision_def split: if_splits)
      with True Cons.IH [of "unsubscribe l"] none [of evs "unsubscribe l"] show ?thesis
        by (cases "relevant section method evs = []") (simp_all add: unsubscribe_def)
    next
      case False
      then have "relevant section method (ev # evs) = relevant section method evs"
        "on_events validator section method timer (ev # evs) l = on_events validator section method timer evs l"
        by (auto simp: relevant_def)
      with Cons show ?thesis by simp
    qed
  qed (simp add: relevant_def)
  show "\<not> li_on (on_events validator section method timer evs l) \<and> li_settled (on_events validator section method timer evs l) = Some r"
    if "decision validator (relevant section method evs) = Some r"
    using that assms
  proof (induction evs arbitrary: l)
    case (Cons ev evs)
    then show ?case
      by (auto simp: relevant_def decision_def verdict_def split: if_splits sum.splits bool.splits)
  qed (simp add: relevant_def decision_def)
qed

definition at_end :: "('d \<Rightarrow> string + bool) \<Rightarrow> string \<Rightarrow> string \<Rightarrow> int \<Rightarrow> (int \<times> 'd block_event list) list \<Rightarrow> int \<Rightarrow> 'd listening \<Rightarrow> 'd settled option" where
  "at_end validator section method minutes blocks until l = li_settled (fire_timers minutes until (fold (on_block validator section method minutes) blocks l))"

lemma at_end_simps:
  "at_end v sec m minutes [] until l = li_settled (fire_timers minutes until l)"
  "at_end v sec m minutes (b # bs) until l = at_end v sec m minutes bs until (on_block v sec m minutes b l)"
  by (simp_all add: at_end_def)

lemma fire_timers_cases:
  "\<forall>x \<in> set (li_timers l). now < x \<Longrightarrow> fire_timers minutes now l = l"
  "x \<in> set (li_timers l) \<Longrightarrow> x \<le> now \<Longrightarrow> \<not> li_on (fire_timers minutes now l)
     \<and> li_settled (fire_timers minutes now l) = (case li_settled l of None \<Rightarrow> Some (Rejected (timeout_text minutes)) | Some r \<Rightarrow> Some r)"
proof -
  show "fire_timers minutes now l = l" if "\<forall>x \<in> set (li_timers l). now < x"
    using that by (auto simp: fire_timers_def)
  assume "x \<in> set (li_timers l)" "x \<le> now"
  then have "\<exists>t \<in> set (li_timers l). t \<le> now" by blast
  then show "\<not> li_on (fire_timers minutes now l)
     \<and> li_settled (fire_timers minutes now l) = (case li_settled l of None \<Rightarrow> Some (Rejected (timeout_text minutes)) | Some r \<Rightarrow> Some r)"
    by (simp add: fire_timers_def unsubscribe_def settle_def)
qed

lemma settled_stays:
  assumes "\<not> li_on l" and "li_settled l = Some r"
  shows "at_end v sec m minutes bs until l = Some r"
  using assms
proof (induction bs arbitrary: l)
  case Nil
  then show ?case by (simp add: at_end_simps fire_timers_def)
next
  case (Cons b bs)
  have "\<not> li_on (fire_timers minutes (fst b) l) \<and> li_settled (fire_timers minutes (fst b) l) = Some r"
    using Cons.prems by (simp add: fire_timers_def unsubscribe_def settle_def)
  with Cons.IH show ?case by (simp add: at_end_simps on_block_def Let_def)
qed

lemma only_timers_left:
  assumes "\<not> li_on l" and "li_settled l = None" and "D \<in> set (li_timers l)" and "\<forall>x \<in> set (li_timers l). D \<le> x"
    and "\<forall>b \<in> set bs. fst b \<le> until"
  shows "at_end v sec m minutes bs until l = (if D \<le> until then Some (Rejected (timeout_text minutes)) else None)"
  using assms
proof (induction bs arbitrary: l)
  case Nil
  show ?case
  proof (cases "D \<le> until")
    case True
    with fire_timers_cases(2) [OF Nil(3) True] Nil(2) show ?thesis by (simp add: at_end_simps)
  next
    case False
    with Nil(4) have "\<forall>x \<in> set (li_timers l). until < x" by fastforce
    with False Nil(2) show ?thesis by (simp add: at_end_simps fire_timers_cases(1))
  qed
next
  case (Cons b bs)
  show ?case
  proof (cases "D \<le> fst b")
    case True
    with fire_timers_cases(2) [OF Cons.prems(3) True] Cons.prems(2)
    have "\<not> li_on (fire_timers minutes (fst b) l)" "li_settled (fire_timers minutes (fst b) l) = Some (Rejected (timeout_text minutes))" by simp_all
    moreover have "D \<le> until" using True Cons.prems(5) by auto
    ultimately show ?thesis by (simp add: at_end_simps on_block_def Let_def settled_stays)
  next
    case False
    with Cons.prems(4) have "\<forall>x \<in> set (li_timers l). fst b < x" by fastforce
    then have "on_block v sec m minutes b l = l" using Cons.prems(1) by (simp add: on_block_def Let_def fire_timers_cases(1))
    with Cons show ?thesis by (simp add: at_end_simps)
  qed
qed

text \<open>One block before the deadline.\<close>

lemma block_before_deadline:
  assumes "li_on l" and "li_settled l = None" and "\<forall>x \<in> set (li_timers l). D \<le> x" and "fst b < D" and "D \<le> fst b + minutes * 60000"
    and "D \<in> set (li_timers l) \<or> D = fst b + minutes * 60000" and "\<forall>b' \<in> set bs. fst b' \<le> until"
  shows "relevant sec m (snd b) = [] \<Longrightarrow> on_block v sec m minutes b l = l\<lparr>li_timers := li_timers l @ [fst b + minutes * 60000]\<rparr>"
    and "relevant sec m (snd b) \<noteq> [] \<Longrightarrow> at_end v sec m minutes bs until (on_block v sec m minutes b l)
      = (case decision v (relevant sec m (snd b)) of Some r \<Rightarrow> Some r
         | None \<Rightarrow> if D \<le> until then Some (Rejected (timeout_text minutes)) else None)"
proof -
  let ?l = "l\<lparr>li_timers := li_timers l @ [fst b + minutes * 60000]\<rparr>"
  have "\<forall>x \<in> set (li_timers l). fst b < x" using assms(3,4) by fastforce
  then have step: "on_block v sec m minutes b l = on_events v sec m (fst b + minutes * 60000) (snd b) ?l"
    using assms(1) by (simp add: on_block_def Let_def fire_timers_cases(1))
  have l: "li_settled ?l = None" using assms(2) by simp
  show "on_block v sec m minutes b l = ?l" if "relevant sec m (snd b) = []"
    unfolding step by (rule on_events_spec(1) [OF l that])
  show "at_end v sec m minutes bs until (on_block v sec m minutes b l)
      = (case decision v (relevant sec m (snd b)) of Some r \<Rightarrow> Some r
         | None \<Rightarrow> if D \<le> until then Some (Rejected (timeout_text minutes)) else None)" if rel: "relevant sec m (snd b) \<noteq> []"
  proof (cases "decision v (relevant sec m (snd b))")
    case None
    have "at_end v sec m minutes bs until (unsubscribe ?l) = (if D \<le> until then Some (Rejected (timeout_text minutes)) else None)"
      by (rule only_timers_left) (use assms in \<open>auto simp: unsubscribe_def\<close>)
    with None show ?thesis unfolding step on_events_spec(2) [OF l rel None] by simp
  next
    case (Some r)
    with on_events_spec(3) [OF l Some] show ?thesis unfolding step by (simp add: settled_stays)
  qed
qed

lemma listening_before_deadline:
  assumes "li_on l" and "li_settled l = None" and "D \<in> set (li_timers l)" and "\<forall>x \<in> set (li_timers l). D \<le> x"
    and "\<forall>b \<in> set bs. fst b \<le> until \<and> D \<le> fst b + minutes * 60000" and "sorted (map fst bs)"
  shows "at_end v sec m minutes bs until l = outcome_before v sec m minutes D bs until"
  using assms
proof (induction bs arbitrary: l)
  case Nil
  show ?case
  proof (cases "D \<le> until")
    case True
    with fire_timers_cases(2) [OF Nil(3) True] Nil(2) show ?thesis by (simp add: at_end_simps outcome_before_def)
  next
    case False
    with Nil(4) have "\<forall>x \<in> set (li_timers l). until < x" by fastforce
    with False Nil(2) show ?thesis by (simp add: at_end_simps outcome_before_def fire_timers_cases(1))
  qed
next
  case (Cons b bs)
  show ?case
  proof (cases "fst b < D")
    case True
    have bd: "D \<le> fst b + minutes * 60000" "D \<in> set (li_timers l) \<or> D = fst b + minutes * 60000" "\<forall>b' \<in> set bs. fst b' \<le> until"
      using Cons.prems by auto
    note block = block_before_deadline [OF Cons.prems(1,2,4) True bd, where v = v and sec = sec and m = m]
    show ?thesis
    proof (cases "relevant sec m (snd b) = []")
      case rel: True
      have "at_end v sec m minutes bs until (on_block v sec m minutes b l) = outcome_before v sec m minutes D bs until"
        unfolding block(1) [OF rel] using Cons.prems by (intro Cons.IH) auto
      with True rel show ?thesis by (simp add: at_end_simps outcome_before_def)
    next
      case rel: False
      with True block(2) [OF rel] show ?thesis by (simp add: at_end_simps outcome_before_def)
    qed
  next
    case False
    then have "\<not> li_on (fire_timers minutes (fst b) l)" "li_settled (fire_timers minutes (fst b) l) = Some (Rejected (timeout_text minutes))"
      using fire_timers_cases(2) [OF Cons.prems(3), of "fst b" minutes] Cons.prems(2) by simp_all
    moreover have "D \<le> until" using False Cons.prems(5) by auto
    ultimately show ?thesis using False
      by (simp add: at_end_simps on_block_def Let_def settled_stays outcome_before_def)
  qed
qed

text \<open>
  C11: Waiting for an event comes to what the first block with such an event says, if it is before the time
  is over: an event the validator refuses ends the subscription, and no later block is looked at.
\<close>

theorem listening_decided_by_first_block:
  assumes "map_of sections section = Some methods" and "method \<in> set methods" and "0 < minutes"
    and "sorted (map fst blocks)" and "\<forall>b \<in> set blocks. fst b \<le> until"
  shows "listenForEvent sections section method validator minutes blocks until
    = Inr (listening_outcome validator section method minutes blocks until)"
proof -
  let ?start = "\<lparr>li_on = True, li_timers = [], li_settled = None\<rparr> :: 'a listening"
  have run: "listenForEvent sections section method validator minutes blocks until = Inr (at_end validator section method minutes blocks until ?start)"
    using assms(1,2) by (simp add: listenForEvent_def at_end_def)
  show ?thesis
  proof (cases blocks)
    case Nil
    then show ?thesis unfolding run by (simp add: at_end_simps listening_outcome_def fire_timers_def)
  next
    case (Cons b bs)
    let ?D = "fst b + minutes * 60000"
    have bd: "fst b < ?D" using assms(3) by simp
    have later: "\<forall>b' \<in> set bs. fst b' \<le> until" using assms(5) Cons by simp
    note block = block_before_deadline [of ?start ?D b minutes bs until, OF _ _ _ bd _ _ later, simplified]
    show ?thesis
    proof (cases "relevant section method (snd b) = []")
      case rel: True
      have "at_end validator section method minutes bs until (on_block validator section method minutes b ?start)
          = outcome_before validator section method minutes ?D bs until"
        unfolding block(1) [OF rel] using assms(4,5) Cons by (intro listening_before_deadline) auto
      with rel bd show ?thesis unfolding run by (simp add: Cons at_end_simps listening_outcome_def outcome_before_def)
    next
      case rel: False
      with block(2) bd show ?thesis unfolding run
        by (simp add: Cons at_end_simps listening_outcome_def outcome_before_def)
    qed
  qed
qed

subsection \<open>Examples\<close>

text \<open>A world that is its clock; the api numbered 7 is connected after a second.\<close>

definition demo_connect_env :: "int connect_env" where
  "demo_connect_env = \<lparr>ce_now = (\<lambda>t. t), ce_tick = (\<lambda>t. t + 100), ce_connected = (\<lambda>t a. a = 7 \<and> 1000 \<le> t),
     ce_provider = (\<lambda>_ t. (7, t)), ce_create = (\<lambda>p _ t. (Inr p, t)), ce_drop = (\<lambda>_ t. t), ce_close = (\<lambda>_. Pair (Inr ()))\<rparr>"

definition demo_query_client :: "nat option \<Rightarrow> int query_client" where
  "demo_query_client api = \<lparr>qc_world = 0, qc_connections = [], qc_lock = False, qc_handlers = [], qc_api = api\<rparr>"

definition demo_query :: query_options where
  "demo_query = \<lparr>qo_url = ''wss'', qo_keepReconnecting = False, qo_self = 1\<rparr>"

theorem waiting_for_connection_ends_witness:
  "\<exists>j \<le> 100. qc_world (snd (wait_api 101 demo_connect_env ''wss'' True (demo_query_client (Some 8)))) = 100 * int j"
proof -
  have "\<forall>w. ce_now demo_connect_env w + 100 \<le> ce_now demo_connect_env (ce_tick demo_connect_env w)"
    by (simp add: demo_connect_env_def)
  from waiting_for_connection_ends [OF this, of "demo_query_client (Some 8)" "''wss''" True]
  obtain j where "j \<le> 100" and w: "qc_world (snd (wait_api 101 demo_connect_env ''wss'' True (demo_query_client (Some 8)))) = (ce_tick demo_connect_env ^^ j) 0"
    by (auto simp: demo_query_client_def)
  moreover have "(ce_tick demo_connect_env ^^ j) 0 = 100 * int j" for j
    by (induction j) (simp_all add: demo_connect_env_def)
  ultimately show ?thesis by auto
qed

theorem connect_connected_witness:
  "\<exists>c'. connect 101 demo_connect_env demo_query (Inr ()) (demo_query_client None) = (Inr (), c')
     \<and> isConnected demo_connect_env c' \<and> connection_of ''wss'' c' \<noteq> None"
proof -
  let ?r = "connect 101 demo_connect_env demo_query (Inr ()) (demo_query_client None)"
  have "fst ?r = Inr ()" by code_simp
  then have r: "?r = (Inr (), snd ?r)" by (metis prod.collapse)
  have "\<not> qc_lock (demo_query_client None)" "\<not> isConnected demo_connect_env (demo_query_client None)" by (simp_all add: demo_query_client_def isConnected_def)
  with connect_connected [OF r] have "isConnected demo_connect_env (snd ?r) \<and> connection_of ''wss'' (snd ?r) \<noteq> None"
    by (auto simp: demo_query_def)
  with r show ?thesis by blast
qed

definition mint_to :: "string \<Rightarrow> (string \<times> string) list list block_event" where
  "mint_to address = \<lparr>be_section = ''tftBridgeModule'', be_method = ''MintCompleted'', be_data = [[(''target'', address), (''amount'', ''5'')]]\<rparr>"

text \<open>A mint for somebody else ends the waiting for the mint two blocks later.\<close>

theorem listening_decided_by_first_block_witness:
  "listenToMintCompleted [(''tftBridgeModule'', [''MintCompleted''])] ''me'' 2 [(0, []), (6000, [mint_to ''other'']), (12000, [mint_to ''me''])] 200000
    = Inr (Some (Rejected (timeout_text 2)))"
proof -
  let ?blocks = "[(0, []), (6000, [mint_to ''other'']), (12000, [mint_to ''me''])]"
  have "listenForEvent [(''tftBridgeModule'', [''MintCompleted''])] ''tftBridgeModule'' ''MintCompleted'' (mintCheck ''me'') 2 ?blocks 200000
      = Inr (listening_outcome (mintCheck ''me'') ''tftBridgeModule'' ''MintCompleted'' 2 ?blocks 200000)"
    by (rule listening_decided_by_first_block [where methods = "[''MintCompleted'']"]) simp_all
  moreover have "listening_outcome (mintCheck ''me'') ''tftBridgeModule'' ''MintCompleted'' 2 ?blocks 200000 = Some (Rejected (timeout_text 2))"
    by (simp add: listening_outcome_def outcome_before_def relevant_def decision_def mint_to_def mintCheck_def)
  ultimately show ?thesis by (simp add: listenToMintCompleted_def)
qed

end
