(* ===== verification/ChainQueries.thy ===== *)
theory ChainQueries
  imports Pallets
begin

text \<open>
  The rest of the pallets of \<open>tfchain_client/src\<close>: the queries that hand on what the chain keeps, and the
  extrinsics of rent contracts, of services, of dedicated nodes and of nodes.  What the chain keeps is
  asked for by pallet, storage item and keys; the answer \<open>'v\<close> is handed on as it is.
\<close>

type_synonym 'v chain_storage = "string \<Rightarrow> string \<Rightarrow> tx_arg list \<Rightarrow> js_error + 'v"

definition storage_query :: "pallet_env \<Rightarrow> 'v chain_storage \<Rightarrow> string \<Rightarrow> string \<Rightarrow> tx_arg list \<Rightarrow> js_error + 'v" where
  "storage_query e st pallet item keys = checkConnection e (st pallet item keys)"

subsection \<open>Contracts\<close>

definition contract_get :: "pallet_env \<Rightarrow> 'v chain_storage \<Rightarrow> int \<Rightarrow> js_error + 'v" where
  "contract_get e st i = storage_query e st ''smartContractModule'' ''contracts'' [A_int i]"

definition getNodeContractResources :: "pallet_env \<Rightarrow> 'v chain_storage \<Rightarrow> int \<Rightarrow> js_error + 'v" where
  "getNodeContractResources e st i = storage_query e st ''smartContractModule'' ''nodeContractResources'' [A_int i]"

definition getContractIdByActiveRentForNode :: "pallet_env \<Rightarrow> 'v chain_storage \<Rightarrow> int \<Rightarrow> js_error + 'v" where
  "getContractIdByActiveRentForNode e st nodeId = storage_query e st ''smartContractModule'' ''activeRentContractForNode'' [A_int nodeId]"

definition getActiveContracts :: "pallet_env \<Rightarrow> 'v chain_storage \<Rightarrow> int \<Rightarrow> js_error + 'v" where
  "getActiveContracts e st nodeId = storage_query e st ''smartContractModule'' ''activeNodeContracts'' [A_int nodeId]"

definition getContractIdByName :: "pallet_env \<Rightarrow> 'v chain_storage \<Rightarrow> string \<Rightarrow> js_error + 'v" where
  "getContractIdByName e st name = storage_query e st ''smartContractModule'' ''contractIDByNameRegistration'' [A_text name]"

definition getContractIdByNodeIdAndHash :: "pallet_env \<Rightarrow> 'v chain_storage \<Rightarrow> int \<Rightarrow> string \<Rightarrow> js_error + 'v" where
  "getContractIdByNodeIdAndHash e st nodeId hash = storage_query e st ''smartContractModule'' ''contractIDByNodeIDAndHash'' [A_int nodeId, A_text hash]"

definition contractLock :: "pallet_env \<Rightarrow> 'v chain_storage \<Rightarrow> int \<Rightarrow> js_error + 'v" where
  "contractLock e st i = storage_query e st ''smartContractModule'' ''contractLock'' [A_int i]"

definition getContractPaymentState :: "pallet_env \<Rightarrow> 'v chain_storage \<Rightarrow> int \<Rightarrow> js_error + 'v" where
  "getContractPaymentState e st i = storage_query e st ''smartContractModule'' ''contractPaymentState'' [A_int i]"

definition getService :: "pallet_env \<Rightarrow> 'v chain_storage \<Rightarrow> int \<Rightarrow> js_error + 'v" where
  "getService e st serviceId = storage_query e st ''smartContractModule'' ''serviceContracts'' [A_int serviceId]"

definition getDedicatedNodeExtraFee :: "pallet_env \<Rightarrow> 'v chain_storage \<Rightarrow> int \<Rightarrow> js_error + 'v" where
  "getDedicatedNodeExtraFee e st nodeId = storage_query e st ''smartContractModule'' ''dedicatedNodesExtraFee'' [A_int nodeId]"

text \<open>This one does not connect first; without an api \<open>this.client.api.query\<close> is a \<open>TypeError\<close>.\<close>

definition getContractBillingInformationByID :: "bool \<Rightarrow> 'v chain_storage \<Rightarrow> int \<Rightarrow> js_error + 'v" where
  "getContractBillingInformationByID has_api st i =
     (if has_api then st ''smartContractModule'' ''contractBillingInformationByID'' [A_int i] else Inl TypeError)"

text \<open>Without a solution provider \<open>undefined\<close> is passed on.\<close>

definition createRent :: "pallet_env \<Rightarrow> int \<Rightarrow> int option \<Rightarrow> js_error + extrinsic" where
  "createRent e nodeId provider = checkConnection e (Inr (plain_tx ''smartContractModule'' ''createRentContract''
     [A_int nodeId, case provider of None \<Rightarrow> A_none | Some p \<Rightarrow> A_int p]))"

definition cancelCollective :: "pallet_env \<Rightarrow> 'v option chain_storage \<Rightarrow> int \<Rightarrow> js_error + extrinsic option" where
  "cancelCollective e st i = checkConnection e (requireCouncil e (bindR (contract_get e st i) (\<lambda>contract. case contract of
     None \<Rightarrow> Inr None
   | Some _ \<Rightarrow> Inr (Some (patchExtrinsic (Tx ''smartContractModule'' ''cancelContractCollective'' [A_int i]) cancel_events
       (Some (\<lambda>_. R_id i)))))))"

definition createService :: "pallet_env \<Rightarrow> string \<Rightarrow> string \<Rightarrow> js_error + extrinsic" where
  "createService e serviceAccount consumerAccount = checkConnection e (Inr (plain_tx ''smartContractModule'' ''serviceContractCreate''
     [A_text serviceAccount, A_text consumerAccount]))"

definition approveService :: "pallet_env \<Rightarrow> int \<Rightarrow> bool \<Rightarrow> js_error + extrinsic" where
  "approveService e serviceId approve = checkConnection e (Inr (plain_tx ''smartContractModule''
     (if approve then ''serviceContractApprove'' else ''serviceContractReject'') [A_int serviceId]))"

definition billService :: "pallet_env \<Rightarrow> int \<Rightarrow> rat \<Rightarrow> string \<Rightarrow> js_error + extrinsic" where
  "billService e serviceId variableAmount metadata = checkConnection e (Inr (plain_tx ''smartContractModule'' ''serviceContractBill''
     [A_int serviceId, A_num variableAmount, A_text metadata]))"

definition cancelService :: "pallet_env \<Rightarrow> int \<Rightarrow> js_error + extrinsic" where
  "cancelService e serviceId = checkConnection e (Inr (mapped_tx ''smartContractModule'' ''serviceContractCancel'' [A_int serviceId] (\<lambda>_. R_id serviceId)))"

definition setServiceFees :: "pallet_env \<Rightarrow> int \<Rightarrow> rat \<Rightarrow> rat \<Rightarrow> js_error + extrinsic" where
  "setServiceFees e serviceId baseFee variableFee = checkConnection e (Inr (plain_tx ''smartContractModule'' ''serviceContractSetFees''
     [A_int serviceId, A_num baseFee, A_num variableFee]))"

definition setDedicatedNodeExtraFee :: "pallet_env \<Rightarrow> int \<Rightarrow> rat \<Rightarrow> js_error + extrinsic" where
  "setDedicatedNodeExtraFee e nodeId extraFee = checkConnection e (Inr (plain_tx ''smartContractModule'' ''setDedicatedNodeExtraFee''
     [A_int nodeId, A_num extraFee]))"

definition setServiceMetadata :: "pallet_env \<Rightarrow> int \<Rightarrow> string \<Rightarrow> js_error + extrinsic" where
  "setServiceMetadata e serviceId metadata = checkConnection e (Inr (plain_tx ''smartContractModule'' ''serviceContractSetMetadata''
     [A_int serviceId, A_text metadata]))"

subsection \<open>Farms, nodes, prices and the council\<close>

definition farm_get :: "pallet_env \<Rightarrow> 'v chain_storage \<Rightarrow> int \<Rightarrow> js_error + 'v" where
  "farm_get e st i = storage_query e st ''tfgridModule'' ''farms'' [A_int i]"

definition pricing_policy_get :: "pallet_env \<Rightarrow> 'v chain_storage \<Rightarrow> int \<Rightarrow> js_error + 'v" where
  "pricing_policy_get e st i = storage_query e st ''tfgridModule'' ''pricingPolicies'' [A_int i]"

text \<open>The addresses of a node with their gateways, and its domain.  Any but the first may be null, and so may the whole.\<close>

record node_public_config =
  np_ip4 :: "string \<times> string"
  np_ip6 :: "(string \<times> string) option"
  np_domain :: "string option"

definition ip_arg :: "string \<times> string \<Rightarrow> tx_arg" where
  "ip_arg p = A_record [(''ip'', A_text (fst p)), (''gw'', A_text (snd p))]"

definition public_config_arg :: "node_public_config \<Rightarrow> tx_arg" where
  "public_config_arg c = A_record
     [(''ip4'', ip_arg (np_ip4 c)),
      (''ip6'', case np_ip6 c of None \<Rightarrow> A_none | Some p \<Rightarrow> ip_arg p),
      (''domain'', case np_domain c of None \<Rightarrow> A_none | Some d \<Rightarrow> A_text d)]"

definition addNodePublicConfig :: "pallet_env \<Rightarrow> int \<Rightarrow> int \<Rightarrow> node_public_config option \<Rightarrow> js_error + extrinsic" where
  "addNodePublicConfig e farmId nodeId config = checkConnection e (Inr (plain_tx ''tfgridModule'' ''addNodePublicConfig''
     [A_int farmId, A_int nodeId, case config of None \<Rightarrow> A_none | Some c \<Rightarrow> public_config_arg c]))"

definition council_getProposal :: "pallet_env \<Rightarrow> 'v chain_storage \<Rightarrow> string \<Rightarrow> js_error + 'v" where
  "council_getProposal e st hash = storage_query e st ''council'' ''proposalOf'' [A_text hash]"

definition council_getAllProposals :: "pallet_env \<Rightarrow> 'v chain_storage \<Rightarrow> js_error + 'v" where
  "council_getAllProposals e st = storage_query e st ''council'' ''proposals'' []"

definition council_getProposalCount :: "pallet_env \<Rightarrow> 'v chain_storage \<Rightarrow> js_error + 'v" where
  "council_getProposalCount e st = storage_query e st ''council'' ''proposalCount'' []"

subsection \<open>The votes of a proposal\<close>

record ProposalVotes =
  vo_ayes :: "(int \<times> int) list option"
  vo_nays :: "(int \<times> int) list option"
  vo_ayesProgress :: rat
  vo_nayesProgress :: rat

text \<open>A proposal without votes on the chain is null, and taking its fields a \<open>TypeError\<close>.\<close>

definition getVotesOfProposal :: "pallet_env \<Rightarrow> string \<Rightarrow> js_error + ProposalVotes" where
  "getVotesOfProposal e hash = checkConnection e (bindR (getProposalVotes e hash) (\<lambda>v. case v of
     None \<Rightarrow> Inl TypeError
   | Some v \<Rightarrow> Inr \<lparr>vo_ayes = pv_ayes v, vo_nays = pv_nays v, vo_ayesProgress = getProgress (pv_ayes v) (pv_nays v) True,
       vo_nayesProgress = getProgress (pv_ayes v) (pv_nays v) False\<rparr>))"

subsection \<open>The shares of a vote\<close>

lemma foldl_weights: "foldl (\<lambda>total v. total + snd v) a vs = a + sum_list (map snd vs)" for a :: int
  by (induction vs arbitrary: a) simp_all

lemma getVotesWithWeights_sum: "getVotesWithWeights vs = sum_list (map snd vs)"
  by (simp add: getVotesWithWeights_def foldl_weights)

lemma weights_nonneg: "\<forall>v\<in>set vs. 0 \<le> snd v \<Longrightarrow> 0 \<le> getVotesWithWeights vs"
  unfolding getVotesWithWeights_sum by (intro sum_list_nonneg) auto

definition weight_of :: "(int \<times> int) list option \<Rightarrow> int" where
  "weight_of vs = (case vs of None \<Rightarrow> 0 | Some vs \<Rightarrow> getVotesWithWeights vs)"

lemma getProgress_of:
  "getProgress ayes nayes typeAye =
     (if weight_of ayes + weight_of nayes > 0
      then of_int (if typeAye then weight_of ayes else weight_of nayes) / of_int (weight_of ayes + weight_of nayes) * 100 else 0)"
  by (simp add: getProgress_def Let_def weight_of_def split: option.split)

lemma weight_of_nonneg: "\<forall>vs. o_votes = Some vs \<longrightarrow> (\<forall>v\<in>set vs. 0 \<le> snd v) \<Longrightarrow> 0 \<le> weight_of o_votes"
  by (auto simp: weight_of_def weights_nonneg split: option.split)

lemma shares:
  assumes "0 < weight_of ayes + weight_of nayes"
  defines "share \<equiv> \<lambda>vs. of_int (weight_of vs) / of_int (weight_of ayes + weight_of nayes) :: rat"
  shows "getProgress ayes nayes True = share ayes * 100" and "getProgress ayes nayes False = share nayes * 100"
    and "share ayes + share nayes = 1" and "share nayes < share ayes \<longleftrightarrow> weight_of nayes < weight_of ayes"
proof -
  have "(0 :: rat) < of_int (weight_of ayes + weight_of nayes)" using assms(1) by (simp only: of_int_0_less_iff)
  then show "share ayes + share nayes = 1" and "share nayes < share ayes \<longleftrightarrow> weight_of nayes < weight_of ayes"
    by (simp_all add: share_def divide_less_cancel flip: add_divide_distrib)
qed (use assms(1) in \<open>simp_all add: getProgress_of share_def\<close>)

lemma shares_add_up:
  assumes "0 < weight_of ayes + weight_of nayes"
  shows "getProgress ayes nayes True + getProgress ayes nayes False = 100"
  unfolding shares(1, 2) [OF assms] by (simp only: shares(3) [OF assms] mult_1 flip: distrib_right)

text \<open>The side with more weight has the larger share.\<close>

lemma larger_share_wins:
  assumes "0 < weight_of ayes + weight_of nayes"
  shows "getProgress ayes nayes False < getProgress ayes nayes True \<longleftrightarrow> weight_of nayes < weight_of ayes"
  unfolding shares(1, 2) [OF assms] using shares(4) [OF assms] by (simp only: mult_less_cancel_right_pos zero_less_numeral)

end
