(* ===== verification/GridModules.thy ===== *)
theory GridModules
  imports ChainQueries Storage ZosValid
begin

text \<open>
  The modules of the grid client that hand on to the clients of the chain, of the proxy and of the
  nodes: \<open>grid_client/src/modules/capacity.ts\<close>, \<open>nodes.ts\<close>, \<open>farms.ts\<close>, \<open>twins.ts\<close>, \<open>balance.ts\<close>,
  \<open>kvstore.ts\<close>, \<open>bridge.ts\<close>, \<open>dao.ts\<close>, \<open>utility.ts\<close> and \<open>zos.ts\<close>, with the decorators of their methods
  and of the options (\<open>models.ts\<close>).  What the types of the options grant is not repeated.
\<close>

subsection \<open>The decorators\<close>

definition validated :: "bool \<Rightarrow> js_error + 'a \<Rightarrow> js_error + 'a" where
  "validated ok r = (if ok then r else Inl validation_failed)"

text \<open>\<open>getMyBalance\<close> of \<open>TFBalances\<close>: it is inherited, but asks the \<open>get\<close> that counts in tokens.\<close>

definition tf_getMyBalance :: "pallet_env \<Rightarrow> js_error + Balance" where
  "tf_getMyBalance e = checkConnection e (tf_balance_get e (q_address e))"

definition enough_balance :: "pallet_env \<Rightarrow> js_error + unit" where
  "enough_balance e = bindR (tf_getMyBalance e) (\<lambda>b.
     if ba_free b < 1 / 1000 then Inl (ValidationError ''Balance is not enough to apply an extrinsic.'') else Inr ())"

text \<open>A method that is validated, and one that needs a balance besides.\<close>

definition validated_eff :: "bool \<Rightarrow> ('s, js_error, 'a) eff \<Rightarrow> ('s, js_error, 'a) eff" where
  "validated_eff ok method = bindE (liftE (validated ok (Inr ()))) (\<lambda>_. method)"

definition paid_method :: "pallet_env \<Rightarrow> bool \<Rightarrow> ('s, js_error, 'a) eff \<Rightarrow> ('s, js_error, 'a) eff" where
  "paid_method e ok method = validated_eff ok (bindE (liftE (enough_balance e)) (\<lambda>_. method))"

text \<open>\<open>apply\<close> of a prepared extrinsic, and its preparation.\<close>

definition apply_extrinsic :: "'c chain_env \<Rightarrow> extrinsic \<Rightarrow> ('c client, js_error, chain_result) eff" where
  "apply_extrinsic ce x = bindE (applyExtrinsic ce (Single (x_call x)) (x_resultSections x) (x_resultEvents x) (x_map x))
     (\<lambda>rs. retE (case rs of [] \<Rightarrow> R_undefined | r # _ \<Rightarrow> r))"

definition prepare_apply :: "'c chain_env \<Rightarrow> js_error + extrinsic \<Rightarrow> ('c client, js_error, chain_result) eff" where
  "prepare_apply ce x = bindE (liftE x) (apply_extrinsic ce)"

subsection \<open>capacity\<close>

definition at_least_1 :: "int option \<Rightarrow> bool" where
  "at_least_1 n \<longleftrightarrow> (case n of None \<Rightarrow> True | Some i \<Rightarrow> 1 \<le> i)"

definition not_negative :: "('n :: {zero, ord}) option \<Rightarrow> bool" where
  "not_negative n \<longleftrightarrow> (case n of None \<Rightarrow> True | Some x \<Rightarrow> 0 \<le> x)"

definition all_at_least_1 :: "int list option \<Rightarrow> bool" where
  "all_at_least_1 ns \<longleftrightarrow> (case ns of None \<Rightarrow> True | Some is \<Rightarrow> list_all (\<lambda>i. 1 \<le> i) is)"

definition valid_FilterOptions :: "FilterOptions \<Rightarrow> bool" where
  "valid_FilterOptions f \<longleftrightarrow> not_negative (fo_cru f) \<and> not_negative (fo_mru f) \<and> not_negative (fo_sru f) \<and> not_negative (fo_hru f)
     \<and> all_at_least_1 (fo_nodeExclude f) \<and> all_at_least_1 (fo_farmIds f) \<and> at_least_1 (fo_farmId f)
     \<and> at_least_1 (fo_availableFor f) \<and> at_least_1 (fo_rentedBy f)"

text \<open>A certification type is a text, which \<open>@IsBoolean\<close> does not let through.\<close>

definition valid_FarmFilterOptions :: "FarmFilterOptions \<Rightarrow> bool" where
  "valid_FarmFilterOptions f \<longleftrightarrow> not_negative (ff_nodeCRU f) \<and> not_negative (ff_nodeMRU f) \<and> not_negative (ff_nodeSRU f)
     \<and> not_negative (ff_nodeHRU f) \<and> ff_certificationType f = None \<and> at_least_1 (ff_availableFor f) \<and> at_least_1 (ff_nodeRentedBy f)"

text \<open>\<open>getFarms\<close> and \<open>getNodes\<close> of \<open>primitives/nodes.ts\<close>; the page is 1 and the size 50 when absent.\<close>

definition primitive_getFarms :: "grid_api \<Rightarrow> int option \<Rightarrow> int option \<Rightarrow> js_error + FarmInfo list" where
  "primitive_getFarms api page pageSize =
     (let p = show_int (case page of None \<Rightarrow> 1 | Some i \<Rightarrow> i); s = show_int (case pageSize of None \<Rightarrow> 50 | Some i \<Rightarrow> i)
      in prefixing (''Error listing farms with page '' @ p @ '' and size '' @ s)
           (http_farms api (''/farms?page='' @ p @ ''&size='' @ s)))"

definition primitive_getNodes :: "grid_api \<Rightarrow> int option \<Rightarrow> int option \<Rightarrow> js_error + NodeInfo list" where
  "primitive_getNodes api page pageSize =
     (let p = show_int (case page of None \<Rightarrow> 1 | Some i \<Rightarrow> i); s = show_int (case pageSize of None \<Rightarrow> 50 | Some i \<Rightarrow> i)
      in prefixing (''Error listing nodes with page '' @ p @ '' and size '' @ s)
           (http_nodes api (''/nodes?page='' @ p @ ''&size='' @ s)))"

definition capacity_getFarms :: "grid_api \<Rightarrow> int option \<Rightarrow> int option \<Rightarrow> js_error + FarmInfo list" where
  "capacity_getFarms api page maxResult = validated (at_least_1 page \<and> at_least_1 maxResult) (primitive_getFarms api page maxResult)"

definition capacity_getNodes :: "grid_api \<Rightarrow> int option \<Rightarrow> int option \<Rightarrow> js_error + NodeInfo list" where
  "capacity_getNodes api page maxResult = validated (at_least_1 page \<and> at_least_1 maxResult) (primitive_getNodes api page maxResult)"

definition capacity_filterNodes :: "grid_api \<Rightarrow> FilterOptions \<Rightarrow> js_error + NodeInfo list" where
  "capacity_filterNodes api opts = validated (valid_FilterOptions opts) (filterNodes api opts)"

definition capacity_getFeaturesFromFilters :: "FilterOptions \<Rightarrow> js_error + Features list" where
  "capacity_getFeaturesFromFilters opts = validated (valid_FilterOptions opts) (Inr (getFeaturesFromFilters opts))"

definition capacity_filterFarms :: "grid_api \<Rightarrow> FarmFilterOptions \<Rightarrow> js_error + FarmInfo list" where
  "capacity_filterFarms api opts = validated (valid_FarmFilterOptions opts) (filterFarms api opts)"

definition capacity_getFarmsCount :: "grid_api \<Rightarrow> FarmFilterOptions \<Rightarrow> js_error + int" where
  "capacity_getFarmsCount api opts = validated (valid_FarmFilterOptions opts) (getFarmsCount api opts)"

definition capacity_getNodesCount :: "grid_api \<Rightarrow> FilterOptions \<Rightarrow> js_error + int" where
  "capacity_getNodesCount api opts = validated (valid_FilterOptions opts) (getNodesCount api opts)"

definition capacity_checkFarmHasFreePublicIps :: "grid_api \<Rightarrow> int \<Rightarrow> js_error + bool" where
  "capacity_checkFarmHasFreePublicIps api farmId = validated (1 \<le> farmId) (checkFarmHasFreePublicIps api farmId None)"

definition capacity_getNodesByFarmId :: "grid_api \<Rightarrow> int \<Rightarrow> js_error + NodeInfo list" where
  "capacity_getNodesByFarmId api farmId = validated (1 \<le> farmId) (filterNodes api (empty_filter\<lparr>fo_farmId := Some farmId\<rparr>))"

definition capacity_getNodeFreeResources :: "grid_api \<Rightarrow> int \<Rightarrow> js_error + NodeResources" where
  "capacity_getNodeFreeResources api nodeId = validated (1 \<le> nodeId) (getNodeFreeResources api nodeId From_proxy)"

definition capacity_getFarmIdFromFarmName :: "grid_api \<Rightarrow> string \<Rightarrow> js_error + int" where
  "capacity_getFarmIdFromFarmName api farmName = validated (farmName \<noteq> []) (getFarmIdFromFarmName api farmName None)"

definition valid_disks :: "rat list \<Rightarrow> bool" where
  "valid_disks ds = list_all (\<lambda>d. d = of_int \<lfloor>d\<rfloor> \<and> 250 * 1024 ^ 2 \<le> d) ds"

definition valid_CapacityPoolCheckModel :: "int \<Rightarrow> rat list \<Rightarrow> rat list \<Rightarrow> rat list \<Rightarrow> bool" where
  "valid_CapacityPoolCheckModel nodeId rootfs ssd hdd \<longleftrightarrow> 1 \<le> nodeId \<and> valid_disks rootfs \<and> valid_disks ssd \<and> valid_disks hdd"

definition capacity_checkNodeCapacityPool :: "grid_api \<Rightarrow> int \<Rightarrow> rat list \<Rightarrow> rat list \<Rightarrow> rat list \<Rightarrow> js_error + bool" where
  "capacity_checkNodeCapacityPool api nodeId ssd rootfs hdd = validated (valid_CapacityPoolCheckModel nodeId rootfs ssd hdd)
     (verifyNodeStoragePoolCapacity api ssd hdd rootfs nodeId)"

definition capacity_getNodeIdFromContractId :: "grid_api \<Rightarrow> int \<Rightarrow> js_error + int" where
  "capacity_getNodeIdFromContractId api contractId = validated (1 \<le> contractId) (getNodeIdFromContractId api contractId)"

subsection \<open>nodes\<close>

text \<open>
  \<open>UnavailableNodeError\<close>, and the error of an extrinsic of a rent contract that failed; a wait that never
  ends is not caught.
\<close>

definition UnavailableNodeError :: "string \<Rightarrow> js_error" where
  "UnavailableNodeError = TFGridNodesError N_UnavailableNode"

definition rent_failed :: "string \<Rightarrow> int \<Rightarrow> js_error \<Rightarrow> js_error" where
  "rent_failed action nodeId e =
     (let prefix_msg = ''Failed to '' @ action @ '' rent contract on node '' @ show_int nodeId @ '' due to ''
      in if err_class e = C_Diverges then e
         else if is_base_error e then e\<lparr>err_message := prefix_msg @ err_message e\<rparr>
         else TFChainError_msg (prefix_msg @ error_to_string e))"

definition getRentContractId :: "pallet_env \<Rightarrow> int chain_storage \<Rightarrow> int \<Rightarrow> js_error + int" where
  "getRentContractId e st nodeId = (case getContractIdByActiveRentForNode e st nodeId of
     Inr i \<Rightarrow> Inr i
   | Inl err \<Rightarrow> Inl (TFChainError_msg (''Error getting rent for node '' @ show_int nodeId @ '': '' @ error_to_string err)))"

text \<open>What the log is told is not modelled, but the contract id it prints is taken from the result.\<close>

definition reserve ::
  "pallet_env \<Rightarrow> int chain_storage \<Rightarrow> 'c chain_env \<Rightarrow> int \<Rightarrow> int option \<Rightarrow> ('c client, js_error, chain_result) eff"
where
  "reserve e st ce nodeId provider = paid_method e True (bindE (liftE (getRentContractId e st nodeId)) (\<lambda>rentContractId.
     if rentContractId \<noteq> 0 then throwE (UnavailableNodeError ''Node is already rented.'')
     else catchE (bindE (prepare_apply ce (createRent e nodeId provider)) (\<lambda>res.
                    if res = R_undefined then throwE TypeError else retE res))
            (\<lambda>err. throwE (rent_failed ''create'' nodeId err))))"

definition unreserve ::
  "pallet_env \<Rightarrow> grid_api \<Rightarrow> int chain_storage \<Rightarrow> 'c chain_env \<Rightarrow> int \<Rightarrow> ('c client, js_error, chain_result) eff"
where
  "unreserve e api st ce nodeId = paid_method e True (bindE (liftE (getRentContractId e st nodeId)) (\<lambda>rentContractId.
     if rentContractId = 0 then retE (R_id 0)
     else catchE (bindE (liftE (cancel api rentContractId)) (\<lambda>x. case x of
                    None \<Rightarrow> throwE TypeError | Some x \<Rightarrow> apply_extrinsic ce x))
            (\<lambda>err. throwE (rent_failed ''delete'' nodeId err))))"

definition nodes_get :: "pallet_env \<Rightarrow> int \<Rightarrow> js_error + string option" where
  "nodes_get e i = node_get e (Some i)"

definition setNodePower :: "pallet_env \<Rightarrow> 'c chain_env \<Rightarrow> int \<Rightarrow> bool \<Rightarrow> ('c client, js_error, chain_result) eff" where
  "setNodePower e ce nodeId up = paid_method e (1 \<le> nodeId) (prepare_apply ce (setPower e nodeId up))"

definition valid_AddPublicConfig :: "recognisers \<Rightarrow> int \<Rightarrow> int \<Rightarrow> node_public_config option \<Rightarrow> bool" where
  "valid_AddPublicConfig rc farmId nodeId config \<longleftrightarrow> 1 \<le> farmId \<and> 1 \<le> nodeId \<and>
     (case config of None \<Rightarrow> True | Some c \<Rightarrow> not_empty (fst (np_ip4 c)) \<and> is_ip_address rc (snd (np_ip4 c)))"

definition nodes_addNodePublicConfig ::
  "recognisers \<Rightarrow> pallet_env \<Rightarrow> 'c chain_env \<Rightarrow> int \<Rightarrow> int \<Rightarrow> node_public_config option \<Rightarrow> ('c client, js_error, chain_result) eff"
where
  "nodes_addNodePublicConfig rc e ce farmId nodeId config = paid_method e (valid_AddPublicConfig rc farmId nodeId config)
     (prepare_apply ce (addNodePublicConfig e farmId nodeId config))"

definition nodes_filter :: "grid_api \<Rightarrow> FilterOptions \<Rightarrow> js_error + NodeInfo list" where
  "nodes_filter api opts = validated (valid_FilterOptions opts) (capacity_filterNodes api opts)"

subsection \<open>farms, twins, balance, kvstore, bridge, dao, utility\<close>

definition FarmNameLength :: nat where "FarmNameLength = 40"

definition valid_CreateFarmModel :: "recognisers \<Rightarrow> string \<Rightarrow> (string \<times> string) list option \<Rightarrow> bool" where
  "valid_CreateFarmModel rc name publicIps \<longleftrightarrow> not_empty name \<and> length name \<le> FarmNameLength
     \<and> (case publicIps of None \<Rightarrow> True | Some ips \<Rightarrow> list_all (\<lambda>(ip, gw). is_ip_address rc ip \<and> not_empty gw) ips)"

definition farms_create ::
  "recognisers \<Rightarrow> pallet_env \<Rightarrow> 'c chain_env \<Rightarrow> string \<Rightarrow> (string \<times> string) list option \<Rightarrow> ('c client, js_error, chain_result) eff"
where
  "farms_create rc e ce name publicIps = paid_method e (valid_CreateFarmModel rc name publicIps)
     (prepare_apply ce (farm_create e name publicIps))"

definition farms_addFarmIp ::
  "recognisers \<Rightarrow> pallet_env \<Rightarrow> 'c chain_env \<Rightarrow> int \<Rightarrow> string \<Rightarrow> string \<Rightarrow> ('c client, js_error, chain_result) eff"
where
  "farms_addFarmIp rc e ce farmId ip gw = paid_method e (1 \<le> farmId \<and> not_empty ip \<and> is_ip_address rc gw)
     (prepare_apply ce (addFarmIp e farmId ip gw))"

definition farms_removeFarmIp :: "pallet_env \<Rightarrow> 'c chain_env \<Rightarrow> int \<Rightarrow> string \<Rightarrow> ('c client, js_error, chain_result) eff" where
  "farms_removeFarmIp e ce farmId ip = paid_method e (1 \<le> farmId \<and> not_empty ip) (prepare_apply ce (removeFarmIp e (farmId, ip)))"

definition farms_addStellarAddress :: "pallet_env \<Rightarrow> 'c chain_env \<Rightarrow> int \<Rightarrow> string \<Rightarrow> ('c client, js_error, chain_result) eff" where
  "farms_addStellarAddress e ce farmId address = paid_method e (1 \<le> farmId \<and> not_empty address)
     (prepare_apply ce (addStellarAddress e farmId address))"

definition farms_getFarmByID :: "pallet_env \<Rightarrow> 'v chain_storage \<Rightarrow> int \<Rightarrow> js_error + 'v" where
  "farms_getFarmByID e st i = validated (1 \<le> i) (farm_get e st i)"

definition twins_create :: "pallet_env \<Rightarrow> 'c chain_env \<Rightarrow> string \<Rightarrow> ('c client, js_error, chain_result) eff" where
  "twins_create e ce relay = paid_method e (not_empty relay) (prepare_apply ce (tf_twin_create e relay))"

definition twins_update :: "pallet_env \<Rightarrow> 'c chain_env \<Rightarrow> string \<Rightarrow> ('c client, js_error, chain_result) eff" where
  "twins_update e ce relay = paid_method e (not_empty relay) (prepare_apply ce (tf_twin_update e relay))"

definition twins_get :: "pallet_env \<Rightarrow> int \<Rightarrow> js_error + Twin option" where
  "twins_get e i = validated (1 \<le> i) (twin_get e (Some i))"

definition get_twin_id_by_account_id :: "pallet_env \<Rightarrow> string \<Rightarrow> js_error + int" where
  "get_twin_id_by_account_id e public_key = validated (not_empty public_key) (getTwinIdByAccountId e public_key)"

definition balance_module_get :: "pallet_env \<Rightarrow> string \<Rightarrow> js_error + Balance" where
  "balance_module_get e address = validated (not_empty address) (tf_balance_get e address)"

definition balance_module_transfer :: "pallet_env \<Rightarrow> 'c chain_env \<Rightarrow> string \<Rightarrow> rat \<Rightarrow> ('c client, js_error, chain_result) eff" where
  "balance_module_transfer e ce address amount = paid_method e (not_empty address \<and> 1 / 10 ^ 7 \<le> amount)
     (prepare_apply ce (tf_transfer e address amount))"

definition kvstore_set ::
  "pallet_env \<Rightarrow> crypto_env \<Rightarrow> nat \<Rightarrow> 'c chain_env \<Rightarrow> string \<Rightarrow> string \<Rightarrow> bool \<Rightarrow> ('c client, js_error, chain_result) eff"
where
  "kvstore_set e x i ce key val enc = paid_method e (not_empty key \<and> not_empty val) (prepare_apply ce (tfkv_set e x i key val enc))"

definition kvstore_get :: "pallet_env \<Rightarrow> crypto_env \<Rightarrow> string \<Rightarrow> bool \<Rightarrow> js_error + string" where
  "kvstore_get e x key dec = validated (not_empty key) (tfkv_get e x key dec)"

definition kvstore_remove :: "pallet_env \<Rightarrow> 'c chain_env \<Rightarrow> string \<Rightarrow> ('c client, js_error, chain_result) eff" where
  "kvstore_remove e ce key = paid_method e (not_empty key) (prepare_apply ce (kv_delete e key))"

definition kvstore_removeAll :: "pallet_env \<Rightarrow> 'c chain_env \<Rightarrow> ('c client, js_error, string list) eff" where
  "kvstore_removeAll e ce = paid_method e True (kv_deleteAll e ce)"

definition kvstore_batchRemove :: "pallet_env \<Rightarrow> 'c chain_env \<Rightarrow> string list \<Rightarrow> ('c client, js_error, string list) eff" where
  "kvstore_batchRemove e ce keys = paid_method e (keys \<noteq> []) (batchRemove e ce keys)"

text \<open>Neither a swap nor a vote asks for the balance first.\<close>

definition bridge_swapToStellar :: "pallet_env \<Rightarrow> 'c chain_env \<Rightarrow> string \<Rightarrow> rat \<Rightarrow> ('c client, js_error, chain_result) eff" where
  "bridge_swapToStellar e ce target amount = validated_eff (not_empty target \<and> 1 \<le> amount)
     (prepare_apply ce (tf_swapToStellar e target amount))"

definition dao_module_vote :: "pallet_env \<Rightarrow> 'c chain_env \<Rightarrow> int \<Rightarrow> bool \<Rightarrow> string \<Rightarrow> ('c client, js_error, chain_result) eff" where
  "dao_module_vote e ce farmId approve hash = validated_eff (1 \<le> farmId \<and> not_empty hash)
     (prepare_apply ce (dao_vote e farmId hash approve))"

text \<open>The batches are not validated.\<close>

definition utility_batch :: "pallet_env \<Rightarrow> 'c chain_env \<Rightarrow> extrinsic option list \<Rightarrow> ('c client, js_error, chain_result list) eff" where
  "utility_batch e ce xs = bindE (liftE (enough_balance e)) (\<lambda>_. batch ce xs)"

definition utility_batchAll :: "pallet_env \<Rightarrow> 'c chain_env \<Rightarrow> extrinsic option list \<Rightarrow> ('c client, js_error, chain_result list) eff" where
  "utility_batchAll e ce xs = bindE (liftE (enough_balance e)) (\<lambda>_. batchAll ce xs)"

end
