(* ===== verification/NodeSelector.thy ===== *)
theory NodeSelector
  imports GridModules
begin

text \<open>
  \<open>playground/src/utils/nodeSelector.ts\<close> and \<open>hooks/usePagination.ts\<close>: how the dashboard finds the node
  of a machine.  The requirements of the user become the filters of \<open>Nodes\<close>; the pages of matching
  nodes are visited in a random order until one has nodes with room on their disks; of these one
  is chosen that also has room for the machines that were placed before.

  \<open>shuffle\<close> of lodash is a parameter, and so are the answers of the grid: the client of \<open>Nodes\<close>
  (\<open>grid_api\<close>, asked through the module \<open>capacity\<close>) and, where the code asks the proxy or the graph database itself, a function.  What is
  thrown is an error or a text.
\<close>

datatype thrown = Thrown_error js_error | Thrown_text string

subsection \<open>Data\<close>

record SelectedLocation =
  sl_subregion :: "string option"
  sl_country :: "string option"
  sl_region :: "string option"

record SelectionDetailsFilters =
  sf_ipv4 :: "bool option"
  sf_ipv6 :: "bool option"
  sf_hasGPU :: "bool option"
  sf_cpu :: "int option"
  sf_memory :: "int option"
  sf_ssdDisks :: "rat list option"
  sf_hddDisks :: "rat list option"
  sf_rootFilesystemSize :: "rat option"
  sf_solutionDisk :: "rat option"
  sf_certified :: "bool option"
  sf_dedicated :: "bool option"
  sf_planetary :: "bool option"
  sf_mycelium :: "bool option"
  sf_wireguard :: "bool option"

record NormalizeFarmFiltersOptions =
  of_size :: int
  of_page :: int
  of_twinId :: "int option"
  of_location :: SelectedLocation

record NormalizeNodeFiltersOptions =
  on_size :: int
  on_page :: int
  on_twinId :: "int option"
  on_location :: SelectedLocation
  on_farm :: "FarmInfo option"
  on_gateway :: "bool option"

record SelectedMachine =
  sm_farmId :: int
  sm_nodeId :: int
  sm_cpu :: int
  sm_memory :: int
  sm_disk :: rat
  sm_publicIp :: bool

subsection \<open>Pages\<close>

record pagination =
  pg_pages :: "int list"
  pg_index :: nat

definition normalizePages :: "(int list \<Rightarrow> int list) \<Rightarrow> int \<Rightarrow> int list" where
  "normalizePages shuffle n = (if n < 1 then [- 1] else shuffle [1..n - 1] @ [n, - 1])"

definition getPage :: "pagination \<Rightarrow> int" where
  "getPage p = pg_pages p ! min (pg_index p) (length (pg_pages p) - 1)"

definition pages_reset :: "(int list \<Rightarrow> int list) \<Rightarrow> int \<Rightarrow> pagination" where
  "pages_reset shuffle n = \<lparr>pg_pages = normalizePages shuffle n, pg_index = 0\<rparr>"

definition pages_next :: "pagination \<Rightarrow> int \<times> pagination" where
  "pages_next p = (let p' = p\<lparr>pg_index := Suc (pg_index p)\<rparr> in (getPage p', p'))"

subsection \<open>From the requirements to the filters\<close>

definition empty_location :: SelectedLocation where
  "empty_location = \<lparr>sl_subregion = None, sl_country = None, sl_region = None\<rparr>"

definition normalizeFarmOptions :: "int \<Rightarrow> int option \<Rightarrow> SelectedLocation option \<Rightarrow> pagination \<Rightarrow> NormalizeFarmFiltersOptions" where
  "normalizeFarmOptions page_size twinId loc p = \<lparr>of_size = page_size, of_page = getPage p, of_twinId = twinId,
     of_location = (case loc of None \<Rightarrow> empty_location | Some l \<Rightarrow> l)\<rparr>"

definition normalizeNodeOptions :: "int \<Rightarrow> int option \<Rightarrow> SelectedLocation option \<Rightarrow> pagination \<Rightarrow> FarmInfo option \<Rightarrow> NormalizeNodeFiltersOptions" where
  "normalizeNodeOptions page_size twinId loc p farm = \<lparr>on_size = page_size, on_page = getPage p, on_twinId = twinId,
     on_location = (case loc of None \<Rightarrow> empty_location | Some l \<Rightarrow> l), on_farm = farm, on_gateway = None\<rparr>"

text \<open>\<open>v || undefined\<close>, of a flag and of a number, and the size of a memory of so many MB in GB.\<close>

definition flag_or_undefined :: "bool option \<Rightarrow> bool option" where
  "flag_or_undefined b = (if b = Some True then b else None)"

definition number_or_undefined :: "rat \<Rightarrow> rat option" where
  "number_or_undefined x = (if x = 0 then None else Some x)"

definition number_or_0 :: "rat option \<Rightarrow> rat" where
  "number_or_0 x = (case x of None \<Rightarrow> 0 | Some v \<Rightarrow> v)"

definition list_or_empty :: "'a list option \<Rightarrow> 'a list" where
  "list_or_empty xs = (case xs of None \<Rightarrow> [] | Some v \<Rightarrow> v)"

definition memory_gb :: "int \<Rightarrow> int" where
  "memory_gb m = \<lfloor>of_int m / 1024 + 1 / 2 :: rat\<rfloor>"

definition mru_filter :: "int option \<Rightarrow> rat option" where
  "mru_filter memory = (case memory of None \<Rightarrow> None | Some m \<Rightarrow> if m = 0 then None else Some (of_int (memory_gb m)))"

definition hru_filter :: "SelectionDetailsFilters \<Rightarrow> rat option" where
  "hru_filter f = number_or_undefined (foldl (+) 0 (list_or_empty (sf_hddDisks f)))"

definition sru_filter :: "SelectionDetailsFilters \<Rightarrow> rat option" where
  "sru_filter f = number_or_undefined (foldl (+) (number_or_0 (sf_solutionDisk f) + number_or_0 (sf_rootFilesystemSize f))
     (list_or_empty (sf_ssdDisks f)))"

definition empty_farm_filter :: FarmFilterOptions where
  "empty_farm_filter = \<lparr>ff_nodeCRU = None, ff_nodeMRU = None, ff_nodeSRU = None, ff_nodeHRU = None, ff_publicIp = None,
     ff_nodeHasIPv6 = None, ff_certificationType = None, ff_farmName = None, ff_country = None, ff_dedicated = None,
     ff_nodeCertified = None, ff_availableFor = None, ff_nodeHasGPU = None, ff_nodeRentedBy = None, ff_page = None,
     ff_size = None, ff_ownedBy = None, ff_farmId = None, ff_randomize = None, ff_ret_count = None, ff_region = None\<rparr>"

definition normalizeFarmFilters :: "SelectionDetailsFilters \<Rightarrow> NormalizeFarmFiltersOptions \<Rightarrow> FarmFilterOptions" where
  "normalizeFarmFilters f opts = empty_farm_filter\<lparr>ff_size := Some (of_size opts), ff_page := Some (max 1 (of_page opts)),
     ff_availableFor := of_twinId opts, ff_country := sl_country (of_location opts), ff_region := sl_region (of_location opts),
     ff_nodeCRU := sf_cpu f, ff_nodeMRU := mru_filter (sf_memory f),
     ff_nodeRentedBy := (if sf_dedicated f = Some True then of_twinId opts else None),
     ff_nodeHRU := hru_filter f, ff_nodeSRU := sru_filter f, ff_publicIp := flag_or_undefined (sf_ipv4 f),
     ff_nodeCertified := flag_or_undefined (sf_certified f), ff_nodeHasGPU := flag_or_undefined (sf_hasGPU f),
     ff_nodeHasIPv6 := flag_or_undefined (sf_ipv6 f)\<rparr>"

definition region_of :: "SelectedLocation \<Rightarrow> string option" where
  "region_of l = (case truthy_str (sl_region l) of None \<Rightarrow> sl_subregion l | Some r \<Rightarrow> Some r)"

definition normalizeNodeFilters :: "SelectionDetailsFilters \<Rightarrow> NormalizeNodeFiltersOptions option \<Rightarrow> FilterOptions" where
  "normalizeNodeFilters f opts = empty_filter\<lparr>
     fo_page := Some (max 1 (case opts of None \<Rightarrow> 1 | Some o' \<Rightarrow> if on_page o' = 0 then 1 else on_page o')),
     fo_size := map_option on_size opts, fo_farmId := Option.bind opts (\<lambda>o'. map_option fi_farmId (on_farm o')),
     fo_cru := sf_cpu f, fo_mru := mru_filter (sf_memory f), fo_hru := hru_filter f, fo_sru := sru_filter f,
     fo_publicIPs := flag_or_undefined (sf_ipv4 f), fo_hasIPv6 := flag_or_undefined (sf_ipv6 f),
     fo_hasGPU := flag_or_undefined (sf_hasGPU f), fo_certified := flag_or_undefined (sf_certified f),
     fo_availableFor := (if sf_dedicated f = Some True then None else Option.bind opts on_twinId),
     fo_region := Option.bind opts (\<lambda>o'. region_of (on_location o')),
     fo_country := Option.bind opts (\<lambda>o'. sl_country (on_location o')),
     fo_gateway := Option.bind opts on_gateway, fo_healthy := Some True,
     fo_rentableOrRentedBy := (if sf_dedicated f = Some True then Option.bind opts on_twinId else None),
     fo_planetary := sf_planetary f, fo_mycelium := sf_mycelium f, fo_wireguard := sf_wireguard f\<rparr>"

subsection \<open>Farms\<close>

definition page_of_count :: "int \<Rightarrow> int \<Rightarrow> int" where
  "page_of_count page_size n = \<lceil>of_int n / of_int page_size :: rat\<rceil>"

definition getFarmPageCount :: "grid_api \<Rightarrow> int \<Rightarrow> FarmFilterOptions \<Rightarrow> js_error + int" where
  "getFarmPageCount api page_size filters = bindR (capacity_getFarmsCount api filters) (\<lambda>n. Inr (page_of_count page_size n))"

text \<open>
  The nodes of the graph database on which a solution without a public address is deployed, and the
  farm of a node as the proxy knows it.
\<close>

definition getBlockedFarmSet :: "(string \<Rightarrow> js_error + int list) \<Rightarrow> (int \<Rightarrow> js_error + int) \<Rightarrow> string \<Rightarrow> js_error + int set" where
  "getBlockedFarmSet contract_nodes node_farm exclusiveFor =
     bindR (contract_nodes exclusiveFor) (\<lambda>nodes. bindR (mapR node_farm (js_dedup nodes)) (\<lambda>farms. Inr (set farms)))"

definition loadFarms ::
  "grid_api \<Rightarrow> (string \<Rightarrow> js_error + int list) \<Rightarrow> (int \<Rightarrow> js_error + int) \<Rightarrow> FarmFilterOptions \<Rightarrow> string option
   \<Rightarrow> js_error + FarmInfo list"
where
  "loadFarms api contract_nodes node_farm filters exclusiveFor = bindR (capacity_filterFarms api filters) (\<lambda>farms.
     case truthy_str exclusiveFor of
       Some solution \<Rightarrow> if ff_publicIp filters = Some True then Inr farms
         else bindR (getBlockedFarmSet contract_nodes node_farm solution) (\<lambda>blocked.
                Inr (filter (\<lambda>farm. fi_farmId farm \<notin> blocked) farms))
     | None \<Rightarrow> Inr farms)"

subsection \<open>The disks of a node\<close>

text \<open>\<open>utils/helpers.ts\<close>: what is shown of an error.\<close>

definition normalizeError :: "thrown \<Rightarrow> string \<Rightarrow> string" where
  "normalizeError error fallbackError = (case error of
     Thrown_text s \<Rightarrow> s
   | Thrown_error e \<Rightarrow> if err_class e = C_Generic G_InsufficientBalanceError
       then ''Failed to apply Transaction due to account balance is too low.'' else err_message e)"

definition status_fallback :: string where
  "status_fallback = ''Something went wrong while checking status of the node. Please check your connection and try again.''"

definition ssd_bytes :: "SelectionDetailsFilters \<Rightarrow> rat list" where
  "ssd_bytes f = map (\<lambda>d. d * 1024 ^ 3)
     (filter (\<lambda>d. d \<noteq> 0) (number_or_0 (sf_solutionDisk f) # list_or_empty (sf_ssdDisks f)))"

definition disk_allocation_text :: "int \<Rightarrow> string" where
  "disk_allocation_text nodeId = ''Although node '' @ show_int nodeId
     @ '' appears to have sufficient storage capacity for your workload, it lacks a single internal ''
     @ ''partition capable of accommodating it. Please select a different node.''"

text \<open>The answer is \<open>true\<close> or a text is thrown.\<close>

definition checkNodeCapacityPool :: "grid_api \<Rightarrow> NodeInfo option \<Rightarrow> SelectionDetailsFilters \<Rightarrow> string + bool" where
  "checkNodeCapacityPool api node f = (case node of
     None \<Rightarrow> Inl ''Node ID is required.''
   | Some n \<Rightarrow>
       if ni_nodeId n = 0 then Inl ''Node ID is required.''
       else case capacity_checkNodeCapacityPool api (ni_nodeId n) (ssd_bytes f)
                   [number_or_0 (sf_rootFilesystemSize f) * 1024 ^ 3] (list_or_empty (sf_hddDisks f)) of
              Inr _ \<Rightarrow> Inr True
            | Inl e \<Rightarrow> if err_class e = C_Node N_DiskAllocation then Inl (disk_allocation_text (ni_nodeId n))
                       else Inl (normalizeError (Thrown_error e) status_fallback))"

subsection \<open>Nodes\<close>

text \<open>
  The pages from the current one on, until one has nodes that pass the check or there is none left.
  \<open>None\<close> would be a search that never ends.
\<close>

fun loadValidNodes ::
  "nat \<Rightarrow> grid_api \<Rightarrow> SelectionDetailsFilters \<Rightarrow> FilterOptions \<Rightarrow> int \<Rightarrow> pagination
   \<Rightarrow> ((js_error + NodeInfo list) \<times> pagination) option"
where
  "loadValidNodes 0 api f filters page p = None"
| "loadValidNodes (Suc k) api f filters page p =
     (if page = - 1 then Some (Inr [], p)
      else case capacity_filterNodes api (filters\<lparr>fo_page := Some page\<rparr>) of
             Inl e \<Rightarrow> Some (Inl e, p)
           | Inr nodes \<Rightarrow>
               let validNodes = filter (\<lambda>n. checkNodeCapacityPool api (Some n) f = Inr True) nodes
               in if validNodes \<noteq> [] then Some (Inr validNodes, p)
                  else let (page', p') = pages_next p in loadValidNodes k api f filters page' p')"

definition machines_on :: "NodeInfo \<Rightarrow> SelectedMachine list \<Rightarrow> SelectedMachine list" where
  "machines_on node machines = filter (\<lambda>m. sm_nodeId m = ni_nodeId node) machines"

definition isNodeValid :: "(int \<Rightarrow> FarmInfo option) \<Rightarrow> NodeInfo \<Rightarrow> SelectedMachine list \<Rightarrow> FilterOptions \<Rightarrow> bool" where
  "isNodeValid getFarm node machines filters =
     (let requiredMru = number_or_0 (fo_mru filters) * 10 ^ 9;
          requiredSru = number_or_0 (fo_sru filters) * 10 ^ 9;
          mru = foldl (\<lambda>a m. a - of_int (sm_memory m) * 10 ^ 9)
                  (of_int (r_mru (ni_total_resources node) - r_mru (ni_used_resources node))) (machines_on node machines);
          sru = foldl (\<lambda>a m. a - sm_disk m * 10 ^ 9)
                  (of_int (r_sru (ni_total_resources node) - r_sru (ni_used_resources node))) (machines_on node machines);
          valid = (requiredMru \<le> mru \<and> requiredSru \<le> sru)
      in if valid \<and> fo_publicIPs filters = Some True
         then let ipsCount = length (filter (\<lambda>m. sm_publicIp m \<and> sm_farmId m = ni_farmId node) machines) + 1
              in if 1 < ipsCount
                 then case getFarm (ni_farmId node) of
                        None \<Rightarrow> valid
                      | Some farm \<Rightarrow> ipsCount \<le> length (filter (\<lambda>ip. pi_contract_id ip = 0) (fi_publicIps farm))
                 else valid
         else valid)"

text \<open>A contract that is gone is null, and asking for its state a \<open>TypeError\<close>.\<close>

definition in_grace_period :: "grid_api \<Rightarrow> int \<Rightarrow> js_error + bool" where
  "in_grace_period api contract_id = bindR (chain_contract api contract_id) (\<lambda>c. case c of
     None \<Rightarrow> Inl TypeError
   | Some c \<Rightarrow> Inr (case ct_state c of CS_gracePeriod b \<Rightarrow> b \<noteq> 0 | _ \<Rightarrow> False))"

fun rented_node :: "grid_api \<Rightarrow> NodeInfo list \<Rightarrow> js_error + NodeInfo option" where
  "rented_node api [] = Inr None"
| "rented_node api (n # ns) = bindR (in_grace_period api (ni_rentContractId n)) (\<lambda>grace.
     if grace then rented_node api ns else Inr (Some n))"

definition node_with_id :: "int option \<Rightarrow> NodeInfo list \<Rightarrow> NodeInfo option" where
  "node_with_id i nodes = (case i of None \<Rightarrow> None | Some i \<Rightarrow> find (\<lambda>n. ni_nodeId n = i) nodes)"

definition selectValidNode ::
  "(NodeInfo list \<Rightarrow> NodeInfo list) \<Rightarrow> grid_api \<Rightarrow> int \<Rightarrow> (int \<Rightarrow> FarmInfo option) \<Rightarrow> NodeInfo list \<Rightarrow> SelectedMachine list
   \<Rightarrow> FilterOptions \<Rightarrow> int option \<Rightarrow> js_error + NodeInfo option"
where
  "selectValidNode shuffle api twinId getFarm nodes machines filters old =
     bindR (rented_node api (filter (\<lambda>n. ni_rentedByTwinId n = twinId) nodes)) (\<lambda>rented.
       let valid = (\<lambda>n. isNodeValid getFarm n machines filters);
           wanted = (if nonzero old \<or> rented \<noteq> None
                     then case node_with_id old nodes of None \<Rightarrow> rented | Some n \<Rightarrow> Some n else None)
       in Inr (case wanted of
            Some n \<Rightarrow> if valid n then Some n else find valid (shuffle nodes)
          | None \<Rightarrow> find valid (shuffle nodes)))"

definition getNodePageCount :: "grid_api \<Rightarrow> int \<Rightarrow> FilterOptions \<Rightarrow> js_error + int" where
  "getNodePageCount api page_size filters =
     bindR (capacity_getNodesCount api (filters\<lparr>fo_size := Some 0\<rparr>)) (\<lambda>n. Inr (page_of_count page_size n))"

text \<open>The messages shown on the way are collected.\<close>

definition validateRentContract :: "grid_api \<Rightarrow> NodeInfo option \<Rightarrow> (string list, string, bool) eff" where
  "validateRentContract api node = (case node of
     None \<Rightarrow> throwE ''Node ID is required.''
   | Some n \<Rightarrow>
       if ni_nodeId n = 0 then throwE ''Node ID is required.''
       else if ni_dedicated n \<and> ni_rentedByTwinId n = 0 then throwE (''Node '' @ show_int (ni_nodeId n) @ '' is not rented'')
       else if ni_rentContractId n \<noteq> 0
       then case in_grace_period api (ni_rentContractId n) of
              Inl e \<Rightarrow> throwE (normalizeError (Thrown_error e) status_fallback)
            | Inr grace \<Rightarrow> bindE (modifyE (\<lambda>toasts. if grace
                  then toasts @ [''You can'' @ [apos] @ ''t deploy on node '' @ show_int (ni_nodeId n)
                                 @ '', its rent contract is in grace period.''] else toasts)) (\<lambda>_. retE True)
       else retE True)"

subsection \<open>Places\<close>

text \<open>A country of the graph database: its name, region and subregion.  The proxy knows the countries that have nodes.\<close>

record country =
  cy_name :: string
  cy_region :: string
  cy_subregion :: string

definition droppedCountries :: "(string \<times> string) list" where
  "droppedCountries = [(''United States of America'', ''United States''),
     (''United Kingdom of Great Britain and Northern Ireland'', ''United Kingdom''), (''Czech Republic'', ''Czechia'')]"

definition country_name :: "string \<Rightarrow> string" where
  "country_name name = foldl (\<lambda>n con. if fst con = n then snd con else n) name droppedCountries"

definition add_location :: "string list \<Rightarrow> bool \<Rightarrow> (string \<times> string list) list \<Rightarrow> country \<Rightarrow> (string \<times> string list) list" where
  "add_location allowed onlyWithNodes locations c =
     (let name = country_name (cy_name c);
          region = (if cy_region c \<noteq> ''unknown region'' then cy_region c else cy_subregion c)
      in if name \<in> set allowed \<or> \<not> onlyWithNodes
         then obj_set region (list_or_empty (map_of locations region) @ [name]) locations
         else locations)"

definition getLocations :: "js_error + country list \<Rightarrow> js_error + string list \<Rightarrow> bool option \<Rightarrow> js_error + (string \<times> string list) list" where
  "getLocations countries nodesDistribution onlyWithNodes = bindR countries (\<lambda>cs. bindR nodesDistribution (\<lambda>allowed.
     Inr (foldl (add_location allowed (onlyWithNodes \<noteq> Some False)) [] cs)))"

subsection \<open>The validators of the requirements\<close>

datatype numeric_type = N_int | N_number

record NumericValidator =
  nv_type :: numeric_type
  nv_min :: rat
  nv_max :: rat

record partial_validator =
  nw_type :: "numeric_type option"
  nw_min :: "rat option"
  nw_max :: "rat option"

definition number_or :: "rat option \<Rightarrow> rat \<Rightarrow> rat" where
  "number_or x d = (case x of None \<Rightarrow> d | Some v \<Rightarrow> if v = 0 then d else v)"

definition normalizeNumericValidator :: "partial_validator option \<Rightarrow> NumericValidator \<Rightarrow> NumericValidator" where
  "normalizeNumericValidator v fallback = (case v of
     None \<Rightarrow> fallback
   | Some v \<Rightarrow> \<lparr>nv_type = (case nw_type v of None \<Rightarrow> nv_type fallback | Some t \<Rightarrow> t),
       nv_min = number_or (nw_min v) (nv_min fallback), nv_max = number_or (nw_max v) (nv_max fallback)\<rparr>)"

record 'v filters_validators =
  fv_cpu :: 'v
  fv_memory :: 'v
  fv_ssdDisks :: 'v
  fv_hddDisks :: 'v
  fv_rootFilesystemSize :: 'v
  fv_solutionDisk :: 'v

definition normalizeFiltersValidators :: "partial_validator option filters_validators \<Rightarrow> NumericValidator filters_validators" where
  "normalizeFiltersValidators v = \<lparr>
     fv_cpu = normalizeNumericValidator (fv_cpu v) \<lparr>nv_type = N_int, nv_min = 1, nv_max = 32\<rparr>,
     fv_memory = normalizeNumericValidator (fv_memory v) \<lparr>nv_type = N_int, nv_min = 256, nv_max = 262144\<rparr>,
     fv_ssdDisks = normalizeNumericValidator (fv_ssdDisks v) \<lparr>nv_type = N_int, nv_min = 1, nv_max = 10000\<rparr>,
     fv_hddDisks = normalizeNumericValidator (fv_hddDisks v) \<lparr>nv_type = N_int, nv_min = 1, nv_max = 10000\<rparr>,
     fv_rootFilesystemSize = normalizeNumericValidator (fv_rootFilesystemSize v)
       \<lparr>nv_type = N_number, nv_min = 500 / 1024, nv_max = 10000\<rparr>,
     fv_solutionDisk = normalizeNumericValidator (fv_solutionDisk v) \<lparr>nv_type = N_int, nv_min = 15, nv_max = 10000\<rparr>\<rparr>"

subsection \<open>The machines of a cluster\<close>

text \<open>
  \<open>components/k8s_worker.vue\<close>: a worker, what it requires of its node, and what it takes of it once
  a node is found.  Its memory is counted in MB, its disks in GB.
\<close>

record K8SWorker =
  wk_cpu :: int
  wk_memory :: int
  wk_diskSize :: rat
  wk_rootFsSize :: rat
  wk_ipv4 :: bool
  wk_certified :: bool
  wk_dedicated :: bool
  wk_planetary :: bool
  wk_mycelium :: bool
  wk_wireguard :: bool

definition worker_filters :: "K8SWorker \<Rightarrow> SelectionDetailsFilters" where
  "worker_filters w = \<lparr>sf_ipv4 = Some (wk_ipv4 w), sf_ipv6 = None, sf_hasGPU = None, sf_cpu = Some (wk_cpu w),
     sf_memory = Some (wk_memory w), sf_ssdDisks = Some [wk_diskSize w], sf_hddDisks = None,
     sf_rootFilesystemSize = Some (wk_rootFsSize w), sf_solutionDisk = None, sf_certified = Some (wk_certified w),
     sf_dedicated = Some (wk_dedicated w), sf_planetary = Some (wk_planetary w), sf_mycelium = Some (wk_mycelium w),
     sf_wireguard = Some (wk_wireguard w)\<rparr>"

definition toMachine :: "K8SWorker \<Rightarrow> NodeInfo \<Rightarrow> SelectedMachine" where
  "toMachine w node = \<lparr>sm_farmId = ni_farmId node, sm_nodeId = ni_nodeId node, sm_cpu = wk_cpu w, sm_memory = wk_memory w,
     sm_disk = wk_diskSize w + wk_rootFsSize w, sm_publicIp = wk_ipv4 w\<rparr>"

end
