(* ===== verification/UseAsync.thy ===== *)
theory UseAsync
  imports Prelude
begin

text \<open>
  \<open>playground/src/hooks/useAsync.ts\<close>: an asynchronous task of the dashboard that may be started again
  before it has ended.  Each run of the task gets the next number, is tried a number of times, and
  only the newest run may write the result.

  The runs interleave at their \<open>await\<close>s.  Between two of them the code is one event of
  \<open>async_step\<close>: a run is refused by \<open>shouldRun\<close>, it starts and waits for \<open>onBeforeTask\<close>, it is issued and
  waits for the task, the task settles, the run goes on after an attempt.  An event that cannot
  happen has no successor.
\<close>

subsection \<open>State and events\<close>

text \<open>A run waits for its attempt, or the attempt has returned whether it succeeded.\<close>

datatype phase = Waiting nat | Returned bool nat

record ('d, 'e) async_state =
  as_data :: "'d option"
  as_error :: "'e option"
  as_loading :: bool
  as_initialized :: bool
  as_counter :: nat
  as_before :: nat
  as_runs :: "nat \<Rightarrow> phase option"
  as_after :: "nat list"

datatype ('d, 'e) async_event = Refused | Started | Issued | Succeeded nat 'd | Failed nat 'e | Continued nat | Reset

text \<open>\<open>normalizeOptions\<close>: three tries unless a number is given, and at least one.\<close>

definition normalized_tries :: "int option \<Rightarrow> nat" where
  "normalized_tries t = (case t of None \<Rightarrow> 3 | Some n \<Rightarrow> nat (max 1 n))"

definition async_init :: "'d option \<Rightarrow> ('d, 'e) async_state" where
  "async_init d = \<lparr>as_data = d, as_error = None, as_loading = False, as_initialized = False, as_counter = 0,
     as_before = 0, as_runs = (\<lambda>_. None), as_after = []\<rparr>"

text \<open>The end of \<open>run\<close>: only the newest run stops the loading and calls \<open>onAfterTask\<close>.\<close>

definition finish_run :: "nat \<Rightarrow> ('d, 'e) async_state \<Rightarrow> ('d, 'e) async_state" where
  "finish_run i s = (let s' = s\<lparr>as_runs := (as_runs s)(i := None)\<rparr>
     in if i = as_counter s then s'\<lparr>as_loading := False, as_after := as_after s @ [i]\<rparr> else s')"

definition write_result :: "nat \<Rightarrow> 'd option \<Rightarrow> 'e option \<Rightarrow> ('d, 'e) async_state \<Rightarrow> ('d, 'e) async_state" where
  "write_result i d e s = (if i = as_counter s then s\<lparr>as_data := d, as_error := e\<rparr> else s)"

fun async_step :: "nat \<Rightarrow> 'd option \<Rightarrow> ('d, 'e) async_event \<Rightarrow> ('d, 'e) async_state \<Rightarrow> ('d, 'e) async_state option" where
  "async_step tries d Refused s = Some (s\<lparr>as_initialized := False\<rparr>)"
| "async_step tries d Started s = Some (s\<lparr>as_initialized := True, as_before := Suc (as_before s)\<rparr>)"
| "async_step tries d Issued s =
     (if as_before s = 0 then None
      else let i = Suc (as_counter s)
           in Some (s\<lparr>as_before := as_before s - 1, as_counter := i, as_loading := True,
                      as_runs := (as_runs s)(i \<mapsto> Waiting 0)\<rparr>))"
| "async_step tries d (Succeeded i v) s =
     (case as_runs s i of
        Some (Waiting k) \<Rightarrow> Some (write_result i (Some v) None (s\<lparr>as_runs := (as_runs s)(i \<mapsto> Returned True k)\<rparr>))
      | _ \<Rightarrow> None)"
| "async_step tries d (Failed i e) s =
     (case as_runs s i of
        Some (Waiting k) \<Rightarrow> Some (write_result i d (Some e) (s\<lparr>as_runs := (as_runs s)(i \<mapsto> Returned False k)\<rparr>))
      | _ \<Rightarrow> None)"
| "async_step tries d (Continued i) s =
     (case as_runs s i of
        Some (Returned ok k) \<Rightarrow>
          Some (if ok \<or> tries \<le> Suc k then finish_run i s
                else if i \<noteq> as_counter s then s\<lparr>as_runs := (as_runs s)(i := None)\<rparr>
                else s\<lparr>as_runs := (as_runs s)(i \<mapsto> Waiting (Suc k))\<rparr>)
      | _ \<Rightarrow> None)"
| "async_step tries d Reset s = Some (s\<lparr>as_initialized := False\<rparr>)"

fun async_run :: "nat \<Rightarrow> 'd option \<Rightarrow> ('d, 'e) async_event list \<Rightarrow> ('d, 'e) async_state \<Rightarrow> ('d, 'e) async_state option" where
  "async_run tries d [] s = Some s"
| "async_run tries d (ev # evs) s = (case async_step tries d ev s of None \<Rightarrow> None | Some s' \<Rightarrow> async_run tries d evs s')"

text \<open>What the component sees: \<open>asyncTask\<close>.\<close>

record ('d, 'e) task_result =
  tr_loading :: bool
  tr_data :: "'d option"
  tr_error :: "'e option"
  tr_initialized :: bool

definition asyncTask :: "'d option \<Rightarrow> ('d, 'e) async_state \<Rightarrow> ('d, 'e) task_result" where
  "asyncTask d s = \<lparr>tr_loading = (as_initialized s \<and> as_loading s),
     tr_data = (if as_initialized s \<and> \<not> as_loading s then as_data s else d),
     tr_error = (if as_initialized s \<and> \<not> as_loading s then as_error s else None),
     tr_initialized = as_initialized s\<rparr>"

subsection \<open>Runs of events\<close>

lemma async_run_append: "async_run tries d (evs @ [ev]) s =
  (case async_run tries d evs s of None \<Rightarrow> None | Some s' \<Rightarrow> async_step tries d ev s')"
  by (induction evs arbitrary: s) (auto split: option.split)

lemma async_run_induct [consumes 1, case_names init step]:
  assumes "async_run tries d evs s0 = Some s"
    and "P [] s0"
    and "\<And>evs ev s t. async_run tries d evs s0 = Some s \<Longrightarrow> P evs s \<Longrightarrow> async_step tries d ev s = Some t \<Longrightarrow> P (evs @ [ev]) t"
  shows "P evs s"
  using assms(1)
proof (induction evs arbitrary: s rule: rev_induct)
  case Nil
  with assms(2) show ?case by simp
next
  case (snoc ev evs)
  then obtain s' where "async_run tries d evs s0 = Some s'" "async_step tries d ev s' = Some s"
    by (auto simp: async_run_append split: option.splits)
  with snoc.IH assms(3) show ?case by blast
qed

text \<open>Numbers are given out in order, the task loads exactly as long as the newest run lives.\<close>

definition async_inv :: "('d, 'e) async_state \<Rightarrow> bool" where
  "async_inv s \<longleftrightarrow> (\<forall>i. as_runs s i \<noteq> None \<longrightarrow> 1 \<le> i \<and> i \<le> as_counter s)
     \<and> (as_loading s \<longleftrightarrow> as_runs s (as_counter s) \<noteq> None)
     \<and> distinct (as_after s) \<and> (\<forall>i \<in> set (as_after s). i \<le> as_counter s \<and> as_runs s i = None)"

lemma async_inv_init: "async_inv (async_init d)"
  by (simp add: async_inv_def async_init_def)

lemma async_inv_step: "async_step tries d ev s = Some t \<Longrightarrow> async_inv s \<Longrightarrow> async_inv t"
proof (cases ev)
  case Issued
  moreover assume "async_step tries d ev s = Some t" "async_inv s"
  ultimately show ?thesis
    by (auto simp: async_inv_def Let_def le_Suc_eq split: if_splits) (metis Suc_n_not_le_n)+
next
  case (Continued i)
  moreover assume "async_step tries d ev s = Some t" "async_inv s"
  ultimately show ?thesis
    by (auto simp: async_inv_def finish_run_def Let_def split: option.splits phase.splits if_splits)
qed (auto simp: async_inv_def write_result_def split: option.splits phase.splits if_splits)

lemma async_inv_run: "async_run tries d evs (async_init d) = Some s \<Longrightarrow> async_inv s"
  by (induction rule: async_run_induct) (auto intro: async_inv_init async_inv_step)

text \<open>The newest result a run has produced.\<close>

fun outcome_of :: "'d option \<Rightarrow> nat \<Rightarrow> ('d, 'e) async_event \<Rightarrow> ('d option \<times> 'e option) option" where
  "outcome_of d i (Succeeded j v) = (if i = j then Some (Some v, None) else None)"
| "outcome_of d i (Failed j e) = (if i = j then Some (d, Some e) else None)"
| "outcome_of d i ev = None"

definition last_outcome :: "'d option \<Rightarrow> nat \<Rightarrow> ('d, 'e) async_event list \<Rightarrow> ('d option \<times> 'e option) option" where
  "last_outcome d i evs = foldl (\<lambda>o' ev. case outcome_of d i ev of None \<Rightarrow> o' | Some r \<Rightarrow> Some r) None evs"

lemma last_outcome_snoc: "last_outcome d i (evs @ [ev]) = (case outcome_of d i ev of None \<Rightarrow> last_outcome d i evs | Some r \<Rightarrow> Some r)"
  by (simp add: last_outcome_def split: option.split)

definition newest_written :: "'d option \<Rightarrow> ('d, 'e) async_event list \<Rightarrow> ('d, 'e) async_state \<Rightarrow> bool" where
  "newest_written d evs s \<longleftrightarrow> (if as_counter s = 0 then as_data s = d \<and> as_error s = None
     else as_runs s (as_counter s) = Some (Waiting 0) \<or> last_outcome d (as_counter s) evs = Some (as_data s, as_error s))"

lemma newest_written_step:
  assumes "async_step tries d ev s = Some t" "async_inv s" "newest_written d evs s"
  shows "newest_written d (evs @ [ev]) t"
proof -
  have live: "1 \<le> i \<and> i \<le> as_counter s" if "as_runs s i \<noteq> None" for i
    using assms(2) that unfolding async_inv_def by blast
  show ?thesis
  proof (cases ev)
    case (Succeeded i v)
    with assms(1) have "1 \<le> i" using live [of i] by (cases "as_runs s i") auto
    with Succeeded assms(1, 3) show ?thesis
      by (auto simp: newest_written_def last_outcome_snoc write_result_def split: option.splits phase.splits if_splits)
  next
    case (Failed i e)
    with assms(1) have "1 \<le> i" using live [of i] by (cases "as_runs s i") auto
    with Failed assms(1, 3) show ?thesis
      by (auto simp: newest_written_def last_outcome_snoc write_result_def split: option.splits phase.splits if_splits)
  next
    case (Continued i)
    with assms(1) have "1 \<le> i" using live [of i] by (cases "as_runs s i") auto
    with Continued assms(1, 3) show ?thesis
      by (auto simp: newest_written_def last_outcome_snoc finish_run_def Let_def split: option.splits phase.splits if_splits)
  qed (use assms(1, 3) in \<open>auto simp: newest_written_def last_outcome_snoc Let_def split: if_splits\<close>)
qed

lemma newest_written_run: "async_run tries d evs (async_init d) = Some s \<Longrightarrow> newest_written d evs s"
proof (induction rule: async_run_induct)
  case init
  show ?case by (simp add: newest_written_def async_init_def)
next
  case (step evs ev s t)
  with newest_written_step [OF step(2) async_inv_run [OF step(1)]] show ?case by blast
qed

subsection \<open>The events of one run\<close>

fun event_of :: "nat \<Rightarrow> ('d, 'e) async_event \<Rightarrow> bool" where
  "event_of i (Succeeded j v) \<longleftrightarrow> i = j"
| "event_of i (Failed j e) \<longleftrightarrow> i = j"
| "event_of i (Continued j) \<longleftrightarrow> i = j"
| "event_of i ev \<longleftrightarrow> False"

definition events_of :: "nat \<Rightarrow> ('d, 'e) async_event list \<Rightarrow> nat" where
  "events_of i evs = length (filter (event_of i) evs)"

lemma events_of_snoc [simp]: "events_of i (evs @ [ev]) = events_of i evs + (if event_of i ev then 1 else 0)"
  by (simp add: events_of_def)

lemma events_of_Nil [simp]: "events_of i [] = 0"
  by (simp add: events_of_def)

text \<open>Two events for each attempt.\<close>

definition attempts_counted :: "nat \<Rightarrow> nat \<Rightarrow> ('d, 'e) async_event list \<Rightarrow> ('d, 'e) async_state \<Rightarrow> bool" where
  "attempts_counted tries i evs s \<longleftrightarrow> (as_counter s < i \<longrightarrow> events_of i evs = 0) \<and> events_of i evs \<le> 2 * tries
     \<and> (case as_runs s i of None \<Rightarrow> True
        | Some (Waiting k) \<Rightarrow> events_of i evs = 2 * k \<and> k < tries
        | Some (Returned ok k) \<Rightarrow> events_of i evs = Suc (2 * k) \<and> k < tries)"

lemma attempts_counted_other:
  "attempts_counted tries i evs s \<Longrightarrow> \<not> event_of i ev \<Longrightarrow> as_runs t i = as_runs s i \<Longrightarrow> as_counter s \<le> as_counter t
   \<Longrightarrow> attempts_counted tries i (evs @ [ev]) t"
  by (auto simp: attempts_counted_def split: option.split phase.split)

lemma attempts_counted_step:
  assumes step: "async_step tries d ev s = Some t" and inv: "async_inv s" and "1 \<le> tries" and c: "attempts_counted tries i evs s"
  shows "attempts_counted tries i (evs @ [ev]) t"
proof -
  have live: "j \<le> as_counter s" if "as_runs s j \<noteq> None" for j
    using inv that unfolding async_inv_def by blast
  have settled: ?thesis if "event_of i ev" "as_runs s i = Some (Waiting k)" "as_runs t i = Some (Returned ok k)"
      "as_counter t = as_counter s" for k ok
    using c that live [of i] by (simp add: attempts_counted_def)
  show ?thesis
  proof (cases ev)
    case (Succeeded j v)
    with step obtain k where "as_runs s j = Some (Waiting k)" by (auto split: option.splits phase.splits)
    with Succeeded step have "as_runs t = (as_runs s)(j \<mapsto> Returned True k)" "as_counter t = as_counter s"
      by (auto simp: write_result_def)
    with Succeeded \<open>as_runs s j = _\<close> show ?thesis
      by (cases "i = j") (rule settled [of k True], auto intro!: attempts_counted_other [OF c])
  next
    case (Failed j e)
    with step obtain k where "as_runs s j = Some (Waiting k)" by (auto split: option.splits phase.splits)
    with Failed step have "as_runs t = (as_runs s)(j \<mapsto> Returned False k)" "as_counter t = as_counter s"
      by (auto simp: write_result_def)
    with Failed \<open>as_runs s j = _\<close> show ?thesis
      by (cases "i = j") (rule settled [of k False], auto intro!: attempts_counted_other [OF c])
  next
    case (Continued j)
    with step obtain ok k where p: "as_runs s j = Some (Returned ok k)" by (auto split: option.splits phase.splits)
    show ?thesis
    proof (cases "i = j")
      case True
      with Continued step p c live [of j] show ?thesis
        by (auto simp: attempts_counted_def finish_run_def Let_def split: if_splits)
    next
      case False
      with Continued step p show ?thesis
        by (intro attempts_counted_other [OF c]) (auto simp: finish_run_def Let_def)
    qed
  next
    case Issued
    have new: "as_runs s (Suc (as_counter s)) = None" using live [of "Suc (as_counter s)"] by (cases "as_runs s (Suc (as_counter s))") auto
    show ?thesis
    proof (cases "i = Suc (as_counter s)")
      case True
      with Issued step new c assms(3) show ?thesis
        by (auto simp: attempts_counted_def Let_def split: if_splits)
    next
      case False
      with Issued step show ?thesis
        by (intro attempts_counted_other [OF c]) (auto simp: Let_def split: if_splits)
    qed
  qed (use step in \<open>auto intro!: attempts_counted_other [OF c]\<close>)
qed

lemma attempts_counted_run:
  assumes "1 \<le> tries" "async_run tries d evs (async_init d) = Some s"
  shows "attempts_counted tries i evs s"
  using assms(2)
proof (induction rule: async_run_induct)
  case init
  show ?case by (simp add: attempts_counted_def async_init_def)
next
  case (step evs ev s t)
  with attempts_counted_step [OF step(2) async_inv_run [OF step(1)] assms(1)] show ?case by blast
qed

subsection \<open>Properties\<close>

text \<open>
  C12: When nothing is loading, the result is the one of the newest run, however the runs
  interleaved: what an older run still brought later was dropped.
\<close>

theorem newest_run_wins:
  assumes "async_run tries d evs (async_init d) = Some s" and "\<not> as_loading s" and "0 < as_counter s"
  shows "last_outcome d (as_counter s) evs = Some (as_data s, as_error s)"
proof -
  have "as_runs s (as_counter s) = None"
    using async_inv_run [OF assms(1)] assms(2) by (auto simp: async_inv_def)
  with newest_written_run [OF assms(1)] assms(3) show ?thesis by (simp add: newest_written_def)
qed

text \<open>
  C34: Every run ends: it has at most two events for each of its tries, and as long as it
  lives it has a next one.  \<open>onAfterTask\<close> is called at most once for it.
\<close>

theorem task_run_ends:
  assumes "1 \<le> tries" and "async_run tries d evs (async_init d) = Some s"
  shows "events_of i evs \<le> 2 * tries \<and> distinct (as_after s)
    \<and> (as_runs s i \<noteq> None \<longrightarrow> (\<exists>ev. event_of i ev \<and> async_step tries d ev s \<noteq> None))"
proof (intro conjI impI)
  show "events_of i evs \<le> 2 * tries" using attempts_counted_run [OF assms, of i] by (simp add: attempts_counted_def)
  show "distinct (as_after s)" using async_inv_run [OF assms(2)] by (simp add: async_inv_def)
  assume "as_runs s i \<noteq> None"
  then obtain p where p: "as_runs s i = Some p" by blast
  show "\<exists>ev. event_of i ev \<and> async_step tries d ev s \<noteq> None"
  proof (cases p)
    case (Waiting k)
    with p show ?thesis by (intro exI [of _ "Failed i undefined"]) simp
  next
    case (Returned ok k)
    with p show ?thesis by (intro exI [of _ "Continued i"]) simp
  qed
qed

subsection \<open>Examples\<close>

text \<open>A search is started again before it has ended: the first answer comes last and is dropped.\<close>

definition two_searches :: "(int, string) async_event list" where
  "two_searches = [Started, Issued, Started, Issued, Succeeded 2 20, Continued 2, Succeeded 1 10, Continued 1]"

lemma two_searches_end: "async_run 3 None two_searches (async_init None)
  = Some \<lparr>as_data = Some 20, as_error = None, as_loading = False, as_initialized = True, as_counter = 2, as_before = 0,
      as_runs = (\<lambda>_. None), as_after = [2]\<rparr>"
  by (simp add: two_searches_def async_init_def Let_def write_result_def finish_run_def fun_eq_iff)

theorem newest_run_wins_witness: "last_outcome None 2 two_searches = Some (Some 20, None)"
  using newest_run_wins [OF two_searches_end] by simp

theorem task_run_ends_witness: "events_of 1 two_searches \<le> 6"
  using task_run_ends [OF _ two_searches_end, of 1] by simp

end
