(* ===== verification/Dashboard.thy ===== *)
theory Dashboard
  imports Calculator
begin

text \<open>
  Small parts of the dashboard: how long a node was down (\<open>playground/src/utils/node.ts\<close>), the
  information it keeps about nodes (\<open>contracts.ts\<close>), and how sizes are shown
  (\<open>format_resource_size.ts\<close>, \<open>helpers.ts\<close>, \<open>get_nodes.ts\<close>).
\<close>

subsection \<open>The uptime of a node\<close>

record UptimeEvent =
  ue_timestamp :: int
  ue_uptime :: int

definition STANDARD_PERIOD_DURATION :: int where
  "STANDARD_PERIOD_DURATION = 24 * 60 * 60 * (365 * 3 + 366 * 2) div 60"

definition FIRST_PERIOD_START_TIMESTAMP :: int where "FIRST_PERIOD_START_TIMESTAMP = 1522501000"

definition UPTIME_EVENTS_INTERVAL :: int where "UPTIME_EVENTS_INTERVAL = 3600"

text \<open>\<open>a % b\<close> for a positive \<open>b\<close>: the sign is that of \<open>a\<close>.\<close>

definition js_rem :: "int \<Rightarrow> int \<Rightarrow> int" where
  "js_rem a b = (if a < 0 then - ((- a) mod b) else a mod b)"

definition current_period :: "int \<Rightarrow> int" where
  "current_period now = js_rem (now - FIRST_PERIOD_START_TIMESTAMP) STANDARD_PERIOD_DURATION"

text \<open>The loop over neighbouring events.\<close>

fun downtime_between :: "UptimeEvent list \<Rightarrow> int \<Rightarrow> int" where
  "downtime_between (a # b # evs) time = downtime_between (b # evs)
     (if ue_uptime b < ue_uptime a \<or> ue_uptime b < ue_timestamp b - ue_timestamp a
      then time + (ue_timestamp b - ue_timestamp a - ue_uptime b) else time)"
| "downtime_between evs time = time"

definition seconds_of :: "int \<Rightarrow> int" where
  "seconds_of now_ms = (now_ms + 500) div 1000"

definition period_start :: "int \<Rightarrow> int" where
  "period_start now = now - current_period now"

text \<open>The events of the current period in order of time; the answer is the downtime and the time the period has lasted.\<close>

definition getNodeAvailability :: "(int \<Rightarrow> js_error + UptimeEvent list) \<Rightarrow> int \<Rightarrow> js_error + int \<times> int" where
  "getNodeAvailability uptimeEvents now_ms =
     (let now = seconds_of now_ms; since = current_period now
      in bindR (uptimeEvents (period_start now)) (\<lambda>evs.
           if evs = [] then Inr (since, since)
           else let evs' = \<lparr>ue_timestamp = period_start now, ue_uptime = 0\<rparr> # evs;
                    time = downtime_between evs' 0;
                    elapsed = now - ue_timestamp (last evs')
                in Inr (if UPTIME_EVENTS_INTERVAL \<le> elapsed then time + elapsed else time, since)))"

text \<open>\<open>toFixed(2)\<close> of a percentage; of a period that has just begun it is \<open>NaN\<close>.\<close>

definition calculateUptime :: "int \<Rightarrow> int \<Rightarrow> string" where
  "calculateUptime currentPeriod downtime =
     (if currentPeriod = 0 then (if currentPeriod - downtime = 0 then ''NaN'' else if downtime < 0 then ''Infinity'' else ''-Infinity'')
      else fixed_text 2 (of_int (currentPeriod - downtime) / of_int currentPeriod * 100))"

definition getNodeUptimePercentage :: "(int \<Rightarrow> js_error + UptimeEvent list) \<Rightarrow> int \<Rightarrow> js_error + string" where
  "getNodeUptimePercentage uptimeEvents now_ms =
     bindR (getNodeAvailability uptimeEvents now_ms) (\<lambda>(downtime, currentPeriod). Inr (calculateUptime currentPeriod downtime))"

subsection \<open>What is kept about nodes\<close>

text \<open>\<open>getNodeInfo\<close>: the status and the farm of nodes, each asked for once while the dashboard is open.\<close>

record node_short =
  ns_status :: string
  ns_farmId :: int

definition request_node :: "(int \<Rightarrow> js_error + node_short) \<Rightarrow> int \<Rightarrow> (int \<Rightarrow> node_short option) \<times> js_error option \<Rightarrow> (int \<Rightarrow> node_short option) \<times> js_error option" where
  "request_node byId i acc = (case byId i of
     Inr n \<Rightarrow> ((fst acc)(i \<mapsto> n), snd acc)
   | Inl e \<Rightarrow> (fst acc, case snd acc of None \<Rightarrow> Some e | Some e' \<Rightarrow> Some e'))"

definition getNodeInfo ::
  "(int \<Rightarrow> js_error + node_short) \<Rightarrow> int list \<Rightarrow> int list \<Rightarrow> (int \<Rightarrow> node_short option, js_error, int \<Rightarrow> node_short option) eff"
where
  "getNodeInfo byId nodeIDs requestedNodes = (\<lambda>cache.
     let uniqueNodeIDs = js_dedup nodeIDs;
         ask = filter (\<lambda>i. i \<notin> set requestedNodes \<and> cache i = None) uniqueNodeIDs;
         (cache', failed) = fold (request_node byId) ask (cache, None)
     in case failed of
          Some e \<Rightarrow> (Inl e, cache')
        | None \<Rightarrow> (Inr (\<lambda>i. if i \<in> set uniqueNodeIDs then cache' i else None), cache'))"

subsection \<open>Sizes\<close>

text \<open>The number that is shown and its unit; \<open>0\<close> has none.  An absent size is \<open>None\<close>.\<close>

definition toFixedTwo :: "rat \<Rightarrow> rat" where
  "toFixedTwo v = of_int \<lfloor>v * 100\<rfloor> / 100"

definition formatSpeed :: "rat \<Rightarrow> rat" where
  "formatSpeed v = of_int \<lfloor>v + 1 / 2\<rfloor>"

definition formatResourceSize :: "rat option \<Rightarrow> bool \<Rightarrow> rat \<times> string" where
  "formatResourceSize sz speed = (case sz of
     None \<Rightarrow> (0, [])
   | Some s \<Rightarrow>
       let shown = (\<lambda>v. if speed then formatSpeed v else toFixedTwo v) in
       if s = 0 then (0, [])
       else if s < 1024 then (s, ''Bytes'')
       else if s < 1024 ^ 2 then (shown (s / 1024), ''KB'')
       else if s < 1024 ^ 3 then (shown (s / 1024 ^ 2), ''MB'')
       else if s < 1024 ^ 4 then (shown (s / 1024 ^ 3), ''GB'')
       else if s < 1024 ^ 5 then (shown (s / 1024 ^ 4), ''TB'')
       else (shown (s / 1024 ^ 5), ''PB''))"

text \<open>The digits from the last to the first, with a comma after every third unless none is left.\<close>

fun group_digits :: "string \<Rightarrow> nat \<Rightarrow> string \<Rightarrow> string" where
  "group_digits [] count res = res"
| "group_digits (c # cs) count res =
     group_digits cs (Suc count) (if Suc count mod 3 = 0 \<and> cs \<noteq> [] then CHR '','' # c # res else c # res)"

definition formatNumberWithCommas :: "int \<Rightarrow> string" where
  "formatNumberWithCommas sz =
     (if sz = 0 then ''0 GB''
      else group_digits (rev (show_int \<lfloor>of_int sz / 1024 ^ 3 + 1 / 2 :: rat\<rfloor>)) 0 [] @ '' GB'')"

definition toGigaBytes :: "rat option \<Rightarrow> rat" where
  "toGigaBytes v = (case v of None \<Rightarrow> 0 | Some x \<Rightarrow> of_int (round_away (x / 1024 ^ 3 * 100)) / 100)"

definition toBytes :: "rat option \<Rightarrow> rat" where
  "toBytes resource = (case resource of None \<Rightarrow> 0 | Some r \<Rightarrow> r * 1024 * 1024 * 1024)"

definition normalizePrice :: "rat \<Rightarrow> rat" where
  "normalizePrice price = (let m = price * 1000 in of_int (if m < 0 then - \<lfloor>- m\<rfloor> else \<lfloor>m\<rfloor>) / 1000)"

subsection \<open>Downtime\<close>

text \<open>
  Events as nodes send them: in order of time, no uptime is negative, and an uptime that has
  become smaller was counted since a restart in between.
\<close>

fun regular_events :: "UptimeEvent list \<Rightarrow> bool" where
  "regular_events (a # b # evs) \<longleftrightarrow> ue_timestamp a \<le> ue_timestamp b \<and> 0 \<le> ue_uptime b
     \<and> (ue_uptime b < ue_uptime a \<longrightarrow> ue_uptime b \<le> ue_timestamp b - ue_timestamp a) \<and> regular_events (b # evs)"
| "regular_events evs \<longleftrightarrow> True"

text \<open>Between two events the node was down as long as it had not been up before the second.\<close>

fun gaps :: "UptimeEvent list \<Rightarrow> int" where
  "gaps (a # b # evs) = max 0 (ue_timestamp b - ue_timestamp a - ue_uptime b) + gaps (b # evs)"
| "gaps evs = 0"

lemma downtime_is_gaps: "regular_events evs \<Longrightarrow> downtime_between evs time = time + gaps evs"
  by (induction evs time rule: downtime_between.induct) auto

lemma gaps_bounds: "regular_events evs \<Longrightarrow> evs \<noteq> [] \<Longrightarrow> 0 \<le> gaps evs \<and> gaps evs \<le> ue_timestamp (last evs) - ue_timestamp (hd evs)"
  by (induction evs rule: gaps.induct) auto

lemma current_period_bounds:
  "FIRST_PERIOD_START_TIMESTAMP \<le> now \<Longrightarrow> 0 \<le> current_period now \<and> current_period now < STANDARD_PERIOD_DURATION"
  by (simp add: current_period_def js_rem_def STANDARD_PERIOD_DURATION_def)

definition silence :: "int \<Rightarrow> UptimeEvent list \<Rightarrow> int" where
  "silence now evs = (let elapsed = now - ue_timestamp (last evs) in if UPTIME_EVENTS_INTERVAL \<le> elapsed then elapsed else 0)"

text \<open>
  The downtime of a node is the sum of the gaps between its reports, and what has passed since the
  last one once that is an hour; it is never negative and never longer than the period has lasted.
\<close>

theorem downtime_within_period:
  assumes "FIRST_PERIOD_START_TIMESTAMP \<le> seconds_of now_ms"
    and evs: "uptimeEvents (period_start (seconds_of now_ms)) = Inr evs"
    and reg: "regular_events (\<lparr>ue_timestamp = period_start (seconds_of now_ms), ue_uptime = 0\<rparr> # evs)"
    and past: "\<forall>e \<in> set evs. ue_timestamp e \<le> seconds_of now_ms"
    and r: "getNodeAvailability uptimeEvents now_ms = Inr (downtime, period)"
  shows "period = current_period (seconds_of now_ms) \<and> 0 \<le> downtime \<and> downtime \<le> period
    \<and> (evs \<noteq> [] \<longrightarrow> downtime = gaps (\<lparr>ue_timestamp = period_start (seconds_of now_ms), ue_uptime = 0\<rparr> # evs)
         + silence (seconds_of now_ms) evs)"
proof (cases "evs = []")
  case True
  with r evs current_period_bounds [OF assms(1)] show ?thesis by (simp add: getNodeAvailability_def Let_def)
next
  case False
  let ?now = "seconds_of now_ms"
  let ?evs = "\<lparr>ue_timestamp = period_start ?now, ue_uptime = 0\<rparr> # evs"
  have "period = current_period ?now" and d: "downtime = gaps ?evs + silence ?now evs"
    using r evs False downtime_is_gaps [OF reg, of 0] by (auto simp: getNodeAvailability_def Let_def silence_def split: if_splits)
  moreover have "0 \<le> gaps ?evs" and "gaps ?evs \<le> ue_timestamp (last evs) - period_start ?now"
    using gaps_bounds [OF reg] False by auto
  moreover have "0 \<le> silence ?now evs" and "silence ?now evs \<le> ?now - ue_timestamp (last evs)"
    using past False by (auto simp: silence_def Let_def UPTIME_EVENTS_INTERVAL_def)
  ultimately show ?thesis using False by (simp add: period_start_def)
qed

text \<open>A node that was up for a whole first hour, then restarted and reported once more half an hour later.\<close>

definition demo_events :: "int \<Rightarrow> UptimeEvent list" where
  "demo_events start = [\<lparr>ue_timestamp = start + 3600, ue_uptime = 3600\<rparr>, \<lparr>ue_timestamp = start + 7200, ue_uptime = 1800\<rparr>]"

theorem downtime_within_period_witness:
  "getNodeAvailability (\<lambda>start. Inr (demo_events start)) 1522508200000 = Inr (1800, 7200) \<and> (1800 :: int) \<le> 7200"
proof -
  have r: "getNodeAvailability (\<lambda>start. Inr (demo_events start)) 1522508200000 = Inr (1800, 7200)" by code_simp
  have a: "FIRST_PERIOD_START_TIMESTAMP \<le> seconds_of 1522508200000"
    and b: "regular_events (\<lparr>ue_timestamp = period_start (seconds_of 1522508200000), ue_uptime = 0\<rparr>
             # demo_events (period_start (seconds_of 1522508200000)))"
    and c: "\<forall>e \<in> set (demo_events (period_start (seconds_of 1522508200000))). ue_timestamp e \<le> seconds_of 1522508200000"
    by code_simp+
  from downtime_within_period [OF a refl b c r] r show ?thesis by simp
qed

subsection \<open>Sizes\<close>

text \<open>The bytes of a unit.\<close>

definition unit_bytes :: "string \<Rightarrow> rat" where
  "unit_bytes u = (if u = ''KB'' then 1024 else if u = ''MB'' then 1024 ^ 2 else if u = ''GB'' then 1024 ^ 3
     else if u = ''TB'' then 1024 ^ 4 else if u = ''PB'' then 1024 ^ 5 else 1)"

lemma toFixedTwo_near: "toFixedTwo v \<le> v \<and> v < toFixedTwo v + 1 / 100"
proof -
  have "of_int \<lfloor>v * 100\<rfloor> \<le> v * 100" "v * 100 < of_int \<lfloor>v * 100\<rfloor> + 1" by linarith+
  then show ?thesis by (simp add: toFixedTwo_def field_simps)
qed

text \<open>
  The size that is shown is the size of the resource, cut after two digits: never more
  than there is and less than a hundredth of its unit below.
\<close>

theorem size_shown:
  assumes "formatResourceSize (Some sz) False = (v, u)"
  shows "v * unit_bytes u \<le> sz \<and> sz < (v + 1 / 100) * unit_bytes u"
proof -
  have cut: "toFixedTwo (sz / b) * b \<le> sz \<and> sz < (toFixedTwo (sz / b) + 1 / 100) * b" if "0 < b" for b :: rat
    using toFixedTwo_near [of "sz / b"] that by (simp add: field_simps)
  show ?thesis
    using assms cut [of 1024] cut [of "1024 ^ 2"] cut [of "1024 ^ 3"] cut [of "1024 ^ 4"] cut [of "1024 ^ 5"]
    by (auto simp: formatResourceSize_def unit_bytes_def Let_def split: if_splits)
qed

text \<open>The commas only group the digits.\<close>

lemma group_digits_digits:
  "filter (\<lambda>c. c \<noteq> CHR '','') (group_digits cs count res) = rev (filter (\<lambda>c. c \<noteq> CHR '','') cs) @ filter (\<lambda>c. c \<noteq> CHR '','') res"
  by (induction cs count res rule: group_digits.induct) auto

end
