(* ===== verification/GridClient.thy ===== *)
theory GridClient
  imports Monitoring GridModules
begin

text \<open>
  \<open>grid_client/src/client.ts\<close> with \<open>toHexSeed\<close> of \<open>helpers/utils.ts\<close>, the constructor of
  \<open>clients/tf-grid/client.ts\<close> and \<open>helpers/migration.ts\<close>: which options the client keeps, the addresses
  it uses, how it connects and sets up its modules, which methods it lets be called by name, and how
  the values of the chain's store are encrypted again after the secret has changed.

  The clients it connects are fields of \<open>grid_actions\<close>, over a state of the world \<open>'w\<close>.
\<close>

subsection \<open>Options\<close>

record 'b ClientOptions =
  go_mnemonic :: string
  go_network :: string
  go_storeSecret :: "string option"
  go_projectName :: "string option"
  go_backendStorageType :: "string option"
  go_backendStorage :: "'b option"
  go_keypairType :: "string option"
  go_seed :: "string option"
  go_deploymentTimeoutMinutes :: "int option"
  go_keepReconnecting :: "bool option"
  go_urls :: "url_kind \<Rightarrow> string"

text \<open>\<open>validateMnemonic\<close> of bip39, and the hexadecimal text of \<open>mnemonicToMiniSecret\<close>.\<close>

record secrets =
  se_valid :: "string \<Rightarrow> bool"
  se_mini :: "string \<Rightarrow> string"

definition toHexSeed :: "secrets \<Rightarrow> string \<Rightarrow> string" where
  "toHexSeed se s = (if se_valid se s then ''0x'' @ se_mini se s
     else ''0x'' @ (if length s = 64 then s else drop 2 s))"

definition networks :: "string list" where
  "networks = [''dev'', ''qa'', ''test'', ''main'']"

text \<open>
  The constructor: the options that are kept, where an absent one is filled in, and the mnemonic when
  there was no secret for the store.  Neither the storage nor the seed of the user is carried over.
\<close>

definition kept_options :: "secrets \<Rightarrow> 'b ClientOptions \<Rightarrow> 'b ClientOptions" where
  "kept_options se opts =
     (let seed = toHexSeed se (go_mnemonic opts) in
      \<lparr>go_mnemonic = seed, go_network = go_network opts,
       go_storeSecret = Some (js_or (go_storeSecret opts) seed),
       go_projectName = Some (js_or (go_projectName opts) []),
       go_backendStorageType = Some (js_or (go_backendStorageType opts) ''auto''),
       go_backendStorage = None,
       go_keypairType = Some (js_or (go_keypairType opts) ''sr25519''),
       go_seed = None,
       go_deploymentTimeoutMinutes = (if nonzero (go_deploymentTimeoutMinutes opts) then go_deploymentTimeoutMinutes opts else Some 10),
       go_keepReconnecting = Some (truthy (go_keepReconnecting opts)),
       go_urls = go_urls opts\<rparr>)"

definition own_mnemonic :: "secrets \<Rightarrow> 'b ClientOptions \<Rightarrow> string option" where
  "own_mnemonic se opts = (if truthy_str (go_storeSecret opts) = None \<and> se_valid se (go_mnemonic opts) then Some (go_mnemonic opts) else None)"

definition new_GridClient :: "secrets \<Rightarrow> 'b ClientOptions \<Rightarrow> js_error + 'b ClientOptions \<times> string option" where
  "new_GridClient se opts =
     (if go_network opts \<in> set networks then Inr (kept_options se opts, own_mnemonic se opts)
      else Inl (GridClientError ''Unknown NETWORK selected! Acceptable networks are [dev | qa | test | main ]''))"

subsection \<open>Addresses\<close>

definition base_domain :: "string \<Rightarrow> string" where
  "base_domain network = (if network = ''main'' then ''grid.tf'' else network @ ''.grid.tf'')"

definition default_url :: "string \<Rightarrow> url_kind \<Rightarrow> string" where
  "default_url network k = (let base = base_domain network in case k of
     UK_proxy \<Rightarrow> ''https://gridproxy.'' @ base
   | UK_relay \<Rightarrow> ''wss://relay.'' @ base
   | UK_substrate \<Rightarrow> ''wss://tfchain.'' @ base @ ''/ws''
   | UK_graphql \<Rightarrow> ''https://graphql.'' @ base @ ''/graphql''
   | UK_activation \<Rightarrow> ''https://activation.'' @ base @ ''/activation/activate'')"

definition getDefaultUrls :: "'b ClientOptions \<Rightarrow> string \<Rightarrow> url_kind \<Rightarrow> string" where
  "getDefaultUrls opts network k = js_or (Some (go_urls opts k)) (default_url network k)"

definition kyc_url :: "string \<Rightarrow> string" where
  "kyc_url network = ''https://kyc.'' @ base_domain network"

subsection \<open>Connecting\<close>

record 'b GridClientConfig =
  gf_network :: string
  gf_mnemonic :: string
  gf_storeSecret :: string
  gf_projectName :: string
  gf_backendStorageType :: string
  gf_backendStorage :: "'b option"
  gf_keypairType :: string
  gf_storePath :: "string \<times> string"
  gf_urls :: "url_kind \<Rightarrow> string"
  gf_twinId :: int
  gf_seed :: "string option"
  gf_deploymentTimeoutMinutes :: int
  gf_kycURL :: string

record ('b, 'w) grid_client =
  gc_world :: 'w
  gc_options :: "'b ClientOptions"
  gc_mnemonic :: "string option"
  gc_twinId :: int
  gc_config :: "'b GridClientConfig option"
  gc_modules :: "string list"

text \<open>
  The client of the chain connects and tells the id of the twin (0 for none), the proxy and the graph
  database answer a request, the client of the relay connects, and the keys are migrated, which never throws.
\<close>

record ('b, 'w) grid_actions =
  ga_monitor :: monitor_env
  ga_tf_connect :: "'w \<Rightarrow> (js_error + unit) \<times> 'w"
  ga_twin_id :: "'w \<Rightarrow> (js_error + int) \<times> 'w"
  ga_proxy :: "string \<Rightarrow> 'w \<Rightarrow> (js_error + unit) \<times> 'w"
  ga_graphql :: "string \<Rightarrow> 'w \<Rightarrow> (js_error + unit) \<times> 'w"
  ga_rmb_connect :: "string \<Rightarrow> string \<Rightarrow> 'w \<Rightarrow> (js_error + unit) \<times> 'w"
  ga_migrate :: "'b GridClientConfig \<Rightarrow> string option \<Rightarrow> 'w \<Rightarrow> 'w"

type_synonym ('b, 'w, 'r) gc_eff = "(('b, 'w) grid_client, js_error, 'r) eff"

definition gc_act :: "('w \<Rightarrow> (js_error + 'r) \<times> 'w) \<Rightarrow> ('b, 'w, 'r) gc_eff" where
  "gc_act f = (\<lambda>c. let (r, w) = f (gc_world c) in (r, c\<lparr>gc_world := w\<rparr>))"

definition setServiceURLs :: "('b, 'w) grid_actions \<Rightarrow> ('b, 'w, unit) gc_eff" where
  "setServiceURLs a = bindE (getE gc_options) (\<lambda>opts.
     bindE (liftE (getAvailableURLs (ga_monitor a) (go_network opts) (go_urls opts))) (\<lambda>urls.
       modifyE (\<lambda>c. c\<lparr>gc_options := opts\<lparr>go_urls := urls\<rparr>\<rparr>)))"

text \<open>The constructors of the clients: \<open>TFClient\<close> and \<open>KYC\<close> check their arguments.\<close>

definition new_TFClient :: "secrets \<Rightarrow> string \<Rightarrow> 'b ClientOptions \<Rightarrow> js_error + unit" where
  "new_TFClient se url opts =
     bindR (checkInputs (se_valid se) \<lparr>co_url = url, co_keypairType = js_or (go_keypairType opts) ''sr25519'',
              co_mnemonicOrSecret = Some (go_mnemonic opts), co_extSigner = False\<rparr>) (\<lambda>_.
       if js_or (go_storeSecret opts) [] = [] then Inl (ValidationError (''Couldn'' @ apos # ''t create TFClient without store secret.'')) else Inr ())"

definition new_kycClient :: "'b ClientOptions \<Rightarrow> js_error + unit" where
  "new_kycClient opts = (if go_mnemonic opts = [] then Inl (ValidationError ''mnemonic is required'') else Inr ())"

definition failing_with :: "string \<Rightarrow> ('s, js_error, 'r) eff \<Rightarrow> ('s, js_error, 'r) eff" where
  "failing_with msg m = catchE m (\<lambda>e. throwE (with_prefix msg e))"

definition testConnectionUrls :: "('b, 'w) grid_actions \<Rightarrow> (url_kind \<Rightarrow> string) \<Rightarrow> ('b, 'w, unit) gc_eff" where
  "testConnectionUrls a urls =
     bindE (failing_with ''Failed to connect to Grid proxy server.'' (gc_act (ga_proxy a (urls UK_proxy)))) (\<lambda>_.
       failing_with ''Failed to connect to Graphql server.'' (gc_act (ga_graphql a (urls UK_graphql))))"

definition config_of :: "'b ClientOptions \<Rightarrow> int \<Rightarrow> 'b GridClientConfig" where
  "config_of opts twinId = \<lparr>gf_network = go_network opts, gf_mnemonic = go_mnemonic opts,
     gf_storeSecret = js_or (go_storeSecret opts) [], gf_projectName = js_or (go_projectName opts) [],
     gf_backendStorageType = js_or (go_backendStorageType opts) [], gf_backendStorage = go_backendStorage opts,
     gf_keypairType = js_or (go_keypairType opts) [], gf_storePath = (go_network opts, show_int twinId),
     gf_urls = getDefaultUrls opts (go_network opts), gf_twinId = twinId, gf_seed = go_seed opts,
     gf_deploymentTimeoutMinutes = (case go_deploymentTimeoutMinutes opts of None \<Rightarrow> 0 | Some m \<Rightarrow> m),
     gf_kycURL = kyc_url (go_network opts)\<rparr>"

text \<open>
  \<open>_connect\<close>: the modules are the exported functions whose names do not contain \<open>Model\<close>; they are
  added to those of an earlier connection.
\<close>

definition internal_connect :: "string list \<Rightarrow> ('b, 'w, unit) gc_eff" where
  "internal_connect exported = modifyE (\<lambda>c. c\<lparr>gc_config := Some (config_of (gc_options c) (gc_twinId c)),
     gc_modules := gc_modules c @ filter (\<lambda>m. \<not> sublist ''Model'' m) exported\<rparr>)"

definition migrate_keys :: "('b, 'w) grid_actions \<Rightarrow> ('b, 'w, unit) gc_eff" where
  "migrate_keys a = modifyE (\<lambda>c. case gc_config c of
     None \<Rightarrow> c | Some cf \<Rightarrow> c\<lparr>gc_world := ga_migrate a cf (gc_mnemonic c) (gc_world c)\<rparr>)"

definition grid_connect :: "secrets \<Rightarrow> string list \<Rightarrow> ('b, 'w) grid_actions \<Rightarrow> ('b, 'w, unit) gc_eff" where
  "grid_connect se exported a = bindE (setServiceURLs a) (\<lambda>_. bindE (getE gc_options) (\<lambda>opts.
     let urls = getDefaultUrls opts (go_network opts) in
     bindE (liftE (new_TFClient se (urls UK_substrate) opts)) (\<lambda>_.
     bindE (liftE (new_kycClient opts)) (\<lambda>_.
     bindE (gc_act (ga_tf_connect a)) (\<lambda>_.
     bindE (gc_act (ga_twin_id a)) (\<lambda>twinId.
     bindE (modifyE (\<lambda>c. c\<lparr>gc_twinId := twinId\<rparr>)) (\<lambda>_.
     if twinId = 0
     then throwE (TwinNotExistError (''Couldn'' @ apos # ''t find a user for the provided mnemonic on '' @ go_network opts @ '' network.''))
     else bindE (testConnectionUrls a urls) (\<lambda>_.
          bindE (internal_connect exported) (\<lambda>_.
          bindE (gc_act (ga_rmb_connect a (urls UK_substrate) (urls UK_relay))) (\<lambda>_.
          migrate_keys a))))))))))"

subsection \<open>Calls by name\<close>

text \<open>
  \<open>invoke\<close>: the module and the method a message names, if they may be called.  \<open>is_function\<close> and \<open>exposed\<close>
  are what the objects of the modules have; the name of no module is \<open>undefined\<close>.
\<close>

definition invoke :: "string list \<Rightarrow> (string \<Rightarrow> string \<Rightarrow> bool) \<Rightarrow> (string \<Rightarrow> string \<Rightarrow> bool) \<Rightarrow> string \<Rightarrow> js_error + string \<times> string" where
  "invoke modules is_function exposed message =
     (let namespaces = split_on (CHR ''.'') message in
      if 2 < length namespaces
      then Inl (ValidationError (''Message must include 2 parts only not '' @ show_nat (length namespaces) @ ''.''))
      else case namespaces of
        [m, f] \<Rightarrow>
          if m \<notin> set modules then Inl (GridClientError (''gridclient.'' @ m @ '' module doesn'' @ apos # ''t exist.''))
          else if \<not> is_function m f then Inl (GridClientError (m @ ''.'' @ f @ '' function doesn'' @ apos # ''t exist.''))
          else if \<not> exposed m f then Inl (GridClientError (''gridclient.'' @ m @ ''.'' @ f @ '' cannot be exposed.''))
          else Inr (m, f)
      | _ \<Rightarrow> Inl (GridClientError (''gridclient.undefined module doesn'' @ apos # ''t exist.'')))"

subsection \<open>Migration of the keys\<close>

text \<open>
  \<open>migrateKeysEncryption\<close>: a second client, whose secret for the store is the mnemonic, reads the values; those
  it can read are set again with the new secret.  All its errors are only printed: the answer is whether
  the keys were migrated.
\<close>

definition with_secret :: "crypto_env \<Rightarrow> string \<Rightarrow> crypto_env" where
  "with_secret x secret = x\<lparr>x_secret := Inl secret\<rparr>"

definition old_value :: "pallet_env \<Rightarrow> crypto_env \<Rightarrow> string \<Rightarrow> string" where
  "old_value e old key = (case kvstore_get e old key True of Inl _ \<Rightarrow> [] | Inr v \<Rightarrow> v)"

definition migrated_extrinsics :: "pallet_env \<Rightarrow> crypto_env \<Rightarrow> crypto_env \<Rightarrow> js_error + extrinsic list" where
  "migrated_extrinsics e old new = bindR (kv_list e) (\<lambda>keys.
     mapR (\<lambda>(i, key). tfkv_set e new i key (old_value e old key) True)
       (filter (\<lambda>(i, key). old_value e old key \<noteq> []) (enumerate 0 keys)))"

definition migrate_values :: "pallet_env \<Rightarrow> 'c chain_env \<Rightarrow> crypto_env \<Rightarrow> crypto_env \<Rightarrow> ('c client, js_error, bool) eff" where
  "migrate_values e ce old new = catchE (bindE (liftE (migrated_extrinsics e old new)) (\<lambda>xs.
     bindE (applyAllExtrinsics ce (map Some xs)) (\<lambda>_. retE True))) (\<lambda>_. retE False)"

text \<open>Only a client that was made from a mnemonic without a secret migrates, and only once.\<close>

definition migrates :: "'b GridClientConfig \<Rightarrow> string option \<Rightarrow> string set \<Rightarrow> bool" where
  "migrates cf mnemonic migrated \<longleftrightarrow> (case truthy_str mnemonic of
     None \<Rightarrow> False
   | Some m \<Rightarrow> gf_storeSecret cf \<noteq> m \<and> gf_mnemonic cf @ gf_network cf @ gf_storeSecret cf @ m \<notin> migrated)"

definition migrateKeysEncryption ::
  "pallet_env \<Rightarrow> 'c chain_env \<Rightarrow> crypto_env \<Rightarrow> 'b GridClientConfig \<Rightarrow> string option \<Rightarrow> string set
   \<Rightarrow> 'c client \<Rightarrow> string set \<times> 'c client"
where
  "migrateKeysEncryption e ce x cf mnemonic migrated c =
     (if migrates cf mnemonic migrated
      then let m = js_or mnemonic [];
               (r, c') = migrate_values e ce (with_secret x m) (with_secret x (gf_storeSecret cf)) c
           in (if r = Inr True then insert (gf_mnemonic cf @ gf_network cf @ gf_storeSecret cf @ m) migrated else migrated, c')
      else (migrated, c))"

end
