(* ===== verification/GridClientProps.thy ===== *)
theory GridClientProps
  imports GridClient StorageProps
begin

text \<open>
  What a connected grid client has, what may be called by name, and that the migration of the keys
  loses no value.
\<close>

subsection \<open>Secrets\<close>

text \<open>The seed in hexadecimal is kept when it is given once more.\<close>

lemma toHexSeed_idem:
  assumes "length (se_mini se s) = 64" "\<not> se_valid se (toHexSeed se s)" "se_valid se s \<or> length s = 64 \<or> length s = 66"
  shows "toHexSeed se (toHexSeed se s) = toHexSeed se s"
  using assms by (auto simp: toHexSeed_def)

text \<open>The storage a user brings along does not reach the modules, which are configured with what was kept.\<close>

lemma own_storage_dropped:
  assumes "new_GridClient se opts = Inr (kept, m)"
  shows "gf_backendStorage (config_of (kept\<lparr>go_urls := urls\<rparr>) i) = None \<and> gf_seed (config_of (kept\<lparr>go_urls := urls\<rparr>) i) = None"
  using assms by (auto simp: new_GridClient_def kept_options_def config_of_def Let_def split: if_splits)

subsection \<open>Connecting\<close>

lemma default_url_nonempty: "default_url network k \<noteq> []"
  by (cases k) (simp_all add: default_url_def Let_def)

lemma getDefaultUrls_nonempty: "getDefaultUrls opts network k \<noteq> []"
  using default_url_nonempty by (simp add: getDefaultUrls_def js_or_def)

lemma given_urls_kept: "getAvailableURLs m network urls = Inr urls' \<Longrightarrow> urls k \<noteq> [] \<Longrightarrow> urls' k = urls k"
  by (auto simp: getAvailableURLs_def getServicesWithoutURLs_def Let_def bindR_Inr split: if_splits)

text \<open>What the other steps of connecting leave alone.\<close>

definition same_setup :: "('b, 'w) grid_client \<Rightarrow> ('b, 'w) grid_client \<Rightarrow> bool" where
  "same_setup c d \<longleftrightarrow> gc_options d = gc_options c \<and> gc_config d = gc_config c \<and> gc_modules d = gc_modules c \<and> gc_twinId d = gc_twinId c"

lemma act_setup: "gc_act f c = (r, d) \<Longrightarrow> same_setup c d"
  by (auto simp: gc_act_def same_setup_def split: prod.splits)

lemma same_setup_trans: "same_setup c d \<Longrightarrow> same_setup d e \<Longrightarrow> same_setup c e"
  by (simp add: same_setup_def)

lemma failing_setup: "failing_with msg (gc_act f) c = (r, d) \<Longrightarrow> same_setup c d"
  by (auto simp: failing_with_def catchE_def gc_act_def same_setup_def split: prod.splits sum.splits)

lemma test_setup:
  assumes "testConnectionUrls a urls c = (r, d)"
  shows "same_setup c d"
proof -
  obtain r1 d1 where first: "failing_with ''Failed to connect to Grid proxy server.'' (gc_act (ga_proxy a (urls UK_proxy))) c = (r1, d1)"
    by (cases "failing_with ''Failed to connect to Grid proxy server.'' (gc_act (ga_proxy a (urls UK_proxy))) c")
  show ?thesis
  proof (cases r1)
    case (Inr u)
    with assms first have "failing_with ''Failed to connect to Graphql server.'' (gc_act (ga_graphql a (urls UK_graphql))) d1 = (r, d)"
      by (simp add: testConnectionUrls_def bindE_def)
    from same_setup_trans [OF failing_setup [OF first] failing_setup [OF this]] show ?thesis .
  qed (use assms first failing_setup [OF first] in \<open>simp add: testConnectionUrls_def bindE_def\<close>)
qed

lemma migrate_setup: "migrate_keys a c = (r, d) \<Longrightarrow> same_setup c d"
  by (auto simp: migrate_keys_def same_setup_def split: option.splits)

text \<open>
  A client that has connected knows its twin and works with the addresses the user gave and, for the
  others, those that were found or the default ones; all exported modules are there.
\<close>

theorem connected_client:
  assumes "grid_connect se exported a c = (Inr (), c')"
  shows "\<exists>cf. gc_config c' = Some cf \<and> gf_twinId cf = gc_twinId c' \<and> gc_twinId c' \<noteq> 0
    \<and> (\<forall>k. gf_urls cf k \<noteq> [] \<and> (go_urls (gc_options c) k \<noteq> [] \<longrightarrow> gf_urls cf k = go_urls (gc_options c) k))
    \<and> (\<forall>m \<in> set exported. \<not> sublist ''Model'' m \<longrightarrow> m \<in> set (gc_modules c'))"
proof -
  from assms obtain c1 opts urls where s: "setServiceURLs a c = (Inr (), c1)"
    and u: "getAvailableURLs (ga_monitor a) (go_network (gc_options c)) (go_urls (gc_options c)) = Inr urls"
    and c1: "c1 = c\<lparr>gc_options := (gc_options c)\<lparr>go_urls := urls\<rparr>\<rparr>"
    by (auto simp: grid_connect_def setServiceURLs_def bindE_Inr_iff)
  let ?opts = "(gc_options c)\<lparr>go_urls := urls\<rparr>"
  from assms s c1 obtain c2 i c3 c4 c5 where
    "gc_act (ga_tf_connect a) c1 = (Inr (), c2)" "gc_act (ga_twin_id a) c2 = (Inr i, c3)" "i \<noteq> 0"
    "testConnectionUrls a (getDefaultUrls ?opts (go_network (gc_options c))) (c3\<lparr>gc_twinId := i\<rparr>) = (Inr (), c4)"
    "gc_act (ga_rmb_connect a (getDefaultUrls ?opts (go_network (gc_options c)) UK_substrate)
       (getDefaultUrls ?opts (go_network (gc_options c)) UK_relay))
       (c4\<lparr>gc_config := Some (config_of (gc_options c4) (gc_twinId c4)),
           gc_modules := gc_modules c4 @ filter (\<lambda>m. \<not> sublist ''Model'' m) exported\<rparr>) = (Inr (), c5)"
    "migrate_keys a c5 = (Inr (), c')"
    by (auto simp: grid_connect_def bindE_Inr_iff Let_def internal_connect_def split: if_splits)
  from this(1-3) act_setup [OF this(1)] act_setup [OF this(2)] test_setup [OF this(4)] act_setup [OF this(5)] migrate_setup [OF this(6)] c1
  have "gc_config c' = Some (config_of ?opts i)" "gc_twinId c' = i" "i \<noteq> 0"
    "gc_modules c' = gc_modules c @ filter (\<lambda>m. \<not> sublist ''Model'' m) exported"
    by (simp_all add: same_setup_def)
  moreover have "gf_urls (config_of ?opts i) k \<noteq> []" for k
    using getDefaultUrls_nonempty by (simp add: config_of_def)
  moreover have "gf_urls (config_of ?opts i) k = go_urls (gc_options c) k" if "go_urls (gc_options c) k \<noteq> []" for k
    using given_urls_kept [OF u that] that by (simp add: config_of_def getDefaultUrls_def js_or_def)
  moreover have "gf_twinId (config_of ?opts i) = i" by (simp add: config_of_def)
  ultimately show ?thesis by auto
qed

text \<open>
  A user without a twin is told so, and the client gets neither a configuration nor modules.
\<close>

theorem no_twin_no_modules:
  assumes "getAvailableURLs (ga_monitor a) (go_network (gc_options c)) (go_urls (gc_options c)) = Inr urls"
    and "new_TFClient se (getDefaultUrls ((gc_options c)\<lparr>go_urls := urls\<rparr>) (go_network (gc_options c)) UK_substrate) (gc_options c) = Inr ()"
    and "go_mnemonic (gc_options c) \<noteq> []"
    and "ga_tf_connect a (gc_world c) = (Inr (), w)" and "ga_twin_id a w = (Inr 0, w')"
  shows "\<exists>c'. grid_connect se exported a c =
      (Inl (TwinNotExistError (''Couldn'' @ apos # ''t find a user for the provided mnemonic on '' @ go_network (gc_options c) @ '' network.'')), c')
    \<and> gc_config c' = gc_config c \<and> gc_modules c' = gc_modules c"
  using assms
  by (simp add: grid_connect_def setServiceURLs_def bindE_def Let_def gc_act_def new_kycClient_def new_TFClient_def)

subsection \<open>Calls by name\<close>

lemma split_on_single: "split_on c s = [p] \<Longrightarrow> s = p \<and> c \<notin> set s"
  by (induction s arbitrary: p) (auto split: if_splits list.splits)

lemma split_on_two: "split_on c s = [p, q] \<Longrightarrow> s = p @ c # q \<and> c \<notin> set p \<and> c \<notin> set q"
  by (induction s arbitrary: p) (auto split: if_splits list.splits dest: split_on_single)

lemma split_on_pair: "split_on c s = [p, q] \<longleftrightarrow> s = p @ c # q \<and> c \<notin> set p \<and> c \<notin> set q"
  using split_on_two [of c s p q] by (auto simp: split_on_sep split_on_no_sep)

text \<open>
  C23: By name only an exposed method of a module of the client can be called, and the message that
  names it is the module, a dot and the method.
\<close>

theorem invoke_only_exposed:
  "invoke modules is_function exposed message = Inr (m, f) \<longleftrightarrow>
     message = m @ CHR ''.'' # f \<and> CHR ''.'' \<notin> set m \<and> CHR ''.'' \<notin> set f \<and> m \<in> set modules \<and> is_function m f \<and> exposed m f"
proof -
  have "invoke modules is_function exposed message = Inr (m, f) \<longleftrightarrow>
      split_on (CHR ''.'') message = [m, f] \<and> m \<in> set modules \<and> is_function m f \<and> exposed m f"
    by (auto simp: invoke_def Let_def split: list.splits if_splits)
  then show ?thesis by (simp only: split_on_pair conj_assoc)
qed

subsection \<open>Migration\<close>

lemma map_snd_enumerate: "map snd (filter (\<lambda>(i, key). P key) (enumerate n ks)) = filter P ks"
  by (induction ks arbitrary: n) simp_all

text \<open>
  C22: After the keys were migrated every value that could be read with the old secret can be
  read with the new one; what could not be read is left as it was.
\<close>

theorem migration_keeps_values:
  assumes "crypto_laws (with_secret x new)" and eff: "kv_laws eff" and "kv_list (at_store e m) = Inr keys" and "distinct keys"
  shows "\<exists>xs. migrated_extrinsics (at_store e m) (with_secret x old) (with_secret x new) = Inr xs
    \<and> (\<forall>k. if k \<in> set keys \<and> old_value (at_store e m) (with_secret x old) k \<noteq> []
           then kvstore_get (at_store e (kv_apply eff xs m)) (with_secret x new) k True
                = Inr (old_value (at_store e m) (with_secret x old) k)
           else kv_apply eff xs m k = m k)"
proof -
  let ?e = "at_store e m" and ?new = "with_secret x new" and ?v = "old_value (at_store e m) (with_secret x old)"
  let ?ps = "filter (\<lambda>(i, key). ?v key \<noteq> []) (enumerate 0 keys)"
  have nonce: "length (x_nonce ?new i) = 24" for i using assms(1) by (simp add: crypto_laws_def)
  define g where "g p = (SOME c. encrypt ?new (x_nonce ?new (fst p)) (?v (snd p)) = Inr c \<and> c \<noteq> [] \<and> decrypt ?new c = Inr (?v (snd p)))" for p
  have g: "encrypt ?new (x_nonce ?new (fst p)) (?v (snd p)) = Inr (g p) \<and> g p \<noteq> [] \<and> decrypt ?new (g p) = Inr (?v (snd p))" for p
    unfolding g_def by (rule someI_ex) (rule decrypt_encrypt [OF assms(1) nonce])
  let ?qs = "map (\<lambda>p. (snd p, g p)) ?ps"
  have "mapR (\<lambda>(i, key). tfkv_set ?e ?new i key (?v key) True) ?ps = Inr (map (\<lambda>p. set_tx (snd p) (g p)) ?ps)"
  proof (rule mapR_all, rule ballI)
    fix p
    show "(case p of (i, key) \<Rightarrow> tfkv_set ?e ?new i key (?v key) True) = Inr (set_tx (snd p) (g p))"
      using g [of p] by (cases p) (simp add: tfkv_set_def)
  qed
  then have xs: "migrated_extrinsics ?e (with_secret x old) ?new = Inr (map (\<lambda>q. set_tx (fst q) (snd q)) ?qs)"
    using assms(3) by (simp add: migrated_extrinsics_def o_def)
  have "map snd ?ps = filter (\<lambda>key. ?v key \<noteq> []) keys"
    by (rule map_snd_enumerate)
  then have d: "distinct (map fst ?qs)" and dm: "set (map fst ?qs) = {k \<in> set keys. ?v k \<noteq> []}"
    using assms(4) by (simp_all add: o_def)
  define m1 where "m1 = kv_apply eff (map (\<lambda>q. set_tx (fst q) (snd q)) ?qs) m"
  have m1: "m1 = (\<lambda>k. case map_of ?qs k of None \<Rightarrow> m k | Some v \<Rightarrow> v)"
    unfolding m1_def by (rule apply_sets [OF eff d])
  have "if k \<in> set keys \<and> ?v k \<noteq> [] then kvstore_get (at_store e m1) ?new k True = Inr (?v k) else m1 k = m k" for k
  proof (cases "k \<in> set keys \<and> ?v k \<noteq> []")
    case True
    with dm have "k \<in> set (map fst ?qs)" by simp
    then obtain p where p: "p \<in> set ?ps" "snd p = k" by auto
    with d have "map_of ?qs k = Some (g p)" by (intro map_of_is_SomeI) auto
    then have "m1 k = g p" by (simp add: m1)
    moreover have "not_empty k" using True by (auto simp: old_value_def kvstore_get_def validated_def not_empty_def split: if_splits)
    ultimately show ?thesis using True p(2) g [of p]
      by (simp add: kvstore_get_def validated_def tfkv_get_def)
  next
    case False
    then have "k \<notin> set (map fst ?qs)" unfolding dm by blast
    then have "map_of ?qs k = None" by (simp only: map_of_eq_None_iff list.set_map not_False_eq_True)
    with False show ?thesis by (auto simp: m1)
  qed
  with xs show ?thesis unfolding m1_def by blast
qed

subsection \<open>Examples\<close>

definition demo_secrets :: secrets where
  "demo_secrets = \<lparr>se_valid = (\<lambda>s. s = ''seven words''), se_mini = (\<lambda>_. replicate 64 (CHR ''a''))\<rparr>"

definition demo_grid_options :: "unit ClientOptions" where
  "demo_grid_options = \<lparr>go_mnemonic = ''seven words'', go_network = ''qa'', go_storeSecret = None, go_projectName = None,
     go_backendStorageType = None, go_backendStorage = Some (), go_keypairType = None, go_seed = Some ''s'',
     go_deploymentTimeoutMinutes = None, go_keepReconnecting = None, go_urls = (\<lambda>k. ''u'')\<rparr>"

text \<open>The world is the number of requests made so far.\<close>

definition demo_actions :: "int \<Rightarrow> (unit, nat) grid_actions" where
  "demo_actions twin = \<lparr>ga_monitor = \<lparr>mo_fetch = (\<lambda>_ _. (0, Inl TypeError)), mo_url_join = (@)\<rparr>, ga_tf_connect = (\<lambda>w. (Inr (), Suc w)),
     ga_twin_id = (\<lambda>w. (Inr twin, Suc w)), ga_proxy = (\<lambda>_ w. (Inr (), Suc w)), ga_graphql = (\<lambda>_ w. (Inr (), Suc w)),
     ga_rmb_connect = (\<lambda>_ _ w. (Inr (), Suc w)), ga_migrate = (\<lambda>_ _ w. Suc w)\<rparr>"

definition demo_grid_client :: "(unit, nat) grid_client" where
  "demo_grid_client = \<lparr>gc_world = 0, gc_options = kept_options demo_secrets demo_grid_options,
     gc_mnemonic = own_mnemonic demo_secrets demo_grid_options, gc_twinId = 0, gc_config = None, gc_modules = []\<rparr>"

lemma demo_urls: "getAvailableURLs m network (\<lambda>k. ''u'') = Inr (\<lambda>k. ''u'')"
  by (simp add: getAvailableURLs_def getServicesWithoutURLs_def)

lemma demo_tfclient: "new_TFClient demo_secrets ''u'' (kept_options demo_secrets demo_grid_options) = Inr ()"
  by code_simp

theorem connected_client_witness:
  "\<exists>c'. grid_connect demo_secrets [''zos'', ''ZOSModel''] (demo_actions 7) demo_grid_client = (Inr (), c') \<and> ''zos'' \<in> set (gc_modules c')"
proof -
  let ?r = "grid_connect demo_secrets [''zos'', ''ZOSModel''] (demo_actions 7) demo_grid_client"
  have "fst ?r = Inr ()" by code_simp
  then have r: "?r = (Inr (), snd ?r)" by (metis prod.collapse)
  have "\<not> sublist ''Model'' ''zos''" by code_simp
  with connected_client [OF r] have "''zos'' \<in> set (gc_modules (snd ?r))" by auto
  with r show ?thesis by blast
qed

theorem no_twin_no_modules_witness:
  "\<exists>e c'. grid_connect demo_secrets [''zos''] (demo_actions 0) demo_grid_client = (Inl e, c') \<and> gc_modules c' = []"
proof -
  have "gc_modules demo_grid_client = []" and u: "go_urls (gc_options demo_grid_client) = (\<lambda>k. ''u'')"
    and o: "gc_options demo_grid_client = kept_options demo_secrets demo_grid_options"
    and m: "go_mnemonic (gc_options demo_grid_client) \<noteq> []"
    by (simp_all add: demo_grid_client_def kept_options_def demo_grid_options_def Let_def toHexSeed_def)
  have t: "new_TFClient demo_secrets (getDefaultUrls ((gc_options demo_grid_client)\<lparr>go_urls := \<lambda>k. ''u''\<rparr>)
      (go_network (gc_options demo_grid_client)) UK_substrate) (gc_options demo_grid_client) = Inr ()"
    using demo_tfclient by (simp add: o getDefaultUrls_def js_or_def)
  from no_twin_no_modules [of "demo_actions 0" demo_grid_client, unfolded u, OF demo_urls t m, of 1 2]
  show ?thesis using \<open>gc_modules demo_grid_client = []\<close> by (force simp: demo_actions_def demo_grid_client_def)
qed

theorem migration_keeps_values_witness:
  "\<exists>xs. migrated_extrinsics (at_store (demo_pallets\<lparr>q_kv_keys := Inr [''a'']\<rparr>) demo_store) (with_secret demo_crypto ''old'')
      (with_secret demo_crypto ''new'') = Inr xs
    \<and> kvstore_get (at_store (demo_pallets\<lparr>q_kv_keys := Inr [''a'']\<rparr>) (kv_apply demo_pallet xs demo_store))
        (with_secret demo_crypto ''new'') ''a'' True = Inr ''one''"
proof -
  let ?e = "demo_pallets\<lparr>q_kv_keys := Inr [''a'']\<rparr>"
  have l: "crypto_laws (with_secret demo_crypto ''new'')"
    by (auto simp: crypto_laws_def demo_crypto_def getSecretAsBytes_def with_secret_def)
  have k: "kv_list (at_store ?e demo_store) = Inr [''a'']" by (simp add: kv_list_def checkConnection_def at_store_def)
  have "decrypt (with_secret demo_crypto s) (demo_cipher t) = Inr t" for s t
    by (simp add: decrypt_def demo_crypto_def demo_cipher_def getSecretAsBytes_def Let_def take_map with_secret_def)
  moreover have "demo_store ''a'' = demo_cipher ''one''" and "demo_cipher ''one'' \<noteq> []" by (simp_all add: demo_store_def demo_cipher_def)
  ultimately have "old_value (at_store ?e demo_store) (with_secret demo_crypto ''old'') ''a'' = ''one''"
    by (simp add: old_value_def kvstore_get_def validated_def not_empty_def tfkv_get_def)
  with migration_keeps_values [OF l demo_kv_laws k, of "''old''"] show ?thesis by fastforce
qed

end
