(* ===== verification/Kyc.thy ===== *)
theory Kyc
  imports Storage ZosFacts
begin

text \<open>
  \<open>grid_client/src/clients/kyc/client.ts\<close> with \<open>stringToHex\<close> and \<open>bytesFromHex\<close> of \<open>helpers/utils.ts\<close>: the signed
  headers of a request to the verification service, its requests, and the errors its answers become.
  The service is a field of \<open>kyc_env\<close>, as are the key ring and the encoding of texts.
\<close>

datatype KycStatus = Kyc_unverified | Kyc_verified | Kyc_rejected | Kyc_pending

fun kyc_status_name :: "KycStatus \<Rightarrow> string" where
  "kyc_status_name Kyc_unverified = ''UNVERIFIED''"
| "kyc_status_name Kyc_verified = ''VERIFIED''"
| "kyc_status_name Kyc_rejected = ''REJECTED''"
| "kyc_status_name Kyc_pending = ''PENDING''"

text \<open>
  What \<open>axios\<close> throws: an \<open>AxiosError\<close> with its message, the status if there is one, and the \<open>error\<close> field of the
  answer; or another error.
\<close>

datatype kyc_thrown = Axios string "int option" "string option" | Other_error js_error

record kyc_headers =
  kh_client_id :: string
  kh_challenge :: string
  kh_signature :: string

text \<open>An answer is the object under \<open>data.result\<close>, if the answer has one.\<close>

record kyc_env =
  ky_pair :: "js_error + string"
  ky_sign :: "bytes \<Rightarrow> bytes"
  ky_utf8 :: "string \<Rightarrow> bytes"
  ky_status :: "string \<Rightarrow> string \<Rightarrow> kyc_thrown + (string \<times> string) list option"
  ky_data :: "string \<Rightarrow> kyc_headers \<Rightarrow> kyc_thrown + string"
  ky_token :: "string \<Rightarrow> kyc_headers \<Rightarrow> kyc_thrown + (string \<times> string) list option"
  ky_health :: "string \<Rightarrow> kyc_thrown + (string \<times> string) list option"

subsection \<open>Hexadecimal texts\<close>

definition stringToHex :: "kyc_env \<Rightarrow> string \<Rightarrow> string" where
  "stringToHex k message = to_hex (ky_utf8 k message)"

text \<open>\<open>Buffer.from(hex, "hex")\<close> stops at the first pair that is no byte.\<close>

fun bytesFromHex :: "string \<Rightarrow> bytes" where
  "bytesFromHex (a # b # s) =
     (if is_hex_digit a \<and> is_hex_digit b then of_nat (16 * hex_value a + hex_value b) # bytesFromHex s else [])"
| "bytesFromHex s = []"

subsection \<open>The client\<close>

text \<open>The first \<open>http://\<close> or \<open>https://\<close> is taken out of the domain, and a slash at its end.\<close>

fun drop_scheme :: "string \<Rightarrow> string" where
  "drop_scheme [] = []"
| "drop_scheme (c # s) =
     (if take 7 (c # s) = ''http://'' then drop 7 (c # s)
      else if take 8 (c # s) = ''https://'' then drop 8 (c # s)
      else c # drop_scheme s)"

definition drop_last_slash :: "string \<Rightarrow> string" where
  "drop_last_slash s = (if s \<noteq> [] \<and> last s = CHR ''/'' then butlast s else s)"

definition new_KYC :: "string \<Rightarrow> string \<Rightarrow> js_error + string" where
  "new_KYC apiDomain mnemonic = (if mnemonic = [] then Inl (ValidationError ''mnemonic is required'')
     else Inr (drop_last_slash (drop_scheme apiDomain)))"

definition kyc_challenge :: "string \<Rightarrow> int \<Rightarrow> string" where
  "kyc_challenge apiDomain timestamp = apiDomain @ CHR '':'' # show_int timestamp"

definition prepareHeaders :: "kyc_env \<Rightarrow> string \<Rightarrow> int \<Rightarrow> js_error + kyc_headers" where
  "prepareHeaders k apiDomain timestamp = bindR (ky_pair k) (\<lambda>address.
     let challenge = stringToHex k (kyc_challenge apiDomain timestamp)
     in Inr \<lparr>kh_client_id = address, kh_challenge = challenge, kh_signature = to_hex (ky_sign k (bytesFromHex challenge))\<rparr>)"

text \<open>\<open>KycErrors\<close> by the status of the answer; its text replaces the message when there is one.\<close>

definition throwKycError :: "kyc_thrown \<Rightarrow> string \<Rightarrow> js_error" where
  "throwKycError error messagePrefix = (case error of
     Other_error e \<Rightarrow> KycBaseError (err_message e) (- 1)
   | Axios message status answer \<Rightarrow>
       let errorMessage = messagePrefix @ [newline, CHR 0x09, CHR '' ''] @ js_or answer message
       in if status = Some 400 then TFGridKycError K_BadRequest (errorMessage @ ''. Please contact support.'')
          else if status = Some 401 then TFGridKycError K_Unauthorized (errorMessage @ ''. Please contact support.'')
          else if status = Some 404 then TFGridKycError K_Unverified errorMessage
          else if status = Some 429 then TFGridKycError K_RateLimit errorMessage
          else if status = Some 409 then TFGridKycError K_AlreadyVerified errorMessage
          else if status = Some 402 then InsufficientBalanceError errorMessage
          else KycBaseError errorMessage (- 1))"

text \<open>A request that may throw an error of its own; what is thrown becomes an error of the service.\<close>

definition lift_js :: "js_error + 'a \<Rightarrow> kyc_thrown + 'a" where
  "lift_js r = (case r of Inl e \<Rightarrow> Inl (Other_error e) | Inr x \<Rightarrow> Inr x)"

definition kyc_errors :: "string \<Rightarrow> kyc_thrown + 'a \<Rightarrow> js_error + 'a" where
  "kyc_errors messagePrefix r = (case r of Inl e \<Rightarrow> Inl (throwKycError e messagePrefix) | Inr x \<Rightarrow> Inr x)"

text \<open>The field of an answer that must be there, and not be empty; an answer without an object is a \<open>TypeError\<close>.\<close>

definition answer_field :: "string \<Rightarrow> string \<Rightarrow> (string \<times> string) list option \<Rightarrow> kyc_thrown + string" where
  "answer_field name complaint result = (case result of
     None \<Rightarrow> Inl (Other_error TypeError)
   | Some r \<Rightarrow> if js_or (map_of r name) [] = [] then Inl (Other_error (TFGridKycError K_InvalidResponse complaint))
       else Inr (js_or (map_of r name) []))"

definition kyc_data :: "kyc_env \<Rightarrow> string \<Rightarrow> int \<Rightarrow> js_error + string" where
  "kyc_data k apiDomain timestamp = kyc_errors ''Failed to get authentication data from KYC service.''
     (bindR (lift_js (prepareHeaders k apiDomain timestamp)) (ky_data k apiDomain))"

definition kyc_status :: "kyc_env \<Rightarrow> string \<Rightarrow> js_error + string" where
  "kyc_status k apiDomain =
     (let r = bindR (lift_js (ky_pair k)) (\<lambda>address. bindR (ky_status k apiDomain address)
                (answer_field ''status'' ''Failed to get status due to: Response does not contain status field''))
      in case r of
           Inl (Axios message (Some s) answer) \<Rightarrow> if s = 404 then Inr (kyc_status_name Kyc_unverified)
             else Inl (throwKycError (Axios message (Some s) answer) ''Failed to get authentication status from KYC service.'')
         | r' \<Rightarrow> kyc_errors ''Failed to get authentication status from KYC service.'' r')"

definition kyc_getToken :: "kyc_env \<Rightarrow> string \<Rightarrow> int \<Rightarrow> js_error + string" where
  "kyc_getToken k apiDomain timestamp = kyc_errors ''Failed to get auth token from KYC service.''
     (bindR (lift_js (prepareHeaders k apiDomain timestamp)) (\<lambda>h. bindR (ky_token k apiDomain h)
        (answer_field ''authToken'' ''Failed to get token due to: Response does not contain authToken field'')))"

definition kyc_isHealthy :: "kyc_env \<Rightarrow> string \<Rightarrow> bool" where
  "kyc_isHealthy k apiDomain = (case ky_health k apiDomain of
     Inr (Some r) \<Rightarrow> map_of r ''status'' = Some ''Healthy'' | _ \<Rightarrow> False)"

subsection \<open>Facts\<close>

lemma hex_char_digit: "unat n < 16 \<Longrightarrow> is_hex_digit (hex_char n) \<and> hex_value (hex_char n) = unat n"
  using hex_char_props [of n] by simp

lemma bytes_from_to_hex: "bytesFromHex (to_hex bs) = bs"
proof (induction bs)
  case (Cons b bs)
  have h: "to_hex (b # bs) = hex_char (drop_bit 4 b AND 15) # hex_char (b AND 15) # to_hex bs"
    by (simp add: to_hex_def)
  have "of_nat (16 * unat (drop_bit 4 b AND 15) + unat (b AND 15)) = b"
    by (simp only: nibble_bounds) simp
  with Cons hex_char_digit [OF nibble_bounds(1)] hex_char_digit [OF nibble_bounds(2)] show ?case by (simp add: h)
qed (simp add: to_hex_def)

text \<open>
  What is signed for the verification service is the domain and the time, and the header with
  the challenge gives the same bytes to who checks it.
\<close>

theorem challenge_is_signed:
  assumes "prepareHeaders k apiDomain timestamp = Inr h"
  shows "bytesFromHex (kh_challenge h) = ky_utf8 k (kyc_challenge apiDomain timestamp)
    \<and> bytesFromHex (kh_signature h) = ky_sign k (ky_utf8 k (kyc_challenge apiDomain timestamp)) \<and> ky_pair k = Inr (kh_client_id h)"
  using assms by (auto simp: prepareHeaders_def bindR_Inr Let_def stringToHex_def bytes_from_to_hex)

lemma kyc_error_of_sdk: "is_base_error (throwKycError e p)"
  by (cases e) (auto simp: throwKycError_def KycBaseError_def generic_error_def BaseError_def is_base_error_def Let_def
      InsufficientBalanceError_def TFGridKycError_def)

lemma kyc_error_message: "sublist (js_or answer message) (err_message (throwKycError (Axios message status answer) p))"
proof -
  have "sublist (js_or answer message) ((p @ [newline, CHR 0x09, CHR '' '']) @ js_or answer message @ end_text)" for end_text
    by (rule sublist_appendI)
  from this [of "[]"] this [of "''. Please contact support.''"] show ?thesis
    by (simp add: throwKycError_def KycBaseError_def generic_error_def BaseError_def Let_def
        InsufficientBalanceError_def TFGridKycError_def)
qed

text \<open>
  An account that the service does not know is unverified, which is no error.  Every other
  failure is an error of this SDK that carries the text of the service; a status is handed on as it is.
\<close>

theorem kyc_status_answers:
  assumes "ky_pair k = Inr address"
  shows "case ky_status k apiDomain address of
     Inl (Axios message status answer) \<Rightarrow>
       if status = Some 404 then kyc_status k apiDomain = Inr ''UNVERIFIED''
       else \<exists>e. kyc_status k apiDomain = Inl e \<and> is_base_error e \<and> sublist (js_or answer message) (err_message e)
   | Inl (Other_error e) \<Rightarrow> kyc_status k apiDomain = Inl (KycBaseError (err_message e) (- 1))
   | Inr result \<Rightarrow> (case js_or (Option.bind result (\<lambda>r. map_of r ''status'')) [] of
       [] \<Rightarrow> \<exists>e. kyc_status k apiDomain = Inl e \<and> is_base_error e
     | s \<Rightarrow> kyc_status k apiDomain = Inr s)"
proof (cases "ky_status k apiDomain address")
  case (Inl t)
  show ?thesis
  proof (cases t)
    case (Axios message status answer)
    with Inl assms kyc_error_of_sdk kyc_error_message show ?thesis
      by (cases status) (auto simp: kyc_status_def lift_js_def kyc_errors_def)
  next
    case (Other_error e)
    with Inl assms show ?thesis by (simp add: kyc_status_def lift_js_def kyc_errors_def throwKycError_def)
  qed
next
  case (Inr result)
  show ?thesis
  proof (cases result)
    case None
    with Inr assms kyc_error_of_sdk show ?thesis
      by (simp add: kyc_status_def lift_js_def kyc_errors_def answer_field_def js_or_def)
  next
    case (Some r)
    with Inr assms kyc_error_of_sdk show ?thesis
      by (auto simp: kyc_status_def lift_js_def kyc_errors_def answer_field_def split: list.split)
  qed
qed

text \<open>
  The error of an answer without a status is thrown where errors are caught, and loses its class: the
  caller sees a \<open>KycBaseError\<close>.
\<close>

lemma missing_status_loses_class:
  assumes "ky_pair k = Inr address" "ky_status k apiDomain address = Inr (Some [])"
  shows "kyc_status k apiDomain = Inl (KycBaseError ''Failed to get status due to: Response does not contain status field'' (- 1))"
  using assms by (simp add: kyc_status_def lift_js_def kyc_errors_def answer_field_def js_or_def throwKycError_def
      TFGridKycError_def BaseError_def)

subsection \<open>Examples\<close>

definition demo_kyc :: kyc_env where
  "demo_kyc = \<lparr>ky_pair = Inr ''5G'', ky_sign = rev, ky_utf8 = map (\<lambda>c. of_nat (of_char c)),
     ky_status = (\<lambda>_ a. Inl (Axios ''failed'' (Some 429) (Some ''slow down''))), ky_data = (\<lambda>_ _. Inr ''data''),
     ky_token = (\<lambda>_ _. Inr None), ky_health = (\<lambda>_. Inr (Some [(''status'', ''Healthy'')]))\<rparr>"

theorem challenge_is_signed_witness:
  "\<exists>h. prepareHeaders demo_kyc ''kyc.grid.tf'' 17 = Inr h
    \<and> bytesFromHex (kh_challenge h) = ky_utf8 demo_kyc ''kyc.grid.tf:17'' \<and> kh_client_id h = ''5G''"
proof -
  obtain h where h: "prepareHeaders demo_kyc ''kyc.grid.tf'' 17 = Inr h" by (simp add: prepareHeaders_def demo_kyc_def Let_def)
  have c: "kyc_challenge ''kyc.grid.tf'' 17 = ''kyc.grid.tf:17''" by code_simp
  from challenge_is_signed [OF h] h c show ?thesis by (auto simp: demo_kyc_def)
qed

theorem kyc_status_answers_witness:
  "\<exists>e. kyc_status demo_kyc ''kyc.grid.tf'' = Inl e \<and> sublist ''slow down'' (err_message e)"
  using kyc_status_answers [of demo_kyc "''5G''" "''kyc.grid.tf''"] by (auto simp: demo_kyc_def js_or_def)

end
