(* ===== verification/ContractsModule.thy ===== *)
theory ContractsModule
  imports GridContracts GridModules Options
begin

text \<open>
  \<open>grid_client/src/modules/contracts.ts\<close>: contracts as a user makes, reads, cancels and unlocks them, with
  the decorators of the methods and of their options, what is locked and owed in total, and the stored
  data of a deployment whose contract is cancelled.

  A method whose option is a number or an interface is checked against a class without decorators, which
  passes unless the library forbids unknown values (\<open>forbid_unknown\<close>).
\<close>

subsection \<open>Making and reading\<close>

definition contracts_create_node ::
  "pallet_env \<Rightarrow> 'c chain_env \<Rightarrow> int \<Rightarrow> string \<Rightarrow> string \<Rightarrow> int \<Rightarrow> int option \<Rightarrow> ('c client, js_error, chain_result) eff"
where
  "contracts_create_node e ce node_id hash data ips provider =
     paid_method e (1 \<le> node_id \<and> not_empty hash \<and> 0 \<le> ips)
       (prepare_apply ce (checkConnection e (Inr (createNode hash data node_id ips provider))))"

definition contracts_create_name :: "pallet_env \<Rightarrow> 'c chain_env \<Rightarrow> string \<Rightarrow> ('c client, js_error, chain_result) eff" where
  "contracts_create_name e ce name = paid_method e (valid_plain_name name)
     (prepare_apply ce (checkConnection e (Inr (createName_extrinsic name))))"

definition contracts_createRent :: "pallet_env \<Rightarrow> 'c chain_env \<Rightarrow> int \<Rightarrow> int option \<Rightarrow> ('c client, js_error, chain_result) eff" where
  "contracts_createRent e ce nodeId provider = paid_method e True (prepare_apply ce (createRent e nodeId provider))"

definition contracts_update_node :: "pallet_env \<Rightarrow> 'c chain_env \<Rightarrow> int \<Rightarrow> string \<Rightarrow> string \<Rightarrow> ('c client, js_error, chain_result) eff" where
  "contracts_update_node e ce i hash data = paid_method e (1 \<le> i \<and> not_empty hash)
     (prepare_apply ce (checkConnection e (Inr (updateNode i hash data))))"

definition contracts_get :: "pallet_env \<Rightarrow> 'v chain_storage \<Rightarrow> int \<Rightarrow> js_error + 'v" where
  "contracts_get e st i = validated (1 \<le> i) (contract_get e st i)"

definition get_contract_id_by_node_id_and_hash :: "pallet_env \<Rightarrow> 'v chain_storage \<Rightarrow> int \<Rightarrow> string \<Rightarrow> js_error + 'v" where
  "get_contract_id_by_node_id_and_hash e st node_id hash = validated (1 \<le> node_id \<and> not_empty hash)
     (getContractIdByNodeIdAndHash e st node_id hash)"

definition get_name_contract :: "pallet_env \<Rightarrow> 'v chain_storage \<Rightarrow> string \<Rightarrow> js_error + 'v" where
  "get_name_contract e st name = validated (valid_plain_name name) (getContractIdByName e st name)"

definition activeRentContractForNode :: "pallet_env \<Rightarrow> 'v chain_storage \<Rightarrow> int \<Rightarrow> js_error + 'v" where
  "activeRentContractForNode e st nodeId = getContractIdByActiveRentForNode e st nodeId"

definition contracts_contractLock :: "contract_env \<Rightarrow> int \<Rightarrow> js_error + rat" where
  "contracts_contractLock e i = validated (1 \<le> i) (tf_contractLock e i)"

definition contracts_getDiscountPackage :: "contract_env \<Rightarrow> int \<Rightarrow> js_error + string" where
  "contracts_getDiscountPackage e i = validated (1 \<le> i) (getDiscountPackage e i)"

definition contracts_getConsumption :: "contract_env \<Rightarrow> int \<Rightarrow> js_error + rat" where
  "contracts_getConsumption e i = validated (1 \<le> i) (getConsumption e i)"

definition contracts_getDeletionTime :: "grid_api \<Rightarrow> js_error + int \<Rightarrow> int \<Rightarrow> int \<Rightarrow> js_error + int option" where
  "contracts_getDeletionTime api block now i = validated (1 \<le> i) (getDeletionTime api block now i)"

text \<open>The states are values of an enumeration, which is checked.\<close>

definition contract_states :: "string list" where
  "contract_states = [''Created'', ''Deleted'', ''OutOfFunds'', ''GracePeriod'']"

definition contracts_listMyContracts :: "contract_env \<Rightarrow> string list \<Rightarrow> js_error + int list \<times> int list \<times> int list" where
  "contracts_listMyContracts e states = validated (set states \<subseteq> set contract_states) (listMyContracts e states)"

subsection \<open>Services\<close>

definition createServiceContract :: "pallet_env \<Rightarrow> 'c chain_env \<Rightarrow> string \<Rightarrow> string \<Rightarrow> ('c client, js_error, chain_result) eff" where
  "createServiceContract e ce serviceAccount consumerAccount = paid_method e (not_empty serviceAccount \<and> not_empty consumerAccount)
     (prepare_apply ce (createService e serviceAccount consumerAccount))"

definition approveServiceContract :: "pallet_env \<Rightarrow> 'c chain_env \<Rightarrow> int \<Rightarrow> bool \<Rightarrow> ('c client, js_error, chain_result) eff" where
  "approveServiceContract e ce serviceId approve = paid_method e (1 \<le> serviceId) (prepare_apply ce (approveService e serviceId approve))"

definition billServiceContract :: "pallet_env \<Rightarrow> 'c chain_env \<Rightarrow> int \<Rightarrow> int \<Rightarrow> string \<Rightarrow> ('c client, js_error, chain_result) eff" where
  "billServiceContract e ce serviceId variableAmount metadata = paid_method e (1 \<le> serviceId \<and> 1 \<le> variableAmount \<and> not_empty metadata)
     (prepare_apply ce (billService e serviceId (of_int variableAmount) metadata))"

definition cancelServiceContract :: "pallet_env \<Rightarrow> 'c chain_env \<Rightarrow> int \<Rightarrow> ('c client, js_error, chain_result) eff" where
  "cancelServiceContract e ce serviceId = paid_method e (1 \<le> serviceId) (prepare_apply ce (cancelService e serviceId))"

definition setFeesServiceContract :: "pallet_env \<Rightarrow> 'c chain_env \<Rightarrow> int \<Rightarrow> int \<Rightarrow> int \<Rightarrow> ('c client, js_error, chain_result) eff" where
  "setFeesServiceContract e ce serviceId baseFee variableFee = paid_method e (1 \<le> serviceId \<and> 1 \<le> baseFee \<and> 1 \<le> variableFee)
     (prepare_apply ce (setServiceFees e serviceId (of_int baseFee) (of_int variableFee)))"

definition setMetadataServiceContract :: "pallet_env \<Rightarrow> 'c chain_env \<Rightarrow> int \<Rightarrow> string \<Rightarrow> ('c client, js_error, chain_result) eff" where
  "setMetadataServiceContract e ce serviceId metadata = paid_method e (1 \<le> serviceId \<and> not_empty metadata)
     (prepare_apply ce (setServiceMetadata e serviceId metadata))"

definition getServiceContract :: "pallet_env \<Rightarrow> 'v chain_storage \<Rightarrow> int \<Rightarrow> js_error + 'v" where
  "getServiceContract e st serviceId = validated (1 \<le> serviceId) (getService e st serviceId)"

subsection \<open>Cancelling\<close>

text \<open>What is stored about a contract: the module, the project and the deployment it belongs to.\<close>

record stored_info =
  si_moduleName :: string
  si_projectName :: string
  si_deploymentName :: string

type_synonym 'c info_store = "string \<Rightarrow> 'c \<Rightarrow> js_error + stored_info option"

definition key_deletion_failed :: "string \<Rightarrow> js_error \<Rightarrow> js_error" where
  "key_deletion_failed name e =
     (if err_class e = err_class (InsufficientBalanceError [])
      then DeploymentKeyDeletionError (''Couldn'' @ apos # ''t delete the deployment'' @ apos # ''s cached data for contract ''
             @ name @ '' due to '' @ [newline, CHR 0x09] @ error_to_string e)
      else e)"

text \<open>
  A module of its own, which knows no type of workload, reads the deployment, which clears its stored
  contracts; what cannot be loaded is only logged.
\<close>

definition invalidateDeployment :: "('a, 'c) module_env \<Rightarrow> 'c info_store \<Rightarrow> int \<Rightarrow> ('c, unit) module_eff" where
  "invalidateDeployment m store i =
     bindE (catchE (m_ask (store (path_join [m_storePath m, ''contracts'', show_int i @ ''.json'']))) (\<lambda>_. retE None)) (\<lambda>info.
       case info of
         None \<Rightarrow> retE ()
       | Some si \<Rightarrow> catchE (bindE (get_deployments (m\<lparr>m_moduleName := si_moduleName si, m_projectName := si_projectName si,
               m_workloadTypes := []\<rparr>) (si_deploymentName si)) (\<lambda>_. retE ()))
             (\<lambda>e. throwE (key_deletion_failed (si_deploymentName si) e)))"

definition on_chain :: "('a, 'c) module_env \<Rightarrow> (grid_api \<Rightarrow> 'c chain_env \<Rightarrow> ('c client, js_error, 'r) eff) \<Rightarrow> ('c, 'r) module_eff" where
  "on_chain m f = bindE (m_ask (\<lambda>ch. Inr (m_grid m ch))) (\<lambda>api. on_handler (on_client (f api (h_chain (m_handler m)))))"

definition contracts_cancel ::
  "pallet_env \<Rightarrow> ('a, 'c) module_env \<Rightarrow> 'c info_store \<Rightarrow> int \<Rightarrow> ('c, chain_result) module_eff"
where
  "contracts_cancel e m store i = paid_method e (1 \<le> i)
     (bindE (on_chain m (\<lambda>api ce. bindE (liftE (checkConnection e (cancel api i))) (\<lambda>x. case x of
          None \<Rightarrow> throwE TypeError | Some x \<Rightarrow> apply_extrinsic ce x)))
        (\<lambda>deleted. bindE (invalidateDeployment m store i) (\<lambda>_. retE deleted)))"

definition contracts_cancelMyContracts ::
  "contract_env \<Rightarrow> ('a, 'c) module_env \<Rightarrow> 'c info_store \<Rightarrow> ('c, int list) module_eff"
where
  "contracts_cancelMyContracts e m store = paid_method (ce_pallets e) True
     (bindE (on_chain m (cancelMyContracts e)) (\<lambda>ids.
        bindE (iterE (invalidateDeployment m store) ids) (\<lambda>_. retE ids)))"

definition contracts_batchCancelContracts ::
  "contract_env \<Rightarrow> ('a, 'c) module_env \<Rightarrow> 'c info_store \<Rightarrow> int list \<Rightarrow> ('c, int list) module_eff"
where
  "contracts_batchCancelContracts e m store ids = paid_method (ce_pallets e) (ids \<noteq> [] \<and> list_all (\<lambda>i. 1 \<le> i) ids)
     (bindE (on_chain m (\<lambda>api ce. batchCancelContracts e api ce ids)) (\<lambda>r.
        bindE (iterE (invalidateDeployment m store) ids) (\<lambda>_. retE r)))"

subsection \<open>What is locked\<close>

record lock_details =
  ld_nameContracts :: "(int \<times> rat) list"
  ld_nodeContracts :: "(int \<times> rat) list"
  ld_rentContracts :: "(int \<times> rat) list"
  ld_total :: rat

text \<open>The locks of the contracts of one type, and their sum.\<close>

definition lock_step :: "contract_env \<Rightarrow> int \<Rightarrow> (int \<times> rat) list \<times> rat \<Rightarrow> js_error + (int \<times> rat) list \<times> rat" where
  "lock_step e i acc = bindR (contracts_contractLock e i) (\<lambda>a. Inr (obj_set i a (fst acc), snd acc + a))"

definition lock_type :: "contract_env \<Rightarrow> int list \<Rightarrow> rat \<Rightarrow> js_error + (int \<times> rat) list \<times> rat" where
  "lock_type e ids start = foldR (lock_step e) ids ([], start)"

definition getContractsLockDetails :: "contract_env \<Rightarrow> js_error + lock_details" where
  "getContractsLockDetails e = bindR (contracts_listMyContracts e [''GracePeriod'']) (\<lambda>(names, nodes, rents).
     bindR (lock_type e names 0) (\<lambda>(ln, t1).
     bindR (lock_type e nodes t1) (\<lambda>(lo, t2).
     bindR (lock_type e rents t2) (\<lambda>(lr, t3).
       Inr \<lparr>ld_nameContracts = ln, ld_nodeContracts = lo, ld_rentContracts = lr, ld_total = t3\<rparr>))))"

subsection \<open>What is owed\<close>

definition getContractOverdueAmount :: "recognisers \<Rightarrow> nat \<Rightarrow> contract_env \<Rightarrow> proxy_contract \<Rightarrow> js_error + rat" where
  "getContractOverdueAmount rc fuel e contract = validated (\<not> forbid_unknown rc) (calculateContractOverDue fuel e contract)"

definition getContractOverdueAmountByContract :: "recognisers \<Rightarrow> nat \<Rightarrow> contract_env \<Rightarrow> proxy_contract \<Rightarrow> js_error + rat" where
  "getContractOverdueAmountByContract rc fuel e contract = validated (\<not> forbid_unknown rc)
     (prefixing ''Failed to get contract overdue info'' (calculateContractOverDue fuel e contract))"

text \<open>The contract of an id is the first that the proxy lists under it.\<close>

type_synonym contract_by_id = "int \<Rightarrow> js_error + proxy_contract option"

definition getContractOverdueAmountById :: "recognisers \<Rightarrow> contract_by_id \<Rightarrow> nat \<Rightarrow> contract_env \<Rightarrow> int \<Rightarrow> js_error + rat" where
  "getContractOverdueAmountById rc by_id fuel e i = validated (\<not> forbid_unknown rc)
     (prefixing ''Failed to get contract overdue info'' (bindR (by_id i) (\<lambda>c. case c of
        None \<Rightarrow> Inl (GridClientError (''Can'' @ apos # ''t find contract '' @ show_int i @ '' info''))
      | Some c \<Rightarrow> getContractOverdueAmount rc fuel e c)))"

record overdue =
  od_nameContracts :: "(int \<times> rat) list"
  od_nodeContracts :: "(int \<times> rat) list"
  od_rentContracts :: "(int \<times> rat) list"
  od_total :: rat
  od_rented :: "int list"

definition no_overdue :: overdue where
  "no_overdue = \<lparr>od_nameContracts = [], od_nodeContracts = [], od_rentContracts = [], od_total = 0, od_rented = []\<rparr>"

text \<open>A contract on a node whose rent contract came before it is part of what that one owes.\<close>

definition overdue_step :: "recognisers \<Rightarrow> nat \<Rightarrow> contract_env \<Rightarrow> proxy_contract \<Rightarrow> overdue \<Rightarrow> js_error + overdue" where
  "overdue_step rc fuel e c od = (case px_type c of
     PX_name \<Rightarrow> bindR (getContractOverdueAmount rc fuel e c) (\<lambda>a.
       Inr (od\<lparr>od_nameContracts := obj_set (px_id c) a (od_nameContracts od), od_total := od_total od + a\<rparr>))
   | PX_rent \<Rightarrow> bindR (getContractOverdueAmount rc fuel e c) (\<lambda>a.
       Inr (od\<lparr>od_rentContracts := obj_set (px_id c) a (od_rentContracts od), od_rented := od_rented od @ [px_nodeId c],
         od_total := od_total od + a\<rparr>))
   | PX_node \<Rightarrow> if px_nodeId c \<in> set (od_rented od)
       then Inr (od\<lparr>od_nodeContracts := obj_set (px_id c) 0 (od_nodeContracts od)\<rparr>)
       else bindR (getContractOverdueAmount rc fuel e c) (\<lambda>a.
         Inr (od\<lparr>od_nodeContracts := obj_set (px_id c) a (od_nodeContracts od), od_total := od_total od + a\<rparr>)))"

definition overdue_query :: "int \<Rightarrow> contracts_query" where
  "overdue_query twinId = \<lparr>cq_node = None, cq_twin = Some twinId, cq_state = [''GracePeriod''], cq_ips = None,
     cq_retCount = False, cq_size = None\<rparr>"

text \<open>Only the page that comes first is asked for.\<close>

definition getTotalOverdue :: "recognisers \<Rightarrow> nat \<Rightarrow> contract_env \<Rightarrow> int \<Rightarrow> js_error + overdue" where
  "getTotalOverdue rc fuel e twinId = bindR (ce_list e (overdue_query twinId)) (\<lambda>(data, _).
     foldR (overdue_step rc fuel e) data no_overdue)"

subsection \<open>Unlocking\<close>

definition contracts_batchUnlockContracts ::
  "recognisers \<Rightarrow> nat \<Rightarrow> contract_env \<Rightarrow> 'c chain_env \<Rightarrow> proxy_contract list \<Rightarrow> ('c client, js_error, chain_result list) eff"
where
  "contracts_batchUnlockContracts rc fuel e ce contracts = validated_eff (\<not> forbid_unknown rc) (batchUnlockContracts fuel e ce contracts)"

definition contracts_unlockContracts ::
  "recognisers \<Rightarrow> nat \<Rightarrow> contract_env \<Rightarrow> 'c chain_env \<Rightarrow> proxy_contract list \<Rightarrow> ('c client, js_error, chain_result list) eff"
where
  "contracts_unlockContracts rc fuel e ce contracts = validated_eff (\<not> forbid_unknown rc)
     (contracts_batchUnlockContracts rc fuel e ce contracts)"

definition unlockContractsByIds ::
  "recognisers \<Rightarrow> contract_by_id \<Rightarrow> nat \<Rightarrow> contract_env \<Rightarrow> 'c chain_env \<Rightarrow> int list \<Rightarrow> ('c client, js_error, chain_result list) eff"
where
  "unlockContractsByIds rc by_id fuel e ce ids = validated_eff (\<not> forbid_unknown rc)
     (catchE (bindE (liftE (mapR by_id ids)) (\<lambda>cs. contracts_batchUnlockContracts rc fuel e ce (List.map_filter id cs)))
        (\<lambda>err. throwE (with_prefix ''Failed to get the contracts due:'' err)))"

definition contracts_unlockMyContracts ::
  "nat \<Rightarrow> contract_env \<Rightarrow> 'c chain_env \<Rightarrow> ('c client, js_error, chain_result list) eff"
where
  "contracts_unlockMyContracts fuel e ce = unlockMyContracts fuel e ce"

end
