(* ===== verification/ContractsModuleProps.thy ===== *)
theory ContractsModuleProps
  imports ContractsModule GridContractProps
begin

text \<open>
  What the module of the contracts tells a user: the sum of what is locked, and the sum of what is owed,
  in which a contract on a rented node is part of the debt of the rent contract.
\<close>

subsection \<open>What is locked\<close>

lemma lock_fold:
  assumes "foldR (lock_step e) ids acc = Inr r" and "\<forall>i \<in> set ids. contracts_contractLock e i = Inr (lock i)"
  shows "snd r = snd acc + (\<Sum>i\<leftarrow>ids. lock i)"
    and "map_of (fst r) = (\<lambda>i. if i \<in> set ids then Some (lock i) else map_of (fst acc) i)"
proof -
  have "snd r = snd acc + (\<Sum>i\<leftarrow>ids. lock i) \<and> map_of (fst r) = (\<lambda>i. if i \<in> set ids then Some (lock i) else map_of (fst acc) i)"
    using assms
  proof (induction ids arbitrary: acc)
    case (Cons i ids)
    then have "foldR (lock_step e) ids (obj_set i (lock i) (fst acc), snd acc + lock i) = Inr r"
      by (simp add: lock_step_def [of e i])
    from Cons.IH [OF this] Cons.prems(2) show ?case by (auto simp: fun_eq_iff)
  qed simp
  then show "snd r = snd acc + (\<Sum>i\<leftarrow>ids. lock i)"
    and "map_of (fst r) = (\<lambda>i. if i \<in> set ids then Some (lock i) else map_of (fst acc) i)" by blast+
qed

lemma lock_fold_known:
  "foldR (lock_step e) ids acc = Inr r \<Longrightarrow> \<forall>i \<in> set ids. \<exists>a. contracts_contractLock e i = Inr a"
  by (induction ids arbitrary: acc) (auto simp: lock_step_def bindR_Inr)

lemma lock_type_Inr:
  assumes "lock_type e ids start = Inr (l, t)"
  defines "lock \<equiv> \<lambda>i. projr (contracts_contractLock e i)"
  shows "t = start + (\<Sum>i\<leftarrow>ids. lock i)" and "map_of l = (\<lambda>i. if i \<in> set ids then Some (lock i) else None)"
    and "\<forall>i \<in> set ids. tf_contractLock e i = Inr (lock i)"
proof -
  have known: "\<forall>i \<in> set ids. contracts_contractLock e i = Inr (lock i)"
    using lock_fold_known [OF assms(1) [unfolded lock_type_def]] by (auto simp: lock_def)
  from lock_fold [OF assms(1) [unfolded lock_type_def] known]
  show "t = start + (\<Sum>i\<leftarrow>ids. lock i)" "map_of l = (\<lambda>i. if i \<in> set ids then Some (lock i) else None)"
    by (simp_all cong: if_cong)
  show "\<forall>i \<in> set ids. tf_contractLock e i = Inr (lock i)"
    using known by (auto simp: contracts_contractLock_def validated_def split: if_splits)
qed

text \<open>
  The details of the locked contracts hold, for each kind, exactly the contracts in grace with what
  the chain has locked for them, and the total is the sum over all contracts that are listed.
\<close>

theorem lock_details_exact:
  assumes "getContractsLockDetails e = Inr d" and "listMyContracts e [''GracePeriod''] = Inr (names, nodes, rents)"
  shows "\<exists>lock. (\<forall>i \<in> set (names @ nodes @ rents). tf_contractLock e i = Inr (lock i))
    \<and> map_of (ld_nameContracts d) = (\<lambda>i. if i \<in> set names then Some (lock i) else None)
    \<and> map_of (ld_nodeContracts d) = (\<lambda>i. if i \<in> set nodes then Some (lock i) else None)
    \<and> map_of (ld_rentContracts d) = (\<lambda>i. if i \<in> set rents then Some (lock i) else None)
    \<and> ld_total d = (\<Sum>i\<leftarrow>names @ nodes @ rents. lock i)"
proof -
  define lock where "lock i = projr (contracts_contractLock e i)" for i
  have listed: "contracts_listMyContracts e [''GracePeriod''] = Inr (names, nodes, rents)"
    using assms(2) by (simp add: contracts_listMyContracts_def validated_def contract_states_def)
  from assms(1) obtain ln t1 lo t2 lr t3 where
    r: "lock_type e names 0 = Inr (ln, t1)" "lock_type e nodes t1 = Inr (lo, t2)" "lock_type e rents t2 = Inr (lr, t3)"
    and d: "d = \<lparr>ld_nameContracts = ln, ld_nodeContracts = lo, ld_rentContracts = lr, ld_total = t3\<rparr>"
    by (auto simp: getContractsLockDetails_def listed bindR_Inr)
  note known = lock_type_Inr [OF r(1), folded lock_def] lock_type_Inr [OF r(2), folded lock_def] lock_type_Inr [OF r(3), folded lock_def]
  show ?thesis
    by (rule exI [of _ lock]) (use known in \<open>auto simp: d\<close>)
qed

subsection \<open>What is owed\<close>

definition overdue_entries :: "proxy_type \<Rightarrow> overdue \<Rightarrow> (int \<times> rat) list" where
  "overdue_entries t od = (case t of PX_name \<Rightarrow> od_nameContracts od | PX_node \<Rightarrow> od_nodeContracts od | PX_rent \<Rightarrow> od_rentContracts od)"

text \<open>A contract on a node whose rent contract stands before it in the list.\<close>

definition part_of_rent :: "proxy_contract list \<Rightarrow> nat \<Rightarrow> bool" where
  "part_of_rent cs i \<longleftrightarrow> px_type (cs ! i) = PX_node
     \<and> (\<exists>j < i. px_type (cs ! j) = PX_rent \<and> px_nodeId (cs ! j) = px_nodeId (cs ! i))"

definition rented_nodes :: "proxy_contract list \<Rightarrow> int set" where
  "rented_nodes cs = px_nodeId ` {c \<in> set cs. px_type c = PX_rent}"

lemma part_of_rent_append:
  "i < length cs \<Longrightarrow> part_of_rent (cs @ [c]) i = part_of_rent cs i"
  "part_of_rent (cs @ [c]) (length cs) \<longleftrightarrow> px_type c = PX_node \<and> px_nodeId c \<in> rented_nodes cs"
proof -
  show "i < length cs \<Longrightarrow> part_of_rent (cs @ [c]) i = part_of_rent cs i"
    by (simp add: part_of_rent_def nth_append cong: conj_cong)
  have "(\<exists>j < length cs. px_type (cs ! j) = PX_rent \<and> px_nodeId (cs ! j) = px_nodeId c) \<longleftrightarrow> px_nodeId c \<in> rented_nodes cs"
    unfolding rented_nodes_def image_def in_set_conv_nth by fastforce
  then show "part_of_rent (cs @ [c]) (length cs) \<longleftrightarrow> px_type c = PX_node \<and> px_nodeId c \<in> rented_nodes cs"
    by (auto simp: part_of_rent_def nth_append cong: conj_cong)
qed

text \<open>The entries of one kind in the order in which they are made.\<close>

definition entries_made :: "proxy_type \<Rightarrow> (nat \<Rightarrow> rat) \<Rightarrow> proxy_contract list \<Rightarrow> (int \<times> rat) list" where
  "entries_made t debt cs = map (\<lambda>i. (px_id (cs ! i), debt i)) (filter (\<lambda>i. px_type (cs ! i) = t) [0..<length cs])"

lemma entries_made_append:
  "(\<And>i. i < length cs \<Longrightarrow> debt' i = debt i) \<Longrightarrow>
   entries_made t debt' (cs @ [c]) = entries_made t debt cs @ (if px_type c = t then [(px_id c, debt' (length cs))] else [])"
proof -
  assume same: "\<And>i. i < length cs \<Longrightarrow> debt' i = debt i"
  have "filter (\<lambda>i. px_type ((cs @ [c]) ! i) = t) [0..<length cs] = filter (\<lambda>i. px_type (cs ! i) = t) [0..<length cs]"
    by (rule filter_cong) (auto simp: nth_append)
  then show ?thesis using same by (auto simp: entries_made_def nth_append)
qed

lemma foldR_append: "foldR f (xs @ ys) acc = bindR (foldR f xs acc) (foldR f ys)"
  by (induction xs arbitrary: acc) (auto simp: bindR_def split: sum.splits)

definition debts_known :: "recognisers \<Rightarrow> nat \<Rightarrow> contract_env \<Rightarrow> proxy_contract list \<Rightarrow> (nat \<Rightarrow> rat) \<Rightarrow> bool" where
  "debts_known rc fuel e cs debt \<longleftrightarrow> (\<forall>i < length cs.
     if part_of_rent cs i then debt i = 0 else getContractOverdueAmount rc fuel e (cs ! i) = Inr (debt i))"

text \<open>One step, as what it adds to the sum and to the entries of the contract's kind.\<close>

lemma overdue_step_cases:
  assumes "set (od_rented od) = R"
    and "a = (if px_type c = PX_node \<and> px_nodeId c \<in> R then Inr 0 else getContractOverdueAmount rc fuel e c)"
  shows "(\<exists>err. a = Inl err \<and> overdue_step rc fuel e c od = Inl err)
    \<or> (\<exists>d od'. a = Inr d \<and> overdue_step rc fuel e c od = Inr od' \<and> od_total od' = od_total od + d
        \<and> set (od_rented od') = (if px_type c = PX_rent then insert (px_nodeId c) R else R)
        \<and> (\<forall>t. map_of (overdue_entries t od') = (if px_type c = t then (map_of (overdue_entries t od))(px_id c \<mapsto> d)
            else map_of (overdue_entries t od))))"
proof (cases a)
  case (Inl err)
  then show ?thesis using assms by (cases "px_type c") (auto simp: overdue_step_def split: if_splits)
next
  case (Inr d)
  have "overdue_entries t od' = (case t of PX_name \<Rightarrow> od_nameContracts od' | PX_node \<Rightarrow> od_nodeContracts od' | PX_rent \<Rightarrow> od_rentContracts od')" for t od'
    by (simp add: overdue_entries_def)
  then show ?thesis
    using Inr assms by (cases "px_type c") (auto simp: overdue_step_def split: if_splits proxy_type.split)
qed

lemma overdue_prefix:
  "case foldR (overdue_step rc fuel e) data no_overdue of
     Inl err \<Rightarrow> \<exists>i < length data. \<not> part_of_rent data i \<and> getContractOverdueAmount rc fuel e (data ! i) = Inl err
   | Inr od \<Rightarrow> set (od_rented od) = rented_nodes data
       \<and> (\<exists>debt. debts_known rc fuel e data debt \<and> od_total od = (\<Sum>i < length data. debt i)
         \<and> (\<forall>t. map_of (overdue_entries t od) = map_of (rev (entries_made t debt data))))"
proof (induction data rule: rev_induct)
  case Nil
  have "overdue_entries t no_overdue = []" for t by (cases t) (simp_all add: overdue_entries_def no_overdue_def)
  then show ?case by (simp add: debts_known_def entries_made_def rented_nodes_def) (simp add: no_overdue_def)
next
  case (snoc c data)
  show ?case
  proof (cases "foldR (overdue_step rc fuel e) data no_overdue")
    case (Inl err)
    with snoc obtain i where "i < length data" "\<not> part_of_rent data i" "getContractOverdueAmount rc fuel e (data ! i) = Inl err" by auto
    then have "i < length (data @ [c]) \<and> \<not> part_of_rent (data @ [c]) i
        \<and> getContractOverdueAmount rc fuel e ((data @ [c]) ! i) = Inl err" by (simp add: part_of_rent_append nth_append)
    then show ?thesis unfolding foldR_append Inl by auto
  next
    case (Inr od)
    with snoc obtain debt where R: "set (od_rented od) = rented_nodes data" and known: "debts_known rc fuel e data debt"
      and sum: "od_total od = (\<Sum>i < length data. debt i)"
      and ent: "\<And>t. map_of (overdue_entries t od) = map_of (rev (entries_made t debt data))" by auto
    let ?a = "if px_type c = PX_node \<and> px_nodeId c \<in> rented_nodes data then Inr 0 else getContractOverdueAmount rc fuel e c"
    note step = overdue_step_cases [where od = od and c = c and rc = rc and fuel = fuel and e = e, OF R refl]
    show ?thesis
    proof (cases ?a)
      case err: (Inl err)
      then have "\<not> part_of_rent (data @ [c]) (length data) \<and> getContractOverdueAmount rc fuel e c = Inl err"
        by (simp add: part_of_rent_append split: if_splits)
      moreover have "overdue_step rc fuel e c od = Inl err" using step err by auto
      ultimately show ?thesis unfolding foldR_append Inr by (auto intro!: exI [of _ "length data"])
    next
      case val: (Inr d)
      with step obtain od' where o: "overdue_step rc fuel e c od = Inr od'" "od_total od' = od_total od + d"
          "set (od_rented od') = (if px_type c = PX_rent then insert (px_nodeId c) (rented_nodes data) else rented_nodes data)"
          "\<And>t. map_of (overdue_entries t od') = (if px_type c = t then (map_of (overdue_entries t od))(px_id c \<mapsto> d)
            else map_of (overdue_entries t od))" by auto
      let ?debt = "debt(length data := d)"
      have "debts_known rc fuel e (data @ [c]) ?debt"
        using known val by (auto simp: debts_known_def part_of_rent_append nth_append less_Suc_eq split: if_splits)
      moreover have "od_total od' = (\<Sum>i < length (data @ [c]). ?debt i)" using o(2) sum by simp
      moreover have "map_of (overdue_entries t od') = map_of (rev (entries_made t ?debt (data @ [c])))" for t
        unfolding o(4) ent by (subst entries_made_append [of data ?debt debt]) auto
      moreover have "set (od_rented od') = rented_nodes (data @ [c])" using o(3) by (auto simp: rented_nodes_def)
      ultimately show ?thesis unfolding foldR_append Inr using o(1) by auto
    qed
  qed
qed

text \<open>
  C9: The total that is owed is the sum of the debts of the contracts in grace that the proxy lists (the
  first page of them, which is all that is asked for), where a contract on a node whose rent contract
  stands before it in the list counts nothing, because the rent contract owes it already; it has an
  entry 0, every other contract one with its debt, under its kind and number (the last one if a number
  is listed twice).  The only reason to fail is that one of the debts that count cannot be found.
\<close>

theorem total_overdue_exact:
  assumes "ce_list e (overdue_query twinId) = Inr (data, n)"
  shows "case getTotalOverdue rc fuel e twinId of
      Inl err \<Rightarrow> \<exists>i < length data. \<not> part_of_rent data i \<and> getContractOverdueAmount rc fuel e (data ! i) = Inl err
    | Inr od \<Rightarrow> \<exists>debt. (\<forall>i < length data. if part_of_rent data i then debt i = 0
            else getContractOverdueAmount rc fuel e (data ! i) = Inr (debt i))
        \<and> od_total od = (\<Sum>i < length data. debt i)
        \<and> (\<forall>t. map_of (overdue_entries t od)
            = map_of (rev (map (\<lambda>i. (px_id (data ! i), debt i)) (filter (\<lambda>i. px_type (data ! i) = t) [0..<length data]))))"
  using overdue_prefix [where rc = rc and fuel = fuel and e = e and data = data]
  unfolding getTotalOverdue_def assms bindR_simps prod.case debts_known_def entries_made_def
  by (cases "foldR (overdue_step rc fuel e) data no_overdue") (simp_all only: sum.case simp_thms)

text \<open>The other way round the debt of a contract on a rented node is counted twice.\<close>

lemma counted_twice:
  assumes "px_type c = PX_node" and "px_type d = PX_rent" and "px_nodeId d = px_nodeId c" and "\<not> forbid_unknown rc"
    and "ce_list e (overdue_query twinId) = Inr ([c, d], n)" and "getNodeContractsOnRentedNode e (px_nodeId d) = Inr [c]"
    and "own_overdue e c = Inr a" and "own_overdue e d = Inr b"
  shows "\<exists>od. getTotalOverdue rc (Suc (Suc k)) e twinId = Inr od \<and> od_total od = 2 * a + b"
proof -
  have "calculateContractOverDue (Suc (Suc k)) e d = Inr (b + a)" "calculateContractOverDue (Suc (Suc k)) e c = Inr a"
    using assms by simp_all
  then show ?thesis
    using assms(1-5) by (simp add: getTotalOverdue_def overdue_step_def getContractOverdueAmount_def validated_def no_overdue_def
        del: calculateContractOverDue.simps)
qed

subsection \<open>Examples\<close>

definition lenient_library :: recognisers where
  "lenient_library = \<lparr>is_url = (\<lambda>_. True), is_http_url = (\<lambda>_. True), is_fqdn = (\<lambda>_. True), is_ip_address = (\<lambda>_. True), forbid_unknown = False\<rparr>"

definition rented_first :: contract_env where
  "rented_first = demo_contracts\<lparr>ce_list := \<lambda>q. Inr (if cq_twin q = None then [node_contract] else [rent_contract, node_contract], None)\<rparr>"

lemma rented_first_debts:
  "calculateContractOverDue 2 rented_first rent_contract = Inr 2" "calculateContractOverDue 2 rented_first node_contract = Inr 1"
proof -
  have o: "own_overdue rented_first c = own_overdue demo_contracts c" for c
    by (simp add: rented_first_def own_overdue_def getContractCost_def tf_getDedicatedNodeExtraFee_def convertToTFT_def getUnbilledNu_def Let_def
        cong: if_cong)
  have l: "getNodeContractsOnRentedNode rented_first 1 = Inr [node_contract]"
    by (simp add: rented_first_def getNodeContractsOnRentedNode_def listAllContracts_def grace_query_def)
  have k: "px_type node_contract = PX_node" "px_type rent_contract = PX_rent" "px_nodeId rent_contract = 1"
    by (simp_all add: node_contract_def rent_contract_def)
  have n: "calculateContractOverDue (Suc i) rented_first node_contract = Inr 1" for i by (simp add: o k)
  then show "calculateContractOverDue 2 rented_first node_contract = Inr 1" unfolding numeral_2_eq_2 .
  show "calculateContractOverDue 2 rented_first rent_contract = Inr 2"
    unfolding numeral_2_eq_2 by (subst calculateContractOverDue.simps) (simp add: o k l n del: calculateContractOverDue.simps)
qed

theorem total_overdue_exact_witness:
  "\<exists>od. getTotalOverdue lenient_library 2 rented_first 7 = Inr od \<and> od_total od = 2 \<and> map_of (od_nodeContracts od) 11 = Some 0"
proof -
  let ?data = "[rent_contract, node_contract]"
  have l: "ce_list rented_first (overdue_query 7) = Inr (?data, None)"
    by (simp add: rented_first_def overdue_query_def)
  have k: "px_id node_contract = 11" "px_type node_contract = PX_node" "px_type rent_contract = PX_rent"
      "px_nodeId node_contract = px_nodeId rent_contract"
    by (simp_all add: node_contract_def rent_contract_def)
  have p: "\<not> part_of_rent ?data 0" "part_of_rent ?data 1" by (simp_all add: part_of_rent_def k)
  have d: "getContractOverdueAmount lenient_library 2 rented_first rent_contract = Inr 2"
    by (simp add: getContractOverdueAmount_def validated_def lenient_library_def rented_first_debts del: calculateContractOverDue.simps)
  have two: "length ?data = 2" "{..<2 :: nat} = {0, 1}" "[0..<2] = [0, 1 :: nat]" by (auto simp: upt_rec)
  show ?thesis
    using total_overdue_exact [OF l, of lenient_library 2]
  proof (cases "getTotalOverdue lenient_library 2 rented_first 7")
    case (Inl err)
    then show ?thesis using total_overdue_exact [OF l, of lenient_library 2] p d by (auto simp: less_Suc_eq)
  next
    case (Inr od)
    with total_overdue_exact [OF l, of lenient_library 2] obtain debt where
      x: "\<forall>i < length ?data. if part_of_rent ?data i then debt i = 0
          else getContractOverdueAmount lenient_library 2 rented_first (?data ! i) = Inr (debt i)"
        "od_total od = (\<Sum>i < length ?data. debt i)"
        "map_of (overdue_entries PX_node od) = map_of (rev (map (\<lambda>i. (px_id (?data ! i), debt i))
          (filter (\<lambda>i. px_type (?data ! i) = PX_node) [0..<length ?data])))" by auto
    have "debt 0 = 2" "debt 1 = 0" using x(1) [unfolded two, rule_format, of 0] x(1) [unfolded two, rule_format, of 1] p d by simp_all
    then show ?thesis using Inr x(2,3) by (simp add: two k overdue_entries_def)
  qed
qed

definition locked_contracts :: contract_env where
  "locked_contracts = demo_contracts\<lparr>ce_graph_ids := \<lambda>_ _ _. Inr ([4], [5, 6], []), ce_locked := \<lambda>i. Inr (of_int i * 10 ^ 7)\<rparr>"

theorem lock_details_exact_witness:
  "\<exists>d. getContractsLockDetails locked_contracts = Inr d \<and> ld_total d = 15"
proof -
  have l: "listMyContracts locked_contracts [''GracePeriod''] = Inr ([4], [5, 6], [])"
    by (simp add: locked_contracts_def listMyContracts_def getMyTwinId_def getTwinIdByAccountId_def demo_pallets_def
        checkConnection_def listContractsByTwinId_def)
  have k: "contracts_contractLock locked_contracts i = Inr (of_int i)" if "1 \<le> i" for i
    using that by (simp add: contracts_contractLock_def validated_def tf_contractLock_def locked_contracts_def demo_pallets_def checkConnection_def)
  obtain d where d: "getContractsLockDetails locked_contracts = Inr d"
    using l k by (simp add: getContractsLockDetails_def contracts_listMyContracts_def validated_def contract_states_def lock_type_def lock_step_def)
  from lock_details_exact [OF d l] obtain lock where
    "\<forall>i \<in> set [4, 5, 6]. tf_contractLock locked_contracts i = Inr (lock i)" "ld_total d = (\<Sum>i\<leftarrow>[4, 5, 6]. lock i)" by auto
  moreover have "tf_contractLock locked_contracts i = Inr (of_int i)" for i
    by (simp add: tf_contractLock_def locked_contracts_def demo_pallets_def checkConnection_def)
  ultimately show ?thesis using d by auto
qed

end
