(* ===== verification/NodeRequests.thy ===== *)
theory NodeRequests
  imports Rmb GridModules BaseModule
begin

text \<open>
  \<open>grid_client/src/clients/rmb/client.ts\<close> (a request to a twin over \<open>rmb_direct_client\<close>), the module
  \<open>modules/zos.ts\<close> that asks nodes and deploys documents written by hand, and \<open>high_level/farmerbot.ts\<close> with
  its module.
\<close>

subsection \<open>Requests\<close>

text \<open>
  \<open>send\<close>, then \<open>read\<close>, which waits with fuel; a promise that never settles is \<open>diverges\<close>, which nothing
  catches.  What a pong resolves to is its envelope, here the null of JSON.
\<close>

definition request_text :: "int \<Rightarrow> string \<Rightarrow> string \<Rightarrow> string" where
  "request_text dest cmd payload = ''Failed to send request to twinId '' @ show_int dest @ '' with command: '' @ cmd @ '', payload: '' @ payload"

definition request_failed :: "string \<Rightarrow> js_error \<Rightarrow> js_error" where
  "request_failed txt e =
     (if err_class e = C_Diverges then e
      else if is_base_error e then with_prefix txt e
      else RMBError (txt @ '' due to '' @ error_to_string e))"

definition await_reply :: "nat \<Rightarrow> 'w rmb_env \<Rightarrow> rmb_client \<Rightarrow> string \<Rightarrow> ('w rmb_state, js_error, json) eff" where
  "await_reply fuel r c uid = (\<lambda>s. case rmb_read fuel r c uid s of
     (Some (Resolved v), s') \<Rightarrow> (Inr v, s')
   | (Some Pong_received, s') \<Rightarrow> (Inr J_null, s')
   | (Some (Rejected e), s') \<Rightarrow> (Inl e, s')
   | (_, s') \<Rightarrow> (Inl diverges, s'))"

definition RMB_request ::
  "nat \<Rightarrow> 'w rmb_env \<Rightarrow> rmb_client \<Rightarrow> int \<Rightarrow> string \<Rightarrow> string \<Rightarrow> int \<Rightarrow> int \<Rightarrow> ('w rmb_state, js_error, json) eff"
where
  "RMB_request fuel r c dest cmd payload expiration retries =
     catchE (bindE (rmb_send r c cmd payload dest expiration retries) (await_reply fuel r c))
       (\<lambda>e. throwE (request_failed (request_text dest cmd payload) e))"

subsection \<open>Asking a node\<close>

definition node_request ::
  "nat \<Rightarrow> grid_api \<Rightarrow> 'w rmb_env \<Rightarrow> rmb_client \<Rightarrow> int \<Rightarrow> string \<Rightarrow> string \<Rightarrow> int \<Rightarrow> ('w rmb_state, js_error, json) eff"
where
  "node_request fuel api r c nodeId cmd payload expiration = validated_eff (1 \<le> nodeId)
     (bindE (liftE (getNodeTwinId api nodeId)) (\<lambda>twin. RMB_request fuel r c twin cmd payload expiration 1))"

definition zos_pingNode ::
  "nat \<Rightarrow> grid_api \<Rightarrow> 'w rmb_env \<Rightarrow> rmb_client \<Rightarrow> int \<Rightarrow> ('w rmb_state, js_error, json) eff" where
  "zos_pingNode fuel api r c nodeId = node_request fuel api r c nodeId ''zos.system.version'' [] 10"

definition zos_getDeployment ::
  "nat \<Rightarrow> grid_api \<Rightarrow> 'w rmb_env \<Rightarrow> rmb_client \<Rightarrow> int \<Rightarrow> ('w rmb_state, js_error, json) eff" where
  "zos_getDeployment fuel api r c contractId = validated_eff (1 \<le> contractId)
     (bindE (liftE (getNodeIdFromContractId api contractId)) (\<lambda>nodeId.
      bindE (liftE (getNodeTwinId api nodeId)) (\<lambda>twin.
        RMB_request fuel r c twin ''zos.deployment.get'' (stringify (J_obj [(''contract_id'', J_num contractId)])) 20 1)))"

definition zos_getNodeStatistics ::
  "nat \<Rightarrow> grid_api \<Rightarrow> 'w rmb_env \<Rightarrow> rmb_client \<Rightarrow> int \<Rightarrow> ('w rmb_state, js_error, json) eff" where
  "zos_getNodeStatistics fuel api r c nodeId = node_request fuel api r c nodeId ''zos.statistics.get'' [] 20"

definition zos_hasPublicIPv6 ::
  "nat \<Rightarrow> grid_api \<Rightarrow> 'w rmb_env \<Rightarrow> rmb_client \<Rightarrow> int \<Rightarrow> ('w rmb_state, js_error, json) eff" where
  "zos_hasPublicIPv6 fuel api r c nodeId = node_request fuel api r c nodeId ''zos.network.has_ipv6'' [] 20"

definition zos_listNetworkInterfaces ::
  "nat \<Rightarrow> grid_api \<Rightarrow> 'w rmb_env \<Rightarrow> rmb_client \<Rightarrow> int \<Rightarrow> ('w rmb_state, js_error, json) eff" where
  "zos_listNetworkInterfaces fuel api r c nodeId = node_request fuel api r c nodeId ''zos.network.interfaces'' [] 20"

definition zos_listNetworkPublicIPs ::
  "nat \<Rightarrow> grid_api \<Rightarrow> 'w rmb_env \<Rightarrow> rmb_client \<Rightarrow> int \<Rightarrow> ('w rmb_state, js_error, json) eff" where
  "zos_listNetworkPublicIPs fuel api r c nodeId = node_request fuel api r c nodeId ''zos.network.list_public_ips'' [] 20"

definition zos_getNetworkPublicConfig ::
  "nat \<Rightarrow> grid_api \<Rightarrow> 'w rmb_env \<Rightarrow> rmb_client \<Rightarrow> int \<Rightarrow> ('w rmb_state, js_error, json) eff" where
  "zos_getNetworkPublicConfig fuel api r c nodeId = node_request fuel api r c nodeId ''zos.network.public_config_get'' [] 20"

definition zos_getStoragePools ::
  "nat \<Rightarrow> grid_api \<Rightarrow> 'w rmb_env \<Rightarrow> rmb_client \<Rightarrow> int \<Rightarrow> ('w rmb_state, js_error, json) eff" where
  "zos_getStoragePools fuel api r c nodeId = node_request fuel api r c nodeId ''zos.storage.pools'' [] 20"

definition zos_getNodeGPUInfo ::
  "nat \<Rightarrow> grid_api \<Rightarrow> 'w rmb_env \<Rightarrow> rmb_client \<Rightarrow> int \<Rightarrow> ('w rmb_state, js_error, json) eff" where
  "zos_getNodeGPUInfo fuel api r c nodeId = node_request fuel api r c nodeId ''zos.gpu.list'' [] 20"

text \<open>\<open>find\<close> by name: a property of null is a \<open>TypeError\<close>, and so is \<open>find\<close> of what is no array.\<close>

definition has_name :: "string \<Rightarrow> json \<Rightarrow> bool" where
  "has_name name v \<longleftrightarrow> (case v of J_obj ps \<Rightarrow> map_of ps ''name'' = Some (J_str name) | _ \<Rightarrow> False)"

fun find_named :: "string \<Rightarrow> json list \<Rightarrow> js_error + json option" where
  "find_named name [] = Inr None"
| "find_named name (v # vs) =
     (if v = J_null then Inl TypeError else if has_name name v then Inr (Some v) else find_named name vs)"

definition filterTest :: "json \<Rightarrow> string \<Rightarrow> js_error + json option" where
  "filterTest response testName = (case response of J_arr vs \<Rightarrow> find_named testName vs | _ \<Rightarrow> Inl TypeError)"

record perf_tests =
  pt_iperf :: "json option"
  pt_publicIPValidation :: "json option"
  pt_healthCheck :: "json option"
  pt_cpuBenchmark :: "json option"

definition perf_results :: "json \<Rightarrow> js_error + perf_tests" where
  "perf_results response =
     bindR (filterTest response ''iperf'') (\<lambda>a. bindR (filterTest response ''public-ip-validation'') (\<lambda>b.
     bindR (filterTest response ''healthcheck'') (\<lambda>c. bindR (filterTest response ''cpu-benchmark'') (\<lambda>d.
       Inr \<lparr>pt_iperf = a, pt_publicIPValidation = b, pt_healthCheck = c, pt_cpuBenchmark = d\<rparr>))))"

definition zos_getNodePerfTests ::
  "nat \<Rightarrow> grid_api \<Rightarrow> 'w rmb_env \<Rightarrow> rmb_client \<Rightarrow> int \<Rightarrow> ('w rmb_state, js_error, perf_tests) eff" where
  "zos_getNodePerfTests fuel api r c nodeId =
     bindE (node_request fuel api r c nodeId ''zos.perf.get_all'' [] 20) (\<lambda>response. liftE (perf_results response))"

definition perf_request ::
  "string \<Rightarrow> nat \<Rightarrow> grid_api \<Rightarrow> 'w rmb_env \<Rightarrow> rmb_client \<Rightarrow> int \<Rightarrow> ('w rmb_state, js_error, json) eff" where
  "perf_request name fuel api r c nodeId =
     node_request fuel api r c nodeId ''zos.perf.get'' (stringify (J_obj [(''name'', J_str name)])) 20"

definition zos_getNodeIPerfTest ::
  "nat \<Rightarrow> grid_api \<Rightarrow> 'w rmb_env \<Rightarrow> rmb_client \<Rightarrow> int \<Rightarrow> ('w rmb_state, js_error, json) eff" where
  "zos_getNodeIPerfTest = perf_request ''iperf''"

definition zos_getNodeIPValidation ::
  "nat \<Rightarrow> grid_api \<Rightarrow> 'w rmb_env \<Rightarrow> rmb_client \<Rightarrow> int \<Rightarrow> ('w rmb_state, js_error, json) eff" where
  "zos_getNodeIPValidation = perf_request ''public-ip-validation''"

definition zos_getNodeCPUTest ::
  "nat \<Rightarrow> grid_api \<Rightarrow> 'w rmb_env \<Rightarrow> rmb_client \<Rightarrow> int \<Rightarrow> ('w rmb_state, js_error, json) eff" where
  "zos_getNodeCPUTest = perf_request ''cpu-benchmark''"

subsection \<open>Deploying a document\<close>

definition v4_ips :: "Deployment \<Rightarrow> int" where
  "v4_ips d = int (length (filter is_v4 (dp_workloads d)))"

definition zos_deploy ::
  "('a, 'c) handler_env \<Rightarrow> pallet_env \<Rightarrow> int \<Rightarrow> Deployment \<Rightarrow> ('c, DeploymentResultContracts) handler_eff"
where
  "zos_deploy h e node_id options =
     paid_method e (1 \<le> node_id \<and> valid_Deployment (h_valid h) (exposed_deployment options))
       (bindE (liftE (fromObj (h_valid h) options)) (\<lambda>d.
          handle h [\<lparr>td_deployment = d, td_operation = Op_deploy, td_publicIps = v4_ips d, td_nodeId = node_id,
            td_metadata = dp_metadata d, td_network = None, td_solutionProviderId = None, td_returnNetworkContracts = False\<rparr>]))"

subsection \<open>The bot of a farm\<close>

text \<open>\<open>toLocaleString\<close> of a number depends on the place; the texts of true and false, and of a list, do not.\<close>

record find_node_options =
  fn_farmId :: int
  fn_required_cru :: "int option"
  fn_required_mru :: "int option"
  fn_required_sru :: "int option"
  fn_required_hru :: "int option"
  fn_node_exclude :: "int list option"
  fn_dedicated :: "bool option"
  fn_public_config :: "bool option"
  fn_public_ips :: "int option"
  fn_certified :: "bool option"
  fn_has_gpus :: "int option"

record job_env =
  jb_locale :: "int \<Rightarrow> string"
  jb_guid :: string
  jb_now :: int
  jb_twinId :: int

definition valid_find_node :: "find_node_options \<Rightarrow> bool" where
  "valid_find_node q \<longleftrightarrow> 1 \<le> fn_farmId q \<and> list_all not_negative [fn_required_cru q, fn_required_mru q, fn_required_sru q,
     fn_required_hru q, fn_public_ips q, fn_has_gpus q]"

definition find_node_params :: "(int \<Rightarrow> string) \<Rightarrow> find_node_options \<Rightarrow> (string \<times> string) list" where
  "find_node_params loc q = List.map_filter (\<lambda>(k, v). map_option (\<lambda>t. (k, t)) v)
     [(''required_hru'', map_option loc (fn_required_hru q)), (''required_cru'', map_option loc (fn_required_cru q)),
      (''required_mru'', map_option loc (fn_required_mru q)), (''required_sru'', map_option loc (fn_required_sru q)),
      (''node_exclude'', map_option (\<lambda>is. join_with '','' (map loc is)) (fn_node_exclude q)),
      (''dedicated'', map_option show_bool (fn_dedicated q)), (''public_config'', map_option show_bool (fn_public_config q)),
      (''public_ips'', map_option loc (fn_public_ips q)), (''certified'', map_option show_bool (fn_certified q)),
      (''has_gpus'', map_option loc (fn_has_gpus q))]"

definition farmerbot_job :: "job_env \<Rightarrow> int \<Rightarrow> string \<Rightarrow> (string \<times> string) list \<Rightarrow> json" where
  "farmerbot_job j twinid action params = J_obj
     [(''guid'', J_str (jb_guid j)), (''twinid'', J_num twinid), (''action'', J_str action),
      (''args'', J_obj [(''params'', J_arr (map (\<lambda>(k, v). J_obj [(''key'', J_str k), (''value'', J_str v)]) params)),
                      (''args'', J_arr [])]),
      (''state'', J_str ''init''), (''start'', J_num (jb_now j)), (''end'', J_num 1), (''grace_period'', J_num 1),
      (''timeout'', J_num 600), (''error'', J_str []), (''src_twinid'', J_num (jb_twinId j)), (''src_action'', J_str [])]"

text \<open>A property of a value of JSON; of null it is a \<open>TypeError\<close>, and \<open>?.\<close> asks nothing of what is null.\<close>

definition json_property :: "string \<Rightarrow> json \<Rightarrow> js_error + json option" where
  "json_property k v = (case v of J_null \<Rightarrow> Inl TypeError | J_obj ps \<Rightarrow> Inr (map_of ps k) | _ \<Rightarrow> Inr None)"

definition optional_property :: "string \<Rightarrow> json option \<Rightarrow> json option" where
  "optional_property k v = (case v of Some (J_obj ps) \<Rightarrow> map_of ps k | _ \<Rightarrow> None)"

text \<open>
  The parameters of the answer and the first of them named \<open>nodeid\<close>, as a number: a text of digits (an
  id has no sign, point or exponent); anything that is no number counts as 0.
\<close>

definition node_number :: "json option \<Rightarrow> int" where
  "node_number v = (case v of Some (J_num n) \<Rightarrow> n
     | Some (J_str s) \<Rightarrow> if s \<noteq> [] \<and> list_all is_digit s then int (read_nat s) else 0
     | Some (J_bool b) \<Rightarrow> of_bool b | _ \<Rightarrow> 0)"

fun keyed :: "string \<Rightarrow> json list \<Rightarrow> js_error + json list" where
  "keyed k [] = Inr []"
| "keyed k (v # vs) = bindR (json_property ''key'' v) (\<lambda>key. bindR (keyed k vs) (\<lambda>rest.
     Inr (if key = Some (J_str k) then v # rest else rest)))"

definition node_of_answer :: "json \<Rightarrow> js_error + int" where
  "node_of_answer answer = (case optional_property ''params'' (optional_property ''result'' (Some answer)) of
     None \<Rightarrow> Inl TypeError
   | Some J_null \<Rightarrow> Inl TypeError
   | Some (J_arr (p # ps)) \<Rightarrow> bindR (keyed ''nodeid'' (p # ps)) (\<lambda>found.
       let nodeId = (case found of [] \<Rightarrow> 0 | v # _ \<Rightarrow> node_number (optional_property ''value'' (Some v)))
       in if nodeId \<noteq> 0 then Inr nodeId
          else Inl (TFGridFarmsError F_NodeSelection (''Couldn'' @ apos # ''t find a suitable node. Please try again.'')))
   | Some (J_str (_ # _)) \<Rightarrow> Inl TypeError
   | Some v \<Rightarrow> if (case optional_property ''length'' (Some v) of None \<Rightarrow> False | Some l \<Rightarrow> \<not> falsy l) then Inl TypeError
       else bindR (json_property ''error'' answer) (\<lambda>err. Inl (TFGridFarmsError F_FarmerBot
       (case err of Some (J_str s) \<Rightarrow> s | _ \<Rightarrow> []))))"

definition farm_twin :: "(int \<Rightarrow> js_error + int option) \<Rightarrow> int \<Rightarrow> js_error + int" where
  "farm_twin farms farmId = bindR (farms farmId) (\<lambda>t. case t of None \<Rightarrow> Inl TypeError | Some t \<Rightarrow> Inr t)"

definition farmerbot_findNode ::
  "nat \<Rightarrow> (int \<Rightarrow> js_error + int option) \<Rightarrow> job_env \<Rightarrow> 'w rmb_env \<Rightarrow> rmb_client \<Rightarrow> find_node_options \<Rightarrow> ('w rmb_state, js_error, int) eff"
where
  "farmerbot_findNode fuel farms j r c options = validated_eff (valid_find_node options)
     (bindE (liftE (farm_twin farms (fn_farmId options))) (\<lambda>twin.
      bindE (RMB_request fuel r c twin ''execute_job''
               (stringify (farmerbot_job j twin ''farmerbot.nodemanager.findnode'' (find_node_params (jb_locale j) options))) 20 1) (\<lambda>answer.
        liftE (node_of_answer answer))))"

definition farmerbot_pingFarm ::
  "nat \<Rightarrow> (int \<Rightarrow> js_error + int option) \<Rightarrow> job_env \<Rightarrow> 'w rmb_env \<Rightarrow> rmb_client \<Rightarrow> int \<Rightarrow> ('w rmb_state, js_error, json) eff"
where
  "farmerbot_pingFarm fuel farms j r c farmId = validated_eff (1 \<le> farmId)
     (bindE (liftE (farm_twin farms farmId)) (\<lambda>twin.
      bindE (RMB_request fuel r c twin ''execute_job'' (stringify (farmerbot_job j twin ''farmerbot.farmmanager.version'' [])) 20 1) (\<lambda>answer.
        bindE (liftE (json_property ''error'' answer)) (\<lambda>err.
          if err = None \<or> falsy (the err) then retE answer
          else throwE (TFGridFarmsError F_FarmerBot (case err of Some (J_str s) \<Rightarrow> s | _ \<Rightarrow> []))))))"

end
