(* ===== verification/NodeRequestProps.thy ===== *)
theory NodeRequestProps
  imports NodeRequests RmbProps
begin

text \<open>
  Requests to nodes and to the bots of farms: what comes back was signed, what is thrown belongs to the
  errors of the SDK, and a node is only taken from an answer that names it.
\<close>

lemma await_reply_value:
  assumes "await_reply fuel r c uid s = (Inr v, s')" and "v \<noteq> J_null"
  shows "rmb_read fuel r c uid s = (Some (Resolved v), s')"
  using assms by (auto simp: await_reply_def split: prod.splits option.splits outcome.splits)

lemma RMB_request_Inr:
  assumes "RMB_request fuel r c dest cmd payload expiration retries s = (Inr v, s')"
  obtains uid s1 where "rmb_send r c cmd payload dest expiration retries s = (Inr uid, s1)"
    and "await_reply fuel r c uid s1 = (Inr v, s')"
  using assms by (auto simp: RMB_request_def catchE_def throwE_def bindE_def split: prod.splits sum.splits)

text \<open>What the loop of \<open>read\<close> makes of the state in a round that does not settle: the round, and a second of sleep.\<close>

definition after_round :: "'w rmb_env \<Rightarrow> rmb_client \<Rightarrow> string \<Rightarrow> 'w rmb_state \<Rightarrow> 'w rmb_state" where
  "after_round r c uid s = sleep_second r (snd (read_round r c uid s))"

lemma read_rounds_settled:
  assumes "read_rounds fuel r c uid start env s = (Some (Resolved v), s')"
  shows "\<exists>n. read_round r c uid ((after_round r c uid ^^ n) s) = (Some (Resolved v), s')
    \<and> (\<forall>j < n. fst (read_round r c uid ((after_round r c uid ^^ j) s)) = None)"
  using assms
proof (induction fuel arbitrary: env s)
  case (Suc fuel)
  show ?case
  proof (cases "read_round r c uid s")
    case (Pair out u)
    show ?thesis
    proof (cases out)
      case None
      with Suc.prems Pair have "read_rounds fuel r c uid start (map_of (rs_responses s) uid) (after_round r c uid s) = (Some (Resolved v), s')"
        by (auto simp: after_round_def split: option.splits if_splits)
      from Suc.IH [OF this] obtain n where n: "read_round r c uid ((after_round r c uid ^^ Suc n) s) = (Some (Resolved v), s')"
        "\<forall>j < n. fst (read_round r c uid ((after_round r c uid ^^ Suc j) s)) = None"
        by (auto simp: funpow_swap1)
      moreover have "fst (read_round r c uid ((after_round r c uid ^^ j) s)) = None" if "j < Suc n" for j
        using n(2) that Pair None by (cases j) auto
      ultimately show ?thesis by blast
    next
      case (Some x)
      with Suc.prems Pair have "read_round r c uid s = (Some (Resolved v), s')"
        by (auto split: option.splits if_splits)
      then show ?thesis by (intro exI [of _ 0]) simp
    qed
  qed
qed simp

text \<open>
  C4: A value other than null (which also stands for a pong) that a request to a twin returns is what the
  payload of a response decodes to.  The response stood under the id of the request in the first round of
  the reading that settled, counted from the state in which the request was sent; its signature is right
  for the account of the twin it names, as that is kept or on the chain in that round; and the request is
  the only one forgotten.
\<close>

theorem request_answer_signed:
  assumes "RMB_request fuel r c dest cmd payload expiration retries s = (Inr v, s')" and "v \<noteq> J_null"
  shows "\<exists>uid s1 n u env t u' kt. rmb_send r c cmd payload dest expiration retries s = (Inr uid, s1)
    \<and> u = (after_round r c uid ^^ n) s1
    \<and> (\<forall>j < n. fst (read_round r c uid ((after_round r c uid ^^ j) s1)) = None)
    \<and> map_of (rs_responses u) uid = Some env \<and> en_message env = M_response
    \<and> getTwin r (ad_twin (en_source env)) u = (Inr (Some t), u') \<and> signature_type (en_signature env) = Some kt
    \<and> r_verify r kt (tw_accountId t) (rmb_challenge r env) (drop 1 (en_signature env)) = Inr True
    \<and> decode_payload r c env t = Inr (Some v)
    \<and> s' = u'\<lparr>rs_responses := filter (\<lambda>p. fst p \<noteq> uid) (rs_responses u)\<rparr>"
proof -
  from assms(1) obtain uid s1 where u: "rmb_send r c cmd payload dest expiration retries s = (Inr uid, s1)"
      "await_reply fuel r c uid s1 = (Inr v, s')" by (rule RMB_request_Inr)
  from await_reply_value [OF u(2) assms(2)] obtain n
    where n: "read_round r c uid ((after_round r c uid ^^ n) s1) = (Some (Resolved v), s')"
      "\<forall>j < n. fst (read_round r c uid ((after_round r c uid ^^ j) s1)) = None"
    unfolding rmb_read_def using read_rounds_settled by blast
  then obtain env t u' where e: "map_of (rs_responses ((after_round r c uid ^^ n) s1)) uid = Some env" "en_message env = M_response"
      "rmb_verify r env ((after_round r c uid ^^ n) s1) = (Inr (Some t), u')" "decode_payload r c env t = Inr (Some v)" "s' = forget uid u'"
    using read_round_resolved [OF n(1)] by metis
  from rmb_verify_keeps [OF e(3)] have "s' = u'\<lparr>rs_responses := filter (\<lambda>p. fst p \<noteq> uid) (rs_responses ((after_round r c uid ^^ n) s1))\<rparr>"
    by (simp add: e(5) forget_def)
  with u(1) n(2) e rmb_verify_Some [OF e(3)] show ?thesis by blast
qed

text \<open>
  Whatever goes wrong in a request to a twin, the caller gets an error of the SDK's own hierarchy, or
  waits for a promise that never settles.
\<close>

theorem request_error_is_sdk_error:
  assumes "RMB_request fuel r c dest cmd payload expiration retries s = (Inl e, s')"
  shows "is_base_error e \<or> err_class e = C_Diverges"
proof -
  from assms obtain e0 where "e = request_failed (request_text dest cmd payload) e0"
    by (auto simp: RMB_request_def catchE_def throwE_def split: prod.splits sum.splits)
  then show ?thesis by (auto simp: request_failed_def)
qed

lemma keyed_Inr: "keyed k vs = Inr ws \<Longrightarrow> v \<in> set ws \<Longrightarrow> v \<in> set vs \<and> json_property ''key'' v = Inr (Some (J_str k))"
  by (induction vs arbitrary: ws) (auto simp: bindR_Inr split: if_splits)

text \<open>
  The bot of a farm gives a node only if its answer has a parameter \<open>nodeid\<close> with that number, which
  is not 0.
\<close>

theorem bot_names_node:
  assumes "node_of_answer answer = Inr n"
  shows "n \<noteq> 0 \<and> (\<exists>ps v. optional_property ''params'' (optional_property ''result'' (Some answer)) = Some (J_arr ps) \<and> v \<in> set ps
    \<and> json_property ''key'' v = Inr (Some (J_str ''nodeid'')) \<and> node_number (optional_property ''value'' (Some v)) = n)"
proof -
  let ?params = "optional_property ''params'' (optional_property ''result'' (Some answer))"
  obtain p ps where params: "?params = Some (J_arr (p # ps))"
    using assms unfolding node_of_answer_def by (auto simp: bindR_Inr simp del: keyed.simps split: option.splits json.splits list.splits if_splits)
  then obtain found where k: "keyed ''nodeid'' (p # ps) = Inr found"
    "(let nodeId = case found of [] \<Rightarrow> 0 | v # _ \<Rightarrow> node_number (optional_property ''value'' (Some v))
      in if nodeId \<noteq> 0 then Inr nodeId else Inl (TFGridFarmsError F_NodeSelection (''Couldn'' @ apos # ''t find a suitable node. Please try again.'')))
      = Inr n"
    using assms unfolding node_of_answer_def by (auto simp: bindR_Inr simp del: keyed.simps)
  then obtain v rest where "found = v # rest" "node_number (optional_property ''value'' (Some v)) = n" "n \<noteq> 0"
    by (auto simp: Let_def split: list.splits if_splits)
  with params k(1) show ?thesis using keyed_Inr [OF k(1)] by fastforce
qed

lemma find_named_Inr: "find_named name vs = Inr (Some v) \<Longrightarrow> v \<in> set vs \<and> has_name name v"
  by (induction vs) (auto split: if_splits)

text \<open>The tests of a node that are handed on carry the names they are asked for.\<close>

lemma perf_results_named:
  assumes "perf_results (J_arr vs) = Inr p"
  shows "\<forall>v. pt_iperf p = Some v \<longrightarrow> v \<in> set vs \<and> has_name ''iperf'' v"
    and "\<forall>v. pt_cpuBenchmark p = Some v \<longrightarrow> v \<in> set vs \<and> has_name ''cpu-benchmark'' v"
  using assms by (auto simp: perf_results_def filterTest_def bindR_Inr dest: find_named_Inr)

subsection \<open>Examples\<close>

lemma demo_asks:
  "\<exists>s1 env. rmb_send demo_rmb demo_rmb_client ''zos.system.version'' [] 3 10 1 (demo_rmb_state demo_request) = (Inr ''u'', s1)
     \<and> rs_world s1 = 0 \<and> map_of (rs_twins s1) 99 = None \<and> rs_responses s1 = [(''u'', env)] \<and> en_message env = M_request ''zos.system.version'' \<and> en_expiration env = 10"
proof -
  define t where "t = snd (getTwin demo_rmb 3 (demo_rmb_state demo_request))"
  have g: "getTwin demo_rmb 3 (demo_rmb_state demo_request) = (Inr (Some (demo_twin 3)), t)"
    by (simp add: t_def demo_twin_def getTwin_def demo_rmb_def demo_rmb_state_def Let_def twin_get_def
        checkConnection_def rmb_pallets_def demo_pallets_def)
  have t: "rs_world t = 0" "rs_responses t = [(''u'', demo_request)]"
    using getTwin_keeps [OF g] by (simp_all add: demo_rmb_state_def)
  have n: "map_of (rs_twins t) 99 = None"
    by (simp add: t_def demo_twin_def getTwin_def demo_rmb_def demo_rmb_state_def Let_def twin_get_def
        checkConnection_def rmb_pallets_def demo_pallets_def)
  obtain env where e: "request_envelope demo_rmb demo_rmb_client t (demo_twin 3) ''zos.system.version'' [] 10 = Inr env"
      "en_uid env = ''u''" "en_message env = M_request ''zos.system.version''" "en_expiration env = 10"
    by (simp add: request_envelope_def new_envelope_def client_envelope_def Let_def payload_for_def signEnvelope_def rmb_sign_def demo_rmb_def)
  have o: "await_open demo_rmb 1 0 t = (Inr (), t)" by (subst await_open.simps) (simp add: demo_rmb_def)
  have "post demo_rmb 1 env t = (Inr ''u'', t\<lparr>rs_responses := [(''u'', env)]\<rparr>)"
    using o e(2) t by (simp add: post_def bindE_def rmb_world_def) (simp add: demo_rmb_def)
  then show ?thesis
    using g e t n by (simp add: rmb_send_def sending_def bindE_def catchE_def)
qed

lemma demo_verify_again:
  "map_of (rs_twins u) 99 = None \<Longrightarrow> \<exists>u'. rmb_verify demo_rmb (client_envelope demo_reply) u = (Inr (Some (demo_twin 99)), u')"
  by (simp add: rmb_verify_def demo_reply_def signature_type_def getTwin_def Let_def)
    (simp add: demo_rmb_def twin_get_def checkConnection_def rmb_pallets_def demo_pallets_def)

lemma demo_answered:
  "\<exists>s'. RMB_request 2 demo_rmb demo_rmb_client 3 ''zos.system.version'' [] 10 1 (demo_rmb_state demo_request) = (Inr (J_num 1), s')"
proof -
  obtain s1 env where s1: "rmb_send demo_rmb demo_rmb_client ''zos.system.version'' [] 3 10 1 (demo_rmb_state demo_request) = (Inr ''u'', s1)"
      "rs_world s1 = 0" "map_of (rs_twins s1) 99 = None" "rs_responses s1 = [(''u'', env)]"
      "en_message env = M_request ''zos.system.version''" "en_expiration env = 10"
    using demo_asks by blast
  have "fst (rmb_read 2 demo_rmb demo_rmb_client ''u'' s1) = Some (Resolved (J_num 1))"
  proof (rule reply_of_any_twin_accepted [where w = 1 and reply = demo_reply and t = "demo_twin 99" and req = env])
    show "\<forall>u. rs_world u = 1 \<longrightarrow> rs_twins u = rs_twins s1 \<longrightarrow>
        (\<exists>u'. rmb_verify demo_rmb (client_envelope demo_reply) u = (Inr (Some (demo_twin 99)), u'))"
      using demo_verify_again s1(3) by auto
    show "decode_payload demo_rmb demo_rmb_client (client_envelope demo_reply) (demo_twin 99) = Inr (Some (J_num 1))"
      by (rule demo_decode)
  qed (simp_all add: s1, simp_all add: demo_reply_def demo_rmb_def)
  then obtain s' where "rmb_read 2 demo_rmb demo_rmb_client ''u'' s1 = (Some (Resolved (J_num 1)), s')"
    by (metis prod.collapse)
  then show ?thesis
    using s1(1) by (simp add: RMB_request_def catchE_def bindE_def await_reply_def)
qed

theorem request_answer_signed_witness:
  "\<exists>s1 n env t. rmb_send demo_rmb demo_rmb_client ''zos.system.version'' [] 3 10 1 (demo_rmb_state demo_request) = (Inr ''u'', s1)
    \<and> map_of (rs_responses ((after_round demo_rmb demo_rmb_client ''u'' ^^ n) s1)) ''u'' = Some env \<and> en_message env = M_response
    \<and> decode_payload demo_rmb demo_rmb_client env t = Inr (Some (J_num 1))"
proof -
  obtain s' where r: "RMB_request 2 demo_rmb demo_rmb_client 3 ''zos.system.version'' [] 10 1 (demo_rmb_state demo_request) = (Inr (J_num 1), s')"
    using demo_answered by blast
  obtain s1 where "rmb_send demo_rmb demo_rmb_client ''zos.system.version'' [] 3 10 1 (demo_rmb_state demo_request) = (Inr ''u'', s1)"
    using demo_asks by blast
  with request_answer_signed [OF r] show ?thesis by auto
qed

text \<open>A twin that nobody knows.\<close>

definition lonely_rmb :: "nat rmb_env" where
  "lonely_rmb = demo_rmb\<lparr>r_pallets := \<lambda>_. demo_pallets\<rparr>"

theorem request_error_is_sdk_error_witness:
  "\<exists>e s'. RMB_request 2 lonely_rmb demo_rmb_client 3 ''cmd'' [] 10 1 (demo_rmb_state demo_request) = (Inl e, s')
    \<and> (is_base_error e \<or> err_class e = C_Diverges)"
proof -
  have "\<exists>s'. getTwin lonely_rmb 3 (demo_rmb_state demo_request) = (Inr None, s')"
    by (simp add: getTwin_def lonely_rmb_def demo_rmb_def demo_rmb_state_def Let_def twin_get_def checkConnection_def demo_pallets_def)
  then obtain e s' where r: "RMB_request 2 lonely_rmb demo_rmb_client 3 ''cmd'' [] 10 1 (demo_rmb_state demo_request) = (Inl e, s')"
    by (auto simp: RMB_request_def rmb_send_def sending_def catchE_def bindE_def)
  from request_error_is_sdk_error [OF this] r show ?thesis by blast
qed

theorem bot_names_node_witness:
  "node_of_answer (J_obj [(''result'', J_obj [(''params'', J_arr [J_obj [(''key'', J_str ''nodeid''), (''value'', J_num 12)]])])]) = Inr 12
    \<and> (12 :: int) \<noteq> 0"
proof -
  let ?a = "J_obj [(''result'', J_obj [(''params'', J_arr [J_obj [(''key'', J_str ''nodeid''), (''value'', J_num 12)]])])]"
  have "node_of_answer ?a = Inr 12"
    by (simp add: node_of_answer_def optional_property_def json_property_def node_number_def Let_def)
  then show ?thesis using bot_names_node [of ?a 12] by blast
qed

end
