(* ===== verification/LoadDeployments.thy ===== *)
theory LoadDeployments
  imports Dashboard Zos
begin

text \<open>
  How the dashboard loads what a user has deployed
  (\<open>playground/src/utils/load_deployment.ts\<close>, \<open>components/vm_deployment_table.vue\<close>,
  \<open>components/k8s_deployment_table.vue\<close>): every deployment by its own grid client, up to three
  lists merged into one, and the CapRover clusters grouped (\<open>utils/deploy_helpers.ts\<close>); the domains
  of a user, and the state of the page: its rows (one per machine), its count and its warning.

  The modules of a grid client are the fields of \<open>grid_view\<close>, each a function of the project name
  the client has at the call; \<open>gv_timely\<close> tells whether a deployment answers before the timer.
  The deployments load concurrently: \<open>order\<close> is the order in which they finish.  The project name
  \<open>undefined\<close> is \<open>''''\<close>, which the code treats alike.
\<close>

subsection \<open>Balances as text\<close>

text \<open>\<open>normalizeBalance\<close> of a number without \<open>floor\<close>, whose decimals \<open>toString\<close> shows as they are (or, below \<open>10\<^sup>-\<^sup>6\<close>, those of its mantissa).\<close>

function mantissa :: "rat \<Rightarrow> rat" where
  "mantissa a = (if 0 < a \<and> a < 1 then mantissa (10 * a) else a)"
  by auto

termination mantissa
proof (relation "measure (\<lambda>a. nat \<lceil>1 / a\<rceil>)")
  fix a :: rat
  assume a: "0 < a \<and> a < 1"
  have "1 < 1 / a" using a by (simp add: field_simps)
  then have one: "1 / a = 1 / (10 * a) * 10" and big: "2 \<le> \<lceil>1 / a\<rceil>" by (simp_all add: le_ceiling_iff)
  show "(10 * a, a) \<in> measure (\<lambda>a. nat \<lceil>1 / a\<rceil>)"
  proof -
    have "1 / (10 * a) \<le> 1 / a - 9 / 10" using \<open>1 < 1 / a\<close> by (simp add: field_simps)
    moreover have "\<lceil>1 / (10 * a)\<rceil> < \<lceil>1 / a\<rceil>"
    proof (cases "1 / (10 * a) \<le> 1")
      case True
      then have "\<lceil>1 / (10 * a)\<rceil> \<le> 1" by (simp add: ceiling_le_iff)
      with big show ?thesis by linarith
    next
      case False
      then have "1 / (10 * a) \<le> 1 / a - 1" using a by (simp add: field_simps)
      then have "\<lceil>1 / (10 * a)\<rceil> \<le> \<lceil>1 / a - 1\<rceil>" by (rule ceiling_mono)
      then show ?thesis by simp
    qed
    ultimately show ?thesis using big a by simp
  qed
qed simp

declare mantissa.simps [simp del]

definition shown_part :: "rat \<Rightarrow> rat" where
  "shown_part v = (if \<bar>v\<bar> < 1 / 1000000 then mantissa \<bar>v\<bar> else \<bar>v\<bar>)"

definition strip_zeros :: "string \<Rightarrow> string" where
  "strip_zeros s = (if drop (length s - 4) s = ''.000'' then take (length s - 4) s else s)"

definition normalizeBalance :: "rat option \<Rightarrow> string" where
  "normalizeBalance num = (case num of
     None \<Rightarrow> []
   | Some v \<Rightarrow>
       if v = 0 then ''0''
       else let a = shown_part v; rest = a - of_int \<lfloor>a\<rfloor> in
         if 0 < rest \<and> rest < 1 / 1000 then (if 0 < v \<and> 0 < \<lfloor>a\<rfloor> then ''~ <'' @ show_int \<lfloor>a\<rfloor> else ''~ <0.001'')
         else strip_zeros (fixed_text 3 v))"

text \<open>\<open>+undefined\<close> is \<open>NaN\<close>, so a consumption that could not be read shows like none.\<close>

definition formatConsumption :: "rat option \<Rightarrow> string" where
  "formatConsumption value = (case value of
     None \<Rightarrow> ''No Data Available''
   | Some v \<Rightarrow> if v \<le> 0 then ''No Data Available'' else normalizeBalance (Some v) @ '' TFT/hour'')"

subsection \<open>Machines and clusters\<close>

record vm_view =
  vv_name :: string
  vv_contractId :: int
  vv_interfaces :: "(string \<times> string) list"
  vv_env :: "string \<Rightarrow> string option"
  vv_deploymentName :: string
  vv_projectName :: string
  vv_billing :: string
  vv_wireguard :: "string option"
  vv_fromAnotherClient :: bool

text \<open>A deployment of machines is an array with two properties of its own; a cluster is an object.\<close>

record vm_group =
  vg_vms :: "vm_view list"
  vg_deploymentName :: string
  vg_projectName :: string
  vg_fromAnotherClient :: bool

record K8S =
  k_masters :: "vm_view list"
  k_workers :: "vm_view list"
  k_deploymentName :: string
  k_projectName :: string
  k_wireguard :: "string option"
  k_fromAnotherClient :: bool

record 'c FailedDeployment =
  fd_name :: string
  fd_nodes :: "int list"
  fd_contracts :: "'c list"

record ('i, 'c) LoadedDeployments =
  ld_count :: int
  ld_items :: "'i list"
  ld_failed :: "'c FailedDeployment list"

definition nothing_loaded :: "('i, 'c) LoadedDeployments" where
  "nothing_loaded = \<lparr>ld_count = 0, ld_items = [], ld_failed = []\<rparr>"

record ('o, 'c) grid_view =
  gv_migrate :: "string \<Rightarrow> js_error + unit"
  gv_list :: "string \<Rightarrow> js_error + string list"
  gv_connect :: "string \<Rightarrow> js_error + unit"
  gv_contracts :: "string \<Rightarrow> string \<Rightarrow> js_error + 'c list"
  gv_node_ids :: "string \<Rightarrow> string \<Rightarrow> js_error + int list"
  gv_getObj :: "string \<Rightarrow> string \<Rightarrow> js_error + 'o"
  gv_timely :: "string \<Rightarrow> bool"
  gv_consumption :: "int \<Rightarrow> js_error + rat"
  gv_getWireGuardConfigs :: "string \<Rightarrow> string \<Rightarrow> string \<Rightarrow> js_error + string list"

text \<open>The project of the client that loads one deployment.\<close>

definition own_project :: "string \<Rightarrow> string \<Rightarrow> string" where
  "own_project projectName n = (if projectName \<noteq> [] then projectName @ ''/'' @ n else n)"

text \<open>The contracts, and the project name that the client is left with.\<close>

definition getDeploymentContracts :: "('o, 'c) grid_view \<Rightarrow> string \<Rightarrow> string \<Rightarrow> string \<Rightarrow> (js_error + 'c list) \<times> string" where
  "getDeploymentContracts g name projectName current = (case gv_contracts g current name of
     Inl e \<Rightarrow> (Inl e, current)
   | Inr contracts1 \<Rightarrow>
       if contracts1 \<noteq> [] then (Inr contracts1, current) else (gv_contracts g projectName name, projectName))"

text \<open>What became of one deployment: undecipherable, without contracts, failed while it was read, or read.\<close>

datatype ('o, 'c) outcome = Unreadable | Gone | Broken "int list" "'c list" | Ready 'o

definition try_read :: "int list \<Rightarrow> 'c list \<Rightarrow> js_error + 'o \<Rightarrow> ('o, 'c) outcome" where
  "try_read nodeIds contracts r = (case r of Inl e \<Rightarrow> Broken nodeIds contracts | Inr x \<Rightarrow> Ready x)"

definition load_vm :: "(vm_view list, 'c) grid_view \<Rightarrow> string \<Rightarrow> string \<Rightarrow> (vm_view list, 'c) outcome \<times> string" where
  "load_vm g projectName name =
     (case getDeploymentContracts g name projectName (own_project projectName name) of
        (Inl e, p) \<Rightarrow> (Unreadable, p)
      | (Inr contracts, p) \<Rightarrow> (case gv_node_ids g p name of
          Inl e \<Rightarrow> (Unreadable, p)
        | Inr nodeIds \<Rightarrow>
            if contracts = [] then (Gone, p)
            else if \<not> gv_timely g name then (Broken nodeIds contracts, p)
            else if gv_getObj g p name = Inr [] \<and> projectName = []
            then (try_read nodeIds contracts (gv_getObj g [] name), [])
            else (try_read nodeIds contracts (gv_getObj g p name), p)))"

definition load_cluster :: "(K8S, 'c) grid_view \<Rightarrow> string \<Rightarrow> string \<Rightarrow> (K8S, 'c) outcome \<times> string" where
  "load_cluster g projectName name =
     (let p = own_project projectName name in
      case (gv_contracts g p name, gv_node_ids g p name) of
        (Inr contracts, Inr nodeIds) \<Rightarrow>
          if \<not> gv_timely g name then (Broken nodeIds contracts, p)
          else let again = (case gv_getObj g p name of Inr res \<Rightarrow> projectName = [] \<and> k_masters res = [] | Inl e \<Rightarrow> False);
                   p' = (if again then [] else p)
               in ((case gv_getObj g p' name of
                      Inl e \<Rightarrow> Broken nodeIds contracts
                    | Inr res \<Rightarrow> if k_masters res = [] \<and> k_workers res = [] then Broken nodeIds contracts else Ready res), p')
      | _ \<Rightarrow> (Unreadable, p))"

definition failed_of :: "string \<times> ('o, 'c) outcome \<Rightarrow> 'c FailedDeployment list" where
  "failed_of r = (case snd r of
     Unreadable \<Rightarrow> [\<lparr>fd_name = fst r, fd_nodes = [], fd_contracts = []\<rparr>]
   | Broken nodeIds contracts \<Rightarrow> [\<lparr>fd_name = fst r, fd_nodes = nodeIds, fd_contracts = contracts\<rparr>]
   | _ \<Rightarrow> [])"

text \<open>\<open>failedDeployments\<close> once all have finished.\<close>

definition failures :: "nat list \<Rightarrow> (string \<times> ('o, 'c) outcome) list \<Rightarrow> 'c FailedDeployment list" where
  "failures order rs = concat (map (\<lambda>i. failed_of (rs ! i)) order)"

definition set_part :: "nat \<Rightarrow> string \<Rightarrow> string list \<Rightarrow> string list" where
  "set_part i v parts = (parts @ replicate (Suc i - length parts) [])[i := v]"

definition ends_with :: "string \<Rightarrow> string \<Rightarrow> bool" where
  "ends_with s t \<longleftrightarrow> drop (length s - length t) s = t"

text \<open>The client's project is empty during the call and the old one after it.\<close>

definition wireguard_range :: "string \<Rightarrow> string" where
  "wireguard_range ipRange =
     (if ends_with ipRange ''/16'' then ipRange
      else join_with ''.'' (set_part 2 ''0'' (set_part 3 ''0'' (split_on (CHR ''.'') ipRange))) @ ''/16'')"

definition getWireguardConfig :: "('o, 'c) grid_view \<Rightarrow> string \<Rightarrow> string \<Rightarrow> js_error + string list" where
  "getWireguardConfig g name ipRange = gv_getWireGuardConfigs g [] name (wireguard_range ipRange)"

text \<open>The configuration of the first network of a machine; without an interface the property access throws outside the promise.\<close>

definition wireguard_of :: "('o, 'c) grid_view \<Rightarrow> vm_view \<Rightarrow> js_error + string list" where
  "wireguard_of g vm = (case vv_interfaces vm of
     [] \<Rightarrow> Inl TypeError
   | (network, ip) # _ \<Rightarrow> Inr (case getWireguardConfig g network ip of Inl e \<Rightarrow> [] | Inr ws \<Rightarrow> ws))"

definition billing_of :: "('o, 'c) grid_view \<Rightarrow> int \<Rightarrow> string" where
  "billing_of g i = formatConsumption (case gv_consumption g i of Inl e \<Rightarrow> None | Inr v \<Rightarrow> Some v)"

definition first_of :: "string list \<Rightarrow> string option" where
  "first_of ws = (case ws of [] \<Rightarrow> None | w # _ \<Rightarrow> Some w)"

subsection \<open>Loading\<close>

definition labelled_vm :: "string \<Rightarrow> string \<Rightarrow> vm_view \<Rightarrow> vm_view" where
  "labelled_vm name p vm = vm\<lparr>vv_deploymentName := name, vv_projectName := p\<rparr>"

definition group_of :: "string \<Rightarrow> vm_view list \<Rightarrow> string \<Rightarrow> vm_group" where
  "group_of name vms p = \<lparr>vg_vms = map (labelled_vm name p) vms, vg_deploymentName = name,
     vg_projectName = p, vg_fromAnotherClient = False\<rparr>"

definition groups_of :: "string \<times> (vm_view list, 'c) outcome \<times> string \<Rightarrow> vm_group list" where
  "groups_of r = (case r of (name, Ready vms, p) \<Rightarrow> if vms = [] then [] else [group_of name vms p] | _ \<Rightarrow> [])"

definition is_gone :: "(vm_view list, 'c) outcome \<Rightarrow> bool" where
  "is_gone out \<longleftrightarrow> (case out of Gone \<Rightarrow> True | Ready vms \<Rightarrow> vms = [] | _ \<Rightarrow> False)"

definition with_details :: "('o, 'c) grid_view \<Rightarrow> vm_group \<Rightarrow> js_error + vm_group" where
  "with_details g grp =
     bindR (wireguard_of g (hd (vg_vms grp))) (\<lambda>ws.
       Inr (grp\<lparr>vg_vms := map (\<lambda>vm. let vm' = vm\<lparr>vv_billing := billing_of g (vv_contractId (hd (vg_vms grp)))\<rparr>
         in if ws \<noteq> [] then vm'\<lparr>vv_wireguard := first_of ws\<rparr> else vm') (vg_vms grp)\<rparr>))"

definition keeps :: "('i \<Rightarrow> bool) option \<Rightarrow> 'i \<Rightarrow> bool" where
  "keeps flt x = (case flt of None \<Rightarrow> True | Some f \<Rightarrow> f x)"

text \<open>The names with their outcomes and the projects of their clients.\<close>

definition vm_results :: "(vm_view list, 'c) grid_view \<Rightarrow> string \<Rightarrow> string list \<Rightarrow> (string \<times> (vm_view list, 'c) outcome \<times> string) list" where
  "vm_results g projectName machines = map (\<lambda>n. (n, load_vm g projectName n)) machines"

definition loadVms ::
  "(vm_view list, 'c) grid_view \<Rightarrow> string \<Rightarrow> (vm_group \<Rightarrow> bool) option \<Rightarrow> (string list \<Rightarrow> nat list)
     \<Rightarrow> js_error + (vm_group, 'c) LoadedDeployments"
where
  "loadVms g projectName flt order =
     bindR (gv_migrate g projectName) (\<lambda>_.
     bindR (gv_list g projectName) (\<lambda>machines.
     bindR (mapR (\<lambda>n. gv_connect g (own_project projectName n)) machines) (\<lambda>_.
       let rs = vm_results g projectName machines;
           found = concat (map groups_of rs);
           vms = filter (keeps flt) found;
           num = int (length machines) - int (length (filter (\<lambda>r. is_gone (fst (snd r))) rs))
                   - int (length (filter (\<lambda>grp. \<not> keeps flt grp) found))
       in bindR (mapR (with_details g) vms) (\<lambda>items.
            Inr \<lparr>ld_count = num, ld_items = items,
                 ld_failed = failures (order machines) (map (\<lambda>r. (fst r, fst (snd r))) rs)\<rparr>))))"

definition clusters_of :: "string \<times> (K8S, 'c) outcome \<times> string \<Rightarrow> K8S list" where
  "clusters_of r = (case r of
     (name, Ready k, p) \<Rightarrow> if k_masters k = [] then [] else [k\<lparr>k_deploymentName := name, k_projectName := p\<rparr>]
   | _ \<Rightarrow> [])"

definition cluster_details :: "('o, 'c) grid_view \<Rightarrow> K8S \<Rightarrow> js_error + K8S" where
  "cluster_details g k =
     (let m = hd (k_masters k) in
      bindR (wireguard_of g m) (\<lambda>ws.
        Inr (k\<lparr>k_masters := m\<lparr>vv_billing := billing_of g (vv_contractId m)\<rparr> # tl (k_masters k), k_wireguard := first_of ws\<rparr>)))"

definition cluster_results :: "(K8S, 'c) grid_view \<Rightarrow> string \<Rightarrow> string list \<Rightarrow> (string \<times> (K8S, 'c) outcome \<times> string) list" where
  "cluster_results g projectName clusters = map (\<lambda>n. (n, load_cluster g projectName n)) clusters"

definition loadK8s ::
  "(K8S, 'c) grid_view \<Rightarrow> string \<Rightarrow> (string list \<Rightarrow> nat list) \<Rightarrow> js_error + (K8S, 'c) LoadedDeployments"
where
  "loadK8s g projectName order =
     bindR (gv_migrate g projectName) (\<lambda>_.
     bindR (gv_list g projectName) (\<lambda>clusters.
     bindR (mapR (\<lambda>n. gv_connect g (own_project projectName n)) clusters) (\<lambda>_.
       let rs = cluster_results g projectName clusters
       in bindR (mapR (cluster_details g) (concat (map clusters_of rs))) (\<lambda>items.
            Inr \<lparr>ld_count = int (length clusters), ld_items = items,
                 ld_failed = failures (order clusters) (map (\<lambda>r. (fst r, fst (snd r))) rs)\<rparr>))))"

subsection \<open>Merging\<close>

text \<open>
  One of the two loops of \<open>insertIfNotFound\<close>: the new list, the old list that it is pushed to, and
  the count of the new one, which loses one for every old entry of the same name.
\<close>

fun insert_new :: "('a \<Rightarrow> string) \<Rightarrow> 'a list \<Rightarrow> 'a list \<Rightarrow> int \<Rightarrow> 'a list \<times> int" where
  "insert_new nm [] old num = (old, num)"
| "insert_new nm (x # xs) old num =
     (let same = filter (\<lambda>i. nm i = nm x) old
      in insert_new nm xs (if same = [] then old @ [x] else old) (num - int (length same)))"

definition insertIfNotFound ::
  "('i \<Rightarrow> string) \<Rightarrow> ('i, 'c) LoadedDeployments \<Rightarrow> ('i, 'c) LoadedDeployments
     \<Rightarrow> ('i, 'c) LoadedDeployments \<times> ('i, 'c) LoadedDeployments"
where
  "insertIfNotFound nm newItems oldItems =
     (let (items, c) = insert_new nm (ld_items newItems) (ld_items oldItems) (ld_count newItems);
          (failed, c') = insert_new fd_name (ld_failed newItems) (ld_failed oldItems) c
      in (newItems\<lparr>ld_count := c'\<rparr>, oldItems\<lparr>ld_items := items, ld_failed := failed\<rparr>))"

definition merge_step ::
  "('i \<Rightarrow> string) \<Rightarrow> ('i, 'c) LoadedDeployments \<Rightarrow> ('i, 'c) LoadedDeployments \<Rightarrow> ('i, 'c) LoadedDeployments"
where
  "merge_step nm res cur =
     (let (cur', res') = insertIfNotFound nm cur res in res'\<lparr>ld_count := ld_count res' + ld_count cur'\<rparr>)"

definition mergeLoadedDeployments ::
  "('i \<Rightarrow> string) \<Rightarrow> ('i, 'c) LoadedDeployments list \<Rightarrow> ('i, 'c) LoadedDeployments"
where
  "mergeLoadedDeployments nm deployments = foldl (merge_step nm) nothing_loaded deployments"

subsection \<open>CapRover clusters\<close>

text \<open>
  The loop of \<open>mergeCaproverDeployments\<close> over one cluster.  A machine is told from another by its
  position; the array of workers is shared by the leader and the loop, so a leader that is listed
  (marked \<open>True\<close>) has in the end all the workers that were found, before it or after it.
\<close>

record shown_vm =
  sv_vm :: vm_view
  sv_workers :: "vm_view list option"

record merge_state =
  ms_leader :: "(nat \<times> vm_view) option"
  ms_workers :: "vm_view list"
  ms_vms :: "(nat \<times> vm_view \<times> bool) list"

definition is_caprover :: "vm_view \<Rightarrow> bool" where
  "is_caprover vm \<longleftrightarrow> sublist ''caprover'' (to_lower (vv_projectName vm))"

definition node_mode :: "vm_view \<Rightarrow> string option" where
  "node_mode vm = vv_env vm ''SWM_NODE_MODE''"

definition push_vm :: "nat \<Rightarrow> vm_view \<Rightarrow> bool \<Rightarrow> merge_state \<Rightarrow> merge_state" where
  "push_vm i vm leads s = (if i \<in> fst ` set (ms_vms s) then s else s\<lparr>ms_vms := ms_vms s @ [(i, vm, leads)]\<rparr>)"

definition caprover_step :: "nat \<times> vm_view \<Rightarrow> merge_state \<Rightarrow> merge_state" where
  "caprover_step p s = (case p of (i, vm) \<Rightarrow>
     if \<not> is_caprover vm then push_vm i vm False s
     else let s' = (if node_mode vm = Some ''leader'' then s\<lparr>ms_leader := Some (i, vm)\<rparr>
                    else if node_mode vm = Some ''worker'' then s\<lparr>ms_workers := ms_workers s @ [vm]\<rparr> else s)
          in case ms_leader s' of None \<Rightarrow> s' | Some (j, l) \<Rightarrow> push_vm j l True s')"

definition no_vms :: merge_state where
  "no_vms = \<lparr>ms_leader = None, ms_workers = [], ms_vms = []\<rparr>"

definition merge_cluster :: "vm_view list \<Rightarrow> shown_vm list" where
  "merge_cluster cluster =
     (let s = fold caprover_step (enumerate 0 cluster) no_vms
      in map (\<lambda>(i, vm, leads). \<lparr>sv_vm = vm, sv_workers = (if leads then Some (ms_workers s) else None)\<rparr>) (ms_vms s))"

definition mergeCaproverDeployments :: "vm_view list list \<Rightarrow> shown_vm list" where
  "mergeCaproverDeployments clusters = concat (map merge_cluster clusters)"

subsection \<open>The tables\<close>

definition from_another_client :: "vm_group \<Rightarrow> vm_group" where
  "from_another_client grp =
     grp\<lparr>vg_fromAnotherClient := True, vg_vms := map (\<lambda>vm. vm\<lparr>vv_fromAnotherClient := True\<rparr>) (vg_vms grp)\<rparr>"

text \<open>
  The deployments of a project: loaded under its name, under its name in lower case, and, for
  virtual machines with \<open>showAllDeployments\<close>, under no name.  The gateways are migrated after
  each list that is not empty, except for virtual machines.
\<close>

definition migrate_gateways :: "(string \<Rightarrow> js_error + unit) \<Rightarrow> bool \<Rightarrow> string \<Rightarrow> ('i, 'c) LoadedDeployments \<Rightarrow> js_error + unit" where
  "migrate_gateways migrate wanted p chunk = (if 0 < ld_count chunk \<and> wanted then migrate p else Inr ())"

definition table_project :: "string \<Rightarrow> bool" where
  "table_project projectName \<longleftrightarrow> to_lower projectName \<noteq> ''fullvm'' \<and> to_lower projectName \<noteq> ''vm''"

definition load_lists ::
  "(vm_view list, 'c) grid_view \<Rightarrow> (string \<Rightarrow> js_error + unit) \<Rightarrow> string \<Rightarrow> bool \<Rightarrow> (string list \<Rightarrow> nat list)
     \<Rightarrow> js_error + (vm_group, 'c) LoadedDeployments"
where
  "load_lists g migrate projectName showAllDeployments order =
     (let lower = to_lower projectName; wanted = table_project projectName in
      bindR (loadVms g projectName None order) (\<lambda>chunk1.
      bindR (migrate_gateways migrate wanted projectName chunk1) (\<lambda>_.
      bindR (loadVms g lower None order) (\<lambda>chunk2.
      bindR (migrate_gateways migrate wanted lower chunk2) (\<lambda>_.
      bindR (if showAllDeployments \<and> lower = ''vm'' then loadVms g [] None order else Inr nothing_loaded) (\<lambda>chunk3.
        Inr (mergeLoadedDeployments vg_deploymentName
               [chunk1, chunk2, chunk3\<lparr>ld_items := map from_another_client (ld_items chunk3)\<rparr>])))))))"

text \<open>
  What the page of machines shows: its rows, the count and the failed deployments, the error and
  whether it is still loading.  A row is a machine, or a gateway with the name of its first workload.
\<close>

datatype table_row = Machine_row shown_vm | Domain_row string "Deployment list"

record 'c table_page =
  tp_items :: "table_row list"
  tp_count :: "int option"
  tp_failed :: "'c FailedDeployment list"
  tp_error :: "js_error option"
  tp_loading :: bool

text \<open>The gateways of a project, as \<open>gateway.list\<close> and \<open>gateway.get_name\<close> of its client give them.\<close>

record gateway_view =
  gw_list :: "string \<Rightarrow> js_error + string list"
  gw_get_name :: "string \<Rightarrow> string \<Rightarrow> js_error + Deployment list"

text \<open>\<open>gw[0].workloads[0].name\<close>\<close>

definition named_gateway :: "Deployment list \<Rightarrow> js_error + table_row" where
  "named_gateway gw = (case gw of
     [] \<Rightarrow> Inl TypeError
   | d # _ \<Rightarrow> (case dp_workloads d of [] \<Rightarrow> Inl TypeError | w # _ \<Rightarrow> Inr (Domain_row (wl_name w) gw)))"

definition loadDomains ::
  "(vm_view list, 'c) grid_view \<Rightarrow> gateway_view \<Rightarrow> string \<Rightarrow> 'c table_page \<Rightarrow> 'c table_page"
where
  "loadDomains g d projectName s =
     (let p = to_lower projectName in
      case bindR (gv_connect g p) (\<lambda>_. bindR (gw_list d p) (\<lambda>gateways.
             bindR (mapR (gw_get_name d p) gateways) (mapR named_gateway))) of
        Inl e \<Rightarrow> s\<lparr>tp_error := Some e, tp_loading := False\<rparr>
      | Inr gws \<Rightarrow> s\<lparr>tp_items := gws, tp_loading := False\<rparr>)"

text \<open>
  The client is made outside the \<open>try\<close>, so when that fails the page goes on loading.  Once the
  lists are merged, the rows are the machines of the deployments, each CapRover cluster by its leader.
\<close>

definition loadDeployments ::
  "(vm_view list, 'c) grid_view \<Rightarrow> gateway_view \<Rightarrow> (string \<Rightarrow> js_error + unit) \<Rightarrow> string \<Rightarrow> bool
     \<Rightarrow> (string list \<Rightarrow> nat list) \<Rightarrow> 'c table_page \<Rightarrow> 'c table_page"
where
  "loadDeployments g d migrate projectName showAllDeployments order s =
     (if to_lower projectName = ''domains'' then loadDomains g d projectName s
      else let s0 = s\<lparr>tp_items := [], tp_loading := True\<rparr> in
        case gv_connect g projectName of
          Inl e \<Rightarrow> s0
        | Inr _ \<Rightarrow> (case load_lists g migrate projectName showAllDeployments order of
            Inl e \<Rightarrow> s0\<lparr>tp_error := Some e, tp_loading := False\<rparr>
          | Inr vms \<Rightarrow> s0\<lparr>tp_failed := ld_failed vms, tp_count := Some (ld_count vms),
              tp_items := map Machine_row (mergeCaproverDeployments (map vg_vms (ld_items vms))),
              tp_loading := False\<rparr>))"

text \<open>The number in the warning above the table, if it is shown.\<close>

definition failed_shown :: "'c table_page \<Rightarrow> int option" where
  "failed_shown s = (case tp_count s of
     None \<Rightarrow> None
   | Some num \<Rightarrow>
       if \<not> tp_loading s \<and> num \<noteq> 0 \<and> int (length (tp_items s)) < num
       then Some (num - int (length (tp_items s))) else None)"

definition mark_cluster :: "K8S \<Rightarrow> K8S" where
  "mark_cluster k = (if k_projectName k = [] \<or> k_projectName k = ''Kubernetes'' then k\<lparr>k_fromAnotherClient := True\<rparr> else k)"

definition loadClusters ::
  "(K8S, 'c) grid_view \<Rightarrow> string \<Rightarrow> bool \<Rightarrow> (string list \<Rightarrow> nat list) \<Rightarrow> js_error + (K8S, 'c) LoadedDeployments"
where
  "loadClusters g projectName showAllDeployments order =
     bindR (loadK8s g projectName order) (\<lambda>chunk1.
     bindR (loadK8s g (to_lower projectName) order) (\<lambda>chunk2.
     bindR (if showAllDeployments then loadK8s g [] order else Inr nothing_loaded) (\<lambda>chunk3.
       Inr (mergeLoadedDeployments k_deploymentName
              [chunk1, chunk2, chunk3\<lparr>ld_items := map mark_cluster (ld_items chunk3)\<rparr>]))))"

end
