(* ===== verification/LoadDeploymentsProps.thy ===== *)
theory LoadDeploymentsProps
  imports LoadDeployments "HOL-Library.Multiset"
begin

text \<open>
  The number shown above the list of deployments: it counts what is listed and what failed, for one
  list and after merging, whatever the order in which the deployments finish.
\<close>

subsection \<open>One list\<close>

lemma failed_of_length: "length (failed_of r) = (case snd r of Unreadable \<Rightarrow> 1 | Broken ns cs \<Rightarrow> 1 | _ \<Rightarrow> 0)"
  by (simp add: failed_of_def split: outcome.splits)

text \<open>The order of finishing is irrelevant to what has failed.\<close>

lemma mset_concat_map: "mset (concat (map f xs)) = (\<Sum>x\<in>#mset xs. mset (f x))"
  by (induction xs) simp_all

lemma mset_failures:
  assumes "mset order = mset [0..<length rs]"
  shows "mset (failures order rs) = mset (concat (map failed_of rs))"
proof -
  have "mset (failures order rs) = (\<Sum>i\<in>#mset order. mset (failed_of (rs ! i)))"
    by (simp only: failures_def mset_concat_map)
  also have "\<dots> = (\<Sum>i\<in>#mset [0..<length rs]. mset (failed_of (rs ! i)))"
    by (simp only: assms)
  also have "\<dots> = mset (concat (map (\<lambda>i. failed_of (rs ! i)) [0..<length rs]))"
    by (simp only: mset_concat_map)
  also have "map (\<lambda>i. failed_of (rs ! i)) [0..<length rs] = map failed_of rs"
    by (rule nth_equalityI) simp_all
  finally show ?thesis .
qed

lemma failures_length:
  "mset order = mset [0..<length rs] \<Longrightarrow> length (failures order rs) = length (concat (map failed_of rs))"
  using mset_failures [of order rs] by (metis size_mset)

lemma failed_of_name: "x \<in> set (failed_of r) \<Longrightarrow> fd_name x = fst r"
  by (simp add: failed_of_def split: outcome.splits)

lemma failures_names:
  assumes "mset order = mset [0..<length rs]"
  shows "fd_name ` set (failures order rs) \<subseteq> fst ` set rs"
proof -
  have "set (failures order rs) = set (concat (map failed_of rs))"
    by (rule mset_eq_setD) (rule mset_failures [OF assms])
  then show ?thesis by (auto dest: failed_of_name)
qed

text \<open>Every deployment is listed, failed or gone, and only one of these.\<close>

lemma vm_outcomes_counted:
  "length rs = length (concat (map groups_of rs)) + length (filter (\<lambda>r. is_gone (fst (snd r))) rs)
     + length (concat (map (\<lambda>r. failed_of (fst r, fst (snd r))) rs))"
proof (induction rs)
  case (Cons r rs)
  obtain n out p where "r = (n, out, p)" by (cases r)
  then have "length (groups_of r) + (if is_gone (fst (snd r)) then 1 else 0) + length (failed_of (fst r, fst (snd r))) = 1"
    by (cases out) (simp_all add: groups_of_def is_gone_def failed_of_def)
  with Cons show ?case by (auto split: if_splits)
qed simp

definition hidden_cluster :: "(K8S, 'c) outcome \<Rightarrow> bool" where
  "hidden_cluster out \<longleftrightarrow> (case out of Gone \<Rightarrow> True | Ready k \<Rightarrow> k_masters k = [] | _ \<Rightarrow> False)"

lemma cluster_outcomes_counted:
  "length rs = length (concat (map clusters_of rs))
     + length (filter (\<lambda>r. hidden_cluster (fst (snd r))) rs)
     + length (concat (map (\<lambda>r. failed_of (fst r, fst (snd r))) rs))"
proof (induction rs)
  case (Cons r rs)
  obtain n out p where "r = (n, out, p)" by (cases r)
  with Cons show ?case by (cases out) (simp_all add: clusters_of_def failed_of_def hidden_cluster_def)
qed simp

lemma mapR_length: "mapR f xs = Inr ys \<Longrightarrow> length ys = length xs"
  using mapR_Inr list_all2_lengthD by metis

definition finishes :: "(string list \<Rightarrow> nat list) \<Rightarrow> bool" where
  "finishes order \<longleftrightarrow> (\<forall>ns. mset (order ns) = mset [0..<length ns])"

definition exact_count :: "('i, 'c) LoadedDeployments \<Rightarrow> bool" where
  "exact_count ld \<longleftrightarrow> ld_count ld = int (length (ld_items ld)) + int (length (ld_failed ld))"

lemma loadVms_exact:
  assumes "finishes order" and "loadVms g p flt order = Inr ld"
  shows "exact_count ld"
proof -
  obtain machines items where ms: "gv_list g p = Inr machines" and
    items: "mapR (with_details g) (filter (keeps flt) (concat (map groups_of (vm_results g p machines)))) = Inr items"
    and ld: "ld = \<lparr>ld_count = int (length machines)
        - int (length (filter (\<lambda>r. is_gone (fst (snd r))) (vm_results g p machines)))
        - int (length (filter (\<lambda>grp. \<not> keeps flt grp) (concat (map groups_of (vm_results g p machines))))),
      ld_items = items,
      ld_failed = failures (order machines) (map (\<lambda>r. (fst r, fst (snd r))) (vm_results g p machines))\<rparr>"
    using assms(2) by (auto simp: loadVms_def bindR_Inr Let_def)
  let ?rs = "vm_results g p machines"
  let ?found = "concat (map groups_of ?rs)"
  have len: "length ?rs = length machines" by (simp add: vm_results_def)
  have "length (filter (keeps flt) ?found) + length (filter (\<lambda>grp. \<not> keeps flt grp) ?found) = length ?found"
    by (rule sum_length_filter_compl)
  moreover have "length items = length (filter (keeps flt) ?found)" using items by (rule mapR_length)
  moreover have "length (ld_failed ld) = length (concat (map (\<lambda>r. failed_of (fst r, fst (snd r))) ?rs))"
    using assms(1) by (simp add: ld failures_length finishes_def len comp_def)
  ultimately show ?thesis using vm_outcomes_counted [of ?rs] by (simp add: exact_count_def ld len)
qed

text \<open>A list of clusters counts a cluster that has workers but no master, though it does not list it.\<close>

definition masters_present :: "(K8S, 'c) grid_view \<Rightarrow> bool" where
  "masters_present g \<longleftrightarrow> (\<forall>p name k. gv_getObj g p name = Inr k \<longrightarrow> k_masters k = [] \<longrightarrow> k_workers k = [])"

lemma load_cluster_shown:
  "masters_present g \<Longrightarrow> load_cluster g p name = (out, p') \<Longrightarrow> \<not> hidden_cluster out"
  by (auto simp: load_cluster_def masters_present_def hidden_cluster_def Let_def split: sum.splits if_splits)

lemma loadK8s_exact:
  assumes "finishes order" and "masters_present g" and "loadK8s g p order = Inr ld"
  shows "exact_count ld"
proof -
  obtain clusters items where ms: "gv_list g p = Inr clusters" and
    items: "mapR (cluster_details g) (concat (map clusters_of (cluster_results g p clusters))) = Inr items"
    and ld: "ld = \<lparr>ld_count = int (length clusters), ld_items = items,
      ld_failed = failures (order clusters) (map (\<lambda>r. (fst r, fst (snd r))) (cluster_results g p clusters))\<rparr>"
    using assms(3) by (auto simp: loadK8s_def bindR_Inr Let_def)
  let ?rs = "cluster_results g p clusters"
  have len: "length ?rs = length clusters" by (simp add: cluster_results_def)
  have "\<not> hidden_cluster (fst (snd r))" if mem: "r \<in> set ?rs" for r
  proof -
    obtain name where r: "r = (name, load_cluster g p name)" using mem by (auto simp: cluster_results_def)
    show ?thesis using load_cluster_shown [OF assms(2) prod.collapse [symmetric], of p name] by (simp add: r)
  qed
  then have none: "filter (\<lambda>r. hidden_cluster (fst (snd r))) ?rs = []" by (simp add: filter_empty_conv)
  have "length items = length (concat (map clusters_of ?rs))" using items by (rule mapR_length)
  moreover have "length (ld_failed ld) = length (concat (map (\<lambda>r. failed_of (fst r, fst (snd r))) ?rs))"
    using assms(1) by (simp add: ld failures_length finishes_def len comp_def)
  ultimately show ?thesis using cluster_outcomes_counted [of ?rs] none by (simp add: exact_count_def ld len)
qed

subsection \<open>Merged lists\<close>

lemma same_name_once:
  "distinct (map nm old) \<Longrightarrow> length (filter (\<lambda>i. nm i = y) old) = (if y \<in> nm ` set old then 1 else 0)"
proof (induction old)
  case (Cons z old)
  then show ?case by (auto simp: filter_empty_conv)
qed simp

lemma insert_new_spec:
  "insert_new nm xs old c = (old', c') \<Longrightarrow> distinct (map nm old) \<Longrightarrow>
   distinct (map nm old') \<and> c' - int (length old') = c - int (length old) - int (length xs)
   \<and> nm ` set old' = nm ` set old \<union> nm ` set xs"
proof (induction nm xs old c rule: insert_new.induct)
  case (2 nm x xs old c)
  define same where "same = filter (\<lambda>i. nm i = nm x) old"
  have len: "length same = (if nm x \<in> nm ` set old then 1 else 0)"
    unfolding same_def by (rule same_name_once) (rule "2.prems"(2))
  show ?case
  proof (cases "same = []")
    case True
    with len have new: "nm x \<notin> nm ` set old" by (simp split: if_splits)
    have r: "insert_new nm xs (old @ [x]) c = (old', c')"
      using "2.prems"(1) True by (simp add: same_def [symmetric] Let_def)
    have "distinct (map nm (old @ [x]))" using new "2.prems"(2) by simp
    from "2.IH" [OF same_def] True r this show ?thesis by (simp add: Un_commute)
  next
    case False
    with len have old: "nm x \<in> nm ` set old" "length same = 1" by (simp_all split: if_splits)
    have r: "insert_new nm xs old (c - 1) = (old', c')"
      using "2.prems"(1) False old(2) by (simp add: same_def [symmetric] Let_def)
    from "2.IH" [OF same_def] False r old "2.prems"(2) show ?thesis by (simp add: insert_absorb Un_insert_left)
  qed
qed simp

definition merge_inv :: "('i \<Rightarrow> string) \<Rightarrow> ('i, 'c) LoadedDeployments \<Rightarrow> bool" where
  "merge_inv nm ld \<longleftrightarrow> exact_count ld \<and> distinct (map nm (ld_items ld)) \<and> distinct (map fd_name (ld_failed ld))"

lemma merge_step_inv:
  assumes "merge_inv nm res" and "exact_count cur"
  shows "merge_inv nm (merge_step nm res cur)"
    and "nm ` set (ld_items (merge_step nm res cur)) = nm ` set (ld_items res) \<union> nm ` set (ld_items cur)"
    and "fd_name ` set (ld_failed (merge_step nm res cur)) = fd_name ` set (ld_failed res) \<union> fd_name ` set (ld_failed cur)"
proof -
  obtain items c where a: "insert_new nm (ld_items cur) (ld_items res) (ld_count cur) = (items, c)" by fastforce
  obtain failed c' where b: "insert_new fd_name (ld_failed cur) (ld_failed res) c = (failed, c')" by fastforce
  have step: "merge_step nm res cur = res\<lparr>ld_items := items, ld_failed := failed, ld_count := ld_count res + c'\<rparr>"
    by (simp add: merge_step_def insertIfNotFound_def a b)
  note sa = insert_new_spec [OF a] and sb = insert_new_spec [OF b]
  show "merge_inv nm (merge_step nm res cur)"
    using assms sa sb by (simp add: merge_inv_def exact_count_def step)
  show "nm ` set (ld_items (merge_step nm res cur)) = nm ` set (ld_items res) \<union> nm ` set (ld_items cur)"
    using assms sa by (simp add: merge_inv_def step)
  show "fd_name ` set (ld_failed (merge_step nm res cur)) = fd_name ` set (ld_failed res) \<union> fd_name ` set (ld_failed cur)"
    using assms sb by (simp add: merge_inv_def step)
qed

lemma merged_from:
  "merge_inv nm res \<Longrightarrow> \<forall>d \<in> set ds. exact_count d \<Longrightarrow> merge_inv nm (foldl (merge_step nm) res ds)"
  by (induction ds arbitrary: res) (simp_all add: merge_step_inv(1))

lemma merged_names:
  "merge_inv nm res \<Longrightarrow> \<forall>d \<in> set ds. exact_count d \<Longrightarrow>
   nm ` set (ld_items (foldl (merge_step nm) res ds)) = nm ` set (ld_items res) \<union> (\<Union>d \<in> set ds. nm ` set (ld_items d))
   \<and> fd_name ` set (ld_failed (foldl (merge_step nm) res ds)) = fd_name ` set (ld_failed res) \<union> (\<Union>d \<in> set ds. fd_name ` set (ld_failed d))"
  by (induction ds arbitrary: res) (simp_all add: merge_step_inv Un_assoc)

lemma nothing_loaded_inv [simp]: "merge_inv nm nothing_loaded" "exact_count nothing_loaded"
  by (simp_all add: merge_inv_def exact_count_def nothing_loaded_def)

text \<open>Merging: each name once, none lost, and the number is that of what is listed and what failed.\<close>

lemma merged_lists:
  assumes "\<forall>d \<in> set ds. exact_count d"
  shows "merge_inv nm (mergeLoadedDeployments nm ds)"
    and "nm ` set (ld_items (mergeLoadedDeployments nm ds)) = (\<Union>d \<in> set ds. nm ` set (ld_items d))"
    and "fd_name ` set (ld_failed (mergeLoadedDeployments nm ds)) = (\<Union>d \<in> set ds. fd_name ` set (ld_failed d))"
  using merged_from [OF nothing_loaded_inv(1) assms] merged_names [OF nothing_loaded_inv(1) assms]
  by (simp_all add: mergeLoadedDeployments_def nothing_loaded_def)

lemma exact_count_marked [simp]: "exact_count (ld\<lparr>ld_items := map f (ld_items ld)\<rparr>) = exact_count ld"
  by (simp add: exact_count_def)

subsection \<open>The tables\<close>

lemma load_lists_chunks:
  assumes "finishes order" and "load_lists g migrate projectName showAll order = Inr ld"
  obtains c1 c2 c3 where "loadVms g projectName None order = Inr c1"
    and "loadVms g (to_lower projectName) None order = Inr c2"
    and "(if showAll \<and> to_lower projectName = ''vm'' then loadVms g [] None order else Inr nothing_loaded) = Inr c3"
    and "ld = mergeLoadedDeployments vg_deploymentName [c1, c2, c3\<lparr>ld_items := map from_another_client (ld_items c3)\<rparr>]"
    and "exact_count c1" "exact_count c2" "exact_count c3"
proof -
  obtain c1 c2 c3 where c: "loadVms g projectName None order = Inr c1" "loadVms g (to_lower projectName) None order = Inr c2"
    and c3: "(if showAll \<and> to_lower projectName = ''vm'' then loadVms g [] None order else Inr nothing_loaded) = Inr c3"
    and ld: "ld = mergeLoadedDeployments vg_deploymentName [c1, c2, c3\<lparr>ld_items := map from_another_client (ld_items c3)\<rparr>]"
    using assms(2) by (auto simp: load_lists_def bindR_Inr Let_def)
  have "exact_count c1" "exact_count c2" using c loadVms_exact [OF assms(1)] by blast+
  moreover have "exact_count c3" using c3 loadVms_exact [OF assms(1)] by (auto split: if_splits)
  ultimately show thesis using that c c3 ld by blast
qed

lemma from_another_client_name [simp]: "vg_deploymentName (from_another_client grp) = vg_deploymentName grp"
  by (simp add: from_another_client_def)

lemma one_row_each:
  "\<forall>grp \<in> set groups. length (merge_cluster (vg_vms grp)) = 1 \<Longrightarrow>
   length (mergeCaproverDeployments (map vg_vms groups)) = length groups"
  by (induction groups) (simp_all add: mergeCaproverDeployments_def)

text \<open>
  C36: When the page of machines (of a project other than Domains) has loaded without an error, its
  rows are those of a list of deployments in which each name of the up to three lists of the project
  occurs once; the failed deployments are those that failed in these lists, each name once; and the
  count is the number of deployments and failed ones together, in whatever order they finish loading.
  If every deployment has one row (one machine, or a CapRover cluster with its leader), the warning
  above the table is there exactly when something has failed and tells how many.
\<close>

theorem table_count_exact:
  assumes order: "finishes order" and project: "to_lower projectName \<noteq> ''domains''"
    and run: "s' = loadDeployments g d migrate projectName showAll order s"
    and fine: "tp_error s = None" "tp_error s' = None" "\<not> tp_loading s'"
  shows "\<exists>(groups :: vm_group list) c1 c2 c3. loadVms g projectName None order = Inr c1 \<and> loadVms g (to_lower projectName) None order = Inr c2
    \<and> (if showAll \<and> to_lower projectName = ''vm'' then loadVms g [] None order else Inr nothing_loaded) = Inr c3
    \<and> vg_deploymentName ` set groups = vg_deploymentName ` (set (ld_items c1) \<union> set (ld_items c2) \<union> set (ld_items c3))
    \<and> distinct (map vg_deploymentName groups)
    \<and> tp_items s' = map Machine_row (concat (map (\<lambda>grp. merge_cluster (vg_vms grp)) groups))
    \<and> fd_name ` set (tp_failed s') = fd_name ` (set (ld_failed c1) \<union> set (ld_failed c2) \<union> set (ld_failed c3))
    \<and> distinct (map fd_name (tp_failed s'))
    \<and> tp_count s' = Some (int (length groups) + int (length (tp_failed s')))
    \<and> ((\<forall>grp \<in> set groups. length (merge_cluster (vg_vms grp)) = 1) \<longrightarrow>
        failed_shown s' = (if tp_failed s' = [] then None else Some (int (length (tp_failed s')))))"
proof -
  obtain ld where ld: "load_lists g migrate projectName showAll order = Inr ld"
    and s': "tp_items s' = map Machine_row (mergeCaproverDeployments (map vg_vms (ld_items ld)))"
      "tp_failed s' = ld_failed ld" "tp_count s' = Some (ld_count ld)"
    using run fine project by (auto simp: loadDeployments_def Let_def split: sum.splits)
  from load_lists_chunks [OF order ld] obtain c1 c2 c3 where
    c: "loadVms g projectName None order = Inr c1" "loadVms g (to_lower projectName) None order = Inr c2"
      "(if showAll \<and> to_lower projectName = ''vm'' then loadVms g [] None order else Inr nothing_loaded) = Inr c3" and
    merged: "ld = mergeLoadedDeployments vg_deploymentName [c1, c2, c3\<lparr>ld_items := map from_another_client (ld_items c3)\<rparr>]" and
    exact: "exact_count c1" "exact_count c2" "exact_count c3"
    by blast
  note lists = merged_lists [of "[c1, c2, c3\<lparr>ld_items := map from_another_client (ld_items c3)\<rparr>]" vg_deploymentName, folded merged]
  have inv: "merge_inv vg_deploymentName ld" using exact by (intro lists(1)) simp
  have names: "vg_deploymentName ` set (ld_items ld)
      = vg_deploymentName ` (set (ld_items c1) \<union> set (ld_items c2) \<union> set (ld_items c3))"
    using lists(2) exact by (simp add: image_Un image_image Un_assoc)
  have failed: "fd_name ` set (tp_failed s') = fd_name ` (set (ld_failed c1) \<union> set (ld_failed c2) \<union> set (ld_failed c3))"
    using lists(3) exact by (simp add: s' image_Un Un_assoc)
  have once: "distinct (map vg_deploymentName (ld_items ld))" "distinct (map fd_name (tp_failed s'))"
    using inv by (simp_all add: merge_inv_def s')
  have num: "tp_count s' = Some (int (length (ld_items ld)) + int (length (tp_failed s')))"
    using inv by (simp add: merge_inv_def exact_count_def s')
  have rows: "tp_items s' = map Machine_row (concat (map (\<lambda>grp. merge_cluster (vg_vms grp)) (ld_items ld)))"
    by (simp add: s' mergeCaproverDeployments_def comp_def)
  have warned: "(\<forall>grp \<in> set (ld_items ld). length (merge_cluster (vg_vms grp)) = 1) \<longrightarrow>
      failed_shown s' = (if tp_failed s' = [] then None else Some (int (length (tp_failed s'))))"
    using fine(3) num one_row_each [of "ld_items ld"]
    by (cases "tp_failed s'") (simp_all add: failed_shown_def s'(1))
  show ?thesis by (intro exI conjI) (rule c names once rows failed num warned)+
qed

text \<open>The same for clusters that have a master.\<close>

theorem cluster_table_exact:
  assumes "finishes order" and "masters_present g" and "loadClusters g projectName showAll order = Inr ld"
  shows "merge_inv k_deploymentName ld"
proof -
  obtain c1 c2 c3 where "loadK8s g projectName order = Inr c1"
    and "loadK8s g (to_lower projectName) order = Inr c2"
    and c3: "(if showAll then loadK8s g [] order else Inr nothing_loaded) = Inr c3"
    and ld: "ld = mergeLoadedDeployments k_deploymentName [c1, c2, c3\<lparr>ld_items := map mark_cluster (ld_items c3)\<rparr>]"
    using assms(3) by (auto simp: loadClusters_def bindR_Inr)
  then have "exact_count c1" "exact_count c2" using loadK8s_exact [OF assms(1,2)] by blast+
  moreover have "exact_count c3" using c3 loadK8s_exact [OF assms(1,2)] by (auto split: if_splits)
  ultimately show ?thesis unfolding ld by (intro merged_lists(1)) simp
qed

subsection \<open>CapRover\<close>

definition is_worker :: "vm_view \<Rightarrow> bool" where
  "is_worker vm \<longleftrightarrow> node_mode vm = Some ''worker''"

definition is_leader :: "vm_view \<Rightarrow> bool" where
  "is_leader vm \<longleftrightarrow> node_mode vm = Some ''leader''"

lemma before_the_leader:
  "\<forall>p \<in> set ps. is_caprover (snd p) \<and> \<not> is_leader (snd p) \<Longrightarrow> ms_leader s = None \<Longrightarrow>
   fold caprover_step ps s = s\<lparr>ms_workers := ms_workers s @ filter is_worker (map snd ps)\<rparr>"
  by (induction ps arbitrary: s) (auto simp: caprover_step_def is_leader_def is_worker_def)

lemma after_the_leader:
  "\<forall>p \<in> set ps. is_caprover (snd p) \<and> \<not> is_leader (snd p) \<Longrightarrow> ms_leader s = Some (j, l) \<Longrightarrow>
   j \<in> fst ` set (ms_vms s) \<Longrightarrow>
   fold caprover_step ps s = s\<lparr>ms_workers := ms_workers s @ filter is_worker (map snd ps)\<rparr>"
proof (induction ps arbitrary: s)
  case (Cons p ps)
  have "caprover_step p s = s\<lparr>ms_workers := ms_workers s @ filter is_worker [snd p]\<rparr>"
    using Cons.prems
    by (cases p) (simp add: caprover_step_def push_vm_def is_leader_def is_worker_def)
  with Cons show ?case by simp
qed simp

text \<open>A CapRover cluster is listed as its leader with all its workers, wherever the leader stands among them.\<close>

theorem caprover_grouped:
  assumes all: "\<forall>vm \<in> set (pre @ l # post). is_caprover vm" and l: "is_leader l"
    and others: "\<forall>vm \<in> set (pre @ post). \<not> is_leader vm"
  shows "merge_cluster (pre @ l # post) = [\<lparr>sv_vm = l, sv_workers = Some (filter is_worker (pre @ post))\<rparr>]"
proof -
  let ?n = "length pre"
  have en: "enumerate 0 (pre @ l # post) = enumerate 0 pre @ (?n, l) # enumerate (Suc ?n) post"
    by (simp add: enumerate_append_eq)
  have out: "\<forall>p \<in> set (enumerate i ps). is_caprover (snd p) \<and> \<not> is_leader (snd p)"
    if "set ps \<subseteq> set (pre @ post)" for i ps
  proof
    fix p
    assume "p \<in> set (enumerate i ps)"
    then have "snd p \<in> set ps" by (metis image_eqI map_snd_enumerate list.set_map)
    with that all others show "is_caprover (snd p) \<and> \<not> is_leader (snd p)" by auto
  qed
  have first: "fold caprover_step (enumerate 0 pre) no_vms = no_vms\<lparr>ms_workers := filter is_worker pre\<rparr>"
    using before_the_leader [OF out [of pre], of no_vms] by (simp add: no_vms_def)
  have second: "caprover_step (?n, l) (no_vms\<lparr>ms_workers := filter is_worker pre\<rparr>)
      = \<lparr>ms_leader = Some (?n, l), ms_workers = filter is_worker pre, ms_vms = [(?n, l, True)]\<rparr>"
    using all l by (simp add: caprover_step_def is_leader_def push_vm_def no_vms_def)
  have "fold caprover_step (enumerate 0 (pre @ l # post)) no_vms
      = \<lparr>ms_leader = Some (?n, l), ms_workers = filter is_worker (pre @ post), ms_vms = [(?n, l, True)]\<rparr>"
    using after_the_leader [OF out [of post]] by (simp add: en first second)
  then show ?thesis by (simp add: merge_cluster_def)
qed

subsection \<open>Examples\<close>

definition demo_vm :: "string \<Rightarrow> int \<Rightarrow> vm_view" where
  "demo_vm n i = \<lparr>vv_name = n, vv_contractId = i, vv_interfaces = [(''nw1'', ''10.20.2.2'')],
     vv_env = (\<lambda>_. None), vv_deploymentName = [], vv_projectName = [], vv_billing = [], vv_wireguard = None, vv_fromAnotherClient = False\<rparr>"

definition in_mode :: "string \<Rightarrow> vm_view \<Rightarrow> vm_view" where
  "in_mode m vm = vm\<lparr>vv_env := [''SWM_NODE_MODE'' \<mapsto> m], vv_projectName := ''CapRover/cp1''\<rparr>"

text \<open>
  Under \<open>VM\<close> there is \<open>web\<close>; under \<open>vm\<close> again \<open>web\<close>, with \<open>old\<close>, whose machines cannot be read, and
  \<open>empty\<close>, which has no contracts.
\<close>

definition demo_grid :: "(vm_view list, int) grid_view" where
  "demo_grid = \<lparr>gv_migrate = (\<lambda>_. Inr ()),
     gv_list = (\<lambda>p. Inr (if p = ''VM'' then [''web''] else if p = ''vm'' then [''old'', ''web'', ''empty''] else [''web''])),
     gv_connect = (\<lambda>_. Inr ()),
     gv_contracts = (\<lambda>p n. Inr (if n = ''empty'' then [] else [7])),
     gv_node_ids = (\<lambda>p n. Inr [11]),
     gv_getObj = (\<lambda>p n. if n = ''old'' then Inl TypeError else Inr [demo_vm ''m1'' 7]),
     gv_timely = (\<lambda>_. True),
     gv_consumption = (\<lambda>_. Inr (1 / 2)),
     gv_getWireGuardConfigs = (\<lambda>p n r. Inr [n @ '' '' @ r])\<rparr>"

definition in_order :: "string list \<Rightarrow> nat list" where
  "in_order ns = [0..<length ns]"

lemma in_order_finishes [simp]: "finishes in_order"
  by (simp add: finishes_def in_order_def)

lemmas loading_defs = loadVms_def vm_results_def load_vm_def getDeploymentContracts_def own_project_def try_read_def
  groups_of_def group_of_def labelled_vm_def is_gone_def keeps_def with_details_def wireguard_of_def getWireguardConfig_def
  failures_def failed_of_def in_order_def

lemma demo_vms:
  "\<exists>c1 c2. loadVms demo_grid ''VM'' None in_order = Inr c1 \<and> map vg_deploymentName (ld_items c1) = [''web'']
     \<and> loadVms demo_grid ''vm'' None in_order = Inr c2 \<and> map vg_deploymentName (ld_items c2) = [''web'']
     \<and> map fd_name (ld_failed c1) = [] \<and> map fd_name (ld_failed c2) = [''old''] \<and> ld_count c1 = 1 \<and> ld_count c2 = 2"
  by (simp add: loading_defs demo_grid_def demo_vm_def Let_def)

definition empty_page :: "int table_page" where
  "empty_page = \<lparr>tp_items = [], tp_count = None, tp_failed = [], tp_error = None, tp_loading = False\<rparr>"

definition no_gateways :: gateway_view where
  "no_gateways = \<lparr>gw_list = (\<lambda>p. Inr []), gw_get_name = (\<lambda>p n. Inr [])\<rparr>"

definition demo_page :: "int table_page" where
  "demo_page = loadDeployments demo_grid no_gateways (\<lambda>_. Inr ()) ''VM'' False in_order empty_page"

lemma demo_page_loaded: "tp_error demo_page = None \<and> \<not> tp_loading demo_page"
proof -
  have low: "to_lower ''VM'' = ''vm''" by code_simp
  obtain c1 c2 where c: "loadVms demo_grid ''VM'' None in_order = Inr c1" "loadVms demo_grid ''vm'' None in_order = Inr c2"
    using demo_vms by blast
  have "gv_connect demo_grid ''VM'' = Inr ()" by (simp add: demo_grid_def)
  then show ?thesis
    by (simp add: demo_page_def loadDeployments_def load_lists_def low c migrate_gateways_def table_project_def empty_page_def Let_def)
qed

theorem table_count_exact_witness:
  "\<exists>groups :: vm_group list. vg_deploymentName ` set groups = {''web''} \<and> distinct (map vg_deploymentName groups)
     \<and> fd_name ` set (tp_failed demo_page) = {''old''}
     \<and> tp_count demo_page = Some (int (length groups) + int (length (tp_failed demo_page)))"
proof -
  have low: "to_lower ''VM'' = ''vm''" by code_simp
  obtain c1 c2 where c: "loadVms demo_grid ''VM'' None in_order = Inr c1" "loadVms demo_grid ''vm'' None in_order = Inr c2"
    and v: "map vg_deploymentName (ld_items c1) = [''web'']" "map vg_deploymentName (ld_items c2) = [''web'']"
      "map fd_name (ld_failed c1) = []" "map fd_name (ld_failed c2) = [''old'']"
    using demo_vms by (elim exE conjE) (erule (5) that)
  have sets: "vg_deploymentName ` set (ld_items c1) = {''web''}" "vg_deploymentName ` set (ld_items c2) = {''web''}"
      "fd_name ` set (ld_failed c1) = {}" "fd_name ` set (ld_failed c2) = {''old''}"
    using v [THEN arg_cong [where f = set]] by simp_all
  have project: "to_lower ''VM'' \<noteq> ''domains''" by (simp add: low)
  show ?thesis
    using table_count_exact [OF in_order_finishes project demo_page_def] demo_page_loaded
    by (auto simp: low c sets image_Un empty_page_def nothing_loaded_def)
qed

text \<open>
  Each machine of a deployment is a row, so two machines of one deployment hide that another one has
  failed.
\<close>

definition two_machines :: "(vm_view list, int) grid_view" where
  "two_machines = demo_grid\<lparr>gv_list := (\<lambda>p. Inr (if p = ''VM'' then [''web'', ''old''] else [])),
     gv_getObj := (\<lambda>p n. if n = ''old'' then Inl TypeError else Inr [demo_vm ''m1'' 7, demo_vm ''m2'' 8])\<rparr>"

theorem failure_hidden:
  "let s = loadDeployments two_machines no_gateways (\<lambda>_. Inr ()) ''VM'' False in_order empty_page
   in map fd_name (tp_failed s) = [''old''] \<and> tp_count s = Some 2 \<and> length (tp_items s) = 2 \<and> failed_shown s = None"
proof -
  have low: "to_lower ''VM'' = ''vm''" and own: "\<not> sublist ''caprover'' (to_lower ''VM/web'')" by code_simp+
  show ?thesis
    by (simp add: loadDeployments_def load_lists_def loading_defs low own two_machines_def demo_grid_def demo_vm_def
        migrate_gateways_def table_project_def nothing_loaded_def mergeLoadedDeployments_def merge_step_def
        insertIfNotFound_def mergeCaproverDeployments_def merge_cluster_def caprover_step_def is_caprover_def
        push_vm_def no_vms_def failed_shown_def empty_page_def Let_def)
qed

text \<open>When the client of the project cannot be made, the page never stops loading.\<close>

lemma loading_forever:
  "to_lower projectName \<noteq> ''domains'' \<Longrightarrow> gv_connect g projectName = Inl e \<Longrightarrow>
   tp_loading (loadDeployments g d migrate projectName showAll order s)
   \<and> tp_error (loadDeployments g d migrate projectName showAll order s) = tp_error s"
  by (simp add: loadDeployments_def Let_def)

theorem caprover_grouped_witness:
  "merge_cluster [in_mode ''worker'' (demo_vm ''w1'' 1), in_mode ''leader'' (demo_vm ''l'' 2), in_mode ''worker'' (demo_vm ''w2'' 3)]
     = [\<lparr>sv_vm = in_mode ''leader'' (demo_vm ''l'' 2),
         sv_workers = Some [in_mode ''worker'' (demo_vm ''w1'' 1), in_mode ''worker'' (demo_vm ''w2'' 3)]\<rparr>]"
proof -
  have cp: "is_caprover (in_mode m vm)" for m vm
  proof -
    have "sublist ''caprover'' (to_lower ''CapRover/cp1'')" by code_simp
    then show ?thesis by (simp add: is_caprover_def in_mode_def)
  qed
  have mode: "is_worker (in_mode m vm) \<longleftrightarrow> m = ''worker''" "is_leader (in_mode m vm) \<longleftrightarrow> m = ''leader''" for m vm
    by (simp_all add: is_worker_def is_leader_def node_mode_def in_mode_def)
  show ?thesis
    using caprover_grouped [of "[in_mode ''worker'' (demo_vm ''w1'' 1)]" "in_mode ''leader'' (demo_vm ''l'' 2)"
        "[in_mode ''worker'' (demo_vm ''w2'' 3)]"]
    by (simp add: cp mode)
qed

text \<open>
  A cluster with workers and no master is counted though it is not listed, and a list of clusters
  whose machines have no interface is not loaded at all.
\<close>

definition demo_clusters :: "(string \<times> string) list \<Rightarrow> (K8S, int) grid_view" where
  "demo_clusters ifaces = \<lparr>gv_migrate = (\<lambda>_. Inr ()), gv_list = (\<lambda>p. Inr [''k1'', ''k2'']), gv_connect = (\<lambda>_. Inr ()),
     gv_contracts = (\<lambda>p n. Inr [7]), gv_node_ids = (\<lambda>p n. Inr [11]),
     gv_getObj = (\<lambda>p n. Inr \<lparr>k_masters = (if n = ''k1'' then [(demo_vm ''m'' 7)\<lparr>vv_interfaces := ifaces\<rparr>] else []),
        k_workers = [demo_vm ''w'' 8], k_deploymentName = [], k_projectName = [], k_wireguard = None, k_fromAnotherClient = False\<rparr>),
     gv_timely = (\<lambda>_. True), gv_consumption = (\<lambda>_. Inr 0), gv_getWireGuardConfigs = (\<lambda>p n r. Inr [])\<rparr>"

lemmas cluster_defs = loadK8s_def cluster_results_def load_cluster_def own_project_def clusters_of_def cluster_details_def
  wireguard_of_def getWireguardConfig_def failures_def failed_of_def in_order_def

theorem masterless_counted:
  "\<exists>ld. loadK8s (demo_clusters [(''nw'', ''10.1.2.2'')]) ''kubernetes'' in_order = Inr ld
     \<and> ld_count ld = 2 \<and> length (ld_items ld) = 1 \<and> ld_failed ld = []"
  by (simp add: cluster_defs demo_clusters_def demo_vm_def Let_def)

theorem no_interface_no_list: "loadK8s (demo_clusters []) ''kubernetes'' in_order = Inl TypeError"
  by (simp add: cluster_defs demo_clusters_def demo_vm_def Let_def)

text \<open>Slightly more than five is shown as less than five.\<close>

lemma balance_shown: "normalizeBalance (Some (50005 / 10000)) = ''~ <5''"
proof -
  have "\<lfloor>50005 / 10000 :: rat\<rfloor> = 5" by (simp add: floor_eq_iff)
  then show ?thesis by (simp add: normalizeBalance_def shown_part_def show_int_def Let_def) code_simp
qed

end
