(* ===== verification/Accounts.thy ===== *)
theory Accounts
  imports Errors
begin

text \<open>
  The accounts of the dashboard (\<open>playground/src/utils/credentials.ts\<close> and the script of
  \<open>weblets/profile_manager.vue\<close>): the mnemonic of a user is kept in the browser, encrypted with a
  password of which only the MD5 sum is kept.  Parameters: \<open>cryptr\<close>, \<open>md5\<close>, \<open>bip39\<close>, and what the grid
  answers (\<open>getGrid\<close>, \<open>loadProfile\<close>, \<open>readEmail\<close>).
\<close>

subsection \<open>State\<close>

record Credentials =
  cr_passwordHash :: "string option"
  cr_mnemonicHash :: "string option"
  cr_keypairTypeHash :: "string option"
  cr_emailHash :: "string option"

record user_profile =
  up_mnemonic :: string
  up_keypairType :: string
  up_email :: string

text \<open>The browser's two stores, the profile in use, and what the dialog holds.\<close>

record account_state =
  as_wallet :: "Credentials option"
  as_session :: "string option"
  as_profile :: "user_profile option"
  as_open :: bool
  as_loginError :: "string option"
  as_nonActive :: bool
  as_acceptTerms :: bool

record account_env =
  ae_encrypt :: "string \<Rightarrow> string \<Rightarrow> string"
  ae_decrypt :: "string \<Rightarrow> string \<Rightarrow> js_error + string"
  ae_md5 :: "string \<Rightarrow> string"
  ae_validMnemonic :: "string \<Rightarrow> bool"
  ae_getGrid :: "string \<Rightarrow> string \<Rightarrow> js_error + unit"
  ae_loadProfile :: "string \<Rightarrow> string \<Rightarrow> js_error + user_profile"
  ae_readEmail :: "string \<Rightarrow> string \<Rightarrow> string"
  ae_migrateSsh :: "user_profile \<Rightarrow> js_error option"
  ae_createTwin :: "string \<Rightarrow> js_error + unit"

type_synonym 'a account_eff = "(account_state, js_error, 'a) eff"

definition no_credentials :: Credentials where
  "no_credentials = \<lparr>cr_passwordHash = None, cr_mnemonicHash = None, cr_keypairTypeHash = None, cr_emailHash = None\<rparr>"

definition getCredentials :: "account_state \<Rightarrow> Credentials" where
  "getCredentials s = (case as_wallet s of None \<Rightarrow> no_credentials | Some c \<Rightarrow> c)"

definition setCredentials :: "string \<Rightarrow> string \<Rightarrow> string \<Rightarrow> string \<Rightarrow> unit account_eff" where
  "setCredentials passwordHash mnemonicHash keypairTypeHash emailHash = modifyE (\<lambda>s. s\<lparr>as_wallet :=
     Some \<lparr>cr_passwordHash = Some passwordHash, cr_mnemonicHash = Some mnemonicHash,
           cr_keypairTypeHash = Some keypairTypeHash, cr_emailHash = Some emailHash\<rparr>\<rparr>)"

text \<open>A stored type of key is decrypted, a missing one is \<open>sr25519\<close>.\<close>

definition stored_keypair :: "account_env \<Rightarrow> string \<Rightarrow> Credentials \<Rightarrow> js_error + string" where
  "stored_keypair env password c = (case truthy_str (cr_keypairTypeHash c) of
     None \<Rightarrow> Inr ''sr25519''
   | Some h \<Rightarrow> ae_decrypt env password h)"

subsection \<open>Changing the password\<close>

text \<open>Everything is read before anything is stored, and an error is only shown.\<close>

definition new_credentials :: "account_env \<Rightarrow> string \<Rightarrow> string \<Rightarrow> Credentials \<Rightarrow> unit account_eff" where
  "new_credentials env currentPassword newPassword c =
     (case (truthy_str (cr_passwordHash c), truthy_str (cr_mnemonicHash c)) of
        (Some ph, Some mh) \<Rightarrow>
          bindE (liftE (ae_decrypt env currentPassword mh)) (\<lambda>mnemonic.
          bindE (liftE (stored_keypair env currentPassword c)) (\<lambda>keypairType.
          bindE (liftE (ae_getGrid env mnemonic keypairType)) (\<lambda>_.
            setCredentials (ae_md5 env newPassword) (ae_encrypt env newPassword mnemonic)
              (ae_encrypt env newPassword keypairType) (ae_md5 env (ae_readEmail env mnemonic keypairType)))))
      | _ \<Rightarrow> retE ())"

definition updateCredentials :: "account_env \<Rightarrow> string \<Rightarrow> string \<Rightarrow> account_state \<Rightarrow> account_state" where
  "updateCredentials env currentPassword newPassword s =
     snd (new_credentials env currentPassword newPassword (getCredentials s) s)"

subsection \<open>Logging in and out\<close>

text \<open>The loaded profile is set with the mnemonic it was asked for; an e-mail address that was typed in replaces its own.\<close>

definition activate :: "account_env \<Rightarrow> string \<Rightarrow> string \<Rightarrow> string \<Rightarrow> string \<Rightarrow> unit account_eff" where
  "activate env password email mnemonic keypairType =
     bindE (modifyE (\<lambda>s. s\<lparr>as_nonActive := False, as_loginError := None, as_session := Some password\<rparr>)) (\<lambda>_.
     catchE
       (bindE (liftE (ae_getGrid env mnemonic keypairType)) (\<lambda>_.
        bindE (liftE (ae_loadProfile env mnemonic keypairType)) (\<lambda>profile.
          let profile' = (if email = [] then profile else profile\<lparr>up_email := email\<rparr>)\<lparr>up_mnemonic := mnemonic\<rparr> in
          bindE (modifyE (\<lambda>s. s\<lparr>as_profile := Some profile', as_open := False\<rparr>)) (\<lambda>_.
            case ae_migrateSsh env profile' of None \<Rightarrow> retE () | Some e \<Rightarrow> throwE e))))
       (\<lambda>e. modifyE (\<lambda>s. s\<lparr>as_loginError := Some (err_message e)\<rparr>)))"

text \<open>The answer tells whether the user is sent to the page of the profile to enter an e-mail address.\<close>

definition login :: "account_env \<Rightarrow> string \<Rightarrow> bool account_eff" where
  "login env password =
     bindE (getE getCredentials) (\<lambda>c.
       case (truthy_str (cr_mnemonicHash c), truthy_str (cr_passwordHash c)) of
         (Some mh, Some ph) \<Rightarrow>
           if ph \<noteq> ae_md5 env password then retE False
           else bindE (liftE (ae_decrypt env password mh)) (\<lambda>mnemonic.
                bindE (liftE (stored_keypair env password c)) (\<lambda>keypairType.
                bindE (activate env password [] mnemonic keypairType) (\<lambda>_.
                bindE (liftE (ae_getGrid env mnemonic keypairType)) (\<lambda>_.
                  retE (ae_readEmail env mnemonic keypairType = [])))))
       | _ \<Rightarrow> retE False)"

definition logout :: "account_state \<Rightarrow> account_state" where
  "logout s = s\<lparr>as_session := None, as_profile := None\<rparr>"

definition validatePassword :: "account_env \<Rightarrow> bool \<Rightarrow> string \<Rightarrow> account_state \<Rightarrow> bool" where
  "validatePassword env loggingIn password s \<longleftrightarrow>
     \<not> loggingIn \<or> (as_wallet s \<noteq> None \<and> cr_passwordHash (getCredentials s) = Some (ae_md5 env password))"

text \<open>The answer is the message shown, \<open>None\<close> when all went well; an account without a twin is to accept the terms first.\<close>

definition storeAndLogin :: "account_env \<Rightarrow> string \<Rightarrow> string \<Rightarrow> string \<Rightarrow> string \<Rightarrow> string option account_eff" where
  "storeAndLogin env password email mnemonic keypairType =
     catchE
       (bindE (liftE (ae_getGrid env mnemonic keypairType)) (\<lambda>_.
        bindE (setCredentials (ae_md5 env password) (ae_encrypt env password mnemonic)
                 (ae_encrypt env password keypairType) (ae_md5 env email)) (\<lambda>_.
        bindE (activate env password email mnemonic keypairType) (\<lambda>_. retE None))))
       (\<lambda>e. bindE (if err_class e = C_Generic G_TwinNotExistError
                   then modifyE (\<lambda>s. s\<lparr>as_acceptTerms := True, as_nonActive := True\<rparr>) else retE ())
          (\<lambda>_. retE (Some (err_message e))))"

definition mnemonic_or_seed :: "account_env \<Rightarrow> string \<Rightarrow> string" where
  "mnemonic_or_seed env m = (if ae_validMnemonic env m \<or> length m = 66 then m else ''0x'' @ m)"

text \<open>What \<open>storeAndLogin\<close> answers is dropped, so only a failure of the activation itself is shown.\<close>

definition activateAccount :: "account_env \<Rightarrow> string \<Rightarrow> string \<Rightarrow> string \<Rightarrow> string \<Rightarrow> string option account_eff" where
  "activateAccount env password email mnemonic keypairType =
     bindE (modifyE (\<lambda>s. s\<lparr>as_acceptTerms := False, as_nonActive := False, as_loginError := None\<rparr>)) (\<lambda>_.
       catchE
         (bindE (liftE (ae_createTwin env (mnemonic_or_seed env mnemonic))) (\<lambda>_.
          bindE (storeAndLogin env password email mnemonic keypairType) (\<lambda>_. retE None)))
         (\<lambda>e. retE (Some (err_message e))))"

end
