(* ===== verification/AccountsProps.thy ===== *)
theory AccountsProps
  imports Accounts
begin

text \<open>An account opens with the password it was stored under, or the last one it was changed to, and with no other.\<close>

subsection \<open>What opens an account\<close>

text \<open>\<open>cryptr\<close>: what was encrypted with a password is decrypted with that password only; sums are not empty, but different passwords may have the same.\<close>

definition cryptr_laws :: "account_env \<Rightarrow> bool" where
  "cryptr_laws env \<longleftrightarrow> (\<forall>p q x. ae_decrypt env p (ae_encrypt env p x) = Inr x
     \<and> (p \<noteq> q \<longrightarrow> (\<exists>e. ae_decrypt env q (ae_encrypt env p x) = Inl e))
     \<and> ae_encrypt env p x \<noteq> [] \<and> ae_md5 env p \<noteq> [])"

definition opens :: "account_env \<Rightarrow> string \<Rightarrow> string \<Rightarrow> string \<Rightarrow> account_state \<Rightarrow> bool" where
  "opens env password mnemonic keypairType s \<longleftrightarrow> (\<exists>e. as_wallet s =
     Some \<lparr>cr_passwordHash = Some (ae_md5 env password), cr_mnemonicHash = Some (ae_encrypt env password mnemonic),
           cr_keypairTypeHash = Some (ae_encrypt env password keypairType), cr_emailHash = Some e\<rparr>)"

lemma truthy_some: "s \<noteq> [] \<Longrightarrow> truthy_str (Some s) = Some s"
  by (simp add: truthy_str_def)

lemma login_with_other:
  assumes "cryptr_laws env" and "opens env password m kt s" and "p \<noteq> password"
  shows "snd (login env p s) = s"
proof -
  obtain e where "ae_decrypt env p (ae_encrypt env password m) = Inl e"
    using assms(1,3) by (metis cryptr_laws_def)
  then show ?thesis
    using assms by (auto simp: opens_def login_def getCredentials_def truthy_some cryptr_laws_def bindE_app)
qed

lemma login_opens:
  assumes "cryptr_laws env" and "opens env password m kt s"
  shows "login env password s = bindE (activate env password [] m kt) (\<lambda>_.
      bindE (liftE (ae_getGrid env m kt)) (\<lambda>_. retE (ae_readEmail env m kt = []))) s"
  using assms by (auto simp: opens_def login_def getCredentials_def truthy_some cryptr_laws_def bindE_app stored_keypair_def)

lemma activate_profile:
  assumes "ae_getGrid env m kt = Inr ()" and "ae_loadProfile env m kt = Inr p"
  shows "\<exists>s'. activate env password email m kt s = (Inr (), s') \<and> as_wallet s' = as_wallet s
    \<and> as_session s' = Some password
    \<and> as_profile s' = Some ((if email = [] then p else p\<lparr>up_email := email\<rparr>)\<lparr>up_mnemonic := m\<rparr>)"
  using assms by (cases "ae_migrateSsh env ((if email = [] then p else p\<lparr>up_email := email\<rparr>)\<lparr>up_mnemonic := m\<rparr>)")
    (simp_all add: activate_def bindE_app catchE_def Let_def)

lemma activate_wallet: "as_wallet (snd (activate env password email m kt s)) = as_wallet s"
  "\<exists>u. fst (activate env password email m kt s) = Inr u"
  by (auto simp: activate_def bindE_app catchE_def Let_def split: sum.splits option.splits)

subsection \<open>Changing the password\<close>

lemma update_wrong_password:
  assumes "cryptr_laws env" and "opens env password m kt s" and "current \<noteq> password"
  shows "updateCredentials env current new s = s"
proof -
  obtain e where "ae_decrypt env current (ae_encrypt env password m) = Inl e"
    using assms(1,3) by (metis cryptr_laws_def)
  then show ?thesis using assms
    by (auto simp: opens_def updateCredentials_def new_credentials_def getCredentials_def truthy_some cryptr_laws_def bindE_app)
qed

lemma update_right_password:
  assumes "cryptr_laws env" and "opens env password m kt s"
  shows "if ae_getGrid env m kt = Inr () then opens env new m kt (updateCredentials env password new s)
    else updateCredentials env password new s = s"
  using assms by (cases "ae_getGrid env m kt")
    (auto simp: opens_def updateCredentials_def new_credentials_def getCredentials_def truthy_some cryptr_laws_def bindE_app
      stored_keypair_def setCredentials_def)

text \<open>The password after some attempts to change it, each with what was typed as the current one.\<close>

definition password_after :: "account_env \<Rightarrow> string \<Rightarrow> string \<Rightarrow> (string \<times> string) list \<Rightarrow> string \<Rightarrow> string" where
  "password_after env m kt changes password =
     fold (\<lambda>(current, new) p. if current = p \<and> ae_getGrid env m kt = Inr () then new else p) changes password"

lemma opens_after:
  "cryptr_laws env \<Longrightarrow> opens env password m kt s \<Longrightarrow>
   opens env (password_after env m kt changes password) m kt (fold (\<lambda>(c, n). updateCredentials env c n) changes s)"
proof (induction changes arbitrary: password s)
  case (Cons ch changes)
  obtain c n where ch: "ch = (c, n)" by (cases ch)
  have "opens env (if c = password \<and> ae_getGrid env m kt = Inr () then n else password) m kt (updateCredentials env c n s)"
    using update_wrong_password [OF Cons.prems, of c n] update_right_password [OF Cons.prems, of n] Cons.prems(2)
    by (cases "c = password") (auto split: if_splits)
  from Cons.IH [OF Cons.prems(1) this] show ?case by (simp add: ch password_after_def)
qed (simp add: password_after_def)

lemma opens_logout [simp]: "opens env p m kt (logout s) = opens env p m kt s"
  by (simp add: opens_def logout_def)

lemma stored_opens:
  assumes "storeAndLogin env password email m kt s = (Inr None, s')"
  shows "opens env password m kt s'" and "ae_getGrid env m kt = Inr ()"
proof -
  show grid: "ae_getGrid env m kt = Inr ()"
    using assms by (cases "ae_getGrid env m kt") (auto simp: storeAndLogin_def catchE_def bindE_app split: if_splits)
  obtain u t where t: "activate env password email m kt (s\<lparr>as_wallet := Some \<lparr>cr_passwordHash = Some (ae_md5 env password),
      cr_mnemonicHash = Some (ae_encrypt env password m), cr_keypairTypeHash = Some (ae_encrypt env password kt),
      cr_emailHash = Some (ae_md5 env email)\<rparr>\<rparr>) = (Inr u, t)"
    using activate_wallet(2) by (metis prod.collapse)
  then have "s' = t" using assms grid by (simp add: storeAndLogin_def catchE_def bindE_app setCredentials_def)
  moreover have "as_wallet t = Some \<lparr>cr_passwordHash = Some (ae_md5 env password),
      cr_mnemonicHash = Some (ae_encrypt env password m), cr_keypairTypeHash = Some (ae_encrypt env password kt),
      cr_emailHash = Some (ae_md5 env email)\<rparr>"
    using arg_cong [OF t, of "as_wallet \<circ> snd"] by (simp add: activate_wallet)
  ultimately show "opens env password m kt s'" by (simp add: opens_def)
qed

text \<open>
  C28: An account that was stored is opened, whatever attempts to change its password came in between,
  by the password it was last changed to, with the mnemonic and the type of key it was stored with;
  any other password changes nothing.
\<close>

theorem account_opens_with_last_password:
  assumes laws: "cryptr_laws env" and stored: "storeAndLogin env password email m kt s = (Inr None, s1)"
    and profile: "ae_loadProfile env m kt = Inr p"
  shows "let s2 = logout (fold (\<lambda>(c, n). updateCredentials env c n) changes s1);
             pw = password_after env m kt changes password
         in (\<exists>b s3. login env pw s2 = (Inr b, s3) \<and> as_profile s3 = Some (p\<lparr>up_mnemonic := m\<rparr>) \<and> as_session s3 = Some pw)
          \<and> (\<forall>other. other \<noteq> pw \<longrightarrow> snd (login env other s2) = s2)"
proof -
  let ?s2 = "logout (fold (\<lambda>(c, n). updateCredentials env c n) changes s1)"
  let ?pw = "password_after env m kt changes password"
  have o: "opens env ?pw m kt ?s2" using opens_after [OF laws stored_opens(1) [OF stored]] by simp
  have grid: "ae_getGrid env m kt = Inr ()" by (rule stored_opens(2) [OF stored])
  obtain s3 where "activate env ?pw [] m kt ?s2 = (Inr (), s3)" "as_profile s3 = Some (p\<lparr>up_mnemonic := m\<rparr>)" "as_session s3 = Some ?pw"
    using activate_profile [OF grid profile, of ?pw "[]" ?s2] by auto
  then have "\<exists>b s3. login env ?pw ?s2 = (Inr b, s3) \<and> as_profile s3 = Some (p\<lparr>up_mnemonic := m\<rparr>) \<and> as_session s3 = Some ?pw"
    by (simp add: login_opens [OF laws o] bindE_app grid)
  moreover have "\<forall>other. other \<noteq> ?pw \<longrightarrow> snd (login env other ?s2) = ?s2"
    using login_with_other [OF laws o] by blast
  ultimately show ?thesis by (simp add: Let_def)
qed

subsection \<open>Examples\<close>

text \<open>A cipher that puts the password before the text, and a sum that marks it.\<close>

definition demo_decrypt :: "string \<Rightarrow> string \<Rightarrow> js_error + string" where
  "demo_decrypt p c = (if take (Suc (length (show_nat (length p)) + length p)) c = show_nat (length p) @ ''.'' @ p
     then Inr (drop (Suc (length (show_nat (length p)) + length p)) c) else Inl (plain_error C_Error ''Unsupported state''))"

definition demo_account :: account_env where
  "demo_account = \<lparr>ae_encrypt = (\<lambda>p x. show_nat (length p) @ ''.'' @ p @ x), ae_decrypt = demo_decrypt,
     ae_md5 = (\<lambda>p. ''#'' @ p), ae_validMnemonic = (\<lambda>m. True), ae_getGrid = (\<lambda>m k. Inr ()),
     ae_loadProfile = (\<lambda>m k. Inr \<lparr>up_mnemonic = m, up_keypairType = k, up_email = ''a@b.c''\<rparr>),
     ae_readEmail = (\<lambda>m k. ''a@b.c''), ae_migrateSsh = (\<lambda>p. None), ae_createTwin = (\<lambda>m. Inr ())\<rparr>"

lemma digits_then_dot:
  assumes "show_nat a @ CHR ''.'' # s = show_nat b @ CHR ''.'' # t"
  shows "a = b \<and> s = t"
proof -
  have dot: "CHR ''.'' \<notin> set (show_nat n)" for n
    using show_nat_digits [of n] by (auto simp: list_all_iff is_digit_def)
  have "show_nat a = before_char (CHR ''.'') (show_nat a @ CHR ''.'' # s)" by (rule before_char_append [OF dot, symmetric])
  also have "\<dots> = before_char (CHR ''.'') (show_nat b @ CHR ''.'' # t)" by (simp only: assms)
  also have "\<dots> = show_nat b" by (rule before_char_append [OF dot])
  finally have "a = b" by simp
  then show ?thesis using assms by simp
qed

lemma demo_cryptr: "cryptr_laws demo_account"
proof -
  have right: "demo_decrypt p (show_nat (length p) @ CHR ''.'' # p @ x) = Inr x" for p x
    by (simp add: demo_decrypt_def)
  have wrong: "\<exists>e. demo_decrypt q (show_nat (length p) @ CHR ''.'' # p @ x) = Inl e" if "p \<noteq> q" for p q x
  proof (rule ccontr)
    assume "\<not> ?thesis"
    then have "take (Suc (length (show_nat (length q)) + length q)) (show_nat (length p) @ CHR ''.'' # p @ x)
        = show_nat (length q) @ CHR ''.'' # q"
      by (auto simp: demo_decrypt_def split: if_splits)
    then obtain y where "show_nat (length p) @ CHR ''.'' # p @ x = (show_nat (length q) @ CHR ''.'' # q) @ y"
      by (metis append_take_drop_id)
    then have "show_nat (length p) @ CHR ''.'' # (p @ x) = show_nat (length q) @ CHR ''.'' # (q @ y)" by simp
    from digits_then_dot [OF this] have "p = q" by (auto simp: append_eq_append_conv)
    with that show False by simp
  qed
  show ?thesis using right wrong by (simp add: cryptr_laws_def demo_account_def)
qed

definition fresh_browser :: account_state where
  "fresh_browser = \<lparr>as_wallet = None, as_session = None, as_profile = None, as_open = True, as_loginError = None,
     as_nonActive = False, as_acceptTerms = False\<rparr>"

theorem account_opens_with_last_password_witness:
  "\<exists>s1. storeAndLogin demo_account ''one'' [] ''words'' ''ed25519'' fresh_browser = (Inr None, s1)
     \<and> (let s2 = logout (updateCredentials demo_account ''two'' ''three'' (updateCredentials demo_account ''one'' ''two'' s1))
        in (\<exists>b s3. login demo_account ''three'' s2 = (Inr b, s3) \<and> map_option up_mnemonic (as_profile s3) = Some ''words'')
         \<and> snd (login demo_account ''one'' s2) = s2)"
proof -
  obtain s1 where s1: "storeAndLogin demo_account ''one'' [] ''words'' ''ed25519'' fresh_browser = (Inr None, s1)"
    by (simp add: storeAndLogin_def activate_def catchE_def bindE_app setCredentials_def demo_account_def Let_def)
  have p: "ae_loadProfile demo_account ''words'' ''ed25519'' = Inr \<lparr>up_mnemonic = ''words'', up_keypairType = ''ed25519'', up_email = ''a@b.c''\<rparr>"
    by (simp add: demo_account_def)
  have after: "password_after demo_account ''words'' ''ed25519'' [(''one'', ''two''), (''two'', ''three'')] ''one'' = ''three''"
    by (simp add: password_after_def demo_account_def)
  from account_opens_with_last_password [OF demo_cryptr s1 p, of "[(''one'', ''two''), (''two'', ''three'')]"] s1 show ?thesis
    by (auto simp: after Let_def)
qed

text \<open>When the account was activated but the login fails, nothing is shown.\<close>

lemma failed_login_hidden:
  "fst (activateAccount (demo_account\<lparr>ae_getGrid := \<lambda>m k. Inl (plain_error C_Error ''timeout'')\<rparr>) ''one'' [] ''words'' ''sr25519'' fresh_browser)
     = Inr None"
  by (simp add: activateAccount_def storeAndLogin_def catchE_def bindE_app demo_account_def plain_error_def)

text \<open>A password stays in the session although the login with it failed.\<close>

lemma session_after_failure:
  "as_session (snd (activate (demo_account\<lparr>ae_loadProfile := \<lambda>m k. Inl (plain_error C_Error ''timeout'')\<rparr>) ''one'' [] ''words'' ''sr25519'' fresh_browser))
     = Some ''one''"
  by (simp add: activate_def catchE_def bindE_app demo_account_def fresh_browser_def)

end
