(* ===== verification/FormValidation.thy ===== *)
theory FormValidation
  imports Errors
begin

text \<open>
  The validation of forms: the inputs (\<open>playground/src/components/input_validator.vue\<close>) and the
  form that they report to (\<open>components/form_validator.vue\<close>, \<open>hooks/form_validator.ts\<close>).  Every
  rule is awaited, so validations of one input can overlap; each event of the model is a stretch of
  the code between two awaits.  Which event comes next is up to the environment (the timer of the
  debounced call, the answers of the asynchronous rules, the user).
\<close>

subsection \<open>Inputs\<close>

datatype ValidatorStatus = VS_Valid | VS_Invalid | VS_Pending | VS_Init

text \<open>What a rule returns when it objects: a message, and whether the object has the key \<open>required\<close>.\<close>

record RuleReturn =
  re_message :: string
  re_required :: bool

type_synonym rule = "string \<Rightarrow> RuleReturn option"

record input_props =
  ip_rules :: "rule list"
  ip_asyncRules :: "rule list"

definition is_required :: "input_props \<Rightarrow> bool" where
  "is_required props \<longleftrightarrow> list_ex (\<lambda>rl. case rl [] of None \<Rightarrow> False | Some r \<Rightarrow> re_required r) (ip_rules props)"

definition all_rules :: "input_props \<Rightarrow> rule list" where
  "all_rules props = ip_rules props @ ip_asyncRules props"

text \<open>A validation that is waiting for its next rule: the value it was started with and the rules left.\<close>

record input_state =
  in_status :: ValidatorStatus
  in_error :: "string option"
  in_blured :: bool
  in_initialized :: bool
  in_disabled :: bool
  in_timer :: "string option"
  in_running :: "(string \<times> rule list) list"

definition new_input :: input_state where
  "new_input = \<lparr>in_status = VS_Init, in_error = None, in_blured = False, in_initialized = False,
     in_disabled = False, in_timer = None, in_running = []\<rparr>"

definition has_error :: "input_state \<Rightarrow> bool" where
  "has_error i \<longleftrightarrow> (case in_error i of None \<Rightarrow> False | Some m \<Rightarrow> m \<noteq> [])"

subsection \<open>The form\<close>

text \<open>The statuses by input, the registered inputs, and the inputs themselves.\<close>

record form_state =
  fs_status :: "(string \<times> ValidatorStatus) list"
  fs_services :: "string list"
  fs_inputs :: "string \<Rightarrow> input_state"

definition new_form :: form_state where
  "new_form = \<lparr>fs_status = [], fs_services = [], fs_inputs = (\<lambda>_. new_input)\<rparr>"

definition register :: "string \<Rightarrow> form_state \<Rightarrow> form_state" where
  "register uid f = f\<lparr>fs_status := obj_set uid VS_Init (fs_status f), fs_services := add_new uid (fs_services f)\<rparr>"

definition unregister :: "string \<Rightarrow> form_state \<Rightarrow> form_state" where
  "unregister uid f = f\<lparr>fs_status := filter (\<lambda>e. fst e \<noteq> uid) (fs_status f), fs_services := removeAll uid (fs_services f)\<rparr>"

definition updateStatus :: "string \<Rightarrow> ValidatorStatus \<Rightarrow> form_state \<Rightarrow> form_state" where
  "updateStatus uid st f = (if map_of (fs_status f) uid = Some st then f else f\<lparr>fs_status := obj_set uid st (fs_status f)\<rparr>)"

definition set_input :: "string \<Rightarrow> input_state \<Rightarrow> form_state \<Rightarrow> form_state" where
  "set_input uid i f = f\<lparr>fs_inputs := (fs_inputs f)(uid := i)\<rparr>"

definition form_valid :: "bool \<Rightarrow> form_state \<Rightarrow> bool" where
  "form_valid validOnInit f \<longleftrightarrow>
     list_all (\<lambda>e. snd e = VS_Valid \<or> (validOnInit \<and> snd e = VS_Init)) (fs_status f)"

definition form_invalid :: "form_state \<Rightarrow> bool" where
  "form_invalid f \<longleftrightarrow> list_ex (\<lambda>e. snd e = VS_Invalid) (fs_status f)"

definition form_pending :: "form_state \<Rightarrow> bool" where
  "form_pending f \<longleftrightarrow> list_ex (\<lambda>e. snd e = VS_Pending) (fs_status f)"

text \<open>\<open>setStatus\<close> of an input tells the form, when the status has changed.\<close>

definition setStatus :: "string \<Rightarrow> ValidatorStatus \<Rightarrow> form_state \<Rightarrow> form_state" where
  "setStatus uid st f =
     (let i = fs_inputs f uid in
      if in_status i = st then f else updateStatus uid st (set_input uid (i\<lparr>in_status := st\<rparr>) f))"

definition change_input :: "string \<Rightarrow> (input_state \<Rightarrow> input_state) \<Rightarrow> form_state \<Rightarrow> form_state" where
  "change_input uid c f = set_input uid (c (fs_inputs f uid)) f"

text \<open>The end of \<open>_validate\<close>: the status is read off the error that the input has then.\<close>

definition settle :: "string \<Rightarrow> form_state \<Rightarrow> form_state" where
  "settle uid f = setStatus uid (if has_error (fs_inputs f uid) then VS_Invalid else VS_Valid) f"

text \<open>\<open>_validate\<close> up to its first await.  Without rules the loop is left at once.\<close>

definition begin_validation :: "input_props \<Rightarrow> string \<Rightarrow> string \<Rightarrow> form_state \<Rightarrow> form_state" where
  "begin_validation props uid value f =
     (let f1 = change_input uid (\<lambda>i. i\<lparr>in_blured := True\<rparr>) f;
          f2 = setStatus uid VS_Pending f1;
          f3 = change_input uid (\<lambda>i. i\<lparr>in_error := None\<rparr>) f2
      in if value = [] \<and> \<not> is_required props then setStatus uid VS_Valid f3
         else if all_rules props = [] then settle uid f3
         else change_input uid (\<lambda>i. i\<lparr>in_running := in_running i @ [(value, all_rules props)]\<rparr>) f3)"

text \<open>The rule that the \<open>k\<close>-th validation waits for returns.\<close>

definition rule_returns :: "string \<Rightarrow> nat \<Rightarrow> form_state \<Rightarrow> form_state" where
  "rule_returns uid k f =
     (let run = in_running (fs_inputs f uid) in
      if length run \<le> k then f
      else case run ! k of
        (value, []) \<Rightarrow> f
      | (value, rl # rules) \<Rightarrow>
          (let rest = take k run @ drop (Suc k) run in
           case rl value of
             Some r \<Rightarrow> settle uid (change_input uid (\<lambda>i. i\<lparr>in_error := Some (re_message r), in_running := rest\<rparr>) f)
           | None \<Rightarrow>
               if rules = [] then settle uid (change_input uid (\<lambda>i. i\<lparr>in_running := rest\<rparr>) f)
               else change_input uid (\<lambda>i. i\<lparr>in_running := run[k := (value, rules)]\<rparr>) f))"

text \<open>
  The value changes: the debounced call is put off, except for a first value that is empty; the
  timer of that call runs out.
\<close>

definition value_changed :: "string \<Rightarrow> string \<Rightarrow> form_state \<Rightarrow> form_state" where
  "value_changed uid value f =
     change_input uid (\<lambda>i. if \<not> in_initialized i \<and> value = [] then i\<lparr>in_initialized := True\<rparr>
                           else i\<lparr>in_initialized := True, in_timer := Some value\<rparr>) f"

definition timer_ends :: "input_props \<Rightarrow> string \<Rightarrow> form_state \<Rightarrow> form_state" where
  "timer_ends props uid f = (case in_timer (fs_inputs f uid) of
     None \<Rightarrow> f
   | Some value \<Rightarrow> begin_validation props uid value (change_input uid (\<lambda>i. i\<lparr>in_timer := None\<rparr>) f))"

text \<open>
  The other events: the component is mounted or unmounted (a component that is mounted again is a
  new one); it is validated at once; it loses the focus; validation is switched off or on; it is reset.
\<close>

datatype form_event = Mount string | Unmount string | Changed string string | Timer string
  | Validate string string | Returns string nat | Blur string string | Disable string
  | Enable string string | Reset string

definition reset_input :: "string \<Rightarrow> form_state \<Rightarrow> form_state" where
  "reset_input uid f =
     change_input uid (\<lambda>i. i\<lparr>in_error := None\<rparr>)
       (setStatus uid VS_Init (change_input uid (\<lambda>i. i\<lparr>in_initialized := False, in_blured := False\<rparr>) f))"

definition disable_input :: "string \<Rightarrow> form_state \<Rightarrow> form_state" where
  "disable_input uid f =
     (if in_disabled (fs_inputs f uid) then f
      else setStatus uid VS_Valid
             (change_input uid (\<lambda>i. i\<lparr>in_error := None, in_disabled := True\<rparr>) (unregister uid f)))"

text \<open>The handler of \<open>blur\<close> is bound only while the input has not been left yet.\<close>

fun form_step :: "(string \<Rightarrow> input_props) \<Rightarrow> form_event \<Rightarrow> form_state \<Rightarrow> form_state" where
  "form_step props (Mount uid) f = register uid (set_input uid new_input f)"
| "form_step props (Unmount uid) f = unregister uid f"
| "form_step props (Changed uid value) f = value_changed uid value f"
| "form_step props (Timer uid) f = timer_ends (props uid) uid f"
| "form_step props (Validate uid value) f = begin_validation (props uid) uid value f"
| "form_step props (Returns uid k) f = rule_returns uid k f"
| "form_step props (Blur uid value) f =
     (if in_blured (fs_inputs f uid) then f else begin_validation (props uid) uid value f)"
| "form_step props (Disable uid) f = disable_input uid f"
| "form_step props (Enable uid value) f =
     (if in_disabled (fs_inputs f uid)
      then begin_validation (props uid) uid value (change_input uid (\<lambda>i. i\<lparr>in_disabled := False\<rparr>) f) else f)"
| "form_step props (Reset uid) f = reset_input uid f"

definition form_run :: "(string \<Rightarrow> input_props) \<Rightarrow> form_event list \<Rightarrow> form_state \<Rightarrow> form_state" where
  "form_run props evs f = fold (form_step props) evs f"

inductive form_reachable :: "(string \<Rightarrow> input_props) \<Rightarrow> form_state \<Rightarrow> bool" for props where
  start: "form_reachable props new_form"
| step: "form_reachable props f \<Longrightarrow> form_reachable props (form_step props ev f)"

text \<open>\<open>form.reset\<close> resets every registered input.\<close>

definition reset_form :: "form_state \<Rightarrow> form_state" where
  "reset_form f = fold reset_input (fs_services f) f"

end
