(* ===== verification/FormValidationProps.thy ===== *)
theory FormValidationProps
  imports FormValidation
begin

text \<open>
  What the form knows of its inputs, what a validation decides when it is alone, and what goes wrong
  when two of them overlap.
\<close>

subsection \<open>The form mirrors its inputs\<close>

definition mirrors :: "form_state \<Rightarrow> bool" where
  "mirrors f \<longleftrightarrow> (\<forall>uid \<in> set (fs_services f). map_of (fs_status f) uid = Some (in_status (fs_inputs f uid)))"

lemma mirrors_change: "(\<And>i. in_status (c i) = in_status i) \<Longrightarrow> mirrors f \<Longrightarrow> mirrors (change_input uid c f)"
  by (simp add: mirrors_def change_input_def set_input_def)

lemma mirrors_setStatus: "mirrors f \<Longrightarrow> mirrors (setStatus uid st f)"
  by (auto simp: mirrors_def setStatus_def updateStatus_def set_input_def Let_def)

lemma map_of_removed: "map_of (filter (\<lambda>e. fst e \<noteq> k) xs) k' = (if k' = k then None else map_of xs k')"
  by (induction xs) auto

lemma mirrors_register: "mirrors f \<Longrightarrow> mirrors (register uid (set_input uid new_input f))"
  by (simp add: mirrors_def register_def set_input_def new_input_def)

lemma mirrors_unregister: "mirrors f \<Longrightarrow> mirrors (unregister uid f)"
  by (simp add: mirrors_def unregister_def map_of_removed)

lemma mirrors_settle: "mirrors f \<Longrightarrow> mirrors (settle uid f)"
  by (simp add: settle_def mirrors_setStatus)

lemmas mirrors_intros = mirrors_change mirrors_setStatus mirrors_register mirrors_unregister mirrors_settle

lemma mirrors_begin: "mirrors f \<Longrightarrow> mirrors (begin_validation props uid value f)"
  by (simp add: begin_validation_def Let_def mirrors_intros)

lemma mirrors_returns: "mirrors f \<Longrightarrow> mirrors (rule_returns uid k f)"
  by (auto simp: rule_returns_def Let_def mirrors_intros split: prod.splits list.splits option.splits)

lemma mirrors_step: "mirrors f \<Longrightarrow> mirrors (form_step props ev f)"
  by (cases ev) (auto simp: mirrors_intros mirrors_begin mirrors_returns value_changed_def timer_ends_def
      disable_input_def reset_input_def split: option.splits)

lemma reachable_mirrors: "form_reachable props f \<Longrightarrow> mirrors f"
  by (induction rule: form_reachable.induct) (simp_all add: mirrors_step, simp add: mirrors_def new_form_def)

lemma form_valid_statuses:
  "mirrors f \<Longrightarrow> form_valid b f \<Longrightarrow> uid \<in> set (fs_services f) \<Longrightarrow>
   in_status (fs_inputs f uid) = VS_Valid \<or> b \<and> in_status (fs_inputs f uid) = VS_Init"
  by (fastforce simp: mirrors_def form_valid_def list_all_iff dest: map_of_SomeD)

lemma form_valid_inputs:
  "mirrors f \<Longrightarrow> form_valid False f \<Longrightarrow> uid \<in> set (fs_services f) \<Longrightarrow> in_status (fs_inputs f uid) = VS_Valid"
  by (fastforce simp: mirrors_def form_valid_def list_all_iff dest: map_of_SomeD)

text \<open>
  Whatever happens to a form, a registered input has in the form's map the status that it shows; so
  while the form is valid, none of its inputs is invalid, pending or untouched.
\<close>

theorem form_mirrors_inputs:
  assumes "form_reachable props f" and "uid \<in> set (fs_services f)"
  shows "map_of (fs_status f) uid = Some (in_status (fs_inputs f uid))
    \<and> (form_valid False f \<longrightarrow> in_status (fs_inputs f uid) = VS_Valid)"
  using reachable_mirrors [OF assms(1)] form_valid_inputs [of f uid] assms(2) by (auto simp: mirrors_def)

subsection \<open>One validation at a time\<close>

text \<open>What a validation is to decide.\<close>

definition accepts :: "input_props \<Rightarrow> string \<Rightarrow> bool" where
  "accepts props value \<longleftrightarrow> (value = [] \<and> \<not> is_required props) \<or> (\<forall>rl \<in> set (all_rules props). rl value = None)"

definition messages_given :: "input_props \<Rightarrow> bool" where
  "messages_given props \<longleftrightarrow> (\<forall>rl \<in> set (all_rules props). \<forall>v r. rl v = Some r \<longrightarrow> re_message r \<noteq> [])"

text \<open>
  Runs in which an input is validated or reset only when no validation of it is under way, and none is
  switched off; the second argument is the value that was validated last.
\<close>

inductive quiet :: "(string \<Rightarrow> input_props) \<Rightarrow> form_state \<Rightarrow> (string \<Rightarrow> string option) \<Rightarrow> bool" for props where
  q_start: "quiet props new_form (\<lambda>_. None)"
| q_mount: "quiet props f la \<Longrightarrow> quiet props (form_step props (Mount uid) f) (la(uid := None))"
| q_unmount: "quiet props f la \<Longrightarrow> quiet props (form_step props (Unmount uid) f) la"
| q_changed: "quiet props f la \<Longrightarrow> quiet props (form_step props (Changed uid v) f) la"
| q_timer: "quiet props f la \<Longrightarrow> in_running (fs_inputs f uid) = [] \<Longrightarrow> in_timer (fs_inputs f uid) = Some v \<Longrightarrow>
    quiet props (form_step props (Timer uid) f) (la(uid := Some v))"
| q_validate: "quiet props f la \<Longrightarrow> in_running (fs_inputs f uid) = [] \<Longrightarrow>
    quiet props (form_step props (Validate uid v) f) (la(uid := Some v))"
| q_blur: "quiet props f la \<Longrightarrow> in_running (fs_inputs f uid) = [] \<Longrightarrow>
    quiet props (form_step props (Blur uid v) f) (if in_blured (fs_inputs f uid) then la else la(uid := Some v))"
| q_returns: "quiet props f la \<Longrightarrow> quiet props (form_step props (Returns uid k) f) la"
| q_reset: "quiet props f la \<Longrightarrow> in_running (fs_inputs f uid) = [] \<Longrightarrow>
    quiet props (form_step props (Reset uid) f) (la(uid := None))"

definition input_ok :: "input_props \<Rightarrow> input_state \<Rightarrow> string option \<Rightarrow> bool" where
  "input_ok props i la \<longleftrightarrow> (case in_running i of
     [] \<Rightarrow> in_status i \<noteq> VS_Pending \<and> (in_status i = VS_Init \<longrightarrow> la = None)
       \<and> (in_status i = VS_Valid \<longrightarrow> (\<exists>v. la = Some v \<and> accepts props v))
       \<and> (in_status i = VS_Invalid \<longrightarrow> (\<exists>v. la = Some v \<and> \<not> accepts props v))
   | (v, rest) # others \<Rightarrow> others = [] \<and> la = Some v \<and> in_status i = VS_Pending \<and> in_error i = None
       \<and> (v \<noteq> [] \<or> is_required props) \<and> rest \<noteq> []
       \<and> (\<exists>passed. all_rules props = passed @ rest \<and> (\<forall>rl \<in> set passed. rl v = None)))"

lemma input_after_setStatus [simp]:
  "fs_inputs (setStatus uid st f) = (fs_inputs f)(uid := (fs_inputs f uid)\<lparr>in_status := st\<rparr>)"
  by (auto simp: setStatus_def updateStatus_def set_input_def Let_def fun_eq_iff)

lemma input_after_change [simp]:
  "fs_inputs (change_input uid c f) = (fs_inputs f)(uid := c (fs_inputs f uid))"
  by (simp add: change_input_def set_input_def)

lemma input_after_register [simp]: "fs_inputs (register uid f) = fs_inputs f" "fs_inputs (unregister uid f) = fs_inputs f"
  by (simp_all add: register_def unregister_def)

lemma input_after_settle [simp]:
  "fs_inputs (settle uid f) = (fs_inputs f)(uid := (fs_inputs f uid)
     \<lparr>in_status := (if has_error (fs_inputs f uid) then VS_Invalid else VS_Valid)\<rparr>)"
  by (simp add: settle_def)

lemma begin_ok:
  assumes "in_running (fs_inputs f uid) = []"
  shows "input_ok props (fs_inputs (begin_validation props uid v f) uid) (Some v)"
  using assms by (auto simp: begin_validation_def Let_def input_ok_def accepts_def has_error_def)

lemma begin_other: "uid' \<noteq> uid \<Longrightarrow> fs_inputs (begin_validation props uid v f) uid' = fs_inputs f uid'"
  by (simp add: begin_validation_def Let_def)

lemma returns_other: "uid' \<noteq> uid \<Longrightarrow> fs_inputs (rule_returns uid k f) uid' = fs_inputs f uid'"
  by (auto simp: rule_returns_def Let_def split: prod.splits list.splits option.splits)

lemma returns_ok:
  assumes ok: "input_ok props (fs_inputs f uid) la" and msg: "messages_given props"
  shows "input_ok props (fs_inputs (rule_returns uid k f) uid) la"
proof (cases "in_running (fs_inputs f uid)")
  case Nil
  with ok show ?thesis by (simp add: rule_returns_def)
next
  case (Cons r others)
  obtain v rest where r: "r = (v, rest)" by (cases r)
  from ok Cons r obtain rl rules passed where others: "others = []" and rest: "rest = rl # rules"
    and la: "la = Some v" and st: "in_status (fs_inputs f uid) = VS_Pending" and err: "in_error (fs_inputs f uid) = None"
    and need: "v \<noteq> [] \<or> is_required props" and all: "all_rules props = passed @ rl # rules"
    and passed: "\<forall>rl \<in> set passed. rl v = None"
    by (auto simp: input_ok_def neq_Nil_conv)
  have run: "in_running (fs_inputs f uid) = [(v, rl # rules)]" using Cons r others rest by simp
  show ?thesis
  proof (cases "k = 0")
    case False
    then show ?thesis using ok run by (simp add: rule_returns_def)
  next
    case True
    show ?thesis
    proof (cases "rl v")
      case None
      show ?thesis
      proof (cases "rules = []")
        case True
        then show ?thesis using \<open>k = 0\<close> run None la err all passed
          by (simp add: rule_returns_def input_ok_def has_error_def accepts_def)
      next
        case False
        then have "all_rules props = (passed @ [rl]) @ rules" using all by simp
        then show ?thesis using \<open>k = 0\<close> run None la err all passed need st False
          by (auto simp: rule_returns_def input_ok_def intro!: exI [of _ "passed @ [rl]"])
      qed
    next
      case (Some m)
      then have "re_message m \<noteq> []" using msg all by (auto simp: messages_given_def)
      moreover have "\<not> accepts props v" using Some need all by (auto simp: accepts_def)
      ultimately show ?thesis using \<open>k = 0\<close> run Some la
        by (simp add: rule_returns_def input_ok_def has_error_def)
    qed
  qed
qed

lemma input_ok_irrelevant [simp]:
  "input_ok props (i\<lparr>in_timer := t\<rparr>) la = input_ok props i la"
  "input_ok props (i\<lparr>in_initialized := b\<rparr>) la = input_ok props i la"
  by (simp_all add: input_ok_def split: list.splits)

lemma quiet_ok:
  "quiet props f la \<Longrightarrow> \<forall>uid. messages_given (props uid) \<Longrightarrow> input_ok (props uid) (fs_inputs f uid) (la uid)"
proof (induction arbitrary: uid rule: quiet.induct)
  case q_start
  then show ?case by (simp add: input_ok_def new_form_def new_input_def)
next
  case (q_mount f la u)
  then show ?case by (auto simp: input_ok_def set_input_def new_input_def)
next
  case (q_changed f la u v)
  then show ?case by (simp add: value_changed_def)
next
  case (q_timer f la u v)
  then show ?case by (simp add: timer_ends_def begin_ok begin_other)
next
  case (q_validate f la u v)
  then show ?case by (simp add: begin_ok begin_other)
next
  case (q_blur f la u v)
  then show ?case by (simp add: begin_ok begin_other)
next
  case (q_returns f la u k)
  then show ?case by (cases "uid = u") (simp_all add: returns_ok returns_other)
next
  case (q_reset f la u)
  then show ?case by (simp add: reset_input_def) (simp add: input_ok_def)
qed simp

lemma quiet_reachable: "quiet props f la \<Longrightarrow> form_reachable props f"
  by (induction rule: quiet.induct) (blast intro: form_reachable.intros)+

text \<open>
  C27: As long as no input is validated or reset while a validation of it is under way, and none is
  switched off, every input of a valid form has, as its value was validated last, either passed every
  rule or is empty and not required (then no rule is asked); only if the form is told to count untouched
  inputs as valid there are others, which have not been validated since they were mounted or reset.
  Every rule that objects has to give a message that is not empty.
\<close>

theorem valid_form_checked:
  assumes "quiet props f la" and "\<forall>uid. messages_given (props uid)"
    and "form_valid validOnInit f" and "uid \<in> set (fs_services f)"
  shows "case la uid of
      None \<Rightarrow> validOnInit \<and> in_status (fs_inputs f uid) = VS_Init
    | Some v \<Rightarrow> v = [] \<and> \<not> is_required (props uid) \<or> (\<forall>rl \<in> set (all_rules (props uid)). rl v = None)"
proof -
  have "in_status (fs_inputs f uid) = VS_Valid \<or> validOnInit \<and> in_status (fs_inputs f uid) = VS_Init"
    using reachable_mirrors [OF quiet_reachable [OF assms(1)]] assms(3,4) by (rule form_valid_statuses)
  then show ?thesis
    using quiet_ok [OF assms(1,2), of uid] by (auto simp: input_ok_def accepts_def split: list.splits option.split)
qed

subsection \<open>A validation ends\<close>

definition first_error :: "rule list \<Rightarrow> string \<Rightarrow> string option" where
  "first_error rules v = map_option (\<lambda>rl. re_message (the (rl v))) (find (\<lambda>rl. rl v \<noteq> None) rules)"

lemma idle_returns: "in_running (fs_inputs f uid) = [] \<Longrightarrow> (rule_returns uid k ^^ n) f = f"
  by (induction n) (simp_all add: rule_returns_def)

lemma run_rules:
  "in_running (fs_inputs f uid) = [(v, rest)] \<Longrightarrow> in_error (fs_inputs f uid) = None \<Longrightarrow> rest \<noteq> [] \<Longrightarrow>
   \<forall>rl \<in> set rest. \<forall>r. rl v = Some r \<longrightarrow> re_message r \<noteq> [] \<Longrightarrow>
   (let i = fs_inputs ((rule_returns uid 0 ^^ length rest) f) uid in
    in_running i = [] \<and> in_error i = first_error rest v
    \<and> in_status i = (if \<forall>rl \<in> set rest. rl v = None then VS_Valid else VS_Invalid))"
proof (induction rest arbitrary: f)
  case (Cons rl rules)
  let ?f = "rule_returns uid 0 f"
  have first: "(rule_returns uid 0 ^^ length (rl # rules)) f = (rule_returns uid 0 ^^ length rules) ?f"
    by (simp add: funpow_Suc_right del: funpow.simps(2))
  show ?case
  proof (cases "rl v")
    case (Some m)
    then have "in_running (fs_inputs ?f uid) = []" using Cons.prems by (simp add: rule_returns_def)
    moreover have "in_error (fs_inputs ?f uid) = Some (re_message m)" "in_status (fs_inputs ?f uid) = VS_Invalid"
      using Some Cons.prems by (simp_all add: rule_returns_def has_error_def)
    moreover have "(rule_returns uid 0 ^^ length rules) ?f = ?f" by (rule idle_returns) (rule calculation(1))
    ultimately show ?thesis unfolding first using Some by (simp add: first_error_def)
  next
    case None
    show ?thesis
    proof (cases "rules = []")
      case True
      then show ?thesis unfolding first using None Cons.prems by (simp add: rule_returns_def has_error_def first_error_def)
    next
      case False
      then have run: "in_running (fs_inputs ?f uid) = [(v, rules)]" and err: "in_error (fs_inputs ?f uid) = None"
        using None Cons.prems by (simp_all add: rule_returns_def)
      have msg: "\<forall>rl \<in> set rules. \<forall>r. rl v = Some r \<longrightarrow> re_message r \<noteq> []" using Cons.prems by simp
      from Cons.IH [OF run err False msg] None show ?thesis unfolding first by (simp add: first_error_def)
    qed
  qed
qed simp

lemma returned_rules: "fold (form_step props) (replicate n (Returns uid k)) f = (rule_returns uid k ^^ n) f"
proof -
  have "form_step props (Returns uid k) = rule_returns uid k" by (rule ext) simp
  then show ?thesis by (simp add: fold_replicate del: form_step.simps)
qed

text \<open>
  A validation that no other overlaps ends once each rule has answered, at the latest: with the
  message of the first rule that objects, and valid exactly when none does or when an empty value is
  not required.
\<close>

theorem validation_decides:
  assumes "in_running (fs_inputs f uid) = []" and "messages_given (props uid)"
  shows "\<exists>i. i = fs_inputs (form_run props (Validate uid v # replicate (length (all_rules (props uid))) (Returns uid 0)) f) uid
    \<and> in_running i = []
    \<and> in_status i = (if accepts (props uid) v then VS_Valid else VS_Invalid)
    \<and> in_error i = (if v = [] \<and> \<not> is_required (props uid) then None else first_error (all_rules (props uid)) v)"
proof -
  let ?f = "begin_validation (props uid) uid v f"
  show ?thesis
  proof (cases "(v = [] \<and> \<not> is_required (props uid)) \<or> all_rules (props uid) = []")
    case True
    then have "in_running (fs_inputs ?f uid) = []" using assms(1) by (auto simp: begin_validation_def Let_def)
    moreover have "in_status (fs_inputs ?f uid) = VS_Valid" "in_error (fs_inputs ?f uid) = None" "accepts (props uid) v"
      using True by (auto simp: begin_validation_def Let_def has_error_def accepts_def)
    ultimately show ?thesis using True by (auto simp: form_run_def returned_rules idle_returns first_error_def simp del: fold_replicate)
  next
    case False
    then have run: "in_running (fs_inputs ?f uid) = [(v, all_rules (props uid))]" and err: "in_error (fs_inputs ?f uid) = None"
      using assms(1) by (auto simp: begin_validation_def Let_def)
    have msg: "\<forall>rl \<in> set (all_rules (props uid)). \<forall>r. rl v = Some r \<longrightarrow> re_message r \<noteq> []"
      using assms(2) by (simp add: messages_given_def)
    have acc: "accepts (props uid) v \<longleftrightarrow> (\<forall>rl \<in> set (all_rules (props uid)). rl v = None)"
      using False by (auto simp: accepts_def)
    have rs: "all_rules (props uid) \<noteq> []" using False by simp
    show ?thesis using run_rules [OF run err rs msg] acc False by (auto simp: form_run_def returned_rules Let_def simp del: fold_replicate)
  qed
qed

subsection \<open>Examples\<close>

text \<open>An input that is required and must not be \<open>bad\<close>, the latter by an asynchronous rule.\<close>

definition required_rule :: rule where
  "required_rule v = (if v = [] then Some \<lparr>re_message = ''required'', re_required = True\<rparr> else None)"

definition not_bad :: rule where
  "not_bad v = (if v = ''bad'' then Some \<lparr>re_message = ''bad value'', re_required = False\<rparr> else None)"

definition demo_props :: "string \<Rightarrow> input_props" where
  "demo_props uid = \<lparr>ip_rules = [required_rule], ip_asyncRules = [not_bad]\<rparr>"

lemma demo_messages [simp]: "messages_given (demo_props uid)"
  by (simp add: messages_given_def demo_props_def all_rules_def required_rule_def not_bad_def)

lemmas form_eval = form_run_def begin_validation_def rule_returns_def settle_def setStatus_def updateStatus_def
  change_input_def set_input_def register_def unregister_def new_form_def new_input_def has_error_def
  demo_props_def all_rules_def is_required_def required_rule_def not_bad_def add_new_def Let_def

theorem validation_decides_witness:
  "\<exists>i. i = fs_inputs (form_run demo_props (Validate ''ip'' ''bad'' # replicate 2 (Returns ''ip'' 0)) new_form) ''ip''
    \<and> in_running i = [] \<and> in_status i = VS_Invalid \<and> in_error i = Some ''bad value''"
proof -
  have "length (all_rules (demo_props ''ip'')) = 2" "\<not> accepts (demo_props ''ip'') ''bad''"
    "first_error (all_rules (demo_props ''ip'')) ''bad'' = Some ''bad value''"
    by (simp_all add: demo_props_def all_rules_def accepts_def not_bad_def required_rule_def first_error_def)
  moreover have "in_running (fs_inputs new_form ''ip'') = []" by (simp add: new_form_def new_input_def)
  ultimately show ?thesis using validation_decides [of new_form "''ip''" demo_props "''bad''"] by auto
qed

definition checked_events :: "form_event list" where
  "checked_events = [Mount ''ip'', Validate ''ip'' ''good'', Returns ''ip'' 0, Returns ''ip'' 0]"

theorem valid_form_checked_witness:
  "\<exists>la. la ''ip'' = Some ''good'' \<and> accepts (demo_props ''ip'') ''good'' \<and> quiet demo_props (form_run demo_props checked_events new_form) la"
proof -
  let ?f1 = "form_step demo_props (Mount ''ip'') new_form"
  let ?f2 = "form_step demo_props (Validate ''ip'' ''good'') ?f1"
  let ?la = "(\<lambda>_. None)(''ip'' := None, ''ip'' := Some ''good'')"
  have "quiet demo_props ?f1 ((\<lambda>_. None)(''ip'' := None))" by (intro quiet.intros)
  then have "quiet demo_props ?f2 ?la" by (rule q_validate) (simp add: register_def set_input_def new_form_def new_input_def)
  then have q: "quiet demo_props (form_run demo_props checked_events new_form) ?la"
    by (simp add: form_run_def checked_events_def del: fun_upd_upd form_step.simps) (intro q_returns)
  have "form_valid False (form_run demo_props checked_events new_form)"
    and "''ip'' \<in> set (fs_services (form_run demo_props checked_events new_form))"
    by (simp_all add: form_eval checked_events_def form_valid_def)
  from valid_form_checked [OF q _ this] q show ?thesis by (intro exI [of _ ?la]) (auto simp: accepts_def)
qed

text \<open>
  Overlapping validations.  While the second value still waits for its rules, the end of the first
  makes the form valid; and the message of a first value that was rejected late makes a second one
  invalid that every rule accepts.
\<close>

theorem unchecked_value_valid:
  "form_valid False (form_run demo_props
     [Mount ''ip'', Validate ''ip'' ''good'', Returns ''ip'' 0, Validate ''ip'' ''bad'', Returns ''ip'' 0] new_form)
   \<and> \<not> accepts (demo_props ''ip'') ''bad''"
  by (simp add: form_eval form_valid_def accepts_def)

theorem accepted_value_invalid:
  "form_invalid (form_run demo_props
     [Mount ''ip'', Validate ''ip'' ''bad'', Validate ''ip'' ''good'', Returns ''ip'' 1,
      Returns ''ip'' 0, Returns ''ip'' 0, Returns ''ip'' 0] new_form)
   \<and> accepts (demo_props ''ip'') ''good''"
  by (simp add: form_eval form_invalid_def accepts_def)

text \<open>An input that is taken away while it is validated comes back as a status without an input: the form stays invalid.\<close>

theorem ghost_status:
  "\<exists>f. f = form_run demo_props [Mount ''to'', Validate ''to'' ''bad'', Unmount ''to'', Returns ''to'' 0, Returns ''to'' 0] new_form
     \<and> fs_services f = [] \<and> form_invalid f \<and> \<not> form_valid False f"
  by (simp add: form_eval form_invalid_def form_valid_def)

text \<open>Validation that is switched off and on again leaves an input that \<open>form.validate\<close> does not reach.\<close>

theorem enabled_not_registered:
  "\<exists>f. f = form_run demo_props [Mount ''ip'', Disable ''ip'', Enable ''ip'' ''bad''] new_form
     \<and> fs_services f = [] \<and> map_of (fs_status f) ''ip'' = Some VS_Pending"
  by (simp add: form_eval disable_input_def)

end
