(* ===== verification/FarmIps.thy ===== *)
theory FarmIps
  imports MachineProps
begin

text \<open>
  Adding public addresses to a farm (\<open>playground/src/dashboard/components/add_ip.vue\<close>): the checks
  of the dialog and what it submits.  Parameters: \<open>contains\<close> of \<open>cidr-tools\<close>, \<open>getIPRange\<close> of
  \<open>get-ip-range\<close>, the test for private addresses of \<open>private-ip\<close>, the question to the graph whether
  an address is known, and the chain's answers to the extrinsics.
\<close>

subsection \<open>The dialog\<close>

datatype IPType = IP_single | IP_range

record ip_dialog =
  ai_type :: IPType
  ai_publicIP :: string
  ai_toPublicIP :: string
  ai_gateway :: string
  ai_IPs :: "string list option"
  ai_showDialogue :: bool
  ai_isAdding :: bool
  ai_showIPs :: bool

record ip_env =
  ie_private :: "string \<Rightarrow> bool"
  ie_publicIps :: "string \<Rightarrow> js_error + string list"
  ie_contains :: "string \<Rightarrow> string \<Rightarrow> js_error + bool"
  ie_getIPRange :: "string \<Rightarrow> string \<Rightarrow> js_error + string list"

definition new_dialog :: ip_dialog where
  "new_dialog = \<lparr>ai_type = IP_single, ai_publicIP = [], ai_toPublicIP = [], ai_gateway = [], ai_IPs = None,
     ai_showDialogue = False, ai_isAdding = False, ai_showIPs = False\<rparr>"

subsection \<open>Reading addresses\<close>

text \<open>\<open>s.split(c)[i]\<close>, \<open>parseInt\<close> of decimal digits (\<open>None\<close> is \<open>NaN\<close>), and the text before the last dot.\<close>

definition split_part :: "char \<Rightarrow> nat \<Rightarrow> string \<Rightarrow> string option" where
  "split_part c i s = (let ps = split_on c s in if i < length ps then Some (ps ! i) else None)"

definition parseInt :: "string option \<Rightarrow> nat option" where
  "parseInt v = Option.bind v parse_int"

definition start_of :: "string \<Rightarrow> string" where
  "start_of ip = before_char (CHR ''/'') ip"

definition last_octet :: "string \<Rightarrow> nat option" where
  "last_octet ip = parseInt (split_part (CHR ''.'') 3 (start_of ip))"

definition before_last_dot :: "string \<Rightarrow> string" where
  "before_last_dot s = rev (drop 1 (dropWhile (\<lambda>c. c \<noteq> CHR ''.'') (rev s)))"

text \<open>A comparison with \<open>NaN\<close> is false.\<close>

definition octets_rel :: "(nat \<Rightarrow> nat \<Rightarrow> bool) \<Rightarrow> string \<Rightarrow> string \<Rightarrow> bool" where
  "octets_rel rel x y = (case (last_octet x, last_octet y) of (Some a, Some b) \<Rightarrow> rel a b | _ \<Rightarrow> False)"

subsection \<open>The checks\<close>

definition IpExistsCheck :: "ip_env \<Rightarrow> string \<Rightarrow> js_error + bool" where
  "IpExistsCheck env pubIp = bindR (ie_publicIps env pubIp) (\<lambda>ips. Inr (ips \<noteq> []))"

definition ipcheck :: "ip_env \<Rightarrow> ip_dialog \<Rightarrow> js_error + string option" where
  "ipcheck env d =
     (if ie_private env (start_of (ai_publicIP d)) then Inr (Some ''IP is not public'')
      else bindR (IpExistsCheck env (ai_publicIP d)) (\<lambda>ex. Inr (if ex then Some ''IP exists.'' else None)))"

definition toIpCheck :: "ip_env \<Rightarrow> ip_dialog \<Rightarrow> js_error + string option" where
  "toIpCheck env d =
     (let to = ai_toPublicIP d; fr = ai_publicIP d in
      if split_part (CHR ''/'') 1 to \<noteq> split_part (CHR ''/'') 1 fr then Inr (Some ''Subnet is different.'')
      else if octets_rel (\<lambda>t f. t \<le> f) to fr then Inr (Some ''To IP must be bigger than From IP.'')
      else if before_last_dot to \<noteq> before_last_dot fr then Inr (Some ''IPs are not the same.'')
      else if octets_rel (\<lambda>t f. 16 < int t - int f + 1) to fr then Inr (Some ''Range must not exceed 16.'')
      else if ie_private env (start_of fr) then Inr (Some ''IP is not public.'')
      else bindR (IpExistsCheck env to) (\<lambda>ex. Inr (if ex then Some ''IP exists.'' else None)))"

definition gatewayCheck :: "ip_env \<Rightarrow> ip_dialog \<Rightarrow> string option" where
  "gatewayCheck env d =
     (let firstIP = start_of (ai_publicIP d); lastIP = start_of (ai_toPublicIP d) in
      if ie_contains env (ai_publicIP d) (ai_gateway d) \<noteq> Inr True then Some ''Gateway IP not in the provided IP range.''
      else if firstIP = ai_gateway d \<or> lastIP = ai_gateway d then Some ''IPs cannot be the same.''
      else if ai_type d \<noteq> IP_single then
        (case ie_getIPRange env firstIP lastIP of
           Inl e \<Rightarrow> Some (err_message e)
         | Inr ips \<Rightarrow> if ai_gateway d \<in> set ips then Some (''The gateway IP shouldn'' @ apos # ''t be in the IPs range.'') else None)
      else None)"

subsection \<open>Submitting\<close>

text \<open>\<open>addIPs\<close> remembers the addresses with the mask of the first; an absent mask prints as \<open>undefined\<close>.\<close>

definition addIPs :: "ip_env \<Rightarrow> ip_dialog \<Rightarrow> js_error + ip_dialog" where
  "addIPs env d =
     (let sub = (case split_part (CHR ''/'') 1 (ai_publicIP d) of Some m \<Rightarrow> m | None \<Rightarrow> ''undefined'');
          start = start_of (ai_publicIP d);
          end' = (if ai_type d = IP_single then start else start_of (ai_toPublicIP d))
      in bindR (ie_getIPRange env start end') (\<lambda>ips. Inr (d\<lparr>ai_IPs := Some (map (\<lambda>ip. ip @ ''/'' @ sub) ips)\<rparr>)))"

definition showRange :: "ip_env \<Rightarrow> ip_dialog \<Rightarrow> js_error + ip_dialog" where
  "showRange env d = bindR (addIPs env d) (\<lambda>d'. Inr (d'\<lparr>ai_showIPs := True\<rparr>))"

definition reset_dialog :: "ip_dialog \<Rightarrow> ip_dialog" where
  "reset_dialog d = d\<lparr>ai_publicIP := [], ai_toPublicIP := [], ai_gateway := []\<rparr>"

text \<open>The watcher of the type empties the addresses too, but not what \<open>addIPs\<close> remembers.\<close>

definition change_type :: "IPType \<Rightarrow> ip_dialog \<Rightarrow> ip_dialog" where
  "change_type t d = (if ai_type d = t then d else reset_dialog (d\<lparr>ai_type := t\<rparr>))"

text \<open>What is sent to the chain: one address, or several in one batch that takes effect as a whole.\<close>

datatype ip_submission = AddOne int string string | AddBatch "(int \<times> string \<times> string) list"

definition submission :: "ip_dialog \<Rightarrow> int \<Rightarrow> string \<Rightarrow> ip_submission" where
  "submission d farmId gw = (case ai_IPs d of
     None \<Rightarrow> AddOne farmId (ai_publicIP d) gw
   | Some ips \<Rightarrow> if 1 < length ips then AddBatch (map (\<lambda>ip. (farmId, ip, gw)) ips) else AddOne farmId (ai_publicIP d) gw)"

datatype toast = Toast_success string | Toast_danger string

definition failure_toast :: "js_error \<Rightarrow> toast" where
  "failure_toast e =
     (if err_class e = C_TFChainError \<and> map_option keyError (err_chain e) = Some ''IpExists''
      then Toast_danger ''IP already exists.'' else Toast_danger (''Failed to add IP. '' @ error_to_string e))"

text \<open>The result: what was sent, if anything, what the user is told, and the dialog afterwards.\<close>

definition dialog_addFarmIp ::
  "ip_env \<Rightarrow> (ip_submission \<Rightarrow> js_error + unit) \<Rightarrow> int \<Rightarrow> string \<Rightarrow> ip_dialog \<Rightarrow> ip_submission option \<times> toast \<times> ip_dialog"
where
  "dialog_addFarmIp env chain farmId gw d =
     (let finally = (\<lambda>d. reset_dialog (d\<lparr>ai_isAdding := False\<rparr>)) in
      case (if ai_type d = IP_range then addIPs env d else Inr d) of
        Inl e \<Rightarrow> (None, failure_toast e, finally d)
      | Inr d' \<Rightarrow>
          (let sub = submission d' farmId gw in
           case chain sub of
             Inl e \<Rightarrow> (Some sub, failure_toast e, finally d')
           | Inr _ \<Rightarrow> (Some sub, Toast_success ''IP is added successfully.'', finally (d'\<lparr>ai_showDialogue := False\<rparr>))))"

text \<open>What a dialog that has passed its checks adds to the farm, and what it adds after a range was shown.\<close>

subsection \<open>Addresses of one network\<close>

definition address :: "nat \<Rightarrow> nat \<Rightarrow> nat \<Rightarrow> nat \<Rightarrow> string" where
  "address a b c n = join_with ''.'' (map show_nat [a, b, c, n])"

definition in_cidr :: "string \<Rightarrow> nat \<Rightarrow> string" where
  "in_cidr ip m = ip @ ''/'' @ show_nat m"

lemma shown_digit: "x \<in> set (show_nat n) \<Longrightarrow> is_digit x"
  using show_nat_digits [of n] by (simp add: list_all_iff)

lemma show_nat_free [simp]: "\<not> is_digit x \<Longrightarrow> x \<notin> set (show_nat n)"
  using shown_digit by blast

lemma not_digits [simp]: "\<not> is_digit (CHR ''.'')" "\<not> is_digit (CHR ''/'')"
  by (simp_all add: is_digit_def)

lemma address_no_slash [simp]: "CHR ''/'' \<notin> set (address a b c n)"
  by (simp add: address_def join_with_def)

lemma address_parts: "split_on (CHR ''.'') (address a b c n) = map show_nat [a, b, c, n]"
  unfolding address_def by (rule split_on_join) simp_all

lemma cidr_start [simp]: "start_of (in_cidr (address a b c n) m) = address a b c n"
  by (simp add: start_of_def in_cidr_def)

lemma cidr_mask [simp]: "split_part (CHR ''/'') (Suc 0) (in_cidr (address a b c n) m) = Some (show_nat m)"
  by (simp add: split_part_def in_cidr_def split_on_sep split_on_no_sep Let_def)

lemma cidr_octet [simp]: "last_octet (in_cidr (address a b c n) m) = Some n"
  by (simp add: last_octet_def split_part_def address_parts parseInt_def Let_def)

lemma before_last_dot_sep: "CHR ''.'' \<notin> set t \<Longrightarrow> before_last_dot (s @ CHR ''.'' # t) = s"
  by (simp add: before_last_dot_def dropWhile_append)

lemma cidr_prefix [simp]:
  "before_last_dot (in_cidr (address a b c n) m) = join_with ''.'' (map show_nat [a, b, c])"
proof -
  have "in_cidr (address a b c n) m = join_with ''.'' (map show_nat [a, b, c]) @ CHR ''.'' # (show_nat n @ ''/'' @ show_nat m)"
    by (simp add: in_cidr_def address_def join_with_def)
  then show ?thesis by (simp add: before_last_dot_sep)
qed

lemma same_network:
  "join_with ''.'' (map show_nat [a, b, c]) = join_with ''.'' (map show_nat [a', b', c']) \<longleftrightarrow> a = a' \<and> b = b' \<and> c = c'"
proof
  assume "join_with ''.'' (map show_nat [a, b, c]) = join_with ''.'' (map show_nat [a', b', c'])"
  then have "split_on (CHR ''.'') (join_with ''.'' (map show_nat [a, b, c])) = split_on (CHR ''.'') (join_with ''.'' (map show_nat [a', b', c']))"
    by simp
  then show "a = a' \<and> b = b' \<and> c = c'" by (simp add: split_on_join)
qed simp

subsection \<open>Ranges\<close>

text \<open>What \<open>get-ip-range\<close> documents: the addresses from the first to the last; here within one network.\<close>

definition ranges_inclusive :: "ip_env \<Rightarrow> bool" where
  "ranges_inclusive env \<longleftrightarrow> (\<forall>a b c x y. x \<le> y \<longrightarrow>
     ie_getIPRange env (address a b c x) (address a b c y) = Inr (map (address a b c) [x..<Suc y]))"

lemma addIPs_range:
  assumes "ai_type d = IP_range"
    and "ai_publicIP d = in_cidr (address a b c x) m" and "ai_toPublicIP d = in_cidr (address a b c y) m'"
    and "ie_getIPRange env (address a b c x) (address a b c y) = Inr (map (address a b c) ns)"
  shows "addIPs env d = Inr (d\<lparr>ai_IPs := Some (map (\<lambda>n. in_cidr (address a b c n) m) ns)\<rparr>)"
proof -
  have "(\<lambda>ip. ip @ ''/'' @ show_nat m) \<circ> address a b c = (\<lambda>n. in_cidr (address a b c n) m)"
    by (rule ext) (simp add: in_cidr_def)
  then show ?thesis using assms by (simp add: addIPs_def Let_def)
qed

text \<open>
  Two addresses that have passed the check of a range lie in one network with one mask, the second
  above the first, and what is submitted is one batch of the two to sixteen addresses from the first
  to the last, each with that mask and the gateway.
\<close>

theorem range_submitted:
  assumes env: "ranges_inclusive env" and ty: "ai_type d = IP_range"
    and fr: "ai_publicIP d = in_cidr (address a b c x) m" and to: "ai_toPublicIP d = in_cidr (address a' b' c' y) m'"
    and ok: "toIpCheck env d = Inr None"
  shows "m' = m \<and> x < y \<and> y < x + 16
    \<and> fst (dialog_addFarmIp env chain farmId gw d)
        = Some (AddBatch (map (\<lambda>n. (farmId, in_cidr (address a b c n) m, gw)) [x..<Suc y]))"
proof -
  have m: "m' = m" and lt: "x < y" and net: "a' = a" "b' = b" "c' = c" and sixteen: "y < x + 16"
    using ok by (auto simp: toIpCheck_def Let_def fr to octets_rel_def same_network simp del: list.map split: if_splits)
  have "ie_getIPRange env (address a b c x) (address a b c y) = Inr (map (address a b c) [x..<Suc y])"
    using env lt by (simp add: ranges_inclusive_def)
  then have "addIPs env d = Inr (d\<lparr>ai_IPs := Some (map (\<lambda>n. in_cidr (address a b c n) m) [x..<Suc y])\<rparr>)"
    using to net by (intro addIPs_range [OF ty fr]) simp_all
  moreover have len: "Suc 0 < Suc y - x" using lt by linarith
  ultimately have "fst (dialog_addFarmIp env chain farmId gw d)
      = Some (AddBatch (map (\<lambda>n. (farmId, in_cidr (address a b c n) m, gw)) [x..<Suc y]))"
    using len by (simp add: dialog_addFarmIp_def ty submission_def Let_def comp_def split: sum.splits del: upt_Suc)
  with m lt sixteen show ?thesis by simp
qed

lemma single_submitted:
  assumes "ai_type d = IP_single" and "ai_IPs d = None"
  shows "fst (dialog_addFarmIp env chain farmId gw d) = Some (AddOne farmId (ai_publicIP d) gw)"
  using assms by (simp add: dialog_addFarmIp_def submission_def Let_def split: sum.splits)

subsection \<open>Examples\<close>

text \<open>An environment whose ranges are those of the last octet.\<close>

definition octets_of :: "string \<Rightarrow> nat list" where
  "octets_of ip = map read_nat (split_on (CHR ''.'') ip)"

definition demo_env :: ip_env where
  "demo_env = \<lparr>ie_private = (\<lambda>_. False), ie_publicIps = (\<lambda>_. Inr []), ie_contains = (\<lambda>_ _. Inr True),
     ie_getIPRange = (\<lambda>fr to. let a = octets_of fr; b = octets_of to
        in Inr (map (address (a ! 0) (a ! 1) (a ! 2)) [a ! 3..<Suc (b ! 3)]))\<rparr>"

lemma demo_ranges: "ranges_inclusive demo_env"
  by (simp add: ranges_inclusive_def demo_env_def octets_of_def address_parts Let_def)

definition demo_dialog :: ip_dialog where
  "demo_dialog = new_dialog\<lparr>ai_type := IP_range, ai_publicIP := in_cidr (address 185 206 122 10) 24,
     ai_toPublicIP := in_cidr (address 185 206 122 12) 24, ai_gateway := address 185 206 122 1\<rparr>"

theorem range_submitted_witness:
  "fst (dialog_addFarmIp demo_env (\<lambda>_. Inr ()) 7 (address 185 206 122 1) demo_dialog)
     = Some (AddBatch (map (\<lambda>n. (7, in_cidr (address 185 206 122 n) 24, address 185 206 122 1)) [10..<Suc 12]))"
proof -
  have "toIpCheck demo_env demo_dialog = Inr None"
    by (simp add: toIpCheck_def demo_dialog_def octets_rel_def Let_def IpExistsCheck_def) (simp add: demo_env_def)
  then show ?thesis
    using range_submitted [OF demo_ranges, of demo_dialog 185 206 122 10 24 185 206 122 12 24] by (simp add: demo_dialog_def del: upt_Suc)
qed

text \<open>
  After a range has been submitted (or shown), a single address that is entered next is not added:
  the range that the dialog still remembers is submitted again.
\<close>

definition after_range :: ip_dialog where
  "after_range = (change_type IP_single (snd (snd (dialog_addFarmIp demo_env (\<lambda>_. Inr ()) 7 (address 185 206 122 1) demo_dialog))))
     \<lparr>ai_publicIP := in_cidr (address 185 206 122 40) 24, ai_gateway := address 185 206 122 1\<rparr>"

theorem stale_range_submitted:
  "ai_type after_range = IP_single \<and> ai_publicIP after_range = in_cidr (address 185 206 122 40) 24
   \<and> fst (dialog_addFarmIp demo_env (\<lambda>_. Inr ()) 7 (address 185 206 122 1) after_range)
     = Some (AddBatch (map (\<lambda>n. (7, in_cidr (address 185 206 122 n) 24, address 185 206 122 1)) [10, 11, 12]))"
proof -
  have "ie_getIPRange demo_env (address 185 206 122 10) (address 185 206 122 12)
      = Inr (map (address 185 206 122) [10, 11, 12])"
    by (simp add: demo_env_def octets_of_def address_parts Let_def upt_rec)
  then have "addIPs demo_env demo_dialog = Inr (demo_dialog\<lparr>ai_IPs := Some (map (\<lambda>n. in_cidr (address 185 206 122 n) 24) [10, 11, 12])\<rparr>)"
    by (intro addIPs_range [where x = 10 and y = 12 and m' = 24]) (simp_all add: demo_dialog_def)
  then show ?thesis
    by (simp add: after_range_def change_type_def reset_dialog_def dialog_addFarmIp_def submission_def Let_def)
      (simp add: demo_dialog_def)
qed

end
