(* ===== verification/SshKeys.thy ===== *)
theory SshKeys
  imports Errors
begin

text \<open>
  The SSH keys of a user: the keys and names that \<open>playground/src/utils/ssh.ts\<close> manages, the metadata
  object in the key-value store that holds them (\<open>utils/grid.ts\<close>), and the page that changes them
  (\<open>views/sshkey_view.vue\<close>, \<open>components/ssh_keys/SshFormDialog.vue\<close>).  Parameters: the MD5 digest, a
  random index, and how the store answers.
\<close>

subsection \<open>Keys\<close>

record SSHKeyData =
  sk_id :: int
  sk_publicKey :: string
  sk_name :: string
  sk_createdAt :: string
  sk_isActive :: bool
  sk_fingerPrint :: "string option"
  sk_deleting :: "bool option"
  sk_activating :: "bool option"

text \<open>The \<open>ssh\<close> of a profile: a plain key of old, the keys, or nothing yet.\<close>

datatype profile_ssh = Old_key string | Key_list "SSHKeyData list" | No_keys

definition migrated :: "profile_ssh \<Rightarrow> bool" where
  "migrated ssh \<longleftrightarrow> (case ssh of Old_key s \<Rightarrow> False | _ \<Rightarrow> True)"

fun colon_pairs :: "string \<Rightarrow> string" where
  "colon_pairs (x # y # z # zs) = x # y # CHR '':'' # colon_pairs (z # zs)"
| "colon_pairs s = s"

definition to_upper_char :: "char \<Rightarrow> char" where
  "to_upper_char c =
     (if 97 \<le> (of_char c :: nat) \<and> (of_char c :: nat) \<le> 122 then char_of ((of_char c :: nat) - 32) else c)"

record public_key_parts =
  pk_type :: "string option"
  pk_data :: "string option"
  pk_comment :: "string option"

definition nth_option :: "'a list \<Rightarrow> nat \<Rightarrow> 'a option" where
  "nth_option xs i = (if i < length xs then Some (xs ! i) else None)"

definition parsePublicKey :: "string \<Rightarrow> public_key_parts" where
  "parsePublicKey publicKey = (let parts = split_on (CHR '' '') publicKey
     in \<lparr>pk_type = nth_option parts 0, pk_data = nth_option parts 1, pk_comment = nth_option parts 2\<rparr>)"

definition calculateFingerprint :: "(string \<Rightarrow> string) \<Rightarrow> string \<Rightarrow> string" where
  "calculateFingerprint md5_hex publicKey = (case pk_data (parsePublicKey publicKey) of
     None \<Rightarrow> ''-''
   | Some data \<Rightarrow> if data = [] then ''-'' else map to_upper_char (colon_pairs (md5_hex data)))"

definition list_keys :: "(string \<Rightarrow> string) \<Rightarrow> profile_ssh \<Rightarrow> SSHKeyData list" where
  "list_keys md5_hex ssh = (case ssh of
     Key_list keys \<Rightarrow> map (\<lambda>k. k\<lparr>sk_fingerPrint := Some (calculateFingerprint md5_hex (sk_publicKey k))\<rparr>) keys
   | _ \<Rightarrow> [])"

definition key_words :: "string list" where
  "key_words = [''moon'', ''earth'', ''sun'', ''star'', ''galaxy'', ''nebula'', ''comet'', ''planet'', ''asteroid'', ''satellite'',
     ''mercury'', ''venus'', ''mars'', ''jupiter'', ''saturn'', ''uranus'', ''neptune'', ''pluto'', ''meteor'', ''cosmos'']"

text \<open>\<open>random\<close> is \<open>Math.floor(Math.random() * n)\<close>.\<close>

definition generateName :: "(string \<Rightarrow> string) \<Rightarrow> (nat \<Rightarrow> nat) \<Rightarrow> profile_ssh \<Rightarrow> string option" where
  "generateName md5_hex random ssh =
     (let blockedNames = map sk_name (list_keys md5_hex ssh);
          availableNames = filter (\<lambda>n. n \<notin> set blockedNames) key_words
      in if availableNames = [] then None else Some (availableNames ! random (length availableNames)))"

definition migrate_key :: "(string \<Rightarrow> string) \<Rightarrow> (nat \<Rightarrow> nat) \<Rightarrow> string \<Rightarrow> string \<Rightarrow> SSHKeyData list" where
  "migrate_key md5_hex random today oldKey =
     (let parts = split_on (CHR '' '') oldKey;
          keyName = (if length parts < 3 then the (generateName md5_hex random (Old_key oldKey)) else last parts)
      in [\<lparr>sk_id = 1, sk_publicKey = oldKey, sk_name = keyName, sk_createdAt = today, sk_isActive = True,
           sk_fingerPrint = None, sk_deleting = None, sk_activating = None\<rparr>])"

definition availableName :: "(string \<Rightarrow> string) \<Rightarrow> profile_ssh \<Rightarrow> string \<Rightarrow> bool" where
  "availableName md5_hex ssh keyName \<longleftrightarrow> \<not> list_ex (\<lambda>k. sk_name k = keyName) (list_keys md5_hex ssh)"

definition availablePublicKey :: "(string \<Rightarrow> string) \<Rightarrow> profile_ssh \<Rightarrow> string \<Rightarrow> bool" where
  "availablePublicKey md5_hex ssh publicKey \<longleftrightarrow> \<not> list_ex (\<lambda>k. sk_publicKey k = publicKey) (list_keys md5_hex ssh)"

definition js_space :: "char \<Rightarrow> bool" where
  "js_space c \<longleftrightarrow> of_char c \<in> {9, 10, 11, 12, 13, 32 :: nat}"

definition after_type :: "string \<Rightarrow> bool" where
  "after_type s \<longleftrightarrow> (let sp = takeWhile js_space s; tl = dropWhile js_space s
     in sp \<noteq> [] \<and> 2 \<le> length (takeWhile (\<lambda>c. \<not> js_space c) tl))"

text \<open>\<open>/^(ssh-rsa|ssh-dss|ecdsa-[a-zA-Z0-9-]+|ssh-ed25519)\s+(\S+)+\S/\<close> for ASCII texts.\<close>

definition ecdsa_char :: "char \<Rightarrow> bool" where
  "ecdsa_char c \<longleftrightarrow> is_alpha c \<or> is_digit c \<or> c = CHR ''-''"

definition isValidSSHKey :: "string \<Rightarrow> bool" where
  "isValidSSHKey key \<longleftrightarrow>
     list_ex (\<lambda>t. prefix t key \<and> after_type (drop (length t) key)) [''ssh-rsa'', ''ssh-dss'', ''ssh-ed25519'']
     \<or> (prefix ''ecdsa-'' key \<and> ecdsa_char (hd (drop 6 key @ '' '')) \<and> after_type (dropWhile ecdsa_char (drop 6 key)))"

subsection \<open>The metadata\<close>

datatype metadata_value = MV_keys "SSHKeyData list" | MV_text string

type_synonym metadata = "(string \<times> metadata_value) list"

text \<open>How the store answers: reading may fail, and so may writing, after which the store is as before.\<close>

record store_env =
  st_grid :: bool
  st_read :: bool
  st_write :: "js_error option"

definition getMetadata :: "store_env \<Rightarrow> metadata \<Rightarrow> metadata" where
  "getMetadata env stored = (if st_read env then stored else [])"

definition dump_metadata :: "store_env \<Rightarrow> string \<Rightarrow> metadata_value \<Rightarrow> metadata \<Rightarrow> (js_error + unit) \<times> metadata" where
  "dump_metadata env k v stored = (case st_write env of
     Some e \<Rightarrow> (Inl e, stored)
   | None \<Rightarrow> (Inr (), obj_set k v (getMetadata env stored)))"

definition readSSH :: "store_env \<Rightarrow> metadata \<Rightarrow> metadata_value option" where
  "readSSH env stored = map_of (getMetadata env stored) ''sshkey''"

definition storeSSH :: "store_env \<Rightarrow> SSHKeyData list \<Rightarrow> metadata \<Rightarrow> (js_error + unit) \<times> metadata" where
  "storeSSH env newSSH stored = dump_metadata env ''sshkey'' (MV_keys newSSH) stored"

definition readEmail :: "store_env \<Rightarrow> metadata \<Rightarrow> string" where
  "readEmail env stored = (case map_of (getMetadata env stored) ''email'' of Some (MV_text t) \<Rightarrow> t | _ \<Rightarrow> [])"

definition storeEmail :: "store_env \<Rightarrow> string \<Rightarrow> metadata \<Rightarrow> (js_error + unit) \<times> metadata" where
  "storeEmail env newEmail stored =
     (if map_of (getMetadata env stored) ''email'' = Some (MV_text newEmail) then (Inr (), stored)
      else dump_metadata env ''email'' (MV_text newEmail) stored)"

subsection \<open>The page\<close>

record ssh_page =
  sp_allKeys :: "SSHKeyData list"
  sp_stored :: metadata
  sp_profile :: profile_ssh

definition stored_key :: "SSHKeyData \<Rightarrow> SSHKeyData" where
  "stored_key k = k\<lparr>sk_fingerPrint := None, sk_deleting := None, sk_activating := None\<rparr>"

text \<open>Without a grid \<open>update\<close> shows a message and returns as if it had stored the keys.\<close>

definition update_keys :: "store_env \<Rightarrow> SSHKeyData list \<Rightarrow> ssh_page \<Rightarrow> (js_error + unit) \<times> ssh_page" where
  "update_keys env keys p =
     (if \<not> st_grid env then (Inr (), p)
      else let copiedKeys = map stored_key keys in
        case storeSSH env copiedKeys (sp_stored p) of
          (Inl e, stored) \<Rightarrow> (Inl e, p\<lparr>sp_stored := stored\<rparr>)
        | (Inr _, stored) \<Rightarrow> (Inr (), p\<lparr>sp_stored := stored, sp_profile := Key_list copiedKeys\<rparr>))"

definition map_key :: "int \<Rightarrow> (SSHKeyData \<Rightarrow> SSHKeyData) \<Rightarrow> ssh_page \<Rightarrow> ssh_page" where
  "map_key i f p = p\<lparr>sp_allKeys := map (\<lambda>k. if sk_id k = i then f k else k) (sp_allKeys p)\<rparr>"

definition flip_active :: "SSHKeyData \<Rightarrow> SSHKeyData" where
  "flip_active k = k\<lparr>sk_isActive := \<not> sk_isActive k\<rparr>"

text \<open>The key is the object in the array, which is the one with its id as long as ids are distinct.\<close>

definition updateActivation :: "store_env \<Rightarrow> int \<Rightarrow> ssh_page \<Rightarrow> ssh_page" where
  "updateActivation env i p =
     (let p1 = map_key i (\<lambda>k. flip_active (k\<lparr>sk_activating := Some True\<rparr>)) p in
      case update_keys env (sp_allKeys p1) p1 of
        (Inr _, p2) \<Rightarrow> map_key i (\<lambda>k. k\<lparr>sk_activating := Some False\<rparr>) p2
      | (Inl e, p2) \<Rightarrow> map_key i (\<lambda>k. (flip_active k)\<lparr>sk_activating := Some False\<rparr>) p2)"

definition deleteKey :: "store_env \<Rightarrow> int list \<Rightarrow> ssh_page \<Rightarrow> ssh_page" where
  "deleteKey env ids p =
     (let kept = filter (\<lambda>k. sk_id k \<notin> set ids) (sp_allKeys p);
          p1 = p\<lparr>sp_allKeys := map (\<lambda>k. if sk_id k \<in> set ids then k\<lparr>sk_deleting := Some True\<rparr> else k) (sp_allKeys p)\<rparr>
      in case update_keys env kept p1 of
           (Inl e, p2) \<Rightarrow> p2
         | (Inr _, p2) \<Rightarrow> p2\<lparr>sp_allKeys := kept\<rparr>)"

definition add_stored :: "store_env \<Rightarrow> SSHKeyData \<Rightarrow> ssh_page \<Rightarrow> ssh_page" where
  "add_stored env key p =
     (let keys = sp_allKeys p @ [key] in
      case update_keys env keys p of
        (Inl e, p2) \<Rightarrow> p2
      | (Inr _, p2) \<Rightarrow> p2\<lparr>sp_allKeys := keys\<rparr>)"

definition addKey :: "(string \<Rightarrow> string) \<Rightarrow> store_env \<Rightarrow> SSHKeyData \<Rightarrow> ssh_page \<Rightarrow> ssh_page" where
  "addKey md5_hex env key p =
     add_stored env (if sk_fingerPrint key \<in> {None, Some []}
       then key\<lparr>sk_fingerPrint := Some (calculateFingerprint md5_hex (sk_publicKey key))\<rparr> else key) p"

definition generateSSHKeys :: "(string \<Rightarrow> string) \<Rightarrow> store_env \<Rightarrow> string \<Rightarrow> SSHKeyData \<Rightarrow> ssh_page \<Rightarrow> ssh_page" where
  "generateSSHKeys md5_hex env generated key p =
     add_stored env (key\<lparr>sk_fingerPrint := Some (calculateFingerprint md5_hex generated), sk_publicKey := generated\<rparr>) p"

text \<open>The edited key replaces the first with its id; this stays when it could not be stored.\<close>

fun replace_first :: "SSHKeyData \<Rightarrow> SSHKeyData list \<Rightarrow> SSHKeyData list" where
  "replace_first k [] = []"
| "replace_first k (x # xs) = (if sk_id x = sk_id k then k # xs else x # replace_first k xs)"

definition updateKeys :: "store_env \<Rightarrow> SSHKeyData \<Rightarrow> ssh_page \<Rightarrow> ssh_page" where
  "updateKeys env key p =
     (let p1 = p\<lparr>sp_allKeys := replace_first key (sp_allKeys p)\<rparr> in snd (update_keys env (sp_allKeys p1) p1))"

subsection \<open>The dialog\<close>

definition next_id :: "SSHKeyData list \<Rightarrow> int" where
  "next_id keys = (if keys = [] then 1 else sk_id (last keys) + 1)"

definition new_key :: "string \<Rightarrow> string \<Rightarrow> string \<Rightarrow> SSHKeyData list \<Rightarrow> SSHKeyData" where
  "new_key today name publicKey keys = \<lparr>sk_id = next_id keys, sk_publicKey = publicKey, sk_name = name, sk_createdAt = today,
     sk_isActive = True, sk_fingerPrint = None, sk_deleting = None, sk_activating = None\<rparr>"

definition imported_name :: "(string \<Rightarrow> string) \<Rightarrow> profile_ssh \<Rightarrow> string \<Rightarrow> string \<Rightarrow> string" where
  "imported_name md5_hex ssh keyName publicKey =
     (let parts = split_on (CHR '' '') publicKey in
      if length parts = 3 \<and> keyName = [] \<and> length (last parts) < 30 \<and> availableName md5_hex ssh (last parts)
      then last parts else keyName)"

definition createNewSSHKey :: "(string \<Rightarrow> string) \<Rightarrow> profile_ssh \<Rightarrow> string \<Rightarrow> string \<Rightarrow> string \<Rightarrow> SSHKeyData list \<Rightarrow> SSHKeyData" where
  "createNewSSHKey md5_hex ssh today keyName publicKey keys =
     new_key today (imported_name md5_hex ssh keyName publicKey) publicKey keys"

definition generateSSHKey :: "string \<Rightarrow> string \<Rightarrow> SSHKeyData list \<Rightarrow> SSHKeyData" where
  "generateSSHKey today keyName keys = new_key today keyName [] keys"

text \<open>When all words are taken, the name of the last key with its last digit increased, or with \<open>-1\<close>.\<close>

definition next_name :: "string \<Rightarrow> string" where
  "next_name lastKeyName =
     (if lastKeyName \<noteq> [] \<and> is_digit (last lastKeyName)
      then butlast lastKeyName @ show_nat (char_digit (last lastKeyName) + 1) else lastKeyName @ ''-1'')"

definition generateUniqueSSHKeyName :: "(string \<Rightarrow> string) \<Rightarrow> (nat \<Rightarrow> nat) \<Rightarrow> profile_ssh \<Rightarrow> string" where
  "generateUniqueSSHKeyName md5_hex random ssh = (case generateName md5_hex random ssh of
     Some n \<Rightarrow> n
   | None \<Rightarrow> next_name (sk_name (last (list_keys md5_hex ssh))))"

end
