(* ===== verification/SshKeysProps.thy ===== *)
theory SshKeysProps
  imports SshKeys
begin

text \<open>The keys of the page and those in the store, whatever the user does and the store answers.\<close>

subsection \<open>The page and the store\<close>

datatype ssh_op = Op_activate int | Op_delete "int list" | Op_add string string string
  | Op_generate string string string | Op_edit SSHKeyData

fun ssh_step :: "(string \<Rightarrow> string) \<Rightarrow> store_env \<times> ssh_op \<Rightarrow> ssh_page \<Rightarrow> ssh_page" where
  "ssh_step md5 (env, Op_activate i) p = updateActivation env i p"
| "ssh_step md5 (env, Op_delete ids) p = deleteKey env ids p"
| "ssh_step md5 (env, Op_add today name key) p =
     addKey md5 env (createNewSSHKey md5 (sp_profile p) today name key (sp_allKeys p)) p"
| "ssh_step md5 (env, Op_generate today name generated) p =
     generateSSHKeys md5 env generated (generateSSHKey today name (sp_allKeys p)) p"
| "ssh_step md5 (env, Op_edit key) p = updateKeys env key p"

definition ids_ascend :: "SSHKeyData list \<Rightarrow> bool" where
  "ids_ascend keys \<longleftrightarrow> sorted_wrt (<) (map sk_id keys)"

definition in_step :: "ssh_page \<Rightarrow> bool" where
  "in_step p \<longleftrightarrow> map_of (sp_stored p) ''sshkey'' = Some (MV_keys (map stored_key (sp_allKeys p)))"

lemma update_keys_cases:
  assumes "st_grid env"
  obtains e where "st_write env = Some e" "update_keys env keys p = (Inl e, p)"
  | "st_write env = None" "update_keys env keys p = (Inr (), p\<lparr>sp_stored := obj_set ''sshkey''
       (MV_keys (map stored_key keys)) (getMetadata env (sp_stored p)), sp_profile := Key_list (map stored_key keys)\<rparr>)"
  using assms by (cases "st_write env") (auto simp: update_keys_def storeSSH_def dump_metadata_def Let_def)

lemma stored_key_flags [simp]:
  "stored_key (k\<lparr>sk_activating := a\<rparr>) = stored_key k" "stored_key (k\<lparr>sk_deleting := d\<rparr>) = stored_key k"
  "stored_key (k\<lparr>sk_fingerPrint := f\<rparr>) = stored_key k"
  by (simp_all add: stored_key_def)

lemma flip_flip [simp]: "stored_key (flip_active (flip_active k\<lparr>sk_activating := a\<rparr>)) = stored_key k"
  "stored_key (flip_active (flip_active (k\<lparr>sk_activating := a\<rparr>))) = stored_key k"
  "sk_id (flip_active k) = sk_id k"
  by (simp_all add: stored_key_def flip_active_def)

lemma map_key_simps [simp]:
  "sp_allKeys (map_key i f p) = map (\<lambda>k. if sk_id k = i then f k else k) (sp_allKeys p)"
  "sp_stored (map_key i f p) = sp_stored p"
  by (simp_all add: map_key_def)

lemma activation_in_step:
  assumes "st_grid env" and "in_step p"
  shows "in_step (updateActivation env i p)"
proof -
  let ?p = "map_key i (\<lambda>k. flip_active (k\<lparr>sk_activating := Some True\<rparr>)) p"
  show ?thesis
    using assms(2) by (cases rule: update_keys_cases [OF assms(1), of "sp_allKeys ?p" ?p])
      (simp_all add: updateActivation_def in_step_def Let_def comp_def if_distrib cong: if_cong)
qed

lemma delete_in_step:
  assumes "st_grid env" and "in_step p"
  shows "in_step (deleteKey env ids p)"
proof -
  let ?p = "p\<lparr>sp_allKeys := map (\<lambda>k. if sk_id k \<in> set ids then k\<lparr>sk_deleting := Some True\<rparr> else k) (sp_allKeys p)\<rparr>"
  let ?kept = "filter (\<lambda>k. sk_id k \<notin> set ids) (sp_allKeys p)"
  show ?thesis
    using assms(2) by (cases rule: update_keys_cases [OF assms(1), of ?kept ?p])
      (simp_all add: deleteKey_def in_step_def Let_def comp_def if_distrib cong: if_cong)
qed

lemma add_in_step:
  assumes "st_grid env" and "in_step p"
  shows "in_step (add_stored env key p)"
  using assms(2) by (cases rule: update_keys_cases [OF assms(1), of "sp_allKeys p @ [key]" p])
    (simp_all add: add_stored_def in_step_def Let_def)

lemma edit_in_step:
  assumes "st_grid env" and "st_write env = None"
  shows "in_step (updateKeys env key p)"
  using assms(2) by (cases rule: update_keys_cases [OF assms(1), of "replace_first key (sp_allKeys p)"
      "p\<lparr>sp_allKeys := replace_first key (sp_allKeys p)\<rparr>"])
    (simp_all add: updateKeys_def in_step_def Let_def)

text \<open>Once the store takes the keys they are those of the page, whatever was there before.\<close>

definition takes_keys :: "store_env \<Rightarrow> bool" where
  "takes_keys env \<longleftrightarrow> st_grid env \<and> st_write env = None"

lemma update_keys_taken:
  "takes_keys env \<Longrightarrow> update_keys env keys p = (Inr (), p\<lparr>sp_stored := obj_set ''sshkey''
     (MV_keys (map stored_key keys)) (getMetadata env (sp_stored p)), sp_profile := Key_list (map stored_key keys)\<rparr>)"
  by (simp add: takes_keys_def update_keys_def storeSSH_def dump_metadata_def Let_def)

lemma step_heals: "takes_keys (fst eo) \<Longrightarrow> in_step (ssh_step md5 eo p)"
  by (cases eo; cases "snd eo") (simp_all add: updateActivation_def deleteKey_def addKey_def generateSSHKeys_def add_stored_def updateKeys_def
      update_keys_taken in_step_def Let_def comp_def if_distrib cong: if_cong)

definition op_safe :: "store_env \<times> ssh_op \<Rightarrow> bool" where
  "op_safe eo \<longleftrightarrow> st_grid (fst eo) \<and> (case snd eo of Op_edit k \<Rightarrow> st_write (fst eo) = None | _ \<Rightarrow> True)"

lemma step_in_step: "op_safe eo \<Longrightarrow> in_step p \<Longrightarrow> in_step (ssh_step md5 eo p)"
  by (cases "(md5, eo, p)" rule: ssh_step.cases)
    (auto simp: op_safe_def addKey_def generateSSHKeys_def intro: activation_in_step delete_in_step add_in_step edit_in_step)

subsection \<open>Ids\<close>

lemma update_keys_allKeys [simp]: "update_keys env keys p = (r, p') \<Longrightarrow> sp_allKeys p' = sp_allKeys p"
  by (auto simp: update_keys_def Let_def split: if_splits prod.splits sum.splits)

lemma allKeys_after_update [simp]: "sp_allKeys (snd (update_keys env keys p)) = sp_allKeys p"
  by (cases "update_keys env keys p") simp

lemma map_key_ids: "(\<And>k. sk_id (f k) = sk_id k) \<Longrightarrow> map sk_id (sp_allKeys (map_key i f p)) = map sk_id (sp_allKeys p)"
  by simp

lemma activation_ids: "map sk_id (sp_allKeys (updateActivation env i p)) = map sk_id (sp_allKeys p)"
proof -
  let ?p = "map_key i (\<lambda>k. flip_active (k\<lparr>sk_activating := Some True\<rparr>)) p"
  obtain r p2 where u: "update_keys env (sp_allKeys ?p) ?p = (r, p2)" by fastforce
  then have "map sk_id (sp_allKeys p2) = map sk_id (sp_allKeys p)"
    by (simp only: update_keys_allKeys [OF u]) (intro map_key_ids, simp)
  moreover have "map sk_id (sp_allKeys (updateActivation env i p)) = map sk_id (sp_allKeys p2)"
    by (cases r) (simp_all only: updateActivation_def u Let_def prod.case sum.case, (intro map_key_ids, simp)+)
  ultimately show ?thesis by simp
qed

lemma replace_first_ids: "map sk_id (replace_first key keys) = map sk_id keys"
  by (induction keys) auto

lemma ascend_append: "ids_ascend keys \<Longrightarrow> sk_id key = next_id keys \<Longrightarrow> ids_ascend (keys @ [key])"
proof (cases keys rule: rev_cases)
  case (snoc xs x)
  assume "ids_ascend keys" "sk_id key = next_id keys"
  with snoc show ?thesis by (force simp: ids_ascend_def next_id_def sorted_wrt_append)
qed (simp add: ids_ascend_def)

lemma add_ids:
  "ids_ascend (sp_allKeys p) \<Longrightarrow> sk_id key = next_id (sp_allKeys p) \<Longrightarrow> ids_ascend (sp_allKeys (add_stored env key p))"
  by (auto simp: add_stored_def Let_def ascend_append dest: update_keys_allKeys split: prod.splits sum.splits)

lemma delete_ids:
  assumes "ids_ascend (sp_allKeys p)"
  shows "ids_ascend (sp_allKeys (deleteKey env ids p))"
proof -
  have "sk_id \<circ> (\<lambda>k :: SSHKeyData. if sk_id k \<in> set ids then k\<lparr>sk_deleting := Some True\<rparr> else k) = sk_id"
    by (rule ext) simp
  moreover have "ids_ascend (filter (\<lambda>k. sk_id k \<notin> set ids) (sp_allKeys p))"
    using assms by (simp add: ids_ascend_def sorted_wrt_map sorted_wrt_filter)
  ultimately show ?thesis
    using assms by (auto simp: deleteKey_def Let_def ids_ascend_def dest: update_keys_allKeys split: prod.splits sum.splits)
qed

lemma new_key_id [simp]: "sk_id (new_key today name key keys) = next_id keys"
  by (simp add: new_key_def)

lemma step_ids: "ids_ascend (sp_allKeys p) \<Longrightarrow> ids_ascend (sp_allKeys (ssh_step md5 eo p))"
  by (cases "(md5, eo, p)" rule: ssh_step.cases)
    (auto simp: addKey_def generateSSHKeys_def createNewSSHKey_def generateSSHKey_def updateKeys_def Let_def
      ids_ascend_def [of "sp_allKeys (updateActivation _ _ _)"] ids_ascend_def [of "replace_first _ _"]
      activation_ids replace_first_ids ids_ascend_def [symmetric] intro: delete_ids add_ids)

text \<open>
  C26: Whatever is done on the page of SSH keys, with or without a connected grid and whether the store
  takes the keys or not, no two keys have one id.  The keys in the store are those on the page at the
  start (\<open>pre = []\<close>) or from any operation whose keys the store took, and stay so as long as every
  operation has a grid (the store may refuse it) and every edit is stored: without a grid, and after an
  edit that was refused, the page shows what is not in the store.  The page has to start with ascending ids.
\<close>

theorem keys_in_step:
  assumes "ids_ascend (sp_allKeys p)" and "p' = fold (ssh_step md5) (pre @ post) p"
  shows "distinct (map sk_id (sp_allKeys p'))
    \<and> ((if pre = [] then in_step p else takes_keys (fst (last pre))) \<and> (\<forall>eo \<in> set post. op_safe eo) \<longrightarrow>
        map_of (sp_stored p') ''sshkey'' = Some (MV_keys (map stored_key (sp_allKeys p'))))"
proof -
  let ?q = "fold (ssh_step md5) pre p"
  have ids: "ids_ascend (sp_allKeys q) \<Longrightarrow> ids_ascend (sp_allKeys (fold (ssh_step md5) os q))" for os q
    by (induction os arbitrary: q) (simp_all add: step_ids)
  have start: "in_step ?q" if "if pre = [] then in_step p else takes_keys (fst (last pre))"
    using that by (cases pre rule: rev_cases) (simp_all add: step_heals)
  have "in_step q \<Longrightarrow> \<forall>eo \<in> set post. op_safe eo \<Longrightarrow> in_step (fold (ssh_step md5) post q)" for q
    by (induction post arbitrary: q) (simp_all add: step_in_step)
  from this [OF start] ids [OF assms(1), of "pre @ post"] show ?thesis
    by (auto simp: assms(2) in_step_def ids_ascend_def strict_sorted_iff)
qed

subsection \<open>Names\<close>

text \<open>A generated name is one of the words and not in use; there is none only when all words are.\<close>

theorem generated_name_unused:
  assumes "\<And>n. 0 < n \<Longrightarrow> random n < n"
  shows "case generateName md5 random ssh of
      Some n \<Rightarrow> n \<in> set key_words \<and> availableName md5 ssh n
    | None \<Rightarrow> \<forall>w \<in> set key_words. \<not> availableName md5 ssh w"
proof -
  let ?free = "filter (\<lambda>n. n \<notin> set (map sk_name (list_keys md5 ssh))) key_words"
  have unused: "availableName md5 ssh n \<longleftrightarrow> n \<notin> set (map sk_name (list_keys md5 ssh))" for n
    by (auto simp: availableName_def list_ex_iff)
  show ?thesis
  proof (cases "?free = []")
    case True
    then have "generateName md5 random ssh = None" by (simp add: generateName_def Let_def)
    moreover have "\<forall>w \<in> set key_words. \<not> availableName md5 ssh w"
      using True by (simp add: unused filter_empty_conv)
    ultimately show ?thesis by simp
  next
    case False
    then have "?free ! random (length ?free) \<in> set ?free" by (intro nth_mem assms) simp
    moreover have "generateName md5 random ssh = Some (?free ! random (length ?free))"
      using False by (simp add: generateName_def Let_def)
    ultimately show ?thesis by (simp add: unused)
  qed
qed

text \<open>Once all are in use, the name that is proposed can be that of another key.\<close>

lemma next_name_examples: "next_name ''moon-1'' = ''moon-2''" "next_name ''moon-19'' = ''moon-110''" "next_name ''moon'' = ''moon-1''"
  by code_simp+

subsection \<open>Metadata\<close>

text \<open>Storing keys keeps the other fields, unless reading the metadata failed: then they are gone.\<close>

theorem other_metadata_kept:
  assumes "storeSSH env keys stored = (Inr (), stored')" and "k \<noteq> ''sshkey''"
  shows "map_of stored' k = (if st_read env then map_of stored k else None)"
  using assms by (auto simp: storeSSH_def dump_metadata_def getMetadata_def split: option.splits)

theorem stored_keys_read:
  assumes "storeSSH env keys stored = (Inr (), stored')" and "st_read env'"
  shows "readSSH env' stored' = Some (MV_keys keys)"
  using assms by (auto simp: storeSSH_def dump_metadata_def readSSH_def getMetadata_def split: option.splits)

theorem unread_email_lost:
  "\<exists>stored'. storeSSH \<lparr>st_grid = True, st_read = False, st_write = None\<rparr> [] [(''email'', MV_text ''a@b.c'')] = (Inr (), stored')
     \<and> readEmail \<lparr>st_grid = True, st_read = True, st_write = None\<rparr> stored' = []"
  by (simp add: storeSSH_def dump_metadata_def getMetadata_def readEmail_def)

subsection \<open>Examples\<close>

definition good_store :: store_env where "good_store = \<lparr>st_grid = True, st_read = True, st_write = None\<rparr>"

definition full_store :: store_env where
  "full_store = \<lparr>st_grid = True, st_read = True, st_write = Some (InsufficientBalanceError ''too low'')\<rparr>"

definition no_grid :: store_env where
  "no_grid = \<lparr>st_grid = False, st_read = True, st_write = None\<rparr>"

definition demo_key :: "int \<Rightarrow> string \<Rightarrow> SSHKeyData" where
  "demo_key i n = \<lparr>sk_id = i, sk_publicKey = ''ssh-rsa AAAA me'', sk_name = n, sk_createdAt = ''1-1-2024'', sk_isActive = True,
     sk_fingerPrint = None, sk_deleting = None, sk_activating = None\<rparr>"

definition demo_page :: ssh_page where
  "demo_page = \<lparr>sp_allKeys = [demo_key 1 ''moon'', demo_key 3 ''sun''],
     sp_stored = [(''sshkey'', MV_keys [demo_key 1 ''moon'', demo_key 3 ''sun''])],
     sp_profile = Key_list [demo_key 1 ''moon'', demo_key 3 ''sun'']\<rparr>"

definition demo_ops :: "(store_env \<times> ssh_op) list" where
  "demo_ops = [(good_store, Op_add ''2-1-2024'' ''star'' ''ssh-rsa BBBB''), (full_store, Op_delete [1]), (full_store, Op_activate 3)]"

lemma demo_page_ok: "ids_ascend (sp_allKeys demo_page)" "in_step demo_page" "\<forall>eo \<in> set demo_ops. op_safe eo"
  by (simp_all add: demo_page_def ids_ascend_def in_step_def demo_key_def stored_key_def demo_ops_def op_safe_def
      good_store_def full_store_def)

theorem keys_in_step_witness:
  "let p' = fold (ssh_step (\<lambda>_. [])) ([(no_grid, Op_add ''2-1-2024'' ''mars'' ''ssh-rsa CCCC''), (good_store, Op_edit (demo_key 3 ''comet''))] @ demo_ops) demo_page
   in distinct (map sk_id (sp_allKeys p')) \<and> length (sp_allKeys p') = 4
     \<and> map_of (sp_stored p') ''sshkey'' = Some (MV_keys (map stored_key (sp_allKeys p')))"
proof -
  let ?pre = "[(no_grid, Op_add ''2-1-2024'' ''mars'' ''ssh-rsa CCCC''), (good_store, Op_edit (demo_key 3 ''comet''))]"
  have n: "length (sp_allKeys (fold (ssh_step (\<lambda>_. [])) (?pre @ demo_ops) demo_page)) = 4"
    by code_simp
  have "takes_keys (fst (last ?pre))" by (simp add: takes_keys_def good_store_def)
  then show ?thesis
    using keys_in_step [OF demo_page_ok(1) refl, of "\<lambda>_. []" ?pre demo_ops] n demo_page_ok(3) unfolding Let_def by fastforce
qed

text \<open>Without a grid an added key is on the page and not in the store.\<close>

theorem unstored_without_grid:
  "map sk_name (sp_allKeys (ssh_step (\<lambda>_. []) (no_grid, Op_add ''2-1-2024'' ''star'' ''ssh-rsa BBBB'') demo_page))
     = [''moon'', ''sun'', ''star'']
   \<and> sp_stored (ssh_step (\<lambda>_. []) (no_grid, Op_add ''2-1-2024'' ''star'' ''ssh-rsa BBBB'') demo_page) = sp_stored demo_page"
  by code_simp

text \<open>An edit that is not stored stays on the page, and a key that could not be deleted stays marked as being deleted.\<close>

theorem unstored_edit_shown:
  "map sk_name (sp_allKeys (updateKeys full_store (demo_key 3 ''comet'') demo_page)) = [''moon'', ''comet'']
   \<and> sp_stored (updateKeys full_store (demo_key 3 ''comet'') demo_page) = sp_stored demo_page
   \<and> map sk_deleting (sp_allKeys (deleteKey full_store [3] demo_page)) = [None, Some True]"
  by code_simp

text \<open>Accepted and rejected keys, and a fingerprint.\<close>

lemma key_examples:
  "isValidSSHKey ''ssh-ed25519 AAAA me''" "isValidSSHKey ''ecdsa-sha2-nistp256 AAAA''" "\<not> isValidSSHKey ''ssh-rsa A''"
  "\<not> isValidSSHKey ''rsa AAAA''" "calculateFingerprint (\<lambda>_. ''0a1b2c'') ''ssh-rsa AAAA me'' = ''0A:1B:2C''"
  "calculateFingerprint (\<lambda>_. ''0a1b2c'') ''ssh-rsa'' = ''-''"
  by code_simp+

end
