(* ===== verification/DeleteDeployments.thy ===== *)
theory DeleteDeployments
  imports LoadDeployments
begin

text \<open>
  How the dashboard deletes a deployment with the gateways in front of it
  (\<open>playground/src/utils/delete_deployment.ts\<close>, \<open>utils/gateway.ts\<close>).  The state is the project name
  of the grid client and the calls it has made; the environment answers each call.
\<close>

subsection \<open>Names\<close>

definition SolutionCode :: "(string \<times> string) list" where
  "SolutionCode = [(''jenkins'', ''jk''), (''peertube'', ''pt''), (''funkwhale'', ''fw''), (''taiga'', ''tg''),
     (''discourse'', ''dc''), (''owncloud'', ''oc''), (''nextcloud'', ''nc''), (''mattermost'', ''mm''), (''mastodon'', ''md''),
     (''tfhubvalidator'', ''tfvalidator''), (''casperlabs'', ''cl''), (''presearch'', ''ps''), (''caprover'', ''cp''),
     (''kubernetes'', ''k8s''), (''machines'', ''vm''), (''vm'', ''vm''), (''nodepilot'', ''np''), (''fullvm'', ''fvm''),
     (''subsquid'', ''ss''), (''algorand'', ''al''), (''qvm'', ''qvm''), (''umbrel'', ''um''), (''wordpress'', ''wp''),
     (''staticwebsite'', ''sw''), (''tfrobot'', ''tfr''), (''gitea'', ''gt''), (''nostr'', ''nt''), (''Domains'', ''dm''),
     (''jitsi'', ''jt'')]"

text \<open>\<open>undefined + twinId\<close> is \<open>NaN\<close>.\<close>

definition getSubdomain :: "string \<Rightarrow> string \<Rightarrow> int \<Rightarrow> string" where
  "getSubdomain deploymentName projectName twinId =
     (case map_of SolutionCode (before_char (CHR ''/'') projectName) of
        Some code \<Rightarrow> code @ show_int twinId
      | None \<Rightarrow> ''NaN'') @ to_lower deploymentName"

definition solutions_with_gateway :: "string list" where
  "solutions_with_gateway = [''Discourse'', ''Funkwhale'', ''Mastodon'', ''Mattermost'', ''Casperlabs'', ''Owncloud'', ''Peertube'',
     ''Subsquid'', ''Taiga'', ''Wordpress'', ''Nextcloud'', ''Gitea'', ''Jenkins'', ''Jitsi'']"

definition names_project :: "string list \<Rightarrow> string \<Rightarrow> bool" where
  "names_project ps projectName \<longleftrightarrow> list_ex (\<lambda>p. sublist p projectName \<or> sublist (to_lower p) projectName) ps"

definition solutionHasGateway :: "string \<Rightarrow> bool" where
  "solutionHasGateway projectName \<longleftrightarrow> names_project solutions_with_gateway projectName"

definition isVm :: "string \<Rightarrow> bool" where
  "isVm projectName \<longleftrightarrow> names_project [''Fullvm'', ''VM''] projectName"

subsection \<open>Gateways\<close>

record GridGateway =
  gg_name :: string
  gg_type :: string
  gg_backends :: "string list"

datatype deletion = Delete_name string | Delete_fqdn string | Delete_zdbs string | Delete_k8s string
  | Delete_machine string string | Delete_machines string

record grid_state =
  gs_project :: string
  gs_calls :: "(string \<times> deletion) list"

text \<open>An answer \<open>True\<close> stands for a result in which something was deleted.\<close>

record deletion_env =
  dv_answer :: "string \<Rightarrow> deletion \<Rightarrow> js_error + bool"
  dv_list :: "string \<Rightarrow> js_error + string list"
  dv_getObj :: "string \<Rightarrow> string \<Rightarrow> js_error + GridGateway list"
  dv_timely :: "string \<Rightarrow> bool"
  dv_mounts :: "string \<Rightarrow> string \<Rightarrow> js_error + string list"

type_synonym 'a grid_eff = "(grid_state, js_error, 'a) eff"

definition call_grid :: "deletion_env \<Rightarrow> deletion \<Rightarrow> bool grid_eff" where
  "call_grid env c = (\<lambda>s. (dv_answer env (gs_project s) c, s\<lparr>gs_calls := gs_calls s @ [(gs_project s, c)]\<rparr>))"

definition updateGrid :: "string \<Rightarrow> unit grid_eff" where
  "updateGrid projectName = modifyE (\<lambda>s. s\<lparr>gs_project := projectName\<rparr>)"

definition read_gateway :: "deletion_env \<Rightarrow> string \<Rightarrow> string \<Rightarrow> GridGateway list option" where
  "read_gateway env p gw = (if dv_timely env gw then (case dv_getObj env p gw of Inl e \<Rightarrow> None | Inr gs \<Rightarrow> Some gs) else None)"

text \<open>The gateways, and the names of those that could not be read.\<close>

definition loadDeploymentGateways :: "deletion_env \<Rightarrow> (GridGateway \<Rightarrow> bool) option \<Rightarrow> (GridGateway list \<times> string list) grid_eff" where
  "loadDeploymentGateways env flt = (\<lambda>s.
     (bindR (dv_list env (gs_project s)) (\<lambda>gws.
        let items = map (read_gateway env (gs_project s)) gws in
        Inr (filter (keeps flt) (concat (map (\<lambda>r. case r of Some gs \<Rightarrow> gs | None \<Rightarrow> []) items)),
             filter (\<lambda>gw. read_gateway env (gs_project s) gw = None) gws)), s))"

definition ignore_error :: "'a grid_eff \<Rightarrow> unit grid_eff" where
  "ignore_error m = (\<lambda>s. (Inr (), snd (m s)))"

definition delete_call :: "GridGateway \<Rightarrow> deletion" where
  "delete_call g = (if sublist ''name'' (gg_type g) then Delete_name (gg_name g) else Delete_fqdn (gg_name g))"

definition mentions :: "string list \<Rightarrow> GridGateway \<Rightarrow> bool" where
  "mentions ips g \<longleftrightarrow> list_ex (\<lambda>bk. list_ex (\<lambda>ip. sublist ip bk) ips) (gg_backends g)"

definition deleteVmGateways :: "deletion_env \<Rightarrow> string list option \<Rightarrow> unit grid_eff" where
  "deleteVmGateways env ips =
     bindE (loadDeploymentGateways env (map_option mentions ips)) (\<lambda>(gateways, _).
       iterE (\<lambda>g. ignore_error (call_grid env (delete_call g))) gateways)"

definition deleteGateway :: "deletion_env \<Rightarrow> string \<Rightarrow> bool grid_eff" where
  "deleteGateway env name = call_grid env (Delete_name name)"

fun try_projects :: "deletion_env \<Rightarrow> string \<Rightarrow> string list \<Rightarrow> unit grid_eff" where
  "try_projects env subdomain [] = retE ()"
| "try_projects env subdomain (p # ps) =
     bindE (updateGrid p) (\<lambda>_. bindE (deleteGateway env subdomain) (\<lambda>deleted.
       if deleted then retE () else try_projects env subdomain ps))"

subsection \<open>Deployments\<close>

record DeleteDeploymentOptions =
  do_deploymentName :: string
  do_name :: string
  do_projectName :: string
  do_ip :: "string list option"
  do_k8s :: bool
  do_isCaprover :: bool

definition deleteDeploymentGateway :: "deletion_env \<Rightarrow> int \<Rightarrow> DeleteDeploymentOptions \<Rightarrow> unit grid_eff" where
  "deleteDeploymentGateway env twinId opts =
     bindE (try_projects env (getSubdomain (do_name opts) (do_projectName opts) twinId) [do_projectName opts, ''GatewayName'', []])
       (\<lambda>_. updateGrid (do_projectName opts))"

text \<open>The network of QSFS databases of a QVM: that of its first mount; \<open>dv_mounts\<close> is \<open>loadVM\<close>.\<close>

definition delete_qsfs :: "deletion_env \<Rightarrow> DeleteDeploymentOptions \<Rightarrow> unit grid_eff" where
  "delete_qsfs env opts =
     (if do_projectName opts = ''Qvm'' then
        bindE (\<lambda>s. (dv_mounts env (gs_project s) (do_name opts), s)) (\<lambda>mounts.
          case mounts of [] \<Rightarrow> retE () | m # _ \<Rightarrow> bindE (call_grid env (Delete_zdbs m)) (\<lambda>_. retE ()))
      else retE ())"

definition whenE :: "bool \<Rightarrow> unit grid_eff \<Rightarrow> unit grid_eff" where
  "whenE b m = (if b then m else retE ())"

definition final_call :: "DeleteDeploymentOptions \<Rightarrow> deletion" where
  "final_call opts =
     (if do_k8s opts then Delete_k8s (do_name opts)
      else if do_deploymentName opts \<noteq> [] \<and> \<not> do_isCaprover opts then Delete_machine (do_deploymentName opts) (do_name opts)
      else Delete_machines (do_name opts))"

definition delete_k8s_gateways :: "deletion_env \<Rightarrow> unit grid_eff" where
  "delete_k8s_gateways env =
     bindE (loadDeploymentGateways env (Some (\<lambda>_. True))) (\<lambda>(gateways, _).
       iterE (\<lambda>g. ignore_error (call_grid env (Delete_name (gg_name g)))) gateways)"

definition deleteDeployment :: "deletion_env \<Rightarrow> int \<Rightarrow> DeleteDeploymentOptions \<Rightarrow> bool grid_eff" where
  "deleteDeployment env twinId opts =
     bindE (delete_qsfs env opts) (\<lambda>_.
     bindE (whenE (isVm (do_projectName opts)) (deleteVmGateways env (do_ip opts))) (\<lambda>_.
     bindE (whenE (solutionHasGateway (do_projectName opts)) (deleteDeploymentGateway env twinId opts)) (\<lambda>_.
     bindE (whenE (do_k8s opts) (delete_k8s_gateways env)) (\<lambda>_.
       call_grid env (final_call opts)))))"

subsection \<open>Deploying a gateway\<close>

text \<open>\<open>is_ip6\<close> is the library's \<open>isIP(ip, "6")\<close>; the answer is the model that is deployed, by a name or a domain of the user's own.\<close>

record gateway_config =
  gc_subdomain :: string
  gc_ip :: string
  gc_port :: int
  gc_network :: "string option"
  gc_tlsPassthrough :: bool

record domain_info =
  di_selectedNode :: "int option"
  di_useFQDN :: bool
  di_customDomain :: string

record gateway_model =
  gm_name :: string
  gm_node_id :: int
  gm_tls_passthrough :: bool
  gm_network :: "string option"
  gm_backends :: "string list"
  gm_fqdn :: "string option"

definition backend_of :: "(string \<Rightarrow> bool) \<Rightarrow> gateway_config \<Rightarrow> string" where
  "backend_of is_ip6 c = (if gc_tlsPassthrough c then [] else ''http://'')
     @ (if is_ip6 (gc_ip c) then ''['' @ gc_ip c @ '']'' else gc_ip c) @ '':'' @ show_int (gc_port c)"

definition deployGatewayName ::
  "(string \<Rightarrow> bool) \<Rightarrow> bool \<Rightarrow> (string \<Rightarrow> js_error + unit) \<Rightarrow> domain_info option \<Rightarrow> gateway_config \<Rightarrow> js_error + gateway_model"
where
  "deployGatewayName is_ip6 has_grid getObj dmn c =
     (if \<not> has_grid then Inl (plain_error C_Error ''Please provide a valid grid connection'')
      else case Option.bind dmn di_selectedNode of
        None \<Rightarrow> Inl (plain_error C_Error ''Please provide a valid domain name data.'')
      | Some nodeId \<Rightarrow> bindR (getObj (gc_subdomain c)) (\<lambda>_.
          Inr \<lparr>gm_name = gc_subdomain c, gm_node_id = nodeId, gm_tls_passthrough = gc_tlsPassthrough c,
               gm_network = gc_network c, gm_backends = [backend_of is_ip6 c],
               gm_fqdn = (if di_useFQDN (the dmn) then Some (di_customDomain (the dmn)) else None)\<rparr>))"

definition rollbackDeployment :: "deletion_env \<Rightarrow> string \<Rightarrow> bool grid_eff" where
  "rollbackDeployment env name = bindE (call_grid env (Delete_machines name)) (\<lambda>deleted.
     if deleted then retE True else throwE (plain_error C_Error (''Failed to delete deployment with name \"'' @ name @ ''\".'')))"

end
