(* ===== verification/DeleteDeploymentsProps.thy ===== *)
theory DeleteDeploymentsProps
  imports DeleteDeployments
begin

text \<open>What is deleted with a deployment, in which order, and what should not be.\<close>

subsection \<open>Calls\<close>

definition makes :: "(deletion \<Rightarrow> bool) \<Rightarrow> 'a grid_eff \<Rightarrow> bool" where
  "makes P m \<longleftrightarrow> (\<forall>s. \<exists>cs. gs_calls (snd (m s)) = gs_calls s @ cs \<and> (\<forall>c \<in> set cs. P (snd c)))"

lemma makes_retE [simp, intro]: "makes P (retE x)"
  by (simp add: makes_def)

lemma makes_updateGrid [simp, intro]: "makes P (updateGrid p)"
  by (simp add: makes_def updateGrid_def)

lemma makes_call: "P c \<Longrightarrow> makes P (call_grid env c)"
  by (simp add: makes_def call_grid_def)

lemma makes_reads: "(\<And>s. snd (m s) = s) \<Longrightarrow> makes P m"
  by (simp add: makes_def)

lemma makes_ignore: "makes P m \<Longrightarrow> makes P (ignore_error m)"
  by (simp add: makes_def ignore_error_def)

lemma makes_bindE: "makes P m \<Longrightarrow> (\<And>x. makes P (f x)) \<Longrightarrow> makes P (bindE m f)"
  unfolding makes_def
proof (intro allI)
  fix s
  assume m: "\<forall>s. \<exists>cs. gs_calls (snd (m s)) = gs_calls s @ cs \<and> (\<forall>c \<in> set cs. P (snd c))"
    and f: "\<And>x. \<forall>s. \<exists>cs. gs_calls (snd (f x s)) = gs_calls s @ cs \<and> (\<forall>c \<in> set cs. P (snd c))"
  obtain r t where ms: "m s = (r, t)" by fastforce
  with m obtain cs where cs: "gs_calls t = gs_calls s @ cs" "\<forall>c \<in> set cs. P (snd c)" by (metis snd_conv)
  show "\<exists>cs. gs_calls (snd (bindE m f s)) = gs_calls s @ cs \<and> (\<forall>c \<in> set cs. P (snd c))"
  proof (cases r)
    case (Inl e)
    with ms cs show ?thesis by (auto simp: bindE_def)
  next
    case (Inr x)
    from f [of x, THEN spec, of t] obtain ds where "gs_calls (snd (f x t)) = gs_calls t @ ds" "\<forall>c \<in> set ds. P (snd c)" by blast
    with Inr ms cs show ?thesis by (intro exI [of _ "cs @ ds"]) (auto simp: bindE_def)
  qed
qed

lemma makes_iterE: "(\<And>x. makes P (f x)) \<Longrightarrow> makes P (iterE f xs)"
  by (induction xs) (auto intro: makes_bindE)

lemma makes_when: "makes P m \<Longrightarrow> makes P (whenE b m)"
  by (simp add: whenE_def)

definition beside :: "deletion \<Rightarrow> bool" where
  "beside c \<longleftrightarrow> (case c of Delete_name n \<Rightarrow> True | Delete_fqdn n \<Rightarrow> True | Delete_zdbs n \<Rightarrow> True | _ \<Rightarrow> False)"

lemma beside_simps [simp]: "beside (Delete_name n)" "beside (Delete_fqdn n)" "beside (Delete_zdbs n)" "beside (delete_call g)"
  "\<not> beside (final_call opts)"
  by (simp_all add: beside_def delete_call_def final_call_def)

lemma makes_loading: "makes P (loadDeploymentGateways env flt)"
  by (rule makes_reads) (simp add: loadDeploymentGateways_def)

lemma makes_if: "makes P m \<Longrightarrow> makes P n \<Longrightarrow> makes P (if b then m else n)"
  by simp

lemma makes_try: "makes beside (try_projects env sub ps)"
proof (induction ps)
  case Nil
  show ?case unfolding try_projects.simps by (rule makes_retE)
next
  case (Cons p ps)
  then show ?case unfolding try_projects.simps deleteGateway_def
    by (intro makes_bindE makes_updateGrid makes_call makes_if makes_retE beside_simps)
qed

lemma gateways_beside:
  "makes beside (deleteVmGateways env ips)" "makes beside (delete_k8s_gateways env)"
  "makes beside (deleteDeploymentGateway env t opts)"
  unfolding deleteVmGateways_def delete_k8s_gateways_def deleteDeploymentGateway_def case_prod_beta
  by (intro makes_bindE makes_loading makes_iterE makes_ignore makes_call makes_try makes_updateGrid beside_simps)+

lemma qsfs_beside: "makes beside (delete_qsfs env opts)"
proof -
  have "makes beside (case mounts of [] \<Rightarrow> retE () | m # _ \<Rightarrow> bindE (call_grid env (Delete_zdbs m)) (\<lambda>_. retE ()))" for mounts
    by (cases mounts) (auto intro!: makes_bindE makes_call)
  then have "makes beside (bindE (\<lambda>s. (dv_mounts env (gs_project s) (do_name opts), s)) (\<lambda>mounts.
      case mounts of [] \<Rightarrow> retE () | m # _ \<Rightarrow> bindE (call_grid env (Delete_zdbs m)) (\<lambda>_. retE ())))"
    by (rule makes_bindE [OF makes_reads, rotated]) simp
  then show ?thesis unfolding delete_qsfs_def by (rule makes_if) (rule makes_retE)
qed

text \<open>
  C35: When a deployment is deleted, its machines or its cluster go last: all calls before it are for
  gateways and storage networks, and there is exactly one call for the deployment unless the deletion
  was given up before.
\<close>

theorem deployment_deleted_last:
  "\<exists>pre post. gs_calls (snd (deleteDeployment env twinId opts s)) = gs_calls s @ pre @ post
     \<and> list_all (\<lambda>c. beside (snd c)) pre
     \<and> (case fst (deleteDeployment env twinId opts s) of
          Inl e \<Rightarrow> post = [] \<or> (\<exists>p. post = [(p, final_call opts)] \<and> dv_answer env p (final_call opts) = Inl e)
        | Inr b \<Rightarrow> \<exists>p. post = [(p, final_call opts)] \<and> dv_answer env p (final_call opts) = Inr b)"
proof -
  let ?m = "bindE (delete_qsfs env opts) (\<lambda>_.
     bindE (whenE (isVm (do_projectName opts)) (deleteVmGateways env (do_ip opts))) (\<lambda>_.
     bindE (whenE (solutionHasGateway (do_projectName opts)) (deleteDeploymentGateway env twinId opts)) (\<lambda>_.
     whenE (do_k8s opts) (delete_k8s_gateways env))))"
  have split: "deleteDeployment env twinId opts = bindE ?m (\<lambda>_. call_grid env (final_call opts))"
    by (simp add: deleteDeployment_def bindE_assoc)
  have "makes beside ?m" by (intro makes_bindE makes_when gateways_beside qsfs_beside)
  then obtain cs where cs: "gs_calls (snd (?m s)) = gs_calls s @ cs" "list_all (\<lambda>c. beside (snd c)) cs"
    unfolding makes_def list_all_iff by blast
  obtain r t where ms: "?m s = (r, t)" by fastforce
  show ?thesis
  proof (cases r)
    case (Inl e)
    with cs ms show ?thesis by (intro exI [of _ cs] exI [of _ "[]"]) (simp add: split bindE_app)
  next
    case (Inr u)
    with cs ms show ?thesis
      by (intro exI [of _ cs] exI [of _ "[(gs_project t, final_call opts)]"])
        (simp add: split bindE_app call_grid_def split: sum.splits)
  qed
qed

subsection \<open>Gateways of machines\<close>

lemma iter_ignored:
  "iterE (\<lambda>g. ignore_error (call_grid env (f g))) gs s = (Inr (), s\<lparr>gs_calls := gs_calls s @ map (\<lambda>g. (gs_project s, f g)) gs\<rparr>)"
  by (induction gs arbitrary: s) (simp_all add: bindE_app ignore_error_def call_grid_def)

definition readable_gateways :: "deletion_env \<Rightarrow> string \<Rightarrow> string list \<Rightarrow> GridGateway list" where
  "readable_gateways env p gws = concat (map (\<lambda>gw. case read_gateway env p gw of Some gs \<Rightarrow> gs | None \<Rightarrow> []) gws)"

text \<open>
  The gateways deleted with machines are those of the project with a backend in which one of the
  addresses occurs, each by the call for its kind; a failure of one does not stop the others.
\<close>

theorem vm_gateways_deleted:
  assumes "dv_list env (gs_project s) = Inr gws"
  shows "deleteVmGateways env (Some ips) s = (Inr (), s\<lparr>gs_calls := gs_calls s
    @ map (\<lambda>g. (gs_project s, delete_call g)) (filter (mentions ips) (readable_gateways env (gs_project s) gws))\<rparr>)"
proof -
  have "keeps (Some (mentions ips)) = mentions ips" by (rule ext) (simp add: keeps_def)
  with assms show ?thesis
    by (simp add: deleteVmGateways_def loadDeploymentGateways_def bindE_app iter_ignored readable_gateways_def comp_def)
qed

subsection \<open>The gateway of a solution\<close>

definition tried :: "deletion_env \<Rightarrow> string \<Rightarrow> string list \<Rightarrow> string list" where
  "tried env sub ps = take (Suc (length (takeWhile (\<lambda>p. dv_answer env p (Delete_name sub) = Inr False) ps))) ps"

lemma try_projects_calls:
  "gs_calls (snd (try_projects env sub ps s)) = gs_calls s @ map (\<lambda>p. (p, Delete_name sub)) (tried env sub ps)"
proof (induction ps arbitrary: s)
  case (Cons p ps)
  then show ?case
    by (cases "dv_answer env p (Delete_name sub)")
      (auto simp: bindE_app updateGrid_def deleteGateway_def call_grid_def tried_def)
qed (simp add: tried_def)

theorem solution_gateway_searched:
  assumes "deleteDeploymentGateway env twinId opts s = (Inr (), s')"
  shows "gs_project s' = do_projectName opts
    \<and> gs_calls s' = gs_calls s @ map (\<lambda>p. (p, Delete_name (getSubdomain (do_name opts) (do_projectName opts) twinId)))
        (tried env (getSubdomain (do_name opts) (do_projectName opts) twinId) [do_projectName opts, ''GatewayName'', []])"
proof -
  let ?sub = "getSubdomain (do_name opts) (do_projectName opts) twinId"
  obtain u t where t: "try_projects env ?sub [do_projectName opts, ''GatewayName'', []] s = (Inr u, t)"
    and s': "s' = t\<lparr>gs_project := do_projectName opts\<rparr>"
    using assms by (auto simp: deleteDeploymentGateway_def bindE_Inr_iff updateGrid_def simp del: try_projects.simps)
  from t try_projects_calls [of env ?sub "[do_projectName opts, ''GatewayName'', []]" s] s' show ?thesis
    by (simp del: try_projects.simps)
qed

subsection \<open>Examples\<close>

definition demo_gateways :: "string \<Rightarrow> GridGateway" where
  "demo_gateways n = (if n = ''two'' then \<lparr>gg_name = n, gg_type = ''gateway-name-proxy'', gg_backends = [''http://10.20.2.2:80'']\<rparr>
     else \<lparr>gg_name = n, gg_type = ''gateway-fqdn-proxy'', gg_backends = [''http://10.20.2.20:80'']\<rparr>)"

definition demo_deletion :: deletion_env where
  "demo_deletion = \<lparr>dv_answer = (\<lambda>p c. Inr True), dv_list = (\<lambda>p. Inr [''two'', ''twenty'']),
     dv_getObj = (\<lambda>p n. Inr [demo_gateways n]), dv_timely = (\<lambda>_. True), dv_mounts = (\<lambda>p n. Inr [''qsfs''])\<rparr>"

text \<open>Deleting the machine at \<open>10.20.2.2\<close> deletes the gateway of the one at \<open>10.20.2.20\<close> too.\<close>

theorem vm_gateways_deleted_witness:
  "deleteVmGateways demo_deletion (Some [''10.20.2.2'']) \<lparr>gs_project = ''vm/a'', gs_calls = []\<rparr>
     = (Inr (), \<lparr>gs_project = ''vm/a'', gs_calls = [(''vm/a'', Delete_name ''two''), (''vm/a'', Delete_fqdn ''twenty'')]\<rparr>)"
proof -
  let ?s = "\<lparr>gs_project = ''vm/a'', gs_calls = []\<rparr>"
  have "filter (mentions [''10.20.2.2'']) (readable_gateways demo_deletion ''vm/a'' [''two'', ''twenty''])
      = [demo_gateways ''two'', demo_gateways ''twenty'']"
    by code_simp
  moreover have "delete_call (demo_gateways ''two'') = Delete_name ''two''" "delete_call (demo_gateways ''twenty'') = Delete_fqdn ''twenty''"
    by code_simp+
  moreover have "dv_list demo_deletion (gs_project ?s) = Inr [''two'', ''twenty'']" by (simp add: demo_deletion_def)
  ultimately show ?thesis using vm_gateways_deleted [of demo_deletion ?s "[''two'', ''twenty'']" "[''10.20.2.2'']"] by simp
qed

text \<open>
  The project of a QVM has the name of the deployment behind it, so its storage networks stay; the
  subdomain of a solution whose project does not begin with the lower-case name is none that was deployed.
\<close>

lemma qvm_networks_stay: "delete_qsfs env \<lparr>do_deploymentName = ''q1'', do_name = ''q1'', do_projectName = ''qvm/q1'',
    do_ip = None, do_k8s = False, do_isCaprover = False\<rparr> = retE ()"
  by (simp add: delete_qsfs_def)

lemma subdomains: "getSubdomain ''Cloud1'' ''nextcloud/Cloud1'' 7 = ''nc7cloud1''" "getSubdomain ''Cloud1'' ''Nextcloud/Cloud1'' 7 = ''NaNcloud1''"
  by code_simp+

text \<open>Names are searched for as parts: a virtual machine with such a name is taken for a solution with a gateway.\<close>

lemma taken_for_solution: "solutionHasGateway ''vm/taigatest''" "isVm ''nextcloud/myvm''"
  by code_simp+

text \<open>When deleting a gateway fails, the grid client is left with the project that was tried.\<close>

lemma project_left: "dv_answer env ''peertube'' (Delete_name sub) = Inr False \<Longrightarrow> dv_answer env ''GatewayName'' (Delete_name sub) = Inl e \<Longrightarrow>
   fst (try_projects env sub [''peertube'', ''GatewayName'', []] s) = Inl e
   \<and> gs_project (snd (try_projects env sub [''peertube'', ''GatewayName'', []] s)) = ''GatewayName''"
  by (simp add: bindE_app updateGrid_def deleteGateway_def call_grid_def)

lemma backend_examples:
  "backend_of (\<lambda>ip. ip = ''300::1'') \<lparr>gc_subdomain = ''a'', gc_ip = ''300::1'', gc_port = 80, gc_network = None, gc_tlsPassthrough = False\<rparr>
     = ''http://[300::1]:80''"
  by code_simp

end
