(* ===== verification/Migration.thy ===== *)
theory Migration
  imports BaseModule
begin

text \<open>
  The migration of a user's old deployments to a project of their own
  (\<open>playground/src/utils/migration.ts\<close>): full virtual machines of the old playground become \<open>vm\<close>, the
  project name in the data of each contract gets the name of the deployment, and the list of
  contracts of a deployment moves below its project in the key-value store.  The state is the store,
  the data of the contracts on the chain, and the module's name; the twin's number, the paths, the
  lists of names and the chain's contracts are fields of \<open>migration_env\<close>.
\<close>

subsection \<open>State\<close>

record old_data =
  od_type :: string
  od_name :: string
  od_projectName :: "string option"

record chain_contract =
  mc_contractId :: int
  mc_gracePeriod :: int
  mc_node :: "(string \<times> string) option"

record migration_state =
  mg_moduleName :: string
  mg_store :: "string \<Rightarrow> int list option"
  mg_data :: "int \<Rightarrow> string"
  mg_newContracts :: "(int \<times> string) list"

datatype migration_call = X_dump string "int list" | X_remove string | X_update int string string

text \<open>An entry of the list of a module's contracts: its number, the deployment data and the hash.\<close>

type_synonym full_contract = "int \<times> string \<times> string"

record migration_env =
  me_storePath :: string
  me_projectName :: string
  me_twinId :: int
  me_list :: "string \<Rightarrow> js_error + string list"
  me_contracts :: "string \<Rightarrow> string \<Rightarrow> js_error + full_contract list"
  me_keys :: "string \<Rightarrow> js_error + string list"
  me_get :: "int \<Rightarrow> js_error + chain_contract option"
  me_apply :: "migration_state \<Rightarrow> migration_call list \<Rightarrow> js_error option"
  me_parse :: "string \<Rightarrow> js_error + old_data"
  me_stringify :: "old_data \<Rightarrow> string"

definition new_path :: "migration_env \<Rightarrow> string \<Rightarrow> string list \<Rightarrow> string" where
  "new_path m moduleName paths = path_join ([me_storePath m, moduleName, me_projectName m] @ paths)"

text \<open>One batch of the chain takes effect as a whole, each call in its turn.\<close>

definition apply_call :: "migration_call \<Rightarrow> migration_state \<Rightarrow> migration_state" where
  "apply_call c s = (case c of
     X_dump k v \<Rightarrow> s\<lparr>mg_store := (mg_store s)(k := Some v)\<rparr>
   | X_remove k \<Rightarrow> s\<lparr>mg_store := (mg_store s)(k := None)\<rparr>
   | X_update i d h \<Rightarrow> s\<lparr>mg_data := (mg_data s)(i := d)\<rparr>)"

type_synonym 'a migration_eff = "(migration_state, js_error, 'a) eff"

definition apply_batch :: "migration_env \<Rightarrow> migration_call list \<Rightarrow> unit migration_eff" where
  "apply_batch m cs = (\<lambda>s. case me_apply m s cs of Some e \<Rightarrow> (Inl e, s) | None \<Rightarrow> (Inr (), fold apply_call cs s))"

text \<open>
  \<open>applyAllExtrinsics\<close> sends the calls in batches of 400, one after the other
  (\<open>tfchain_client/src/utility.ts\<close>): what the earlier ones did stays when a later one is refused.
\<close>

lemma chunks_code [code]: "chunks xs = (if List.null xs then [] else take BATCH_SIZE xs # chunks (drop BATCH_SIZE xs))"
  by (cases xs) simp_all

definition applyAll :: "migration_env \<Rightarrow> migration_call list \<Rightarrow> unit migration_eff" where
  "applyAll m cs = foldE (\<lambda>batch _. apply_batch m batch) (chunks cs) ()"

definition data_or_empty :: "string \<Rightarrow> string" where
  "data_or_empty d = (if d = [] then ''{}'' else d)"

subsection \<open>Old virtual machines\<close>

text \<open>Each contract that is not a \<open>vm\<close> yet is pushed to the list of new contracts and updated.\<close>

definition old_vm :: "migration_env \<Rightarrow> full_contract \<Rightarrow> migration_call list migration_eff" where
  "old_vm m c = (case c of (i, d, h) \<Rightarrow>
     bindE (liftE (me_parse m (data_or_empty d))) (\<lambda>old.
       if od_type old = ''vm'' then retE []
       else let d' = me_stringify m (old\<lparr>od_type := ''vm''\<rparr>) in
         bindE (modifyE (\<lambda>s. s\<lparr>mg_newContracts := mg_newContracts s @ [(i, d')]\<rparr>)) (\<lambda>_. retE [X_update i d' h])))"

definition setModuleName :: "string \<Rightarrow> unit migration_eff" where
  "setModuleName n = modifyE (\<lambda>s. s\<lparr>mg_moduleName := n\<rparr>)"

definition migrateOldFullVMs :: "migration_env \<Rightarrow> unit migration_eff" where
  "migrateOldFullVMs m =
     bindE (getE mg_moduleName) (\<lambda>moduleName.
     bindE (setModuleName ''Fullvm'') (\<lambda>_.
     bindE (liftE (me_list m ''Fullvm'')) (\<lambda>deploymentNames.
     bindE (liftE (mapR (me_contracts m ''Fullvm'') deploymentNames)) (\<lambda>contracts.
     bindE (setModuleName moduleName) (\<lambda>_.
       if deploymentNames = [] then retE ()
       else bindE (mapE (old_vm m) (concat contracts)) (\<lambda>calls. applyAll m (concat calls)))))))"

subsection \<open>Contracts\<close>

text \<open>\<open>key.split(twinId)[1]\<close> where it is not empty: what stands between the first two occurrences of the number.\<close>

definition first_at :: "string \<Rightarrow> string \<Rightarrow> nat option" where
  "first_at sep s = find (\<lambda>i. take (length sep) (drop i s) = sep) [0..<Suc (length s - length sep)]"

definition second_part :: "string \<Rightarrow> string \<Rightarrow> string" where
  "second_part sep s = (case first_at sep s of
     None \<Rightarrow> []
   | Some i \<Rightarrow> let rest = drop (i + length sep) s in
       (case first_at sep rest of None \<Rightarrow> rest | Some j \<Rightarrow> take j rest))"

definition normalizeKey :: "migration_env \<Rightarrow> string \<Rightarrow> string \<Rightarrow> string" where
  "normalizeKey m moduleName key =
     (let newKey = second_part (show_int (me_twinId m)) key
      in if moduleName = ''gateways'' \<and> newKey \<noteq> [] then newKey else key)"

definition ends_with_text :: "string \<Rightarrow> string \<Rightarrow> bool" where
  "ends_with_text s t \<longleftrightarrow> length t \<le> length s \<and> drop (length s - length t) s = t"

definition new_project :: "string \<Rightarrow> old_data \<Rightarrow> old_data option" where
  "new_project instanceName old = (case od_projectName old of
     None \<Rightarrow> Some (old\<lparr>od_projectName := Some instanceName\<rparr>)
   | Some p \<Rightarrow>
       if p = [] then Some (old\<lparr>od_projectName := Some instanceName\<rparr>)
       else if ends_with_text p (''/'' @ instanceName) then None
       else Some (old\<lparr>od_projectName := Some (p @ ''/'' @ instanceName)\<rparr>))"

text \<open>Whether the stored list is still to be moved, and the update of the contract if there is one.\<close>

definition updateContract :: "migration_env \<Rightarrow> string \<Rightarrow> chain_contract option \<Rightarrow> js_error + bool \<times> migration_call list" where
  "updateContract m moduleName contract = (case contract of
     None \<Rightarrow> Inr (False, [])
   | Some c \<Rightarrow>
       if 0 < mc_gracePeriod c then Inr (False, [])
       else case mc_node c of
         None \<Rightarrow> Inr (True, [])
       | Some (d, h) \<Rightarrow> bindR (me_parse m (data_or_empty d)) (\<lambda>old.
           Inr (True, case new_project (normalizeKey m moduleName (od_name old)) old of
             None \<Rightarrow> [] | Some new \<Rightarrow> [X_update (mc_contractId c) (me_stringify m new) h])))"

text \<open>An empty list has no first contract, so its property access throws.\<close>

definition loadContract :: "migration_env \<Rightarrow> int list option \<Rightarrow> js_error + chain_contract option" where
  "loadContract m value = (case value of
     None \<Rightarrow> Inr None
   | Some [] \<Rightarrow> Inl TypeError
   | Some (i # _) \<Rightarrow> me_get m i)"

definition migrateContracts :: "migration_env \<Rightarrow> int list option list \<Rightarrow> int list option list migration_eff" where
  "migrateContracts m values =
     bindE (liftE (mapR (loadContract m) values)) (\<lambda>contracts.
     bindE (getE mg_moduleName) (\<lambda>moduleName.
     bindE (liftE (mapR (updateContract m moduleName) contracts)) (\<lambda>rs.
     bindE (applyAll m (concat (map snd rs))) (\<lambda>_.
       retE (map (\<lambda>(v, keep, _). if keep then v else None) (zip values rs))))))"

subsection \<open>Keys\<close>

definition key_from :: "migration_env \<Rightarrow> string \<Rightarrow> string \<Rightarrow> string" where
  "key_from m moduleName key = new_path m moduleName [key, ''contracts.json'']"

definition key_to :: "migration_env \<Rightarrow> string \<Rightarrow> string \<Rightarrow> string" where
  "key_to m moduleName key = new_path m moduleName [normalizeKey m moduleName key, key, ''contracts.json'']"

definition updateKey :: "migration_env \<Rightarrow> string \<Rightarrow> string \<times> int list option \<Rightarrow> migration_call list" where
  "updateKey m moduleName kv = (case kv of
     (key, None) \<Rightarrow> []
   | (key, Some v) \<Rightarrow>
       if key_from m moduleName key = key_to m moduleName key then []
       else [X_dump (key_to m moduleName key) v, X_remove (key_from m moduleName key)])"

definition migrateKeys :: "migration_env \<Rightarrow> string list \<Rightarrow> int list option list \<Rightarrow> unit migration_eff" where
  "migrateKeys m keys values =
     bindE (getE mg_moduleName) (\<lambda>moduleName. applyAll m (concat (map (updateKey m moduleName) (zip keys values))))"

definition loadValue :: "migration_env \<Rightarrow> string \<Rightarrow> int list option migration_eff" where
  "loadValue m key = getE (\<lambda>s. mg_store s (key_from m (mg_moduleName s) key))"

definition migrateModule :: "migration_env \<Rightarrow> unit migration_eff" where
  "migrateModule m =
     bindE (getE mg_moduleName) (\<lambda>moduleName.
     bindE (if moduleName = ''machines'' then migrateOldFullVMs m else retE ()) (\<lambda>_.
     bindE (liftE (me_list m moduleName)) (\<lambda>_.
     bindE (liftE (me_keys m (new_path m moduleName []))) (\<lambda>keys.
     bindE (mapE (loadValue m) keys) (\<lambda>values.
     bindE (migrateContracts m values) (\<lambda>values'.
       migrateKeys m keys values'))))))"

end
