(* ===== verification/MigrationProps.thy ===== *)
theory MigrationProps
  imports Migration
begin

text \<open>Where the lists of contracts are after the migration, and what a repeated migration does.\<close>

subsection \<open>Paths\<close>




definition plain_name :: "string \<Rightarrow> bool" where
  "plain_name s \<longleftrightarrow> s \<noteq> [] \<and> CHR ''/'' \<notin> set s"

lemma contracts_file_plain [simp]: "plain_name ''contracts.json''"
  by (simp add: plain_name_def)




subsection \<open>Moving the lists\<close>

















subsection \<open>Project names\<close>

text \<open>A project name that the migration has extended is left alone by the next one; the first that it gives to a contract without one is not.\<close>

lemma ends_with_append [simp]: "ends_with_text (p @ t) t"
  by (simp add: ends_with_text_def)

theorem project_named_once:
  assumes "new_project n old = Some new" and "od_projectName old \<notin> {None, Some []}"
  shows "new_project n new = None"
  using assms by (auto simp: new_project_def split: option.splits if_splits)

theorem project_named_twice:
  assumes "n \<noteq> []" and "od_projectName old = None"
  shows "\<exists>new new'. new_project n old = Some new \<and> od_projectName new = Some n
    \<and> new_project n new = Some new' \<and> od_projectName new' = Some (n @ ''/'' @ n)"
  using assms by (simp add: new_project_def ends_with_text_def)

subsection \<open>Examples\<close>

definition demo_migration :: migration_env where
  "demo_migration = \<lparr>me_storePath = ''store'', me_projectName = ''peertube'', me_twinId = 7,
     me_list = (\<lambda>n. Inr [''pt7tube'']), me_contracts = (\<lambda>n d. Inr []), me_keys = (\<lambda>p. Inr [''pt7tube'']),
     me_get = (\<lambda>i. Inr (Some \<lparr>mc_contractId = i, mc_gracePeriod = 0, mc_node = Some (''d'', ''h'')\<rparr>)),
     me_apply = (\<lambda>_ cs. None), me_parse = (\<lambda>d. Inr \<lparr>od_type = ''gateway'', od_name = ''pt7tube'', od_projectName = Some ''peertube''\<rparr>),
     me_stringify = (\<lambda>d. the (od_projectName d))\<rparr>"

definition demo_migration_state :: migration_state where
  "demo_migration_state = \<lparr>mg_moduleName = ''gateways'', mg_store = (\<lambda>_. None)(''store/gateways/peertube/pt7tube/contracts.json'' \<mapsto> [42]),
     mg_data = (\<lambda>_. ''d''), mg_newContracts = []\<rparr>"


text \<open>The whole migration of this gateway: the project in the contract's data, and the moved list.\<close>

theorem demo_migrated:
  "\<exists>s'. migrateModule demo_migration demo_migration_state = (Inr (), s')
     \<and> mg_data s' 42 = ''peertube/tube''
     \<and> mg_store s' ''store/gateways/peertube/tube/pt7tube/contracts.json'' = Some [42]
     \<and> mg_store s' ''store/gateways/peertube/pt7tube/contracts.json'' = None"
proof -
  have "(case migrateModule demo_migration demo_migration_state of (r, s') \<Rightarrow>
     r = Inr () \<and> mg_data s' 42 = ''peertube/tube''
     \<and> mg_store s' ''store/gateways/peertube/tube/pt7tube/contracts.json'' = Some [42]
     \<and> mg_store s' ''store/gateways/peertube/pt7tube/contracts.json'' = None)"
    by code_simp
  then show ?thesis by (simp add: case_prod_beta prod_eq_iff)
qed

text \<open>A name in which the twin's number occurs again is cut there.\<close>

lemma name_cut: "normalizeKey demo_migration ''gateways'' ''pt7tube7b'' = ''tube''"
  by code_simp

text \<open>When the old names cannot be listed the module keeps the name it had for that.\<close>

lemma name_stays_changed:
  "migrateOldFullVMs (demo_migration\<lparr>me_list := \<lambda>n. Inl e\<rparr>) (demo_migration_state\<lparr>mg_moduleName := ''machines''\<rparr>)
     = (Inl e, demo_migration_state\<lparr>mg_moduleName := ''Fullvm''\<rparr>)"
  by (simp add: migrateOldFullVMs_def setModuleName_def bindE_app)

end
