(* ===== verification/DashboardQueries.thy ===== *)
theory DashboardQueries
  imports LoadDeployments
begin

text \<open>
  Lists that the dashboard asks for: nodes page by page (\<open>playground/src/utils/get_nodes.ts\<close>,
  \<open>get_offline_nodes.ts\<close>), farms (\<open>get_farms.ts\<close>), the contracts of the user (\<open>contracts.ts\<close>); and the
  names and dates of \<open>strings.ts\<close> and \<open>date.ts\<close>.
\<close>

subsection \<open>Nodes page by page\<close>

text \<open>
  The state outlives the calls: the next page, \<open>0\<close> once an empty page was seen, and the nodes so
  far.  A page is what \<open>grid.nodes.filter\<close> answers for the options of the call.  The function calls
  itself until a page is empty, so without fuel it may not return (\<open>None\<close>).
\<close>

record node_pages =
  np_requestPageNumber :: nat
  np_nodes :: "int list"

definition first_pages :: node_pages where
  "first_pages = \<lparr>np_requestPageNumber = 1, np_nodes = []\<rparr>"

fun getAllNodes :: "nat \<Rightarrow> (nat \<Rightarrow> js_error + int list) \<Rightarrow> node_pages \<Rightarrow> ((js_error + int list) \<times> node_pages) option" where
  "getAllNodes 0 page s = None"
| "getAllNodes (Suc fuel) page s =
     (if np_requestPageNumber s = 0 then Some (Inr (np_nodes s), s)
      else case page (np_requestPageNumber s) of
        Inl e \<Rightarrow> Some (Inl e, s)
      | Inr ns \<Rightarrow> getAllNodes fuel page
          (if ns \<noteq> [] then s\<lparr>np_nodes := np_nodes s @ ns, np_requestPageNumber := Suc (np_requestPageNumber s)\<rparr>
           else s\<lparr>np_requestPageNumber := 0\<rparr>))"

text \<open>Nodes that are down: the same loop with the status added to the options.\<close>

definition getOfflineNodes :: "nat \<Rightarrow> (string \<Rightarrow> nat \<Rightarrow> js_error + int list) \<Rightarrow> node_pages \<Rightarrow> ((js_error + int list) \<times> node_pages) option" where
  "getOfflineNodes fuel page s = getAllNodes fuel (page ''down'') s"

lemma one_more_page:
  "page p = Inr ns \<Longrightarrow> ns \<noteq> [] \<Longrightarrow> 0 < p \<Longrightarrow>
   getAllNodes (Suc fuel) page \<lparr>np_requestPageNumber = p, np_nodes = xs\<rparr>
     = getAllNodes fuel page \<lparr>np_requestPageNumber = Suc p, np_nodes = xs @ ns\<rparr>"
  by simp

lemma pages_loaded:
  assumes "\<forall>i. p \<le> i \<and> i < z \<longrightarrow> (\<exists>ns. page i = Inr ns \<and> ns \<noteq> [])" and "page z = Inr []" and "0 < p" "p \<le> z"
  shows "getAllNodes (z - p + 2) page \<lparr>np_requestPageNumber = p, np_nodes = xs\<rparr>
    = Some (Inr (xs @ concat (map (\<lambda>i. case page i of Inr ns \<Rightarrow> ns | Inl e \<Rightarrow> []) [p..<z])),
        \<lparr>np_requestPageNumber = 0, np_nodes = xs @ concat (map (\<lambda>i. case page i of Inr ns \<Rightarrow> ns | Inl e \<Rightarrow> []) [p..<z])\<rparr>)"
  using assms
proof (induction "z - p" arbitrary: p xs)
  case 0
  then have "p = z" by simp
  with 0 show ?case by (simp add: numeral_2_eq_2)
next
  case (Suc d)
  then have lt: "p < z" by simp
  with Suc.prems(1) obtain ns where ns: "page p = Inr ns" "ns \<noteq> []" by auto
  have fuel: "z - p + 2 = Suc (z - Suc p + 2)" using lt by simp
  have "getAllNodes (z - Suc p + 2) page \<lparr>np_requestPageNumber = Suc p, np_nodes = xs @ ns\<rparr>
    = Some (Inr ((xs @ ns) @ concat (map (\<lambda>i. case page i of Inr ns \<Rightarrow> ns | Inl e \<Rightarrow> []) [Suc p..<z])),
        \<lparr>np_requestPageNumber = 0, np_nodes = (xs @ ns) @ concat (map (\<lambda>i. case page i of Inr ns \<Rightarrow> ns | Inl e \<Rightarrow> []) [Suc p..<z])\<rparr>)"
    using Suc.hyps Suc.prems lt by (intro Suc.hyps(1)) auto
  moreover have "getAllNodes (z - p + 2) page \<lparr>np_requestPageNumber = p, np_nodes = xs\<rparr>
      = getAllNodes (z - Suc p + 2) page \<lparr>np_requestPageNumber = Suc p, np_nodes = xs @ ns\<rparr>"
    unfolding fuel using ns Suc.prems(3) by (rule one_more_page)
  moreover have "[p..<z] = p # [Suc p..<z]" using lt by (rule upt_conv_Cons)
  ultimately show ?case using ns(1) by (simp del: getAllNodes.simps)
qed

text \<open>
  The loop returns once a page is empty, with all the nodes of the pages before it; every later call
  returns the same nodes, whatever it asks for.
\<close>

theorem nodes_of_all_pages:
  assumes "\<forall>i. 1 \<le> i \<and> i < z \<longrightarrow> (\<exists>ns. page i = Inr ns \<and> ns \<noteq> [])" and "page z = Inr []" and "1 \<le> z"
  shows "\<exists>nodes s. getAllNodes (z + 1) page first_pages = Some (Inr nodes, s)
    \<and> nodes = concat (map (\<lambda>i. case page i of Inr ns \<Rightarrow> ns | Inl e \<Rightarrow> []) [1..<z])
    \<and> (\<forall>page' fuel. 0 < fuel \<longrightarrow> getAllNodes fuel page' s = Some (Inr nodes, s))"
proof -
  let ?nodes = "concat (map (\<lambda>i. case page i of Inr ns \<Rightarrow> ns | Inl e \<Rightarrow> []) [1..<z])"
  have "z + 1 = z - 1 + 2" using assms(3) by simp
  then have "getAllNodes (z + 1) page first_pages = Some (Inr ?nodes, \<lparr>np_requestPageNumber = 0, np_nodes = ?nodes\<rparr>)"
    using pages_loaded [of 1 z page "[]"] assms by (simp add: first_pages_def)
  moreover have "getAllNodes fuel page' \<lparr>np_requestPageNumber = 0, np_nodes = ?nodes\<rparr>
      = Some (Inr ?nodes, \<lparr>np_requestPageNumber = 0, np_nodes = ?nodes\<rparr>)" if "0 < fuel" for page' fuel
    using that by (cases fuel) simp_all
  ultimately show ?thesis by blast
qed

subsection \<open>Farms\<close>

record farm_view =
  fv_name :: string
  fv_farmId :: int

record farm_answer =
  fa_name :: string
  fa_farmID :: int
  fa_country :: "string option"
  fa_region :: "string option"

definition getFarmsPages :: "js_error + int \<Rightarrow> int \<Rightarrow> int" where
  "getFarmsPages counted pageSize = (case counted of
     Inl e \<Rightarrow> 1
   | Inr c \<Rightarrow> let count = (if c = 0 then 1 else c) in - ((- count) div pageSize))"

text \<open>The farms of the nodes with a contract of the exclusive solution and without a public address.\<close>

definition getBlockedFarmSet :: "js_error + int \<Rightarrow> (int \<Rightarrow> js_error + int list) \<Rightarrow> (int \<Rightarrow> js_error + int) \<Rightarrow> js_error + int list" where
  "getBlockedFarmSet totalCount nodeContracts farm_of_node =
     bindR totalCount (\<lambda>n. bindR (nodeContracts n) (\<lambda>nodes. bindR (mapR farm_of_node (js_dedup nodes)) (\<lambda>farms. Inr (js_dedup farms))))"

definition getFarms ::
  "(js_error + farm_view list) \<Rightarrow> (js_error + int list) \<Rightarrow> bool \<Rightarrow> bool \<Rightarrow> string option \<Rightarrow> string option \<Rightarrow> js_error + farm_answer list"
where
  "getFarms found blocked exclusive publicIp country region =
     (let farms = (case found of Inl e \<Rightarrow> [] | Inr fs \<Rightarrow> fs) in
      bindR (if exclusive \<and> \<not> publicIp then bindR blocked (\<lambda>b. Inr (filter (\<lambda>f. fv_farmId f \<notin> set b) farms)) else Inr farms)
        (\<lambda>fs. Inr (map (\<lambda>f. \<lparr>fa_name = fv_name f, fa_farmID = fv_farmId f, fa_country = country, fa_region = region\<rparr>) fs)))"

subsection \<open>The contracts of the user\<close>

datatype ContractType = CT_Node_contract | CT_Rent_contract | CT_Name_contract

record contract_row =
  cr_contract_id :: int
  cr_grace :: bool
  cr_name :: "string option"
  cr_deployment_data :: "string option"

record contract_data =
  cd_name :: "string option"
  cd_projectName :: "string option"
  cd_type :: "string option"

record contract_queries =
  cq_parse :: "string \<Rightarrow> js_error + contract_data"
  cq_solutionType :: "string \<Rightarrow> string option"
  cq_deletionTime :: "int \<Rightarrow> js_error + string"
  cq_consumption :: "int \<Rightarrow> js_error + rat"
  cq_discount :: "int \<Rightarrow> js_error + string"

record NormalizedContract =
  nc_contract_id :: int
  nc_type :: ContractType
  nc_deploymentType :: "string option"
  nc_solutionName :: string
  nc_solutionType :: string
  nc_expiration :: string
  nc_consumption :: rat
  nc_discountPackage :: string

text \<open>The data of a contract: without any, or when they cannot be parsed or name no project, only the name.\<close>

definition contract_data_of :: "contract_queries \<Rightarrow> contract_row \<Rightarrow> contract_data" where
  "contract_data_of q c =
     (let fallback = \<lparr>cd_name = cr_name c, cd_projectName = None, cd_type = None\<rparr> in
      case cr_deployment_data c of
        None \<Rightarrow> fallback
      | Some txt \<Rightarrow> (case cq_parse q txt of
          Inl e \<Rightarrow> fallback
        | Inr d \<Rightarrow> (case cd_projectName d of
            None \<Rightarrow> fallback
          | Some p \<Rightarrow> d\<lparr>cd_projectName := cq_solutionType q (before_char (CHR ''/'') p)\<rparr>)))"

text \<open>\<open>a || b || "-"\<close>.\<close>

definition or_dash :: "string option list \<Rightarrow> string" where
  "or_dash vs = (case concat (map (\<lambda>v. case truthy_str v of None \<Rightarrow> [] | Some s \<Rightarrow> [s]) vs) of [] \<Rightarrow> ''-'' | s # _ \<Rightarrow> s)"

text \<open>The data that are not empty are parsed once more for the answer, where a failure is not caught.\<close>

definition normalizeContract :: "contract_queries \<Rightarrow> ContractType \<Rightarrow> contract_row \<Rightarrow> js_error + NormalizedContract" where
  "normalizeContract q ty c =
     (let i = cr_contract_id c; d = contract_data_of q c in
      bindR (if cr_grace c then cq_deletionTime q i else Inr ''-'') (\<lambda>expiration.
      bindR (cq_discount q i) (\<lambda>discount.
      bindR (case truthy_str (cr_deployment_data c) of None \<Rightarrow> Inr () | Some txt \<Rightarrow> bindR (cq_parse q txt) (\<lambda>_. Inr ())) (\<lambda>_.
        Inr \<lparr>nc_contract_id = i, nc_type = ty, nc_deploymentType = cd_type d, nc_solutionName = or_dash [cd_name d],
             nc_solutionType = or_dash [cd_projectName d, cd_type d], nc_expiration = expiration,
             nc_consumption = (case cq_consumption q i of Inl e \<Rightarrow> 0 | Inr v \<Rightarrow> v), nc_discountPackage = discount\<rparr>))))"

definition fulfilled :: "(js_error + 'a) list \<Rightarrow> 'a list" where
  "fulfilled rs = concat (map (\<lambda>r. case r of Inl e \<Rightarrow> [] | Inr x \<Rightarrow> [x]) rs)"

definition getUserContracts ::
  "contract_queries \<Rightarrow> js_error + contract_row list \<times> contract_row list \<times> contract_row list \<Rightarrow> js_error + NormalizedContract list"
where
  "getUserContracts q mine = bindR mine (\<lambda>(nameContracts, nodeContracts, rentContracts).
     Inr (fulfilled (map (normalizeContract q CT_Name_contract) nameContracts
       @ map (normalizeContract q CT_Node_contract) nodeContracts @ map (normalizeContract q CT_Rent_contract) rentContracts)))"

text \<open>
  A contract is listed as soon as its discount, the time of its deletion (in the grace period) and
  its data can be read; what it consumes need not be known.
\<close>

definition readable_row :: "contract_queries \<Rightarrow> contract_row \<Rightarrow> bool" where
  "readable_row q c \<longleftrightarrow> (\<exists>d. cq_discount q (cr_contract_id c) = Inr d)
     \<and> (cr_grace c \<longrightarrow> (\<exists>t. cq_deletionTime q (cr_contract_id c) = Inr t))
     \<and> (\<forall>txt. truthy_str (cr_deployment_data c) = Some txt \<longrightarrow> (\<exists>d. cq_parse q txt = Inr d))"

lemma normalizeContract_readable:
  "(\<exists>n. normalizeContract q ty c = Inr n \<and> nc_contract_id n = cr_contract_id c) \<longleftrightarrow> readable_row q c"
  by (auto simp: normalizeContract_def readable_row_def Let_def bindR_Inr split: option.splits if_splits)

lemma normalizeContract_id: "normalizeContract q ty c = Inr n \<Longrightarrow> nc_contract_id n = cr_contract_id c"
  by (auto simp: normalizeContract_def Let_def bindR_Inr)

lemma fulfilled_ids:
  "map nc_contract_id (fulfilled (map (normalizeContract q ty) cs)) = map cr_contract_id (filter (readable_row q) cs)"
proof (induction cs)
  case (Cons c cs)
  then show ?case using normalizeContract_readable [of q ty c] normalizeContract_id [of q ty c]
    by (cases "normalizeContract q ty c") (auto simp: fulfilled_def)
qed (simp add: fulfilled_def)

theorem user_contracts_listed:
  assumes "getUserContracts q (Inr (names, nodes, rents)) = Inr cs"
  shows "map nc_contract_id cs = map cr_contract_id (filter (readable_row q) (names @ nodes @ rents))"
proof -
  have "fulfilled (xs @ ys) = fulfilled xs @ fulfilled ys" for xs ys :: "(js_error + NormalizedContract) list"
    by (simp add: fulfilled_def)
  then show ?thesis using assms by (auto simp: getUserContracts_def fulfilled_ids)
qed

subsection \<open>Names and dates\<close>

text \<open>\<open>randomChoice\<close> at the \<open>i\<close>-th call is \<open>rnd i\<close>.\<close>

definition letters :: string where "letters = ''abcdefghijklmnopqrstuvwxyz''"

definition digits :: string where "digits = ''0123456789''"

definition generateString :: "(nat \<Rightarrow> string \<Rightarrow> char) \<Rightarrow> string \<Rightarrow> int \<Rightarrow> string" where
  "generateString rnd from len = map (\<lambda>i. rnd i from) [0..<nat len]"

definition generatePassword :: "(nat \<Rightarrow> string \<Rightarrow> char) \<Rightarrow> int \<Rightarrow> string" where
  "generatePassword rnd len = generateString rnd (''abcdefghijklmnopqrstuvwxyzABCDEFGHIJKLMNOPQRSTUVWXYZ0123456789#$%!'') len"

definition generate_name :: "(nat \<Rightarrow> string \<Rightarrow> char) \<Rightarrow> string \<Rightarrow> int \<Rightarrow> string" where
  "generate_name rnd pre len =
     pre @ rnd 0 letters # generateString (\<lambda>i. rnd (Suc i)) (letters @ digits) (len - int (length pre) - 1)"

lemma generate_name_length: "length (generate_name rnd pre len) = max (Suc (length pre)) (nat len)"
  by (simp add: generate_name_def generateString_def)

definition isReleasedOverMon :: "int \<Rightarrow> int \<Rightarrow> bool" where
  "isReleasedOverMon releaseMs currentMs \<longleftrightarrow> \<bar>of_int (currentMs - releaseMs) / (24 * 60 * 60 * 1000)\<bar> \<le> (30 :: rat)"

subsection \<open>Examples\<close>

definition demo_pages :: "nat \<Rightarrow> js_error + int list" where
  "demo_pages i = Inr (if i = 1 then [11, 12] else if i = 2 then [13] else [])"

theorem nodes_of_all_pages_witness:
  "\<exists>s. getAllNodes 4 demo_pages first_pages = Some (Inr [11, 12, 13], s)
     \<and> getAllNodes 1 (\<lambda>i. Inr [99]) s = Some (Inr [11, 12, 13], s)"
proof -
  have "\<forall>i. 1 \<le> i \<and> i < 3 \<longrightarrow> (\<exists>ns. demo_pages i = Inr ns \<and> ns \<noteq> [])" by (auto simp: demo_pages_def)
  moreover have "concat (map (\<lambda>i. case demo_pages i of Inr ns \<Rightarrow> ns | Inl e \<Rightarrow> []) [1..<3]) = [11, 12, 13]"
    by (simp add: demo_pages_def upt_rec)
  moreover have "demo_pages 3 = Inr []" by (simp add: demo_pages_def)
  ultimately obtain s where "getAllNodes (3 + 1) demo_pages first_pages = Some (Inr [11, 12, 13], s)"
    and "\<forall>page' fuel. 0 < fuel \<longrightarrow> getAllNodes fuel page' s = Some (Inr [11, 12, 13], s)"
    using nodes_of_all_pages [of 3 demo_pages] by auto
  then show ?thesis by (intro exI [of _ s]) (simp del: getAllNodes.simps)
qed

definition demo_queries :: contract_queries where
  "demo_queries = \<lparr>cq_parse = (\<lambda>s. if s = ''{'' then Inl TypeError else Inr \<lparr>cd_name = Some ''web'', cd_projectName = Some ''vm/web'', cd_type = Some ''vm''\<rparr>),
     cq_solutionType = (\<lambda>p. Some ''Micro Virtual Machine''), cq_deletionTime = (\<lambda>i. Inr ''soon''),
     cq_consumption = (\<lambda>i. Inl TypeError), cq_discount = (\<lambda>i. if i = 9 then Inl TypeError else Inr ''None'')\<rparr>"

definition demo_row :: "int \<Rightarrow> string \<Rightarrow> contract_row" where
  "demo_row i txt = \<lparr>cr_contract_id = i, cr_grace = False, cr_name = None, cr_deployment_data = Some txt\<rparr>"

theorem user_contracts_listed_witness:
  "\<exists>cs. getUserContracts demo_queries (Inr ([], [demo_row 7 ''{}'', demo_row 8 ''{'', demo_row 9 ''{}''], [])) = Inr cs
     \<and> map nc_contract_id cs = [7]"
proof -
  obtain cs where r: "getUserContracts demo_queries (Inr ([], [demo_row 7 ''{}'', demo_row 8 ''{'', demo_row 9 ''{}''], [])) = Inr cs"
    by (simp add: getUserContracts_def)
  have "filter (readable_row demo_queries) ([] @ [demo_row 7 ''{}'', demo_row 8 ''{'', demo_row 9 ''{}''] @ []) = [demo_row 7 ''{}'']"
    by (simp add: readable_row_def demo_row_def demo_queries_def truthy_str_def)
  with user_contracts_listed [OF r] r show ?thesis by (simp add: demo_row_def)
qed

end
