(* ===== verification/Spec2Isabelle.thy ===== *)
theory Spec2Isabelle
  imports Errors Examples HandlerExamples ModuleExamples Calculator RmbConnection RmbProps GridContractProps MonitoringProps GridProxyProps
    WalletExamples ConnectingProps NodeSelectorProps UseAsync Dashboard GridClientProps Kyc ContractsModuleProps NodeRequestProps
    LoadDeploymentsProps AccountsProps FormValidationProps FarmIps SshKeysProps DeleteDeploymentsProps MigrationProps DashboardQueries
begin

text \<open>
  A model of the core of the ThreeFold SDK (the TypeScript packages \<open>grid_client\<close>,
  \<open>tfchain_client\<close>, \<open>gridproxy_client\<close>, \<open>rmb_direct_client\<close>, \<open>monitoring\<close> and \<open>types\<close> under
  \<open>src/packages\<close>), of the logic of the dashboard \<open>playground\<close> that stands on it, and the properties that make it correct.

  What the program does.  A client describes what should run on the grid as deployments of workloads
  (\<open>grid_client/src/zos\<close>).  The builders of \<open>primitives\<close> make the workloads, a network object hands
  out addresses and subnets, the high level turns a request into twin deployments (deploy, update or
  delete on one node) for the public modules (\<open>modules\<close>), and the handler \<open>TwinDeploymentHandler\<close> merges them, checks them, creates the
  contracts on the chain through \<open>tfchain_client\<close>, sends the signed documents to the nodes, waits
  for them and rolls back when something fails.  Around that core stand the messages between twins
  (\<open>rmb_direct_client\<close>), the requests to the grid proxy, the storage of networks and wallets, the costs
  and debts of contracts, and the choice of the services a client talks to.

  How the model is laid out.
  \<^item> \<open>Prelude\<close>: strings, numbers and objects of JavaScript, results that may be thrown values, and
    the state-and-exception monad \<open>eff\<close> of the asynchronous methods with its invariant rules
    (\<open>preservesE\<close>) and triples (\<open>validE\<close>).
  \<^item> \<open>Errors\<close>: \<open>types/src/errors\<close> and \<open>tfchain_client/src/errors.ts\<close>.
  \<^item> \<open>Loops\<close>: the searches \<open>while (taken(x)) x = next(x)\<close> and when they end.
  \<^item> \<open>Zos\<close>, \<open>ZosFacts\<close>, \<open>ZosValid\<close>: the documents, their challenges, hexadecimal codec, signing and
    validation (\<open>grid_client/src/zos\<close>, \<open>helpers/validator.ts\<close>).
  \<^item> \<open>Query\<close>, \<open>Nodes\<close>, \<open>NodesFacts\<close>: \<open>helpers/utils.ts\<close> and \<open>primitives/nodes.ts\<close>.
  \<^item> \<open>Primitives\<close>, \<open>Factory\<close>, \<open>FactoryFacts\<close>: the workload builders and \<open>primitives/deployment.ts\<close>.
  \<^item> \<open>Network\<close>, \<open>NetworkOps\<close>, \<open>NetworkPeers\<close>, \<open>LightNetwork\<close>: \<open>primitives/network.ts\<close> and
    \<open>primitives/networklight.ts\<close>.  \<open>NetworkFacts\<close> states the interface both kinds of network offer
    to a machine as locales (\<open>machine_network\<close>, \<open>per_node_network\<close>, \<open>subnet_pool\<close>) and interprets
    them on the two classes; \<open>NetworkProps\<close> and \<open>PeerFacts\<close> hold their properties.
  \<^item> \<open>Chain\<close>: \<open>tfchain_client/src/client.ts\<close>, \<open>utility.ts\<close>, \<open>contracts.ts\<close>; \<open>Connecting\<close> and
    \<open>ConnectingProps\<close>: the connections the clients share, and waiting for an event, compared with what the
    first block that has the event says; \<open>Pallets\<close>, \<open>ChainQueries\<close>: the other pallets.
  \<^item> \<open>Storage\<close>, \<open>StorageProps\<close>: the key-value store of the chain with its encryption and fragments,
    \<open>storage/backend.ts\<close> and its back ends; the locale \<open>storage_backend\<close> is what a back end promises and is
    interpreted on the store of the chain and on local storage.
  \<^item> \<open>Wallets\<close>, \<open>WalletProps\<close>, \<open>WalletExamples\<close>: \<open>modules/tfchain.ts\<close>, \<open>stellar.ts\<close>, \<open>algorand.ts\<close> and
    \<open>blockchain.ts\<close>; the locale \<open>wallet_module\<close> is interpreted on the three modules, whose files refine maps
    from names to secrets (\<open>book\<close>).
  \<^item> \<open>Rmb\<close>, \<open>RmbProps\<close>, \<open>RmbConnection\<close>: \<open>rmb_direct_client/lib\<close>: envelopes, signatures,
    encryption, sending and reading; the connection: shared clients, token, opening, waiting, pings, leaving.
  \<^item> \<open>GridProxy\<close>, \<open>GridProxyProps\<close>: \<open>gridproxy_client/src\<close>: what reaches the proxy, all pages of a listing,
    and the farms the client of the nodes keeps.
  \<^item> \<open>GridContracts\<close>, \<open>GridContractProps\<close>: \<open>clients/tf-grid/contracts.ts\<close>: listing, bills, costs, debts
    and unlocking.
  \<^item> \<open>Monitoring\<close>, \<open>MonitoringProps\<close>: the monitors of \<open>monitoring/src\<close> and \<open>grid_client/src/manageURLs.ts\<close>.
  \<^item> \<open>TwinHandler\<close>, \<open>HandlerProps\<close>, \<open>HandlerExamples\<close>: \<open>high_level/twinDeploymentHandler.ts\<close> and
    \<open>models.ts\<close>.
  \<^item> \<open>HighLevel\<close>, \<open>HighLevelProps\<close>: \<open>high_level/base.ts\<close>, \<open>network.ts\<close>, \<open>zdb.ts\<close>, \<open>gateway.ts\<close>.
  \<^item> \<open>Machine\<close>, \<open>MachineProps\<close>: \<open>high_level/machine.ts\<close> and \<open>kubernetes.ts\<close>: everything one machine
    needs, from the checks of its node to its deployment and those of its network.
  \<^item> \<open>BaseModule\<close>, \<open>PublicModules\<close>, \<open>PublicProps\<close>: \<open>modules/base.ts\<close> and the modules \<open>machines\<close>,
    \<open>k8s\<close>, \<open>zdb\<close>, \<open>qsfs_zdbs\<close>, \<open>gateway\<close> and \<open>networks\<close>: what a user of the SDK calls.
  \<^item> \<open>Options\<close>, \<open>OptionsProps\<close>: the decorators of the options in \<open>modules/models.ts\<close>, and that options
    which pass them give documents that are well formed exactly when their sizes are whole numbers of bytes
    within the upper bounds.
  \<^item> \<open>GridModules\<close>: the modules \<open>capacity\<close>, \<open>nodes\<close>, \<open>farms\<close>, \<open>twins\<close>, \<open>balance\<close>, \<open>kvstore\<close>, \<open>bridge\<close>, \<open>dao\<close> and
    \<open>utility\<close>; \<open>ContractsModule\<close>, \<open>ContractsModuleProps\<close>: \<open>modules/contracts.ts\<close> with what is locked and
    owed in total; \<open>NodeRequests\<close>, \<open>NodeRequestProps\<close>: \<open>clients/rmb\<close>, \<open>modules/zos.ts\<close> and the farmer bots.
  \<^item> \<open>GridClient\<close>, \<open>GridClientProps\<close>: \<open>client.ts\<close>: options, connecting, calls by name, and the migration of
    the stored keys to a new secret; \<open>Kyc\<close>: \<open>clients/kyc/client.ts\<close>.
  \<^item> \<open>NodeSelector\<close>, \<open>NodeSelectorProps\<close>: how the dashboard (\<open>playground/src/utils/nodeSelector.ts\<close>) finds and
    chooses the nodes of a solution; \<open>UseAsync\<close>: its asynchronous tasks (\<open>hooks/useAsync.ts\<close>) as events that
    interleave; \<open>Dashboard\<close>: the uptime of nodes, the cache of nodes, sizes.
  \<^item> More of the dashboard, under \<open>playground/src\<close>: \<open>LoadDeployments\<close> (\<open>utils/load_deployment.ts\<close>,
    \<open>vm_deployment_table.vue\<close>: the lists of deployments or domains, their merging, and the rows, the count and the
    warning of the page), \<open>DeleteDeployments\<close> (\<open>utils/delete_deployment.ts\<close>, \<open>gateway.ts\<close>), \<open>Migration\<close>
    (\<open>utils/migration.ts\<close>, which sends its calls in batches of 400 that succeed or fail each on its own), \<open>DashboardQueries\<close> (pages of nodes, farms, the user's contracts), \<open>FormValidation\<close> (the
    input and form validators as events between two awaits), \<open>FarmIps\<close> (\<open>dashboard/components/add_ip.vue\<close>), \<open>Accounts\<close>
    (\<open>utils/credentials.ts\<close>, \<open>weblets/profile_manager.vue\<close>) and
    \<open>SshKeys\<close> (\<open>utils/ssh.ts\<close> and its page); the properties of most are in a \<open>Props\<close> theory of their own.
  \<^item> \<open>Calculator\<close>: \<open>modules/calculator.ts\<close> and \<open>modules/currency.ts\<close>.
  \<^item> \<open>Examples\<close>, \<open>ModuleExamples\<close> and the ends of the other theories: the properties at concrete inputs.

  What is a parameter.  The chain, the grid proxy, the graph database, the nodes and the clock are
  fields of \<open>grid_api\<close>, \<open>net_env\<close>, \<open>chain_env\<close> and \<open>handler_env\<close>: functions from a request, and
  from the state of the world where the answer may change it, to a result.  So are the packages
  \<open>netaddr\<close>, \<open>private-ip\<close>, \<open>tweetnacl\<close>, \<open>bip39\<close>, \<open>md5\<close>, the key ring, the grammars of
  \<open>class-validator\<close> and the random choices (streams read in order).  What a proof needs of them is a
  named hypothesis: \<open>addr_laws\<close> (addresses have a rank that the next address increases, and print
  injectively), \<open>clock_laws\<close> (sleeping lets two seconds pass), \<open>crypto_laws\<close>, \<open>aes_laws\<close>, \<open>curve_laws\<close> and
  \<open>sign_laws\<close> (what is encrypted or signed decrypts or verifies), \<open>cryptr_laws\<close>
  (only the right password decrypts), \<open>seed_laws\<close> (which texts the package takes for an address or a mnemonic), \<open>ranges_inclusive\<close> (a range holds both its ends), \<open>kv_laws\<close> (what the extrinsics of the key-value store do to its map), \<open>storage_laws\<close> (a file that was stored reads as written) and
  \<open>second_passes\<close>, \<open>clock_runs\<close> (a second of sleep lets one pass).  The examples show them of concrete functions.

  Conventions.  Numbers used as integers are \<open>int\<close>; sizes are \<open>rat\<close>, those in bytes too: a
  size in gigabytes is multiplied as it is, and a fraction of a byte is refused by the validation.  A thrown
  value is \<open>Inl\<close>, a property of \<open>undefined\<close> a \<open>TypeError\<close>.  Awaited calls run in sequence, also those
  under \<open>Promise.all\<close>.  Objects that the code shares and mutates are threaded as state; where the
  code copies the change to the sharer afterwards the model has the copy only.

  Fuel.  The loops that wait for the outside take fuel, and being out of it is an error of its own
  (\<open>diverges\<close>) or \<open>None\<close>.  \<open>wait_loop_ends\<close> shows that one round per two seconds up to the deadline suffices
  for a deployment, \<open>reading_ends\<close> one per second of the expiration for a reply, \<open>activation_wait_ends\<close>
  eleven for the first tokens, \<open>waiting_for_connection_ends\<close> a hundred and one for a connection,
  \<open>node_search_complete\<close> as many as pages and two more for the nodes of a solution, and
  \<open>pending_answers_dropped\<close> 121 for the answers a leaving client waits for, and
  \<open>access_nodes_found\<close> as many as pages up to the first empty one for the access nodes, \<open>nodes_of_all_pages\<close> one more than pages for the
  nodes of the dashboard; the debts of a
  contract (\<open>calculateContractOverDue\<close>) go one level deep, so two rounds are enough.  The searches for
  addresses, subnets and ports are partial functions; \<open>free_searches_end\<close> shows that the first two return,
  and so are the loops over the fragments of a stored value, which end at the first one that is missing.

  Not modelled.  The other components of the user interfaces (\<open>playground\<close>, \<open>stats\<close>, \<open>UI\<close>), the servers, the HTTP
  requests themselves, the graph client, the stores on a file system and at PKID, what a
  socket does, and generated code (the chain's types, protobuf) have no logic of their own to verify.  Of the public modules the views (\<open>list\<close>, \<open>get\<close>, \<open>getObj\<close>) are
  left out, which copy fields and read the result data of workloads, and with them \<open>getZdbs\<close>: the backends
  of a quantum safe disk are a field of \<open>machine_env\<close>.  The decorators of the options of the wallets are
  not modelled.
\<close>

end
